(* ===== verification/Prelude.thy ===== *)
theory Prelude
  imports Main "HOL-Library.AList"
begin

text \<open>
  What every theory of the development shares: the errors the TypeScript code can throw and
  results that carry them, numbers that may be NaN, JavaScript maps in insertion order,
  character classes of the regular expressions in the schemas, and the comparison SQLite uses
  for TEXT values. The lemmas here are about these helpers only; no component is modelled in
  this file.
\<close>

section \<open>Thrown errors and results\<close>

text \<open>
  A function of the source that can throw returns \<open>Inl\<close> of the error. \<open>ZodError\<close> is a failed
  schema parse, \<open>JsError\<close> an explicit \<open>throw new Error(message)\<close>, and \<open>DatabaseError\<close>
  a rejected database call (a constraint, a trigger, an existing document).
\<close>

datatype js_error = ZodError | JsError string | DatabaseError string

type_synonym 'a result = "js_error + 'a"

fun res_bind :: "'a result \<Rightarrow> ('a \<Rightarrow> 'b result) \<Rightarrow> 'b result" where
  "res_bind (Inl e) f = Inl e"
| "res_bind (Inr x) f = f x"

text \<open>\<open>schema.parse(value)\<close>: the value itself when the schema accepts it, a throw otherwise.\<close>

definition zod_parse :: "('a \<Rightarrow> bool) \<Rightarrow> 'a \<Rightarrow> 'a result" where
  "zod_parse ok x = (if ok x then Inr x else Inl ZodError)"

named_theorems result_simps \<open>rewriting results that carry a thrown error\<close>

lemma res_bind_Inr_iff [result_simps]:
  "res_bind m f = Inr y \<longleftrightarrow> (\<exists>x. m = Inr x \<and> f x = Inr y)"
  by (cases m) auto

lemma zod_parse_Inr_iff [result_simps]: "zod_parse ok x = Inr y \<longleftrightarrow> ok x \<and> y = x"
  by (auto simp: zod_parse_def)

lemma case_option_Inr_iff [result_simps]:
  "(case v of None \<Rightarrow> Inl e | Some x \<Rightarrow> f x) = Inr y \<longleftrightarrow> (\<exists>x. v = Some x \<and> f x = Inr y)"
  by (cases v) auto

lemma if_Inl_Inr_iff [result_simps]:
  "(if b then Inl e else m) = Inr y \<longleftrightarrow> \<not> b \<and> m = Inr y"
  by simp

lemma zod_parse_ok [simp]: "ok x \<Longrightarrow> zod_parse ok x = Inr x"
  by (simp add: zod_parse_def)

lemma zod_parse_bad [simp]: "\<not> ok x \<Longrightarrow> zod_parse ok x = Inl ZodError"
  by (simp add: zod_parse_def)

section \<open>Numbers that may be NaN\<close>

text \<open>
  \<open>Date.parse\<close> returns NaN on a string it cannot read. A number is \<open>Some n\<close>, NaN is \<open>None\<close>;
  every comparison with NaN is false, as in JavaScript.
\<close>

type_synonym jsnum = "int option"

fun num_less :: "jsnum \<Rightarrow> jsnum \<Rightarrow> bool" where
  "num_less (Some a) (Some b) \<longleftrightarrow> a < b"
| "num_less _ _ \<longleftrightarrow> False"

fun num_leq :: "jsnum \<Rightarrow> jsnum \<Rightarrow> bool" where
  "num_leq (Some a) (Some b) \<longleftrightarrow> a \<le> b"
| "num_leq _ _ \<longleftrightarrow> False"

definition is_finite_num :: "jsnum \<Rightarrow> bool" where
  "is_finite_num x \<longleftrightarrow> x \<noteq> None"

definition num_add :: "jsnum \<Rightarrow> int \<Rightarrow> jsnum" where
  "num_add x d = map_option (\<lambda>a. a + d) x"

lemma num_less_Some_iff: "num_less x y \<longleftrightarrow> (\<exists>a b. x = Some a \<and> y = Some b \<and> a < b)"
  by (cases x; cases y) auto

lemma num_leq_Some_iff: "num_leq x y \<longleftrightarrow> (\<exists>a b. x = Some a \<and> y = Some b \<and> a \<le> b)"
  by (cases x; cases y) auto

lemma num_leq_trans: "num_leq x y \<Longrightarrow> num_leq y z \<Longrightarrow> num_leq x z"
  by (auto simp: num_leq_Some_iff)

section \<open>Maps in insertion order\<close>

text \<open>
  A JavaScript \<open>Map\<close> iterates in insertion order, and \<open>set\<close> on an existing key keeps the
  key's place: this is \<open>AList.update\<close> on an association list, \<open>get\<close> is \<open>map_of\<close>.
\<close>

lemma update_new_key: "map_of xs k = None \<Longrightarrow> AList.update k v xs = xs @ [(k, v)]"
  by (induction xs) (auto split: if_splits)

lemma map_of_update [simp]: "map_of (AList.update k v xs) = (map_of xs)(k \<mapsto> v)"
  by (simp add: update_conv')

lemma distinct_keys_update:
  "distinct (map fst xs) \<Longrightarrow> distinct (map fst (AList.update k v xs))"
  by (simp add: distinct_update)

lemma map_of_values:
  "distinct (map fst xs) \<Longrightarrow> v \<in> snd ` set xs \<longleftrightarrow> (\<exists>k. map_of xs k = Some v)"
  by (metis (no_types, lifting) image_iff map_of_SomeD map_of_eq_Some_iff prod.collapse snd_conv)

section \<open>Character classes\<close>

definition digit_chars :: string where
  "digit_chars = ''0123456789''"

definition lower_chars :: string where
  "lower_chars = ''abcdefghijklmnopqrstuvwxyz''"

definition upper_chars :: string where
  "upper_chars = ''ABCDEFGHIJKLMNOPQRSTUVWXYZ''"

definition hex_chars :: string where
  "hex_chars = ''0123456789abcdef''"

definition all_in :: "string \<Rightarrow> string \<Rightarrow> bool" where
  "all_in cls s \<longleftrightarrow> list_all (\<lambda>c. c \<in> set cls) s"

lemma all_in_Nil [simp]: "all_in cls []"
  by (simp add: all_in_def)

lemma all_in_Cons [simp]: "all_in cls (c # s) \<longleftrightarrow> c \<in> set cls \<and> all_in cls s"
  by (simp add: all_in_def)

lemma all_in_append [simp]: "all_in cls (s @ t) \<longleftrightarrow> all_in cls s \<and> all_in cls t"
  by (simp add: all_in_def)

fun starts_with :: "string \<Rightarrow> string \<Rightarrow> bool" where
  "starts_with [] s \<longleftrightarrow> True"
| "starts_with (p # ps) [] \<longleftrightarrow> False"
| "starts_with (p # ps) (c # s) \<longleftrightarrow> p = c \<and> starts_with ps s"

definition ends_with :: "string \<Rightarrow> string \<Rightarrow> bool" where
  "ends_with p s \<longleftrightarrow> starts_with (rev p) (rev s)"

lemma starts_with_iff: "starts_with p s \<longleftrightarrow> (\<exists>t. s = p @ t)"
  by (induction p s rule: starts_with.induct) auto

lemma ends_with_iff: "ends_with p s \<longleftrightarrow> (\<exists>t. s = t @ p)"
  unfolding ends_with_def starts_with_iff
  by (metis rev_append rev_rev_ident)

text \<open>\<open>s.split(sep)\<close> for a one-character separator: always at least one part.\<close>

fun split_on :: "char \<Rightarrow> string \<Rightarrow> string list" where
  "split_on sep [] = [[]]"
| "split_on sep (c # s) =
     (if c = sep then [] # split_on sep s
      else (case split_on sep s of [] \<Rightarrow> [[c]] | p # ps \<Rightarrow> (c # p) # ps))"

lemma split_on_not_Nil [simp]: "split_on sep s \<noteq> []"
  by (induction s) (auto split: list.splits)

lemma split_on_no_sep: "sep \<notin> set s \<Longrightarrow> split_on sep s = [s]"
  by (induction s) auto

lemma split_on_append_sep:
  "sep \<notin> set p \<Longrightarrow> split_on sep (p @ sep # s) = p # split_on sep s"
  by (induction p) auto

section \<open>The order of TEXT values\<close>

text \<open>SQLite compares TEXT values byte by byte (the BINARY collation).\<close>

fun text_less :: "string \<Rightarrow> string \<Rightarrow> bool" where
  "text_less _ [] \<longleftrightarrow> False"
| "text_less [] (d # t) \<longleftrightarrow> True"
| "text_less (c # s) (d # t) \<longleftrightarrow>
     (of_char c :: nat) < of_char d \<or> (c = d \<and> text_less s t)"

definition text_leq :: "string \<Rightarrow> string \<Rightarrow> bool" where
  "text_leq s t \<longleftrightarrow> text_less s t \<or> s = t"

lemma text_less_irrefl [simp]: "\<not> text_less s s"
  by (induction s) auto

lemma of_char_eq_nat_iff [simp]: "(of_char c :: nat) = of_char d \<longleftrightarrow> c = d"
  by (metis char_of_char)

lemma text_less_total: "text_less s t \<or> s = t \<or> text_less t s"
proof (induction s t rule: text_less.induct)
  case (3 c s d t)
  then show ?case using of_char_eq_nat_iff [of c d] by auto
next
  case (1 s)
  then show ?case by (cases s) auto
qed auto

lemma text_less_trans: "text_less r s \<Longrightarrow> text_less s t \<Longrightarrow> text_less r t"
proof (induction r s arbitrary: t rule: text_less.induct)
  case (2 d s)
  then show ?case by (cases t) auto
next
  case (3 c r d s)
  then show ?case by (cases t) auto
qed simp

lemma text_less_append:
  "length u = length v \<Longrightarrow>
   text_less (u @ x) (v @ y) \<longleftrightarrow> text_less u v \<or> (u = v \<and> text_less x y)"
  by (induction u v rule: list_induct2) auto

end
