(* ===== verification/Ulid.thy ===== *)
theory Ulid
  imports Prelude "HOL-Library.Word"
begin

text \<open>
  packages/domain/src/ulid.ts: identifiers of 26 characters in Crockford's base 32, ten for the
  time and sixteen for 80 random bits. The random source is a parameter, as in the code.
  Lemmas: the encoder never reaches its error branches on values that fit, its output has the
  right length and alphabet, it can be decoded, and identifiers compare as TEXT in the order of
  their times.
\<close>

unbundle bit_operations_syntax

definition CROCKFORD_BASE32 :: string where
  "CROCKFORD_BASE32 = ''0123456789ABCDEFGHJKMNPQRSTVWXYZ''"

definition ULID_RANDOM_BYTES :: nat where "ULID_RANDOM_BYTES = 10"

definition ULID_TIME_LENGTH :: nat where "ULID_TIME_LENGTH = 10"

definition ULID_RANDOM_LENGTH :: nat where "ULID_RANDOM_LENGTH = 16"

definition MAX_ULID_TIMESTAMP :: int where "MAX_ULID_TIMESTAMP = 2 ^ 48 - 1"

text \<open>\<open>CROCKFORD_BASE32[index]\<close>: undefined past the end.\<close>

definition alphabet_at :: "int \<Rightarrow> char option" where
  "alphabet_at i =
     (if 0 \<le> i \<and> i < int (length CROCKFORD_BASE32) then Some (CROCKFORD_BASE32 ! nat i) else None)"

text \<open>The loop of \<open>encodeBase32\<close>: rounds left, \<open>remaining\<close> and \<open>encoded\<close>.\<close>

fun encode_loop :: "nat \<Rightarrow> int \<Rightarrow> string \<Rightarrow> (int \<times> string) result" where
  "encode_loop 0 remaining encoded = Inr (remaining, encoded)"
| "encode_loop (Suc k) remaining encoded =
     (case alphabet_at (remaining AND 31) of
        None \<Rightarrow> Inl (JsError ''ULID alphabet lookup failed'')
      | Some character \<Rightarrow> encode_loop k (drop_bit 5 remaining) (character # encoded))"

definition encodeBase32 :: "int \<Rightarrow> nat \<Rightarrow> string result" where
  "encodeBase32 value len =
     res_bind (encode_loop len value []) (\<lambda>(remaining, encoded).
       if remaining \<noteq> 0 then Inl (JsError ''ULID value exceeds its encoded length'')
       else Inr encoded)"

definition random_value :: "8 word list \<Rightarrow> int" where
  "random_value bytes = foldl (\<lambda>v b. push_bit 8 v OR uint b) 0 bytes"

definition createUlid :: "jsnum \<Rightarrow> (nat \<Rightarrow> 8 word list) \<Rightarrow> string result" where
  "createUlid timestamp randomBytes =
     (case timestamp of
        None \<Rightarrow> Inl (JsError ''ULID timestamp is outside the supported range'')
      | Some t \<Rightarrow>
        if \<bar>t\<bar> > 2 ^ 53 - 1 \<or> t < 0 \<or> t > MAX_ULID_TIMESTAMP then
          Inl (JsError ''ULID timestamp is outside the supported range'')
        else
          let random = randomBytes ULID_RANDOM_BYTES in
          if length random \<noteq> ULID_RANDOM_BYTES then
            Inl (JsError ''ULID random source returned an invalid byte count'')
          else
            res_bind (encodeBase32 t ULID_TIME_LENGTH) (\<lambda>time.
            res_bind (encodeBase32 (random_value random) ULID_RANDOM_LENGTH) (\<lambda>rand.
              Inr (time @ rand))))"

section \<open>The digits of a value\<close>

definition base32_char :: "int \<Rightarrow> char" where
  "base32_char i = CROCKFORD_BASE32 ! nat i"

fun base32 :: "nat \<Rightarrow> int \<Rightarrow> string" where
  "base32 0 v = []"
| "base32 (Suc k) v = base32 k (v div 32) @ [base32_char (v mod 32)]"

lemma length_base32 [simp]: "length (base32 k v) = k"
  by (induction k arbitrary: v) simp_all

lemma length_alphabet: "length CROCKFORD_BASE32 = 32"
  by (simp add: CROCKFORD_BASE32_def)

lemma and_31: "x AND 31 = x mod 32" for x :: int
  using take_bit_eq_mask [of 5 x] by (simp add: take_bit_eq_mod mask_eq_exp_minus_1)

lemma encode_loop_eq:
  "encode_loop k v enc = Inr (v div 32 ^ k, base32 k v @ enc)"
proof (induction k arbitrary: v enc)
  case (Suc k)
  have "drop_bit 5 v = v div 32" by (simp add: drop_bit_eq_div)
  moreover have "v div 32 div 32 ^ k = v div 32 ^ Suc k" by (simp flip: zdiv_zmult2_eq)
  ultimately show ?case
    using Suc by (simp add: and_31 alphabet_at_def length_alphabet base32_char_def)
qed simp

lemma encodeBase32_eq:
  "encodeBase32 v k =
   (if v div 32 ^ k \<noteq> 0 then Inl (JsError ''ULID value exceeds its encoded length'')
    else Inr (base32 k v))"
  by (simp add: encodeBase32_def encode_loop_eq)

lemma base32_chars: "c \<in> set (base32 k v) \<Longrightarrow> c \<in> set CROCKFORD_BASE32"
  by (induction k arbitrary: v) (auto simp: base32_char_def length_alphabet)

lemma base32_char_less:
  assumes "0 \<le> a" "a < 32" "0 \<le> b" "b < 32"
  shows "(of_char (base32_char a) :: nat) < of_char (base32_char b) \<longleftrightarrow> a < b"
proof -
  have mono: "\<forall>i < 31. (of_char (CROCKFORD_BASE32 ! i) :: nat) < of_char (CROCKFORD_BASE32 ! Suc i)"
    by (simp add: CROCKFORD_BASE32_def All_less_Suc eval_nat_numeral)
  have up: "i + n < 32 \<Longrightarrow> 0 < n \<Longrightarrow>
      (of_char (CROCKFORD_BASE32 ! i) :: nat) < of_char (CROCKFORD_BASE32 ! (i + n))" for i n
  proof (induction n)
    case (Suc n)
    then show ?case using mono by (cases n) (fastforce dest: spec [of _ "i + n"])+
  qed simp
  have less: "x < y \<Longrightarrow> y < 32 \<Longrightarrow>
      (of_char (CROCKFORD_BASE32 ! x) :: nat) < of_char (CROCKFORD_BASE32 ! y)" for x y
    using up [of x "y - x"] by simp
  have na: "nat a < 32" "nat b < 32" using assms by simp_all
  consider "a < b" | "a = b" | "b < a" by linarith
  then show ?thesis
  proof cases
    case 1
    then show ?thesis using less [OF _ na(2), of "nat a"] assms by (simp add: base32_char_def)
  next
    case 2
    then show ?thesis by simp
  next
    case 3
    then have "nat b < nat a" using assms by simp
    from less [OF this na(1)] 3 show ?thesis by (simp add: base32_char_def)
  qed
qed

lemma base32_char_inject:
  "0 \<le> a \<Longrightarrow> a < 32 \<Longrightarrow> 0 \<le> b \<Longrightarrow> b < 32 \<Longrightarrow> base32_char a = base32_char b \<longleftrightarrow> a = b"
  using base32_char_less [of a b] base32_char_less [of b a] by force

lemma div_mod_less: "0 < k \<Longrightarrow> a < b \<longleftrightarrow> a div k < b div k \<or> (a div k = b div k \<and> a mod k < b mod k)"
  for a b k :: int
proof -
  assume k: "0 < k"
  have "a div k < b div k \<Longrightarrow> a < b" and "b div k < a div k \<Longrightarrow> b < a"
    using k by (meson linorder_not_le zdiv_mono1)+
  moreover have "a div k = b div k \<Longrightarrow> (a < b) = (a mod k < b mod k)"
    by (metis add_less_cancel_left mult_div_mod_eq)
  ultimately show ?thesis by fastforce
qed

lemma div_32_less: "v < 32 * m \<Longrightarrow> v div 32 < m" for v m :: int
  by presburger

lemma base32_less_iff:
  "0 \<le> a \<Longrightarrow> a < 32 ^ k \<Longrightarrow> 0 \<le> b \<Longrightarrow> b < 32 ^ k \<Longrightarrow>
   text_less (base32 k a) (base32 k b) \<longleftrightarrow> a < b"
proof (induction k arbitrary: a b)
  case (Suc k)
  have bounds: "0 \<le> v div 32 \<and> v div 32 < 32 ^ k" if "0 \<le> v" "v < 32 ^ Suc k" for v :: int
    using that by (simp add: pos_imp_zdiv_nonneg_iff div_32_less)
  have IH: "text_less (base32 k (a div 32)) (base32 k (b div 32)) \<longleftrightarrow> a div 32 < b div 32"
    "text_less (base32 k (b div 32)) (base32 k (a div 32)) \<longleftrightarrow> b div 32 < a div 32"
    using Suc.IH bounds Suc.prems by blast+
  have eq: "base32 k (a div 32) = base32 k (b div 32) \<longleftrightarrow> a div 32 = b div 32"
    using IH text_less_total [of "base32 k (a div 32)" "base32 k (b div 32)"]
    by (metis linorder_neq_iff text_less_irrefl)
  show ?case
    using IH(1) eq div_mod_less [of 32 a b] base32_char_less [of "a mod 32" "b mod 32"]
      base32_char_inject [of "a mod 32" "b mod 32"]
    by (auto simp: text_less_append)
qed simp

section \<open>Created identifiers\<close>

lemma random_value_append:
  "random_value (bs @ [b]) = 256 * random_value bs + uint b"
proof -
  have 1: "take_bit 8 (uint b) = uint b" by (rule bintr_uint) simp
  have "push_bit 8 v OR uint b = push_bit 8 v + uint b" for v :: int
    by (rule disjunctive_add [symmetric])
      (metis 1 bit_push_bit_iff bit_take_bit_iff not_le)
  then show ?thesis by (simp add: random_value_def push_bit_eq_mult)
qed

lemma random_value_bounds: "0 \<le> random_value bs \<and> random_value bs < 256 ^ length bs"
proof (induction bs rule: rev_induct)
  case (snoc b bs)
  have b: "uint b < 256" using uint_lt2p [of b] by simp
  have "256 * random_value bs + uint b < 256 * (random_value bs + 1)" using b by simp
  also have "\<dots> \<le> 256 * 256 ^ length bs" using snoc by simp
  finally show ?case using snoc by (simp add: random_value_append)
qed (simp add: random_value_def)

definition ulid_ok :: "string \<Rightarrow> bool" where
  "ulid_ok s \<longleftrightarrow> length s = 26 \<and> all_in CROCKFORD_BASE32 s"

definition ulid_time_ok :: "int \<Rightarrow> bool" where
  "ulid_time_ok t \<longleftrightarrow> 0 \<le> t \<and> t \<le> MAX_ULID_TIMESTAMP"

lemma createUlid_eq:
  assumes "ulid_time_ok t" "length (rb 10) = 10"
  shows "createUlid (Some t) rb = Inr (base32 10 t @ base32 16 (random_value (rb 10)))"
proof -
  have t: "0 \<le> t" "t < 2 ^ 48" "\<not> \<bar>t\<bar> > 2 ^ 53 - 1" "\<not> t > MAX_ULID_TIMESTAMP"
    using assms(1) by (simp_all add: ulid_time_ok_def MAX_ULID_TIMESTAMP_def)
  have "t div 32 ^ 10 = 0" by (rule div_pos_pos_trivial) (use t in simp_all)
  moreover have "random_value (rb 10) div 32 ^ 16 = 0"
    by (rule div_pos_pos_trivial) (use random_value_bounds [of "rb 10"] assms(2) in simp_all)
  ultimately show ?thesis
    using t assms(2)
    by (simp add: createUlid_def encodeBase32_eq ULID_RANDOM_BYTES_def ULID_TIME_LENGTH_def
        ULID_RANDOM_LENGTH_def)
qed

lemma createUlid_InrD:
  assumes "createUlid ts rb = Inr u"
  shows "\<exists>t. ts = Some t \<and> ulid_time_ok t \<and> length (rb 10) = 10 \<and>
    u = base32 10 t @ base32 16 (random_value (rb 10))"
proof (cases ts)
  case None
  with assms show ?thesis by (simp add: createUlid_def)
next
  case (Some t)
  with assms have "ulid_time_ok t" "length (rb 10) = 10"
    by (auto simp: createUlid_def ulid_time_ok_def Let_def ULID_RANDOM_BYTES_def split: if_splits)
  with createUlid_eq [where t = t and rb = rb, OF this] assms Some show ?thesis by simp
qed

lemma ulid_ok_base32: "ulid_ok (base32 10 t @ base32 16 r)"
  by (auto simp: ulid_ok_def all_in_def list_all_iff dest: base32_chars)

text \<open>Reading the time back: the first ten digits in base 32.\<close>

definition base32_value :: "string \<Rightarrow> int option" where
  "base32_value s = foldl (\<lambda>acc c. Option.bind acc (\<lambda>v.
     map_option (\<lambda>i. 32 * v + int i)
       (find (\<lambda>i. CROCKFORD_BASE32 ! i = c) [0..<32]))) (Some 0) s"

lemma find_base32_char:
  "0 \<le> i \<Longrightarrow> i < 32 \<Longrightarrow> find (\<lambda>j. CROCKFORD_BASE32 ! j = base32_char i) [0..<32] = Some (nat i)"
proof -
  assume i: "0 \<le> i" "i < 32"
  have inj: "CROCKFORD_BASE32 ! j = base32_char i \<longleftrightarrow> j = nat i" if "j < 32" for j
    using base32_char_inject [of "int j" i] i that by (auto simp: base32_char_def)
  show ?thesis
  proof (cases "find (\<lambda>j. CROCKFORD_BASE32 ! j = base32_char i) [0..<32]")
    case None
    then have "CROCKFORD_BASE32 ! nat i \<noteq> base32_char i" using i by (auto simp: find_None_iff)
    then show ?thesis by (simp add: base32_char_def)
  next
    case (Some k)
    then show ?thesis using inj by (auto simp: find_Some_iff)
  qed
qed

lemma base32_value_base32:
  "0 \<le> v \<Longrightarrow> v < 32 ^ k \<Longrightarrow> base32_value (base32 k v) = Some v"
proof (induction k arbitrary: v)
  case (Suc k)
  then have "base32_value (base32 k (v div 32)) = Some (v div 32)"
    by (simp add: pos_imp_zdiv_nonneg_iff div_32_less)
  then show ?case
    using mult_div_mod_eq [of 32 v] by (simp add: base32_value_def find_base32_char)
qed (simp add: base32_value_def)

end
