(* ===== verification/IsoTime.thy ===== *)
theory IsoTime
  imports Prelude
begin

text \<open>
  JavaScript dates as the program uses them: a \<open>Date\<close> is its time value in milliseconds since
  1970, \<open>toISOString\<close> prints it and \<open>Date.parse\<close> reads it back. Timestamps travel through
  the program as these strings, are validated by \<open>utcDateTimeSchema\<close> (packages/contracts,
  common.ts) and are compared both as times (after \<open>Date.parse\<close>) and as TEXT by SQLite.
  The lemmas show that reading back a printed date gives the same date, and that on printed
  dates the two comparisons agree.

  Limits of the model: \<open>date_parse\<close> reads the UTC form that the schema accepts and is NaN on
  anything else; time values outside the range of \<open>Date\<close> (beyond the year 275760), where
  \<open>toISOString\<close> throws, do not occur.
\<close>

section \<open>Days, years and months\<close>

definition is_leap :: "int \<Rightarrow> bool" where
  "is_leap y \<longleftrightarrow> y mod 4 = 0 \<and> (y mod 100 \<noteq> 0 \<or> y mod 400 = 0)"

text \<open>The day number of January 1 of a year (ECMAScript's DayFromYear).\<close>

definition day_from_year :: "int \<Rightarrow> int" where
  "day_from_year y =
     365 * (y - 1970) + (y - 1969) div 4 - (y - 1901) div 100 + (y - 1601) div 400"

lemma div_Suc_int: "0 < k \<Longrightarrow> (a + 1) div k = a div k + (if (a + 1) mod k = 0 then 1 else 0)"
  for a k :: int
proof -
  assume k: "0 < k"
  let ?r = "a mod k"
  have a: "a = k * (a div k) + ?r" by simp
  have r: "0 \<le> ?r" "?r < k" using k by simp_all
  show ?thesis
  proof (cases "?r + 1 = k")
    case True
    have "a + 1 = k * (a div k) + (?r + 1)" using a by linarith
    with True have eq: "a + 1 = k * (a div k + 1)" by (simp add: distrib_left)
    then have "(a + 1) div k = a div k + 1" and "(a + 1) mod k = 0"
      using k by (simp_all only: nonzero_mult_div_cancel_left mod_mult_self1_is_0)
    then show ?thesis by simp
  next
    case False
    have "a + 1 = k * (a div k) + (?r + 1)" using a by linarith
    moreover have "0 \<le> ?r + 1" "?r + 1 < k" using r False by auto
    ultimately have "(a + 1) div k = a div k" and m: "(a + 1) mod k = ?r + 1"
      by (metis int_div_pos_eq, metis int_mod_pos_eq)
    with r show ?thesis by simp
  qed
qed

lemma leap_count:
  "(p400 \<Longrightarrow> p100) \<Longrightarrow> (p100 \<Longrightarrow> p4) \<Longrightarrow>
   (if p4 then 1 else 0) - (if p100 then 1 else 0) + (if p400 then 1 else 0) + 365
   = (if p4 \<and> (\<not> p100 \<or> p400) then 366 else 365 :: int)"
  by (cases p4; cases p100; cases p400) simp_all

lemma regroup:
  "k' = k + 365 \<Longrightarrow> i - j + l + 365 = r \<Longrightarrow>
   k' + (a + i) - (b + j) + (c + l) = k + a - b + c + r"
  for a b c i j l k k' r :: int
  by simp

lemma day_from_year_Suc:
  "day_from_year (y + 1) = day_from_year y + (if is_leap y then 366 else 365)"
proof -
  have m4: "(y - 1969 + 1) mod 4 = y mod 4"
    using mod_mult_self2 [of "y - 1968" 4 492] by simp
  have m100: "(y - 1901 + 1) mod 100 = y mod 100"
    using mod_mult_self2 [of "y - 1900" 100 19] by simp
  have m400: "(y - 1601 + 1) mod 400 = y mod 400"
    using mod_mult_self2 [of "y - 1600" 400 4] by simp
  have 4: "(y + 1 - 1969) div 4 = (y - 1969) div 4 + (if y mod 4 = 0 then 1 else 0)"
    using div_Suc_int [of 4 "y - 1969"] m4 by (simp add: algebra_simps)
  have 100: "(y + 1 - 1901) div 100 = (y - 1901) div 100 + (if y mod 100 = 0 then 1 else 0)"
    using div_Suc_int [of 100 "y - 1901"] m100 by (simp add: algebra_simps)
  have 400: "(y + 1 - 1601) div 400 = (y - 1601) div 400 + (if y mod 400 = 0 then 1 else 0)"
    using div_Suc_int [of 400 "y - 1601"] m400 by (simp add: algebra_simps)
  have "y mod 400 mod 100 = y mod 100" and "y mod 100 mod 4 = y mod 4"
    by (rule mod_mod_cancel, simp)+
  then have "y mod 400 = 0 \<Longrightarrow> y mod 100 = 0" and "y mod 100 = 0 \<Longrightarrow> y mod 4 = 0"
    by simp_all
  then have leap: "(if y mod 4 = 0 then 1 else 0) - (if y mod 100 = 0 then 1 else 0)
      + (if y mod 400 = 0 then 1 else 0) + 365 = (if is_leap y then 366 else 365 :: int)"
    unfolding is_leap_def by (rule leap_count)
  have "365 * (y + 1 - 1970) = 365 * (y - 1970) + 365" by simp
  from regroup [OF this leap] show ?thesis
    unfolding day_from_year_def 4 100 400 .
qed

text \<open>The year a day falls in: count up from a year that starts no later.\<close>

lemma day_from_year_less_Suc: "day_from_year y < day_from_year (y + 1)"
  by (simp add: day_from_year_Suc)

function year_search :: "int \<Rightarrow> int \<Rightarrow> int" where
  "year_search d y = (if day_from_year (y + 1) \<le> d then year_search d (y + 1) else y)"
  by pat_completeness auto
termination
proof (relation "measure (\<lambda>(d, y). nat (d - day_from_year y))")
  fix d y :: int
  assume "day_from_year (y + 1) \<le> d"
  then show "((d, y + 1), (d, y)) \<in> measure (\<lambda>(d, y). nat (d - day_from_year y))"
    using day_from_year_less_Suc [of y] by simp
qed simp

declare year_search.simps [simp del]

definition year_of_day :: "int \<Rightarrow> int" where
  "year_of_day d = year_search d (1970 + (if 0 \<le> d then d div 366 else d div 365))"

lemma year_search_bounds:
  "day_from_year y \<le> d \<Longrightarrow>
   day_from_year (year_search d y) \<le> d \<and> d < day_from_year (year_search d y + 1)"
proof (induction d y rule: year_search.induct)
  case (1 d y)
  then show ?case
    by (cases "day_from_year (y + 1) \<le> d") (auto simp: year_search.simps [of d y])
qed

lemma day_from_year_mono_add: "day_from_year y \<le> day_from_year (y + int n)"
proof (induction n)
  case (Suc n)
  then show ?case
    using day_from_year_less_Suc [of "y + int n"] by (simp add: algebra_simps)
qed simp

lemma day_from_year_mono: "y \<le> z \<Longrightarrow> day_from_year y \<le> day_from_year z"
  using day_from_year_mono_add [of y "nat (z - y)"] by simp

lemma day_from_year_1970: "day_from_year 1970 = 0"
  by (simp add: day_from_year_def)

lemma day_from_year_upper: "day_from_year (1970 + int n) \<le> 366 * int n"
proof (induction n)
  case (Suc n)
  then show ?case
    using day_from_year_Suc [of "1970 + int n"] by (simp add: algebra_simps split: if_splits)
qed (simp add: day_from_year_1970)

lemma day_from_year_lower: "day_from_year (1970 - int n) \<le> - 365 * int n"
proof (induction n)
  case (Suc n)
  then show ?case
    using day_from_year_Suc [of "1970 - int (Suc n)"]
    by (simp add: algebra_simps split: if_splits)
qed (simp add: day_from_year_1970)

lemma year_of_day_bounds:
  "day_from_year (year_of_day d) \<le> d" "d < day_from_year (year_of_day d + 1)"
proof -
  have "day_from_year (1970 + (if 0 \<le> d then d div 366 else d div 365)) \<le> d"
  proof (cases "0 \<le> d")
    case True
    then have "day_from_year (1970 + d div 366) \<le> 366 * (d div 366)"
      using day_from_year_upper [of "nat (d div 366)"] by (simp add: pos_imp_zdiv_nonneg_iff)
    also have "\<dots> \<le> d" by (simp add: mult.commute [of 366] flip: minus_mod_eq_div_mult)
    finally show ?thesis using True by simp
  next
    case False
    then have neg: "d div 365 \<le> 0" by (simp add: div_nonpos_pos_le0)
    have "day_from_year (1970 + d div 365) \<le> 365 * (d div 365)"
      using day_from_year_lower [of "nat (- (d div 365))"] neg by simp
    also have "\<dots> \<le> d" by (simp add: mult.commute [of 365] flip: minus_mod_eq_div_mult)
    finally show ?thesis using False by simp
  qed
  from year_search_bounds [OF this]
  show "day_from_year (year_of_day d) \<le> d" "d < day_from_year (year_of_day d + 1)"
    by (simp_all add: year_of_day_def)
qed

lemma year_of_day_unique:
  "day_from_year y \<le> d \<Longrightarrow> d < day_from_year (y + 1) \<Longrightarrow> year_of_day d = y"
  using year_of_day_bounds [of d] day_from_year_mono [of "y + 1" "year_of_day d"]
    day_from_year_mono [of "year_of_day d + 1" y]
  by (metis linorder_not_less add1_zle_eq nle_le order_le_less_trans)

text \<open>The first day of each month, counted from January 1.\<close>

definition month_starts :: "bool \<Rightarrow> int list" where
  "month_starts leap =
     (if leap then [0, 31, 60, 91, 121, 152, 182, 213, 244, 274, 305, 335]
      else [0, 31, 59, 90, 120, 151, 181, 212, 243, 273, 304, 334])"

definition month_start :: "bool \<Rightarrow> int \<Rightarrow> int" where
  "month_start leap m = month_starts leap ! nat (m - 1)"

definition month_of_yday :: "bool \<Rightarrow> int \<Rightarrow> int" where
  "month_of_yday leap n = int (length (takeWhile (\<lambda>s. s \<le> n) (month_starts leap)))"

definition days_in_month :: "bool \<Rightarrow> int \<Rightarrow> int" where
  "days_in_month leap m =
     (if m = 12 then 31 else month_start leap (m + 1) - month_start leap m)"

lemma month_of_yday_bounds:
  assumes "0 \<le> n" "n < (if leap then 366 else 365)"
  shows "1 \<le> month_of_yday leap n" "month_of_yday leap n \<le> 12"
    and "month_start leap (month_of_yday leap n) \<le> n"
    and "n < month_start leap (month_of_yday leap n) + days_in_month leap (month_of_yday leap n)"
proof -
  let ?ss = "month_starts leap"
  let ?tw = "takeWhile (\<lambda>s. s \<le> n) ?ss"
  have len: "length ?ss = 12" by (simp add: month_starts_def)
  have ss: "?ss = 0 # tl ?ss" by (simp add: month_starts_def)
  have pos: "0 < length ?tw" by (subst ss) (simp add: assms(1))
  have le12: "length ?tw \<le> 12" using length_takeWhile_le [of _ ?ss] len by simp
  show lo: "1 \<le> month_of_yday leap n" and hi: "month_of_yday leap n \<le> 12"
    using pos le12 by (simp_all add: month_of_yday_def Suc_le_eq)
  let ?k = "length ?tw - 1"
  have k: "?k < length ?tw" using pos by simp
  then have "?tw ! ?k \<in> set ?tw" by (rule nth_mem)
  then have "?tw ! ?k \<le> n" by (rule set_takeWhileD [THEN conjunct2])
  moreover have "?tw ! ?k = ?ss ! ?k" using k by (rule takeWhile_nth)
  moreover have "nat (int (length ?tw) - 1) = ?k" by simp
  ultimately show "month_start leap (month_of_yday leap n) \<le> n"
    by (simp only: month_start_def month_of_yday_def)
  show "n < month_start leap (month_of_yday leap n) + days_in_month leap (month_of_yday leap n)"
  proof (cases "month_of_yday leap n = 12")
    case True
    then show ?thesis using assms(2)
      by (simp add: days_in_month_def month_start_def month_starts_def split: if_splits)
  next
    case False
    then have "length ?tw < length ?ss" using hi len by (simp add: month_of_yday_def)
    then have "n < ?ss ! length ?tw" using nth_length_takeWhile [of "\<lambda>s. s \<le> n" ?ss] by simp
    then show ?thesis using False by (simp add: days_in_month_def month_start_def month_of_yday_def)
  qed
qed

section \<open>Printing: \<open>toISOString\<close>\<close>

definition digit_of :: "int \<Rightarrow> char" where
  "digit_of n = digit_chars ! nat n"

definition pad2 :: "int \<Rightarrow> string" where
  "pad2 n = [digit_of (n div 10 mod 10), digit_of (n mod 10)]"

definition pad3 :: "int \<Rightarrow> string" where
  "pad3 n = digit_of (n div 100 mod 10) # pad2 n"

definition pad4 :: "int \<Rightarrow> string" where
  "pad4 n = pad2 (n div 100) @ pad2 n"

definition pad6 :: "int \<Rightarrow> string" where
  "pad6 n = pad2 (n div 10000) @ pad4 n"

text \<open>Four digits for the years 0 to 9999, a sign and six digits for the others.\<close>

definition year_string :: "int \<Rightarrow> string" where
  "year_string y =
     (if 0 \<le> y \<and> y \<le> 9999 then pad4 y
      else if y < 0 then CHR ''-'' # pad6 (- y)
      else CHR ''+'' # pad6 y)"

definition ms_per_day :: int where
  "ms_per_day = 86400000"

definition year_of_time :: "int \<Rightarrow> int" where
  "year_of_time t = year_of_day (t div ms_per_day)"

definition iso_string :: "int \<Rightarrow> int \<Rightarrow> int \<Rightarrow> int \<Rightarrow> int \<Rightarrow> int \<Rightarrow> int \<Rightarrow> string" where
  "iso_string y m d hh mm ss ms =
     year_string y @ ''-'' @ pad2 m @ ''-'' @ pad2 d @ ''T'' @
     pad2 hh @ '':'' @ pad2 mm @ '':'' @ pad2 ss @ ''.'' @ pad3 ms @ ''Z''"

definition to_iso :: "int \<Rightarrow> string" where
  "to_iso t =
     (let day = t div ms_per_day; ms = t mod ms_per_day;
          y = year_of_day day; yday = day - day_from_year y;
          m = month_of_yday (is_leap y) yday
      in iso_string y m (yday - month_start (is_leap y) m + 1)
           (ms div 3600000) (ms div 60000 mod 60) (ms div 1000 mod 60) (ms mod 1000))"

section \<open>Reading: \<open>Date.parse\<close>\<close>

definition digit_value :: "char \<Rightarrow> int option" where
  "digit_value c =
     (if c \<in> set digit_chars then Some (int (of_char c) - 48) else None)"

fun digits_value_from :: "int \<Rightarrow> string \<Rightarrow> int option" where
  "digits_value_from acc [] = Some acc"
| "digits_value_from acc (c # s) =
     Option.bind (digit_value c) (\<lambda>v. digits_value_from (10 * acc + v) s)"

definition digits_value :: "string \<Rightarrow> int option" where
  "digits_value s = (if s = [] then None else digits_value_from 0 s)"

text \<open>
  The part after the minutes: \<open>Z\<close>, \<open>:ssZ\<close> or \<open>:ss.fZ\<close> with any number of fraction digits,
  of which the first three give the milliseconds.
\<close>

definition parse_seconds :: "string \<Rightarrow> (int \<times> int) option" where
  "parse_seconds s =
     (if s = ''Z'' then Some (0, 0)
      else if length s < 4 \<or> s ! 0 \<noteq> CHR '':'' \<or> last s \<noteq> CHR ''Z'' then None
      else Option.bind (digits_value (take 2 (drop 1 s))) (\<lambda>sec.
        let frac = butlast (drop 3 s) in
        if frac = [] then Some (sec, 0)
        else if hd frac \<noteq> CHR ''.'' \<or> digits_value (tl frac) = None then None
        else map_option (Pair sec) (digits_value (take 3 (tl frac @ ''00'')))))"

definition date_parse :: "string \<Rightarrow> jsnum" where
  "date_parse s =
     (if length s < 17 \<or> s ! 4 \<noteq> CHR ''-'' \<or> s ! 7 \<noteq> CHR ''-'' \<or> s ! 10 \<noteq> CHR ''T''
         \<or> s ! 13 \<noteq> CHR '':'' then None
      else Option.bind (digits_value (take 4 s)) (\<lambda>y.
        Option.bind (digits_value (take 2 (drop 5 s))) (\<lambda>m.
        Option.bind (digits_value (take 2 (drop 8 s))) (\<lambda>d.
        Option.bind (digits_value (take 2 (drop 11 s))) (\<lambda>hh.
        Option.bind (digits_value (take 2 (drop 14 s))) (\<lambda>mm.
        Option.bind (parse_seconds (drop 16 s)) (\<lambda>(ss, ms).
          if 1 \<le> m \<and> m \<le> 12 \<and> 1 \<le> d \<and> d \<le> days_in_month (is_leap y) m
             \<and> hh \<le> 23 \<and> mm \<le> 59 \<and> ss \<le> 59
          then Some ((day_from_year y + month_start (is_leap y) m + d - 1) * ms_per_day
                     + hh * 3600000 + mm * 60000 + ss * 1000 + ms)
          else None)))))))"

text \<open>
  \<open>utcDateTimeSchema\<close>: a valid calendar date and time of day in UTC, seconds and fraction
  optional, ending in \<open>Z\<close>.
\<close>

definition utc_datetime_ok :: "string \<Rightarrow> bool" where
  "utc_datetime_ok s \<longleftrightarrow> date_parse s \<noteq> None \<and> ends_with ''Z'' s"

section \<open>The fields of a printed date\<close>

definition time_value :: "int \<Rightarrow> int \<Rightarrow> int \<Rightarrow> int \<Rightarrow> int \<Rightarrow> int \<Rightarrow> int \<Rightarrow> int" where
  "time_value y m d hh mm ss ms =
     (day_from_year y + month_start (is_leap y) m + d - 1) * ms_per_day
     + hh * 3600000 + mm * 60000 + ss * 1000 + ms"

definition fields_ok :: "int \<Rightarrow> int \<Rightarrow> int \<Rightarrow> int \<Rightarrow> int \<Rightarrow> int \<Rightarrow> int \<Rightarrow> bool" where
  "fields_ok y m d hh mm ss ms \<longleftrightarrow>
     1 \<le> m \<and> m \<le> 12 \<and> 1 \<le> d \<and> d \<le> days_in_month (is_leap y) m \<and>
     0 \<le> hh \<and> hh \<le> 23 \<and> 0 \<le> mm \<and> mm \<le> 59 \<and> 0 \<le> ss \<and> ss \<le> 59 \<and> 0 \<le> ms \<and> ms \<le> 999"

lemma mixed_radix:
  "r = 1000 * s + a \<Longrightarrow> s = 60 * q + b \<Longrightarrow> q = 60 * h + c \<Longrightarrow>
   r = h * 3600000 + c * 60000 + b * 1000 + a" for r s q h a b c :: int
  by simp

lemma mixed_radix_bound:
  "r = h * 3600000 + c * 60000 + b * 1000 + a \<Longrightarrow> 0 \<le> a \<Longrightarrow> 0 \<le> b \<Longrightarrow> 0 \<le> c \<Longrightarrow>
   r < 86400000 \<Longrightarrow> h \<le> 23" for r h a b c :: int
  by simp

lemma day_time_split:
  fixes r :: int
  assumes "0 \<le> r" "r < ms_per_day"
  shows "r = r div 3600000 * 3600000 + r div 60000 mod 60 * 60000 + r div 1000 mod 60 * 1000
             + r mod 1000"
    and "r div 3600000 \<le> 23"
proof -
  have 1: "r div 60000 = r div 1000 div 60" and 2: "r div 3600000 = r div 60000 div 60"
    by (simp_all flip: zdiv_zmult2_eq)
  show eq: "r = r div 3600000 * 3600000 + r div 60000 mod 60 * 60000 + r div 1000 mod 60 * 1000
             + r mod 1000"
    by (rule mixed_radix [where s = "r div 1000" and q = "r div 60000"])
      (simp_all only: 1 2 mult_div_mod_eq)
  show "r div 3600000 \<le> 23"
    by (rule mixed_radix_bound [OF eq]) (use assms in \<open>simp_all add: ms_per_day_def\<close>)
qed

lemma mod_upper: "x mod 60 \<le> 59" "x mod 1000 \<le> 999" for x :: int
  using pos_mod_bound [of 60 x] pos_mod_bound [of 1000 x] by simp_all

lemma to_iso_fields:
  obtains y m d hh mm ss ms where
    "to_iso t = iso_string y m d hh mm ss ms" "t = time_value y m d hh mm ss ms"
    "fields_ok y m d hh mm ss ms" "y = year_of_time t"
proof
  define day where "day = t div ms_per_day"
  define r where "r = t mod ms_per_day"
  define y where "y = year_of_day day"
  define yday where "yday = day - day_from_year y"
  define m where "m = month_of_yday (is_leap y) yday"
  define d where "d = yday - month_start (is_leap y) m + 1"
  show "to_iso t = iso_string y m d (r div 3600000) (r div 60000 mod 60) (r div 1000 mod 60)
      (r mod 1000)"
    by (simp add: to_iso_def Let_def day_def r_def y_def yday_def m_def d_def)
  show "y = year_of_time t" by (simp add: y_def day_def year_of_time_def)
  have r: "0 \<le> r" "r < ms_per_day" by (simp_all add: r_def ms_per_day_def)
  have "t = day * ms_per_day + r" by (simp add: day_def r_def)
  then show "t = time_value y m d (r div 3600000) (r div 60000 mod 60) (r div 1000 mod 60)
      (r mod 1000)"
    using day_time_split(1) [OF r] by (simp add: time_value_def d_def yday_def)
  have "0 \<le> yday" "yday < (if is_leap y then 366 else 365)"
    using year_of_day_bounds [of day] by (simp_all add: yday_def y_def day_from_year_Suc)
  note b = month_of_yday_bounds [OF this]
  have "1 \<le> m" "m \<le> 12" "1 \<le> d" "d \<le> days_in_month (is_leap y) m"
    using b by (simp_all add: m_def d_def)
  then show "fields_ok y m d (r div 3600000) (r div 60000 mod 60) (r div 1000 mod 60) (r mod 1000)"
    using day_time_split(2) [OF r] r(1) mod_upper
    by (simp add: fields_ok_def pos_imp_zdiv_nonneg_iff)
qed

section \<open>Reading back a printed date\<close>

lemma digit_cases:
  "0 \<le> n \<Longrightarrow> n < 10 \<Longrightarrow>
   n = 0 \<or> n = 1 \<or> n = 2 \<or> n = 3 \<or> n = 4 \<or> n = 5 \<or> n = 6 \<or> n = 7 \<or> n = 8 \<or> n = (9 :: int)"
  by arith

lemma digit_value_digit_of: "0 \<le> n \<Longrightarrow> n < 10 \<Longrightarrow> digit_value (digit_of n) = Some n"
  by (drule digit_cases, assumption)
    (elim disjE; simp add: digit_value_def digit_of_def digit_chars_def)

lemma of_char_digit_of: "0 \<le> n \<Longrightarrow> n < 10 \<Longrightarrow> (of_char (digit_of n) :: nat) = 48 + nat n"
  by (drule digit_cases, assumption) (elim disjE; simp add: digit_of_def digit_chars_def)

lemma digit_of_less_iff:
  "0 \<le> a \<Longrightarrow> a < 10 \<Longrightarrow> 0 \<le> b \<Longrightarrow> b < 10 \<Longrightarrow>
   (of_char (digit_of a) :: nat) < of_char (digit_of b) \<longleftrightarrow> a < b"
  by (auto simp: of_char_digit_of)

lemma mod10: "0 \<le> n mod 10" "n mod 10 < 10" for n :: int
  by simp_all

lemma digits_value_pad2:
  "0 \<le> n \<Longrightarrow> n < 100 \<Longrightarrow> digits_value (pad2 n) = Some n"
proof -
  assume n: "0 \<le> n" "n < 100"
  then have "n div 10 mod 10 = n div 10" by simp
  then show ?thesis
    using mult_div_mod_eq [of 10 n]
    by (simp add: digits_value_def pad2_def digit_value_digit_of mod10)
qed

lemma digits_value_append:
  "u \<noteq> [] \<Longrightarrow> digits_value u = Some a \<Longrightarrow> digits_value (u @ v) = digits_value_from a v"
proof -
  have "digits_value_from acc (u @ v) = Option.bind (digits_value_from acc u)
      (\<lambda>a. digits_value_from a v)" for acc u
    by (induction u arbitrary: acc) (auto split: bind_splits)
  then show "u \<noteq> [] \<Longrightarrow> digits_value u = Some a \<Longrightarrow> digits_value (u @ v) = digits_value_from a v"
    by (simp add: digits_value_def)
qed

lemma digits_value_pad3:
  "0 \<le> n \<Longrightarrow> n < 1000 \<Longrightarrow> digits_value (pad3 n) = Some n"
proof -
  assume n: "0 \<le> n" "n < 1000"
  then have 1: "n div 100 mod 10 = n div 100" by simp
  have "n div 100 = n div 10 div 10" by (simp flip: zdiv_zmult2_eq)
  then have "10 * (10 * (n div 100) + n div 10 mod 10) + n mod 10 = n"
    by (simp only: mult_div_mod_eq)
  with n show ?thesis
    by (simp add: digits_value_def pad3_def pad2_def digit_value_digit_of mod10 1
        pos_imp_zdiv_nonneg_iff)
qed

lemma digits_value_pad4:
  "0 \<le> n \<Longrightarrow> n \<le> 9999 \<Longrightarrow> digits_value (pad4 n) = Some n"
proof -
  assume n: "0 \<le> n" "n \<le> 9999"
  have hi: "digits_value (pad2 (n div 100)) = Some (n div 100)"
    by (rule digits_value_pad2) (use n in \<open>simp_all add: pos_imp_zdiv_nonneg_iff\<close>)
  have "n div 100 = n div 10 div 10" by (simp flip: zdiv_zmult2_eq)
  then have "10 * (10 * (n div 100) + n div 10 mod 10) + n mod 10 = n"
    by (simp only: mult_div_mod_eq)
  then have "digits_value_from (n div 100) (pad2 n) = Some n"
    by (simp add: pad2_def digit_value_digit_of mod10)
  moreover have "pad2 (n div 100) \<noteq> []" by (simp add: pad2_def)
  ultimately show ?thesis
    using digits_value_append [OF _ hi, of "pad2 n"] by (simp only: pad4_def simp_thms)
qed

lemma parse_seconds_printed:
  assumes "0 \<le> ss" "ss \<le> 59" "0 \<le> ms" "ms \<le> 999"
  shows "parse_seconds (CHR '':'' # pad2 ss @ CHR ''.'' # pad3 ms @ ''Z'') = Some (ss, ms)"
proof -
  have "digits_value (pad2 ss) = Some ss" "digits_value (pad3 ms) = Some ms"
    using assms by (simp_all add: digits_value_pad2 digits_value_pad3)
  then show ?thesis
    by (simp add: parse_seconds_def pad2_def pad3_def numeral_eq_Suc)
qed

lemma days_in_month_bounds:
  assumes "1 \<le> m" "m \<le> 12"
  shows "28 \<le> days_in_month leap m \<and> days_in_month leap m \<le> 31"
proof -
  from assms have "m = 1 \<or> m = 2 \<or> m = 3 \<or> m = 4 \<or> m = 5 \<or> m = 6 \<or> m = 7 \<or> m = 8 \<or> m = 9
      \<or> m = 10 \<or> m = 11 \<or> m = 12"
    by arith
  then show ?thesis
    by (elim disjE; simp add: days_in_month_def month_start_def month_starts_def)
qed

lemma date_parse_iso_string:
  assumes ok: "fields_ok y m d hh mm ss ms" and y: "0 \<le> y" "y \<le> 9999"
  shows "date_parse (iso_string y m d hh mm ss ms) = Some (time_value y m d hh mm ss ms)"
proof -
  have d: "d < 100"
    using ok days_in_month_bounds [of m "is_leap y"] by (simp add: fields_ok_def)
  let ?s = "iso_string y m d hh mm ss ms"
  have s: "?s = pad4 y @ ''-'' @ pad2 m @ ''-'' @ pad2 d @ ''T'' @ pad2 hh @ '':'' @ pad2 mm @
      CHR '':'' # pad2 ss @ CHR ''.'' # pad3 ms @ ''Z''"
    using y by (simp add: iso_string_def year_string_def)
  have len: "length (pad4 n) = 4" "length (pad3 n) = 3" "length (pad2 n) = 2" for n
    by (simp_all add: pad4_def pad3_def pad2_def)
  have parts: "take 4 ?s = pad4 y" "take 2 (drop 5 ?s) = pad2 m" "take 2 (drop 8 ?s) = pad2 d"
    "take 2 (drop 11 ?s) = pad2 hh" "take 2 (drop 14 ?s) = pad2 mm"
    "drop 16 ?s = CHR '':'' # pad2 ss @ CHR ''.'' # pad3 ms @ ''Z''"
    by (simp_all add: s len)
  have seps: "?s ! 4 = CHR ''-''" "?s ! 7 = CHR ''-''" "?s ! 10 = CHR ''T''" "?s ! 13 = CHR '':''"
    "\<not> length ?s < 17"
    by (simp_all add: s len nth_append)
  show ?thesis
    using ok y d unfolding date_parse_def
    by (simp add: parts seps digits_value_pad4 digits_value_pad2 parse_seconds_printed
        fields_ok_def time_value_def)
qed

text \<open>The years that print with four digits.\<close>

definition iso_time_range :: "int \<Rightarrow> bool" where
  "iso_time_range t \<longleftrightarrow> 0 \<le> year_of_time t \<and> year_of_time t \<le> 9999"

lemma date_parse_to_iso [simp]: "iso_time_range t \<Longrightarrow> date_parse (to_iso t) = Some t"
  using to_iso_fields [of t] date_parse_iso_string
  by (metis iso_time_range_def)

section \<open>Printed dates compare as times\<close>

lemma length_pad [simp]: "length (pad2 n) = 2" "length (pad3 n) = 3" "length (pad4 n) = 4"
  by (simp_all add: pad2_def pad3_def pad4_def)

lemma pad2_inject: "0 \<le> a \<Longrightarrow> a < 100 \<Longrightarrow> 0 \<le> b \<Longrightarrow> b < 100 \<Longrightarrow> pad2 a = pad2 b \<longleftrightarrow> a = b"
  by (metis digits_value_pad2 option.inject)

lemma two_digits: "a < b \<longleftrightarrow> a div k < b div k \<or> (a div k = b div k \<and> a mod k < b mod k)"
  if "0 < k" for a b k :: int
proof -
  have "a div k < b div k \<Longrightarrow> a < b" using that by (meson linorder_not_le zdiv_mono1)
  moreover have "b div k < a div k \<Longrightarrow> b < a" using that by (meson linorder_not_le zdiv_mono1)
  moreover have "a div k = b div k \<Longrightarrow> (a < b) = (a mod k < b mod k)"
    by (metis add_less_cancel_left mult_div_mod_eq)
  ultimately show ?thesis by fastforce
qed

lemma digit_of_inject:
  "0 \<le> a \<Longrightarrow> a < 10 \<Longrightarrow> 0 \<le> b \<Longrightarrow> b < 10 \<Longrightarrow> digit_of a = digit_of b \<longleftrightarrow> a = b"
  by (metis digit_value_digit_of option.inject)

lemma text_less_pad2:
  assumes "0 \<le> a" "a < 100" "0 \<le> b" "b < 100"
  shows "text_less (pad2 a) (pad2 b) \<longleftrightarrow> a < b"
proof -
  have "a div 10 mod 10 = a div 10" "b div 10 mod 10 = b div 10" using assms by simp_all
  then show ?thesis
    using assms two_digits [of 10 a b]
    by (auto simp: pad2_def digit_of_less_iff digit_of_inject mod10 pos_imp_zdiv_nonneg_iff)
qed

lemma pad2_mod_100: "pad2 n = pad2 (n mod 100)"
proof -
  have "n mod 100 = 10 * (n div 10 mod 10) + n mod 10"
    using zmod_zmult2_eq [of 10 n 10] by simp
  then have "n mod 100 div 10 mod 10 = n div 10 mod 10" by simp
  moreover have "n mod 100 mod 10 = n mod 10" by (rule mod_mod_cancel) simp
  ultimately show ?thesis by (simp add: pad2_def)
qed

lemma text_less_pad3:
  assumes "0 \<le> a" "a < 1000" "0 \<le> b" "b < 1000"
  shows "text_less (pad3 a) (pad3 b) \<longleftrightarrow> a < b"
proof -
  have split: "pad3 n = [digit_of (n div 100)] @ pad2 (n mod 100)" if "0 \<le> n" "n < 1000" for n
  proof -
    have "n div 100 mod 10 = n div 100" using that by simp
    then show ?thesis using pad2_mod_100 [of n] by (simp add: pad3_def)
  qed
  show ?thesis
    unfolding split [OF assms(1,2)] split [OF assms(3,4)]
    using assms two_digits [of 100 a b]
    by (subst text_less_append)
      (auto simp: text_less_pad2 digit_of_less_iff digit_of_inject pos_imp_zdiv_nonneg_iff)
qed

lemma text_less_pad4:
  assumes "0 \<le> a" "a \<le> 9999" "0 \<le> b" "b \<le> 9999"
  shows "text_less (pad4 a) (pad4 b) \<longleftrightarrow> a < b"
proof -
  have hi: "0 \<le> n div 100 \<and> n div 100 < 100" if "0 \<le> n" "n \<le> 9999" for n :: int
    using that by (simp add: pos_imp_zdiv_nonneg_iff)
  note ha = hi [OF assms(1,2)] and hb = hi [OF assms(3,4)]
  have "text_less (pad4 a) (pad4 b) \<longleftrightarrow>
      text_less (pad2 (a div 100)) (pad2 (b div 100)) \<or>
      (pad2 (a div 100) = pad2 (b div 100) \<and> text_less (pad2 (a mod 100)) (pad2 (b mod 100)))"
    unfolding pad4_def using pad2_mod_100 [of a] pad2_mod_100 [of b] by (subst text_less_append) simp_all
  then show ?thesis
    using ha hb two_digits [of 100 a b] by (simp add: text_less_pad2 pad2_inject)
qed

lemma month_end_mono:
  assumes "1 \<le> m" "m < n" "n \<le> 12"
  shows "month_start leap m + days_in_month leap m \<le> month_start leap n"
proof -
  have "month_starts leap ! nat m \<le> month_starts leap ! nat (n - 1)"
    by (rule sorted_nth_mono) (use assms in \<open>simp_all add: month_starts_def\<close>)
  then show ?thesis using assms by (simp add: days_in_month_def month_start_def)
qed

lemma month_end_upper:
  assumes "1 \<le> m" "m \<le> 12"
  shows "month_start leap m + days_in_month leap m \<le> (if leap then 366 else 365)"
proof (cases "m = 12")
  case True
  then show ?thesis by (simp add: days_in_month_def month_start_def month_starts_def)
next
  case False
  then have "month_start leap m + days_in_month leap m \<le> month_start leap 12"
    by (intro month_end_mono) (use assms in simp_all)
  then show ?thesis by (simp add: month_start_def month_starts_def split: if_splits)
qed

lemma month_start_nonneg:
  assumes "1 \<le> m" "m \<le> 12"
  shows "0 \<le> month_start leap m"
proof -
  have "month_starts leap ! 0 \<le> month_starts leap ! nat (m - 1)"
    by (rule sorted_nth_mono) (use assms in \<open>simp_all add: month_starts_def\<close>)
  moreover have "month_starts leap ! 0 = 0" by (simp add: month_starts_def)
  ultimately show ?thesis by (simp add: month_start_def)
qed

definition day_number :: "int \<Rightarrow> int \<Rightarrow> int \<Rightarrow> int" where
  "day_number y m d = day_from_year y + month_start (is_leap y) m + d - 1"

lemma day_number_mono:
  assumes ok: "fields_ok y m d hh mm ss ms" "fields_ok y' m' d' hh' mm' ss' ms'"
    and less: "y < y' \<or> y = y' \<and> (m < m' \<or> m = m' \<and> d < d')"
  shows "day_number y m d < day_number y' m' d'"
proof -
  have b: "1 \<le> m" "m \<le> 12" "d \<le> days_in_month (is_leap y) m" "1 \<le> m'" "m' \<le> 12" "1 \<le> d'"
    using ok by (simp_all add: fields_ok_def)
  consider "y < y'" | "y = y'" "m < m'" | "y = y'" "m = m'" "d < d'" using less by blast
  then show ?thesis
  proof cases
    case 1
    have "day_number y m d < day_from_year (y + 1)"
      using month_end_upper [OF b(1,2), of "is_leap y"] b(3)
      by (simp add: day_number_def day_from_year_Suc)
    also have "\<dots> \<le> day_from_year y'" using 1 by (intro day_from_year_mono) simp
    also have "\<dots> \<le> day_number y' m' d'"
      using month_start_nonneg [OF b(4,5), of "is_leap y'"] b(6) by (simp add: day_number_def)
    finally show ?thesis .
  next
    case 2
    then show ?thesis
      using month_end_mono [OF b(1) 2(2) b(5), of "is_leap y"] b by (simp add: day_number_def)
  next
    case 3
    then show ?thesis by (simp add: day_number_def)
  qed
qed

lemma time_value_day_number:
  "time_value y m d hh mm ss ms =
   day_number y m d * 86400000 + hh * 3600000 + mm * 60000 + ss * 1000 + ms"
  by (simp add: time_value_def day_number_def ms_per_day_def)

lemma iso_string_less_imp:
  assumes ok: "fields_ok y m d hh mm ss ms" "fields_ok y' m' d' hh' mm' ss' ms'"
    and y: "0 \<le> y" "y \<le> 9999" "0 \<le> y'" "y' \<le> 9999"
    and less: "text_less (iso_string y m d hh mm ss ms) (iso_string y' m' d' hh' mm' ss' ms')"
  shows "time_value y m d hh mm ss ms < time_value y' m' d' hh' mm' ss' ms'"
proof -
  have d: "d < 100" "d' < 100"
    using ok days_in_month_bounds [of m "is_leap y"] days_in_month_bounds [of m' "is_leap y'"]
    by (simp_all add: fields_ok_def)
  have pad4_eq: "pad4 y = pad4 y' \<longleftrightarrow> y = y'"
    using text_less_pad4 [OF y] text_less_pad4 [OF y(3,4,1,2)] by (metis linorder_neq_iff text_less_irrefl)
  note f = ok [unfolded fields_ok_def]
  have "(y < y' \<or> y = y' \<and> (m < m' \<or> m = m' \<and> d < d')) \<or> y = y' \<and> m = m' \<and> d = d' \<and>
     (hh < hh' \<or> hh = hh' \<and> (mm < mm' \<or> mm = mm' \<and> (ss < ss' \<or> ss = ss' \<and> ms < ms')))"
    using less f y d
    by (simp add: iso_string_def year_string_def text_less_append text_less_pad4 text_less_pad2
        text_less_pad3 pad4_eq pad2_inject del: append_assoc) argo
  then show ?thesis
  proof
    assume "y < y' \<or> y = y' \<and> (m < m' \<or> m = m' \<and> d < d')"
    from day_number_mono [OF ok this] show ?thesis
      using f by (simp add: time_value_day_number)
  next
    assume "y = y' \<and> m = m' \<and> d = d' \<and>
      (hh < hh' \<or> hh = hh' \<and> (mm < mm' \<or> mm = mm' \<and> (ss < ss' \<or> ss = ss' \<and> ms < ms')))"
    then show ?thesis using f by (auto simp: time_value_day_number)
  qed
qed

lemma text_less_to_iso:
  assumes "iso_time_range a" "iso_time_range b"
  shows "text_less (to_iso a) (to_iso b) \<longleftrightarrow> a < b"
proof -
  have imp: "text_less (to_iso s) (to_iso t) \<Longrightarrow> s < t"
    if "iso_time_range s" "iso_time_range t" for s t
    using that to_iso_fields [of s] to_iso_fields [of t] iso_string_less_imp
    by (metis iso_time_range_def)
  have "to_iso a = to_iso b \<Longrightarrow> a = b" using assms date_parse_to_iso by (metis option.inject)
  with imp assms text_less_total [of "to_iso a" "to_iso b"] show ?thesis
    by (metis linorder_not_less nless_le)
qed

text \<open>The times from 1970 to the end of the year 9999.\<close>

lemma iso_time_rangeI: "0 \<le> t \<Longrightarrow> t < 253402300800000 \<Longrightarrow> iso_time_range t"
proof -
  assume t: "0 \<le> t" "t < 253402300800000"
  define d where "d = t div ms_per_day"
  have d: "0 \<le> d" "d < day_from_year 10000"
    using t by (simp_all add: d_def ms_per_day_def day_from_year_def pos_imp_zdiv_nonneg_iff)
  have "\<not> year_of_day d < 1970"
    using day_from_year_mono [of "year_of_day d + 1" 1970] year_of_day_bounds(2) [of d] d
    by (auto simp: day_from_year_1970)
  moreover have "\<not> 10000 \<le> year_of_day d"
    using day_from_year_mono [of 10000 "year_of_day d"] year_of_day_bounds(1) [of d] d by auto
  ultimately show ?thesis by (simp add: iso_time_range_def year_of_time_def flip: d_def)
qed

lemma utc_datetime_ok_to_iso: "iso_time_range t \<Longrightarrow> utc_datetime_ok (to_iso t)"
proof -
  assume range: "iso_time_range t"
  obtain y m d hh mm ss ms where "to_iso t = iso_string y m d hh mm ss ms"
    by (rule to_iso_fields)
  then have "\<exists>u. to_iso t = u @ ''Z''"
    unfolding iso_string_def by (metis append.assoc)
  with range show ?thesis by (simp add: utc_datetime_ok_def ends_with_iff)
qed

end
