(* ===== verification/Contracts.thy ===== *)
theory Contracts
  imports IsoTime Ulid
begin

text \<open>
  The wire contracts of the GPU controller (packages/contracts/src: common.ts,
  cloud-run-runtime.ts, cloud-run-controller.ts) and the controller's own view of them
  (apps/gpu-controller/src/contracts.ts): environments, actions, outcomes and error codes, the
  typed request and response with the conditions their schemas check, and the frame that is
  signed. A value of one of the records is the result of a successful structural parse; the
  predicate beside it holds the remaining conditions of the schema. Literal fields
  (\<open>schemaVersion\<close>, \<open>policyId\<close>) have one possible value and are left out.
  Lemmas: the signed frame determines its parts.
\<close>

section \<open>Enumerations\<close>

datatype controller_environment = staging | production

datatype controller_action = act_create | act_observe | act_reconcile | act_cancel | act_cleanup

datatype controller_outcome =
    out_accepted | out_pending | out_running | out_succeeded | out_failed | out_cancelled
  | out_cleaned | out_unknown | out_rejected

datatype controller_error_code =
    AUTHENTICATION_FAILED | BUDGET_EXHAUSTED | CONFLICT | ENVIRONMENT_MISMATCH | EXPIRED_REQUEST
  | INTERNAL_ERROR | INVALID_REQUEST | MULTIPLE_EXECUTIONS | PROVIDER_PERMANENT
  | PROVIDER_RETRYABLE | RATE_LIMITED | RESOURCE_DRIFT | STALE_VERSION | UNKNOWN_OUTCOME

definition CLOUD_RUN_RUNTIME_POLICY :: string where
  "CLOUD_RUN_RUNTIME_POLICY = ''cloud_run_jobs_l4_v1''"

definition CLOUD_RUN_CONTROLLER_MAX_REQUEST_LIFETIME_MS :: int where
  "CLOUD_RUN_CONTROLLER_MAX_REQUEST_LIFETIME_MS = 60000"

definition CLOUD_RUN_CONTROLLER_MAX_CLOCK_SKEW_MS :: int where
  "CLOUD_RUN_CONTROLLER_MAX_CLOCK_SKEW_MS = 30000"

definition environment_name :: "controller_environment \<Rightarrow> string" where
  "environment_name e = (case e of staging \<Rightarrow> ''staging'' | production \<Rightarrow> ''production'')"

section \<open>Strings\<close>

definition base64url_chars :: string where
  "base64url_chars = upper_chars @ lower_chars @ digit_chars @ ''_-''"

text \<open>\<open>cloudRunOpaqueHandleSchema\<close> (handles, tokens, digests): 43 base64url characters.\<close>

definition opaque_handle_ok :: "string \<Rightarrow> bool" where
  "opaque_handle_ok s \<longleftrightarrow> length s = 43 \<and> all_in base64url_chars s"

text \<open>\<open>cloudRunResourceNameSchema\<close>: at least two characters, a letter first, no dash last.\<close>

definition resource_name_ok :: "string \<Rightarrow> bool" where
  "resource_name_ok s \<longleftrightarrow>
     1 \<le> length s \<and> length s \<le> 63 \<and> 2 \<le> length s \<and> hd s \<in> set lower_chars \<and>
     all_in (lower_chars @ digit_chars @ ''-'') s \<and> last s \<in> set (lower_chars @ digit_chars)"

section \<open>Requests and responses\<close>

record controller_request =
  rq_action :: controller_action
  rq_environment :: controller_environment
  rq_executionHandle :: string
  rq_expectedVersion :: nat
  rq_expiresAt :: string
  rq_issuedAt :: string
  rq_requestId :: string

definition controller_request_ok :: "controller_request \<Rightarrow> bool" where
  "controller_request_ok r \<longleftrightarrow>
     opaque_handle_ok (rq_executionHandle r) \<and> utc_datetime_ok (rq_expiresAt r) \<and>
     utc_datetime_ok (rq_issuedAt r) \<and> ulid_ok (rq_requestId r)"

record controller_response =
  rs_errorCode :: "controller_error_code option"
  rs_executionHandle :: string
  rs_outcome :: controller_outcome
  rs_requestId :: string
  rs_version :: nat

record attestation_request =
  aq_environment :: controller_environment
  aq_executionHandle :: string
  aq_expiresAt :: string
  aq_issuedAt :: string
  aq_requestId :: string

section \<open>The signed frame\<close>

text \<open>
  \<open>frameAsciiPart\<close> prefixes a part with its length and rejects characters outside the
  printable ASCII range; the parts are joined with a bar.
\<close>

definition printable_ascii :: "char \<Rightarrow> bool" where
  "printable_ascii c \<longleftrightarrow> 32 \<le> (of_char c :: nat) \<and> (of_char c :: nat) \<le> 126"

text \<open>\<open>String(n)\<close> for a length.\<close>

fun nat_string :: "nat \<Rightarrow> string" where
  "nat_string n =
     (if n < 10 then [digit_chars ! n] else nat_string (n div 10) @ [digit_chars ! (n mod 10)])"

declare nat_string.simps [simp del]

definition frameAsciiPart :: "string \<Rightarrow> string result" where
  "frameAsciiPart v =
     (if \<not> list_all printable_ascii v then
        Inl (JsError ''Cloud Run controller signing frame must be ASCII'')
      else Inr (nat_string (length v) @ '':'' @ v))"

fun frame_parts :: "string list \<Rightarrow> string list result" where
  "frame_parts [] = Inr []"
| "frame_parts (p # ps) =
     res_bind (frameAsciiPart p) (\<lambda>f. res_bind (frame_parts ps) (\<lambda>fs. Inr (f # fs)))"

text \<open>\<open>parts.join(sep)\<close>.\<close>

fun join_with :: "string \<Rightarrow> string list \<Rightarrow> string" where
  "join_with sep [] = []"
| "join_with sep [p] = p"
| "join_with sep (p # q # ps) = p @ sep @ join_with sep (q # ps)"

text \<open>\<open>toUpperCase\<close> on the ASCII letters of an HTTP method.\<close>

definition to_upper :: "char \<Rightarrow> char" where
  "to_upper c = (if c \<in> set lower_chars then char_of (of_char c - 32 :: nat) else c)"

definition buildCloudRunControllerSigningFrame ::
  "string \<Rightarrow> string \<Rightarrow> string \<Rightarrow> string \<Rightarrow> string \<Rightarrow> string \<Rightarrow> string result" where
  "buildCloudRunControllerSigningFrame method path issuedAt expiresAt requestId requestDigest =
     res_bind
       (frame_parts [map to_upper method, path, issuedAt, expiresAt, requestId, requestDigest])
       (\<lambda>parts. Inr (join_with ''|'' parts))"

section \<open>The frame determines its parts\<close>

lemma digit_chars_nth_in: "n < 10 \<Longrightarrow> digit_chars ! n \<in> set digit_chars"
  by (rule nth_mem) (simp add: digit_chars_def)

lemma digit_chars_nth_inj: "m < 10 \<Longrightarrow> n < 10 \<Longrightarrow> digit_chars ! m = digit_chars ! n \<longleftrightarrow> m = n"
  by (rule nth_eq_iff_index_eq) (simp_all add: digit_chars_def)

lemma nat_string_digits: "all_in digit_chars (nat_string n)"
proof (induction n rule: nat_string.induct)
  case (1 n)
  then show ?case
    by (subst nat_string.simps) (simp add: digit_chars_nth_in)
qed

lemma nat_string_not_Nil [simp]: "nat_string n \<noteq> []"
  by (subst nat_string.simps) simp

lemma Nil_not_nat_string [simp]: "[] \<noteq> nat_string n"
  using nat_string_not_Nil [of n] by argo

lemma nat_string_inj: "nat_string m = nat_string n \<longleftrightarrow> m = n"
proof (induction m arbitrary: n rule: nat_string.induct)
  case (1 m)
  have m: "nat_string m = (if m < 10 then [digit_chars ! m]
      else nat_string (m div 10) @ [digit_chars ! (m mod 10)])"
    and n: "nat_string n = (if n < 10 then [digit_chars ! n]
      else nat_string (n div 10) @ [digit_chars ! (n mod 10)])"
    by (simp_all add: nat_string.simps [of m] nat_string.simps [of n])
  show ?case
  proof (cases "m < 10 \<or> n < 10")
    case True
    then show ?thesis by (auto simp: m n digit_chars_nth_inj)
  next
    case False
    then have "nat_string (m div 10) = nat_string (n div 10) \<longleftrightarrow> m div 10 = n div 10"
      using "1.IH" by blast
    then have "nat_string m = nat_string n \<longleftrightarrow> m div 10 = n div 10 \<and> m mod 10 = n mod 10"
      using False by (simp add: m n digit_chars_nth_inj)
    also have "\<dots> \<longleftrightarrow> m = n" by (metis div_mod_decomp)
    finally show ?thesis .
  qed
qed

text \<open>A run of digits followed by a character that is no digit can be split in one way.\<close>

lemma span_unique:
  "all_in cls u \<Longrightarrow> all_in cls v \<Longrightarrow> c \<notin> set cls \<Longrightarrow> u @ c # x = v @ c # y \<Longrightarrow> u = v \<and> x = y"
proof (induction u arbitrary: v)
  case Nil
  then show ?case by (cases v) auto
next
  case (Cons a u)
  then show ?case by (cases v) auto
qed

lemma frame_part_unique:
  assumes "nat_string (length u) @ '':'' @ u @ x = nat_string (length v) @ '':'' @ v @ y"
  shows "u = v \<and> x = y"
proof -
  have "CHR '':'' \<notin> set digit_chars" by (simp add: digit_chars_def)
  from span_unique [OF nat_string_digits nat_string_digits this, of "length u" "u @ x" "length v" "v @ y"]
  have "length u = length v" "u @ x = v @ y" using assms by (simp_all add: nat_string_inj)
  then show ?thesis by simp
qed

lemma frame_parts_join_unique:
  "frame_parts ps = Inr fs \<Longrightarrow> frame_parts qs = Inr gs \<Longrightarrow> length ps = length qs \<Longrightarrow>
   join_with ''|'' fs = join_with ''|'' gs \<Longrightarrow> ps = qs"
proof (induction ps arbitrary: qs fs gs)
  case (Cons p ps)
  then obtain q qs' where qs: "qs = q # qs'" by (cases qs) auto
  from Cons.prems(1) obtain fs' where fs: "fs = (nat_string (length p) @ '':'' @ p) # fs'"
    and ps: "frame_parts ps = Inr fs'"
    by (auto simp: result_simps frameAsciiPart_def split: if_splits)
  from Cons.prems(2) obtain gs' where gs: "gs = (nat_string (length q) @ '':'' @ q) # gs'"
    and qs': "frame_parts qs' = Inr gs'"
    by (auto simp: qs result_simps frameAsciiPart_def split: if_splits)
  have len: "length ps = length qs'" using Cons.prems(3) qs by simp
  have lens: "length fs' = length ps" "length gs' = length qs'"
    if "frame_parts ps = Inr fs'" "frame_parts qs' = Inr gs'" for ps qs' fs' gs'
  proof -
    have "frame_parts xs = Inr ys \<Longrightarrow> length ys = length xs" for xs ys
      by (induction xs arbitrary: ys) (auto simp: result_simps)
    with that show "length fs' = length ps" "length gs' = length qs'" by blast+
  qed
  have join: "join_with ''|'' (a # as) = a @ (if as = [] then [] else ''|'' @ join_with ''|'' as)"
    for a as by (cases as) simp_all
  have "p = q \<and> (if fs' = [] then [] else ''|'' @ join_with ''|'' fs')
      = (if gs' = [] then [] else ''|'' @ join_with ''|'' gs')"
    using Cons.prems(4) unfolding fs gs join by (intro frame_part_unique) simp
  then have "p = q" and "join_with ''|'' fs' = join_with ''|'' gs'"
    using lens [OF ps qs'] len by (auto split: if_splits)
  with Cons.IH [OF ps qs' len] qs show ?case by simp
qed simp

end
