(* ===== verification/DomainProperties.thy ===== *)
theory DomainProperties
  imports DomainStates Ulid Contracts
begin

text \<open>
  The properties of the shared packages (packages/domain, packages/contracts): job and attempt
  life cycles, deletion times, ULIDs, timestamps and the signed frame. Each rests on the lemmas of
  the theory that models the code.
\<close>

section \<open>Life cycles\<close>

text \<open>Claim C40. A job cannot cycle through its transition table except by retries: the number of
  moves of any run is bounded by the rise in rank plus five for each time it enters
  \<open>SUBMISSION_PENDING\<close>; and a job in a terminal status makes no move at all.\<close>

theorem job_lifecycle_bounded:
  "job_run s us t \<Longrightarrow>
   length us + job_rank s \<le> job_rank t + 5 * count_list us SUBMISSION_PENDING \<and>
   (isTerminalJobStatus s \<longrightarrow> us = [] \<and> t = s)"
proof (induction rule: job_run.induct)
  case (job_run_Cons s u us t)
  have "Suc (job_rank s) \<le> job_rank u + (if u = SUBMISSION_PENDING then 5 else 0)"
    using job_run_Cons.hyps(1) by (cases s) (auto simp: status_defs)
  moreover have "\<not> isTerminalJobStatus s"
    using job_run_Cons.hyps(1) by (auto simp: terminal_job_iff_stuck canTransitionJobStatus_def)
  ultimately show ?case using job_run_Cons.IH by (auto split: if_splits)
qed simp

theorem job_lifecycle_bounded_witness:
  "length [UPLOADING, UPLOADED, SUBMISSION_PENDING, FAILED, SUBMISSION_PENDING] + job_rank CREATED
     \<le> job_rank SUBMISSION_PENDING
       + 5 * count_list [UPLOADING, UPLOADED, SUBMISSION_PENDING, FAILED, SUBMISSION_PENDING]
           SUBMISSION_PENDING"
  using job_lifecycle_bounded [of CREATED
      "[UPLOADING, UPLOADED, SUBMISSION_PENDING, FAILED, SUBMISSION_PENDING]" SUBMISSION_PENDING]
  by (simp add: job_run_Nil job_run_Cons status_defs)

section \<open>Deletion\<close>

text \<open>The time before which a deleted job's objects must stay is the request time when no
  capability was issued, and otherwise the later of the request time and 2 h 5 min (capability
  lifetime and grace) after the last one; times that are no non-negative safe integers throw.\<close>

theorem deletion_time_exact:
  "deletionNotBeforeMilliseconds r l = Inr t \<longleftrightarrow>
   (\<exists>n. r = Some n \<and> is_safe_integer r \<and> 0 \<le> n \<and>
     (case l of
        None \<Rightarrow> t = n
      | Some i \<Rightarrow> \<exists>k. i = Some k \<and> is_safe_integer i \<and> 0 \<le> k \<and>
          n \<le> t \<and> k + (2 * 60 + 5) * 60000 \<le> t \<and> (t = n \<or> t = k + (2 * 60 + 5) * 60000)))"
proof -
  have "t = max n (k + 7500000) \<longleftrightarrow> n \<le> t \<and> k + 7500000 \<le> t \<and> (t = n \<or> t = k + 7500000)"
    for n k :: int by auto
  then show ?thesis
    by (simp add: deletionNotBefore_Inr_iff cong: option.case_cong)
qed

section \<open>ULIDs\<close>

text \<open>\<open>createUlid\<close> succeeds exactly on times of 48 bits and ten random bytes; the
  identifier then satisfies the wire schema, its first ten characters decode to the time and the
  other sixteen to the random bytes.\<close>

theorem ulid_round_trip:
  "case createUlid ts rb of
     Inl e \<Rightarrow> \<not> ((\<exists>t. ts = Some t \<and> ulid_time_ok t) \<and> length (rb 10) = 10)
   | Inr u \<Rightarrow> (\<exists>t. ts = Some t \<and> ulid_time_ok t) \<and> length (rb 10) = 10 \<and> ulid_ok u \<and>
       base32_value (take 10 u) = ts \<and> base32_value (drop 10 u) = Some (random_value (rb 10))"
proof (cases "createUlid ts rb")
  case (Inl e)
  then show ?thesis using createUlid_eq by fastforce
next
  case (Inr u)
  then obtain t where t: "ts = Some t" "ulid_time_ok t" "length (rb 10) = 10"
      "u = base32 10 t @ base32 16 (random_value (rb 10))"
    using createUlid_InrD by blast
  have "0 \<le> random_value (rb 10)" "random_value (rb 10) < 32 ^ 16"
    using random_value_bounds [of "rb 10"] t(3) by simp_all
  moreover have "0 \<le> t" "t < 32 ^ 10"
    using t(2) by (simp_all add: ulid_time_ok_def MAX_ULID_TIMESTAMP_def)
  ultimately show ?thesis
    using Inr t(1,2,3) by (simp add: t(4) ulid_ok_base32 base32_value_base32)
qed

text \<open>ULIDs sort by time: in the byte order of TEXT columns, and so in every index and
  cursor over job identifiers, an identifier created at an earlier millisecond comes first whatever
  the random bytes are.\<close>

theorem ulid_text_order:
  assumes "createUlid (Some t) rb = Inr u" "createUlid (Some t') rb' = Inr u'"
  shows "(t < t' \<longrightarrow> text_less u u') \<and> (text_less u u' \<longrightarrow> t \<le> t')"
proof -
  have u: "u = base32 10 t @ base32 16 (random_value (rb 10))" "ulid_time_ok t"
    and u': "u' = base32 10 t' @ base32 16 (random_value (rb' 10))" "ulid_time_ok t'"
    using createUlid_InrD [OF assms(1)] createUlid_InrD [OF assms(2)] by blast+
  have less: "text_less (base32 10 t) (base32 10 t') \<longleftrightarrow> t < t'"
    using u(2) u'(2) by (intro base32_less_iff) (simp_all add: ulid_time_ok_def MAX_ULID_TIMESTAMP_def)
  have value_of: "base32_value (base32 10 x) = Some x" if "ulid_time_ok x" for x
    by (rule base32_value_base32) (use that in \<open>simp_all add: ulid_time_ok_def MAX_ULID_TIMESTAMP_def\<close>)
  define a b where "a = base32 10 t" and "b = base32 10 t'"
  have "a = b \<longrightarrow> t = t'"
    unfolding a_def b_def by (metis option.inject value_of u(2) u'(2))
  moreover have "length a = length b" by (simp add: a_def b_def)
  ultimately show ?thesis
    using less unfolding u(1) u'(1) a_def [symmetric] b_def [symmetric]
    by (simp add: text_less_append)
qed

theorem ulid_text_order_witness:
  "text_less (base32 10 1000 @ base32 16 (random_value (replicate 10 255)))
     (base32 10 2000 @ base32 16 (random_value (replicate 10 0)))"
proof -
  have t: "ulid_time_ok 1000" "ulid_time_ok 2000"
    by (simp_all add: ulid_time_ok_def MAX_ULID_TIMESTAMP_def)
  have l: "length (replicate 10 (x :: 8 word)) = 10" for x by simp
  show ?thesis
    using ulid_text_order [OF createUlid_eq [of 1000 "\<lambda>n. replicate n 255", OF t(1) l]
        createUlid_eq [of 2000 "\<lambda>n. replicate n 0", OF t(2) l], THEN conjunct1]
    by (rule mp) simp
qed

section \<open>Timestamps\<close>

text \<open>Every date of the years 0 to 9999 printed by \<open>toISOString\<close> passes the wire schema
  and parses back to the same millisecond, and on printed dates the byte order of TEXT values,
  by which the SQL compares times, is the order of time.\<close>

theorem timestamp_text_order:
  assumes "iso_time_range t" "iso_time_range u"
  shows "utc_datetime_ok (to_iso t) \<and> date_parse (to_iso t) = Some t \<and>
    (text_less (to_iso t) (to_iso u) \<longleftrightarrow> t < u)"
  using assms by (simp add: utc_datetime_ok_to_iso text_less_to_iso)

theorem timestamp_text_order_witness:
  "text_less (to_iso 1767225600000) (to_iso 1767225600001)"
  using timestamp_text_order [of 1767225600000 1767225600001] by (simp add: iso_time_rangeI)

section \<open>The signed frame\<close>

text \<open>The frame that is signed determines its parts: two requests with the same frame
  have the same method (up to letter case), path, times, request identifier and digest, so that no
  two different requests share a signature input, whatever characters the parts contain.\<close>

theorem signing_frame_injective:
  assumes "buildCloudRunControllerSigningFrame m p i e r d = Inr f"
    and "buildCloudRunControllerSigningFrame m' p' i' e' r' d' = Inr f"
  shows "map to_upper m = map to_upper m' \<and> p = p' \<and> i = i' \<and> e = e' \<and> r = r' \<and> d = d'"
proof -
  obtain fs gs where "frame_parts [map to_upper m, p, i, e, r, d] = Inr fs"
    "frame_parts [map to_upper m', p', i', e', r', d'] = Inr gs"
    "join_with ''|'' fs = join_with ''|'' gs"
    using assms by (auto simp only: buildCloudRunControllerSigningFrame_def res_bind_Inr_iff sum.inject)
  from frame_parts_join_unique [OF this(1,2) _ this(3)] show ?thesis by simp
qed

theorem signing_frame_injective_witness:
  "map to_upper ''post'' = map to_upper ''POST'' \<and> ''/v1|4:x'' = ''/v1|4:x''"
proof -
  have f: "buildCloudRunControllerSigningFrame m ''/v1|4:x'' ''1'' ''2'' ''3'' ''4''
      = Inr ''4:POST|7:/v1|4:x|1:1|1:2|1:3|1:4''" if "m = ''post'' \<or> m = ''POST''" for m
    using that by (elim disjE) (simp_all, code_simp+)
  show ?thesis
    using signing_frame_injective [OF f [of "''post''"] f [of "''POST''"]] by simp
qed

end
