(* ===== verification/Provider.thy ===== *)
theory Provider
  imports Complex_Main Contracts
begin

text \<open>
  apps/gpu-controller/src/provider.ts: the fixed Cloud Run job manifest, its canonical form and
  the comparison \<open>manifestsMatch\<close>, the job identifier derived from an execution handle, and
  the values the provider port returns. Three functions of the platform are parameters: SHA-256,
  the URL parser and the collation order behind \<open>localeCompare\<close>.
  Lemmas: sorting the entries of an object keeps each of them.
\<close>

section \<open>JSON and its canonical form\<close>

text \<open>\<open>JNum\<close> is a number that is an integer, \<open>JDec\<close> one that is not.\<close>

datatype json =
  JNull | JBool bool | JNum int | JDec rat | JStr string | JArr "json list" | JObj "(string \<times> json) list"

text \<open>\<open>JSON.stringify\<close> on strings and integers.\<close>

definition hex_digit :: "nat \<Rightarrow> char" where
  "hex_digit n = hex_chars ! n"

definition json_escape :: "char \<Rightarrow> string" where
  "json_escape c =
     (let n = of_char c :: nat; bs = char_of (92 :: nat) in
      if n = 34 \<or> n = 92 then [bs, c]
      else if n = 8 then [bs, CHR ''b'']
      else if n = 9 then [bs, CHR ''t'']
      else if n = 10 then [bs, CHR ''n'']
      else if n = 12 then [bs, CHR ''f'']
      else if n = 13 then [bs, CHR ''r'']
      else if n < 32 then [bs, CHR ''u'', CHR ''0'', CHR ''0'', hex_digit (n div 16), hex_digit (n mod 16)]
      else [c])"

definition json_quote :: char where
  "json_quote = char_of (34 :: nat)"

definition json_string :: "string \<Rightarrow> string" where
  "json_string s = json_quote # concat (map json_escape s) @ [json_quote]"

definition json_int :: "int \<Rightarrow> string" where
  "json_int n = (if n < 0 then CHR ''-'' # nat_string (nat (- n)) else nat_string (nat n))"

text \<open>
  \<open>entries.sort(([left], [right]) => left.localeCompare(right))\<close>: a stable sort by key. The
  parameter \<open>le\<close> says that \<open>left.localeCompare(right)\<close> is not positive.
\<close>

fun insert_entry ::
  "(string \<Rightarrow> string \<Rightarrow> bool) \<Rightarrow> string \<times> 'a \<Rightarrow> (string \<times> 'a) list \<Rightarrow> (string \<times> 'a) list" where
  "insert_entry le e [] = [e]"
| "insert_entry le e (f # fs) =
     (if le (fst e) (fst f) then e # f # fs else f # insert_entry le e fs)"

definition sort_entries ::
  "(string \<Rightarrow> string \<Rightarrow> bool) \<Rightarrow> (string \<times> 'a) list \<Rightarrow> (string \<times> 'a) list" where
  "sort_entries le es = foldr (insert_entry le) es []"

lemma set_insert_entry [simp]: "set (insert_entry le e fs) = insert e (set fs)"
  by (induction fs) auto

lemma set_sort_entries [simp]: "set (sort_entries le es) = set es"
  by (induction es) (simp_all add: sort_entries_def)

lemma size_entry [termination_simp]:
  "(k, v) \<in> set es \<Longrightarrow> size v < Suc (size_list (size_prod (\<lambda>_. 0) size) es)"
  by (induction es) auto

text \<open>
  A number that is not an integer occurs in no manifest and in no signed request; how \<open>JSON.stringify\<close> renders one is
  left unspecified.
\<close>

fun canonicalize :: "(string \<Rightarrow> string \<Rightarrow> bool) \<Rightarrow> json \<Rightarrow> string" where
  "canonicalize le (JArr xs) = ''['' @ join_with '','' (map (canonicalize le) xs) @ '']''"
| "canonicalize le (JObj es) =
     ''{'' @ join_with '','' (map (\<lambda>(k, v). json_string k @ '':'' @ canonicalize le v)
       (sort_entries le es)) @ ''}''"
| "canonicalize le JNull = ''null''"
| "canonicalize le (JBool b) = (if b then ''true'' else ''false'')"
| "canonicalize le (JNum n) = json_int n"
| "canonicalize le (JStr s) = json_string s"

definition manifestsMatch :: "(string \<Rightarrow> string \<Rightarrow> bool) \<Rightarrow> json \<Rightarrow> json \<Rightarrow> bool" where
  "manifestsMatch le left right \<longleftrightarrow> canonicalize le left = canonicalize le right"

section \<open>The fixed policy\<close>

record fixed_policy_configuration =
  fp_environment :: controller_environment
  fp_projectId :: string
  fp_imageDigest :: string
  fp_runtimeServiceAccount :: string
  fp_orchestratorOrigin :: string
  fp_resultHost :: string
  fp_sourceHost :: string

text \<open>What \<open>new URL(value)\<close> exposes; \<open>None\<close> when the value is no URL.\<close>

record parsed_url =
  url_protocol :: string
  url_username :: string
  url_password :: string
  url_pathname :: string
  url_origin :: string

text \<open>\<open>[a-z][a-z0-9-]{4,28}\<close>: project identifiers and account names.\<close>

definition project_id_ok :: "string \<Rightarrow> bool" where
  "project_id_ok s \<longleftrightarrow>
     5 \<le> length s \<and> length s \<le> 29 \<and> hd s \<in> set lower_chars \<and>
     all_in (lower_chars @ digit_chars @ ''-'') s"

definition image_part_ok :: "string \<Rightarrow> bool" where
  "image_part_ok s \<longleftrightarrow> s \<noteq> [] \<and> all_in (lower_chars @ digit_chars @ ''._-'') s"

definition digest_image_ok :: "string \<Rightarrow> bool" where
  "digest_image_ok s \<longleftrightarrow>
     (case split_on (CHR ''/'') s of
        [host, project, repository, img] \<Rightarrow>
          host = ''asia-southeast1-docker.pkg.dev'' \<and> project_id_ok project \<and>
          image_part_ok repository \<and>
          (case split_on (CHR ''@'') img of
             [name, digest] \<Rightarrow>
               image_part_ok name \<and> starts_with ''sha256:'' digest \<and>
               length digest = 71 \<and> all_in hex_chars (drop 7 digest)
           | _ \<Rightarrow> False)
      | _ \<Rightarrow> False)"

definition service_account_suffix :: string where
  "service_account_suffix = ''.iam.gserviceaccount.com''"

definition service_account_ok :: "string \<Rightarrow> bool" where
  "service_account_ok s \<longleftrightarrow>
     (case split_on (CHR ''@'') s of
        [name, domain] \<Rightarrow>
          project_id_ok name \<and> ends_with service_account_suffix domain \<and>
          project_id_ok (take (length domain - length service_account_suffix) domain)
      | _ \<Rightarrow> False)"

fun has_double_dot :: "string \<Rightarrow> bool" where
  "has_double_dot (a # b # s) \<longleftrightarrow> (a = CHR ''.'' \<and> b = CHR ''.'') \<or> has_double_dot (b # s)"
| "has_double_dot _ \<longleftrightarrow> False"

definition exact_hostname_ok :: "string \<Rightarrow> bool" where
  "exact_hostname_ok s \<longleftrightarrow>
     1 \<le> length s \<and> length s \<le> 253 \<and> hd s \<in> set (lower_chars @ digit_chars) \<and>
     last s \<in> set (lower_chars @ digit_chars) \<and>
     all_in (lower_chars @ digit_chars @ ''.-'') s \<and> \<not> has_double_dot s"

text \<open>\<open>originSchema\<close>: an https URL without credentials or path, replaced by its origin.\<close>

definition origin_parse :: "(string \<Rightarrow> parsed_url option) \<Rightarrow> string \<Rightarrow> string result" where
  "origin_parse parse_url v =
     (case parse_url v of
        None \<Rightarrow> Inl ZodError
      | Some url \<Rightarrow>
          if url_protocol url = ''https:'' \<and> url_username url = [] \<and> url_password url = [] \<and>
             url_pathname url = ''/''
          then Inr (url_origin url @ ''/'') else Inl ZodError)"

definition fixed_policy_parse ::
  "(string \<Rightarrow> parsed_url option) \<Rightarrow> fixed_policy_configuration \<Rightarrow> fixed_policy_configuration result" where
  "fixed_policy_parse parse_url c =
     res_bind (origin_parse parse_url (fp_orchestratorOrigin c)) (\<lambda>origin.
       if project_id_ok (fp_projectId c) \<and> digest_image_ok (fp_imageDigest c) \<and>
          service_account_ok (fp_runtimeServiceAccount c) \<and>
          exact_hostname_ok (fp_resultHost c) \<and> exact_hostname_ok (fp_sourceHost c)
       then Inr (c\<lparr>fp_orchestratorOrigin := origin\<rparr>) else Inl ZodError)"

definition env_entry :: "string \<Rightarrow> string \<Rightarrow> json" where
  "env_entry name v = JObj [(''name'', JStr name), (''value'', JStr v)]"

definition worker_container :: "fixed_policy_configuration \<Rightarrow> string \<Rightarrow> string \<Rightarrow> json" where
  "worker_container parsed executionHandle bootstrapRequestId =
     JObj [
       (''name'', JStr ''worker''),
       (''image'', JStr (fp_imageDigest parsed)),
       (''command'', JArr [JStr ''python'', JStr ''-m'', JStr ''scribe_drop_worker.one_shot'']),
       (''env'', JArr [
         env_entry ''APP_ENV'' (environment_name (fp_environment parsed)),
         env_entry ''SCRIBE_DROP_BOOTSTRAP_REQUEST_ID'' bootstrapRequestId,
         env_entry ''SCRIBE_DROP_EXECUTION_HANDLE'' executionHandle,
         env_entry ''SCRIBE_DROP_EXECUTION_POLICY'' CLOUD_RUN_RUNTIME_POLICY,
         env_entry ''SCRIBE_DROP_ORCHESTRATOR_ORIGIN'' (fp_orchestratorOrigin parsed),
         env_entry ''SCRIBE_DROP_IDENTITY_AUDIENCE''
           (fp_orchestratorOrigin parsed @ ''internal/cloud-run/bootstrap''),
         env_entry ''SCRIBE_DROP_SOURCE_HOST'' (fp_sourceHost parsed),
         env_entry ''SCRIBE_DROP_RESULT_HOST'' (fp_resultHost parsed)]),
       (''resources'', JObj [(''limits'', JObj [(''cpu'', JStr ''4''), (''memory'', JStr ''16Gi''),
         (''nvidia.com/gpu'', JStr ''1'')])]),
       (''volumeMounts'', JArr [JObj [(''name'', JStr ''scratch''), (''mountPath'', JStr ''/tmp'')]])]"

definition createFixedJobManifest ::
  "(string \<Rightarrow> parsed_url option) \<Rightarrow> fixed_policy_configuration \<Rightarrow> string \<Rightarrow> string \<Rightarrow> json result" where
  "createFixedJobManifest parse_url configuration executionHandle bootstrapRequestId =
     res_bind (fixed_policy_parse parse_url configuration) (\<lambda>parsed. Inr (
       JObj [
         (''binaryAuthorization'', JObj [(''useDefault'', JBool True)]),
         (''labels'', JObj [
           (''scribe-drop-environment'', JStr (environment_name (fp_environment parsed))),
           (''scribe-drop-policy'', JStr ''cloud-run-jobs-l4-v1'')]),
         (''template'', JObj [
           (''taskCount'', JNum 1),
           (''parallelism'', JNum 1),
           (''template'', JObj [
             (''containers'', JArr [worker_container parsed executionHandle bootstrapRequestId]),
             (''volumes'', JArr [JObj [(''name'', JStr ''scratch''),
               (''emptyDir'', JObj [(''medium'', JStr ''MEMORY''), (''sizeLimit'', JStr ''3Gi'')])]]),
             (''timeout'', JStr ''3300s''),
             (''serviceAccount'', JStr (fp_runtimeServiceAccount parsed)),
             (''executionEnvironment'', JStr ''EXECUTION_ENVIRONMENT_GEN2''),
             (''nodeSelector'', JObj [(''accelerator'', JStr ''nvidia-l4'')]),
             (''maxRetries'', JNum 0),
             (''gpuZonalRedundancyDisabled'', JBool True)])])]))"

text \<open>\<open>byte.toString(16).padStart(2, "0")\<close>.\<close>

definition hex_byte :: "8 word \<Rightarrow> string" where
  "hex_byte b = [hex_digit (unat b div 16), hex_digit (unat b mod 16)]"

definition deriveJobId ::
  "(string \<Rightarrow> 8 word list) \<Rightarrow> controller_environment \<Rightarrow> string \<Rightarrow> string" where
  "deriveJobId sha256 env executionHandle =
     (let digest = sha256 (environment_name env @ '':'' @ CLOUD_RUN_RUNTIME_POLICY @ '':''
            @ executionHandle);
          suffix = concat (map hex_byte (take 15 digest))
      in ''sd-'' @ (if env = staging then ''stg'' else ''prd'') @ ''-'' @ suffix)"

text \<open>\<open>jobId\<close> of \<open>controlRecordSchema\<close>: \<open>^sd-(?:stg|prd)-[a-f0-9]{30}$\<close>.\<close>

definition job_id_ok :: "string \<Rightarrow> bool" where
  "job_id_ok s \<longleftrightarrow>
     (starts_with ''sd-stg-'' s \<or> starts_with ''sd-prd-'' s) \<and> length s = 37 \<and>
     all_in hex_chars (drop 7 s)"

section \<open>What the provider port returns\<close>

datatype provider_error_kind = permanent_error | retryable_error_kind

datatype provider_mutation =
    Mutation_accepted string
  | Mutation_conflict
  | Mutation_rejected provider_error_kind
  | Mutation_unknown

record provider_job =
  pj_ref :: string
  pj_uid :: string
  pj_etag :: string
  pj_ready :: bool
  pj_manifest :: json

datatype provider_job_read = Job_found provider_job | Job_not_found | Job_unavailable

datatype provider_execution_status =
  exec_cancelled | exec_failed | exec_pending | exec_running | exec_succeeded

record provider_execution =
  px_ref :: string
  px_uid :: string
  px_etag :: string
  px_jobRef :: string
  px_status :: provider_execution_status

datatype provider_execution_list = Executions_found "provider_execution list" | Executions_unavailable

datatype provider_operation_read =
    Operation_pending
  | Operation_succeeded
  | Operation_failed provider_error_kind
  | Operation_unavailable

end
