(* ===== verification/ControlStore.thy ===== *)
theory ControlStore
  imports Provider
begin

text \<open>
  apps/gpu-controller/src/control-store.ts: the control record of an execution, the inputs and
  results of the store's operations, and the in-memory store. The interface \<open>ControlStore\<close> is
  the locale \<open>control_store\<close>: what a store promises about the records it holds, whatever it is
  made of. The in-memory store is an interpretation here, the Firestore store one in the theory
  FirestoreStore; the controller's properties are proved from the locale alone.
\<close>

section \<open>Records\<close>

datatype control_state =
    CREATE_INTENT | CREATE_UNKNOWN | JOB_PENDING | JOB_READY | RUN_INTENT | EXECUTION_PENDING
  | EXECUTION_RUNNING | EXECUTION_SUCCEEDED | EXECUTION_FAILED | CANCEL_PENDING
  | EXECUTION_CANCELLED | CLEANING_PENDING | CLEANED

record control_record =
  cr_bootstrapRequestId :: string
  cr_environment :: controller_environment
  cr_executionHandle :: string
  cr_jobId :: string
  cr_state :: control_state
  cr_version :: nat
  cr_createAttempts :: nat
  cr_runIntent :: bool
  cr_cancelIntent :: bool
  cr_cleanupIntent :: bool
  cr_job :: "provider_job option"
  cr_execution :: "provider_execution option"
  cr_operationRef :: "string option"
  cr_errorCode :: "controller_error_code option"
  cr_reservedWorstCaseJpy :: nat
  cr_createdAt :: string
  cr_updatedAt :: string
  cr_provisioningDeadline :: string
  cr_expiresAt :: string

record synthetic_authorization =
  sa_environment :: controller_environment
  sa_epoch :: string
  sa_validUntil :: string
  sa_maxExecutions :: nat
  sa_maxWorstCaseJpy :: nat
  sa_maxRequestsPerMinute :: nat
  sa_worstCaseJpyPerExecution :: nat

record request_identity =
  ri_requestId :: string
  ri_digest :: string
  ri_environment :: controller_environment
  ri_executionHandle :: string
  ri_action :: controller_action

record admit_create_input =
  ai_identity :: request_identity
  ai_jobId :: string
  ai_now :: string
  ai_provisioningDeadline :: string
  ai_recordExpiresAt :: string

record claim_request_input =
  ci_identity :: request_identity
  ci_expectedVersion :: nat
  ci_now :: string

datatype admit_create_result =
    Admit_accepted control_record
  | Admit_duplicate control_record
  | Admit_budget_exhausted
  | Admit_conflict
  | Admit_environment_mismatch
  | Admit_rate_limited

datatype claim_request_result =
    Claim_accepted control_record
  | Claim_duplicate control_record
  | Claim_conflict
  | Claim_environment_mismatch
  | Claim_not_found
  | Claim_rate_limited
  | Claim_stale control_record

text \<open>The operations of a store over its state \<open>'s\<close>.\<close>

record 's store_operations =
  so_admitCreate :: "'s \<Rightarrow> admit_create_input \<Rightarrow> (admit_create_result \<times> 's) result"
  so_claimRequest :: "'s \<Rightarrow> claim_request_input \<Rightarrow> (claim_request_result \<times> 's) result"
  so_compareAndSet :: "'s \<Rightarrow> nat \<Rightarrow> control_record \<Rightarrow> (bool \<times> 's) result"
  so_get :: "'s \<Rightarrow> string \<Rightarrow> control_record option result"
  so_listUnclean :: "'s \<Rightarrow> controller_environment \<Rightarrow> control_record list result"

text \<open>The record an accepted \<open>create\<close> starts from.\<close>

definition initial_record :: "admit_create_input \<Rightarrow> nat \<Rightarrow> control_record" where
  "initial_record i worstCaseJpy =
     \<lparr>cr_bootstrapRequestId = ri_requestId (ai_identity i),
      cr_environment = ri_environment (ai_identity i),
      cr_executionHandle = ri_executionHandle (ai_identity i),
      cr_jobId = ai_jobId i,
      cr_state = CREATE_INTENT,
      cr_version = 1,
      cr_createAttempts = 0,
      cr_runIntent = False,
      cr_cancelIntent = False,
      cr_cleanupIntent = False,
      cr_job = None,
      cr_execution = None,
      cr_operationRef = None,
      cr_errorCode = None,
      cr_reservedWorstCaseJpy = worstCaseJpy,
      cr_createdAt = ai_now i,
      cr_updatedAt = ai_now i,
      cr_provisioningDeadline = ai_provisioningDeadline i,
      cr_expiresAt = ai_recordExpiresAt i\<rparr>"

text \<open>The fields \<open>compareAndSet\<close> refuses to change.\<close>

definition same_binding :: "control_record \<Rightarrow> control_record \<Rightarrow> bool" where
  "same_binding next current \<longleftrightarrow>
     cr_environment next = cr_environment current \<and>
     cr_bootstrapRequestId next = cr_bootstrapRequestId current \<and>
     cr_jobId next = cr_jobId current \<and>
     cr_createdAt next = cr_createdAt current \<and>
     cr_reservedWorstCaseJpy next = cr_reservedWorstCaseJpy current"

lemma same_binding_refl [simp]: "same_binding r r"
  by (simp add: same_binding_def)

section \<open>The interface\<close>

text \<open>
  \<open>recs s\<close> is what the store holds, by execution handle; \<open>inv\<close> is the store's own invariant.
  The laws say what every client may rely on: an admission creates exactly one fresh record, a
  claim changes no record and hands out the current one at the expected version, a successful
  compare-and-set replaces the record at exactly that version by its successor, and nothing else
  changes a record.
\<close>

locale control_store =
  fixes ops :: "'s store_operations"
    and recs :: "'s \<Rightarrow> string \<Rightarrow> control_record option"
    and inv :: "'s \<Rightarrow> bool"
  assumes recs_handle: "inv s \<Longrightarrow> recs s h = Some r \<Longrightarrow> cr_executionHandle r = h"
    and admit_accepted:
      "inv s \<Longrightarrow> so_admitCreate ops s i = Inr (Admit_accepted r, s') \<Longrightarrow>
       recs s (ri_executionHandle (ai_identity i)) = None \<and> (\<exists>w. r = initial_record i w) \<and>
       recs s' = (recs s)(ri_executionHandle (ai_identity i) \<mapsto> r)"
    and admit_duplicate:
      "inv s \<Longrightarrow> so_admitCreate ops s i = Inr (Admit_duplicate r, s') \<Longrightarrow>
       recs s (ri_executionHandle (ai_identity i)) = Some r"
    and admit_unchanged:
      "inv s \<Longrightarrow> so_admitCreate ops s i = Inr (ares, s') \<Longrightarrow> \<forall>r. ares \<noteq> Admit_accepted r \<Longrightarrow>
       s' = s"
    and admit_inv: "inv s \<Longrightarrow> so_admitCreate ops s i = Inr (ares, s') \<Longrightarrow> inv s'"
    and claim_records: "inv s \<Longrightarrow> so_claimRequest ops s c = Inr (cres, s') \<Longrightarrow> recs s' = recs s"
    and claim_inv: "inv s \<Longrightarrow> so_claimRequest ops s c = Inr (cres, s') \<Longrightarrow> inv s'"
    and claim_accepted:
      "inv s \<Longrightarrow> so_claimRequest ops s c = Inr (Claim_accepted r, s') \<Longrightarrow>
       recs s (ri_executionHandle (ci_identity c)) = Some r \<and> cr_version r = ci_expectedVersion c"
    and claim_seen:
      "inv s \<Longrightarrow> so_claimRequest ops s c = Inr (cres, s') \<Longrightarrow>
       cres = Claim_duplicate r \<or> cres = Claim_stale r \<Longrightarrow>
       recs s (ri_executionHandle (ci_identity c)) = Some r"
    and cas_applied:
      "inv s \<Longrightarrow> so_compareAndSet ops s v r = Inr (True, s') \<Longrightarrow>
       \<exists>current. recs s (cr_executionHandle r) = Some current \<and> cr_version current = v \<and>
         cr_version r = v + 1 \<and> same_binding r current \<and>
         recs s' = (recs s)(cr_executionHandle r \<mapsto> r)"
    and cas_refused: "inv s \<Longrightarrow> so_compareAndSet ops s v r = Inr (False, s') \<Longrightarrow> s' = s"
    and cas_inv: "inv s \<Longrightarrow> so_compareAndSet ops s v r = Inr (ok, s') \<Longrightarrow> inv s'"
    and get_record: "inv s \<Longrightarrow> so_get ops s h = Inr x \<Longrightarrow> x = recs s h"
    and list_records:
      "inv s \<Longrightarrow> so_listUnclean ops s e = Inr rs \<Longrightarrow> r \<in> set rs \<Longrightarrow>
       recs s (cr_executionHandle r) = Some r \<and> cr_environment r = e \<and> cr_state r \<noteq> CLEANED"
begin

lemma admit_records:
  "inv s \<Longrightarrow> so_admitCreate ops s i = Inr (ares, s') \<Longrightarrow>
   recs s' = recs s \<or> (\<exists>r. ares = Admit_accepted r \<and>
     recs s' = (recs s)(ri_executionHandle (ai_identity i) \<mapsto> r))"
  using admit_accepted admit_unchanged by blast

lemma cas_version_Suc:
  "inv s \<Longrightarrow> so_compareAndSet ops s v r = Inr (True, s') \<Longrightarrow>
   \<exists>current. recs s (cr_executionHandle r) = Some current \<and> cr_version r = Suc (cr_version current)"
  using cas_applied by fastforce

end

section \<open>Runs of a store\<close>

text \<open>Any number of operations of any callers, one after the other.\<close>

inductive store_run :: "'s store_operations \<Rightarrow> 's \<Rightarrow> 's \<Rightarrow> bool" for ops where
  run_none: "store_run ops s s"
| run_admit: "store_run ops s t \<Longrightarrow> so_admitCreate ops t i = Inr (ares, u) \<Longrightarrow> store_run ops s u"
| run_claim: "store_run ops s t \<Longrightarrow> so_claimRequest ops t c = Inr (cres, u) \<Longrightarrow> store_run ops s u"
| run_cas: "store_run ops s t \<Longrightarrow> so_compareAndSet ops t v r = Inr (ok, u) \<Longrightarrow> store_run ops s u"

context control_store
begin

lemma run_inv: "store_run ops s t \<Longrightarrow> inv s \<Longrightarrow> inv t"
  by (induction rule: store_run.induct) (blast intro: admit_inv claim_inv cas_inv)+

text \<open>Versions never go back, a record never disappears, and its binding never changes.\<close>

lemma run_record:
  assumes "store_run ops s t" "inv s" "recs s h = Some r"
  shows "\<exists>r'. recs t h = Some r' \<and> cr_version r \<le> cr_version r' \<and> same_binding r' r"
  using assms
proof (induction rule: store_run.induct)
  case (run_none s)
  then show ?case by auto
next
  case (run_admit s t i ares u)
  then obtain r' where r': "recs t h = Some r'" "cr_version r \<le> cr_version r'" "same_binding r' r"
    by blast
  have "inv t" using run_admit run_inv by blast
  then have "recs u h = Some r'"
    using run_admit.hyps(2) r'(1) admit_records [of t i ares u] admit_accepted
    by (cases "\<exists>r. ares = Admit_accepted r") fastforce+
  with r' show ?case by blast
next
  case (run_claim s t c cres u)
  then show ?case using run_inv claim_records by metis
next
  case (run_cas s t v q ok u)
  then obtain r' where r': "recs t h = Some r'" "cr_version r \<le> cr_version r'" "same_binding r' r"
    by blast
  have inv: "inv t" using run_cas run_inv by blast
  show ?case
  proof (cases ok)
    case True
    then have "\<exists>current. recs t (cr_executionHandle q) = Some current \<and> cr_version current = v \<and>
        cr_version q = v + 1 \<and> same_binding q current \<and>
        recs u = (recs t)(cr_executionHandle q \<mapsto> q)"
      using run_cas.hyps(2) inv cas_applied by simp
    with r' show ?thesis
      by (cases "cr_executionHandle q = h") (auto simp: same_binding_def)
  next
    case False
    then have "u = t" using run_cas.hyps(2) inv cas_refused by simp
    with r' show ?thesis by blast
  qed
qed

end

section \<open>The in-memory store\<close>

text \<open>\<open>RememberedRequest\<close>: the identity and the time of acceptance.\<close>

record remembered_request =
  rr_identity :: request_identity
  rr_acceptedAt :: string

record memory_store =
  ms_authorizations :: "controller_environment \<Rightarrow> synthetic_authorization"
  ms_records :: "(string \<times> control_record) list"
  ms_requests :: "(string \<times> remembered_request) list"

definition sameRequest :: "remembered_request \<Rightarrow> request_identity \<Rightarrow> bool" where
  "sameRequest left right \<longleftrightarrow>
     ri_digest (rr_identity left) = ri_digest right \<and>
     ri_environment (rr_identity left) = ri_environment right \<and>
     ri_executionHandle (rr_identity left) = ri_executionHandle right \<and>
     ri_action (rr_identity left) = ri_action right"

definition is_rate_limited :: "memory_store \<Rightarrow> controller_environment \<Rightarrow> jsnum \<Rightarrow> nat \<Rightarrow> bool" where
  "is_rate_limited s env now maxRequestsPerMinute \<longleftrightarrow>
     maxRequestsPerMinute = 0 \<or>
     (let windowStart = num_add now (- 60000);
          count = length (filter (\<lambda>q. ri_environment (rr_identity q) = env
            \<and> num_less windowStart (date_parse (rr_acceptedAt q))) (map snd (ms_requests s)))
      in maxRequestsPerMinute \<le> count)"

definition environment_records :: "memory_store \<Rightarrow> controller_environment \<Rightarrow> control_record list" where
  "environment_records s env = filter (\<lambda>r. cr_environment r = env) (map snd (ms_records s))"

definition mem_admitCreate ::
  "memory_store \<Rightarrow> admit_create_input \<Rightarrow> (admit_create_result \<times> memory_store) result" where
  "mem_admitCreate s input =
     (let ident = ai_identity input in
      case map_of (ms_requests s) (ri_requestId ident) of
        Some remembered \<Rightarrow>
          (case map_of (ms_records s) (ri_executionHandle (rr_identity remembered)) of
             Some r \<Rightarrow> if sameRequest remembered ident then Inr (Admit_duplicate r, s)
                      else Inr (Admit_conflict, s)
           | None \<Rightarrow> Inr (Admit_conflict, s))
      | None \<Rightarrow>
          if map_of (ms_records s) (ri_executionHandle ident) \<noteq> None then Inr (Admit_conflict, s)
          else
            let authorization = ms_authorizations s (ri_environment ident);
                now = date_parse (ai_now input);
                existing = environment_records s (ri_environment ident);
                active = length (filter (\<lambda>r. cr_state r \<noteq> CLEANED) existing);
                reservedCount = length existing;
                reservedJpy = sum_list (map cr_reservedWorstCaseJpy existing)
            in
              if sa_environment authorization \<noteq> ri_environment ident then
                Inr (Admit_environment_mismatch, s)
              else if \<not> is_finite_num now
                \<or> num_less (date_parse (sa_validUntil authorization)) now
                \<or> 1 \<le> active
                \<or> sa_maxExecutions authorization \<le> reservedCount
                \<or> sa_worstCaseJpyPerExecution authorization = 0
                \<or> sa_maxWorstCaseJpy authorization
                    < reservedJpy + sa_worstCaseJpyPerExecution authorization
              then Inr (Admit_budget_exhausted, s)
              else if is_rate_limited s (ri_environment ident) now
                  (sa_maxRequestsPerMinute authorization)
              then Inr (Admit_rate_limited, s)
              else
                let r = initial_record input (sa_worstCaseJpyPerExecution authorization)
                in Inr (Admit_accepted r,
                     s\<lparr>ms_records := AList.update (ri_executionHandle ident) r (ms_records s),
                       ms_requests := AList.update (ri_requestId ident)
                         \<lparr>rr_identity = ident, rr_acceptedAt = ai_now input\<rparr> (ms_requests s)\<rparr>))"

definition mem_claimRequest ::
  "memory_store \<Rightarrow> claim_request_input \<Rightarrow> (claim_request_result \<times> memory_store) result" where
  "mem_claimRequest s input =
     (let ident = ci_identity input in
      case map_of (ms_requests s) (ri_requestId ident) of
        Some remembered \<Rightarrow>
          (case map_of (ms_records s) (ri_executionHandle (rr_identity remembered)) of
             Some r \<Rightarrow> if sameRequest remembered ident then Inr (Claim_duplicate r, s)
                      else Inr (Claim_conflict, s)
           | None \<Rightarrow> Inr (Claim_conflict, s))
      | None \<Rightarrow>
          (case map_of (ms_records s) (ri_executionHandle ident) of
             None \<Rightarrow> Inr (Claim_not_found, s)
           | Some r \<Rightarrow>
               if cr_environment r \<noteq> ri_environment ident then Inr (Claim_environment_mismatch, s)
               else if cr_version r \<noteq> ci_expectedVersion input then Inr (Claim_stale r, s)
               else
                 let now = date_parse (ci_now input);
                     authorization = ms_authorizations s (ri_environment ident)
                 in
                   if \<not> is_finite_num now
                     \<or> is_rate_limited s (ri_environment ident) now
                         (sa_maxRequestsPerMinute authorization)
                   then Inr (Claim_rate_limited, s)
                   else Inr (Claim_accepted r,
                     s\<lparr>ms_requests := AList.update (ri_requestId ident)
                         \<lparr>rr_identity = ident, rr_acceptedAt = ci_now input\<rparr> (ms_requests s)\<rparr>)))"

definition mem_compareAndSet ::
  "memory_store \<Rightarrow> nat \<Rightarrow> control_record \<Rightarrow> (bool \<times> memory_store) result" where
  "mem_compareAndSet s expectedVersion r =
     (case map_of (ms_records s) (cr_executionHandle r) of
        None \<Rightarrow> Inr (False, s)
      | Some current \<Rightarrow>
          if cr_version current \<noteq> expectedVersion
            \<or> cr_version r \<noteq> expectedVersion + 1
            \<or> \<not> same_binding r current
          then Inr (False, s)
          else Inr (True, s\<lparr>ms_records := AList.update (cr_executionHandle r) r (ms_records s)\<rparr>))"

definition mem_get :: "memory_store \<Rightarrow> string \<Rightarrow> control_record option result" where
  "mem_get s executionHandle = Inr (map_of (ms_records s) executionHandle)"

definition mem_listUnclean :: "memory_store \<Rightarrow> controller_environment \<Rightarrow> control_record list result" where
  "mem_listUnclean s env =
     Inr (filter (\<lambda>r. cr_environment r = env \<and> cr_state r \<noteq> CLEANED) (map snd (ms_records s)))"

definition memory_operations :: "memory_store store_operations" where
  "memory_operations =
     \<lparr>so_admitCreate = mem_admitCreate, so_claimRequest = mem_claimRequest,
      so_compareAndSet = mem_compareAndSet, so_get = mem_get, so_listUnclean = mem_listUnclean\<rparr>"

definition disabled_authorization :: "controller_environment \<Rightarrow> synthetic_authorization" where
  "disabled_authorization env =
     \<lparr>sa_environment = env, sa_epoch = ''disabled'', sa_validUntil = ''1970-01-01T00:00:00.000Z'',
      sa_maxExecutions = 0, sa_maxWorstCaseJpy = 0, sa_maxRequestsPerMinute = 0,
      sa_worstCaseJpyPerExecution = 0\<rparr>"

text \<open>\<open>defaultSyntheticAuthorizations\<close> and the store the constructor builds.\<close>

definition defaultSyntheticAuthorizations :: "controller_environment \<Rightarrow> synthetic_authorization" where
  "defaultSyntheticAuthorizations = disabled_authorization"

definition new_memory_store ::
  "(controller_environment \<Rightarrow> synthetic_authorization) \<Rightarrow> memory_store" where
  "new_memory_store authorizations =
     \<lparr>ms_authorizations = authorizations, ms_records = [], ms_requests = []\<rparr>"

lemmas memory_defs = mem_admitCreate_def mem_claimRequest_def mem_compareAndSet_def mem_get_def
  mem_listUnclean_def memory_operations_def

section \<open>The in-memory store implements the interface\<close>

definition mem_record :: "memory_store \<Rightarrow> string \<Rightarrow> control_record option" where
  "mem_record s = map_of (ms_records s)"

text \<open>Every record is filed under its own execution handle, once.\<close>

definition mem_inv :: "memory_store \<Rightarrow> bool" where
  "mem_inv s \<longleftrightarrow>
     distinct (map fst (ms_records s)) \<and>
     list_all (\<lambda>(h, r). cr_executionHandle r = h) (ms_records s)"

lemma mem_inv_new: "mem_inv (new_memory_store a)"
  by (simp add: mem_inv_def new_memory_store_def)

lemma mem_inv_record: "mem_inv s \<Longrightarrow> map_of (ms_records s) h = Some r \<Longrightarrow> cr_executionHandle r = h"
  by (fastforce simp: mem_inv_def list_all_iff dest: map_of_SomeD)

lemma keyed_update:
  "list_all (\<lambda>(h, r). cr_executionHandle r = h) xs \<Longrightarrow> cr_executionHandle r = h \<Longrightarrow>
   list_all (\<lambda>(h, r). cr_executionHandle r = h) (AList.update h r xs)"
  by (induction xs) (auto split: if_splits)

lemma mem_inv_put:
  "mem_inv s \<Longrightarrow> cr_executionHandle r = h \<Longrightarrow>
   mem_inv (s\<lparr>ms_records := AList.update h r (ms_records s), ms_requests := q\<rparr>)"
  "mem_inv s \<Longrightarrow> cr_executionHandle r = h \<Longrightarrow>
   mem_inv (s\<lparr>ms_records := AList.update h r (ms_records s)\<rparr>)"
  "mem_inv s \<Longrightarrow> mem_inv (s\<lparr>ms_requests := q\<rparr>)"
  by (simp_all add: mem_inv_def distinct_keys_update keyed_update)

lemma mem_listed:
  "mem_inv s \<Longrightarrow> r \<in> snd ` set (ms_records s) \<Longrightarrow> map_of (ms_records s) (cr_executionHandle r) = Some r"
  by (fastforce simp: mem_inv_def list_all_iff)

lemma initial_record_simps [simp]:
  "cr_executionHandle (initial_record i w) = ri_executionHandle (ai_identity i)"
  "cr_environment (initial_record i w) = ri_environment (ai_identity i)"
  "cr_state (initial_record i w) = CREATE_INTENT"
  "cr_version (initial_record i w) = 1"
  "cr_createAttempts (initial_record i w) = 0"
  "\<not> cr_runIntent (initial_record i w)"
  "\<not> cr_cancelIntent (initial_record i w)"
  "\<not> cr_cleanupIntent (initial_record i w)"
  "cr_job (initial_record i w) = None"
  "cr_execution (initial_record i w) = None"
  "cr_operationRef (initial_record i w) = None"
  "cr_reservedWorstCaseJpy (initial_record i w) = w"
  "cr_jobId (initial_record i w) = ai_jobId i"
  by (simp_all add: initial_record_def)

lemma sameRequest_handle:
  "sameRequest q i \<Longrightarrow> ri_executionHandle (rr_identity q) = ri_executionHandle i"
  by (simp add: sameRequest_def)

text \<open>What each operation does, by its outcome.\<close>

lemma mem_admit_accepted:
  "mem_admitCreate s i = Inr (Admit_accepted r, s') \<Longrightarrow>
   map_of (ms_records s) (ri_executionHandle (ai_identity i)) = None \<and>
   r = initial_record i (sa_worstCaseJpyPerExecution
         (ms_authorizations s (ri_environment (ai_identity i)))) \<and>
   s' = s\<lparr>ms_records := AList.update (ri_executionHandle (ai_identity i)) r (ms_records s),
          ms_requests := AList.update (ri_requestId (ai_identity i))
            \<lparr>rr_identity = ai_identity i, rr_acceptedAt = ai_now i\<rparr> (ms_requests s)\<rparr>"
  by (auto simp: mem_admitCreate_def Let_def split: option.splits if_splits)

lemma mem_admit_duplicate:
  "mem_admitCreate s i = Inr (Admit_duplicate r, s') \<Longrightarrow>
   map_of (ms_records s) (ri_executionHandle (ai_identity i)) = Some r"
  by (auto simp: mem_admitCreate_def Let_def dest: sameRequest_handle
      split: option.splits if_splits)

lemma mem_admit_unchanged:
  "mem_admitCreate s i = Inr (res, s') \<Longrightarrow> \<forall>r. res \<noteq> Admit_accepted r \<Longrightarrow> s' = s"
  by (auto simp: mem_admitCreate_def Let_def split: option.splits if_splits)

lemma mem_claim_accepted:
  "mem_claimRequest s c = Inr (Claim_accepted r, s') \<Longrightarrow>
   map_of (ms_records s) (ri_executionHandle (ci_identity c)) = Some r \<and>
   cr_version r = ci_expectedVersion c"
  by (auto simp: mem_claimRequest_def Let_def split: option.splits if_splits)

lemma mem_claim_seen:
  "mem_claimRequest s c = Inr (res, s') \<Longrightarrow> res = Claim_duplicate r \<or> res = Claim_stale r \<Longrightarrow>
   map_of (ms_records s) (ri_executionHandle (ci_identity c)) = Some r"
  by (auto simp: mem_claimRequest_def Let_def dest: sameRequest_handle
      split: option.splits if_splits)

lemma mem_claim_state:
  "mem_claimRequest s c = Inr (res, s') \<Longrightarrow> s' = s \<or> (\<exists>q. s' = s\<lparr>ms_requests := q\<rparr>)"
  by (auto simp: mem_claimRequest_def Let_def split: option.splits if_splits)

lemma mem_cas_applied:
  "mem_compareAndSet s v r = Inr (True, s') \<Longrightarrow>
   \<exists>current. map_of (ms_records s) (cr_executionHandle r) = Some current \<and>
     cr_version current = v \<and> cr_version r = v + 1 \<and> same_binding r current \<and>
     s' = s\<lparr>ms_records := AList.update (cr_executionHandle r) r (ms_records s)\<rparr>"
  by (auto simp: mem_compareAndSet_def split: option.splits if_splits)

lemma mem_cas_refused: "mem_compareAndSet s v r = Inr (False, s') \<Longrightarrow> s' = s"
  by (auto simp: mem_compareAndSet_def split: option.splits if_splits)

interpretation mem: control_store memory_operations mem_record mem_inv
proof unfold_locales
  show "mem_inv s \<Longrightarrow> mem_record s h = Some r \<Longrightarrow> cr_executionHandle r = h" for s h r
    by (simp add: mem_record_def mem_inv_record)
  show "mem_inv s \<Longrightarrow> so_admitCreate memory_operations s i = Inr (Admit_accepted r, s') \<Longrightarrow>
      mem_record s (ri_executionHandle (ai_identity i)) = None \<and> (\<exists>w. r = initial_record i w) \<and>
      mem_record s' = (mem_record s)(ri_executionHandle (ai_identity i) \<mapsto> r)" for s i r s'
    by (auto simp: memory_operations_def mem_record_def dest: mem_admit_accepted)
  show "mem_inv s \<Longrightarrow> so_admitCreate memory_operations s i = Inr (ares, s') \<Longrightarrow> mem_inv s'"
    for s i ares s'
    by (cases "\<exists>r. ares = Admit_accepted r")
      (auto simp: memory_operations_def mem_inv_put
        dest: mem_admit_accepted dest: mem_admit_unchanged)
  show "mem_inv s \<Longrightarrow> so_claimRequest memory_operations s c = Inr (cres, s') \<Longrightarrow>
      mem_record s' = mem_record s" for s c cres s'
    by (auto simp: memory_operations_def mem_record_def dest: mem_claim_state)
  show "mem_inv s \<Longrightarrow> so_claimRequest memory_operations s c = Inr (cres, s') \<Longrightarrow> mem_inv s'"
    for s c cres s'
    by (auto simp: memory_operations_def mem_inv_put dest: mem_claim_state)
  show "mem_inv s \<Longrightarrow> so_compareAndSet memory_operations s v r = Inr (True, s') \<Longrightarrow>
      \<exists>current. mem_record s (cr_executionHandle r) = Some current \<and> cr_version current = v \<and>
        cr_version r = v + 1 \<and> same_binding r current \<and>
        mem_record s' = (mem_record s)(cr_executionHandle r \<mapsto> r)" for s v r s'
    by (auto simp: memory_operations_def mem_record_def dest!: mem_cas_applied)
  show "mem_inv s \<Longrightarrow> so_compareAndSet memory_operations s v r = Inr (ok, s') \<Longrightarrow> mem_inv s'"
    for s v r ok s'
    by (cases ok) (auto simp: memory_operations_def mem_inv_put
        dest: mem_cas_refused dest!: mem_cas_applied)
  show "mem_inv s \<Longrightarrow> so_listUnclean memory_operations s e = Inr rs \<Longrightarrow> r \<in> set rs \<Longrightarrow>
      mem_record s (cr_executionHandle r) = Some r \<and> cr_environment r = e \<and> cr_state r \<noteq> CLEANED"
    for s e rs r
    by (auto simp: memory_operations_def mem_listUnclean_def mem_record_def
        intro: mem_listed rev_image_eqI)
qed (auto simp: memory_operations_def mem_record_def mem_get_def
    dest: mem_admit_duplicate mem_admit_unchanged mem_claim_accepted mem_claim_seen mem_cas_refused)

end
