(* ===== verification/ControllerProgram.thy ===== *)
theory ControllerProgram
  imports ControlStore
begin

text \<open>
  The form of the controller's asynchronous methods (apps/gpu-controller/src/controller-service.ts).
  A method is a program: a tree whose nodes are the calls it awaits, each with a continuation for
  the answer. The calls are those of the three ports the class is constructed with: the clock, the
  control store and the Cloud Run Admin API. Between two calls a method runs without
  interruption; at a call, other requests may run. \<open>prog_bind\<close> is \<open>await\<close> of another method.
  Here are also the values a program can return (\<open>outcomes\<close>) and what it can do on the way,
  whatever the answers.
\<close>

datatype (dead 'a) prog =
    Return 'a
  | Throw js_error
  | Now "int \<Rightarrow> 'a prog"
  | Admit admit_create_input "admit_create_result \<Rightarrow> 'a prog"
  | Claim claim_request_input "claim_request_result \<Rightarrow> 'a prog"
  | Cas nat control_record "bool \<Rightarrow> 'a prog"
  | Get string "control_record option \<Rightarrow> 'a prog"
  | ListUnclean controller_environment "control_record list \<Rightarrow> 'a prog"
  | CreateJob string json "provider_mutation \<Rightarrow> 'a prog"
  | RunJob provider_job "provider_mutation \<Rightarrow> 'a prog"
  | CancelExecution provider_execution "provider_mutation \<Rightarrow> 'a prog"
  | DeleteExecution provider_execution "provider_mutation \<Rightarrow> 'a prog"
  | DeleteJob provider_job "provider_mutation \<Rightarrow> 'a prog"
  | GetJob string "provider_job_read \<Rightarrow> 'a prog"
  | GetOperation string "provider_operation_read \<Rightarrow> 'a prog"
  | ListExecutions string "provider_execution_list \<Rightarrow> 'a prog"

primrec prog_bind :: "'a prog \<Rightarrow> ('a \<Rightarrow> 'b prog) \<Rightarrow> 'b prog" where
  "prog_bind (Return x) f = f x"
| "prog_bind (Throw e) f = Throw e"
| "prog_bind (Now k) f = Now (\<lambda>x. prog_bind (k x) f)"
| "prog_bind (Admit i k) f = Admit i (\<lambda>x. prog_bind (k x) f)"
| "prog_bind (Claim i k) f = Claim i (\<lambda>x. prog_bind (k x) f)"
| "prog_bind (Cas v r k) f = Cas v r (\<lambda>x. prog_bind (k x) f)"
| "prog_bind (Get h k) f = Get h (\<lambda>x. prog_bind (k x) f)"
| "prog_bind (ListUnclean e k) f = ListUnclean e (\<lambda>x. prog_bind (k x) f)"
| "prog_bind (CreateJob j m k) f = CreateJob j m (\<lambda>x. prog_bind (k x) f)"
| "prog_bind (RunJob j k) f = RunJob j (\<lambda>x. prog_bind (k x) f)"
| "prog_bind (CancelExecution e k) f = CancelExecution e (\<lambda>x. prog_bind (k x) f)"
| "prog_bind (DeleteExecution e k) f = DeleteExecution e (\<lambda>x. prog_bind (k x) f)"
| "prog_bind (DeleteJob j k) f = DeleteJob j (\<lambda>x. prog_bind (k x) f)"
| "prog_bind (GetJob j k) f = GetJob j (\<lambda>x. prog_bind (k x) f)"
| "prog_bind (GetOperation r k) f = GetOperation r (\<lambda>x. prog_bind (k x) f)"
| "prog_bind (ListExecutions j k) f = ListExecutions j (\<lambda>x. prog_bind (k x) f)"

text \<open>What a program can return, over all answers to its calls.\<close>

primrec outcomes :: "'a prog \<Rightarrow> 'a set" where
  "outcomes (Return x) = {x}"
| "outcomes (Throw e) = {}"
| "outcomes (Now k) = (\<Union>x. outcomes (k x))"
| "outcomes (Admit i k) = (\<Union>x. outcomes (k x))"
| "outcomes (Claim i k) = (\<Union>x. outcomes (k x))"
| "outcomes (Cas v r k) = (\<Union>x. outcomes (k x))"
| "outcomes (Get h k) = (\<Union>x. outcomes (k x))"
| "outcomes (ListUnclean e k) = (\<Union>x. outcomes (k x))"
| "outcomes (CreateJob j m k) = (\<Union>x. outcomes (k x))"
| "outcomes (RunJob j k) = (\<Union>x. outcomes (k x))"
| "outcomes (CancelExecution e k) = (\<Union>x. outcomes (k x))"
| "outcomes (DeleteExecution e k) = (\<Union>x. outcomes (k x))"
| "outcomes (DeleteJob j k) = (\<Union>x. outcomes (k x))"
| "outcomes (GetJob j k) = (\<Union>x. outcomes (k x))"
| "outcomes (GetOperation r k) = (\<Union>x. outcomes (k x))"
| "outcomes (ListExecutions j k) = (\<Union>x. outcomes (k x))"

lemma prog_bind_eqI: "\<forall>x \<in> outcomes m. f x = g x \<Longrightarrow> prog_bind m f = prog_bind m g"
  by (induction m) (auto simp: fun_eq_iff)

lemma prog_bind_cong [fundef_cong]:
  "m = n \<Longrightarrow> (\<And>x. x \<in> outcomes n \<Longrightarrow> f x = g x) \<Longrightarrow> prog_bind m f = prog_bind n g"
  using prog_bind_eqI [of n f g] by simp

lemma outcomes_bind: "outcomes (prog_bind m f) = (\<Union>x \<in> outcomes m. outcomes (f x))"
  by (induction m) auto

lemma prog_bind_assoc: "prog_bind (prog_bind m f) g = prog_bind m (\<lambda>x. prog_bind (f x) g)"
  by (induction m) auto

definition from_result :: "'a result \<Rightarrow> 'a prog" where
  "from_result r = (case r of Inl e \<Rightarrow> Throw e | Inr x \<Rightarrow> Return x)"

lemma from_result_simps [simp]:
  "from_result (Inl e) = Throw e" "from_result (Inr x) = Return x"
  by (simp_all add: from_result_def)

lemma outcomes_from_result [simp]: "x \<in> outcomes (from_result r) \<longleftrightarrow> r = Inr x"
  by (cases r) auto

end
