(* ===== verification/ControllerService.thy ===== *)
theory ControllerService
  imports ControllerProgram
begin

text \<open>
  apps/gpu-controller/src/controller-service.ts: the class \<open>GpuControllerService\<close>, one program per
  method. A partial record of changes is an update function on control records. The clock is read
  where the code reads it. \<open>send_create\<close> and \<open>reconcile_job\<close> call each other; they terminate
  because a create attempt is counted before it is made and at most two are allowed.
  The platform functions (URL parser, collation order, SHA-256) are fields of the configuration.
\<close>

section \<open>Configuration\<close>

record service_configuration =
  sv_environment :: controller_environment
  sv_policy :: fixed_policy_configuration
  sv_parse_url :: "string \<Rightarrow> parsed_url option"
  sv_collate :: "string \<Rightarrow> string \<Rightarrow> bool"
  sv_sha256 :: "string \<Rightarrow> 8 word list"

definition PROVISIONING_WINDOW_MS :: int where
  "PROVISIONING_WINDOW_MS = 300000"

definition CREATE_RECONCILIATION_DELAY_MS :: int where
  "CREATE_RECONCILIATION_DELAY_MS = 5000"

definition RECORD_TTL_MS :: int where
  "RECORD_TTL_MS = 31 * 24 * 60 * 60000"

text \<open>The constructor: the policy must be for the service's environment.\<close>

definition new_service :: "service_configuration \<Rightarrow> service_configuration result" where
  "new_service c =
     (if fp_environment (sv_policy c) \<noteq> sv_environment c then
        Inl (JsError ''controller policy environment mismatch'')
      else Inr c)"

definition expected_manifest :: "service_configuration \<Rightarrow> control_record \<Rightarrow> json result" where
  "expected_manifest c r =
     createFixedJobManifest (sv_parse_url c) (sv_policy c) (cr_executionHandle r)
       (cr_bootstrapRequestId r)"

section \<open>Updates\<close>

definition next_record ::
  "(control_record \<Rightarrow> control_record) \<Rightarrow> control_record \<Rightarrow> int \<Rightarrow> control_record" where
  "next_record changes r t =
     (changes r)\<lparr>cr_version := cr_version r + 1, cr_updatedAt := to_iso t\<rparr>"

definition try_update ::
  "control_record \<Rightarrow> (control_record \<Rightarrow> control_record) \<Rightarrow> (bool \<times> control_record) prog" where
  "try_update r changes =
     Now (\<lambda>t. let next = next_record changes r t in
       Cas (cr_version r) next (\<lambda>applied.
         if applied then Return (True, next)
         else Get (cr_executionHandle r) (\<lambda>current.
           case current of
             None \<Rightarrow> Throw (JsError ''control record disappeared'')
           | Some q \<Rightarrow> Return (False, q))))"

definition update ::
  "control_record \<Rightarrow> (control_record \<Rightarrow> control_record) \<Rightarrow> control_record prog" where
  "update r changes = prog_bind (try_update r changes) (\<lambda>u. Return (snd u))"

definition kind_error :: "provider_error_kind \<Rightarrow> controller_error_code" where
  "kind_error k =
     (case k of retryable_error_kind \<Rightarrow> PROVIDER_RETRYABLE | permanent_error \<Rightarrow> PROVIDER_PERMANENT)"

section \<open>Executions\<close>

fun cancel_each :: "provider_execution list \<Rightarrow> 'a prog \<Rightarrow> 'a prog" where
  "cancel_each [] p = p"
| "cancel_each (e # es) p = CancelExecution e (\<lambda>_. cancel_each es p)"

definition execution_state :: "provider_execution_status \<Rightarrow> control_state" where
  "execution_state s = (case s of
     exec_pending \<Rightarrow> EXECUTION_PENDING
   | exec_running \<Rightarrow> EXECUTION_RUNNING
   | exec_succeeded \<Rightarrow> EXECUTION_SUCCEEDED
   | exec_failed \<Rightarrow> EXECUTION_FAILED
   | exec_cancelled \<Rightarrow> EXECUTION_CANCELLED)"

definition handle_execution_list ::
  "control_record \<Rightarrow> provider_execution list \<Rightarrow> control_record prog" where
  "handle_execution_list r executions =
     (case executions of
        [] \<Rightarrow> update r (\<lambda>r. r\<lparr>cr_state := EXECUTION_PENDING, cr_errorCode := None\<rparr>)
      | [execution] \<Rightarrow>
          if Some (px_jobRef execution) \<noteq> map_option pj_ref (cr_job r) then
            CancelExecution execution (\<lambda>_.
              update r (\<lambda>r. r\<lparr>cr_state := EXECUTION_FAILED, cr_cleanupIntent := True,
                cr_errorCode := Some RESOURCE_DRIFT\<rparr>))
          else
            update r (\<lambda>r. r\<lparr>cr_state := execution_state (px_status execution),
              cr_execution := Some execution,
              cr_errorCode := (if px_status execution = exec_failed
                then Some PROVIDER_PERMANENT else None)\<rparr>)
      | _ \<Rightarrow>
          cancel_each executions
            (update r (\<lambda>r. r\<lparr>cr_state := EXECUTION_FAILED, cr_cleanupIntent := True,
               cr_errorCode := Some MULTIPLE_EXECUTIONS\<rparr>)))"

definition observe_execution :: "control_record \<Rightarrow> control_record prog" where
  "observe_execution r =
     ListExecutions (cr_jobId r) (\<lambda>result. case result of
       Executions_unavailable \<Rightarrow> update r (\<lambda>r. r\<lparr>cr_errorCode := Some UNKNOWN_OUTCOME\<rparr>)
     | Executions_found executions \<Rightarrow> handle_execution_list r executions)"

definition record_run_mutation :: "control_record \<Rightarrow> provider_mutation \<Rightarrow> control_record prog" where
  "record_run_mutation r result =
     (case result of
        Mutation_accepted operationRef \<Rightarrow>
          update r (\<lambda>r. r\<lparr>cr_state := EXECUTION_PENDING, cr_operationRef := Some operationRef,
            cr_errorCode := None\<rparr>)
      | Mutation_unknown \<Rightarrow>
          update r (\<lambda>r. r\<lparr>cr_state := EXECUTION_PENDING, cr_errorCode := Some UNKNOWN_OUTCOME\<rparr>)
      | Mutation_conflict \<Rightarrow>
          update r (\<lambda>r. r\<lparr>cr_state := EXECUTION_FAILED, cr_errorCode := Some CONFLICT\<rparr>)
      | Mutation_rejected errorKind \<Rightarrow>
          update r (\<lambda>r. r\<lparr>cr_state := EXECUTION_FAILED,
            cr_errorCode := Some (kind_error errorKind)\<rparr>))"

text \<open>
  The end of \<open>reconcileJob\<close>: the job exists, its manifest matches and it is ready; \<open>current\<close> is
  the record after storing it.
\<close>

definition start_run :: "control_record \<Rightarrow> control_record prog" where
  "start_run current =
     ListExecutions (cr_jobId current) (\<lambda>executions. case executions of
       Executions_unavailable \<Rightarrow> update current (\<lambda>r. r\<lparr>cr_errorCode := Some UNKNOWN_OUTCOME\<rparr>)
     | Executions_found es \<Rightarrow>
         if es \<noteq> [] then handle_execution_list current es
         else
           prog_bind (try_update current (\<lambda>r. r\<lparr>cr_state := RUN_INTENT, cr_runIntent := True\<rparr>))
             (\<lambda>(applied, current).
               case cr_job current of
                 None \<Rightarrow> Return current
               | Some job \<Rightarrow>
                   if \<not> applied then Return current
                   else RunJob job (\<lambda>result. record_run_mutation current result)))"

definition accept_job ::
  "service_configuration \<Rightarrow> control_record \<Rightarrow> bool \<Rightarrow> provider_job \<Rightarrow> control_record prog" where
  "accept_job c r allowRun job =
     prog_bind (from_result (expected_manifest c r)) (\<lambda>expected.
       if \<not> manifestsMatch (sv_collate c) expected (pj_manifest job) then
         update r (\<lambda>r. r\<lparr>cr_state := EXECUTION_FAILED, cr_job := Some job, cr_cleanupIntent := True,
           cr_errorCode := Some RESOURCE_DRIFT\<rparr>)
       else
         prog_bind (update r (\<lambda>r. r\<lparr>cr_state := (if pj_ready job then JOB_READY else JOB_PENDING),
             cr_job := Some job, cr_errorCode := None\<rparr>))
           (\<lambda>current.
             if \<not> pj_ready job \<or> \<not> allowRun \<or> cr_runIntent current then Return current
             else start_run current))"

text \<open>\<open>operationFailed\<close> of \<open>reconcileJob\<close>: the failure of the pending operation, if it has one.\<close>

definition operation_failure ::
  "control_record \<Rightarrow> (provider_error_kind option \<Rightarrow> 'a prog) \<Rightarrow> 'a prog" where
  "operation_failure r k =
     (case cr_operationRef r of
        None \<Rightarrow> k None
      | Some operationRef \<Rightarrow>
          GetOperation operationRef (\<lambda>operation.
            k (case operation of Operation_failed errorKind \<Rightarrow> Some errorKind | _ \<Rightarrow> None)))"

lemma operation_failure_cong [fundef_cong]:
  "r = q \<Longrightarrow> (\<And>x. k x = l x) \<Longrightarrow> operation_failure r k = operation_failure q l"
  by (simp add: operation_failure_def split: option.splits)

section \<open>Creating and reconciling the job\<close>

lemma outcomes_try_update:
  "(True, q) \<in> outcomes (try_update r changes) \<longleftrightarrow> (\<exists>t. q = next_record changes r t)"
  by (auto simp: try_update_def Let_def split: if_splits option.splits)

definition create_changes :: "control_record \<Rightarrow> control_record" where
  "create_changes r =
     r\<lparr>cr_state := CREATE_INTENT, cr_createAttempts := cr_createAttempts r + 1,
       cr_errorCode := None\<rparr>"

definition attempts_left :: "control_record \<Rightarrow> nat" where
  "attempts_left r = 2 * (2 - cr_createAttempts r)"

function send_create :: "service_configuration \<Rightarrow> control_record \<Rightarrow> control_record prog"
  and reconcile_job :: "service_configuration \<Rightarrow> control_record \<Rightarrow> bool \<Rightarrow> control_record prog" where
  "send_create c r =
     prog_bind (try_update r create_changes) (\<lambda>claimed.
       if \<not> fst claimed then Return (snd claimed)
       else
         let intent = snd claimed in
         prog_bind (from_result (expected_manifest c intent)) (\<lambda>manifest.
         CreateJob (cr_jobId intent) manifest (\<lambda>result. case result of
           Mutation_accepted operationRef \<Rightarrow>
             update intent (\<lambda>r. r\<lparr>cr_state := JOB_PENDING, cr_operationRef := Some operationRef,
               cr_errorCode := None\<rparr>)
         | Mutation_conflict \<Rightarrow> reconcile_job c intent True
         | Mutation_unknown \<Rightarrow>
             update intent (\<lambda>r. r\<lparr>cr_state := CREATE_UNKNOWN, cr_errorCode := Some UNKNOWN_OUTCOME\<rparr>)
         | Mutation_rejected errorKind \<Rightarrow>
             update intent (\<lambda>r. r\<lparr>cr_state := EXECUTION_FAILED,
               cr_errorCode := Some (kind_error errorKind)\<rparr>))))"
| "reconcile_job c r allowRun =
     operation_failure r (\<lambda>operationFailed.
       GetJob (cr_jobId r) (\<lambda>read. case read of
         Job_unavailable \<Rightarrow> update r (\<lambda>r. r\<lparr>cr_errorCode := Some UNKNOWN_OUTCOME\<rparr>)
       | Job_not_found \<Rightarrow>
           (case operationFailed of
              Some errorKind \<Rightarrow>
                update r (\<lambda>r. r\<lparr>cr_state := EXECUTION_FAILED,
                  cr_errorCode := Some (kind_error errorKind)\<rparr>)
            | None \<Rightarrow>
                Now (\<lambda>now.
                  if cr_createAttempts r < 2 \<and>
                    (cr_createAttempts r = 0 \<or>
                     num_leq (Some CREATE_RECONCILIATION_DELAY_MS)
                       (map_option (\<lambda>created. now - created) (date_parse (cr_createdAt r))))
                  then Now (\<lambda>now2.
                    if num_less (Some now2) (date_parse (cr_provisioningDeadline r))
                    then send_create c r
                    else update r (\<lambda>r. r\<lparr>cr_state := CREATE_UNKNOWN,
                           cr_errorCode := Some UNKNOWN_OUTCOME\<rparr>))
                  else update r (\<lambda>r. r\<lparr>cr_state := CREATE_UNKNOWN,
                         cr_errorCode := Some UNKNOWN_OUTCOME\<rparr>)))
       | Job_found job \<Rightarrow> accept_job c r allowRun job))"
  by pat_completeness auto

termination
proof (relation "measure (\<lambda>x. case x of
    Inl (c, r) \<Rightarrow> if cr_createAttempts r < 2 then attempts_left r - 1 else 1
  | Inr (c, r, allowRun) \<Rightarrow> attempts_left r)")
qed (auto simp: attempts_left_def outcomes_try_update next_record_def create_changes_def)

declare send_create.simps [simp del] reconcile_job.simps [simp del]

section \<open>Observation, reconciliation, cancellation and cleanup\<close>

definition observe_record :: "service_configuration \<Rightarrow> control_record \<Rightarrow> control_record prog" where
  "observe_record c r =
     (if \<not> cr_runIntent r then reconcile_job c r False else observe_execution r)"

definition cancel_record :: "control_record \<Rightarrow> control_record prog" where
  "cancel_record r =
     prog_bind (if cr_execution r = None \<or> cr_cancelIntent r then observe_execution r else Return r)
       (\<lambda>current.
         if cr_execution current = None then
           update current (\<lambda>r. r\<lparr>cr_state := CANCEL_PENDING, cr_cancelIntent := True\<rparr>)
         else if cr_state current \<in> {EXECUTION_SUCCEEDED, EXECUTION_FAILED, EXECUTION_CANCELLED} then
           Return current
         else
           prog_bind (try_update current
             (\<lambda>r. r\<lparr>cr_state := CANCEL_PENDING, cr_cancelIntent := True\<rparr>)) (\<lambda>(applied, current).
             if \<not> applied then Return current
             else (case cr_execution current of
                 None \<Rightarrow> Return current
               | Some execution \<Rightarrow>
                   CancelExecution execution (\<lambda>result.
                     if result = Mutation_rejected permanent_error then
                       update current (\<lambda>r. r\<lparr>cr_errorCode := Some PROVIDER_PERMANENT\<rparr>)
                     else
                       update current (\<lambda>r. r\<lparr>cr_errorCode :=
                         (if result = Mutation_unknown then Some UNKNOWN_OUTCOME else None)\<rparr>)))))"

fun remove_executions :: "provider_execution list \<Rightarrow> 'a prog \<Rightarrow> 'a prog" where
  "remove_executions [] p = p"
| "remove_executions (e # es) p =
     (if px_status e = exec_pending \<or> px_status e = exec_running then
        CancelExecution e (\<lambda>_. DeleteExecution e (\<lambda>_. remove_executions es p))
      else DeleteExecution e (\<lambda>_. remove_executions es p))"

definition cleanup_pending :: "control_record \<Rightarrow> control_record" where
  "cleanup_pending r = r\<lparr>cr_state := CLEANING_PENDING, cr_errorCode := Some UNKNOWN_OUTCOME\<rparr>"

definition cleaned_changes :: "control_record \<Rightarrow> control_record" where
  "cleaned_changes r =
     r\<lparr>cr_state := CLEANED, cr_job := None, cr_execution := None, cr_operationRef := None,
       cr_errorCode := None\<rparr>"

definition verify_absence :: "control_record \<Rightarrow> control_record prog" where
  "verify_absence current =
     ListExecutions (cr_jobId current) (\<lambda>afterExecutions.
     GetJob (cr_jobId current) (\<lambda>afterJob.
       if afterExecutions = Executions_found [] \<and> afterJob = Job_not_found then
         update current cleaned_changes
       else update current cleanup_pending))"

definition cleanup_record :: "control_record \<Rightarrow> control_record prog" where
  "cleanup_record r =
     prog_bind
       (if cr_cleanupIntent r then Return r
        else update r (\<lambda>r. r\<lparr>cr_state := CLEANING_PENDING, cr_cleanupIntent := True\<rparr>))
       (\<lambda>current.
         ListExecutions (cr_jobId current) (\<lambda>listed. case listed of
           Executions_unavailable \<Rightarrow> update current cleanup_pending
         | Executions_found executions \<Rightarrow>
             remove_executions executions
               (GetJob (cr_jobId current) (\<lambda>jobRead. case jobRead of
                 Job_unavailable \<Rightarrow> update current cleanup_pending
               | Job_found job \<Rightarrow> DeleteJob job (\<lambda>_. verify_absence current)
               | Job_not_found \<Rightarrow> verify_absence current))))"

definition reconcile_record :: "service_configuration \<Rightarrow> control_record \<Rightarrow> control_record prog" where
  "reconcile_record c r =
     (if cr_state r \<in> {CLEANED, EXECUTION_CANCELLED, EXECUTION_SUCCEEDED} then Return r
      else if cr_cleanupIntent r \<or> cr_state r = CLEANING_PENDING then cleanup_record r
      else if cr_state r = EXECUTION_FAILED then Return r
      else if \<not> cr_runIntent r then reconcile_job c r True
      else observe_execution r)"

section \<open>Responses\<close>

definition state_outcome :: "control_state \<Rightarrow> controller_outcome" where
  "state_outcome s = (case s of
     CREATE_INTENT \<Rightarrow> out_accepted
   | CREATE_UNKNOWN \<Rightarrow> out_unknown
   | JOB_PENDING \<Rightarrow> out_pending
   | JOB_READY \<Rightarrow> out_pending
   | RUN_INTENT \<Rightarrow> out_pending
   | EXECUTION_PENDING \<Rightarrow> out_pending
   | EXECUTION_RUNNING \<Rightarrow> out_running
   | EXECUTION_SUCCEEDED \<Rightarrow> out_succeeded
   | EXECUTION_FAILED \<Rightarrow> out_failed
   | CANCEL_PENDING \<Rightarrow> out_pending
   | EXECUTION_CANCELLED \<Rightarrow> out_cancelled
   | CLEANING_PENDING \<Rightarrow> out_pending
   | CLEANED \<Rightarrow> out_cleaned)"

definition response :: "controller_request \<Rightarrow> control_record \<Rightarrow> controller_response" where
  "response q r =
     \<lparr>rs_errorCode = cr_errorCode r, rs_executionHandle = rq_executionHandle q,
      rs_outcome = (if cr_errorCode r = Some UNKNOWN_OUTCOME then out_unknown
        else state_outcome (cr_state r)),
      rs_requestId = rq_requestId q, rs_version = cr_version r\<rparr>"

definition rejected ::
  "controller_request \<Rightarrow> controller_error_code \<Rightarrow> nat \<Rightarrow> controller_response" where
  "rejected q errorCode version =
     \<lparr>rs_errorCode = Some errorCode, rs_executionHandle = rq_executionHandle q,
      rs_outcome = out_rejected, rs_requestId = rq_requestId q, rs_version = version\<rparr>"

section \<open>The entry points\<close>

definition request_identity_of :: "controller_request \<Rightarrow> string \<Rightarrow> request_identity" where
  "request_identity_of q digest =
     \<lparr>ri_requestId = rq_requestId q, ri_digest = digest, ri_environment = rq_environment q,
      ri_executionHandle = rq_executionHandle q, ri_action = rq_action q\<rparr>"

definition admission_input ::
  "service_configuration \<Rightarrow> controller_request \<Rightarrow> string \<Rightarrow> int \<Rightarrow> admit_create_input" where
  "admission_input c q digest now =
     \<lparr>ai_identity = request_identity_of q digest,
      ai_jobId = deriveJobId (sv_sha256 c) (rq_environment q) (rq_executionHandle q),
      ai_now = to_iso now,
      ai_provisioningDeadline = to_iso (now + PROVISIONING_WINDOW_MS),
      ai_recordExpiresAt = to_iso (now + RECORD_TTL_MS)\<rparr>"

definition create_request_prog ::
  "service_configuration \<Rightarrow> controller_request \<Rightarrow> string \<Rightarrow> controller_response prog" where
  "create_request_prog c q digest =
     (if rq_expectedVersion q \<noteq> 0 then
        Return (rejected q STALE_VERSION (rq_expectedVersion q))
      else
        Now (\<lambda>now. Admit (admission_input c q digest now) (\<lambda>admission. case admission of
          Admit_budget_exhausted \<Rightarrow> Return (rejected q BUDGET_EXHAUSTED (rq_expectedVersion q))
        | Admit_environment_mismatch \<Rightarrow>
            Return (rejected q ENVIRONMENT_MISMATCH (rq_expectedVersion q))
        | Admit_rate_limited \<Rightarrow> Return (rejected q RATE_LIMITED (rq_expectedVersion q))
        | Admit_conflict \<Rightarrow> Return (rejected q CONFLICT (rq_expectedVersion q))
        | Admit_duplicate r \<Rightarrow> Return (response q r)
        | Admit_accepted r \<Rightarrow>
            prog_bind (send_create c r) (\<lambda>r. Return (response q r)))))"

definition dispatch :: "service_configuration \<Rightarrow> controller_action \<Rightarrow> control_record
    \<Rightarrow> control_record prog" where
  "dispatch c action r = (case action of
     act_observe \<Rightarrow> observe_record c r
   | act_reconcile \<Rightarrow> reconcile_record c r
   | act_cancel \<Rightarrow> cancel_record r
   | act_cleanup \<Rightarrow> cleanup_record r
   | act_create \<Rightarrow> Return r)"

definition execute ::
  "service_configuration \<Rightarrow> controller_request \<Rightarrow> string \<Rightarrow> controller_response prog" where
  "execute c q digest =
     (if rq_environment q \<noteq> sv_environment c then
        Return (rejected q ENVIRONMENT_MISMATCH (rq_expectedVersion q))
      else if rq_action q = act_create then create_request_prog c q digest
      else
        Now (\<lambda>now.
        Claim \<lparr>ci_identity = request_identity_of q digest, ci_expectedVersion = rq_expectedVersion q,
               ci_now = to_iso now\<rparr> (\<lambda>claim. case claim of
          Claim_environment_mismatch \<Rightarrow>
            Return (rejected q ENVIRONMENT_MISMATCH (rq_expectedVersion q))
        | Claim_conflict \<Rightarrow> Return (rejected q CONFLICT (rq_expectedVersion q))
        | Claim_not_found \<Rightarrow> Return (rejected q CONFLICT (rq_expectedVersion q))
        | Claim_stale r \<Rightarrow> Return (rejected q STALE_VERSION (cr_version r))
        | Claim_rate_limited \<Rightarrow> Return (rejected q RATE_LIMITED (rq_expectedVersion q))
        | Claim_duplicate r \<Rightarrow> Return (response q r)
        | Claim_accepted r \<Rightarrow>
            prog_bind (dispatch c (rq_action q) r) (\<lambda>r. Return (response q r)))))"

section \<open>Attestation and reaping\<close>

record attestation =
  at_controllerVersion :: nat
  at_environment :: controller_environment
  at_executionHandle :: string
  at_executionName :: string
  at_jobName :: string
  at_manifestMatches :: bool
  at_runtimeServiceAccount :: string
  at_state :: provider_execution_status

datatype attestation_response =
    Attested attestation
  | Attest_invariant_failure
  | Attest_not_found
  | Attest_unavailable

definition resource_name :: "string \<Rightarrow> string" where
  "resource_name ref = last (split_on (CHR ''/'') ref)"

text \<open>The stored record is one whose run was started and whose resources are those just read.\<close>

definition stored_resources_match :: "control_record \<Rightarrow> provider_job \<Rightarrow> provider_execution \<Rightarrow> bool" where
  "stored_resources_match r job execution \<longleftrightarrow>
     cr_runIntent r \<and> map_option pj_uid (cr_job r) = Some (pj_uid job) \<and>
     ((cr_state r = EXECUTION_PENDING \<and> cr_execution r = None) \<or>
      (cr_state r = EXECUTION_RUNNING \<and>
       map_option px_uid (cr_execution r) = Some (px_uid execution)))"

definition attest_resources ::
  "service_configuration \<Rightarrow> control_record \<Rightarrow> provider_job_read \<Rightarrow> provider_execution_list
     \<Rightarrow> attestation_response result" where
  "attest_resources c r jobRead executionRead =
     (case executionRead of
        Executions_unavailable \<Rightarrow> Inr Attest_unavailable
      | Executions_found executions \<Rightarrow>
         (case jobRead of
            Job_unavailable \<Rightarrow> Inr Attest_unavailable
          | Job_not_found \<Rightarrow> Inr Attest_not_found
          | Job_found job \<Rightarrow>
             (case executions of
                [execution] \<Rightarrow>
                  if px_jobRef execution \<noteq> pj_ref job then Inr Attest_invariant_failure
                  else
                    res_bind (expected_manifest c r) (\<lambda>expected.
                      Inr (Attested
                        \<lparr>at_controllerVersion = cr_version r, at_environment = cr_environment r,
                         at_executionHandle = cr_executionHandle r,
                         at_executionName = resource_name (px_ref execution),
                         at_jobName = resource_name (pj_ref job),
                         at_manifestMatches = stored_resources_match r job execution \<and>
                           manifestsMatch (sv_collate c) expected (pj_manifest job),
                         at_runtimeServiceAccount = fp_runtimeServiceAccount (sv_policy c),
                         at_state = px_status execution\<rparr>))
              | _ \<Rightarrow> Inr Attest_invariant_failure)))"

text \<open>The two reads that \<open>Promise.all\<close> starts together are made one after the other.\<close>

definition attest ::
  "service_configuration \<Rightarrow> attestation_request \<Rightarrow> attestation_response prog" where
  "attest c q =
     (if aq_environment q \<noteq> sv_environment c then Return Attest_not_found
      else
        Get (aq_executionHandle q) (\<lambda>found. case found of
          None \<Rightarrow> Return Attest_not_found
        | Some r \<Rightarrow>
            if cr_environment r \<noteq> aq_environment q then Return Attest_not_found
            else
              GetJob (cr_jobId r) (\<lambda>jobRead.
              ListExecutions (cr_jobId r) (\<lambda>executionRead.
                from_result (attest_resources c r jobRead executionRead)))))"

fun reap_records :: "int \<Rightarrow> control_record list \<Rightarrow> nat \<Rightarrow> nat prog" where
  "reap_records now [] processed = Return processed"
| "reap_records now (r # rs) processed =
     (if cr_cleanupIntent r \<or> num_leq (date_parse (cr_provisioningDeadline r)) (Some now) then
        prog_bind (cleanup_record r) (\<lambda>_. reap_records now rs (processed + 1))
      else reap_records now rs processed)"

definition reap :: "service_configuration \<Rightarrow> controller_environment \<Rightarrow> nat prog" where
  "reap c env =
     (if env \<noteq> sv_environment c then Return 0
      else Now (\<lambda>now. ListUnclean env (\<lambda>records. reap_records now records 0)))"

end
