(* ===== verification/JsonSchema.thy ===== *)
theory JsonSchema
  imports Provider
begin

text \<open>
  The zod schemas of the source as predicates on JSON values: combinators for objects, tuples,
  arrays, literals and enumerations, and the reading of fields of an accepted object. Shared by
  the provider client, the controller's request parsing and the stored job options.
\<close>

section \<open>Schemas over JSON values\<close>

text \<open>
  An object schema is a list of fields: the key, whether it is required, and the schema of its
  value. A strict object has no other keys; a loose one may. JavaScript objects have each key once.
\<close>

type_synonym json_schema = "json \<Rightarrow> bool"
type_synonym field_schema = "string \<times> bool \<times> json_schema"

definition required :: "string \<Rightarrow> json_schema \<Rightarrow> field_schema" where
  "required k p = (k, True, p)"

definition optional :: "string \<Rightarrow> json_schema \<Rightarrow> field_schema" where
  "optional k p = (k, False, p)"

definition fields_ok :: "field_schema list \<Rightarrow> (string \<times> json) list \<Rightarrow> bool" where
  "fields_ok fs es \<longleftrightarrow>
     distinct (map fst es) \<and>
     list_all (\<lambda>(k, req, p). case map_of es k of None \<Rightarrow> \<not> req | Some v \<Rightarrow> p v) fs"

definition strict_object :: "field_schema list \<Rightarrow> json_schema" where
  "strict_object fs j =
     (case j of
        JObj es \<Rightarrow> fields_ok fs es \<and> list_all (\<lambda>(k, _). k \<in> set (map fst fs)) es
      | _ \<Rightarrow> False)"

definition loose_object :: "field_schema list \<Rightarrow> json_schema" where
  "loose_object fs j = (case j of JObj es \<Rightarrow> fields_ok fs es | _ \<Rightarrow> False)"

definition literal :: "json \<Rightarrow> json_schema" where
  "literal v j \<longleftrightarrow> j = v"

definition any_string :: json_schema where
  "any_string j = (case j of JStr _ \<Rightarrow> True | _ \<Rightarrow> False)"

definition nonempty_string :: json_schema where
  "nonempty_string j = (case j of JStr s \<Rightarrow> s \<noteq> [] | _ \<Rightarrow> False)"

definition any_bool :: json_schema where
  "any_bool j = (case j of JBool _ \<Rightarrow> True | _ \<Rightarrow> False)"

definition any_int :: json_schema where
  "any_int j = (case j of JNum _ \<Rightarrow> True | _ \<Rightarrow> False)"

definition nonnegative_int :: json_schema where
  "nonnegative_int j = (case j of JNum n \<Rightarrow> 0 \<le> n | _ \<Rightarrow> False)"

definition string_enum :: "string list \<Rightarrow> json_schema" where
  "string_enum vs j = (case j of JStr s \<Rightarrow> s \<in> set vs | _ \<Rightarrow> False)"

text \<open>\<open>z.string()\<close> with further tests.\<close>

definition string_schema_of :: "(string \<Rightarrow> bool) \<Rightarrow> json_schema" where
  "string_schema_of ok j = (case j of JStr s \<Rightarrow> ok s | _ \<Rightarrow> False)"

definition never :: json_schema where
  "never j \<longleftrightarrow> False"

definition uuid_string :: "(string \<Rightarrow> bool) \<Rightarrow> json_schema" where
  "uuid_string uuid_ok j = (case j of JStr s \<Rightarrow> uuid_ok s | _ \<Rightarrow> False)"

text \<open>\<open>z.tuple\<close>: exactly these members.\<close>

definition tuple_of :: "json_schema list \<Rightarrow> json_schema" where
  "tuple_of ps j = (case j of JArr xs \<Rightarrow> list_all2 (\<lambda>p x. p x) ps xs | _ \<Rightarrow> False)"

text \<open>\<open>z.array(...).max(n)\<close>.\<close>

definition array_max :: "nat \<Rightarrow> json_schema \<Rightarrow> json_schema" where
  "array_max n p j = (case j of JArr xs \<Rightarrow> length xs \<le> n \<and> list_all p xs | _ \<Rightarrow> False)"

definition string_record :: json_schema where
  "string_record j =
     (case j of JObj es \<Rightarrow> distinct (map fst es) \<and> list_all (\<lambda>(_, v). any_string v) es | _ \<Rightarrow> False)"

lemmas schema_defs = required_def optional_def fields_ok_def strict_object_def loose_object_def
  literal_def any_string_def nonempty_string_def any_bool_def any_int_def nonnegative_int_def
  string_enum_def string_schema_of_def never_def uuid_string_def tuple_of_def array_max_def string_record_def

section \<open>Reading fields of parsed objects\<close>

definition json_field :: "string \<Rightarrow> json \<Rightarrow> json option" where
  "json_field k j = (case j of JObj es \<Rightarrow> map_of es k | _ \<Rightarrow> None)"

definition string_field :: "string \<Rightarrow> json \<Rightarrow> string" where
  "string_field k j = (case json_field k j of Some (JStr s) \<Rightarrow> s | _ \<Rightarrow> [])"

text \<open>\<open>execution.count ?? 0\<close>.\<close>

definition count_field :: "string \<Rightarrow> json \<Rightarrow> int" where
  "count_field k j = (case json_field k j of Some (JNum n) \<Rightarrow> n | _ \<Rightarrow> 0)"

section \<open>Fields of accepted objects\<close>

lemma loose_field:
  "loose_object fs j \<Longrightarrow> (k, True, p) \<in> set fs \<Longrightarrow> \<exists>v. json_field k j = Some v \<and> p v"
  by (cases j) (force simp: loose_object_def fields_ok_def json_field_def list_all_iff
      split: option.splits)+

lemma loose_optional_field:
  "loose_object fs j \<Longrightarrow> (k, False, p) \<in> set fs \<Longrightarrow> json_field k j = Some v \<Longrightarrow> p v"
  by (cases j) (force simp: loose_object_def fields_ok_def json_field_def list_all_iff
      split: option.splits)+

end
