(* ===== verification/CloudRunClient.thy ===== *)
theory CloudRunClient
  imports JsonSchema
begin

text \<open>
  apps/gpu-controller/src/cloud-run-client.ts: the schemas of what the Cloud Run Admin API returns
  and the client \<open>CloudRunJobsClient\<close>. A schema is a predicate on JSON values. Each method of the
  client makes one HTTP request; \<open>fetch\<close> is a parameter that answers it (\<open>None\<close> when obtaining
  the token or the request throws, the ten second abort included), \<open>parse_json\<close> and \<open>uuid_ok\<close>
  stand for \<open>JSON.parse\<close> and \<open>z.uuid()\<close>.
  Lemmas: references the client hands out stay inside the configured project and region; the
  manifest the controller builds passes the manifest schema.
\<close>

section \<open>The schemas\<close>

definition binaryAuthorizationSchema :: json_schema where
  "binaryAuthorizationSchema = strict_object [
     optional ''breakglassJustification'' (literal (JStr [])),
     optional ''policy'' never,
     required ''useDefault'' (literal (JBool True))]"

definition named_value :: "string \<Rightarrow> json_schema \<Rightarrow> json_schema" where
  "named_value n p = strict_object [required ''name'' (literal (JStr n)), required ''value'' p]"

definition worker_container_schema :: json_schema where
  "worker_container_schema = strict_object [
     required ''name'' (literal (JStr ''worker'')),
     required ''image'' any_string,
     required ''command'' (tuple_of [literal (JStr ''python''), literal (JStr ''-m''),
       literal (JStr ''scribe_drop_worker.one_shot'')]),
     required ''env'' (tuple_of [
       named_value ''APP_ENV'' (string_enum [''staging'', ''production'']),
       named_value ''SCRIBE_DROP_BOOTSTRAP_REQUEST_ID'' any_string,
       named_value ''SCRIBE_DROP_EXECUTION_HANDLE'' any_string,
       named_value ''SCRIBE_DROP_EXECUTION_POLICY'' (literal (JStr ''cloud_run_jobs_l4_v1'')),
       named_value ''SCRIBE_DROP_ORCHESTRATOR_ORIGIN'' any_string,
       named_value ''SCRIBE_DROP_IDENTITY_AUDIENCE'' any_string,
       named_value ''SCRIBE_DROP_SOURCE_HOST'' any_string,
       named_value ''SCRIBE_DROP_RESULT_HOST'' any_string]),
     required ''resources'' (strict_object [
       required ''limits'' (strict_object [
         required ''cpu'' (literal (JStr ''4'')),
         required ''memory'' (literal (JStr ''16Gi'')),
         required ''nvidia.com/gpu'' (literal (JStr ''1''))])]),
     required ''volumeMounts'' (tuple_of [strict_object [
       required ''name'' (literal (JStr ''scratch'')),
       required ''mountPath'' (literal (JStr ''/tmp''))]])]"

definition manifest_template_schema :: json_schema where
  "manifest_template_schema = strict_object [
     required ''taskCount'' (literal (JNum 1)),
     required ''parallelism'' (literal (JNum 1)),
     required ''template'' (strict_object [
       required ''containers'' (tuple_of [worker_container_schema]),
       required ''volumes'' (tuple_of [strict_object [
         required ''name'' (literal (JStr ''scratch'')),
         required ''emptyDir'' (strict_object [
           required ''medium'' (literal (JStr ''MEMORY'')),
           required ''sizeLimit'' (literal (JStr ''3Gi''))])]]),
       required ''timeout'' (literal (JStr ''3300s'')),
       required ''serviceAccount'' any_string,
       required ''executionEnvironment'' (literal (JStr ''EXECUTION_ENVIRONMENT_GEN2'')),
       required ''nodeSelector'' (strict_object [
         required ''accelerator'' (literal (JStr ''nvidia-l4''))]),
       required ''maxRetries'' (literal (JNum 0)),
       required ''gpuZonalRedundancyDisabled'' (literal (JBool True))])]"

definition cloudRunJobManifestSchema :: json_schema where
  "cloudRunJobManifestSchema = strict_object [
     required ''binaryAuthorization'' binaryAuthorizationSchema,
     required ''labels'' string_record,
     required ''template'' manifest_template_schema]"

definition operationSchema :: json_schema where
  "operationSchema = loose_object [
     required ''name'' nonempty_string,
     optional ''done'' any_bool,
     optional ''error'' (loose_object [required ''code'' any_int])]"

definition jobSchema :: "(string \<Rightarrow> bool) \<Rightarrow> json_schema" where
  "jobSchema uuid_ok = loose_object [
     required ''name'' nonempty_string,
     required ''uid'' (uuid_string uuid_ok),
     required ''etag'' nonempty_string,
     optional ''reconciling'' any_bool,
     optional ''terminalCondition'' (loose_object [
       required ''state'' (string_enum [''CONDITION_PENDING'', ''CONDITION_RECONCILING'',
         ''CONDITION_SUCCEEDED'', ''CONDITION_FAILED''])]),
     required ''binaryAuthorization'' binaryAuthorizationSchema,
     required ''labels'' string_record,
     required ''template'' manifest_template_schema]"

definition executionSchema :: "(string \<Rightarrow> bool) \<Rightarrow> json_schema" where
  "executionSchema uuid_ok = loose_object [
     required ''name'' nonempty_string,
     required ''uid'' (uuid_string uuid_ok),
     required ''etag'' nonempty_string,
     required ''job'' nonempty_string,
     required ''taskCount'' (literal (JNum 1)),
     required ''parallelism'' (literal (JNum 1)),
     optional ''retriedCount'' (literal (JNum 0)),
     optional ''runningCount'' nonnegative_int,
     optional ''succeededCount'' nonnegative_int,
     optional ''failedCount'' nonnegative_int,
     optional ''cancelledCount'' nonnegative_int,
     optional ''reconciling'' any_bool]"

definition executionListSchema :: "(string \<Rightarrow> bool) \<Rightarrow> json_schema" where
  "executionListSchema uuid_ok = loose_object [
     optional ''executions'' (array_max 2 (executionSchema uuid_ok)),
     optional ''nextPageToken'' nonempty_string]"

section \<open>HTTP\<close>

record http_request =
  hq_method :: string
  hq_url :: string
  hq_body :: "json option"

text \<open>
  The response as \<open>fetch\<close> returns it with redirects set to manual: whether it is an opaque
  redirect, the status, \<open>Number(content-length ?? "0")\<close> and the body text as bytes.
\<close>

record http_response =
  hr_opaqueRedirect :: bool
  hr_status :: int
  hr_declaredLength :: jsnum
  hr_text :: string

type_synonym fetch = "http_request \<Rightarrow> http_response option"

definition MAX_PROVIDER_RESPONSE_BYTES :: nat where
  "MAX_PROVIDER_RESPONSE_BYTES = 65536"

record client_configuration =
  cc_projectId :: string
  cc_region :: string

record provider_http_response =
  ph_status :: int
  ph_value :: json

definition provider_request ::
  "(string \<Rightarrow> json option) \<Rightarrow> fetch \<Rightarrow> http_request \<Rightarrow> provider_http_response option" where
  "provider_request parse_json fetch q =
     (case fetch q of
        None \<Rightarrow> None
      | Some r \<Rightarrow>
          if hr_opaqueRedirect r \<or> (300 \<le> hr_status r \<and> hr_status r < 400) then None
          else if num_less (Some (int MAX_PROVIDER_RESPONSE_BYTES)) (hr_declaredLength r) then None
          else if MAX_PROVIDER_RESPONSE_BYTES < length (hr_text r) then None
          else if hr_text r = [] then Some \<lparr>ph_status = hr_status r, ph_value = JObj []\<rparr>
          else (case parse_json (hr_text r) of
                  None \<Rightarrow> None
                | Some v \<Rightarrow> Some \<lparr>ph_status = hr_status r, ph_value = v\<rparr>))"

text \<open>\<open>encodeURIComponent\<close> on bytes.\<close>

definition uri_unreserved :: string where
  "uri_unreserved = upper_chars @ lower_chars @ digit_chars @ ''-_.!~*()'' @ [char_of (39 :: nat)]"

definition upper_hex :: "nat \<Rightarrow> char" where
  "upper_hex n = ''0123456789ABCDEF'' ! n"

definition encode_uri_component :: "string \<Rightarrow> string" where
  "encode_uri_component s = concat (map (\<lambda>c.
     if c \<in> set uri_unreserved then [c]
     else [CHR ''%'', upper_hex (of_char c div 16), upper_hex (of_char c mod 16)]) s)"

section \<open>The client\<close>

definition scope_prefix :: "client_configuration \<Rightarrow> string" where
  "scope_prefix c = ''projects/'' @ cc_projectId c @ ''/locations/'' @ cc_region c @ ''/''"

definition client_collection :: "client_configuration \<Rightarrow> string" where
  "client_collection c =
     ''https://run.googleapis.com/v2/projects/'' @ cc_projectId c @ ''/locations/'' @ cc_region c
       @ ''/jobs''"

definition client_jobRef :: "client_configuration \<Rightarrow> string \<Rightarrow> string" where
  "client_jobRef c jobId =
     ''projects/'' @ cc_projectId c @ ''/locations/'' @ cc_region c @ ''/jobs/'' @ jobId"

definition client_resource :: "client_configuration \<Rightarrow> string \<Rightarrow> string result" where
  "client_resource c reference =
     (if \<not> starts_with (scope_prefix c) reference \<or> CHR ''?'' \<in> set reference
         \<or> CHR ''#'' \<in> set reference
      then Inl (JsError ''provider reference escaped configured scope'')
      else Inr (''https://run.googleapis.com/v2/'' @ reference))"

definition executionStatus :: "json \<Rightarrow> provider_execution_status" where
  "executionStatus e =
     (if 0 < count_field ''cancelledCount'' e then exec_cancelled
      else if 0 < count_field ''failedCount'' e then exec_failed
      else if count_field ''succeededCount'' e = 1 then exec_succeeded
      else if 0 < count_field ''runningCount'' e then exec_running
      else exec_pending)"

definition isScopedOperation :: "client_configuration \<Rightarrow> string \<Rightarrow> bool" where
  "isScopedOperation c reference \<longleftrightarrow> starts_with (scope_prefix c @ ''operations/'') reference"

definition mutation_outcome ::
  "client_configuration \<Rightarrow> provider_http_response option \<Rightarrow> provider_mutation" where
  "mutation_outcome c response =
     (case response of
        None \<Rightarrow> Mutation_unknown
      | Some r \<Rightarrow>
          if ph_status r = 409 then Mutation_conflict
          else if ph_status r = 429 \<or> 500 \<le> ph_status r then
            Mutation_rejected retryable_error_kind
          else if ph_status r < 200 \<or> 300 \<le> ph_status r then
            Mutation_rejected permanent_error
          else if operationSchema (ph_value r) \<and>
            isScopedOperation c (string_field ''name'' (ph_value r))
          then Mutation_accepted (string_field ''name'' (ph_value r))
          else Mutation_unknown)"

definition client_mutation ::
  "client_configuration \<Rightarrow> (string \<Rightarrow> json option) \<Rightarrow> fetch \<Rightarrow> string \<Rightarrow> string \<Rightarrow> json option
     \<Rightarrow> provider_mutation" where
  "client_mutation c parse_json fetch method url body =
     mutation_outcome c (provider_request parse_json fetch
       \<lparr>hq_method = method, hq_url = url, hq_body = body\<rparr>)"

definition client_createJob ::
  "client_configuration \<Rightarrow> (string \<Rightarrow> json option) \<Rightarrow> fetch \<Rightarrow> string \<Rightarrow> json
     \<Rightarrow> provider_mutation result" where
  "client_createJob c parse_json fetch jobId manifest =
     Inr (client_mutation c parse_json fetch ''POST''
       (client_collection c @ ''?jobId='' @ encode_uri_component jobId) (Some manifest))"

definition client_runJob ::
  "client_configuration \<Rightarrow> (string \<Rightarrow> json option) \<Rightarrow> fetch \<Rightarrow> provider_job
     \<Rightarrow> provider_mutation result" where
  "client_runJob c parse_json fetch job =
     res_bind (client_resource c (pj_ref job)) (\<lambda>url.
       Inr (client_mutation c parse_json fetch ''POST'' (url @ '':run'')
         (Some (JObj [(''etag'', JStr (pj_etag job))]))))"

definition client_cancelExecution ::
  "client_configuration \<Rightarrow> (string \<Rightarrow> json option) \<Rightarrow> fetch \<Rightarrow> provider_execution
     \<Rightarrow> provider_mutation result" where
  "client_cancelExecution c parse_json fetch execution =
     res_bind (client_resource c (px_ref execution)) (\<lambda>url.
       Inr (client_mutation c parse_json fetch ''POST'' (url @ '':cancel'')
         (Some (JObj [(''etag'', JStr (px_etag execution))]))))"

definition client_deleteExecution ::
  "client_configuration \<Rightarrow> (string \<Rightarrow> json option) \<Rightarrow> fetch \<Rightarrow> provider_execution
     \<Rightarrow> provider_mutation result" where
  "client_deleteExecution c parse_json fetch execution =
     res_bind (client_resource c (px_ref execution)) (\<lambda>url.
       Inr (client_mutation c parse_json fetch ''DELETE''
         (url @ ''?etag='' @ encode_uri_component (px_etag execution)) None))"

definition client_deleteJob ::
  "client_configuration \<Rightarrow> (string \<Rightarrow> json option) \<Rightarrow> fetch \<Rightarrow> provider_job
     \<Rightarrow> provider_mutation result" where
  "client_deleteJob c parse_json fetch job =
     res_bind (client_resource c (pj_ref job)) (\<lambda>url.
       Inr (client_mutation c parse_json fetch ''DELETE''
         (url @ ''?etag='' @ encode_uri_component (pj_etag job)) None))"

definition job_ready :: "json \<Rightarrow> bool" where
  "job_ready j \<longleftrightarrow>
     json_field ''reconciling'' j \<noteq> Some (JBool True) \<and>
     (case json_field ''terminalCondition'' j of
        None \<Rightarrow> False
      | Some t \<Rightarrow> json_field ''state'' t = Some (JStr ''CONDITION_SUCCEEDED''))"

definition read_job :: "json \<Rightarrow> provider_job" where
  "read_job j =
     \<lparr>pj_ref = string_field ''name'' j, pj_uid = string_field ''uid'' j,
      pj_etag = string_field ''etag'' j, pj_ready = job_ready j,
      pj_manifest = JObj [
        (''binaryAuthorization'', JObj [(''useDefault'', JBool True)]),
        (''labels'', the (json_field ''labels'' j)),
        (''template'', the (json_field ''template'' j))]\<rparr>"

definition client_getJob ::
  "client_configuration \<Rightarrow> (string \<Rightarrow> bool) \<Rightarrow> (string \<Rightarrow> json option) \<Rightarrow> fetch \<Rightarrow> string
     \<Rightarrow> provider_job_read result" where
  "client_getJob c uuid_ok parse_json fetch jobId =
     Inr (case provider_request parse_json fetch
            \<lparr>hq_method = ''GET'', hq_url = client_collection c @ ''/'' @ encode_uri_component jobId,
             hq_body = None\<rparr> of
        None \<Rightarrow> Job_unavailable
      | Some r \<Rightarrow>
          if ph_status r = 404 then Job_not_found
          else if ph_status r \<noteq> 200 then Job_unavailable
          else if \<not> jobSchema uuid_ok (ph_value r) then Job_unavailable
          else Job_found (read_job (ph_value r)))"

definition operation_outcome :: "string \<Rightarrow> provider_http_response option \<Rightarrow> provider_operation_read" where
  "operation_outcome operationRef response =
     (case response of
        None \<Rightarrow> Operation_unavailable
      | Some r \<Rightarrow>
          if ph_status r \<noteq> 200 then Operation_unavailable
          else if \<not> operationSchema (ph_value r)
            \<or> string_field ''name'' (ph_value r) \<noteq> operationRef then Operation_unavailable
          else if json_field ''done'' (ph_value r) \<noteq> Some (JBool True) then Operation_pending
          else (case json_field ''error'' (ph_value r) of
                  None \<Rightarrow> Operation_succeeded
                | Some e \<Rightarrow> Operation_failed
                    (if count_field ''code'' e = 429 \<or> 500 \<le> count_field ''code'' e
                     then retryable_error_kind else permanent_error)))"

definition client_getOperation ::
  "client_configuration \<Rightarrow> (string \<Rightarrow> json option) \<Rightarrow> fetch \<Rightarrow> string
     \<Rightarrow> provider_operation_read result" where
  "client_getOperation c parse_json fetch operationRef =
     res_bind (client_resource c operationRef) (\<lambda>url.
       Inr (operation_outcome operationRef (provider_request parse_json fetch
         \<lparr>hq_method = ''GET'', hq_url = url, hq_body = None\<rparr>)))"

definition listed_executions :: "json \<Rightarrow> json list" where
  "listed_executions j = (case json_field ''executions'' j of Some (JArr xs) \<Rightarrow> xs | _ \<Rightarrow> [])"

text \<open>The test that makes a listing unavailable: an execution outside the job's own collection.\<close>

definition execution_escapes :: "string \<Rightarrow> string \<Rightarrow> json \<Rightarrow> bool" where
  "execution_escapes jobId jobRef e \<longleftrightarrow>
     (let executionPrefix = jobRef @ ''/executions/'';
          name = string_field ''name'' e;
          executionId = drop (length executionPrefix) name
      in (string_field ''job'' e \<noteq> jobId \<and> string_field ''job'' e \<noteq> jobRef) \<or>
         \<not> starts_with executionPrefix name \<or> executionId = [] \<or>
         CHR ''/'' \<in> set executionId \<or> CHR ''?'' \<in> set executionId \<or> CHR ''#'' \<in> set executionId)"

definition read_execution :: "string \<Rightarrow> json \<Rightarrow> provider_execution" where
  "read_execution jobRef e =
     \<lparr>px_ref = string_field ''name'' e, px_uid = string_field ''uid'' e,
      px_etag = string_field ''etag'' e, px_jobRef = jobRef, px_status = executionStatus e\<rparr>"

definition client_listExecutions ::
  "client_configuration \<Rightarrow> (string \<Rightarrow> bool) \<Rightarrow> (string \<Rightarrow> json option) \<Rightarrow> fetch \<Rightarrow> string
     \<Rightarrow> provider_execution_list result" where
  "client_listExecutions c uuid_ok parse_json fetch jobId =
     Inr (case provider_request parse_json fetch
            \<lparr>hq_method = ''GET'', hq_url = client_collection c @ ''/'' @ encode_uri_component jobId
               @ ''/executions?pageSize=2'', hq_body = None\<rparr> of
        None \<Rightarrow> Executions_unavailable
      | Some r \<Rightarrow>
          if ph_status r \<noteq> 200 then Executions_unavailable
          else if \<not> executionListSchema uuid_ok (ph_value r)
            \<or> json_field ''nextPageToken'' (ph_value r) \<noteq> None then Executions_unavailable
          else if list_ex (execution_escapes jobId (client_jobRef c jobId))
              (listed_executions (ph_value r)) then Executions_unavailable
          else Executions_found
            (map (read_execution (client_jobRef c jobId)) (listed_executions (ph_value r))))"

section \<open>What the client hands out\<close>

lemma named_value_env_entry [simp]: "named_value n p (env_entry n v) \<longleftrightarrow> p (JStr v)"
  by (simp add: named_value_def env_entry_def schema_defs)

lemma worker_container_schema_holds:
  "worker_container_schema (worker_container parsed executionHandle bootstrapRequestId)"
  by (cases "fp_environment parsed")
    (simp_all add: worker_container_schema_def worker_container_def strict_object_def fields_ok_def
      required_def tuple_of_def literal_def any_string_def string_enum_def environment_name_def
      CLOUD_RUN_RUNTIME_POLICY_def)

lemma binaryAuthorization_default:
  "binaryAuthorizationSchema (JObj [(''useDefault'', JBool True)])"
  by (simp add: binaryAuthorizationSchema_def schema_defs)

lemma createFixedJobManifest_schema_holds:
  assumes "createFixedJobManifest parse_url c h b = Inr m"
  shows "cloudRunJobManifestSchema m"
  using assms worker_container_schema_holds binaryAuthorization_default
  by (auto simp: createFixedJobManifest_def result_simps cloudRunJobManifestSchema_def
      manifest_template_schema_def strict_object_def fields_ok_def required_def tuple_of_def
      literal_def any_string_def string_record_def)

lemma nonempty_string_field:
  "json_field k j = Some v \<Longrightarrow> nonempty_string v \<Longrightarrow> string_field k j \<noteq> []"
  by (cases v) (simp_all add: nonempty_string_def string_field_def)

lemma uuid_string_field:
  "json_field k j = Some v \<Longrightarrow> uuid_string uuid_ok v \<Longrightarrow> uuid_ok (string_field k j)"
  by (cases v) (simp_all add: uuid_string_def string_field_def)

text \<open>A job the client reports satisfies the schema under which records keep it.\<close>

definition provider_job_shape :: "(string \<Rightarrow> bool) \<Rightarrow> provider_job \<Rightarrow> bool" where
  "provider_job_shape uuid_ok j \<longleftrightarrow>
     pj_ref j \<noteq> [] \<and> pj_etag j \<noteq> [] \<and> uuid_ok (pj_uid j) \<and>
     cloudRunJobManifestSchema (pj_manifest j)"

lemma read_job_shape:
  assumes "jobSchema uuid_ok j"
  shows "provider_job_shape uuid_ok (read_job j)"
proof -
  note field = loose_field [OF assms [unfolded jobSchema_def]]
  obtain n where n: "json_field ''name'' j = Some n" "nonempty_string n"
    using field [of "''name''" nonempty_string] by (auto simp: required_def)
  obtain u where u: "json_field ''uid'' j = Some u" "uuid_string uuid_ok u"
    using field [of "''uid''" "uuid_string uuid_ok"] by (auto simp: required_def)
  obtain t where t: "json_field ''etag'' j = Some t" "nonempty_string t"
    using field [of "''etag''" nonempty_string] by (auto simp: required_def)
  obtain l where l: "json_field ''labels'' j = Some l" "string_record l"
    using field [of "''labels''" string_record] by (auto simp: required_def)
  obtain m where m: "json_field ''template'' j = Some m" "manifest_template_schema m"
    using field [of "''template''" manifest_template_schema] by (auto simp: required_def)
  have "cloudRunJobManifestSchema (pj_manifest (read_job j))"
    using l m binaryAuthorization_default
    by (simp add: read_job_def cloudRunJobManifestSchema_def strict_object_def fields_ok_def
        required_def)
  with n u t show ?thesis
    by (simp add: provider_job_shape_def read_job_def nonempty_string_field uuid_string_field)
qed

lemma getJob_found_shape:
  "client_getJob c uuid_ok parse_json fetch jobId = Inr (Job_found j) \<Longrightarrow>
   provider_job_shape uuid_ok j"
  by (auto simp: client_getJob_def intro: read_job_shape split: option.splits if_splits)

definition scoped_execution :: "string \<Rightarrow> provider_execution \<Rightarrow> bool" where
  "scoped_execution jobRef e \<longleftrightarrow>
     px_jobRef e = jobRef \<and>
     (\<exists>i. px_ref e = jobRef @ ''/executions/'' @ i \<and> i \<noteq> [] \<and>
       CHR ''/'' \<notin> set i \<and> CHR ''?'' \<notin> set i \<and> CHR ''#'' \<notin> set i)"

lemma not_escapes_scoped:
  assumes "\<not> execution_escapes jobId jobRef e"
  shows "scoped_execution jobRef (read_execution jobRef e)"
proof -
  from assms have p: "starts_with (jobRef @ ''/executions/'') (string_field ''name'' e)"
    by (simp add: execution_escapes_def Let_def)
  then obtain i where "string_field ''name'' e = jobRef @ ''/executions/'' @ i"
    unfolding starts_with_iff by auto
  with assms show ?thesis
    by (auto simp: scoped_execution_def read_execution_def execution_escapes_def Let_def)
qed

lemma listed_executions_bound:
  assumes "executionListSchema uuid_ok j"
  shows "length (listed_executions j) \<le> 2"
proof -
  note opt = loose_optional_field [OF assms [unfolded executionListSchema_def],
    of "''executions''" "array_max 2 (executionSchema uuid_ok)"]
  show ?thesis
  proof (cases "json_field ''executions'' j")
    case None
    then show ?thesis by (simp add: listed_executions_def)
  next
    case (Some v)
    then have "array_max 2 (executionSchema uuid_ok) v"
      using opt by (simp add: optional_def)
    then show ?thesis using Some
      by (cases v) (simp_all add: listed_executions_def array_max_def)
  qed
qed

lemma listExecutions_found_scoped:
  "client_listExecutions c uuid_ok parse_json fetch jobId = Inr (Executions_found es) \<Longrightarrow>
   length es \<le> 2 \<and> (\<forall>e \<in> set es. scoped_execution (client_jobRef c jobId) e)"
  by (auto simp: client_listExecutions_def list_ex_iff listed_executions_bound
      not_escapes_scoped [of jobId] split: option.splits if_splits)

lemma client_resource_jobRef:
  assumes "scoped_execution (client_jobRef c jobId) e"
    and "CHR ''?'' \<notin> set (client_jobRef c jobId)" "CHR ''#'' \<notin> set (client_jobRef c jobId)"
  shows "client_resource c (px_ref e) = Inr (''https://run.googleapis.com/v2/'' @ px_ref e)"
  using assms
  by (auto simp: scoped_execution_def client_resource_def client_jobRef_def scope_prefix_def
      starts_with_iff)

lemma mutation_accepted_scoped:
  "client_mutation c parse_json fetch m url body = Mutation_accepted ref \<Longrightarrow>
   isScopedOperation c ref"
  by (auto simp: client_mutation_def mutation_outcome_def split: option.splits if_splits)

lemma executionStatus_priority:
  "executionStatus e = exec_succeeded \<longleftrightarrow>
     count_field ''cancelledCount'' e \<le> 0 \<and> count_field ''failedCount'' e \<le> 0 \<and>
     count_field ''succeededCount'' e = 1"
  by (auto simp: executionStatus_def)

end
