(* ===== verification/FirestoreStore.thy ===== *)
theory FirestoreStore
  imports ControlStore CloudRunClient
begin

text \<open>
  apps/gpu-controller/src/firestore-control-store.ts: the durable control store. The documents
  are records, their zod schemas predicates, and each operation is one Firestore transaction: it
  reads and writes a database state atomically, and an error aborts it (\<open>runTransaction\<close> is
  serializable and retried by the library). \<open>create\<close> fails on an existing document. The store's
  authorization, fixed by its constructor, and \<open>z.uuid()\<close> are parameters.
  Lemmas: an invariant of the documents (the active handle is the only unclean record, the
  reserved budget is the sum over the records and within the authorization), preserved by every
  operation; \<open>CLEANED\<close> is final; the store is an interpretation of \<open>control_store\<close>.
\<close>

section \<open>Schemas\<close>

definition MAX_RECENT_REQUESTS :: nat where
  "MAX_RECENT_REQUESTS = 120"

definition string_between :: "nat \<Rightarrow> nat \<Rightarrow> string \<Rightarrow> bool" where
  "string_between lo hi s \<longleftrightarrow> lo \<le> length s \<and> length s \<le> hi"

definition firestoreSyntheticAuthorizationSchema ::
  "'a synthetic_authorization_scheme \<Rightarrow> bool" where
  "firestoreSyntheticAuthorizationSchema a \<longleftrightarrow>
     string_between 1 128 (sa_epoch a) \<and> utc_datetime_ok (sa_validUntil a) \<and>
     sa_maxExecutions a \<le> 100 \<and> sa_maxWorstCaseJpy a \<le> 10000000 \<and>
     sa_maxRequestsPerMinute a \<le> MAX_RECENT_REQUESTS \<and>
     sa_worstCaseJpyPerExecution a \<le> 10000000"

definition providerJobSchema :: "(string \<Rightarrow> bool) \<Rightarrow> provider_job \<Rightarrow> bool" where
  "providerJobSchema uuid_ok j \<longleftrightarrow>
     string_between 1 512 (pj_etag j) \<and> cloudRunJobManifestSchema (pj_manifest j) \<and>
     string_between 1 512 (pj_ref j) \<and> uuid_ok (pj_uid j)"

definition providerExecutionSchema :: "(string \<Rightarrow> bool) \<Rightarrow> provider_execution \<Rightarrow> bool" where
  "providerExecutionSchema uuid_ok x \<longleftrightarrow>
     string_between 1 512 (px_etag x) \<and> string_between 1 512 (px_jobRef x) \<and>
     string_between 1 512 (px_ref x) \<and> uuid_ok (px_uid x)"

definition controlRecordSchema :: "(string \<Rightarrow> bool) \<Rightarrow> control_record \<Rightarrow> bool" where
  "controlRecordSchema uuid_ok r \<longleftrightarrow>
     ulid_ok (cr_bootstrapRequestId r) \<and> cr_createAttempts r \<le> 2 \<and>
     utc_datetime_ok (cr_createdAt r) \<and>
     (case cr_execution r of None \<Rightarrow> True | Some x \<Rightarrow> providerExecutionSchema uuid_ok x) \<and>
     opaque_handle_ok (cr_executionHandle r) \<and> utc_datetime_ok (cr_expiresAt r) \<and>
     (case cr_job r of None \<Rightarrow> True | Some j \<Rightarrow> providerJobSchema uuid_ok j) \<and>
     job_id_ok (cr_jobId r) \<and>
     (case cr_operationRef r of None \<Rightarrow> True | Some p \<Rightarrow> string_between 1 512 p) \<and>
     utc_datetime_ok (cr_provisioningDeadline r) \<and>
     0 < cr_reservedWorstCaseJpy r \<and> cr_reservedWorstCaseJpy r \<le> 10000000 \<and>
     utc_datetime_ok (cr_updatedAt r) \<and> 0 < cr_version r"

record environment_document = synthetic_authorization +
  ed_activeExecutionHandle :: "string option"
  ed_activeExecutions :: nat
  ed_recentAcceptedAt :: "string list"
  ed_reservedExecutions :: nat
  ed_reservedWorstCaseJpy :: nat
  ed_updatedAt :: string

definition environmentDocumentSchema :: "environment_document \<Rightarrow> bool" where
  "environmentDocumentSchema d \<longleftrightarrow>
     firestoreSyntheticAuthorizationSchema d \<and>
     (case ed_activeExecutionHandle d of None \<Rightarrow> True | Some h \<Rightarrow> opaque_handle_ok h) \<and>
     ed_activeExecutions d \<le> 1 \<and>
     list_all utc_datetime_ok (ed_recentAcceptedAt d) \<and>
     length (ed_recentAcceptedAt d) \<le> MAX_RECENT_REQUESTS \<and>
     ed_reservedExecutions d \<le> 100 \<and> ed_reservedWorstCaseJpy d \<le> 10000000 \<and>
     utc_datetime_ok (ed_updatedAt d) \<and>
     ((ed_activeExecutions d = 0 \<and> ed_activeExecutionHandle d = None) \<or>
      (ed_activeExecutions d = 1 \<and> ed_activeExecutionHandle d \<noteq> None)) \<and>
     ed_activeExecutions d \<le> ed_reservedExecutions d \<and>
     ed_reservedExecutions d \<le> sa_maxExecutions d \<and>
     ed_reservedWorstCaseJpy d = ed_reservedExecutions d * sa_worstCaseJpyPerExecution d \<and>
     ed_reservedWorstCaseJpy d \<le> sa_maxWorstCaseJpy d"

record request_document =
  rd_acceptedAt :: string
  rd_identity :: request_identity
  rd_ttlExpiresAt :: jsnum

text \<open>\<open>z.date()\<close> rejects an invalid date; the refinement compares the two times.\<close>

definition requestDocumentSchema :: "request_document \<Rightarrow> bool" where
  "requestDocumentSchema d \<longleftrightarrow>
     utc_datetime_ok (rd_acceptedAt d) \<and>
     opaque_handle_ok (ri_digest (rd_identity d)) \<and>
     opaque_handle_ok (ri_executionHandle (rd_identity d)) \<and>
     ulid_ok (ri_requestId (rd_identity d)) \<and> is_finite_num (rd_ttlExpiresAt d) \<and>
     \<not> num_leq (rd_ttlExpiresAt d) (date_parse (rd_acceptedAt d))"

record execution_document =
  xd_record :: control_record
  xd_ttlExpiresAt :: jsnum

definition executionDocumentSchema :: "(string \<Rightarrow> bool) \<Rightarrow> execution_document \<Rightarrow> bool" where
  "executionDocumentSchema uuid_ok d \<longleftrightarrow>
     controlRecordSchema uuid_ok (xd_record d) \<and>
     (case xd_ttlExpiresAt d of
        None \<Rightarrow> False
      | Some t \<Rightarrow> to_iso t = cr_expiresAt (xd_record d))"

definition admitCreateInputSchema :: "admit_create_input \<Rightarrow> bool" where
  "admitCreateInputSchema i \<longleftrightarrow>
     ri_action (ai_identity i) = act_create \<and>
     opaque_handle_ok (ri_digest (ai_identity i)) \<and>
     opaque_handle_ok (ri_executionHandle (ai_identity i)) \<and>
     job_id_ok (ai_jobId i) \<and> utc_datetime_ok (ai_now i) \<and>
     utc_datetime_ok (ai_provisioningDeadline i) \<and> utc_datetime_ok (ai_recordExpiresAt i) \<and>
     ulid_ok (ri_requestId (ai_identity i)) \<and>
     \<not> num_leq (date_parse (ai_provisioningDeadline i)) (date_parse (ai_now i)) \<and>
     \<not> num_leq (date_parse (ai_recordExpiresAt i)) (date_parse (ai_provisioningDeadline i))"

definition claimRequestInputSchema :: "claim_request_input \<Rightarrow> bool" where
  "claimRequestInputSchema i \<longleftrightarrow>
     ri_action (ci_identity i) \<noteq> act_create \<and>
     opaque_handle_ok (ri_digest (ci_identity i)) \<and>
     opaque_handle_ok (ri_executionHandle (ci_identity i)) \<and>
     utc_datetime_ok (ci_now i) \<and> ulid_ok (ri_requestId (ci_identity i))"

section \<open>The database\<close>

text \<open>The three collections, by the identifier in the document path.\<close>

record firestore_db =
  fd_environments :: "controller_environment \<Rightarrow> environment_document option"
  fd_executions :: "string \<Rightarrow> execution_document option"
  fd_requests :: "string \<Rightarrow> request_document option"

definition create_execution ::
  "string \<Rightarrow> execution_document \<Rightarrow> firestore_db \<Rightarrow> firestore_db result" where
  "create_execution h d db =
     (if fd_executions db h \<noteq> None then Inl (DatabaseError ''already exists'')
      else Inr (db\<lparr>fd_executions := (fd_executions db)(h \<mapsto> d)\<rparr>))"

definition create_request ::
  "string \<Rightarrow> request_document \<Rightarrow> firestore_db \<Rightarrow> firestore_db result" where
  "create_request q d db =
     (if fd_requests db q \<noteq> None then Inl (DatabaseError ''already exists'')
      else Inr (db\<lparr>fd_requests := (fd_requests db)(q \<mapsto> d)\<rparr>))"

definition set_environment ::
  "controller_environment \<Rightarrow> environment_document \<Rightarrow> firestore_db \<Rightarrow> firestore_db" where
  "set_environment e d db = db\<lparr>fd_environments := (fd_environments db)(e \<mapsto> d)\<rparr>"

definition set_execution :: "string \<Rightarrow> execution_document \<Rightarrow> firestore_db \<Rightarrow> firestore_db" where
  "set_execution h d db = db\<lparr>fd_executions := (fd_executions db)(h \<mapsto> d)\<rparr>"

text \<open>Parsing a document that may be missing: \<open>null\<close> fails every object schema.\<close>

definition parse_document :: "('a \<Rightarrow> bool) \<Rightarrow> 'a option \<Rightarrow> 'a result" where
  "parse_document ok d = (case d of None \<Rightarrow> Inl ZodError | Some x \<Rightarrow> zod_parse ok x)"

lemma parse_document_Inr_iff [result_simps]:
  "parse_document ok d = Inr x \<longleftrightarrow> d = Some x \<and> ok x"
  by (auto simp: parse_document_def result_simps split: option.splits)

definition sameAuthorization ::
  "environment_document \<Rightarrow> synthetic_authorization \<Rightarrow> bool" where
  "sameAuthorization d a \<longleftrightarrow>
     sa_environment d = sa_environment a \<and> sa_epoch d = sa_epoch a \<and>
     sa_validUntil d = sa_validUntil a \<and> sa_maxExecutions d = sa_maxExecutions a \<and>
     sa_maxWorstCaseJpy d = sa_maxWorstCaseJpy a \<and>
     sa_maxRequestsPerMinute d = sa_maxRequestsPerMinute a \<and>
     sa_worstCaseJpyPerExecution d = sa_worstCaseJpyPerExecution a"

definition fs_sameRequest :: "request_document \<Rightarrow> request_identity \<Rightarrow> bool" where
  "fs_sameRequest d i \<longleftrightarrow>
     ri_action (rd_identity d) = ri_action i \<and> ri_digest (rd_identity d) = ri_digest i \<and>
     ri_environment (rd_identity d) = ri_environment i \<and>
     ri_executionHandle (rd_identity d) = ri_executionHandle i \<and>
     ri_requestId (rd_identity d) = ri_requestId i"

definition pruneRecent :: "environment_document \<Rightarrow> jsnum \<Rightarrow> string list" where
  "pruneRecent d nowMs =
     filter (\<lambda>v. num_less (num_add nowMs (- 60000)) (date_parse v)) (ed_recentAcceptedAt d)"

definition recordDocument ::
  "(string \<Rightarrow> bool) \<Rightarrow> control_record \<Rightarrow> execution_document result" where
  "recordDocument uuid_ok r =
     res_bind (zod_parse (controlRecordSchema uuid_ok) r) (\<lambda>parsed.
       Inr \<lparr>xd_record = parsed, xd_ttlExpiresAt = date_parse (cr_expiresAt parsed)\<rparr>)"

definition parseRecordDocument ::
  "(string \<Rightarrow> bool) \<Rightarrow> execution_document option \<Rightarrow> string \<Rightarrow> control_record result" where
  "parseRecordDocument uuid_ok v expectedExecutionHandle =
     res_bind (parse_document (executionDocumentSchema uuid_ok) v) (\<lambda>d.
       if cr_executionHandle (xd_record d) \<noteq> expectedExecutionHandle then
         Inl (JsError ''Firestore controller record path binding mismatch'')
       else Inr (xd_record d))"

definition createFirestoreEnvironmentDocument ::
  "synthetic_authorization \<Rightarrow> string \<Rightarrow> environment_document result" where
  "createFirestoreEnvironmentDocument a now =
     res_bind (zod_parse firestoreSyntheticAuthorizationSchema a) (\<lambda>a.
     res_bind (zod_parse utc_datetime_ok now) (\<lambda>now.
     zod_parse environmentDocumentSchema
       (synthetic_authorization.extend a
         (environment_document.fields None 0 [] 0 0 now))))"

definition new_firestore_store :: "synthetic_authorization \<Rightarrow> synthetic_authorization result" where
  "new_firestore_store a = zod_parse firestoreSyntheticAuthorizationSchema a"

section \<open>The operations\<close>

definition fs_admit_transaction ::
  "(string \<Rightarrow> bool) \<Rightarrow> synthetic_authorization \<Rightarrow> admit_create_input \<Rightarrow> firestore_db
     \<Rightarrow> (admit_create_result \<times> firestore_db) result" where
  "fs_admit_transaction uuid_ok authorization request db =
     (let ident = ai_identity request;
          requestValue = fd_requests db (ri_requestId ident);
          executionValue = fd_executions db (ri_executionHandle ident) in
      res_bind (parse_document environmentDocumentSchema
        (fd_environments db (ri_environment ident))) (\<lambda>environment.
      if \<not> sameAuthorization environment authorization then Inr (Admit_environment_mismatch, db)
      else if requestValue \<noteq> None then
        res_bind (parse_document requestDocumentSchema requestValue) (\<lambda>remembered.
          if fs_sameRequest remembered ident \<and> executionValue \<noteq> None then
            res_bind (parseRecordDocument uuid_ok executionValue (ri_executionHandle ident)) (\<lambda>r.
              if cr_bootstrapRequestId r \<noteq> ri_requestId ident then
                Inl (JsError ''Firestore controller bootstrap request binding mismatch'')
              else Inr (Admit_duplicate r, db))
          else Inr (Admit_conflict, db))
      else if executionValue \<noteq> None then Inr (Admit_conflict, db)
      else
        let nowMs = date_parse (ai_now request); recent = pruneRecent environment nowMs in
        if \<not> is_finite_num nowMs
          \<or> num_less (date_parse (sa_validUntil environment)) nowMs
          \<or> ed_activeExecutions environment \<noteq> 0
          \<or> ed_activeExecutionHandle environment \<noteq> None
          \<or> sa_maxExecutions environment \<le> ed_reservedExecutions environment
          \<or> sa_worstCaseJpyPerExecution environment = 0
          \<or> sa_maxWorstCaseJpy environment
              < ed_reservedWorstCaseJpy environment + sa_worstCaseJpyPerExecution environment
        then Inr (Admit_budget_exhausted, db)
        else if sa_maxRequestsPerMinute environment = 0
          \<or> sa_maxRequestsPerMinute environment \<le> length recent
        then Inr (Admit_rate_limited, db)
        else
          res_bind (zod_parse (controlRecordSchema uuid_ok)
            (initial_record request (sa_worstCaseJpyPerExecution environment))) (\<lambda>r.
          res_bind (recordDocument uuid_ok r) (\<lambda>document.
          res_bind (create_execution (ri_executionHandle ident) document db) (\<lambda>db1.
          res_bind (zod_parse requestDocumentSchema
            \<lparr>rd_acceptedAt = ai_now request, rd_identity = ident,
             rd_ttlExpiresAt = date_parse (ai_recordExpiresAt request)\<rparr>) (\<lambda>requestDocument.
          res_bind (create_request (ri_requestId ident) requestDocument db1) (\<lambda>db2.
          res_bind (zod_parse environmentDocumentSchema
            (environment\<lparr>ed_activeExecutionHandle := Some (ri_executionHandle ident),
               ed_activeExecutions := 1,
               ed_recentAcceptedAt := recent @ [ai_now request],
               ed_reservedExecutions := ed_reservedExecutions environment + 1,
               ed_reservedWorstCaseJpy :=
                 ed_reservedWorstCaseJpy environment + sa_worstCaseJpyPerExecution environment,
               ed_updatedAt := ai_now request\<rparr>)) (\<lambda>next.
          Inr (Admit_accepted r, set_environment (ri_environment ident) next db2)))))))))"

definition fs_admitCreate ::
  "(string \<Rightarrow> bool) \<Rightarrow> synthetic_authorization \<Rightarrow> firestore_db \<Rightarrow> admit_create_input
     \<Rightarrow> (admit_create_result \<times> firestore_db) result" where
  "fs_admitCreate uuid_ok authorization db input =
     res_bind (zod_parse admitCreateInputSchema input) (\<lambda>request.
       if ri_environment (ai_identity request) \<noteq> sa_environment authorization then
         Inr (Admit_environment_mismatch, db)
       else fs_admit_transaction uuid_ok authorization request db)"

definition fs_claim_transaction ::
  "(string \<Rightarrow> bool) \<Rightarrow> synthetic_authorization \<Rightarrow> claim_request_input \<Rightarrow> firestore_db
     \<Rightarrow> (claim_request_result \<times> firestore_db) result" where
  "fs_claim_transaction uuid_ok authorization request db =
     (let ident = ci_identity request;
          requestValue = fd_requests db (ri_requestId ident);
          executionValue = fd_executions db (ri_executionHandle ident) in
      res_bind (parse_document environmentDocumentSchema
        (fd_environments db (ri_environment ident))) (\<lambda>environment.
      if \<not> sameAuthorization environment authorization then Inr (Claim_environment_mismatch, db)
      else if requestValue \<noteq> None then
        res_bind (parse_document requestDocumentSchema requestValue) (\<lambda>remembered.
          if fs_sameRequest remembered ident \<and> executionValue \<noteq> None then
            res_bind (parseRecordDocument uuid_ok executionValue (ri_executionHandle ident)) (\<lambda>r.
              Inr (Claim_duplicate r, db))
          else Inr (Claim_conflict, db))
      else if executionValue = None then Inr (Claim_not_found, db)
      else
        res_bind (parseRecordDocument uuid_ok executionValue (ri_executionHandle ident)) (\<lambda>r.
        if cr_environment r \<noteq> ri_environment ident then Inr (Claim_environment_mismatch, db)
        else if cr_version r \<noteq> ci_expectedVersion request then Inr (Claim_stale r, db)
        else
          let nowMs = date_parse (ci_now request); recent = pruneRecent environment nowMs in
          if \<not> is_finite_num nowMs \<or> sa_maxRequestsPerMinute environment = 0
            \<or> sa_maxRequestsPerMinute environment \<le> length recent
          then Inr (Claim_rate_limited, db)
          else
            res_bind (zod_parse requestDocumentSchema
              \<lparr>rd_acceptedAt = ci_now request, rd_identity = ident,
               rd_ttlExpiresAt = date_parse (cr_expiresAt r)\<rparr>) (\<lambda>requestDocument.
            res_bind (create_request (ri_requestId ident) requestDocument db) (\<lambda>db1.
            res_bind (zod_parse environmentDocumentSchema
              (environment\<lparr>ed_recentAcceptedAt := recent @ [ci_now request],
                 ed_updatedAt := ci_now request\<rparr>)) (\<lambda>next.
            Inr (Claim_accepted r, set_environment (ri_environment ident) next db1)))))))"

definition fs_claimRequest ::
  "(string \<Rightarrow> bool) \<Rightarrow> synthetic_authorization \<Rightarrow> firestore_db \<Rightarrow> claim_request_input
     \<Rightarrow> (claim_request_result \<times> firestore_db) result" where
  "fs_claimRequest uuid_ok authorization db input =
     res_bind (zod_parse claimRequestInputSchema input) (\<lambda>request.
       if ri_environment (ci_identity request) \<noteq> sa_environment authorization then
         Inr (Claim_environment_mismatch, db)
       else fs_claim_transaction uuid_ok authorization request db)"

definition fs_cas_transaction ::
  "(string \<Rightarrow> bool) \<Rightarrow> synthetic_authorization \<Rightarrow> nat \<Rightarrow> control_record \<Rightarrow> firestore_db
     \<Rightarrow> (bool \<times> firestore_db) result" where
  "fs_cas_transaction uuid_ok authorization expectedVersion next db =
     (let executionValue = fd_executions db (cr_executionHandle next) in
      res_bind (parse_document environmentDocumentSchema
        (fd_environments db (cr_environment next))) (\<lambda>environment.
      if \<not> sameAuthorization environment authorization \<or> executionValue = None then
        Inr (False, db)
      else
        res_bind (parseRecordDocument uuid_ok executionValue (cr_executionHandle next)) (\<lambda>current.
        if cr_version current \<noteq> expectedVersion
          \<or> cr_version next \<noteq> expectedVersion + 1
          \<or> \<not> same_binding next current
          \<or> cr_expiresAt next \<noteq> cr_expiresAt current
          \<or> num_less (date_parse (cr_updatedAt next)) (date_parse (cr_updatedAt current))
          \<or> cr_state current = CLEANED
        then Inr (False, db)
        else if ed_activeExecutions environment \<noteq> 1
          \<or> ed_activeExecutionHandle environment \<noteq> Some (cr_executionHandle current)
        then Inr (False, db)
        else
          res_bind (recordDocument uuid_ok next) (\<lambda>document.
          let db1 = set_execution (cr_executionHandle next) document db in
          if cr_state next = CLEANED then
            res_bind (zod_parse environmentDocumentSchema
              (environment\<lparr>ed_activeExecutionHandle := None, ed_activeExecutions := 0,
                 ed_updatedAt := cr_updatedAt next\<rparr>)) (\<lambda>cleared.
            Inr (True, set_environment (cr_environment next) cleared db1))
          else Inr (True, db1)))))"

definition fs_compareAndSet ::
  "(string \<Rightarrow> bool) \<Rightarrow> synthetic_authorization \<Rightarrow> firestore_db \<Rightarrow> nat \<Rightarrow> control_record
     \<Rightarrow> (bool \<times> firestore_db) result" where
  "fs_compareAndSet uuid_ok authorization db expectedVersion r =
     res_bind (zod_parse (controlRecordSchema uuid_ok) r) (\<lambda>next.
       if cr_environment next \<noteq> sa_environment authorization then Inr (False, db)
       else fs_cas_transaction uuid_ok authorization expectedVersion next db)"

definition fs_get ::
  "(string \<Rightarrow> bool) \<Rightarrow> synthetic_authorization \<Rightarrow> firestore_db \<Rightarrow> string
     \<Rightarrow> control_record option result" where
  "fs_get uuid_ok authorization db executionHandle =
     res_bind (zod_parse opaque_handle_ok executionHandle) (\<lambda>parsedHandle.
     (case fd_executions db parsedHandle of
        None \<Rightarrow> Inr None
      | Some d \<Rightarrow>
          res_bind (parseRecordDocument uuid_ok (Some d) parsedHandle) (\<lambda>r.
            if cr_environment r \<noteq> sa_environment authorization then
              Inl (JsError ''Firestore controller record environment mismatch'')
            else Inr (Some r))))"

definition fs_listUnclean ::
  "(string \<Rightarrow> bool) \<Rightarrow> synthetic_authorization \<Rightarrow> firestore_db \<Rightarrow> controller_environment
     \<Rightarrow> control_record list result" where
  "fs_listUnclean uuid_ok authorization db env =
     (if env \<noteq> sa_environment authorization then Inr []
      else
        res_bind (parse_document environmentDocumentSchema (fd_environments db env)) (\<lambda>state.
        if \<not> sameAuthorization state authorization then
          Inl (JsError ''Firestore controller authorization mismatch'')
        else
          (case ed_activeExecutionHandle state of
             None \<Rightarrow>
               if ed_activeExecutions state \<noteq> 0 then
                 Inl (JsError ''Firestore controller active state drift'')
               else Inr []
           | Some h \<Rightarrow>
               if ed_activeExecutions state \<noteq> 1 then
                 Inl (JsError ''Firestore controller active state drift'')
               else
                 (case fd_executions db h of
                    None \<Rightarrow> Inl (JsError ''Firestore controller active record missing'')
                  | Some d \<Rightarrow>
                      res_bind (parseRecordDocument uuid_ok (Some d) h) (\<lambda>r.
                      if cr_environment r \<noteq> env \<or> cr_state r = CLEANED then
                        Inl (JsError ''Firestore controller active record drift'')
                      else Inr [r])))))"

definition firestore_operations ::
  "(string \<Rightarrow> bool) \<Rightarrow> synthetic_authorization \<Rightarrow> firestore_db store_operations" where
  "firestore_operations uuid_ok a =
     \<lparr>so_admitCreate = fs_admitCreate uuid_ok a, so_claimRequest = fs_claimRequest uuid_ok a,
      so_compareAndSet = fs_compareAndSet uuid_ok a, so_get = fs_get uuid_ok a,
      so_listUnclean = fs_listUnclean uuid_ok a\<rparr>"

section \<open>What the operations do to the database\<close>

lemmas fs_transactions = fs_admitCreate_def fs_claimRequest_def fs_compareAndSet_def
  fs_admit_transaction_def fs_claim_transaction_def fs_cas_transaction_def

lemma recordDocument_Inr_iff [result_simps]:
  "recordDocument uuid_ok r = Inr d \<longleftrightarrow>
   controlRecordSchema uuid_ok r \<and> d = \<lparr>xd_record = r, xd_ttlExpiresAt = date_parse (cr_expiresAt r)\<rparr>"
  by (auto simp: recordDocument_def result_simps)

lemma parseRecordDocument_Inr_iff [result_simps]:
  "parseRecordDocument uuid_ok v h = Inr r \<longleftrightarrow>
   (\<exists>d. v = Some d \<and> executionDocumentSchema uuid_ok d \<and> xd_record d = r \<and>
     cr_executionHandle r = h)"
  by (auto simp: parseRecordDocument_def result_simps split: if_splits)

lemma create_execution_Inr_iff [result_simps]:
  "create_execution h d db = Inr db' \<longleftrightarrow>
   fd_executions db h = None \<and> db' = db\<lparr>fd_executions := (fd_executions db)(h \<mapsto> d)\<rparr>"
  by (auto simp: create_execution_def)

lemma create_request_Inr_iff [result_simps]:
  "create_request q d db = Inr db' \<longleftrightarrow>
   fd_requests db q = None \<and> db' = db\<lparr>fd_requests := (fd_requests db)(q \<mapsto> d)\<rparr>"
  by (auto simp: create_request_def)

text \<open>The environment document after an accepted admission, claim and cleanup.\<close>

definition admitted_environment ::
  "environment_document \<Rightarrow> admit_create_input \<Rightarrow> environment_document" where
  "admitted_environment d i =
     d\<lparr>ed_activeExecutionHandle := Some (ri_executionHandle (ai_identity i)),
       ed_activeExecutions := 1,
       ed_recentAcceptedAt := pruneRecent d (date_parse (ai_now i)) @ [ai_now i],
       ed_reservedExecutions := ed_reservedExecutions d + 1,
       ed_reservedWorstCaseJpy := ed_reservedWorstCaseJpy d + sa_worstCaseJpyPerExecution d,
       ed_updatedAt := ai_now i\<rparr>"

definition claimed_environment ::
  "environment_document \<Rightarrow> claim_request_input \<Rightarrow> environment_document" where
  "claimed_environment d c =
     d\<lparr>ed_recentAcceptedAt := pruneRecent d (date_parse (ci_now c)) @ [ci_now c],
       ed_updatedAt := ci_now c\<rparr>"

definition cleared_environment ::
  "environment_document \<Rightarrow> control_record \<Rightarrow> environment_document" where
  "cleared_environment d r =
     d\<lparr>ed_activeExecutionHandle := None, ed_activeExecutions := 0, ed_updatedAt := cr_updatedAt r\<rparr>"

lemma fs_admit_accepted:
  assumes "fs_admitCreate u a db i = Inr (Admit_accepted r, db')"
  obtains d q where
    "ri_environment (ai_identity i) = sa_environment a"
    "fd_environments db (sa_environment a) = Some d" "environmentDocumentSchema d"
    "sameAuthorization d a"
    "fd_executions db (ri_executionHandle (ai_identity i)) = None"
    "fd_requests db (ri_requestId (ai_identity i)) = None"
    "ed_activeExecutionHandle d = None" "ed_activeExecutions d = 0"
    "length (pruneRecent d (date_parse (ai_now i))) < sa_maxRequestsPerMinute d"
    "r = initial_record i (sa_worstCaseJpyPerExecution d)" "controlRecordSchema u r"
    "environmentDocumentSchema (admitted_environment d i)"
    "db' = db\<lparr>fd_executions := (fd_executions db)(ri_executionHandle (ai_identity i) \<mapsto>
              \<lparr>xd_record = r, xd_ttlExpiresAt = date_parse (cr_expiresAt r)\<rparr>),
            fd_requests := (fd_requests db)(ri_requestId (ai_identity i) \<mapsto> q),
            fd_environments := (fd_environments db)(sa_environment a \<mapsto> admitted_environment d i)\<rparr>"
  using assms
  by (clarsimp simp: fs_transactions Let_def result_simps split: if_splits, intro that)
    (simp_all add: admitted_environment_def set_environment_def)

lemma fs_admit_duplicate:
  "fs_admitCreate u a db i = Inr (Admit_duplicate r, db') \<Longrightarrow>
   (\<exists>x. fd_executions db (ri_executionHandle (ai_identity i)) = Some x \<and> xd_record x = r) \<and>
   cr_bootstrapRequestId r = ri_requestId (ai_identity i)"
  by (auto simp: fs_transactions Let_def result_simps split: if_splits)

lemma fs_admit_unchanged:
  "fs_admitCreate u a db i = Inr (res, db') \<Longrightarrow> \<forall>r. res \<noteq> Admit_accepted r \<Longrightarrow> db' = db"
  by (auto simp: fs_transactions Let_def result_simps split: if_splits)

lemma fs_claim_accepted:
  assumes "fs_claimRequest u a db c = Inr (Claim_accepted r, db')"
  obtains d q x where
    "ri_environment (ci_identity c) = sa_environment a"
    "fd_environments db (sa_environment a) = Some d" "environmentDocumentSchema d"
    "sameAuthorization d a"
    "fd_executions db (ri_executionHandle (ci_identity c)) = Some x" "xd_record x = r"
    "cr_version r = ci_expectedVersion c" "cr_environment r = sa_environment a"
    "fd_requests db (ri_requestId (ci_identity c)) = None"
    "length (pruneRecent d (date_parse (ci_now c))) < sa_maxRequestsPerMinute d"
    "environmentDocumentSchema (claimed_environment d c)"
    "db' = db\<lparr>fd_requests := (fd_requests db)(ri_requestId (ci_identity c) \<mapsto> q),
              fd_environments := (fd_environments db)(sa_environment a \<mapsto> claimed_environment d c)\<rparr>"
  using assms
  by (clarsimp simp: fs_transactions Let_def result_simps split: if_splits, intro that)
    (simp_all add: claimed_environment_def set_environment_def)

lemma fs_claim_seen:
  "fs_claimRequest u a db c = Inr (res, db') \<Longrightarrow> res = Claim_duplicate r \<or> res = Claim_stale r \<Longrightarrow>
   \<exists>x. fd_executions db (ri_executionHandle (ci_identity c)) = Some x \<and> xd_record x = r"
  by (auto simp: fs_transactions Let_def result_simps split: if_splits)

lemma fs_claim_unchanged:
  "fs_claimRequest u a db c = Inr (res, db') \<Longrightarrow> \<forall>r. res \<noteq> Claim_accepted r \<Longrightarrow> db' = db"
  by (auto simp: fs_transactions Let_def result_simps split: if_splits)

lemma fs_cas_applied:
  assumes "fs_compareAndSet u a db v r = Inr (True, db')"
  obtains d x where
    "cr_environment r = sa_environment a" "controlRecordSchema u r"
    "fd_environments db (sa_environment a) = Some d" "environmentDocumentSchema d"
    "sameAuthorization d a"
    "fd_executions db (cr_executionHandle r) = Some x"
    "cr_version (xd_record x) = v" "cr_version r = v + 1" "same_binding r (xd_record x)"
    "cr_state (xd_record x) \<noteq> CLEANED" "cr_expiresAt r = cr_expiresAt (xd_record x)"
    "ed_activeExecutions d = 1" "ed_activeExecutionHandle d = Some (cr_executionHandle r)"
    "cr_state r = CLEANED \<Longrightarrow> environmentDocumentSchema (cleared_environment d r)"
    "db' = (let db1 = db\<lparr>fd_executions := (fd_executions db)(cr_executionHandle r \<mapsto>
              \<lparr>xd_record = r, xd_ttlExpiresAt = date_parse (cr_expiresAt r)\<rparr>)\<rparr>
            in if cr_state r = CLEANED
               then db1\<lparr>fd_environments :=
                      (fd_environments db)(sa_environment a \<mapsto> cleared_environment d r)\<rparr>
               else db1)"
  using assms
  by (clarsimp simp: fs_transactions Let_def result_simps split: if_splits; intro that)
    (simp_all add: cleared_environment_def set_environment_def set_execution_def)

lemma fs_cas_refused: "fs_compareAndSet u a db v r = Inr (False, db') \<Longrightarrow> db' = db"
  by (auto simp: fs_transactions Let_def result_simps split: if_splits)

section \<open>The invariant\<close>

definition fs_record :: "firestore_db \<Rightarrow> string \<Rightarrow> control_record option" where
  "fs_record db h = map_option xd_record (fd_executions db h)"

definition env_handles :: "(string \<Rightarrow> control_record option) \<Rightarrow> controller_environment \<Rightarrow> string set" where
  "env_handles recs e = {h. \<exists>r. recs h = Some r \<and> cr_environment r = e}"

text \<open>The environment document accounts for the records of its environment.\<close>

definition fs_accounts ::
  "synthetic_authorization \<Rightarrow> environment_document \<Rightarrow> (string \<Rightarrow> control_record option) \<Rightarrow> bool" where
  "fs_accounts a d recs \<longleftrightarrow>
     sameAuthorization d a \<and> environmentDocumentSchema d \<and>
     finite (env_handles recs (sa_environment a)) \<and>
     ed_reservedExecutions d = card (env_handles recs (sa_environment a)) \<and>
     length (ed_recentAcceptedAt d) \<le> sa_maxRequestsPerMinute a \<and>
     (\<forall>h. ed_activeExecutionHandle d = Some h \<longrightarrow> h \<in> env_handles recs (sa_environment a)) \<and>
     (\<forall>h r. recs h = Some r \<and> cr_environment r = sa_environment a \<longrightarrow>
        cr_reservedWorstCaseJpy r = sa_worstCaseJpyPerExecution a \<and>
        (cr_state r \<noteq> CLEANED \<longleftrightarrow> ed_activeExecutionHandle d = Some h))"

definition fs_inv :: "synthetic_authorization \<Rightarrow> firestore_db \<Rightarrow> bool" where
  "fs_inv a db \<longleftrightarrow>
     (\<forall>h r. fs_record db h = Some r \<longrightarrow> cr_executionHandle r = h) \<and>
     (\<exists>d. fd_environments db (sa_environment a) = Some d \<and> fs_accounts a d (fs_record db))"

lemma env_handles_new:
  "recs h = None \<Longrightarrow>
   env_handles (recs(h \<mapsto> r)) e = (if cr_environment r = e then insert h (env_handles recs e)
     else env_handles recs e)"
  by (auto simp: env_handles_def)

lemma env_handles_same:
  "recs h = Some c \<Longrightarrow> cr_environment r = cr_environment c \<Longrightarrow>
   env_handles (recs(h \<mapsto> r)) e = env_handles recs e"
  by (auto simp: env_handles_def)

lemma fs_record_put [simp]:
  "fs_record (db\<lparr>fd_executions := (fd_executions db)(h \<mapsto> x)\<rparr>) = (fs_record db)(h \<mapsto> xd_record x)"
  "fs_record (db\<lparr>fd_requests := q\<rparr>) = fs_record db"
  "fs_record (db\<lparr>fd_environments := p\<rparr>) = fs_record db"
  by (auto simp: fs_record_def fun_eq_iff)

lemma sameAuthorization_simps:
  assumes "sameAuthorization d a"
  shows "sa_environment d = sa_environment a"
    "sa_worstCaseJpyPerExecution d = sa_worstCaseJpyPerExecution a"
    "sa_maxRequestsPerMinute d = sa_maxRequestsPerMinute a"
    "sa_maxExecutions d = sa_maxExecutions a"
    "sa_maxWorstCaseJpy d = sa_maxWorstCaseJpy a"
  using assms by (simp_all add: sameAuthorization_def)

lemma sameAuthorization_updates [simp]:
  "sameAuthorization (admitted_environment d i) a = sameAuthorization d a"
  "sameAuthorization (claimed_environment d c) a = sameAuthorization d a"
  "sameAuthorization (cleared_environment d r) a = sameAuthorization d a"
  by (simp_all add: sameAuthorization_def admitted_environment_def claimed_environment_def
      cleared_environment_def)

lemma environment_simps [simp]:
  "ed_activeExecutionHandle (admitted_environment d i) = Some (ri_executionHandle (ai_identity i))"
  "ed_reservedExecutions (admitted_environment d i) = Suc (ed_reservedExecutions d)"
  "ed_recentAcceptedAt (admitted_environment d i) =
     pruneRecent d (date_parse (ai_now i)) @ [ai_now i]"
  "ed_activeExecutionHandle (claimed_environment d c) = ed_activeExecutionHandle d"
  "ed_reservedExecutions (claimed_environment d c) = ed_reservedExecutions d"
  "ed_recentAcceptedAt (claimed_environment d c) =
     pruneRecent d (date_parse (ci_now c)) @ [ci_now c]"
  "ed_activeExecutionHandle (cleared_environment d r) = None"
  "ed_reservedExecutions (cleared_environment d r) = ed_reservedExecutions d"
  "ed_recentAcceptedAt (cleared_environment d r) = ed_recentAcceptedAt d"
  by (simp_all add: admitted_environment_def claimed_environment_def cleared_environment_def)

lemma fs_accounts_admitted:
  assumes d: "fs_accounts a d recs" and new: "recs h = None" "ed_activeExecutionHandle d = None"
    and i: "ri_executionHandle (ai_identity i) = h" "ri_environment (ai_identity i) = sa_environment a"
    and rate: "length (pruneRecent d (date_parse (ai_now i))) < sa_maxRequestsPerMinute d"
    and ok: "environmentDocumentSchema (admitted_environment d i)"
  shows "fs_accounts a (admitted_environment d i)
    (recs(h \<mapsto> initial_record i (sa_worstCaseJpyPerExecution d)))"
proof -
  have h: "h \<notin> env_handles recs (sa_environment a)" using new by (simp add: env_handles_def)
  show ?thesis
    using d new h i rate ok
    by (auto simp: fs_accounts_def env_handles_new dest: sameAuthorization_simps)
qed

lemma fs_accounts_claimed:
  assumes "fs_accounts a d recs" "environmentDocumentSchema (claimed_environment d c)"
    and "length (pruneRecent d (date_parse (ci_now c))) < sa_maxRequestsPerMinute d"
  shows "fs_accounts a (claimed_environment d c) recs"
  using assms
  by (auto simp: fs_accounts_def dest: sameAuthorization_simps)

lemma fs_accounts_cas:
  assumes d: "fs_accounts a d recs" and h: "recs h = Some c" "cr_environment r = sa_environment a"
    and same: "same_binding r c" and live: "ed_activeExecutionHandle d = Some h"
  shows "cr_state r \<noteq> CLEANED \<Longrightarrow> fs_accounts a d (recs(h \<mapsto> r))"
    and "environmentDocumentSchema (cleared_environment d r) \<Longrightarrow> cr_state r = CLEANED \<Longrightarrow>
      fs_accounts a (cleared_environment d r) (recs(h \<mapsto> r))"
proof -
  have e: "cr_environment r = cr_environment c" using same by (simp add: same_binding_def)
  note handles = env_handles_same [of recs h c r, OF h(1) e]
  show "fs_accounts a d (recs(h \<mapsto> r))" if "cr_state r \<noteq> CLEANED"
    using d h same live that unfolding fs_accounts_def handles
    by (auto simp: same_binding_def)
  show "fs_accounts a (cleared_environment d r) (recs(h \<mapsto> r))"
    if "environmentDocumentSchema (cleared_environment d r)" "cr_state r = CLEANED"
    using d h same live that unfolding fs_accounts_def handles
    by (auto simp: same_binding_def)
qed

lemma fs_inv_admit:
  assumes inv: "fs_inv a db" and op: "fs_admitCreate u a db i = Inr (res, db')"
  shows "fs_inv a db'"
proof (cases "\<exists>r. res = Admit_accepted r")
  case True
  then obtain r where "fs_admitCreate u a db i = Inr (Admit_accepted r, db')" using op by blast
  then show ?thesis
  proof (rule fs_admit_accepted)
    fix d q
    assume d: "fd_environments db (sa_environment a) = Some d"
      and i: "ri_environment (ai_identity i) = sa_environment a"
      and new: "fd_executions db (ri_executionHandle (ai_identity i)) = None"
      and more: "ed_activeExecutionHandle d = None"
        "length (pruneRecent d (date_parse (ai_now i))) < sa_maxRequestsPerMinute d"
        "environmentDocumentSchema (admitted_environment d i)"
      and r: "r = initial_record i (sa_worstCaseJpyPerExecution d)"
      and db': "db' = db\<lparr>fd_executions := (fd_executions db)(ri_executionHandle (ai_identity i) \<mapsto>
              \<lparr>xd_record = r, xd_ttlExpiresAt = date_parse (cr_expiresAt r)\<rparr>),
            fd_requests := (fd_requests db)(ri_requestId (ai_identity i) \<mapsto> q),
            fd_environments := (fd_environments db)(sa_environment a \<mapsto> admitted_environment d i)\<rparr>"
    have new': "fs_record db (ri_executionHandle (ai_identity i)) = None"
      using new by (simp add: fs_record_def)
    have acc: "fs_accounts a d (fs_record db)" using inv d by (simp add: fs_inv_def)
    from fs_accounts_admitted [OF acc new' more(1) refl i more(2,3)] inv i show ?thesis
      by (auto simp: fs_inv_def db' r)
  qed
next
  case False
  with op inv show ?thesis using fs_admit_unchanged by blast
qed

lemma fs_inv_claim:
  assumes inv: "fs_inv a db" and op: "fs_claimRequest u a db c = Inr (res, db')"
  shows "fs_inv a db'"
proof (cases "\<exists>r. res = Claim_accepted r")
  case True
  then obtain r where "fs_claimRequest u a db c = Inr (Claim_accepted r, db')" using op by blast
  then show ?thesis
    by (rule fs_claim_accepted)
      (use inv in \<open>auto simp: fs_inv_def intro: fs_accounts_claimed\<close>)
next
  case False
  with op inv show ?thesis using fs_claim_unchanged by blast
qed

lemma fs_inv_cas:
  assumes inv: "fs_inv a db" and op: "fs_compareAndSet u a db v r = Inr (ok, db')"
  shows "fs_inv a db'"
proof (cases ok)
  case True
  then have "fs_compareAndSet u a db v r = Inr (True, db')" using op by simp
  then show ?thesis
  proof (rule fs_cas_applied)
    fix d x
    assume r: "cr_environment r = sa_environment a"
      and d: "fd_environments db (sa_environment a) = Some d"
      and x: "fd_executions db (cr_executionHandle r) = Some x"
      and same: "same_binding r (xd_record x)"
      and live: "ed_activeExecutionHandle d = Some (cr_executionHandle r)"
      and ok: "cr_state r = CLEANED \<Longrightarrow> environmentDocumentSchema (cleared_environment d r)"
      and db': "db' = (let db1 = db\<lparr>fd_executions := (fd_executions db)(cr_executionHandle r \<mapsto>
              \<lparr>xd_record = r, xd_ttlExpiresAt = date_parse (cr_expiresAt r)\<rparr>)\<rparr>
            in if cr_state r = CLEANED
               then db1\<lparr>fd_environments :=
                      (fd_environments db)(sa_environment a \<mapsto> cleared_environment d r)\<rparr>
               else db1)"
    have x': "fs_record db (cr_executionHandle r) = Some (xd_record x)"
      using x by (simp add: fs_record_def)
    have acc: "fs_accounts a d (fs_record db)" using inv d by (simp add: fs_inv_def)
    show ?thesis
      using fs_accounts_cas [OF acc x' r same live] inv ok d
      by (auto simp: fs_inv_def db' Let_def)
  qed
next
  case False
  with op have "fs_compareAndSet u a db v r = Inr (False, db')" by simp
  with inv show ?thesis using fs_cas_refused by blast
qed

section \<open>The store implements the interface\<close>

interpretation fs: control_store "firestore_operations u a" fs_record "fs_inv a"
  for u :: "string \<Rightarrow> bool" and a :: synthetic_authorization
proof unfold_locales
  fix s s' :: firestore_db and h v r e rs x ok i c ares cres
  assume inv: "fs_inv a s"
  show "fs_record s h = Some r \<Longrightarrow> cr_executionHandle r = h"
    using inv by (simp add: fs_inv_def)
  show "so_admitCreate (firestore_operations u a) s i = Inr (Admit_accepted r, s') \<Longrightarrow>
      fs_record s (ri_executionHandle (ai_identity i)) = None \<and> (\<exists>w. r = initial_record i w) \<and>
      fs_record s' = (fs_record s)(ri_executionHandle (ai_identity i) \<mapsto> r)"
    unfolding firestore_operations_def store_operations.simps
    by (erule fs_admit_accepted) (auto simp: fs_record_def fun_eq_iff)
  show "so_admitCreate (firestore_operations u a) s i = Inr (Admit_duplicate r, s') \<Longrightarrow>
      fs_record s (ri_executionHandle (ai_identity i)) = Some r"
    by (auto simp: firestore_operations_def fs_record_def dest: fs_admit_duplicate)
  show "so_admitCreate (firestore_operations u a) s i = Inr (ares, s') \<Longrightarrow>
      \<forall>r. ares \<noteq> Admit_accepted r \<Longrightarrow> s' = s"
    by (simp add: firestore_operations_def fs_admit_unchanged)
  show "so_admitCreate (firestore_operations u a) s i = Inr (ares, s') \<Longrightarrow> fs_inv a s'"
    using inv by (simp add: firestore_operations_def fs_inv_admit)
  show "so_claimRequest (firestore_operations u a) s c = Inr (cres, s') \<Longrightarrow>
      fs_record s' = fs_record s"
    by (cases "\<exists>r. cres = Claim_accepted r")
      (auto simp: firestore_operations_def dest: fs_claim_unchanged elim!: fs_claim_accepted)
  show "so_claimRequest (firestore_operations u a) s c = Inr (cres, s') \<Longrightarrow> fs_inv a s'"
    using inv by (simp add: firestore_operations_def fs_inv_claim)
  show "so_claimRequest (firestore_operations u a) s c = Inr (Claim_accepted r, s') \<Longrightarrow>
      fs_record s (ri_executionHandle (ci_identity c)) = Some r \<and> cr_version r = ci_expectedVersion c"
    unfolding firestore_operations_def store_operations.simps
    by (erule fs_claim_accepted) (simp add: fs_record_def)
  show "so_claimRequest (firestore_operations u a) s c = Inr (cres, s') \<Longrightarrow>
      cres = Claim_duplicate r \<or> cres = Claim_stale r \<Longrightarrow>
      fs_record s (ri_executionHandle (ci_identity c)) = Some r"
    by (auto simp: firestore_operations_def fs_record_def dest: fs_claim_seen)
  show "so_compareAndSet (firestore_operations u a) s v r = Inr (True, s') \<Longrightarrow>
      \<exists>current. fs_record s (cr_executionHandle r) = Some current \<and> cr_version current = v \<and>
        cr_version r = v + 1 \<and> same_binding r current \<and>
        fs_record s' = (fs_record s)(cr_executionHandle r \<mapsto> r)"
    unfolding firestore_operations_def store_operations.simps
    by (erule fs_cas_applied) (auto simp: fs_record_def fun_eq_iff Let_def)
  show "so_compareAndSet (firestore_operations u a) s v r = Inr (False, s') \<Longrightarrow> s' = s"
    by (simp add: firestore_operations_def fs_cas_refused)
  show "so_compareAndSet (firestore_operations u a) s v r = Inr (ok, s') \<Longrightarrow> fs_inv a s'"
    using inv by (simp add: firestore_operations_def fs_inv_cas)
  show "so_get (firestore_operations u a) s h = Inr x \<Longrightarrow> x = fs_record s h"
    by (auto simp: firestore_operations_def fs_get_def fs_record_def result_simps
        split: option.splits if_splits)
  show "so_listUnclean (firestore_operations u a) s e = Inr rs \<Longrightarrow> r \<in> set rs \<Longrightarrow>
      fs_record s (cr_executionHandle r) = Some r \<and> cr_environment r = e \<and> cr_state r \<noteq> CLEANED"
    by (auto simp: firestore_operations_def fs_listUnclean_def fs_record_def result_simps
        split: option.split_asm if_split_asm)
qed

section \<open>Runs of the store\<close>

text \<open>
  A provisioned environment: the document \<open>createFirestoreEnvironmentDocument\<close> builds, and no
  execution yet.
\<close>

definition fs_provisioned :: "synthetic_authorization \<Rightarrow> string \<Rightarrow> firestore_db \<Rightarrow> bool" where
  "fs_provisioned a now db \<longleftrightarrow>
     (case createFirestoreEnvironmentDocument a now of
        Inl e \<Rightarrow> False
      | Inr d \<Rightarrow> fd_environments db (sa_environment a) = Some d) \<and>
     fd_executions db = Map.empty"

lemma fs_provisioned_document:
  assumes "fs_provisioned a now db"
  obtains d where "fd_environments db (sa_environment a) = Some d" "environmentDocumentSchema d"
    "sameAuthorization d a" "ed_activeExecutionHandle d = None" "ed_recentAcceptedAt d = []"
    "ed_reservedExecutions d = 0" "fs_record db = Map.empty"
  using assms
  by (auto simp: fs_provisioned_def createFirestoreEnvironmentDocument_def result_simps
      sameAuthorization_def synthetic_authorization.defs environment_document.defs fs_record_def
      fun_eq_iff split: sum.splits)

lemma fs_provisioned_inv: "fs_provisioned a now db \<Longrightarrow> fs_inv a db"
  by (erule fs_provisioned_document) (auto simp: fs_inv_def fs_accounts_def env_handles_def)

lemma fs_inv_unclean_unique:
  "fs_inv a db \<Longrightarrow> fs_record db h = Some r \<Longrightarrow> fs_record db k = Some q \<Longrightarrow>
   cr_environment r = sa_environment a \<Longrightarrow> cr_environment q = sa_environment a \<Longrightarrow>
   cr_state r \<noteq> CLEANED \<Longrightarrow> cr_state q \<noteq> CLEANED \<Longrightarrow> h = k"
  unfolding fs_inv_def fs_accounts_def by (metis option.inject)

lemma fs_inv_budget:
  assumes "fs_inv a db"
  shows "finite (env_handles (fs_record db) (sa_environment a))"
    "card (env_handles (fs_record db) (sa_environment a)) \<le> sa_maxExecutions a"
    "(\<Sum>h \<in> env_handles (fs_record db) (sa_environment a).
        cr_reservedWorstCaseJpy (the (fs_record db h))) \<le> sa_maxWorstCaseJpy a"
proof -
  from assms obtain d where d: "fs_accounts a d (fs_record db)" by (auto simp: fs_inv_def)
  let ?H = "env_handles (fs_record db) (sa_environment a)"
  show "finite ?H" using d by (simp add: fs_accounts_def)
  have card: "card ?H = ed_reservedExecutions d" using d by (simp add: fs_accounts_def)
  from d show "card ?H \<le> sa_maxExecutions a"
    by (auto simp: card fs_accounts_def environmentDocumentSchema_def sameAuthorization_simps)
  have "(\<Sum>h \<in> ?H. cr_reservedWorstCaseJpy (the (fs_record db h)))
      = (\<Sum>h \<in> ?H. sa_worstCaseJpyPerExecution a)"
    using d by (intro sum.cong) (auto simp: fs_accounts_def env_handles_def)
  also have "\<dots> = ed_reservedExecutions d * sa_worstCaseJpyPerExecution a"
    by (simp add: card)
  also have "\<dots> \<le> sa_maxWorstCaseJpy a"
    using d by (auto simp: fs_accounts_def environmentDocumentSchema_def sameAuthorization_simps)
  finally show "(\<Sum>h \<in> ?H. cr_reservedWorstCaseJpy (the (fs_record db h)))
      \<le> sa_maxWorstCaseJpy a" .
qed

lemma fs_cleaned_final:
  assumes "store_run (firestore_operations u a) db db'" "fs_inv a db"
    and "fs_record db h = Some r" "cr_state r = CLEANED"
  shows "fs_record db' h = Some r"
  using assms
proof (induction rule: store_run.induct)
  case (run_admit s t i ares w)
  then have inv: "fs_inv a t" and r: "fs_record t h = Some r" using fs.run_inv by blast+
  then show ?case using run_admit.hyps(2) fs.admit_records [OF inv] fs.admit_accepted [OF inv]
    by (cases "\<exists>r. ares = Admit_accepted r") fastforce+
next
  case (run_claim s t c cres w)
  then show ?case using fs.run_inv fs.claim_records by metis
next
  case (run_cas s t v q ok w)
  then have inv: "fs_inv a t" and r: "fs_record t h = Some r" using fs.run_inv by blast+
  from run_cas.hyps(2) have op: "fs_compareAndSet u a t v q = Inr (ok, w)"
    by (simp add: firestore_operations_def)
  show ?case
  proof (cases ok)
    case True
    with op have "fs_compareAndSet u a t v q = Inr (True, w)" by simp
    then show ?thesis
      by (rule fs_cas_applied)
        (use r run_cas.prems in \<open>auto simp: fs_record_def Let_def\<close>)
  next
    case False
    with op have "fs_compareAndSet u a t v q = Inr (False, w)" by simp
    then show ?thesis using r fs_cas_refused by blast
  qed
qed simp

section \<open>The rate limit over time\<close>

text \<open>
  A run that also collects the times (in milliseconds) at which requests were accepted; the
  clock never goes back between acceptances.
\<close>

inductive fs_history ::
  "(string \<Rightarrow> bool) \<Rightarrow> synthetic_authorization \<Rightarrow> firestore_db \<Rightarrow> int list \<Rightarrow> bool" for u a where
  history_start: "fs_provisioned a now db \<Longrightarrow> fs_history u a db []"
| history_admit: "fs_history u a db ts \<Longrightarrow>
    fs_admitCreate u a db i = Inr (Admit_accepted r, db') \<Longrightarrow>
    date_parse (ai_now i) = Some t \<Longrightarrow> \<forall>t' \<in> set ts. t' \<le> t \<Longrightarrow> fs_history u a db' (ts @ [t])"
| history_claim: "fs_history u a db ts \<Longrightarrow>
    fs_claimRequest u a db c = Inr (Claim_accepted r, db') \<Longrightarrow>
    date_parse (ci_now c) = Some t \<Longrightarrow> \<forall>t' \<in> set ts. t' \<le> t \<Longrightarrow> fs_history u a db' (ts @ [t])"
| history_cas: "fs_history u a db ts \<Longrightarrow> fs_compareAndSet u a db v r = Inr (ok, db') \<Longrightarrow>
    fs_history u a db' ts"

text \<open>At most \<open>n\<close> acceptances in the sixty seconds up to each acceptance.\<close>

fun window_counts_ok :: "nat \<Rightarrow> int list \<Rightarrow> int list \<Rightarrow> bool" where
  "window_counts_ok n seen [] \<longleftrightarrow> True"
| "window_counts_ok n seen (t # ts) \<longleftrightarrow>
     length (filter (\<lambda>t'. t - 60000 < t') (seen @ [t])) \<le> n \<and> window_counts_ok n (seen @ [t]) ts"

lemma window_counts_snoc:
  "window_counts_ok n seen (ts @ [t]) \<longleftrightarrow>
   window_counts_ok n seen ts \<and> length (filter (\<lambda>t'. t - 60000 < t') (seen @ ts @ [t])) \<le> n"
  by (induction ts arbitrary: seen) auto

definition recent_matches :: "environment_document \<Rightarrow> int list \<Rightarrow> bool" where
  "recent_matches d ts \<longleftrightarrow>
     (\<exists>T. (\<forall>t \<in> set ts. t \<le> T) \<and>
        map date_parse (ed_recentAcceptedAt d) = map Some (filter (\<lambda>t. T - 60000 < t) ts) \<and>
        (ts \<noteq> [] \<longrightarrow> T \<in> set ts))"

lemma prune_matches:
  assumes "recent_matches d ts" "\<forall>t' \<in> set ts. t' \<le> t"
  shows "map date_parse (pruneRecent d (Some t)) = map Some (filter (\<lambda>t'. t - 60000 < t') ts)"
proof -
  from assms(1) obtain T where T: "ts \<noteq> [] \<longrightarrow> T \<in> set ts"
    and m: "map date_parse (ed_recentAcceptedAt d) = map Some (filter (\<lambda>t. T - 60000 < t) ts)"
    by (auto simp: recent_matches_def)
  have "map date_parse (filter (\<lambda>v. num_less (Some (t - 60000)) (date_parse v)) vs)
      = filter (num_less (Some (t - 60000))) (map date_parse vs)" for vs
    by (simp add: filter_map o_def)
  then have "map date_parse (pruneRecent d (Some t))
      = filter (num_less (Some (t - 60000))) (map Some (filter (\<lambda>t. T - 60000 < t) ts))"
    by (simp add: pruneRecent_def num_add_def m)
  also have "\<dots> = map Some (filter (\<lambda>t'. t - 60000 < t') (filter (\<lambda>t. T - 60000 < t) ts))"
    by (simp add: filter_map o_def)
  also have "filter (\<lambda>t'. t - 60000 < t') (filter (\<lambda>t. T - 60000 < t) ts)
      = filter (\<lambda>t'. t - 60000 < t') ts"
    using T assms(2) by (cases "ts = []") (auto intro!: filter_cong)
  finally show ?thesis .
qed

lemma recent_matches_accept:
  assumes "recent_matches d ts" "\<forall>t' \<in> set ts. t' \<le> t" "date_parse now = Some t"
    and "ed_recentAcceptedAt e = pruneRecent d (date_parse now) @ [now]"
  shows "recent_matches e (ts @ [t])"
  unfolding recent_matches_def
  using prune_matches [OF assms(1,2)] assms by (intro exI [of _ t]) simp

lemma window_counts_accept:
  assumes "recent_matches d ts" "\<forall>t' \<in> set ts. t' \<le> t"
    and "length (pruneRecent d (Some t)) < n" "window_counts_ok n [] ts"
  shows "window_counts_ok n [] (ts @ [t])"
proof -
  have "length (pruneRecent d (Some t)) = length (filter (\<lambda>t'. t - 60000 < t') ts)"
    using arg_cong [OF prune_matches [OF assms(1,2)], of length] by simp
  with assms(3,4) show ?thesis by (simp add: window_counts_snoc)
qed

lemma fs_history_windows:
  "fs_history u a db ts \<Longrightarrow>
   (\<exists>d. fd_environments db (sa_environment a) = Some d \<and> sameAuthorization d a \<and>
      recent_matches d ts) \<and>
   window_counts_ok (sa_maxRequestsPerMinute a) [] ts"
proof (induction rule: fs_history.induct)
  case (history_start now db)
  then show ?case by (auto simp: recent_matches_def elim!: fs_provisioned_document)
next
  case (history_admit db ts i r db' t)
  from history_admit.hyps(2) show ?case
    by (rule fs_admit_accepted)
      (use history_admit in \<open>auto simp: sameAuthorization_simps
        intro: recent_matches_accept window_counts_accept\<close>)
next
  case (history_claim db ts c r db' t)
  from history_claim.hyps(2) show ?case
    by (rule fs_claim_accepted)
      (use history_claim in \<open>auto simp: sameAuthorization_simps
        intro: recent_matches_accept window_counts_accept\<close>)
next
  case (history_cas db ts v r ok db')
  show ?case
  proof (cases ok)
    case True
    with history_cas have "fs_compareAndSet u a db v r = Inr (True, db')" by simp
    then show ?thesis
      by (rule fs_cas_applied)
        (use history_cas in \<open>auto simp: Let_def recent_matches_def\<close>)
  next
    case False
    with history_cas have "fs_compareAndSet u a db v r = Inr (False, db')" by simp
    then show ?thesis using history_cas fs_cas_refused by blast
  qed
qed

section \<open>Documents read back\<close>

text \<open>
  A record is written with the expiry it carries as the document's TTL; it reads back unless the
  expiry is not in the form \<open>toISOString\<close> prints.
\<close>

lemma recordDocument_reads_back:
  assumes "recordDocument u r = Inr d" "cr_expiresAt r = to_iso t" "iso_time_range t"
  shows "parseRecordDocument u (Some d) (cr_executionHandle r) = Inr r"
  using assms
  by (simp add: parseRecordDocument_def parse_document_def zod_parse_def executionDocumentSchema_def
      recordDocument_Inr_iff)

lemma recordDocument_bad_expiry:
  assumes "recordDocument u r = Inr d" "date_parse (cr_expiresAt r) = Some t"
    and "to_iso t \<noteq> cr_expiresAt r"
  shows "parseRecordDocument u (Some d) (cr_executionHandle r) = Inl ZodError"
  using assms
  by (simp add: parseRecordDocument_def parse_document_def zod_parse_def executionDocumentSchema_def
      recordDocument_Inr_iff)

lemma fs_admit_idempotent:
  assumes op: "fs_admitCreate u a db i = Inr (Admit_accepted r, db')"
    and exp: "ai_recordExpiresAt i = to_iso t" "iso_time_range t"
  shows "fs_admitCreate u a db' i = Inr (Admit_duplicate r, db')"
proof -
  obtain d q where i: "ri_environment (ai_identity i) = sa_environment a"
      "admitCreateInputSchema i" "controlRecordSchema u r"
      "sameAuthorization d a" "environmentDocumentSchema (admitted_environment d i)"
      "r = initial_record i (sa_worstCaseJpyPerExecution d)"
      "requestDocumentSchema q" "rd_identity q = ai_identity i"
    and db': "db' = db\<lparr>fd_executions := (fd_executions db)(ri_executionHandle (ai_identity i) \<mapsto>
              \<lparr>xd_record = r, xd_ttlExpiresAt = date_parse (cr_expiresAt r)\<rparr>),
            fd_requests := (fd_requests db)(ri_requestId (ai_identity i) \<mapsto> q),
            fd_environments := (fd_environments db)(sa_environment a \<mapsto> admitted_environment d i)\<rparr>"
    using op
    by (clarsimp simp: fs_transactions Let_def result_simps set_environment_def
        admitted_environment_def split: if_splits)
  have r: "cr_executionHandle r = ri_executionHandle (ai_identity i)"
    "cr_bootstrapRequestId r = ri_requestId (ai_identity i)" "cr_expiresAt r = to_iso t"
    using exp by (simp_all add: i(6) initial_record_def)
  have "parseRecordDocument u (Some \<lparr>xd_record = r, xd_ttlExpiresAt = date_parse (cr_expiresAt r)\<rparr>)
      (ri_executionHandle (ai_identity i)) = Inr r"
    using recordDocument_reads_back [of u r _ t] i(3) r exp by (simp add: recordDocument_Inr_iff)
  then show ?thesis
    using i r by (simp add: fs_transactions Let_def db' parse_document_def fs_sameRequest_def)
qed

end
