(* ===== verification/ControllerConcurrency.thy ===== *)
theory ControllerConcurrency
  imports ControllerService FirestoreStore
begin

text \<open>
  The controller as a concurrent system: any number of requests, attestations and reapers run
  their programs (theory ControllerService) against one control store, interleaved at every call,
  and the clock and the Cloud Run Admin API answer anything, errors included. A process that
  crashes is one that is never scheduled again. \<open>system_step\<close> is executable: an event either
  starts a program or answers the pending call of one.
  Lemmas: a calculus of weakest preconditions that counts the permits a program has earned (a
  compare-and-set that raises \<open>createAttempts\<close> or sets \<open>runIntent\<close>) and spends (\<open>createJob\<close>,
  \<open>runJob\<close>); its soundness in any interleaving over any store that satisfies \<open>control_store\<close>;
  hence at most one \<open>runJob\<close> and two \<open>createJob\<close> calls per execution, for both stores.
\<close>

section \<open>The system\<close>

datatype reply =
    Reply controller_response
  | Reply_attestation attestation_response
  | Reply_count nat

datatype provider_call =
    Call_createJob string json
  | Call_runJob provider_job
  | Call_cancelExecution provider_execution
  | Call_deleteExecution provider_execution
  | Call_deleteJob provider_job
  | Call_getJob string
  | Call_getOperation string
  | Call_listExecutions string

text \<open>An answer to a pending call. The store answers by itself; a provider call may throw.\<close>

datatype answer =
    Ans_time int
  | Ans_store
  | Ans_mutation "provider_mutation result"
  | Ans_job "provider_job_read result"
  | Ans_operation "provider_operation_read result"
  | Ans_executions "provider_execution_list result"

text \<open>What a call returned, or the exception it threw.\<close>

fun resume :: "'x result \<Rightarrow> ('x \<Rightarrow> 'a prog) \<Rightarrow> 'a prog" where
  "resume (Inl e) k = Throw e"
| "resume (Inr x) k = k x"

fun store_resume ::
  "'s \<Rightarrow> ('x \<times> 's) result \<Rightarrow> ('x \<Rightarrow> 'a prog) \<Rightarrow> ('s \<times> 'a prog \<times> provider_call list) option" where
  "store_resume s (Inl e) k = Some (s, Throw e, [])"
| "store_resume s (Inr (x, t)) k = Some (t, k x, [])"

definition prog_step ::
  "'s store_operations \<Rightarrow> 's \<Rightarrow> 'a prog \<Rightarrow> answer \<Rightarrow> ('s \<times> 'a prog \<times> provider_call list) option" where
  "prog_step ops s p ans = (case p of
     Return x \<Rightarrow> None
   | Throw e \<Rightarrow> None
   | Now k \<Rightarrow> (case ans of Ans_time t \<Rightarrow> Some (s, k t, []) | _ \<Rightarrow> None)
   | Admit i k \<Rightarrow> (case ans of Ans_store \<Rightarrow> store_resume s (so_admitCreate ops s i) k | _ \<Rightarrow> None)
   | Claim i k \<Rightarrow> (case ans of Ans_store \<Rightarrow> store_resume s (so_claimRequest ops s i) k | _ \<Rightarrow> None)
   | Cas v r k \<Rightarrow> (case ans of Ans_store \<Rightarrow> store_resume s (so_compareAndSet ops s v r) k | _ \<Rightarrow> None)
   | Get h k \<Rightarrow> (case ans of Ans_store \<Rightarrow> Some (s, resume (so_get ops s h) k, []) | _ \<Rightarrow> None)
   | ListUnclean e k \<Rightarrow>
       (case ans of Ans_store \<Rightarrow> Some (s, resume (so_listUnclean ops s e) k, []) | _ \<Rightarrow> None)
   | CreateJob j m k \<Rightarrow>
       (case ans of Ans_mutation x \<Rightarrow> Some (s, resume x k, [Call_createJob j m]) | _ \<Rightarrow> None)
   | RunJob j k \<Rightarrow>
       (case ans of Ans_mutation x \<Rightarrow> Some (s, resume x k, [Call_runJob j]) | _ \<Rightarrow> None)
   | CancelExecution e k \<Rightarrow>
       (case ans of Ans_mutation x \<Rightarrow> Some (s, resume x k, [Call_cancelExecution e]) | _ \<Rightarrow> None)
   | DeleteExecution e k \<Rightarrow>
       (case ans of Ans_mutation x \<Rightarrow> Some (s, resume x k, [Call_deleteExecution e]) | _ \<Rightarrow> None)
   | DeleteJob j k \<Rightarrow>
       (case ans of Ans_mutation x \<Rightarrow> Some (s, resume x k, [Call_deleteJob j]) | _ \<Rightarrow> None)
   | GetJob j k \<Rightarrow> (case ans of Ans_job x \<Rightarrow> Some (s, resume x k, [Call_getJob j]) | _ \<Rightarrow> None)
   | GetOperation r k \<Rightarrow>
       (case ans of Ans_operation x \<Rightarrow> Some (s, resume x k, [Call_getOperation r]) | _ \<Rightarrow> None)
   | ListExecutions j k \<Rightarrow>
       (case ans of Ans_executions x \<Rightarrow> Some (s, resume x k, [Call_listExecutions j]) | _ \<Rightarrow> None))"

text \<open>
  Threads and provider calls carry the execution handle the request is about; a reaper's is empty.
\<close>

record 's system =
  sy_store :: 's
  sy_threads :: "(string \<times> reply prog) list"
  sy_calls :: "(string \<times> provider_call) list"

datatype system_event =
    Ev_request controller_request string
  | Ev_attest attestation_request
  | Ev_reap controller_environment
  | Ev_answer nat answer

definition new_system :: "'s \<Rightarrow> 's system" where
  "new_system s = \<lparr>sy_store = s, sy_threads = [], sy_calls = []\<rparr>"

definition request_thread ::
  "service_configuration \<Rightarrow> controller_request \<Rightarrow> string \<Rightarrow> string \<times> reply prog" where
  "request_thread c q digest =
     (rq_executionHandle q, prog_bind (execute c q digest) (\<lambda>x. Return (Reply x)))"

definition attest_thread ::
  "service_configuration \<Rightarrow> attestation_request \<Rightarrow> string \<times> reply prog" where
  "attest_thread c q =
     (aq_executionHandle q, prog_bind (attest c q) (\<lambda>x. Return (Reply_attestation x)))"

definition reap_thread ::
  "service_configuration \<Rightarrow> controller_environment \<Rightarrow> string \<times> reply prog" where
  "reap_thread c env = ([], prog_bind (reap c env) (\<lambda>x. Return (Reply_count x)))"

fun system_step ::
  "service_configuration \<Rightarrow> 's store_operations \<Rightarrow> 's system \<Rightarrow> system_event \<Rightarrow> 's system option" where
  "system_step c ops S (Ev_request q digest) =
     Some (S\<lparr>sy_threads := sy_threads S @ [request_thread c q digest]\<rparr>)"
| "system_step c ops S (Ev_attest q) =
     Some (S\<lparr>sy_threads := sy_threads S @ [attest_thread c q]\<rparr>)"
| "system_step c ops S (Ev_reap env) =
     Some (S\<lparr>sy_threads := sy_threads S @ [reap_thread c env]\<rparr>)"
| "system_step c ops S (Ev_answer i ans) =
     (if i < length (sy_threads S) then
        (case prog_step ops (sy_store S) (snd (sy_threads S ! i)) ans of
           None \<Rightarrow> None
         | Some (s', p', calls) \<Rightarrow>
             Some \<lparr>sy_store = s',
                   sy_threads = (sy_threads S)[i := (fst (sy_threads S ! i), p')],
                   sy_calls = sy_calls S @ map (Pair (fst (sy_threads S ! i))) calls\<rparr>)
      else None)"

fun system_run ::
  "service_configuration \<Rightarrow> 's store_operations \<Rightarrow> 's system \<Rightarrow> system_event list
     \<Rightarrow> 's system option" where
  "system_run c ops S [] = Some S"
| "system_run c ops S (ev # evs) =
     (case system_step c ops S ev of None \<Rightarrow> None | Some T \<Rightarrow> system_run c ops T evs)"

text \<open>The calls of one kind that were made for one execution.\<close>

fun is_create_call :: "provider_call \<Rightarrow> bool" where
  "is_create_call (Call_createJob j m) \<longleftrightarrow> True"
| "is_create_call _ \<longleftrightarrow> False"

fun is_run_call :: "provider_call \<Rightarrow> bool" where
  "is_run_call (Call_runJob j) \<longleftrightarrow> True"
| "is_run_call _ \<longleftrightarrow> False"

definition calls_for :: "(provider_call \<Rightarrow> bool) \<Rightarrow> string \<Rightarrow> (string \<times> provider_call) list \<Rightarrow> nat" where
  "calls_for P h calls = length (filter (\<lambda>(g, x). g = h \<and> P x) calls)"

definition create_calls :: "'s system \<Rightarrow> string \<Rightarrow> nat" where
  "create_calls S h = calls_for is_create_call h (sy_calls S)"

definition run_calls :: "'s system \<Rightarrow> string \<Rightarrow> nat" where
  "run_calls S h = calls_for is_run_call h (sy_calls S)"

section \<open>Weakest preconditions with permits\<close>

text \<open>
  \<open>wp p h Q K a b\<close>: whatever the answers, the program \<open>p\<close>, working for the execution \<open>h\<close>, only
  compares-and-sets from a record it has seen (\<open>K\<close>), keeps the counters growing, and makes a
  \<open>createJob\<close> (\<open>runJob\<close>) call only with a permit left of the \<open>a\<close> (\<open>b\<close>) it holds; when it
  returns, \<open>Q\<close> holds of the value and what it then has.
\<close>

fun admit_answer :: "admit_create_input \<Rightarrow> admit_create_result \<Rightarrow> control_record set" where
  "admit_answer i (Admit_accepted r) = {r}"
| "admit_answer i (Admit_duplicate r) = {r}"
| "admit_answer i _ = {}"

fun claim_answer :: "claim_request_result \<Rightarrow> control_record set" where
  "claim_answer (Claim_accepted r) = {r}"
| "claim_answer (Claim_duplicate r) = {r}"
| "claim_answer (Claim_stale r) = {r}"
| "claim_answer _ = {}"

definition run_weight :: "control_record \<Rightarrow> nat" where
  "run_weight r = of_bool (cr_runIntent r)"

definition succeeds_record :: "string \<Rightarrow> control_record \<Rightarrow> control_record \<Rightarrow> bool" where
  "succeeds_record h q r \<longleftrightarrow>
     cr_executionHandle q = cr_executionHandle r \<and>
     cr_createAttempts r \<le> cr_createAttempts q \<and>
     (cr_createAttempts r \<le> 2 \<longrightarrow> cr_createAttempts q \<le> 2) \<and>
     (cr_runIntent r \<longrightarrow> cr_runIntent q) \<and>
     (cr_executionHandle q \<noteq> h \<longrightarrow>
        cr_createAttempts q = cr_createAttempts r \<and> cr_runIntent q = cr_runIntent r)"

type_synonym 'a post = "'a \<Rightarrow> control_record set \<Rightarrow> nat \<Rightarrow> nat \<Rightarrow> bool"

primrec wp :: "'a prog \<Rightarrow> string \<Rightarrow> 'a post \<Rightarrow> control_record set \<Rightarrow> nat \<Rightarrow> nat \<Rightarrow> bool" where
  "wp (Return x) h Q K a b \<longleftrightarrow> Q x K a b"
| "wp (Throw e) h Q K a b \<longleftrightarrow> True"
| "wp (Now k) h Q K a b \<longleftrightarrow> (\<forall>t. wp (k t) h Q K a b)"
| "wp (Admit i k) h Q K a b \<longleftrightarrow>
     (\<forall>res. (\<forall>r \<in> admit_answer i res. cr_executionHandle r = ri_executionHandle (ai_identity i)) \<longrightarrow>
        (\<forall>r. res = Admit_accepted r \<longrightarrow> (\<exists>w. r = initial_record i w)) \<longrightarrow>
        wp (k res) h Q (K \<union> admit_answer i res) a b)"
| "wp (Claim c k) h Q K a b \<longleftrightarrow>
     (\<forall>res. (\<forall>r \<in> claim_answer res. cr_executionHandle r = ri_executionHandle (ci_identity c)) \<longrightarrow>
        wp (k res) h Q (K \<union> claim_answer res) a b)"
| "wp (Cas v q k) h Q K a b \<longleftrightarrow>
     (\<exists>r \<in> K. cr_version r = v \<and> succeeds_record h q r \<and>
        wp (k False) h Q K a b \<and>
        wp (k True) h Q (insert q K) (a + (cr_createAttempts q - cr_createAttempts r))
          (b + (run_weight q - run_weight r)))"
| "wp (Get g k) h Q K a b \<longleftrightarrow>
     (\<forall>x. (\<forall>r \<in> set_option x. cr_executionHandle r = g) \<longrightarrow> wp (k x) h Q (K \<union> set_option x) a b)"
| "wp (ListUnclean e k) h Q K a b \<longleftrightarrow> (\<forall>rs. wp (k rs) h Q (K \<union> set rs) a b)"
| "wp (CreateJob j m k) h Q K a b \<longleftrightarrow> 0 < a \<and> (\<forall>x. wp (k x) h Q K (a - 1) b)"
| "wp (RunJob j k) h Q K a b \<longleftrightarrow> 0 < b \<and> (\<forall>x. wp (k x) h Q K a (b - 1))"
| "wp (CancelExecution e k) h Q K a b \<longleftrightarrow> (\<forall>x. wp (k x) h Q K a b)"
| "wp (DeleteExecution e k) h Q K a b \<longleftrightarrow> (\<forall>x. wp (k x) h Q K a b)"
| "wp (DeleteJob j k) h Q K a b \<longleftrightarrow> (\<forall>x. wp (k x) h Q K a b)"
| "wp (GetJob j k) h Q K a b \<longleftrightarrow> (\<forall>x. wp (k x) h Q K a b)"
| "wp (GetOperation r k) h Q K a b \<longleftrightarrow> (\<forall>x. wp (k x) h Q K a b)"
| "wp (ListExecutions j k) h Q K a b \<longleftrightarrow> (\<forall>x. wp (k x) h Q K a b)"

lemma wp_mono:
  "wp p h Q K a b \<Longrightarrow> (\<And>x K a b. Q x K a b \<Longrightarrow> R x K a b) \<Longrightarrow> wp p h R K a b"
proof (induction p arbitrary: K a b)
  case (Cas v q k)
  from Cas.prems(1) obtain r where "r \<in> K" "cr_version r = v" "succeeds_record h q r"
    "wp (k False) h Q K a b"
    "wp (k True) h Q (insert q K) (a + (cr_createAttempts q - cr_createAttempts r))
       (b + (run_weight q - run_weight r))"
    unfolding wp.simps by blast
  with Cas.IH Cas.prems(2) show ?case unfolding wp.simps by blast
qed auto

lemma wp_bind: "wp (prog_bind m f) h Q K a b \<longleftrightarrow> wp m h (\<lambda>x K a b. wp (f x) h Q K a b) K a b"
  by (induction m arbitrary: K a b) simp_all

lemma wp_from_result [simp]:
  "wp (from_result res) h Q K a b \<longleftrightarrow> (\<forall>x. res = Inr x \<longrightarrow> Q x K a b)"
  by (cases res) simp_all

section \<open>The service's programs\<close>

text \<open>What every method promises of the record it returns: it has been seen and is about \<open>g\<close>.\<close>

definition seen_post :: "string \<Rightarrow> control_record set \<Rightarrow> control_record post" where
  "seen_post g K0 q K a b \<longleftrightarrow> K0 \<subseteq> K \<and> q \<in> K \<and> cr_executionHandle q = g"

text \<open>A change that keeps the handle and both counters.\<close>

definition plain_change :: "(control_record \<Rightarrow> control_record) \<Rightarrow> control_record \<Rightarrow> bool" where
  "plain_change ch r \<longleftrightarrow>
     cr_executionHandle (ch r) = cr_executionHandle r \<and>
     cr_createAttempts (ch r) = cr_createAttempts r \<and> cr_runIntent (ch r) = cr_runIntent r"

lemma next_record_simps [simp]:
  "cr_executionHandle (next_record ch r t) = cr_executionHandle (ch r)"
  "cr_createAttempts (next_record ch r t) = cr_createAttempts (ch r)"
  "cr_runIntent (next_record ch r t) = cr_runIntent (ch r)"
  "cr_cancelIntent (next_record ch r t) = cr_cancelIntent (ch r)"
  "cr_cleanupIntent (next_record ch r t) = cr_cleanupIntent (ch r)"
  "cr_state (next_record ch r t) = cr_state (ch r)"
  "cr_job (next_record ch r t) = cr_job (ch r)"
  "cr_version (next_record ch r t) = Suc (cr_version r)"
  by (simp_all add: next_record_def)

lemma wp_try_update:
  assumes "r \<in> K" "cr_executionHandle (ch r) = cr_executionHandle r"
    and "\<And>t. succeeds_record h (next_record ch r t) r"
    and "\<And>t. Q (True, next_record ch r t) (insert (next_record ch r t) K)
      (a + (cr_createAttempts (ch r) - cr_createAttempts r))
      (b + (of_bool (cr_runIntent (ch r)) - of_bool (cr_runIntent r)))"
    and "\<And>q. cr_executionHandle q = cr_executionHandle r \<Longrightarrow> Q (False, q) (insert q K) a b"
  shows "wp (try_update r ch) h Q K a b"
  using assms
  by (auto simp: try_update_def Let_def run_weight_def Bex_def insert_is_Un [symmetric] Un_insert_right
      split: option.splits intro!: exI [of _ r])

lemma wp_update:
  assumes "r \<in> K" "plain_change ch r"
    and "\<And>q. cr_executionHandle q = cr_executionHandle r \<Longrightarrow> Q q (insert q K) a b"
  shows "wp (update r ch) h Q K a b"
  unfolding update_def wp_bind
  by (rule wp_try_update)
    (use assms in \<open>auto simp: plain_change_def succeeds_record_def\<close>)

lemma wp_update_seen:
  assumes "r \<in> K" "plain_change ch r" "cr_executionHandle r = g"
  shows "wp (update r ch) h (seen_post g K) K a b"
  using assms by (intro wp_update) (auto simp: seen_post_def)

lemma wp_seen_weaken:
  "wp p h (seen_post g L) K a b \<Longrightarrow> M \<subseteq> L \<Longrightarrow> wp p h (seen_post g M) K a b"
  by (erule wp_mono) (auto simp: seen_post_def)

lemma wp_seen_insert:
  "wp p h (seen_post g (insert q K)) (insert q K) a b \<Longrightarrow> wp p h (seen_post g K) (insert q K) a b"
  by (erule wp_seen_weaken) auto

lemma plain_change_simps [simp]:
  "plain_change (\<lambda>r. r\<lparr>cr_errorCode := e\<rparr>) q"
  "plain_change (\<lambda>r. r\<lparr>cr_state := s, cr_errorCode := e\<rparr>) q"
  "plain_change (\<lambda>r. r\<lparr>cr_state := s, cr_operationRef := p, cr_errorCode := e\<rparr>) q"
  "plain_change (\<lambda>r. r\<lparr>cr_state := s, cr_cleanupIntent := d, cr_errorCode := e\<rparr>) q"
  "plain_change (\<lambda>r. r\<lparr>cr_state := s, cr_execution := x, cr_errorCode := e\<rparr>) q"
  "plain_change (\<lambda>r. r\<lparr>cr_state := s, cr_job := j, cr_errorCode := e\<rparr>) q"
  "plain_change (\<lambda>r. r\<lparr>cr_state := s, cr_job := j, cr_cleanupIntent := d, cr_errorCode := e\<rparr>) q"
  "plain_change (\<lambda>r. r\<lparr>cr_state := s, cr_cancelIntent := d\<rparr>) q"
  "plain_change (\<lambda>r. r\<lparr>cr_state := s, cr_cleanupIntent := d\<rparr>) q"
  "plain_change cleanup_pending q" "plain_change cleaned_changes q"
  by (simp_all add: plain_change_def cleanup_pending_def cleaned_changes_def)

lemma wp_cancel_each [simp]: "wp (cancel_each es p) h Q K a b \<longleftrightarrow> wp p h Q K a b"
  by (induction es) simp_all

lemma wp_remove_executions [simp]: "wp (remove_executions es p) h Q K a b \<longleftrightarrow> wp p h Q K a b"
  by (induction es) simp_all

lemma wp_handle_execution_list:
  "r \<in> K \<Longrightarrow> cr_executionHandle r = g \<Longrightarrow>
   wp (handle_execution_list r es) h (seen_post g K) K a b"
  by (auto simp: handle_execution_list_def wp_update_seen split: list.splits)

lemma wp_observe_execution:
  "r \<in> K \<Longrightarrow> cr_executionHandle r = g \<Longrightarrow> wp (observe_execution r) h (seen_post g K) K a b"
  by (auto simp: observe_execution_def wp_update_seen wp_handle_execution_list
      split: provider_execution_list.splits)

lemma wp_record_run_mutation:
  "r \<in> K \<Longrightarrow> cr_executionHandle r = g \<Longrightarrow> wp (record_run_mutation r m) h (seen_post g K) K a b"
  by (auto simp: record_run_mutation_def wp_update_seen split: provider_mutation.splits)

lemma wp_return_seen: "q \<in> K \<Longrightarrow> cr_executionHandle q = g \<Longrightarrow> wp (Return q) h (seen_post g K) K a b"
  by (simp add: seen_post_def)

text \<open>The one place that earns a run permit, and the one that spends it.\<close>

lemma wp_start_run:
  assumes "r \<in> K" "cr_executionHandle r = h" "\<not> cr_runIntent r"
  shows "wp (start_run r) h (seen_post h K) K a b"
proof -
  let ?ch = "\<lambda>r. r\<lparr>cr_state := RUN_INTENT, cr_runIntent := True\<rparr>"
  let ?then = "\<lambda>(applied, current). case cr_job current of
      None \<Rightarrow> Return current
    | Some job \<Rightarrow> if \<not> applied then Return current
        else RunJob job (\<lambda>result. record_run_mutation current result)"
  have "wp (try_update r ?ch) h (\<lambda>x K' a b. wp (?then x) h (seen_post h K) K' a b) K a b"
  proof (rule wp_try_update)
    fix t
    let ?q = "next_record ?ch r t"
    show "succeeds_record h ?q r" using assms by (simp add: succeeds_record_def)
    have "wp (record_run_mutation ?q m) h (seen_post h K) (insert ?q K) a b" for m
      using assms by (intro wp_seen_insert wp_record_run_mutation) auto
    then show "wp (?then (True, ?q)) h (seen_post h K) (insert ?q K)
        (a + (cr_createAttempts (?ch r) - cr_createAttempts r))
        (b + (of_bool (cr_runIntent (?ch r)) - of_bool (cr_runIntent r)))"
      using assms by (auto simp: seen_post_def split: option.splits)
  next
    fix q :: control_record assume "cr_executionHandle q = cr_executionHandle r"
    then show "wp (?then (False, q)) h (seen_post h K) (insert q K) a b"
      using assms by (auto simp: seen_post_def split: option.splits)
  qed (use assms in auto)
  then show ?thesis using assms
    by (auto simp: start_run_def wp_update_seen wp_handle_execution_list wp_bind
        split: provider_execution_list.splits)
qed

lemma wp_accept_job:
  assumes "r \<in> K" "cr_executionHandle r = h"
  shows "wp (accept_job c r allowRun job) h (seen_post h K) K a b"
proof -
  have "wp (update r (\<lambda>r. r\<lparr>cr_state := s, cr_job := Some job, cr_errorCode := None\<rparr>)) h
      (\<lambda>q K' a b. wp (if \<not> pj_ready job \<or> \<not> allowRun \<or> cr_runIntent q then Return q
         else start_run q) h (seen_post h K) K' a b) K a b" for s
    by (rule wp_update)
      (use assms in \<open>auto intro: wp_seen_insert wp_start_run simp: seen_post_def\<close>)
  then show ?thesis
    using assms by (auto simp: accept_job_def wp_bind wp_update_seen)
qed

lemma wp_operation_failure:
  "(\<And>x. wp (k x) h Q K a b) \<Longrightarrow> wp (operation_failure r k) h Q K a b"
  by (auto simp: operation_failure_def split: option.splits)

lemma wp_send_create_reconcile_job:
  "\<And>K a b. r \<in> K \<Longrightarrow> cr_executionHandle r = h \<Longrightarrow> cr_createAttempts r < 2 \<Longrightarrow>
     wp (send_create c r) h (seen_post h K) K a b"
  "\<And>K a b. q \<in> K \<Longrightarrow> cr_executionHandle q = h \<Longrightarrow>
     wp (reconcile_job c q allowRun) h (seen_post h K) K a b"
proof (induction c r and c q allowRun rule: send_create_reconcile_job.induct)
  case (1 c r)
  let ?then = "\<lambda>claimed. if \<not> fst claimed then Return (snd claimed)
       else
         let intent = snd claimed in
         prog_bind (from_result (expected_manifest c intent)) (\<lambda>manifest.
         CreateJob (cr_jobId intent) manifest (\<lambda>result. case result of
           Mutation_accepted operationRef \<Rightarrow>
             update intent (\<lambda>r. r\<lparr>cr_state := JOB_PENDING, cr_operationRef := Some operationRef,
               cr_errorCode := None\<rparr>)
         | Mutation_conflict \<Rightarrow> reconcile_job c intent True
         | Mutation_unknown \<Rightarrow>
             update intent (\<lambda>r. r\<lparr>cr_state := CREATE_UNKNOWN, cr_errorCode := Some UNKNOWN_OUTCOME\<rparr>)
         | Mutation_rejected errorKind \<Rightarrow>
             update intent (\<lambda>r. r\<lparr>cr_state := EXECUTION_FAILED,
               cr_errorCode := Some (kind_error errorKind)\<rparr>)))"
  have "wp (try_update r create_changes) h (\<lambda>x K' a b. wp (?then x) h (seen_post h K) K' a b) K a b"
  proof (rule wp_try_update)
    fix t
    let ?q = "next_record create_changes r t"
    have q: "cr_executionHandle ?q = h" "?q \<in> insert ?q K"
      using "1.prems" by (simp_all add: create_changes_def)
    show "succeeds_record h ?q r"
      using "1.prems" by (simp add: succeeds_record_def create_changes_def)
    have out: "(True, ?q) \<in> outcomes (try_update r create_changes)"
      by (auto simp: outcomes_try_update)
    have "wp (reconcile_job c ?q True) h (seen_post h (insert ?q K)) (insert ?q K) a b"
      if "expected_manifest c ?q = Inr m" for m
      by (rule "1.IH" [OF out]) (use that q in auto)
    then show "wp (?then (True, ?q)) h (seen_post h K) (insert ?q K)
        (a + (cr_createAttempts (create_changes r) - cr_createAttempts r))
        (b + (of_bool (cr_runIntent (create_changes r)) - of_bool (cr_runIntent r)))"
      using q by (auto simp: Let_def wp_bind create_changes_def
          intro!: wp_seen_insert wp_update_seen split: provider_mutation.splits)
  next
    fix q :: control_record assume "cr_executionHandle q = cr_executionHandle r"
    then show "wp (?then (False, q)) h (seen_post h K) (insert q K) a b"
      using "1.prems" by (auto simp: seen_post_def)
  qed (use "1.prems" in \<open>auto simp: create_changes_def\<close>)
  then show ?case by (simp add: send_create.simps wp_bind)
next
  case (2 c r allowRun)
  have again: "wp (send_create c r) h (seen_post h K) K a b"
    if "cr_createAttempts r < 2" "num_less (Some now2) (date_parse (cr_provisioningDeadline r))"
      "cr_createAttempts r = 0 \<or> num_leq (Some CREATE_RECONCILIATION_DELAY_MS)
        (map_option (\<lambda>created. now - created) (date_parse (cr_createdAt r)))" for now now2
    using that by (intro "2.IH" [of None now now2] "2.prems") auto
  show ?case using "2.prems"
    by (auto simp: reconcile_job.simps wp_update_seen wp_accept_job
        intro!: wp_operation_failure intro: again [folded "2.prems"(2)] split: provider_job_read.splits option.splits)
qed

lemma wp_reconcile_job:
  "r \<in> K \<Longrightarrow> cr_executionHandle r = h \<Longrightarrow>
   wp (reconcile_job c r allowRun) h (seen_post h K) K a b"
  by (rule wp_send_create_reconcile_job(2))

lemma wp_observe_record:
  "r \<in> K \<Longrightarrow> cr_executionHandle r = h \<Longrightarrow> wp (observe_record c r) h (seen_post h K) K a b"
  by (simp add: observe_record_def wp_reconcile_job wp_observe_execution)

text \<open>A step of a method on a record seen before, then the rest of the method.\<close>

lemma wp_bind_seen:
  assumes "wp m h (seen_post g K) K a b"
    and "\<And>q L a b. K \<subseteq> L \<Longrightarrow> q \<in> L \<Longrightarrow> cr_executionHandle q = g \<Longrightarrow>
      wp (f q) h (seen_post g L) L a b"
  shows "wp (prog_bind m f) h (seen_post g K) K a b"
  unfolding wp_bind
proof (rule wp_mono [OF assms(1)])
  fix q L a b assume "seen_post g K q L a b"
  then have "K \<subseteq> L" "q \<in> L" "cr_executionHandle q = g" by (simp_all add: seen_post_def)
  then show "wp (f q) h (seen_post g K) L a b" by (intro wp_seen_weaken [OF assms(2)])
qed

lemma wp_try_update_plain:
  assumes "r \<in> K" "cr_executionHandle r = g" "plain_change ch r"
    and "\<And>q L u. K \<subseteq> L \<Longrightarrow> q \<in> L \<Longrightarrow> cr_executionHandle q = g \<Longrightarrow>
      wp (f (u, q)) h (seen_post g L) L a b"
  shows "wp (prog_bind (try_update r ch) f) h (seen_post g K) K a b"
proof -
  have "wp (f (u, q)) h (seen_post g K) (insert q K) a b" if "cr_executionHandle q = g" for q u
    by (rule wp_seen_insert, rule assms(4)) (use that in auto)
  then show ?thesis unfolding wp_bind
    by (intro wp_try_update) (use assms in \<open>auto simp: plain_change_def succeeds_record_def\<close>)
qed

lemma wp_cancel_record:
  assumes "r \<in> K" "cr_executionHandle r = g"
  shows "wp (cancel_record r) h (seen_post g K) K a b"
  unfolding cancel_record_def
proof (rule wp_bind_seen)
  fix q :: control_record and L a b assume q: "q \<in> L" "cr_executionHandle q = g"
  show "wp (if cr_execution q = None
        then update q (\<lambda>r. r\<lparr>cr_state := CANCEL_PENDING, cr_cancelIntent := True\<rparr>)
        else if cr_state q \<in> {EXECUTION_SUCCEEDED, EXECUTION_FAILED, EXECUTION_CANCELLED} then
          Return q
        else prog_bind (try_update q
            (\<lambda>r. r\<lparr>cr_state := CANCEL_PENDING, cr_cancelIntent := True\<rparr>)) (\<lambda>(applied, current).
             if \<not> applied then Return current
             else (case cr_execution current of
                 None \<Rightarrow> Return current
               | Some execution \<Rightarrow>
                   CancelExecution execution (\<lambda>result.
                     if result = Mutation_rejected permanent_error then
                       update current (\<lambda>r. r\<lparr>cr_errorCode := Some PROVIDER_PERMANENT\<rparr>)
                     else
                       update current (\<lambda>r. r\<lparr>cr_errorCode :=
                         (if result = Mutation_unknown then Some UNKNOWN_OUTCOME else None)\<rparr>)))))
      h (seen_post g L) L a b"
    using q by (auto intro!: wp_update_seen wp_return_seen wp_try_update_plain
        simp: seen_post_def split: option.splits)
qed (use assms in \<open>auto intro!: wp_observe_execution wp_return_seen simp: seen_post_def\<close>)

lemma wp_verify_absence:
  "q \<in> L \<Longrightarrow> cr_executionHandle q = g \<Longrightarrow> wp (verify_absence q) h (seen_post g L) L a b"
  by (simp add: verify_absence_def wp_update_seen)

lemma wp_cleanup_record:
  assumes "r \<in> K" "cr_executionHandle r = g"
  shows "wp (cleanup_record r) h (seen_post g K) K a b"
  unfolding cleanup_record_def
  by (rule wp_bind_seen)
    (use assms in \<open>auto intro!: wp_update_seen wp_verify_absence simp: seen_post_def
      split: provider_execution_list.splits provider_job_read.splits\<close>)

lemma wp_reconcile_record:
  "r \<in> K \<Longrightarrow> cr_executionHandle r = h \<Longrightarrow> wp (reconcile_record c r) h (seen_post h K) K a b"
  by (auto simp: reconcile_record_def wp_cleanup_record wp_reconcile_job wp_observe_execution
      seen_post_def)

lemma wp_dispatch:
  "r \<in> K \<Longrightarrow> cr_executionHandle r = h \<Longrightarrow> wp (dispatch c act r) h (seen_post h K) K a b"
  by (auto simp: dispatch_def wp_observe_record wp_reconcile_record wp_cancel_record
      wp_cleanup_record seen_post_def split: controller_action.splits)

abbreviation any_post :: "'a post" where
  "any_post \<equiv> \<lambda>x K a b. True"

lemma wp_weaken_any: "wp p h Q K a b \<Longrightarrow> wp p h any_post K a b"
  by (erule wp_mono) simp

lemma wp_execute: "wp (execute c q digest) (rq_executionHandle q) any_post K a b"
proof -
  have create: "wp (create_request_prog c q digest) (rq_executionHandle q) any_post K a b"
    by (auto simp: create_request_prog_def wp_bind admission_input_def request_identity_of_def
        intro!: wp_weaken_any [OF wp_send_create_reconcile_job(1)] split: admit_create_result.splits)
  show ?thesis
    unfolding execute_def using create
    by (auto simp: wp_bind request_identity_of_def intro!: wp_weaken_any [OF wp_dispatch]
        split: claim_request_result.splits)
qed

lemma wp_attest: "wp (attest c q) h any_post K a b"
  by (auto simp: attest_def split: option.splits)

lemma wp_reap_records:
  "set rs \<subseteq> K \<Longrightarrow> wp (reap_records now rs n) h any_post K a b"
proof (induction rs arbitrary: n K a b)
  case (Cons r rs n K a b)
  have "wp (cleanup_record r) h (seen_post (cr_executionHandle r) K) K a b"
    using Cons.prems by (intro wp_cleanup_record) auto
  then have "wp (cleanup_record r) h (\<lambda>x L a b. wp (reap_records now rs (n + 1)) h any_post L a b) K a b"
    by (rule wp_mono) (use Cons in \<open>auto simp: seen_post_def intro!: Cons.IH\<close>)
  with Cons show ?case by (simp add: wp_bind)
qed simp

lemma wp_reap: "wp (reap c env) h any_post K a b"
  by (auto simp: reap_def intro!: wp_reap_records)

lemma wp_threads:
  "wp (snd (request_thread c q d)) (fst (request_thread c q d)) any_post {} 0 0"
  "wp (snd (attest_thread c p)) (fst (attest_thread c p)) any_post {} 0 0"
  "wp (snd (reap_thread c env)) (fst (reap_thread c env)) any_post {} 0 0"
  by (auto simp: request_thread_def attest_thread_def reap_thread_def wp_bind
      intro!: wp_weaken_any [OF wp_execute] wp_weaken_any [OF wp_attest] wp_weaken_any [OF wp_reap])

section \<open>Soundness in any interleaving\<close>

definition attempts_of :: "(string \<Rightarrow> control_record option) \<Rightarrow> string \<Rightarrow> nat" where
  "attempts_of R h = (case R h of None \<Rightarrow> 0 | Some r \<Rightarrow> cr_createAttempts r)"

definition runs_of :: "(string \<Rightarrow> control_record option) \<Rightarrow> string \<Rightarrow> nat" where
  "runs_of R h = (case R h of None \<Rightarrow> 0 | Some r \<Rightarrow> run_weight r)"

text \<open>
  \<open>G\<close> is every record the store ever held: one per handle and version, the current one the last.
\<close>

definition history_of :: "control_record set \<Rightarrow> (string \<Rightarrow> control_record option) \<Rightarrow> bool" where
  "history_of G R \<longleftrightarrow>
     (\<forall>h r. R h = Some r \<longrightarrow> r \<in> G \<and> cr_executionHandle r = h) \<and>
     (\<forall>r \<in> G. \<exists>c. R (cr_executionHandle r) = Some c \<and> cr_version r \<le> cr_version c) \<and>
     (\<forall>r \<in> G. \<forall>q \<in> G. cr_executionHandle r = cr_executionHandle q \<and> cr_version r = cr_version q
        \<longrightarrow> r = q) \<and>
     (\<forall>r \<in> G. cr_createAttempts r \<le> 2)"

lemma history_current:
  "history_of G R \<Longrightarrow> r \<in> G \<Longrightarrow> R (cr_executionHandle r) = Some c \<Longrightarrow> cr_version c = cr_version r \<Longrightarrow>
   c = r"
  unfolding history_of_def by metis

lemma history_new:
  assumes "history_of G R" "R h = None" "cr_executionHandle r = h" "cr_createAttempts r \<le> 2"
  shows "history_of (insert r G) (R(h \<mapsto> r))"
proof -
  have "\<forall>q \<in> G. cr_executionHandle q \<noteq> h"
    using assms(1,2) unfolding history_of_def by fastforce
  with assms show ?thesis unfolding history_of_def by auto
qed

lemma history_next:
  assumes "history_of G R" "R h = Some c" "cr_executionHandle r = h"
    and "cr_version r = Suc (cr_version c)" "cr_createAttempts r \<le> 2"
  shows "history_of (insert r G) (R(h \<mapsto> r))"
proof -
  have "cr_version q \<le> cr_version c" if "q \<in> G" "cr_executionHandle q = h" for q
    using assms(1,2) that unfolding history_of_def by fastforce
  then have "\<forall>q \<in> G. cr_executionHandle q = h \<longrightarrow> cr_version q < cr_version r"
    using assms(4) by fastforce
  with assms show ?thesis unfolding history_of_def by (auto; fastforce)
qed

text \<open>One step: what is spent and kept is covered by what was held and what the store gained.\<close>

definition balanced ::
  "(string \<Rightarrow> control_record option) \<Rightarrow> (string \<Rightarrow> control_record option) \<Rightarrow> string \<Rightarrow> nat \<Rightarrow> nat
     \<Rightarrow> nat \<Rightarrow> nat \<Rightarrow> provider_call list \<Rightarrow> bool" where
  "balanced R R' h a b a' b' calls \<longleftrightarrow>
     (\<forall>g. (if g = h then length (filter is_create_call calls) + a' else 0) + attempts_of R g
          \<le> (if g = h then a else 0) + attempts_of R' g) \<and>
     (\<forall>g. (if g = h then length (filter is_run_call calls) + b' else 0) + runs_of R g
          \<le> (if g = h then b else 0) + runs_of R' g)"

lemma balanced_same:
  "length (filter is_create_call calls) + a' \<le> a \<Longrightarrow> length (filter is_run_call calls) + b' \<le> b \<Longrightarrow>
   balanced R R h a b a' b' calls"
  by (simp add: balanced_def)

lemma balanced_initial:
  "R g = None \<Longrightarrow> balanced R (R(g \<mapsto> initial_record i w)) h a b a b []"
  by (simp add: balanced_def attempts_of_def runs_of_def run_weight_def)

lemma balanced_cas:
  assumes "R (cr_executionHandle q) = Some r" "succeeds_record h q r"
  shows "balanced R (R(cr_executionHandle q \<mapsto> q)) h a b
    (a + (cr_createAttempts q - cr_createAttempts r)) (b + (run_weight q - run_weight r)) []"
  using assms
  by (auto simp: balanced_def attempts_of_def runs_of_def run_weight_def succeeds_record_def)

context control_store
begin

text \<open>The conclusion of every step: the ghost state can be extended and the step is balanced.\<close>

definition sound_step ::
  "control_record set \<Rightarrow> 's \<Rightarrow> 's \<Rightarrow> string \<Rightarrow> 'a post \<Rightarrow> nat \<Rightarrow> nat \<Rightarrow> 'a prog \<Rightarrow> provider_call list
     \<Rightarrow> bool" where
  "sound_step G s s' h Q a b p' calls \<longleftrightarrow>
     (\<exists>G' K' a' b'. inv s' \<and> history_of G' (recs s') \<and> G \<subseteq> G' \<and> K' \<subseteq> G' \<and>
        wp p' h Q K' a' b' \<and> balanced (recs s) (recs s') h a b a' b' calls)"

lemma sound_stepI:
  "inv s' \<Longrightarrow> history_of G' (recs s') \<Longrightarrow> G \<subseteq> G' \<Longrightarrow> K' \<subseteq> G' \<Longrightarrow> wp p' h Q K' a' b' \<Longrightarrow>
   balanced (recs s) (recs s') h a b a' b' calls \<Longrightarrow> sound_step G s s' h Q a b p' calls"
  unfolding sound_step_def by blast

lemma sound_stay:
  "inv s \<Longrightarrow> history_of G (recs s) \<Longrightarrow> K' \<subseteq> G \<Longrightarrow> wp p' h Q K' a' b' \<Longrightarrow>
   length (filter is_create_call calls) + a' \<le> a \<Longrightarrow> length (filter is_run_call calls) + b' \<le> b \<Longrightarrow>
   sound_step G s s h Q a b p' calls"
  by (rule sound_stepI) (auto intro: balanced_same)

lemma history_current_record:
  "history_of G (recs s) \<Longrightarrow> recs s g = Some r \<Longrightarrow> r \<in> G \<and> cr_executionHandle r = g"
  by (simp add: history_of_def)

lemma admit_sound:
  assumes inv: "inv s" and G: "history_of G (recs s)" and K: "K \<subseteq> G"
    and wp: "wp (Admit i k) h Q K a b" and op: "so_admitCreate ops s i = Inr (ares, s')"
  shows "sound_step G s s' h Q a b (k ares) []"
proof (cases "\<exists>r. ares = Admit_accepted r")
  case True
  then obtain r w where r: "ares = Admit_accepted r" "r = initial_record i w"
    and new: "recs s (ri_executionHandle (ai_identity i)) = None"
    and upd: "recs s' = (recs s)(ri_executionHandle (ai_identity i) \<mapsto> r)"
    using admit_accepted [OF inv] op by blast
  have "wp (k ares) h Q (insert r K) a b"
    using wp r by (auto dest!: spec [of _ "Admit_accepted (initial_record i w)"])
  moreover have "history_of (insert r G) (recs s')"
    unfolding upd using G new by (rule history_new) (simp_all add: r)
  moreover have "balanced (recs s) (recs s') h a b a b []"
    using new by (simp add: upd r balanced_initial)
  ultimately show ?thesis
    using K admit_inv [OF inv op] by (intro sound_stepI [of s' "insert r G" G "insert r K"]) auto
next
  case False
  have "\<forall>r \<in> admit_answer i ares. recs s (ri_executionHandle (ai_identity i)) = Some r"
    using False op admit_duplicate [OF inv] by (cases ares) auto
  then have seen: "r \<in> G \<and> cr_executionHandle r = ri_executionHandle (ai_identity i)"
    if "r \<in> admit_answer i ares" for r
    using that history_current_record [OF G] by blast
  have "wp (k ares) h Q (K \<union> admit_answer i ares) a b"
    using wp False seen by auto
  moreover have "s' = s" using False admit_unchanged [OF inv op] by blast
  ultimately show ?thesis
    using inv G K seen by (auto intro!: sound_stay [of s G "K \<union> admit_answer i ares"])
qed

lemma claim_sound:
  assumes inv: "inv s" and G: "history_of G (recs s)" and K: "K \<subseteq> G"
    and wp: "wp (Claim c k) h Q K a b" and op: "so_claimRequest ops s c = Inr (cres, s')"
  shows "sound_step G s s' h Q a b (k cres) []"
proof -
  have "\<forall>r \<in> claim_answer cres. recs s (ri_executionHandle (ci_identity c)) = Some r"
    using op claim_accepted [OF inv] claim_seen [OF inv] by (cases cres) auto
  then have seen: "r \<in> G \<and> cr_executionHandle r = ri_executionHandle (ci_identity c)"
    if "r \<in> claim_answer cres" for r
    using that history_current_record [OF G] by blast
  have "wp (k cres) h Q (K \<union> claim_answer cres) a b" using wp seen by auto
  moreover have "recs s' = recs s" "inv s'" using claim_records claim_inv inv op by blast+
  ultimately show ?thesis
    using G K seen
    by (intro sound_stepI [of s' G G "K \<union> claim_answer cres"]) (auto intro: balanced_same)
qed

lemma cas_sound:
  assumes inv: "inv s" and G: "history_of G (recs s)" and K: "K \<subseteq> G"
    and wp: "wp (Cas v q k) h Q K a b" and op: "so_compareAndSet ops s v q = Inr (ok, s')"
  shows "sound_step G s s' h Q a b (k ok) []"
proof -
  obtain r where r: "r \<in> K" "cr_version r = v" "succeeds_record h q r"
    and f: "wp (k False) h Q K a b"
    and t: "wp (k True) h Q (insert q K) (a + (cr_createAttempts q - cr_createAttempts r))
        (b + (run_weight q - run_weight r))"
    using wp unfolding wp.simps by blast
  show ?thesis
  proof (cases ok)
    case True
    then obtain c where c: "recs s (cr_executionHandle q) = Some c" "cr_version c = v"
        "cr_version q = v + 1" "recs s' = (recs s)(cr_executionHandle q \<mapsto> q)"
      using cas_applied [OF inv, of v q s'] op by auto
    have "cr_executionHandle q = cr_executionHandle r"
      using r(3) by (simp add: succeeds_record_def)
    then have "c = r" using G r(1,2) K c(1,2) by (metis history_current subsetD)
    have "cr_createAttempts r \<le> 2" using G r(1) K by (auto simp: history_of_def)
    then have "history_of (insert q G) (recs s')"
      unfolding c(4) using G c(1,2,3) r(2,3) \<open>c = r\<close>
      by (intro history_next) (auto simp: succeeds_record_def)
    moreover have "balanced (recs s) (recs s') h a b
        (a + (cr_createAttempts q - cr_createAttempts r)) (b + (run_weight q - run_weight r)) []"
      unfolding c(4) using c(1) r(3) \<open>c = r\<close> by (simp add: balanced_cas)
    ultimately show ?thesis
      using t K True cas_inv [OF inv op]
      by (intro sound_stepI [of s' "insert q G" G "insert q K"]) auto
  next
    case False
    with op have "s' = s" using cas_refused [OF inv, of v q s'] by simp
    with f False K inv G show ?thesis
      by (auto intro!: sound_stay [where K' = K and a' = a and b' = b])
  qed
qed

lemma throw_sound:
  "inv s \<Longrightarrow> history_of G (recs s) \<Longrightarrow> sound_step G s s h Q a b (Throw e) []"
  by (rule sound_stay [of s G "{}" _ _ _ a b]) auto

lemma get_sound:
  assumes "inv s" "history_of G (recs s)" "K \<subseteq> G" "wp (Get g k) h Q K a b"
  shows "sound_step G s s h Q a b (resume (so_get ops s g) k) []"
proof (cases "so_get ops s g")
  case (Inr x)
  then have "x = recs s g" using get_record assms(1) by blast
  with assms history_current_record [OF assms(2)] Inr show ?thesis
    by (intro sound_stay [of s G "K \<union> set_option x" _ _ _ a b]) auto
qed (use assms throw_sound in simp)

lemma list_sound:
  assumes "inv s" "history_of G (recs s)" "K \<subseteq> G" "wp (ListUnclean e k) h Q K a b"
  shows "sound_step G s s h Q a b (resume (so_listUnclean ops s e) k) []"
proof (cases "so_listUnclean ops s e")
  case (Inr rs)
  then have "set rs \<subseteq> G"
    using list_records [OF assms(1) Inr] history_current_record [OF assms(2)] by blast
  with assms Inr show ?thesis by (intro sound_stay [of s G "K \<union> set rs" _ _ _ a b]) auto
qed (use assms throw_sound in simp)

text \<open>A provider call costs one permit of its kind, whatever is answered.\<close>

lemma provider_sound:
  assumes "inv s" "history_of G (recs s)" "K \<subseteq> G" "\<forall>x. wp (k x) h Q K a' b'"
    and "length (filter is_create_call calls) + a' \<le> a" "length (filter is_run_call calls) + b' \<le> b"
  shows "sound_step G s s h Q a b (resume res k) calls"
  using assms by (cases res) (auto intro: sound_stay)

lemma prog_step_sound:
  assumes "inv s" "history_of G (recs s)" "K \<subseteq> G"
    and "wp p h Q K a b" "prog_step ops s p ans = Some (s', p', calls)"
  shows "sound_step G s s' h Q a b p' calls"
proof -
  note pre = assms(1-3)
  have store: "sound_step G s s' h Q a b p' calls"
    if "store_resume s res k = Some (s', p', calls)"
      and "\<And>x t. res = Inr (x, t) \<Longrightarrow> sound_step G s t h Q a b (k x) []"
    for res :: "('x \<times> 's) result" and k
    using that throw_sound pre by (cases res) auto
  note free = provider_sound [where K = K and a = a and a' = a and b = b and b' = b]
  show ?thesis
  proof (cases p)
    case (Now k)
    with assms show ?thesis
      by (auto simp: prog_step_def split: answer.split_asm intro: sound_stay [where a' = a and b' = b])
  next
    case (Admit i k)
    with assms show ?thesis
      by (intro store [of "so_admitCreate ops s i" k] admit_sound)
        (auto simp: prog_step_def simp del: wp.simps split: answer.split_asm)
  next
    case (Claim c k)
    with assms show ?thesis
      by (intro store [of "so_claimRequest ops s c" k] claim_sound)
        (auto simp: prog_step_def simp del: wp.simps split: answer.split_asm)
  next
    case (Cas v q k)
    with assms show ?thesis
      by (intro store [of "so_compareAndSet ops s v q" k] cas_sound)
        (auto simp: prog_step_def simp del: wp.simps split: answer.split_asm)
  next
    case (Get g k)
    with assms get_sound [of s G K g k] show ?thesis
      by (auto simp: prog_step_def simp del: wp.simps split: answer.split_asm)
  next
    case (ListUnclean e k)
    with assms list_sound [of s G K e k] show ?thesis
      by (auto simp: prog_step_def simp del: wp.simps split: answer.split_asm)
  next
    case (CreateJob j m k)
    with assms show ?thesis
      by (auto simp: prog_step_def split: answer.split_asm
          intro!: provider_sound [where K = K and a' = "a - 1" and b' = b])
  next
    case (RunJob j k)
    with assms show ?thesis
      by (auto simp: prog_step_def split: answer.split_asm
          intro!: provider_sound [where K = K and a' = a and b' = "b - 1"])
  qed (use assms in \<open>auto simp: prog_step_def split: answer.split_asm intro!: free\<close>)
qed

end

section \<open>The whole system\<close>

text \<open>The permits the threads of one execution hold together.\<close>

definition held ::
  "(control_record set \<times> nat \<times> nat \<Rightarrow> nat) \<Rightarrow> (string \<times> reply prog) list
     \<Rightarrow> (control_record set \<times> nat \<times> nat) list \<Rightarrow> string \<Rightarrow> nat" where
  "held f ts gs h = sum_list (map (\<lambda>(t, g). if fst t = h then f g else 0) (zip ts gs))"

lemma held_append:
  "length ts = length gs \<Longrightarrow>
   held f (ts @ [t]) (gs @ [g]) h = held f ts gs h + (if fst t = h then f g else 0)"
  by (simp add: held_def)

lemma held_update:
  assumes "i < length ts" "length gs = length ts"
  shows "held f (ts[i := (fst (ts ! i), p)]) (gs[i := g]) h + (if fst (ts ! i) = h then f (gs ! i) else 0)
    = held f ts gs h + (if fst (ts ! i) = h then f g else 0)"
proof -
  let ?P = "map (\<lambda>(t, g). if fst t = h then f g else 0) (zip ts gs)"
  have i: "i < length ?P" "?P ! i = (if fst (ts ! i) = h then f (gs ! i) else 0)"
    using assms by auto
  have "held f (ts[i := (fst (ts ! i), p)]) (gs[i := g]) h
      = sum_list (?P[i := (if fst (ts ! i) = h then f g else 0)])"
    by (simp add: held_def zip_update map_update)
  also have "\<dots> = sum_list ?P + (if fst (ts ! i) = h then f g else 0) - ?P ! i"
    using i by (simp add: sum_list_update)
  moreover have "?P ! i \<le> sum_list ?P" using i(1) by (rule elem_le_sum_list)
  ultimately show ?thesis using i(2) by (simp add: held_def)
qed

definition thread_ok ::
  "control_record set \<Rightarrow> string \<times> reply prog \<Rightarrow> control_record set \<times> nat \<times> nat \<Rightarrow> bool" where
  "thread_ok G t g \<longleftrightarrow> fst g \<subseteq> G \<and> wp (snd t) (fst t) any_post (fst g) (fst (snd g)) (snd (snd g))"

definition calls_covered ::
  "'s system \<Rightarrow> (string \<Rightarrow> control_record option) \<Rightarrow> (control_record set \<times> nat \<times> nat) list \<Rightarrow> bool"
  where
  "calls_covered S R gs \<longleftrightarrow>
     (\<forall>h. create_calls S h + held (fst \<circ> snd) (sy_threads S) gs h \<le> attempts_of R h \<and>
          run_calls S h + held (snd \<circ> snd) (sy_threads S) gs h \<le> runs_of R h)"

lemma calls_covered_spawn:
  "calls_covered S R gs \<Longrightarrow> length (sy_threads S) = length gs \<Longrightarrow>
   calls_covered (S\<lparr>sy_threads := sy_threads S @ [t]\<rparr>) R (gs @ [({}, 0, 0)])"
  by (simp add: calls_covered_def held_append create_calls_def run_calls_def)

lemma count_labelled:
  "calls_for P h (xs @ map (Pair l) ys) =
   calls_for P h xs + (if l = h then length (filter P ys) else 0)"
  by (induction ys) (auto simp: calls_for_def)

lemma calls_covered_step:
  assumes cov: "calls_covered S R gs" and i: "i < length (sy_threads S)"
    and len: "length gs = length (sy_threads S)"
    and g: "gs ! i = (K, a, b)"
    and bal: "balanced R R' (fst (sy_threads S ! i)) a b a' b' calls"
  shows "calls_covered \<lparr>sy_store = s',
      sy_threads = (sy_threads S)[i := (fst (sy_threads S ! i), p')],
      sy_calls = sy_calls S @ map (Pair (fst (sy_threads S ! i))) calls\<rparr> R' (gs[i := (K', a', b')])"
  unfolding calls_covered_def
proof (intro allI conjI)
  fix h
  let ?l = "fst (sy_threads S ! i)"
  let ?T = "(sy_threads S)[i := (?l, p')]"
  note upd = held_update [OF i len, of _ p' "(K', a', b')" h]
  from cov have c: "create_calls S h + held (fst \<circ> snd) (sy_threads S) gs h \<le> attempts_of R h"
      "run_calls S h + held (snd \<circ> snd) (sy_threads S) gs h \<le> runs_of R h"
    by (simp_all add: calls_covered_def)
  from bal have
    b1: "(if h = ?l then length (filter is_create_call calls) + a' else 0) + attempts_of R h
          \<le> (if h = ?l then a else 0) + attempts_of R' h"
    and b2: "(if h = ?l then length (filter is_run_call calls) + b' else 0) + runs_of R h
          \<le> (if h = ?l then b else 0) + runs_of R' h"
    by (simp_all add: balanced_def)
  show "create_calls \<lparr>sy_store = s', sy_threads = ?T,
      sy_calls = sy_calls S @ map (Pair ?l) calls\<rparr> h
      + held (fst \<circ> snd) (sy_threads \<lparr>sy_store = s', sy_threads = ?T,
          sy_calls = sy_calls S @ map (Pair ?l) calls\<rparr>) (gs[i := (K', a', b')]) h \<le> attempts_of R' h"
    using c(1) b1 upd [of "fst \<circ> snd"]
    by (simp add: create_calls_def count_labelled g split: if_splits)
  show "run_calls \<lparr>sy_store = s', sy_threads = ?T,
      sy_calls = sy_calls S @ map (Pair ?l) calls\<rparr> h
      + held (snd \<circ> snd) (sy_threads \<lparr>sy_store = s', sy_threads = ?T,
          sy_calls = sy_calls S @ map (Pair ?l) calls\<rparr>) (gs[i := (K', a', b')]) h \<le> runs_of R' h"
    using c(2) b2 upd [of "snd \<circ> snd"]
    by (simp add: run_calls_def count_labelled g split: if_splits)
qed

context control_store
begin

definition system_inv :: "'s system \<Rightarrow> bool" where
  "system_inv S \<longleftrightarrow>
     (\<exists>G gs. inv (sy_store S) \<and> history_of G (recs (sy_store S)) \<and>
        list_all2 (thread_ok G) (sy_threads S) gs \<and> calls_covered S (recs (sy_store S)) gs)"

lemma system_inv_spawn:
  assumes "system_inv S" "wp (snd t) (fst t) any_post {} 0 0"
  shows "system_inv (S\<lparr>sy_threads := sy_threads S @ [t]\<rparr>)"
proof -
  from assms(1) obtain G gs where "inv (sy_store S)" "history_of G (recs (sy_store S))"
    "list_all2 (thread_ok G) (sy_threads S) gs" "calls_covered S (recs (sy_store S)) gs"
    by (auto simp: system_inv_def)
  then show ?thesis
    unfolding system_inv_def using assms(2)
    by (intro exI [of _ G] exI [of _ "gs @ [({}, 0, 0)]"])
      (auto simp: thread_ok_def intro!: calls_covered_spawn list_all2_appendI
        dest: list_all2_lengthD)
qed

lemma system_inv_answer:
  assumes S: "system_inv S" and st: "system_step c ops S (Ev_answer i ans) = Some T"
  shows "system_inv T"
proof -
  from S obtain G gs where inv: "inv (sy_store S)" and G: "history_of G (recs (sy_store S))"
    and ts: "list_all2 (thread_ok G) (sy_threads S) gs"
    and cov: "calls_covered S (recs (sy_store S)) gs"
    by (auto simp: system_inv_def)
  have len: "length gs = length (sy_threads S)" using ts by (simp add: list_all2_lengthD)
  let ?l = "fst (sy_threads S ! i)"
  obtain s' p' calls where i: "i < length (sy_threads S)"
    and step: "prog_step ops (sy_store S) (snd (sy_threads S ! i)) ans = Some (s', p', calls)"
    and T: "T = \<lparr>sy_store = s', sy_threads = (sy_threads S)[i := (?l, p')],
              sy_calls = sy_calls S @ map (Pair ?l) calls\<rparr>"
    using st by (auto split: if_splits option.splits)
  obtain K a b where g: "gs ! i = (K, a, b)" by (cases "gs ! i")
  have "thread_ok G (sy_threads S ! i) (K, a, b)"
    using list_all2_nthD [OF ts i] g by simp
  then have "K \<subseteq> G" "wp (snd (sy_threads S ! i)) ?l any_post K a b" by (simp_all add: thread_ok_def)
  from prog_step_sound [OF inv G this step]
  obtain G' K' a' b' where new: "inv s'" "history_of G' (recs s')" "G \<subseteq> G'" "K' \<subseteq> G'"
      "wp p' ?l any_post K' a' b'" "balanced (recs (sy_store S)) (recs s') ?l a b a' b' calls"
    unfolding sound_step_def by blast
  have "list_all2 (thread_ok G') (sy_threads S) gs"
    using ts by (rule list_all2_mono) (use new(3) in \<open>auto simp: thread_ok_def\<close>)
  then have "list_all2 (thread_ok G') (sy_threads T) (gs[i := (K', a', b')])"
    unfolding T using new(4,5) by (simp add: list_all2_update_cong thread_ok_def)
  moreover have "calls_covered T (recs (sy_store T)) (gs[i := (K', a', b')])"
    unfolding T using calls_covered_step [OF cov i len g new(6)] by simp
  ultimately show ?thesis
    unfolding system_inv_def using new(1,2) by (auto simp: T)
qed

lemma system_inv_step:
  "system_inv S \<Longrightarrow> system_step c ops S ev = Some T \<Longrightarrow> system_inv T"
  by (cases ev)
    (auto simp del: system_step.simps(4) intro: system_inv_answer
      intro!: system_inv_spawn wp_threads)

lemma system_inv_run:
  "system_run c ops S evs = Some T \<Longrightarrow> system_inv S \<Longrightarrow> system_inv T"
  by (induction evs arbitrary: S) (auto split: option.splits intro: system_inv_step)

lemma system_inv_new: "inv s \<Longrightarrow> recs s = Map.empty \<Longrightarrow> system_inv (new_system s)"
  unfolding system_inv_def
  by (intro exI [of _ "{}"] exI [of _ "[]"])
    (simp add: new_system_def history_of_def calls_covered_def create_calls_def run_calls_def
      calls_for_def held_def)

text \<open>Runs at most once, creates at most twice, whatever happens.\<close>

lemma calls_bounded:
  assumes "system_run c ops (new_system s) evs = Some S" "inv s" "recs s = Map.empty"
  shows "create_calls S h \<le> 2" "run_calls S h \<le> 1"
proof -
  from system_inv_run [OF assms(1) system_inv_new [OF assms(2,3)]] obtain G gs
    where G: "history_of G (recs (sy_store S))" and cov: "calls_covered S (recs (sy_store S)) gs"
    by (auto simp: system_inv_def)
  have "attempts_of (recs (sy_store S)) h \<le> 2"
    using history_current_record [OF G] G
    by (auto simp: attempts_of_def history_of_def split: option.splits)
  moreover have "runs_of (recs (sy_store S)) h \<le> 1"
    by (auto simp: runs_of_def run_weight_def split: option.splits)
  ultimately show "create_calls S h \<le> 2" "run_calls S h \<le> 1"
    using cov unfolding calls_covered_def by (meson add_leD1 le_trans)+
qed

end

section \<open>The store under the system\<close>

lemma store_resume_store:
  "store_resume s res k = Some (s', p', calls) \<Longrightarrow> s' = s \<or> (\<exists>x. res = Inr (x, s'))"
  by (cases "(s, res, k)" rule: store_resume.cases) auto

lemma prog_step_store:
  "prog_step ops s p ans = Some (s', p', calls) \<Longrightarrow> store_run ops s0 s \<Longrightarrow> store_run ops s0 s'"
  by (cases p) (auto simp: prog_step_def split: answer.split_asm dest!: store_resume_store
      intro: run_admit run_claim run_cas)

lemma system_run_store:
  "system_run c ops S evs = Some T \<Longrightarrow> store_run ops s0 (sy_store S) \<Longrightarrow> store_run ops s0 (sy_store T)"
proof (induction evs arbitrary: S)
  case (Cons ev evs)
  from Cons.prems(1) obtain U where U: "system_step c ops S ev = Some U"
      "system_run c ops U evs = Some T"
    by (auto split: option.splits)
  have "store_run ops s0 (sy_store U)"
    using U(1) Cons.prems(2)
    by (cases ev) (auto split: if_splits option.splits intro: prog_step_store)
  with U(2) show ?case by (rule Cons.IH)
qed simp

lemma system_run_splits:
  "system_run c ops S (evs @ evs') = Some T \<longleftrightarrow>
   (\<exists>U. system_run c ops S evs = Some U \<and> system_run c ops U evs' = Some T)"
  by (induction evs arbitrary: S) (auto split: option.splits)

end
