(* ===== verification/Authentication.thy ===== *)
theory Authentication
  imports CloudRunClient
begin

text \<open>
  apps/gpu-controller/src/authentication.ts and the request parsing of contracts.ts: a request is
  signed with HMAC-SHA-256 over a frame of method, path, times, request identifier and digest; the
  controller accepts it within a bounded time window. SHA-256, HMAC, the key store, \<open>JSON.parse\<close>
  and the collation order of \<open>localeCompare\<close> are parameters. Bytes and ASCII text are both
  character lists.
  Lemmas: the constant-time comparison is equality; base64url encoding is injective and of known
  length; an authenticated request is inside the window and carries the signature of its frame.
\<close>

section \<open>Comparison\<close>

text \<open>\<open>bytes[index] ?? 0\<close>.\<close>

definition byte_at :: "string \<Rightarrow> nat \<Rightarrow> int" where
  "byte_at s i = (if i < length s then of_char (s ! i) else 0)"

definition constantTimeEqual :: "string \<Rightarrow> string \<Rightarrow> bool" where
  "constantTimeEqual left right =
     (let difference = foldl (\<lambda>difference index.
            or difference (xor (byte_at left index) (byte_at right index)))
          (xor (int (length left)) (int (length right)))
          [0..<max (length left) (length right)]
      in difference = 0)"

lemma or_zero_iff: "or a b = 0 \<longleftrightarrow> a = 0 \<and> b = 0" for a b :: int
  by (auto simp: bit_eq_iff bit_or_iff)

lemma xor_zero_iff: "xor a b = 0 \<longleftrightarrow> a = b" for a b :: int
  by (auto simp: bit_eq_iff bit_xor_iff)

lemma foldl_or_zero_iff:
  "foldl (\<lambda>d i. or d (f i)) a xs = 0 \<longleftrightarrow> a = 0 \<and> (\<forall>i \<in> set xs. f i = 0)" for a :: int
  by (induction xs arbitrary: a) (auto simp: or_zero_iff)

lemma constantTimeEqual_iff: "constantTimeEqual l r \<longleftrightarrow> l = r"
proof
  assume "constantTimeEqual l r"
  then have len: "length l = length r" and "\<forall>i < length l. byte_at l i = byte_at r i"
    by (auto simp: constantTimeEqual_def foldl_or_zero_iff xor_zero_iff)
  then have "\<forall>i < length l. (of_char (l ! i) :: int) = of_char (r ! i)"
    by (simp add: byte_at_def)
  then have "\<forall>i < length l. l ! i = r ! i"
    by (metis char_of_char)
  with len show "l = r" by (simp add: nth_equalityI)
next
  assume "l = r"
  then show "constantTimeEqual l r"
    unfolding constantTimeEqual_def Let_def foldl_or_zero_iff by simp
qed

section \<open>Base64url\<close>

definition base64_alphabet :: string where
  "base64_alphabet = upper_chars @ lower_chars @ digit_chars @ ''+/''"

definition sextet :: "nat \<Rightarrow> char" where
  "sextet n = base64_alphabet ! (n mod 64)"

text \<open>\<open>btoa\<close> on bytes, with padding.\<close>

fun btoa :: "nat list \<Rightarrow> string" where
  "btoa (a # b # c # bs) =
     [sextet (a div 4), sextet (a * 16 + b div 16), sextet (b * 4 + c div 64), sextet c] @ btoa bs"
| "btoa [a, b] = [sextet (a div 4), sextet (a * 16 + b div 16), sextet (b * 4), CHR ''='']"
| "btoa [a] = [sextet (a div 4), sextet (a * 16), CHR ''='', CHR ''='']"
| "btoa [] = []"

definition encodeBase64Url :: "8 word list \<Rightarrow> string" where
  "encodeBase64Url bytes =
     rev (dropWhile (\<lambda>c. c = CHR ''='')
       (rev (map (\<lambda>c. if c = CHR ''+'' then CHR ''-'' else if c = CHR ''/'' then CHR ''_'' else c)
         (btoa (map unat bytes)))))"

text \<open>The digits without padding.\<close>

fun base64_digits :: "nat list \<Rightarrow> nat list" where
  "base64_digits (a # b # c # bs) =
     [a div 4, (a * 16 + b div 16) mod 64, (b * 4 + c div 64) mod 64, c mod 64] @ base64_digits bs"
| "base64_digits [a, b] = [a div 4, (a * 16 + b div 16) mod 64, (b * 4) mod 64]"
| "base64_digits [a] = [a div 4, (a * 16) mod 64]"
| "base64_digits [] = []"

fun padding :: "nat list \<Rightarrow> string" where
  "padding (a # b # c # bs) = padding bs"
| "padding [a, b] = [CHR ''='']"
| "padding [a] = [CHR ''='', CHR ''='']"
| "padding [] = []"

lemma sextet_mod [simp]: "sextet (n mod 64) = sextet n"
  by (simp add: sextet_def)

lemma btoa_digits: "btoa bs = map sextet (base64_digits bs) @ padding bs"
  by (induction bs rule: btoa.induct) simp_all

lemma padding_equals: "c \<in> set (padding bs) \<Longrightarrow> c = CHR ''=''"
  by (induction bs rule: padding.induct) auto

definition url_digit :: "nat \<Rightarrow> char" where
  "url_digit n = base64url_chars ! (case n mod 64 of k \<Rightarrow> if k = 62 then 63 else if k = 63 then 62 else k)"

definition url_char :: "char \<Rightarrow> char" where
  "url_char c = (if c = CHR ''+'' then CHR ''-'' else if c = CHR ''/'' then CHR ''_'' else c)"

lemma all_below_64: "(\<forall>n < 64. P n) \<Longrightarrow> P (n mod 64)" for n :: nat
  by simp

lemma url_char_sextet: "url_char (sextet n) = url_digit n"
proof -
  have "\<forall>k < 64. url_char (base64_alphabet ! k)
      = base64url_chars ! (if k = 62 then 63 else if k = 63 then 62 else k)"
    by code_simp
  from all_below_64 [OF this, of n] show ?thesis
    by (simp add: sextet_def url_digit_def)
qed

lemma url_digit_chars: "url_digit n \<in> set base64url_chars"
proof -
  have "length base64url_chars = 64" by code_simp
  moreover have "n mod 64 < 64" by simp
  ultimately show ?thesis unfolding url_digit_def by (intro nth_mem) auto
qed

lemma url_digit_inject: "m < 64 \<Longrightarrow> n < 64 \<Longrightarrow> url_digit m = url_digit n \<longleftrightarrow> m = n"
proof -
  have "distinct base64url_chars" "length base64url_chars = 64" by code_simp+
  then show "m < 64 \<Longrightarrow> n < 64 \<Longrightarrow> url_digit m = url_digit n \<longleftrightarrow> m = n"
    by (auto simp: url_digit_def nth_eq_iff_index_eq split: if_splits)
qed

lemma base64url_no_equals: "CHR ''='' \<notin> set base64url_chars"
  by code_simp

lemma encodeBase64Url_digits:
  "encodeBase64Url bytes = map url_digit (base64_digits (map unat bytes))"
proof -
  let ?u = "map url_digit (base64_digits (map unat bytes))"
  have pad: "map url_char (padding bs) = padding bs" for bs
    by (induction bs rule: padding.induct) (simp_all add: url_char_def)
  have "map url_char (btoa (map unat bytes)) = ?u @ padding (map unat bytes)"
    by (simp add: btoa_digits pad url_char_sextet)
  moreover have "dropWhile (\<lambda>c. c = CHR ''='') (rev (?u @ padding bs)) = rev ?u" for bs
  proof -
    have "\<forall>c \<in> set ?u. c \<noteq> CHR ''=''"
      using url_digit_chars base64url_no_equals by (metis (no_types, lifting) image_iff set_map)
    then have "dropWhile (\<lambda>c. c = CHR ''='') (rev ?u) = rev ?u"
      unfolding dropWhile_eq_self_iff by (metis hd_in_set set_rev)
    then show ?thesis
      unfolding rev_append using padding_equals [of _ bs] by (subst dropWhile_append2) auto
  qed
  ultimately show ?thesis
    by (simp add: encodeBase64Url_def url_char_def [abs_def, symmetric])
qed

lemma length_base64_digits:
  "length (base64_digits bs) = 4 * (length bs div 3) + (case length bs mod 3 of 0 \<Rightarrow> 0 | k \<Rightarrow> k + 1)"
proof (induction bs rule: base64_digits.induct)
  case (1 a b c bs)
  have "length (a # b # c # bs) div 3 = Suc (length bs div 3)"
    "length (a # b # c # bs) mod 3 = length bs mod 3"
    by (simp_all add: Suc3_eq_add_3)
  with 1 show ?case by simp
qed simp_all

lemma high_bits: "(a * 16 + d) mod 64 = a mod 4 * 16 + d" if "d < 16" for a d :: nat
  using mod_mult2_eq [of "a * 16 + d" 16 4] that by simp

lemma middle_bits: "(b * 4 + d) mod 64 = b mod 16 * 4 + d" if "d < 4" for b d :: nat
  using mod_mult2_eq [of "b * 4 + d" 4 16] that by simp

lemma byte_from_parts:
  "a div 4 = a' div 4 \<Longrightarrow> a mod 4 = a' mod 4 \<Longrightarrow> a = a'"
  "b div 16 = b' div 16 \<Longrightarrow> b mod 16 = b' mod 16 \<Longrightarrow> b = b'"
  "c div 64 = c' div 64 \<Longrightarrow> c mod 64 = c' mod 64 \<Longrightarrow> c = c'" for a a' b b' c c' :: nat
  by (metis div_mod_decomp)+

lemma two_parts: "x * k + d = y * k + e \<Longrightarrow> x = y \<and> d = e" if "d < k" "e < k" for x y d e k :: nat
proof -
  assume eq: "x * k + d = y * k + e"
  have "(x * k + d) div k = x" "(y * k + e) div k = y" using that by simp_all
  then have "x = y" using eq by metis
  then show "x = y \<and> d = e" using eq by simp
qed

lemma three_bytes:
  fixes a b c a' b' c' :: nat
  assumes lt: "a < 256" "b < 256" "c < 256" "a' < 256" "b' < 256" "c' < 256"
    and eq: "a div 4 = a' div 4" "(a * 16 + b div 16) mod 64 = (a' * 16 + b' div 16) mod 64"
      "(b * 4 + c div 64) mod 64 = (b' * 4 + c' div 64) mod 64" "c mod 64 = c' mod 64"
  shows "a = a' \<and> b = b' \<and> c = c'"
proof -
  have d: "b div 16 < 16" "b' div 16 < 16" "c div 64 < 4" "c' div 64 < 4"
    using lt by (simp_all add: less_mult_imp_div_less)
  have "a mod 4 = a' mod 4 \<and> b div 16 = b' div 16"
    using eq(2) d lt by (intro two_parts) (simp_all add: high_bits)
  moreover have "b mod 16 = b' mod 16 \<and> c div 64 = c' div 64"
    using eq(3) d by (intro two_parts) (simp_all add: middle_bits)
  ultimately show ?thesis using eq(1,4) byte_from_parts by blast
qed

lemma base64_digits_shape:
  "base64_digits cs = w # x # y # z # ds \<Longrightarrow> \<exists>a b c cs'. cs = a # b # c # cs'"
  "base64_digits cs = [x, y, z] \<Longrightarrow> \<exists>a b. cs = [a, b]"
  "base64_digits cs = [x, y] \<Longrightarrow> \<exists>a. cs = [a]"
  "base64_digits cs = [] \<Longrightarrow> cs = []"
  by (cases cs rule: base64_digits.cases; simp)+

lemma base64_digits_inject:
  "\<forall>x \<in> set bs. x < 256 \<Longrightarrow> \<forall>x \<in> set cs. x < 256 \<Longrightarrow> base64_digits bs = base64_digits cs \<Longrightarrow>
   bs = cs"
proof (induction bs arbitrary: cs rule: base64_digits.induct)
  case (1 a b c bs)
  obtain a' b' c' cs' where cs: "cs = a' # b' # c' # cs'"
    using base64_digits_shape(1) [OF "1.prems"(3) [symmetric, unfolded base64_digits.simps append.simps]]
    by blast
  have "a = a' \<and> b = b' \<and> c = c'"
    using "1.prems" by (intro three_bytes) (simp_all add: cs)
  moreover have "bs = cs'" using "1.prems" by (intro "1.IH") (simp_all add: cs)
  ultimately show ?case by (simp add: cs)
next
  case (2 a b)
  obtain a' b' where cs: "cs = [a', b']"
    using base64_digits_shape(2) [OF "2.prems"(3) [symmetric, unfolded base64_digits.simps]] by blast
  have "a = a' \<and> b = b' \<and> (0::nat) = 0"
    using "2.prems" by (intro three_bytes) (simp_all add: cs)
  with cs show ?case by simp
next
  case (3 a)
  obtain a' where cs: "cs = [a']"
    using base64_digits_shape(3) [OF "3.prems"(3) [symmetric, unfolded base64_digits.simps]] by blast
  have "a = a' \<and> (0::nat) = 0 \<and> (0::nat) = 0"
    using "3.prems" by (intro three_bytes) (simp_all add: cs)
  with cs show ?case by simp
next
  case 4
  then show ?case using base64_digits_shape(4) by (metis base64_digits.simps(4))
qed

lemma base64_digits_below: "\<forall>x \<in> set bs. x < 256 \<Longrightarrow> \<forall>d \<in> set (base64_digits bs). d < 64"
  by (induction bs rule: base64_digits.induct) (auto simp: less_mult_imp_div_less)

lemma encodeBase64Url_inject: "encodeBase64Url x = encodeBase64Url y \<longleftrightarrow> x = y"
proof
  have below: "\<forall>n \<in> set (map unat z). n < 256" for z :: "8 word list"
    using unsigned_less [where ?'b = 8, where ?'a = nat] by auto
  assume "encodeBase64Url x = encodeBase64Url y"
  then have "map url_digit (base64_digits (map unat x)) = map url_digit (base64_digits (map unat y))"
    by (simp add: encodeBase64Url_digits)
  moreover have "inj_on url_digit {n. n < 64}"
    by (auto simp: inj_on_def url_digit_inject)
  ultimately have "base64_digits (map unat x) = base64_digits (map unat y)"
    using base64_digits_below [OF below [of x]] base64_digits_below [OF below [of y]]
    by (intro map_inj_on [of url_digit]) (auto intro: inj_on_subset)
  then have "map unat x = map unat y"
    using below base64_digits_inject by blast
  moreover have "inj (unat :: 8 word \<Rightarrow> nat)" by (rule injI) (rule unsigned_word_eqI)
  ultimately show "x = y" using inj_map_eq_map by blast
qed simp

lemma encodeBase64Url_ok: "length x = 32 \<Longrightarrow> opaque_handle_ok (encodeBase64Url x)"
  by (auto simp: encodeBase64Url_digits opaque_handle_ok_def length_base64_digits all_in_def
      list_all_iff url_digit_chars)

section \<open>Requests as JSON\<close>

definition action_name :: "controller_action \<Rightarrow> string" where
  "action_name a = (case a of act_create \<Rightarrow> ''create'' | act_observe \<Rightarrow> ''observe''
     | act_reconcile \<Rightarrow> ''reconcile'' | act_cancel \<Rightarrow> ''cancel'' | act_cleanup \<Rightarrow> ''cleanup'')"

definition request_json :: "controller_request \<Rightarrow> json" where
  "request_json q = JObj [
     (''action'', JStr (action_name (rq_action q))),
     (''environment'', JStr (environment_name (rq_environment q))),
     (''executionHandle'', JStr (rq_executionHandle q)),
     (''expectedVersion'', JNum (int (rq_expectedVersion q))),
     (''expiresAt'', JStr (rq_expiresAt q)),
     (''issuedAt'', JStr (rq_issuedAt q)),
     (''policyId'', JStr CLOUD_RUN_RUNTIME_POLICY),
     (''requestId'', JStr (rq_requestId q)),
     (''schemaVersion'', JNum 1)]"

definition attestation_request_json :: "attestation_request \<Rightarrow> json" where
  "attestation_request_json q = JObj [
     (''environment'', JStr (environment_name (aq_environment q))),
     (''executionHandle'', JStr (aq_executionHandle q)),
     (''expiresAt'', JStr (aq_expiresAt q)),
     (''issuedAt'', JStr (aq_issuedAt q)),
     (''policyId'', JStr CLOUD_RUN_RUNTIME_POLICY),
     (''requestId'', JStr (aq_requestId q)),
     (''schemaVersion'', JNum 1)]"

definition environment_names :: "string list" where
  "environment_names = [''staging'', ''production'']"

definition cloudRunControllerRequestSchema :: json_schema where
  "cloudRunControllerRequestSchema = strict_object [
     required ''action'' (string_enum [''create'', ''observe'', ''reconcile'', ''cancel'', ''cleanup'']),
     required ''environment'' (string_enum environment_names),
     required ''executionHandle'' (string_schema_of opaque_handle_ok),
     required ''expectedVersion'' nonnegative_int,
     required ''expiresAt'' (string_schema_of utc_datetime_ok),
     required ''issuedAt'' (string_schema_of utc_datetime_ok),
     required ''policyId'' (literal (JStr CLOUD_RUN_RUNTIME_POLICY)),
     required ''requestId'' (string_schema_of ulid_ok),
     required ''schemaVersion'' (literal (JNum 1))]"

definition cloudRunControllerAttestationRequestSchema :: json_schema where
  "cloudRunControllerAttestationRequestSchema = strict_object [
     required ''environment'' (string_enum environment_names),
     required ''executionHandle'' (string_schema_of opaque_handle_ok),
     required ''expiresAt'' (string_schema_of utc_datetime_ok),
     required ''issuedAt'' (string_schema_of utc_datetime_ok),
     required ''policyId'' (literal (JStr CLOUD_RUN_RUNTIME_POLICY)),
     required ''requestId'' (string_schema_of ulid_ok),
     required ''schemaVersion'' (literal (JNum 1))]"

text \<open>The typed values of accepted JSON.\<close>

definition read_action :: "string \<Rightarrow> controller_action" where
  "read_action s =
     (if s = ''create'' then act_create else if s = ''observe'' then act_observe
      else if s = ''reconcile'' then act_reconcile else if s = ''cancel'' then act_cancel
      else act_cleanup)"

definition read_environment :: "string \<Rightarrow> controller_environment" where
  "read_environment s = (if s = ''staging'' then staging else production)"

definition read_controller_request :: "json \<Rightarrow> controller_request" where
  "read_controller_request j =
     \<lparr>rq_action = read_action (string_field ''action'' j),
      rq_environment = read_environment (string_field ''environment'' j),
      rq_executionHandle = string_field ''executionHandle'' j,
      rq_expectedVersion = nat (count_field ''expectedVersion'' j),
      rq_expiresAt = string_field ''expiresAt'' j,
      rq_issuedAt = string_field ''issuedAt'' j,
      rq_requestId = string_field ''requestId'' j\<rparr>"

definition read_attestation_request :: "json \<Rightarrow> attestation_request" where
  "read_attestation_request j =
     \<lparr>aq_environment = read_environment (string_field ''environment'' j),
      aq_executionHandle = string_field ''executionHandle'' j,
      aq_expiresAt = string_field ''expiresAt'' j,
      aq_issuedAt = string_field ''issuedAt'' j,
      aq_requestId = string_field ''requestId'' j\<rparr>"

definition MAX_CONTROLLER_BODY_BYTES :: nat where
  "MAX_CONTROLLER_BODY_BYTES = 4096"

definition parseControllerRequest ::
  "(string \<Rightarrow> json option) \<Rightarrow> string \<Rightarrow> controller_request result" where
  "parseControllerRequest parse_json body =
     (if MAX_CONTROLLER_BODY_BYTES < length body then Inl (JsError ''INVALID_REQUEST'')
      else case parse_json body of
        None \<Rightarrow> Inl (JsError ''INVALID_REQUEST'')
      | Some v \<Rightarrow>
          if \<not> cloudRunControllerRequestSchema v then Inl (JsError ''INVALID_REQUEST'')
          else Inr (read_controller_request v))"

section \<open>Signatures\<close>

datatype key_id = primary_key | secondary_key

text \<open>What is signed: the times and the identifier of the request, and its canonical JSON.\<close>

record signed_request =
  sq_issuedAt :: string
  sq_expiresAt :: string
  sq_requestId :: string
  sq_json :: json

definition signed_controller_request :: "controller_request \<Rightarrow> signed_request" where
  "signed_controller_request q =
     \<lparr>sq_issuedAt = rq_issuedAt q, sq_expiresAt = rq_expiresAt q, sq_requestId = rq_requestId q,
      sq_json = request_json q\<rparr>"

definition signed_attestation_request :: "attestation_request \<Rightarrow> signed_request" where
  "signed_attestation_request q =
     \<lparr>sq_issuedAt = aq_issuedAt q, sq_expiresAt = aq_expiresAt q, sq_requestId = aq_requestId q,
      sq_json = attestation_request_json q\<rparr>"

record crypto =
  cy_sha256 :: "string \<Rightarrow> 8 word list"
  cy_hmac :: "8 word list \<Rightarrow> string \<Rightarrow> 8 word list"
  cy_collate :: "string \<Rightarrow> string \<Rightarrow> bool"

record authenticate_input =
  in_method :: string
  in_path :: string
  in_keyId :: "string option"
  in_signature :: "string option"
  in_request :: signed_request

definition digestControllerRequest :: "crypto \<Rightarrow> signed_request \<Rightarrow> string" where
  "digestControllerRequest y q =
     encodeBase64Url (cy_sha256 y (canonicalize (cy_collate y) (sq_json q)))"

definition signing_frame :: "crypto \<Rightarrow> authenticate_input \<Rightarrow> string result" where
  "signing_frame y input =
     (let q = in_request input in
      buildCloudRunControllerSigningFrame (in_method input) (in_path input)
        (sq_issuedAt q) (sq_expiresAt q) (sq_requestId q) (digestControllerRequest y q))"

definition buildControllerSignature ::
  "crypto \<Rightarrow> authenticate_input \<Rightarrow> 8 word list \<Rightarrow> string result" where
  "buildControllerSignature y input secret =
     res_bind (signing_frame y input) (\<lambda>frame. Inr (encodeBase64Url (cy_hmac y secret frame)))"

text \<open>\<open>cloudRunControllerHeadersSchema\<close>.\<close>

definition read_key_id :: "string option \<Rightarrow> key_id option" where
  "read_key_id k =
     (if k = Some ''primary'' then Some primary_key
      else if k = Some ''secondary'' then Some secondary_key else None)"

definition read_signature :: "string option \<Rightarrow> string option" where
  "read_signature s = (case s of None \<Rightarrow> None | Some v \<Rightarrow> if opaque_handle_ok v then Some v else None)"

datatype authentication = authenticated | expired | auth_rejected

definition authenticateControllerRequest ::
  "crypto \<Rightarrow> (key_id \<Rightarrow> 8 word list option) \<Rightarrow> int \<Rightarrow> authenticate_input \<Rightarrow> authentication result"
  where
  "authenticateControllerRequest y keys now input =
     (case (read_key_id (in_keyId input), read_signature (in_signature input)) of
        (Some keyId, Some signature) \<Rightarrow>
          (let issuedAt = date_parse (sq_issuedAt (in_request input));
               expiresAt = date_parse (sq_expiresAt (in_request input)) in
           if num_less expiresAt issuedAt
             \<or> num_less (Some CLOUD_RUN_CONTROLLER_MAX_REQUEST_LIFETIME_MS)
                 (case (expiresAt, issuedAt) of (Some e, Some i) \<Rightarrow> Some (e - i) | _ \<Rightarrow> None)
             \<or> num_less (Some (now + CLOUD_RUN_CONTROLLER_MAX_CLOCK_SKEW_MS)) issuedAt
             \<or> num_less expiresAt (Some (now - CLOUD_RUN_CONTROLLER_MAX_CLOCK_SKEW_MS))
           then Inr expired
           else case keys keyId of
               None \<Rightarrow> Inr auth_rejected
             | Some secret \<Rightarrow>
                 if length secret < 32 then Inr auth_rejected
                 else
                   res_bind (buildControllerSignature y input secret) (\<lambda>expected.
                     Inr (if constantTimeEqual expected signature then authenticated
                          else auth_rejected)))
      | _ \<Rightarrow> Inr auth_rejected)"

section \<open>What authentication establishes\<close>

lemma authenticated_signature:
  assumes "authenticateControllerRequest y keys now input = Inr authenticated"
  obtains keyId secret signature where
    "read_key_id (in_keyId input) = Some keyId" "in_signature input = Some signature"
    "keys keyId = Some secret" "32 \<le> length secret"
    "buildControllerSignature y input secret = Inr signature"
proof -
  from assms obtain keyId signature secret expected where
    "read_key_id (in_keyId input) = Some keyId" "read_signature (in_signature input) = Some signature"
    "keys keyId = Some secret" "\<not> length secret < 32"
    "buildControllerSignature y input secret = Inr expected" "constantTimeEqual expected signature"
    by (auto simp: authenticateControllerRequest_def Let_def result_simps
        split: option.split_asm if_split_asm)
  moreover from this(2) have "in_signature input = Some signature"
    by (auto simp: read_signature_def split: option.split_asm if_split_asm)
  ultimately show thesis using that by (auto simp: constantTimeEqual_iff)
qed

lemma authenticated_window:
  assumes "authenticateControllerRequest y keys now input = Inr authenticated"
    and "date_parse (sq_issuedAt (in_request input)) = Some i"
    and "date_parse (sq_expiresAt (in_request input)) = Some e"
  shows "i \<le> e" "e - i \<le> 60000" "i \<le> now + 30000" "now - 30000 \<le> e"
  using assms
  by (auto simp: authenticateControllerRequest_def Let_def CLOUD_RUN_CONTROLLER_MAX_CLOCK_SKEW_MS_def
      CLOUD_RUN_CONTROLLER_MAX_REQUEST_LIFETIME_MS_def split: option.split_asm if_split_asm)

section \<open>What the signature covers\<close>

lemma signing_frame_unique:
  assumes "buildCloudRunControllerSigningFrame m p i e r d = Inr f"
    and "buildCloudRunControllerSigningFrame m' p' i' e' r' d' = Inr f"
  shows "map to_upper m = map to_upper m' \<and> p = p' \<and> i = i' \<and> e = e' \<and> r = r' \<and> d = d'"
proof -
  obtain fs gs where "frame_parts [map to_upper m, p, i, e, r, d] = Inr fs"
    "frame_parts [map to_upper m', p', i', e', r', d'] = Inr gs"
    "join_with ''|'' fs = join_with ''|'' gs"
    using assms by (auto simp only: buildCloudRunControllerSigningFrame_def res_bind_Inr_iff sum.inject)
  from frame_parts_join_unique [OF this(1,2) _ this(3)] show ?thesis by simp
qed

text \<open>
  Two inputs with one signature are the same request, or exhibit a collision: two different frames
  with one HMAC, or two different texts with one SHA-256 digest.
\<close>

definition same_signed_request :: "crypto \<Rightarrow> authenticate_input \<Rightarrow> authenticate_input \<Rightarrow> bool" where
  "same_signed_request y x x' \<longleftrightarrow>
     map to_upper (in_method x) = map to_upper (in_method x') \<and> in_path x = in_path x' \<and>
     sq_issuedAt (in_request x) = sq_issuedAt (in_request x') \<and>
     sq_expiresAt (in_request x) = sq_expiresAt (in_request x') \<and>
     sq_requestId (in_request x) = sq_requestId (in_request x') \<and>
     canonicalize (cy_collate y) (sq_json (in_request x)) =
       canonicalize (cy_collate y) (sq_json (in_request x'))"

definition digest_collision :: "crypto \<Rightarrow> authenticate_input \<Rightarrow> authenticate_input \<Rightarrow> bool" where
  "digest_collision y x x' \<longleftrightarrow>
     (let c = canonicalize (cy_collate y) (sq_json (in_request x));
          c' = canonicalize (cy_collate y) (sq_json (in_request x'))
      in c \<noteq> c' \<and> cy_sha256 y c = cy_sha256 y c')"

definition frame_collision ::
  "crypto \<Rightarrow> 8 word list \<Rightarrow> authenticate_input \<Rightarrow> authenticate_input \<Rightarrow> bool" where
  "frame_collision y secret x x' \<longleftrightarrow>
     (case (signing_frame y x, signing_frame y x') of
        (Inr f, Inr f') \<Rightarrow> f \<noteq> f' \<and> cy_hmac y secret f = cy_hmac y secret f'
      | _ \<Rightarrow> False)"

lemma signature_covers:
  assumes "buildControllerSignature y x secret = Inr s" "buildControllerSignature y x' secret = Inr s"
    and "\<not> frame_collision y secret x x'" "\<not> digest_collision y x x'"
  shows "same_signed_request y x x'"
proof -
  obtain f f' where frames: "signing_frame y x = Inr f" "signing_frame y x' = Inr f'"
    and "encodeBase64Url (cy_hmac y secret f) = encodeBase64Url (cy_hmac y secret f')"
    using assms(1,2) by (auto simp: buildControllerSignature_def result_simps)
  then have "f = f'"
    using assms(3) by (auto simp: frame_collision_def encodeBase64Url_inject)
  with frames have
    "buildCloudRunControllerSigningFrame (in_method x) (in_path x) (sq_issuedAt (in_request x))
       (sq_expiresAt (in_request x)) (sq_requestId (in_request x))
       (digestControllerRequest y (in_request x)) = Inr f"
    "buildCloudRunControllerSigningFrame (in_method x') (in_path x') (sq_issuedAt (in_request x'))
       (sq_expiresAt (in_request x')) (sq_requestId (in_request x'))
       (digestControllerRequest y (in_request x')) = Inr f"
    by (simp_all add: signing_frame_def Let_def)
  from signing_frame_unique [OF this] show ?thesis
    using assms(4)
    by (auto simp: same_signed_request_def digest_collision_def digestControllerRequest_def
        encodeBase64Url_inject Let_def)
qed

lemma request_json_schema:
  "cloudRunControllerRequestSchema (request_json q) \<longleftrightarrow> controller_request_ok q"
  by (cases "rq_action q"; cases "rq_environment q")
    (auto simp: cloudRunControllerRequestSchema_def request_json_def strict_object_def fields_ok_def
      required_def string_enum_def environment_names_def string_schema_of_def nonnegative_int_def
      literal_def controller_request_ok_def action_name_def environment_name_def)

lemma request_json_round_trip: "read_controller_request (request_json q) = q"
proof -
  have "read_action (action_name a) = a" for a
    by (cases a) (simp_all add: read_action_def action_name_def)
  moreover have "read_environment (environment_name e) = e" for e
    by (cases e) (simp_all add: read_environment_def environment_name_def)
  ultimately show ?thesis
    by (simp add: read_controller_request_def request_json_def string_field_def count_field_def
        json_field_def)
qed

end
