(* ===== verification/HttpHandler.thy ===== *)
theory HttpHandler
  imports Authentication ControllerService FirestoreStore
begin

text \<open>
  apps/gpu-controller/src/http-handler.ts and runtime.ts: the HTTP entry point of the controller
  and the configuration of its runtime. \<open>handler_start\<close> is the handler up to the call of the
  service (reading the bounded body, parsing, authenticating); \<open>handler_finish\<close> is the rest, given
  what the service returned or threw; the \<open>catch\<close> and \<open>finally\<close> blocks are part of both.
  Lemmas: only an authenticated request inside its time window reaches the service, and every
  reply has the status its content asks for.
\<close>

section \<open>Messages\<close>

datatype logged_action = Logged_action controller_action | Logged_attest

record controller_log_record =
  lg_action :: "logged_action option"
  lg_accepted :: bool
  lg_errorCode :: "controller_error_code option"
  lg_durationMs :: int

datatype http_payload =
    Payload_error controller_error_code
  | Payload_response controller_response
  | Payload_attestation string string attestation_response

record controller_http_reply =
  re_status :: nat
  re_payload :: http_payload

text \<open>The parts of a \<open>Request\<close> the handler reads; the body is its chunks as bytes.\<close>

record controller_http_request =
  hi_url :: string
  hi_method :: string
  hi_contentType :: "string option"
  hi_declaredLength :: jsnum
  hi_body :: "string list option"
  hi_keyId :: "string option"
  hi_signature :: "string option"

text \<open>\<open>new URL(request.url)\<close>: path name and query, \<open>None\<close> when it throws.\<close>

type_synonym url_parser = "string \<Rightarrow> (string \<times> string) option"

definition CLOUD_RUN_CONTROLLER_MUTATION_PATH :: string where
  "CLOUD_RUN_CONTROLLER_MUTATION_PATH = ''/v1/executions''"

definition CLOUD_RUN_CONTROLLER_ATTEST_PATH :: string where
  "CLOUD_RUN_CONTROLLER_ATTEST_PATH = ''/v1/executions/attest''"

section \<open>Reading the body\<close>

fun read_chunks :: "nat \<Rightarrow> string list \<Rightarrow> string result" where
  "read_chunks received [] = Inr []"
| "read_chunks received (c # cs) =
     (if MAX_CONTROLLER_BODY_BYTES < received + length c then Inl (JsError ''INVALID_REQUEST'')
      else res_bind (read_chunks (received + length c) cs) (\<lambda>rest. Inr (c @ rest)))"

text \<open>\<open>decode\<close> is the fatal UTF-8 decoder: \<open>None\<close> when it throws.\<close>

definition readBoundedBody ::
  "(string \<Rightarrow> string option) \<Rightarrow> controller_http_request \<Rightarrow> string result" where
  "readBoundedBody decode request =
     (if num_less (Some (int MAX_CONTROLLER_BODY_BYTES)) (hi_declaredLength request) then
        Inl (JsError ''INVALID_REQUEST'')
      else case hi_body request of
        None \<Rightarrow> Inr []
      | Some chunks \<Rightarrow>
          res_bind (read_chunks 0 chunks) (\<lambda>combined. case decode combined of
            None \<Rightarrow> Inl (JsError ''The encoded data was not valid'')
          | Some body \<Rightarrow> Inr body))"

section \<open>The handler\<close>

definition errorResponse :: "controller_error_code \<Rightarrow> nat \<Rightarrow> controller_http_reply" where
  "errorResponse errorCode status = \<lparr>re_status = status, re_payload = Payload_error errorCode\<rparr>"

record handler_environment =
  he_crypto :: crypto
  he_keys :: "key_id \<Rightarrow> 8 word list option"
  he_parse_json :: "string \<Rightarrow> json option"
  he_parse_url :: url_parser
  he_decode :: "string \<Rightarrow> string option"

text \<open>Where the handler is after its own checks: done, or waiting for the service.\<close>

datatype handler_step =
    Handler_done controller_http_reply "logged_action option" "controller_error_code option"
  | Call_attest attestation_request
  | Call_execute controller_request string

text \<open>The \<open>catch\<close> block: what it answers depends on how far the request got.\<close>

definition handler_catch :: "logged_action option \<Rightarrow> handler_step" where
  "handler_catch action =
     (case action of
        None \<Rightarrow> Handler_done (errorResponse INVALID_REQUEST 400) None (Some INVALID_REQUEST)
      | Some a \<Rightarrow> Handler_done (errorResponse INTERNAL_ERROR 500) (Some a) (Some INTERNAL_ERROR))"

definition authentication_failed :: "authentication \<Rightarrow> logged_action \<Rightarrow> handler_step" where
  "authentication_failed authentication action =
     (let errorCode = (if authentication = expired then EXPIRED_REQUEST else AUTHENTICATION_FAILED)
      in Handler_done (errorResponse errorCode 401) (Some action) (Some errorCode))"

definition authenticate_http ::
  "handler_environment \<Rightarrow> int \<Rightarrow> controller_http_request \<Rightarrow> string \<Rightarrow> signed_request
     \<Rightarrow> authentication result" where
  "authenticate_http e now request path framed =
     authenticateControllerRequest (he_crypto e) (he_keys e) now
       \<lparr>in_method = hi_method request, in_path = path, in_keyId = hi_keyId request,
        in_signature = hi_signature request, in_request = framed\<rparr>"

definition start_attest ::
  "handler_environment \<Rightarrow> int \<Rightarrow> controller_http_request \<Rightarrow> string \<Rightarrow> string \<Rightarrow> handler_step" where
  "start_attest e now request path body =
     (case he_parse_json e body of
        None \<Rightarrow> handler_catch (Some Logged_attest)
      | Some v \<Rightarrow>
          if \<not> cloudRunControllerAttestationRequestSchema v then handler_catch (Some Logged_attest)
          else
            let parsed = read_attestation_request v in
            (case authenticate_http e now request path (signed_attestation_request parsed) of
               Inl _ \<Rightarrow> handler_catch (Some Logged_attest)
             | Inr authentication \<Rightarrow>
                 if authentication \<noteq> authenticated then
                   authentication_failed authentication Logged_attest
                 else Call_attest parsed))"

definition start_execute ::
  "handler_environment \<Rightarrow> int \<Rightarrow> controller_http_request \<Rightarrow> string \<Rightarrow> string \<Rightarrow> handler_step" where
  "start_execute e now request path body =
     (case parseControllerRequest (he_parse_json e) body of
        Inl _ \<Rightarrow> handler_catch None
      | Inr parsed \<Rightarrow>
          (let action = Logged_action (rq_action parsed);
               framed = signed_controller_request parsed in
           case authenticate_http e now request path framed of
             Inl _ \<Rightarrow> handler_catch (Some action)
           | Inr authentication \<Rightarrow>
               if authentication \<noteq> authenticated then authentication_failed authentication action
               else Call_execute parsed (digestControllerRequest (he_crypto e) framed)))"

definition handler_start ::
  "handler_environment \<Rightarrow> int \<Rightarrow> controller_http_request \<Rightarrow> handler_step" where
  "handler_start e now request =
     (case he_parse_url e (hi_url request) of
        None \<Rightarrow> handler_catch None
      | Some (path, search) \<Rightarrow>
          if hi_method request \<noteq> ''POST''
            \<or> (path \<noteq> CLOUD_RUN_CONTROLLER_MUTATION_PATH \<and> path \<noteq> CLOUD_RUN_CONTROLLER_ATTEST_PATH)
            \<or> search \<noteq> []
            \<or> hi_contentType request \<noteq> Some ''application/json''
          then Handler_done (errorResponse INVALID_REQUEST 400) None (Some INVALID_REQUEST)
          else
            (case readBoundedBody (he_decode e) request of
               Inl _ \<Rightarrow> handler_catch None
             | Inr body \<Rightarrow>
                 if path = CLOUD_RUN_CONTROLLER_ATTEST_PATH
                 then start_attest e now request path body
                 else start_execute e now request path body))"

text \<open>\<open>cloudRunControllerAttestationResponseSchema\<close>: what it asks of a found attestation.\<close>

definition project_id_strict :: "string \<Rightarrow> bool" where
  "project_id_strict s \<longleftrightarrow>
     6 \<le> length s \<and> length s \<le> 30 \<and> hd s \<in> set lower_chars \<and>
     all_in (lower_chars @ digit_chars @ ''-'') s \<and> last s \<in> set (lower_chars @ digit_chars)"

definition runtimeServiceAccountSchema :: "string \<Rightarrow> bool" where
  "runtimeServiceAccountSchema s \<longleftrightarrow>
     (case split_on (CHR ''@'') s of
        [name, domain] \<Rightarrow>
          project_id_strict name \<and> ends_with service_account_suffix domain \<and>
          project_id_strict (take (length domain - length service_account_suffix) domain)
      | _ \<Rightarrow> False)"

definition liveAttestationSchema :: "attestation \<Rightarrow> bool" where
  "liveAttestationSchema a \<longleftrightarrow>
     0 < at_controllerVersion a \<and> opaque_handle_ok (at_executionHandle a) \<and>
     resource_name_ok (at_executionName a) \<and> resource_name_ok (at_jobName a) \<and>
     runtimeServiceAccountSchema (at_runtimeServiceAccount a)"

definition attestationResponseSchema ::
  "attestation_request \<Rightarrow> attestation_response \<Rightarrow> bool" where
  "attestationResponseSchema q r \<longleftrightarrow>
     opaque_handle_ok (aq_executionHandle q) \<and> ulid_ok (aq_requestId q) \<and>
     (case r of Attested a \<Rightarrow> liveAttestationSchema a | _ \<Rightarrow> True)"

definition finish_execute :: "controller_request \<Rightarrow> controller_response result \<Rightarrow> handler_step" where
  "finish_execute q outcome =
     (case outcome of
        Inl _ \<Rightarrow> handler_catch (Some (Logged_action (rq_action q)))
      | Inr r \<Rightarrow> Handler_done
          \<lparr>re_status = (if rs_outcome r = out_rejected then 409 else 200),
           re_payload = Payload_response r\<rparr>
          (Some (Logged_action (rq_action q))) (rs_errorCode r))"

definition finish_attest :: "attestation_request \<Rightarrow> attestation_response result \<Rightarrow> handler_step" where
  "finish_attest q outcome =
     (case outcome of
        Inl _ \<Rightarrow> handler_catch (Some Logged_attest)
      | Inr r \<Rightarrow>
          if \<not> attestationResponseSchema q r then handler_catch (Some Logged_attest)
          else Handler_done
            \<lparr>re_status = 200,
             re_payload = Payload_attestation (aq_executionHandle q) (aq_requestId q) r\<rparr>
            (Some Logged_attest) None)"

text \<open>The \<open>finally\<close> block: one log record per request, without any of its content.\<close>

definition handler_log ::
  "int \<Rightarrow> int \<Rightarrow> logged_action option \<Rightarrow> controller_error_code option \<Rightarrow> controller_log_record" where
  "handler_log startedAt finishedAt action errorCode =
     \<lparr>lg_action = action, lg_accepted = (errorCode = None), lg_errorCode = errorCode,
      lg_durationMs = max 0 (finishedAt - startedAt)\<rparr>"

section \<open>The runtime configuration\<close>

record controller_runtime_configuration =
  rc_authorization :: synthetic_authorization
  rc_databaseId :: string
  rc_firestoreProjectId :: string
  rc_manifest :: fixed_policy_configuration

definition database_name_ok :: "nat \<Rightarrow> nat \<Rightarrow> string \<Rightarrow> bool" where
  "database_name_ok lo hi s \<longleftrightarrow>
     lo \<le> length s \<and> length s \<le> hi \<and> hd s \<in> set lower_chars \<and>
     all_in (lower_chars @ digit_chars @ ''-'') s \<and> last s \<in> set (lower_chars @ digit_chars)"

definition firestoreDatabaseConfigurationSchema :: "string \<Rightarrow> string \<Rightarrow> bool" where
  "firestoreDatabaseConfigurationSchema databaseId projectId \<longleftrightarrow>
     database_name_ok 6 63 databaseId \<and> database_name_ok 6 30 projectId"

definition authorization_disabled :: "synthetic_authorization \<Rightarrow> bool" where
  "authorization_disabled a \<longleftrightarrow>
     sa_epoch a = ''disabled'' \<and> sa_validUntil a = ''1970-01-01T00:00:00.000Z'' \<and>
     sa_maxExecutions a = 0 \<and> sa_maxRequestsPerMinute a = 0 \<and> sa_maxWorstCaseJpy a = 0 \<and>
     sa_worstCaseJpyPerExecution a = 0"

definition authorization_enabled :: "synthetic_authorization \<Rightarrow> bool" where
  "authorization_enabled a \<longleftrightarrow>
     sa_epoch a \<noteq> ''disabled'' \<and> num_less (Some 0) (date_parse (sa_validUntil a)) \<and>
     0 < sa_maxExecutions a \<and> 0 < sa_maxRequestsPerMinute a \<and> 0 < sa_maxWorstCaseJpy a \<and>
     0 < sa_worstCaseJpyPerExecution a \<and> sa_worstCaseJpyPerExecution a \<le> sa_maxWorstCaseJpy a"

definition controllerRuntimeConfigurationSchema ::
  "(string \<Rightarrow> parsed_url option) \<Rightarrow> controller_runtime_configuration
     \<Rightarrow> controller_runtime_configuration result" where
  "controllerRuntimeConfigurationSchema parse_url c =
     res_bind (zod_parse firestoreSyntheticAuthorizationSchema (rc_authorization c)) (\<lambda>a.
     res_bind (fixed_policy_parse parse_url (rc_manifest c)) (\<lambda>m.
       if firestoreDatabaseConfigurationSchema (rc_databaseId c) (rc_firestoreProjectId c) \<and>
          sa_environment a = fp_environment m \<and>
          rc_firestoreProjectId c = fp_projectId m \<and>
          starts_with (''asia-southeast1-docker.pkg.dev/'' @ fp_projectId m @ ''/'')
            (fp_imageDigest m) \<and>
          ends_with (''@'' @ fp_projectId m @ service_account_suffix)
            (fp_runtimeServiceAccount m) \<and>
          (authorization_disabled a \<or> authorization_enabled a)
       then Inr (c\<lparr>rc_authorization := a, rc_manifest := m\<rparr>)
       else Inl ZodError))"

text \<open>\<open>createControllerRuntimeHandler\<close> builds the service and the client from one configuration.\<close>

definition createControllerRuntime ::
  "(string \<Rightarrow> parsed_url option) \<Rightarrow> (string \<Rightarrow> string \<Rightarrow> bool) \<Rightarrow> (string \<Rightarrow> 8 word list)
     \<Rightarrow> controller_runtime_configuration
     \<Rightarrow> (service_configuration \<times> client_configuration \<times> synthetic_authorization) result" where
  "createControllerRuntime parse_url collate sha256 c =
     res_bind (controllerRuntimeConfigurationSchema parse_url c) (\<lambda>parsed.
     res_bind (new_firestore_store (rc_authorization parsed)) (\<lambda>store_authorization.
     res_bind (new_service
       \<lparr>sv_environment = fp_environment (rc_manifest parsed), sv_policy = rc_manifest parsed,
        sv_parse_url = parse_url, sv_collate = collate, sv_sha256 = sha256\<rparr>) (\<lambda>service.
       Inr (service,
            \<lparr>cc_projectId = fp_projectId (rc_manifest parsed), cc_region = ''asia-southeast1''\<rparr>,
            store_authorization))))"

section \<open>Lemmas\<close>

lemma read_chunks_total:
  "received \<le> MAX_CONTROLLER_BODY_BYTES \<Longrightarrow>
   read_chunks received cs = Inr body \<longleftrightarrow>
   received + length (concat cs) \<le> MAX_CONTROLLER_BODY_BYTES \<and> body = concat cs"
  by (induction cs arbitrary: received body) (auto simp: result_simps add.assoc)

lemma handler_catch_not_call [simp]:
  "handler_catch a \<noteq> Call_execute q d" "handler_catch a \<noteq> Call_attest p"
  by (auto simp: handler_catch_def split: option.splits)

lemma authentication_failed_not_call [simp]:
  "authentication_failed x a \<noteq> Call_execute q d" "authentication_failed x a \<noteq> Call_attest p"
  by (simp_all add: authentication_failed_def Let_def)

lemma controller_request_schema_read:
  assumes "cloudRunControllerRequestSchema v"
  shows "controller_request_ok (read_controller_request v)"
proof -
  from assms obtain es where v: "v = JObj es" and f: "fields_ok [
     required ''action'' (string_enum [''create'', ''observe'', ''reconcile'', ''cancel'', ''cleanup'']),
     required ''environment'' (string_enum environment_names),
     required ''executionHandle'' (string_schema_of opaque_handle_ok),
     required ''expectedVersion'' nonnegative_int,
     required ''expiresAt'' (string_schema_of utc_datetime_ok),
     required ''issuedAt'' (string_schema_of utc_datetime_ok),
     required ''policyId'' (literal (JStr CLOUD_RUN_RUNTIME_POLICY)),
     required ''requestId'' (string_schema_of ulid_ok),
     required ''schemaVersion'' (literal (JNum 1))] es"
    by (cases v) (simp_all add: cloudRunControllerRequestSchema_def strict_object_def)
  have field: "ok (string_field k v)" if "case map_of es k of None \<Rightarrow> \<not> True | Some x \<Rightarrow> string_schema_of ok x"
    for k ok
    using that by (auto simp: v string_field_def json_field_def string_schema_of_def
        split: option.splits json.splits)
  note f' = f [unfolded fields_ok_def required_def list.pred_inject prod.case]
  have "opaque_handle_ok (string_field ''executionHandle'' v)"
    using f' by (intro field [of opaque_handle_ok "''executionHandle''"]) blast
  moreover have "utc_datetime_ok (string_field ''expiresAt'' v)"
    using f' by (intro field [of utc_datetime_ok "''expiresAt''"]) blast
  moreover have "utc_datetime_ok (string_field ''issuedAt'' v)"
    using f' by (intro field [of utc_datetime_ok "''issuedAt''"]) blast
  moreover have "ulid_ok (string_field ''requestId'' v)"
    using f' by (intro field [of ulid_ok "''requestId''"]) blast
  ultimately show ?thesis
    by (simp add: controller_request_ok_def read_controller_request_def)
qed

text \<open>What a request that carries JSON to a path of the controller is: the URL parses to this path without a
  query, the method and the content type are the ones asked for, and the bounded body is the text of the value.\<close>

definition posted_json :: "handler_environment \<Rightarrow> controller_http_request \<Rightarrow> string \<Rightarrow> string \<Rightarrow> json \<Rightarrow> bool" where
  "posted_json e request path body v \<longleftrightarrow>
     he_parse_url e (hi_url request) = Some (path, []) \<and> hi_method request = ''POST'' \<and>
     hi_contentType request = Some ''application/json'' \<and>
     readBoundedBody (he_decode e) request = Inr body \<and> he_parse_json e body = Some v"

lemma start_execute_call:
  "start_execute e now request path body = Call_execute q digest \<longleftrightarrow>
     (\<exists>v. he_parse_json e body = Some v \<and> length body \<le> MAX_CONTROLLER_BODY_BYTES \<and>
        cloudRunControllerRequestSchema v \<and> q = read_controller_request v \<and>
        authenticate_http e now request path (signed_controller_request q) = Inr authenticated \<and>
        digest = digestControllerRequest (he_crypto e) (signed_controller_request q))"
  "start_execute e now request path body \<noteq> Call_attest p"
  by (auto simp: start_execute_def parseControllerRequest_def Let_def split: option.split sum.split)

lemma start_attest_call:
  "start_attest e now request path body = Call_attest p \<longleftrightarrow>
     (\<exists>v. he_parse_json e body = Some v \<and> cloudRunControllerAttestationRequestSchema v \<and>
        p = read_attestation_request v \<and>
        authenticate_http e now request path (signed_attestation_request p) = Inr authenticated)"
  "start_attest e now request path body \<noteq> Call_execute q digest"
  by (auto simp: start_attest_def Let_def split: option.split sum.split)

lemma controller_paths_differ [simp]: "CLOUD_RUN_CONTROLLER_MUTATION_PATH \<noteq> CLOUD_RUN_CONTROLLER_ATTEST_PATH"
  "CLOUD_RUN_CONTROLLER_ATTEST_PATH \<noteq> CLOUD_RUN_CONTROLLER_MUTATION_PATH"
  by (simp_all add: CLOUD_RUN_CONTROLLER_MUTATION_PATH_def CLOUD_RUN_CONTROLLER_ATTEST_PATH_def)

lemma handler_start_execute:
  "handler_start e now request = Call_execute q digest \<longleftrightarrow>
     (\<exists>body v. posted_json e request CLOUD_RUN_CONTROLLER_MUTATION_PATH body v \<and>
        length body \<le> MAX_CONTROLLER_BODY_BYTES \<and>
        cloudRunControllerRequestSchema v \<and> q = read_controller_request v \<and>
        authenticate_http e now request CLOUD_RUN_CONTROLLER_MUTATION_PATH (signed_controller_request q)
          = Inr authenticated \<and>
        digest = digestControllerRequest (he_crypto e) (signed_controller_request q))"
  by (auto simp: handler_start_def posted_json_def start_execute_call start_attest_call
      split: option.split prod.split sum.split)

lemma handler_start_request_ok: "handler_start e now request = Call_execute q digest \<Longrightarrow> controller_request_ok q"
  by (auto simp: handler_start_execute controller_request_schema_read)

lemma handler_start_attest:
  "handler_start e now request = Call_attest p \<longleftrightarrow>
     (\<exists>body v. posted_json e request CLOUD_RUN_CONTROLLER_ATTEST_PATH body v \<and>
        cloudRunControllerAttestationRequestSchema v \<and> p = read_attestation_request v \<and>
        authenticate_http e now request CLOUD_RUN_CONTROLLER_ATTEST_PATH (signed_attestation_request p)
          = Inr authenticated)"
  by (auto simp: handler_start_def posted_json_def start_execute_call start_attest_call
      split: option.split prod.split sum.split)

end
