(* ===== verification/ControllerExample.thy ===== *)
theory ControllerExample
  imports ControllerConcurrency HttpHandler
begin

text \<open>
  A concrete configuration of the controller, an execution handle, requests and provider answers,
  and runs of the system on them: the inputs at which the properties of ControllerProperties are
  applied.
\<close>

section \<open>Configuration\<close>

definition ex_policy :: fixed_policy_configuration where
  "ex_policy =
     \<lparr>fp_environment = staging,
      fp_projectId = ''scribe-drop'',
      fp_imageDigest = ''asia-southeast1-docker.pkg.dev/scribe-drop/gpu/worker@sha256:'' @ replicate 64 (CHR ''a''),
      fp_runtimeServiceAccount = ''worker@scribe-drop.iam.gserviceaccount.com'',
      fp_orchestratorOrigin = ''https://orchestrator.example'',
      fp_resultHost = ''result.example'',
      fp_sourceHost = ''source.example''\<rparr>"

definition ex_url :: "string \<Rightarrow> parsed_url option" where
  "ex_url s = Some \<lparr>url_protocol = ''https:'', url_username = [], url_password = [],
     url_pathname = ''/'', url_origin = s\<rparr>"

definition ex_service :: service_configuration where
  "ex_service = \<lparr>sv_environment = staging, sv_policy = ex_policy, sv_parse_url = ex_url,
     sv_collate = text_leq, sv_sha256 = (\<lambda>_. replicate 32 0)\<rparr>"

definition ex_handle :: string where
  "ex_handle = replicate 43 (CHR ''h'')"

definition ex_manifest :: "string \<Rightarrow> string \<Rightarrow> json" where
  "ex_manifest h b =
     (case createFixedJobManifest ex_url ex_policy h b of Inl e \<Rightarrow> JNull | Inr m \<Rightarrow> m)"

lemma ex_policy_parse: "\<exists>p. fixed_policy_parse ex_url ex_policy = Inr p"
proof -
  have "case fixed_policy_parse ex_url ex_policy of Inl e \<Rightarrow> False | Inr p \<Rightarrow> True" by code_simp
  then show ?thesis by (cases "fixed_policy_parse ex_url ex_policy") auto
qed

lemma ex_expected: "createFixedJobManifest ex_url ex_policy h b = Inr (ex_manifest h b)"
  using ex_policy_parse by (auto simp: ex_manifest_def createFixedJobManifest_def)

section \<open>Requests and answers\<close>

text \<open>Times are milliseconds; the clock of the examples starts at \<open>ex_now\<close>.\<close>

definition ex_now :: int where
  "ex_now = 1767225600000"

definition ex_time :: "int \<Rightarrow> string" where
  "ex_time d = to_iso (ex_now + d)"

lemma ex_time_parse [simp]: "\<bar>d\<bar> < 10000000000 \<Longrightarrow> date_parse (ex_time d) = Some (ex_now + d)"
  unfolding ex_time_def by (intro date_parse_to_iso iso_time_rangeI) (auto simp: ex_now_def)

definition ex_authorization :: "controller_environment \<Rightarrow> synthetic_authorization" where
  "ex_authorization env =
     \<lparr>sa_environment = env, sa_epoch = ''trial'', sa_validUntil = ex_time 86400000,
      sa_maxExecutions = 2, sa_maxWorstCaseJpy = 100, sa_maxRequestsPerMinute = 20,
      sa_worstCaseJpyPerExecution = 10\<rparr>"

definition ex_request :: "controller_action \<Rightarrow> nat \<Rightarrow> string \<Rightarrow> controller_request" where
  "ex_request act v requestId =
     \<lparr>rq_action = act, rq_environment = staging, rq_executionHandle = ex_handle,
      rq_expectedVersion = v, rq_expiresAt = ex_time 60000, rq_issuedAt = ex_time 0,
      rq_requestId = requestId\<rparr>"

definition ex_job :: "bool \<Rightarrow> provider_job" where
  "ex_job ready =
     \<lparr>pj_ref = ''projects/scribe-drop/locations/asia-southeast1/jobs/j'', pj_uid = ''u1'',
      pj_etag = ''e1'', pj_ready = ready, pj_manifest = ex_manifest ex_handle ''q1''\<rparr>"

definition ex_store :: memory_store where
  "ex_store = new_memory_store ex_authorization"

text \<open>A create whose job is accepted, then a reconcile that finds it ready and runs it.\<close>

definition ex_create_events :: "system_event list" where
  "ex_create_events = [
     Ev_request (ex_request act_create 0 ''q1'') ''d1'',
     Ev_answer 0 (Ans_time ex_now), Ev_answer 0 Ans_store,
     Ev_answer 0 (Ans_time ex_now), Ev_answer 0 Ans_store,
     Ev_answer 0 (Ans_mutation (Inr (Mutation_accepted ''op''))),
     Ev_answer 0 (Ans_time ex_now), Ev_answer 0 Ans_store]"

definition ex_run_events :: "system_event list" where
  "ex_run_events = [
     Ev_request (ex_request act_reconcile 3 ''q2'') ''d2'',
     Ev_answer 1 (Ans_time ex_now), Ev_answer 1 Ans_store,
     Ev_answer 1 (Ans_operation (Inr Operation_pending)),
     Ev_answer 1 (Ans_job (Inr (Job_found (ex_job True)))),
     Ev_answer 1 (Ans_time ex_now), Ev_answer 1 Ans_store,
     Ev_answer 1 (Ans_executions (Inr (Executions_found []))),
     Ev_answer 1 (Ans_time ex_now), Ev_answer 1 Ans_store,
     Ev_answer 1 (Ans_mutation (Inr (Mutation_accepted ''op2''))),
     Ev_answer 1 (Ans_time ex_now), Ev_answer 1 Ans_store]"

lemmas ex_eval = prog_step_def new_system_def request_thread_def execute_def create_request_prog_def
  admission_input_def request_identity_of_def ex_request_def try_update_def Let_def
  next_record_def ex_service_def expected_manifest_def ex_expected update_def create_changes_def
  memory_operations_def mem_admitCreate_def mem_claimRequest_def mem_compareAndSet_def mem_get_def
  ex_store_def new_memory_store_def environment_records_def is_rate_limited_def
  ex_authorization_def initial_record_def same_binding_def num_add_def is_finite_num_def
  dispatch_def reconcile_record_def operation_failure_def accept_job_def manifestsMatch_def
  start_run_def record_run_mutation_def ex_job_def response_def

lemma ex_now_parse [simp]: "date_parse (to_iso ex_now) = Some ex_now"
  using ex_time_parse [of 0] by (simp add: ex_time_def)

text \<open>The system after the create: the job is pending, the request answered.\<close>

definition ex_record :: "control_state \<Rightarrow> nat \<Rightarrow> provider_job option \<Rightarrow> control_record" where
  "ex_record s v job =
     \<lparr>cr_bootstrapRequestId = ''q1'', cr_environment = staging, cr_executionHandle = ex_handle,
      cr_jobId = deriveJobId (\<lambda>_. replicate 32 0) staging ex_handle, cr_state = s,
      cr_version = v, cr_createAttempts = 1, cr_runIntent = False, cr_cancelIntent = False,
      cr_cleanupIntent = False, cr_job = job, cr_execution = None, cr_operationRef = Some ''op'',
      cr_errorCode = None, cr_reservedWorstCaseJpy = 10, cr_createdAt = to_iso ex_now,
      cr_updatedAt = to_iso ex_now, cr_provisioningDeadline = to_iso (ex_now + PROVISIONING_WINDOW_MS),
      cr_expiresAt = to_iso (ex_now + RECORD_TTL_MS)\<rparr>"

definition ex_remembered :: "string \<Rightarrow> string \<Rightarrow> controller_action \<Rightarrow> string \<times> remembered_request" where
  "ex_remembered requestId digest act =
     (requestId,
      \<lparr>rr_identity = \<lparr>ri_requestId = requestId, ri_digest = digest, ri_environment = staging,
         ri_executionHandle = ex_handle, ri_action = act\<rparr>,
       rr_acceptedAt = to_iso ex_now\<rparr>)"

definition ex_reply :: "string \<Rightarrow> nat \<Rightarrow> string \<times> reply prog" where
  "ex_reply requestId v =
     (ex_handle, Return (Reply \<lparr>rs_errorCode = None, rs_executionHandle = ex_handle,
        rs_outcome = out_pending, rs_requestId = requestId, rs_version = v\<rparr>))"

definition ex_create_call :: "string \<times> provider_call" where
  "ex_create_call =
     (ex_handle, Call_createJob (deriveJobId (\<lambda>_. replicate 32 0) staging ex_handle)
        (ex_manifest ex_handle ''q1''))"

definition ex_created :: "memory_store system" where
  "ex_created =
     \<lparr>sy_store = \<lparr>ms_authorizations = ex_authorization,
        ms_records = [(ex_handle, ex_record JOB_PENDING 3 None)],
        ms_requests = [ex_remembered ''q1'' ''d1'' act_create]\<rparr>,
      sy_threads = [ex_reply ''q1'' 3], sy_calls = [ex_create_call]\<rparr>"

lemmas ex_stage = ex_record_def ex_remembered_def ex_reply_def ex_create_call_def

lemma ex_create_run:
  "system_run ex_service memory_operations (new_system ex_store) ex_create_events = Some ex_created"
  by (simp add: ex_create_events_def ex_created_def ex_eval ex_stage send_create.simps
      state_outcome_def)

lemma system_run_append:
  "system_run c ops S evs = Some T \<Longrightarrow> system_run c ops S (evs @ evs') = system_run c ops T evs'"
  by (induction evs arbitrary: S) (auto split: option.splits)

lemma ex_run_run:
  "\<exists>S. system_run ex_service memory_operations ex_created ex_run_events = Some S \<and>
     run_calls S ex_handle = 1"
  by (simp add: ex_created_def ex_run_events_def ex_eval ex_stage reconcile_job.simps
      run_calls_def calls_for_def)

section \<open>A run started after a cleanup was requested\<close>

text \<open>An observation stores the ready job (version 4) and does not run it.\<close>

definition ex_observe_events :: "system_event list" where
  "ex_observe_events = [
     Ev_request (ex_request act_observe 3 ''q2'') ''d2'',
     Ev_answer 1 (Ans_time ex_now), Ev_answer 1 Ans_store,
     Ev_answer 1 (Ans_operation (Inr Operation_succeeded)),
     Ev_answer 1 (Ans_job (Inr (Job_found (ex_job True)))),
     Ev_answer 1 (Ans_time ex_now), Ev_answer 1 Ans_store]"

definition ex_observed :: "memory_store system" where
  "ex_observed =
     \<lparr>sy_store = \<lparr>ms_authorizations = ex_authorization,
        ms_records = [(ex_handle, ex_record JOB_READY 4 (Some (ex_job True)))],
        ms_requests = [ex_remembered ''q1'' ''d1'' act_create, ex_remembered ''q2'' ''d2'' act_observe]\<rparr>,
      sy_threads = [ex_reply ''q1'' 3, ex_reply ''q2'' 4],
      sy_calls = [ex_create_call, (ex_handle, Call_getOperation ''op''),
        (ex_handle, Call_getJob (deriveJobId (\<lambda>_. replicate 32 0) staging ex_handle))]\<rparr>"

lemma ex_observe_run:
  "system_run ex_service memory_operations ex_created ex_observe_events = Some ex_observed"
  by (simp add: ex_created_def ex_observed_def ex_observe_events_def ex_eval ex_stage
      observe_record_def reconcile_job.simps state_outcome_def)

text \<open>
  A reconcile and a cleanup both claim version 4; the cleanup stores its intent first. The
  reconcile then loses its update, reads the record with the intent set, and still runs the job.
\<close>

definition ex_cleanup_events :: "system_event list" where
  "ex_cleanup_events = [
     Ev_request (ex_request act_reconcile 4 ''q3'') ''d3'',
     Ev_request (ex_request act_cleanup 4 ''q4'') ''d4'',
     Ev_answer 2 (Ans_time ex_now), Ev_answer 2 Ans_store,
     Ev_answer 3 (Ans_time ex_now), Ev_answer 3 Ans_store,
     Ev_answer 2 (Ans_operation (Inr Operation_succeeded)),
     Ev_answer 2 (Ans_job (Inr (Job_found (ex_job True)))),
     Ev_answer 3 (Ans_time ex_now), Ev_answer 3 Ans_store]"

definition ex_late_run_events :: "system_event list" where
  "ex_late_run_events = [
     Ev_answer 2 (Ans_time ex_now), Ev_answer 2 Ans_store, Ev_answer 2 Ans_store,
     Ev_answer 2 (Ans_executions (Inr (Executions_found []))),
     Ev_answer 2 (Ans_time ex_now), Ev_answer 2 Ans_store,
     Ev_answer 2 (Ans_mutation (Inr (Mutation_accepted ''op3'')))]"

lemma ex_late_run:
  "\<exists>S T r. system_run ex_service memory_operations ex_observed ex_cleanup_events = Some S \<and>
     mem_record (sy_store S) ex_handle = Some r \<and> cr_cleanupIntent r \<and> run_calls S ex_handle = 0 \<and>
     system_run ex_service memory_operations S ex_late_run_events = Some T \<and>
     run_calls T ex_handle = 1"
  by (simp add: ex_observed_def ex_cleanup_events_def ex_late_run_events_def ex_eval ex_stage
      reconcile_job.simps cleanup_record_def run_calls_def calls_for_def mem_record_def)

section \<open>The Firestore store\<close>

lemma ex_time_ok [simp]: "\<bar>d\<bar> < 10000000000 \<Longrightarrow> utc_datetime_ok (ex_time d)"
  unfolding ex_time_def by (intro utc_datetime_ok_to_iso iso_time_rangeI) (auto simp: ex_now_def)

lemma ex_iso_ok [simp]:
  "utc_datetime_ok (to_iso ex_now)"
  "utc_datetime_ok (to_iso (ex_now + 300000))"
  "utc_datetime_ok (to_iso (ex_now + 2678400000))"
  "date_parse (to_iso (ex_now + 300000)) = Some (ex_now + 300000)"
  "date_parse (to_iso (ex_now + 2678400000)) = Some (ex_now + 2678400000)"
  using ex_time_ok [of 0] ex_time_ok [of 300000] ex_time_ok [of 2678400000]
    ex_time_parse [of 300000] ex_time_parse [of 2678400000]
  by (simp_all add: ex_time_def)

definition ex_id :: "char \<Rightarrow> string" where
  "ex_id c = replicate 26 c"

definition ex_environment :: environment_document where
  "ex_environment =
     \<lparr>sa_environment = staging, sa_epoch = ''trial'', sa_validUntil = ex_time 86400000,
      sa_maxExecutions = 2, sa_maxWorstCaseJpy = 100, sa_maxRequestsPerMinute = 20,
      sa_worstCaseJpyPerExecution = 10, ed_activeExecutionHandle = None, ed_activeExecutions = 0,
      ed_recentAcceptedAt = [], ed_reservedExecutions = 0, ed_reservedWorstCaseJpy = 0,
      ed_updatedAt = ex_time 0\<rparr>"

lemma ex_environment_document:
  "createFirestoreEnvironmentDocument (ex_authorization staging) (ex_time 0) = Inr ex_environment"
  by (simp add: createFirestoreEnvironmentDocument_def ex_authorization_def ex_environment_def
      environmentDocumentSchema_def firestoreSyntheticAuthorizationSchema_def string_between_def
      synthetic_authorization.defs environment_document.defs MAX_RECENT_REQUESTS_def zod_parse_def)

definition ex_db :: firestore_db where
  "ex_db = \<lparr>fd_environments = (\<lambda>env. Some ex_environment), fd_executions = Map.empty,
     fd_requests = Map.empty\<rparr>"

lemma ex_provisioned: "fs_provisioned (ex_authorization staging) (ex_time 0) ex_db"
  by (simp add: fs_provisioned_def ex_db_def ex_environment_document)

lemma ex_strings_ok [simp]:
  "ulid_ok (ex_id (CHR ''1''))" "ulid_ok (ex_id (CHR ''2''))" "opaque_handle_ok ex_handle"
  "job_id_ok (deriveJobId (\<lambda>_. replicate 32 0) staging ex_handle)"
  by code_simp+

definition ex_fs_events :: "system_event list" where
  "ex_fs_events = [
     Ev_request (ex_request act_create 0 (ex_id (CHR ''1''))) ex_handle,
     Ev_answer 0 (Ans_time ex_now), Ev_answer 0 Ans_store,
     Ev_answer 0 (Ans_time ex_now), Ev_answer 0 Ans_store,
     Ev_answer 0 (Ans_mutation (Inr (Mutation_accepted ''op''))),
     Ev_answer 0 (Ans_time ex_now), Ev_answer 0 Ans_store]"

lemmas ex_fs_eval = firestore_operations_def fs_transactions fs_get_def ex_db_def
  parse_document_def zod_parse_def sameAuthorization_def
  admitCreateInputSchema_def environmentDocumentSchema_def ex_environment_def
  firestoreSyntheticAuthorizationSchema_def string_between_def MAX_RECENT_REQUESTS_def
  pruneRecent_def controlRecordSchema_def recordDocument_def create_execution_def create_request_def
  requestDocumentSchema_def set_environment_def set_execution_def parseRecordDocument_def
  executionDocumentSchema_def PROVISIONING_WINDOW_MS_def RECORD_TTL_MS_def

definition ex_admission :: admit_create_input where
  "ex_admission = admission_input ex_service (ex_request act_create 0 (ex_id (CHR ''1''))) ex_handle ex_now"

lemma ex_fs_admit:
  "\<exists>r db'. fs_admitCreate (\<lambda>_. True) (ex_authorization staging) ex_db ex_admission
     = Inr (Admit_accepted r, db')"
  by (simp add: ex_admission_def ex_eval ex_fs_eval)

lemma ex_fs_run_record:
  "\<exists>S r. system_run ex_service (firestore_operations (\<lambda>_. True) (ex_authorization staging))
       (new_system ex_db) ex_fs_events = Some S \<and> fs_record (sy_store S) ex_handle = Some r"
  by (simp add: ex_fs_events_def ex_eval ex_fs_eval send_create.simps fs_record_def)

lemma ex_fs_run:
  "\<exists>S. system_run ex_service (firestore_operations (\<lambda>_. True) (ex_authorization staging))
       (new_system ex_db) ex_fs_events = Some S \<and> create_calls S ex_handle = 1"
  by (simp add: ex_fs_events_def ex_eval ex_fs_eval send_create.simps create_calls_def calls_for_def)

section \<open>Authentication\<close>

definition ex_wire_request :: controller_request where
  "ex_wire_request =
     \<lparr>rq_action = act_observe, rq_environment = staging, rq_executionHandle = ex_handle,
      rq_expectedVersion = 1, rq_expiresAt = ''2026-01-01T00:01:00.000Z'',
      rq_issuedAt = ''2026-01-01T00:00:00.000Z'', rq_requestId = ex_id (CHR ''1'')\<rparr>"

definition ex_crypto :: crypto where
  "ex_crypto = \<lparr>cy_sha256 = (\<lambda>_. replicate 32 7), cy_hmac = (\<lambda>_ _. replicate 32 9), cy_collate = (\<lambda>_ _. True)\<rparr>"

definition ex_keys :: "key_id \<Rightarrow> 8 word list option" where
  "ex_keys k = (case k of primary_key \<Rightarrow> Some (replicate 32 1) | secondary_key \<Rightarrow> None)"

definition ex_input :: authenticate_input where
  "ex_input =
     \<lparr>in_method = ''POST'', in_path = CLOUD_RUN_CONTROLLER_MUTATION_PATH, in_keyId = Some ''primary'',
      in_signature = Some (encodeBase64Url (replicate 32 9)),
      in_request = signed_controller_request ex_wire_request\<rparr>"

lemma frame_parts_printable:
  "list_all (list_all printable_ascii) ps \<Longrightarrow> \<exists>fs. frame_parts ps = Inr fs"
  by (induction ps) (auto simp: frameAsciiPart_def result_simps)

lemma encodeBase64Url_printable: "list_all printable_ascii (encodeBase64Url bytes)"
proof -
  have "\<forall>c \<in> set base64url_chars. printable_ascii c" by code_simp
  then show ?thesis
    by (auto simp: encodeBase64Url_digits list_all_iff url_digit_chars)
qed

lemma ex_request_texts:
  "list_all printable_ascii ''POST''" "list_all printable_ascii CLOUD_RUN_CONTROLLER_MUTATION_PATH"
  "list_all printable_ascii (rq_issuedAt ex_wire_request)"
  "list_all printable_ascii (rq_expiresAt ex_wire_request)"
  "list_all printable_ascii (rq_requestId ex_wire_request)"
  by code_simp+

lemma ex_frame:
  "\<exists>f. buildCloudRunControllerSigningFrame ''POST'' CLOUD_RUN_CONTROLLER_MUTATION_PATH
     (rq_issuedAt ex_wire_request) (rq_expiresAt ex_wire_request) (rq_requestId ex_wire_request)
     (encodeBase64Url bytes) = Inr f"
proof -
  have "map to_upper ''POST'' = ''POST''" by code_simp
  then obtain fs where "frame_parts [map to_upper ''POST'', CLOUD_RUN_CONTROLLER_MUTATION_PATH,
      rq_issuedAt ex_wire_request, rq_expiresAt ex_wire_request, rq_requestId ex_wire_request,
      encodeBase64Url bytes] = Inr fs"
    using frame_parts_printable [of "[''POST'', CLOUD_RUN_CONTROLLER_MUTATION_PATH,
      rq_issuedAt ex_wire_request, rq_expiresAt ex_wire_request, rq_requestId ex_wire_request,
      encodeBase64Url bytes]"] ex_request_texts encodeBase64Url_printable [of bytes]
    by (auto simp: list_all_iff simp del: frame_parts.simps)
  then show ?thesis by (simp only: buildCloudRunControllerSigningFrame_def res_bind.simps) blast
qed

lemma ex_built_signature:
  assumes "in_method x = ''POST''" "in_path x = CLOUD_RUN_CONTROLLER_MUTATION_PATH"
    and "in_request x = signed_controller_request ex_wire_request"
  shows "\<exists>f. buildControllerSignature y x secret = Inr (encodeBase64Url (cy_hmac y secret f))"
proof -
  obtain f where "buildCloudRunControllerSigningFrame ''POST'' CLOUD_RUN_CONTROLLER_MUTATION_PATH
     (rq_issuedAt ex_wire_request) (rq_expiresAt ex_wire_request) (rq_requestId ex_wire_request)
     (digestControllerRequest y (signed_controller_request ex_wire_request)) = Inr f"
    using ex_frame unfolding digestControllerRequest_def by blast
  then show ?thesis
    by (auto simp: buildControllerSignature_def signing_frame_def assms signed_controller_request_def)
qed

lemma ex_times:
  "date_parse (rq_issuedAt ex_wire_request) = Some 1767225600000"
  "date_parse (rq_expiresAt ex_wire_request) = Some 1767225660000"
  by code_simp+

lemma ex_authenticated_any:
  assumes "in_method x = ''POST''" "in_path x = CLOUD_RUN_CONTROLLER_MUTATION_PATH"
    and "in_request x = signed_controller_request ex_wire_request"
    and "in_keyId x = Some ''primary''"
    and "in_signature x = Some (encodeBase64Url (replicate 32 9))"
  shows "authenticateControllerRequest ex_crypto ex_keys 1767225600000 x = Inr authenticated"
proof -
  obtain f where "buildControllerSignature ex_crypto x (replicate 32 1)
      = Inr (encodeBase64Url (cy_hmac ex_crypto (replicate 32 1) f))"
    using ex_built_signature [OF assms(1-3)] by blast
  then have "buildControllerSignature ex_crypto x (replicate 32 1)
      = Inr (encodeBase64Url (replicate 32 9))"
    by (simp only: ex_crypto_def crypto.simps)
  moreover have "opaque_handle_ok (encodeBase64Url (replicate 32 9))"
    by (intro encodeBase64Url_ok length_replicate)
  moreover have "read_key_id (Some ''primary'') = Some primary_key" by (simp add: read_key_id_def)
  moreover have "ex_keys primary_key = Some (replicate 32 1)" by (simp add: ex_keys_def)
  ultimately show ?thesis
    by (simp add: authenticateControllerRequest_def assms read_signature_def constantTimeEqual_iff
        signed_controller_request_def ex_times CLOUD_RUN_CONTROLLER_MAX_CLOCK_SKEW_MS_def
        CLOUD_RUN_CONTROLLER_MAX_REQUEST_LIFETIME_MS_def)
qed

lemma ex_authenticated:
  "authenticateControllerRequest ex_crypto ex_keys 1767225600000 ex_input = Inr authenticated"
  by (rule ex_authenticated_any) (simp_all add: ex_input_def)

lemma ex_input_times:
  "date_parse (sq_issuedAt (in_request ex_input)) = Some 1767225600000"
  "date_parse (sq_expiresAt (in_request ex_input)) = Some 1767225660000"
  by code_simp+

definition ex_http_request :: "string option \<Rightarrow> controller_http_request" where
  "ex_http_request signature =
     \<lparr>hi_url = ''https://controller.example/v1/executions'', hi_method = ''POST'',
      hi_contentType = Some ''application/json'', hi_declaredLength = Some 2,
      hi_body = Some [''{'', ''}''], hi_keyId = Some ''primary'', hi_signature = signature\<rparr>"

definition ex_handler :: "string \<Rightarrow> json option \<Rightarrow> handler_environment" where
  "ex_handler path v =
     \<lparr>he_crypto = ex_crypto, he_keys = ex_keys, he_parse_json = (\<lambda>_. v),
      he_parse_url = (\<lambda>_. Some (path, [])), he_decode = Some\<rparr>"

lemma ex_request_ok: "controller_request_ok ex_wire_request"
  by code_simp

lemma ex_read_body: "readBoundedBody Some (ex_http_request k) = Inr ''{}''"
  by (simp add: readBoundedBody_def ex_http_request_def MAX_CONTROLLER_BODY_BYTES_def)

lemma ex_parsed:
  "parseControllerRequest (\<lambda>_. Some (request_json ex_wire_request)) ''{}'' = Inr ex_wire_request"
  by (simp add: parseControllerRequest_def MAX_CONTROLLER_BODY_BYTES_def request_json_schema
      ex_request_ok request_json_round_trip)

lemma ex_execute_call:
  "handler_start (ex_handler CLOUD_RUN_CONTROLLER_MUTATION_PATH (Some (request_json ex_wire_request)))
     1767225600000 (ex_http_request (Some (encodeBase64Url (replicate 32 9))))
   = Call_execute ex_wire_request
       (digestControllerRequest ex_crypto (signed_controller_request ex_wire_request))"
proof -
  let ?e = "ex_handler CLOUD_RUN_CONTROLLER_MUTATION_PATH (Some (request_json ex_wire_request))"
  let ?q = "ex_http_request (Some (encodeBase64Url (replicate 32 9)))"
  have "authenticate_http ?e 1767225600000 ?q CLOUD_RUN_CONTROLLER_MUTATION_PATH
      (signed_controller_request ex_wire_request) = Inr authenticated"
    unfolding authenticate_http_def ex_handler_def handler_environment.simps
    by (rule ex_authenticated_any) (simp_all add: ex_http_request_def)
  then have "start_execute ?e 1767225600000 ?q CLOUD_RUN_CONTROLLER_MUTATION_PATH ''{}''
      = Call_execute ex_wire_request
          (digestControllerRequest ex_crypto (signed_controller_request ex_wire_request))"
    by (simp add: start_execute_def ex_handler_def ex_parsed Let_def)
  moreover have "hi_method ?q = ''POST''" "hi_contentType ?q = Some ''application/json''"
    by (simp_all add: ex_http_request_def)
  moreover have "he_parse_url ?e (hi_url ?q) = Some (CLOUD_RUN_CONTROLLER_MUTATION_PATH, [])"
    "he_decode ?e = Some"
    by (simp_all add: ex_handler_def)
  moreover have "CLOUD_RUN_CONTROLLER_MUTATION_PATH \<noteq> CLOUD_RUN_CONTROLLER_ATTEST_PATH"
    by (simp add: CLOUD_RUN_CONTROLLER_MUTATION_PATH_def CLOUD_RUN_CONTROLLER_ATTEST_PATH_def)
  ultimately show ?thesis
    by (simp add: handler_start_def ex_read_body)
qed

text \<open>A collision-free stand-in for the hash functions: the bytes themselves.\<close>

definition ex_bytes :: "string \<Rightarrow> 8 word list" where
  "ex_bytes = map (\<lambda>c. word_of_nat (of_char c))"

lemma inj_ex_bytes: "inj ex_bytes"
proof -
  have "inj (\<lambda>c. word_of_nat (of_char c) :: 8 word)"
  proof (rule injI)
    fix c d assume "(word_of_nat (of_char c) :: 8 word) = word_of_nat (of_char d)"
    then have "unat (word_of_nat (of_char c) :: 8 word) = unat (word_of_nat (of_char d) :: 8 word)"
      by simp
    then have "(of_char c :: nat) = of_char d"
      by (simp add: unat_of_nat)
    then show "c = d" by simp
  qed
  then show ?thesis unfolding ex_bytes_def by (rule inj_mapI)
qed

definition ex_open_crypto :: crypto where
  "ex_open_crypto = \<lparr>cy_sha256 = ex_bytes, cy_hmac = (\<lambda>_. ex_bytes), cy_collate = (\<lambda>_ _. True)\<rparr>"

lemma ex_signature:
  "\<exists>s. buildControllerSignature ex_open_crypto ex_input [] = Inr s \<and>
     buildControllerSignature ex_open_crypto (ex_input\<lparr>in_method := ''post''\<rparr>) [] = Inr s"
proof -
  have "map to_upper ''post'' = map to_upper ''POST''" by code_simp
  then have "buildControllerSignature ex_open_crypto ex_input []
      = buildControllerSignature ex_open_crypto (ex_input\<lparr>in_method := ''post''\<rparr>) []"
    by (simp only: buildControllerSignature_def signing_frame_def buildCloudRunControllerSigningFrame_def
        ex_input_def authenticate_input.simps authenticate_input.update_convs)
  moreover have "\<exists>f. buildControllerSignature ex_open_crypto ex_input []
      = Inr (encodeBase64Url (cy_hmac ex_open_crypto [] f))"
    by (rule ex_built_signature) (simp_all add: ex_input_def)
  ultimately show ?thesis by auto
qed

section \<open>A listing\<close>

definition ex_client :: client_configuration where
  "ex_client = \<lparr>cc_projectId = ''scribe-drop'', cc_region = ''asia-southeast1''\<rparr>"

definition ex_execution :: json where
  "ex_execution = JObj [
     (''name'', JStr (client_jobRef ex_client ''j'' @ ''/executions/x1'')), (''uid'', JStr ''u''),
     (''etag'', JStr ''e''), (''job'', JStr ''j''), (''taskCount'', JNum 1),
     (''parallelism'', JNum 1), (''runningCount'', JNum 1)]"

definition ex_listing :: json where
  "ex_listing = JObj [(''executions'', JArr [ex_execution])]"

lemma ex_execution_fields:
  "string_field ''name'' ex_execution = client_jobRef ex_client ''j'' @ ''/executions/x1''"
  "string_field ''job'' ex_execution = ''j''"
  "executionStatus ex_execution = exec_running"
  by (simp_all add: ex_execution_def string_field_def json_field_def executionStatus_def count_field_def)

lemma ex_execution_schema: "executionSchema (\<lambda>_. True) ex_execution"
  by (simp add: executionSchema_def ex_execution_def loose_object_def fields_ok_def required_def
      optional_def nonempty_string_def uuid_string_def literal_def nonnegative_int_def any_bool_def)

lemma ex_list_call:
  "\<exists>e. client_listExecutions ex_client (\<lambda>_. True) (\<lambda>_. Some ex_listing)
       (\<lambda>_. Some \<lparr>hr_opaqueRedirect = False, hr_status = 200, hr_declaredLength = Some 0,
          hr_text = ''{}''\<rparr>) ''j'' = Inr (Executions_found [e]) \<and> px_status e = exec_running"
proof -
  have "executionListSchema (\<lambda>_. True) ex_listing"
    using ex_execution_schema
    by (simp add: executionListSchema_def ex_listing_def loose_object_def fields_ok_def optional_def
        array_max_def)
  moreover have "listed_executions ex_listing = [ex_execution]"
    "json_field ''nextPageToken'' ex_listing = None"
    by (simp_all add: listed_executions_def ex_listing_def json_field_def)
  moreover have "\<not> execution_escapes ''j'' (client_jobRef ex_client ''j'') ex_execution"
    by (simp add: execution_escapes_def Let_def ex_execution_fields starts_with_iff)
  moreover have "provider_request (\<lambda>_. Some ex_listing)
       (\<lambda>_. Some \<lparr>hr_opaqueRedirect = False, hr_status = 200, hr_declaredLength = Some 0,
          hr_text = ''{}''\<rparr>) q = Some \<lparr>ph_status = 200, ph_value = ex_listing\<rparr>" for q
    by (simp add: provider_request_def MAX_PROVIDER_RESPONSE_BYTES_def)
  ultimately show ?thesis
    by (simp add: client_listExecutions_def read_execution_def ex_execution_fields)
qed

end
