(* ===== verification/ControllerProperties.thy ===== *)
theory ControllerProperties
  imports ControllerExample
begin

text \<open>
  The properties of the GPU controller (apps/gpu-controller/src): what its concurrent requests can
  do to the provider and to the store, what the durable store keeps, what authentication
  establishes, and what the provider client hands out.
\<close>

section \<open>The provider is called at most so often\<close>

text \<open>Claim C1. Over the Firestore store, starting from a provisioned environment, in every
  interleaving of any number of requests, attestations and reapers, with arbitrary clock readings
  and provider answers (errors and lost requests included), the controller calls \<open>runJob\<close> at most
  once and \<open>createJob\<close> at most twice for one execution handle.\<close>

theorem firestore_calls_bounded:
  assumes "fs_provisioned a now db"
    and "system_run c (firestore_operations uuid_ok a) (new_system db) evs = Some S"
  shows "run_calls S h \<le> 1 \<and> create_calls S h \<le> 2"
proof -
  have "fs_record db = Map.empty"
    using assms(1) by (auto elim: fs_provisioned_document)
  with fs.calls_bounded [OF assms(2) fs_provisioned_inv [OF assms(1)]] show ?thesis by blast
qed

theorem firestore_calls_bounded_witness:
  "\<exists>S. system_run ex_service (firestore_operations (\<lambda>_. True) (ex_authorization staging))
      (new_system ex_db) ex_fs_events = Some S \<and> create_calls S ex_handle = 1 \<and>
      run_calls S ex_handle \<le> 1"
  using ex_fs_run firestore_calls_bounded [OF ex_provisioned] by blast

text \<open>The same bounds hold over the in-memory store from its empty state.\<close>

theorem memory_calls_bounded:
  assumes "system_run c memory_operations (new_system (new_memory_store a)) evs = Some S"
  shows "run_calls S h \<le> 1 \<and> create_calls S h \<le> 2"
proof -
  have "mem_record (new_memory_store a) = Map.empty"
    by (simp add: mem_record_def new_memory_store_def)
  with mem.calls_bounded [OF assms mem_inv_new] show ?thesis by blast
qed

theorem memory_calls_bounded_witness:
  "\<exists>S. system_run ex_service memory_operations (new_system (new_memory_store ex_authorization))
      (ex_create_events @ ex_run_events) = Some S \<and> run_calls S ex_handle = 1 \<and>
      create_calls S ex_handle \<le> 2"
proof -
  obtain S where "system_run ex_service memory_operations ex_created ex_run_events = Some S"
      "run_calls S ex_handle = 1"
    using ex_run_run by blast
  then have S: "system_run ex_service memory_operations (new_system (new_memory_store ex_authorization))
      (ex_create_events @ ex_run_events) = Some S" "run_calls S ex_handle = 1"
    using ex_create_run by (auto simp: system_run_splits ex_store_def)
  with memory_calls_bounded [OF S(1), of ex_handle] show ?thesis by blast
qed

text \<open>The controller can start a run after a cleanup of the execution was requested: there
  is an interleaving of one reconcile and one cleanup in which the stored record already carries
  the cleanup intent, no run has been made, and the reconcile, whose own update was refused, goes
  on from the record it then reads and calls \<open>runJob\<close>.\<close>

theorem run_started_after_cleanup_intent:
  "\<exists>S T r. system_run ex_service memory_operations (new_system ex_store)
       (ex_create_events @ ex_observe_events @ ex_cleanup_events) = Some S \<and>
     mem_record (sy_store S) ex_handle = Some r \<and> cr_cleanupIntent r \<and> run_calls S ex_handle = 0 \<and>
     system_run ex_service memory_operations S ex_late_run_events = Some T \<and>
     run_calls T ex_handle = 1"
  using ex_late_run ex_create_run ex_observe_run by (simp add: system_run_splits)

section \<open>The records of the store\<close>

text \<open>Claim C15. Whatever the controller's requests do concurrently, a record of the Firestore store
  never disappears, its version never goes back and its binding (environment, bootstrap request,
  job identifier, creation time, reserved cost) never changes; and a cleaned record stays exactly
  as it is.\<close>

theorem firestore_records_progress:
  assumes "fs_provisioned a now db"
    and "system_run c (firestore_operations uuid_ok a) (new_system db) evs = Some S"
    and "system_run c (firestore_operations uuid_ok a) S evs' = Some T"
    and "fs_record (sy_store S) h = Some r"
  shows "\<exists>r'. fs_record (sy_store T) h = Some r' \<and> cr_version r \<le> cr_version r' \<and>
    same_binding r' r \<and> (cr_state r = CLEANED \<longrightarrow> r' = r)"
proof -
  let ?ops = "firestore_operations uuid_ok a"
  have "store_run ?ops db (sy_store S)"
    using system_run_store [OF assms(2)] by (simp add: new_system_def run_none)
  then have inv: "fs_inv a (sy_store S)" using fs_provisioned_inv [OF assms(1)] fs.run_inv by blast
  have run: "store_run ?ops (sy_store S) (sy_store T)"
    using system_run_store [OF assms(3) run_none] .
  from fs.run_record [OF run inv assms(4)] fs_cleaned_final [OF run inv assms(4)]
  show ?thesis by fastforce
qed

theorem firestore_records_progress_witness:
  "\<exists>S r. system_run ex_service (firestore_operations (\<lambda>_. True) (ex_authorization staging))
       (new_system ex_db) ex_fs_events = Some S \<and> fs_record (sy_store S) ex_handle = Some r \<and>
     same_binding r r"
proof -
  obtain S r where S: "system_run ex_service (firestore_operations (\<lambda>_. True)
        (ex_authorization staging)) (new_system ex_db) ex_fs_events = Some S"
      "fs_record (sy_store S) ex_handle = Some r"
    using ex_fs_run_record by blast
  from firestore_records_progress [OF ex_provisioned S(1) _ S(2), of "[]" S] S show ?thesis
    by auto
qed

text \<open>Claim C33. In every run of the Firestore store from a provisioned environment, at most one
  execution of the environment is not cleaned, the number of executions ever admitted is within
  \<open>maxExecutions\<close>, and the sum of their reserved worst-case cost is within \<open>maxWorstCaseJpy\<close>.\<close>

theorem firestore_budget_kept:
  assumes "fs_provisioned a now db" "store_run (firestore_operations uuid_ok a) db db'"
  shows "card {h. \<exists>r. fs_record db' h = Some r \<and> cr_environment r = sa_environment a \<and>
      cr_state r \<noteq> CLEANED} \<le> 1 \<and>
    card (env_handles (fs_record db') (sa_environment a)) \<le> sa_maxExecutions a \<and>
    (\<Sum>h \<in> env_handles (fs_record db') (sa_environment a).
       cr_reservedWorstCaseJpy (the (fs_record db' h))) \<le> sa_maxWorstCaseJpy a"
proof -
  have inv: "fs_inv a db'"
    using fs.run_inv [OF assms(2)] fs_provisioned_inv [OF assms(1)] by blast
  let ?U = "{h. \<exists>r. fs_record db' h = Some r \<and> cr_environment r = sa_environment a \<and>
      cr_state r \<noteq> CLEANED}"
  have "finite ?U"
    using fs_inv_budget(1) [OF inv] by (rule finite_subset [rotated]) (auto simp: env_handles_def)
  then have "card ?U \<le> 1"
    using fs_inv_unclean_unique [OF inv] by (auto simp: card_le_Suc0_iff_eq)
  with fs_inv_budget [OF inv] show ?thesis by blast
qed

theorem firestore_budget_kept_witness:
  "\<exists>db'. store_run (firestore_operations (\<lambda>_. True) (ex_authorization staging)) ex_db db' \<and>
     fs_record db' ex_handle \<noteq> None \<and>
     card (env_handles (fs_record db') staging) \<le> 2"
proof -
  obtain S r where S: "system_run ex_service (firestore_operations (\<lambda>_. True)
        (ex_authorization staging)) (new_system ex_db) ex_fs_events = Some S"
      "fs_record (sy_store S) ex_handle = Some r"
    using ex_fs_run_record by blast
  have "store_run (firestore_operations (\<lambda>_. True) (ex_authorization staging)) ex_db (sy_store S)"
    using system_run_store [OF S(1)] by (simp add: new_system_def run_none)
  with firestore_budget_kept [OF ex_provisioned this] S(2) show ?thesis
    by (auto simp: ex_authorization_def)
qed

text \<open>As long as the clock does not go back, the Firestore store never accepts more than
  \<open>maxRequestsPerMinute\<close> requests (creates and claims together) in the sixty seconds up to any
  acceptance.\<close>

theorem firestore_rate_limited:
  "fs_history uuid_ok a db ts \<Longrightarrow> window_counts_ok (sa_maxRequestsPerMinute a) [] ts"
  using fs_history_windows by blast

theorem firestore_rate_limited_witness:
  "window_counts_ok 20 [] [ex_now]"
proof -
  obtain r db' where "fs_admitCreate (\<lambda>_. True) (ex_authorization staging) ex_db ex_admission
      = Inr (Admit_accepted r, db')"
    using ex_fs_admit by blast
  from history_admit [OF history_start [OF ex_provisioned] this, of ex_now]
  have "fs_history (\<lambda>_. True) (ex_authorization staging) db' [ex_now]"
    by (simp add: ex_admission_def admission_input_def)
  from firestore_rate_limited [OF this] show ?thesis by (simp add: ex_authorization_def)
qed

text \<open>A create request sent again after it was accepted is answered with the record of
  the first one and changes nothing, when the expiry has the form the service prints.\<close>

theorem firestore_create_idempotent:
  assumes "fs_admitCreate uuid_ok a db i = Inr (Admit_accepted r, db')"
    and "ai_recordExpiresAt i = to_iso t" "iso_time_range t"
  shows "fs_admitCreate uuid_ok a db' i = Inr (Admit_duplicate r, db')"
  using assms by (rule fs_admit_idempotent)

theorem firestore_create_idempotent_witness:
  "\<exists>r db'. fs_admitCreate (\<lambda>_. True) (ex_authorization staging) ex_db ex_admission
      = Inr (Admit_accepted r, db') \<and>
    fs_admitCreate (\<lambda>_. True) (ex_authorization staging) db' ex_admission = Inr (Admit_duplicate r, db')"
proof -
  obtain r db' where op: "fs_admitCreate (\<lambda>_. True) (ex_authorization staging) ex_db ex_admission
      = Inr (Admit_accepted r, db')"
    using ex_fs_admit by blast
  have "iso_time_range (ex_now + RECORD_TTL_MS)"
    by (rule iso_time_rangeI) (simp_all add: ex_now_def RECORD_TTL_MS_def)
  with firestore_create_idempotent [OF op, of "ex_now + RECORD_TTL_MS"] op show ?thesis
    by (auto simp: ex_admission_def admission_input_def)
qed

section \<open>Authentication and the HTTP entry point\<close>

text \<open>An authenticated request carries, under a key of at least 32 bytes, exactly the
  signature of its frame, and the clock is within its time window: it lives at most 60 s and is
  accepted from 30 s before it was issued to 30 s after it expires.\<close>

theorem authenticated_requests:
  assumes "authenticateControllerRequest y keys now input = Inr authenticated"
    and "date_parse (sq_issuedAt (in_request input)) = Some i"
    and "date_parse (sq_expiresAt (in_request input)) = Some e"
  shows "i \<le> e \<and> e \<le> i + 60000 \<and> i - 30000 \<le> now \<and> now \<le> e + 30000 \<and>
    (\<exists>k secret s. keys k = Some secret \<and> 32 \<le> length secret \<and> in_signature input = Some s \<and>
       buildControllerSignature y input secret = Inr s)"
proof -
  have "\<exists>k secret s. keys k = Some secret \<and> 32 \<le> length secret \<and> in_signature input = Some s \<and>
      buildControllerSignature y input secret = Inr s"
    using assms(1) by (rule authenticated_signature) blast
  with authenticated_window [OF assms] show ?thesis by simp
qed

theorem authenticated_requests_witness:
  "\<exists>k secret. ex_keys k = Some secret \<and> 32 \<le> length secret \<and> (1767225600000::int) \<le> 1767225660000 + 30000"
  using authenticated_requests [OF ex_authenticated ex_input_times] by blast

text \<open>The signature covers the whole request: two inputs with the same signature under one
  key agree on method, path, times, identifier and the canonical JSON of the request, unless their
  two frames collide under HMAC or their two canonical texts collide under SHA-256.\<close>

theorem signature_covers_request:
  assumes "buildControllerSignature y x secret = Inr s" "buildControllerSignature y x' secret = Inr s"
  shows "same_signed_request y x x' \<or> frame_collision y secret x x' \<or> digest_collision y x x'"
  using signature_covers [OF assms] by blast

theorem signature_covers_request_witness:
  "same_signed_request ex_open_crypto ex_input (ex_input\<lparr>in_method := ''post''\<rparr>)"
proof -
  obtain s where s: "buildControllerSignature ex_open_crypto ex_input [] = Inr s"
    "buildControllerSignature ex_open_crypto (ex_input\<lparr>in_method := ''post''\<rparr>) [] = Inr s"
    using ex_signature by blast
  have "inj (cy_sha256 ex_open_crypto)" "inj (cy_hmac ex_open_crypto [])"
    by (simp_all add: ex_open_crypto_def inj_ex_bytes)
  then have "\<not> frame_collision ex_open_crypto [] u v" "\<not> digest_collision ex_open_crypto u v" for u v
    by (auto simp: frame_collision_def digest_collision_def inj_eq Let_def split: sum.splits)
  then show ?thesis using signature_covers_request [OF s] by blast
qed

text \<open>Claim C36. The controller service is called for exactly the requests that pass all checks. It is asked to execute
  \<open>q\<close> when and only when the request is a \<open>POST\<close> of JSON to the mutation path, without a query, its bounded body is at most
  4096 characters long and parses to a value of the request schema, \<open>q\<close> is what this value says (so each of its fields
  meets its condition), and its signature
  and time window were verified for that method, path and \<open>q\<close>; the digest handed on is that of the same \<open>q\<close>.
  It is asked for an attestation when and only when the request is a \<open>POST\<close> of JSON to the attestation path whose value
  satisfies the schema of attestations and was verified in the same way. Each call carries, under a key of the
  environment of at least 32 bytes, exactly the signature of its frame.\<close>

theorem execute_only_authenticated:
  "(handler_start e now request = Call_execute q digest \<longleftrightarrow>
      (\<exists>body v. posted_json e request CLOUD_RUN_CONTROLLER_MUTATION_PATH body v \<and>
         length body \<le> MAX_CONTROLLER_BODY_BYTES \<and>
         cloudRunControllerRequestSchema v \<and> q = read_controller_request v \<and>
         authenticate_http e now request CLOUD_RUN_CONTROLLER_MUTATION_PATH (signed_controller_request q)
           = Inr authenticated \<and>
         digest = digestControllerRequest (he_crypto e) (signed_controller_request q))) \<and>
   (handler_start e now request = Call_attest p \<longleftrightarrow>
      (\<exists>body v. posted_json e request CLOUD_RUN_CONTROLLER_ATTEST_PATH body v \<and>
         cloudRunControllerAttestationRequestSchema v \<and> p = read_attestation_request v \<and>
         authenticate_http e now request CLOUD_RUN_CONTROLLER_ATTEST_PATH (signed_attestation_request p)
           = Inr authenticated)) \<and>
   (handler_start e now request = Call_execute q digest \<longrightarrow> controller_request_ok q) \<and>
   (authenticate_http e now request path framed = Inr authenticated \<longrightarrow>
      (\<exists>k secret s. he_keys e k = Some secret \<and> 32 \<le> length secret \<and> hi_signature request = Some s \<and>
         buildControllerSignature (he_crypto e)
           \<lparr>in_method = hi_method request, in_path = path, in_keyId = hi_keyId request,
            in_signature = hi_signature request, in_request = framed\<rparr> secret = Inr s))"
proof (intro conjI)
  show "handler_start e now request = Call_execute q digest \<longrightarrow> controller_request_ok q"
    by (auto intro: handler_start_request_ok)
  show "authenticate_http e now request path framed = Inr authenticated \<longrightarrow>
      (\<exists>k secret s. he_keys e k = Some secret \<and> 32 \<le> length secret \<and> hi_signature request = Some s \<and>
         buildControllerSignature (he_crypto e)
           \<lparr>in_method = hi_method request, in_path = path, in_keyId = hi_keyId request,
            in_signature = hi_signature request, in_request = framed\<rparr> secret = Inr s)"
    unfolding authenticate_http_def by (force elim!: authenticated_signature)
qed (rule handler_start_execute handler_start_attest)+

theorem execute_only_authenticated_witness:
  "\<exists>body v. posted_json (ex_handler CLOUD_RUN_CONTROLLER_MUTATION_PATH (Some (request_json ex_wire_request)))
      (ex_http_request (Some (encodeBase64Url (replicate 32 9)))) CLOUD_RUN_CONTROLLER_MUTATION_PATH body v \<and>
    cloudRunControllerRequestSchema v \<and> ex_wire_request = read_controller_request v"
proof -
  note call = execute_only_authenticated [THEN conjunct1, THEN iffD1, OF ex_execute_call]
  then show ?thesis by blast
qed

text \<open>The controller never reads more than 4096 bytes of a body: the bounded reader
  returns the concatenated chunks exactly when their total is within the bound.\<close>

theorem body_bounded:
  "read_chunks 0 chunks = Inr body \<longleftrightarrow> length (concat chunks) \<le> 4096 \<and> body = concat chunks"
  using read_chunks_total [of 0 chunks body] by (simp add: MAX_CONTROLLER_BODY_BYTES_def)

text \<open>The comparison of signatures, which looks at every byte of both, is equality.\<close>

theorem constant_time_comparison: "constantTimeEqual left right \<longleftrightarrow> left = right"
  by (rule constantTimeEqual_iff)

text \<open>A digest or signature of 32 bytes encodes to 43 base64url characters, as the
  wire and document schemas ask, and the encoding loses nothing.\<close>

theorem base64url_faithful:
  "(length x = 32 \<longrightarrow> opaque_handle_ok (encodeBase64Url x)) \<and>
   (encodeBase64Url x = encodeBase64Url y \<longleftrightarrow> x = y)"
  by (simp add: encodeBase64Url_ok encodeBase64Url_inject)

theorem base64url_faithful_witness:
  "opaque_handle_ok (encodeBase64Url (replicate 32 255))"
  using base64url_faithful [of "replicate 32 255" "[]"] by simp

text \<open>A malformed attestation request is answered with status 500 and \<open>INTERNAL_ERROR\<close>,
  where a malformed mutation request is answered with 400 and \<open>INVALID_REQUEST\<close>.\<close>

theorem malformed_body_statuses:
  assumes "he_parse_url e (hi_url request) = Some (path, [])" "hi_method request = ''POST''"
    and "hi_contentType request = Some ''application/json''"
    and "readBoundedBody (he_decode e) request = Inr body" "he_parse_json e body = None"
  shows "(path = CLOUD_RUN_CONTROLLER_ATTEST_PATH \<longrightarrow>
      handler_start e now request
        = Handler_done (errorResponse INTERNAL_ERROR 500) (Some Logged_attest) (Some INTERNAL_ERROR)) \<and>
    (path = CLOUD_RUN_CONTROLLER_MUTATION_PATH \<longrightarrow>
      handler_start e now request
        = Handler_done (errorResponse INVALID_REQUEST 400) None (Some INVALID_REQUEST))"
  using assms
  by (auto simp: handler_start_def start_attest_def start_execute_def parseControllerRequest_def
      handler_catch_def CLOUD_RUN_CONTROLLER_ATTEST_PATH_def CLOUD_RUN_CONTROLLER_MUTATION_PATH_def)

theorem malformed_body_statuses_witness:
  "handler_start (ex_handler CLOUD_RUN_CONTROLLER_ATTEST_PATH None) 0 (ex_http_request None)
     = Handler_done (errorResponse INTERNAL_ERROR 500) (Some Logged_attest) (Some INTERNAL_ERROR) \<and>
   handler_start (ex_handler CLOUD_RUN_CONTROLLER_MUTATION_PATH None) 0 (ex_http_request None)
     = Handler_done (errorResponse INVALID_REQUEST 400) None (Some INVALID_REQUEST)"
proof -
  have body: "readBoundedBody (he_decode (ex_handler path None)) (ex_http_request None) = Inr ''{}''"
    for path
    by (simp add: readBoundedBody_def ex_http_request_def ex_handler_def MAX_CONTROLLER_BODY_BYTES_def)
  show ?thesis
    using malformed_body_statuses [OF _ _ _ body, of CLOUD_RUN_CONTROLLER_ATTEST_PATH]
      malformed_body_statuses [OF _ _ _ body, of CLOUD_RUN_CONTROLLER_MUTATION_PATH]
    by (simp add: ex_handler_def ex_http_request_def)
qed

section \<open>The provider client\<close>

text \<open>A listing of executions that the client accepts has at most two members, each a
  child of exactly the job asked for, so that a cancel or delete built from it cannot leave the
  job's own collection.\<close>

theorem listed_executions_scoped:
  assumes "client_listExecutions c uuid_ok parse_json fetch jobId = Inr (Executions_found es)"
  shows "length es \<le> 2 \<and> (\<forall>e \<in> set es. scoped_execution (client_jobRef c jobId) e)"
  using assms by (rule listExecutions_found_scoped)

theorem listed_executions_scoped_witness:
  "\<exists>e. px_status e = exec_running \<and> scoped_execution (client_jobRef ex_client ''j'') e"
proof -
  obtain e where e: "client_listExecutions ex_client (\<lambda>_. True) (\<lambda>_. Some ex_listing)
       (\<lambda>_. Some \<lparr>hr_opaqueRedirect = False, hr_status = 200, hr_declaredLength = Some 0,
          hr_text = ''{}''\<rparr>) ''j'' = Inr (Executions_found [e])" "px_status e = exec_running"
    using ex_list_call by blast
  with listed_executions_scoped [OF e(1)] show ?thesis by auto
qed

text \<open>The manifest the controller builds always satisfies the schema under which jobs are
  read back from the provider and kept in records.\<close>

theorem job_manifest_valid:
  assumes "createFixedJobManifest parse_url c h b = Inr m"
  shows "cloudRunJobManifestSchema m"
  using assms by (rule createFixedJobManifest_schema_holds)

theorem job_manifest_valid_witness:
  "cloudRunJobManifestSchema (ex_manifest ex_handle ''q1'')"
  using job_manifest_valid [OF ex_expected] .

end
