(* ===== verification/D1Schema.thy ===== *)
theory D1Schema
  imports JsonSchema DomainStates Complex_Main
begin

text \<open>
  The D1 database the web server and the orchestrator share: the rows of the tables jobs,
  job_attempts, job_events, provider_executions, job_artifacts, runpod_submissions and
  notification_outbox (as in migrations/*.sql), and the statements INSERT and UPDATE on them with
  the constraints and triggers the migrations declare.
  A table is the list of its rows in order of insertion. A statement either yields the rows of its
  RETURNING clause and the new database, or is refused; a batch is a transaction, so a refused
  statement leaves the database as it was.
  Lemmas: what an update or an insertion does to each table, and that keys stay unique.
\<close>

section \<open>Rows\<close>

record job_row =
  jb_id :: string
  jb_owner_sub :: string
  jb_owner_email :: string
  jb_title :: string
  jb_original_filename :: string
  jb_source_bucket :: string
  jb_source_key :: string
  jb_source_content_type :: string
  jb_expected_size_bytes :: nat
  jb_actual_size_bytes :: "nat option"
  jb_source_etag :: "string option"
  jb_duration_seconds :: "rat option"
  jb_status :: job_status
  jb_options :: json
  jb_active_attempt_id :: "string option"
  jb_version :: nat
  jb_error_code :: "public_error_code option"
  jb_error_message :: "string option"
  jb_upload_expires_at :: "string option"
  jb_created_at :: string
  jb_uploaded_at :: "string option"
  jb_processing_started_at :: "string option"
  jb_completed_at :: "string option"
  jb_failed_at :: "string option"
  jb_cancelled_at :: "string option"
  jb_notified_at :: "string option"
  jb_deleted_at :: "string option"
  jb_updated_at :: string
  jb_deletion_not_before :: "string option"
  jb_deletion_next_attempt_at :: "string option"
  jb_deletion_attempt_count :: nat
  jb_deletion_error_code :: "string option"
  jb_source_deleted_at :: "string option"

record attempt_row =
  am_id :: string
  am_job_id :: string
  am_generation :: nat
  am_status :: attempt_status
  am_claim_token_hash :: "string option"
  am_claim_issued_at :: "string option"
  am_claim_expires_at :: "string option"
  am_claim_consumed_at :: "string option"
  am_heartbeat_token_hash :: "string option"
  am_heartbeat_issued_at :: "string option"
  am_heartbeat_expires_at :: "string option"
  am_heartbeat_revoked_at :: "string option"
  am_winning_runpod_job_id :: "string option"
  am_result_prefix :: string
  am_submission_started_at :: "string option"
  am_submission_outcome :: "string option"
  am_submission_finished_at :: "string option"
  am_claimed_at :: "string option"
  am_heartbeat_at :: "string option"
  am_completed_at :: "string option"
  am_failed_at :: "string option"
  am_runpod_delay_ms :: "nat option"
  am_runpod_execution_ms :: "nat option"
  am_error_code :: "public_error_code option"
  am_error_message :: "string option"
  am_created_at :: string
  am_updated_at :: string
  am_runpod_terminal_job_id :: "string option"
  am_runpod_terminal_status :: "string option"
  am_runpod_terminal_observed_at :: "string option"
  am_runpod_output_status :: "string option"
  am_runpod_output_error_code :: "string option"
  am_runpod_manifest_written :: "bool option"
  am_detected_language :: "string option"
  am_segment_count :: "nat option"
  am_media_duration_seconds :: "rat option"
  am_provider_kind :: "string option"
  am_provider_policy :: "string option"
  am_contract_version :: "nat option"
  am_execution_options :: "json option"

text \<open>
  A new row of job_attempts: an INSERT that names identifier, job, generation, status, result
  prefix and times leaves all other columns NULL.
\<close>

definition new_attempt_row :: "string \<Rightarrow> string \<Rightarrow> nat \<Rightarrow> string \<Rightarrow> string \<Rightarrow> attempt_row" where
  "new_attempt_row attemptId jobId generation resultPrefix timestamp =
     \<lparr>am_id = attemptId, am_job_id = jobId, am_generation = generation,
      am_status = ATT_SUBMISSION_PENDING, am_claim_token_hash = None, am_claim_issued_at = None,
      am_claim_expires_at = None, am_claim_consumed_at = None, am_heartbeat_token_hash = None,
      am_heartbeat_issued_at = None, am_heartbeat_expires_at = None, am_heartbeat_revoked_at = None,
      am_winning_runpod_job_id = None, am_result_prefix = resultPrefix,
      am_submission_started_at = None, am_submission_outcome = None,
      am_submission_finished_at = None, am_claimed_at = None, am_heartbeat_at = None,
      am_completed_at = None, am_failed_at = None, am_runpod_delay_ms = None,
      am_runpod_execution_ms = None, am_error_code = None, am_error_message = None,
      am_created_at = timestamp, am_updated_at = timestamp, am_runpod_terminal_job_id = None,
      am_runpod_terminal_status = None, am_runpod_terminal_observed_at = None,
      am_runpod_output_status = None, am_runpod_output_error_code = None,
      am_runpod_manifest_written = None, am_detected_language = None, am_segment_count = None,
      am_media_duration_seconds = None, am_provider_kind = None, am_provider_policy = None,
      am_contract_version = None, am_execution_options = None\<rparr>"

lemma new_attempt_row_fields [simp]:
  "am_id (new_attempt_row i j g p t) = i"
  "am_job_id (new_attempt_row i j g p t) = j"
  "am_generation (new_attempt_row i j g p t) = g"
  "am_status (new_attempt_row i j g p t) = ATT_SUBMISSION_PENDING"
  "am_claim_token_hash (new_attempt_row i j g p t) = None"
  "am_claim_issued_at (new_attempt_row i j g p t) = None"
  "am_claim_expires_at (new_attempt_row i j g p t) = None"
  "am_claim_consumed_at (new_attempt_row i j g p t) = None"
  "am_heartbeat_token_hash (new_attempt_row i j g p t) = None"
  "am_heartbeat_issued_at (new_attempt_row i j g p t) = None"
  "am_heartbeat_expires_at (new_attempt_row i j g p t) = None"
  "am_heartbeat_revoked_at (new_attempt_row i j g p t) = None"
  "am_winning_runpod_job_id (new_attempt_row i j g p t) = None"
  "am_result_prefix (new_attempt_row i j g p t) = p"
  "am_submission_started_at (new_attempt_row i j g p t) = None"
  "am_submission_outcome (new_attempt_row i j g p t) = None"
  "am_submission_finished_at (new_attempt_row i j g p t) = None"
  "am_claimed_at (new_attempt_row i j g p t) = None"
  "am_heartbeat_at (new_attempt_row i j g p t) = None"
  "am_completed_at (new_attempt_row i j g p t) = None"
  "am_failed_at (new_attempt_row i j g p t) = None"
  "am_runpod_delay_ms (new_attempt_row i j g p t) = None"
  "am_runpod_execution_ms (new_attempt_row i j g p t) = None"
  "am_error_code (new_attempt_row i j g p t) = None"
  "am_error_message (new_attempt_row i j g p t) = None"
  "am_created_at (new_attempt_row i j g p t) = t"
  "am_updated_at (new_attempt_row i j g p t) = t"
  "am_runpod_terminal_job_id (new_attempt_row i j g p t) = None"
  "am_runpod_terminal_status (new_attempt_row i j g p t) = None"
  "am_runpod_terminal_observed_at (new_attempt_row i j g p t) = None"
  "am_runpod_output_status (new_attempt_row i j g p t) = None"
  "am_runpod_output_error_code (new_attempt_row i j g p t) = None"
  "am_runpod_manifest_written (new_attempt_row i j g p t) = None"
  "am_detected_language (new_attempt_row i j g p t) = None"
  "am_segment_count (new_attempt_row i j g p t) = None"
  "am_media_duration_seconds (new_attempt_row i j g p t) = None"
  "am_provider_kind (new_attempt_row i j g p t) = None"
  "am_provider_policy (new_attempt_row i j g p t) = None"
  "am_contract_version (new_attempt_row i j g p t) = None"
  "am_execution_options (new_attempt_row i j g p t) = None"
  by (simp_all add: new_attempt_row_def)

record event_row =
  ev_id :: string
  ev_job_id :: string
  ev_attempt_id :: "string option"
  ev_event_type :: string
  ev_actor :: string
  ev_created_at :: string

record execution_row =
  xc_id :: string
  xc_attempt_id :: string
  xc_provider_kind :: string
  xc_provider_policy :: string
  xc_status :: gpu_execution_status
  xc_create_outcome :: "string option"
  xc_provider_handle :: "string option"
  xc_terminal_status :: "string option"
  xc_cleanup_status :: gpu_cleanup_status
  xc_version :: nat
  xc_created_at :: string
  xc_updated_at :: string

record artifact_row =
  af_job_id :: string
  af_attempt_id :: string
  af_format :: string
  af_object_key :: string
  af_size_bytes :: nat
  af_sha256 :: string
  af_created_at :: string

text \<open>A RunPod job known to belong to an attempt (the table runpod_submissions).\<close>

record submission_row =
  rs_runpod_job_id :: string
  rs_attempt_id :: string
  rs_is_winner :: bool
  rs_source :: string
  rs_created_at :: string
  rs_updated_at :: string

record outbox_row =
  ob_id :: string
  ob_job_id :: string
  ob_job_version :: "nat option"
  ob_status :: string
  ob_attempt_count :: nat
  ob_next_attempt_at :: "string option"
  ob_last_error :: "string option"
  ob_created_at :: string
  ob_sent_at :: "string option"

record d1 =
  d1_jobs :: "job_row list"
  d1_attempts :: "attempt_row list"
  d1_events :: "event_row list"
  d1_executions :: "execution_row list"
  d1_artifacts :: "artifact_row list"
  d1_submissions :: "submission_row list"
  d1_outbox :: "outbox_row list"

definition empty_d1 :: d1 where
  "empty_d1 = \<lparr>d1_jobs = [], d1_attempts = [], d1_events = [], d1_executions = [], d1_artifacts = [],
     d1_submissions = [], d1_outbox = []\<rparr>"

text \<open>A statement of a batch: the rows it returns and the database after it.\<close>

type_synonym 'r statement = "d1 \<Rightarrow> ('r list \<times> d1) result"

section \<open>SQL\<close>

text \<open>\<open>a = b\<close> is not true when either side is NULL.\<close>

definition sql_eq :: "'a option \<Rightarrow> 'a option \<Rightarrow> bool" where
  "sql_eq a b \<longleftrightarrow> a \<noteq> None \<and> a = b"

lemma sql_eq_Some [simp]: "sql_eq a (Some x) \<longleftrightarrow> a = Some x" "sql_eq (Some x) b \<longleftrightarrow> b = Some x"
  by (auto simp: sql_eq_def)

text \<open>\<open>LIKE 'prefix%'\<close>, which ignores the case of ASCII letters.\<close>

definition like_prefix :: "string \<Rightarrow> string \<Rightarrow> bool" where
  "like_prefix p s \<longleftrightarrow> starts_with (map to_upper p) (map to_upper s)"

definition update_where :: "('r \<Rightarrow> bool) \<Rightarrow> ('r \<Rightarrow> 'r) \<Rightarrow> 'r list \<Rightarrow> 'r list" where
  "update_where p f t = map (\<lambda>r. if p r then f r else r) t"

definition find_job :: "(job_row \<Rightarrow> bool) \<Rightarrow> d1 \<Rightarrow> job_row option" where
  "find_job p db = find p (d1_jobs db)"

definition find_attempt :: "(attempt_row \<Rightarrow> bool) \<Rightarrow> d1 \<Rightarrow> attempt_row option" where
  "find_attempt p db = find p (d1_attempts db)"

text \<open>\<open>LEFT JOIN job_attempts ON job_attempts.id = jobs.active_attempt_id\<close>.\<close>

definition active_attempt :: "d1 \<Rightarrow> job_row \<Rightarrow> attempt_row option" where
  "active_attempt db j =
     (case jb_active_attempt_id j of None \<Rightarrow> None | Some a \<Rightarrow> find_attempt (\<lambda>r. am_id r = a) db)"

section \<open>Constraints\<close>

definition job_checks :: "job_row \<Rightarrow> bool" where
  "job_checks j \<longleftrightarrow>
     length (jb_id j) = 26 \<and> 1 \<le> length (jb_title j) \<and> length (jb_title j) \<le> 200 \<and>
     1 \<le> length (jb_original_filename j) \<and> length (jb_original_filename j) \<le> 255 \<and>
     like_prefix ''incoming/'' (jb_source_key j) \<and>
     1 \<le> jb_expected_size_bytes j \<and> jb_expected_size_bytes j \<le> 2147483648 \<and>
     (case jb_actual_size_bytes j of None \<Rightarrow> True | Some n \<Rightarrow> 1 \<le> n \<and> n \<le> 2147483648) \<and>
     jb_source_etag j \<noteq> Some [] \<and>
     (case jb_duration_seconds j of None \<Rightarrow> True | Some d \<Rightarrow> 0 \<le> d \<and> d \<le> 28800) \<and>
     1 \<le> jb_version j"

definition sha256_hex_ok :: "string \<Rightarrow> bool" where
  "sha256_hex_ok s \<longleftrightarrow> length s = 64 \<and> all_in hex_chars s"

text \<open>
  The CHECKs of an attempt that span columns or that the statements can meet. The CHECKs of single columns
  that migration 0005 adds are \<open>terminal_checks\<close> in Completion, tested by the statement that writes these columns;
  the two durations RunPod reports are natural numbers here. Left out are the CHECKs of migration 0010 on length and
  characters of the provider's kind and policy and on the contract version.
\<close>

definition attempt_checks :: "attempt_row \<Rightarrow> bool" where
  "attempt_checks a \<longleftrightarrow>
     length (am_id a) = 26 \<and> 1 \<le> am_generation a \<and> like_prefix ''results/'' (am_result_prefix a) \<and>
     (case am_claim_token_hash a of
        None \<Rightarrow> am_claim_issued_at a = None \<and> am_claim_expires_at a = None \<and> am_claim_consumed_at a = None
      | Some h \<Rightarrow> sha256_hex_ok h \<and> am_claim_issued_at a \<noteq> None \<and> am_claim_expires_at a \<noteq> None) \<and>
     (case am_heartbeat_token_hash a of
        None \<Rightarrow> am_heartbeat_issued_at a = None \<and> am_heartbeat_expires_at a = None
          \<and> am_heartbeat_revoked_at a = None
      | Some h \<Rightarrow> sha256_hex_ok h \<and> am_heartbeat_issued_at a \<noteq> None \<and> am_heartbeat_expires_at a \<noteq> None) \<and>
     (am_execution_options a = None \<longleftrightarrow> am_provider_kind a = None) \<and>
     (am_execution_options a = None \<longleftrightarrow> am_provider_policy a = None) \<and>
     (am_execution_options a = None \<longleftrightarrow> am_contract_version a = None)"

text \<open>The partial unique index \<open>idx_attempt_winner_runpod\<close>.\<close>

definition winners_unique :: "attempt_row list \<Rightarrow> bool" where
  "winners_unique t \<longleftrightarrow> distinct (List.map_filter am_winning_runpod_job_id t)"

section \<open>Jobs\<close>

definition insert_job :: "job_row \<Rightarrow> job_row statement" where
  "insert_job j db =
     (if \<not> job_checks j then Inl (DatabaseError ''CHECK constraint failed: jobs'')
      else if jb_id j \<in> jb_id ` set (d1_jobs db) \<or> jb_source_key j \<in> jb_source_key ` set (d1_jobs db)
      then Inl (DatabaseError ''UNIQUE constraint failed: jobs'')
      else Inr ([j], db\<lparr>d1_jobs := d1_jobs db @ [j]\<rparr>))"

text \<open>
  The trigger \<open>trg_jobs_active_attempt_update\<close>: a new active attempt must exist and belong to the
  job.
\<close>

definition active_attempt_ok :: "d1 \<Rightarrow> job_row \<Rightarrow> bool" where
  "active_attempt_ok db j \<longleftrightarrow>
     (case jb_active_attempt_id j of
        None \<Rightarrow> True
      | Some a \<Rightarrow> \<exists>r \<in> set (d1_attempts db). am_id r = a \<and> am_job_id r = jb_id j)"

definition update_jobs :: "(job_row \<Rightarrow> bool) \<Rightarrow> (job_row \<Rightarrow> job_row) \<Rightarrow> job_row statement" where
  "update_jobs p f db =
     (let changed = filter p (d1_jobs db) in
      if \<not> list_all (\<lambda>j. job_checks (f j)) changed then
        Inl (DatabaseError ''CHECK constraint failed: jobs'')
      else if \<not> list_all (\<lambda>j. jb_active_attempt_id (f j) = jb_active_attempt_id j
          \<or> active_attempt_ok db (f j)) changed then
        Inl (DatabaseError ''active attempt must belong to job'')
      else Inr (map f changed, db\<lparr>d1_jobs := update_where p f (d1_jobs db)\<rparr>))"

section \<open>Attempts and the executions that follow them\<close>

text \<open>The triggers of migrations 0010 and 0012 on job_attempts.\<close>

definition runpod_execution_update :: "attempt_row \<Rightarrow> execution_row \<Rightarrow> execution_row" where
  "runpod_execution_update new x =
     (if am_provider_kind new = Some ''runpod_serverless''
        \<and> Some (xc_provider_kind x) = am_provider_kind new
        \<and> Some (xc_provider_policy x) = am_provider_policy new
      then x\<lparr>xc_status := gpu_status_of_attempt (am_status new),
        xc_create_outcome := am_submission_outcome new,
        xc_provider_handle := am_winning_runpod_job_id new,
        xc_terminal_status := am_runpod_terminal_status new,
        xc_version := xc_version x + 1, xc_updated_at := am_updated_at new\<rparr>
      else x)"

definition cloud_run_cancellation :: "attempt_row \<Rightarrow> attempt_row \<Rightarrow> bool" where
  "cloud_run_cancellation old new \<longleftrightarrow>
     am_provider_kind new = Some ''cloud_run_jobs'' \<and>
     ((am_status old = ATT_SUBMISSION_PENDING \<and> am_status new = ATT_CANCELLED) \<or>
      (am_status old \<in> {ATT_SUBMITTING, ATT_RUNNING} \<and> am_status new = ATT_CANCEL_REQUESTED))"

definition cloud_run_execution_update ::
  "attempt_row \<Rightarrow> attempt_row \<Rightarrow> execution_row \<Rightarrow> execution_row" where
  "cloud_run_execution_update old new x =
     (if cloud_run_cancellation old new
        \<and> Some (xc_provider_kind x) = am_provider_kind new
        \<and> Some (xc_provider_policy x) = am_provider_policy new
      then x\<lparr>
        xc_status := (if am_status new = ATT_CANCELLED then GPU_TERMINAL else GPU_CANCEL_REQUESTED),
        xc_terminal_status :=
          (if am_status new = ATT_CANCELLED then Some ''CANCELLED'' else xc_terminal_status x),
        xc_cleanup_status :=
          (if am_status new = ATT_CANCELLED then CLEANUP_SUCCEEDED else xc_cleanup_status x),
        xc_version := xc_version x + 1, xc_updated_at := am_updated_at new\<rparr>
      else x)"

definition follow_attempt ::
  "(attempt_row \<Rightarrow> bool) \<Rightarrow> (attempt_row \<Rightarrow> attempt_row) \<Rightarrow> attempt_row list
     \<Rightarrow> execution_row \<Rightarrow> execution_row" where
  "follow_attempt p f attempts x =
     (case find (\<lambda>a. am_id a = xc_attempt_id x \<and> p a) attempts of
        None \<Rightarrow> x
      | Some old \<Rightarrow> cloud_run_execution_update old (f old) (runpod_execution_update (f old) x))"

definition update_attempts ::
  "(attempt_row \<Rightarrow> bool) \<Rightarrow> (attempt_row \<Rightarrow> attempt_row) \<Rightarrow> attempt_row statement" where
  "update_attempts p f db =
     (let changed = filter p (d1_attempts db) in
      if \<not> list_all (\<lambda>a. attempt_checks (f a)) changed then
        Inl (DatabaseError ''CHECK constraint failed: job_attempts'')
      else if \<not> winners_unique (update_where p f (d1_attempts db)) then
        Inl (DatabaseError ''UNIQUE constraint failed: job_attempts'')
      else Inr (map f changed,
        db\<lparr>d1_attempts := update_where p f (d1_attempts db),
           d1_executions := map (follow_attempt p f (d1_attempts db)) (d1_executions db)\<rparr>))"

text \<open>
  A new attempt; \<open>trg_attempt_provider_execution_insert\<close> gives it an execution row when it names a
  provider.
\<close>

definition execution_of_attempt :: "attempt_row \<Rightarrow> execution_row list" where
  "execution_of_attempt a =
     (case (am_provider_kind a, am_provider_policy a, am_contract_version a, am_execution_options a) of
        (Some kind, Some policy, Some _, Some _) \<Rightarrow>
          [\<lparr>xc_id = am_id a, xc_attempt_id = am_id a, xc_provider_kind = kind,
            xc_provider_policy = policy, xc_status = gpu_status_of_attempt (am_status a),
            xc_create_outcome = am_submission_outcome a,
            xc_provider_handle = am_winning_runpod_job_id a,
            xc_terminal_status = am_runpod_terminal_status a,
            xc_cleanup_status = CLEANUP_NOT_REQUESTED, xc_version = 1,
            xc_created_at = am_created_at a, xc_updated_at = am_updated_at a\<rparr>]
      | _ \<Rightarrow> [])"

definition insert_attempt :: "attempt_row \<Rightarrow> attempt_row statement" where
  "insert_attempt a db =
     (if \<not> attempt_checks a then Inl (DatabaseError ''CHECK constraint failed: job_attempts'')
      else if am_id a \<in> am_id ` set (d1_attempts db)
        \<or> (am_job_id a, am_generation a) \<in> (\<lambda>r. (am_job_id r, am_generation r)) ` set (d1_attempts db)
        \<or> \<not> winners_unique (d1_attempts db @ [a])
        \<or> execution_of_attempt a \<noteq> [] \<and> am_id a \<in> xc_attempt_id ` set (d1_executions db)
      then Inl (DatabaseError ''UNIQUE constraint failed: job_attempts'')
      else if am_job_id a \<notin> jb_id ` set (d1_jobs db) then
        Inl (DatabaseError ''FOREIGN KEY constraint failed'')
      else Inr ([a],
        db\<lparr>d1_attempts := d1_attempts db @ [a],
           d1_executions := d1_executions db @ execution_of_attempt a\<rparr>))"

section \<open>Events\<close>

text \<open>The event types of which a job has at most one (the partial unique indexes).\<close>

definition single_event_types :: "string list" where
  "single_event_types =
     [''job_cancel_requested'', ''source_mutated'', ''job_delete_requested'', ''job_retention_expired'']"

definition event_id_taken :: "d1 \<Rightarrow> event_row \<Rightarrow> bool" where
  "event_id_taken db e \<longleftrightarrow> ev_id e \<in> ev_id ` set (d1_events db)"

definition single_event_taken :: "d1 \<Rightarrow> event_row \<Rightarrow> bool" where
  "single_event_taken db e \<longleftrightarrow>
     ev_event_type e \<in> set single_event_types \<and>
     (\<exists>r \<in> set (d1_events db). ev_job_id r = ev_job_id e \<and> ev_event_type r = ev_event_type e)"

datatype conflict_clause = Conflict_abort | Conflict_id_do_nothing | Conflict_do_nothing

text \<open>\<open>INSERT INTO job_events ... SELECT ... FROM jobs\<close>: the selected row, if there is one.\<close>

definition insert_event :: "conflict_clause \<Rightarrow> event_row option \<Rightarrow> event_row statement" where
  "insert_event conflict selected db =
     (case selected of
        None \<Rightarrow> Inr ([], db)
      | Some e \<Rightarrow>
          if length (ev_id e) \<noteq> 26 then Inl (DatabaseError ''CHECK constraint failed: job_events'')
          else if (event_id_taken db e \<and> conflict \<noteq> Conflict_abort)
            \<or> (single_event_taken db e \<and> conflict = Conflict_do_nothing)
          then Inr ([], db)
          else if event_id_taken db e \<or> single_event_taken db e then
            Inl (DatabaseError ''UNIQUE constraint failed: job_events'')
          else Inr ([e], db\<lparr>d1_events := d1_events db @ [e]\<rparr>))"

end
