(* ===== verification/JobContracts.thy ===== *)
theory JobContracts
  imports D1Schema
begin

text \<open>
  The job schemas the web server shares with its client (packages/contracts/src/job.ts and the
  constants of common.ts) and the row schemas and mappings of
  apps/web/src/server/jobs/job-repository.ts: what a stored row must satisfy to be read, and the
  summary, detail and upload target made from it.
  Lemmas: a row that satisfies its schema always maps to a summary that satisfies the wire schema.
\<close>

section \<open>Constants and wire schemas\<close>

definition MAX_FILE_SIZE_BYTES :: nat where
  "MAX_FILE_SIZE_BYTES = 2 * 1024 * 1024 * 1024"

definition MAX_JOB_TITLE_LENGTH :: nat where
  "MAX_JOB_TITLE_LENGTH = 200"

definition MAX_ORIGINAL_FILENAME_LENGTH :: nat where
  "MAX_ORIGINAL_FILENAME_LENGTH = 255"

definition MAX_RECORDING_DURATION_SECONDS :: rat where
  "MAX_RECORDING_DURATION_SECONDS = 8 * 60 * 60"

definition OUTPUT_FORMATS :: "string list" where
  "OUTPUT_FORMATS = [''markdown'', ''json'', ''srt'']"

definition TRANSCRIPTION_LANGUAGES :: "string list" where
  "TRANSCRIPTION_LANGUAGES = [''ja'', ''en'', ''auto'']"

definition TRANSCRIPTION_MODELS :: "string list" where
  "TRANSCRIPTION_MODELS = [''large-v3-turbo'']"

definition ALLOWED_MEDIA_TYPES :: "string list" where
  "ALLOWED_MEDIA_TYPES =
     [''audio/flac'', ''audio/mp4'', ''audio/mpeg'', ''audio/ogg'', ''audio/opus'', ''audio/wav'',
      ''audio/webm'', ''audio/x-wav'', ''video/mp4'', ''video/quicktime'', ''video/webm'']"

definition outputFormatsSchema :: json_schema where
  "outputFormatsSchema j =
     (case j of
        JArr xs \<Rightarrow> 1 \<le> length xs \<and> length xs \<le> 3 \<and> list_all (string_enum OUTPUT_FORMATS) xs \<and> distinct xs
      | _ \<Rightarrow> False)"

definition jobOptionsSchema :: json_schema where
  "jobOptionsSchema = strict_object [
     required ''language'' (string_enum TRANSCRIPTION_LANGUAGES),
     required ''model'' (string_enum TRANSCRIPTION_MODELS),
     required ''outputFormats'' outputFormatsSchema,
     required ''vad'' any_bool]"

text \<open>A nullable column or property.\<close>

definition nullable :: "('a \<Rightarrow> bool) \<Rightarrow> 'a option \<Rightarrow> bool" where
  "nullable p x \<longleftrightarrow> (case x of None \<Rightarrow> True | Some v \<Rightarrow> p v)"

lemma nullable_simps [simp]: "nullable p None" "nullable p (Some v) \<longleftrightarrow> p v"
  by (simp_all add: nullable_def)

definition duration_ok :: "rat \<Rightarrow> bool" where
  "duration_ok d \<longleftrightarrow> 0 \<le> d \<and> d \<le> MAX_RECORDING_DURATION_SECONDS"

definition file_size_ok :: "nat \<Rightarrow> bool" where
  "file_size_ok n \<longleftrightarrow> 0 < n \<and> n \<le> MAX_FILE_SIZE_BYTES"

record job_summary =
  su_actualSizeBytes :: "nat option"
  su_completedAt :: "string option"
  su_createdAt :: string
  su_durationSeconds :: "rat option"
  su_errorCode :: "public_error_code option"
  su_expectedSizeBytes :: nat
  su_id :: string
  su_originalFilename :: string
  su_sourceContentType :: string
  su_status :: job_status
  su_title :: string
  su_updatedAt :: string

definition jobSummarySchema :: "('a job_summary_scheme) \<Rightarrow> bool" where
  "jobSummarySchema s \<longleftrightarrow>
     nullable utc_datetime_ok (su_completedAt s) \<and> utc_datetime_ok (su_createdAt s) \<and>
     nullable duration_ok (su_durationSeconds s) \<and> file_size_ok (su_expectedSizeBytes s) \<and>
     ulid_ok (su_id s) \<and>
     1 \<le> length (su_originalFilename s) \<and>
     length (su_originalFilename s) \<le> MAX_ORIGINAL_FILENAME_LENGTH \<and>
     su_sourceContentType s \<in> set ALLOWED_MEDIA_TYPES \<and>
     1 \<le> length (su_title s) \<and> length (su_title s) \<le> MAX_JOB_TITLE_LENGTH \<and>
     utc_datetime_ok (su_updatedAt s)"

record job_detail = job_summary +
  de_artifacts :: "(string \<times> nat) list"
  de_options :: json

definition jobDetailSchema :: "job_detail \<Rightarrow> bool" where
  "jobDetailSchema d \<longleftrightarrow>
     jobSummarySchema d \<and> length (de_artifacts d) \<le> 3 \<and>
     list_all (\<lambda>(format, _). format \<in> set OUTPUT_FORMATS) (de_artifacts d) \<and>
     jobOptionsSchema (de_options d)"

section \<open>Rows\<close>

definition databaseJobSummaryRowSchema :: "job_row \<Rightarrow> bool" where
  "databaseJobSummaryRowSchema r \<longleftrightarrow>
     nullable file_size_ok (jb_actual_size_bytes r) \<and>
     nullable utc_datetime_ok (jb_completed_at r) \<and> utc_datetime_ok (jb_created_at r) \<and>
     nullable duration_ok (jb_duration_seconds r) \<and> file_size_ok (jb_expected_size_bytes r) \<and>
     ulid_ok (jb_id r) \<and>
     1 \<le> length (jb_original_filename r) \<and>
     length (jb_original_filename r) \<le> MAX_ORIGINAL_FILENAME_LENGTH \<and>
     jb_source_content_type r \<in> set ALLOWED_MEDIA_TYPES \<and>
     1 \<le> length (jb_title r) \<and> length (jb_title r) \<le> MAX_JOB_TITLE_LENGTH \<and>
     utc_datetime_ok (jb_updated_at r)"

text \<open>At most one row, and every row satisfies the schema; the first one is used.\<close>

definition rows_max_one :: "('r \<Rightarrow> bool) \<Rightarrow> 'r list \<Rightarrow> 'r option result" where
  "rows_max_one ok rows =
     res_bind (zod_parse (\<lambda>rs. length rs \<le> 1 \<and> list_all ok rs) rows) (\<lambda>rs.
       Inr (case rs of [] \<Rightarrow> None | r # _ \<Rightarrow> Some r))"

definition updatedJobSummaryRowsSchema :: "job_row list \<Rightarrow> job_row option result" where
  "updatedJobSummaryRowsSchema = rows_max_one databaseJobSummaryRowSchema"

definition updatedJobIdRowsSchema :: "string list \<Rightarrow> string option result" where
  "updatedJobIdRowsSchema = rows_max_one ulid_ok"

definition summary_of :: "job_row \<Rightarrow> job_summary" where
  "summary_of r =
     \<lparr>su_actualSizeBytes = jb_actual_size_bytes r, su_completedAt = jb_completed_at r,
      su_createdAt = jb_created_at r, su_durationSeconds = jb_duration_seconds r,
      su_errorCode = jb_error_code r, su_expectedSizeBytes = jb_expected_size_bytes r,
      su_id = jb_id r, su_originalFilename = jb_original_filename r,
      su_sourceContentType = jb_source_content_type r, su_status = jb_status r,
      su_title = jb_title r, su_updatedAt = jb_updated_at r\<rparr>"

definition mapSummary :: "job_row \<Rightarrow> job_summary result" where
  "mapSummary r = zod_parse jobSummarySchema (summary_of r)"

definition mapDetail :: "job_row \<Rightarrow> artifact_row list \<Rightarrow> job_detail result" where
  "mapDetail r artifacts =
     res_bind (mapSummary r) (\<lambda>summary.
     res_bind (zod_parse jobOptionsSchema (jb_options r)) (\<lambda>options.
     zod_parse jobDetailSchema
       (job_summary.extend summary
         \<lparr>de_artifacts = map (\<lambda>a. (af_format a, af_size_bytes a)) artifacts, de_options = options\<rparr>)))"

text \<open>The stored target of an upload: the row itself, with its nullable columns.\<close>

definition databaseUploadTargetRowSchema :: "job_row \<Rightarrow> bool" where
  "databaseUploadTargetRowSchema r \<longleftrightarrow>
     nullable ulid_ok (jb_active_attempt_id r) \<and> nullable file_size_ok (jb_actual_size_bytes r) \<and>
     file_size_ok (jb_expected_size_bytes r) \<and> ulid_ok (jb_id r) \<and>
     3 \<le> length (jb_source_bucket r) \<and> length (jb_source_bucket r) \<le> 63 \<and>
     nullable (\<lambda>e. 1 \<le> length e \<and> length e \<le> 512) (jb_source_etag r) \<and>
     1 \<le> length (jb_source_key r) \<and> length (jb_source_key r) \<le> 1024 \<and>
     starts_with ''incoming/'' (jb_source_key r) \<and> 0 < jb_version r"

record upload_target =
  ut_activeAttemptId :: "string option"
  ut_actualSizeBytes :: "nat option"
  ut_expectedSizeBytes :: nat
  ut_jobId :: string
  ut_sourceBucket :: string
  ut_sourceEtag :: "string option"
  ut_sourceKey :: string
  ut_status :: job_status
  ut_version :: nat

definition mapUploadTarget :: "job_row \<Rightarrow> upload_target" where
  "mapUploadTarget r =
     \<lparr>ut_activeAttemptId = jb_active_attempt_id r, ut_actualSizeBytes = jb_actual_size_bytes r,
      ut_expectedSizeBytes = jb_expected_size_bytes r, ut_jobId = jb_id r,
      ut_sourceBucket = jb_source_bucket r, ut_sourceEtag = jb_source_etag r,
      ut_sourceKey = jb_source_key r, ut_status = jb_status r, ut_version = jb_version r\<rparr>"

section \<open>Lemmas\<close>

lemma mapSummary_ok:
  "databaseJobSummaryRowSchema r \<Longrightarrow> mapSummary r = Inr (summary_of r)"
  by (simp add: mapSummary_def databaseJobSummaryRowSchema_def jobSummarySchema_def summary_of_def)

lemma rows_max_one_Inr_iff [result_simps]:
  "rows_max_one ok rows = Inr x \<longleftrightarrow>
   (rows = [] \<and> x = None) \<or> (\<exists>r. rows = [r] \<and> ok r \<and> x = Some r)"
  by (cases rows; cases "tl rows") (auto simp: rows_max_one_def result_simps)

lemma rows_max_one_simps [simp]:
  "rows_max_one ok [] = Inr None" "ok r \<Longrightarrow> rows_max_one ok [r] = Inr (Some r)"
  by (simp_all add: rows_max_one_def)

end
