(* ===== verification/JobRepository.thy ===== *)
theory JobRepository
  imports JobContracts
begin

text \<open>
  apps/web/src/server/jobs/job-repository.ts: what the web server reads and writes for a user.
  Every SQL statement is a definition over the database; every exported operation is one too. An
  operation that first reads and then commits a batch is given in these parts as well
  (\<open>..._read\<close>, \<open>..._commit\<close>), because another request may run in between. An operation yields its
  answer, or the error it throws, and the database it leaves: a schema that fails after a committed
  batch throws although the batch stays.
\<close>

type_synonym 'a api = "d1 \<Rightarrow> 'a result \<times> d1"

definition owner_sub_ok :: "string \<Rightarrow> bool" where
  "owner_sub_ok s \<longleftrightarrow> 1 \<le> length s \<and> length s \<le> 512"

text \<open>The statuses of an attempt that still runs or waits.\<close>

definition OPEN_ATTEMPT_STATUSES :: "attempt_status list" where
  "OPEN_ATTEMPT_STATUSES = [ATT_SUBMISSION_PENDING, ATT_SUBMITTING, ATT_RUNNING, ATT_CANCEL_REQUESTED]"

definition OPEN_JOB_STATUSES :: "job_status list" where
  "OPEN_JOB_STATUSES = [SUBMISSION_PENDING, SUBMITTING, RUNNING, CANCEL_REQUESTED]"

definition UPLOAD_STATUSES :: "job_status list" where
  "UPLOAD_STATUSES = [CREATED, UPLOADING, UPLOADED]"

definition owned :: "string \<Rightarrow> string \<Rightarrow> job_row \<Rightarrow> bool" where
  "owned ownerSub jobId j \<longleftrightarrow> jb_owner_sub j = ownerSub \<and> jb_id j = jobId \<and> jb_deleted_at j = None"

section \<open>Creating a job\<close>

record new_job =
  nj_expectedSizeBytes :: nat
  nj_id :: string
  nj_options :: json
  nj_originalFilename :: string
  nj_ownerEmail :: string
  nj_ownerSub :: string
  nj_sourceBucket :: string
  nj_sourceContentType :: string
  nj_sourceKey :: string
  nj_timestamp :: string
  nj_title :: string

definition new_job_row :: "new_job \<Rightarrow> job_row" where
  "new_job_row i =
     \<lparr>jb_id = nj_id i, jb_owner_sub = nj_ownerSub i, jb_owner_email = nj_ownerEmail i,
      jb_title = nj_title i, jb_original_filename = nj_originalFilename i,
      jb_source_bucket = nj_sourceBucket i, jb_source_key = nj_sourceKey i,
      jb_source_content_type = nj_sourceContentType i,
      jb_expected_size_bytes = nj_expectedSizeBytes i, jb_actual_size_bytes = None,
      jb_source_etag = None, jb_duration_seconds = None, jb_status = CREATED,
      jb_options = nj_options i, jb_active_attempt_id = None, jb_version = 1,
      jb_error_code = None, jb_error_message = None, jb_upload_expires_at = None,
      jb_created_at = nj_timestamp i, jb_uploaded_at = None, jb_processing_started_at = None,
      jb_completed_at = None, jb_failed_at = None, jb_cancelled_at = None, jb_notified_at = None,
      jb_deleted_at = None, jb_updated_at = nj_timestamp i, jb_deletion_not_before = None,
      jb_deletion_next_attempt_at = None, jb_deletion_attempt_count = 0,
      jb_deletion_error_code = None, jb_source_deleted_at = None\<rparr>"

definition in_creation_window :: "string \<Rightarrow> string \<Rightarrow> string \<Rightarrow> job_row \<Rightarrow> bool" where
  "in_creation_window ownerSub windowStart timestamp j \<longleftrightarrow>
     jb_owner_sub j = ownerSub \<and> text_less windowStart (jb_created_at j) \<and>
     text_leq (jb_created_at j) timestamp"

definition active_job_of :: "string \<Rightarrow> job_row \<Rightarrow> bool" where
  "active_job_of ownerSub j \<longleftrightarrow>
     jb_owner_sub j = ownerSub \<and> jb_status j \<in> set ACTIVE_JOB_STATUSES"

definition count_jobs :: "(job_row \<Rightarrow> bool) \<Rightarrow> d1 \<Rightarrow> nat" where
  "count_jobs p db = length (filter p (d1_jobs db))"

definition insert_new_job :: "new_job \<Rightarrow> string \<Rightarrow> job_row statement" where
  "insert_new_job i windowStart db =
     (if count_jobs (in_creation_window (nj_ownerSub i) windowStart (nj_timestamp i)) db
           < MAX_JOB_CREATIONS_PER_WINDOW
         \<and> count_jobs (active_job_of (nj_ownerSub i)) db < MAX_ACTIVE_JOBS_PER_OWNER
      then insert_job (new_job_row i) db
      else Inr ([], db))"

text \<open>\<open>MIN(created_at)\<close>: the least text, \<open>None\<close> on no rows.\<close>

fun min_text :: "string list \<Rightarrow> string option" where
  "min_text [] = None"
| "min_text (s # ss) =
     (case min_text ss of None \<Rightarrow> Some s | Some t \<Rightarrow> Some (if text_less s t then s else t))"

fun max_text :: "string list \<Rightarrow> string option" where
  "max_text [] = None"
| "max_text (s # ss) =
     (case max_text ss of None \<Rightarrow> Some s | Some t \<Rightarrow> Some (if text_less t s then s else t))"

definition calculateRetryAfterSeconds :: "string option \<Rightarrow> string \<Rightarrow> int" where
  "calculateRetryAfterSeconds oldestCreatedAt now =
     (case oldestCreatedAt of
        None \<Rightarrow> 60
      | Some oldest \<Rightarrow>
          (case (date_parse oldest, date_parse now) of
             (Some o_ms, Some n_ms) \<Rightarrow>
               let retryAt = o_ms + JOB_CREATION_WINDOW_SECONDS * 1000 - n_ms
               in max 1 (min JOB_CREATION_WINDOW_SECONDS (- ((- retryAt) div 1000)))
           | _ \<Rightarrow> 60))"

datatype create_job_result =
  Job_created job_summary | Job_rate_limited int | Job_too_many_active

text \<open>The second statement runs only when the first inserted nothing.\<close>

definition admission_diagnostic :: "new_job \<Rightarrow> string \<Rightarrow> d1 \<Rightarrow> create_job_result result" where
  "admission_diagnostic i windowStart db =
     (let window = in_creation_window (nj_ownerSub i) windowStart (nj_timestamp i);
          oldest = min_text (map jb_created_at (filter window (d1_jobs db)))
      in res_bind (zod_parse (nullable utc_datetime_ok) oldest) (\<lambda>oldest.
         if MAX_ACTIVE_JOBS_PER_OWNER \<le> count_jobs (active_job_of (nj_ownerSub i)) db then
           Inr Job_too_many_active
         else if MAX_JOB_CREATIONS_PER_WINDOW \<le> count_jobs window db then
           Inr (Job_rate_limited (calculateRetryAfterSeconds oldest (nj_timestamp i)))
         else Inr (Job_rate_limited 60)))"

definition creation_window_start :: "string \<Rightarrow> string result" where
  "creation_window_start timestamp =
     (case date_parse timestamp of
        None \<Rightarrow> Inl (JsError ''Invalid time value'')
      | Some t \<Rightarrow> Inr (to_iso (t - JOB_CREATION_WINDOW_SECONDS * 1000)))"

definition createJob :: "new_job \<Rightarrow> create_job_result api" where
  "createJob i db =
     (case res_bind (zod_parse utc_datetime_ok (nj_timestamp i)) (\<lambda>timestamp.
        res_bind (creation_window_start timestamp) (\<lambda>windowStart.
        res_bind (insert_new_job i windowStart db) (\<lambda>(rows, db'). Inr (windowStart, rows, db')))) of
        Inl e \<Rightarrow> (Inl e, db)
      | Inr (windowStart, rows, db') \<Rightarrow>
          (res_bind (updatedJobSummaryRowsSchema rows) (\<lambda>created.
             case created of
               Some row \<Rightarrow> res_bind (mapSummary row) (\<lambda>job. Inr (Job_created job))
             | None \<Rightarrow> admission_diagnostic i windowStart db'), db'))"

section \<open>Preparing the upload\<close>

definition mark_upload_ready_sql :: "string \<Rightarrow> string \<Rightarrow> string \<Rightarrow> string \<Rightarrow> job_row statement" where
  "mark_upload_ready_sql jobId ownerSub timestamp uploadExpiresAt =
     update_jobs (\<lambda>j. owned ownerSub jobId j \<and> jb_status j = CREATED)
       (\<lambda>j. j\<lparr>jb_status := UPLOADING, jb_version := jb_version j + 1,
          jb_upload_expires_at := Some uploadExpiresAt, jb_updated_at := timestamp\<rparr>)"

definition markUploadReady :: "string \<Rightarrow> string \<Rightarrow> string \<Rightarrow> string \<Rightarrow> bool api" where
  "markUploadReady jobId ownerSub timestamp uploadExpiresAt db =
     (case res_bind (zod_parse utc_datetime_ok timestamp) (\<lambda>_.
        res_bind (zod_parse utc_datetime_ok uploadExpiresAt) (\<lambda>_.
        if num_leq (date_parse uploadExpiresAt) (date_parse timestamp) then
          Inl (JsError ''Upload credential expiry must be after issuance'')
        else mark_upload_ready_sql jobId ownerSub timestamp uploadExpiresAt db)) of
        Inl e \<Rightarrow> (Inl e, db)
      | Inr (rows, db') \<Rightarrow>
          (res_bind (updatedJobIdRowsSchema (map jb_id rows)) (\<lambda>row. Inr (row \<noteq> None)), db'))"

definition fail_upload_preparation_sql :: "string \<Rightarrow> string \<Rightarrow> string \<Rightarrow> job_row statement" where
  "fail_upload_preparation_sql jobId ownerSub timestamp =
     update_jobs (\<lambda>j. owned ownerSub jobId j \<and> jb_status j = CREATED)
       (\<lambda>j. j\<lparr>jb_status := FAILED, jb_version := jb_version j + 1,
          jb_error_code := Some PE_INTERNAL_ERROR, jb_error_message := None,
          jb_failed_at := Some timestamp, jb_updated_at := timestamp\<rparr>)"

definition failUploadPreparation :: "string \<Rightarrow> string \<Rightarrow> string \<Rightarrow> bool api" where
  "failUploadPreparation jobId ownerSub timestamp db =
     (case res_bind (zod_parse utc_datetime_ok timestamp) (\<lambda>_.
        fail_upload_preparation_sql jobId ownerSub timestamp db) of
        Inl e \<Rightarrow> (Inl e, db)
      | Inr (rows, db') \<Rightarrow>
          (res_bind (updatedJobIdRowsSchema (map jb_id rows)) (\<lambda>row. Inr (row \<noteq> None)), db'))"

section \<open>Reading jobs\<close>

definition findUploadTargetByOwner :: "string \<Rightarrow> string \<Rightarrow> d1 \<Rightarrow> upload_target option result" where
  "findUploadTargetByOwner ownerSub jobId db =
     (case find_job (owned ownerSub jobId) db of
        None \<Rightarrow> Inr None
      | Some r \<Rightarrow> res_bind (zod_parse databaseUploadTargetRowSchema r) (\<lambda>r. Inr (Some (mapUploadTarget r))))"

definition job_artifacts :: "string \<Rightarrow> string \<Rightarrow> d1 \<Rightarrow> artifact_row list" where
  "job_artifacts ownerSub jobId db =
     (case find_job (\<lambda>j. owned ownerSub jobId j \<and> jb_status j = COMPLETED) db of
        None \<Rightarrow> []
      | Some j \<Rightarrow> filter (\<lambda>a. af_job_id a = jb_id j \<and> jb_active_attempt_id j = Some (af_attempt_id a))
          (d1_artifacts db))"

text \<open>\<open>ORDER BY job_artifacts.format\<close>: insertion sort by a strict order.\<close>

fun insert_ordered :: "('r \<Rightarrow> 'r \<Rightarrow> bool) \<Rightarrow> 'r \<Rightarrow> 'r list \<Rightarrow> 'r list" where
  "insert_ordered before r [] = [r]"
| "insert_ordered before r (q # qs) =
     (if before q r then q # insert_ordered before r qs else r # q # qs)"

definition order_by :: "('r \<Rightarrow> 'r \<Rightarrow> bool) \<Rightarrow> 'r list \<Rightarrow> 'r list" where
  "order_by before rs = foldr (insert_ordered before) rs []"

definition artifact_row_ok :: "artifact_row \<Rightarrow> bool" where
  "artifact_row_ok a \<longleftrightarrow> af_format a \<in> set OUTPUT_FORMATS \<and> af_size_bytes a \<le> 2147483648"

definition findByOwner :: "string \<Rightarrow> string \<Rightarrow> d1 \<Rightarrow> job_detail option result" where
  "findByOwner ownerSub jobId db =
     (case find_job (owned ownerSub jobId) db of
        None \<Rightarrow> Inr None
      | Some row \<Rightarrow>
          res_bind (zod_parse (\<lambda>as. length as \<le> 3 \<and> list_all artifact_row_ok as)
              (order_by (\<lambda>a b. text_less (af_format a) (af_format b)) (job_artifacts ownerSub jobId db)))
            (\<lambda>artifacts.
          res_bind (zod_parse databaseJobSummaryRowSchema row) (\<lambda>row.
          res_bind (mapDetail row artifacts) (\<lambda>detail. Inr (Some detail)))))"

record artifact_download =
  ad_format :: string
  ad_key :: string
  ad_sizeBytes :: nat

definition findArtifactDownloadByOwner ::
  "string \<Rightarrow> string \<Rightarrow> string \<Rightarrow> d1 \<Rightarrow> artifact_download option result" where
  "findArtifactDownloadByOwner ownerSub jobId format db =
     res_bind (zod_parse (\<lambda>_. owner_sub_ok ownerSub \<and> ulid_ok jobId \<and> format \<in> set OUTPUT_FORMATS) ())
       (\<lambda>_. case find (\<lambda>a. af_format a = format) (job_artifacts ownerSub jobId db) of
          None \<Rightarrow> Inr None
        | Some a \<Rightarrow>
            res_bind (zod_parse (\<lambda>a. artifact_row_ok a \<and> 1 \<le> length (af_object_key a) \<and>
                length (af_object_key a) \<le> 1024 \<and> starts_with ''results/'' (af_object_key a)) a)
              (\<lambda>a. Inr (Some \<lparr>ad_format = af_format a, ad_key = af_object_key a,
                 ad_sizeBytes = af_size_bytes a\<rparr>)))"

section \<open>Listing jobs\<close>

record job_cursor =
  cu_createdAt :: string
  cu_id :: string

text \<open>\<open>ORDER BY created_at DESC, id DESC\<close>.\<close>

definition listed_before :: "job_row \<Rightarrow> job_row \<Rightarrow> bool" where
  "listed_before a b \<longleftrightarrow>
     text_less (jb_created_at b) (jb_created_at a) \<or>
     (jb_created_at a = jb_created_at b \<and> text_less (jb_id b) (jb_id a))"

definition after_cursor :: "job_cursor option \<Rightarrow> job_row \<Rightarrow> bool" where
  "after_cursor cursor j \<longleftrightarrow>
     (case cursor of
        None \<Rightarrow> True
      | Some c \<Rightarrow> text_less (jb_created_at j) (cu_createdAt c) \<or>
          (jb_created_at j = cu_createdAt c \<and> text_less (jb_id j) (cu_id c)))"

definition list_jobs_sql :: "string \<Rightarrow> job_cursor option \<Rightarrow> nat \<Rightarrow> d1 \<Rightarrow> job_row list" where
  "list_jobs_sql ownerSub cursor limit db =
     take limit (order_by listed_before
       (filter (\<lambda>j. jb_owner_sub j = ownerSub \<and> jb_deleted_at j = None \<and> after_cursor cursor j)
         (d1_jobs db)))"

definition cursorPayloadSchema :: "job_cursor \<Rightarrow> bool" where
  "cursorPayloadSchema c \<longleftrightarrow> utc_datetime_ok (cu_createdAt c) \<and> ulid_ok (cu_id c)"

text \<open>The result of a list: the page and the cursor that the next request may send.\<close>

definition map_results :: "('a \<Rightarrow> 'b result) \<Rightarrow> 'a list \<Rightarrow> 'b list result" where
  "map_results f xs = foldr (\<lambda>x r. res_bind (f x) (\<lambda>y. res_bind r (\<lambda>ys. Inr (y # ys)))) xs (Inr [])"

definition listByOwner ::
  "string \<Rightarrow> job_cursor option \<Rightarrow> nat \<Rightarrow> d1 \<Rightarrow> (job_summary list \<times> job_cursor option) result" where
  "listByOwner ownerSub cursor limit db =
     res_bind (zod_parse (\<lambda>l. 1 \<le> l \<and> l \<le> 100) limit) (\<lambda>limit.
     res_bind (zod_parse (\<lambda>rs. length rs \<le> limit + 1 \<and> list_all databaseJobSummaryRowSchema rs)
       (list_jobs_sql ownerSub cursor (limit + 1) db)) (\<lambda>rows.
     let hasNextPage = limit < length rows;
         pageRows = (if hasNextPage then take limit rows else rows)
     in res_bind (map_results mapSummary pageRows) (\<lambda>items.
        if hasNextPage \<and> items \<noteq> [] then
          res_bind (zod_parse cursorPayloadSchema
            \<lparr>cu_createdAt = su_createdAt (last items), cu_id = su_id (last items)\<rparr>) (\<lambda>next.
          Inr (items, Some next))
        else Inr (items, None))))"

end
