(* ===== verification/JobMutations.thy ===== *)
theory JobMutations
  imports JobRepository
begin

text \<open>
  The rest of apps/web/src/server/jobs/job-repository.ts: retrying, cancelling and deleting a job
  and completing its upload. Each commits a batch of two or three statements and then checks that
  all of them changed what they had to; when only some did, it throws, although the batch is
  committed.
\<close>

section \<open>Retry\<close>

record retry_input =
  re_attemptId :: string
  re_eventId :: string
  re_jobId :: string
  re_ownerSub :: string
  re_resultPrefix :: string
  re_timestamp :: string

datatype retry_result = Retried nat job_summary | Retry_invalid_state | Retry_not_found

definition resultPrefixSchema :: "string \<Rightarrow> bool" where
  "resultPrefixSchema s \<longleftrightarrow>
     1 \<le> length s \<and> length s \<le> 900 \<and> starts_with ''results/'' s \<and> ends_with ''/'' s"

definition owner_hash_ok :: "string \<Rightarrow> bool" where
  "owner_hash_ok s \<longleftrightarrow> length s = 32 \<and> all_in hex_chars s"

definition result_prefix_matches :: "retry_input \<Rightarrow> bool" where
  "result_prefix_matches i \<longleftrightarrow>
     (case split_on (CHR ''/'') (re_resultPrefix i) of
        [a, b, c, d, e] \<Rightarrow>
          a = ''results'' \<and> owner_hash_ok b \<and> c = re_jobId i \<and> d = re_attemptId i \<and> e = []
      | _ \<Rightarrow> False)"

definition retry_input_parse :: "retry_input \<Rightarrow> retry_input result" where
  "retry_input_parse i =
     res_bind (zod_parse (\<lambda>i. ulid_ok (re_attemptId i) \<and> ulid_ok (re_eventId i) \<and>
       ulid_ok (re_jobId i) \<and> owner_sub_ok (re_ownerSub i) \<and> resultPrefixSchema (re_resultPrefix i)) i)
     (\<lambda>i. if \<not> result_prefix_matches i then
            Inl (JsError ''Retry result prefix does not match the job and attempt'')
          else zod_parse (\<lambda>i. utc_datetime_ok (re_timestamp i)) i)"

definition retried_attempt :: "retry_input \<Rightarrow> attempt_row \<Rightarrow> attempt_row" where
  "retried_attempt i active =
     new_attempt_row (re_attemptId i) (re_jobId i) (am_generation active + 1) (re_resultPrefix i)
       (re_timestamp i)"

definition retryable_job :: "retry_input \<Rightarrow> job_row \<Rightarrow> bool" where
  "retryable_job i j \<longleftrightarrow>
     owned (re_ownerSub i) (re_jobId i) j \<and> jb_status j = FAILED \<and> jb_source_deleted_at j = None"

definition insert_retry_attempt_sql :: "retry_input \<Rightarrow> attempt_row statement" where
  "insert_retry_attempt_sql i db =
     (case find_job (retryable_job i) db of
        None \<Rightarrow> Inr ([], db)
      | Some j \<Rightarrow>
          (case active_attempt db j of
             None \<Rightarrow> Inr ([], db)
           | Some a \<Rightarrow>
               if am_job_id a = jb_id j \<and> am_status a = ATT_FAILED
                 \<and> \<not> (\<exists>r \<in> set (d1_attempts db). am_id r = re_attemptId i \<or>
                      (am_job_id r = jb_id j \<and> am_generation r = am_generation a + 1))
               then insert_attempt (retried_attempt i a) db
               else Inr ([], db)))"

definition activate_retry_attempt_sql :: "retry_input \<Rightarrow> job_row statement" where
  "activate_retry_attempt_sql i db =
     update_jobs
       (\<lambda>j. retryable_job i j \<and>
          (\<exists>r \<in> set (d1_attempts db). am_id r = re_attemptId i \<and> am_job_id r = re_jobId i \<and>
             am_status r = ATT_SUBMISSION_PENDING \<and> am_created_at r = re_timestamp i))
       (\<lambda>j. j\<lparr>jb_status := SUBMISSION_PENDING, jb_active_attempt_id := Some (re_attemptId i),
          jb_error_code := None, jb_error_message := None, jb_duration_seconds := None,
          jb_processing_started_at := None, jb_completed_at := None, jb_failed_at := None,
          jb_cancelled_at := None, jb_notified_at := None, jb_updated_at := re_timestamp i,
          jb_version := jb_version j + 1\<rparr>) db"

definition user_event :: "string \<Rightarrow> job_row \<Rightarrow> string \<Rightarrow> string \<Rightarrow> string \<Rightarrow> event_row" where
  "user_event eventId j eventType actor timestamp =
     \<lparr>ev_id = eventId, ev_job_id = jb_id j, ev_attempt_id = jb_active_attempt_id j,
      ev_event_type = eventType, ev_actor = actor, ev_created_at = timestamp\<rparr>"

definition record_retry_event_sql :: "retry_input \<Rightarrow> event_row statement" where
  "record_retry_event_sql i db =
     insert_event Conflict_abort
       (map_option (\<lambda>j. user_event (re_eventId i) j ''job_retry_requested'' ''user'' (re_timestamp i))
         (find_job (\<lambda>j. jb_id j = re_jobId i \<and> jb_active_attempt_id j = Some (re_attemptId i) \<and>
            jb_status j = SUBMISSION_PENDING \<and> jb_updated_at j = re_timestamp i) db)) db"

text \<open>A batch of two or three statements: one transaction.\<close>

definition batch2 :: "'a statement \<Rightarrow> 'b statement \<Rightarrow> d1 \<Rightarrow> (('a list \<times> 'b list) \<times> d1) result" where
  "batch2 s1 s2 db =
     res_bind (s1 db) (\<lambda>(r1, db1). res_bind (s2 db1) (\<lambda>(r2, db2). Inr ((r1, r2), db2)))"

definition batch3 ::
  "'a statement \<Rightarrow> 'b statement \<Rightarrow> 'c statement \<Rightarrow> d1
     \<Rightarrow> (('a list \<times> 'b list \<times> 'c list) \<times> d1) result" where
  "batch3 s1 s2 s3 db =
     res_bind (s1 db) (\<lambda>(r1, db1). res_bind (batch2 s2 s3 db1) (\<lambda>((r2, r3), db3).
       Inr ((r1, r2, r3), db3)))"

definition retry_batch ::
  "retry_input \<Rightarrow> d1 \<Rightarrow> ((attempt_row list \<times> job_row list \<times> event_row list) \<times> d1) result" where
  "retry_batch i =
     batch3 (insert_retry_attempt_sql i) (activate_retry_attempt_sql i) (record_retry_event_sql i)"

definition inserted_retry_attempt_ok :: "attempt_row \<Rightarrow> bool" where
  "inserted_retry_attempt_ok a \<longleftrightarrow> 2 \<le> am_generation a \<and> ulid_ok (am_id a) \<and> ulid_ok (am_job_id a)"

text \<open>What the rows of the batch mean; the job is read again when nothing changed.\<close>

definition retry_answer ::
  "retry_input \<Rightarrow> attempt_row list \<times> job_row list \<times> event_row list \<Rightarrow> d1 \<Rightarrow> retry_result result" where
  "retry_answer i rows db =
     (case rows of (attempts, jobs, events) \<Rightarrow>
        res_bind (rows_max_one inserted_retry_attempt_ok attempts) (\<lambda>insertedAttempt.
        res_bind (updatedJobSummaryRowsSchema jobs) (\<lambda>updatedJob.
        res_bind (updatedJobIdRowsSchema (map ev_id events)) (\<lambda>insertedEvent.
        case (insertedAttempt, updatedJob, insertedEvent) of
          (Some a, Some j, Some _) \<Rightarrow> res_bind (mapSummary j) (\<lambda>job. Inr (Retried (am_generation a) job))
        | (None, None, None) \<Rightarrow>
            Inr (case find_job (owned (re_ownerSub i) (re_jobId i)) db of
                   None \<Rightarrow> Retry_not_found | Some _ \<Rightarrow> Retry_invalid_state)
        | _ \<Rightarrow> Inl (JsError ''Retry transition was only partially persisted'')))))"

definition retryFailedJob :: "retry_input \<Rightarrow> retry_result api" where
  "retryFailedJob i db =
     (case res_bind (retry_input_parse i) (\<lambda>i. retry_batch i db) of
        Inl e \<Rightarrow> (Inl e, db)
      | Inr (rows, db') \<Rightarrow> (retry_answer i rows db', db'))"

section \<open>Cancellation\<close>

record action_input =
  ac_eventId :: string
  ac_jobId :: string
  ac_ownerSub :: string
  ac_timestamp :: string

definition action_input_ok :: "action_input \<Rightarrow> bool" where
  "action_input_ok i \<longleftrightarrow>
     ulid_ok (ac_eventId i) \<and> ulid_ok (ac_jobId i) \<and> owner_sub_ok (ac_ownerSub i) \<and>
     utc_datetime_ok (ac_timestamp i)"

datatype cancel_result =
    Cancel_cancelled job_summary | Cancel_idempotent job_summary | Cancel_requested job_summary
  | Cancel_invalid_state | Cancel_not_found

text \<open>\<open>FIND_CANCELLATION_CONTEXT_SQL\<close>: the job with the status of its active attempt.\<close>

record cancel_context =
  cx_job :: job_row
  cx_attempt_status :: "attempt_status option"

definition cancellation_context :: "action_input \<Rightarrow> d1 \<Rightarrow> cancel_context option" where
  "cancellation_context i db =
     map_option (\<lambda>j. \<lparr>cx_job = j, cx_attempt_status = map_option am_status (active_attempt db j)\<rparr>)
       (find_job (owned (ac_ownerSub i) (ac_jobId i)) db)"

definition cancellationContextRowSchema :: "cancel_context \<Rightarrow> bool" where
  "cancellationContextRowSchema c \<longleftrightarrow>
     databaseJobSummaryRowSchema (cx_job c) \<and> nullable ulid_ok (jb_active_attempt_id (cx_job c)) \<and>
     0 < jb_version (cx_job c)"

definition CANCELLABLE_JOB_STATUSES :: "job_status list" where
  "CANCELLABLE_JOB_STATUSES = [SUBMISSION_PENDING, SUBMITTING, RUNNING]"

definition CANCELLABLE_ATTEMPT_STATUSES :: "attempt_status list" where
  "CANCELLABLE_ATTEMPT_STATUSES = [ATT_SUBMISSION_PENDING, ATT_SUBMITTING, ATT_RUNNING]"

text \<open>The read phase ends with an answer, or with the statements to commit for the context.\<close>

datatype 'a phase = Answer 'a | Commit cancel_context

definition cancel_read :: "action_input \<Rightarrow> d1 \<Rightarrow> cancel_result phase result" where
  "cancel_read i db =
     res_bind (zod_parse action_input_ok i) (\<lambda>i.
     case cancellation_context i db of
       None \<Rightarrow> Inr (Answer Cancel_not_found)
     | Some c \<Rightarrow>
         res_bind (zod_parse cancellationContextRowSchema c) (\<lambda>c.
         let j = cx_job c in
         if jb_status j = CANCELLED \<or> jb_status j = CANCEL_REQUESTED then
           res_bind (mapSummary j) (\<lambda>job. Inr (Answer (Cancel_idempotent job)))
         else if jb_active_attempt_id j = None then
           (if jb_status j \<notin> set UPLOAD_STATUSES then Inr (Answer Cancel_invalid_state)
            else Inr (Commit c))
         else (case cx_attempt_status c of
                 None \<Rightarrow> Inr (Answer Cancel_invalid_state)
               | Some s \<Rightarrow>
                   if job_status_of_attempt s \<noteq> jb_status j
                     \<or> jb_status j \<notin> set CANCELLABLE_JOB_STATUSES
                   then Inr (Answer Cancel_invalid_state)
                   else Inr (Commit c))))"

definition cancel_job_without_attempt_sql :: "action_input \<Rightarrow> job_row \<Rightarrow> job_row statement" where
  "cancel_job_without_attempt_sql i read =
     update_jobs
       (\<lambda>j. owned (ac_ownerSub i) (ac_jobId i) j \<and> jb_version j = jb_version read \<and>
          jb_active_attempt_id j = None \<and> jb_status j = jb_status read \<and>
          jb_status j \<in> set UPLOAD_STATUSES)
       (\<lambda>j. j\<lparr>jb_status := CANCELLED, jb_error_code := None, jb_error_message := None,
          jb_cancelled_at := Some (ac_timestamp i), jb_updated_at := ac_timestamp i,
          jb_version := jb_version j + 1\<rparr>)"

text \<open>The attempt status a cancellation leads to.\<close>

definition cancelled_attempt_status :: "attempt_status \<Rightarrow> attempt_status" where
  "cancelled_attempt_status s = (if s = ATT_SUBMISSION_PENDING then ATT_CANCELLED else ATT_CANCEL_REQUESTED)"

definition cancelled_job_status :: "job_status \<Rightarrow> job_status" where
  "cancelled_job_status s = (if s = SUBMISSION_PENDING then CANCELLED else CANCEL_REQUESTED)"

text \<open>\<open>attemptId\<close> is the active attempt of the context; a NULL matches no row.\<close>

definition request_attempt_cancellation_sql :: "action_input \<Rightarrow> job_row \<Rightarrow> attempt_row statement" where
  "request_attempt_cancellation_sql i read db =
     update_attempts
       (\<lambda>a. jb_active_attempt_id read = Some (am_id a) \<and> am_job_id a = ac_jobId i \<and>
          job_status_of_attempt (am_status a) = jb_status read \<and>
          am_status a \<in> set CANCELLABLE_ATTEMPT_STATUSES \<and>
          (\<exists>j \<in> set (d1_jobs db). jb_id j = ac_jobId i \<and> jb_active_attempt_id j = Some (am_id a) \<and>
             jb_status j = jb_status read \<and> jb_deleted_at j = None))
       (\<lambda>a. a\<lparr>am_status := cancelled_attempt_status (am_status a),
          am_heartbeat_revoked_at :=
            (if am_status a = ATT_RUNNING \<and> am_heartbeat_token_hash a \<noteq> None
             then Some (ac_timestamp i) else am_heartbeat_revoked_at a),
          am_updated_at := ac_timestamp i\<rparr>) db"

definition request_job_cancellation_sql :: "action_input \<Rightarrow> job_row \<Rightarrow> job_row statement" where
  "request_job_cancellation_sql i read db =
     update_jobs
       (\<lambda>j. owned (ac_ownerSub i) (ac_jobId i) j \<and> jb_version j = jb_version read \<and>
          sql_eq (jb_active_attempt_id j) (jb_active_attempt_id read) \<and>
          jb_status j = jb_status read \<and> jb_status j \<in> set CANCELLABLE_JOB_STATUSES \<and>
          (\<exists>a \<in> set (d1_attempts db). jb_active_attempt_id read = Some (am_id a) \<and>
             am_job_id a = ac_jobId i \<and>
             am_status a = (if jb_status read = SUBMISSION_PENDING then ATT_CANCELLED
                            else ATT_CANCEL_REQUESTED) \<and>
             am_updated_at a = ac_timestamp i))
       (\<lambda>j. j\<lparr>jb_status := cancelled_job_status (jb_status read),
          jb_error_code := None, jb_error_message := None,
          jb_cancelled_at := (if jb_status read = SUBMISSION_PENDING then Some (ac_timestamp i)
                              else jb_cancelled_at j),
          jb_updated_at := ac_timestamp i, jb_version := jb_version j + 1\<rparr>) db"

definition record_cancellation_event_sql :: "action_input \<Rightarrow> event_row statement" where
  "record_cancellation_event_sql i db =
     insert_event Conflict_do_nothing
       (map_option (\<lambda>j. user_event (ac_eventId i) j ''job_cancel_requested'' ''user'' (ac_timestamp i))
         (find_job (\<lambda>j. jb_id j = ac_jobId i \<and> jb_updated_at j = ac_timestamp i \<and>
            jb_status j \<in> {CANCEL_REQUESTED, CANCELLED} \<and> jb_owner_sub j = ac_ownerSub i) db)) db"

definition cancel_batch ::
  "action_input \<Rightarrow> cancel_context \<Rightarrow> d1 \<Rightarrow> ((job_row list \<times> event_row list) \<times> d1) result" where
  "cancel_batch i c db =
     (if jb_active_attempt_id (cx_job c) = None
      then batch2 (cancel_job_without_attempt_sql i (cx_job c)) (record_cancellation_event_sql i) db
      else res_bind (batch3 (request_attempt_cancellation_sql i (cx_job c))
             (request_job_cancellation_sql i (cx_job c)) (record_cancellation_event_sql i) db)
             (\<lambda>((_, jobs, events), db'). Inr ((jobs, events), db')))"

definition cancel_answer :: "job_row list \<times> event_row list \<Rightarrow> cancel_result result" where
  "cancel_answer rows =
     (case rows of (jobs, events) \<Rightarrow>
        res_bind (updatedJobSummaryRowsSchema jobs) (\<lambda>updatedJob.
        res_bind (updatedJobIdRowsSchema (map ev_id events)) (\<lambda>insertedEvent.
        case (updatedJob, insertedEvent) of
          (Some j, Some _) \<Rightarrow>
            res_bind (mapSummary j) (\<lambda>job.
              Inr (if jb_status j = CANCELLED then Cancel_cancelled job else Cancel_requested job))
        | (None, None) \<Rightarrow> Inr Cancel_invalid_state
        | _ \<Rightarrow> Inl (JsError ''Cancellation transition was only partially persisted''))))"

definition cancel_commit :: "action_input \<Rightarrow> cancel_context \<Rightarrow> cancel_result api" where
  "cancel_commit i c db =
     (case cancel_batch i c db of
        Inl e \<Rightarrow> (Inl e, db)
      | Inr (rows, db') \<Rightarrow> (cancel_answer rows, db'))"

definition requestJobCancellation :: "action_input \<Rightarrow> cancel_result api" where
  "requestJobCancellation i db =
     (case cancel_read i db of
        Inl e \<Rightarrow> (Inl e, db)
      | Inr (Answer r) \<Rightarrow> (Inr r, db)
      | Inr (Commit c) \<Rightarrow> cancel_commit i c db)"

section \<open>Deletion\<close>

datatype delete_result = Delete_deleted | Delete_invalid_state | Delete_not_found

record delete_context =
  dx_version :: nat
  dx_deleted_at :: "string option"
  dx_active_attempt_id :: "string option"
  dx_active_attempt_status :: "attempt_status option"
  dx_latest_capability_issued_at :: "string option"

definition deletion_context :: "action_input \<Rightarrow> d1 \<Rightarrow> delete_context option" where
  "deletion_context i db =
     map_option (\<lambda>j.
       \<lparr>dx_version = jb_version j, dx_deleted_at = jb_deleted_at j,
        dx_active_attempt_id = jb_active_attempt_id j,
        dx_active_attempt_status = map_option am_status (active_attempt db j),
        dx_latest_capability_issued_at =
          max_text (List.map_filter am_heartbeat_issued_at
            (filter (\<lambda>a. am_job_id a = jb_id j) (d1_attempts db)))\<rparr>)
       (find_job (\<lambda>j. jb_owner_sub j = ac_ownerSub i \<and> jb_id j = ac_jobId i) db)"

definition deletionContextRowSchema :: "delete_context \<Rightarrow> bool" where
  "deletionContextRowSchema c \<longleftrightarrow>
     nullable ulid_ok (dx_active_attempt_id c) \<and> nullable utc_datetime_ok (dx_deleted_at c) \<and>
     nullable utc_datetime_ok (dx_latest_capability_issued_at c) \<and> 0 < dx_version c"

definition request_deletion_active_attempt_sql ::
  "action_input \<Rightarrow> delete_context \<Rightarrow> attempt_row statement" where
  "request_deletion_active_attempt_sql i c db =
     update_attempts
       (\<lambda>a. dx_active_attempt_id c = Some (am_id a) \<and> am_job_id a = ac_jobId i \<and>
          dx_active_attempt_status c = Some (am_status a) \<and>
          am_status a \<in> set OPEN_ATTEMPT_STATUSES \<and>
          (\<exists>j \<in> set (d1_jobs db). owned (ac_ownerSub i) (ac_jobId i) j \<and>
             jb_version j = dx_version c \<and> jb_active_attempt_id j = Some (am_id a)))
       (\<lambda>a. a\<lparr>am_status := cancelled_attempt_status (am_status a),
          am_heartbeat_revoked_at :=
            (if am_heartbeat_token_hash a = None then None else Some (ac_timestamp i)),
          am_updated_at := ac_timestamp i\<rparr>) db"

definition mark_job_deleted_sql ::
  "action_input \<Rightarrow> delete_context \<Rightarrow> string \<Rightarrow> job_row statement" where
  "mark_job_deleted_sql i c deletionNotBefore db =
     update_jobs
       (\<lambda>j. owned (ac_ownerSub i) (ac_jobId i) j \<and> jb_version j = dx_version c \<and>
          (dx_active_attempt_id c = None \<or>
           (case dx_active_attempt_status c of
              None \<Rightarrow> False
            | Some s \<Rightarrow> s \<notin> set OPEN_ATTEMPT_STATUSES \<or>
                (\<exists>a \<in> set (d1_attempts db). dx_active_attempt_id c = Some (am_id a) \<and>
                   am_job_id a = ac_jobId i \<and> am_updated_at a = ac_timestamp i \<and>
                   am_status a = cancelled_attempt_status s))))
       (\<lambda>j. j\<lparr>jb_deleted_at := Some (ac_timestamp i),
          jb_deletion_not_before := Some deletionNotBefore,
          jb_deletion_next_attempt_at := Some (ac_timestamp i), jb_deletion_attempt_count := 0,
          jb_deletion_error_code := None, jb_updated_at := ac_timestamp i,
          jb_version := jb_version j + 1\<rparr>) db"

definition record_deletion_event_sql :: "action_input \<Rightarrow> event_row statement" where
  "record_deletion_event_sql i db =
     insert_event Conflict_do_nothing
       (map_option (\<lambda>j. user_event (ac_eventId i) j ''job_delete_requested'' ''user'' (ac_timestamp i))
         (find_job (\<lambda>j. jb_id j = ac_jobId i \<and> jb_owner_sub j = ac_ownerSub i \<and>
            jb_deleted_at j = Some (ac_timestamp i)) db)) db"

text \<open>The end of the read phase: an answer, or the context and the time objects must stay until.\<close>

datatype delete_phase = Delete_answer delete_result | Delete_commit delete_context string

definition delete_read :: "action_input \<Rightarrow> d1 \<Rightarrow> delete_phase result" where
  "delete_read i db =
     res_bind (zod_parse action_input_ok i) (\<lambda>i.
     case deletion_context i db of
       None \<Rightarrow> Inr (Delete_answer Delete_not_found)
     | Some c \<Rightarrow>
         res_bind (zod_parse deletionContextRowSchema c) (\<lambda>c.
         if dx_deleted_at c \<noteq> None then Inr (Delete_answer Delete_deleted)
         else if dx_active_attempt_id c \<noteq> None \<and> dx_active_attempt_status c = None then
           Inr (Delete_answer Delete_invalid_state)
         else res_bind (deletionNotBeforeMilliseconds (date_parse (ac_timestamp i))
                (map_option date_parse (dx_latest_capability_issued_at c)))
              (\<lambda>t. Inr (Delete_commit c (to_iso t)))))"

definition delete_batch ::
  "action_input \<Rightarrow> delete_context \<Rightarrow> string \<Rightarrow> d1
     \<Rightarrow> ((attempt_row list \<times> job_row list \<times> event_row list) \<times> d1) result" where
  "delete_batch i c deletionNotBefore =
     batch3 (request_deletion_active_attempt_sql i c) (mark_job_deleted_sql i c deletionNotBefore)
       (record_deletion_event_sql i)"

definition delete_answer ::
  "delete_context \<Rightarrow> attempt_row list \<times> job_row list \<times> event_row list \<Rightarrow> delete_result result" where
  "delete_answer c rows =
     (case rows of (attempts, jobs, events) \<Rightarrow>
        res_bind (updatedJobIdRowsSchema (map am_id attempts)) (\<lambda>updatedAttempt.
        res_bind (updatedJobIdRowsSchema (map jb_id jobs)) (\<lambda>updatedJob.
        res_bind (updatedJobIdRowsSchema (map ev_id events)) (\<lambda>insertedEvent.
        let activeAttemptUpdateRequired =
              dx_active_attempt_id c \<noteq> None \<and>
              (case dx_active_attempt_status c of None \<Rightarrow> False | Some s \<Rightarrow> s \<in> set OPEN_ATTEMPT_STATUSES)
        in if updatedJob \<noteq> None \<and> insertedEvent \<noteq> None
             \<and> (\<not> activeAttemptUpdateRequired \<or> updatedAttempt \<noteq> None)
           then Inr Delete_deleted
           else if updatedAttempt \<noteq> None \<or> updatedJob \<noteq> None \<or> insertedEvent \<noteq> None then
             Inl (JsError ''Deletion transition was only partially persisted'')
           else Inr Delete_invalid_state))))"

definition delete_commit :: "action_input \<Rightarrow> delete_context \<Rightarrow> string \<Rightarrow> delete_result api" where
  "delete_commit i c deletionNotBefore db =
     (case delete_batch i c deletionNotBefore db of
        Inl e \<Rightarrow> (Inl e, db)
      | Inr (rows, db') \<Rightarrow> (delete_answer c rows, db'))"

definition requestJobDeletion :: "action_input \<Rightarrow> delete_result api" where
  "requestJobDeletion i db =
     (case delete_read i db of
        Inl e \<Rightarrow> (Inl e, db)
      | Inr (Delete_answer r) \<Rightarrow> (Inr r, db)
      | Inr (Delete_commit c t) \<Rightarrow> delete_commit i c t db)"

section \<open>Completing an upload\<close>

record complete_input =
  co_eventId :: string
  co_expectedVersion :: nat
  co_jobId :: string
  co_ownerSub :: string
  co_sizeBytes :: nat
  co_sourceBucket :: string
  co_sourceEtag :: string
  co_sourceKey :: string
  co_timestamp :: string

datatype complete_result =
    Complete_completed job_summary | Complete_idempotent job_summary
  | Complete_source_mutated job_summary | Complete_invalid_state | Complete_not_found

definition etag_ok :: "string \<Rightarrow> bool" where
  "etag_ok e \<longleftrightarrow> 1 \<le> length e \<and> length e \<le> 512"

definition complete_input_ok :: "complete_input \<Rightarrow> bool" where
  "complete_input_ok i \<longleftrightarrow>
     utc_datetime_ok (co_timestamp i) \<and> etag_ok (co_sourceEtag i) \<and> file_size_ok (co_sizeBytes i)"

definition complete_upload_sql :: "complete_input \<Rightarrow> job_row statement" where
  "complete_upload_sql i =
     update_jobs
       (\<lambda>j. owned (co_ownerSub i) (co_jobId i) j \<and> jb_version j = co_expectedVersion i \<and>
          jb_expected_size_bytes j = co_sizeBytes i \<and> jb_source_bucket j = co_sourceBucket i \<and>
          jb_source_key j = co_sourceKey i \<and> jb_source_etag j = None \<and>
          jb_status j \<in> {CREATED, UPLOADING})
       (\<lambda>j. j\<lparr>jb_status := UPLOADED, jb_actual_size_bytes := Some (co_sizeBytes i),
          jb_source_etag := Some (co_sourceEtag i), jb_uploaded_at := Some (co_timestamp i),
          jb_updated_at := co_timestamp i, jb_version := jb_version j + 1\<rparr>)"

text \<open>
  The two statements of a source mutation, shared with the queue consumer, which does not test the
  owner: the attempt fails while the job still carries the version that was read, then the job.
\<close>

definition source_differs :: "job_row \<Rightarrow> string \<Rightarrow> bool" where
  "source_differs j etag \<longleftrightarrow> (case jb_source_etag j of None \<Rightarrow> False | Some e \<Rightarrow> e \<noteq> etag)"

definition fail_active_attempt_source_mutated_sql ::
  "(job_row \<Rightarrow> bool) \<Rightarrow> string \<Rightarrow> nat \<Rightarrow> string option \<Rightarrow> string \<Rightarrow> string \<Rightarrow> attempt_row statement" where
  "fail_active_attempt_source_mutated_sql owns jobId version activeAttemptId etag timestamp db =
     update_attempts
       (\<lambda>a. activeAttemptId = Some (am_id a) \<and> am_job_id a = jobId \<and>
          am_status a \<in> set OPEN_ATTEMPT_STATUSES \<and>
          (\<exists>j \<in> set (d1_jobs db). jb_id j = jobId \<and> owns j \<and> jb_version j = version \<and>
             jb_active_attempt_id j = Some (am_id a) \<and> source_differs j etag \<and>
             jb_status j \<in> set OPEN_JOB_STATUSES \<and> jb_deleted_at j = None))
       (\<lambda>a. a\<lparr>am_status := ATT_FAILED, am_error_code := Some PE_SOURCE_ETAG_CHANGED,
          am_error_message := None,
          am_heartbeat_revoked_at :=
            (if am_heartbeat_token_hash a = None then None else Some timestamp),
          am_failed_at := Some timestamp, am_updated_at := timestamp\<rparr>) db"

definition mark_source_mutated_sql ::
  "(job_row \<Rightarrow> bool) \<Rightarrow> string \<Rightarrow> nat \<Rightarrow> string \<Rightarrow> string \<Rightarrow> job_row statement" where
  "mark_source_mutated_sql owns jobId version etag timestamp =
     update_jobs
       (\<lambda>j. jb_id j = jobId \<and> owns j \<and> jb_version j = version \<and> source_differs j etag \<and>
          jb_status j \<in> set ACTIVE_JOB_STATUSES \<and> jb_deleted_at j = None)
       (\<lambda>j. j\<lparr>jb_status := SOURCE_MUTATED, jb_error_code := Some PE_SOURCE_ETAG_CHANGED,
          jb_error_message := None, jb_failed_at := Some timestamp, jb_updated_at := timestamp,
          jb_version := jb_version j + 1\<rparr>)"

definition record_source_mutated_event_sql ::
  "(job_row \<Rightarrow> bool) \<Rightarrow> string \<Rightarrow> string \<Rightarrow> string \<Rightarrow> string \<Rightarrow> event_row statement" where
  "record_source_mutated_event_sql owns eventId jobId actor timestamp db =
     insert_event Conflict_do_nothing
       (map_option (\<lambda>j. user_event eventId j ''source_mutated'' actor timestamp)
         (find_job (\<lambda>j. jb_id j = jobId \<and> owns j \<and> jb_status j = SOURCE_MUTATED \<and>
            jb_error_code j = Some PE_SOURCE_ETAG_CHANGED \<and> jb_updated_at j = timestamp) db)) db"

definition source_mutation_batch ::
  "(job_row \<Rightarrow> bool) \<Rightarrow> string \<Rightarrow> string \<Rightarrow> nat \<Rightarrow> string option \<Rightarrow> string \<Rightarrow> string \<Rightarrow> string
     \<Rightarrow> d1 \<Rightarrow> ((attempt_row list \<times> job_row list \<times> event_row list) \<times> d1) result" where
  "source_mutation_batch owns actor jobId version activeAttemptId etag eventId timestamp =
     batch3 (fail_active_attempt_source_mutated_sql owns jobId version activeAttemptId etag timestamp)
       (mark_source_mutated_sql owns jobId version etag timestamp)
       (record_source_mutated_event_sql owns eventId jobId actor timestamp)"

definition owned_by :: "string \<Rightarrow> job_row \<Rightarrow> bool" where
  "owned_by ownerSub j \<longleftrightarrow> jb_owner_sub j = ownerSub"

definition complete_mutation_batch ::
  "complete_input \<Rightarrow> string option \<Rightarrow> d1
     \<Rightarrow> ((attempt_row list \<times> job_row list \<times> event_row list) \<times> d1) result" where
  "complete_mutation_batch i activeAttemptId =
     source_mutation_batch (owned_by (co_ownerSub i)) ''web'' (co_jobId i) (co_expectedVersion i)
       activeAttemptId (co_sourceEtag i) (co_eventId i) (co_timestamp i)"

text \<open>
  What the three row lists mean, given whether an active attempt had to fail too: the mutated job,
  \<open>None\<close> when nothing changed.
\<close>

definition mutation_answer ::
  "(job_row \<Rightarrow> bool) \<Rightarrow> bool \<Rightarrow> attempt_row list \<times> job_row list \<times> event_row list
     \<Rightarrow> job_row option result" where
  "mutation_answer row_ok attemptRequired rows =
     (case rows of (attempts, jobs, events) \<Rightarrow>
        res_bind (updatedJobIdRowsSchema (map am_id attempts)) (\<lambda>updatedAttempt.
        res_bind (rows_max_one row_ok jobs) (\<lambda>mutated.
        res_bind (updatedJobIdRowsSchema (map ev_id events)) (\<lambda>insertedEvent.
        case mutated of
          None \<Rightarrow>
            if updatedAttempt \<noteq> None \<or> insertedEvent \<noteq> None then
              Inl (JsError ''Source mutation transition was only partially persisted'')
            else Inr None
        | Some j \<Rightarrow>
            if insertedEvent = None \<or> (attemptRequired \<and> updatedAttempt = None) then
              Inl (JsError ''Source mutation transition was only partially persisted'')
            else Inr (Some j)))))"

text \<open>After the first statement changed nothing: what the stored target says.\<close>

datatype complete_phase = Complete_answer complete_result | Complete_mutate upload_target

definition complete_read :: "complete_input \<Rightarrow> d1 \<Rightarrow> complete_phase result" where
  "complete_read i db =
     (case find_job (owned (co_ownerSub i) (co_jobId i)) db of
        None \<Rightarrow> Inr (Complete_answer Complete_not_found)
      | Some row \<Rightarrow>
          res_bind (zod_parse databaseUploadTargetRowSchema row) (\<lambda>row.
          let current = mapUploadTarget row in
          if ut_sourceBucket current \<noteq> co_sourceBucket i \<or> ut_sourceKey current \<noteq> co_sourceKey i
          then Inr (Complete_answer Complete_invalid_state)
          else if ut_sourceEtag current = Some (co_sourceEtag i)
            \<and> ut_actualSizeBytes current = Some (co_sizeBytes i)
            \<and> ut_status current \<noteq> SOURCE_MUTATED
          then res_bind (zod_parse databaseJobSummaryRowSchema row) (\<lambda>row.
               res_bind (mapSummary row) (\<lambda>job. Inr (Complete_answer (Complete_idempotent job))))
          else if ut_sourceEtag current = None \<or> ut_sourceEtag current = Some (co_sourceEtag i)
          then Inr (Complete_answer Complete_invalid_state)
          else if ut_version current \<noteq> co_expectedVersion i
          then Inr (Complete_answer Complete_invalid_state)
          else res_bind (zod_parse (\<lambda>_. ulid_ok (co_eventId i)) ()) (\<lambda>_.
               Inr (Complete_mutate current))))"

definition complete_mutate :: "complete_input \<Rightarrow> upload_target \<Rightarrow> complete_result api" where
  "complete_mutate i current db =
     (case complete_mutation_batch i (ut_activeAttemptId current) db of
        Inl e \<Rightarrow> (Inl e, db)
      | Inr (rows, db') \<Rightarrow>
          (res_bind (mutation_answer databaseJobSummaryRowSchema
             (ut_activeAttemptId current \<noteq> None \<and> ut_status current \<in> set OPEN_JOB_STATUSES) rows)
           (\<lambda>mutated. case mutated of
              None \<Rightarrow> Inr Complete_invalid_state
            | Some j \<Rightarrow> res_bind (mapSummary j) (\<lambda>job. Inr (Complete_source_mutated job))), db'))"

definition completeUpload :: "complete_input \<Rightarrow> complete_result api" where
  "completeUpload i db =
     (case res_bind (zod_parse complete_input_ok i) (\<lambda>i. complete_upload_sql i db) of
        Inl e \<Rightarrow> (Inl e, db)
      | Inr (rows, db') \<Rightarrow>
          (case updatedJobSummaryRowsSchema rows of
             Inl e \<Rightarrow> (Inl e, db')
           | Inr (Some row) \<Rightarrow> (res_bind (mapSummary row) (\<lambda>job. Inr (Complete_completed job)), db')
           | Inr None \<Rightarrow>
               (case complete_read i db' of
                  Inl e \<Rightarrow> (Inl e, db')
                | Inr (Complete_answer r) \<Rightarrow> (Inr r, db')
                | Inr (Complete_mutate current) \<Rightarrow> complete_mutate i current db')))"

end
