(* ===== verification/JobMoves.thy ===== *)
theory JobMoves
  imports JobMutations
begin

text \<open>
  The abstract specification of everything that happens to a job: a move replaces one row of jobs
  and keeps, changes or adds one row of job_attempts, under conditions that do not mention
  statements, versions read before or timestamps. The invariant of the two tables (keys, the active
  attempt, agreement of the two statuses) and the evolution of a job (its identity, version,
  entity tag, deletion and progress) are proved here once, for moves.
\<close>

section \<open>Statements with a key\<close>

lemma update_where_none: "\<forall>r \<in> set t. \<not> p r \<Longrightarrow> update_where p f t = t"
  by (induction t) (auto simp: update_where_def)

lemma set_update_where_id:
  assumes "distinct (map key t)" "r \<in> set t"
  shows "set (update_where (\<lambda>x. key x = key r) (\<lambda>_. r') t) = insert r' (set t - {r})"
  using assms
proof (induction t)
  case (Cons x t)
  show ?case
  proof (cases "x = r")
    case True
    then have others: "\<forall>y \<in> set t. key y \<noteq> key r"
      using Cons.prems(1) True by (auto simp: image_iff)
    then have "update_where (\<lambda>x. key x = key r) (\<lambda>_. r') t = t" by (rule update_where_none)
    moreover have "r \<notin> set t" using others by blast
    ultimately show ?thesis using True by (auto simp: update_where_def)
  next
    case False
    then have r: "r \<in> set t" using Cons.prems by simp
    then have "key x \<noteq> key r"
      using Cons.prems(1) r by (auto simp: image_iff)
    then have x: "x \<noteq> r" by blast
    have "set (update_where (\<lambda>x. key x = key r) (\<lambda>_. r') t) = insert r' (set t - {r})"
      using Cons.IH Cons.prems r by simp
    then show ?thesis using \<open>key x \<noteq> key r\<close> x by (auto simp: update_where_def)
  qed
qed simp

lemma map_key_update_where:
  "key r' = key r \<Longrightarrow> map key (update_where (\<lambda>x. key x = key r) (\<lambda>_. r') t) = map key t"
  by (induction t) (auto simp: update_where_def)

lemma map_update_where_keep:
  "(\<And>x. p x \<Longrightarrow> g (f x) = g x) \<Longrightarrow> map g (update_where p f t) = map g t"
  by (induction t) (auto simp: update_where_def)

lemma filter_key_cases:
  assumes "distinct (map key t)" "\<forall>r. p r \<longrightarrow> key r = k"
  obtains "\<forall>r \<in> set t. \<not> p r" "filter p t = []" "update_where p f t = t"
  | r where "r \<in> set t" "p r" "filter p t = [r]"
      "update_where p f t = update_where (\<lambda>x. key x = key r) (\<lambda>_. f r) t"
proof (cases "\<exists>r \<in> set t. p r")
  case False
  then show thesis using that(1) by (auto simp: update_where_none filter_empty_conv)
next
  case True
  then obtain r where r: "r \<in> set t" "p r" by blast
  have others: "x = r" if "x \<in> set t" "key x = key r" for x
    using that r(1) assms(1) by (metis distinct_map inj_onD)
  have p_iff: "p x \<longleftrightarrow> x = r" if "x \<in> set t" for x
    using that others r assms(2) by metis
  have "filter p t = filter (\<lambda>x. x = r) t" using p_iff by (intro filter_cong) auto
  moreover have "filter (\<lambda>x. x = r) t = [r]"
    using r(1) assms(1) by (induction t) (force simp: filter_empty_conv)+
  moreover have "update_where p f t = update_where (\<lambda>x. key x = key r) (\<lambda>_. f r) t"
    unfolding update_where_def using p_iff others by (intro map_cong) auto
  ultimately show thesis using that(2) r by auto
qed

lemma update_jobs_cases:
  assumes "update_jobs p f db = Inr (rows, db')"
    and "distinct (map jb_id (d1_jobs db))" "\<forall>j. p j \<longrightarrow> jb_id j = k"
  obtains "\<forall>j \<in> set (d1_jobs db). \<not> p j" "rows = []" "db' = db"
  | j where "j \<in> set (d1_jobs db)" "p j" "rows = [f j]" "job_checks (f j)"
      "db' = db\<lparr>d1_jobs := update_where (\<lambda>x. jb_id x = jb_id j) (\<lambda>_. f j) (d1_jobs db)\<rparr>"
  using assms(2,3)
proof (rule filter_key_cases [where p = p and f = f])
  assume "\<forall>r \<in> set (d1_jobs db). \<not> p r" "filter p (d1_jobs db) = []"
    "update_where p f (d1_jobs db) = d1_jobs db"
  then show thesis using that(1) assms(1) by (auto simp: update_jobs_def Let_def)
next
  fix r assume "r \<in> set (d1_jobs db)" "p r" "filter p (d1_jobs db) = [r]"
    "update_where p f (d1_jobs db) = update_where (\<lambda>x. jb_id x = jb_id r) (\<lambda>_. f r) (d1_jobs db)"
  then show thesis using that(2) assms(1) by (auto simp: update_jobs_def Let_def split: if_splits)
qed

lemma update_attempts_cases:
  assumes "update_attempts p f db = Inr (rows, db')"
    and "distinct (map am_id (d1_attempts db))" "\<forall>a. p a \<longrightarrow> am_id a = k"
  obtains "\<forall>a \<in> set (d1_attempts db). \<not> p a" "rows = []" "d1_jobs db' = d1_jobs db"
      "d1_attempts db' = d1_attempts db" "d1_events db' = d1_events db"
  | a where "a \<in> set (d1_attempts db)" "p a" "rows = [f a]" "d1_jobs db' = d1_jobs db"
      "d1_attempts db' = update_where (\<lambda>x. am_id x = am_id a) (\<lambda>_. f a) (d1_attempts db)"
      "d1_events db' = d1_events db" "winners_unique (d1_attempts db')"
  using assms(2,3)
proof (rule filter_key_cases [where p = p and f = f])
  assume "\<forall>r \<in> set (d1_attempts db). \<not> p r" "filter p (d1_attempts db) = []"
    "update_where p f (d1_attempts db) = d1_attempts db"
  then show thesis using that(1) assms(1) by (auto simp: update_attempts_def Let_def split: if_splits)
next
  fix r assume "r \<in> set (d1_attempts db)" "p r" "filter p (d1_attempts db) = [r]"
    "update_where p f (d1_attempts db)
      = update_where (\<lambda>x. am_id x = am_id r) (\<lambda>_. f r) (d1_attempts db)"
  then show thesis using that(2) assms(1) by (auto simp: update_attempts_def Let_def split: if_splits)
qed

lemma insert_event_tables:
  assumes "insert_event c e db = Inr (rows, db')"
  shows "d1_jobs db' = d1_jobs db" "d1_attempts db' = d1_attempts db"
    "d1_executions db' = d1_executions db" "d1_artifacts db' = d1_artifacts db"
  using assms by (auto simp: insert_event_def split: option.splits if_splits)

lemma find_Some_iff_key:
  assumes "distinct (map key t)" "\<And>r. p r \<Longrightarrow> key r = k"
  shows "find p t = Some r \<longleftrightarrow> r \<in> set t \<and> p r"
proof
  assume "find p t = Some r"
  then show "r \<in> set t \<and> p r" by (auto simp: find_Some_iff)
next
  assume r: "r \<in> set t \<and> p r"
  then obtain x where x: "find p t = Some x" by (cases "find p t") (auto simp: find_None_iff)
  then have "x \<in> set t" "p x" by (auto simp: find_Some_iff)
  then have "x = r" using r assms by (metis distinct_map inj_onD)
  with x show "find p t = Some r" by simp
qed

section \<open>The invariant\<close>

definition open_attempt :: "attempt_row \<Rightarrow> bool" where
  "open_attempt a \<longleftrightarrow> am_status a \<in> set OPEN_ATTEMPT_STATUSES"

text \<open>Keys are unique.\<close>

definition d1_keys :: "d1 \<Rightarrow> bool" where
  "d1_keys db \<longleftrightarrow>
     distinct (map jb_id (d1_jobs db)) \<and> distinct (map am_id (d1_attempts db)) \<and>
     distinct (map (\<lambda>a. (am_job_id a, am_generation a)) (d1_attempts db)) \<and>
     winners_unique (d1_attempts db)"

text \<open>The active attempt of a job exists and belongs to it.\<close>

definition active_attempts_exist :: "d1 \<Rightarrow> bool" where
  "active_attempts_exist db \<longleftrightarrow>
     (\<forall>j \<in> set (d1_jobs db). \<forall>a. jb_active_attempt_id j = Some a \<longrightarrow>
        (\<exists>r \<in> set (d1_attempts db). am_id r = a \<and> am_job_id r = jb_id j))"

text \<open>
  Every attempt belongs to a job, whose active attempt has the highest generation; an attempt that
  is still open is the active one.
\<close>

definition attempts_belong :: "d1 \<Rightarrow> bool" where
  "attempts_belong db \<longleftrightarrow>
     (\<forall>r \<in> set (d1_attempts db). \<exists>j \<in> set (d1_jobs db). \<exists>b \<in> set (d1_attempts db).
        jb_id j = am_job_id r \<and> am_job_id b = am_job_id r \<and> jb_active_attempt_id j = Some (am_id b) \<and>
        am_generation r \<le> am_generation b \<and> (open_attempt r \<longrightarrow> b = r))"

text \<open>
  While a job is not deleted: without an attempt it is not processed, with one it no longer waits
  for its upload, and job and active attempt have the same status when either is open.
\<close>

definition statuses_agree :: "d1 \<Rightarrow> bool" where
  "statuses_agree db \<longleftrightarrow>
     (\<forall>j \<in> set (d1_jobs db). jb_deleted_at j = None \<longrightarrow>
        (jb_active_attempt_id j = None \<longrightarrow> jb_status j \<notin> set OPEN_JOB_STATUSES) \<and>
        (\<forall>r \<in> set (d1_attempts db). jb_active_attempt_id j = Some (am_id r) \<longrightarrow>
           jb_status j \<notin> set UPLOAD_STATUSES \<and>
           (open_attempt r \<or> jb_status j \<in> set OPEN_JOB_STATUSES \<longrightarrow>
              jb_status j = job_status_of_attempt (am_status r))))"

text \<open>The attempts of a deleted job have ended, or are waiting for the end of their cancellation.\<close>

definition deleted_attempts_end :: "d1 \<Rightarrow> bool" where
  "deleted_attempts_end db \<longleftrightarrow>
     (\<forall>j \<in> set (d1_jobs db). \<forall>r \<in> set (d1_attempts db).
        jb_deleted_at j \<noteq> None \<and> am_job_id r = jb_id j \<longrightarrow>
        am_status r \<notin> set CANCELLABLE_ATTEMPT_STATUSES)"

text \<open>At most one attempt of the whole system occupies a GPU.\<close>

definition IN_FLIGHT_STATUSES :: "attempt_status list" where
  "IN_FLIGHT_STATUSES = [ATT_SUBMITTING, ATT_RUNNING, ATT_CANCEL_REQUESTED]"

definition in_flight :: "attempt_row \<Rightarrow> bool" where
  "in_flight a \<longleftrightarrow> am_status a \<in> set IN_FLIGHT_STATUSES"

definition single_flight :: "d1 \<Rightarrow> bool" where
  "single_flight db \<longleftrightarrow>
     (\<forall>a \<in> set (d1_attempts db). \<forall>b \<in> set (d1_attempts db). in_flight a \<and> in_flight b \<longrightarrow> a = b)"

text \<open>A job whose active attempt was rejected is no longer being processed, deleted or not.\<close>

definition rejected_attempts_end :: "d1 \<Rightarrow> bool" where
  "rejected_attempts_end db \<longleftrightarrow>
     (\<forall>j \<in> set (d1_jobs db). \<forall>a \<in> set (d1_attempts db).
        jb_active_attempt_id j = Some (am_id a) \<and> am_submission_outcome a = Some ''rejected'' \<longrightarrow>
        jb_status j \<notin> set OPEN_JOB_STATUSES)"

definition d1_inv :: "d1 \<Rightarrow> bool" where
  "d1_inv db \<longleftrightarrow> d1_keys db \<and> active_attempts_exist db \<and> attempts_belong db \<and> statuses_agree db \<and>
     deleted_attempts_end db \<and> single_flight db \<and> rejected_attempts_end db"

lemma d1_inv_empty: "d1_inv empty_d1"
  by (simp add: d1_inv_def d1_keys_def winners_unique_def active_attempts_exist_def attempts_belong_def
      statuses_agree_def deleted_attempts_end_def single_flight_def rejected_attempts_end_def empty_d1_def)

lemma job_unique:
  assumes "d1_keys db" "j \<in> set (d1_jobs db)" "k \<in> set (d1_jobs db)" "jb_id j = jb_id k"
  shows "j = k"
  using assms unfolding d1_keys_def distinct_map by (blast dest: inj_onD)

lemma attempt_unique:
  assumes "d1_keys db" "a \<in> set (d1_attempts db)" "b \<in> set (d1_attempts db)" "am_id a = am_id b"
  shows "a = b"
  using assms unfolding d1_keys_def distinct_map by (blast dest: inj_onD)

lemma find_job_Some_iff:
  assumes "d1_keys db" "\<And>j. p j \<Longrightarrow> jb_id j = k"
  shows "find_job p db = Some j \<longleftrightarrow> j \<in> set (d1_jobs db) \<and> p j"
  unfolding find_job_def
  by (rule find_Some_iff_key [where key = jb_id and k = k]) (use assms in \<open>auto simp: d1_keys_def\<close>)

lemma find_attempt_Some_iff:
  assumes "d1_keys db" "\<And>a. p a \<Longrightarrow> am_id a = k"
  shows "find_attempt p db = Some a \<longleftrightarrow> a \<in> set (d1_attempts db) \<and> p a"
  unfolding find_attempt_def
  by (rule find_Some_iff_key [where key = am_id and k = k]) (use assms in \<open>auto simp: d1_keys_def\<close>)

lemma active_attempt_Some_iff:
  "d1_keys db \<Longrightarrow> active_attempt db j = Some a \<longleftrightarrow>
   a \<in> set (d1_attempts db) \<and> jb_active_attempt_id j = Some (am_id a)"
  by (auto simp: active_attempt_def find_attempt_Some_iff [where k = "the (jb_active_attempt_id j)"]
      split: option.splits)

section \<open>Moves\<close>

definition same_identity :: "job_row \<Rightarrow> job_row \<Rightarrow> bool" where
  "same_identity j j' \<longleftrightarrow>
     jb_id j' = jb_id j \<and> jb_owner_sub j' = jb_owner_sub j \<and> jb_owner_email j' = jb_owner_email j \<and>
     jb_title j' = jb_title j \<and> jb_original_filename j' = jb_original_filename j \<and>
     jb_source_bucket j' = jb_source_bucket j \<and> jb_source_key j' = jb_source_key j \<and>
     jb_source_content_type j' = jb_source_content_type j \<and>
     jb_expected_size_bytes j' = jb_expected_size_bytes j \<and> jb_options j' = jb_options j \<and>
     jb_created_at j' = jb_created_at j"

text \<open>
  How an attempt develops: it keeps its identity and its provider; once its claim has been issued,
  consumed or won, that stays so; it never returns to an earlier status; and without a provider it
  is never submitted.
\<close>

fun attempt_rank :: "attempt_status \<Rightarrow> nat" where
  "attempt_rank ATT_SUBMISSION_PENDING = 0"
| "attempt_rank ATT_SUBMITTING = 1"
| "attempt_rank ATT_RUNNING = 2"
| "attempt_rank ATT_CANCEL_REQUESTED = 3"
| "attempt_rank _ = 4"

definition stays :: "'a option \<Rightarrow> 'a option \<Rightarrow> bool" where
  "stays x y \<longleftrightarrow> x = None \<or> y = x"

definition attempt_evolves :: "attempt_row \<Rightarrow> attempt_row \<Rightarrow> bool" where
  "attempt_evolves a a' \<longleftrightarrow>
     am_id a' = am_id a \<and> am_job_id a' = am_job_id a \<and> am_generation a' = am_generation a \<and>
     am_result_prefix a' = am_result_prefix a \<and> am_provider_kind a' = am_provider_kind a \<and>
     am_provider_policy a' = am_provider_policy a \<and> am_contract_version a' = am_contract_version a \<and>
     am_execution_options a' = am_execution_options a \<and>
     stays (am_claim_token_hash a) (am_claim_token_hash a') \<and>
     stays (am_claim_consumed_at a) (am_claim_consumed_at a') \<and>
     stays (am_winning_runpod_job_id a) (am_winning_runpod_job_id a') \<and>
     stays (am_runpod_terminal_status a) (am_runpod_terminal_status a') \<and>
     (am_runpod_terminal_status a \<noteq> None \<longrightarrow> am_runpod_terminal_job_id a' = am_runpod_terminal_job_id a) \<and>
     attempt_rank (am_status a) \<le> attempt_rank (am_status a') \<and>
     (\<not> open_attempt a \<longrightarrow> am_status a' = am_status a) \<and>
     (am_provider_kind a = None \<and> \<not> in_flight a \<longrightarrow> \<not> in_flight a')"

lemma stays_refl [simp]: "stays x x" "stays None x"
  by (simp_all add: stays_def)

lemma stays_trans: "stays x y \<Longrightarrow> stays y z \<Longrightarrow> stays x z"
  by (auto simp: stays_def)

lemma attempt_evolves_refl: "attempt_evolves a a"
  by (simp add: attempt_evolves_def)

lemma attempt_evolves_trans:
  assumes "attempt_evolves a b" "attempt_evolves b c"
  shows "attempt_evolves a c"
proof -
  have "open_attempt a \<longleftrightarrow> open_attempt b" if "am_status b = am_status a"
    using that by (simp add: open_attempt_def)
  moreover have "am_runpod_terminal_status b \<noteq> None" if "am_runpod_terminal_status a \<noteq> None"
    using that assms(1) by (auto simp: attempt_evolves_def stays_def)
  ultimately show ?thesis
    using assms stays_trans unfolding attempt_evolves_def by (smt (verit) le_trans)
qed

datatype attempt_change =
    Same_attempts
  | Changed_attempt attempt_row attempt_row
  | Added_attempt attempt_row

definition changed_attempts :: "attempt_change \<Rightarrow> attempt_row list \<Rightarrow> attempt_row list" where
  "changed_attempts c t =
     (case c of
        Same_attempts \<Rightarrow> t
      | Changed_attempt a a' \<Rightarrow> update_where (\<lambda>x. am_id x = am_id a) (\<lambda>_. a') t
      | Added_attempt a \<Rightarrow> t @ [a])"

definition job_moved :: "d1 \<Rightarrow> job_row \<Rightarrow> job_row \<Rightarrow> attempt_change \<Rightarrow> d1 \<Rightarrow> bool" where
  "job_moved db j j' c db' \<longleftrightarrow>
     j \<in> set (d1_jobs db) \<and>
     d1_jobs db' = update_where (\<lambda>x. jb_id x = jb_id j) (\<lambda>_. j') (d1_jobs db) \<and>
     d1_attempts db' = changed_attempts c (d1_attempts db) \<and> winners_unique (d1_attempts db')"

text \<open>The moves of a job that waits for its upload.\<close>

fun upload_move :: "job_status \<Rightarrow> job_status \<Rightarrow> bool" where
  "upload_move CREATED t \<longleftrightarrow> t \<in> {UPLOADING, UPLOADED, FAILED, CANCELLED, EXPIRED, SOURCE_MUTATED}"
| "upload_move UPLOADING t \<longleftrightarrow> t \<in> {UPLOADED, FAILED, CANCELLED, EXPIRED, SOURCE_MUTATED}"
| "upload_move UPLOADED t \<longleftrightarrow> t \<in> {FAILED, CANCELLED, SOURCE_MUTATED}"
| "upload_move _ t \<longleftrightarrow> False"

definition keeps_attempts :: "d1 \<Rightarrow> job_row \<Rightarrow> job_row \<Rightarrow> bool" where
  "keeps_attempts db j j' \<longleftrightarrow>
     jb_active_attempt_id j' = jb_active_attempt_id j \<and>
     (if jb_deleted_at j' = None
      then jb_active_attempt_id j = None \<and> upload_move (jb_status j) (jb_status j')
      else jb_status j' = jb_status j \<and>
        (\<forall>a \<in> set (d1_attempts db). am_job_id a = jb_id j \<longrightarrow>
           am_status a \<notin> set CANCELLABLE_ATTEMPT_STATUSES))"

text \<open>The rank of a status within the work on one attempt, and its agreement with the attempt's.\<close>

fun status_rank :: "job_status \<Rightarrow> nat" where
  "status_rank CREATED = 0"
| "status_rank UPLOADING = 1"
| "status_rank UPLOADED = 2"
| "status_rank SUBMISSION_PENDING = 3"
| "status_rank SUBMITTING = 4"
| "status_rank RUNNING = 5"
| "status_rank CANCEL_REQUESTED = 6"
| "status_rank _ = 7"

definition agrees :: "job_row \<Rightarrow> attempt_row \<Rightarrow> bool" where
  "agrees j r \<longleftrightarrow> jb_status j \<notin> set UPLOAD_STATUSES \<and>
     (open_attempt r \<or> jb_status j \<in> set OPEN_JOB_STATUSES \<longrightarrow>
        jb_status j = job_status_of_attempt (am_status r))"

text \<open>A change of an attempt that occupies no GPU starts to occupy it only when none else does.\<close>

definition flight_allowed :: "d1 \<Rightarrow> attempt_row \<Rightarrow> attempt_row \<Rightarrow> bool" where
  "flight_allowed db a a' \<longleftrightarrow>
     (in_flight a' \<longrightarrow> in_flight a \<or> (\<forall>b \<in> set (d1_attempts db). in_flight b \<longrightarrow> b = a))"

definition newly_rejected :: "attempt_row \<Rightarrow> attempt_row \<Rightarrow> bool" where
  "newly_rejected a a' \<longleftrightarrow>
     am_submission_outcome a' = Some ''rejected'' \<and> am_submission_outcome a \<noteq> Some ''rejected''"

definition changes_attempt :: "d1 \<Rightarrow> job_row \<Rightarrow> job_row \<Rightarrow> attempt_row \<Rightarrow> attempt_row \<Rightarrow> bool" where
  "changes_attempt db j j' a a' \<longleftrightarrow>
     a \<in> set (d1_attempts db) \<and> open_attempt a \<and> am_job_id a = jb_id j \<and>
     jb_active_attempt_id j = Some (am_id a) \<and> jb_active_attempt_id j' = jb_active_attempt_id j \<and>
     attempt_evolves a a' \<and> flight_allowed db a a' \<and>
     (newly_rejected a a' \<longrightarrow> jb_status j' \<notin> set OPEN_JOB_STATUSES) \<and>
     (if jb_deleted_at j' \<noteq> None
      then jb_status j' = jb_status j \<and> am_status a' \<notin> set CANCELLABLE_ATTEMPT_STATUSES
      else agrees j' a' \<and> status_rank (jb_status j) < status_rank (jb_status j'))"

definition adds_attempt :: "d1 \<Rightarrow> job_row \<Rightarrow> job_row \<Rightarrow> attempt_row \<Rightarrow> bool" where
  "adds_attempt db j j' a \<longleftrightarrow>
     am_id a \<notin> am_id ` set (d1_attempts db) \<and> am_job_id a = jb_id j \<and>
     am_status a = ATT_SUBMISSION_PENDING \<and> am_submission_outcome a = None \<and>
     jb_active_attempt_id j' = Some (am_id a) \<and>
     jb_status j' = SUBMISSION_PENDING \<and> jb_deleted_at j' = None \<and>
     ((jb_active_attempt_id j = None \<and> jb_status j \<in> set UPLOAD_STATUSES \<and> am_generation a = 1) \<or>
      (jb_status j = FAILED \<and> (\<exists>b \<in> set (d1_attempts db). jb_active_attempt_id j = Some (am_id b) \<and>
         am_generation a = am_generation b + 1)))"

definition legal_move :: "d1 \<Rightarrow> job_row \<Rightarrow> job_row \<Rightarrow> attempt_change \<Rightarrow> bool" where
  "legal_move db j j' c \<longleftrightarrow>
     jb_deleted_at j = None \<and> jb_version j' = jb_version j + 1 \<and> same_identity j j' \<and>
     (jb_source_etag j = None \<or> jb_source_etag j' = jb_source_etag j) \<and>
     (case c of
        Same_attempts \<Rightarrow> keeps_attempts db j j'
      | Changed_attempt a a' \<Rightarrow> changes_attempt db j j' a a'
      | Added_attempt a \<Rightarrow> adds_attempt db j j' a)"

lemmas changes_attempt_defs = changes_attempt_def attempt_evolves_def

section \<open>A legal move keeps the invariant\<close>

lemma update_where_key:
  assumes "distinct (map key t)" "r \<in> set t"
  shows "update_where (\<lambda>x. key x = key r) (\<lambda>_. r') t = map (\<lambda>x. if x = r then r' else x) t"
  unfolding update_where_def
proof (rule map_cong [OF refl])
  fix x assume "x \<in> set t"
  then have "key x = key r \<longleftrightarrow> x = r" using assms by (auto simp: distinct_map dest: inj_onD)
  then show "(if key x = key r then r' else x) = (if x = r then r' else x)" by simp
qed

lemma moved_jobs:
  assumes "d1_keys db" "job_moved db j j' c db'"
  shows "set (d1_jobs db') = insert j' (set (d1_jobs db) - {j})"
    and "jb_id j' = jb_id j \<Longrightarrow> map jb_id (d1_jobs db') = map jb_id (d1_jobs db)"
  using assms by (auto simp: job_moved_def d1_keys_def set_update_where_id map_key_update_where)

lemma changed_attempts_map:
  assumes "d1_keys db" "a \<in> set (d1_attempts db)"
  shows "changed_attempts (Changed_attempt a a') (d1_attempts db)
           = map (\<lambda>x. if x = a then a' else x) (d1_attempts db)"
  using assms by (simp add: changed_attempts_def d1_keys_def update_where_key)

lemma changed_attempts_set:
  assumes "d1_keys db" "a \<in> set (d1_attempts db)"
  shows "set (changed_attempts (Changed_attempt a a') (d1_attempts db))
           = insert a' (set (d1_attempts db) - {a})"
  using assms by (simp add: changed_attempts_def d1_keys_def set_update_where_id)

lemma changed_attempts_simps [simp]:
  "changed_attempts Same_attempts t = t" "changed_attempts (Added_attempt a) t = t @ [a]"
  by (simp_all add: changed_attempts_def)

text \<open>The job of an attempt and its active attempt, for a database that satisfies the invariant.\<close>

lemma attempt_jobE:
  assumes "d1_inv db" "r \<in> set (d1_attempts db)" "j \<in> set (d1_jobs db)" "am_job_id r = jb_id j"
  obtains b where "b \<in> set (d1_attempts db)" "am_job_id b = jb_id j"
    "jb_active_attempt_id j = Some (am_id b)" "am_generation r \<le> am_generation b"
    "open_attempt r \<longrightarrow> b = r"
proof -
  obtain k b where "k \<in> set (d1_jobs db)" "b \<in> set (d1_attempts db)" "jb_id k = am_job_id r"
    "am_job_id b = am_job_id r" "jb_active_attempt_id k = Some (am_id b)"
    "am_generation r \<le> am_generation b" "open_attempt r \<longrightarrow> b = r"
    using assms(1,2) unfolding d1_inv_def attempts_belong_def by meson
  moreover have "k = j"
    using calculation assms by (auto simp: d1_inv_def intro: job_unique)
  ultimately show thesis using that assms(4) by metis
qed

lemma no_attempt_without_active:
  assumes "d1_inv db" "j \<in> set (d1_jobs db)" "jb_active_attempt_id j = None"
    "r \<in> set (d1_attempts db)"
  shows "am_job_id r \<noteq> jb_id j"
  using attempt_jobE [OF assms(1,4,2)] assms(3) by (metis option.distinct(1))

lemma moved_keys:
  assumes inv: "d1_inv db" and moved: "job_moved db j j' c db'" and legal: "legal_move db j j' c"
  shows "d1_keys db'"
proof -
  have keys: "d1_keys db" using inv by (simp add: d1_inv_def)
  have j: "j \<in> set (d1_jobs db)" using moved by (simp add: job_moved_def)
  have jobs: "distinct (map jb_id (d1_jobs db'))"
    using moved_jobs(2) [OF keys moved] legal keys
    by (simp add: legal_move_def same_identity_def d1_keys_def)
  have attempts: "d1_attempts db' = changed_attempts c (d1_attempts db)"
    and winners: "winners_unique (d1_attempts db')"
    using moved unfolding job_moved_def by blast+
  show ?thesis
  proof (cases c)
    case Same_attempts
    then show ?thesis using jobs attempts keys by (simp add: d1_keys_def)
  next
    case (Changed_attempt a a')
    then have ch: "changes_attempt db j j' a a'" using legal by (simp add: legal_move_def)
    then have a: "a \<in> set (d1_attempts db)" by (simp add: changes_attempt_defs)
    have same: "am_id a' = am_id a" "(am_job_id a', am_generation a') = (am_job_id a, am_generation a)"
      using ch by (simp_all add: changes_attempt_defs)
    have "map am_id (d1_attempts db') = map am_id (d1_attempts db)"
      "map (\<lambda>a. (am_job_id a, am_generation a)) (d1_attempts db')
         = map (\<lambda>a. (am_job_id a, am_generation a)) (d1_attempts db)"
      unfolding attempts Changed_attempt changed_attempts_map [OF keys a] map_map o_def
      using same by (auto intro: map_cong)
    then show ?thesis using jobs keys winners by (simp add: d1_keys_def)
  next
    case (Added_attempt a)
    then have add: "adds_attempt db j j' a" using legal by (simp add: legal_move_def)
    have "am_generation r \<noteq> am_generation a"
      if r: "r \<in> set (d1_attempts db)" "am_job_id r = jb_id j" for r
    proof -
      obtain b where b: "b \<in> set (d1_attempts db)" "jb_active_attempt_id j = Some (am_id b)"
        "am_generation r \<le> am_generation b"
        by (rule attempt_jobE [OF inv r(1) j r(2)])
      have "\<exists>b' \<in> set (d1_attempts db). am_id b' = am_id b \<and> am_generation a = am_generation b' + 1"
        using add b(2) by (simp add: adds_attempt_def) metis
      then obtain b' where "b' \<in> set (d1_attempts db)" "am_id b' = am_id b"
        "am_generation a = am_generation b' + 1" by blast
      moreover have "b' = b" using attempt_unique [OF keys _ b(1)] calculation by blast
      ultimately show ?thesis using b(3) by simp
    qed
    note fresh = this
    have job: "am_job_id a = jb_id j" using add by (simp add: adds_attempt_def)
    have "(am_job_id a, am_generation a) \<notin> (\<lambda>r. (am_job_id r, am_generation r)) ` set (d1_attempts db)"
    proof
      assume "(am_job_id a, am_generation a) \<in> (\<lambda>r. (am_job_id r, am_generation r)) ` set (d1_attempts db)"
      then obtain r where "r \<in> set (d1_attempts db)" "am_job_id r = am_job_id a"
        "am_generation r = am_generation a" by auto
      then show False using fresh [of r] job by simp
    qed
    moreover have "am_id a \<notin> am_id ` set (d1_attempts db)" using add by (simp add: adds_attempt_def)
    ultimately show ?thesis using jobs keys winners
      by (simp add: d1_keys_def attempts Added_attempt)
  qed
qed

text \<open>What a legal move does to the sets of rows.\<close>

lemma moved_sets:
  assumes inv: "d1_inv db" and moved: "job_moved db j j' c db'" and legal: "legal_move db j j' c"
  shows "set (d1_jobs db') = insert j' (set (d1_jobs db) - {j})" "jb_id j' = jb_id j"
    "j \<in> set (d1_jobs db)"
    "set (d1_attempts db') = (case c of
       Same_attempts \<Rightarrow> set (d1_attempts db)
     | Changed_attempt a a' \<Rightarrow> insert a' (set (d1_attempts db) - {a})
     | Added_attempt a \<Rightarrow> insert a (set (d1_attempts db)))"
proof -
  have keys: "d1_keys db" using inv by (simp add: d1_inv_def)
  show "set (d1_jobs db') = insert j' (set (d1_jobs db) - {j})" by (rule moved_jobs(1) [OF keys moved])
  show "jb_id j' = jb_id j" using legal by (simp add: legal_move_def same_identity_def)
  show "j \<in> set (d1_jobs db)" using moved by (simp add: job_moved_def)
  show "set (d1_attempts db') = (case c of
       Same_attempts \<Rightarrow> set (d1_attempts db)
     | Changed_attempt a a' \<Rightarrow> insert a' (set (d1_attempts db) - {a})
     | Added_attempt a \<Rightarrow> insert a (set (d1_attempts db)))"
    using moved legal keys
    by (cases c) (simp_all add: job_moved_def legal_move_def changes_attempt_defs changed_attempts_set)
qed

lemma map_filter_map_cong: "map f xs = map f ys \<Longrightarrow> List.map_filter f xs = List.map_filter f ys"
proof (induction xs arbitrary: ys)
  case (Cons x xs)
  then obtain y ys' where "ys = y # ys'" by (cases ys) auto
  then show ?case using Cons by (auto split: option.splits)
qed simp

lemma winners_unique_update:
  assumes "\<And>x. p x \<Longrightarrow> am_winning_runpod_job_id (f x) = am_winning_runpod_job_id x"
  shows "winners_unique (update_where p f t) \<longleftrightarrow> winners_unique t"
proof -
  have "map am_winning_runpod_job_id (update_where p f t) = map am_winning_runpod_job_id t"
    by (rule map_update_where_keep) (rule assms)
  then have "List.map_filter am_winning_runpod_job_id (update_where p f t)
      = List.map_filter am_winning_runpod_job_id t"
    by (rule map_filter_map_cong)
  then show ?thesis by (simp add: winners_unique_def)
qed

text \<open>Attempts never disappear and keep their identifier, job and generation.\<close>

lemma moved_attempt_kept:
  assumes "d1_inv db" "job_moved db j j' c db'" "legal_move db j j' c" "r \<in> set (d1_attempts db)"
  obtains r' where "r' \<in> set (d1_attempts db')" "am_id r' = am_id r" "am_job_id r' = am_job_id r"
    "am_generation r' = am_generation r"
proof (cases "r \<in> set (d1_attempts db')")
  case False
  then obtain a' where "c = Changed_attempt r a'"
    using moved_sets(4) [OF assms(1-3)] assms(4) by (cases c) auto
  then show thesis
    using that [of a'] moved_sets(4) [OF assms(1-3)] assms(3)
    by (auto simp: legal_move_def changes_attempt_defs)
qed (use that in blast)

lemma open_status_of_attempt:
  "open_attempt r \<Longrightarrow> job_status_of_attempt (am_status r) \<in> set OPEN_JOB_STATUSES"
  by (cases "am_status r")
    (auto simp: open_attempt_def OPEN_ATTEMPT_STATUSES_def OPEN_JOB_STATUSES_def)

lemma agreeD:
  assumes "d1_inv db" "j \<in> set (d1_jobs db)" "jb_deleted_at j = None" "r \<in> set (d1_attempts db)"
    "jb_active_attempt_id j = Some (am_id r)" "open_attempt r \<or> jb_status j \<in> set OPEN_JOB_STATUSES"
  shows "jb_status j = job_status_of_attempt (am_status r)"
  using assms unfolding d1_inv_def statuses_agree_def by blast

lemma moved_active_attempts_exist:
  assumes inv: "d1_inv db" and moved: "job_moved db j j' c db'" and legal: "legal_move db j j' c"
  shows "active_attempts_exist db'"
  unfolding active_attempts_exist_def
proof (intro ballI allI impI)
  note sets = moved_sets [OF inv moved legal]
  have old: "\<exists>r \<in> set (d1_attempts db'). am_id r = x \<and> am_job_id r = jb_id k"
    if kx: "k \<in> set (d1_jobs db)" "jb_active_attempt_id k = Some x" for k x
  proof -
    obtain r where "r \<in> set (d1_attempts db)" "am_id r = x" "am_job_id r = jb_id k"
      using kx inv unfolding d1_inv_def active_attempts_exist_def by blast
    then show ?thesis using moved_attempt_kept [OF inv moved legal, of r] by auto
  qed
  fix k x assume k: "k \<in> set (d1_jobs db')" "jb_active_attempt_id k = Some x"
  show "\<exists>r \<in> set (d1_attempts db'). am_id r = x \<and> am_job_id r = jb_id k"
  proof (cases "k = j'")
    case False
    then show ?thesis using old [of k x] k sets(1) by blast
  next
    case True
    show ?thesis
    proof (cases "jb_active_attempt_id j' = jb_active_attempt_id j")
      case True
      then show ?thesis using old [of j x] k sets(2,3) \<open>k = j'\<close> by simp
    next
      case False
      then have "\<exists>a. c = Added_attempt a \<and> adds_attempt db j j' a"
        using legal by (cases c) (simp_all add: legal_move_def keeps_attempts_def changes_attempt_defs)
      then obtain a where a: "c = Added_attempt a" "adds_attempt db j j' a" by blast
      then have "a \<in> set (d1_attempts db')" using sets(4) by simp
      then show ?thesis using k sets(2) \<open>k = j'\<close> a(2) by (auto simp: adds_attempt_def)
    qed
  qed
qed

text \<open>The attempts of the other jobs do not notice.\<close>

definition has_active_attempt :: "d1 \<Rightarrow> attempt_row \<Rightarrow> bool" where
  "has_active_attempt db r \<longleftrightarrow> (\<exists>j \<in> set (d1_jobs db). \<exists>b \<in> set (d1_attempts db).
     jb_id j = am_job_id r \<and> am_job_id b = am_job_id r \<and> jb_active_attempt_id j = Some (am_id b) \<and>
     am_generation r \<le> am_generation b \<and> (open_attempt r \<longrightarrow> b = r))"

lemma attempts_belong_iff: "attempts_belong db \<longleftrightarrow> (\<forall>r \<in> set (d1_attempts db). has_active_attempt db r)"
  by (simp add: attempts_belong_def has_active_attempt_def)

lemma has_active_attemptI:
  assumes "j \<in> set (d1_jobs db)" "b \<in> set (d1_attempts db)" "jb_id j = am_job_id r"
    "am_job_id b = am_job_id r" "jb_active_attempt_id j = Some (am_id b)"
    "am_generation r \<le> am_generation b" "open_attempt r \<longrightarrow> b = r"
  shows "has_active_attempt db r"
  using assms by (auto simp: has_active_attempt_def)

lemma has_active_attempt_other:
  assumes inv: "d1_inv db" and moved: "job_moved db j j' c db'" and legal: "legal_move db j j' c"
    and r: "r \<in> set (d1_attempts db)" "am_job_id r \<noteq> jb_id j"
  shows "has_active_attempt db' r"
proof -
  note sets = moved_sets [OF inv moved legal]
  obtain k b where kb: "k \<in> set (d1_jobs db)" "b \<in> set (d1_attempts db)" "jb_id k = am_job_id r"
    "am_job_id b = am_job_id r" "jb_active_attempt_id k = Some (am_id b)"
    "am_generation r \<le> am_generation b" "open_attempt r \<longrightarrow> b = r"
    using inv r(1) unfolding d1_inv_def attempts_belong_def by meson
  have "k \<noteq> j" using kb(3) r(2) by auto
  then have k: "k \<in> set (d1_jobs db')" using kb(1) sets(1) by blast
  have "b \<in> set (d1_attempts db')"
  proof (cases c)
    case (Changed_attempt a a')
    then have "am_job_id a = jb_id j" using legal by (simp add: legal_move_def changes_attempt_defs)
    then have "b \<noteq> a" using kb(4) r(2) by auto
    then show ?thesis using kb(2) sets(4) Changed_attempt by simp
  qed (use kb(2) sets(4) in simp_all)
  then show ?thesis using k kb(3-7) by (intro has_active_attemptI)
qed

lemma same_attempts_belong:
  assumes inv: "d1_inv db" and moved: "job_moved db j j' Same_attempts db'"
    and legal: "legal_move db j j' Same_attempts"
    and r: "r \<in> set (d1_attempts db')" "am_job_id r = jb_id j"
  shows "has_active_attempt db' r"
proof -
  note sets = moved_sets [OF inv moved legal]
  have active: "jb_active_attempt_id j' = jb_active_attempt_id j"
    using legal by (simp add: legal_move_def keeps_attempts_def)
  have rA: "r \<in> set (d1_attempts db)" using r sets(4) by simp
  obtain b where "b \<in> set (d1_attempts db)" "am_job_id b = jb_id j"
    "jb_active_attempt_id j = Some (am_id b)" "am_generation r \<le> am_generation b"
    "open_attempt r \<longrightarrow> b = r" using attempt_jobE [OF inv rA sets(3) r(2)] by metis
  then show ?thesis using sets active r(2) by (intro has_active_attemptI [of j' _ b]) simp_all
qed

lemma changed_attempts_belong:
  assumes inv: "d1_inv db" and moved: "job_moved db j j' (Changed_attempt a a') db'"
    and legal: "legal_move db j j' (Changed_attempt a a')"
    and r: "r \<in> set (d1_attempts db')" "am_job_id r = jb_id j"
  shows "has_active_attempt db' r"
proof -
  note sets = moved_sets [OF inv moved legal]
  have keys: "d1_keys db" using inv by (simp add: d1_inv_def)
  have ch: "changes_attempt db j j' a a'" using legal by (simp add: legal_move_def)
  then have a: "a \<in> set (d1_attempts db)" "am_job_id a = jb_id j"
      "jb_active_attempt_id j = Some (am_id a)"
    and a': "am_id a' = am_id a" "am_job_id a' = am_job_id a" "am_generation a' = am_generation a"
      "jb_active_attempt_id j' = jb_active_attempt_id j" by (simp_all add: changes_attempt_defs)
  show ?thesis
  proof (cases "r = a'")
    case True
    then show ?thesis using a a' sets by (intro has_active_attemptI [of j' _ a']) simp_all
  next
    case False
    then have rA: "r \<in> set (d1_attempts db)" "r \<noteq> a" using r sets(4) by simp_all
    then obtain b where b: "b \<in> set (d1_attempts db)" "jb_active_attempt_id j = Some (am_id b)"
      "am_generation r \<le> am_generation b" "open_attempt r \<longrightarrow> b = r"
      using attempt_jobE [OF inv rA(1) sets(3) r(2)] by metis
    moreover have "b = a" using attempt_unique [OF keys b(1) a(1)] b(2) a(3) by simp
    ultimately show ?thesis using a a' sets rA(2) r(2)
      by (intro has_active_attemptI [of j' _ a']) simp_all
  qed
qed

text \<open>A job that can be retried has no open attempt.\<close>

lemma failed_job_attempts_closed:
  assumes "d1_inv db" "j \<in> set (d1_jobs db)" "jb_deleted_at j = None" "jb_status j = FAILED"
    and "r \<in> set (d1_attempts db)" "am_job_id r = jb_id j"
  shows "\<not> open_attempt r"
proof
  assume o: "open_attempt r"
  have "jb_active_attempt_id j = Some (am_id r)"
    using attempt_jobE [OF assms(1,5,2,6)] o by metis
  then have "jb_status j = job_status_of_attempt (am_status r)"
    using agreeD [OF assms(1-3,5)] o by blast
  then show False using open_status_of_attempt [OF o] assms(4) by (simp add: OPEN_JOB_STATUSES_def)
qed

lemma added_attempts_belong:
  assumes inv: "d1_inv db" and moved: "job_moved db j j' (Added_attempt a) db'"
    and legal: "legal_move db j j' (Added_attempt a)"
    and r: "r \<in> set (d1_attempts db')" "am_job_id r = jb_id j"
  shows "has_active_attempt db' r"
proof (cases "r = a")
  case True
  then show ?thesis using moved_sets [OF inv moved legal] legal
    by (intro has_active_attemptI [of j' _ a]) (simp_all add: legal_move_def adds_attempt_def)
next
  case False
  note sets = moved_sets [OF inv moved legal]
  have keys: "d1_keys db" using inv by (simp add: d1_inv_def)
  have add: "adds_attempt db j j' a" using legal by (simp add: legal_move_def)
  have rA: "r \<in> set (d1_attempts db)" using False r sets(4) by simp
  obtain b where b: "b \<in> set (d1_attempts db)" "jb_active_attempt_id j = Some (am_id b)"
    "am_generation r \<le> am_generation b"
    using attempt_jobE [OF inv rA sets(3) r(2)] by metis
  then obtain b' where b': "jb_status j = FAILED" "b' \<in> set (d1_attempts db)"
    "am_id b' = am_id b" "am_generation a = am_generation b' + 1"
    using add by (auto simp: adds_attempt_def)
  then have "b' = b" using attempt_unique [OF keys b'(2) b(1)] by simp
  moreover have "\<not> open_attempt r"
    using failed_job_attempts_closed [OF inv sets(3) _ b'(1) rA r(2)] legal by (simp add: legal_move_def)
  ultimately show ?thesis using add sets b(3) b'(4) r(2)
    by (intro has_active_attemptI [of j' _ a]) (simp_all add: adds_attempt_def)
qed

lemma moved_attempts_belong:
  assumes inv: "d1_inv db" and moved: "job_moved db j j' c db'" and legal: "legal_move db j j' c"
  shows "attempts_belong db'"
  unfolding attempts_belong_iff
proof
  fix r assume r: "r \<in> set (d1_attempts db')"
  show "has_active_attempt db' r"
  proof (cases "am_job_id r = jb_id j")
    case True
    then show ?thesis
      using moved legal r same_attempts_belong [OF inv] changed_attempts_belong [OF inv]
        added_attempts_belong [OF inv] by (cases c) blast+
  next
    case False
    have "r \<in> set (d1_attempts db)"
      using r False moved_sets(4) [OF inv moved legal] legal
      by (cases c) (auto simp: legal_move_def changes_attempt_defs adds_attempt_def)
    then show ?thesis using has_active_attempt_other [OF inv moved legal] False by blast
  qed
qed

lemma statuses_agree_iff:
  "statuses_agree db \<longleftrightarrow>
   (\<forall>j \<in> set (d1_jobs db). jb_deleted_at j = None \<longrightarrow>
      (jb_active_attempt_id j = None \<longrightarrow> jb_status j \<notin> set OPEN_JOB_STATUSES) \<and>
      (\<forall>r \<in> set (d1_attempts db). jb_active_attempt_id j = Some (am_id r) \<longrightarrow> agrees j r))"
  by (simp add: statuses_agree_def agrees_def)

lemma upload_move_not_open: "upload_move s t \<Longrightarrow> t \<notin> set OPEN_JOB_STATUSES"
  by (cases s) (auto simp: OPEN_JOB_STATUSES_def)

text \<open>Another job's active attempt is untouched.\<close>

lemma moved_other_active:
  assumes inv: "d1_inv db" and moved: "job_moved db j j' c db'" and legal: "legal_move db j j' c"
    and k: "k \<in> set (d1_jobs db)" "k \<noteq> j"
    and r: "r \<in> set (d1_attempts db')" "jb_active_attempt_id k = Some (am_id r)"
  shows "r \<in> set (d1_attempts db)"
proof (rule ccontr)
  note sets = moved_sets [OF inv moved legal]
  assume not: "r \<notin> set (d1_attempts db)"
  obtain x where x: "x \<in> set (d1_attempts db)" "am_id x = am_id r" "am_job_id x = jb_id k"
    using inv k(1) r(2) unfolding d1_inv_def active_attempts_exist_def by meson
  have keys: "d1_keys db" using inv by (simp add: d1_inv_def)
  have other: "jb_id k \<noteq> jb_id j" using job_unique [OF keys k(1) sets(3)] k(2) by blast
  show False
  proof (cases c)
    case (Changed_attempt a a')
    then have ch: "changes_attempt db j j' a a'" using legal by (simp add: legal_move_def)
    then have a: "a \<in> set (d1_attempts db)" "am_job_id a = jb_id j" "am_id a' = am_id a"
      by (simp_all add: changes_attempt_defs)
    have "r = a'" using not r(1) sets(4) Changed_attempt by simp
    then have "x = a" using attempt_unique [OF keys x(1) a(1)] x(2) a(3) by simp
    then show False using x(3) a(2) other by simp
  next
    case (Added_attempt a)
    then have "am_id a \<notin> am_id ` set (d1_attempts db)" using legal
      by (simp add: legal_move_def adds_attempt_def)
    moreover have "r = a" using not r(1) sets(4) Added_attempt by simp
    ultimately show False using x(1,2) by (metis imageI)
  qed (use not r(1) sets(4) in simp)
qed

text \<open>The moved job agrees with its active attempt.\<close>

lemma moved_job_agrees:
  assumes inv: "d1_inv db" and moved: "job_moved db j j' c db'" and legal: "legal_move db j j' c"
    and undeleted: "jb_deleted_at j' = None"
  shows "(jb_active_attempt_id j' = None \<longrightarrow> jb_status j' \<notin> set OPEN_JOB_STATUSES) \<and>
    (\<forall>r \<in> set (d1_attempts db'). jb_active_attempt_id j' = Some (am_id r) \<longrightarrow> agrees j' r)"
proof -
  note sets = moved_sets [OF inv moved legal]
  have keys: "d1_keys db" using inv by (simp add: d1_inv_def)
  have agree: "(jb_active_attempt_id i = None \<longrightarrow> jb_status i \<notin> set OPEN_JOB_STATUSES) \<and>
      (\<forall>r \<in> set (d1_attempts db). jb_active_attempt_id i = Some (am_id r) \<longrightarrow> agrees i r)"
    if "i \<in> set (d1_jobs db)" "jb_deleted_at i = None" for i
    using that inv unfolding d1_inv_def statuses_agree_iff by blast
  have j: "j \<in> set (d1_jobs db)" "jb_deleted_at j = None"
    using sets(3) legal by (simp_all add: legal_move_def)
  show ?thesis
  proof (cases c)
    case Same_attempts
    then have "jb_active_attempt_id j' = None" "upload_move (jb_status j) (jb_status j')"
      using legal undeleted by (simp_all add: legal_move_def keeps_attempts_def)
    then show ?thesis
      using upload_move_not_open by simp
  next
    case (Changed_attempt a a')
    then have ch: "changes_attempt db j j' a a'" using legal by (simp add: legal_move_def)
    then have a: "a \<in> set (d1_attempts db)" "jb_active_attempt_id j = Some (am_id a)"
      "jb_active_attempt_id j' = Some (am_id a)" "am_id a' = am_id a"
      by (simp_all add: changes_attempt_defs)
    have "agrees j' a'" using ch undeleted by (simp add: changes_attempt_defs)
    moreover have "r = a'" if "r \<in> set (d1_attempts db')" "am_id r = am_id a" for r
      using that sets(4) Changed_attempt attempt_unique [OF keys _ a(1)] by auto
    ultimately show ?thesis
      using a(3) by auto
  next
    case (Added_attempt a)
    then have add: "am_id a \<notin> am_id ` set (d1_attempts db)" "am_status a = ATT_SUBMISSION_PENDING"
      "jb_active_attempt_id j' = Some (am_id a)" "jb_status j' = SUBMISSION_PENDING"
      using legal by (simp_all add: legal_move_def adds_attempt_def)
    have "agrees j' a" using add(2,4) by (simp add: agrees_def UPLOAD_STATUSES_def)
    moreover have "set (d1_attempts db') = insert a (set (d1_attempts db))"
      using sets(4) Added_attempt by simp
    then have "r = a" if "r \<in> set (d1_attempts db')" "am_id r = am_id a" for r
      using that add(1) by (metis imageI insertE)
    ultimately show ?thesis
      using add(3) by auto
  qed
qed

lemma moved_statuses_agree:
  assumes inv: "d1_inv db" and moved: "job_moved db j j' c db'" and legal: "legal_move db j j' c"
  shows "statuses_agree db'"
  unfolding statuses_agree_iff
proof (intro ballI impI)
  note sets = moved_sets [OF inv moved legal]
  have keys: "d1_keys db" using inv by (simp add: d1_inv_def)
  have agree: "(jb_active_attempt_id i = None \<longrightarrow> jb_status i \<notin> set OPEN_JOB_STATUSES) \<and>
      (\<forall>r \<in> set (d1_attempts db). jb_active_attempt_id i = Some (am_id r) \<longrightarrow> agrees i r)"
    if "i \<in> set (d1_jobs db)" "jb_deleted_at i = None" for i
    using that inv unfolding d1_inv_def statuses_agree_iff by blast
  fix k assume k: "k \<in> set (d1_jobs db')" "jb_deleted_at k = None"
  show "(jb_active_attempt_id k = None \<longrightarrow> jb_status k \<notin> set OPEN_JOB_STATUSES) \<and>
      (\<forall>r \<in> set (d1_attempts db'). jb_active_attempt_id k = Some (am_id r) \<longrightarrow> agrees k r)"
  proof (cases "k = j'")
    case False
    then have kJ: "k \<in> set (d1_jobs db)" "k \<noteq> j" using k(1) sets(1) by simp_all
    then show ?thesis
      using agree [OF kJ(1) k(2)] moved_other_active [OF inv moved legal kJ] by blast
  next
    case True
    then show ?thesis using moved_job_agrees [OF inv moved legal] k(2) by simp
  qed
qed

text \<open>A job that is deleted by the move.\<close>

lemma moved_deleted_job:
  assumes inv: "d1_inv db" and moved: "job_moved db j j' c db'" and legal: "legal_move db j j' c"
    and deleted: "jb_deleted_at j' \<noteq> None" and r: "r \<in> set (d1_attempts db')" "am_job_id r = jb_id j"
  shows "am_status r \<notin> set CANCELLABLE_ATTEMPT_STATUSES"
proof (cases c)
  case Same_attempts
  then show ?thesis using r deleted legal moved_sets(4) [OF inv moved legal]
    by (simp add: legal_move_def keeps_attempts_def)
next
  case (Changed_attempt a a')
  note sets = moved_sets [OF inv moved legal]
  have keys: "d1_keys db" using inv by (simp add: d1_inv_def)
  have a: "a \<in> set (d1_attempts db)" "jb_active_attempt_id j = Some (am_id a)"
    "am_status a' \<notin> set CANCELLABLE_ATTEMPT_STATUSES"
    using legal Changed_attempt deleted by (simp_all add: legal_move_def changes_attempt_defs)
  show ?thesis
  proof (cases "r = a'")
    case False
    then have rA: "r \<in> set (d1_attempts db)" "r \<noteq> a" using r(1) sets(4) Changed_attempt by simp_all
    obtain b where "b \<in> set (d1_attempts db)" "jb_active_attempt_id j = Some (am_id b)"
      "open_attempt r \<longrightarrow> b = r" using attempt_jobE [OF inv rA(1) sets(3) r(2)] by metis
    then have "\<not> open_attempt r" using attempt_unique [OF keys _ a(1)] a(2) rA(2) by auto
    then show ?thesis
      by (auto simp: open_attempt_def OPEN_ATTEMPT_STATUSES_def CANCELLABLE_ATTEMPT_STATUSES_def)
  qed (use a(3) in simp)
next
  case (Added_attempt a)
  then show ?thesis using legal deleted by (simp add: legal_move_def adds_attempt_def)
qed

lemma moved_deleted_attempts_end:
  assumes inv: "d1_inv db" and moved: "job_moved db j j' c db'" and legal: "legal_move db j j' c"
  shows "deleted_attempts_end db'"
  unfolding deleted_attempts_end_def
proof (intro ballI impI)
  note sets = moved_sets [OF inv moved legal]
  fix k r assume k: "k \<in> set (d1_jobs db')" and r: "r \<in> set (d1_attempts db')"
    and deleted: "jb_deleted_at k \<noteq> None \<and> am_job_id r = jb_id k"
  show "am_status r \<notin> set CANCELLABLE_ATTEMPT_STATUSES"
  proof (cases "k = j'")
    case True
    then show ?thesis using moved_deleted_job [OF inv moved legal] r deleted sets(2) by simp
  next
    case False
    then have kJ: "k \<in> set (d1_jobs db)" "k \<noteq> j" using k sets(1) by simp_all
    have "jb_id k \<noteq> jb_id j" using job_unique [of db k j] inv kJ sets(3) by (auto simp: d1_inv_def)
    then have "r \<in> set (d1_attempts db)"
      using r deleted sets(4) legal
      by (cases c) (auto simp: legal_move_def changes_attempt_defs adds_attempt_def attempt_evolves_def)
    then show ?thesis using inv kJ(1) deleted by (simp add: d1_inv_def deleted_attempts_end_def)
  qed
qed

lemma moved_single_flight:
  assumes inv: "d1_inv db" and moved: "job_moved db j j' c db'" and legal: "legal_move db j j' c"
  shows "single_flight db'"
proof (cases c)
  case Same_attempts
  then show ?thesis using inv moved_sets(4) [OF inv moved legal]
    by (simp add: d1_inv_def single_flight_def)
next
  case (Changed_attempt a a')
  then have "flight_allowed db a a'" "a \<in> set (d1_attempts db)"
    using legal by (simp_all add: legal_move_def changes_attempt_defs)
  then show ?thesis
    using inv moved_sets(4) [OF inv moved legal] Changed_attempt
    unfolding d1_inv_def single_flight_def flight_allowed_def by auto
next
  case (Added_attempt a)
  then have "\<not> in_flight a"
    using legal by (simp add: legal_move_def adds_attempt_def in_flight_def IN_FLIGHT_STATUSES_def)
  then show ?thesis
    using inv moved_sets(4) [OF inv moved legal] Added_attempt by (auto simp: d1_inv_def single_flight_def)
qed

lemma moved_rejected_attempts_end:
  assumes inv: "d1_inv db" and moved: "job_moved db j j' c db'" and legal: "legal_move db j j' c"
  shows "rejected_attempts_end db'"
  unfolding rejected_attempts_end_def
proof (intro ballI impI)
  note sets = moved_sets [OF inv moved legal]
  have keys: "d1_keys db" using inv by (simp add: d1_inv_def)
  have old: "jb_status k \<notin> set OPEN_JOB_STATUSES"
    if "k \<in> set (d1_jobs db)" "a \<in> set (d1_attempts db)" "jb_active_attempt_id k = Some (am_id a)"
      "am_submission_outcome a = Some ''rejected''" for k a
    using that inv unfolding d1_inv_def rejected_attempts_end_def by blast
  fix k a assume k: "k \<in> set (d1_jobs db')" and a: "a \<in> set (d1_attempts db')"
    and ka: "jb_active_attempt_id k = Some (am_id a) \<and> am_submission_outcome a = Some ''rejected''"
  show "jb_status k \<notin> set OPEN_JOB_STATUSES"
  proof (cases "k = j'")
    case False
    then have kJ: "k \<in> set (d1_jobs db)" "k \<noteq> j" using k sets(1) by simp_all
    then show ?thesis using old moved_other_active [OF inv moved legal kJ a] ka by blast
  next
    case True
    show ?thesis
    proof (cases c)
      case Same_attempts
      then have "keeps_attempts db j j'" "a \<in> set (d1_attempts db)"
        using legal a sets(4) by (simp_all add: legal_move_def)
      then show ?thesis
        using old [OF sets(3), of a] ka True by (simp add: keeps_attempts_def split: if_split_asm)
    next
      case (Changed_attempt x x')
      then have ch: "changes_attempt db j j' x x'" "jb_deleted_at j = None"
        using legal by (simp_all add: legal_move_def)
      then have x: "x \<in> set (d1_attempts db)" "open_attempt x" "jb_active_attempt_id j = Some (am_id x)"
        "jb_active_attempt_id j' = Some (am_id x)" by (simp_all add: changes_attempt_def)
      have "a \<in> insert x' (set (d1_attempts db) - {x})" "am_id a = am_id x"
        using a ka True x(4) sets(4) Changed_attempt by simp_all
      then have "a = x'" using attempt_unique [OF keys _ x(1), of a] by blast
      moreover have "am_submission_outcome x \<noteq> Some ''rejected''"
        using old [OF sets(3) x(1,3)] agreeD [OF inv sets(3) ch(2) x(1,3)] x(2)
          open_status_of_attempt [OF x(2)] by metis
      ultimately show ?thesis using ch(1) ka True by (simp add: changes_attempt_def newly_rejected_def)
    next
      case (Added_attempt x)
      then have x: "am_id x \<notin> am_id ` set (d1_attempts db)" "jb_active_attempt_id j' = Some (am_id x)"
        "am_submission_outcome x = None" using legal by (simp_all add: legal_move_def adds_attempt_def)
      have "a = x \<or> a \<in> set (d1_attempts db)" using a sets(4) Added_attempt by simp
      then have "a = x" using x(1,2) ka True by auto
      then show ?thesis using x(3) ka by simp
    qed
  qed
qed

theorem legal_move_inv:
  assumes "d1_inv db" "job_moved db j j' c db'" "legal_move db j j' c"
  shows "d1_inv db'"
  using moved_keys [OF assms] moved_active_attempts_exist [OF assms] moved_attempts_belong [OF assms]
    moved_statuses_agree [OF assms] moved_deleted_attempts_end [OF assms] moved_single_flight [OF assms]
    moved_rejected_attempts_end [OF assms]
  by (simp add: d1_inv_def)

end
