(* ===== verification/JobEvolution.thy ===== *)
theory JobEvolution
  imports JobMoves
begin

text \<open>
  How jobs and attempts develop along a sequence of moves: nobody's row disappears, a job keeps its
  identity and its recorded entity tag, its version grows with every change, a deleted job and a
  job that ended other than by failing keep their status, and a job never goes back to an earlier
  stage of its processing. The relation is a preorder, so it holds between any two databases of a
  history whose steps satisfy it.
\<close>

section \<open>The stage of a job\<close>

text \<open>The generation of the active attempt, and the rank of the status within it.\<close>

definition job_stage :: "d1 \<Rightarrow> job_row \<Rightarrow> nat" where
  "job_stage db j =
     8 * (case active_attempt db j of None \<Rightarrow> 0 | Some a \<Rightarrow> am_generation a) + status_rank (jb_status j)"

lemma status_rank_less: "status_rank s < 8"
  by (cases s) simp_all

definition FINAL_JOB_STATUSES :: "job_status list" where
  "FINAL_JOB_STATUSES = [COMPLETED, CANCELLED, SOURCE_MUTATED]"

section \<open>Evolution\<close>

definition job_evolves :: "d1 \<Rightarrow> d1 \<Rightarrow> job_row \<Rightarrow> job_row \<Rightarrow> bool" where
  "job_evolves db db' j j' \<longleftrightarrow>
     same_identity j j' \<and>
     jb_version j \<le> jb_version j' \<and> (jb_version j' = jb_version j \<longrightarrow> j' = j) \<and>
     (jb_deleted_at j \<noteq> None \<longrightarrow> j' = j) \<and>
     (jb_source_etag j \<noteq> None \<longrightarrow> jb_source_etag j' = jb_source_etag j) \<and>
     (jb_status j \<in> set FINAL_JOB_STATUSES \<longrightarrow> jb_status j' = jb_status j) \<and>
     job_stage db j \<le> job_stage db' j' \<and>
     (jb_version j' = jb_version j \<or> jb_deleted_at j' \<noteq> None \<or> job_stage db j < job_stage db' j')"

definition evolves :: "d1 \<Rightarrow> d1 \<Rightarrow> bool" where
  "evolves db db' \<longleftrightarrow>
     (\<forall>j \<in> set (d1_jobs db). \<exists>j' \<in> set (d1_jobs db'). job_evolves db db' j j') \<and>
     (\<forall>a \<in> set (d1_attempts db). \<exists>a' \<in> set (d1_attempts db'). attempt_evolves a a')"

lemma same_identity_refl [simp]: "same_identity j j"
  by (simp add: same_identity_def)

lemma same_identity_trans: "same_identity i j \<Longrightarrow> same_identity j k \<Longrightarrow> same_identity i k"
  by (simp add: same_identity_def)

lemma job_evolves_same_version:
  "job_evolves db db' j j' \<Longrightarrow> jb_version j' = jb_version j \<Longrightarrow> j' = j"
  by (simp add: job_evolves_def)

lemma job_evolves_deleted: "job_evolves db db' j j' \<Longrightarrow> jb_deleted_at j \<noteq> None \<Longrightarrow> j' = j"
  by (simp add: job_evolves_def)

lemma job_evolves_stage:
  "job_evolves db db' j j' \<Longrightarrow>
   job_stage db j \<le> job_stage db' j' \<and>
   (jb_version j' = jb_version j \<or> jb_deleted_at j' \<noteq> None \<or> job_stage db j < job_stage db' j')"
  by (simp add: job_evolves_def)

lemma job_evolves_trans:
  assumes "job_evolves a b i j" "job_evolves b c j k"
  shows "job_evolves a c i k"
  unfolding job_evolves_def
proof (intro conjI impI)
  have v: "jb_version i \<le> jb_version j" "jb_version j \<le> jb_version k"
    using assms by (simp_all add: job_evolves_def)
  then show "jb_version i \<le> jb_version k" by simp
  show "same_identity i k"
    using assms same_identity_trans [of i j k] by (simp add: job_evolves_def)
  have del: "k = j" if "jb_deleted_at j \<noteq> None" using job_evolves_deleted [OF assms(2)] that by simp
  show "job_stage a i \<le> job_stage c k"
    using job_evolves_stage [OF assms(1)] job_evolves_stage [OF assms(2)] by linarith
  show "k = i" if "jb_version k = jb_version i"
    using that v job_evolves_same_version [OF assms(1)] job_evolves_same_version [OF assms(2)] by simp
  show "k = i" if "jb_deleted_at i \<noteq> None"
    using that job_evolves_deleted [OF assms(1)] job_evolves_deleted [OF assms(2)] by simp
  show "jb_source_etag k = jb_source_etag i" if "jb_source_etag i \<noteq> None"
    using that assms by (simp add: job_evolves_def)
  show "jb_status k = jb_status i" if "jb_status i \<in> set FINAL_JOB_STATUSES"
    using that assms unfolding job_evolves_def by metis
  show "jb_version k = jb_version i \<or> jb_deleted_at k \<noteq> None \<or> job_stage a i < job_stage c k"
    using job_evolves_stage [OF assms(1)] job_evolves_stage [OF assms(2)] del v by fastforce
qed

lemma evolves_trans:
  assumes "evolves a b" "evolves b c"
  shows "evolves a c"
  unfolding evolves_def
proof (intro conjI ballI)
  fix i assume "i \<in> set (d1_jobs a)"
  then obtain j k where "job_evolves a b i j" "k \<in> set (d1_jobs c)" "job_evolves b c j k"
    using assms unfolding evolves_def by meson
  then show "\<exists>k \<in> set (d1_jobs c). job_evolves a c i k" using job_evolves_trans by blast
next
  fix x assume "x \<in> set (d1_attempts a)"
  then obtain y z where "attempt_evolves x y" "z \<in> set (d1_attempts c)" "attempt_evolves y z"
    using assms unfolding evolves_def by meson
  then show "\<exists>z \<in> set (d1_attempts c). attempt_evolves x z" using attempt_evolves_trans by blast
qed

text \<open>Attempts that stay keep the stage of the jobs that stay.\<close>

lemma active_attempt_evolves:
  assumes "d1_keys db" "d1_keys db'" "jb_active_attempt_id j' = jb_active_attempt_id j"
    and "\<And>a. a \<in> set (d1_attempts db) \<Longrightarrow> \<exists>a' \<in> set (d1_attempts db'). attempt_evolves a a'"
    and "active_attempt db j = Some a"
  obtains a' where "active_attempt db' j' = Some a'" "am_generation a' = am_generation a"
proof -
  have a: "a \<in> set (d1_attempts db)" "jb_active_attempt_id j = Some (am_id a)"
    using active_attempt_Some_iff [OF assms(1)] assms(5) by auto
  then obtain a' where a': "a' \<in> set (d1_attempts db')" "attempt_evolves a a'" using assms(4) by blast
  then have "active_attempt db' j' = Some a'"
    using active_attempt_Some_iff [OF assms(2)] a(2) assms(3) by (simp add: attempt_evolves_def)
  then show thesis using that a'(2) by (simp add: attempt_evolves_def)
qed

lemma job_stage_same_active:
  assumes "d1_keys db" "d1_keys db'" "jb_active_attempt_id j' = jb_active_attempt_id j"
    and "\<And>a. a \<in> set (d1_attempts db) \<Longrightarrow> \<exists>a' \<in> set (d1_attempts db'). attempt_evolves a a'"
    and "active_attempt db j = None \<Longrightarrow> jb_active_attempt_id j = None"
  shows "job_stage db j + status_rank (jb_status j') = job_stage db' j' + status_rank (jb_status j)"
proof (cases "active_attempt db j")
  case None
  then show ?thesis using assms(3,5) by (simp add: job_stage_def active_attempt_def)
next
  case (Some a)
  obtain a' where "active_attempt db' j' = Some a'" "am_generation a' = am_generation a"
    by (rule active_attempt_evolves [OF assms(1-4) Some])
  then show ?thesis using Some by (simp add: job_stage_def)
qed

text \<open>In a database that satisfies the invariant an active attempt is found.\<close>

lemma active_attempt_found:
  assumes "d1_inv db" "j \<in> set (d1_jobs db)" "active_attempt db j = None"
  shows "jb_active_attempt_id j = None"
proof (rule ccontr)
  assume "jb_active_attempt_id j \<noteq> None"
  then obtain x where x: "jb_active_attempt_id j = Some x" by blast
  then obtain r where "r \<in> set (d1_attempts db)" "am_id r = x"
    using assms(1,2) unfolding d1_inv_def active_attempts_exist_def by meson
  then have "active_attempt db j = Some r"
    using active_attempt_Some_iff assms(1) x by (simp add: d1_inv_def)
  then show False using assms(3) by simp
qed

lemma job_stage_cong:
  assumes "d1_attempts db' = d1_attempts db"
  shows "job_stage db' j = job_stage db j"
proof -
  have "active_attempt db' j = active_attempt db j"
    using assms by (cases "jb_active_attempt_id j") (simp_all add: active_attempt_def find_attempt_def)
  then show ?thesis by (simp add: job_stage_def)
qed

lemma job_evolves_refl: "d1_attempts db' = d1_attempts db \<Longrightarrow> job_evolves db db' j j"
  using job_stage_cong [of db' db j] by (simp add: job_evolves_def)

lemma evolves_unchanged:
  assumes "d1_jobs db' = d1_jobs db" "d1_attempts db' = d1_attempts db"
  shows "evolves db db'"
  unfolding evolves_def using assms job_evolves_refl [of db' db] attempt_evolves_refl by metis

lemma evolves_refl: "evolves db db"
  by (rule evolves_unchanged) simp_all

section \<open>Every legal move evolves\<close>

lemma moved_attempts_evolve:
  assumes "d1_inv db" "job_moved db j j' c db'" "legal_move db j j' c" "a \<in> set (d1_attempts db)"
  shows "\<exists>a' \<in> set (d1_attempts db'). attempt_evolves a a'"
proof (cases "a \<in> set (d1_attempts db')")
  case True
  then show ?thesis by (auto simp: attempt_evolves_def)
next
  case False
  then obtain a' where "c = Changed_attempt a a'"
    using moved_sets(4) [OF assms(1-3)] assms(4) by (cases c) auto
  then show ?thesis
    using moved_sets(4) [OF assms(1-3)] assms(3)
    by (auto simp: legal_move_def changes_attempt_def attempt_evolves_def)
qed

lemma upload_move_rank: "upload_move s t \<Longrightarrow> status_rank s < status_rank t"
  by (cases s) auto

lemma upload_move_not_final: "upload_move s t \<Longrightarrow> s \<notin> set FINAL_JOB_STATUSES"
  by (cases s) (auto simp: FINAL_JOB_STATUSES_def)

lemma open_job_status_rank: "s \<in> set OPEN_JOB_STATUSES \<Longrightarrow> status_rank s < 7"
  by (cases s) (auto simp: OPEN_JOB_STATUSES_def)

text \<open>What a legal move does to the moved job alone.\<close>

lemma legal_move_final:
  assumes "d1_inv db" "j \<in> set (d1_jobs db)" "legal_move db j j' c"
    and final: "jb_status j \<in> set FINAL_JOB_STATUSES"
  shows "jb_status j' = jb_status j"
proof (cases c)
  case Same_attempts
  then show ?thesis
    using assms upload_move_not_final by (auto simp: legal_move_def keeps_attempts_def split: if_splits)
next
  case (Changed_attempt a a')
  then have ch: "changes_attempt db j j' a a'" "jb_deleted_at j = None"
    using assms(3) by (simp_all add: legal_move_def)
  then have "a \<in> set (d1_attempts db)" "open_attempt a" "jb_active_attempt_id j = Some (am_id a)"
    by (simp_all add: changes_attempt_def)
  then have "jb_status j \<in> set OPEN_JOB_STATUSES"
    using agreeD [OF assms(1,2) ch(2)] open_status_of_attempt by metis
  then show ?thesis using final by (auto simp: OPEN_JOB_STATUSES_def FINAL_JOB_STATUSES_def)
next
  case (Added_attempt a)
  then show ?thesis using assms(3) final
    by (auto simp: legal_move_def adds_attempt_def FINAL_JOB_STATUSES_def UPLOAD_STATUSES_def)
qed

lemma changes_attempt_rank:
  "changes_attempt db j j' a a' \<Longrightarrow> jb_deleted_at j' = None \<Longrightarrow>
   status_rank (jb_status j) < status_rank (jb_status j')"
  by (simp add: changes_attempt_def)

lemma added_attempt_stage:
  assumes inv: "d1_inv db" and moved: "job_moved db j j' (Added_attempt a) db'"
    and legal: "legal_move db j j' (Added_attempt a)"
  shows "job_stage db j < job_stage db' j'"
proof -
  have keys: "d1_keys db" "d1_keys db'"
    using inv legal_move_inv [OF inv moved legal] by (simp_all add: d1_inv_def)
  have add: "adds_attempt db j j' a" using legal by (simp add: legal_move_def)
  have "active_attempt db' j' = Some a"
    using active_attempt_Some_iff [OF keys(2)] add moved_sets(4) [OF inv moved legal]
    by (simp add: adds_attempt_def)
  then have new: "job_stage db' j' = 8 * am_generation a + 3"
    using add by (simp add: job_stage_def adds_attempt_def)
  show ?thesis
  proof (cases "active_attempt db j")
    case None
    then show ?thesis using new add status_rank_less [of "jb_status j"]
      by (auto simp: job_stage_def adds_attempt_def)
  next
    case (Some b)
    then have b: "b \<in> set (d1_attempts db)" "jb_active_attempt_id j = Some (am_id b)"
      using active_attempt_Some_iff [OF keys(1)] by simp_all
    then obtain b' where b': "b' \<in> set (d1_attempts db)" "am_id b' = am_id b"
      "am_generation a = am_generation b' + 1" using add by (auto simp: adds_attempt_def)
    then have "b' = b" using attempt_unique [OF keys(1) b'(1) b(1)] by simp
    then show ?thesis using new Some b'(3) status_rank_less [of "jb_status j"]
      by (simp add: job_stage_def)
  qed
qed

text \<open>A move that does not delete the job takes it to a later stage.\<close>

lemma legal_move_stage:
  assumes inv: "d1_inv db" and moved: "job_moved db j j' c db'" and legal: "legal_move db j j' c"
  shows "job_stage db j \<le> job_stage db' j'"
    and "jb_deleted_at j' \<noteq> None \<or> job_stage db j < job_stage db' j'"
proof -
  note sets = moved_sets [OF inv moved legal]
  have keys: "d1_keys db" "d1_keys db'"
    using inv legal_move_inv [OF inv moved legal] by (simp_all add: d1_inv_def)
  note same = job_stage_same_active [OF keys _ moved_attempts_evolve [OF inv moved legal]
      active_attempt_found [OF inv sets(3)]]
  have "job_stage db j \<le> job_stage db' j' \<and> (jb_deleted_at j' \<noteq> None \<or> job_stage db j < job_stage db' j')"
  proof (cases c)
    case Same_attempts
    then have "jb_active_attempt_id j' = jb_active_attempt_id j"
      "if jb_deleted_at j' = None then status_rank (jb_status j) < status_rank (jb_status j')
       else jb_status j' = jb_status j"
      using legal upload_move_rank [of "jb_status j" "jb_status j'"]
      by (auto simp: legal_move_def keeps_attempts_def split: if_splits)
    then show ?thesis using same [of j'] by (auto split: if_splits)
  next
    case (Changed_attempt a a')
    then have ch: "changes_attempt db j j' a a'" "jb_deleted_at j = None"
      using legal by (simp_all add: legal_move_def)
    then have "jb_active_attempt_id j' = jb_active_attempt_id j"
      "jb_deleted_at j' \<noteq> None \<longrightarrow> jb_status j' = jb_status j" by (simp_all add: changes_attempt_def)
    then show ?thesis
      using same [of j'] changes_attempt_rank [OF ch(1)] by force
  next
    case (Added_attempt a)
    then show ?thesis using added_attempt_stage [OF inv] moved legal by (simp add: less_imp_le)
  qed
  then show "job_stage db j \<le> job_stage db' j'"
    "jb_deleted_at j' \<noteq> None \<or> job_stage db j < job_stage db' j'" by simp_all
qed

theorem legal_move_evolves:
  assumes inv: "d1_inv db" and moved: "job_moved db j j' c db'" and legal: "legal_move db j j' c"
  shows "evolves db db'"
  unfolding evolves_def
proof (intro conjI ballI)
  note sets = moved_sets [OF inv moved legal]
  have keys: "d1_keys db" "d1_keys db'"
    using inv legal_move_inv [OF inv moved legal] by (simp_all add: d1_inv_def)
  fix k assume k: "k \<in> set (d1_jobs db)"
  show "\<exists>k' \<in> set (d1_jobs db'). job_evolves db db' k k'"
  proof (cases "k = j")
    case True
    have "job_evolves db db' j j'"
      using legal legal_move_stage [OF inv moved legal] legal_move_final [OF inv sets(3) legal]
      by (auto simp: job_evolves_def legal_move_def)
    then show ?thesis using True sets(1) by blast
  next
    case False
    have "job_stage db k = job_stage db' k"
      using job_stage_same_active [OF keys refl moved_attempts_evolve [OF inv moved legal]
          active_attempt_found [OF inv k]] by simp
    then have "job_evolves db db' k k" by (simp add: job_evolves_def)
    then show ?thesis using False k sets(1) by blast
  qed
qed (use moved_attempts_evolve [OF inv moved legal] in blast)

text \<open>A new job.\<close>

definition job_added :: "d1 \<Rightarrow> job_row \<Rightarrow> d1 \<Rightarrow> bool" where
  "job_added db j db' \<longleftrightarrow>
     jb_id j \<notin> jb_id ` set (d1_jobs db) \<and> jb_active_attempt_id j = None \<and> jb_status j = CREATED \<and>
     d1_jobs db' = d1_jobs db @ [j] \<and> d1_attempts db' = d1_attempts db"

lemma job_added_inv:
  assumes "d1_inv db" "job_added db j db'"
  shows "d1_inv db'"
proof -
  have "am_job_id r \<noteq> jb_id j" if "r \<in> set (d1_attempts db)" for r
  proof -
    have "\<exists>k \<in> set (d1_jobs db). jb_id k = am_job_id r"
      using assms(1) that unfolding d1_inv_def attempts_belong_def by fast
    then show ?thesis using assms(2) by (auto simp: job_added_def image_iff)
  qed
  then have "deleted_attempts_end db'"
    using assms by (auto simp: job_added_def d1_inv_def deleted_attempts_end_def)
  moreover have "d1_keys db'" "active_attempts_exist db'" "attempts_belong db'" "statuses_agree db'"
    "single_flight db'" "rejected_attempts_end db'"
    using assms
    by (auto simp: job_added_def d1_inv_def d1_keys_def active_attempts_exist_def attempts_belong_iff
        has_active_attempt_def statuses_agree_iff OPEN_JOB_STATUSES_def single_flight_def
        rejected_attempts_end_def)
  ultimately show ?thesis by (simp add: d1_inv_def)
qed

lemma job_added_evolves:
  assumes "job_added db j db'"
  shows "evolves db db'"
  using assms job_evolves_refl [of db' db] attempt_evolves_refl by (auto simp: evolves_def job_added_def)

text \<open>An attempt of which only details change: its status and the jobs stay as they are.\<close>

definition attempt_touched :: "d1 \<Rightarrow> attempt_row \<Rightarrow> attempt_row \<Rightarrow> d1 \<Rightarrow> bool" where
  "attempt_touched db a a' db' \<longleftrightarrow>
     a \<in> set (d1_attempts db) \<and> attempt_evolves a a' \<and> am_status a' = am_status a \<and>
     \<not> newly_rejected a a' \<and>
     d1_jobs db' = d1_jobs db \<and> winners_unique (d1_attempts db') \<and>
     d1_attempts db' = update_where (\<lambda>x. am_id x = am_id a) (\<lambda>_. a') (d1_attempts db)"

lemma touched_attempts:
  assumes keys: "d1_keys db" and touched: "attempt_touched db a a' db'"
  shows "d1_attempts db' = map (\<lambda>x. if x = a then a' else x) (d1_attempts db)"
    "set (d1_attempts db') = insert a' (set (d1_attempts db) - {a})"
proof -
  have "distinct (map am_id (d1_attempts db))" "a \<in> set (d1_attempts db)"
    "d1_attempts db' = update_where (\<lambda>x. am_id x = am_id a) (\<lambda>_. a') (d1_attempts db)"
    using assms by (simp_all add: attempt_touched_def d1_keys_def)
  then show "d1_attempts db' = map (\<lambda>x. if x = a then a' else x) (d1_attempts db)"
    "set (d1_attempts db') = insert a' (set (d1_attempts db) - {a})"
    using update_where_key [of am_id "d1_attempts db" a a'] set_update_where_id [of am_id "d1_attempts db" a a']
    by metis+
qed

lemma touched_keys:
  assumes keys: "d1_keys db" and touched: "attempt_touched db a a' db'"
  shows "d1_keys db'"
proof -
  have "map am_id (d1_attempts db') = map am_id (d1_attempts db)"
    "map (\<lambda>a. (am_job_id a, am_generation a)) (d1_attempts db')
       = map (\<lambda>a. (am_job_id a, am_generation a)) (d1_attempts db)"
    unfolding touched_attempts(1) [OF assms] map_map o_def
    using touched by (auto simp: attempt_touched_def attempt_evolves_def intro: map_cong)
  moreover have "winners_unique (d1_attempts db')" "d1_jobs db' = d1_jobs db"
    using touched unfolding attempt_touched_def by blast+
  ultimately show ?thesis using keys by (simp add: d1_keys_def)
qed

text \<open>Identity, generation and status are all the invariant reads of an attempt.\<close>

definition same_attempt_core :: "attempt_row \<Rightarrow> attempt_row \<Rightarrow> bool" where
  "same_attempt_core r x \<longleftrightarrow> am_id x = am_id r \<and> am_job_id x = am_job_id r \<and>
     am_generation x = am_generation r \<and> am_status x = am_status r"

lemma touched_core:
  assumes keys: "d1_keys db" and touched: "attempt_touched db a a' db'"
  shows "r \<in> set (d1_attempts db) \<Longrightarrow> \<exists>x \<in> set (d1_attempts db'). same_attempt_core r x"
    "x \<in> set (d1_attempts db') \<Longrightarrow> \<exists>r \<in> set (d1_attempts db). same_attempt_core r x"
  using touched touched_attempts(2) [OF assms]
  by (auto simp: attempt_touched_def attempt_evolves_def same_attempt_core_def)

lemma core_open: "same_attempt_core r x \<Longrightarrow> open_attempt x \<longleftrightarrow> open_attempt r"
  by (simp add: same_attempt_core_def open_attempt_def)

lemma attempt_touched_inv:
  assumes inv: "d1_inv db" and touched: "attempt_touched db a a' db'"
  shows "d1_inv db'"
proof -
  have keys: "d1_keys db" using inv by (simp add: d1_inv_def)
  have keys': "d1_keys db'" by (rule touched_keys [OF keys touched])
  have jobs: "d1_jobs db' = d1_jobs db" using touched by (simp add: attempt_touched_def)
  note core = touched_core [OF keys touched]
  have "active_attempts_exist db'"
    unfolding active_attempts_exist_def jobs
  proof (intro ballI allI impI)
    fix j x assume "j \<in> set (d1_jobs db)" "jb_active_attempt_id j = Some x"
    then obtain r where "r \<in> set (d1_attempts db)" "am_id r = x" "am_job_id r = jb_id j"
      using inv unfolding d1_inv_def active_attempts_exist_def by blast
    then show "\<exists>r \<in> set (d1_attempts db'). am_id r = x \<and> am_job_id r = jb_id j"
      using core(1) [of r] by (auto simp: same_attempt_core_def)
  qed
  moreover have "attempts_belong db'"
    unfolding attempts_belong_iff
  proof
    fix x assume x: "x \<in> set (d1_attempts db')"
    obtain r where r: "r \<in> set (d1_attempts db)" "same_attempt_core r x" using core(2) [OF x] by blast
    obtain j b where jb: "j \<in> set (d1_jobs db)" "b \<in> set (d1_attempts db)" "jb_id j = am_job_id r"
      "am_job_id b = am_job_id r" "jb_active_attempt_id j = Some (am_id b)"
      "am_generation r \<le> am_generation b" "open_attempt r \<longrightarrow> b = r"
      using inv r(1) unfolding d1_inv_def attempts_belong_def by meson
    obtain y where y: "y \<in> set (d1_attempts db')" "same_attempt_core b y" using core(1) [OF jb(2)] by blast
    have "open_attempt x \<longrightarrow> y = x"
      using attempt_unique [OF keys' y(1) x] jb(7) r(2) y(2) core_open [OF r(2)]
      by (auto simp: same_attempt_core_def)
    then show "has_active_attempt db' x"
      using jb r(2) y jobs by (intro has_active_attemptI [of j _ y]) (simp_all add: same_attempt_core_def)
  qed
  moreover have "statuses_agree db'"
    unfolding statuses_agree_iff jobs
  proof (intro ballI impI conjI)
    fix j assume j: "j \<in> set (d1_jobs db)" "jb_deleted_at j = None"
    show "jb_status j \<notin> set OPEN_JOB_STATUSES" if "jb_active_attempt_id j = None"
      using that j inv by (auto simp: d1_inv_def statuses_agree_iff)
    fix x assume x: "x \<in> set (d1_attempts db')" "jb_active_attempt_id j = Some (am_id x)"
    obtain r where r: "r \<in> set (d1_attempts db)" "same_attempt_core r x" using core(2) [OF x(1)] by blast
    then have "agrees j r" using x(2) j inv by (simp add: d1_inv_def statuses_agree_iff same_attempt_core_def)
    then show "agrees j x" using core_open [OF r(2)] r(2) by (simp add: agrees_def same_attempt_core_def)
  qed
  moreover have "deleted_attempts_end db'"
    using inv core(2) unfolding d1_inv_def deleted_attempts_end_def jobs same_attempt_core_def by metis
  moreover have "single_flight db'"
    unfolding single_flight_def
  proof (intro ballI impI)
    fix x y assume xy: "x \<in> set (d1_attempts db')" "y \<in> set (d1_attempts db')" "in_flight x \<and> in_flight y"
    obtain r s where rs: "r \<in> set (d1_attempts db)" "same_attempt_core r x"
      "s \<in> set (d1_attempts db)" "same_attempt_core s y" using core(2) xy(1,2) by meson
    then have "r = s"
      using inv xy(3) by (simp add: d1_inv_def single_flight_def in_flight_def same_attempt_core_def)
    then show "x = y" using attempt_unique [OF keys' xy(1,2)] rs(2,4) by (simp add: same_attempt_core_def)
  qed
  moreover have "rejected_attempts_end db'"
    unfolding rejected_attempts_end_def jobs
  proof (intro ballI impI)
    fix j x assume j: "j \<in> set (d1_jobs db)" and x: "x \<in> set (d1_attempts db')"
      and jx: "jb_active_attempt_id j = Some (am_id x) \<and> am_submission_outcome x = Some ''rejected''"
    have a: "a \<in> set (d1_attempts db)" "am_id a' = am_id a" "\<not> newly_rejected a a'"
      using touched by (simp_all add: attempt_touched_def attempt_evolves_def)
    have "x = a' \<or> x \<in> set (d1_attempts db)" using x touched_attempts(2) [OF keys touched] by blast
    then show "jb_status j \<notin> set OPEN_JOB_STATUSES"
      using inv j jx a unfolding d1_inv_def rejected_attempts_end_def newly_rejected_def by metis
  qed
  ultimately show ?thesis using keys' by (simp add: d1_inv_def)
qed

lemma attempt_touched_evolves:
  assumes inv: "d1_inv db" and touched: "attempt_touched db a a' db'"
  shows "evolves db db'"
proof -
  have keys: "d1_keys db" "d1_keys db'"
    using inv attempt_touched_inv [OF assms] by (simp_all add: d1_inv_def)
  have attempts: "\<exists>x' \<in> set (d1_attempts db'). attempt_evolves x x'" if "x \<in> set (d1_attempts db)" for x
    using that touched touched_attempts(2) [OF keys(1) touched] attempt_evolves_refl
    by (auto simp: attempt_touched_def)
  have "job_evolves db db' j j" if "j \<in> set (d1_jobs db)" for j
    using job_stage_same_active [OF keys refl attempts active_attempt_found [OF inv that]]
    by (simp add: job_evolves_def)
  then show ?thesis using attempts touched by (auto simp: evolves_def attempt_touched_def)
qed

end
