(* ===== verification/UploadIngestion.thy ===== *)
theory UploadIngestion
  imports JobMutations
begin

text \<open>
  The ingestion of an uploaded source by the orchestrator: the repository of
  apps/orchestrator/src/upload-ingestion-repository.ts, the keys of source-object-key.ts, and the
  event schemas of packages/contracts/src/r2-event.ts and job-control-event.ts.
\<close>

section \<open>Execution selection\<close>

record gpu_selection =
  se_kind :: gpu_provider_kind
  se_policy :: gpu_execution_policy
  se_contractVersion :: nat

definition runpod_selection :: gpu_selection where
  "runpod_selection =
     \<lparr>se_kind = runpod_serverless, se_policy = runpod_serverless_v1, se_contractVersion = 1\<rparr>"

definition cloud_run_selection :: gpu_selection where
  "cloud_run_selection =
     \<lparr>se_kind = cloud_run_jobs, se_policy = cloud_run_jobs_l4_v1, se_contractVersion = 2\<rparr>"

definition kind_text :: "gpu_provider_kind \<Rightarrow> string" where
  "kind_text k = (case k of runpod_serverless \<Rightarrow> ''runpod_serverless'' | cloud_run_jobs \<Rightarrow> ''cloud_run_jobs'')"

definition policy_text :: "gpu_execution_policy \<Rightarrow> string" where
  "policy_text p = (case p of runpod_serverless_v1 \<Rightarrow> ''runpod_serverless_v1''
     | cloud_run_jobs_l4_v1 \<Rightarrow> ''cloud_run_jobs_l4_v1'')"

section \<open>The stored source\<close>

text \<open>\<open>FIND_SOURCE_JOB_SQL\<close>: the job with its attempt of generation one.\<close>

record source_row =
  sr_job :: job_row
  sr_generation_one :: "attempt_row option"

definition find_source_row :: "string \<Rightarrow> d1 \<Rightarrow> source_row option" where
  "find_source_row jobId db =
     map_option (\<lambda>j. \<lparr>sr_job = j,
         sr_generation_one = find_attempt (\<lambda>a. am_job_id a = jb_id j \<and> am_generation a = 1) db\<rparr>)
       (find_job (\<lambda>j. jb_id j = jobId \<and> jb_deleted_at j = None) db)"

definition sourceJobRowSchema :: "source_row \<Rightarrow> bool" where
  "sourceJobRowSchema r \<longleftrightarrow>
     databaseUploadTargetRowSchema (sr_job r) \<and> jobOptionsSchema (jb_options (sr_job r)) \<and>
     nullable (\<lambda>a. ulid_ok (am_id a) \<and>
       nullable (\<lambda>v. v \<in> {1, 2}) (am_contract_version a) \<and>
       nullable (\<lambda>k. k \<in> {''runpod_serverless'', ''cloud_run_jobs''}) (am_provider_kind a) \<and>
       nullable (\<lambda>p. p \<in> {''runpod_serverless_v1'', ''cloud_run_jobs_l4_v1''}) (am_provider_policy a))
       (sr_generation_one r)"

definition mapPersistedSelection :: "source_row \<Rightarrow> gpu_selection option result" where
  "mapPersistedSelection r =
     (case sr_generation_one r of
        None \<Rightarrow> Inr None
      | Some a \<Rightarrow>
          if am_provider_kind a = Some ''runpod_serverless''
            \<and> am_provider_policy a = Some ''runpod_serverless_v1'' \<and> am_contract_version a = Some 1
          then Inr (Some runpod_selection)
          else if am_provider_kind a = Some ''cloud_run_jobs''
            \<and> am_provider_policy a = Some ''cloud_run_jobs_l4_v1'' \<and> am_contract_version a = Some 2
          then Inr (Some cloud_run_selection)
          else Inl (JsError ''Generation-one provider selection is unsupported''))"

record source_job =
  so_target :: upload_target
  so_generationOneAttemptId :: "string option"
  so_generationOneSelection :: "gpu_selection option"
  so_options :: json

definition mapSourceJob :: "source_row \<Rightarrow> source_job result" where
  "mapSourceJob r =
     res_bind (mapPersistedSelection r) (\<lambda>selection.
       Inr \<lparr>so_target = mapUploadTarget (sr_job r),
         so_generationOneAttemptId = map_option am_id (sr_generation_one r),
         so_generationOneSelection = selection, so_options = jb_options (sr_job r)\<rparr>)"

definition findSourceJob :: "string \<Rightarrow> d1 \<Rightarrow> source_job option result" where
  "findSourceJob jobId db =
     (case find_source_row jobId db of
        None \<Rightarrow> Inr None
      | Some r \<Rightarrow> res_bind (zod_parse sourceJobRowSchema r) (\<lambda>r.
          res_bind (mapSourceJob r) (\<lambda>j. Inr (Some j))))"

section \<open>Ingestion\<close>

record ingest_input =
  in_attemptId :: string
  in_eventId :: string
  in_job :: source_job
  in_ownerHash :: string
  in_selection :: gpu_selection
  in_sizeBytes :: nat
  in_sourceEtag :: string
  in_timestamp :: string

datatype ingest_result = Ingest_conflict | Ingest_duplicate | Ingest_ignored | Ingest_ingested

definition ingest_input_ok :: "ingest_input \<Rightarrow> bool" where
  "ingest_input_ok i \<longleftrightarrow>
     utc_datetime_ok (in_timestamp i) \<and> file_size_ok (in_sizeBytes i) \<and> etag_ok (in_sourceEtag i) \<and>
     (so_generationOneAttemptId (in_job i) = None \<longrightarrow> ulid_ok (in_attemptId i)) \<and>
     ulid_ok (in_eventId i) \<and> owner_hash_ok (in_ownerHash i)"

text \<open>\<open>input.job.generationOneAttemptId ?? input.attemptId\<close>.\<close>

definition ingested_attempt_id :: "ingest_input \<Rightarrow> string" where
  "ingested_attempt_id i =
     (case so_generationOneAttemptId (in_job i) of None \<Rightarrow> in_attemptId i | Some a \<Rightarrow> a)"

definition ingest_result_prefix :: "ingest_input \<Rightarrow> string" where
  "ingest_result_prefix i =
     ''results/'' @ in_ownerHash i @ ''/'' @ ut_jobId (so_target (in_job i)) @ ''/''
       @ ingested_attempt_id i @ ''/''"

text \<open>\<open>{ contractVersion, ...options }\<close>.\<close>

definition execution_options :: "gpu_selection \<Rightarrow> json \<Rightarrow> json" where
  "execution_options selection options =
     JObj ((''contractVersion'', JNum (int (se_contractVersion selection)))
       # (case options of JObj es \<Rightarrow> es | _ \<Rightarrow> []))"

definition ingested_attempt :: "ingest_input \<Rightarrow> attempt_row" where
  "ingested_attempt i =
     (new_attempt_row (ingested_attempt_id i) (ut_jobId (so_target (in_job i))) 1
        (ingest_result_prefix i) (in_timestamp i))
     \<lparr>am_provider_kind := Some (kind_text (se_kind (in_selection i))),
      am_provider_policy := Some (policy_text (se_policy (in_selection i))),
      am_contract_version := Some (se_contractVersion (in_selection i)),
      am_execution_options := Some (execution_options (in_selection i) (so_options (in_job i)))\<rparr>"

text \<open>The condition both statements put on the job row.\<close>

definition ingestible :: "ingest_input \<Rightarrow> job_row \<Rightarrow> bool" where
  "ingestible i j \<longleftrightarrow>
     (let t = so_target (in_job i) in
      jb_id j = ut_jobId t \<and> jb_version j = ut_version t \<and>
      jb_source_bucket j = ut_sourceBucket t \<and> jb_source_key j = ut_sourceKey t \<and>
      jb_expected_size_bytes j = in_sizeBytes i \<and>
      (jb_source_etag j = None \<or> jb_source_etag j = Some (in_sourceEtag i)) \<and>
      jb_active_attempt_id j = None \<and> jb_status j \<in> set UPLOAD_STATUSES \<and>
      jb_deleted_at j = None)"

definition insert_attempt_sql :: "ingest_input \<Rightarrow> attempt_row statement" where
  "insert_attempt_sql i db =
     (if find_job (ingestible i) db \<noteq> None
        \<and> \<not> (\<exists>a \<in> set (d1_attempts db). am_job_id a = ut_jobId (so_target (in_job i)) \<and> am_generation a = 1)
      then insert_attempt (ingested_attempt i) db
      else Inr ([], db))"

definition activate_attempt_sql :: "ingest_input \<Rightarrow> job_row statement" where
  "activate_attempt_sql i db =
     update_jobs
       (\<lambda>j. ingestible i j \<and>
          (\<exists>a \<in> set (d1_attempts db). am_id a = ingested_attempt_id i \<and>
             am_job_id a = ut_jobId (so_target (in_job i)) \<and> am_generation a = 1))
       (\<lambda>j. j\<lparr>jb_actual_size_bytes := Some (in_sizeBytes i),
          jb_source_etag := Some (in_sourceEtag i), jb_status := SUBMISSION_PENDING,
          jb_active_attempt_id := Some (ingested_attempt_id i),
          jb_uploaded_at := (case jb_uploaded_at j of None \<Rightarrow> Some (in_timestamp i) | Some t \<Rightarrow> Some t),
          jb_updated_at := in_timestamp i, jb_version := jb_version j + 1\<rparr>) db"

definition record_ingestion_event_sql :: "ingest_input \<Rightarrow> event_row statement" where
  "record_ingestion_event_sql i db =
     insert_event Conflict_id_do_nothing
       (map_option (\<lambda>j. user_event (in_eventId i) j ''source_ingested'' ''queue'' (in_timestamp i))
         (find_job (\<lambda>j. jb_id j = ut_jobId (so_target (in_job i)) \<and>
            jb_active_attempt_id j = Some (ingested_attempt_id i) \<and>
            jb_updated_at j = in_timestamp i) db)) db"

definition ingest_batch :: "ingest_input \<Rightarrow> d1 \<Rightarrow> (job_row list \<times> d1) result" where
  "ingest_batch i db =
     res_bind (if so_generationOneAttemptId (in_job i) = None then insert_attempt_sql i db
               else Inr ([], db)) (\<lambda>(_, db1).
     res_bind (batch2 (activate_attempt_sql i) (record_ingestion_event_sql i) db1)
       (\<lambda>((activated, _), db2). Inr (activated, db2)))"

definition sameSelection :: "gpu_selection option \<Rightarrow> gpu_selection \<Rightarrow> bool" where
  "sameSelection l r \<longleftrightarrow> l = Some r"

text \<open>What a batch that activated nothing means, from the job as it is then.\<close>

definition ingest_diagnose :: "ingest_input \<Rightarrow> source_job option \<Rightarrow> ingest_result" where
  "ingest_diagnose i current =
     (case current of
        None \<Rightarrow> Ingest_ignored
      | Some c \<Rightarrow>
          let t = so_target c in
          if so_generationOneAttemptId c \<noteq> None
            \<and> ut_activeAttemptId t = so_generationOneAttemptId c
            \<and> ut_sourceEtag t = Some (in_sourceEtag i) \<and> ut_actualSizeBytes t = Some (in_sizeBytes i)
            \<and> sameSelection (so_generationOneSelection c) (in_selection i)
          then Ingest_duplicate
          else if ut_status t \<notin> set UPLOAD_STATUSES then Ingest_ignored
          else Ingest_conflict)"

definition ingestSource :: "ingest_input \<Rightarrow> ingest_result api" where
  "ingestSource i db =
     (case res_bind (zod_parse ingest_input_ok i) (\<lambda>i. ingest_batch i db) of
        Inl e \<Rightarrow> (Inl e, db)
      | Inr (activated, db') \<Rightarrow>
          (res_bind (updatedJobIdRowsSchema (map jb_id activated)) (\<lambda>row.
             if row \<noteq> None then Inr Ingest_ingested
             else res_bind (findSourceJob (ut_jobId (so_target (in_job i))) db')
               (\<lambda>current. Inr (ingest_diagnose i current))), db'))"

section \<open>Mutated and rejected sources\<close>

definition queue_mutation_batch ::
  "source_job \<Rightarrow> string \<Rightarrow> string \<Rightarrow> string \<Rightarrow> d1
     \<Rightarrow> ((attempt_row list \<times> job_row list \<times> event_row list) \<times> d1) result" where
  "queue_mutation_batch job observedEtag eventId timestamp =
     (let t = so_target job in
      source_mutation_batch (\<lambda>_. True) ''queue'' (ut_jobId t) (ut_version t) (ut_activeAttemptId t)
        observedEtag eventId timestamp)"

definition markSourceMutated :: "source_job \<Rightarrow> string \<Rightarrow> string \<Rightarrow> string \<Rightarrow> bool api" where
  "markSourceMutated job observedEtag eventId timestamp db =
     (case res_bind (zod_parse (\<lambda>_. utc_datetime_ok timestamp \<and> etag_ok observedEtag \<and> ulid_ok eventId) ())
         (\<lambda>_. queue_mutation_batch job observedEtag eventId timestamp db) of
        Inl e \<Rightarrow> (Inl e, db)
      | Inr (rows, db') \<Rightarrow>
          (res_bind (mutation_answer (\<lambda>j. ulid_ok (jb_id j))
             (ut_activeAttemptId (so_target job) \<noteq> None \<and>
              ut_status (so_target job) \<in> set OPEN_JOB_STATUSES) rows)
           (\<lambda>mutated. Inr (mutated \<noteq> None)), db'))"

definition fail_source_sql ::
  "source_job \<Rightarrow> public_error_code \<Rightarrow> string \<Rightarrow> job_row statement" where
  "fail_source_sql job errorCode timestamp =
     update_jobs
       (\<lambda>j. jb_id j = ut_jobId (so_target job) \<and> jb_version j = ut_version (so_target job) \<and>
          jb_active_attempt_id j = None \<and> jb_status j \<in> set UPLOAD_STATUSES \<and>
          jb_deleted_at j = None)
       (\<lambda>j. j\<lparr>jb_status := FAILED, jb_error_code := Some errorCode, jb_error_message := None,
          jb_failed_at := Some timestamp, jb_updated_at := timestamp,
          jb_version := jb_version j + 1\<rparr>)"

definition record_rejection_event_sql ::
  "source_job \<Rightarrow> public_error_code \<Rightarrow> string \<Rightarrow> string \<Rightarrow> event_row statement" where
  "record_rejection_event_sql job errorCode eventId timestamp db =
     insert_event Conflict_id_do_nothing
       (map_option (\<lambda>j. (user_event eventId j ''source_rejected'' ''queue'' timestamp)\<lparr>ev_attempt_id := None\<rparr>)
         (find_job (\<lambda>j. jb_id j = ut_jobId (so_target job) \<and> jb_status j = FAILED \<and>
            jb_error_code j = Some errorCode \<and> jb_updated_at j = timestamp) db)) db"

definition failSource :: "source_job \<Rightarrow> public_error_code \<Rightarrow> string \<Rightarrow> string \<Rightarrow> bool api" where
  "failSource job errorCode eventId timestamp db =
     (case res_bind (zod_parse (\<lambda>_. utc_datetime_ok timestamp \<and> ulid_ok eventId) ())
         (\<lambda>_. batch2 (fail_source_sql job errorCode timestamp)
            (record_rejection_event_sql job errorCode eventId timestamp) db) of
        Inl e \<Rightarrow> (Inl e, db)
      | Inr ((jobs, _), db') \<Rightarrow>
          (res_bind (updatedJobIdRowsSchema (map jb_id jobs)) (\<lambda>row. Inr (row \<noteq> None)), db'))"

section \<open>Source keys and events\<close>

definition source_file_names :: "string list" where
  "source_file_names = map (\<lambda>x. ''source.'' @ x)
     [''flac'', ''m4a'', ''mov'', ''mp3'', ''mp4'', ''ogg'', ''opus'', ''wav'', ''webm'']"

text \<open>The owner hash and the job identifier of a source key.\<close>

definition parseSourceObjectKey :: "string \<Rightarrow> (string \<times> string) option" where
  "parseSourceObjectKey key =
     (case split_on (CHR ''/'') key of
        [a, ownerHash, jobId, nonce, file] \<Rightarrow>
          if a = ''incoming'' \<and> owner_hash_ok ownerHash \<and> ulid_ok jobId \<and>
            length nonce = 22 \<and> all_in base64url_chars nonce \<and> file \<in> set source_file_names
          then Some (ownerHash, jobId) else None
      | _ \<Rightarrow> None)"

definition bounded_string :: "nat \<Rightarrow> nat \<Rightarrow> json_schema" where
  "bounded_string lo hi = string_schema_of (\<lambda>s. lo \<le> length s \<and> length s \<le> hi)"

definition bounded_int :: "int \<Rightarrow> int \<Rightarrow> json_schema" where
  "bounded_int lo hi j = (case j of JNum n \<Rightarrow> lo \<le> n \<and> n \<le> hi | _ \<Rightarrow> False)"

definition r2_bucket_ok :: "string \<Rightarrow> bool" where
  "r2_bucket_ok s \<longleftrightarrow>
     3 \<le> length s \<and> length s \<le> 63 \<and> hd s \<in> set (lower_chars @ digit_chars) \<and>
     last s \<in> set (lower_chars @ digit_chars) \<and> all_in (lower_chars @ digit_chars @ ''.-'') s"

definition MAX_R2_OBJECT_SIZE_BYTES :: int where
  "MAX_R2_OBJECT_SIZE_BYTES = 5 * 1024 * 1024 * 1024 * 1024"

definition r2EventNotificationSchema :: json_schema where
  "r2EventNotificationSchema j \<longleftrightarrow>
     strict_object [
       required ''account'' (string_schema_of (\<lambda>s. length s = 32 \<and> all_in hex_chars s)),
       required ''action'' (string_enum [''CompleteMultipartUpload'', ''CopyObject'', ''PutObject'']),
       required ''bucket'' (string_schema_of r2_bucket_ok),
       optional ''copySource'' (strict_object [
         required ''bucket'' (string_schema_of r2_bucket_ok),
         required ''object'' (bounded_string 1 1024)]),
       required ''eventTime'' (string_schema_of utc_datetime_ok),
       required ''object'' (strict_object [
         required ''eTag'' (bounded_string 1 512),
         required ''key'' (bounded_string 1 1024),
         required ''size'' (bounded_int 0 MAX_R2_OBJECT_SIZE_BYTES)])] j \<and>
     (string_field ''action'' j = ''CopyObject'' \<longleftrightarrow> json_field ''copySource'' j \<noteq> None)"

definition jobControlEventSchema :: json_schema where
  "jobControlEventSchema = strict_object [
     required ''action'' (literal (JStr ''cancel'')),
     required ''eventId'' (string_schema_of ulid_ok),
     required ''jobId'' (string_schema_of ulid_ok),
     required ''requestedAt'' (string_schema_of utc_datetime_ok),
     required ''schemaVersion'' (literal (JNum 1)),
     required ''type'' (literal (JStr ''job-control''))]"

text \<open>The fields of an accepted object notification.\<close>

record r2_event =
  r2_account :: string
  r2_action :: string
  r2_bucket :: string
  r2_eventTime :: string
  r2_eTag :: string
  r2_key :: string
  r2_size :: int

definition read_r2_event :: "json \<Rightarrow> r2_event" where
  "read_r2_event j =
     (let object = (case json_field ''object'' j of None \<Rightarrow> JNull | Some v \<Rightarrow> v) in
      \<lparr>r2_account = string_field ''account'' j, r2_action = string_field ''action'' j,
       r2_bucket = string_field ''bucket'' j, r2_eventTime = string_field ''eventTime'' j,
       r2_eTag = string_field ''eTag'' object, r2_key = string_field ''key'' object,
       r2_size = count_field ''size'' object\<rparr>)"

definition normalizedR2ObjectCreatedEventSchema :: "string \<Rightarrow> r2_event \<Rightarrow> bool" where
  "normalizedR2ObjectCreatedEventSchema jobId e \<longleftrightarrow>
     r2_bucket_ok (r2_bucket e) \<and> etag_ok (r2_eTag e) \<and> ulid_ok jobId \<and>
     1 \<le> length (r2_key e) \<and> length (r2_key e) \<le> 1024 \<and> starts_with ''incoming/'' (r2_key e) \<and>
     utc_datetime_ok (r2_eventTime e) \<and> 0 < r2_size e \<and> r2_size e \<le> int MAX_FILE_SIZE_BYTES \<and>
     (case split_on (CHR ''/'') (r2_key e) of _ # _ # k # _ \<Rightarrow> k = jobId | _ \<Rightarrow> False)"

end
