(* ===== verification/JobOperations.thy ===== *)
theory JobOperations
  imports JobEvolution UploadIngestion
begin

text \<open>
  Every operation of the web server, of the ingestion and of the RunPod control is a step of the
  abstract specification: it adds a job, makes one legal move, changes details of one attempt, or leaves jobs and attempts
  as they are. The contract is a
  locale, whose operations see an earlier database (the one their read phase saw) and the current
  one; the laws that follow from it (invariant, evolution, other owners' rows) are proved in the
  locale, and each operation of the code is an interpretation of it.
\<close>

section \<open>The contract\<close>

definition unchanged_tables :: "d1 \<Rightarrow> d1 \<Rightarrow> bool" where
  "unchanged_tables db db' \<longleftrightarrow> d1_jobs db' = d1_jobs db \<and> d1_attempts db' = d1_attempts db"

definition job_step :: "(job_row \<Rightarrow> bool) \<Rightarrow> d1 \<Rightarrow> d1 \<Rightarrow> bool" where
  "job_step owns db db' \<longleftrightarrow>
     unchanged_tables db db' \<or> (\<exists>j. owns j \<and> job_added db j db') \<or>
     (\<exists>j j' c. owns j \<and> job_moved db j j' c db' \<and> legal_move db j j' c) \<or>
     (\<exists>a a'. (\<forall>j \<in> set (d1_jobs db). jb_id j = am_job_id a \<longrightarrow> owns j) \<and> attempt_touched db a a' db')"

lemma unchanged_tables_refl [simp]: "unchanged_tables db db"
  by (simp add: unchanged_tables_def)

lemma job_step_unchanged: "unchanged_tables db db' \<Longrightarrow> job_step owns db db'"
  by (simp add: job_step_def)

lemma job_step_refl [simp]: "job_step owns db db"
  by (simp add: job_step_unchanged)

lemma unchanged_tables_inv:
  assumes "unchanged_tables db db'" "d1_inv db"
  shows "d1_inv db'"
  using assms by (simp add: unchanged_tables_def d1_inv_def d1_keys_def active_attempts_exist_def
      attempts_belong_def statuses_agree_def deleted_attempts_end_def single_flight_def
      rejected_attempts_end_def)

lemma job_step_inv: "job_step owns db db' \<Longrightarrow> d1_inv db \<Longrightarrow> d1_inv db'"
  unfolding job_step_def
  using unchanged_tables_inv job_added_inv legal_move_inv attempt_touched_inv by blast

lemma job_step_evolves: "job_step owns db db' \<Longrightarrow> d1_inv db \<Longrightarrow> evolves db db'"
  unfolding job_step_def unchanged_tables_def
  using evolves_unchanged job_added_evolves legal_move_evolves attempt_touched_evolves by blast

text \<open>The rows of jobs the operation is not entitled to, and their attempts, stay as they are.\<close>

lemma job_step_foreign_job:
  assumes "job_step owns db db'" "d1_inv db" "j \<in> set (d1_jobs db)" "\<not> owns j"
  shows "j \<in> set (d1_jobs db')"
  using assms moved_sets(1) [of db]
  unfolding job_step_def unchanged_tables_def job_added_def attempt_touched_def by fastforce

lemma job_step_foreign_attempt:
  assumes step: "job_step owns db db'" and inv: "d1_inv db"
    and j: "j \<in> set (d1_jobs db)" "\<not> owns j" and a: "a \<in> set (d1_attempts db)" "am_job_id a = jb_id j"
  shows "a \<in> set (d1_attempts db')"
proof (rule ccontr)
  assume not: "a \<notin> set (d1_attempts db')"
  have keys: "d1_keys db" using inv by (simp add: d1_inv_def)
  have "\<not> attempt_touched db x x' db'" if "\<forall>j \<in> set (d1_jobs db). jb_id j = am_job_id x \<longrightarrow> owns j" for x x'
  proof
    assume "attempt_touched db x x' db'"
    then have "set (d1_attempts db') = insert x' (set (d1_attempts db) - {x})"
      by (rule touched_attempts(2) [OF keys])
    then have "x = a" using not a(1) by blast
    then show False using that j a(2) by simp
  qed
  then obtain k k' c where m: "owns k" "job_moved db k k' c db'" "legal_move db k k' c"
    using step a(1) not by (auto simp: job_step_def unchanged_tables_def job_added_def)
  then obtain a' where c: "c = Changed_attempt a a'"
    using moved_sets(4) [OF inv m(2,3)] a(1) not by (cases c) auto
  have "am_job_id a = jb_id k" using m(3) c by (simp add: legal_move_def changes_attempt_def)
  then have "k = j"
    using job_unique [of db k j] inv m(2) j(1) a(2) by (simp add: d1_inv_def job_moved_def)
  then show False using m(1) j(2) by simp
qed

locale job_operation =
  fixes owns :: "job_row \<Rightarrow> bool" and perform_op :: "d1 \<Rightarrow> d1 \<Rightarrow> d1"
  assumes step: "d1_inv r \<Longrightarrow> d1_inv db \<Longrightarrow> evolves r db \<Longrightarrow> job_step owns db (perform_op r db)"
begin

lemma keeps_inv: "d1_inv r \<Longrightarrow> d1_inv db \<Longrightarrow> evolves r db \<Longrightarrow> d1_inv (perform_op r db)"
  using step job_step_inv by blast

lemma evolves_op: "d1_inv r \<Longrightarrow> d1_inv db \<Longrightarrow> evolves r db \<Longrightarrow> evolves db (perform_op r db)"
  using step job_step_evolves by blast

lemma foreign_job:
  "d1_inv r \<Longrightarrow> d1_inv db \<Longrightarrow> evolves r db \<Longrightarrow> j \<in> set (d1_jobs db) \<Longrightarrow> \<not> owns j \<Longrightarrow>
   j \<in> set (d1_jobs (perform_op r db))"
  using step job_step_foreign_job by blast

end

section \<open>Statements as moves\<close>

text \<open>One statement on the jobs.\<close>

lemma update_jobs_step:
  assumes inv: "d1_inv db" and upd: "update_jobs p f db = Inr (rows, db1)"
    and key: "\<forall>j. p j \<longrightarrow> jb_id j = k"
    and legal: "\<And>j. j \<in> set (d1_jobs db) \<Longrightarrow> p j \<Longrightarrow> owns j \<and> legal_move db j (f j) Same_attempts"
    and rest: "unchanged_tables db1 db'"
  shows "job_step owns db db'"
proof -
  have keys: "distinct (map jb_id (d1_jobs db))" using inv by (simp add: d1_inv_def d1_keys_def)
  show ?thesis
  proof (cases rule: update_jobs_cases [OF upd keys key])
    case 1
    then show ?thesis using rest by (simp add: job_step_unchanged)
  next
    case (2 j)
    then have "job_moved db j (f j) Same_attempts db'"
      using rest inv by (simp add: job_moved_def unchanged_tables_def d1_inv_def d1_keys_def)
    then show ?thesis using legal [OF 2(1,2)] by (auto simp: job_step_def)
  qed
qed

text \<open>
  A statement on the attempts and one on the jobs: both change something, or only the second, as a
  move without attempt.
\<close>

lemma attempt_mid_job_step:
  assumes inv: "d1_inv db" and upa: "update_attempts pa fa db = Inr (ra, db0)"
    and mid: "unchanged_tables db0 db1"
    and upj: "update_jobs pj fj db1 = Inr (rj, db2)" and rest: "unchanged_tables db2 db'"
    and key: "\<forall>a. pa a \<longrightarrow> am_id a = ka" "\<forall>j. pj j \<longrightarrow> jb_id j = kj"
    and both: "\<And>a. a \<in> set (d1_attempts db) \<Longrightarrow> pa a \<Longrightarrow>
      d1_attempts db1 = update_where (\<lambda>x. am_id x = am_id a) (\<lambda>_. fa a) (d1_attempts db) \<Longrightarrow>
      \<exists>j \<in> set (d1_jobs db). pj j \<and> owns j \<and> legal_move db j (fj j) (Changed_attempt a (fa a))"
    and alone: "\<And>j. \<forall>a \<in> set (d1_attempts db). \<not> pa a \<Longrightarrow> d1_attempts db1 = d1_attempts db \<Longrightarrow>
      j \<in> set (d1_jobs db) \<Longrightarrow> pj j \<Longrightarrow> owns j \<and> legal_move db j (fj j) Same_attempts"
  shows "job_step owns db db'"
proof -
  have keys: "distinct (map jb_id (d1_jobs db))" "distinct (map am_id (d1_attempts db))"
    using inv by (simp_all add: d1_inv_def d1_keys_def)
  show ?thesis
  proof (cases rule: update_attempts_cases [OF upa keys(2) key(1)])
    case none: 1
    then have n: "d1_jobs db1 = d1_jobs db" "d1_attempts db1 = d1_attempts db"
      using mid by (simp_all add: unchanged_tables_def)
    show ?thesis
    proof (cases rule: update_jobs_cases [OF upj keys(1) [folded n(1)] key(2)])
      case 1
      then show ?thesis using rest n by (simp add: job_step_unchanged unchanged_tables_def)
    next
      case (2 j)
      then have "job_moved db j (fj j) Same_attempts db'"
        using rest n inv by (simp add: job_moved_def unchanged_tables_def d1_inv_def d1_keys_def)
      moreover have "owns j \<and> legal_move db j (fj j) Same_attempts"
        using alone [OF none(1) n(2)] 2(1,2) n by simp
      ultimately show ?thesis unfolding job_step_def by blast
    qed
  next
    case one: (2 a)
    then have o: "d1_jobs db1 = d1_jobs db" "winners_unique (d1_attempts db1)"
      "d1_attempts db1 = update_where (\<lambda>x. am_id x = am_id a) (\<lambda>_. fa a) (d1_attempts db)"
      using mid unfolding unchanged_tables_def by simp_all
    obtain j where j: "j \<in> set (d1_jobs db)" "pj j" "owns j"
      "legal_move db j (fj j) (Changed_attempt a (fa a))" using both [OF one(1,2) o(3)] by blast
    show ?thesis
    proof (cases rule: update_jobs_cases [OF upj keys(1) [folded o(1)] key(2)])
      case 1
      then show ?thesis using j(1,2) o(1) by simp
    next
      case (2 k)
      have "jb_id k = jb_id j" using key(2) j(2) 2(2) by simp
      then have "k = j" using job_unique [of db k j] inv 2(1) j(1) o(1) by (simp add: d1_inv_def)
      then have "job_moved db j (fj j) (Changed_attempt a (fa a)) db'"
        using 2 rest o j(1) by (simp add: job_moved_def unchanged_tables_def changed_attempts_def)
      then show ?thesis using j(3,4) unfolding job_step_def by blast
    qed
  qed
qed

lemmas attempt_job_step = attempt_mid_job_step [OF _ _ unchanged_tables_refl]

text \<open>A statement on the attempts alone, which changes details of one of them.\<close>

lemma touch_step:
  assumes inv: "d1_inv db" and upd: "update_attempts p f db = Inr (rows, db1)"
    and key: "\<forall>a. p a \<longrightarrow> am_id a = k" and rest: "unchanged_tables db1 db'"
    and touch: "\<And>a. a \<in> set (d1_attempts db) \<Longrightarrow> p a \<Longrightarrow>
      attempt_evolves a (f a) \<and> am_status (f a) = am_status a \<and> \<not> newly_rejected a (f a) \<and>
      (\<forall>j \<in> set (d1_jobs db). jb_id j = am_job_id a \<longrightarrow> owns j)"
  shows "job_step owns db db'"
proof -
  have keys: "distinct (map am_id (d1_attempts db))" using inv by (simp add: d1_inv_def d1_keys_def)
  show ?thesis
  proof (cases rule: update_attempts_cases [OF upd keys key])
    case 1
    then show ?thesis using rest by (simp add: job_step_unchanged unchanged_tables_def)
  next
    case (2 a)
    then have "attempt_touched db a (f a) db'"
      using rest touch [OF 2(1,2)] by (simp add: attempt_touched_def unchanged_tables_def)
    then show ?thesis using touch [OF 2(1,2)] unfolding job_step_def by blast
  qed
qed

text \<open>Statements on other tables before an operation do not matter.\<close>

lemma legal_move_cong:
  "d1_attempts db0 = d1_attempts db \<Longrightarrow> legal_move db0 j j' c = legal_move db j j' c"
  by (cases c) (simp_all add: legal_move_def keeps_attempts_def changes_attempt_def adds_attempt_def
      flight_allowed_def)

lemma job_step_cong:
  assumes "unchanged_tables db db0" "job_step owns db0 db'"
  shows "job_step owns db db'"
  using assms legal_move_cong [of db0 db]
  by (simp add: job_step_def unchanged_tables_def job_added_def job_moved_def attempt_touched_def)

text \<open>A statement that matches nothing, and the row of a job in a table it was replaced in.\<close>

lemma update_jobs_noop:
  "\<forall>j \<in> set (d1_jobs db). \<not> p j \<Longrightarrow> update_jobs p f db = Inr ([], db)"
  by (simp add: update_jobs_def Let_def update_where_none filter_empty_conv list_all_iff)

lemma replaced_rows:
  assumes "d1_keys db" "j \<in> set (d1_jobs db)" "jb_id j' = jb_id j"
  shows "set (update_where (\<lambda>x. jb_id x = jb_id j) (\<lambda>_. j') (d1_jobs db)) = insert j' (set (d1_jobs db) - {j})"
    "d1_keys (db\<lparr>d1_jobs := update_where (\<lambda>x. jb_id x = jb_id j) (\<lambda>_. j') (d1_jobs db)\<rparr>)"
  using assms by (simp_all add: d1_keys_def set_update_where_id map_key_update_where)

lemma find_owned_iff:
  "d1_keys db \<Longrightarrow> find_job (owned ownerSub jobId) db = Some j \<longleftrightarrow>
   j \<in> set (d1_jobs db) \<and> owned ownerSub jobId j"
  by (rule find_job_Some_iff) (simp_all add: owned_def)

end
