(* ===== verification/JobSteps.thy ===== *)
theory JobSteps
  imports JobOperations
begin

text \<open>
  Every operation of apps/web/src/server/jobs/job-repository.ts and
  apps/orchestrator/src/upload-ingestion-repository.ts is a step of the abstract specification. An
  operation that reads before it commits is performed on a current database and on the earlier one
  its read phase saw.
\<close>

section \<open>Batches\<close>

lemma batch2_Inr_iff:
  "batch2 s1 s2 db = Inr (r, db') \<longleftrightarrow>
   (\<exists>db1. s1 db = Inr (fst r, db1) \<and> s2 db1 = Inr (snd r, db'))"
  by (cases r) (auto simp: batch2_def result_simps)

lemma batch3_Inr_iff:
  "batch3 s1 s2 s3 db = Inr (r, db') \<longleftrightarrow>
   (\<exists>db1 db2. s1 db = Inr (fst r, db1) \<and> s2 db1 = Inr (fst (snd r), db2) \<and>
      s3 db2 = Inr (snd (snd r), db'))"
  by (cases r) (auto simp: batch3_def batch2_Inr_iff result_simps)

lemma insert_event_unchanged: "insert_event c e db = Inr (rows, db') \<Longrightarrow> unchanged_tables db db'"
  by (simp add: unchanged_tables_def insert_event_tables)

text \<open>The first statement of \<open>completeUpload\<close>, a transaction of its own.\<close>

definition complete_first :: "complete_input \<Rightarrow> d1 \<Rightarrow> d1" where
  "complete_first i db =
     (case res_bind (zod_parse complete_input_ok i) (\<lambda>i. complete_upload_sql i db) of
        Inl _ \<Rightarrow> db | Inr (_, db') \<Rightarrow> db')"

section \<open>Operations of one statement\<close>

lemma new_job_row_fields:
  "jb_id (new_job_row i) = nj_id i" "jb_owner_sub (new_job_row i) = nj_ownerSub i"
  "jb_active_attempt_id (new_job_row i) = None" "jb_status (new_job_row i) = CREATED"
  "jb_version (new_job_row i) = 1" "jb_deleted_at (new_job_row i) = None"
  by (simp_all add: new_job_row_def)

lemma insert_new_job_added:
  assumes "insert_new_job i w db = Inr (rows, db')" "db' \<noteq> db"
  shows "job_added db (new_job_row i) db'"
  using assms
  by (auto simp: insert_new_job_def insert_job_def job_added_def new_job_row_fields split: if_splits)

lemma createJob_step:
  assumes "d1_inv db"
  shows "job_step (owned_by (nj_ownerSub i)) db (snd (createJob i db))"
proof (cases "snd (createJob i db) = db")
  case False
  then obtain w rows db' where ins: "insert_new_job i w db = Inr (rows, db')"
    and db': "snd (createJob i db) = db'" "db' \<noteq> db"
    by (auto simp: createJob_def result_simps split: sum.split_asm prod.split_asm)
  have "owned_by (nj_ownerSub i) (new_job_row i)" by (simp add: owned_by_def new_job_row_fields)
  then show ?thesis using insert_new_job_added [OF ins db'(2)] db'(1) unfolding job_step_def by blast
qed simp

text \<open>A job without an attempt has never been processed, so it still waits for its upload.\<close>

lemma upload_status_no_attempt:
  assumes "d1_inv db" "j \<in> set (d1_jobs db)" "jb_deleted_at j = None" "jb_status j \<in> set UPLOAD_STATUSES"
  shows "jb_active_attempt_id j = None"
proof (rule ccontr)
  assume "jb_active_attempt_id j \<noteq> None"
  then obtain x where x: "jb_active_attempt_id j = Some x" by blast
  then obtain r where r: "r \<in> set (d1_attempts db)" "am_id r = x"
    using assms(1,2) unfolding d1_inv_def active_attempts_exist_def by meson
  then have "jb_status j \<notin> set UPLOAD_STATUSES"
    using assms(1-3) x unfolding d1_inv_def statuses_agree_def by simp
  then show False using assms(4) by simp
qed

lemmas statement_move_defs = owned_def owned_by_def legal_move_def keeps_attempts_def
  same_identity_def UPLOAD_STATUSES_def

lemma markUploadReady_step:
  assumes inv: "d1_inv db"
  shows "job_step (owned_by ownerSub) db (snd (markUploadReady jobId ownerSub t expires db))"
proof (cases "snd (markUploadReady jobId ownerSub t expires db) = db")
  case False
  then obtain rows db' where upd: "mark_upload_ready_sql jobId ownerSub t expires db = Inr (rows, db')"
    and db': "snd (markUploadReady jobId ownerSub t expires db) = db'"
    by (auto simp: markUploadReady_def result_simps split: sum.split_asm prod.split_asm if_split_asm)
  show ?thesis unfolding db'
  proof (rule update_jobs_step [OF inv upd [unfolded mark_upload_ready_sql_def]])
    show "\<forall>j. owned ownerSub jobId j \<and> jb_status j = CREATED \<longrightarrow> jb_id j = jobId"
      by (simp add: owned_def)
  qed (use upload_status_no_attempt [OF inv] in \<open>auto simp: statement_move_defs\<close>)
qed simp

lemma failUploadPreparation_step:
  assumes inv: "d1_inv db"
  shows "job_step (owned_by ownerSub) db (snd (failUploadPreparation jobId ownerSub t db))"
proof (cases "snd (failUploadPreparation jobId ownerSub t db) = db")
  case False
  then obtain rows db' where upd: "fail_upload_preparation_sql jobId ownerSub t db = Inr (rows, db')"
    and db': "snd (failUploadPreparation jobId ownerSub t db) = db'"
    by (auto simp: failUploadPreparation_def result_simps split: sum.split_asm prod.split_asm)
  show ?thesis unfolding db'
  proof (rule update_jobs_step [OF inv upd [unfolded fail_upload_preparation_sql_def]])
    show "\<forall>j. owned ownerSub jobId j \<and> jb_status j = CREATED \<longrightarrow> jb_id j = jobId"
      by (simp add: owned_def)
  qed (use upload_status_no_attempt [OF inv] in \<open>auto simp: statement_move_defs\<close>)
qed simp

lemma complete_first_step:
  assumes inv: "d1_inv db"
  shows "job_step (owned_by (co_ownerSub i)) db (complete_first i db)"
proof (cases "complete_first i db = db")
  case False
  then obtain rows db' where upd: "complete_upload_sql i db = Inr (rows, db')"
    and db': "complete_first i db = db'"
    by (auto simp: complete_first_def result_simps split: sum.split_asm prod.split_asm)
  show ?thesis unfolding db'
  proof (rule update_jobs_step [OF inv upd [unfolded complete_upload_sql_def]])
    show "\<forall>j. owned (co_ownerSub i) (co_jobId i) j \<and> jb_version j = co_expectedVersion i \<and>
        jb_expected_size_bytes j = co_sizeBytes i \<and> jb_source_bucket j = co_sourceBucket i \<and>
        jb_source_key j = co_sourceKey i \<and> jb_source_etag j = None \<and>
        jb_status j \<in> {CREATED, UPLOADING} \<longrightarrow> jb_id j = co_jobId i"
      by (simp add: owned_def)
  qed (use upload_status_no_attempt [OF inv] in \<open>auto simp: statement_move_defs\<close>)
qed simp

section \<open>Cancellation and deletion\<close>

text \<open>The job a read phase saw, as it is now.\<close>

lemma read_job_now:
  assumes "evolves r db" "d1_inv db" "j0 \<in> set (d1_jobs r)" "j \<in> set (d1_jobs db)" "jb_id j = jb_id j0"
  shows "job_evolves r db j0 j"
proof -
  obtain j' where "j' \<in> set (d1_jobs db)" "job_evolves r db j0 j'"
    using assms(1,3) unfolding evolves_def by blast
  moreover have "j' = j"
    using job_unique [of db j' j] assms(2,4,5) calculation
    by (simp add: d1_inv_def job_evolves_def same_identity_def)
  ultimately show ?thesis by simp
qed

text \<open>A job with the same active attempt and the same status has not changed, unless it is deleted.\<close>

lemma same_stage_same_job:
  assumes inv: "d1_inv r" "d1_inv db" and ev: "evolves r db"
    and j: "j0 \<in> set (d1_jobs r)" "j \<in> set (d1_jobs db)" "jb_id j = jb_id j0"
    and same: "jb_active_attempt_id j = jb_active_attempt_id j0" "jb_status j = jb_status j0"
    and undeleted: "jb_deleted_at j = None"
  shows "j = j0"
proof -
  have je: "job_evolves r db j0 j" by (rule read_job_now [OF ev inv(2) j])
  have "job_stage r j0 + status_rank (jb_status j) = job_stage db j + status_rank (jb_status j0)"
    by (rule job_stage_same_active [OF _ _ same(1) _ active_attempt_found [OF inv(1) j(1)]])
      (use inv ev in \<open>simp_all add: d1_inv_def evolves_def\<close>)
  then have "job_stage r j0 = job_stage db j" using same(2) by simp
  then show ?thesis using job_evolves_stage [OF je] job_evolves_same_version [OF je] undeleted by simp
qed

lemma cancel_without_attempt_step:
  assumes inv: "d1_inv db"
    and batch: "batch2 (cancel_job_without_attempt_sql i read) (record_cancellation_event_sql i) db
      = Inr (rows, db')"
  shows "job_step (owned_by (ac_ownerSub i)) db db'"
proof -
  obtain db1 where upd: "cancel_job_without_attempt_sql i read db = Inr (fst rows, db1)"
    and event: "record_cancellation_event_sql i db1 = Inr (snd rows, db')"
    using batch by (auto simp: batch2_Inr_iff)
  have rest: "unchanged_tables db1 db'"
    using insert_event_unchanged event by (auto simp: record_cancellation_event_sql_def)
  show ?thesis
  proof (rule update_jobs_step [OF inv upd [unfolded cancel_job_without_attempt_sql_def] _ _ rest])
    show "\<forall>j. owned (ac_ownerSub i) (ac_jobId i) j \<and> jb_version j = jb_version read \<and>
        jb_active_attempt_id j = None \<and> jb_status j = jb_status read \<and>
        jb_status j \<in> set UPLOAD_STATUSES \<longrightarrow> jb_id j = ac_jobId i"
      by (simp add: owned_def)
  qed (auto simp: statement_move_defs)
qed

lemma update_where_changed:
  "t' = update_where (\<lambda>x. key x = key a) (\<lambda>_. a') t \<Longrightarrow> a \<in> set t \<Longrightarrow> a' \<in> set t'"
  by (auto simp: update_where_def image_iff)

lemma cancellable_open:
  "s \<in> set CANCELLABLE_ATTEMPT_STATUSES \<Longrightarrow>
   s \<in> set OPEN_ATTEMPT_STATUSES \<and> s \<noteq> ATT_CANCEL_REQUESTED \<and>
   job_status_of_attempt s \<in> set CANCELLABLE_JOB_STATUSES"
  "t \<in> set CANCELLABLE_JOB_STATUSES \<Longrightarrow> t \<in> set OPEN_JOB_STATUSES"
  by (auto simp: CANCELLABLE_ATTEMPT_STATUSES_def OPEN_ATTEMPT_STATUSES_def
      CANCELLABLE_JOB_STATUSES_def OPEN_JOB_STATUSES_def)

text \<open>A job in a cancellable status does not have an attempt that is already cancelled.\<close>

lemma cancelled_attempt_not_active:
  assumes "d1_inv db" "j \<in> set (d1_jobs db)" "jb_deleted_at j = None"
    "jb_status j \<in> set CANCELLABLE_JOB_STATUSES" "a \<in> set (d1_attempts db)"
    "jb_active_attempt_id j = Some (am_id a)"
  shows "am_status a \<noteq> (if jb_status j = SUBMISSION_PENDING then ATT_CANCELLED else ATT_CANCEL_REQUESTED)"
  using agreeD [OF assms(1-3,5,6)] cancellable_open(2) [OF assms(4)] assms(4)
  by (auto simp: CANCELLABLE_JOB_STATUSES_def)

text \<open>What a cancellation does to the status of an open attempt, and what the failure of one does.\<close>

lemmas status_lists = OPEN_ATTEMPT_STATUSES_def CANCELLABLE_ATTEMPT_STATUSES_def IN_FLIGHT_STATUSES_def
  OPEN_JOB_STATUSES_def UPLOAD_STATUSES_def CANCELLABLE_JOB_STATUSES_def

lemma cancelled_rank: "s \<in> set OPEN_ATTEMPT_STATUSES \<Longrightarrow> attempt_rank s \<le> attempt_rank (cancelled_attempt_status s)"
  by (cases s) (simp_all add: cancelled_attempt_status_def status_lists)

lemma cancelled_not_cancellable: "cancelled_attempt_status s \<notin> set CANCELLABLE_ATTEMPT_STATUSES"
  by (simp add: cancelled_attempt_status_def status_lists)

lemma cancelled_in_flight:
  "s \<in> set OPEN_ATTEMPT_STATUSES \<Longrightarrow>
   cancelled_attempt_status s \<in> set IN_FLIGHT_STATUSES \<longleftrightarrow> s \<in> set IN_FLIGHT_STATUSES"
  by (cases s) (simp_all add: cancelled_attempt_status_def status_lists)

lemma cancelled_job_status_rank:
  "s \<in> set CANCELLABLE_ATTEMPT_STATUSES \<Longrightarrow>
   status_rank (job_status_of_attempt s) < status_rank (cancelled_job_status (job_status_of_attempt s))"
  by (cases s) (simp_all add: cancelled_job_status_def status_lists)

lemma cancelled_statuses_agree:
  "s \<in> set CANCELLABLE_ATTEMPT_STATUSES \<Longrightarrow>
   cancelled_job_status (job_status_of_attempt s) = job_status_of_attempt (cancelled_attempt_status s)"
  by (cases s) (simp_all add: cancelled_attempt_status_def cancelled_job_status_def status_lists)

lemmas cancelled_status_moves = cancelled_rank cancelled_not_cancellable cancelled_in_flight
  cancelled_job_status_rank cancelled_statuses_agree

lemma job_status_of_attempt_not_upload: "job_status_of_attempt s \<notin> set UPLOAD_STATUSES"
  by (cases s) (simp_all add: UPLOAD_STATUSES_def)

lemmas attempt_move_defs = legal_move_def changes_attempt_def attempt_evolves_def flight_allowed_def
  agrees_def in_flight_def open_attempt_def same_identity_def newly_rejected_def

lemma cancel_with_attempt_step:
  assumes inv: "d1_inv r" "d1_inv db" and ev: "evolves r db"
    and read: "read \<in> set (d1_jobs r)" "owned (ac_ownerSub i) (ac_jobId i) read"
    and batch: "batch3 (request_attempt_cancellation_sql i read) (request_job_cancellation_sql i read)
        (record_cancellation_event_sql i) db = Inr (rows, db')"
  shows "job_step (owned_by (ac_ownerSub i)) db db'"
proof -
  obtain db1 db2 where upa: "request_attempt_cancellation_sql i read db = Inr (fst rows, db1)"
    and upj: "request_job_cancellation_sql i read db1 = Inr (fst (snd rows), db2)"
    and event: "record_cancellation_event_sql i db2 = Inr (snd (snd rows), db')"
    using batch by (auto simp: batch3_Inr_iff)
  have rest: "unchanged_tables db2 db'"
    using insert_event_unchanged event by (auto simp: record_cancellation_event_sql_def)
  have status: "(if jb_status read = SUBMISSION_PENDING then ATT_CANCELLED else ATT_CANCEL_REQUESTED)
      = cancelled_attempt_status s" if "job_status_of_attempt s = jb_status read" for s
    using that by (cases s) (auto simp: cancelled_attempt_status_def)
  show ?thesis
  proof (rule attempt_job_step [OF inv(2) upa [unfolded request_attempt_cancellation_sql_def]
        upj [unfolded request_job_cancellation_sql_def] rest,
        where ka = "the (jb_active_attempt_id read)" and kj = "ac_jobId i"], goal_cases)
    case (3 a)
    then obtain j where j: "j \<in> set (d1_jobs db)" "jb_id j = ac_jobId i"
      "jb_active_attempt_id j = Some (am_id a)" "jb_status j = jb_status read" "jb_deleted_at j = None"
      by blast
    have "j = read"
      using same_stage_same_job [OF inv ev read(1) j(1)] j(2-5) 3(2) read(2) by (simp add: owned_def)
    moreover have "\<exists>x \<in> set (d1_attempts db1). jb_active_attempt_id read = Some (am_id x) \<and>
        am_job_id x = ac_jobId i \<and> am_status x = cancelled_attempt_status (am_status a) \<and>
        am_updated_at x = ac_timestamp i"
      using 3(2) by (intro bexI [OF _ update_where_changed [OF 3(3,1)]]) simp
    moreover have "am_status a \<in> set OPEN_ATTEMPT_STATUSES" "am_status a \<noteq> ATT_CANCEL_REQUESTED"
      "jb_status read \<in> set CANCELLABLE_JOB_STATUSES"
      using cancellable_open(1) 3(2) by force+
    moreover have "cancelled_job_status (jb_status read) = job_status_of_attempt (cancelled_attempt_status (am_status a))"
      "status_rank (jb_status read) < status_rank (cancelled_job_status (jb_status read))"
      using cancelled_status_moves(4,5) [of "am_status a"] 3(2) by auto
    ultimately show ?case
      using j 3(1,2) read(2) status [of "am_status a"] cancelled_status_moves [of "am_status a"]
      by (intro bexI [of _ j])
        (simp_all add: owned_def owned_by_def attempt_move_defs job_status_of_attempt_not_upload)
  next
    case (4 j)
    then show ?case using cancelled_attempt_not_active [OF inv(2), of j] by (auto simp: owned_def)
  qed (simp_all add: owned_def)
qed

lemma cancel_read_Commit:
  assumes "cancel_read i r = Inr (Commit c)"
  shows "cx_job c \<in> set (d1_jobs r)" "owned (ac_ownerSub i) (ac_jobId i) (cx_job c)"
proof -
  have "cancellation_context i r = Some c"
    using assms
    by (auto simp: cancel_read_def result_simps Let_def split: option.split_asm if_split_asm)
  then show "cx_job c \<in> set (d1_jobs r)" "owned (ac_ownerSub i) (ac_jobId i) (cx_job c)"
    by (auto simp: cancellation_context_def find_job_def find_Some_iff)
qed

lemma cancel_step:
  assumes inv: "d1_inv r" "d1_inv db" and ev: "evolves r db" and read: "cancel_read i r = Inr (Commit c)"
  shows "job_step (owned_by (ac_ownerSub i)) db (snd (cancel_commit i c db))"
proof (cases "cancel_batch i c db")
  case (Inl e)
  then show ?thesis by (simp add: cancel_commit_def)
next
  case (Inr q)
  obtain rows db' where q: "q = (rows, db')" by (cases q)
  have "job_step (owned_by (ac_ownerSub i)) db db'"
    using Inr cancel_without_attempt_step [OF inv(2)]
      cancel_with_attempt_step [OF inv ev cancel_read_Commit [OF read]]
    by (auto simp: q cancel_batch_def result_simps split: if_split_asm)
  then show ?thesis using Inr by (simp add: q cancel_commit_def)
qed

text \<open>
  A job that is deleted without a change of its attempt has no attempt, or one that had ended when
  the job was read, or one the statement before has just cancelled.
\<close>

lemma delete_read_commit:
  assumes "delete_read i r = Inr (Delete_commit c t)"
  obtains j0 where "j0 \<in> set (d1_jobs r)" "jb_id j0 = ac_jobId i" "dx_version c = jb_version j0"
    "dx_active_attempt_id c = jb_active_attempt_id j0"
    "dx_active_attempt_status c = map_option am_status (active_attempt r j0)"
proof -
  have "deletion_context i r = Some c"
    using assms by (auto simp: delete_read_def result_simps split: option.split_asm if_split_asm)
  then obtain j0 where j0: "find_job (\<lambda>j. jb_owner_sub j = ac_ownerSub i \<and> jb_id j = ac_jobId i) r = Some j0"
    "dx_version c = jb_version j0" "dx_active_attempt_id c = jb_active_attempt_id j0"
    "dx_active_attempt_status c = map_option am_status (active_attempt r j0)"
    by (auto simp: deletion_context_def)
  then show thesis using that [of j0] by (auto simp: find_job_def find_Some_iff)
qed

lemma deleted_job_attempts_end:
  assumes inv: "d1_inv r" "d1_inv db" and ev: "evolves r db"
    and j0: "j0 \<in> set (d1_jobs r)" "jb_id j0 = jb_id j" "jb_version j = jb_version j0"
    and j: "j \<in> set (d1_jobs db)"
    and ended: "jb_active_attempt_id j0 = None \<or>
      (\<exists>a \<in> set (d1_attempts r). active_attempt r j0 = Some a \<and> \<not> open_attempt a) \<or>
      (\<exists>a \<in> set (d1_attempts db). jb_active_attempt_id j0 = Some (am_id a) \<and>
         am_status a \<notin> set CANCELLABLE_ATTEMPT_STATUSES)"
    and x: "x \<in> set (d1_attempts db)" "am_job_id x = jb_id j"
  shows "am_status x \<notin> set CANCELLABLE_ATTEMPT_STATUSES"
proof
  assume s: "am_status x \<in> set CANCELLABLE_ATTEMPT_STATUSES"
  have keys: "d1_keys r" "d1_keys db" using inv by (simp_all add: d1_inv_def)
  have "job_evolves r db j0 j" using read_job_now [OF ev inv(2) j0(1) j] j0(2) by simp
  then have same: "j = j0" using job_evolves_same_version j0(3) by blast
  have "open_attempt x" using cancellable_open(1) [OF s] by (simp add: open_attempt_def)
  then have active: "jb_active_attempt_id j = Some (am_id x)"
    using attempt_jobE [OF inv(2) x(1) j x(2)] by metis
  with ended same consider
      a where "a \<in> set (d1_attempts r)" "active_attempt r j0 = Some a" "\<not> open_attempt a"
    | a where "a \<in> set (d1_attempts db)" "am_id a = am_id x" "am_status a \<notin> set CANCELLABLE_ATTEMPT_STATUSES"
    by auto
  then show False
  proof cases
    case 1
    then obtain a' where a': "a' \<in> set (d1_attempts db)" "attempt_evolves a a'"
      using ev unfolding evolves_def by blast
    have "am_id a = am_id x" using 1(2) active same active_attempt_Some_iff [OF keys(1)] by simp
    then have "a' = x" using attempt_unique [OF keys(2) a'(1) x(1)] a'(2) by (simp add: attempt_evolves_def)
    then have "am_status x = am_status a" using a'(2) 1(3) by (simp add: attempt_evolves_def)
    then show False using 1(3) \<open>open_attempt x\<close> by (simp add: open_attempt_def)
  next
    case 2
    then show False using attempt_unique [OF keys(2) 2(1) x(1)] s by simp
  qed
qed

lemma delete_batch_step:
  assumes inv: "d1_inv r" "d1_inv db" and ev: "evolves r db"
    and read: "delete_read i r = Inr (Delete_commit c t)"
    and batch: "delete_batch i c t db = Inr (rows, db')"
  shows "job_step (owned_by (ac_ownerSub i)) db db'"
proof -
  obtain j0 where j0: "j0 \<in> set (d1_jobs r)" "jb_id j0 = ac_jobId i" "dx_version c = jb_version j0"
    "dx_active_attempt_id c = jb_active_attempt_id j0"
    "dx_active_attempt_status c = map_option am_status (active_attempt r j0)"
    by (rule delete_read_commit [OF read])
  obtain db1 db2 where upa: "request_deletion_active_attempt_sql i c db = Inr (fst rows, db1)"
    and upj: "mark_job_deleted_sql i c t db1 = Inr (fst (snd rows), db2)"
    and event: "record_deletion_event_sql i db2 = Inr (snd (snd rows), db')"
    using batch by (auto simp: delete_batch_def batch3_Inr_iff)
  have rest: "unchanged_tables db2 db'"
    using insert_event_unchanged event by (auto simp: record_deletion_event_sql_def)
  show ?thesis
  proof (rule attempt_job_step [OF inv(2) upa [unfolded request_deletion_active_attempt_sql_def]
        upj [unfolded mark_job_deleted_sql_def] rest,
        where ka = "the (dx_active_attempt_id c)" and kj = "ac_jobId i"], goal_cases)
    case (3 a)
    then obtain j where j: "j \<in> set (d1_jobs db)" "owned (ac_ownerSub i) (ac_jobId i) j"
      "jb_version j = dx_version c" "jb_active_attempt_id j = Some (am_id a)" by blast
    have "\<exists>x \<in> set (d1_attempts db1). dx_active_attempt_id c = Some (am_id x) \<and>
        am_job_id x = ac_jobId i \<and> am_updated_at x = ac_timestamp i \<and>
        am_status x = cancelled_attempt_status (am_status a)"
      using 3(2) by (intro bexI [OF _ update_where_changed [OF 3(3,1)]]) simp
    then show ?case
      using j 3(1,2) cancelled_status_moves [of "am_status a"]
      by (intro bexI [of _ j]) (simp_all add: owned_def owned_by_def attempt_move_defs)
  next
    case (4 j)
    have "am_status x \<notin> set CANCELLABLE_ATTEMPT_STATUSES"
      if x: "x \<in> set (d1_attempts db)" "am_job_id x = jb_id j" for x
    proof (rule deleted_job_attempts_end [OF inv ev j0(1) _ _ 4(3) _ x])
      have "cancelled_attempt_status s \<notin> set CANCELLABLE_ATTEMPT_STATUSES" for s
        by (simp add: cancelled_attempt_status_def CANCELLABLE_ATTEMPT_STATUSES_def)
      then show "jb_active_attempt_id j0 = None \<or>
          (\<exists>a \<in> set (d1_attempts r). active_attempt r j0 = Some a \<and> \<not> open_attempt a) \<or>
          (\<exists>a \<in> set (d1_attempts db). jb_active_attempt_id j0 = Some (am_id a) \<and>
             am_status a \<notin> set CANCELLABLE_ATTEMPT_STATUSES)"
        using 4(2,4) j0(4,5) active_attempt_Some_iff [of r j0] inv(1)
        by (auto simp: open_attempt_def d1_inv_def split: option.split_asm)
    qed (use 4(4) j0 in \<open>simp_all add: owned_def\<close>)
    then show ?case using 4(4) by (simp add: statement_move_defs)
  qed (simp_all add: owned_def)
qed

lemma delete_step:
  assumes "d1_inv r" "d1_inv db" "evolves r db" "delete_read i r = Inr (Delete_commit c t)"
  shows "job_step (owned_by (ac_ownerSub i)) db (snd (delete_commit i c t db))"
  using delete_batch_step [OF assms]
  by (auto simp: delete_commit_def split: sum.split prod.split)

section \<open>Retry and ingestion\<close>

text \<open>An insertion of an attempt and the activation of it: both happen, or neither.\<close>

lemma insert_activate_step:
  assumes inv: "d1_inv db" and ins: "insert_attempt a db = Inr (ra, db1)"
    and upj: "update_jobs pj fj db1 = Inr (rj, db2)" and rest: "unchanged_tables db2 db'"
    and key: "\<forall>j. pj j \<longrightarrow> jb_id j = kj" and j: "j \<in> set (d1_jobs db)" "pj j" "owns j"
    and legal: "legal_move db j (fj j) (Added_attempt a)"
  shows "job_step owns db db'"
proof -
  have db1: "d1_jobs db1 = d1_jobs db" "d1_attempts db1 = d1_attempts db @ [a]"
    "winners_unique (d1_attempts db @ [a])"
    using ins by (auto simp: insert_attempt_def split: if_splits)
  have keys: "distinct (map jb_id (d1_jobs db1))" using inv db1 by (simp add: d1_inv_def d1_keys_def)
  show ?thesis
  proof (cases rule: update_jobs_cases [OF upj keys key])
    case 1
    then show ?thesis using j(1,2) db1(1) by simp
  next
    case (2 k)
    have "jb_id k = jb_id j" using key j(2) 2(2) by simp
    then have "k = j" using job_unique [of db k j] inv 2(1) j(1) db1(1) by (simp add: d1_inv_def)
    then have "job_moved db j (fj j) (Added_attempt a) db'"
      using 2 rest db1 j(1) by (simp add: job_moved_def unchanged_tables_def)
    then show ?thesis using j(3) legal unfolding job_step_def by blast
  qed
qed

lemma update_jobs_none:
  assumes "update_jobs p f db = Inr (rows, db1)" "\<forall>j \<in> set (d1_jobs db). \<not> p j"
  shows "db1 = db"
  using assms update_where_none [OF assms(2)]
  by (auto simp: update_jobs_def Let_def split: if_splits)

lemma insert_attempt_fresh:
  "insert_attempt a db = Inr (r, db1) \<Longrightarrow> am_id a \<notin> am_id ` set (d1_attempts db)"
  by (auto simp: insert_attempt_def split: if_splits)

lemma insert_attempt_added:
  "insert_attempt a db = Inr (r, db1) \<Longrightarrow> a \<in> set (d1_attempts db1)"
  by (auto simp: insert_attempt_def split: if_splits)

lemma retry_batch_step:
  assumes inv: "d1_inv db" and batch: "retry_batch i db = Inr (rows, db')"
  shows "job_step (owned_by (re_ownerSub i)) db db'"
proof -
  obtain db1 db2 where ins: "insert_retry_attempt_sql i db = Inr (fst rows, db1)"
    and upj: "activate_retry_attempt_sql i db1 = Inr (fst (snd rows), db2)"
    and event: "record_retry_event_sql i db2 = Inr (snd (snd rows), db')"
    using batch by (auto simp: retry_batch_def batch3_Inr_iff)
  have rest: "unchanged_tables db2 db'"
    using insert_event_unchanged event by (auto simp: record_retry_event_sql_def)
  show ?thesis
  proof (cases "\<exists>j a. find_job (retryable_job i) db = Some j \<and> active_attempt db j = Some a \<and>
      insert_attempt (retried_attempt i a) db = Inr (fst rows, db1)")
    case True
    then obtain j a where ja: "find_job (retryable_job i) db = Some j" "active_attempt db j = Some a"
      and ia: "insert_attempt (retried_attempt i a) db = Inr (fst rows, db1)" by blast
    have j: "j \<in> set (d1_jobs db)" "retryable_job i j" using ja(1) by (auto simp: find_job_def find_Some_iff)
    have a: "a \<in> set (d1_attempts db)" "jb_active_attempt_id j = Some (am_id a)"
      using ja(2) active_attempt_Some_iff inv by (auto simp: d1_inv_def)
    show ?thesis
    proof (rule insert_activate_step [OF inv ia upj [unfolded activate_retry_attempt_sql_def] rest _ j(1)])
      show "legal_move db j (j\<lparr>jb_status := SUBMISSION_PENDING,
          jb_active_attempt_id := Some (re_attemptId i), jb_error_code := None,
          jb_error_message := None, jb_duration_seconds := None, jb_processing_started_at := None,
          jb_completed_at := None, jb_failed_at := None, jb_cancelled_at := None,
          jb_notified_at := None, jb_updated_at := re_timestamp i,
          jb_version := jb_version j + 1\<rparr>) (Added_attempt (retried_attempt i a))"
        using insert_attempt_fresh [OF ia] j(2) a
        by (auto simp: legal_move_def adds_attempt_def retried_attempt_def
            retryable_job_def owned_def same_identity_def)
    qed (use j(2) insert_attempt_added [OF ia] in
      \<open>auto simp: retryable_job_def statement_move_defs retried_attempt_def intro!: bexI\<close>)
  next
    case False
    then have db1: "db1 = db"
      using ins by (auto simp: insert_retry_attempt_sql_def split: option.split_asm if_split_asm)
    have "\<not> (retryable_job i j \<and> (\<exists>r \<in> set (d1_attempts db). am_id r = re_attemptId i \<and>
        am_job_id r = re_jobId i \<and> am_status r = ATT_SUBMISSION_PENDING \<and> am_created_at r = re_timestamp i))"
      if "j \<in> set (d1_jobs db)" for j
      using that failed_job_attempts_closed [OF inv that]
      by (auto simp: retryable_job_def owned_def open_attempt_def OPEN_ATTEMPT_STATUSES_def)
    then have "db2 = db"
      using update_jobs_none [OF upj [unfolded activate_retry_attempt_sql_def db1]] by simp
    then show ?thesis using rest by (simp add: job_step_unchanged)
  qed
qed

lemma retry_step:
  assumes "d1_inv db"
  shows "job_step (owned_by (re_ownerSub i)) db (snd (retryFailedJob i db))"
  using retry_batch_step [OF assms]
  by (auto simp: retryFailedJob_def retry_input_parse_def result_simps split: sum.split prod.split)

lemma ingestible_no_attempt:
  "d1_inv db \<Longrightarrow> j \<in> set (d1_jobs db) \<Longrightarrow> ingestible i j \<Longrightarrow> a \<in> set (d1_attempts db) \<Longrightarrow>
   am_job_id a \<noteq> ut_jobId (so_target (in_job i))"
  using no_attempt_without_active [of db j a] by (auto simp: ingestible_def Let_def)

lemma ingest_batch_step:
  assumes inv: "d1_inv db" and batch: "ingest_batch i db = Inr (rows, db')"
  shows "job_step (\<lambda>_. True) db db'"
proof -
  obtain ra db1 db2 events where
    ins: "(if so_generationOneAttemptId (in_job i) = None then insert_attempt_sql i db else Inr ([], db))
      = Inr (ra, db1)"
    and upj: "activate_attempt_sql i db1 = Inr (rows, db2)"
    and event: "record_ingestion_event_sql i db2 = Inr (events, db')"
    using batch by (auto simp: ingest_batch_def batch2_Inr_iff result_simps)
  have rest: "unchanged_tables db2 db'"
    using insert_event_unchanged event by (auto simp: record_ingestion_event_sql_def)
  show ?thesis
  proof (cases "\<exists>j. so_generationOneAttemptId (in_job i) = None \<and> find_job (ingestible i) db = Some j \<and>
      insert_attempt (ingested_attempt i) db = Inr (ra, db1)")
    case True
    then obtain j where fj: "find_job (ingestible i) db = Some j"
      and ia: "insert_attempt (ingested_attempt i) db = Inr (ra, db1)" by blast
    have j: "j \<in> set (d1_jobs db)" "ingestible i j" using fj by (auto simp: find_job_def find_Some_iff)
    show ?thesis
    proof (rule insert_activate_step [OF inv ia upj [unfolded activate_attempt_sql_def] rest _ j(1)])
      show "legal_move db j (j\<lparr>jb_actual_size_bytes := Some (in_sizeBytes i),
          jb_source_etag := Some (in_sourceEtag i), jb_status := SUBMISSION_PENDING,
          jb_active_attempt_id := Some (ingested_attempt_id i),
          jb_uploaded_at := (case jb_uploaded_at j of None \<Rightarrow> Some (in_timestamp i) | Some t \<Rightarrow> Some t),
          jb_updated_at := in_timestamp i, jb_version := jb_version j + 1\<rparr>)
          (Added_attempt (ingested_attempt i))"
        using insert_attempt_fresh [OF ia] j(2)
        by (auto simp: legal_move_def adds_attempt_def ingested_attempt_def
            ingestible_def Let_def same_identity_def)
    qed (use j(2) insert_attempt_added [OF ia] in
      \<open>auto simp: ingestible_def Let_def ingested_attempt_def intro!: bexI\<close>)
  next
    case False
    then have db1: "db1 = db"
      using ins by (auto simp: insert_attempt_sql_def split: if_split_asm)
    have "db2 = db"
      using update_jobs_none [OF upj [unfolded activate_attempt_sql_def db1]]
        ingestible_no_attempt [OF inv, of _ i] by blast
    then show ?thesis using rest by (simp add: job_step_unchanged)
  qed
qed

lemma ingest_step:
  assumes "d1_inv db"
  shows "job_step (\<lambda>_. True) db (snd (ingestSource i db))"
  using ingest_batch_step [OF assms]
  by (auto simp: ingestSource_def result_simps split: sum.split prod.split)

section \<open>Mutated and rejected sources\<close>

text \<open>An active job that no longer waits for its upload has an open active attempt.\<close>

lemma open_job_attempt:
  assumes inv: "d1_inv db" and j: "j \<in> set (d1_jobs db)" "jb_deleted_at j = None"
    and status: "jb_status j \<in> set OPEN_JOB_STATUSES"
  obtains a where "a \<in> set (d1_attempts db)" "jb_active_attempt_id j = Some (am_id a)"
    "am_job_id a = jb_id j" "open_attempt a"
proof -
  have "jb_active_attempt_id j \<noteq> None"
    using inv j status unfolding d1_inv_def statuses_agree_def by blast
  then obtain a where a: "a \<in> set (d1_attempts db)" "jb_active_attempt_id j = Some (am_id a)"
    "am_job_id a = jb_id j"
    using inv j(1) unfolding d1_inv_def active_attempts_exist_def by force
  have "jb_status j = job_status_of_attempt (am_status a)" using agreeD [OF inv j a(1,2)] status by blast
  then have "open_attempt a"
    using status by (cases "am_status a") (auto simp: open_attempt_def OPEN_ATTEMPT_STATUSES_def OPEN_JOB_STATUSES_def)
  then show thesis using that a by blast
qed

lemma active_statuses_split:
  "s \<in> set ACTIVE_JOB_STATUSES \<longleftrightarrow> s \<in> set UPLOAD_STATUSES \<or> s \<in> set OPEN_JOB_STATUSES"
  by (auto simp: ACTIVE_JOB_STATUSES_def UPLOAD_STATUSES_def OPEN_JOB_STATUSES_def)

lemma failed_status_moves:
  "ATT_FAILED \<notin> set OPEN_ATTEMPT_STATUSES" "ATT_FAILED \<notin> set IN_FLIGHT_STATUSES"
  "SOURCE_MUTATED \<notin> set OPEN_JOB_STATUSES" "SOURCE_MUTATED \<notin> set UPLOAD_STATUSES"
  by (simp_all add: OPEN_ATTEMPT_STATUSES_def IN_FLIGHT_STATUSES_def OPEN_JOB_STATUSES_def
      UPLOAD_STATUSES_def)

lemma attempt_rank_le: "attempt_rank s \<le> 4"
  by (cases s) simp_all

lemma source_mutation_step:
  assumes inv: "d1_inv db" and ev: "evolves r db"
    and read: "j0 \<in> set (d1_jobs r)" "jb_id j0 = jobId" "jb_version j0 = version"
      "jb_active_attempt_id j0 = active"
    and batch: "source_mutation_batch owns actor jobId version active etag eventId t db = Inr (rows, db')"
  shows "job_step owns db db'"
proof -
  obtain db1 db2 where
    upa: "fail_active_attempt_source_mutated_sql owns jobId version active etag t db = Inr (fst rows, db1)"
    and upj: "mark_source_mutated_sql owns jobId version etag t db1 = Inr (fst (snd rows), db2)"
    and event: "record_source_mutated_event_sql owns eventId jobId actor t db2 = Inr (snd (snd rows), db')"
    using batch by (auto simp: source_mutation_batch_def batch3_Inr_iff)
  have rest: "unchanged_tables db2 db'"
    using insert_event_unchanged event by (auto simp: record_source_mutated_event_sql_def)
  show ?thesis
  proof (rule attempt_job_step [OF inv upa [unfolded fail_active_attempt_source_mutated_sql_def]
        upj [unfolded mark_source_mutated_sql_def] rest, where ka = "the active" and kj = jobId], goal_cases)
    case (3 a)
    then obtain j where "j \<in> set (d1_jobs db)" "jb_id j = jobId" "owns j" "jb_version j = version"
      "jb_active_attempt_id j = Some (am_id a)" "source_differs j etag"
      "jb_status j \<in> set OPEN_JOB_STATUSES" "jb_deleted_at j = None" by blast
    then show ?case
      using 3(1,2)
      by (intro bexI [of _ j])
        (simp_all add: active_statuses_split attempt_move_defs failed_status_moves attempt_rank_le
          open_job_status_rank)
  next
    case (4 j)
    then have je: "job_evolves r db j0 j" using read_job_now [OF ev inv read(1)] read(2) by simp
    then have "jb_active_attempt_id j = active"
      using job_evolves_same_version [OF je] read(3,4) 4(4) by simp
    moreover have "jb_status j \<notin> set OPEN_JOB_STATUSES"
    proof
      assume status: "jb_status j \<in> set OPEN_JOB_STATUSES"
      have undeleted: "jb_deleted_at j = None" using 4(4) by simp
      obtain a where a: "a \<in> set (d1_attempts db)" "jb_active_attempt_id j = Some (am_id a)"
        "am_job_id a = jb_id j" "open_attempt a"
        by (rule open_job_attempt [OF inv 4(3) undeleted status])
      have "\<not> (\<exists>j \<in> set (d1_jobs db). jb_id j = jobId \<and> owns j \<and> jb_version j = version \<and>
             jb_active_attempt_id j = Some (am_id a) \<and> source_differs j etag \<and>
             jb_status j \<in> set OPEN_JOB_STATUSES \<and> jb_deleted_at j = None)"
        using bspec [OF 4(1) a(1)] a(2-4) 4(4) calculation by (simp add: open_attempt_def)
      then show False using 4(3,4) status a(2) by blast
    qed
    ultimately show ?case
      using 4(3,4) upload_status_no_attempt [OF inv 4(3)]
      by (auto simp: active_statuses_split statement_move_defs)
  qed simp_all
qed

lemma complete_read_mutate:
  assumes "complete_read i r = Inr (Complete_mutate current)"
  obtains j0 where "j0 \<in> set (d1_jobs r)" "owned (co_ownerSub i) (co_jobId i) j0"
    "jb_version j0 = co_expectedVersion i" "current = mapUploadTarget j0"
proof -
  obtain j0 where "find_job (owned (co_ownerSub i) (co_jobId i)) r = Some j0"
    "current = mapUploadTarget j0" "ut_version current = co_expectedVersion i"
    using assms by (auto simp: complete_read_def result_simps Let_def split: option.split_asm if_split_asm)
  then show thesis
    using that [of j0] by (auto simp: find_job_def find_Some_iff mapUploadTarget_def)
qed

lemma complete_mutate_step:
  assumes inv: "d1_inv db" and ev: "evolves r db"
    and read: "complete_read i r = Inr (Complete_mutate current)"
  shows "job_step (owned_by (co_ownerSub i)) db (snd (complete_mutate i current db))"
proof -
  obtain j0 where j0: "j0 \<in> set (d1_jobs r)" "owned (co_ownerSub i) (co_jobId i) j0"
    "jb_version j0 = co_expectedVersion i" "current = mapUploadTarget j0"
    by (rule complete_read_mutate [OF read])
  have "job_step (owned_by (co_ownerSub i)) db db'"
    if "complete_mutation_batch i (ut_activeAttemptId current) db = Inr (rows, db')" for rows db'
    using source_mutation_step [OF inv ev j0(1) _ j0(3) _ that [unfolded complete_mutation_batch_def]] j0
    by (simp add: owned_def mapUploadTarget_def)
  then show ?thesis by (auto simp: complete_mutate_def split: sum.split prod.split)
qed

lemma findSourceJob_row:
  assumes "findSourceJob jobId r = Inr (Some job)"
  obtains j0 where "j0 \<in> set (d1_jobs r)" "jb_id j0 = jobId" "jb_deleted_at j0 = None"
    "so_target job = mapUploadTarget j0"
proof -
  obtain row where row: "find_source_row jobId r = Some row" "mapSourceJob row = Inr job"
    using assms by (auto simp: findSourceJob_def result_simps split: option.split_asm)
  have "so_target job = mapUploadTarget (sr_job row)"
    using row(2) by (auto simp: mapSourceJob_def result_simps)
  then show thesis
    using row(1) that [of "sr_job row"] by (auto simp: find_source_row_def find_job_def find_Some_iff)
qed

lemma markSourceMutated_step:
  assumes inv: "d1_inv db" and ev: "evolves r db" and read: "findSourceJob jobId r = Inr (Some job)"
  shows "job_step (\<lambda>_. True) db (snd (markSourceMutated job etag eventId t db))"
proof -
  obtain j0 where j0: "j0 \<in> set (d1_jobs r)" "so_target job = mapUploadTarget j0"
    by (rule findSourceJob_row [OF read])
  have "job_step (\<lambda>_. True) db db'"
    if "queue_mutation_batch job etag eventId t db = Inr (rows, db')" for rows db'
    using source_mutation_step [OF inv ev j0(1) refl refl refl, of "\<lambda>_. True"] that j0(2)
    by (simp add: queue_mutation_batch_def mapUploadTarget_def)
  then show ?thesis
    by (auto simp: markSourceMutated_def result_simps split: sum.split prod.split)
qed

lemma failSource_step:
  assumes inv: "d1_inv db"
  shows "job_step (\<lambda>_. True) db (snd (failSource job errorCode eventId t db))"
proof -
  have "job_step (\<lambda>_. True) db db'"
    if batch: "batch2 (fail_source_sql job errorCode t) (record_rejection_event_sql job errorCode eventId t) db
      = Inr (rows, db')" for rows db'
  proof -
    obtain db1 where upd: "fail_source_sql job errorCode t db = Inr (fst rows, db1)"
      and event: "record_rejection_event_sql job errorCode eventId t db1 = Inr (snd rows, db')"
      using batch by (auto simp: batch2_Inr_iff)
    have rest: "unchanged_tables db1 db'"
      using insert_event_unchanged event by (auto simp: record_rejection_event_sql_def)
    show ?thesis
    proof (rule update_jobs_step [OF inv upd [unfolded fail_source_sql_def] _ _ rest])
      show "\<forall>j. jb_id j = ut_jobId (so_target job) \<and> jb_version j = ut_version (so_target job) \<and>
          jb_active_attempt_id j = None \<and> jb_status j \<in> set UPLOAD_STATUSES \<and>
          jb_deleted_at j = None \<longrightarrow> jb_id j = ut_jobId (so_target job)"
        by simp
    qed (auto simp: statement_move_defs)
  qed
  then show ?thesis
    by (auto simp: failSource_def result_simps split: sum.split prod.split)
qed

end
