(* ===== verification/RunpodControl.thy ===== *)
theory RunpodControl
  imports UploadIngestion
begin

text \<open>
  apps/orchestrator/src/runpod-control-repository.ts: the statements and operations with which the
  orchestrator submits an attempt to RunPod, lets one worker claim it, keeps its heartbeat, and ends
  submissions that came to nothing. Every operation parses its input, commits one batch, and
  answers from the rows the batch returned.
  Lemmas: the options an ingestion stores satisfy what a submission asks of them.
\<close>

section \<open>Comparisons with NULL\<close>

definition sql_leq :: "string option \<Rightarrow> string \<Rightarrow> bool" where
  "sql_leq x t \<longleftrightarrow> (case x of None \<Rightarrow> False | Some s \<Rightarrow> text_leq s t)"

definition sql_greater :: "string option \<Rightarrow> string \<Rightarrow> bool" where
  "sql_greater x t \<longleftrightarrow> (case x of None \<Rightarrow> False | Some s \<Rightarrow> text_less t s)"

text \<open>The order of nullable texts in ORDER BY: NULL first.\<close>

fun null_first_less :: "string option \<Rightarrow> string option \<Rightarrow> bool" where
  "null_first_less None (Some _) \<longleftrightarrow> True"
| "null_first_less (Some s) (Some t) \<longleftrightarrow> text_less s t"
| "null_first_less _ None \<longleftrightarrow> False"

text \<open>\<open>ORDER BY column, id\<close> on attempts.\<close>

definition attempts_before ::
  "(attempt_row \<Rightarrow> string option) \<Rightarrow> attempt_row \<Rightarrow> attempt_row \<Rightarrow> bool" where
  "attempts_before f a b \<longleftrightarrow>
     null_first_less (f a) (f b) \<or> (f a = f b \<and> text_less (am_id a) (am_id b))"

definition runpodJobIdSchema :: "string \<Rightarrow> bool" where
  "runpodJobIdSchema s \<longleftrightarrow> 1 \<le> length s \<and> length s \<le> 200"

section \<open>Submissions of an attempt\<close>

definition submitted_as :: "d1 \<Rightarrow> string \<Rightarrow> string \<Rightarrow> bool" where
  "submitted_as db attemptId runpodJobId \<longleftrightarrow>
     (\<exists>s \<in> set (d1_submissions db). rs_attempt_id s = attemptId \<and>
        rs_runpod_job_id s = runpodJobId \<and> rs_source s = ''submit_response'')"

definition never_submitted :: "d1 \<Rightarrow> string \<Rightarrow> bool" where
  "never_submitted db attemptId \<longleftrightarrow> (\<forall>s \<in> set (d1_submissions db). rs_attempt_id s \<noteq> attemptId)"

definition submission_before :: "submission_row \<Rightarrow> submission_row \<Rightarrow> bool" where
  "submission_before s t \<longleftrightarrow>
     text_less (rs_created_at s) (rs_created_at t) \<or>
     (rs_created_at s = rs_created_at t \<and> text_less (rs_runpod_job_id s) (rs_runpod_job_id t))"

text \<open>The first job RunPod accepted for an attempt.\<close>

definition first_submit_response :: "d1 \<Rightarrow> string \<Rightarrow> string option" where
  "first_submit_response db attemptId =
     (case order_by submission_before
         (filter (\<lambda>s. rs_attempt_id s = attemptId \<and> rs_source s = ''submit_response'') (d1_submissions db)) of
        [] \<Rightarrow> None | s # _ \<Rightarrow> Some (rs_runpod_job_id s))"

definition insert_submission_sql ::
  "string \<Rightarrow> string \<Rightarrow> string \<Rightarrow> string \<Rightarrow> submission_row statement" where
  "insert_submission_sql runpodJobId attemptId source timestamp db =
     (if (\<exists>a \<in> set (d1_attempts db). am_id a = attemptId)
        \<and> runpodJobId \<notin> rs_runpod_job_id ` set (d1_submissions db)
      then let s = \<lparr>rs_runpod_job_id = runpodJobId, rs_attempt_id = attemptId, rs_is_winner = False,
             rs_source = source, rs_created_at = timestamp, rs_updated_at = timestamp\<rparr>
        in Inr ([s], db\<lparr>d1_submissions := d1_submissions db @ [s]\<rparr>)
      else Inr ([], db))"

definition mark_submission_winner_sql ::
  "string \<Rightarrow> string \<Rightarrow> string \<Rightarrow> submission_row statement" where
  "mark_submission_winner_sql runpodJobId attemptId timestamp db =
     (let p = (\<lambda>s. rs_runpod_job_id s = runpodJobId \<and> rs_attempt_id s = attemptId \<and>
            (\<exists>a \<in> set (d1_attempts db). am_id a = attemptId \<and>
               am_winning_runpod_job_id a = Some runpodJobId));
          f = (\<lambda>s. s\<lparr>rs_is_winner := True, rs_updated_at := timestamp\<rparr>)
      in Inr (map f (filter p (d1_submissions db)),
           db\<lparr>d1_submissions := update_where p f (d1_submissions db)\<rparr>))"

section \<open>Events\<close>

definition orchestrator_event :: "string \<Rightarrow> string \<Rightarrow> string \<Rightarrow> string \<Rightarrow> string \<Rightarrow> event_row" where
  "orchestrator_event eventId jobId attemptId eventType timestamp =
     \<lparr>ev_id = eventId, ev_job_id = jobId, ev_attempt_id = Some attemptId, ev_event_type = eventType,
      ev_actor = ''orchestrator'', ev_created_at = timestamp\<rparr>"

definition record_event_sql ::
  "string \<Rightarrow> string \<Rightarrow> string \<Rightarrow> string \<Rightarrow> string \<Rightarrow> event_row statement" where
  "record_event_sql eventId jobId attemptId eventType timestamp db =
     insert_event Conflict_id_do_nothing
       (if \<exists>a \<in> set (d1_attempts db). am_id a = attemptId \<and> am_job_id a = jobId \<and>
             am_updated_at a = timestamp
        then Some (orchestrator_event eventId jobId attemptId eventType timestamp) else None) db"

definition record_claim_event_sql ::
  "string \<Rightarrow> string \<Rightarrow> string \<Rightarrow> string \<Rightarrow> string \<Rightarrow> event_row statement" where
  "record_claim_event_sql eventId jobId attemptId runpodJobId timestamp db =
     insert_event Conflict_id_do_nothing
       (if \<exists>a \<in> set (d1_attempts db). am_id a = attemptId \<and> am_job_id a = jobId \<and>
             am_winning_runpod_job_id a = Some runpodJobId \<and> am_claimed_at a = Some timestamp
        then Some (orchestrator_event eventId jobId attemptId ''runpod_claim_granted'' timestamp)
        else None) db"

section \<open>Preparing a submission\<close>

text \<open>
  What \<open>PREPARE_SUBMISSION_SQL\<close> asks of the stored options. \<open>json_extract\<close> yields the number 1 for
  the JSON value true; a JSON null among the formats is a SQL NULL, which IN and DISTINCT skip.
\<close>

definition format_texts :: "json list \<Rightarrow> string list" where
  "format_texts xs = List.map_filter (\<lambda>x. case x of JStr s \<Rightarrow> Some s | _ \<Rightarrow> None) xs"

definition format_known :: "json \<Rightarrow> bool" where
  "format_known x = (case x of JStr s \<Rightarrow> s \<in> {''markdown'', ''json'', ''srt''} | JNull \<Rightarrow> True | _ \<Rightarrow> False)"

definition prepare_options_ok :: "json \<Rightarrow> bool" where
  "prepare_options_ok j \<longleftrightarrow>
     json_field ''contractVersion'' j \<in> {Some (JNum 1), Some (JBool True)} \<and>
     json_field ''language'' j \<in> {Some (JStr ''auto''), Some (JStr ''en''), Some (JStr ''ja'')} \<and>
     json_field ''model'' j = Some (JStr ''large-v3-turbo'') \<and>
     json_field ''vad'' j \<in> {Some (JBool True), Some (JBool False)} \<and>
     (case json_field ''outputFormats'' j of
        Some (JArr xs) \<Rightarrow> 1 \<le> length xs \<and> length xs \<le> 3 \<and> list_all format_known xs \<and>
          length (remdups (format_texts xs)) = length xs
      | _ \<Rightarrow> False) \<and>
     (case j of JObj es \<Rightarrow> length es = 5 | _ \<Rightarrow> False)"

text \<open>An execution row that says of the attempt what its own columns say, its status aside.\<close>

definition execution_matches :: "attempt_row \<Rightarrow> execution_row \<Rightarrow> bool" where
  "execution_matches a x \<longleftrightarrow>
     xc_attempt_id x = am_id a \<and> xc_id x = am_id a \<and>
     Some (xc_provider_kind x) = am_provider_kind a \<and> Some (xc_provider_policy x) = am_provider_policy a \<and>
     xc_create_outcome x = am_submission_outcome a \<and>
     xc_provider_handle x = am_winning_runpod_job_id a \<and>
     xc_terminal_status x = am_runpod_terminal_status a"

definition occupies_gpu :: "attempt_row \<Rightarrow> bool" where
  "occupies_gpu a \<longleftrightarrow> am_status a \<in> {ATT_SUBMITTING, ATT_RUNNING, ATT_CANCEL_REQUESTED}"

definition submittable :: "string \<Rightarrow> d1 \<Rightarrow> attempt_row \<Rightarrow> bool" where
  "submittable jobId db a \<longleftrightarrow>
     am_job_id a = jobId \<and>
     (case find_job (\<lambda>j. jb_id j = jobId \<and> jb_status j = SUBMISSION_PENDING \<and> jb_deleted_at j = None) db of
        None \<Rightarrow> False | Some j \<Rightarrow> jb_active_attempt_id j = Some (am_id a)) \<and>
     am_status a = ATT_SUBMISSION_PENDING \<and> am_claim_token_hash a = None \<and>
     am_claim_issued_at a = None \<and> am_claim_expires_at a = None \<and> am_claim_consumed_at a = None \<and>
     am_provider_kind a = Some ''runpod_serverless'' \<and>
     am_provider_policy a = Some ''runpod_serverless_v1'' \<and> am_contract_version a = Some 1 \<and>
     (case am_execution_options a of None \<Rightarrow> False | Some j \<Rightarrow> prepare_options_ok j) \<and>
     (\<exists>x \<in> set (d1_executions db). execution_matches a x \<and> xc_status x = GPU_PENDING) \<and>
     \<not> (\<exists>b \<in> set (d1_attempts db). am_id b \<noteq> am_id a \<and> occupies_gpu b)"

definition prepare_submission_sql ::
  "string \<Rightarrow> string \<Rightarrow> string \<Rightarrow> string \<Rightarrow> attempt_row statement" where
  "prepare_submission_sql jobId claimTokenHash timestamp claimExpiresAt db =
     update_attempts (submittable jobId db)
       (\<lambda>a. a\<lparr>am_status := ATT_SUBMITTING, am_claim_token_hash := Some claimTokenHash,
          am_claim_issued_at := Some timestamp, am_claim_expires_at := Some claimExpiresAt,
          am_claim_consumed_at := None, am_submission_started_at := Some timestamp,
          am_submission_outcome := None, am_submission_finished_at := None,
          am_updated_at := timestamp\<rparr>) db"

definition mark_job_submitting_sql :: "string \<Rightarrow> string \<Rightarrow> string \<Rightarrow> job_row statement" where
  "mark_job_submitting_sql jobId timestamp claimTokenHash db =
     update_jobs
       (\<lambda>j. jb_id j = jobId \<and> jb_status j = SUBMISSION_PENDING \<and> jb_deleted_at j = None \<and>
          (\<exists>a \<in> set (d1_attempts db). jb_active_attempt_id j = Some (am_id a) \<and>
             am_job_id a = jb_id j \<and> am_status a = ATT_SUBMITTING \<and>
             am_claim_token_hash a = Some claimTokenHash \<and> am_claim_issued_at a = Some timestamp \<and>
             (\<exists>x \<in> set (d1_executions db). xc_attempt_id x = am_id a \<and> xc_status x = GPU_CREATING \<and>
                Some (xc_provider_kind x) = am_provider_kind a \<and>
                Some (xc_provider_policy x) = am_provider_policy a)))
       (\<lambda>j. j\<lparr>jb_status := SUBMITTING,
          jb_processing_started_at := (case jb_processing_started_at j of
             None \<Rightarrow> Some timestamp | Some t \<Rightarrow> Some t),
          jb_updated_at := timestamp, jb_version := jb_version j + 1\<rparr>) db"

record prepared_submission =
  ps_attemptId :: string
  ps_generation :: nat
  ps_jobId :: string

definition updatedAttemptRowsSchema :: "attempt_row list \<Rightarrow> attempt_row option result" where
  "updatedAttemptRowsSchema =
     rows_max_one (\<lambda>a. 0 < am_generation a \<and> ulid_ok (am_id a) \<and> ulid_ok (am_job_id a))"

definition prepare_batch ::
  "string \<Rightarrow> string \<Rightarrow> string \<Rightarrow> string \<Rightarrow> d1 \<Rightarrow> ((attempt_row list \<times> job_row list) \<times> d1) result" where
  "prepare_batch jobId claimTokenHash timestamp claimExpiresAt =
     batch2 (prepare_submission_sql jobId claimTokenHash timestamp claimExpiresAt)
       (mark_job_submitting_sql jobId timestamp claimTokenHash)"

definition prepareSubmission ::
  "string \<Rightarrow> string \<Rightarrow> string \<Rightarrow> string \<Rightarrow> prepared_submission option api" where
  "prepareSubmission jobId claimTokenHash timestamp claimExpiresAt db =
     (case res_bind (zod_parse (\<lambda>_. utc_datetime_ok timestamp \<and> sha256_hex_ok claimTokenHash \<and>
           ulid_ok jobId \<and> utc_datetime_ok claimExpiresAt) ())
         (\<lambda>_. prepare_batch jobId claimTokenHash timestamp claimExpiresAt db) of
        Inl e \<Rightarrow> (Inl e, db)
      | Inr ((attempts, jobs), db') \<Rightarrow>
          (res_bind (updatedAttemptRowsSchema attempts) (\<lambda>prepared.
           res_bind (updatedJobIdRowsSchema (map jb_id jobs)) (\<lambda>updatedJob.
           Inr (case (prepared, updatedJob) of
                  (Some a, Some _) \<Rightarrow> Some \<lparr>ps_attemptId = am_id a, ps_generation = am_generation a,
                    ps_jobId = am_job_id a\<rparr>
                | _ \<Rightarrow> None))), db'))"

section \<open>The outcome of a submission\<close>

definition mark_submission_accepted_sql :: "string \<Rightarrow> string \<Rightarrow> string \<Rightarrow> attempt_row statement" where
  "mark_submission_accepted_sql attemptId timestamp runpodJobId db =
     update_attempts
       (\<lambda>a. am_id a = attemptId \<and> am_status a = ATT_SUBMITTING \<and> submitted_as db attemptId runpodJobId)
       (\<lambda>a. a\<lparr>am_submission_outcome := Some ''accepted'', am_submission_finished_at := Some timestamp,
          am_updated_at := timestamp\<rparr>) db"

definition recordSubmissionAccepted :: "string \<Rightarrow> string \<Rightarrow> string \<Rightarrow> bool api" where
  "recordSubmissionAccepted attemptId runpodJobId timestamp db =
     (case res_bind (zod_parse (\<lambda>_. utc_datetime_ok timestamp \<and> runpodJobIdSchema runpodJobId \<and>
           ulid_ok attemptId) ())
         (\<lambda>_. batch2 (insert_submission_sql runpodJobId attemptId ''submit_response'' timestamp)
            (mark_submission_accepted_sql attemptId timestamp runpodJobId) db) of
        Inl e \<Rightarrow> (Inl e, db)
      | Inr ((_, attempts), db') \<Rightarrow>
          (res_bind (updatedJobIdRowsSchema (map am_id attempts)) (\<lambda>row. Inr (row \<noteq> None)), db'))"

definition mark_submission_unknown_sql :: "string \<Rightarrow> string \<Rightarrow> attempt_row statement" where
  "mark_submission_unknown_sql attemptId timestamp =
     update_attempts
       (\<lambda>a. am_id a = attemptId \<and> am_status a = ATT_SUBMITTING \<and> am_submission_outcome a = None)
       (\<lambda>a. a\<lparr>am_submission_outcome := Some ''unknown'', am_submission_finished_at := Some timestamp,
          am_updated_at := timestamp\<rparr>)"

text \<open>An operation of one statement on the attempts.\<close>

definition answer_attempt :: "(attempt_row list \<times> d1) result \<Rightarrow> d1 \<Rightarrow> bool result \<times> d1" where
  "answer_attempt m db =
     (case m of
        Inl e \<Rightarrow> (Inl e, db)
      | Inr (attempts, db') \<Rightarrow>
          (res_bind (updatedJobIdRowsSchema (map am_id attempts)) (\<lambda>row. Inr (row \<noteq> None)), db'))"

definition recordSubmissionUnknown :: "string \<Rightarrow> string \<Rightarrow> bool api" where
  "recordSubmissionUnknown attemptId timestamp db =
     answer_attempt (res_bind (zod_parse (\<lambda>_. ulid_ok attemptId \<and> utc_datetime_ok timestamp) ())
       (\<lambda>_. mark_submission_unknown_sql attemptId timestamp db)) db"

definition mark_attempt_rejected_sql :: "string \<Rightarrow> string \<Rightarrow> attempt_row statement" where
  "mark_attempt_rejected_sql attemptId timestamp =
     update_attempts
       (\<lambda>a. am_id a = attemptId \<and> am_status a = ATT_SUBMITTING \<and> am_submission_outcome a = None)
       (\<lambda>a. a\<lparr>am_status := ATT_FAILED, am_submission_outcome := Some ''rejected'',
          am_submission_finished_at := Some timestamp, am_failed_at := Some timestamp,
          am_error_code := Some PE_PROCESSING_FAILED, am_error_message := None,
          am_updated_at := timestamp\<rparr>)"

text \<open>The columns of a job that has failed, and of one that is cancelled.\<close>

definition failed_job :: "string \<Rightarrow> job_row \<Rightarrow> job_row" where
  "failed_job timestamp j =
     j\<lparr>jb_status := FAILED, jb_error_code := Some PE_PROCESSING_FAILED, jb_error_message := None,
       jb_failed_at := Some timestamp, jb_updated_at := timestamp, jb_version := jb_version j + 1\<rparr>"

definition mark_job_rejected_sql :: "string \<Rightarrow> string \<Rightarrow> string \<Rightarrow> job_row statement" where
  "mark_job_rejected_sql jobId timestamp attemptId db =
     update_jobs
       (\<lambda>j. jb_id j = jobId \<and> jb_active_attempt_id j = Some attemptId \<and> jb_status j = SUBMITTING \<and>
          (\<exists>a \<in> set (d1_attempts db). am_id a = attemptId \<and> am_job_id a = jobId \<and>
             am_status a = ATT_FAILED \<and> am_submission_outcome a = Some ''rejected''))
       (failed_job timestamp) db"

text \<open>
  A batch of a statement on the attempts, one on the jobs and an event answers whether both tables
  changed.
\<close>

type_synonym attempt_job_rows = "attempt_row list \<times> job_row list \<times> event_row list"

definition answer_both :: "(attempt_job_rows \<times> d1) result \<Rightarrow> d1 \<Rightarrow> bool result \<times> d1" where
  "answer_both m db =
     (case m of
        Inl e \<Rightarrow> (Inl e, db)
      | Inr ((attempts, jobs, _), db') \<Rightarrow>
          (res_bind (updatedJobIdRowsSchema (map am_id attempts)) (\<lambda>updatedAttempt.
           res_bind (updatedJobIdRowsSchema (map jb_id jobs)) (\<lambda>updatedJob.
           Inr (updatedAttempt \<noteq> None \<and> updatedJob \<noteq> None))), db'))"

definition recordSubmissionRejected :: "string \<Rightarrow> string \<Rightarrow> string \<Rightarrow> string \<Rightarrow> bool api" where
  "recordSubmissionRejected attemptId eventId jobId timestamp db =
     answer_both (res_bind (zod_parse (\<lambda>_. utc_datetime_ok timestamp \<and> ulid_ok attemptId \<and>
          ulid_ok jobId \<and> ulid_ok eventId) ())
       (\<lambda>_. batch3 (mark_attempt_rejected_sql attemptId timestamp)
          (mark_job_rejected_sql jobId timestamp attemptId)
          (record_event_sql eventId jobId attemptId ''runpod_submission_rejected'' timestamp) db)) db"

section \<open>Claims\<close>

text \<open>The execution status \<open>FIND_CLAIM_CONTEXT_SQL\<close> expects of an attempt.\<close>

definition claim_execution_status :: "attempt_status \<Rightarrow> gpu_execution_status" where
  "claim_execution_status s =
     (case s of
        ATT_SUBMITTING \<Rightarrow> GPU_CREATING | ATT_RUNNING \<Rightarrow> GPU_RUNNING
      | ATT_CANCEL_REQUESTED \<Rightarrow> GPU_CANCEL_REQUESTED | _ \<Rightarrow> GPU_TERMINAL)"

definition find_claim_context_row :: "string \<Rightarrow> string \<Rightarrow> d1 \<Rightarrow> (attempt_row \<times> job_row) option" where
  "find_claim_context_row attemptId jobId db =
     (case find_job (\<lambda>j. jb_id j = jobId \<and> jb_deleted_at j = None) db of
        None \<Rightarrow> None
      | Some j \<Rightarrow>
          map_option (\<lambda>a. (a, j))
            (find_attempt (\<lambda>a. am_id a = attemptId \<and> am_job_id a = jobId \<and>
               am_provider_kind a = Some ''runpod_serverless'' \<and>
               am_provider_policy a = Some ''runpod_serverless_v1'' \<and>
               am_contract_version a = Some 1 \<and> am_execution_options a \<noteq> None \<and>
               (\<exists>x \<in> set (d1_executions db). execution_matches a x \<and>
                  xc_status x = claim_execution_status (am_status a))) db))"

definition runpodExecutionOptionsSchema :: json_schema where
  "runpodExecutionOptionsSchema = strict_object [
     required ''contractVersion'' (literal (JNum 1)),
     required ''language'' (string_enum TRANSCRIPTION_LANGUAGES),
     required ''model'' (string_enum TRANSCRIPTION_MODELS),
     required ''outputFormats'' outputFormatsSchema,
     required ''vad'' any_bool]"

definition not_null :: "('a \<Rightarrow> bool) \<Rightarrow> 'a option \<Rightarrow> bool" where
  "not_null p x \<longleftrightarrow> (case x of None \<Rightarrow> False | Some v \<Rightarrow> p v)"

definition claimContextRowSchema :: "attempt_row \<times> job_row \<Rightarrow> bool" where
  "claimContextRowSchema r \<longleftrightarrow> (case r of (a, j) \<Rightarrow>
     not_null ulid_ok (jb_active_attempt_id j) \<and> not_null file_size_ok (jb_actual_size_bytes j) \<and>
     ulid_ok (am_id a) \<and> nullable utc_datetime_ok (am_claim_consumed_at a) \<and>
     not_null utc_datetime_ok (am_claim_expires_at a) \<and> not_null utc_datetime_ok (am_claim_issued_at a) \<and>
     not_null sha256_hex_ok (am_claim_token_hash a) \<and> 0 < am_generation a \<and>
     not_null runpodExecutionOptionsSchema (am_execution_options a) \<and>
     nullable utc_datetime_ok (am_heartbeat_expires_at a) \<and>
     nullable utc_datetime_ok (am_heartbeat_issued_at a) \<and>
     nullable utc_datetime_ok (am_heartbeat_revoked_at a) \<and>
     nullable sha256_hex_ok (am_heartbeat_token_hash a) \<and> ulid_ok (jb_id j) \<and>
     resultPrefixSchema (am_result_prefix a) \<and>
     3 \<le> length (jb_source_bucket j) \<and> length (jb_source_bucket j) \<le> 63 \<and>
     not_null (\<lambda>e. 1 \<le> length e \<and> length e \<le> 512) (jb_source_etag j) \<and>
     1 \<le> length (jb_source_key j) \<and> length (jb_source_key j) \<le> 1024 \<and>
     starts_with ''incoming/'' (jb_source_key j) \<and>
     nullable runpodJobIdSchema (am_winning_runpod_job_id a))"

record claim_context =
  cn_activeAttemptId :: string
  cn_actualSizeBytes :: nat
  cn_attemptId :: string
  cn_attemptStatus :: attempt_status
  cn_claimConsumedAt :: "string option"
  cn_claimExpiresAt :: string
  cn_claimIssuedAt :: string
  cn_claimTokenHash :: string
  cn_executionOptions :: json
  cn_generation :: nat
  cn_heartbeatExpiresAt :: "string option"
  cn_heartbeatIssuedAt :: "string option"
  cn_heartbeatRevokedAt :: "string option"
  cn_heartbeatTokenHash :: "string option"
  cn_jobId :: string
  cn_jobStatus :: job_status
  cn_resultPrefix :: string
  cn_sourceBucket :: string
  cn_sourceEtag :: string
  cn_sourceKey :: string
  cn_winningRunpodJobId :: "string option"

definition mapClaimContext :: "attempt_row \<times> job_row \<Rightarrow> claim_context" where
  "mapClaimContext r = (case r of (a, j) \<Rightarrow>
     \<lparr>cn_activeAttemptId = the (jb_active_attempt_id j), cn_actualSizeBytes = the (jb_actual_size_bytes j),
      cn_attemptId = am_id a, cn_attemptStatus = am_status a,
      cn_claimConsumedAt = am_claim_consumed_at a, cn_claimExpiresAt = the (am_claim_expires_at a),
      cn_claimIssuedAt = the (am_claim_issued_at a), cn_claimTokenHash = the (am_claim_token_hash a),
      cn_executionOptions = the (am_execution_options a), cn_generation = am_generation a,
      cn_heartbeatExpiresAt = am_heartbeat_expires_at a,
      cn_heartbeatIssuedAt = am_heartbeat_issued_at a,
      cn_heartbeatRevokedAt = am_heartbeat_revoked_at a,
      cn_heartbeatTokenHash = am_heartbeat_token_hash a, cn_jobId = jb_id j,
      cn_jobStatus = jb_status j, cn_resultPrefix = am_result_prefix a,
      cn_sourceBucket = jb_source_bucket j, cn_sourceEtag = the (jb_source_etag j),
      cn_sourceKey = jb_source_key j, cn_winningRunpodJobId = am_winning_runpod_job_id a\<rparr>)"

definition findClaimContext :: "string \<Rightarrow> string \<Rightarrow> d1 \<Rightarrow> claim_context option result" where
  "findClaimContext attemptId jobId db =
     res_bind (zod_parse (\<lambda>_. ulid_ok attemptId \<and> ulid_ok jobId) ()) (\<lambda>_.
       case find_claim_context_row attemptId jobId db of
         None \<Rightarrow> Inr None
       | Some r \<Rightarrow> res_bind (zod_parse claimContextRowSchema r) (\<lambda>r. Inr (Some (mapClaimContext r))))"

record winner_input =
  cw_attemptId :: string
  cw_claimTokenHash :: string
  cw_eventId :: string
  cw_heartbeatExpiresAt :: string
  cw_heartbeatTokenHash :: string
  cw_jobId :: string
  cw_runpodJobId :: string
  cw_timestamp :: string

definition winner_input_ok :: "winner_input \<Rightarrow> bool" where
  "winner_input_ok i \<longleftrightarrow>
     utc_datetime_ok (cw_timestamp i) \<and> runpodJobIdSchema (cw_runpodJobId i) \<and>
     ulid_ok (cw_attemptId i) \<and> sha256_hex_ok (cw_claimTokenHash i) \<and>
     sha256_hex_ok (cw_heartbeatTokenHash i) \<and> utc_datetime_ok (cw_heartbeatExpiresAt i) \<and>
     ulid_ok (cw_eventId i)"

definition claim_winner_sql :: "winner_input \<Rightarrow> attempt_row statement" where
  "claim_winner_sql i db =
     update_attempts
       (\<lambda>a. am_id a = cw_attemptId i \<and> am_job_id a = cw_jobId i \<and> am_status a = ATT_SUBMITTING \<and>
          am_winning_runpod_job_id a = None \<and> am_claim_token_hash a = Some (cw_claimTokenHash i) \<and>
          am_claim_issued_at a \<noteq> None \<and> sql_greater (am_claim_expires_at a) (cw_timestamp i) \<and>
          am_claim_consumed_at a = None \<and>
          (\<exists>j \<in> set (d1_jobs db). jb_id j = cw_jobId i \<and>
             jb_active_attempt_id j = Some (cw_attemptId i) \<and> jb_status j = SUBMITTING \<and>
             jb_deleted_at j = None))
       (\<lambda>a. a\<lparr>am_status := ATT_RUNNING, am_winning_runpod_job_id := Some (cw_runpodJobId i),
          am_claim_consumed_at := Some (cw_timestamp i), am_claimed_at := Some (cw_timestamp i),
          am_heartbeat_token_hash := Some (cw_heartbeatTokenHash i),
          am_heartbeat_issued_at := Some (cw_timestamp i),
          am_heartbeat_expires_at := Some (cw_heartbeatExpiresAt i),
          am_heartbeat_revoked_at := None, am_updated_at := cw_timestamp i\<rparr>) db"

definition mark_job_running_sql :: "string \<Rightarrow> string \<Rightarrow> string \<Rightarrow> job_row statement" where
  "mark_job_running_sql jobId attemptId timestamp db =
     update_jobs
       (\<lambda>j. jb_id j = jobId \<and> jb_active_attempt_id j = Some attemptId \<and> jb_status j = SUBMITTING \<and>
          jb_deleted_at j = None \<and>
          (\<exists>a \<in> set (d1_attempts db). am_id a = attemptId \<and> am_job_id a = jobId \<and>
             am_status a = ATT_RUNNING))
       (\<lambda>j. j\<lparr>jb_status := RUNNING, jb_updated_at := timestamp, jb_version := jb_version j + 1\<rparr>) db"

definition claim_batch :: "winner_input \<Rightarrow> d1 \<Rightarrow> (attempt_row list \<times> d1) result" where
  "claim_batch i db =
     res_bind (insert_submission_sql (cw_runpodJobId i) (cw_attemptId i) ''worker_claim'' (cw_timestamp i) db)
       (\<lambda>(_, db1).
     res_bind (claim_winner_sql i db1) (\<lambda>(winners, db2).
     res_bind (batch3 (mark_submission_winner_sql (cw_runpodJobId i) (cw_attemptId i) (cw_timestamp i))
          (mark_job_running_sql (cw_jobId i) (cw_attemptId i) (cw_timestamp i))
          (record_claim_event_sql (cw_eventId i) (cw_jobId i) (cw_attemptId i) (cw_runpodJobId i)
             (cw_timestamp i)) db2) (\<lambda>(_, db3). Inr (winners, db3))))"

definition claimWinner :: "winner_input \<Rightarrow> bool api" where
  "claimWinner i db =
     answer_attempt (res_bind (zod_parse winner_input_ok i) (\<lambda>i. claim_batch i db)) db"

text \<open>\<open>recordClaimSubmission\<close> has no answer.\<close>

definition recordClaimSubmission :: "string \<Rightarrow> string \<Rightarrow> string \<Rightarrow> unit api" where
  "recordClaimSubmission attemptId runpodJobId timestamp db =
     (case res_bind (zod_parse (\<lambda>_. runpodJobIdSchema runpodJobId \<and> ulid_ok attemptId \<and>
           utc_datetime_ok timestamp) ())
         (\<lambda>_. insert_submission_sql runpodJobId attemptId ''worker_claim'' timestamp db) of
        Inl e \<Rightarrow> (Inl e, db) | Inr (_, db') \<Rightarrow> (Inr (), db'))"

definition heartbeat_sql ::
  "string \<Rightarrow> string \<Rightarrow> string \<Rightarrow> string \<Rightarrow> string \<Rightarrow> attempt_row statement" where
  "heartbeat_sql attemptId jobId runpodJobId heartbeatTokenHash timestamp db =
     update_attempts
       (\<lambda>a. am_id a = attemptId \<and> am_job_id a = jobId \<and>
          am_winning_runpod_job_id a = Some runpodJobId \<and>
          am_heartbeat_token_hash a = Some heartbeatTokenHash \<and> am_heartbeat_issued_at a \<noteq> None \<and>
          sql_greater (am_heartbeat_expires_at a) timestamp \<and> am_heartbeat_revoked_at a = None \<and>
          am_status a \<in> {ATT_RUNNING, ATT_CANCEL_REQUESTED} \<and>
          (\<exists>j \<in> set (d1_jobs db). jb_id j = jobId \<and> jb_active_attempt_id j = Some attemptId \<and>
             jb_status j \<in> {RUNNING, CANCEL_REQUESTED} \<and> jb_deleted_at j = None))
       (\<lambda>a. a\<lparr>am_heartbeat_at := Some timestamp, am_updated_at := timestamp\<rparr>) db"

definition markHeartbeat :: "string \<Rightarrow> string \<Rightarrow> string \<Rightarrow> string \<Rightarrow> string \<Rightarrow> bool api" where
  "markHeartbeat attemptId heartbeatTokenHash jobId runpodJobId timestamp db =
     answer_attempt (res_bind (zod_parse (\<lambda>_. ulid_ok attemptId \<and> ulid_ok jobId \<and>
          runpodJobIdSchema runpodJobId \<and> sha256_hex_ok heartbeatTokenHash \<and> utc_datetime_ok timestamp) ())
       (\<lambda>_. heartbeat_sql attemptId jobId runpodJobId heartbeatTokenHash timestamp db)) db"

section \<open>Submissions that came to nothing\<close>

text \<open>The job of an attempt, while the attempt is its active one.\<close>

definition active_in :: "d1 \<Rightarrow> string \<Rightarrow> string \<Rightarrow> job_status \<Rightarrow> bool" where
  "active_in db jobId attemptId status \<longleftrightarrow>
     (\<exists>j \<in> set (d1_jobs db). jb_id j = jobId \<and> jb_active_attempt_id j = Some attemptId \<and>
        jb_status j = status \<and> jb_deleted_at j = None)"

definition outcome_unknown :: "attempt_row \<Rightarrow> bool" where
  "outcome_unknown a \<longleftrightarrow> am_submission_outcome a = None \<or> am_submission_outcome a = Some ''unknown''"

record expired_submission =
  xs_attemptId :: string
  xs_claimExpiresAt :: string
  xs_jobId :: string

definition expiredUnknownSubmissionRowSchema :: "attempt_row \<Rightarrow> bool" where
  "expiredUnknownSubmissionRowSchema a \<longleftrightarrow>
     ulid_ok (am_id a) \<and> not_null utc_datetime_ok (am_claim_expires_at a) \<and> ulid_ok (am_job_id a)"

definition map_expired :: "attempt_row \<Rightarrow> expired_submission" where
  "map_expired a = \<lparr>xs_attemptId = am_id a, xs_claimExpiresAt = the (am_claim_expires_at a),
     xs_jobId = am_job_id a\<rparr>"

text \<open>The two reads ORDER BY claim_expires_at, id: submissions and cancellations nobody claimed.\<close>

definition find_expired ::
  "(d1 \<Rightarrow> attempt_row \<Rightarrow> bool) \<Rightarrow> string \<Rightarrow> nat \<Rightarrow> d1 \<Rightarrow> expired_submission list result" where
  "find_expired p timestamp limit db =
     res_bind (zod_parse (\<lambda>_. utc_datetime_ok timestamp \<and> 1 \<le> limit \<and> limit \<le> 100) ()) (\<lambda>_.
     res_bind (zod_parse (\<lambda>rs. length rs \<le> limit \<and> list_all expiredUnknownSubmissionRowSchema rs)
       (take limit (order_by (attempts_before am_claim_expires_at)
          (filter (\<lambda>a. p db a \<and> sql_leq (am_claim_expires_at a) timestamp \<and>
             am_winning_runpod_job_id a = None \<and> never_submitted db (am_id a)) (d1_attempts db)))))
       (\<lambda>rows. Inr (map map_expired rows)))"

definition findExpiredUnknownSubmissions :: "string \<Rightarrow> nat \<Rightarrow> d1 \<Rightarrow> expired_submission list result" where
  "findExpiredUnknownSubmissions =
     find_expired (\<lambda>db a. am_status a = ATT_SUBMITTING \<and> outcome_unknown a \<and>
       active_in db (am_job_id a) (am_id a) SUBMITTING)"

definition findExpiredUnboundCancellations :: "string \<Rightarrow> nat \<Rightarrow> d1 \<Rightarrow> expired_submission list result" where
  "findExpiredUnboundCancellations =
     find_expired (\<lambda>db a. am_status a = ATT_CANCEL_REQUESTED \<and>
       active_in db (am_job_id a) (am_id a) CANCEL_REQUESTED)"

definition failed_attempt :: "string \<Rightarrow> attempt_row \<Rightarrow> attempt_row" where
  "failed_attempt timestamp a =
     a\<lparr>am_status := ATT_FAILED, am_failed_at := Some timestamp,
       am_error_code := Some PE_PROCESSING_FAILED, am_error_message := None,
       am_updated_at := timestamp\<rparr>"

definition fail_expired_unknown_attempt_sql :: "string \<Rightarrow> string \<Rightarrow> string \<Rightarrow> attempt_row statement" where
  "fail_expired_unknown_attempt_sql attemptId jobId timestamp db =
     update_attempts
       (\<lambda>a. am_id a = attemptId \<and> am_job_id a = jobId \<and> am_status a = ATT_SUBMITTING \<and>
          outcome_unknown a \<and> sql_leq (am_claim_expires_at a) timestamp \<and>
          am_winning_runpod_job_id a = None \<and> never_submitted db attemptId \<and>
          active_in db jobId attemptId SUBMITTING)
       (failed_attempt timestamp) db"

definition fail_expired_unknown_job_sql :: "string \<Rightarrow> string \<Rightarrow> string \<Rightarrow> job_row statement" where
  "fail_expired_unknown_job_sql jobId attemptId timestamp db =
     update_jobs
       (\<lambda>j. jb_id j = jobId \<and> jb_active_attempt_id j = Some attemptId \<and> jb_status j = SUBMITTING \<and>
          jb_deleted_at j = None \<and>
          (\<exists>a \<in> set (d1_attempts db). am_id a = attemptId \<and> am_job_id a = jobId \<and>
             am_status a = ATT_FAILED \<and> outcome_unknown a \<and> am_failed_at a = Some timestamp \<and>
             am_winning_runpod_job_id a = None \<and> never_submitted db attemptId))
       (failed_job timestamp) db"

definition failExpiredUnknownSubmission :: "string \<Rightarrow> string \<Rightarrow> string \<Rightarrow> string \<Rightarrow> bool api" where
  "failExpiredUnknownSubmission attemptId eventId jobId timestamp db =
     answer_both (res_bind (zod_parse (\<lambda>_. utc_datetime_ok timestamp \<and> ulid_ok attemptId \<and>
          ulid_ok jobId \<and> ulid_ok eventId) ())
       (\<lambda>_. batch3 (fail_expired_unknown_attempt_sql attemptId jobId timestamp)
          (fail_expired_unknown_job_sql jobId attemptId timestamp)
          (record_event_sql eventId jobId attemptId ''runpod_submission_expired'' timestamp) db)) db"

definition cancel_expired_unbound_attempt_sql :: "string \<Rightarrow> string \<Rightarrow> string \<Rightarrow> attempt_row statement" where
  "cancel_expired_unbound_attempt_sql attemptId jobId timestamp db =
     update_attempts
       (\<lambda>a. am_id a = attemptId \<and> am_job_id a = jobId \<and> am_status a = ATT_CANCEL_REQUESTED \<and>
          sql_leq (am_claim_expires_at a) timestamp \<and> am_winning_runpod_job_id a = None \<and>
          never_submitted db attemptId \<and> active_in db jobId attemptId CANCEL_REQUESTED)
       (\<lambda>a. a\<lparr>am_status := ATT_CANCELLED, am_error_code := None, am_error_message := None,
          am_updated_at := timestamp\<rparr>) db"

definition cancel_expired_unbound_job_sql :: "string \<Rightarrow> string \<Rightarrow> string \<Rightarrow> job_row statement" where
  "cancel_expired_unbound_job_sql jobId attemptId timestamp db =
     update_jobs
       (\<lambda>j. jb_id j = jobId \<and> jb_active_attempt_id j = Some attemptId \<and>
          jb_status j = CANCEL_REQUESTED \<and> jb_deleted_at j = None \<and>
          (\<exists>a \<in> set (d1_attempts db). am_id a = attemptId \<and> am_job_id a = jobId \<and>
             am_status a = ATT_CANCELLED \<and> am_updated_at a = timestamp \<and>
             am_winning_runpod_job_id a = None))
       (\<lambda>j. j\<lparr>jb_status := CANCELLED, jb_error_code := None, jb_error_message := None,
          jb_cancelled_at := Some timestamp, jb_updated_at := timestamp,
          jb_version := jb_version j + 1\<rparr>) db"

definition cancelExpiredUnboundSubmission :: "string \<Rightarrow> string \<Rightarrow> string \<Rightarrow> string \<Rightarrow> bool api" where
  "cancelExpiredUnboundSubmission attemptId eventId jobId timestamp db =
     answer_both (res_bind (zod_parse (\<lambda>_. utc_datetime_ok timestamp \<and> ulid_ok attemptId \<and>
          ulid_ok jobId \<and> ulid_ok eventId) ())
       (\<lambda>_. batch3 (cancel_expired_unbound_attempt_sql attemptId jobId timestamp)
          (cancel_expired_unbound_job_sql jobId attemptId timestamp)
          (record_event_sql eventId jobId attemptId ''job_cancelled_unbound'' timestamp) db)) db"

section \<open>Accepted submissions that never started\<close>

record stale_submission =
  ss_attemptId :: string
  ss_jobId :: string
  ss_runpodJobId :: string
  ss_submissionFinishedAt :: string

definition staleAcceptedSubmissionRowSchema :: "attempt_row \<times> string option \<Rightarrow> bool" where
  "staleAcceptedSubmissionRowSchema r \<longleftrightarrow> (case r of (a, runpodJobId) \<Rightarrow>
     ulid_ok (am_id a) \<and> ulid_ok (am_job_id a) \<and> not_null runpodJobIdSchema runpodJobId \<and>
     not_null utc_datetime_ok (am_submission_finished_at a))"

definition mapStaleAcceptedSubmission :: "attempt_row \<times> string option \<Rightarrow> stale_submission" where
  "mapStaleAcceptedSubmission r = (case r of (a, runpodJobId) \<Rightarrow>
     \<lparr>ss_attemptId = am_id a, ss_jobId = am_job_id a, ss_runpodJobId = the runpodJobId,
      ss_submissionFinishedAt = the (am_submission_finished_at a)\<rparr>)"

definition stale_rows ::
  "(attempt_row \<Rightarrow> string option) \<Rightarrow> (attempt_row \<Rightarrow> bool) \<Rightarrow> nat \<Rightarrow> d1 \<Rightarrow> (attempt_row \<times> string option) list" where
  "stale_rows key p limit db =
     map (\<lambda>a. (a, first_submit_response db (am_id a)))
       (take limit (order_by (attempts_before key)
         (filter (\<lambda>a. p a \<and> am_submission_outcome a = Some ''accepted'' \<and>
            am_winning_runpod_job_id a = None \<and> am_runpod_terminal_status a = None \<and>
            first_submit_response db (am_id a) \<noteq> None) (d1_attempts db))))"

definition findStaleAcceptedSubmissions :: "string \<Rightarrow> nat \<Rightarrow> d1 \<Rightarrow> stale_submission list result" where
  "findStaleAcceptedSubmissions staleBefore limit db =
     res_bind (zod_parse (\<lambda>_. utc_datetime_ok staleBefore \<and> 1 \<le> limit \<and> limit \<le> 100) ()) (\<lambda>_.
     res_bind (zod_parse (\<lambda>rs. length rs \<le> limit \<and> list_all staleAcceptedSubmissionRowSchema rs)
       (stale_rows am_submission_finished_at
          (\<lambda>a. am_status a = ATT_SUBMITTING \<and> sql_leq (am_submission_finished_at a) staleBefore \<and>
             active_in db (am_job_id a) (am_id a) SUBMITTING) limit db))
       (\<lambda>rows. Inr (map mapStaleAcceptedSubmission rows)))"

definition findFailedUnclaimedSubmissions :: "nat \<Rightarrow> d1 \<Rightarrow> stale_submission list result" where
  "findFailedUnclaimedSubmissions limit db =
     res_bind (zod_parse (\<lambda>_. 1 \<le> limit \<and> limit \<le> 100) ()) (\<lambda>_.
     res_bind (zod_parse (\<lambda>rs. length rs \<le> limit \<and> list_all staleAcceptedSubmissionRowSchema rs)
       (stale_rows am_failed_at
          (\<lambda>a. am_status a = ATT_FAILED \<and> am_error_code a = Some PE_PROCESSING_FAILED \<and>
             active_in db (am_job_id a) (am_id a) FAILED) limit db))
       (\<lambda>rows. Inr (map mapStaleAcceptedSubmission rows)))"

record stale_input =
  st_attemptId :: string
  st_eventId :: string
  st_jobId :: string
  st_runpodJobId :: string
  st_staleBefore :: string
  st_timestamp :: string

text \<open>What both statements of \<open>failStaleAcceptedSubmission\<close> ask of the attempt.\<close>

definition stale_accepted :: "stale_input \<Rightarrow> d1 \<Rightarrow> attempt_row \<Rightarrow> bool" where
  "stale_accepted i db a \<longleftrightarrow>
     am_id a = st_attemptId i \<and> am_job_id a = st_jobId i \<and>
     am_submission_outcome a = Some ''accepted'' \<and>
     sql_leq (am_submission_finished_at a) (st_staleBefore i) \<and>
     am_winning_runpod_job_id a = None \<and> am_runpod_terminal_status a = None \<and>
     submitted_as db (st_attemptId i) (st_runpodJobId i)"

definition fail_stale_accepted_attempt_sql :: "stale_input \<Rightarrow> attempt_row statement" where
  "fail_stale_accepted_attempt_sql i db =
     update_attempts
       (\<lambda>a. stale_accepted i db a \<and> am_status a = ATT_SUBMITTING \<and>
          active_in db (st_jobId i) (st_attemptId i) SUBMITTING)
       (failed_attempt (st_timestamp i)) db"

definition fail_stale_accepted_job_sql :: "stale_input \<Rightarrow> job_row statement" where
  "fail_stale_accepted_job_sql i db =
     update_jobs
       (\<lambda>j. jb_id j = st_jobId i \<and> jb_active_attempt_id j = Some (st_attemptId i) \<and>
          jb_status j = SUBMITTING \<and> jb_deleted_at j = None \<and>
          (\<exists>a \<in> set (d1_attempts db). stale_accepted i db a \<and> am_status a = ATT_FAILED \<and>
             am_failed_at a = Some (st_timestamp i)))
       (failed_job (st_timestamp i)) db"

definition failStaleAcceptedSubmission :: "stale_input \<Rightarrow> bool api" where
  "failStaleAcceptedSubmission i db =
     answer_both (res_bind (zod_parse (\<lambda>i. utc_datetime_ok (st_timestamp i) \<and>
          utc_datetime_ok (st_staleBefore i) \<and> runpodJobIdSchema (st_runpodJobId i) \<and>
          ulid_ok (st_attemptId i) \<and> ulid_ok (st_jobId i) \<and> ulid_ok (st_eventId i)) i)
       (\<lambda>i. batch3 (fail_stale_accepted_attempt_sql i) (fail_stale_accepted_job_sql i)
          (record_event_sql (st_eventId i) (st_jobId i) (st_attemptId i)
             ''runpod_submission_start_slo_exceeded'' (st_timestamp i)) db)) db"

definition mark_failed_unclaimed_submission_cancelled_sql ::
  "string \<Rightarrow> string \<Rightarrow> string \<Rightarrow> string \<Rightarrow> attempt_row statement" where
  "mark_failed_unclaimed_submission_cancelled_sql attemptId jobId runpodJobId timestamp db =
     update_attempts
       (\<lambda>a. am_id a = attemptId \<and> am_job_id a = jobId \<and> am_status a = ATT_FAILED \<and>
          am_error_code a = Some PE_PROCESSING_FAILED \<and> am_submission_outcome a = Some ''accepted'' \<and>
          am_winning_runpod_job_id a = None \<and> am_runpod_terminal_status a = None \<and>
          submitted_as db attemptId runpodJobId \<and> active_in db jobId attemptId FAILED)
       (\<lambda>a. a\<lparr>am_runpod_terminal_job_id := Some runpodJobId,
          am_runpod_terminal_status := Some ''CANCELLED'',
          am_runpod_terminal_observed_at := Some timestamp, am_updated_at := timestamp\<rparr>) db"

definition markFailedUnclaimedSubmissionCancelled ::
  "string \<Rightarrow> string \<Rightarrow> string \<Rightarrow> string \<Rightarrow> string \<Rightarrow> bool api" where
  "markFailedUnclaimedSubmissionCancelled attemptId eventId jobId runpodJobId timestamp db =
     answer_attempt (res_bind (zod_parse (\<lambda>_. utc_datetime_ok timestamp \<and>
          runpodJobIdSchema runpodJobId \<and> ulid_ok attemptId \<and> ulid_ok jobId \<and> ulid_ok eventId) ())
       (\<lambda>_. res_bind (batch2
            (mark_failed_unclaimed_submission_cancelled_sql attemptId jobId runpodJobId timestamp)
            (record_event_sql eventId jobId attemptId ''runpod_stale_submission_cancelled'' timestamp) db)
          (\<lambda>((attempts, _), db'). Inr (attempts, db')))) db"

section \<open>Dispatching\<close>

text \<open>The job that has waited longest, when nothing occupies a GPU.\<close>

definition dispatch_before :: "job_row \<Rightarrow> job_row \<Rightarrow> bool" where
  "dispatch_before i j \<longleftrightarrow>
     text_less (jb_updated_at i) (jb_updated_at j) \<or>
     (jb_updated_at i = jb_updated_at j \<and> text_less (jb_id i) (jb_id j))"

definition dispatchable :: "d1 \<Rightarrow> job_row \<Rightarrow> bool" where
  "dispatchable db j \<longleftrightarrow>
     jb_status j = SUBMISSION_PENDING \<and> jb_deleted_at j = None \<and>
     (\<exists>a \<in> set (d1_attempts db). jb_active_attempt_id j = Some (am_id a) \<and> am_job_id a = jb_id j \<and>
        am_status a = ATT_SUBMISSION_PENDING \<and> am_provider_kind a = Some ''runpod_serverless'' \<and>
        am_provider_policy a = Some ''runpod_serverless_v1'') \<and>
     \<not> (\<exists>b \<in> set (d1_attempts db). occupies_gpu b)"

definition findDispatchablePendingJobId :: "d1 \<Rightarrow> string option result" where
  "findDispatchablePendingJobId db =
     (case order_by dispatch_before (filter (dispatchable db) (d1_jobs db)) of
        [] \<Rightarrow> Inr None
      | j # _ \<Rightarrow> res_bind (zod_parse ulid_ok (jb_id j)) (\<lambda>jobId. Inr (Some jobId)))"

section \<open>The options of an ingested attempt\<close>

text \<open>Options that satisfy the schema of a job satisfy, with the contract version, what a submission asks.\<close>

lemma output_formats_texts:
  "list_all (string_enum OUTPUT_FORMATS) xs \<Longrightarrow> map JStr (format_texts xs) = xs"
  unfolding format_texts_def
  by (induction xs) (auto simp: List.map_filter_simps string_enum_def split: json.splits)

lemma output_formats_known: "list_all (string_enum OUTPUT_FORMATS) xs \<Longrightarrow> list_all format_known xs"
  by (auto simp: list_all_iff string_enum_def format_known_def OUTPUT_FORMATS_def split: json.splits)

lemma outputFormats_prepared:
  assumes "outputFormatsSchema j"
  obtains xs where "j = JArr xs" "1 \<le> length xs" "length xs \<le> 3" "list_all format_known xs"
    "length (remdups (format_texts xs)) = length xs"
proof -
  obtain xs where xs: "j = JArr xs" "1 \<le> length xs" "length xs \<le> 3"
    "list_all (string_enum OUTPUT_FORMATS) xs" "distinct xs"
    using assms by (cases j) (simp_all add: outputFormatsSchema_def)
  have texts: "map JStr (format_texts xs) = xs" by (rule output_formats_texts [OF xs(4)])
  then have "distinct (map JStr (format_texts xs))" using xs(5) by simp
  then have "distinct (format_texts xs)" by (simp add: distinct_map)
  moreover have "length (format_texts xs) = length xs" using texts by (metis length_map)
  ultimately have "length (remdups (format_texts xs)) = length xs" by (simp add: distinct_remdups_id)
  then show thesis using that xs output_formats_known by blast
qed

lemma distinct_keys_length:
  assumes "distinct ks" "set ks = set ls" "distinct ls"
  shows "length ks = length ls"
  using assms by (metis distinct_card)

lemma job_options_fields:
  assumes "jobOptionsSchema (JObj es)"
  shows "length es = 4" "map_of es ''contractVersion'' = None"
    "\<exists>v. map_of es ''language'' = Some v \<and> string_enum TRANSCRIPTION_LANGUAGES v"
    "\<exists>v. map_of es ''model'' = Some v \<and> string_enum TRANSCRIPTION_MODELS v"
    "\<exists>v. map_of es ''outputFormats'' = Some v \<and> outputFormatsSchema v"
    "\<exists>v. map_of es ''vad'' = Some v \<and> any_bool v"
proof -
  note schema = assms [unfolded jobOptionsSchema_def strict_object_def fields_ok_def required_def, simplified]
  show "\<exists>v. map_of es ''language'' = Some v \<and> string_enum TRANSCRIPTION_LANGUAGES v"
    "\<exists>v. map_of es ''model'' = Some v \<and> string_enum TRANSCRIPTION_MODELS v"
    "\<exists>v. map_of es ''outputFormats'' = Some v \<and> outputFormatsSchema v"
    "\<exists>v. map_of es ''vad'' = Some v \<and> any_bool v"
    using schema by (auto split: option.splits)
  then have "set [''language'', ''model'', ''outputFormats'', ''vad''] \<subseteq> set (map fst es)"
    by (auto dest!: map_of_SomeD intro: rev_image_eqI)
  moreover have known: "set (map fst es) \<subseteq> set [''language'', ''model'', ''outputFormats'', ''vad'']"
    using schema by (auto simp: list_all_iff)
  ultimately have "set (map fst es) = set [''language'', ''model'', ''outputFormats'', ''vad'']" by blast
  then show "length es = 4"
    using distinct_keys_length [of "map fst es" "[''language'', ''model'', ''outputFormats'', ''vad'']"] schema
    by simp
  show "map_of es ''contractVersion'' = None"
    using known by (auto simp: map_of_eq_None_iff)
qed

lemma string_enumD: "string_enum vs v \<Longrightarrow> \<exists>s \<in> set vs. v = JStr s"
  by (cases v) (simp_all add: string_enum_def)

lemma any_boolD: "any_bool v \<Longrightarrow> \<exists>b. v = JBool b"
  by (cases v) (simp_all add: any_bool_def)

lemma ingested_options_prepared:
  assumes "jobOptionsSchema options" "se_contractVersion s = 1"
  shows "prepare_options_ok (execution_options s options)"
proof -
  obtain es where options: "options = JObj es"
    using assms(1) by (cases options) (simp_all add: jobOptionsSchema_def strict_object_def)
  note fields = job_options_fields [OF assms(1) [unfolded options]]
  obtain xs where "map_of es ''outputFormats'' = Some (JArr xs)" "1 \<le> length xs" "length xs \<le> 3"
    "list_all format_known xs" "length (remdups (format_texts xs)) = length xs"
    using fields(5) outputFormats_prepared by metis
  moreover obtain l where "map_of es ''language'' = Some (JStr l)" "l \<in> set TRANSCRIPTION_LANGUAGES"
    using fields(3) string_enumD by metis
  moreover obtain m where "map_of es ''model'' = Some (JStr m)" "m \<in> set TRANSCRIPTION_MODELS"
    using fields(4) string_enumD by metis
  moreover obtain b where "map_of es ''vad'' = Some (JBool b)"
    using fields(6) any_boolD by metis
  ultimately show ?thesis
    using fields(1,2) assms(2)
    by (auto simp: prepare_options_ok_def execution_options_def options json_field_def
        TRANSCRIPTION_LANGUAGES_def TRANSCRIPTION_MODELS_def)
qed

end
