(* ===== verification/RunpodSteps.thy ===== *)
theory RunpodSteps
  imports JobSteps RunpodControl
begin

text \<open>
  Every operation of apps/orchestrator/src/runpod-control-repository.ts is a step of the abstract
  specification: it moves an attempt and its job on together, or it changes details of an attempt.
\<close>

section \<open>An attempt and its job move on together\<close>

lemma status_rank_of_attempt: "status_rank (job_status_of_attempt s) = attempt_rank s + 3"
  by (cases s) simp_all

lemma agrees_of_attempt: "jb_status j = job_status_of_attempt (am_status a) \<Longrightarrow> agrees j a"
  by (simp add: agrees_def job_status_of_attempt_not_upload)

text \<open>The job whose active attempt is open.\<close>

lemma open_active_job:
  assumes inv: "d1_inv db" and a: "a \<in> set (d1_attempts db)" "open_attempt a"
  obtains j where "j \<in> set (d1_jobs db)" "jb_id j = am_job_id a" "jb_active_attempt_id j = Some (am_id a)"
    "jb_deleted_at j = None \<Longrightarrow> jb_status j = job_status_of_attempt (am_status a)"
proof -
  obtain j b where "j \<in> set (d1_jobs db)" "b \<in> set (d1_attempts db)" "jb_id j = am_job_id a"
    "jb_active_attempt_id j = Some (am_id b)" "open_attempt a \<longrightarrow> b = a"
    using inv a(1) unfolding d1_inv_def attempts_belong_def by meson
  then show thesis using that agreeD [OF inv _ _ a(1)] a(2) by metis
qed

text \<open>An attempt that waits for or occupies a GPU belongs to a job that is not deleted, or is cancelled.\<close>

lemma cancellable_not_deleted:
  assumes "d1_inv db" "a \<in> set (d1_attempts db)" "am_status a \<in> set CANCELLABLE_ATTEMPT_STATUSES"
    "j \<in> set (d1_jobs db)" "jb_id j = am_job_id a"
  shows "jb_deleted_at j = None"
  using assms unfolding d1_inv_def deleted_attempts_end_def by metis

lemma active_job_status:
  assumes "d1_inv db" "j \<in> set (d1_jobs db)" "a \<in> set (d1_attempts db)"
    "jb_active_attempt_id j = Some (am_id a)" "jb_deleted_at j = None" "jb_status j \<in> set OPEN_JOB_STATUSES"
  shows "jb_status j = job_status_of_attempt (am_status a)"
  using agreeD [OF assms(1,2,5,3,4)] assms(6) by blast

lemma open_attempt_status: "am_status a \<in> set OPEN_ATTEMPT_STATUSES \<Longrightarrow> open_attempt a"
  by (simp add: open_attempt_def)

definition follows_attempt :: "job_row \<Rightarrow> job_row \<Rightarrow> attempt_row \<Rightarrow> bool" where
  "follows_attempt j j' a' \<longleftrightarrow>
     same_identity j j' \<and> jb_version j' = jb_version j + 1 \<and> jb_source_etag j' = jb_source_etag j \<and>
     jb_deleted_at j' = None \<and> jb_active_attempt_id j' = jb_active_attempt_id j \<and>
     jb_status j' = job_status_of_attempt (am_status a')"

lemma attempt_moves_on:
  assumes inv: "d1_inv db" and j: "j \<in> set (d1_jobs db)" "jb_deleted_at j = None"
    and a: "a \<in> set (d1_attempts db)" "open_attempt a" "am_job_id a = jb_id j"
      "jb_active_attempt_id j = Some (am_id a)"
    and move: "attempt_evolves a a'" "flight_allowed db a a'"
      "newly_rejected a a' \<longrightarrow> am_status a' = ATT_FAILED" "attempt_rank (am_status a) < attempt_rank (am_status a')"
    and follow: "follows_attempt j j' a'"
  shows "legal_move db j j' (Changed_attempt a a')"
proof -
  have "jb_status j = job_status_of_attempt (am_status a)" using agreeD [OF inv j a(1,4)] a(2) by blast
  then have "status_rank (jb_status j) < status_rank (jb_status j')"
    using move(4) follow by (simp add: follows_attempt_def status_rank_of_attempt)
  moreover have "agrees j' a'" using follow by (intro agrees_of_attempt) (simp add: follows_attempt_def)
  ultimately show ?thesis
    using j(2) a move follow
    by (auto simp: legal_move_def changes_attempt_def follows_attempt_def status_lists)
qed

text \<open>
  A batch that moves an attempt on and then its job. Whatever the first statement matches, the
  second one must match its job; when the first matches nothing, the second must not either.
\<close>

lemma attempt_and_job_step:
  assumes inv: "d1_inv db" and upa: "update_attempts pa fa db = Inr (ra, db0)"
    and mid: "unchanged_tables db0 db1" and upj: "update_jobs pj fj db1 = Inr (rj, db2)"
    and rest: "unchanged_tables db2 db'"
    and key: "\<forall>a. pa a \<longrightarrow> am_id a = ka" "\<forall>j. pj j \<longrightarrow> jb_id j = kj"
    and moves: "\<And>a. a \<in> set (d1_attempts db) \<Longrightarrow> pa a \<Longrightarrow>
      open_attempt a \<and> attempt_evolves a (fa a) \<and> flight_allowed db a (fa a) \<and>
      (newly_rejected a (fa a) \<longrightarrow> am_status (fa a) = ATT_FAILED) \<and>
      attempt_rank (am_status a) < attempt_rank (am_status (fa a))"
    and both: "\<And>a. a \<in> set (d1_attempts db) \<Longrightarrow> pa a \<Longrightarrow> fa a \<in> set (d1_attempts db1) \<Longrightarrow>
      \<exists>j \<in> set (d1_jobs db). pj j \<and> jb_deleted_at j = None \<and> am_job_id a = jb_id j \<and>
        jb_active_attempt_id j = Some (am_id a) \<and> follows_attempt j (fj j) (fa a)"
    and alone: "\<And>j. j \<in> set (d1_jobs db) \<Longrightarrow> d1_attempts db1 = d1_attempts db \<Longrightarrow> \<not> pj j"
  shows "job_step (\<lambda>_. True) db db'"
proof (rule attempt_mid_job_step [OF inv upa mid upj rest key], goal_cases)
  case (1 a)
  have "fa a \<in> set (d1_attempts db1)" by (rule update_where_changed [OF 1(3,1)])
  then obtain j where "j \<in> set (d1_jobs db)" "pj j" "jb_deleted_at j = None" "am_job_id a = jb_id j"
    "jb_active_attempt_id j = Some (am_id a)" "follows_attempt j (fj j) (fa a)"
    using both [OF 1(1,2)] by blast
  then show ?case using attempt_moves_on [OF inv] moves [OF 1(1,2)] 1(1) by blast
next
  case (2 j)
  then show ?case using alone by blast
qed

lemma flight_allowed_in_flight: "in_flight a \<Longrightarrow> flight_allowed db a a'"
  by (simp add: flight_allowed_def)

lemma record_event_unchanged: "record_event_sql e j a ty t db = Inr (rows, db') \<Longrightarrow> unchanged_tables db db'"
  unfolding record_event_sql_def by (rule insert_event_unchanged)

lemma insert_submission_unchanged:
  "insert_submission_sql rj a src t db = Inr (rows, db') \<Longrightarrow> unchanged_tables db db'"
  by (auto simp: insert_submission_sql_def unchanged_tables_def Let_def split: if_splits)

lemma mark_submission_winner_unchanged:
  "mark_submission_winner_sql rj a t db = Inr (rows, db') \<Longrightarrow> unchanged_tables db db'"
  by (auto simp: mark_submission_winner_sql_def unchanged_tables_def Let_def)

text \<open>An answer is the database of the batch, or no change.\<close>

lemma answer_both_step:
  assumes "\<And>rows db'. m = Inr (rows, db') \<Longrightarrow> job_step owns db db'"
  shows "job_step owns db (snd (answer_both m db))"
  using assms by (auto simp: answer_both_def split: sum.split prod.split)

lemma answer_attempt_step:
  assumes "\<And>rows db'. m = Inr (rows, db') \<Longrightarrow> job_step owns db db'"
  shows "job_step owns db (snd (answer_attempt m db))"
  using assms by (auto simp: answer_attempt_def split: sum.split prod.split)

lemmas evolve_defs = attempt_evolves_def in_flight_def open_attempt_def newly_rejected_def status_lists

section \<open>Details of an attempt\<close>

lemma recordSubmissionUnknown_step:
  assumes inv: "d1_inv db"
  shows "job_step (\<lambda>_. True) db (snd (recordSubmissionUnknown a t db))"
  unfolding recordSubmissionUnknown_def
proof (rule answer_attempt_step)
  fix rows db' assume "res_bind (zod_parse (\<lambda>_. ulid_ok a \<and> utc_datetime_ok t) ())
    (\<lambda>_. mark_submission_unknown_sql a t db) = Inr (rows, db')"
  then have upd: "mark_submission_unknown_sql a t db = Inr (rows, db')" by (simp add: result_simps)
  show "job_step (\<lambda>_. True) db db'"
    by (rule touch_step [OF inv upd [unfolded mark_submission_unknown_sql_def], where k = a])
      (simp_all add: attempt_evolves_def in_flight_def open_attempt_def newly_rejected_def)
qed

lemma recordSubmissionAccepted_step:
  assumes inv: "d1_inv db"
  shows "job_step (\<lambda>_. True) db (snd (recordSubmissionAccepted a rj t db))"
proof -
  have "job_step (\<lambda>_. True) db db'"
    if batch: "batch2 (insert_submission_sql rj a ''submit_response'' t) (mark_submission_accepted_sql a t rj) db
      = Inr (rows, db')" for rows db'
  proof -
    obtain db1 where ins: "insert_submission_sql rj a ''submit_response'' t db = Inr (fst rows, db1)"
      and upd: "mark_submission_accepted_sql a t rj db1 = Inr (snd rows, db')"
      using batch by (auto simp: batch2_Inr_iff)
    note same = insert_submission_unchanged [OF ins]
    have "job_step (\<lambda>_. True) db1 db'"
      by (rule touch_step [OF unchanged_tables_inv [OF same inv]
            upd [unfolded mark_submission_accepted_sql_def], where k = a])
        (simp_all add: attempt_evolves_def in_flight_def open_attempt_def newly_rejected_def)
    then show ?thesis by (rule job_step_cong [OF same])
  qed
  then show ?thesis
    by (auto simp: recordSubmissionAccepted_def result_simps split: sum.split prod.split)
qed

lemma recordClaimSubmission_step: "job_step (\<lambda>_. True) db (snd (recordClaimSubmission a rj t db))"
  using insert_submission_unchanged job_step_unchanged
  by (auto simp: recordClaimSubmission_def result_simps split: sum.split prod.split)

lemma markHeartbeat_step:
  assumes inv: "d1_inv db"
  shows "job_step (\<lambda>_. True) db (snd (markHeartbeat a h j rj t db))"
  unfolding markHeartbeat_def
proof (rule answer_attempt_step)
  fix rows db' assume "res_bind (zod_parse (\<lambda>_. ulid_ok a \<and> ulid_ok j \<and> runpodJobIdSchema rj \<and>
    sha256_hex_ok h \<and> utc_datetime_ok t) ()) (\<lambda>_. heartbeat_sql a j rj h t db) = Inr (rows, db')"
  then have upd: "heartbeat_sql a j rj h t db = Inr (rows, db')" by (simp add: result_simps)
  show "job_step (\<lambda>_. True) db db'"
    by (rule touch_step [OF inv upd [unfolded heartbeat_sql_def], where k = a])
      (simp_all add: attempt_evolves_def in_flight_def open_attempt_def newly_rejected_def)
qed

lemma markFailedUnclaimedSubmissionCancelled_step:
  assumes inv: "d1_inv db"
  shows "job_step (\<lambda>_. True) db (snd (markFailedUnclaimedSubmissionCancelled a e j rj t db))"
  unfolding markFailedUnclaimedSubmissionCancelled_def
proof (rule answer_attempt_step)
  fix rows db' assume "res_bind (zod_parse (\<lambda>_. utc_datetime_ok t \<and> runpodJobIdSchema rj \<and> ulid_ok a \<and>
      ulid_ok j \<and> ulid_ok e) ()) (\<lambda>_. res_bind (batch2
        (mark_failed_unclaimed_submission_cancelled_sql a j rj t)
        (record_event_sql e j a ''runpod_stale_submission_cancelled'' t) db)
      (\<lambda>((attempts, _), db'). Inr (attempts, db'))) = Inr (rows, db')"
  then obtain db1 events where
    upd: "mark_failed_unclaimed_submission_cancelled_sql a j rj t db = Inr (rows, db1)"
    and event: "record_event_sql e j a ''runpod_stale_submission_cancelled'' t db1 = Inr (events, db')"
    by (auto simp: result_simps batch2_Inr_iff)
  show "job_step (\<lambda>_. True) db db'"
    by (rule touch_step [OF inv upd [unfolded mark_failed_unclaimed_submission_cancelled_sql_def] _
          record_event_unchanged [OF event], where k = a])
      (simp_all add: attempt_evolves_def in_flight_def open_attempt_def newly_rejected_def)
qed

section \<open>Moves of an attempt and its job\<close>

text \<open>An operation whose second statement follows only the change of the first.\<close>

lemma closed_attempt_job:
  assumes "d1_inv db" "j \<in> set (d1_jobs db)" "jb_deleted_at j = None" "jb_status j \<in> set OPEN_JOB_STATUSES"
    "jb_active_attempt_id j = Some (am_id a)" "a \<in> set (d1_attempts db)"
  shows "am_status a \<in> set OPEN_ATTEMPT_STATUSES"
  using active_job_status [OF assms(1,2,6,5,3,4)] assms(4)
  by (cases "am_status a") (simp_all add: status_lists)

lemma active_inD:
  assumes "active_in db jobId attemptId s"
  obtains j where "j \<in> set (d1_jobs db)" "jb_id j = jobId" "jb_active_attempt_id j = Some attemptId"
    "jb_status j = s" "jb_deleted_at j = None"
  using assms unfolding active_in_def by blast

lemma never_submitted_cong:
  "d1_submissions db' = d1_submissions db \<Longrightarrow> never_submitted db' a = never_submitted db a"
  by (simp add: never_submitted_def)

lemma update_attempts_submissions:
  "update_attempts p f db = Inr (rows, db') \<Longrightarrow> d1_submissions db' = d1_submissions db"
  by (auto simp: update_attempts_def Let_def split: if_splits)

lemma failExpiredUnknown_batch_step:
  assumes inv: "d1_inv db"
    and batch: "batch3 (fail_expired_unknown_attempt_sql a j t) (fail_expired_unknown_job_sql j a t)
      (record_event_sql e j a ''runpod_submission_expired'' t) db = Inr (rows, db')"
  shows "job_step (\<lambda>_. True) db db'"
proof -
  obtain db1 db2 where upa: "fail_expired_unknown_attempt_sql a j t db = Inr (fst rows, db1)"
    and upj: "fail_expired_unknown_job_sql j a t db1 = Inr (fst (snd rows), db2)"
    and event: "record_event_sql e j a ''runpod_submission_expired'' t db2 = Inr (snd (snd rows), db')"
    using batch by (auto simp: batch3_Inr_iff)
  show ?thesis
  proof (rule attempt_and_job_step [OF inv upa [unfolded fail_expired_unknown_attempt_sql_def]
        unchanged_tables_refl upj [unfolded fail_expired_unknown_job_sql_def]
        record_event_unchanged [OF event], where ka = a and kj = j], goal_cases)
    case (3 x)
    then show ?case
      by (auto simp: evolve_defs failed_attempt_def flight_allowed_in_flight)
  next
    case (4 x)
    then obtain i where "i \<in> set (d1_jobs db)" "jb_id i = j" "jb_active_attempt_id i = Some a"
      "jb_status i = SUBMITTING" "jb_deleted_at i = None" by (auto simp: active_in_def)
    moreover have "never_submitted db1 a"
      using 4(2) never_submitted_cong [OF update_attempts_submissions
          [OF upa [unfolded fail_expired_unknown_attempt_sql_def]]] by simp
    ultimately show ?case
      using 4(2,3)
      by (intro bexI [of _ i])
        (auto simp: follows_attempt_def failed_job_def failed_attempt_def same_identity_def
          outcome_unknown_def intro!: bexI [of _ "failed_attempt t x"])
  next
    case (5 i)
    then show ?case using active_job_status [OF inv] by (fastforce simp: status_lists)
  qed simp_all
qed

lemma failExpiredUnknownSubmission_step:
  "d1_inv db \<Longrightarrow> job_step (\<lambda>_. True) db (snd (failExpiredUnknownSubmission a e j t db))"
  unfolding failExpiredUnknownSubmission_def
  by (rule answer_both_step) (auto simp: result_simps intro: failExpiredUnknown_batch_step)

lemma cancelExpiredUnbound_batch_step:
  assumes inv: "d1_inv db"
    and batch: "batch3 (cancel_expired_unbound_attempt_sql a j t) (cancel_expired_unbound_job_sql j a t)
      (record_event_sql e j a ''job_cancelled_unbound'' t) db = Inr (rows, db')"
  shows "job_step (\<lambda>_. True) db db'"
proof -
  obtain db1 db2 where upa: "cancel_expired_unbound_attempt_sql a j t db = Inr (fst rows, db1)"
    and upj: "cancel_expired_unbound_job_sql j a t db1 = Inr (fst (snd rows), db2)"
    and event: "record_event_sql e j a ''job_cancelled_unbound'' t db2 = Inr (snd (snd rows), db')"
    using batch by (auto simp: batch3_Inr_iff)
  show ?thesis
  proof (rule attempt_and_job_step [OF inv upa [unfolded cancel_expired_unbound_attempt_sql_def]
        unchanged_tables_refl upj [unfolded cancel_expired_unbound_job_sql_def]
        record_event_unchanged [OF event], where ka = a and kj = j], goal_cases)
    case (3 x)
    then show ?case by (auto simp: evolve_defs flight_allowed_in_flight)
  next
    case (4 x)
    then obtain i where "i \<in> set (d1_jobs db)" "jb_id i = j" "jb_active_attempt_id i = Some a"
      "jb_status i = CANCEL_REQUESTED" "jb_deleted_at i = None" by (auto simp: active_in_def)
    then show ?case
      using 4(2,3)
      by (intro bexI [of _ i]) (auto simp: follows_attempt_def same_identity_def intro!: bexI [OF _ 4(3)])
  next
    case (5 i)
    then show ?case using active_job_status [OF inv] by (fastforce simp: status_lists)
  qed simp_all
qed

lemma cancelExpiredUnboundSubmission_step:
  "d1_inv db \<Longrightarrow> job_step (\<lambda>_. True) db (snd (cancelExpiredUnboundSubmission a e j t db))"
  unfolding cancelExpiredUnboundSubmission_def
  by (rule answer_both_step) (auto simp: result_simps intro: cancelExpiredUnbound_batch_step)

lemma submitted_as_cong:
  "d1_submissions db' = d1_submissions db \<Longrightarrow> submitted_as db' a rj = submitted_as db a rj"
  by (simp add: submitted_as_def)

lemma failStaleAccepted_batch_step:
  assumes inv: "d1_inv db"
    and batch: "batch3 (fail_stale_accepted_attempt_sql i) (fail_stale_accepted_job_sql i)
      (record_event_sql (st_eventId i) (st_jobId i) (st_attemptId i) ty (st_timestamp i)) db = Inr (rows, db')"
  shows "job_step (\<lambda>_. True) db db'"
proof -
  obtain db1 db2 where upa: "fail_stale_accepted_attempt_sql i db = Inr (fst rows, db1)"
    and upj: "fail_stale_accepted_job_sql i db1 = Inr (fst (snd rows), db2)"
    and event: "record_event_sql (st_eventId i) (st_jobId i) (st_attemptId i) ty (st_timestamp i) db2
      = Inr (snd (snd rows), db')"
    using batch by (auto simp: batch3_Inr_iff)
  show ?thesis
  proof (rule attempt_and_job_step [OF inv upa [unfolded fail_stale_accepted_attempt_sql_def]
        unchanged_tables_refl upj [unfolded fail_stale_accepted_job_sql_def]
        record_event_unchanged [OF event], where ka = "st_attemptId i" and kj = "st_jobId i"], goal_cases)
    case 1 then show ?case by (simp add: stale_accepted_def)
  next
    case (3 x)
    then show ?case by (auto simp: evolve_defs failed_attempt_def flight_allowed_in_flight)
  next
    case (4 x)
    then obtain k where "k \<in> set (d1_jobs db)" "jb_id k = st_jobId i"
      "jb_active_attempt_id k = Some (st_attemptId i)" "jb_status k = SUBMITTING" "jb_deleted_at k = None"
      by (auto simp: active_in_def)
    moreover have "submitted_as db1 (st_attemptId i) (st_runpodJobId i)"
      using 4(2) submitted_as_cong [OF update_attempts_submissions
          [OF upa [unfolded fail_stale_accepted_attempt_sql_def]]] by (simp add: stale_accepted_def)
    ultimately show ?case
      using 4(2,3)
      by (intro bexI [of _ k])
        (auto simp: follows_attempt_def failed_job_def failed_attempt_def same_identity_def
          stale_accepted_def intro!: bexI [of _ "failed_attempt (st_timestamp i) x"])
  next
    case (5 k)
    then show ?case using active_job_status [OF inv] by (fastforce simp: status_lists stale_accepted_def)
  qed simp
qed

lemma failStaleAcceptedSubmission_step:
  "d1_inv db \<Longrightarrow> job_step (\<lambda>_. True) db (snd (failStaleAcceptedSubmission i db))"
  unfolding failStaleAcceptedSubmission_def
  by (rule answer_both_step) (auto simp: result_simps intro: failStaleAccepted_batch_step)

lemma claim_batch_step:
  assumes inv: "d1_inv db" and batch: "claim_batch i db = Inr (rows, db')"
  shows "job_step (\<lambda>_. True) db db'"
proof -
  obtain subs dbs db0 q db1 db2 where
    sub: "insert_submission_sql (cw_runpodJobId i) (cw_attemptId i) ''worker_claim'' (cw_timestamp i) db
      = Inr (subs, dbs)"
    and upa: "claim_winner_sql i dbs = Inr (rows, db0)"
    and won: "mark_submission_winner_sql (cw_runpodJobId i) (cw_attemptId i) (cw_timestamp i) db0
      = Inr (fst q, db1)"
    and upj: "mark_job_running_sql (cw_jobId i) (cw_attemptId i) (cw_timestamp i) db1 = Inr (fst (snd q), db2)"
    and event: "record_claim_event_sql (cw_eventId i) (cw_jobId i) (cw_attemptId i) (cw_runpodJobId i)
      (cw_timestamp i) db2 = Inr (snd (snd q), db')"
    using batch by (auto simp: claim_batch_def result_simps batch3_Inr_iff)
  note same = insert_submission_unchanged [OF sub]
  have inv': "d1_inv dbs" by (rule unchanged_tables_inv [OF same inv])
  have "job_step (\<lambda>_. True) dbs db'"
  proof (rule attempt_and_job_step [OF inv' upa [unfolded claim_winner_sql_def]
        mark_submission_winner_unchanged [OF won] upj [unfolded mark_job_running_sql_def]
        insert_event_unchanged [OF event [unfolded record_claim_event_sql_def]],
        where ka = "cw_attemptId i" and kj = "cw_jobId i"], goal_cases)
    case (3 x)
    then show ?case by (auto simp: evolve_defs flight_allowed_in_flight)
  next
    case (4 x)
    then obtain k where "k \<in> set (d1_jobs dbs)" "jb_id k = cw_jobId i"
      "jb_active_attempt_id k = Some (cw_attemptId i)" "jb_status k = SUBMITTING" "jb_deleted_at k = None"
      by blast
    then show ?case
      using 4(2,3)
      by (intro bexI [of _ k]) (auto simp: follows_attempt_def same_identity_def intro!: bexI [OF _ 4(3)])
  next
    case (5 k)
    then show ?case using active_job_status [OF inv'] by (fastforce simp: status_lists)
  qed simp_all
  then show ?thesis by (rule job_step_cong [OF same])
qed

lemma claimWinner_step: "d1_inv db \<Longrightarrow> job_step (\<lambda>_. True) db (snd (claimWinner i db))"
  unfolding claimWinner_def
  by (rule answer_attempt_step) (auto simp: result_simps intro: claim_batch_step)

section \<open>Preparing a submission\<close>

text \<open>What the trigger makes of the execution row of a RunPod attempt.\<close>

lemma follow_runpod_attempt:
  assumes keys: "distinct (map am_id as)" and a: "a \<in> set as" "p a"
    and x: "xc_attempt_id x = am_id a"
    and kind: "am_provider_kind (f a) = Some ''runpod_serverless''"
  shows "follow_attempt p f as x = runpod_execution_update (f a) x"
proof -
  have "find (\<lambda>b. am_id b = xc_attempt_id x \<and> p b) as = Some a"
    using find_Some_iff_key [OF keys, where p = "\<lambda>b. am_id b = xc_attempt_id x \<and> p b" and k = "am_id a"] a x
    by auto
  then show ?thesis
    using kind by (simp add: follow_attempt_def cloud_run_execution_update_def cloud_run_cancellation_def)
qed

lemma submittable_key:
  assumes "submittable jobId db a"
  shows "am_id a = the (jb_active_attempt_id (the (find_job
    (\<lambda>j. jb_id j = jobId \<and> jb_status j = SUBMISSION_PENDING \<and> jb_deleted_at j = None) db)))"
  using assms by (auto simp: submittable_def split: option.splits)

lemma submittable_job:
  assumes "submittable jobId db a"
  obtains j where "j \<in> set (d1_jobs db)" "jb_id j = jobId" "jb_status j = SUBMISSION_PENDING"
    "jb_deleted_at j = None" "jb_active_attempt_id j = Some (am_id a)"
proof -
  obtain j where "find_job (\<lambda>j. jb_id j = jobId \<and> jb_status j = SUBMISSION_PENDING \<and>
      jb_deleted_at j = None) db = Some j" "jb_active_attempt_id j = Some (am_id a)"
    using assms by (auto simp: submittable_def split: option.splits)
  then show thesis using that unfolding find_job_def find_Some_iff by (metis nth_mem)
qed

lemma submittable_alone:
  assumes "d1_keys db" "a \<in> set (d1_attempts db)" "submittable jobId db a" "b \<in> set (d1_attempts db)" "in_flight b"
  shows "b = a"
proof -
  have "occupies_gpu b" using assms(5) by (simp add: in_flight_def IN_FLIGHT_STATUSES_def occupies_gpu_def)
  then have "am_id b = am_id a" using assms(3,4) unfolding submittable_def by blast
  then show ?thesis by (rule attempt_unique [OF assms(1,4,2)])
qed

text \<open>The execution row of an attempt that has just been prepared.\<close>

lemma submitting_execution:
  assumes keys: "distinct (map am_id (d1_attempts db))"
    and upd: "update_attempts (submittable jobId db) f db = Inr (rows, db1)"
    and a: "a \<in> set (d1_attempts db)" "submittable jobId db a"
    and f: "am_status (f a) = ATT_SUBMITTING" "am_provider_kind (f a) = am_provider_kind a"
      "am_provider_policy (f a) = am_provider_policy a"
  shows "\<exists>x \<in> set (d1_executions db1). xc_attempt_id x = am_id a \<and> xc_status x = GPU_CREATING \<and>
    Some (xc_provider_kind x) = am_provider_kind a \<and> Some (xc_provider_policy x) = am_provider_policy a"
proof -
  obtain x where x: "x \<in> set (d1_executions db)" "execution_matches a x"
    and kind: "am_provider_kind a = Some ''runpod_serverless''"
    using a(2) unfolding submittable_def by blast
  have id: "xc_attempt_id x = am_id a" using x(2) by (simp add: execution_matches_def)
  have kind': "am_provider_kind (f a) = Some ''runpod_serverless''" using kind f(2) by simp
  have new: "follow_attempt (submittable jobId db) f (d1_attempts db) x = runpod_execution_update (f a) x"
    by (rule follow_runpod_attempt [where p = "submittable jobId db" and f = f, OF keys a(1,2) id kind'])
  have "d1_executions db1 = map (follow_attempt (submittable jobId db) f (d1_attempts db)) (d1_executions db)"
    using upd by (auto simp: update_attempts_def Let_def split: if_splits)
  then have "runpod_execution_update (f a) x \<in> set (d1_executions db1)" using x(1) new by force
  moreover have "xc_attempt_id (runpod_execution_update (f a) x) = am_id a \<and>
      xc_status (runpod_execution_update (f a) x) = GPU_CREATING \<and>
      Some (xc_provider_kind (runpod_execution_update (f a) x)) = am_provider_kind a \<and>
      Some (xc_provider_policy (runpod_execution_update (f a) x)) = am_provider_policy a"
    using x(2) kind f by (auto simp: runpod_execution_update_def execution_matches_def)
  ultimately show ?thesis by blast
qed

lemma prepare_batch_step:
  assumes inv: "d1_inv db" and batch: "prepare_batch j h t e db = Inr (rows, db')"
  shows "job_step (\<lambda>_. True) db db'"
proof -
  obtain db1 where upa: "prepare_submission_sql j h t e db = Inr (fst rows, db1)"
    and upj: "mark_job_submitting_sql j t h db1 = Inr (snd rows, db')"
    using batch by (auto simp: prepare_batch_def batch2_Inr_iff)
  have keys: "d1_keys db" "distinct (map am_id (d1_attempts db))" using inv by (simp_all add: d1_inv_def d1_keys_def)
  show ?thesis
  proof (rule attempt_and_job_step [OF inv upa [unfolded prepare_submission_sql_def]
        unchanged_tables_refl upj [unfolded mark_job_submitting_sql_def] unchanged_tables_refl,
        where kj = j and ka = "the (jb_active_attempt_id (the (find_job
          (\<lambda>i. jb_id i = j \<and> jb_status i = SUBMISSION_PENDING \<and> jb_deleted_at i = None) db)))"], goal_cases)
    case 1 then show ?case using submittable_key by blast
  next
    case (3 a)
    have "\<forall>b \<in> set (d1_attempts db). in_flight b \<longrightarrow> b = a" using submittable_alone [OF keys(1) 3] by blast
    moreover have "am_status a = ATT_SUBMISSION_PENDING" "am_claim_token_hash a = None"
      "am_claim_consumed_at a = None" "am_provider_kind a = Some ''runpod_serverless''"
      using 3(2) unfolding submittable_def by blast+
    ultimately show ?case by (simp add: evolve_defs flight_allowed_def)
  next
    case (4 a)
    obtain i where i: "i \<in> set (d1_jobs db)" "jb_id i = j" "jb_status i = SUBMISSION_PENDING"
      "jb_deleted_at i = None" "jb_active_attempt_id i = Some (am_id a)" by (rule submittable_job [OF 4(2)])
    have a: "am_job_id a = j" using 4(2) by (simp add: submittable_def)
    obtain x where x: "x \<in> set (d1_executions db1)" "xc_attempt_id x = am_id a" "xc_status x = GPU_CREATING"
      "Some (xc_provider_kind x) = am_provider_kind a" "Some (xc_provider_policy x) = am_provider_policy a"
      using submitting_execution [OF keys(2) upa [unfolded prepare_submission_sql_def] 4(1,2)] by auto
    show ?case
      using i a x 4(3)
      by (intro bexI [of _ i]) (auto simp: follows_attempt_def same_identity_def
          intro!: bexI [OF _ 4(3)] bexI [OF _ x(1)])
  next
    case (5 i)
    then show ?case using active_job_status [OF inv] by (fastforce simp: status_lists)
  qed simp_all
qed

lemma prepareSubmission_step: "d1_inv db \<Longrightarrow> job_step (\<lambda>_. True) db (snd (prepareSubmission j h t e db))"
  using prepare_batch_step
  by (auto simp: prepareSubmission_def result_simps split: sum.split prod.split)

section \<open>A rejected submission\<close>

text \<open>
  The statement on the attempt does not test the job, so the identifiers must belong together; they
  come from the answer of \<open>prepareSubmission\<close>. The statement on the job does not test whether it is
  deleted; rejected attempts end with their job, so that does not matter.
\<close>

lemma rejected_batch_step:
  assumes inv: "d1_inv db"
    and pair: "\<forall>x \<in> set (d1_attempts db). am_id x = a \<longrightarrow> am_job_id x = j"
    and batch: "batch3 (mark_attempt_rejected_sql a t) (mark_job_rejected_sql j t a)
      (record_event_sql e j a ''runpod_submission_rejected'' t) db = Inr (rows, db')"
  shows "job_step (\<lambda>_. True) db db'"
proof -
  obtain db1 db2 where upa: "mark_attempt_rejected_sql a t db = Inr (fst rows, db1)"
    and upj: "mark_job_rejected_sql j t a db1 = Inr (fst (snd rows), db2)"
    and event: "record_event_sql e j a ''runpod_submission_rejected'' t db2 = Inr (snd (snd rows), db')"
    using batch by (auto simp: batch3_Inr_iff)
  show ?thesis
  proof (rule attempt_and_job_step [OF inv upa [unfolded mark_attempt_rejected_sql_def]
        unchanged_tables_refl upj [unfolded mark_job_rejected_sql_def]
        record_event_unchanged [OF event], where ka = a and kj = j], goal_cases)
    case (3 x)
    then show ?case by (auto simp: evolve_defs flight_allowed_in_flight)
  next
    case (4 x)
    have open_x: "open_attempt x" using 4(2) by (simp add: open_attempt_def status_lists)
    obtain i where i: "i \<in> set (d1_jobs db)" "jb_id i = am_job_id x" "jb_active_attempt_id i = Some (am_id x)"
      "jb_deleted_at i = None \<longrightarrow> jb_status i = job_status_of_attempt (am_status x)"
      using open_active_job [OF inv 4(1) open_x] by metis
    moreover have "jb_deleted_at i = None"
      using cancellable_not_deleted [OF inv 4(1) _ i(1,2)] 4(2) by (simp add: status_lists)
    moreover have "am_job_id x = j" using pair 4(1,2) by blast
    ultimately show ?case
      using 4(2,3)
      by (intro bexI [of _ i])
        (auto simp: follows_attempt_def failed_job_def same_identity_def intro!: bexI [OF _ 4(3)])
  next
    case (5 i)
    show ?case
    proof
      assume "jb_id i = j \<and> jb_active_attempt_id i = Some a \<and> jb_status i = SUBMITTING \<and>
        (\<exists>x \<in> set (d1_attempts db1). am_id x = a \<and> am_job_id x = j \<and> am_status x = ATT_FAILED \<and>
           am_submission_outcome x = Some ''rejected'')"
      then have "jb_status i \<notin> set OPEN_JOB_STATUSES"
        using inv 5 unfolding d1_inv_def rejected_attempts_end_def by metis
      then show False using \<open>_ \<and> jb_active_attempt_id i = Some a \<and> _\<close> by (simp add: status_lists)
    qed
  qed simp_all
qed

lemma recordSubmissionRejected_step:
  assumes "d1_inv db" "\<forall>x \<in> set (d1_attempts db). am_id x = a \<longrightarrow> am_job_id x = j"
  shows "job_step (\<lambda>_. True) db (snd (recordSubmissionRejected a e j t db))"
  unfolding recordSubmissionRejected_def
  by (rule answer_both_step) (auto simp: result_simps intro: rejected_batch_step [OF assms])

text \<open>Identifiers that belonged together in an earlier database still do.\<close>

lemma attempt_job_pair:
  assumes "d1_inv db" "evolves r db" "x \<in> set (d1_attempts r)"
  shows "\<forall>y \<in> set (d1_attempts db). am_id y = am_id x \<longrightarrow> am_job_id y = am_job_id x"
proof -
  obtain x' where "x' \<in> set (d1_attempts db)" "am_id x' = am_id x" "am_job_id x' = am_job_id x"
    using assms(2,3) unfolding evolves_def attempt_evolves_def by metis
  then show ?thesis using attempt_unique [of db] assms(1) unfolding d1_inv_def by metis
qed

end
