(* ===== verification/Completion.thy ===== *)
theory Completion
  imports RunpodControl
begin

text \<open>
  apps/orchestrator/src/completion-repository.ts: the statements and operations with which the
  orchestrator polls the attempts that occupy a GPU, records the terminal status RunPod reports for
  them, and finalises the attempt and its job: completed with its three artifacts and a notification,
  failed, or cancelled.
  Lemmas: what the statements on the artifacts, the outbox and the events leave alone.
\<close>

section \<open>Worker output and terminal statuses\<close>

definition RUNPOD_STATUSES :: "string list" where
  "RUNPOD_STATUSES =
     [''IN_QUEUE'', ''IN_PROGRESS'', ''COMPLETED'', ''FAILED'', ''CANCELLED'', ''TIMED_OUT'']"

definition TERMINAL_RUNPOD_STATUSES :: "string list" where
  "TERMINAL_RUNPOD_STATUSES = [''COMPLETED'', ''FAILED'', ''CANCELLED'', ''TIMED_OUT'']"

definition RUNPOD_WORKER_ERROR_CODES :: "string list" where
  "RUNPOD_WORKER_ERROR_CODES =
     [''CLAIM_REJECTED'', ''SOURCE_DOWNLOAD_FAILED'', ''SOURCE_SIZE_MISMATCH'', ''SOURCE_ETAG_MISMATCH'',
      ''INVALID_MEDIA'', ''DURATION_LIMIT_EXCEEDED'', ''TRANSCRIPTION_FAILED'', ''ARTIFACT_UPLOAD_FAILED'',
      ''MANIFEST_UPLOAD_FAILED'', ''CANCELLED'', ''INTERNAL_ERROR'']"

definition RUNPOD_OUTPUT_STATUSES :: "string list" where
  "RUNPOD_OUTPUT_STATUSES = [''completed'', ''failed'', ''cancelled'', ''deduplicated'']"

text \<open>
  What a worker answers (\<open>RunpodWorkerOutput\<close>): the attempt and the job it worked on, and how it
  ended. The manifest is written exactly when the output says it completed.
\<close>

datatype worker_result =
    Output_completed string rat nat
  | Output_failed string string
  | Output_deduplicated

record worker_output =
  wo_attemptId :: string
  wo_jobId :: string
  wo_result :: worker_result

fun output_status :: "worker_result \<Rightarrow> string" where
  "output_status (Output_completed _ _ _) = ''completed''"
| "output_status (Output_failed status _) = status"
| "output_status Output_deduplicated = ''deduplicated''"

fun output_manifestWritten :: "worker_result \<Rightarrow> bool" where
  "output_manifestWritten (Output_completed _ _ _) \<longleftrightarrow> True"
| "output_manifestWritten _ \<longleftrightarrow> False"

fun output_errorCode :: "worker_result \<Rightarrow> string option" where
  "output_errorCode (Output_failed _ code) = Some code"
| "output_errorCode _ = None"

fun output_detectedLanguage :: "worker_result \<Rightarrow> string option" where
  "output_detectedLanguage (Output_completed language _ _) = Some language"
| "output_detectedLanguage _ = None"

fun output_durationSeconds :: "worker_result \<Rightarrow> rat option" where
  "output_durationSeconds (Output_completed _ duration _) = Some duration"
| "output_durationSeconds _ = None"

fun output_segmentCount :: "worker_result \<Rightarrow> nat option" where
  "output_segmentCount (Output_completed _ _ segments) = Some segments"
| "output_segmentCount _ = None"

section \<open>Attempts that agree with their execution row\<close>

definition provider_compatible :: "d1 \<Rightarrow> attempt_row \<Rightarrow> bool" where
  "provider_compatible db a \<longleftrightarrow>
     (am_provider_kind a = None \<and> \<not> (\<exists>x \<in> set (d1_executions db). xc_attempt_id x = am_id a)) \<or>
     (\<exists>x \<in> set (d1_executions db). execution_matches a x \<and>
        xc_status x = gpu_status_of_attempt (am_status a))"

text \<open>The job statuses in which an attempt occupies a GPU.\<close>

definition in_progress :: "job_row \<Rightarrow> bool" where
  "in_progress j \<longleftrightarrow> jb_status j \<in> {SUBMITTING, RUNNING, CANCEL_REQUESTED} \<and> jb_deleted_at j = None"

text \<open>
  The rows \<open>FIND_STATUS_POLL_CANDIDATES_SQL\<close> and \<open>FIND_TERMINAL_OUTCOMES_SQL\<close> join: a job and its active
  attempt.
\<close>

definition reconcilable_rows :: "d1 \<Rightarrow> (job_row \<times> attempt_row) list" where
  "reconcilable_rows db =
     [(j, a). j \<leftarrow> d1_jobs db, in_progress j, a \<leftarrow> d1_attempts db,
        jb_active_attempt_id j = Some (am_id a) \<and> occupies_gpu a \<and> provider_compatible db a]"

section \<open>Polling\<close>

record poll_candidate =
  pc_attemptId :: string
  pc_attemptStatus :: attempt_status
  pc_claimedAt :: "string option"
  pc_heartbeatAt :: "string option"
  pc_jobId :: string
  pc_jobStatus :: job_status
  pc_runpodJobId :: string
  pc_submissionStartedAt :: string

definition poll_rows :: "d1 \<Rightarrow> (job_row \<times> attempt_row \<times> submission_row) list" where
  "poll_rows db =
     [(j, a, s). (j, a) \<leftarrow> reconcilable_rows db, am_runpod_terminal_status a = None,
        s \<leftarrow> d1_submissions db,
        rs_attempt_id s = am_id a \<and>
        (case am_winning_runpod_job_id a of
           None \<Rightarrow> rs_source s = ''submit_response'' | Some w \<Rightarrow> rs_runpod_job_id s = w)]"

text \<open>\<open>ORDER BY updated_at, id\<close> of the attempts; the order of two submissions of one attempt is open.\<close>

definition find_status_poll_candidates_sql ::
  "nat \<Rightarrow> d1 \<Rightarrow> (job_row \<times> attempt_row \<times> submission_row) list" where
  "find_status_poll_candidates_sql limit db =
     take limit (order_by (\<lambda>(_, a, _) (_, b, _). attempts_before (\<lambda>a. Some (am_updated_at a)) a b)
       (poll_rows db))"

definition pollCandidateRowSchema :: "job_row \<times> attempt_row \<times> submission_row \<Rightarrow> bool" where
  "pollCandidateRowSchema r \<longleftrightarrow> (case r of (j, a, s) \<Rightarrow>
     ulid_ok (am_id a) \<and> occupies_gpu a \<and> nullable utc_datetime_ok (am_claimed_at a) \<and>
     nullable utc_datetime_ok (am_heartbeat_at a) \<and> ulid_ok (am_job_id a) \<and>
     jb_status j \<in> {SUBMITTING, RUNNING, CANCEL_REQUESTED} \<and>
     runpodJobIdSchema (rs_runpod_job_id s) \<and> not_null utc_datetime_ok (am_submission_started_at a))"

definition mapPollCandidate :: "job_row \<times> attempt_row \<times> submission_row \<Rightarrow> poll_candidate" where
  "mapPollCandidate r = (case r of (j, a, s) \<Rightarrow>
     \<lparr>pc_attemptId = am_id a, pc_attemptStatus = am_status a, pc_claimedAt = am_claimed_at a,
      pc_heartbeatAt = am_heartbeat_at a, pc_jobId = am_job_id a, pc_jobStatus = jb_status j,
      pc_runpodJobId = rs_runpod_job_id s, pc_submissionStartedAt = the (am_submission_started_at a)\<rparr>)"

definition reconciliationLimitSchema :: "nat \<Rightarrow> bool" where
  "reconciliationLimitSchema limit \<longleftrightarrow> 1 \<le> limit \<and> limit \<le> 100"

definition findStatusPollCandidates :: "nat \<Rightarrow> d1 \<Rightarrow> poll_candidate list result" where
  "findStatusPollCandidates limit db =
     res_bind (zod_parse reconciliationLimitSchema limit) (\<lambda>limit.
     res_bind (zod_parse (\<lambda>rs. length rs \<le> limit \<and> list_all pollCandidateRowSchema rs)
         (find_status_poll_candidates_sql limit db)) (\<lambda>rows.
     Inr (map mapPollCandidate rows)))"

section \<open>Terminal statuses\<close>

record terminal_input =
  ti_attemptId :: string
  ti_delayTime :: "nat option"
  ti_executionTime :: "nat option"
  ti_jobId :: string
  ti_output :: "worker_output option"
  ti_runpodJobId :: string
  ti_status :: string
  ti_timestamp :: string

definition has_in_progress_job :: "d1 \<Rightarrow> string \<Rightarrow> string \<Rightarrow> bool" where
  "has_in_progress_job db jobId attemptId \<longleftrightarrow>
     (\<exists>j \<in> set (d1_jobs db). jb_id j = jobId \<and> jb_active_attempt_id j = Some attemptId \<and> in_progress j)"

definition allowUnclaimedTerminal :: "terminal_input \<Rightarrow> bool" where
  "allowUnclaimedTerminal i \<longleftrightarrow>
     ti_status i \<noteq> ''COMPLETED'' \<or>
     (case ti_output i of None \<Rightarrow> False | Some out \<Rightarrow> output_status (wo_result out) \<noteq> ''completed'')"

definition terminal_attempt :: "terminal_input \<Rightarrow> attempt_row \<Rightarrow> attempt_row" where
  "terminal_attempt i a =
     (let result = map_option wo_result (ti_output i) in
      a\<lparr>am_runpod_terminal_job_id := Some (ti_runpodJobId i),
        am_runpod_terminal_status := Some (ti_status i),
        am_runpod_terminal_observed_at := Some (ti_timestamp i),
        am_runpod_output_status := map_option output_status result,
        am_runpod_output_error_code := Option.bind result output_errorCode,
        am_runpod_manifest_written := map_option output_manifestWritten result,
        am_detected_language := Option.bind result output_detectedLanguage,
        am_segment_count := Option.bind result output_segmentCount,
        am_runpod_delay_ms := ti_delayTime i, am_runpod_execution_ms := ti_executionTime i,
        am_media_duration_seconds := Option.bind result output_durationSeconds,
        am_updated_at := ti_timestamp i\<rparr>)"

text \<open>The checks migration 0005 declares on the columns a terminal status sets.\<close>

definition terminal_checks :: "attempt_row \<Rightarrow> bool" where
  "terminal_checks a \<longleftrightarrow>
     nullable (\<lambda>s. s \<in> set TERMINAL_RUNPOD_STATUSES) (am_runpod_terminal_status a) \<and>
     nullable (\<lambda>s. s \<in> set RUNPOD_OUTPUT_STATUSES) (am_runpod_output_status a) \<and>
     nullable (\<lambda>s. s \<in> set RUNPOD_WORKER_ERROR_CODES) (am_runpod_output_error_code a) \<and>
     nullable (\<lambda>l. 2 \<le> length l \<and> length l \<le> 35) (am_detected_language a) \<and>
     nullable (\<lambda>d. 0 \<le> d \<and> d \<le> 28800) (am_media_duration_seconds a)"

definition terminal_recordable :: "terminal_input \<Rightarrow> d1 \<Rightarrow> attempt_row \<Rightarrow> bool" where
  "terminal_recordable i db a \<longleftrightarrow>
     am_id a = ti_attemptId i \<and> am_job_id a = ti_jobId i \<and> occupies_gpu a \<and>
     am_runpod_terminal_status a = None \<and> provider_compatible db a \<and>
     has_in_progress_job db (ti_jobId i) (ti_attemptId i) \<and>
     (am_winning_runpod_job_id a = Some (ti_runpodJobId i) \<or>
      am_winning_runpod_job_id a = None \<and> allowUnclaimedTerminal i \<and>
        submitted_as db (ti_attemptId i) (ti_runpodJobId i))"

definition record_terminal_status_sql :: "terminal_input \<Rightarrow> attempt_row statement" where
  "record_terminal_status_sql i db =
     (if \<exists>a \<in> set (d1_attempts db). terminal_recordable i db a \<and> \<not> terminal_checks (terminal_attempt i a)
      then Inl (DatabaseError ''CHECK constraint failed: job_attempts'')
      else update_attempts (terminal_recordable i db) (terminal_attempt i) db)"

definition terminal_input_ok :: "terminal_input \<Rightarrow> bool" where
  "terminal_input_ok i \<longleftrightarrow>
     ulid_ok (ti_attemptId i) \<and> ulid_ok (ti_jobId i) \<and> runpodJobIdSchema (ti_runpodJobId i) \<and>
     utc_datetime_ok (ti_timestamp i)"

definition recordTerminalStatus :: "terminal_input \<Rightarrow> bool api" where
  "recordTerminalStatus i db =
     answer_attempt
       (res_bind (zod_parse (\<lambda>s. s \<in> set RUNPOD_STATUSES) (ti_status i)) (\<lambda>status.
        if status \<notin> set TERMINAL_RUNPOD_STATUSES
        then Inl (JsError ''Only terminal RunPod statuses can be recorded'')
        else res_bind (zod_parse terminal_input_ok i) (\<lambda>i. record_terminal_status_sql i db))) db"

section \<open>Outcomes\<close>

record terminal_outcome =
  to_attemptId :: string
  to_detectedLanguage :: "string option"
  to_durationSeconds :: "rat option"
  to_generation :: nat
  to_jobId :: string
  to_jobStatus :: job_status
  to_resultPrefix :: string
  to_runpodExecutionMs :: "nat option"
  to_runpodManifestWritten :: "bool option"
  to_runpodOutputErrorCode :: "string option"
  to_runpodOutputStatus :: "string option"
  to_runpodTerminalJobId :: string
  to_runpodTerminalObservedAt :: string
  to_runpodTerminalStatus :: string
  to_segmentCount :: "nat option"
  to_winningRunpodJobId :: "string option"

definition find_terminal_outcomes_sql :: "nat \<Rightarrow> d1 \<Rightarrow> (job_row \<times> attempt_row) list" where
  "find_terminal_outcomes_sql limit db =
     take limit (order_by (\<lambda>(_, a) (_, b). attempts_before am_runpod_terminal_observed_at a b)
       (filter (\<lambda>(_, a). am_runpod_terminal_status a \<noteq> None \<and> am_runpod_terminal_observed_at a \<noteq> None)
          (reconcilable_rows db)))"

definition outcomePrefixSchema :: "string \<Rightarrow> bool" where
  "outcomePrefixSchema s \<longleftrightarrow>
     1 \<le> length s \<and> length s \<le> 900 \<and> starts_with ''results/'' s \<and> ends_with ''/'' s"

definition terminalOutcomeRowSchema :: "job_row \<times> attempt_row \<Rightarrow> bool" where
  "terminalOutcomeRowSchema r \<longleftrightarrow> (case r of (j, a) \<Rightarrow>
     ulid_ok (am_id a) \<and>
     nullable (\<lambda>l. 2 \<le> length l \<and> length l \<le> 35) (am_detected_language a) \<and>
     nullable (\<lambda>d. 0 \<le> d \<and> d \<le> MAX_RECORDING_DURATION_SECONDS) (am_media_duration_seconds a) \<and>
     0 < am_generation a \<and> ulid_ok (am_job_id a) \<and>
     jb_status j \<in> {SUBMITTING, RUNNING, CANCEL_REQUESTED} \<and>
     outcomePrefixSchema (am_result_prefix a) \<and>
     nullable (\<lambda>c. c \<in> set RUNPOD_WORKER_ERROR_CODES) (am_runpod_output_error_code a) \<and>
     nullable (\<lambda>s. s \<in> set RUNPOD_OUTPUT_STATUSES) (am_runpod_output_status a) \<and>
     not_null runpodJobIdSchema (am_runpod_terminal_job_id a) \<and>
     not_null utc_datetime_ok (am_runpod_terminal_observed_at a) \<and>
     not_null (\<lambda>s. s \<in> set TERMINAL_RUNPOD_STATUSES) (am_runpod_terminal_status a) \<and>
     nullable runpodJobIdSchema (am_winning_runpod_job_id a))"

definition mapTerminalOutcome :: "job_row \<times> attempt_row \<Rightarrow> terminal_outcome" where
  "mapTerminalOutcome r = (case r of (j, a) \<Rightarrow>
     \<lparr>to_attemptId = am_id a, to_detectedLanguage = am_detected_language a,
      to_durationSeconds = am_media_duration_seconds a, to_generation = am_generation a,
      to_jobId = am_job_id a, to_jobStatus = jb_status j, to_resultPrefix = am_result_prefix a,
      to_runpodExecutionMs = am_runpod_execution_ms a,
      to_runpodManifestWritten = am_runpod_manifest_written a,
      to_runpodOutputErrorCode = am_runpod_output_error_code a,
      to_runpodOutputStatus = am_runpod_output_status a,
      to_runpodTerminalJobId = the (am_runpod_terminal_job_id a),
      to_runpodTerminalObservedAt = the (am_runpod_terminal_observed_at a),
      to_runpodTerminalStatus = the (am_runpod_terminal_status a),
      to_segmentCount = am_segment_count a,
      to_winningRunpodJobId = am_winning_runpod_job_id a\<rparr>)"

definition findTerminalOutcomes :: "nat \<Rightarrow> d1 \<Rightarrow> terminal_outcome list result" where
  "findTerminalOutcomes limit db =
     res_bind (zod_parse reconciliationLimitSchema limit) (\<lambda>limit.
     res_bind (zod_parse (\<lambda>rs. length rs \<le> limit \<and> list_all terminalOutcomeRowSchema rs)
         (find_terminal_outcomes_sql limit db)) (\<lambda>rows.
     Inr (map mapTerminalOutcome rows)))"

section \<open>Ending an attempt and its job\<close>

definition revoked_heartbeat :: "string \<Rightarrow> attempt_row \<Rightarrow> string option" where
  "revoked_heartbeat timestamp a =
     (case am_heartbeat_token_hash a of None \<Rightarrow> None | Some _ \<Rightarrow> Some timestamp)"

text \<open>
  \<open>FINALIZE_TERMINAL_JOB_SQL\<close>: the job of an attempt that has just ended with the status given, which
  is COMPLETED, FAILED or CANCELLED.
\<close>

definition finalized_job ::
  "attempt_status \<Rightarrow> public_error_code option \<Rightarrow> string \<Rightarrow> rat option \<Rightarrow> job_row \<Rightarrow> job_row" where
  "finalized_job status errorCode timestamp duration j =
     j\<lparr>jb_status := job_status_of_attempt status, jb_error_code := errorCode, jb_error_message := None,
       jb_completed_at := (if status = ATT_COMPLETED then Some timestamp else jb_completed_at j),
       jb_failed_at := (if status = ATT_FAILED then Some timestamp else jb_failed_at j),
       jb_cancelled_at := (if status = ATT_CANCELLED then Some timestamp else jb_cancelled_at j),
       jb_duration_seconds := (if status = ATT_COMPLETED then duration else jb_duration_seconds j),
       jb_updated_at := timestamp, jb_version := jb_version j + 1\<rparr>"

definition finalize_terminal_job_sql ::
  "string \<Rightarrow> string \<Rightarrow> attempt_status \<Rightarrow> public_error_code option \<Rightarrow> string \<Rightarrow> rat option \<Rightarrow> job_row statement" where
  "finalize_terminal_job_sql jobId attemptId status errorCode timestamp duration db =
     update_jobs
       (\<lambda>j. jb_id j = jobId \<and> jb_active_attempt_id j = Some attemptId \<and> in_progress j \<and>
          (\<exists>a \<in> set (d1_attempts db). am_id a = attemptId \<and> am_job_id a = jobId \<and>
             am_status a = status \<and> am_updated_at a = timestamp))
       (finalized_job status errorCode timestamp duration) db"

text \<open>An event for a job that has just ended.\<close>

definition record_job_event_sql ::
  "string \<Rightarrow> string \<Rightarrow> string \<Rightarrow> string \<Rightarrow> string \<Rightarrow> (job_row \<Rightarrow> bool) \<Rightarrow> event_row statement" where
  "record_job_event_sql eventId jobId attemptId eventType timestamp ended db =
     insert_event Conflict_id_do_nothing
       (if \<exists>j \<in> set (d1_jobs db). jb_id j = jobId \<and> jb_active_attempt_id j = Some attemptId \<and> ended j
        then Some (orchestrator_event eventId jobId attemptId eventType timestamp) else None) db"

section \<open>Attempts that cannot be observed\<close>

datatype reconciliation_deadline = Execution_deadline | Submission_deadline

record unobservable_input =
  un_attemptId :: string
  un_cutoff :: string
  un_deadline :: reconciliation_deadline
  un_eventId :: string
  un_jobId :: string
  un_runpodJobId :: string
  un_timestamp :: string

definition past_deadline :: "unobservable_input \<Rightarrow> attempt_row \<Rightarrow> bool" where
  "past_deadline i a \<longleftrightarrow>
     (case un_deadline i of
        Submission_deadline \<Rightarrow> sql_leq (am_submission_started_at a) (un_cutoff i)
      | Execution_deadline \<Rightarrow> am_claimed_at a \<noteq> None \<and> sql_leq (am_claimed_at a) (un_cutoff i))"

definition unobservable :: "unobservable_input \<Rightarrow> d1 \<Rightarrow> attempt_row \<Rightarrow> bool" where
  "unobservable i db a \<longleftrightarrow>
     am_id a = un_attemptId i \<and> am_job_id a = un_jobId i \<and> occupies_gpu a \<and>
     am_runpod_terminal_status a = None \<and> provider_compatible db a \<and> past_deadline i a \<and>
     (am_winning_runpod_job_id a = Some (un_runpodJobId i) \<or>
      am_winning_runpod_job_id a = None \<and> submitted_as db (un_attemptId i) (un_runpodJobId i)) \<and>
     has_in_progress_job db (un_jobId i) (un_attemptId i)"

definition fail_unobservable_attempt_sql :: "unobservable_input \<Rightarrow> attempt_row statement" where
  "fail_unobservable_attempt_sql i db =
     update_attempts (unobservable i db)
       (\<lambda>a. a\<lparr>am_status := ATT_FAILED, am_error_code := Some PE_PROCESSING_FAILED,
          am_error_message := None, am_heartbeat_revoked_at := revoked_heartbeat (un_timestamp i) a,
          am_failed_at := Some (un_timestamp i), am_updated_at := un_timestamp i\<rparr>) db"

definition unobservable_input_ok :: "unobservable_input \<Rightarrow> bool" where
  "unobservable_input_ok i \<longleftrightarrow>
     ulid_ok (un_attemptId i) \<and> ulid_ok (un_jobId i) \<and> runpodJobIdSchema (un_runpodJobId i) \<and>
     utc_datetime_ok (un_cutoff i) \<and> utc_datetime_ok (un_timestamp i) \<and> ulid_ok (un_eventId i)"

definition failUnobservableAttempt :: "unobservable_input \<Rightarrow> bool api" where
  "failUnobservableAttempt i db =
     answer_both (res_bind (zod_parse unobservable_input_ok i) (\<lambda>i.
       batch3 (fail_unobservable_attempt_sql i)
         (finalize_terminal_job_sql (un_jobId i) (un_attemptId i) ATT_FAILED
            (Some PE_PROCESSING_FAILED) (un_timestamp i) None)
         (record_job_event_sql (un_eventId i) (un_jobId i) (un_attemptId i)
            ''job_reconciliation_expired'' (un_timestamp i)
            (\<lambda>j. jb_status j = FAILED \<and> jb_failed_at j = Some (un_timestamp i))) db)) db"

section \<open>Failed and cancelled outcomes\<close>

record finalize_input =
  fi_attemptId :: string
  fi_errorCode :: "public_error_code option"
  fi_jobId :: string
  fi_runpodJobId :: string
  fi_status :: attempt_status
  fi_timestamp :: string

definition finalizable :: "finalize_input \<Rightarrow> d1 \<Rightarrow> attempt_row \<Rightarrow> bool" where
  "finalizable i db a \<longleftrightarrow>
     am_id a = fi_attemptId i \<and> am_job_id a = fi_jobId i \<and>
     am_runpod_terminal_job_id a = Some (fi_runpodJobId i) \<and> am_runpod_terminal_status a \<noteq> None \<and>
     occupies_gpu a \<and> provider_compatible db a \<and>
     (am_winning_runpod_job_id a = Some (fi_runpodJobId i) \<or>
      am_winning_runpod_job_id a = None \<and> fi_status i \<in> {ATT_FAILED, ATT_CANCELLED}) \<and>
     has_in_progress_job db (fi_jobId i) (fi_attemptId i)"

definition finalize_terminal_attempt_sql :: "finalize_input \<Rightarrow> attempt_row statement" where
  "finalize_terminal_attempt_sql i db =
     update_attempts (finalizable i db)
       (\<lambda>a. a\<lparr>am_status := fi_status i, am_error_code := fi_errorCode i, am_error_message := None,
          am_heartbeat_revoked_at := revoked_heartbeat (fi_timestamp i) a,
          am_completed_at := (if fi_status i = ATT_COMPLETED then Some (fi_timestamp i) else am_completed_at a),
          am_failed_at := (if fi_status i = ATT_FAILED then Some (fi_timestamp i) else am_failed_at a),
          am_updated_at := fi_timestamp i\<rparr>) db"

definition finalize_input_ok :: "finalize_input \<Rightarrow> bool" where
  "finalize_input_ok i \<longleftrightarrow>
     utc_datetime_ok (fi_timestamp i) \<and> fi_status i \<in> {ATT_CANCELLED, ATT_FAILED}"

definition finalize_identifiers_ok :: "finalize_input \<Rightarrow> bool" where
  "finalize_identifiers_ok i \<longleftrightarrow>
     ulid_ok (fi_attemptId i) \<and> ulid_ok (fi_jobId i) \<and> runpodJobIdSchema (fi_runpodJobId i)"

definition finalizeTerminal :: "finalize_input \<Rightarrow> bool api" where
  "finalizeTerminal i db =
     answer_both
       (res_bind (zod_parse finalize_input_ok i) (\<lambda>i.
        if (fi_status i = ATT_FAILED) \<noteq> (fi_errorCode i \<noteq> None)
        then Inl (JsError ''Terminal failure requires an error code and cancellation forbids one'')
        else res_bind (zod_parse finalize_identifiers_ok i) (\<lambda>i.
        res_bind (batch2 (finalize_terminal_attempt_sql i)
            (finalize_terminal_job_sql (fi_jobId i) (fi_attemptId i) (fi_status i) (fi_errorCode i)
               (fi_timestamp i) None) db) (\<lambda>((attempts, jobs), db').
        Inr ((attempts, jobs, []), db'))))) db"

section \<open>Completion\<close>

record verified_artifact =
  va_format :: string
  va_key :: string
  va_sha256 :: string
  va_sizeBytes :: nat

record completion_input =
  ci_artifacts :: "verified_artifact list"
  ci_attemptId :: string
  ci_durationSeconds :: rat
  ci_eventId :: string
  ci_jobId :: string
  ci_notificationId :: string
  ci_runpodJobId :: string
  ci_timestamp :: string

text \<open>What the statements of a completion ask of the attempt's columns.\<close>

definition completed_by :: "string \<Rightarrow> attempt_row \<Rightarrow> bool" where
  "completed_by runpodJobId a \<longleftrightarrow>
     am_status a \<in> {ATT_RUNNING, ATT_CANCEL_REQUESTED} \<and>
     am_winning_runpod_job_id a = Some runpodJobId \<and> am_runpod_terminal_job_id a = Some runpodJobId \<and>
     am_runpod_terminal_status a = Some ''COMPLETED'' \<and> am_runpod_output_status a = Some ''completed'' \<and>
     am_runpod_manifest_written a = Some True"

definition running_or_cancelling :: "job_row \<Rightarrow> bool" where
  "running_or_cancelling j \<longleftrightarrow> jb_status j \<in> {RUNNING, CANCEL_REQUESTED} \<and> jb_deleted_at j = None"

definition artifact_checks :: "artifact_row \<Rightarrow> bool" where
  "artifact_checks f \<longleftrightarrow>
     af_format f \<in> set OUTPUT_FORMATS \<and> like_prefix ''results/'' (af_object_key f) \<and>
     af_size_bytes f \<le> 2147483648 \<and> sha256_hex_ok (af_sha256 f)"

definition artifact_of :: "completion_input \<Rightarrow> verified_artifact \<Rightarrow> artifact_row" where
  "artifact_of i v =
     \<lparr>af_job_id = ci_jobId i, af_attempt_id = ci_attemptId i, af_format = va_format v,
      af_object_key = va_key v, af_size_bytes = va_sizeBytes v, af_sha256 = va_sha256 v,
      af_created_at = ci_timestamp i\<rparr>"

definition insert_artifact_sql :: "completion_input \<Rightarrow> verified_artifact \<Rightarrow> artifact_row statement" where
  "insert_artifact_sql i v db =
     (let f = artifact_of i v in
      if \<not> (\<exists>j \<in> set (d1_jobs db). \<exists>a \<in> set (d1_attempts db).
           jb_id j = ci_jobId i \<and> running_or_cancelling j \<and> jb_active_attempt_id j = Some (am_id a) \<and>
           am_id a = ci_attemptId i \<and> am_job_id a = jb_id j \<and> completed_by (ci_runpodJobId i) a \<and>
           provider_compatible db a)
      then Inr ([], db)
      else if \<not> artifact_checks f then Inl (DatabaseError ''CHECK constraint failed: job_artifacts'')
      else if \<exists>r \<in> set (d1_artifacts db). af_attempt_id r = ci_attemptId i \<and> af_format r = va_format v
      then Inr ([], db)
      else if va_key v \<in> af_object_key ` set (d1_artifacts db)
      then Inl (DatabaseError ''UNIQUE constraint failed: job_artifacts'')
      else Inr ([f], db\<lparr>d1_artifacts := d1_artifacts db @ [f]\<rparr>))"

definition has_artifact :: "completion_input \<Rightarrow> d1 \<Rightarrow> verified_artifact \<Rightarrow> bool" where
  "has_artifact i db v \<longleftrightarrow>
     (\<exists>r \<in> set (d1_artifacts db). af_job_id r = ci_jobId i \<and> af_attempt_id r = ci_attemptId i \<and>
        af_format r = va_format v \<and> af_object_key r = va_key v \<and> af_size_bytes r = va_sizeBytes v \<and>
        af_sha256 r = va_sha256 v)"

definition completing ::
  "completion_input \<Rightarrow> verified_artifact list \<Rightarrow> d1 \<Rightarrow> attempt_row \<Rightarrow> bool" where
  "completing i artifacts db a \<longleftrightarrow>
     am_id a = ci_attemptId i \<and> am_job_id a = ci_jobId i \<and> completed_by (ci_runpodJobId i) a \<and>
     provider_compatible db a \<and> list_all (has_artifact i db) artifacts \<and>
     (\<exists>j \<in> set (d1_jobs db). jb_id j = ci_jobId i \<and> jb_active_attempt_id j = Some (ci_attemptId i) \<and>
        running_or_cancelling j)"

definition complete_attempt_sql ::
  "completion_input \<Rightarrow> verified_artifact list \<Rightarrow> attempt_row statement" where
  "complete_attempt_sql i artifacts db =
     update_attempts (completing i artifacts db)
       (\<lambda>a. a\<lparr>am_status := ATT_COMPLETED,
          am_heartbeat_revoked_at := revoked_heartbeat (ci_timestamp i) a,
          am_completed_at := Some (ci_timestamp i), am_error_code := None, am_error_message := None,
          am_updated_at := ci_timestamp i\<rparr>) db"

text \<open>
  \<open>INSERT_NOTIFICATION_SQL\<close>: one notification per job. A notification for an older version of the job,
  or one that was settled, becomes pending again under its old identifier.
\<close>

definition pending_notification :: "string \<Rightarrow> string \<Rightarrow> nat option \<Rightarrow> string \<Rightarrow> outbox_row" where
  "pending_notification notificationId jobId version timestamp =
     \<lparr>ob_id = notificationId, ob_job_id = jobId, ob_job_version = version, ob_status = ''PENDING'',
      ob_attempt_count = 0, ob_next_attempt_at = Some timestamp, ob_last_error = None,
      ob_created_at = timestamp, ob_sent_at = None\<rparr>"

definition insert_notification_sql :: "completion_input \<Rightarrow> outbox_row statement" where
  "insert_notification_sql i db =
     (let version = map_option jb_version (find_job (\<lambda>j. jb_id j = ci_jobId i) db);
          new = pending_notification (ci_notificationId i) (ci_jobId i) version (ci_timestamp i);
          stale = (\<lambda>r. ob_job_id r = ci_jobId i \<and>
            (ob_job_version r \<noteq> version \<or> ob_status r \<in> {''SENT'', ''DEAD''}));
          renew = (\<lambda>r. new\<lparr>ob_id := ob_id r\<rparr>)
      in if \<not> (\<exists>a \<in> set (d1_attempts db). am_id a = ci_attemptId i \<and> am_job_id a = ci_jobId i \<and>
           am_status a = ATT_COMPLETED \<and> provider_compatible db a \<and>
           am_completed_at a = Some (ci_timestamp i))
      then Inr ([], db)
      else if length (ci_notificationId i) \<noteq> 26 \<or> version = Some 0
      then Inl (DatabaseError ''CHECK constraint failed: notification_outbox'')
      else if ci_jobId i \<in> ob_job_id ` set (d1_outbox db)
      then Inr (map renew (filter stale (d1_outbox db)),
        db\<lparr>d1_outbox := update_where stale renew (d1_outbox db)\<rparr>)
      else if ci_notificationId i \<in> ob_id ` set (d1_outbox db)
      then Inl (DatabaseError ''UNIQUE constraint failed: notification_outbox'')
      else Inr ([new], db\<lparr>d1_outbox := d1_outbox db @ [new]\<rparr>))"

definition verified_artifact_ok :: "verified_artifact \<Rightarrow> bool" where
  "verified_artifact_ok v \<longleftrightarrow>
     va_format v \<in> set OUTPUT_FORMATS \<and>
     1 \<le> length (va_key v) \<and> length (va_key v) \<le> 1024 \<and> starts_with ''results/'' (va_key v) \<and>
     sha256_hex_ok (va_sha256 v) \<and> va_sizeBytes v \<le> 2147483648"

definition completion_input_ok :: "completion_input \<Rightarrow> bool" where
  "completion_input_ok i \<longleftrightarrow>
     utc_datetime_ok (ci_timestamp i) \<and> ulid_ok (ci_attemptId i) \<and> ulid_ok (ci_jobId i) \<and>
     runpodJobIdSchema (ci_runpodJobId i) \<and>
     0 \<le> ci_durationSeconds i \<and> ci_durationSeconds i \<le> MAX_RECORDING_DURATION_SECONDS \<and>
     list_all verified_artifact_ok (ci_artifacts i)"

text \<open>The artifacts in the order markdown, JSON, SRT.\<close>

definition required_artifact :: "string \<Rightarrow> verified_artifact list \<Rightarrow> verified_artifact result" where
  "required_artifact format vs =
     (case find (\<lambda>v. va_format v = format) vs of
        None \<Rightarrow> Inl (JsError ''Completion requires markdown, JSON, and SRT artifacts'')
      | Some v \<Rightarrow> Inr v)"

definition ordered_artifacts :: "verified_artifact list \<Rightarrow> verified_artifact list result" where
  "ordered_artifacts vs =
     (if length vs \<noteq> 3 \<or> length (remdups (map va_format vs)) \<noteq> 3
      then Inl (JsError ''Completion requires three distinct artifacts'')
      else res_bind (required_artifact ''markdown'' vs) (\<lambda>markdown.
           res_bind (required_artifact ''json'' vs) (\<lambda>json.
           res_bind (required_artifact ''srt'' vs) (\<lambda>srt. Inr [markdown, json, srt]))))"

text \<open>The statements of a batch that insert the artifacts, one after the other.\<close>

fun insert_artifacts :: "completion_input \<Rightarrow> verified_artifact list \<Rightarrow> d1 \<Rightarrow> d1 result" where
  "insert_artifacts i [] db = Inr db"
| "insert_artifacts i (v # vs) db =
     res_bind (insert_artifact_sql i v db) (\<lambda>(_, db'). insert_artifacts i vs db')"

definition completion_batch ::
  "completion_input \<Rightarrow> verified_artifact list \<Rightarrow> d1 \<Rightarrow> (attempt_job_rows \<times> d1) result" where
  "completion_batch i artifacts db =
     res_bind (insert_artifacts i artifacts db) (\<lambda>db1.
     res_bind (complete_attempt_sql i artifacts db1) (\<lambda>(attempts, db2).
     res_bind (batch3
         (finalize_terminal_job_sql (ci_jobId i) (ci_attemptId i) ATT_COMPLETED None (ci_timestamp i)
            (Some (ci_durationSeconds i)))
         (insert_notification_sql i)
         (record_job_event_sql (ci_eventId i) (ci_jobId i) (ci_attemptId i) ''job_completed''
            (ci_timestamp i) (\<lambda>j. jb_status j = COMPLETED \<and> jb_completed_at j = Some (ci_timestamp i))) db2)
       (\<lambda>((jobs, _, events), db3). Inr ((attempts, jobs, events), db3))))"

definition finalizeCompleted :: "completion_input \<Rightarrow> bool api" where
  "finalizeCompleted i db =
     answer_both
       (res_bind (zod_parse completion_input_ok i) (\<lambda>i.
        res_bind (ordered_artifacts (ci_artifacts i)) (\<lambda>artifacts.
        res_bind (zod_parse (\<lambda>i. ulid_ok (ci_notificationId i) \<and> ulid_ok (ci_eventId i)) i) (\<lambda>i.
        completion_batch i artifacts db)))) db"

section \<open>What the statements leave alone\<close>

lemma insert_artifact_tables:
  "insert_artifact_sql i v db = Inr (rows, db') \<Longrightarrow>
   \<exists>fs. db' = db\<lparr>d1_artifacts := d1_artifacts db @ fs\<rparr>"
  by (auto simp: insert_artifact_sql_def Let_def split: if_splits intro: exI [of _ "[]"])

lemma insert_artifacts_tables:
  "insert_artifacts i vs db = Inr db' \<Longrightarrow> \<exists>fs. db' = db\<lparr>d1_artifacts := d1_artifacts db @ fs\<rparr>"
proof (induction vs arbitrary: db)
  case Nil
  then show ?case by (auto intro: exI [of _ "[]"])
next
  case (Cons v vs)
  then obtain rows db1 where one: "insert_artifact_sql i v db = Inr (rows, db1)"
    and more: "insert_artifacts i vs db1 = Inr db'" by (auto simp: result_simps)
  obtain fs where "db1 = db\<lparr>d1_artifacts := d1_artifacts db @ fs\<rparr>"
    using insert_artifact_tables [OF one] by blast
  moreover obtain gs where "db' = db1\<lparr>d1_artifacts := d1_artifacts db1 @ gs\<rparr>"
    using Cons.IH [OF more] by blast
  ultimately show ?case by (intro exI [of _ "fs @ gs"]) simp
qed

lemma insert_notification_tables:
  "insert_notification_sql i db = Inr (rows, db') \<Longrightarrow> \<exists>t. db' = db\<lparr>d1_outbox := t\<rparr>"
  by (auto simp: insert_notification_sql_def Let_def split: if_splits)
    (metis (full_types) d1.surjective d1.update_convs(7))+

end
