(* ===== verification/CompletionSteps.thy ===== *)
theory CompletionSteps
  imports RunpodSteps Completion
begin

text \<open>
  Every operation of apps/orchestrator/src/completion-repository.ts is a step of the abstract
  specification: recording a terminal status changes details of an attempt; failing, cancelling and
  completing move an attempt and its job on together.
\<close>

section \<open>Jobs in progress\<close>

lemma in_progress_open: "in_progress j \<Longrightarrow> jb_status j \<in> set OPEN_JOB_STATUSES \<and> jb_deleted_at j = None"
  by (auto simp: in_progress_def status_lists)

lemma running_in_progress: "running_or_cancelling j \<Longrightarrow> in_progress j"
  by (auto simp: in_progress_def running_or_cancelling_def)

text \<open>A job in progress has no active attempt that ended.\<close>

lemma in_progress_not_ended:
  assumes "d1_inv db" "j \<in> set (d1_jobs db)" "in_progress j" "a \<in> set (d1_attempts db)"
    "jb_active_attempt_id j = Some (am_id a)"
  shows "am_status a \<notin> {ATT_COMPLETED, ATT_FAILED, ATT_CANCELLED}"
proof -
  have "jb_status j = job_status_of_attempt (am_status a)"
    using active_job_status [OF assms(1,2,4,5)] in_progress_open [OF assms(3)] by simp
  then show ?thesis using assms(3) by (auto simp: in_progress_def)
qed

lemma has_in_progress_jobD:
  assumes "has_in_progress_job db jobId attemptId"
  obtains j where "j \<in> set (d1_jobs db)" "jb_id j = jobId" "jb_active_attempt_id j = Some attemptId"
    "in_progress j"
  using assms unfolding has_in_progress_job_def by blast

lemma occupies_in_flight: "occupies_gpu a \<longleftrightarrow> in_flight a"
  by (auto simp: occupies_gpu_def in_flight_def IN_FLIGHT_STATUSES_def)

lemma record_job_event_unchanged:
  "record_job_event_sql e j a ty t p db = Inr (rows, db') \<Longrightarrow> unchanged_tables db db'"
  unfolding record_job_event_sql_def by (rule insert_event_unchanged)

lemma finalized_job_follows:
  assumes "in_progress j" "am_status a' = s"
  shows "follows_attempt j (finalized_job s code t d j) a'"
  using assms by (simp add: follows_attempt_def finalized_job_def same_identity_def in_progress_def)

section \<open>Recording a terminal status\<close>

lemma terminal_attempt_evolves:
  assumes "am_runpod_terminal_status a = None"
  shows "attempt_evolves a (terminal_attempt i a)" "am_status (terminal_attempt i a) = am_status a"
    "\<not> newly_rejected a (terminal_attempt i a)"
  using assms
  by (simp_all add: terminal_attempt_def Let_def attempt_evolves_def in_flight_def newly_rejected_def)

lemma recordTerminalStatus_step:
  assumes inv: "d1_inv db"
  shows "job_step (\<lambda>_. True) db (snd (recordTerminalStatus i db))"
  unfolding recordTerminalStatus_def
proof (rule answer_attempt_step)
  fix rows db' assume "res_bind (zod_parse (\<lambda>s. s \<in> set RUNPOD_STATUSES) (ti_status i)) (\<lambda>status.
    if status \<notin> set TERMINAL_RUNPOD_STATUSES
    then Inl (JsError ''Only terminal RunPod statuses can be recorded'')
    else res_bind (zod_parse terminal_input_ok i) (\<lambda>i. record_terminal_status_sql i db)) = Inr (rows, db')"
  then have upd: "update_attempts (terminal_recordable i db) (terminal_attempt i) db = Inr (rows, db')"
    by (auto simp: result_simps record_terminal_status_sql_def split: if_splits)
  show "job_step (\<lambda>_. True) db db'"
    by (rule touch_step [OF inv upd, where k = "ti_attemptId i"])
      (simp_all add: terminal_recordable_def terminal_attempt_evolves)
qed

section \<open>Ending an attempt\<close>

text \<open>
  The batch of an operation that ends an attempt with a status: its statement on the attempts asks
  for an attempt that occupies a GPU and for its job to be in progress.
\<close>

lemma ending_step:
  assumes inv: "d1_inv db" and upa: "update_attempts pa fa db = Inr (ra, db1)"
    and upj: "finalize_terminal_job_sql jobId attemptId s code t d db1 = Inr (rj, db2)"
    and rest: "unchanged_tables db2 db'"
    and s: "s \<in> {ATT_COMPLETED, ATT_FAILED, ATT_CANCELLED}"
    and pa: "\<And>a. pa a \<Longrightarrow> am_id a = attemptId \<and> am_job_id a = jobId \<and> occupies_gpu a \<and>
      has_in_progress_job db jobId attemptId"
    and fa: "\<And>a. occupies_gpu a \<Longrightarrow> attempt_evolves a (fa a) \<and> am_status (fa a) = s \<and>
      am_updated_at (fa a) = t \<and> am_submission_outcome (fa a) = am_submission_outcome a"
  shows "job_step (\<lambda>_. True) db db'"
proof (rule attempt_and_job_step [OF inv upa unchanged_tables_refl
      upj [unfolded finalize_terminal_job_sql_def] rest, where ka = attemptId and kj = jobId], goal_cases)
  case 1
  then show ?case using pa by blast
next
  case (3 a)
  have a: "occupies_gpu a" using pa [OF 3(2)] by blast
  moreover have "attempt_rank (am_status a) < attempt_rank s" "open_attempt a"
    using a s by (auto simp: occupies_gpu_def evolve_defs)
  ultimately show ?case
    using fa [OF a] by (simp add: newly_rejected_def flight_allowed_in_flight occupies_in_flight)
next
  case (4 a)
  obtain j where j: "j \<in> set (d1_jobs db)" "jb_id j = jobId" "jb_active_attempt_id j = Some attemptId"
    "in_progress j" using pa [OF 4(2)] has_in_progress_jobD by blast
  have fa_a: "attempt_evolves a (fa a)" "am_status (fa a) = s" "am_updated_at (fa a) = t"
    using fa pa [OF 4(2)] by blast+
  have "am_id (fa a) = attemptId" "am_job_id (fa a) = jobId"
    using fa_a(1) pa [OF 4(2)] by (simp_all add: attempt_evolves_def)
  then have "\<exists>x \<in> set (d1_attempts db1). am_id x = attemptId \<and> am_job_id x = jobId \<and> am_status x = s \<and>
      am_updated_at x = t" using 4(3) fa_a by blast
  then show ?case
    using j pa [OF 4(2)] in_progress_open [OF j(4)] finalized_job_follows [OF j(4) fa_a(2)]
    by (intro bexI [of _ j]) simp_all
next
  case (5 j)
  then show ?case using in_progress_not_ended [OF inv 5(1)] s by auto
qed simp

lemma failUnobservableAttempt_step:
  assumes inv: "d1_inv db"
  shows "job_step (\<lambda>_. True) db (snd (failUnobservableAttempt i db))"
  unfolding failUnobservableAttempt_def
proof (rule answer_both_step)
  fix rows db' assume "res_bind (zod_parse unobservable_input_ok i) (\<lambda>i.
       batch3 (fail_unobservable_attempt_sql i)
         (finalize_terminal_job_sql (un_jobId i) (un_attemptId i) ATT_FAILED
            (Some PE_PROCESSING_FAILED) (un_timestamp i) None)
         (record_job_event_sql (un_eventId i) (un_jobId i) (un_attemptId i)
            ''job_reconciliation_expired'' (un_timestamp i)
            (\<lambda>j. jb_status j = FAILED \<and> jb_failed_at j = Some (un_timestamp i))) db) = Inr (rows, db')"
  then obtain db1 db2 where upa: "fail_unobservable_attempt_sql i db = Inr (fst rows, db1)"
    and upj: "finalize_terminal_job_sql (un_jobId i) (un_attemptId i) ATT_FAILED
      (Some PE_PROCESSING_FAILED) (un_timestamp i) None db1 = Inr (fst (snd rows), db2)"
    and event: "record_job_event_sql (un_eventId i) (un_jobId i) (un_attemptId i)
      ''job_reconciliation_expired'' (un_timestamp i)
      (\<lambda>j. jb_status j = FAILED \<and> jb_failed_at j = Some (un_timestamp i)) db2 = Inr (snd (snd rows), db')"
    by (auto simp: result_simps batch3_Inr_iff)
  show "job_step (\<lambda>_. True) db db'"
    by (rule ending_step [OF inv upa [unfolded fail_unobservable_attempt_sql_def] upj
          record_job_event_unchanged [OF event]]) (auto simp: unobservable_def evolve_defs occupies_gpu_def)
qed

lemma finalizeTerminal_step:
  assumes inv: "d1_inv db"
  shows "job_step (\<lambda>_. True) db (snd (finalizeTerminal i db))"
  unfolding finalizeTerminal_def
proof (rule answer_both_step)
  fix rows db' assume "res_bind (zod_parse finalize_input_ok i) (\<lambda>i.
        if (fi_status i = ATT_FAILED) \<noteq> (fi_errorCode i \<noteq> None)
        then Inl (JsError ''Terminal failure requires an error code and cancellation forbids one'')
        else res_bind (zod_parse finalize_identifiers_ok i) (\<lambda>i.
        res_bind (batch2 (finalize_terminal_attempt_sql i)
            (finalize_terminal_job_sql (fi_jobId i) (fi_attemptId i) (fi_status i) (fi_errorCode i)
               (fi_timestamp i) None) db) (\<lambda>((attempts, jobs), db').
        Inr ((attempts, jobs, []), db')))) = Inr (rows, db')"
  then obtain attempts jobs db1 where ok: "finalize_input_ok i"
    and upa: "finalize_terminal_attempt_sql i db = Inr (attempts, db1)"
    and upj: "finalize_terminal_job_sql (fi_jobId i) (fi_attemptId i) (fi_status i) (fi_errorCode i)
      (fi_timestamp i) None db1 = Inr (jobs, db')"
    by (auto simp: result_simps batch2_Inr_iff split: if_splits)
  show "job_step (\<lambda>_. True) db db'"
    by (rule ending_step [OF inv upa [unfolded finalize_terminal_attempt_sql_def] upj unchanged_tables_refl])
      (use ok in \<open>auto simp: finalizable_def finalize_input_ok_def evolve_defs occupies_gpu_def\<close>)
qed

lemma completing_ends:
  assumes "completing i vs db a"
  shows "am_id a = ci_attemptId i \<and> am_job_id a = ci_jobId i \<and> occupies_gpu a \<and>
    has_in_progress_job db (ci_jobId i) (ci_attemptId i)"
  using assms running_in_progress
  by (auto simp: completing_def completed_by_def occupies_gpu_def has_in_progress_job_def)

lemma completion_batch_step:
  assumes inv: "d1_inv db" and batch: "completion_batch i vs db = Inr (rows, db')"
  shows "job_step (\<lambda>_. True) db db'"
proof -
  obtain db1 attempts db2 jobs db3 outbox db4 events where
    ins: "insert_artifacts i vs db = Inr db1"
    and upa: "complete_attempt_sql i vs db1 = Inr (attempts, db2)"
    and upj: "finalize_terminal_job_sql (ci_jobId i) (ci_attemptId i) ATT_COMPLETED None (ci_timestamp i)
            (Some (ci_durationSeconds i)) db2 = Inr (jobs, db3)"
    and notify: "insert_notification_sql i db3 = Inr (outbox, db4)"
    and event: "record_job_event_sql (ci_eventId i) (ci_jobId i) (ci_attemptId i) ''job_completed''
            (ci_timestamp i) (\<lambda>j. jb_status j = COMPLETED \<and> jb_completed_at j = Some (ci_timestamp i)) db4
      = Inr (events, db')"
    using batch by (fastforce simp: completion_batch_def result_simps batch3_Inr_iff)
  have same: "unchanged_tables db db1"
    using insert_artifacts_tables [OF ins] by (auto simp: unchanged_tables_def)
  have "unchanged_tables db3 db'"
    using insert_notification_tables [OF notify] record_job_event_unchanged [OF event]
    by (auto simp: unchanged_tables_def)
  then have "job_step (\<lambda>_. True) db1 db'"
    by (rule ending_step [OF unchanged_tables_inv [OF same inv] upa [unfolded complete_attempt_sql_def] upj])
      (use completing_ends in \<open>auto simp: evolve_defs occupies_gpu_def\<close>)
  then show ?thesis by (rule job_step_cong [OF same])
qed

lemma finalizeCompleted_step:
  assumes inv: "d1_inv db"
  shows "job_step (\<lambda>_. True) db (snd (finalizeCompleted i db))"
  unfolding finalizeCompleted_def
  by (rule answer_both_step) (auto simp: result_simps intro: completion_batch_step [OF inv])

end
