(* ===== verification/Maintenance.thy ===== *)
theory Maintenance
  imports JobSteps
begin

text \<open>
  apps/orchestrator/src/maintenance-repository.ts: uploads that were never finished expire when the
  time of their upload URL is over. Lemmas: an expiry is a step of the abstract specification.
\<close>

definition upload_expired :: "string \<Rightarrow> job_row \<Rightarrow> bool" where
  "upload_expired timestamp j \<longleftrightarrow>
     jb_status j \<in> {CREATED, UPLOADING} \<and>
     (case jb_upload_expires_at j of None \<Rightarrow> False | Some t \<Rightarrow> text_leq t timestamp) \<and>
     jb_deleted_at j = None"

definition expires_before :: "job_row \<Rightarrow> job_row \<Rightarrow> bool" where
  "expires_before i j \<longleftrightarrow>
     (case (jb_upload_expires_at i, jb_upload_expires_at j) of
        (Some s, Some t) \<Rightarrow> text_less s t \<or> (s = t \<and> text_less (jb_id i) (jb_id j))
      | _ \<Rightarrow> False)"

record expired_upload =
  eu_jobId :: string
  eu_uploadExpiresAt :: string

definition expiredUploadRowSchema :: "job_row \<Rightarrow> bool" where
  "expiredUploadRowSchema j \<longleftrightarrow>
     ulid_ok (jb_id j) \<and>
     (case jb_upload_expires_at j of None \<Rightarrow> False | Some t \<Rightarrow> utc_datetime_ok t)"

definition findExpiredUploads :: "string \<Rightarrow> nat \<Rightarrow> d1 \<Rightarrow> expired_upload list result" where
  "findExpiredUploads timestamp limit db =
     res_bind (zod_parse (\<lambda>_. 1 \<le> limit \<and> limit \<le> 100 \<and> utc_datetime_ok timestamp) ()) (\<lambda>_.
     res_bind (zod_parse (\<lambda>rs. length rs \<le> limit \<and> list_all expiredUploadRowSchema rs)
       (take limit (order_by expires_before (filter (upload_expired timestamp) (d1_jobs db))))) (\<lambda>rows.
     Inr (map (\<lambda>j. \<lparr>eu_jobId = jb_id j, eu_uploadExpiresAt = the (jb_upload_expires_at j)\<rparr>) rows)))"

definition expire_upload_sql :: "string \<Rightarrow> string \<Rightarrow> job_row statement" where
  "expire_upload_sql jobId timestamp =
     update_jobs (\<lambda>j. jb_id j = jobId \<and> upload_expired timestamp j)
       (\<lambda>j. j\<lparr>jb_status := EXPIRED, jb_error_code := Some PE_UPLOAD_EXPIRED, jb_error_message := None,
          jb_updated_at := timestamp, jb_version := jb_version j + 1\<rparr>)"

definition record_upload_expiry_sql :: "string \<Rightarrow> string \<Rightarrow> string \<Rightarrow> event_row statement" where
  "record_upload_expiry_sql eventId jobId timestamp db =
     insert_event Conflict_id_do_nothing
       (if \<exists>j \<in> set (d1_jobs db). jb_id j = jobId \<and> jb_status j = EXPIRED \<and> jb_updated_at j = timestamp
        then Some \<lparr>ev_id = eventId, ev_job_id = jobId, ev_attempt_id = None,
          ev_event_type = ''upload_expired'', ev_actor = ''orchestrator'', ev_created_at = timestamp\<rparr>
        else None) db"

definition expireUpload :: "string \<Rightarrow> string \<Rightarrow> string \<Rightarrow> bool api" where
  "expireUpload eventId jobId timestamp db =
     (case res_bind (zod_parse (\<lambda>_. utc_datetime_ok timestamp \<and> ulid_ok jobId \<and> ulid_ok eventId) ())
         (\<lambda>_. batch2 (expire_upload_sql jobId timestamp)
            (record_upload_expiry_sql eventId jobId timestamp) db) of
        Inl e \<Rightarrow> (Inl e, db)
      | Inr ((jobs, _), db') \<Rightarrow>
          (res_bind (updatedJobIdRowsSchema (map jb_id jobs)) (\<lambda>row. Inr (row \<noteq> None)), db'))"

lemma expireUpload_step:
  assumes inv: "d1_inv db"
  shows "job_step (\<lambda>_. True) db (snd (expireUpload eventId jobId t db))"
proof (cases "snd (expireUpload eventId jobId t db) = db")
  case False
  then obtain rows db1 events db' where upd: "expire_upload_sql jobId t db = Inr (rows, db1)"
    and event: "record_upload_expiry_sql eventId jobId t db1 = Inr (events, db')"
    and db': "snd (expireUpload eventId jobId t db) = db'"
    by (auto simp: expireUpload_def result_simps batch2_Inr_iff split: sum.split_asm prod.split_asm)
  have rest: "unchanged_tables db1 db'"
    using event unfolding record_upload_expiry_sql_def by (rule insert_event_unchanged)
  show ?thesis unfolding db'
    by (rule update_jobs_step [OF inv upd [unfolded expire_upload_sql_def] _ _ rest, where k = jobId])
      (use upload_status_no_attempt [OF inv] in \<open>auto simp: statement_move_defs upload_expired_def\<close>)
qed simp

end
