(* ===== verification/JobSystem.thy ===== *)
theory JobSystem
  imports CompletionSteps Maintenance
begin

text \<open>
  The operations of the web server and of the orchestrator on jobs as one system. A request is
  performed on a current database and on the earlier database its read phase saw; a history is the
  list of the databases the requests leave, newest first. Every operation satisfies the contract
  of JobOperations, so in every history the invariant holds and jobs only develop forward.
\<close>

section \<open>Requests\<close>

datatype request =
    Create_job new_job
  | Mark_upload_ready string string string string
  | Fail_upload_preparation string string string
  | Complete_upload complete_input
  | Complete_mutated_upload complete_input
  | Retry_job retry_input
  | Cancel_job action_input
  | Delete_job action_input
  | Ingest_source ingest_input
  | Mark_source_mutated string string string string
  | Fail_source string public_error_code string string
  | Prepare_submission string string string string
  | Accept_submission string string string
  | Lose_submission string string
  | Reject_submission string string string string
  | Claim_submission string string string
  | Claim_winner winner_input
  | Mark_heartbeat string string string string string
  | Fail_expired_submission string string string string
  | Cancel_expired_submission string string string string
  | Fail_stale_submission stale_input
  | Mark_stale_cancelled string string string string string
  | Record_terminal_status terminal_input
  | Fail_unobservable unobservable_input
  | Finalize_terminal finalize_input
  | Finalize_completed completion_input
  | Expire_upload string string string

text \<open>
  \<open>r\<close> is the database the read phase saw, \<open>db\<close> the current one. The identifiers of a rejected
  submission are those \<open>prepareSubmission\<close> answered earlier, so they belonged together then.
\<close>

fun perform :: "request \<Rightarrow> d1 \<Rightarrow> d1 \<Rightarrow> d1" where
  "perform (Create_job i) r db = snd (createJob i db)"
| "perform (Mark_upload_ready jobId ownerSub t expires) r db = snd (markUploadReady jobId ownerSub t expires db)"
| "perform (Fail_upload_preparation jobId ownerSub t) r db = snd (failUploadPreparation jobId ownerSub t db)"
| "perform (Complete_upload i) r db = complete_first i db"
| "perform (Complete_mutated_upload i) r db =
     (case complete_read i r of
        Inr (Complete_mutate current) \<Rightarrow> snd (complete_mutate i current db) | _ \<Rightarrow> db)"
| "perform (Retry_job i) r db = snd (retryFailedJob i db)"
| "perform (Cancel_job i) r db =
     (case cancel_read i r of Inr (Commit c) \<Rightarrow> snd (cancel_commit i c db) | _ \<Rightarrow> db)"
| "perform (Delete_job i) r db =
     (case delete_read i r of Inr (Delete_commit c t) \<Rightarrow> snd (delete_commit i c t db) | _ \<Rightarrow> db)"
| "perform (Ingest_source i) r db = snd (ingestSource i db)"
| "perform (Mark_source_mutated jobId etag eventId t) r db =
     (case findSourceJob jobId r of
        Inr (Some job) \<Rightarrow> snd (markSourceMutated job etag eventId t db) | _ \<Rightarrow> db)"
| "perform (Fail_source jobId errorCode eventId t) r db =
     (case findSourceJob jobId r of
        Inr (Some job) \<Rightarrow> snd (failSource job errorCode eventId t db) | _ \<Rightarrow> db)"
| "perform (Prepare_submission jobId h t expires) r db = snd (prepareSubmission jobId h t expires db)"
| "perform (Accept_submission a runpodJobId t) r db = snd (recordSubmissionAccepted a runpodJobId t db)"
| "perform (Lose_submission a t) r db = snd (recordSubmissionUnknown a t db)"
| "perform (Reject_submission a eventId jobId t) r db =
     (if \<exists>x \<in> set (d1_attempts r). am_id x = a \<and> am_job_id x = jobId
      then snd (recordSubmissionRejected a eventId jobId t db) else db)"
| "perform (Claim_submission a runpodJobId t) r db = snd (recordClaimSubmission a runpodJobId t db)"
| "perform (Claim_winner i) r db = snd (claimWinner i db)"
| "perform (Mark_heartbeat a h jobId runpodJobId t) r db = snd (markHeartbeat a h jobId runpodJobId t db)"
| "perform (Fail_expired_submission a eventId jobId t) r db =
     snd (failExpiredUnknownSubmission a eventId jobId t db)"
| "perform (Cancel_expired_submission a eventId jobId t) r db =
     snd (cancelExpiredUnboundSubmission a eventId jobId t db)"
| "perform (Fail_stale_submission i) r db = snd (failStaleAcceptedSubmission i db)"
| "perform (Mark_stale_cancelled a eventId jobId runpodJobId t) r db =
     snd (markFailedUnclaimedSubmissionCancelled a eventId jobId runpodJobId t db)"
| "perform (Record_terminal_status i) r db = snd (recordTerminalStatus i db)"
| "perform (Fail_unobservable i) r db = snd (failUnobservableAttempt i db)"
| "perform (Finalize_terminal i) r db = snd (finalizeTerminal i db)"
| "perform (Finalize_completed i) r db = snd (finalizeCompleted i db)"
| "perform (Expire_upload eventId jobId t) r db = snd (expireUpload eventId jobId t db)"

text \<open>Whose jobs a request may change: a user's own, or any for the orchestrator.\<close>

fun request_owns :: "request \<Rightarrow> job_row \<Rightarrow> bool" where
  "request_owns (Create_job i) = owned_by (nj_ownerSub i)"
| "request_owns (Mark_upload_ready _ ownerSub _ _) = owned_by ownerSub"
| "request_owns (Fail_upload_preparation _ ownerSub _) = owned_by ownerSub"
| "request_owns (Complete_upload i) = owned_by (co_ownerSub i)"
| "request_owns (Complete_mutated_upload i) = owned_by (co_ownerSub i)"
| "request_owns (Retry_job i) = owned_by (re_ownerSub i)"
| "request_owns (Cancel_job i) = owned_by (ac_ownerSub i)"
| "request_owns (Delete_job i) = owned_by (ac_ownerSub i)"
| "request_owns _ = (\<lambda>_. True)"

section \<open>The operations satisfy the contract\<close>

interpretation create: job_operation "owned_by (nj_ownerSub i)" "perform (Create_job i)" for i
  by unfold_locales (simp add: createJob_step)

interpretation mark_ready: job_operation "owned_by ownerSub"
    "perform (Mark_upload_ready jobId ownerSub t expires)" for jobId ownerSub t expires
  by unfold_locales (simp add: markUploadReady_step)

interpretation fail_preparation: job_operation "owned_by ownerSub"
    "perform (Fail_upload_preparation jobId ownerSub t)" for jobId ownerSub t
  by unfold_locales (simp add: failUploadPreparation_step)

interpretation complete: job_operation "owned_by (co_ownerSub i)" "perform (Complete_upload i)" for i
  by unfold_locales (simp add: complete_first_step)

interpretation complete_mutated: job_operation "owned_by (co_ownerSub i)"
    "perform (Complete_mutated_upload i)" for i
  by unfold_locales (auto simp: complete_mutate_step split: sum.split complete_phase.split)

interpretation retry: job_operation "owned_by (re_ownerSub i)" "perform (Retry_job i)" for i
  by unfold_locales (simp add: retry_step)

interpretation cancel: job_operation "owned_by (ac_ownerSub i)" "perform (Cancel_job i)" for i
  by unfold_locales (auto simp: cancel_step split: sum.split phase.split)

interpretation delete: job_operation "owned_by (ac_ownerSub i)" "perform (Delete_job i)" for i
  by unfold_locales (auto simp: delete_step split: sum.split delete_phase.split)

interpretation ingest: job_operation "\<lambda>_. True" "perform (Ingest_source i)" for i
  by unfold_locales (simp add: ingest_step)

interpretation mark_mutated: job_operation "\<lambda>_. True"
    "perform (Mark_source_mutated jobId etag eventId t)" for jobId etag eventId t
  by unfold_locales (auto simp: markSourceMutated_step split: sum.split option.split)

interpretation fail_source: job_operation "\<lambda>_. True"
    "perform (Fail_source jobId errorCode eventId t)" for jobId errorCode eventId t
  by unfold_locales (auto simp: failSource_step split: sum.split option.split)

interpretation prepare: job_operation "\<lambda>_. True" "perform (Prepare_submission jobId h t expires)"
    for jobId h t expires
  by unfold_locales (simp add: prepareSubmission_step)

interpretation accept: job_operation "\<lambda>_. True" "perform (Accept_submission a runpodJobId t)" for a runpodJobId t
  by unfold_locales (simp add: recordSubmissionAccepted_step)

interpretation lose: job_operation "\<lambda>_. True" "perform (Lose_submission a t)" for a t
  by unfold_locales (simp add: recordSubmissionUnknown_step)

interpretation reject: job_operation "\<lambda>_. True" "perform (Reject_submission a eventId jobId t)"
    for a eventId jobId t
  by unfold_locales (simp, blast intro: recordSubmissionRejected_step dest: attempt_job_pair)

interpretation claim_submission: job_operation "\<lambda>_. True" "perform (Claim_submission a runpodJobId t)"
    for a runpodJobId t
  by unfold_locales (simp add: recordClaimSubmission_step)

interpretation claim_winner: job_operation "\<lambda>_. True" "perform (Claim_winner i)" for i
  by unfold_locales (simp add: claimWinner_step)

interpretation heartbeat: job_operation "\<lambda>_. True" "perform (Mark_heartbeat a h jobId runpodJobId t)"
    for a h jobId runpodJobId t
  by unfold_locales (simp add: markHeartbeat_step)

interpretation fail_expired: job_operation "\<lambda>_. True" "perform (Fail_expired_submission a eventId jobId t)"
    for a eventId jobId t
  by unfold_locales (simp add: failExpiredUnknownSubmission_step)

interpretation cancel_expired: job_operation "\<lambda>_. True" "perform (Cancel_expired_submission a eventId jobId t)"
    for a eventId jobId t
  by unfold_locales (simp add: cancelExpiredUnboundSubmission_step)

interpretation fail_stale: job_operation "\<lambda>_. True" "perform (Fail_stale_submission i)" for i
  by unfold_locales (simp add: failStaleAcceptedSubmission_step)

interpretation stale_cancelled: job_operation "\<lambda>_. True"
    "perform (Mark_stale_cancelled a eventId jobId runpodJobId t)" for a eventId jobId runpodJobId t
  by unfold_locales (simp add: markFailedUnclaimedSubmissionCancelled_step)

interpretation record_terminal: job_operation "\<lambda>_. True" "perform (Record_terminal_status i)" for i
  by unfold_locales (simp add: recordTerminalStatus_step)

interpretation fail_unobservable: job_operation "\<lambda>_. True" "perform (Fail_unobservable i)" for i
  by unfold_locales (simp add: failUnobservableAttempt_step)

interpretation finalize_terminal: job_operation "\<lambda>_. True" "perform (Finalize_terminal i)" for i
  by unfold_locales (simp add: finalizeTerminal_step)

interpretation finalize_completed: job_operation "\<lambda>_. True" "perform (Finalize_completed i)" for i
  by unfold_locales (simp add: finalizeCompleted_step)

interpretation expire_upload: job_operation "\<lambda>_. True" "perform (Expire_upload eventId jobId t)"
    for eventId jobId t
  by unfold_locales (simp add: expireUpload_step)

lemma perform_step:
  assumes "d1_inv r" "d1_inv db" "evolves r db"
  shows "job_step (request_owns q) db (perform q r db)"
proof (cases q)
  case (Create_job i) then show ?thesis using create.step [OF assms] by simp
next
  case (Mark_upload_ready a b c d) then show ?thesis using mark_ready.step [OF assms] by simp
next
  case (Fail_upload_preparation a b c) then show ?thesis using fail_preparation.step [OF assms] by simp
next
  case (Complete_upload i) then show ?thesis using complete.step [OF assms] by simp
next
  case (Complete_mutated_upload i)
  then show ?thesis using complete_mutated.step [OF assms, of i] by simp
next
  case (Retry_job i) then show ?thesis using retry.step [OF assms] by simp
next
  case (Cancel_job i) then show ?thesis using cancel.step [OF assms, of i] by simp
next
  case (Delete_job i) then show ?thesis using delete.step [OF assms, of i] by simp
next
  case (Ingest_source i) then show ?thesis using ingest.step [OF assms] by simp
next
  case (Mark_source_mutated a b c d)
  then show ?thesis using mark_mutated.step [OF assms, of a b c d] by simp
next
  case (Fail_source a b c d)
  then show ?thesis using fail_source.step [OF assms, of a b c d] by simp
next
  case (Prepare_submission a b c d) then show ?thesis using prepare.step [OF assms] by simp
next
  case (Accept_submission a b c) then show ?thesis using accept.step [OF assms] by simp
next
  case (Lose_submission a b) then show ?thesis using lose.step [OF assms] by simp
next
  case (Reject_submission a b c d) then show ?thesis using reject.step [OF assms, of a b c d] by simp
next
  case (Claim_submission a b c) then show ?thesis using claim_submission.step [OF assms] by simp
next
  case (Claim_winner i) then show ?thesis using claim_winner.step [OF assms] by simp
next
  case (Mark_heartbeat a b c d e) then show ?thesis using heartbeat.step [OF assms] by simp
next
  case (Fail_expired_submission a b c d) then show ?thesis using fail_expired.step [OF assms] by simp
next
  case (Cancel_expired_submission a b c d) then show ?thesis using cancel_expired.step [OF assms] by simp
next
  case (Fail_stale_submission i) then show ?thesis using fail_stale.step [OF assms] by simp
next
  case (Mark_stale_cancelled a b c d e) then show ?thesis using stale_cancelled.step [OF assms] by simp
next
  case (Record_terminal_status i) then show ?thesis using record_terminal.step [OF assms] by simp
next
  case (Fail_unobservable i) then show ?thesis using fail_unobservable.step [OF assms] by simp
next
  case (Finalize_terminal i) then show ?thesis using finalize_terminal.step [OF assms] by simp
next
  case (Finalize_completed i) then show ?thesis using finalize_completed.step [OF assms] by simp
next
  case (Expire_upload a b c) then show ?thesis using expire_upload.step [OF assms] by simp
qed

interpretation any_request: job_operation "request_owns q" "perform q" for q
  by unfold_locales (rule perform_step)

section \<open>Histories\<close>

text \<open>
  The databases of a history, newest first. It starts from any database that satisfies the
  invariant, the empty one for instance; a request reads one of the databases of the history and is
  performed on the newest.
\<close>

inductive history :: "d1 list \<Rightarrow> bool" where
  start: "d1_inv db \<Longrightarrow> history [db]"
| request: "history (db # h) \<Longrightarrow> r \<in> set (db # h) \<Longrightarrow> history (perform q r db # db # h)"

inductive_cases history_ConsE: "history (db # h)"

lemma history_sound:
  "history h \<Longrightarrow> (\<forall>db \<in> set h. d1_inv db \<and> evolves db (hd h)) \<and> sorted_wrt (\<lambda>new old. evolves old new) h"
proof (induction rule: history.induct)
  case (start db)
  then show ?case by (simp add: evolves_refl)
next
  case (request db h r q)
  then have r: "d1_inv r" "d1_inv db" "evolves r db" by auto
  have "evolves db (perform q r db)" by (rule any_request.evolves_op [OF r])
  moreover have "d1_inv (perform q r db)" by (rule any_request.keeps_inv [OF r])
  ultimately show ?case
    using request.IH evolves_trans [of _ db "perform q r db"] evolves_refl by auto
qed

end
