(* ===== verification/QueueConsumer.thy ===== *)
theory QueueConsumer
  imports UploadIngestion
begin

text \<open>
  The queue consumer of apps/orchestrator/src/upload-queue-consumer.ts: it decides for each message
  whether to acknowledge it or to have it delivered again, and with which delay.
\<close>

section \<open>Retry delays\<close>

definition MAX_RETRY_DELAY_SECONDS :: int where
  "MAX_RETRY_DELAY_SECONDS = 15 * 60"

definition BASE_RETRY_DELAY_SECONDS :: int where
  "BASE_RETRY_DELAY_SECONDS = 15"

text \<open>\<open>attempts\<close> and \<open>sample\<close> are \<open>None\<close> when they are no safe integer and no finite number.\<close>

definition retry_delay_cap :: "int option \<Rightarrow> int" where
  "retry_delay_cap attempts =
     (let normalizedAttempts = (case attempts of None \<Rightarrow> 1 | Some n \<Rightarrow> if 0 < n then n else 1)
      in min MAX_RETRY_DELAY_SECONDS
           (BASE_RETRY_DELAY_SECONDS * 2 ^ nat (min (normalizedAttempts - 1) 10)))"

definition retryDelaySeconds :: "int option \<Rightarrow> rat option \<Rightarrow> int" where
  "retryDelaySeconds attempts sample =
     (let normalizedSample =
            (case sample of None \<Rightarrow> 0 | Some s \<Rightarrow> min (999999 / 1000000) (max 0 s))
      in max 1 (\<lfloor>normalizedSample * of_int (retry_delay_cap attempts)\<rfloor> + 1))"

section \<open>Messages\<close>

datatype queue_decision = Ack | Redeliver

datatype cancellation_outcome = Cancellation_applied | Cancellation_deferred | Cancellation_ignored

text \<open>\<open>RECORDINGS.head(key)\<close>: no object, metadata that fails its schema, or entity tag and size.\<close>

datatype head_result = Head_missing | Head_invalid | Head_found string nat

definition r2HeadResultSchema :: "head_result \<Rightarrow> bool" where
  "r2HeadResultSchema h \<longleftrightarrow>
     (case h of Head_found etag bytes \<Rightarrow> etag_ok etag \<and> int bytes \<le> MAX_R2_OBJECT_SIZE_BYTES | _ \<Rightarrow> False)"

record consumer_environment =
  qe_config :: "(string \<times> string) option"
  qe_selection :: "gpu_selection option"
  qe_admission_active :: "bool option"
  qe_head :: "string \<Rightarrow> head_result"
  qe_now :: int
  qe_eventId :: string
  qe_attemptId :: string
  qe_reconcile :: "string \<Rightarrow> cancellation_outcome api"
  qe_submit :: "(string \<Rightarrow> gpu_selection \<Rightarrow> unit api) option"

text \<open>A job control event: the cancellation is repeated until it is applied or superfluous.\<close>

definition process_control_event :: "consumer_environment \<Rightarrow> string \<Rightarrow> queue_decision api" where
  "process_control_event e jobId db =
     (case qe_reconcile e jobId db of
        (Inl err, db') \<Rightarrow> (Inl err, db')
      | (Inr outcome, db') \<Rightarrow>
          (Inr (if outcome = Cancellation_deferred then Redeliver else Ack), db'))"

text \<open>
  A refused mutation or rejection is repeated only while the job could still be changed by it.
\<close>

definition decide_mutated ::
  "consumer_environment \<Rightarrow> source_job \<Rightarrow> string \<Rightarrow> queue_decision api" where
  "decide_mutated e job etag db =
     (case markSourceMutated job etag (qe_eventId e) (to_iso (qe_now e)) db of
        (Inl err, db') \<Rightarrow> (Inl err, db')
      | (Inr True, db') \<Rightarrow> (Inr Ack, db')
      | (Inr False, db') \<Rightarrow>
          (res_bind (findSourceJob (ut_jobId (so_target job)) db') (\<lambda>current. Inr (case current of
             None \<Rightarrow> Ack
           | Some c \<Rightarrow>
               if ut_status (so_target c) \<in> set ACTIVE_JOB_STATUSES
                 \<and> ut_sourceEtag (so_target c) \<noteq> Some etag
               then Redeliver else Ack)), db'))"

definition decide_rejected ::
  "consumer_environment \<Rightarrow> source_job \<Rightarrow> public_error_code \<Rightarrow> queue_decision api" where
  "decide_rejected e job errorCode db =
     (case failSource job errorCode (qe_eventId e) (to_iso (qe_now e)) db of
        (Inl err, db') \<Rightarrow> (Inl err, db')
      | (Inr True, db') \<Rightarrow> (Inr Ack, db')
      | (Inr False, db') \<Rightarrow>
          (res_bind (findSourceJob (ut_jobId (so_target job)) db') (\<lambda>current. Inr (case current of
             None \<Rightarrow> Ack
           | Some c \<Rightarrow>
               if ut_status (so_target c) \<in> set UPLOAD_STATUSES then Redeliver else Ack)), db'))"

definition ingest_input_of ::
  "consumer_environment \<Rightarrow> source_job \<Rightarrow> string \<Rightarrow> gpu_selection \<Rightarrow> nat \<Rightarrow> string \<Rightarrow> ingest_input" where
  "ingest_input_of e job ownerHash selection bytes etag =
     \<lparr>in_attemptId = (case so_generationOneAttemptId job of None \<Rightarrow> qe_attemptId e | Some a \<Rightarrow> a),
      in_eventId = qe_eventId e, in_job = job, in_ownerHash = ownerHash,
      in_selection = selection, in_sizeBytes = bytes, in_sourceEtag = etag,
      in_timestamp = to_iso (qe_now e)\<rparr>"

text \<open>Ingestion, then the submission of the pending job when one is configured and admitted.\<close>

definition ingest_and_submit ::
  "consumer_environment \<Rightarrow> ingest_input \<Rightarrow> queue_decision api" where
  "ingest_and_submit e i db =
     (case ingestSource i db of
        (Inl err, db') \<Rightarrow> (Inl err, db')
      | (Inr result, db') \<Rightarrow>
          if result = Ingest_conflict then (Inr Redeliver, db')
          else (case qe_submit e of
                  None \<Rightarrow> (Inr Ack, db')
                | Some submit \<Rightarrow>
                    if qe_admission_active e = Some True
                      \<and> (result = Ingest_ingested \<or> result = Ingest_duplicate)
                    then (case submit (ut_jobId (so_target (in_job i))) (in_selection i) db' of
                            (Inl err, db'') \<Rightarrow> (Inl err, db'')
                          | (Inr _, db'') \<Rightarrow> (Inr Ack, db''))
                    else (Inr Ack, db')))"

text \<open>The object as it is against the event, the stored source and the expected size.\<close>

definition process_source ::
  "consumer_environment \<Rightarrow> r2_event \<Rightarrow> string \<Rightarrow> source_job \<Rightarrow> gpu_selection \<Rightarrow> string \<Rightarrow> nat
     \<Rightarrow> queue_decision api" where
  "process_source e event ownerHash job selection etag bytes db =
     (let stored = ut_sourceEtag (so_target job);
          changed = (stored \<noteq> None \<and> stored \<noteq> Some etag) in
      if etag \<noteq> r2_eTag event \<or> int bytes \<noteq> r2_size event then
        (if changed then decide_mutated e job etag db else (Inr Ack, db))
      else if changed then decide_mutated e job etag db
      else if bytes \<noteq> ut_expectedSizeBytes (so_target job) then
        decide_rejected e job PE_SOURCE_SIZE_MISMATCH db
      else if \<not> normalizedR2ObjectCreatedEventSchema (ut_jobId (so_target job)) event then
        (Inl (JsError ''Verified R2 event could not be normalized''), db)
      else if r2_action event \<noteq> ''CompleteMultipartUpload'' then
        decide_rejected e job PE_PROCESSING_FAILED db
      else ingest_and_submit e (ingest_input_of e job ownerHash selection bytes etag) db)"

definition process_r2_event ::
  "consumer_environment \<Rightarrow> gpu_selection \<Rightarrow> r2_event \<Rightarrow> queue_decision api" where
  "process_r2_event e configuredSelection event db =
     (case parseSourceObjectKey (r2_key event) of
        None \<Rightarrow> (Inr Ack, db)
      | Some (ownerHash, jobId) \<Rightarrow>
          (case findSourceJob jobId db of
             Inl err \<Rightarrow> (Inl err, db)
           | Inr None \<Rightarrow> (Inr Ack, db)
           | Inr (Some job) \<Rightarrow>
               if ut_sourceBucket (so_target job) \<noteq> r2_bucket event
                 \<or> ut_sourceKey (so_target job) \<noteq> r2_key event
               then (Inr Ack, db)
               else
                 let selection = (case so_generationOneSelection job of
                       None \<Rightarrow> configuredSelection | Some s \<Rightarrow> s);
                     head = qe_head e (ut_sourceKey (so_target job))
                 in (case head of
                       Head_missing \<Rightarrow> (Inr Redeliver, db)
                     | Head_invalid \<Rightarrow> (Inl (JsError ''R2 HEAD returned invalid metadata''), db)
                     | Head_found etag bytes \<Rightarrow>
                         if \<not> r2HeadResultSchema head then
                           (Inl (JsError ''R2 HEAD returned invalid metadata''), db)
                         else process_source e event ownerHash job selection etag bytes db)))"

definition processMessage :: "consumer_environment \<Rightarrow> json \<Rightarrow> queue_decision api" where
  "processMessage e body db =
     (case qe_config e of
        None \<Rightarrow> (Inr Redeliver, db)
      | Some (accountId, bucketName) \<Rightarrow>
          if jobControlEventSchema body then process_control_event e (string_field ''jobId'' body) db
          else (case (qe_selection e, qe_admission_active e) of
                  (Some selection, Some _) \<Rightarrow>
                    if \<not> r2EventNotificationSchema body then (Inr Ack, db)
                    else
                      let event = read_r2_event body in
                      if r2_account event \<noteq> accountId \<or> r2_bucket event \<noteq> bucketName
                      then (Inr Ack, db)
                      else process_r2_event e selection event db
                | _ \<Rightarrow> (Inr Redeliver, db)))"

text \<open>What happens to a message: acknowledged, or delivered again after a delay.\<close>

datatype settlement = Acknowledged | Delayed int

record queue_message =
  qm_attempts :: "int option"
  qm_body :: json
  qm_sample :: "rat option"
  qm_environment :: consumer_environment

definition settle :: "queue_message \<Rightarrow> queue_decision result \<Rightarrow> settlement" where
  "settle m outcome =
     (case outcome of
        Inr Ack \<Rightarrow> Acknowledged
      | _ \<Rightarrow> Delayed (retryDelaySeconds (qm_attempts m) (qm_sample m)))"

fun handleUploadQueueBatch :: "queue_message list \<Rightarrow> d1 \<Rightarrow> settlement list \<times> d1" where
  "handleUploadQueueBatch [] db = ([], db)"
| "handleUploadQueueBatch (m # ms) db =
     (case processMessage (qm_environment m) (qm_body m) db of
        (outcome, db') \<Rightarrow>
          (case handleUploadQueueBatch ms db' of (rest, db'') \<Rightarrow> (settle m outcome # rest, db'')))"

section \<open>Lemmas\<close>

lemma retry_delay_cap_bounds: "15 \<le> retry_delay_cap a" "retry_delay_cap a \<le> 900"
proof -
  have "(1::int) \<le> 2 ^ n" for n :: nat by simp
  then have "15 * 1 \<le> 15 * (2::int) ^ n" for n :: nat by (intro mult_left_mono) simp_all
  then show "15 \<le> retry_delay_cap a" "retry_delay_cap a \<le> 900"
    by (auto simp: retry_delay_cap_def Let_def MAX_RETRY_DELAY_SECONDS_def BASE_RETRY_DELAY_SECONDS_def)
qed

lemma retryDelaySeconds_bounds:
  "1 \<le> retryDelaySeconds a s" "retryDelaySeconds a s \<le> retry_delay_cap a"
proof -
  let ?c = "of_int (retry_delay_cap a) :: rat"
  define x :: rat where "x = (case s of None \<Rightarrow> 0 | Some s \<Rightarrow> min (999999 / 1000000) (max 0 s))"
  have x: "0 \<le> x" "x < 1" by (auto simp: x_def split: option.splits)
  have c: "15 \<le> ?c"
    using retry_delay_cap_bounds(1) [of a] by (metis of_int_le_iff of_int_numeral)
  have "x * ?c < 1 * ?c" using x c by (intro mult_strict_right_mono) simp_all
  then have "\<lfloor>x * ?c\<rfloor> < retry_delay_cap a" by (simp add: floor_less_iff)
  then show "1 \<le> retryDelaySeconds a s" "retryDelaySeconds a s \<le> retry_delay_cap a"
    using retry_delay_cap_bounds(1) [of a]
    by (simp_all add: retryDelaySeconds_def Let_def x_def [symmetric])
qed

lemma handleUploadQueueBatch_length: "length (fst (handleUploadQueueBatch ms db)) = length ms"
  by (induction ms arbitrary: db) (auto split: prod.splits, metis fst_conv)

text \<open>Every message is settled by one outcome.\<close>

lemma handleUploadQueueBatch_settles:
  "list_all2 (\<lambda>m s. \<exists>outcome. s = settle m outcome) ms (fst (handleUploadQueueBatch ms db))"
proof (induction ms arbitrary: db)
  case (Cons m ms)
  obtain outcome db' where p: "processMessage (qm_environment m) (qm_body m) db = (outcome, db')" by fastforce
  show ?case using Cons [of db'] by (auto simp: p split: prod.split)
qed simp

lemma retry_delay_cap_doubles:
  "retry_delay_cap None = 15" "retry_delay_cap (Some n) \<le> 15 * 2 ^ nat (max 0 (n - 1))"
proof -
  have "(2::int) ^ nat (min (k - 1) 10) \<le> 2 ^ nat (max 0 (n - 1))" if "k = (if 0 < n then n else 1)" for k
    using that by (intro power_increasing) auto
  then show "retry_delay_cap (Some n) \<le> 15 * 2 ^ nat (max 0 (n - 1))"
    by (simp add: retry_delay_cap_def Let_def BASE_RETRY_DELAY_SECONDS_def min.coboundedI2)
qed (simp add: retry_delay_cap_def BASE_RETRY_DELAY_SECONDS_def MAX_RETRY_DELAY_SECONDS_def)

end
