(* ===== verification/JobExample.thy ===== *)
theory JobExample
  imports JobSystem QueueConsumer
begin

text \<open>
  A concrete job: created, uploaded, ingested, retried, cancelled and deleted by the modelled
  operations. The witnesses of the properties of jobs evaluate them on these databases.
\<close>

definition ex_options :: json where
  "ex_options = JObj [(''language'', JStr ''ja''), (''model'', JStr ''large-v3-turbo''),
     (''outputFormats'', JArr [JStr ''markdown'']), (''vad'', JBool True)]"

definition ex_job_id :: string where "ex_job_id = ''01J0000000000000000000000A''"
definition ex_attempt_id :: string where "ex_attempt_id = ''01J0000000000000000000000B''"
definition ex_event_id :: string where "ex_event_id = ''01J0000000000000000000000C''"

definition ex_new_job :: new_job where
  "ex_new_job =
     \<lparr>nj_expectedSizeBytes = 5, nj_id = ex_job_id, nj_options = ex_options,
      nj_originalFilename = ''a.mp3'', nj_ownerEmail = ''u@x.y'', nj_ownerSub = ''u'',
      nj_sourceBucket = ''bucket'', nj_sourceContentType = ''audio/mpeg'',
      nj_sourceKey = ''incoming/a'', nj_timestamp = ''2025-01-01T00:00:00.000Z'', nj_title = ''t''\<rparr>"

definition ex_created :: d1 where
  "ex_created = empty_d1\<lparr>d1_jobs := [new_job_row ex_new_job]\<rparr>"

lemma ex_ids [simp]: "ulid_ok ex_job_id" "ulid_ok ex_attempt_id" "ulid_ok ex_event_id"
  by code_simp+

lemma ex_id_lengths [simp]:
  "length ex_job_id = 26" "length ex_attempt_id = 26" "length ex_event_id = 26"
  by (simp_all add: ex_job_id_def ex_attempt_id_def ex_event_id_def)

definition ex_at :: string where "ex_at = ''2025-01-01T00:00:00.000Z''"

lemma ex_at_ok [simp]: "utc_datetime_ok ex_at" "date_parse ex_at = Some 1735689600000"
  by code_simp+

lemma ex_window [simp]: "creation_window_start ex_at = Inr ''2024-12-31T23:50:00.000Z''"
  by code_simp

lemma ex_new_job_fields [simp]:
  "nj_timestamp ex_new_job = ex_at" "nj_ownerSub ex_new_job = ''u''" "nj_id ex_new_job = ex_job_id"
  by (simp_all add: ex_new_job_def ex_at_def)

lemma ex_row_checks: "job_checks (new_job_row ex_new_job)"
  by (simp add: job_checks_def new_job_row_def ex_new_job_def like_prefix_def
      to_upper_def)

lemma ex_row_schema: "databaseJobSummaryRowSchema (new_job_row ex_new_job)"
  by (simp add: databaseJobSummaryRowSchema_def new_job_row_def ex_new_job_def ex_at_def [symmetric]
      file_size_ok_def MAX_FILE_SIZE_BYTES_def MAX_ORIGINAL_FILENAME_LENGTH_def
      MAX_JOB_TITLE_LENGTH_def ALLOWED_MEDIA_TYPES_def)

lemma ex_create:
  "createJob ex_new_job empty_d1 = (Inr (Job_created (summary_of (new_job_row ex_new_job))), ex_created)"
  using ex_row_checks ex_row_schema mapSummary_ok [OF ex_row_schema]
  by (simp add: createJob_def insert_new_job_def insert_job_def count_jobs_def empty_d1_def
      ex_created_def MAX_JOB_CREATIONS_PER_WINDOW_def MAX_ACTIVE_JOBS_PER_OWNER_def
      updatedJobSummaryRowsSchema_def)

definition ex_action :: action_input where
  "ex_action = \<lparr>ac_eventId = ex_event_id, ac_jobId = ex_job_id, ac_ownerSub = ''u'', ac_timestamp = ex_at\<rparr>"

lemma ex_action_fields [simp]:
  "ac_eventId ex_action = ex_event_id" "ac_jobId ex_action = ex_job_id" "ac_ownerSub ex_action = ''u''"
  "ac_timestamp ex_action = ex_at"
  by (simp_all add: ex_action_def)

lemma ex_history: "history [ex_created, empty_d1]"
  using history.request [OF history.start [OF d1_inv_empty], of empty_d1 "Create_job ex_new_job"]
  by (simp add: ex_create)

lemma ex_created_inv: "d1_inv ex_created"
  using history_sound [OF ex_history] by simp

lemma ex_row_fields [simp]:
  "jb_id (new_job_row ex_new_job) = ex_job_id" "jb_owner_sub (new_job_row ex_new_job) = ''u''"
  "jb_version (new_job_row ex_new_job) = 1" "jb_deleted_at (new_job_row ex_new_job) = None"
  "jb_status (new_job_row ex_new_job) = CREATED" "jb_active_attempt_id (new_job_row ex_new_job) = None"
  "jb_source_etag (new_job_row ex_new_job) = None" "jb_expected_size_bytes (new_job_row ex_new_job) = 5"
  "jb_source_bucket (new_job_row ex_new_job) = ''bucket''" "jb_source_key (new_job_row ex_new_job) = ''incoming/a''"
  "jb_actual_size_bytes (new_job_row ex_new_job) = None" "jb_options (new_job_row ex_new_job) = ex_options"
  by (simp_all add: new_job_row_def ex_new_job_def ex_job_id_def)

lemma ex_created_simps [simp]:
  "d1_jobs ex_created = [new_job_row ex_new_job]" "d1_attempts ex_created = []"
  "d1_events ex_created = []" "d1_executions ex_created = []" "d1_artifacts ex_created = []"
  by (simp_all add: ex_created_def empty_d1_def)

lemma ex_action_ok: "action_input_ok ex_action"
  by (simp add: action_input_ok_def owner_sub_ok_def)

lemma ex_target_schema: "databaseUploadTargetRowSchema (new_job_row ex_new_job)"
  by (simp add: databaseUploadTargetRowSchema_def file_size_ok_def MAX_FILE_SIZE_BYTES_def)

section \<open>An uploaded job\<close>

definition ex_upload :: complete_input where
  "ex_upload =
     \<lparr>co_eventId = ex_event_id, co_expectedVersion = 1, co_jobId = ex_job_id, co_ownerSub = ''u'',
      co_sizeBytes = 5, co_sourceBucket = ''bucket'', co_sourceEtag = ''e'',
      co_sourceKey = ''incoming/a'', co_timestamp = ex_at\<rparr>"

definition ex_uploaded_row :: job_row where
  "ex_uploaded_row = (new_job_row ex_new_job)\<lparr>jb_status := UPLOADED, jb_actual_size_bytes := Some 5,
     jb_source_etag := Some ''e'', jb_uploaded_at := Some ex_at, jb_updated_at := ex_at, jb_version := 2\<rparr>"

lemma ex_complete:
  "completeUpload ex_upload ex_created =
     (Inr (Complete_completed (summary_of ex_uploaded_row)), ex_created\<lparr>d1_jobs := [ex_uploaded_row]\<rparr>)"
proof -
  have schema: "databaseJobSummaryRowSchema ex_uploaded_row"
    using ex_row_schema
    by (simp add: databaseJobSummaryRowSchema_def ex_uploaded_row_def file_size_ok_def MAX_FILE_SIZE_BYTES_def)
  have checks: "job_checks ex_uploaded_row"
    using ex_row_checks by (simp add: job_checks_def ex_uploaded_row_def)
  have ok: "complete_input_ok ex_upload"
    by (simp add: complete_input_ok_def ex_upload_def etag_ok_def file_size_ok_def MAX_FILE_SIZE_BYTES_def)
  have "complete_upload_sql ex_upload ex_created = Inr ([ex_uploaded_row], ex_created\<lparr>d1_jobs := [ex_uploaded_row]\<rparr>)"
    using checks
    by (simp add: complete_upload_sql_def update_jobs_def update_where_def owned_def ex_upload_def
        ex_uploaded_row_def numeral_2_eq_2)
  then show ?thesis
    using ok schema mapSummary_ok [OF schema] by (simp add: completeUpload_def updatedJobSummaryRowsSchema_def)
qed

section \<open>An ingested job\<close>

definition ex_source :: source_job where
  "ex_source = \<lparr>so_target = mapUploadTarget (new_job_row ex_new_job), so_generationOneAttemptId = None,
     so_generationOneSelection = None, so_options = ex_options\<rparr>"

definition ex_ingest :: ingest_input where
  "ex_ingest =
     \<lparr>in_attemptId = ex_attempt_id, in_eventId = ex_event_id, in_job = ex_source,
      in_ownerHash = replicate 32 (CHR ''0''), in_selection = runpod_selection, in_sizeBytes = 5,
      in_sourceEtag = ''e'', in_timestamp = ex_at\<rparr>"

lemma ex_options_ok: "jobOptionsSchema ex_options"
  by code_simp

lemma ex_find_source: "findSourceJob ex_job_id ex_created = Inr (Some ex_source)"
  using ex_target_schema ex_options_ok
  by (simp add: findSourceJob_def find_source_row_def find_job_def find_attempt_def
      sourceJobRowSchema_def mapSourceJob_def mapPersistedSelection_def ex_source_def)

definition ex_ingested_row :: job_row where
  "ex_ingested_row = (new_job_row ex_new_job)\<lparr>jb_actual_size_bytes := Some 5, jb_source_etag := Some ''e'',
     jb_status := SUBMISSION_PENDING, jb_active_attempt_id := Some ex_attempt_id,
     jb_uploaded_at := Some ex_at, jb_updated_at := ex_at, jb_version := 2\<rparr>"

definition ex_ingested :: d1 where
  "ex_ingested = ex_created\<lparr>d1_jobs := [ex_ingested_row], d1_attempts := [ingested_attempt ex_ingest],
     d1_executions := execution_of_attempt (ingested_attempt ex_ingest),
     d1_events := [user_event ex_event_id ex_ingested_row ''source_ingested'' ''queue'' ex_at]\<rparr>"

lemma user_event_fields:
  "ev_id (user_event e j t w x) = e" "ev_job_id (user_event e j t w x) = jb_id j"
  "ev_event_type (user_event e j t w x) = t"
  by (simp_all add: user_event_def)

lemma ex_ingested_row_fields [simp]:
  "jb_id ex_ingested_row = ex_job_id" "jb_active_attempt_id ex_ingested_row = Some ex_attempt_id"
  "jb_updated_at ex_ingested_row = ex_at"
  by (simp_all add: ex_ingested_row_def)

lemma ex_ingest_run: "ingestSource ex_ingest ex_created = (Inr Ingest_ingested, ex_ingested)"
proof -
  have ok: "ingest_input_ok ex_ingest"
    by (simp add: ingest_input_ok_def ex_ingest_def ex_source_def etag_ok_def file_size_ok_def
        MAX_FILE_SIZE_BYTES_def owner_hash_ok_def all_in_def hex_chars_def list_all_iff)
  have "attempt_checks (ingested_attempt ex_ingest)"
    by (simp add: attempt_checks_def ingested_attempt_def ex_ingest_def ex_source_def
        ingested_attempt_id_def ingest_result_prefix_def like_prefix_def to_upper_def)
  moreover have "winners_unique [ingested_attempt ex_ingest]"
    by (simp add: winners_unique_def ingested_attempt_def)
  moreover have "job_checks ex_ingested_row"
    using ex_row_checks by (simp add: job_checks_def ex_ingested_row_def)
  moreover have "ingestible ex_ingest (new_job_row ex_new_job)"
    by (simp add: ingestible_def ex_ingest_def ex_source_def mapUploadTarget_def UPLOAD_STATUSES_def)
  moreover have "in_timestamp ex_ingest = ex_at" "in_eventId ex_ingest = ex_event_id"
    "in_sizeBytes ex_ingest = 5" "in_sourceEtag ex_ingest = ''e''"
    "so_generationOneAttemptId (in_job ex_ingest) = None"
    "ut_jobId (so_target (in_job ex_ingest)) = ex_job_id" "ingested_attempt_id ex_ingest = ex_attempt_id"
    by (simp_all add: ex_ingest_def ex_source_def mapUploadTarget_def ingested_attempt_id_def)
  moreover have "am_id (ingested_attempt ex_ingest) = ex_attempt_id"
    "am_job_id (ingested_attempt ex_ingest) = ex_job_id" "am_generation (ingested_attempt ex_ingest) = 1"
    using calculation by (simp_all add: ingested_attempt_def)
  moreover have "jb_uploaded_at (new_job_row ex_new_job) = None" by (simp add: new_job_row_def)
  ultimately have "ingest_batch ex_ingest ex_created = Inr ([ex_ingested_row], ex_ingested)"
    by (simp add: ingest_batch_def insert_attempt_sql_def find_job_def insert_attempt_def batch2_def
        activate_attempt_sql_def update_jobs_def update_where_def active_attempt_ok_def
        ex_ingested_row_def [unfolded numeral_2_eq_2, symmetric] record_ingestion_event_sql_def insert_event_def event_id_taken_def
        single_event_taken_def single_event_types_def user_event_fields ex_ingested_def)
  then show ?thesis
    using ok by (simp add: ingestSource_def updatedJobIdRowsSchema_def ex_ingested_row_def)
qed

section \<open>A deleted job and a redelivered message\<close>

lemma ex_delete: "\<exists>db'. requestJobDeletion ex_action ex_created = (Inr Delete_deleted, db')"
proof -
  let ?c = "\<lparr>dx_version = 1, dx_deleted_at = None, dx_active_attempt_id = None,
    dx_active_attempt_status = None, dx_latest_capability_issued_at = None\<rparr>"
  let ?t = "to_iso 1735689600000"
  let ?row = "(new_job_row ex_new_job)\<lparr>jb_deleted_at := Some ex_at, jb_deletion_not_before := Some ?t,
    jb_deletion_next_attempt_at := Some ex_at, jb_deletion_attempt_count := 0,
    jb_deletion_error_code := None, jb_updated_at := ex_at, jb_version := 2\<rparr>"
  have read_context: "deletion_context ex_action ex_created = Some ?c"
    by (simp add: deletion_context_def find_job_def active_attempt_def List.map_filter_def)
  have read: "delete_read ex_action ex_created = Inr (Delete_commit ?c ?t)"
    using ex_action_ok
    by (simp add: delete_read_def read_context deletionContextRowSchema_def deletionNotBeforeMilliseconds_def
        is_safe_integer_def)
  have "job_checks ?row" using ex_row_checks by (simp add: job_checks_def)
  then have "\<exists>db'. delete_batch ex_action ?c ?t ex_created =
      Inr (([], [?row], [user_event ex_event_id ?row ''job_delete_requested'' ''user'' ex_at]), db')"
    by (simp add: delete_batch_def batch3_def batch2_def request_deletion_active_attempt_sql_def
        update_attempts_def winners_unique_def update_where_def mark_job_deleted_sql_def update_jobs_def owned_def
        numeral_2_eq_2 record_deletion_event_sql_def find_job_def insert_event_def event_id_taken_def
        single_event_taken_def user_event_fields)
  then show ?thesis
    using read
    by (auto simp: requestJobDeletion_def delete_commit_def delete_answer_def updatedJobIdRowsSchema_def
        user_event_fields)
qed

definition ex_message :: queue_message where
  "ex_message = \<lparr>qm_attempts = Some 3, qm_body = JNull, qm_sample = Some (1 / 2),
     qm_environment =
       \<lparr>qe_config = None, qe_selection = None, qe_admission_active = None,
        qe_head = (\<lambda>_. Head_missing), qe_now = 0, qe_eventId = [], qe_attemptId = [],
        qe_reconcile = (\<lambda>_ db. (Inr Cancellation_ignored, db)), qe_submit = None\<rparr>\<rparr>"

lemma ex_message_run: "handleUploadQueueBatch [ex_message] db = ([Delayed 31], db)"
  by (simp add: ex_message_def processMessage_def settle_def retryDelaySeconds_def retry_delay_cap_def
      MAX_RETRY_DELAY_SECONDS_def BASE_RETRY_DELAY_SECONDS_def)

end
