(* ===== verification/JobCancellation.thy ===== *)
theory JobCancellation
  imports JobSystem
begin

text \<open>
  What \<open>requestJobCancellation\<close> of apps/web/src/server/jobs/job-repository.ts does on every branch,
  when nothing happens between its read and its batch: the statements of the batch are evaluated on
  a database that satisfies the invariant and the constraints of the tables.
\<close>

section \<open>Statements that change one row\<close>

lemma update_jobs_one:
  assumes "distinct (map jb_id (d1_jobs db))" "\<forall>j. p j \<longrightarrow> jb_id j = k"
    and "j \<in> set (d1_jobs db)" "p j" "job_checks (f j)" "jb_active_attempt_id (f j) = jb_active_attempt_id j"
  shows "update_jobs p f db = Inr ([f j],
    db\<lparr>d1_jobs := update_where (\<lambda>x. jb_id x = jb_id j) (\<lambda>_. f j) (d1_jobs db)\<rparr>)"
proof (rule filter_key_cases [OF assms(1,2), of f])
  fix r assume r: "r \<in> set (d1_jobs db)" "p r" "filter p (d1_jobs db) = [r]"
    "update_where p f (d1_jobs db) = update_where (\<lambda>x. jb_id x = jb_id r) (\<lambda>_. f r) (d1_jobs db)"
  have "j \<in> set (filter p (d1_jobs db))" using assms(3,4) by simp
  then have "r = j" using r(3) by simp
  then show ?thesis using r assms(5,6) by (simp add: update_jobs_def)
qed (use assms(3,4) in blast)

lemma update_attempts_one:
  assumes "distinct (map am_id (d1_attempts db))" "\<forall>a. p a \<longrightarrow> am_id a = k"
    and "a \<in> set (d1_attempts db)" "p a" "attempt_checks (f a)"
    and "winners_unique (d1_attempts db)" "\<And>x. am_winning_runpod_job_id (f x) = am_winning_runpod_job_id x"
  obtains db1 where "update_attempts p f db = Inr ([f a], db1)" "d1_jobs db1 = d1_jobs db"
    "d1_attempts db1 = update_where (\<lambda>x. am_id x = am_id a) (\<lambda>_. f a) (d1_attempts db)"
    "d1_events db1 = d1_events db"
proof (rule filter_key_cases [OF assms(1,2), of f])
  fix r assume r: "r \<in> set (d1_attempts db)" "p r" "filter p (d1_attempts db) = [r]"
    "update_where p f (d1_attempts db) = update_where (\<lambda>x. am_id x = am_id r) (\<lambda>_. f r) (d1_attempts db)"
  have "a \<in> set (filter p (d1_attempts db))" using assms(3,4) by simp
  then have "r = a" using r(3) by simp
  moreover have "winners_unique (update_where p f (d1_attempts db))"
    using winners_unique_update assms(6,7) by blast
  ultimately show thesis using r(1-3) r(4) [symmetric] assms(5) that by (simp add: update_attempts_def)
qed (use assms(3,4) in blast)

section \<open>The cancelled row\<close>

text \<open>A job whose attempt may already run is only asked to stop.\<close>

definition cancelled_row :: "action_input \<Rightarrow> job_row \<Rightarrow> job_row" where
  "cancelled_row i j =
     (let running = jb_status j \<in> {SUBMITTING, RUNNING} in
      j\<lparr>jb_status := (if running then CANCEL_REQUESTED else CANCELLED),
        jb_error_code := None, jb_error_message := None,
        jb_cancelled_at := (if running then jb_cancelled_at j else Some (ac_timestamp i)),
        jb_updated_at := ac_timestamp i, jb_version := jb_version j + 1\<rparr>)"

lemma cancelled_row_simps [simp]:
  "jb_id (cancelled_row i j) = jb_id j" "jb_owner_sub (cancelled_row i j) = jb_owner_sub j"
  "jb_updated_at (cancelled_row i j) = ac_timestamp i"
  "jb_active_attempt_id (cancelled_row i j) = jb_active_attempt_id j"
  "jb_status (cancelled_row i j) = (if jb_status j \<in> {SUBMITTING, RUNNING} then CANCEL_REQUESTED else CANCELLED)"
  by (simp_all add: cancelled_row_def Let_def)

lemma cancelled_row_checks: "job_checks j \<Longrightarrow> job_checks (cancelled_row i j)"
  by (simp add: job_checks_def cancelled_row_def Let_def)

lemma cancelled_row_schema:
  "databaseJobSummaryRowSchema j \<Longrightarrow> utc_datetime_ok (ac_timestamp i) \<Longrightarrow>
   databaseJobSummaryRowSchema (cancelled_row i j)"
  by (simp add: databaseJobSummaryRowSchema_def cancelled_row_def Let_def)

text \<open>The event of the cancellation; a job has at most one.\<close>

definition cancel_recorded :: "d1 \<Rightarrow> string \<Rightarrow> bool" where
  "cancel_recorded db jobId \<longleftrightarrow>
     (\<exists>e \<in> set (d1_events db). ev_job_id e = jobId \<and> ev_event_type e = ''job_cancel_requested'')"

lemma record_cancellation_event:
  assumes dist: "distinct (map jb_id (d1_jobs db))" and j: "cancelled_row i j \<in> set (d1_jobs db)" "owned (ac_ownerSub i) (ac_jobId i) j"
    and e: "length (ac_eventId i) = 26" "ac_eventId i \<notin> ev_id ` set (d1_events db)"
  obtains events db' where "record_cancellation_event_sql i db = Inr (events, db')"
    "d1_jobs db' = d1_jobs db" "d1_attempts db' = d1_attempts db"
    "map ev_id events = (if cancel_recorded db (ac_jobId i) then [] else [ac_eventId i])"
proof -
  have "find_job (\<lambda>j. jb_id j = ac_jobId i \<and> jb_updated_at j = ac_timestamp i \<and>
      jb_status j \<in> {CANCEL_REQUESTED, CANCELLED} \<and> jb_owner_sub j = ac_ownerSub i) db
      = Some (cancelled_row i j)"
    unfolding find_job_def
    by (subst find_Some_iff_key [OF dist, where k = "ac_jobId i"]) (use j in \<open>auto simp: owned_def\<close>)
  then have sql: "record_cancellation_event_sql i db = insert_event Conflict_do_nothing
      (Some (user_event (ac_eventId i) (cancelled_row i j) ''job_cancel_requested'' ''user'' (ac_timestamp i))) db"
    by (simp add: record_cancellation_event_sql_def)
  let ?e = "user_event (ac_eventId i) (cancelled_row i j) ''job_cancel_requested'' ''user'' (ac_timestamp i)"
  have fresh: "\<not> event_id_taken db ?e" using e(2) by (simp add: event_id_taken_def user_event_def)
  have taken: "single_event_taken db ?e \<longleftrightarrow> cancel_recorded db (ac_jobId i)"
    using j(2) by (simp add: single_event_taken_def cancel_recorded_def user_event_def owned_def
        single_event_types_def)
  have length: "length (ev_id ?e) = 26" using e(1) by (simp add: user_event_def)
  show thesis
  proof (cases "cancel_recorded db (ac_jobId i)")
    case True
    then have "record_cancellation_event_sql i db = Inr ([], db)"
      using sql taken length by (simp add: insert_event_def)
    then show thesis using that True by simp
  next
    case False
    then have "record_cancellation_event_sql i db = Inr ([?e], db\<lparr>d1_events := d1_events db @ [?e]\<rparr>)"
      using sql taken fresh length by (simp add: insert_event_def)
    then show thesis using that [of "[?e]"] False by (simp add: user_event_def)
  qed
qed

section \<open>The two batches\<close>

lemma cancel_upload_batch:
  assumes inv: "d1_inv db" and j: "j \<in> set (d1_jobs db)" "owned (ac_ownerSub i) (ac_jobId i) j"
    and status: "jb_status j \<in> set UPLOAD_STATUSES" "jb_active_attempt_id j = None"
    and ok: "job_checks j" "length (ac_eventId i) = 26" "ac_eventId i \<notin> ev_id ` set (d1_events db)"
  obtains events db' where
    "batch2 (cancel_job_without_attempt_sql i j) (record_cancellation_event_sql i) db
       = Inr (([cancelled_row i j], events), db')"
    "set (d1_jobs db') = insert (cancelled_row i j) (set (d1_jobs db) - {j})" "d1_attempts db' = d1_attempts db"
    "map ev_id events = (if cancel_recorded db (ac_jobId i) then [] else [ac_eventId i])"
proof -
  have dist: "distinct (map jb_id (d1_jobs db))" using inv by (simp add: d1_inv_def d1_keys_def)
  let ?db1 = "db\<lparr>d1_jobs := update_where (\<lambda>x. jb_id x = jb_id j) (\<lambda>_. cancelled_row i j) (d1_jobs db)\<rparr>"
  have row: "j\<lparr>jb_status := CANCELLED, jb_error_code := None, jb_error_message := None,
      jb_cancelled_at := Some (ac_timestamp i), jb_updated_at := ac_timestamp i,
      jb_version := jb_version j + 1\<rparr> = cancelled_row i j"
    using status(1) by (auto simp: cancelled_row_def UPLOAD_STATUSES_def)
  have upd: "cancel_job_without_attempt_sql i j db = Inr ([cancelled_row i j], ?db1)"
    unfolding cancel_job_without_attempt_sql_def
    by (subst update_jobs_one [OF dist, where j = j and k = "ac_jobId i"])
      (use j status cancelled_row_checks [OF ok(1), of i] in \<open>simp_all add: row [simplified] owned_def\<close>)
  have dist1: "distinct (map jb_id (d1_jobs ?db1))"
    and mem: "set (d1_jobs ?db1) = insert (cancelled_row i j) (set (d1_jobs db) - {j})"
    using dist j(1) by (simp_all add: map_key_update_where set_update_where_id)
  have member: "cancelled_row i j \<in> set (d1_jobs ?db1)" using mem by blast
  have fresh: "ac_eventId i \<notin> ev_id ` set (d1_events ?db1)" using ok(3) by simp
  obtain events db' where "record_cancellation_event_sql i ?db1 = Inr (events, db')"
    "d1_jobs db' = d1_jobs ?db1" "d1_attempts db' = d1_attempts ?db1"
    "map ev_id events = (if cancel_recorded ?db1 (ac_jobId i) then [] else [ac_eventId i])"
    by (rule record_cancellation_event [OF dist1 member j(2) ok(2) fresh])
  then show thesis
    using that [of events db'] upd mem by (simp add: batch2_Inr_iff cancel_recorded_def)
qed

definition cancelled_attempt :: "action_input \<Rightarrow> attempt_row \<Rightarrow> attempt_row" where
  "cancelled_attempt i a = a\<lparr>am_status := cancelled_attempt_status (am_status a),
     am_heartbeat_revoked_at :=
       (if am_status a = ATT_RUNNING \<and> am_heartbeat_token_hash a \<noteq> None
        then Some (ac_timestamp i) else am_heartbeat_revoked_at a),
     am_updated_at := ac_timestamp i\<rparr>"

definition cancels_attempt :: "action_input \<Rightarrow> job_row \<Rightarrow> d1 \<Rightarrow> attempt_row \<Rightarrow> bool" where
  "cancels_attempt i read db a \<longleftrightarrow>
     jb_active_attempt_id read = Some (am_id a) \<and> am_job_id a = ac_jobId i \<and>
     job_status_of_attempt (am_status a) = jb_status read \<and>
     am_status a \<in> set CANCELLABLE_ATTEMPT_STATUSES \<and>
     (\<exists>j \<in> set (d1_jobs db). jb_id j = ac_jobId i \<and> jb_active_attempt_id j = Some (am_id a) \<and>
        jb_status j = jb_status read \<and> jb_deleted_at j = None)"

lemma request_attempt_cancellation_sql_alt:
  "request_attempt_cancellation_sql i read db = update_attempts (cancels_attempt i read db) (cancelled_attempt i) db"
  unfolding request_attempt_cancellation_sql_def cancels_attempt_def [abs_def] cancelled_attempt_def [abs_def] ..

lemma cancelled_attempt_checks: "attempt_checks a \<Longrightarrow> attempt_checks (cancelled_attempt i a)"
  by (auto simp: attempt_checks_def cancelled_attempt_def split: option.splits)

text \<open>The attempt of a cancellable job is changed.\<close>

lemma cancel_attempt_statement:
  assumes inv: "d1_inv db" and j: "j \<in> set (d1_jobs db)" "owned (ac_ownerSub i) (ac_jobId i) j"
    and status: "jb_status j \<in> set CANCELLABLE_JOB_STATUSES" and ok: "\<forall>a \<in> set (d1_attempts db). attempt_checks a"
  obtains a db1 where "a \<in> set (d1_attempts db)" "jb_active_attempt_id j = Some (am_id a)"
    "am_job_id a = ac_jobId i" "jb_status j = job_status_of_attempt (am_status a)"
    "request_attempt_cancellation_sql i j db = Inr ([cancelled_attempt i a], db1)"
    "d1_jobs db1 = d1_jobs db" "d1_events db1 = d1_events db"
    "set (d1_attempts db1) = insert (cancelled_attempt i a) (set (d1_attempts db) - {a})"
proof -
  have dist: "distinct (map am_id (d1_attempts db))" and winners: "winners_unique (d1_attempts db)"
    using inv by (simp_all add: d1_inv_def d1_keys_def)
  have same: "am_winning_runpod_job_id (cancelled_attempt i x) = am_winning_runpod_job_id x" for x
    by (simp add: cancelled_attempt_def)
  have undeleted: "jb_deleted_at j = None" using j(2) by (simp add: owned_def)
  obtain a where a: "a \<in> set (d1_attempts db)" "jb_active_attempt_id j = Some (am_id a)"
      "am_job_id a = jb_id j" "open_attempt a"
    by (rule open_job_attempt [OF inv j(1) undeleted cancellable_open(2) [OF status]])
  have agree: "jb_status j = job_status_of_attempt (am_status a)"
    using agreeD [OF inv j(1) undeleted a(1,2)] a(4) by simp
  have "am_status a \<in> set CANCELLABLE_ATTEMPT_STATUSES"
    using status agree by (cases "am_status a")
      (auto simp: CANCELLABLE_JOB_STATUSES_def CANCELLABLE_ATTEMPT_STATUSES_def)
  then have match: "cancels_attempt i j db a"
    using a agree j undeleted by (auto simp: cancels_attempt_def owned_def)
  have key: "\<forall>x. cancels_attempt i j db x \<longrightarrow> am_id x = am_id a" using a(2) by (simp add: cancels_attempt_def)
  have checks: "attempt_checks (cancelled_attempt i a)" using ok a(1) cancelled_attempt_checks by blast
  obtain db1 where upa: "update_attempts (cancels_attempt i j db) (cancelled_attempt i) db = Inr ([cancelled_attempt i a], db1)"
    and db1: "d1_jobs db1 = d1_jobs db" "d1_events db1 = d1_events db"
      "d1_attempts db1 = update_where (\<lambda>x. am_id x = am_id a) (\<lambda>_. cancelled_attempt i a) (d1_attempts db)"
    by (rule update_attempts_one [where p = "cancels_attempt i j db" and f = "cancelled_attempt i" and a = a,
        OF dist key a(1) match checks winners same])
  have rows: "set (d1_attempts db1) = insert (cancelled_attempt i a) (set (d1_attempts db) - {a})"
    unfolding db1(3) by (rule set_update_where_id [OF dist a(1)])
  have "am_job_id a = ac_jobId i" using a(3) j(2) by (simp add: owned_def)
  then show thesis
    by (rule that [OF a(1,2) _ agree _ db1(1,2) rows])
      (simp add: request_attempt_cancellation_sql_alt upa)
qed

lemma cancel_job_statement:
  assumes dist: "distinct (map jb_id (d1_jobs db))" and j: "j \<in> set (d1_jobs db)" "owned (ac_ownerSub i) (ac_jobId i) j"
    and status: "jb_status j \<in> set CANCELLABLE_JOB_STATUSES" "job_checks j"
    and a: "cancelled_attempt i a \<in> set (d1_attempts db)" "jb_active_attempt_id j = Some (am_id a)"
      "am_job_id a = ac_jobId i" "jb_status j = job_status_of_attempt (am_status a)"
  shows "request_job_cancellation_sql i j db = Inr ([cancelled_row i j],
    db\<lparr>d1_jobs := update_where (\<lambda>x. jb_id x = jb_id j) (\<lambda>_. cancelled_row i j) (d1_jobs db)\<rparr>)"
proof -
  have "cancelled_attempt_status (am_status a) =
      (if jb_status j = SUBMISSION_PENDING then ATT_CANCELLED else ATT_CANCEL_REQUESTED)"
    using a(4) by (cases "am_status a") (auto simp: cancelled_attempt_status_def)
  then have exists: "\<exists>x \<in> set (d1_attempts db). jb_active_attempt_id j = Some (am_id x) \<and>
      am_job_id x = ac_jobId i \<and> am_status x = (if jb_status j = SUBMISSION_PENDING then ATT_CANCELLED
        else ATT_CANCEL_REQUESTED) \<and> am_updated_at x = ac_timestamp i"
    using a(2,3) by (intro bexI [OF _ a(1)]) (simp add: cancelled_attempt_def)
  have row: "j\<lparr>jb_status := cancelled_job_status (jb_status j), jb_error_code := None,
      jb_error_message := None,
      jb_cancelled_at := (if jb_status j = SUBMISSION_PENDING then Some (ac_timestamp i) else jb_cancelled_at j),
      jb_updated_at := ac_timestamp i, jb_version := jb_version j + 1\<rparr> = cancelled_row i j"
    using status by (auto simp: cancelled_row_def cancelled_job_status_def CANCELLABLE_JOB_STATUSES_def)
  show ?thesis
    unfolding request_job_cancellation_sql_def
    by (subst update_jobs_one [OF dist, where j = j and k = "ac_jobId i"])
      (use j a(2) status exists cancelled_row_checks [OF status(2), of i] in
        \<open>simp_all add: row [simplified] owned_def\<close>)
qed

lemma cancel_attempt_batch:
  assumes inv: "d1_inv db" and j: "j \<in> set (d1_jobs db)" "owned (ac_ownerSub i) (ac_jobId i) j"
    and status: "jb_status j \<in> set CANCELLABLE_JOB_STATUSES"
    and ok: "job_checks j" "\<forall>a \<in> set (d1_attempts db). attempt_checks a"
      "length (ac_eventId i) = 26" "ac_eventId i \<notin> ev_id ` set (d1_events db)"
  obtains a attempts events db' where "active_attempt db j = Some a"
    "batch3 (request_attempt_cancellation_sql i j) (request_job_cancellation_sql i j)
       (record_cancellation_event_sql i) db = Inr ((attempts, [cancelled_row i j], events), db')"
    "set (d1_jobs db') = insert (cancelled_row i j) (set (d1_jobs db) - {j})"
    "set (d1_attempts db') = insert (cancelled_attempt i a) (set (d1_attempts db) - {a})"
    "map ev_id events = (if cancel_recorded db (ac_jobId i) then [] else [ac_eventId i])"
proof -
  have dist: "distinct (map jb_id (d1_jobs db))" using inv by (simp add: d1_inv_def d1_keys_def)
  obtain a db1 where member_a: "a \<in> set (d1_attempts db)"
    and a: "jb_active_attempt_id j = Some (am_id a)" "am_job_id a = ac_jobId i"
      "jb_status j = job_status_of_attempt (am_status a)"
    and upa: "request_attempt_cancellation_sql i j db = Inr ([cancelled_attempt i a], db1)"
    and db1: "d1_jobs db1 = d1_jobs db" "d1_events db1 = d1_events db"
    and rows: "set (d1_attempts db1) = insert (cancelled_attempt i a) (set (d1_attempts db) - {a})"
    by (rule cancel_attempt_statement [OF inv j status ok(2)])
  have active: "active_attempt db j = Some a"
    using active_attempt_Some_iff inv member_a a(1) by (simp add: d1_inv_def)
  have a': "cancelled_attempt i a \<in> set (d1_attempts db1)" using rows by simp
  have dist1: "distinct (map jb_id (d1_jobs db1))" and j1: "j \<in> set (d1_jobs db1)" using dist j(1) db1(1) by simp_all
  let ?db2 = "db1\<lparr>d1_jobs := update_where (\<lambda>x. jb_id x = jb_id j) (\<lambda>_. cancelled_row i j) (d1_jobs db1)\<rparr>"
  note upd = cancel_job_statement [OF dist1 j1 j(2) status ok(1) a' a]
  have dist2: "distinct (map jb_id (d1_jobs ?db2))"
    and mem: "set (d1_jobs ?db2) = insert (cancelled_row i j) (set (d1_jobs db) - {j})"
    using dist1 j1 db1(1) by (simp_all add: map_key_update_where set_update_where_id)
  have member: "cancelled_row i j \<in> set (d1_jobs ?db2)" using mem by blast
  have fresh: "ac_eventId i \<notin> ev_id ` set (d1_events ?db2)" using ok(4) db1(2) by simp
  obtain events db' where event: "record_cancellation_event_sql i ?db2 = Inr (events, db')"
    "d1_jobs db' = d1_jobs ?db2" "d1_attempts db' = d1_attempts ?db2"
    "map ev_id events = (if cancel_recorded ?db2 (ac_jobId i) then [] else [ac_eventId i])"
    by (rule record_cancellation_event [OF dist2 member j(2) ok(3) fresh])
  have "cancel_recorded ?db2 = cancel_recorded db" using db1(2) by (simp add: cancel_recorded_def [abs_def])
  then show thesis
    using that [of a "[cancelled_attempt i a]" events db'] active upa upd event mem rows by (simp add: batch3_Inr_iff)
qed

section \<open>The request\<close>

lemma cancel_answer_rows:
  assumes "databaseJobSummaryRowSchema j" "ulid_ok e"
    "map ev_id events = (if taken then [] else [e])"
  shows "cancel_answer ([j], events) =
    (if taken then Inl (JsError ''Cancellation transition was only partially persisted'')
     else Inr (if jb_status j = CANCELLED then Cancel_cancelled (summary_of j) else Cancel_requested (summary_of j)))"
  using assms mapSummary_ok [OF assms(1)]
  by (auto simp: cancel_answer_def updatedJobSummaryRowsSchema_def updatedJobIdRowsSchema_def)

lemma cancellation_context_job:
  "d1_keys db \<Longrightarrow> j \<in> set (d1_jobs db) \<Longrightarrow> owned (ac_ownerSub i) (ac_jobId i) j \<Longrightarrow>
   cancellation_context i db = Some \<lparr>cx_job = j, cx_attempt_status = map_option am_status (active_attempt db j)\<rparr>"
  by (simp add: cancellation_context_def find_owned_iff)

text \<open>What the read phase decides for a job that is read as it is.\<close>

lemma cancel_read_job:
  assumes inv: "d1_inv db" and j: "j \<in> set (d1_jobs db)" "owned (ac_ownerSub i) (ac_jobId i) j"
    and ok: "action_input_ok i" "databaseJobSummaryRowSchema j" "nullable ulid_ok (jb_active_attempt_id j)"
      "0 < jb_version j"
  shows "cancel_read i db =
    (if jb_status j \<in> {CANCELLED, CANCEL_REQUESTED} then Inr (Answer (Cancel_idempotent (summary_of j)))
     else if jb_status j \<in> set ACTIVE_JOB_STATUSES
     then Inr (Commit \<lparr>cx_job = j, cx_attempt_status = map_option am_status (active_attempt db j)\<rparr>)
     else Inr (Answer Cancel_invalid_state))"
proof (cases "jb_status j \<in> {CANCELLED, CANCEL_REQUESTED}")
  case True
  then show ?thesis
    using ok mapSummary_ok [OF ok(2)] cancellation_context_job [OF _ j] inv
    by (auto simp: cancel_read_def cancellationContextRowSchema_def d1_inv_def)
next
  case False
  have undeleted: "jb_deleted_at j = None" using j(2) by (simp add: owned_def)
  have read: "cancellation_context i db = Some \<lparr>cx_job = j, cx_attempt_status = map_option am_status (active_attempt db j)\<rparr>"
    using cancellation_context_job [OF _ j] inv by (simp add: d1_inv_def)
  show ?thesis
  proof (cases "active_attempt db j")
    case None
    then have "jb_active_attempt_id j = None" by (rule active_attempt_found [OF inv j(1)])
    moreover from this have "jb_status j \<notin> set OPEN_JOB_STATUSES"
      using inv j(1) undeleted unfolding d1_inv_def statuses_agree_def by blast
    ultimately show ?thesis
      using False ok read None
      by (simp add: cancel_read_def cancellationContextRowSchema_def active_statuses_split)
  next
    case (Some a)
    then have a: "a \<in> set (d1_attempts db)" "jb_active_attempt_id j = Some (am_id a)"
      using active_attempt_Some_iff inv by (auto simp: d1_inv_def)
    have "jb_status j \<notin> set UPLOAD_STATUSES" using upload_status_no_attempt [OF inv j(1) undeleted] a(2) by auto
    moreover have "jb_status j \<in> set OPEN_JOB_STATUSES \<longrightarrow> jb_status j = job_status_of_attempt (am_status a)"
      using agreeD [OF inv j(1) undeleted a] by blast
    ultimately show ?thesis
      using False ok read Some a(2)
      by (auto simp: cancel_read_def cancellationContextRowSchema_def active_statuses_split
          OPEN_JOB_STATUSES_def CANCELLABLE_JOB_STATUSES_def)
  qed
qed

text \<open>The answer to a committed cancellation, and the job and the attempts it leaves.\<close>

lemma cancel_commit_job:
  assumes inv: "d1_inv db" and j: "j \<in> set (d1_jobs db)" "owned (ac_ownerSub i) (ac_jobId i) j"
    and ok: "action_input_ok i" "databaseJobSummaryRowSchema j"
    and status: "jb_status j \<in> set ACTIVE_JOB_STATUSES" "jb_status j \<noteq> CANCEL_REQUESTED"
    and checks: "job_checks j" "\<forall>a \<in> set (d1_attempts db). attempt_checks a"
      "ac_eventId i \<notin> ev_id ` set (d1_events db)"
    and c: "cx_job c = j"
  obtains db' where "cancel_commit i c db =
      (if cancel_recorded db (ac_jobId i)
       then Inl (JsError ''Cancellation transition was only partially persisted'')
       else Inr (if jb_status j \<in> {SUBMITTING, RUNNING} then Cancel_requested (summary_of (cancelled_row i j))
                 else Cancel_cancelled (summary_of (cancelled_row i j))), db')"
    "set (d1_jobs db') = insert (cancelled_row i j) (set (d1_jobs db) - {j})"
    "set (d1_attempts db') = (case active_attempt db j of None \<Rightarrow> set (d1_attempts db)
       | Some a \<Rightarrow> insert (cancelled_attempt i a) (set (d1_attempts db) - {a}))"
proof -
  have undeleted: "jb_deleted_at j = None" using j(2) by (simp add: owned_def)
  have len: "length (ac_eventId i) = 26" and event: "ulid_ok (ac_eventId i)"
    using ok(1) by (simp_all add: action_input_ok_def ulid_ok_def)
  have schema: "databaseJobSummaryRowSchema (cancelled_row i j)"
    using cancelled_row_schema ok by (simp add: action_input_ok_def)
  obtain events db' where batch: "cancel_batch i c db = Inr (([cancelled_row i j], events), db')"
    "set (d1_jobs db') = insert (cancelled_row i j) (set (d1_jobs db) - {j})"
    "map ev_id events = (if cancel_recorded db (ac_jobId i) then [] else [ac_eventId i])"
    "set (d1_attempts db') = (case active_attempt db j of None \<Rightarrow> set (d1_attempts db)
       | Some a \<Rightarrow> insert (cancelled_attempt i a) (set (d1_attempts db) - {a}))"
  proof (cases "jb_active_attempt_id j")
    case None
    then have "jb_status j \<notin> set OPEN_JOB_STATUSES"
      using inv j(1) undeleted unfolding d1_inv_def statuses_agree_def by blast
    then have upload: "jb_status j \<in> set UPLOAD_STATUSES" using status(1) by (simp add: active_statuses_split)
    obtain events db' where
      "batch2 (cancel_job_without_attempt_sql i j) (record_cancellation_event_sql i) db
         = Inr (([cancelled_row i j], events), db')"
      "set (d1_jobs db') = insert (cancelled_row i j) (set (d1_jobs db) - {j})" "d1_attempts db' = d1_attempts db"
      "map ev_id events = (if cancel_recorded db (ac_jobId i) then [] else [ac_eventId i])"
      by (rule cancel_upload_batch [OF inv j upload None checks(1) len checks(3)])
    then show thesis
      using that [of events db'] None c by (simp add: cancel_batch_def active_attempt_def)
  next
    case (Some x)
    then have "jb_status j \<notin> set UPLOAD_STATUSES" using upload_status_no_attempt [OF inv j(1) undeleted] by auto
    then have "jb_status j \<in> set CANCELLABLE_JOB_STATUSES"
      using status by (auto simp: active_statuses_split OPEN_JOB_STATUSES_def CANCELLABLE_JOB_STATUSES_def)
    then obtain a attempts events db' where "active_attempt db j = Some a"
      "batch3 (request_attempt_cancellation_sql i j) (request_job_cancellation_sql i j)
         (record_cancellation_event_sql i) db = Inr ((attempts, [cancelled_row i j], events), db')"
      "set (d1_jobs db') = insert (cancelled_row i j) (set (d1_jobs db) - {j})"
      "set (d1_attempts db') = insert (cancelled_attempt i a) (set (d1_attempts db) - {a})"
      "map ev_id events = (if cancel_recorded db (ac_jobId i) then [] else [ac_eventId i])"
      by (rule cancel_attempt_batch [OF inv j _ checks(1,2) len checks(3)])
    then show thesis using that [of events db'] Some c by (simp add: cancel_batch_def)
  qed
  then show thesis
    using that [of db'] batch(4) cancel_answer_rows [OF schema event batch(3)]
    by (auto simp: cancel_commit_def)
qed

end
