(* ===== verification/JobListing.thy ===== *)
theory JobListing
  imports JobRepository
begin

text \<open>
  The listing of jobs page by page (\<open>listByOwner\<close> of
  apps/web/src/server/jobs/job-repository.ts): the order is a strict total order on jobs with
  different identifiers, a page is a segment of the sorted list, and its cursor selects exactly the
  rest.
\<close>

section \<open>Sorting by a strict order\<close>

lemma sorted_wrt_unique:
  assumes "sorted_wrt R xs" "sorted_wrt R ys" "set xs = set ys"
    and "\<And>x. \<not> R x x" "\<And>x y z. R x y \<Longrightarrow> R y z \<Longrightarrow> R x z"
  shows "xs = ys"
  using assms(1-3)
proof (induction xs arbitrary: ys)
  case (Cons x xs)
  then obtain y ys' where ys: "ys = y # ys'" by (cases ys) auto
  have "x = y"
    using Cons.prems assms(4,5) unfolding ys by simp (metis insertE insertI1)
  moreover have "x \<notin> set xs" "y \<notin> set ys'" using Cons.prems assms(4) unfolding ys by auto
  moreover have "set xs = set ys'"
    using Cons.prems(3) calculation insert_ident [of x "set xs" "set ys'"] unfolding ys by simp
  ultimately show ?case using Cons unfolding ys by simp
qed simp

lemma sorted_wrt_distinct: "sorted_wrt R xs \<Longrightarrow> (\<And>x. \<not> R x x) \<Longrightarrow> distinct xs"
  by (induction xs) auto

lemma distinct_set_singleton:
  assumes "distinct xs" "set xs = {x}"
  shows "xs = [x]"
proof (cases xs)
  case (Cons y ys)
  then have "y = x" "set ys \<subseteq> {x}" "y \<notin> set ys" using assms by auto
  then have "set ys = {}" by (cases ys) auto
  then show ?thesis using Cons \<open>y = x\<close> by simp
qed (use assms in simp)

lemma set_insert_ordered [simp]: "set (insert_ordered R r qs) = insert r (set qs)"
  by (induction qs) auto

lemma set_order_by [simp]: "set (order_by R rs) = set rs"
  by (induction rs) (simp_all add: order_by_def)

lemma sorted_insert_ordered:
  assumes "sorted_wrt R qs" "\<forall>q \<in> set qs. R q r \<or> R r q" "\<And>x y z. R x y \<Longrightarrow> R y z \<Longrightarrow> R x z"
  shows "sorted_wrt R (insert_ordered R r qs)"
  using assms(1,2) by (induction qs) (auto dest: assms(3))

section \<open>The order of a listing\<close>

lemma listed_before_irrefl: "\<not> listed_before j j"
  by (simp add: listed_before_def)

lemma listed_before_trans: "listed_before i j \<Longrightarrow> listed_before j k \<Longrightarrow> listed_before i k"
  unfolding listed_before_def using text_less_trans by metis

lemma listed_before_total: "jb_id i \<noteq> jb_id j \<Longrightarrow> listed_before i j \<or> listed_before j i"
  unfolding listed_before_def using text_less_total by metis

lemma sorted_order_by:
  "distinct (map jb_id js) \<Longrightarrow> sorted_wrt listed_before (order_by listed_before js)"
proof (induction js)
  case (Cons j js)
  have "\<forall>q \<in> set (order_by listed_before js). listed_before q j \<or> listed_before j q"
  proof
    fix q assume "q \<in> set (order_by listed_before js)"
    then have "jb_id q \<in> jb_id ` set js" by simp
    then have "jb_id q \<noteq> jb_id j" using Cons.prems by auto
    then show "listed_before q j \<or> listed_before j q" by (rule listed_before_total)
  qed
  moreover have "sorted_wrt listed_before (order_by listed_before js)" using Cons by simp
  ultimately have "sorted_wrt listed_before (insert_ordered listed_before j (order_by listed_before js))"
    by (intro sorted_insert_ordered) (auto intro: listed_before_trans)
  then show ?case by (simp add: order_by_def)
qed (simp add: order_by_def)

definition cursor_of :: "job_row \<Rightarrow> job_cursor" where
  "cursor_of j = \<lparr>cu_createdAt = jb_created_at j, cu_id = jb_id j\<rparr>"

lemma after_cursor_of: "after_cursor (Some (cursor_of e)) j \<longleftrightarrow> listed_before e j"
  by (auto simp: after_cursor_def cursor_of_def listed_before_def)

section \<open>Pages\<close>

definition listed :: "string \<Rightarrow> job_row \<Rightarrow> bool" where
  "listed ownerSub j \<longleftrightarrow> jb_owner_sub j = ownerSub \<and> jb_deleted_at j = None"

definition listing :: "string \<Rightarrow> job_cursor option \<Rightarrow> d1 \<Rightarrow> job_row list" where
  "listing ownerSub cursor db =
     order_by listed_before (filter (\<lambda>j. listed ownerSub j \<and> after_cursor cursor j) (d1_jobs db))"

lemma listing_sorted:
  "distinct (map jb_id (d1_jobs db)) \<Longrightarrow> sorted_wrt listed_before (listing ownerSub cursor db)"
  unfolding listing_def by (intro sorted_order_by) (simp add: distinct_map_filter)

lemma set_listing:
  "set (listing ownerSub cursor db) = {j \<in> set (d1_jobs db). listed ownerSub j \<and> after_cursor cursor j}"
  by (auto simp: listing_def)

lemma list_jobs_sql_listing: "list_jobs_sql ownerSub cursor n db = take n (listing ownerSub cursor db)"
  by (simp add: list_jobs_sql_def listing_def listed_def conj_assoc)

text \<open>The cursor of the last job of a page selects what comes after the page.\<close>

lemma listing_after:
  assumes keys: "distinct (map jb_id (d1_jobs db))" and n: "n < length (listing ownerSub cursor db)" "1 \<le> n"
  shows "listing ownerSub (Some (cursor_of (last (take n (listing ownerSub cursor db))))) db
    = drop n (listing ownerSub cursor db)"
proof (rule sorted_wrt_unique [OF listing_sorted [OF keys] _ _ listed_before_irrefl listed_before_trans])
  let ?L = "listing ownerSub cursor db" and ?e = "last (take n (listing ownerSub cursor db))"
  have sorted: "sorted_wrt listed_before ?L" by (rule listing_sorted [OF keys])
  then show "sorted_wrt listed_before (drop n ?L)" by (rule sorted_wrt_drop)
  have split: "?L = butlast (take n ?L) @ ?e # drop n ?L"
  proof -
    have "take n ?L \<noteq> []" using n by auto
    then have "butlast (take n ?L) @ [?e] = take n ?L" by simp
    then show ?thesis by (metis append.assoc append_Cons append_Nil append_take_drop_id)
  qed
  have parts: "\<forall>x \<in> set (butlast (take n ?L)). listed_before x ?e" "\<forall>x \<in> set (drop n ?L). listed_before ?e x"
    using sorted [unfolded arg_cong [OF split, of "sorted_wrt listed_before"]]
    by (simp_all add: sorted_wrt_append)
  have mem: "set ?L = set (butlast (take n ?L)) \<union> {?e} \<union> set (drop n ?L)"
    using arg_cong [OF split, of set] by auto
  have after: "after_cursor cursor j" if "listed_before ?e j" for j
  proof -
    have "after_cursor cursor ?e" using mem set_listing [of ownerSub cursor db] by blast
    then show ?thesis using that listed_before_trans
      by (cases cursor) (auto simp: after_cursor_def listed_before_def dest: text_less_trans)
  qed
  have "x \<in> set (drop n ?L)" if "x \<in> set ?L" "listed_before ?e x" for x
    using that parts(1) mem listed_before_trans listed_before_irrefl by blast
  then show "set (listing ownerSub (Some (cursor_of ?e)) db) = set (drop n ?L)"
    using after parts(2) mem unfolding set_listing after_cursor_of by auto
qed

lemma map_results_mapSummary:
  "list_all databaseJobSummaryRowSchema rows \<Longrightarrow> map_results mapSummary rows = Inr (map summary_of rows)"
  by (induction rows) (simp_all add: map_results_def mapSummary_ok)

lemma listByOwner_page:
  assumes n: "1 \<le> n" "n \<le> 100" and ok: "\<forall>j \<in> set (d1_jobs db). listed ownerSub j \<longrightarrow> databaseJobSummaryRowSchema j"
  shows "listByOwner ownerSub cursor n db =
    Inr (map summary_of (take n (listing ownerSub cursor db)),
      if n < length (listing ownerSub cursor db)
      then Some (cursor_of (last (take n (listing ownerSub cursor db)))) else None)"
proof -
  let ?L = "listing ownerSub cursor db"
  have valid: "list_all databaseJobSummaryRowSchema (take m ?L)" for m
    using ok set_take_subset [of m ?L] unfolding set_listing list_all_iff by blast
  have last: "?L \<noteq> [] \<Longrightarrow> last (map summary_of (take n ?L)) = summary_of (last (take n ?L))"
    using n(1) by (simp add: last_map)
  have cursor: "?L \<noteq> [] \<Longrightarrow> cursorPayloadSchema (cursor_of (last (take n ?L)))"
    using valid [of n] n(1) last_in_set [of "take n ?L"]
    by (auto simp: list_all_iff cursorPayloadSchema_def cursor_of_def databaseJobSummaryRowSchema_def)
  show ?thesis
    using valid [of "n + 1"] valid [of n] last cursor n
    by (auto simp: listByOwner_def list_jobs_sql_listing map_results_mapSummary Let_def min_def
        cursor_of_def summary_of_def)
qed

text \<open>A client that follows the cursors; the fuel bounds the number of requests.\<close>

fun collect_pages :: "nat \<Rightarrow> string \<Rightarrow> job_cursor option \<Rightarrow> nat \<Rightarrow> d1 \<Rightarrow> job_summary list result" where
  "collect_pages 0 ownerSub cursor limit db = Inl (JsError ''too many pages'')"
| "collect_pages (Suc fuel) ownerSub cursor limit db =
     res_bind (listByOwner ownerSub cursor limit db) (\<lambda>(items, next).
       case next of
         None \<Rightarrow> Inr items
       | Some c \<Rightarrow> res_bind (collect_pages fuel ownerSub (Some c) limit db) (\<lambda>rest. Inr (items @ rest)))"

lemma collect_pages_all:
  assumes keys: "distinct (map jb_id (d1_jobs db))" and n: "1 \<le> n" "n \<le> 100"
    and ok: "\<forall>j \<in> set (d1_jobs db). listed ownerSub j \<longrightarrow> databaseJobSummaryRowSchema j"
  shows "length (listing ownerSub cursor db) < fuel \<Longrightarrow>
    collect_pages fuel ownerSub cursor n db = Inr (map summary_of (listing ownerSub cursor db))"
proof (induction fuel arbitrary: cursor)
  case (Suc fuel)
  let ?L = "listing ownerSub cursor db"
  show ?case
  proof (cases "n < length ?L")
    case True
    have rest: "listing ownerSub (Some (cursor_of (last (take n ?L)))) db = drop n ?L"
      by (rule listing_after [OF keys True n(1)])
    then have "collect_pages fuel ownerSub (Some (cursor_of (last (take n ?L)))) n db
        = Inr (map summary_of (drop n ?L))"
      using Suc True n(1) by simp
    then show ?thesis using True listByOwner_page [OF n ok, of cursor]
      by (simp add: map_append [symmetric] del: map_append)
  next
    case False
    then show ?thesis using listByOwner_page [OF n ok, of cursor] by simp
  qed
qed simp

end
