(* ===== verification/CompletedJobs.thy ===== *)
theory CompletedJobs
  imports JobSystem
begin

text \<open>
  When a job counts as completed: in every history, a job is completed only by \<open>finalizeCompleted\<close> of
  apps/orchestrator/src/completion-repository.ts, and then its attempt carries the evidence RunPod
  reported and its three artifacts. Lemmas: no other statement completes an attempt or a job or
  touches the artifacts; \<open>finalizeCompleted\<close> keeps the invariant.
\<close>

section \<open>Statements that complete nothing\<close>

definition completed_attempts :: "d1 \<Rightarrow> attempt_row set" where
  "completed_attempts db = {a \<in> set (d1_attempts db). am_status a = ATT_COMPLETED}"

definition keeps_completions :: "d1 \<Rightarrow> d1 \<Rightarrow> bool" where
  "keeps_completions db db' \<longleftrightarrow>
     d1_artifacts db' = d1_artifacts db \<and> completed_attempts db' = completed_attempts db \<and>
     (\<forall>j' \<in> set (d1_jobs db'). jb_status j' = COMPLETED \<longrightarrow>
        (\<exists>j \<in> set (d1_jobs db). jb_status j = COMPLETED \<and> jb_id j = jb_id j' \<and>
           jb_active_attempt_id j = jb_active_attempt_id j'))"

lemma keeps_completions_refl [simp, intro]: "keeps_completions db db"
  by (auto simp: keeps_completions_def)

lemma keeps_completions_trans:
  "keeps_completions db db1 \<Longrightarrow> keeps_completions db1 db2 \<Longrightarrow> keeps_completions db db2"
  unfolding keeps_completions_def by metis

lemma update_jobs_keeps_completions:
  assumes "update_jobs p f db = Inr (rows, db')"
    "\<And>j. p j \<Longrightarrow> jb_status (f j) = COMPLETED \<Longrightarrow> jb_status j = COMPLETED \<and> jb_id (f j) = jb_id j \<and>
       jb_active_attempt_id (f j) = jb_active_attempt_id j"
  shows "keeps_completions db db'"
  using assms
  by (auto simp: update_jobs_def Let_def keeps_completions_def completed_attempts_def update_where_def
      split: if_splits) (metis | blast)+

lemma update_attempts_keeps_completions:
  assumes "update_attempts p f db = Inr (rows, db')"
    "\<And>a. p a \<Longrightarrow> am_status a \<noteq> ATT_COMPLETED \<and> am_status (f a) \<noteq> ATT_COMPLETED"
  shows "keeps_completions db db'"
  using assms
  by (fastforce simp: update_attempts_def Let_def keeps_completions_def completed_attempts_def update_where_def
      split: if_splits)

lemma insert_event_keeps_completions:
  "insert_event c e db = Inr (rows, db') \<Longrightarrow> keeps_completions db db'"
  by (auto simp: insert_event_def keeps_completions_def completed_attempts_def split: option.splits if_splits)

lemma insert_attempt_keeps_completions:
  "insert_attempt a db = Inr (rows, db') \<Longrightarrow> am_status a \<noteq> ATT_COMPLETED \<Longrightarrow> keeps_completions db db'"
  by (auto simp: insert_attempt_def keeps_completions_def completed_attempts_def split: if_splits)

lemma insert_job_keeps_completions:
  "insert_job j db = Inr (rows, db') \<Longrightarrow> jb_status j \<noteq> COMPLETED \<Longrightarrow> keeps_completions db db'"
  by (auto simp: insert_job_def keeps_completions_def completed_attempts_def split: if_splits)

definition quiet :: "'r statement \<Rightarrow> bool" where
  "quiet s \<longleftrightarrow> (\<forall>db rows db'. s db = Inr (rows, db') \<longrightarrow> keeps_completions db db')"

lemma quiet_batch2: "quiet s1 \<Longrightarrow> quiet s2 \<Longrightarrow> batch2 s1 s2 db = Inr (rows, db') \<Longrightarrow> keeps_completions db db'"
  unfolding quiet_def batch2_Inr_iff by (blast intro: keeps_completions_trans)

lemma quiet_batch3:
  "quiet s1 \<Longrightarrow> quiet s2 \<Longrightarrow> quiet s3 \<Longrightarrow> batch3 s1 s2 s3 db = Inr (rows, db') \<Longrightarrow> keeps_completions db db'"
  unfolding quiet_def batch3_Inr_iff by (blast intro: keeps_completions_trans)

lemma quietD: "quiet s \<Longrightarrow> s db = Inr (rows, db') \<Longrightarrow> keeps_completions db db'"
  by (simp add: quiet_def)


named_theorems quiet_intros

lemma quiet_web_job_statements [quiet_intros]:
  "quiet (mark_upload_ready_sql j ow t e)" "quiet (fail_upload_preparation_sql j ow t)"
  "quiet (complete_upload_sql c)" "quiet (activate_retry_attempt_sql i)"
  "quiet (cancel_job_without_attempt_sql a k)" "quiet (request_job_cancellation_sql a k)"
  "quiet (mark_job_deleted_sql a d t)" "quiet (mark_source_mutated_sql os j v e t)"
  by (auto simp: quiet_def mark_upload_ready_sql_def fail_upload_preparation_sql_def complete_upload_sql_def
      activate_retry_attempt_sql_def cancel_job_without_attempt_sql_def request_job_cancellation_sql_def
      cancelled_job_status_def mark_job_deleted_sql_def mark_source_mutated_sql_def
      intro!: update_jobs_keeps_completions split: if_splits)

lemma quiet_web_attempt_statements [quiet_intros]:
  "quiet (request_attempt_cancellation_sql a k)" "quiet (request_deletion_active_attempt_sql a d)"
  "quiet (fail_active_attempt_source_mutated_sql os j v x e t)"
  by (auto simp: quiet_def request_attempt_cancellation_sql_def cancelled_attempt_status_def
      CANCELLABLE_ATTEMPT_STATUSES_def request_deletion_active_attempt_sql_def
      fail_active_attempt_source_mutated_sql_def OPEN_ATTEMPT_STATUSES_def
      intro!: update_attempts_keeps_completions split: if_splits)

lemma quiet_event_statements [quiet_intros]:
  "quiet (record_retry_event_sql i)" "quiet (record_cancellation_event_sql a)"
  "quiet (record_deletion_event_sql a)" "quiet (record_source_mutated_event_sql os e j ac t)"
  "quiet (record_ingestion_event_sql n)" "quiet (record_rejection_event_sql sj c e t)"
  "quiet (record_event_sql e j x y t)" "quiet (record_claim_event_sql e j x y t)"
  "quiet (record_job_event_sql e j x y t p)" "quiet (record_upload_expiry_sql e j t)"
  by (auto simp: quiet_def record_retry_event_sql_def record_cancellation_event_sql_def
      record_deletion_event_sql_def record_source_mutated_event_sql_def record_ingestion_event_sql_def
      record_rejection_event_sql_def record_event_sql_def record_claim_event_sql_def
      record_job_event_sql_def record_upload_expiry_sql_def intro: insert_event_keeps_completions)

lemma quiet_insertions [quiet_intros]:
  "quiet (insert_new_job nj w)" "quiet (insert_retry_attempt_sql i)" "quiet (insert_attempt_sql n)"
  by (auto simp: quiet_def insert_new_job_def new_job_row_fields insert_retry_attempt_sql_def
      retried_attempt_def insert_attempt_sql_def ingested_attempt_def
      elim!: insert_job_keeps_completions insert_attempt_keeps_completions split: if_splits option.splits)

lemma quiet_orchestrator_job_statements [quiet_intros]:
  "quiet (activate_attempt_sql n)" "quiet (fail_source_sql sj c t)" "quiet (mark_job_submitting_sql j t h)"
  "quiet (mark_job_rejected_sql j t x)" "quiet (mark_job_running_sql j x t)"
  "quiet (fail_expired_unknown_job_sql j x t)" "quiet (cancel_expired_unbound_job_sql j x t)"
  "quiet (fail_stale_accepted_job_sql st)" "quiet (expire_upload_sql j t)"
  by (auto simp: quiet_def activate_attempt_sql_def fail_source_sql_def mark_job_submitting_sql_def
      mark_job_rejected_sql_def failed_job_def mark_job_running_sql_def fail_expired_unknown_job_sql_def
      cancel_expired_unbound_job_sql_def fail_stale_accepted_job_sql_def expire_upload_sql_def
      intro!: update_jobs_keeps_completions split: if_splits)

lemma quiet_finalize_job [quiet_intros]:
  "s \<noteq> ATT_COMPLETED \<Longrightarrow> quiet (finalize_terminal_job_sql j x s c t d)"
  by (cases s) (auto simp: quiet_def finalize_terminal_job_sql_def finalized_job_def
      intro!: update_jobs_keeps_completions)

lemma quiet_orchestrator_attempt_statements [quiet_intros]:
  "quiet (prepare_submission_sql j h t e)" "quiet (mark_submission_accepted_sql x t r)"
  "quiet (mark_submission_unknown_sql x t)" "quiet (mark_attempt_rejected_sql x t)"
  "quiet (claim_winner_sql w)" "quiet (heartbeat_sql x j r h t)"
  "quiet (fail_expired_unknown_attempt_sql x j t)" "quiet (cancel_expired_unbound_attempt_sql x j t)"
  "quiet (fail_stale_accepted_attempt_sql st)"
  "quiet (mark_failed_unclaimed_submission_cancelled_sql x j r t)"
  "quiet (fail_unobservable_attempt_sql un)"
  by (auto simp: quiet_def prepare_submission_sql_def submittable_def mark_submission_accepted_sql_def
      mark_submission_unknown_sql_def mark_attempt_rejected_sql_def claim_winner_sql_def heartbeat_sql_def
      fail_expired_unknown_attempt_sql_def cancel_expired_unbound_attempt_sql_def
      fail_stale_accepted_attempt_sql_def mark_failed_unclaimed_submission_cancelled_sql_def
      failed_attempt_def fail_unobservable_attempt_sql_def unobservable_def occupies_gpu_def
      intro!: update_attempts_keeps_completions)

lemma quiet_record_terminal_status [quiet_intros]: "quiet (record_terminal_status_sql ti)"
  by (auto simp: quiet_def record_terminal_status_sql_def terminal_recordable_def occupies_gpu_def
      terminal_attempt_evolves intro!: update_attempts_keeps_completions split: if_splits)

lemma quiet_finalize_attempt [quiet_intros]:
  "fi_status i \<noteq> ATT_COMPLETED \<Longrightarrow> quiet (finalize_terminal_attempt_sql i)"
  by (auto simp: quiet_def finalize_terminal_attempt_sql_def finalizable_def occupies_gpu_def
      intro!: update_attempts_keeps_completions)

lemma quiet_submission_statements [quiet_intros]:
  "quiet (insert_submission_sql r x y t)" "quiet (mark_submission_winner_sql r x t)"
  by (auto simp: quiet_def insert_submission_sql_def mark_submission_winner_sql_def Let_def
      keeps_completions_def completed_attempts_def split: if_splits)

section \<open>Operations\<close>

lemmas quiet_batches = quiet_intros [THEN quietD] quiet_batch2 quiet_batch3

lemma quiet_source_mutation:
  "source_mutation_batch ow ac j v x e ev t db = Inr (rows, db') \<Longrightarrow> keeps_completions db db'"
  unfolding source_mutation_batch_def by (rule quiet_batch3) (rule quiet_intros)+

lemma quiet_answers:
  "(\<And>rows db'. m = Inr (rows, db') \<Longrightarrow> keeps_completions db db') \<Longrightarrow> keeps_completions db (snd (answer_attempt m db))"
  "(\<And>rows' db'. m' = Inr (rows', db') \<Longrightarrow> keeps_completions db db') \<Longrightarrow> keeps_completions db (snd (answer_both m' db))"
  by (auto simp: answer_attempt_def answer_both_def split: sum.split prod.split)

lemma quiet_web_operations:
  "keeps_completions db (snd (createJob nj db))"
  "keeps_completions db (snd (markUploadReady j ow t e db))"
  "keeps_completions db (snd (failUploadPreparation j ow t db))"
  "keeps_completions db (complete_first ci db)"
  "keeps_completions db (snd (complete_mutate ci u db))"
  "keeps_completions db (snd (retryFailedJob i db))"
  by (auto simp: createJob_def markUploadReady_def failUploadPreparation_def complete_first_def
      complete_mutate_def complete_mutation_batch_def retryFailedJob_def retry_batch_def result_simps
      split: sum.split prod.split if_splits
      intro: quiet_batches quiet_source_mutation intro!: quiet_intros)

lemma quiet_cancel_commit: "keeps_completions db (snd (cancel_commit a c db))"
  by (auto simp: cancel_commit_def cancel_batch_def result_simps split: sum.split prod.split if_splits
      intro: quiet_batches intro!: quiet_intros)

lemma quiet_delete_commit: "keeps_completions db (snd (delete_commit a c t db))"
  by (auto simp: delete_commit_def delete_batch_def split: sum.split prod.split
      intro: quiet_batches intro!: quiet_intros)

lemma quiet_ingest_batch:
  assumes "ingest_batch n db = Inr (rows, db')"
  shows "keeps_completions db db'"
proof -
  obtain r0 db1 where "(if so_generationOneAttemptId (in_job n) = None then insert_attempt_sql n db
      else Inr ([], db)) = Inr (r0, db1)"
    and rest: "\<exists>r. batch2 (activate_attempt_sql n) (record_ingestion_event_sql n) db1 = Inr (r, db')"
    using assms by (auto simp: ingest_batch_def result_simps)
  then have "keeps_completions db db1"
    by (auto split: if_splits intro: quietD intro!: quiet_intros)
  moreover have "keeps_completions db1 db'"
    using rest by (auto intro: quiet_batch2 intro!: quiet_intros)
  ultimately show ?thesis by (rule keeps_completions_trans)
qed

lemma quiet_queue_operations:
  "keeps_completions db (snd (ingestSource n db))"
  "keeps_completions db (snd (markSourceMutated sj e ev t db))"
  "keeps_completions db (snd (failSource sj c ev t db))"
  by (auto simp: ingestSource_def markSourceMutated_def queue_mutation_batch_def Let_def failSource_def
      result_simps split: sum.split prod.split
      intro: quiet_ingest_batch quiet_source_mutation quiet_batches intro!: quiet_intros)

lemma quiet_claim_batch:
  assumes "claim_batch w db = Inr (rows, db')"
  shows "keeps_completions db db'"
proof -
  obtain r1 db1 r2 db2 r3 where "insert_submission_sql (cw_runpodJobId w) (cw_attemptId w) ''worker_claim''
      (cw_timestamp w) db = Inr (r1, db1)" "claim_winner_sql w db1 = Inr (r2, db2)"
    "batch3 (mark_submission_winner_sql (cw_runpodJobId w) (cw_attemptId w) (cw_timestamp w))
      (mark_job_running_sql (cw_jobId w) (cw_attemptId w) (cw_timestamp w))
      (record_claim_event_sql (cw_eventId w) (cw_jobId w) (cw_attemptId w) (cw_runpodJobId w)
         (cw_timestamp w)) db2 = Inr (r3, db')"
    using assms by (auto simp: claim_batch_def result_simps)
  then have "keeps_completions db db1" "keeps_completions db1 db2" "keeps_completions db2 db'"
    by (auto intro: quiet_batches intro!: quiet_intros)
  then show ?thesis by (blast intro: keeps_completions_trans)
qed


lemma quiet_submission_operations:
  "keeps_completions db (snd (prepareSubmission j h t e db))"
  "keeps_completions db (snd (recordSubmissionAccepted x r t db))"
  "keeps_completions db (snd (recordClaimSubmission x r t db))"
  "keeps_completions db (snd (expireUpload ev j t db))"
  by (auto simp: prepareSubmission_def prepare_batch_def recordSubmissionAccepted_def
      recordClaimSubmission_def expireUpload_def result_simps split: sum.split prod.split
      intro: quiet_batches intro!: quiet_intros)

lemma quiet_recordSubmissionUnknown: "keeps_completions db (snd (recordSubmissionUnknown x t db))"
  unfolding recordSubmissionUnknown_def
  by (rule quiet_answers(1)) (auto simp: result_simps intro: quiet_batches intro!: quiet_intros)

lemma quiet_claimWinner: "keeps_completions db (snd (claimWinner w db))"
  unfolding claimWinner_def
  by (rule quiet_answers(1)) (auto simp: result_simps intro: quiet_batches quiet_claim_batch intro!: quiet_intros)

lemma quiet_markHeartbeat: "keeps_completions db (snd (markHeartbeat x h j r t db))"
  unfolding markHeartbeat_def
  by (rule quiet_answers(1)) (auto simp: result_simps intro: quiet_batches intro!: quiet_intros)

lemma quiet_markFailedUnclaimedSubmissionCancelled: "keeps_completions db (snd (markFailedUnclaimedSubmissionCancelled x e j r t db))"
  unfolding markFailedUnclaimedSubmissionCancelled_def
  by (rule quiet_answers(1)) (auto simp: result_simps intro: quiet_batches intro!: quiet_intros)

lemma quiet_recordTerminalStatus: "keeps_completions db (snd (recordTerminalStatus ti db))"
  unfolding recordTerminalStatus_def
  by (rule quiet_answers(1)) (auto simp: result_simps split: if_splits intro: quiet_batches intro!: quiet_intros)

lemma quiet_recordSubmissionRejected: "keeps_completions db (snd (recordSubmissionRejected x e j t db))"
  unfolding recordSubmissionRejected_def
  by (rule quiet_answers(2)) (auto simp: result_simps intro: quiet_batches intro!: quiet_intros)

lemma quiet_failExpiredUnknownSubmission: "keeps_completions db (snd (failExpiredUnknownSubmission x e j t db))"
  unfolding failExpiredUnknownSubmission_def
  by (rule quiet_answers(2)) (auto simp: result_simps intro: quiet_batches intro!: quiet_intros)

lemma quiet_cancelExpiredUnboundSubmission: "keeps_completions db (snd (cancelExpiredUnboundSubmission x e j t db))"
  unfolding cancelExpiredUnboundSubmission_def
  by (rule quiet_answers(2)) (auto simp: result_simps intro: quiet_batches intro!: quiet_intros)

lemma quiet_failStaleAcceptedSubmission: "keeps_completions db (snd (failStaleAcceptedSubmission st db))"
  unfolding failStaleAcceptedSubmission_def
  by (rule quiet_answers(2)) (auto simp: result_simps intro: quiet_batches intro!: quiet_intros)

lemma quiet_failUnobservableAttempt: "keeps_completions db (snd (failUnobservableAttempt un db))"
  unfolding failUnobservableAttempt_def
proof (rule quiet_answers(2))
  fix rows db' assume "res_bind (zod_parse unobservable_input_ok un) (\<lambda>i.
       batch3 (fail_unobservable_attempt_sql i)
         (finalize_terminal_job_sql (un_jobId i) (un_attemptId i) ATT_FAILED
            (Some PE_PROCESSING_FAILED) (un_timestamp i) None)
         (record_job_event_sql (un_eventId i) (un_jobId i) (un_attemptId i)
            ''job_reconciliation_expired'' (un_timestamp i)
            (\<lambda>j. jb_status j = FAILED \<and> jb_failed_at j = Some (un_timestamp i))) db) = Inr (rows, db')"
  then have "batch3 (fail_unobservable_attempt_sql un)
         (finalize_terminal_job_sql (un_jobId un) (un_attemptId un) ATT_FAILED
            (Some PE_PROCESSING_FAILED) (un_timestamp un) None)
         (record_job_event_sql (un_eventId un) (un_jobId un) (un_attemptId un)
            ''job_reconciliation_expired'' (un_timestamp un)
            (\<lambda>j. jb_status j = FAILED \<and> jb_failed_at j = Some (un_timestamp un))) db = Inr (rows, db')"
    by (simp add: result_simps)
  then show "keeps_completions db db'"
    by (rule quiet_batch3 [rotated -1]) (auto intro!: quiet_intros)
qed

lemma quiet_finalizeTerminal: "keeps_completions db (snd (finalizeTerminal fi db))"
proof -
  have "keeps_completions db db'"
    if "fi_status fi \<in> {ATT_CANCELLED, ATT_FAILED}"
      "batch2 (finalize_terminal_attempt_sql fi) (finalize_terminal_job_sql (fi_jobId fi) (fi_attemptId fi)
        (fi_status fi) (fi_errorCode fi) (fi_timestamp fi) None) db = Inr (rows, db')" for rows db'
    using that(2) by (rule quiet_batch2 [rotated -1]) (use that(1) in \<open>auto intro!: quiet_intros\<close>)
  then show ?thesis
    unfolding finalizeTerminal_def
    by (intro quiet_answers(2)) (auto simp: result_simps finalize_input_ok_def split: if_splits)
qed

lemma quiet_request:
  assumes "\<forall>i. q \<noteq> Finalize_completed i"
  shows "keeps_completions db (perform q r db)"
  using assms
  by (cases q) (auto simp: quiet_web_operations quiet_cancel_commit quiet_delete_commit
      quiet_queue_operations quiet_submission_operations quiet_recordSubmissionUnknown quiet_claimWinner quiet_markHeartbeat
      quiet_markFailedUnclaimedSubmissionCancelled quiet_recordTerminalStatus quiet_recordSubmissionRejected
      quiet_failExpiredUnknownSubmission quiet_cancelExpiredUnboundSubmission quiet_failStaleAcceptedSubmission
      quiet_failUnobservableAttempt quiet_finalizeTerminal
      split: sum.split phase.split delete_phase.split complete_phase.split option.split)

section \<open>Evidence\<close>

definition completion_evidence :: "d1 \<Rightarrow> attempt_row \<Rightarrow> bool" where
  "completion_evidence db a \<longleftrightarrow>
     am_winning_runpod_job_id a \<noteq> None \<and> am_runpod_terminal_job_id a = am_winning_runpod_job_id a \<and>
     am_runpod_terminal_status a = Some ''COMPLETED'' \<and> am_runpod_output_status a = Some ''completed'' \<and>
     am_runpod_manifest_written a = Some True \<and>
     (\<forall>fmt \<in> set OUTPUT_FORMATS. \<exists>f \<in> set (d1_artifacts db). af_attempt_id f = am_id a \<and>
        af_job_id f = am_job_id a \<and> af_format f = fmt)"

definition artifacts_ok :: "d1 \<Rightarrow> bool" where
  "artifacts_ok db \<longleftrightarrow>
     distinct (map (\<lambda>f. (af_attempt_id f, af_format f)) (d1_artifacts db)) \<and>
     distinct (map af_object_key (d1_artifacts db)) \<and> list_all artifact_checks (d1_artifacts db)"

definition completions_verified :: "d1 \<Rightarrow> bool" where
  "completions_verified db \<longleftrightarrow>
     artifacts_ok db \<and> (\<forall>a \<in> completed_attempts db. completion_evidence db a) \<and>
     (\<forall>j \<in> set (d1_jobs db). jb_status j = COMPLETED \<longrightarrow>
        (\<exists>a \<in> completed_attempts db. jb_active_attempt_id j = Some (am_id a) \<and> am_job_id a = jb_id j))"

lemma keeps_completions_verified:
  assumes "keeps_completions db db'" "completions_verified db"
  shows "completions_verified db'"
  using assms
  unfolding completions_verified_def keeps_completions_def artifacts_ok_def completion_evidence_def
  by (metis (no_types, lifting))

lemma insert_artifact_ok:
  assumes "insert_artifact_sql i v db = Inr (rows, db')" "artifacts_ok db"
  shows "artifacts_ok db' \<and> set (d1_artifacts db) \<subseteq> set (d1_artifacts db')"
  using assms
  by (auto simp: insert_artifact_sql_def Let_def artifacts_ok_def artifact_of_def image_iff split: if_splits) blast

lemma insert_artifacts_ok:
  "insert_artifacts i vs db = Inr db' \<Longrightarrow> artifacts_ok db \<Longrightarrow>
   artifacts_ok db' \<and> set (d1_artifacts db) \<subseteq> set (d1_artifacts db')"
proof (induction vs arbitrary: db)
  case (Cons v vs)
  then obtain rows db1 where one: "insert_artifact_sql i v db = Inr (rows, db1)"
    "insert_artifacts i vs db1 = Inr db'" by (auto simp: result_simps)
  then show ?case using Cons.IH [OF one(2)] insert_artifact_ok [OF one(1) Cons.prems(2)] by blast
qed simp

lemma completion_evidence_mono:
  "completion_evidence db a \<Longrightarrow> set (d1_artifacts db) \<subseteq> set (d1_artifacts db') \<Longrightarrow> completion_evidence db' a"
  unfolding completion_evidence_def by blast

lemma find_SomeD: "find p xs = Some x \<Longrightarrow> p x \<and> x \<in> set xs"
  by (auto simp: find_Some_iff)

lemma required_artifact_Inr: "required_artifact fmt vs = Inr v \<Longrightarrow> va_format v = fmt \<and> v \<in> set vs"
  by (auto simp: required_artifact_def dest!: find_SomeD split: option.splits)

lemma if_thrownD: "(if c then Inl e else x) = Inr y \<Longrightarrow> \<not> c \<and> x = Inr y"
  by (simp split: if_splits)

lemma ordered_artifacts_cases:
  "ordered_artifacts vs = Inr ws \<Longrightarrow>
   \<exists>m j s. required_artifact ''markdown'' vs = Inr m \<and> required_artifact ''json'' vs = Inr j \<and>
     required_artifact ''srt'' vs = Inr s \<and> ws = [m, j, s]"
  unfolding ordered_artifacts_def
  by (drule if_thrownD, erule conjE) (simp only: result_simps sum.inject, blast)

lemma ordered_artifacts_formats:
  assumes "ordered_artifacts vs = Inr ws"
  shows "map va_format ws = OUTPUT_FORMATS" "set ws \<subseteq> set vs"
proof -
  obtain m j s where "required_artifact ''markdown'' vs = Inr m" "required_artifact ''json'' vs = Inr j"
    "required_artifact ''srt'' vs = Inr s" and ws: "ws = [m, j, s]"
    using ordered_artifacts_cases [OF assms] by blast
  note found = this(1-3) [THEN required_artifact_Inr]
  show "map va_format ws = OUTPUT_FORMATS" "set ws \<subseteq> set vs"
    unfolding ws using found by (simp_all add: OUTPUT_FORMATS_def)
qed

lemma update_jobs_members:
  "update_jobs p f db = Inr (rows, db') \<Longrightarrow> j \<in> set (d1_jobs db') \<Longrightarrow>
   j \<in> set (d1_jobs db) \<or> (\<exists>k \<in> set (d1_jobs db). p k \<and> j = f k)"
  by (auto simp: update_jobs_def Let_def update_where_def split: if_splits)

lemma completing_evidence:
  assumes "completing i vs db a" "map va_format vs = OUTPUT_FORMATS"
  shows "completion_evidence db (a\<lparr>am_status := s, am_heartbeat_revoked_at := h, am_completed_at := c,
    am_error_code := e, am_error_message := m, am_updated_at := u\<rparr>)"
proof -
  have "\<exists>f \<in> set (d1_artifacts db). af_attempt_id f = am_id a \<and> af_job_id f = am_job_id a \<and> af_format f = fmt"
    if fmt: "fmt \<in> set OUTPUT_FORMATS" for fmt
  proof -
    have "fmt \<in> va_format ` set vs" using fmt assms(2) by (metis set_map)
    then obtain v where v: "v \<in> set vs" "va_format v = fmt" by blast
    then have "has_artifact i db v" using assms(1) by (simp add: completing_def list_all_iff)
    then show ?thesis
      using assms(1) v(2) unfolding has_artifact_def completing_def by metis
  qed
  then show ?thesis using assms(1) by (simp add: completion_evidence_def completing_def completed_by_def)
qed

lemma completed_attempts_update:
  assumes "update_attempts p f db = Inr (rows, db')" "\<And>a. p a \<Longrightarrow> am_status a \<noteq> ATT_COMPLETED"
    "\<And>a. am_status (f a) = ATT_COMPLETED"
  shows "completed_attempts db' = completed_attempts db \<union> f ` {a \<in> set (d1_attempts db). p a}"
    "d1_jobs db' = d1_jobs db" "d1_artifacts db' = d1_artifacts db"
  using assms
  by (auto simp: update_attempts_def Let_def completed_attempts_def update_where_def split: if_splits)

lemma completion_batch_verified:
  assumes ok: "completions_verified db" and formats: "map va_format vs = OUTPUT_FORMATS"
    and batch: "completion_batch i vs db = Inr (rows, db')"
  shows "completions_verified db'"
proof -
  obtain db1 attempts db2 jobs db3 outbox db4 events where
    ins: "insert_artifacts i vs db = Inr db1"
    and upa: "complete_attempt_sql i vs db1 = Inr (attempts, db2)"
    and upj: "finalize_terminal_job_sql (ci_jobId i) (ci_attemptId i) ATT_COMPLETED None (ci_timestamp i)
            (Some (ci_durationSeconds i)) db2 = Inr (jobs, db3)"
    and notify: "insert_notification_sql i db3 = Inr (outbox, db4)"
    and event: "record_job_event_sql (ci_eventId i) (ci_jobId i) (ci_attemptId i) ''job_completed''
            (ci_timestamp i) (\<lambda>j. jb_status j = COMPLETED \<and> jb_completed_at j = Some (ci_timestamp i)) db4
      = Inr (events, db')"
    using batch by (fastforce simp: completion_batch_def result_simps batch3_Inr_iff)
  have art: "artifacts_ok db1" "set (d1_artifacts db) \<subseteq> set (d1_artifacts db1)"
    using insert_artifacts_ok [OF ins] ok by (simp_all add: completions_verified_def)
  have one: "completed_attempts db1 = completed_attempts db" "d1_jobs db1 = d1_jobs db"
    using insert_artifacts_tables [OF ins] by (auto simp: completed_attempts_def)
  let ?f = "\<lambda>a. a\<lparr>am_status := ATT_COMPLETED, am_heartbeat_revoked_at := revoked_heartbeat (ci_timestamp i) a,
    am_completed_at := Some (ci_timestamp i), am_error_code := None, am_error_message := None,
    am_updated_at := ci_timestamp i\<rparr>"
  have two: "completed_attempts db2 = completed_attempts db1 \<union> ?f ` {a \<in> set (d1_attempts db1). completing i vs db1 a}"
    "d1_jobs db2 = d1_jobs db1" "d1_artifacts db2 = d1_artifacts db1"
    by (rule completed_attempts_update [OF upa [unfolded complete_attempt_sql_def]];
        auto simp: completing_def completed_by_def)+
  have evidence: "\<forall>a \<in> completed_attempts db2. completion_evidence db2 a"
  proof
    fix a assume "a \<in> completed_attempts db2"
    then consider "a \<in> completed_attempts db" | b where "completing i vs db1 b" "a = ?f b"
      using two(1) one(1) by blast
    then show "completion_evidence db2 a"
    proof cases
      case 1
      then have "completion_evidence db a" using ok by (simp add: completions_verified_def)
      then show ?thesis by (rule completion_evidence_mono) (use art(2) two(3) in simp)
    next
      case 2
      then have "completion_evidence db1 a" using completing_evidence [OF 2(1) formats] by simp
      then show ?thesis by (rule completion_evidence_mono) (use two(3) in simp)
    qed
  qed
  have three: "completed_attempts db3 = completed_attempts db2" "d1_artifacts db3 = d1_artifacts db2"
    using upj by (auto simp: finalize_terminal_job_sql_def update_jobs_def Let_def completed_attempts_def
        split: if_splits)
  have jobs3: "\<exists>a \<in> completed_attempts db2. jb_active_attempt_id j = Some (am_id a) \<and> am_job_id a = jb_id j"
    if j: "j \<in> set (d1_jobs db3)" "jb_status j = COMPLETED" for j
  proof -
    have "j \<in> set (d1_jobs db2) \<or> (\<exists>k. jb_id k = ci_jobId i \<and> jb_active_attempt_id k = Some (ci_attemptId i) \<and>
        (\<exists>a \<in> set (d1_attempts db2). am_id a = ci_attemptId i \<and> am_job_id a = ci_jobId i \<and>
           am_status a = ATT_COMPLETED) \<and> j = finalized_job ATT_COMPLETED None (ci_timestamp i)
             (Some (ci_durationSeconds i)) k)"
      using update_jobs_members [OF upj [unfolded finalize_terminal_job_sql_def] j(1)] by blast
    then show ?thesis
    proof
      assume "j \<in> set (d1_jobs db2)"
      then have "j \<in> set (d1_jobs db)" using one(2) two(2) by simp
      then obtain a where "a \<in> completed_attempts db" "jb_active_attempt_id j = Some (am_id a)"
        "am_job_id a = jb_id j" using ok j(2) unfolding completions_verified_def by blast
      then show ?thesis using one(1) two(1) by blast
    next
      assume "\<exists>k. jb_id k = ci_jobId i \<and> jb_active_attempt_id k = Some (ci_attemptId i) \<and>
        (\<exists>a \<in> set (d1_attempts db2). am_id a = ci_attemptId i \<and> am_job_id a = ci_jobId i \<and>
           am_status a = ATT_COMPLETED) \<and> j = finalized_job ATT_COMPLETED None (ci_timestamp i)
             (Some (ci_durationSeconds i)) k"
      then show ?thesis by (auto simp: completed_attempts_def finalized_job_def)
    qed
  qed
  have "completions_verified db3"
    unfolding completions_verified_def three
    using jobs3 evidence art(1) two(3) three(2)
    by (auto simp: artifacts_ok_def completion_evidence_def)
  moreover have "keeps_completions db3 db4"
    using insert_notification_tables [OF notify] by (auto simp: keeps_completions_def completed_attempts_def)
  moreover have "keeps_completions db4 db'" using event by (auto intro: quiet_intros [THEN quietD])
  ultimately show ?thesis using keeps_completions_verified by blast
qed

lemma finalizeCompleted_verified:
  assumes "completions_verified db"
  shows "completions_verified (snd (finalizeCompleted i db))"
proof -
  have "completions_verified db'"
    if "ordered_artifacts (ci_artifacts i) = Inr vs" "completion_batch i vs db = Inr (rows, db')" for vs rows db'
    using completion_batch_verified [OF assms ordered_artifacts_formats(1) [OF that(1)] that(2)] .
  then show ?thesis
    using assms by (auto simp: finalizeCompleted_def answer_both_def result_simps split: sum.split prod.split)
qed

lemma request_verified: "completions_verified db \<Longrightarrow> completions_verified (perform q r db)"
  using finalizeCompleted_verified keeps_completions_verified [OF quiet_request, of q db r]
  by (cases "\<exists>i. q = Finalize_completed i") auto

lemma history_verified:
  "history h \<Longrightarrow> completions_verified (last h) \<Longrightarrow> \<forall>db \<in> set h. completions_verified db"
proof (induction rule: history.induct)
  case (request db h r q)
  have "completions_verified (last (db # h))" using request.prems by (metis last_ConsR list.distinct(1))
  then have all: "\<forall>x \<in> set (db # h). completions_verified x" by (rule request.IH)
  then have "completions_verified (perform q r db)" by (intro request_verified) (metis list.set_intros(1))
  with all show ?case by (metis set_ConsD)
qed simp

text \<open>The artifacts of a completed attempt: one of each format.\<close>

lemma evidence_artifacts:
  assumes ok: "artifacts_ok db" and ev: "completion_evidence db a"
  shows "bij_betw af_format {f \<in> set (d1_artifacts db). af_attempt_id f = am_id a} (set OUTPUT_FORMATS)"
proof (rule bij_betw_imageI)
  have "inj_on (\<lambda>f. (af_attempt_id f, af_format f)) (set (d1_artifacts db))"
    using ok by (simp add: artifacts_ok_def distinct_map)
  then show "inj_on af_format {f \<in> set (d1_artifacts db). af_attempt_id f = am_id a}"
    by (auto simp: inj_on_def)
  show "af_format ` {f \<in> set (d1_artifacts db). af_attempt_id f = am_id a} = set OUTPUT_FORMATS"
    using ok ev by (fastforce simp: artifacts_ok_def list_all_iff artifact_checks_def completion_evidence_def)
qed

end
