(* ===== verification/JobTable.thy ===== *)
theory JobTable
  imports CompletedJobs
begin

text \<open>
  The statuses of jobs and the transition table of packages/domain/src/state.ts: every statement of the
  repositories moves a job along \<open>JOB_STATUS_TRANSITIONS\<close>, or makes one of six moves that the table does not
  list. Lemmas: which statements leave the jobs alone, which move them as allowed, and so for every operation.
\<close>

section \<open>The moves of the statements\<close>

text \<open>
  The moves outside the table: ingestion before the upload was reported, a cancellation before the submission, and the
  end of an attempt that RunPod cancelled although nobody had asked for it.
\<close>

definition unlisted_moves :: "(job_status \<times> job_status) set" where
  "unlisted_moves =
     {(CREATED, SUBMISSION_PENDING), (UPLOADING, SUBMISSION_PENDING),
      (UPLOADED, CANCELLED), (SUBMISSION_PENDING, CANCELLED),
      (SUBMITTING, CANCELLED), (RUNNING, CANCELLED)}"

definition allowed_move :: "job_status \<Rightarrow> job_status \<Rightarrow> bool" where
  "allowed_move s t \<longleftrightarrow> s = t \<or> canTransitionJobStatus s t \<or> (s, t) \<in> unlisted_moves"

definition follows_table :: "d1 \<Rightarrow> d1 \<Rightarrow> bool" where
  "follows_table db db' \<longleftrightarrow>
     (\<forall>j \<in> set (d1_jobs db). \<exists>j' \<in> set (d1_jobs db'). jb_id j' = jb_id j \<and> allowed_move (jb_status j) (jb_status j'))"

definition keeps_jobs :: "d1 \<Rightarrow> d1 \<Rightarrow> bool" where
  "keeps_jobs db db' \<longleftrightarrow> set (d1_jobs db) \<subseteq> set (d1_jobs db')"

lemma allowed_move_refl [simp]: "allowed_move s s"
  by (simp add: allowed_move_def)

lemma keeps_jobs_refl [simp, intro]: "keeps_jobs db db"
  by (simp add: keeps_jobs_def)

lemma keeps_follows: "keeps_jobs db db' \<Longrightarrow> follows_table db db'"
  by (auto simp: keeps_jobs_def follows_table_def intro: allowed_move_refl)

lemma follows_refl [simp, intro]: "follows_table db db"
  by (simp add: keeps_follows)

lemma keeps_jobs_trans: "keeps_jobs db db1 \<Longrightarrow> keeps_jobs db1 db2 \<Longrightarrow> keeps_jobs db db2"
  by (auto simp: keeps_jobs_def)

lemma keeps_then_follows: "keeps_jobs db db1 \<Longrightarrow> follows_table db1 db2 \<Longrightarrow> follows_table db db2"
  by (auto simp: keeps_jobs_def follows_table_def)

lemma follows_then_keeps: "follows_table db db1 \<Longrightarrow> keeps_jobs db1 db2 \<Longrightarrow> follows_table db db2"
  unfolding keeps_jobs_def follows_table_def by (meson subsetD)

definition still :: "'r statement \<Rightarrow> bool" where
  "still s \<longleftrightarrow> (\<forall>db rows db'. s db = Inr (rows, db') \<longrightarrow> keeps_jobs db db')"

definition tabled :: "'r statement \<Rightarrow> bool" where
  "tabled s \<longleftrightarrow> (\<forall>db rows db'. s db = Inr (rows, db') \<longrightarrow> follows_table db db')"

lemma still_tabled: "still s \<Longrightarrow> tabled s"
  by (simp add: still_def tabled_def keeps_follows)

lemma stillD: "still s \<Longrightarrow> s db = Inr (rows, db') \<Longrightarrow> keeps_jobs db db'"
  by (simp add: still_def)

lemma tabledD: "tabled s \<Longrightarrow> s db = Inr (rows, db') \<Longrightarrow> follows_table db db'"
  by (simp add: tabled_def)

lemma update_jobs_follows:
  assumes "update_jobs p f db = Inr (rows, db')"
    "\<And>j. j \<in> set (d1_jobs db) \<Longrightarrow> p j \<Longrightarrow> jb_id (f j) = jb_id j \<and> allowed_move (jb_status j) (jb_status (f j))"
  shows "follows_table db db'"
proof -
  have "d1_jobs db' = map (\<lambda>j. if p j then f j else j) (d1_jobs db)"
    using assms(1) by (auto simp: update_jobs_def Let_def update_where_def split: if_splits)
  moreover have "jb_id (if p j then f j else j) = jb_id j \<and> allowed_move (jb_status j) (jb_status (if p j then f j else j))"
    if "j \<in> set (d1_jobs db)" for j using assms(2) that by simp
  ultimately show ?thesis
    unfolding follows_table_def by (intro ballI, rule_tac x = "if p j then f j else j" in bexI) simp_all
qed

lemma update_attempts_still: "update_attempts p f db = Inr (rows, db') \<Longrightarrow> keeps_jobs db db'"
  by (auto simp: update_attempts_def Let_def keeps_jobs_def split: if_splits)

lemma insert_event_still: "insert_event c e db = Inr (rows, db') \<Longrightarrow> keeps_jobs db db'"
  by (auto simp: insert_event_def keeps_jobs_def split: option.splits if_splits)

lemma insert_attempt_still: "insert_attempt a db = Inr (rows, db') \<Longrightarrow> keeps_jobs db db'"
  by (auto simp: insert_attempt_def keeps_jobs_def split: if_splits)

lemma insert_job_still: "insert_job j db = Inr (rows, db') \<Longrightarrow> keeps_jobs db db'"
  by (auto simp: insert_job_def keeps_jobs_def split: if_splits)

text \<open>One statement of a batch moves jobs.\<close>

lemma tabled_batch2:
  "tabled s1 \<Longrightarrow> still s2 \<Longrightarrow> batch2 s1 s2 db = Inr (rows, db') \<Longrightarrow> follows_table db db'"
  "still s1 \<Longrightarrow> tabled s2 \<Longrightarrow> batch2 s1 s2 db = Inr (rows, db') \<Longrightarrow> follows_table db db'"
  unfolding tabled_def still_def batch2_Inr_iff
  by (blast intro: keeps_then_follows follows_then_keeps)+

lemma tabled_batch3:
  "tabled s1 \<Longrightarrow> still s2 \<Longrightarrow> still s3 \<Longrightarrow> batch3 s1 s2 s3 db = Inr (rows, db') \<Longrightarrow> follows_table db db'"
  "still s1 \<Longrightarrow> tabled s2 \<Longrightarrow> still s3 \<Longrightarrow> batch3 s1 s2 s3 db = Inr (rows, db') \<Longrightarrow> follows_table db db'"
  unfolding tabled_def still_def batch3_Inr_iff
  by (blast intro: keeps_then_follows follows_then_keeps)+

section \<open>Statements\<close>

named_theorems still_intros \<open>statements that leave the jobs alone\<close>
named_theorems tabled_intros \<open>statements that move jobs as allowed\<close>

lemmas allowed_moves = allowed_move_def unlisted_moves_def status_defs

lemma still_web_statements [still_intros]:
  "still (request_attempt_cancellation_sql a k)" "still (request_deletion_active_attempt_sql a d)"
  "still (fail_active_attempt_source_mutated_sql os j v x e t)"
  "still (record_retry_event_sql i)" "still (record_cancellation_event_sql a)"
  "still (record_deletion_event_sql a)" "still (record_source_mutated_event_sql os e j ac t)"
  "still (insert_new_job nj w)" "still (insert_retry_attempt_sql i)"
  by (auto simp: still_def request_attempt_cancellation_sql_def request_deletion_active_attempt_sql_def
      fail_active_attempt_source_mutated_sql_def record_retry_event_sql_def record_cancellation_event_sql_def
      record_deletion_event_sql_def record_source_mutated_event_sql_def insert_new_job_def insert_retry_attempt_sql_def
      elim!: update_attempts_still insert_event_still insert_job_still insert_attempt_still
      split: if_splits option.splits)

lemma still_queue_statements [still_intros]:
  "still (insert_attempt_sql n)" "still (record_ingestion_event_sql n)" "still (record_rejection_event_sql sj c e t)"
  by (auto simp: still_def insert_attempt_sql_def record_ingestion_event_sql_def record_rejection_event_sql_def
      elim!: insert_event_still insert_attempt_still split: if_splits)

lemma still_event_statements [still_intros]:
  "still (record_event_sql e j x y t)" "still (record_claim_event_sql e j x y t)"
  "still (record_job_event_sql e j x y t p)" "still (record_upload_expiry_sql e j t)"
  by (auto simp: still_def record_event_sql_def record_claim_event_sql_def record_job_event_sql_def
      record_upload_expiry_sql_def elim!: insert_event_still)

lemma still_attempt_statements [still_intros]:
  "still (prepare_submission_sql j h t e)" "still (mark_submission_accepted_sql x t r)"
  "still (mark_submission_unknown_sql x t)" "still (mark_attempt_rejected_sql x t)"
  "still (claim_winner_sql w)" "still (heartbeat_sql x j r h t)"
  "still (fail_expired_unknown_attempt_sql x j t)" "still (cancel_expired_unbound_attempt_sql x j t)"
  "still (fail_stale_accepted_attempt_sql st)" "still (mark_failed_unclaimed_submission_cancelled_sql x j r t)"
  "still (fail_unobservable_attempt_sql un)" "still (record_terminal_status_sql ti)"
  "still (finalize_terminal_attempt_sql fi)" "still (complete_attempt_sql ci vs)"
  by (auto simp: still_def prepare_submission_sql_def mark_submission_accepted_sql_def
      mark_submission_unknown_sql_def mark_attempt_rejected_sql_def claim_winner_sql_def heartbeat_sql_def
      fail_expired_unknown_attempt_sql_def cancel_expired_unbound_attempt_sql_def
      fail_stale_accepted_attempt_sql_def mark_failed_unclaimed_submission_cancelled_sql_def
      fail_unobservable_attempt_sql_def record_terminal_status_sql_def finalize_terminal_attempt_sql_def
      complete_attempt_sql_def elim!: update_attempts_still)

lemma still_other_statements [still_intros]:
  "still (insert_submission_sql r x y t)" "still (mark_submission_winner_sql r x t)"
  by (auto simp: still_def insert_submission_sql_def mark_submission_winner_sql_def Let_def keeps_jobs_def
      split: if_splits)

lemma tabled_web_statements [tabled_intros]:
  "tabled (mark_upload_ready_sql j ow t e)" "tabled (fail_upload_preparation_sql j ow t)"
  "tabled (complete_upload_sql c)" "tabled (activate_retry_attempt_sql i)"
  "tabled (cancel_job_without_attempt_sql a k)" "tabled (request_job_cancellation_sql a k)"
  "tabled (mark_job_deleted_sql a d t)" "tabled (mark_source_mutated_sql os j v e t)"
  by (auto simp: tabled_def mark_upload_ready_sql_def fail_upload_preparation_sql_def complete_upload_sql_def
      activate_retry_attempt_sql_def retryable_job_def cancel_job_without_attempt_sql_def request_job_cancellation_sql_def
      cancelled_job_status_def CANCELLABLE_JOB_STATUSES_def UPLOAD_STATUSES_def ACTIVE_JOB_STATUSES_def
      mark_job_deleted_sql_def mark_source_mutated_sql_def allowed_moves
      intro!: update_jobs_follows split: if_splits)

lemma tabled_orchestrator_statements [tabled_intros]:
  "tabled (activate_attempt_sql n)" "tabled (fail_source_sql sj c t)" "tabled (mark_job_submitting_sql j t h)"
  "tabled (mark_job_rejected_sql j t x)" "tabled (mark_job_running_sql j x t)"
  "tabled (fail_expired_unknown_job_sql j x t)" "tabled (cancel_expired_unbound_job_sql j x t)"
  "tabled (fail_stale_accepted_job_sql st)" "tabled (expire_upload_sql j t)"
  by (auto simp: tabled_def activate_attempt_sql_def ingestible_def Let_def UPLOAD_STATUSES_def fail_source_sql_def
      mark_job_submitting_sql_def mark_job_rejected_sql_def failed_job_def mark_job_running_sql_def
      fail_expired_unknown_job_sql_def cancel_expired_unbound_job_sql_def fail_stale_accepted_job_sql_def
      expire_upload_sql_def upload_expired_def allowed_moves
      intro!: update_jobs_follows split: if_splits)

lemma tabled_finalize_job [tabled_intros]:
  "s \<in> {ATT_CANCELLED, ATT_FAILED} \<Longrightarrow> tabled (finalize_terminal_job_sql j x s c t d)"
  unfolding tabled_def finalize_terminal_job_sql_def
  by (intro allI impI, erule update_jobs_follows) (auto simp: finalized_job_def in_progress_def allowed_moves)

section \<open>Operations\<close>

lemmas tabled_batches = tabled_intros [THEN tabledD] still_intros [THEN stillD, THEN keeps_follows] tabled_batch2 tabled_batch3

lemma tabled_source_mutation:
  "source_mutation_batch ow ac j v x e ev t db = Inr (rows, db') \<Longrightarrow> follows_table db db'"
  unfolding source_mutation_batch_def by (rule tabled_batch3(2)) (rule still_intros tabled_intros)+

lemma tabled_answers:
  "(\<And>rows db'. m = Inr (rows, db') \<Longrightarrow> follows_table db db') \<Longrightarrow> follows_table db (snd (answer_attempt m db))"
  "(\<And>rows' db'. m' = Inr (rows', db') \<Longrightarrow> follows_table db db') \<Longrightarrow> follows_table db (snd (answer_both m' db))"
  by (auto simp: answer_attempt_def answer_both_def split: sum.split prod.split)

lemma tabled_web_operations:
  "follows_table db (snd (createJob nj db))"
  "follows_table db (snd (markUploadReady j ow t e db))"
  "follows_table db (snd (failUploadPreparation j ow t db))"
  "follows_table db (complete_first ci db)"
  "follows_table db (snd (complete_mutate ci u db))"
  "follows_table db (snd (cancel_commit a c db))"
  "follows_table db (snd (delete_commit a d t db))"
  by (auto simp: createJob_def markUploadReady_def failUploadPreparation_def complete_first_def
      complete_mutate_def complete_mutation_batch_def cancel_commit_def cancel_batch_def delete_commit_def
      delete_batch_def result_simps
      split: sum.split prod.split if_splits
      intro: tabled_batches tabled_source_mutation intro!: still_intros tabled_intros)

lemma tabled_retry: "follows_table db (snd (retryFailedJob i db))"
  by (auto simp: retryFailedJob_def retry_batch_def result_simps split: sum.split prod.split if_splits
      intro: tabled_batch3(2) intro!: still_intros tabled_intros)

lemma tabled_ingest_batch:
  assumes "ingest_batch n db = Inr (rows, db')"
  shows "follows_table db db'"
proof -
  obtain r0 db1 where "(if so_generationOneAttemptId (in_job n) = None then insert_attempt_sql n db
      else Inr ([], db)) = Inr (r0, db1)"
    and rest: "\<exists>r. batch2 (activate_attempt_sql n) (record_ingestion_event_sql n) db1 = Inr (r, db')"
    using assms by (auto simp: ingest_batch_def result_simps)
  then have "keeps_jobs db db1"
    by (auto split: if_splits intro: stillD intro!: still_intros)
  moreover have "follows_table db1 db'"
    using rest by (auto intro: tabled_batch2(1) intro!: still_intros tabled_intros)
  ultimately show ?thesis by (rule keeps_then_follows)
qed

lemma tabled_queue_operations:
  "follows_table db (snd (ingestSource n db))"
  "follows_table db (snd (markSourceMutated sj e ev t db))"
  "follows_table db (snd (failSource sj c ev t db))"
  by (auto simp: ingestSource_def markSourceMutated_def queue_mutation_batch_def Let_def failSource_def
      result_simps split: sum.split prod.split
      intro: tabled_ingest_batch tabled_source_mutation tabled_batches intro!: still_intros tabled_intros)

lemma tabled_claim_batch:
  assumes "claim_batch w db = Inr (rows, db')"
  shows "follows_table db db'"
proof -
  obtain r1 db1 r2 db2 r3 where "insert_submission_sql (cw_runpodJobId w) (cw_attemptId w) ''worker_claim''
      (cw_timestamp w) db = Inr (r1, db1)" "claim_winner_sql w db1 = Inr (r2, db2)"
    "batch3 (mark_submission_winner_sql (cw_runpodJobId w) (cw_attemptId w) (cw_timestamp w))
      (mark_job_running_sql (cw_jobId w) (cw_attemptId w) (cw_timestamp w))
      (record_claim_event_sql (cw_eventId w) (cw_jobId w) (cw_attemptId w) (cw_runpodJobId w)
         (cw_timestamp w)) db2 = Inr (r3, db')"
    using assms by (auto simp: claim_batch_def result_simps)
  then have "keeps_jobs db db1" "keeps_jobs db1 db2" "follows_table db2 db'"
    by (auto intro: stillD tabled_batch3(2) intro!: still_intros tabled_intros)
  then show ?thesis by (blast intro: keeps_then_follows)
qed

lemma tabled_submission_operations:
  "follows_table db (snd (prepareSubmission j h t e db))"
  "follows_table db (snd (recordSubmissionAccepted x r t db))"
  "follows_table db (snd (recordClaimSubmission x r t db))"
  "follows_table db (snd (expireUpload ev j t db))"
  by (auto simp: prepareSubmission_def prepare_batch_def recordSubmissionAccepted_def
      recordClaimSubmission_def expireUpload_def result_simps split: sum.split prod.split
      intro: tabled_batches intro!: still_intros tabled_intros still_tabled)

lemmas still_follows = still_intros [THEN stillD, THEN keeps_follows]

lemma tabled_recordSubmissionUnknown: "follows_table db (snd (recordSubmissionUnknown x t db))"
  unfolding recordSubmissionUnknown_def
  by (rule tabled_answers(1)) (auto simp: result_simps intro: still_follows)

lemma tabled_claimWinner: "follows_table db (snd (claimWinner w db))"
  unfolding claimWinner_def
  by (rule tabled_answers(1)) (auto simp: result_simps intro: tabled_claim_batch)

lemma tabled_markHeartbeat: "follows_table db (snd (markHeartbeat x h j r t db))"
  unfolding markHeartbeat_def
  by (rule tabled_answers(1)) (auto simp: result_simps intro: still_follows)

lemma tabled_markFailedUnclaimedSubmissionCancelled:
  "follows_table db (snd (markFailedUnclaimedSubmissionCancelled x e j r t db))"
  unfolding markFailedUnclaimedSubmissionCancelled_def
  by (rule tabled_answers(1)) (auto simp: result_simps intro: tabled_batch2(1) intro!: still_tabled still_intros)

lemma tabled_recordTerminalStatus: "follows_table db (snd (recordTerminalStatus ti db))"
  unfolding recordTerminalStatus_def
  by (rule tabled_answers(1)) (auto simp: result_simps split: if_splits intro: still_follows)

lemma tabled_recordSubmissionRejected: "follows_table db (snd (recordSubmissionRejected x e j t db))"
  unfolding recordSubmissionRejected_def
  by (rule tabled_answers(2)) (auto simp: result_simps intro: tabled_batch3(2) intro!: still_intros tabled_intros)

lemma tabled_failExpiredUnknownSubmission: "follows_table db (snd (failExpiredUnknownSubmission x e j t db))"
  unfolding failExpiredUnknownSubmission_def
  by (rule tabled_answers(2)) (auto simp: result_simps intro: tabled_batch3(2) intro!: still_intros tabled_intros)

lemma tabled_cancelExpiredUnboundSubmission: "follows_table db (snd (cancelExpiredUnboundSubmission x e j t db))"
  unfolding cancelExpiredUnboundSubmission_def
  by (rule tabled_answers(2)) (auto simp: result_simps intro: tabled_batch3(2) intro!: still_intros tabled_intros)

lemma tabled_failStaleAcceptedSubmission: "follows_table db (snd (failStaleAcceptedSubmission st db))"
  unfolding failStaleAcceptedSubmission_def
  by (rule tabled_answers(2)) (auto simp: result_simps intro: tabled_batch3(2) intro!: still_intros tabled_intros)

lemma tabled_failUnobservableAttempt: "follows_table db (snd (failUnobservableAttempt un db))"
  unfolding failUnobservableAttempt_def
proof (rule tabled_answers(2))
  fix rows db' assume "res_bind (zod_parse unobservable_input_ok un) (\<lambda>i.
       batch3 (fail_unobservable_attempt_sql i)
         (finalize_terminal_job_sql (un_jobId i) (un_attemptId i) ATT_FAILED
            (Some PE_PROCESSING_FAILED) (un_timestamp i) None)
         (record_job_event_sql (un_eventId i) (un_jobId i) (un_attemptId i)
            ''job_reconciliation_expired'' (un_timestamp i)
            (\<lambda>j. jb_status j = FAILED \<and> jb_failed_at j = Some (un_timestamp i))) db) = Inr (rows, db')"
  then have "batch3 (fail_unobservable_attempt_sql un)
         (finalize_terminal_job_sql (un_jobId un) (un_attemptId un) ATT_FAILED
            (Some PE_PROCESSING_FAILED) (un_timestamp un) None)
         (record_job_event_sql (un_eventId un) (un_jobId un) (un_attemptId un)
            ''job_reconciliation_expired'' (un_timestamp un)
            (\<lambda>j. jb_status j = FAILED \<and> jb_failed_at j = Some (un_timestamp un))) db = Inr (rows, db')"
    by (simp add: result_simps)
  then show "follows_table db db'"
    by (rule tabled_batch3(2) [rotated -1]) (auto intro!: still_intros tabled_intros)
qed

lemma tabled_finalizeTerminal: "follows_table db (snd (finalizeTerminal fi db))"
proof -
  have "follows_table db db'"
    if "fi_status fi \<in> {ATT_CANCELLED, ATT_FAILED}"
      "batch2 (finalize_terminal_attempt_sql fi) (finalize_terminal_job_sql (fi_jobId fi) (fi_attemptId fi)
        (fi_status fi) (fi_errorCode fi) (fi_timestamp fi) None) db = Inr (rows, db')" for rows db'
    using that(2) by (rule tabled_batch2(2) [rotated -1]) (use that(1) in \<open>auto intro!: still_intros tabled_intros\<close>)
  then show ?thesis
    unfolding finalizeTerminal_def
    by (intro tabled_answers(2)) (auto simp: result_simps finalize_input_ok_def split: if_splits)
qed

section \<open>A completion\<close>

text \<open>Only a job that runs or is being cancelled is completed.\<close>

lemma tabled_completion_batch:
  assumes inv: "d1_inv db" and batch: "completion_batch i vs db = Inr (rows, db')"
  shows "follows_table db db'"
proof -
  obtain db1 attempts db2 jobs db3 outbox db4 events where
    ins: "insert_artifacts i vs db = Inr db1"
    and upa: "complete_attempt_sql i vs db1 = Inr (attempts, db2)"
    and upj: "finalize_terminal_job_sql (ci_jobId i) (ci_attemptId i) ATT_COMPLETED None (ci_timestamp i)
            (Some (ci_durationSeconds i)) db2 = Inr (jobs, db3)"
    and notify: "insert_notification_sql i db3 = Inr (outbox, db4)"
    and event: "record_job_event_sql (ci_eventId i) (ci_jobId i) (ci_attemptId i) ''job_completed''
            (ci_timestamp i) (\<lambda>j. jb_status j = COMPLETED \<and> jb_completed_at j = Some (ci_timestamp i)) db4
      = Inr (events, db')"
    using batch by (fastforce simp: completion_batch_def result_simps batch3_Inr_iff)
  have one: "d1_jobs db1 = d1_jobs db" "d1_attempts db1 = d1_attempts db"
    using insert_artifacts_tables [OF ins] by auto
  have two: "d1_jobs db2 = d1_jobs db" "\<forall>a \<in> set (d1_attempts db2). am_status a = ATT_COMPLETED \<longrightarrow>
      a \<in> set (d1_attempts db) \<or> (\<exists>b. completing i vs db1 b)"
    using upa one by (auto simp: complete_attempt_sql_def update_attempts_def Let_def update_where_def split: if_splits)
  have "allowed_move (jb_status j) COMPLETED"
    if j: "j \<in> set (d1_jobs db)" "jb_id j = ci_jobId i" "jb_active_attempt_id j = Some (ci_attemptId i)" "in_progress j"
      and a: "a \<in> set (d1_attempts db2)" "am_id a = ci_attemptId i" "am_status a = ATT_COMPLETED" for j a
  proof -
    have "a \<notin> set (d1_attempts db)" using in_progress_not_ended [OF inv j(1,4)] j(3) a(2,3) by auto
    then obtain b where "completing i vs db1 b" using two(2) a(1,3) by blast
    then obtain k where k: "k \<in> set (d1_jobs db)" "jb_id k = ci_jobId i" "running_or_cancelling k"
      using one(1) by (auto simp: completing_def)
    then have "k = j" using job_unique [of db k j] inv j(1,2) by (simp add: d1_inv_def)
    then show ?thesis using k(3) by (auto simp: running_or_cancelling_def allowed_moves)
  qed
  then have "follows_table db2 db3"
    by (intro update_jobs_follows [OF upj [unfolded finalize_terminal_job_sql_def]])
      (auto simp: two(1) finalized_job_def)
  then have "follows_table db db3" using two(1) by (simp add: follows_table_def)
  moreover have "keeps_jobs db3 db4" using insert_notification_tables [OF notify] by (auto simp: keeps_jobs_def)
  moreover have "keeps_jobs db4 db'" using event by (auto intro: still_intros [THEN stillD])
  ultimately show ?thesis using follows_then_keeps by blast
qed

lemma tabled_finalizeCompleted: "d1_inv db \<Longrightarrow> follows_table db (snd (finalizeCompleted i db))"
  unfolding finalizeCompleted_def
  by (rule tabled_answers(2)) (auto simp: result_simps intro: tabled_completion_batch)

section \<open>Requests\<close>

lemma tabled_request: "d1_inv db \<Longrightarrow> follows_table db (perform q r db)"
  by (cases q) (auto simp: tabled_web_operations tabled_retry tabled_queue_operations tabled_submission_operations
      tabled_recordSubmissionUnknown tabled_claimWinner tabled_markHeartbeat
      tabled_markFailedUnclaimedSubmissionCancelled tabled_recordTerminalStatus tabled_recordSubmissionRejected
      tabled_failExpiredUnknownSubmission tabled_cancelExpiredUnboundSubmission tabled_failStaleAcceptedSubmission
      tabled_failUnobservableAttempt tabled_finalizeTerminal tabled_finalizeCompleted
      split: sum.split phase.split delete_phase.split complete_phase.split option.split)

end
