(* ===== verification/JobProperties.thy ===== *)
theory JobProperties
  imports JobExample JobCancellation JobListing JobTable
begin

text \<open>
  The properties of jobs: what every interleaving of the requests of users and of the upload queue
  keeps, and what the single operations of the web server and of the ingestion do.
\<close>

section \<open>Histories\<close>

text \<open>Claim C2. In every history of the requests of users, of the upload queue and of the executions on
  RunPod, whatever database each read phase saw: identifiers are unique, and so is the RunPod job
  that won an attempt; the active attempt of a job exists, belongs to it and is its latest, and no
  other attempt is open; a job that is not deleted and its active attempt have the same status while
  either of them is still being processed; a deleted job has no attempt that could still start; and
  a job whose attempt was rejected is no longer processed.\<close>

theorem jobs_consistent:
  assumes "history h" "db \<in> set h"
  shows "d1_keys db \<and> active_attempts_exist db \<and> attempts_belong db \<and> statuses_agree db \<and>
    deleted_attempts_end db \<and> rejected_attempts_end db"
  using history_sound [OF assms(1)] assms(2) by (simp add: d1_inv_def)

theorem jobs_consistent_witness:
  "d1_jobs ex_created \<noteq> [] \<and> statuses_agree ex_created"
  using jobs_consistent [OF ex_history, of ex_created] by (simp add: ex_created_def)

text \<open>Claim C3. In every history of requests a job never disappears; it keeps its owner, source and
  options; its version grows with every change; once deleted, or once it is completed, cancelled or
  its source mutated, it keeps its row or status; a recorded entity tag is never replaced; and it
  never goes back to an earlier stage: the generation of its active attempt and the rank of its
  status within that attempt only grow, and grow with every change other than a deletion. Attempts
  keep their job, generation and provider, their claim token, the consumption of the claim and its
  winner once these are set, and never go back to an earlier status; a closed one keeps its status.\<close>

theorem jobs_move_forward:
  assumes "history (new # h)" "old \<in> set (new # h)"
  shows "(\<forall>j \<in> set (d1_jobs old). \<exists>j' \<in> set (d1_jobs new). job_evolves old new j j') \<and>
    (\<forall>a \<in> set (d1_attempts old). \<exists>a' \<in> set (d1_attempts new). attempt_evolves a a')"
  using history_sound [OF assms(1)] assms(2) by (auto simp: evolves_def)

theorem jobs_move_forward_witness:
  "\<exists>j' \<in> set (d1_jobs (perform (Cancel_job ex_action) ex_created ex_created)).
     job_evolves ex_created (perform (Cancel_job ex_action) ex_created ex_created)
       (new_job_row ex_new_job) j'"
  using jobs_move_forward [OF history.request [OF ex_history, of ex_created "Cancel_job ex_action"],
      of ex_created]
  by (simp add: ex_created_def)



text \<open>Claim C34. A request of a user changes only jobs of that user: in every history, whatever it
  read, every job of another owner and every attempt of such a job is afterwards as it was.\<close>

theorem requests_keep_foreign_jobs:
  assumes "history (db # h)" "r \<in> set (db # h)" "j \<in> set (d1_jobs db)" "\<not> request_owns q j"
  shows "j \<in> set (d1_jobs (perform q r db)) \<and>
    {a \<in> set (d1_attempts db). am_job_id a = jb_id j} \<subseteq> set (d1_attempts (perform q r db))"
proof -
  have r: "d1_inv r" "d1_inv db" "evolves r db" using history_sound [OF assms(1)] assms(2) by auto
  show ?thesis
    using any_request.foreign_job [OF r assms(3,4)]
      job_step_foreign_attempt [OF any_request.step [OF r] r(2) assms(3,4)] by auto
qed

theorem requests_keep_foreign_jobs_witness:
  "new_job_row ex_new_job
     \<in> set (d1_jobs (perform (Delete_job (ex_action\<lparr>ac_ownerSub := ''v''\<rparr>)) ex_created ex_created))"
  using requests_keep_foreign_jobs [OF ex_history, of ex_created "new_job_row ex_new_job"
      "Delete_job (ex_action\<lparr>ac_ownerSub := ''v''\<rparr>)"]
  by (simp add: ex_created_def owned_by_def new_job_row_fields)

section \<open>Creating a job\<close>

lemma count_jobs_added:
  "count_jobs p (db\<lparr>d1_jobs := d1_jobs db @ [j]\<rparr>) = count_jobs p db + (if p j then 1 else 0)"
  by (simp add: count_jobs_def)

lemma insert_new_job_cases:
  assumes "insert_new_job i w db = Inr (rows, db')"
  obtains (refused) "rows = []" "db' = db"
      "10 \<le> count_jobs (in_creation_window (nj_ownerSub i) w (nj_timestamp i)) db
       \<or> 3 \<le> count_jobs (active_job_of (nj_ownerSub i)) db"
  | (inserted) "rows = [new_job_row i]" "db' = db\<lparr>d1_jobs := d1_jobs db @ [new_job_row i]\<rparr>"
      "count_jobs (in_creation_window (nj_ownerSub i) w (nj_timestamp i)) db < 10"
      "count_jobs (active_job_of (nj_ownerSub i)) db < 3"
  using assms
  by (auto simp: insert_new_job_def insert_job_def MAX_JOB_CREATIONS_PER_WINDOW_def
      MAX_ACTIVE_JOBS_PER_OWNER_def split: if_splits)

lemma calculateRetryAfterSeconds_bounds:
  "1 \<le> calculateRetryAfterSeconds oldest now" "calculateRetryAfterSeconds oldest now \<le> 600"
  by (auto simp: calculateRetryAfterSeconds_def Let_def JOB_CREATION_WINDOW_SECONDS_def
      split: option.split)

lemma createJob_cases:
  obtains (thrown) e where "createJob i db = (Inl e, db)"
  | (parsed) w rows db' where "creation_window_start (nj_timestamp i) = Inr w"
      "insert_new_job i w db = Inr (rows, db')"
      "createJob i db = (res_bind (updatedJobSummaryRowsSchema rows) (\<lambda>created.
             case created of
               Some row \<Rightarrow> res_bind (mapSummary row) (\<lambda>job. Inr (Job_created job))
             | None \<Rightarrow> admission_diagnostic i w db'), db')"
proof (cases "res_bind (zod_parse utc_datetime_ok (nj_timestamp i)) (\<lambda>timestamp.
    res_bind (creation_window_start timestamp) (\<lambda>windowStart.
    res_bind (insert_new_job i windowStart db) (\<lambda>(rows, db'). Inr (windowStart, rows, db'))))")
  case (Inl e)
  then show thesis using thrown by (simp add: createJob_def)
next
  case (Inr q)
  then obtain w rows db' where "q = (w, rows, db')" "creation_window_start (nj_timestamp i) = Inr w"
      "insert_new_job i w db = Inr (rows, db')" by (auto simp: result_simps)
  then show thesis using parsed Inr by (simp add: createJob_def)
qed

lemma mapSummary_Inr: "mapSummary r = Inr s \<Longrightarrow> s = summary_of r"
  by (simp add: mapSummary_def result_simps)

lemma admission_diagnostic_cases:
  assumes "admission_diagnostic i w db = Inr answer"
    "10 \<le> count_jobs (in_creation_window (nj_ownerSub i) w (nj_timestamp i)) db
       \<or> 3 \<le> count_jobs (active_job_of (nj_ownerSub i)) db"
  shows "(answer = Job_too_many_active \<and> 3 \<le> count_jobs (active_job_of (nj_ownerSub i)) db) \<or>
    (\<exists>s. answer = Job_rate_limited s \<and> count_jobs (active_job_of (nj_ownerSub i)) db < 3 \<and>
       10 \<le> count_jobs (in_creation_window (nj_ownerSub i) w (nj_timestamp i)) db \<and> 1 \<le> s \<and> s \<le> 600)"
  using assms calculateRetryAfterSeconds_bounds
  by (auto simp: admission_diagnostic_def Let_def result_simps MAX_JOB_CREATIONS_PER_WINDOW_def
      MAX_ACTIVE_JOBS_PER_OWNER_def split: if_split_asm)

text \<open>Claim C37. A job is added only while its owner has fewer than three active jobs and created
  fewer than ten in the last ten minutes, so that afterwards there are at most three and ten; a
  refusal changes nothing, says that there are too many active jobs exactly when there are three,
  and otherwise asks to wait between one second and ten minutes.\<close>

theorem createJob_admission:
  "case createJob i db of (answer, db') \<Rightarrow>
     (let active = count_jobs (active_job_of (nj_ownerSub i));
          recent = (\<lambda>d. case creation_window_start (nj_timestamp i) of
                      Inl _ \<Rightarrow> 0 | Inr w \<Rightarrow> count_jobs (in_creation_window (nj_ownerSub i) w (nj_timestamp i)) d)
      in (db' = db \<and> (case answer of
              Inr (Job_created _) \<Rightarrow> False
            | Inr Job_too_many_active \<Rightarrow> 3 \<le> active db
            | Inr (Job_rate_limited s) \<Rightarrow> active db < 3 \<and> 10 \<le> recent db \<and> 1 \<le> s \<and> s \<le> 600
            | Inl _ \<Rightarrow> True))
       \<or> (db' = db\<lparr>d1_jobs := d1_jobs db @ [new_job_row i]\<rparr> \<and> active db < 3 \<and> recent db < 10 \<and>
          active db' \<le> 3 \<and> recent db' \<le> 10 \<and>
          (case answer of
              Inr (Job_created s) \<Rightarrow> s = summary_of (new_job_row i)
            | Inr _ \<Rightarrow> False | Inl _ \<Rightarrow> True)))"
proof (cases rule: createJob_cases [of i db])
  case (thrown e)
  then show ?thesis by (simp add: Let_def)
next
  case (parsed w rows db')
  from parsed(2) show ?thesis
  proof (cases rule: insert_new_job_cases)
    case refused
    then show ?thesis
      using parsed(1,3) admission_diagnostic_cases [OF _ refused(3)]
      by (auto simp: updatedJobSummaryRowsSchema_def split: sum.split create_job_result.split)
  next
    case inserted
    then show ?thesis
      using parsed(1,3) mapSummary_Inr
      by (auto simp: updatedJobSummaryRowsSchema_def rows_max_one_def count_jobs_added result_simps
          split: sum.split create_job_result.split)
  qed
qed

section \<open>Completing an upload\<close>

definition completed_row :: "complete_input \<Rightarrow> job_row \<Rightarrow> job_row" where
  "completed_row i j = j\<lparr>jb_status := UPLOADED, jb_actual_size_bytes := Some (co_sizeBytes i),
     jb_source_etag := Some (co_sourceEtag i), jb_uploaded_at := Some (co_timestamp i),
     jb_updated_at := co_timestamp i, jb_version := jb_version j + 1\<rparr>"

definition completable :: "complete_input \<Rightarrow> job_row \<Rightarrow> bool" where
  "completable i j \<longleftrightarrow>
     owned (co_ownerSub i) (co_jobId i) j \<and> jb_version j = co_expectedVersion i \<and>
     jb_expected_size_bytes j = co_sizeBytes i \<and> jb_source_bucket j = co_sourceBucket i \<and>
     jb_source_key j = co_sourceKey i \<and> jb_source_etag j = None \<and> jb_status j \<in> {CREATED, UPLOADING}"

lemma complete_upload_sql_alt:
  "complete_upload_sql i = update_jobs (completable i) (completed_row i)"
  unfolding complete_upload_sql_def completable_def [abs_def] completed_row_def [abs_def] ..

lemma complete_completed_cases:
  assumes keys: "d1_keys db" and run: "completeUpload i db = (Inr (Complete_completed s), db')"
  obtains j where "j \<in> set (d1_jobs db)" "completable i j" "complete_input_ok i"
    "db' = db\<lparr>d1_jobs := update_where (\<lambda>x. jb_id x = jb_id j) (\<lambda>_. completed_row i j) (d1_jobs db)\<rparr>"
    "databaseJobSummaryRowSchema (completed_row i j)" "s = summary_of (completed_row i j)"
proof -
  obtain rows where ok: "complete_input_ok i" and upd: "complete_upload_sql i db = Inr (rows, db')"
    and answer: "\<exists>row. updatedJobSummaryRowsSchema rows = Inr (Some row) \<and> mapSummary row = Inr s"
    using run
    by (auto simp: completeUpload_def complete_read_def complete_mutate_def result_simps Let_def
        split: sum.split_asm prod.split_asm option.split_asm complete_phase.split_asm if_split_asm)
  have "distinct (map jb_id (d1_jobs db))" using keys by (simp add: d1_keys_def)
  moreover have "\<forall>j. completable i j \<longrightarrow> jb_id j = co_jobId i" by (simp add: completable_def owned_def)
  ultimately show thesis
    by (cases rule: update_jobs_cases [OF upd [unfolded complete_upload_sql_alt]])
      (use answer that ok in \<open>auto simp: updatedJobSummaryRowsSchema_def mapSummary_Inr rows_max_one_Inr_iff\<close>)
qed

text \<open>When the upload of a job is completed, the job was the caller's, still waited for its
  upload in the version the caller had seen, without an entity tag, and with exactly the bucket,
  key and size reported; afterwards it is uploaded, carries the entity tag and its next version,
  and no other row has changed. Reporting the same upload again answers with the same summary and
  changes nothing.\<close>

theorem completeUpload_effect:
  assumes keys: "d1_keys db" and rows: "\<forall>j \<in> set (d1_jobs db). databaseUploadTargetRowSchema j"
    and run: "completeUpload i db = (Inr (Complete_completed s), db')"
  shows "(\<exists>j \<in> set (d1_jobs db). completable i j \<and> s = summary_of (completed_row i j) \<and>
      set (d1_jobs db') = insert (completed_row i j) (set (d1_jobs db) - {j})) \<and>
    d1_attempts db' = d1_attempts db \<and>
    completeUpload i db' = (Inr (Complete_idempotent s), db')"
proof -
  obtain j where j: "j \<in> set (d1_jobs db)" "completable i j" "complete_input_ok i"
    "db' = db\<lparr>d1_jobs := update_where (\<lambda>x. jb_id x = jb_id j) (\<lambda>_. completed_row i j) (d1_jobs db)\<rparr>"
    "databaseJobSummaryRowSchema (completed_row i j)" "s = summary_of (completed_row i j)"
    by (rule complete_completed_cases [OF keys run])
  let ?j = "completed_row i j"
  have id: "jb_id ?j = jb_id j" by (simp add: completed_row_def)
  have jobs: "set (d1_jobs db') = insert ?j (set (d1_jobs db) - {j})" "d1_keys db'"
    using replaced_rows [OF keys j(1) id] j(4) by simp_all
  have owned: "owned (co_ownerSub i) (co_jobId i) ?j"
    using j(2) by (simp add: completable_def owned_def completed_row_def)
  have none: "\<forall>k \<in> set (d1_jobs db'). \<not> completable i k"
  proof
    fix k assume k: "k \<in> set (d1_jobs db')"
    show "\<not> completable i k"
    proof
      assume c: "completable i k"
      then have "k = ?j" using job_unique [OF jobs(2) k] jobs(1) owned by (simp add: completable_def owned_def)
      then show False using c by (simp add: completable_def completed_row_def)
    qed
  qed
  have "find_job (owned (co_ownerSub i) (co_jobId i)) db' = Some ?j"
    using find_owned_iff [OF jobs(2)] jobs(1) owned by blast
  moreover have "databaseUploadTargetRowSchema ?j"
    using rows j(1,2,3)
    by (auto simp: databaseUploadTargetRowSchema_def completed_row_def complete_input_ok_def etag_ok_def)
  ultimately have "complete_read i db' = Inr (Complete_answer (Complete_idempotent s))"
    using j(2,5,6) mapSummary_ok [OF j(5)]
    by (simp add: complete_read_def mapUploadTarget_def completed_row_def completable_def)
  then have "completeUpload i db' = (Inr (Complete_idempotent s), db')"
    using j(3) update_jobs_noop [OF none]
    by (simp add: completeUpload_def complete_upload_sql_alt updatedJobSummaryRowsSchema_def)
  then show ?thesis using j(1,2,4,6) jobs(1) by auto
qed

theorem completeUpload_effect_witness:
  "\<exists>db'. completeUpload ex_upload ex_created = (Inr (Complete_completed (summary_of ex_uploaded_row)), db') \<and>
     completeUpload ex_upload db' = (Inr (Complete_idempotent (summary_of ex_uploaded_row)), db')"
proof -
  have "d1_keys ex_created" using ex_created_inv by (simp add: d1_inv_def)
  moreover have "\<forall>j \<in> set (d1_jobs ex_created). databaseUploadTargetRowSchema j"
    using ex_target_schema by simp
  ultimately show ?thesis using completeUpload_effect [OF _ _ ex_complete] ex_complete by blast
qed

section \<open>Deleting a job\<close>

lemma max_text_greatest:
  "max_text ss = Some m \<Longrightarrow> m \<in> set ss \<and> (\<forall>s \<in> set ss. \<not> text_less m s)"
proof (induction ss arbitrary: m)
  case (Cons s ss)
  show ?case
  proof (cases "max_text ss")
    case None
    then have "ss = []" by (cases ss) (auto split: option.split_asm)
    then show ?thesis using Cons.prems by simp
  next
    case (Some t)
    then have t: "t \<in> set ss" "\<forall>s \<in> set ss. \<not> text_less t s" using Cons.IH by auto
    show ?thesis
      using Cons.prems Some t text_less_trans [of t s] text_less_total [of s t]
      by (auto split: if_split_asm)
  qed
qed simp

lemma max_text_None [simp]: "max_text ss = None \<longleftrightarrow> ss = []"
  by (cases ss) (auto split: option.split)

definition deleted_row :: "action_input \<Rightarrow> string \<Rightarrow> job_row \<Rightarrow> job_row" where
  "deleted_row i t j = j\<lparr>jb_deleted_at := Some (ac_timestamp i), jb_deletion_not_before := Some t,
     jb_deletion_next_attempt_at := Some (ac_timestamp i), jb_deletion_attempt_count := 0,
     jb_deletion_error_code := None, jb_updated_at := ac_timestamp i, jb_version := jb_version j + 1\<rparr>"

lemma deletion_context_job:
  assumes "d1_keys db" "j \<in> set (d1_jobs db)" "jb_id j = ac_jobId i" "jb_owner_sub j = ac_ownerSub i"
  shows "deletion_context i db = Some
    \<lparr>dx_version = jb_version j, dx_deleted_at = jb_deleted_at j,
     dx_active_attempt_id = jb_active_attempt_id j,
     dx_active_attempt_status = map_option am_status (active_attempt db j),
     dx_latest_capability_issued_at = max_text (List.map_filter am_heartbeat_issued_at
       (filter (\<lambda>a. am_job_id a = jb_id j) (d1_attempts db)))\<rparr>"
proof -
  have "find_job (\<lambda>j. jb_owner_sub j = ac_ownerSub i \<and> jb_id j = ac_jobId i) db = Some j"
    by (subst find_job_Some_iff [OF assms(1), where k = "ac_jobId i"]) (use assms in auto)
  then show ?thesis by (simp add: deletion_context_def)
qed

text \<open>What an answer says about the statements.\<close>

lemma delete_answer_deleted:
  assumes "delete_answer c (attempts, jobs, events) = Inr Delete_deleted"
  shows "jobs \<noteq> []" "\<And>x s. dx_active_attempt_id c = Some x \<Longrightarrow> dx_active_attempt_status c = Some s \<Longrightarrow>
    s \<in> set OPEN_ATTEMPT_STATUSES \<Longrightarrow> attempts \<noteq> []"
  using assms
  by (auto simp: delete_answer_def updatedJobIdRowsSchema_def rows_max_one_Inr_iff result_simps Let_def
      split: if_split_asm)

lemma delete_run:
  assumes inv: "d1_inv db" and j: "j \<in> set (d1_jobs db)" "owned (ac_ownerSub i) (ac_jobId i) j"
    and run: "requestJobDeletion i db = (Inr Delete_deleted, db')"
  obtains c t where "deletion_context i db = Some c" "action_input_ok i" "deletionContextRowSchema c"
    "deletionNotBeforeMilliseconds (date_parse (ac_timestamp i))
       (map_option date_parse (dx_latest_capability_issued_at c)) = Inr t"
    "delete_commit i c (to_iso t) db = (Inr Delete_deleted, db')"
    "delete_read i db = Inr (Delete_commit c (to_iso t))"
proof -
  have keys: "d1_keys db" using inv by (simp add: d1_inv_def)
  have "\<not> (\<exists>a. delete_read i db = Inr (Delete_answer a) \<and> a = Delete_deleted)"
    using j(2) deletion_context_job [OF keys j(1), of i]
    by (auto simp: delete_read_def result_simps owned_def split: option.split_asm if_split_asm)
  then obtain c u where c: "delete_read i db = Inr (Delete_commit c u)"
    "delete_commit i c u db = (Inr Delete_deleted, db')"
    using run by (auto simp: requestJobDeletion_def split: sum.split_asm delete_phase.split_asm)
  then obtain t where "u = to_iso t" "deletion_context i db = Some c" "action_input_ok i"
    "deletionContextRowSchema c" "deletionNotBeforeMilliseconds (date_parse (ac_timestamp i))
       (map_option date_parse (dx_latest_capability_issued_at c)) = Inr t"
    by (auto simp: delete_read_def result_simps split: option.split_asm if_split_asm)
  then show thesis using that c by blast
qed

text \<open>The attempt is cancelled, or asked to, and may no longer report.\<close>

definition revoked :: "action_input \<Rightarrow> attempt_row \<Rightarrow> attempt_row \<Rightarrow> bool" where
  "revoked i a a' \<longleftrightarrow>
     am_id a' = am_id a \<and> am_job_id a' = am_job_id a \<and>
     am_heartbeat_issued_at a' = am_heartbeat_issued_at a \<and>
     am_status a' = cancelled_attempt_status (am_status a) \<and>
     (am_heartbeat_token_hash a' \<noteq> None \<longrightarrow> am_heartbeat_revoked_at a' = Some (ac_timestamp i))"

lemma delete_batch_effect:
  assumes keys: "d1_keys db" and j: "j \<in> set (d1_jobs db)" "owned (ac_ownerSub i) (ac_jobId i) j"
    and batch: "delete_batch i c t db = Inr ((as, js, es), db')" and changed: "js \<noteq> []"
  shows "set (d1_jobs db') = insert (deleted_row i t j) (set (d1_jobs db) - {j})"
    "as = [] \<Longrightarrow> d1_attempts db' = d1_attempts db"
    "as \<noteq> [] \<Longrightarrow> \<exists>a \<in> set (d1_attempts db). \<exists>a'. dx_active_attempt_id c = Some (am_id a) \<and>
       set (d1_attempts db') = insert a' (set (d1_attempts db) - {a}) \<and> revoked i a a'"
proof -
  obtain db1 db2 where upa: "request_deletion_active_attempt_sql i c db = Inr (as, db1)"
    and upj: "mark_job_deleted_sql i c t db1 = Inr (js, db2)"
    and event: "record_deletion_event_sql i db2 = Inr (es, db')"
    using batch by (auto simp: delete_batch_def batch3_Inr_iff)
  have rest: "unchanged_tables db2 db'"
    using insert_event_unchanged event by (auto simp: record_deletion_event_sql_def)
  have dist: "distinct (map am_id (d1_attempts db))" using keys by (simp add: d1_keys_def)
  note attempts = update_attempts_cases [OF upa [unfolded request_deletion_active_attempt_sql_def] dist,
      of "the (dx_active_attempt_id c)"]
  have jobs1: "d1_jobs db1 = d1_jobs db" by (rule attempts) auto
  have at: "(as = [] \<longrightarrow> d1_attempts db1 = d1_attempts db) \<and> (as \<noteq> [] \<longrightarrow>
     (\<exists>a \<in> set (d1_attempts db). \<exists>a'. dx_active_attempt_id c = Some (am_id a) \<and>
       set (d1_attempts db1) = insert a' (set (d1_attempts db) - {a}) \<and> revoked i a a'))"
  proof (rule attempts, goal_cases)
    case (3 a)
    then have "set (d1_attempts db1) = insert (a\<lparr>am_status := cancelled_attempt_status (am_status a),
          am_heartbeat_revoked_at :=
            (if am_heartbeat_token_hash a = None then None else Some (ac_timestamp i)),
          am_updated_at := ac_timestamp i\<rparr>) (set (d1_attempts db) - {a})"
      using set_update_where_id [OF dist] by simp
    then show ?case using 3(1-3) by (auto simp: revoked_def intro!: bexI [of _ a] exI)
  qed auto
  have dist1: "distinct (map jb_id (d1_jobs db1))" using keys jobs1 by (simp add: d1_keys_def)
  have upd: "d1_jobs db2 = update_where (\<lambda>x. jb_id x = jb_id j) (\<lambda>_. deleted_row i t j) (d1_jobs db) \<and>
      d1_attempts db2 = d1_attempts db1"
  proof (rule update_jobs_cases [OF upj [unfolded mark_job_deleted_sql_def] dist1, of "ac_jobId i"], goal_cases)
    case (3 k)
    then have "k = j" using job_unique [OF keys, of k j] j jobs1 by (simp add: owned_def)
    then show ?case using 3 jobs1 by (simp add: deleted_row_def)
  qed (use changed in \<open>auto simp: owned_def\<close>)
  have id: "jb_id (deleted_row i t j) = jb_id j" by (simp add: deleted_row_def)
  have jobs: "d1_jobs db' = d1_jobs db2" "d1_attempts db' = d1_attempts db1"
    using rest upd by (simp_all add: unchanged_tables_def)
  show "set (d1_jobs db') = insert (deleted_row i t j) (set (d1_jobs db) - {j})"
    using replaced_rows(1) [OF keys j(1) id] upd jobs by simp
  show "as = [] \<Longrightarrow> d1_attempts db' = d1_attempts db" using at jobs by simp
  show "as \<noteq> [] \<Longrightarrow> \<exists>a \<in> set (d1_attempts db). \<exists>a'. dx_active_attempt_id c = Some (am_id a) \<and>
       set (d1_attempts db') = insert a' (set (d1_attempts db) - {a}) \<and> revoked i a a'" using at jobs by simp
qed

lemma delete_attempts_stopped:
  assumes inv: "d1_inv db" and j: "j \<in> set (d1_jobs db)" "owned (ac_ownerSub i) (ac_jobId i) j"
    and read: "deletion_context i db = Some c" and batch: "delete_batch i c t db = Inr ((as, js, es), db')"
    and answer: "delete_answer c (as, js, es) = Inr Delete_deleted"
    and a: "a \<in> set (d1_attempts db')" "am_job_id a = jb_id j"
  shows "am_status a \<notin> set CANCELLABLE_ATTEMPT_STATUSES"
proof -
  have keys: "d1_keys db" using inv by (simp add: d1_inv_def)
  have c: "dx_active_attempt_id c = jb_active_attempt_id j"
    "dx_active_attempt_status c = map_option am_status (active_attempt db j)"
    using read deletion_context_job [OF keys j(1), of i] j(2) by (auto simp: owned_def)
  note effect = delete_batch_effect [OF keys j batch delete_answer_deleted(1) [OF answer]]
  have closed: "am_status r \<notin> set CANCELLABLE_ATTEMPT_STATUSES"
    if r: "r \<in> set (d1_attempts db)" "am_job_id r = jb_id j" and active: "active_attempt db j = Some x"
      and x: "\<not> open_attempt x \<or> r \<noteq> x" for r x
  proof -
    have "open_attempt r \<longrightarrow> x = r"
      using attempt_jobE [OF inv r(1) j(1) r(2)] active active_attempt_Some_iff [OF keys, of j]
        attempt_unique [OF keys] by (metis option.inject)
    then show ?thesis using x cancellable_open(1) [of "am_status r"] by (auto simp: open_attempt_def)
  qed
  show ?thesis
  proof (cases "as = []")
    case True
    then have aA: "a \<in> set (d1_attempts db)" using effect(2) a(1) by simp
    then obtain b where b: "b \<in> set (d1_attempts db)" "jb_active_attempt_id j = Some (am_id b)"
      using attempt_jobE [OF inv aA j(1) a(2)] by metis
    then have active: "active_attempt db j = Some b" using active_attempt_Some_iff [OF keys] by simp
    then have "\<not> open_attempt b"
      using delete_answer_deleted(2) [OF answer] c b(2) True by (auto simp: open_attempt_def)
    then show ?thesis using closed [OF aA a(2) active] by simp
  next
    case False
    then obtain b b' where b: "b \<in> set (d1_attempts db)" "dx_active_attempt_id c = Some (am_id b)"
      "set (d1_attempts db') = insert b' (set (d1_attempts db) - {b})" "revoked i b b'"
      using effect(3) by blast
    then have active: "active_attempt db j = Some b" using active_attempt_Some_iff [OF keys] c(1) by simp
    show ?thesis
    proof (cases "a = b'")
      case True
      then show ?thesis using b(4)
        by (simp add: revoked_def cancelled_attempt_status_def CANCELLABLE_ATTEMPT_STATUSES_def)
    next
      case False
      then show ?thesis using closed [OF _ a(2) active] a(1) b(3) by auto
    qed
  qed
qed

lemma latest_capability:
  assumes "max_text (List.map_filter am_heartbeat_issued_at (filter p as)) = Some m"
  obtains a where "a \<in> set as" "p a" "am_heartbeat_issued_at a = Some m"
  using max_text_greatest [OF assms] that by (auto simp: List.map_filter_def)

lemma deletion_waits:
  assumes latest: "latest = max_text (List.map_filter am_heartbeat_issued_at (filter p as))"
    and issued: "\<forall>a \<in> set as. \<forall>s. am_heartbeat_issued_at a = Some s \<longrightarrow> (\<exists>u. s = to_iso u \<and> iso_time_range u)"
    and t: "deletionNotBeforeMilliseconds r (map_option date_parse latest) = Inr t"
    and a: "a \<in> set as" "p a" "iso_time_range u" "am_heartbeat_issued_at a = Some (to_iso u)"
  shows "u + (2 * 60 + 5) * 60000 \<le> t"
proof -
  have u: "to_iso u \<in> set (List.map_filter am_heartbeat_issued_at (filter p as))"
    using a by (auto simp: List.map_filter_def image_iff intro!: bexI [of _ a])
  then obtain m where m: "max_text (List.map_filter am_heartbeat_issued_at (filter p as)) = Some m"
    using max_text_None by fastforce
  obtain b where "b \<in> set as" "p b" "am_heartbeat_issued_at b = Some m" by (rule latest_capability [OF m])
  then obtain v where v: "m = to_iso v" "iso_time_range v" using issued by blast
  have "\<not> text_less m (to_iso u)" using max_text_greatest [OF m] u by blast
  then have "u \<le> v" using text_less_to_iso [OF v(2) a(3)] v(1) by simp
  then show ?thesis using t latest m v by (auto simp: deletionNotBefore_Inr_iff date_parse_to_iso)
qed

lemma delete_again:
  assumes keys: "d1_keys db" and j: "j \<in> set (d1_jobs db)" "jb_id j = ac_jobId i" "jb_owner_sub j = ac_ownerSub i"
    and deleted: "jb_deleted_at j = Some (ac_timestamp i)" "0 < jb_version j"
    and ok: "action_input_ok i" "nullable ulid_ok (jb_active_attempt_id j)"
    and issued: "\<forall>a \<in> set (d1_attempts db). \<forall>s. am_heartbeat_issued_at a = Some s \<longrightarrow> utc_datetime_ok s"
  shows "requestJobDeletion i db = (Inr Delete_deleted, db)"
proof -
  let ?latest = "max_text (List.map_filter am_heartbeat_issued_at
      (filter (\<lambda>a. am_job_id a = jb_id j) (d1_attempts db)))"
  have "nullable utc_datetime_ok ?latest"
  proof (cases ?latest)
    case (Some m)
    then obtain a where "a \<in> set (d1_attempts db)" "am_heartbeat_issued_at a = Some m"
      by (rule latest_capability)
    then show ?thesis using issued Some by simp
  qed simp
  then have "delete_read i db = Inr (Delete_answer Delete_deleted)"
    using deletion_context_job [OF keys j] deleted ok
    by (simp add: delete_read_def deletionContextRowSchema_def action_input_ok_def)
  then show ?thesis by (simp add: requestJobDeletion_def)
qed

text \<open>When the deletion of a job succeeds, the job is marked deleted in its next version
  with its status kept, none of its attempts runs or waits any more, its objects must stay at least
  until the request and until two hours and five minutes after every capability issued to one of
  its attempts, and asking again answers the same and changes nothing.\<close>

theorem requestJobDeletion_effect:
  assumes inv: "d1_inv db" and j: "j \<in> set (d1_jobs db)" "owned (ac_ownerSub i) (ac_jobId i) j"
    and issued: "\<forall>a \<in> set (d1_attempts db). \<forall>s. am_heartbeat_issued_at a = Some s \<longrightarrow>
      (\<exists>u. s = to_iso u \<and> iso_time_range u)"
    and run: "requestJobDeletion i db = (Inr Delete_deleted, db')"
  shows "\<exists>t. set (d1_jobs db') = insert (deleted_row i (to_iso t) j) (set (d1_jobs db) - {j}) \<and>
    date_parse (ac_timestamp i) \<noteq> None \<and> the (date_parse (ac_timestamp i)) \<le> t \<and>
    (\<forall>a \<in> set (d1_attempts db). \<forall>u. am_job_id a = jb_id j \<longrightarrow> iso_time_range u \<longrightarrow>
       am_heartbeat_issued_at a = Some (to_iso u) \<longrightarrow> u + (2 * 60 + 5) * 60000 \<le> t) \<and>
    (\<forall>a \<in> set (d1_attempts db'). am_job_id a = jb_id j \<longrightarrow> am_status a \<notin> set CANCELLABLE_ATTEMPT_STATUSES) \<and>
    requestJobDeletion i db' = (Inr Delete_deleted, db')"
proof -
  have keys: "d1_keys db" using inv by (simp add: d1_inv_def)
  obtain c t where c: "deletion_context i db = Some c" "action_input_ok i" "deletionContextRowSchema c"
    "deletionNotBeforeMilliseconds (date_parse (ac_timestamp i))
       (map_option date_parse (dx_latest_capability_issued_at c)) = Inr t"
    and commit: "delete_commit i c (to_iso t) db = (Inr Delete_deleted, db')"
    and read: "delete_read i db = Inr (Delete_commit c (to_iso t))"
    by (rule delete_run [OF inv j run])
  obtain as js es where batch: "delete_batch i c (to_iso t) db = Inr ((as, js, es), db')"
    and answer: "delete_answer c (as, js, es) = Inr Delete_deleted"
    using commit by (auto simp: delete_commit_def split: sum.split_asm prod.split_asm)
  note effect = delete_batch_effect [OF keys j batch delete_answer_deleted(1) [OF answer]]
  have t: "date_parse (ac_timestamp i) \<noteq> None \<and> the (date_parse (ac_timestamp i)) \<le> t"
    using c(4) by (auto simp: deletionNotBefore_Inr_iff split: option.split_asm)
  have latest: "dx_latest_capability_issued_at c = max_text (List.map_filter am_heartbeat_issued_at
      (filter (\<lambda>a. am_job_id a = jb_id j) (d1_attempts db)))"
    and active: "dx_active_attempt_id c = jb_active_attempt_id j"
    using c(1) deletion_context_job [OF keys j(1), of i] j(2) by (auto simp: owned_def)
  note wait = deletion_waits [OF latest issued c(4)]
  have "d1_inv db'"
    using delete_batch_step [OF inv inv evolves_refl read batch] job_step_inv inv by blast
  then have keys': "d1_keys db'" by (simp add: d1_inv_def)
  have "\<exists>b \<in> set (d1_attempts db). am_heartbeat_issued_at a = am_heartbeat_issued_at b"
    if "a \<in> set (d1_attempts db')" for a
    using that effect(2,3) by (cases "as = []") (auto simp: revoked_def)
  then have "\<forall>a \<in> set (d1_attempts db'). \<forall>s. am_heartbeat_issued_at a = Some s \<longrightarrow> utc_datetime_ok s"
    using issued utc_datetime_ok_to_iso by metis
  then have again: "requestJobDeletion i db' = (Inr Delete_deleted, db')"
    using effect(1) j(2) c(2,3) active
    by (intro delete_again [OF keys', of "deleted_row i (to_iso t) j"])
      (auto simp: deleted_row_def owned_def deletionContextRowSchema_def)
  show ?thesis
    using effect(1) t wait again delete_attempts_stopped [OF inv j c(1) batch answer] by blast
qed

theorem requestJobDeletion_effect_witness:
  "\<exists>db'. requestJobDeletion ex_action ex_created = (Inr Delete_deleted, db') \<and>
     (\<exists>j \<in> set (d1_jobs db'). jb_deleted_at j = Some ex_at) \<and>
     requestJobDeletion ex_action db' = (Inr Delete_deleted, db')"
proof -
  obtain db' where run: "requestJobDeletion ex_action ex_created = (Inr Delete_deleted, db')"
    using ex_delete by blast
  have "owned (ac_ownerSub ex_action) (ac_jobId ex_action) (new_job_row ex_new_job)" by (simp add: owned_def)
  from requestJobDeletion_effect [OF ex_created_inv _ this _ run] run show ?thesis
    by (auto simp: deleted_row_def)
qed

section \<open>Ingestion\<close>

definition ingested_row :: "ingest_input \<Rightarrow> job_row \<Rightarrow> job_row" where
  "ingested_row i j = j\<lparr>jb_actual_size_bytes := Some (in_sizeBytes i),
     jb_source_etag := Some (in_sourceEtag i), jb_status := SUBMISSION_PENDING,
     jb_active_attempt_id := Some (ingested_attempt_id i),
     jb_uploaded_at := (case jb_uploaded_at j of None \<Rightarrow> Some (in_timestamp i) | Some t \<Rightarrow> Some t),
     jb_updated_at := in_timestamp i, jb_version := jb_version j + 1\<rparr>"

lemma ingest_diagnose_not_ingested: "ingest_diagnose i c \<noteq> Ingest_ingested"
  by (auto simp: ingest_diagnose_def Let_def split: option.splits)

lemma ingest_ingested_batch:
  assumes "ingestSource i db = (Inr Ingest_ingested, db')"
  obtains activated where "ingest_batch i db = Inr (activated, db')" "activated \<noteq> []"
    "ingest_input_ok i" "\<forall>j \<in> set activated. ulid_ok (jb_id j)"
  using assms ingest_diagnose_not_ingested
  by (auto simp: ingestSource_def updatedJobIdRowsSchema_def rows_max_one_Inr_iff result_simps
      split: sum.split_asm prod.split_asm if_split_asm)

lemma ingested_effect:
  assumes inv: "d1_inv db" and run: "ingestSource i db = (Inr Ingest_ingested, db')"
  obtains j where "j \<in> set (d1_jobs db)" "ingestible i j"
    "d1_jobs db' = update_where (\<lambda>x. jb_id x = jb_id j) (\<lambda>_. ingested_row i j) (d1_jobs db)"
    "d1_attempts db' = d1_attempts db @ [ingested_attempt i]"
    "d1_executions db' = d1_executions db @ execution_of_attempt (ingested_attempt i)"
    "job_checks (ingested_row i j)" "attempt_checks (ingested_attempt i)" "ulid_ok (jb_id j)"
    "ulid_ok (ingested_attempt_id i)"
proof -
  obtain rows where batch: "ingest_batch i db = Inr (rows, db')" and rows: "rows \<noteq> []"
    and ok: "ingest_input_ok i" "\<forall>j \<in> set rows. ulid_ok (jb_id j)"
    by (rule ingest_ingested_batch [OF run])
  obtain ra db1 db2 events where
    ins: "(if so_generationOneAttemptId (in_job i) = None then insert_attempt_sql i db else Inr ([], db))
      = Inr (ra, db1)"
    and upj: "activate_attempt_sql i db1 = Inr (rows, db2)"
    and event: "record_ingestion_event_sql i db2 = Inr (events, db')"
    using batch by (auto simp: ingest_batch_def batch2_Inr_iff result_simps)
  have same: "d1_jobs db' = d1_jobs db2" "d1_attempts db' = d1_attempts db2" "d1_executions db' = d1_executions db2"
    using event insert_event_tables by (auto simp: record_ingestion_event_sql_def)
  have dist: "distinct (map jb_id (d1_jobs db))" using inv by (simp add: d1_inv_def d1_keys_def)
  have "db1 = db \<or> insert_attempt (ingested_attempt i) db = Inr (ra, db1)"
    using ins by (auto simp: insert_attempt_sql_def split: if_split_asm)
  moreover have "db1 \<noteq> db"
  proof
    assume "db1 = db"
    then have "rows = []"
      using upj ingestible_no_attempt [OF inv, of _ i]
      by (auto simp: activate_attempt_sql_def update_jobs_noop)
    then show False using rows by simp
  qed
  ultimately have ia: "insert_attempt (ingested_attempt i) db = Inr (ra, db1)" by blast
  have none: "so_generationOneAttemptId (in_job i) = None"
    using ins \<open>db1 \<noteq> db\<close> by (auto split: if_split_asm)
  have checks: "attempt_checks (ingested_attempt i)" "ulid_ok (ingested_attempt_id i)"
    using ia ok(1) none by (auto simp: insert_attempt_def ingest_input_ok_def ingested_attempt_id_def split: if_split_asm)
  have db1: "db1 = db\<lparr>d1_attempts := d1_attempts db @ [ingested_attempt i],
      d1_executions := d1_executions db @ execution_of_attempt (ingested_attempt i)\<rparr>"
    using ia by (auto simp: insert_attempt_def split: if_split_asm)
  have dist1: "distinct (map jb_id (d1_jobs db1))" using dist db1 by simp
  show thesis
  proof (rule update_jobs_cases [OF upj [unfolded activate_attempt_sql_def] dist1,
        of "ut_jobId (so_target (in_job i))"], goal_cases)
    case (3 j)
    note row = this [folded ingested_row_def]
    have "jb_id (ingested_row i j) = jb_id j" by (simp add: ingested_row_def)
    then have "ulid_ok (jb_id j)" using row(3) ok(2) by simp
    then show ?case using row same db1 checks by (intro that [of j]) simp_all
  qed (use rows in \<open>auto simp: ingestible_def Let_def\<close>)
qed

text \<open>A job with an active attempt keeps one, so it is never ingested again.\<close>

lemma active_attempt_stays:
  assumes "d1_inv old" "d1_inv new" "job_evolves old new j j'" "j \<in> set (d1_jobs old)" "j' \<in> set (d1_jobs new)"
    "active_attempt old j = Some a" "1 \<le> am_generation a"
  shows "jb_active_attempt_id j' \<noteq> None"
proof
  assume "jb_active_attempt_id j' = None"
  then have "job_stage new j' < 8" by (simp add: job_stage_def active_attempt_def status_rank_less)
  moreover have "8 \<le> job_stage old j" using assms(6,7) by (simp add: job_stage_def)
  ultimately show False using job_evolves_stage [OF assms(3)] by simp
qed

lemma not_ingestible_ingest:
  assumes "\<forall>j \<in> set (d1_jobs db). \<not> ingestible i j"
  shows "fst (ingestSource i db) \<noteq> Inr Ingest_ingested" "unchanged_tables db (snd (ingestSource i db))"
proof -
  have "find_job (ingestible i) db = None" using assms by (simp add: find_job_def find_None_iff)
  then have "(if so_generationOneAttemptId (in_job i) = None then insert_attempt_sql i db
      else Inr ([], db)) = Inr ([], db)" by (simp add: insert_attempt_sql_def)
  moreover have "activate_attempt_sql i db = Inr ([], db)"
    unfolding activate_attempt_sql_def using assms by (intro update_jobs_noop) blast
  ultimately have batch: "ingest_batch i db = Inr (activated, db') \<longleftrightarrow>
      activated = [] \<and> (\<exists>events. record_ingestion_event_sql i db = Inr (events, db'))" for activated db'
    by (auto simp: ingest_batch_def batch2_Inr_iff result_simps)
  show "fst (ingestSource i db) \<noteq> Inr Ingest_ingested"
  proof
    assume "fst (ingestSource i db) = Inr Ingest_ingested"
    then obtain db' where "ingestSource i db = (Inr Ingest_ingested, db')" by (metis prod.collapse)
    then show False using ingest_ingested_batch batch by metis
  qed
  have event: "unchanged_tables db db'" if "record_ingestion_event_sql i db = Inr (events, db')" for events db'
    using that insert_event_unchanged by (auto simp: record_ingestion_event_sql_def)
  show "unchanged_tables db (snd (ingestSource i db))"
  proof (cases "res_bind (zod_parse ingest_input_ok i) (\<lambda>i. ingest_batch i db)")
    case (Inl e)
    then show ?thesis by (simp add: ingestSource_def)
  next
    case (Inr q)
    then have "ingest_batch i db = Inr (fst q, snd q)" by (simp add: result_simps)
    then have "unchanged_tables db (snd q)" using batch event by blast
    then show ?thesis using Inr by (cases q) (simp add: ingestSource_def)
  qed
qed

text \<open>Claim C16. An upload is ingested at most once: when an ingestion succeeds, the job had no attempt
  at all and now has exactly the one described by the event, of generation one, pending, with the
  provider selection and with its execution row; and no ingestion performed on the same job at any
  later point of any history, whatever it read, succeeds or changes jobs or attempts.\<close>

theorem ingested_once:
  assumes inv: "d1_inv db" and run: "ingestSource i db = (Inr Ingest_ingested, db')"
    and later: "d1_inv later" "evolves db' later"
    and again: "ut_jobId (so_target (in_job k)) = ut_jobId (so_target (in_job i))"
  shows "(\<forall>a \<in> set (d1_attempts db). am_job_id a \<noteq> ut_jobId (so_target (in_job i))) \<and>
    d1_attempts db' = d1_attempts db @ [ingested_attempt i] \<and>
    d1_executions db' = d1_executions db @ execution_of_attempt (ingested_attempt i) \<and>
    (\<exists>j \<in> set (d1_jobs db). ingestible i j \<and>
       set (d1_jobs db') = insert (ingested_row i j) (set (d1_jobs db) - {j})) \<and>
    fst (ingestSource k later) \<noteq> Inr Ingest_ingested \<and>
    unchanged_tables later (snd (ingestSource k later))"
proof -
  obtain j where j: "j \<in> set (d1_jobs db)" "ingestible i j"
    "d1_jobs db' = update_where (\<lambda>x. jb_id x = jb_id j) (\<lambda>_. ingested_row i j) (d1_jobs db)"
    "d1_attempts db' = d1_attempts db @ [ingested_attempt i]"
    "d1_executions db' = d1_executions db @ execution_of_attempt (ingested_attempt i)"
    by (rule ingested_effect [OF inv run])
  let ?j = "ingested_row i j"
  have keys: "d1_keys db" using inv by (simp add: d1_inv_def)
  have id: "jb_id ?j = jb_id j" by (simp add: ingested_row_def)
  have jobs: "set (d1_jobs db') = insert ?j (set (d1_jobs db) - {j})"
    using replaced_rows(1) [OF keys j(1) id] j(3) by simp
  have inv': "d1_inv db'" using job_step_inv [OF ingest_step [OF inv] inv, of i] run by simp
  then have keys': "d1_keys db'" by (simp add: d1_inv_def)
  have active: "active_attempt db' ?j = Some (ingested_attempt i)"
    using active_attempt_Some_iff [OF keys'] j(4) by (simp add: ingested_row_def ingested_attempt_def)
  have "\<forall>x \<in> set (d1_jobs later). \<not> ingestible k x"
  proof
    fix x assume x: "x \<in> set (d1_jobs later)"
    show "\<not> ingestible k x"
    proof
      assume ing: "ingestible k x"
      then have "jb_id x = jb_id ?j" using again id j(2) by (simp add: ingestible_def Let_def)
      then have "job_evolves db' later ?j x" using read_job_now [OF later(2,1) _ x] jobs by simp
      then have "jb_active_attempt_id x \<noteq> None"
        using active_attempt_stays [OF inv' later(1) _ _ x active] jobs by (simp add: ingested_attempt_def)
      then show False using ing by (simp add: ingestible_def Let_def)
    qed
  qed
  then show ?thesis
    using not_ingestible_ingest [of later k] ingestible_no_attempt [OF inv j(1,2)] j(1,2,4,5) jobs by blast
qed

theorem ingested_once_witness:
  "ingestSource ex_ingest ex_created = (Inr Ingest_ingested, ex_ingested) \<and>
   d1_attempts ex_ingested = [ingested_attempt ex_ingest] \<and>
   fst (ingestSource ex_ingest ex_ingested) \<noteq> Inr Ingest_ingested \<and>
   unchanged_tables ex_ingested (snd (ingestSource ex_ingest ex_ingested))"
proof -
  have "d1_inv ex_ingested"
    using job_step_inv [OF ingest_step [OF ex_created_inv] ex_created_inv, of ex_ingest] ex_ingest_run by simp
  from ingested_once [OF ex_created_inv ex_ingest_run this evolves_refl refl] ex_ingest_run
  show ?thesis by simp
qed

section \<open>Cancelling a job\<close>

text \<open>Claim C35. The answer to a cancellation and what it stores are determined by the job: the same answer again,
  and nothing stored, while it is cancelled or being cancelled; a refusal, and nothing stored, when it already ended.
  Otherwise the job becomes CANCELLED, or CANCEL_REQUESTED when it was being submitted or running; its active
  attempt, if it has one, becomes CANCELLED when it was not submitted yet and CANCEL_REQUESTED when it may already run,
  losing its heartbeat when it was running; and every other job and attempt stays as it is. The one exception is the
  answer for a job for which a cancellation was recorded before: it and its attempt are changed all the same, but the
  request throws, as if only a part had been stored. The rows are those the schemas and CHECKs accept, and the
  identifier of the event is new.\<close>

theorem requestJobCancellation_effect:
  assumes inv: "d1_inv db" and j: "j \<in> set (d1_jobs db)" "owned (ac_ownerSub i) (ac_jobId i) j"
    and ok: "action_input_ok i" "databaseJobSummaryRowSchema j" "nullable ulid_ok (jb_active_attempt_id j)"
    and checks: "job_checks j" "\<forall>a \<in> set (d1_attempts db). attempt_checks a"
      "ac_eventId i \<notin> ev_id ` set (d1_events db)"
  shows "if jb_status j \<in> {CANCELLED, CANCEL_REQUESTED}
    then requestJobCancellation i db = (Inr (Cancel_idempotent (summary_of j)), db)
    else if jb_status j \<notin> set ACTIVE_JOB_STATUSES
    then requestJobCancellation i db = (Inr Cancel_invalid_state, db)
    else \<exists>db'. requestJobCancellation i db =
          (if cancel_recorded db (ac_jobId i)
           then Inl (JsError ''Cancellation transition was only partially persisted'')
           else Inr (if jb_status j \<in> {SUBMITTING, RUNNING}
                     then Cancel_requested (summary_of (cancelled_row i j))
                     else Cancel_cancelled (summary_of (cancelled_row i j))), db') \<and>
        set (d1_jobs db') = insert (cancelled_row i j) (set (d1_jobs db) - {j}) \<and>
        set (d1_attempts db') = (case active_attempt db j of None \<Rightarrow> set (d1_attempts db)
          | Some a \<Rightarrow> insert (cancelled_attempt i a) (set (d1_attempts db) - {a}))"
proof -
  have "0 < jb_version j" using checks(1) by (simp add: job_checks_def)
  note read = cancel_read_job [OF inv j ok this]
  show ?thesis
  proof (cases "jb_status j \<in> set ACTIVE_JOB_STATUSES \<and> jb_status j \<noteq> CANCEL_REQUESTED")
    case True
    let ?c = "\<lparr>cx_job = j, cx_attempt_status = map_option am_status (active_attempt db j)\<rparr>"
    have "jb_status j \<notin> {CANCELLED, CANCEL_REQUESTED}" using True by (auto simp: ACTIVE_JOB_STATUSES_def)
    then have run: "requestJobCancellation i db = cancel_commit i ?c db"
      using True read by (simp add: requestJobCancellation_def)
    have active: "jb_status j \<in> set ACTIVE_JOB_STATUSES" "jb_status j \<noteq> CANCEL_REQUESTED"
      "cx_job ?c = j" using True by simp_all
    obtain db' where "cancel_commit i ?c db =
      (if cancel_recorded db (ac_jobId i)
       then Inl (JsError ''Cancellation transition was only partially persisted'')
       else Inr (if jb_status j \<in> {SUBMITTING, RUNNING} then Cancel_requested (summary_of (cancelled_row i j))
                 else Cancel_cancelled (summary_of (cancelled_row i j))), db')"
      "set (d1_jobs db') = insert (cancelled_row i j) (set (d1_jobs db) - {j})"
      "set (d1_attempts db') = (case active_attempt db j of None \<Rightarrow> set (d1_attempts db)
         | Some a \<Rightarrow> insert (cancelled_attempt i a) (set (d1_attempts db) - {a}))"
      by (rule cancel_commit_job [OF inv j ok(1,2) active(1,2) checks active(3)])
    then show ?thesis using run True \<open>jb_status j \<notin> {CANCELLED, CANCEL_REQUESTED}\<close> by auto
  next
    case False
    then show ?thesis using read by (auto simp: requestJobCancellation_def)
  qed
qed

definition ex_cancel :: action_input where "ex_cancel = ex_action\<lparr>ac_eventId := ex_attempt_id\<rparr>"

theorem requestJobCancellation_effect_witness:
  "\<exists>db'. requestJobCancellation ex_cancel ex_ingested
       = (Inr (Cancel_cancelled (summary_of (cancelled_row ex_cancel ex_ingested_row))), db') \<and>
     set (d1_attempts db') = {cancelled_attempt ex_cancel (ingested_attempt ex_ingest)} \<and>
     am_status (cancelled_attempt ex_cancel (ingested_attempt ex_ingest)) = ATT_CANCELLED"
proof -
  have inv: "d1_inv ex_ingested"
    using job_step_inv [OF ingest_step [OF ex_created_inv] ex_created_inv, of ex_ingest] ex_ingest_run by simp
  have tables: "d1_jobs ex_ingested = [ex_ingested_row]" "d1_attempts ex_ingested = [ingested_attempt ex_ingest]"
    "ac_eventId ex_cancel \<notin> ev_id ` set (d1_events ex_ingested)" "\<not> cancel_recorded ex_ingested (ac_jobId ex_cancel)"
    by (simp_all add: ex_ingested_def ex_cancel_def cancel_recorded_def user_event_fields)
      (simp add: ex_attempt_id_def ex_event_id_def)
  have row: "owned (ac_ownerSub ex_cancel) (ac_jobId ex_cancel) ex_ingested_row"
    "jb_status ex_ingested_row = SUBMISSION_PENDING" "job_checks ex_ingested_row"
    "nullable ulid_ok (jb_active_attempt_id ex_ingested_row)" "action_input_ok ex_cancel"
    using ex_row_checks ex_action_ok
    by (simp_all add: owned_def ex_cancel_def ex_ingested_row_def job_checks_def action_input_ok_def)
  have schema: "databaseJobSummaryRowSchema ex_ingested_row"
    using ex_row_schema by (simp add: databaseJobSummaryRowSchema_def ex_ingested_row_def)
  have "ingested_attempt_id ex_ingest = ex_attempt_id"
    by (simp add: ingested_attempt_id_def ex_ingest_def ex_source_def)
  then have attempt: "\<forall>a \<in> set (d1_attempts ex_ingested). attempt_checks a"
    by (simp add: tables attempt_checks_def ingested_attempt_def) (simp add: ex_ingest_def ex_source_def
        ingested_attempt_id_def ingest_result_prefix_def like_prefix_def to_upper_def)
  have status: "am_status (ingested_attempt ex_ingest) = ATT_SUBMISSION_PENDING"
    "active_attempt ex_ingested ex_ingested_row = Some (ingested_attempt ex_ingest)"
    using \<open>ingested_attempt_id ex_ingest = ex_attempt_id\<close>
    by (simp_all add: active_attempt_def find_attempt_def tables ingested_attempt_def)
  have "ex_ingested_row \<in> set (d1_jobs ex_ingested)" by (simp add: tables)
  from requestJobCancellation_effect [OF inv this row(1,5) schema row(4,3) attempt tables(3)] show ?thesis
    using row(2) tables status by (auto simp: ACTIVE_JOB_STATUSES_def cancelled_attempt_def cancelled_attempt_status_def)
qed

section \<open>Listing jobs\<close>

text \<open>Claim C38. A client that follows the cursors of the job list sees every job of its owner that is
  not deleted exactly once, newest first and by identifier within the same time, whatever page
  size it asks for.\<close>

theorem listing_complete:
  assumes "d1_keys db" "1 \<le> n" "n \<le> 100" "length (d1_jobs db) < fuel"
    and "\<forall>j \<in> set (d1_jobs db). listed ownerSub j \<longrightarrow> databaseJobSummaryRowSchema j"
  shows "\<exists>js. collect_pages fuel ownerSub None n db = Inr (map summary_of js) \<and> distinct js \<and>
    sorted_wrt listed_before js \<and> set js = {j \<in> set (d1_jobs db). listed ownerSub j}"
proof -
  let ?L = "listing ownerSub None db"
  have dist: "distinct (map jb_id (d1_jobs db))" using assms(1) by (simp add: d1_keys_def)
  have sorted: "sorted_wrt listed_before ?L" by (rule listing_sorted [OF dist])
  have set: "set ?L = {j \<in> set (d1_jobs db). listed ownerSub j}"
    by (auto simp: set_listing after_cursor_def)
  have distinct: "distinct ?L" using sorted_wrt_distinct [OF sorted] listed_before_irrefl by blast
  have "length ?L = card (set ?L)" using distinct by (rule distinct_card [symmetric])
  also have "\<dots> \<le> card (set (d1_jobs db))" unfolding set by (rule card_mono) auto
  also have "\<dots> \<le> length (d1_jobs db)" by (rule card_length)
  finally have "length ?L < fuel" using assms(4) by simp
  then show ?thesis
    using collect_pages_all [OF dist assms(2,3,5)] sorted distinct set by blast
qed

theorem listing_complete_witness:
  "collect_pages 2 ''u'' None 1 ex_created = Inr [summary_of (new_job_row ex_new_job)]"
proof -
  have keys: "d1_keys ex_created" using ex_created_inv by (simp add: d1_inv_def)
  have "\<forall>j \<in> set (d1_jobs ex_created). listed ''u'' j \<longrightarrow> databaseJobSummaryRowSchema j"
    using ex_row_schema by simp
  then have "\<exists>js. collect_pages 2 ''u'' None 1 ex_created = Inr (map summary_of js) \<and> distinct js \<and>
      sorted_wrt listed_before js \<and> set js = {j \<in> set (d1_jobs ex_created). listed ''u'' j}"
    by (intro listing_complete [OF keys]) simp_all
  then obtain js where js: "collect_pages 2 ''u'' None 1 ex_created = Inr (map summary_of js)" "distinct js"
    "set js = {j \<in> set (d1_jobs ex_created). listed ''u'' j}" by blast
  have "{j \<in> set (d1_jobs ex_created). listed ''u'' j} = {new_job_row ex_new_job}"
    by (auto simp: listed_def)
  then have "js = [new_job_row ex_new_job]" using js(2,3) distinct_set_singleton by metis
  then show ?thesis using js(1) by simp
qed

section \<open>Queue messages\<close>

text \<open>Every message of a batch is settled: it is acknowledged, or delivered again after
  between one second and fifteen minutes, never longer than fifteen seconds doubled with each of
  its earlier deliveries.\<close>

theorem queue_messages_settled:
  "length (fst (handleUploadQueueBatch ms db)) = length ms \<and>
   (\<forall>(m, s) \<in> set (zip ms (fst (handleUploadQueueBatch ms db))).
      case s of Acknowledged \<Rightarrow> True
      | Delayed d \<Rightarrow> 1 \<le> d \<and> d \<le> 900 \<and>
          (case qm_attempts m of
             None \<Rightarrow> d \<le> 15
           | Some n \<Rightarrow> d \<le> 15 * 2 ^ nat (max 0 (n - 1))))"
proof (intro conjI ballI)
  show "length (fst (handleUploadQueueBatch ms db)) = length ms" by (rule handleUploadQueueBatch_length)
next
  fix p assume "p \<in> set (zip ms (fst (handleUploadQueueBatch ms db)))"
  then obtain m outcome where p: "p = (m, settle m outcome)"
    using handleUploadQueueBatch_settles [of ms db] by (auto simp: list_all2_iff)
  let ?d = "retryDelaySeconds (qm_attempts m) (qm_sample m)"
  have "1 \<le> ?d" "?d \<le> 900" "?d \<le> retry_delay_cap (qm_attempts m)"
    using retryDelaySeconds_bounds [of "qm_attempts m" "qm_sample m"] retry_delay_cap_bounds(2) [of "qm_attempts m"]
    by simp_all
  moreover have "case qm_attempts m of None \<Rightarrow> ?d \<le> 15 | Some n \<Rightarrow> ?d \<le> 15 * 2 ^ nat (max 0 (n - 1))"
    using calculation(3) retry_delay_cap_doubles(1) retry_delay_cap_doubles(2) [of "the (qm_attempts m)"]
    by (cases "qm_attempts m") simp_all
  ultimately show "case p of (m, s) \<Rightarrow> (case s of Acknowledged \<Rightarrow> True
      | Delayed d \<Rightarrow> 1 \<le> d \<and> d \<le> 900 \<and>
          (case qm_attempts m of None \<Rightarrow> d \<le> 15 | Some n \<Rightarrow> d \<le> 15 * 2 ^ nat (max 0 (n - 1))))"
    unfolding p settle_def by (auto split: sum.split queue_decision.split)
qed

theorem queue_messages_settled_witness:
  "fst (handleUploadQueueBatch [ex_message] ex_created) = [Delayed 31] \<and> (31::int) \<le> 15 * 2 ^ nat (max 0 (3 - 1))"
  using queue_messages_settled [of "[ex_message]" ex_created] unfolding ex_message_run by simp

end
