(* ===== verification/RunpodEffects.thy ===== *)
theory RunpodEffects
  imports JobProperties
begin

text \<open>
  What the operations of apps/orchestrator/src/runpod-control-repository.ts do when they succeed, as
  single changes of an attempt and its job: when a submission can be prepared, what a granted claim
  says, what a retry stores, and how a submission nobody claims ends.
\<close>

section \<open>One attempt at a time\<close>

lemma history_later:
  assumes "history (new # h)" "old \<in> set (new # h)"
  shows "d1_inv new" "evolves old new"
proof -
  have "\<forall>db \<in> set (new # h). d1_inv db \<and> evolves db new" using history_sound [OF assms(1)] by simp
  then show "d1_inv new" "evolves old new" using assms(2) by auto
qed

lemma occupies_gpu_iff: "occupies_gpu a \<longleftrightarrow> in_flight a"
  by (simp add: occupies_gpu_def in_flight_def IN_FLIGHT_STATUSES_def)

lemma all_equal_length:
  assumes "distinct xs" "\<And>x y. x \<in> set xs \<Longrightarrow> y \<in> set xs \<Longrightarrow> x = y"
  shows "length xs \<le> 1"
proof (rule ccontr)
  assume "\<not> length xs \<le> 1"
  then obtain x y ys where xs: "xs = x # y # ys" by (metis One_nat_def list.size(3) list.exhaust le_numeral_extra(4) length_Cons zero_le)
  then have "x = y" by (intro assms(2)) simp_all
  then show False using assms(1) xs by simp
qed

lemma single_flight_length:
  assumes inv: "d1_inv db"
  shows "length (filter occupies_gpu (d1_attempts db)) \<le> 1"
proof (rule all_equal_length)
  have "distinct (d1_attempts db)"
    using inv unfolding d1_inv_def d1_keys_def distinct_map by blast
  then show "distinct (filter occupies_gpu (d1_attempts db))" by simp
  show "x = y" if "x \<in> set (filter occupies_gpu (d1_attempts db))"
    "y \<in> set (filter occupies_gpu (d1_attempts db))" for x y
    using that inv by (simp add: occupies_gpu_iff d1_inv_def single_flight_def)
qed

text \<open>What an answer of \<open>prepareSubmission\<close> says of the attempt.\<close>

lemma prepared_attempt:
  assumes inv: "d1_inv db" and run: "prepareSubmission j h t e db = (Inr (Some p), db')"
  obtains a where "a \<in> set (d1_attempts db)" "submittable j db a" "ps_attemptId p = am_id a"
    "ps_jobId p = am_job_id a" "ps_generation p = am_generation a"
proof -
  obtain rows db1 where upa: "prepare_submission_sql j h t e db = Inr (fst rows, db1)"
    and answer: "\<exists>a. updatedAttemptRowsSchema (fst rows) = Inr (Some a) \<and> ps_attemptId p = am_id a \<and>
      ps_jobId p = am_job_id a \<and> ps_generation p = am_generation a"
    using run
    by (auto simp: prepareSubmission_def prepare_batch_def batch2_Inr_iff result_simps
        split: sum.split_asm prod.split_asm option.split_asm)
  have keys: "distinct (map am_id (d1_attempts db))" using inv by (simp add: d1_inv_def d1_keys_def)
  obtain k where key: "\<forall>a. submittable j db a \<longrightarrow> am_id a = k" using submittable_key by blast
  show thesis
  proof (cases rule: update_attempts_cases [OF upa [unfolded prepare_submission_sql_def] keys key])
    case 1
    then show ?thesis using answer by (auto simp: updatedAttemptRowsSchema_def)
  next
    case (2 a)
    then show ?thesis using answer that by (auto simp: updatedAttemptRowsSchema_def rows_max_one_Inr_iff)
  qed
qed

lemma nothing_prepared_when_occupied:
  assumes inv: "d1_inv db" and b: "b \<in> set (d1_attempts db)" "occupies_gpu b"
  shows "fst (prepareSubmission j h t e db) \<noteq> Inr (Some p)"
proof
  assume "fst (prepareSubmission j h t e db) = Inr (Some p)"
  then have "prepareSubmission j h t e db = (Inr (Some p), snd (prepareSubmission j h t e db))"
    by (simp add: prod_eq_iff)
  then obtain a where a: "a \<in> set (d1_attempts db)" "submittable j db a"
    by (rule prepared_attempt [OF inv])
  have "b = a" using submittable_alone [OF _ a b(1)] inv b(2) by (simp add: occupies_gpu_iff d1_inv_def)
  then show False using a(2) b(2) by (auto simp: submittable_def occupies_gpu_def)
qed

lemma nothing_dispatchable_when_occupied:
  assumes "b \<in> set (d1_attempts db)" "occupies_gpu b"
  shows "findDispatchablePendingJobId db = Inr None"
proof -
  have "filter (dispatchable db) (d1_jobs db) = []"
    using assms unfolding filter_empty_conv dispatchable_def by blast
  then show ?thesis by (simp add: findDispatchablePendingJobId_def order_by_def)
qed

section \<open>One worker for an attempt\<close>

definition claimable :: "winner_input \<Rightarrow> d1 \<Rightarrow> attempt_row \<Rightarrow> bool" where
  "claimable i db a \<longleftrightarrow>
     am_id a = cw_attemptId i \<and> am_job_id a = cw_jobId i \<and> am_status a = ATT_SUBMITTING \<and>
     am_winning_runpod_job_id a = None \<and> am_claim_token_hash a = Some (cw_claimTokenHash i) \<and>
     am_claim_issued_at a \<noteq> None \<and> sql_greater (am_claim_expires_at a) (cw_timestamp i) \<and>
     am_claim_consumed_at a = None"

definition claimed_attempt :: "winner_input \<Rightarrow> attempt_row \<Rightarrow> attempt_row" where
  "claimed_attempt i a = a\<lparr>am_status := ATT_RUNNING, am_winning_runpod_job_id := Some (cw_runpodJobId i),
     am_claim_consumed_at := Some (cw_timestamp i), am_claimed_at := Some (cw_timestamp i),
     am_heartbeat_token_hash := Some (cw_heartbeatTokenHash i),
     am_heartbeat_issued_at := Some (cw_timestamp i),
     am_heartbeat_expires_at := Some (cw_heartbeatExpiresAt i),
     am_heartbeat_revoked_at := None, am_updated_at := cw_timestamp i\<rparr>"

text \<open>A successful claim changes exactly one attempt and its job.\<close>

lemma claimWinner_True:
  assumes inv: "d1_inv db" and run: "claimWinner i db = (Inr True, db')"
  obtains a where "a \<in> set (d1_attempts db)" "claimable i db a"
    "d1_attempts db' = update_where (\<lambda>x. am_id x = am_id a) (\<lambda>_. claimed_attempt i a) (d1_attempts db)"
    "active_in db (am_job_id a) (am_id a) SUBMITTING"
proof -
  obtain rows where batch: "claim_batch i db = Inr (rows, db')" and rows: "rows \<noteq> []"
    using run
    by (auto simp: claimWinner_def answer_attempt_def result_simps updatedJobIdRowsSchema_def
        split: sum.split_asm prod.split_asm)
  obtain subs dbs db0 q db1 db2 where
    sub: "insert_submission_sql (cw_runpodJobId i) (cw_attemptId i) ''worker_claim'' (cw_timestamp i) db
      = Inr (subs, dbs)"
    and upa: "claim_winner_sql i dbs = Inr (rows, db0)"
    and won: "mark_submission_winner_sql (cw_runpodJobId i) (cw_attemptId i) (cw_timestamp i) db0
      = Inr (fst q, db1)"
    and upj: "mark_job_running_sql (cw_jobId i) (cw_attemptId i) (cw_timestamp i) db1 = Inr (fst (snd q), db2)"
    and event: "record_claim_event_sql (cw_eventId i) (cw_jobId i) (cw_attemptId i) (cw_runpodJobId i)
      (cw_timestamp i) db2 = Inr (snd (snd q), db')"
    using batch by (auto simp: claim_batch_def result_simps batch3_Inr_iff)
  have same: "d1_jobs dbs = d1_jobs db" "d1_attempts dbs = d1_attempts db"
    using insert_submission_unchanged [OF sub] by (simp_all add: unchanged_tables_def)
  have keys: "distinct (map am_id (d1_attempts dbs))" using inv same by (simp add: d1_inv_def d1_keys_def)
  have "d1_attempts db' = d1_attempts db0"
  proof -
    have "d1_attempts db1 = d1_attempts db0"
      using mark_submission_winner_unchanged [OF won] by (simp add: unchanged_tables_def)
    moreover have "d1_attempts db2 = d1_attempts db1"
      using upj by (auto simp: mark_job_running_sql_def update_jobs_def Let_def split: if_splits)
    moreover have "d1_attempts db' = d1_attempts db2"
      using insert_event_unchanged [OF event [unfolded record_claim_event_sql_def]]
      by (simp add: unchanged_tables_def)
    ultimately show ?thesis by simp
  qed
  have key: "\<forall>a. claimable i db a \<and> active_in dbs (cw_jobId i) (cw_attemptId i) SUBMITTING \<longrightarrow>
      am_id a = cw_attemptId i" by (simp add: claimable_def)
  have upd: "update_attempts (\<lambda>a. claimable i db a \<and> active_in dbs (cw_jobId i) (cw_attemptId i) SUBMITTING)
      (claimed_attempt i) dbs = Inr (rows, db0)"
    using upa by (simp add: claim_winner_sql_def claimable_def active_in_def claimed_attempt_def [abs_def] conj_ac)
  show thesis
  proof (cases rule: update_attempts_cases [OF upd keys key])
    case 1
    then show ?thesis using rows by simp
  next
    case (2 a)
    then show ?thesis using that same \<open>d1_attempts db' = _\<close>
      by (auto simp: claimable_def active_in_def)
  qed
qed

section \<open>Retried jobs\<close>

lemma insert_retry_rows:
  assumes "insert_retry_attempt_sql i db = Inr (rows, db1)" "rows \<noteq> []"
  obtains a where "rows = [retried_attempt i a]" "d1_attempts db1 = d1_attempts db @ [retried_attempt i a]"
proof -
  obtain a where "insert_attempt (retried_attempt i a) db = Inr (rows, db1)"
    using assms by (auto simp: insert_retry_attempt_sql_def split: option.split_asm if_split_asm)
  then show thesis using that by (auto simp: insert_attempt_def split: if_splits)
qed

lemma retried_row:
  assumes run: "retryFailedJob i db = (Inr (Retried g s), db')"
  obtains a where "retried_attempt i a \<in> set (d1_attempts db')"
proof -
  obtain rows where batch: "retry_batch i db = Inr (rows, db')" and answer: "retry_answer i rows db' = Inr (Retried g s)"
    using run
    by (auto simp: retryFailedJob_def retry_input_parse_def result_simps split: sum.split_asm prod.split_asm if_split_asm)
  obtain db1 db2 where ins: "insert_retry_attempt_sql i db = Inr (fst rows, db1)"
    and upj: "activate_retry_attempt_sql i db1 = Inr (fst (snd rows), db2)"
    and event: "record_retry_event_sql i db2 = Inr (snd (snd rows), db')"
    using batch by (auto simp: retry_batch_def batch3_Inr_iff)
  have "fst rows \<noteq> []"
    using answer
    by (cases rows) (auto simp: retry_answer_def rows_max_one_Inr_iff result_simps split: if_split_asm option.split_asm)
  then obtain a where "d1_attempts db1 = d1_attempts db @ [retried_attempt i a]"
    using insert_retry_rows [OF ins] by metis
  moreover have "d1_attempts db2 = d1_attempts db1"
    using upj by (auto simp: activate_retry_attempt_sql_def update_jobs_def Let_def split: if_splits)
  moreover have "d1_attempts db' = d1_attempts db2"
    using insert_event_unchanged [OF event [unfolded record_retry_event_sql_def]] by (simp add: unchanged_tables_def)
  ultimately show thesis using that [of a] by simp
qed

section \<open>An ingested job is submitted\<close>

definition prepared_row :: "string \<Rightarrow> string \<Rightarrow> string \<Rightarrow> attempt_row \<Rightarrow> attempt_row" where
  "prepared_row hash t e a = a\<lparr>am_status := ATT_SUBMITTING, am_claim_token_hash := Some hash,
     am_claim_issued_at := Some t, am_claim_expires_at := Some e, am_claim_consumed_at := None,
     am_submission_started_at := Some t, am_submission_outcome := None,
     am_submission_finished_at := None, am_updated_at := t\<rparr>"

definition submitting_row :: "string \<Rightarrow> job_row \<Rightarrow> job_row" where
  "submitting_row t j = j\<lparr>jb_status := SUBMITTING,
     jb_processing_started_at := (case jb_processing_started_at j of None \<Rightarrow> Some t | Some s \<Rightarrow> Some s),
     jb_updated_at := t, jb_version := jb_version j + 1\<rparr>"

text \<open>A statement that matches one row and whose change is accepted changes this row.\<close>

lemma attempt_updated:
  assumes keys: "distinct (map am_id (d1_attempts db))" and key: "\<forall>a. p a \<longrightarrow> am_id a = k"
    and a: "a \<in> set (d1_attempts db)" "p a" "attempt_checks (f a)"
    and same: "\<And>x. am_winning_runpod_job_id (f x) = am_winning_runpod_job_id x"
      "winners_unique (d1_attempts db)"
  obtains db' where "update_attempts p f db = Inr ([f a], db')" "d1_jobs db' = d1_jobs db"
    "set (d1_attempts db') = insert (f a) (set (d1_attempts db) - {a})"
proof -
  obtain db' where "update_attempts p f db = Inr ([f a], db')" "d1_jobs db' = d1_jobs db"
    "d1_attempts db' = update_where (\<lambda>x. am_id x = am_id a) (\<lambda>_. f a) (d1_attempts db)"
    by (rule update_attempts_one [where f = f, OF keys key a same(2,1)])
  then show thesis using that set_update_where_id [OF keys a(1)] by simp
qed

lemma job_updated:
  assumes keys: "distinct (map jb_id (d1_jobs db))" and key: "\<forall>j. p j \<longrightarrow> jb_id j = k"
    and j: "j \<in> set (d1_jobs db)" "p j" "job_checks (f j)" "jb_active_attempt_id (f j) = jb_active_attempt_id j"
  obtains db' where "update_jobs p f db = Inr ([f j], db')" "d1_attempts db' = d1_attempts db"
    "f j \<in> set (d1_jobs db')"
  using update_jobs_one [where f = f, OF keys key j] set_update_where_id [OF keys j(1)] by simp

lemma prepareSubmission_submits:
  assumes inv: "d1_inv db" and a: "a \<in> set (d1_attempts db)" "submittable jobId db a" "attempt_checks a"
      "0 < am_generation a" "ulid_ok (am_id a)" "ulid_ok jobId"
    and checks: "\<forall>j \<in> set (d1_jobs db). jb_id j = jobId \<longrightarrow> job_checks j"
    and input: "utc_datetime_ok t" "utc_datetime_ok e" "sha256_hex_ok hash"
  obtains j db' where "prepareSubmission jobId hash t e db =
      (Inr (Some \<lparr>ps_attemptId = am_id a, ps_generation = am_generation a, ps_jobId = jobId\<rparr>), db')"
    "prepared_row hash t e a \<in> set (d1_attempts db')" "j \<in> set (d1_jobs db)" "jb_id j = jobId"
    "submitting_row t j \<in> set (d1_jobs db')"
proof -
  have keys: "distinct (map am_id (d1_attempts db))" "distinct (map jb_id (d1_jobs db))"
    "winners_unique (d1_attempts db)" using inv by (simp_all add: d1_inv_def d1_keys_def)
  obtain k where key: "\<forall>x. submittable jobId db x \<longrightarrow> am_id x = k" using submittable_key by blast
  have job: "am_job_id a = jobId" using a(2) by (simp add: submittable_def)
  obtain db1 where
    up: "update_attempts (submittable jobId db) (prepared_row hash t e) db = Inr ([prepared_row hash t e a], db1)"
    and db1: "d1_jobs db1 = d1_jobs db" "prepared_row hash t e a \<in> set (d1_attempts db1)"
  proof (rule attempt_updated [OF keys(1) key a(1,2), where f = "prepared_row hash t e"])
    show "attempt_checks (prepared_row hash t e a)"
      using a(3) input(3)
      by (cases "am_heartbeat_token_hash a") (auto simp: attempt_checks_def prepared_row_def)
  qed (use keys(3) in \<open>simp_all add: prepared_row_def\<close>)
  have prepare: "prepare_submission_sql jobId hash t e db = Inr ([prepared_row hash t e a], db1)"
    using up unfolding prepare_submission_sql_def prepared_row_def [abs_def] .
  obtain j where j: "j \<in> set (d1_jobs db)" "jb_id j = jobId" "jb_status j = SUBMISSION_PENDING"
    "jb_deleted_at j = None" "jb_active_attempt_id j = Some (am_id a)" by (rule submittable_job [OF a(2)])
  have kept: "am_status (prepared_row hash t e a) = ATT_SUBMITTING"
    "am_provider_kind (prepared_row hash t e a) = am_provider_kind a"
    "am_provider_policy (prepared_row hash t e a) = am_provider_policy a"
    "am_id (prepared_row hash t e a) = am_id a" "am_job_id (prepared_row hash t e a) = am_job_id a"
    "am_generation (prepared_row hash t e a) = am_generation a"
    "am_claim_token_hash (prepared_row hash t e a) = Some hash"
    "am_claim_issued_at (prepared_row hash t e a) = Some t"
    by (simp_all add: prepared_row_def)
  obtain x where x: "x \<in> set (d1_executions db1)" "xc_attempt_id x = am_id a" "xc_status x = GPU_CREATING"
    "Some (xc_provider_kind x) = am_provider_kind a" "Some (xc_provider_policy x) = am_provider_policy a"
    using submitting_execution [OF keys(1) up a(1,2) kept(1-3)] by blast
  define pj where "pj = (\<lambda>j :: job_row. jb_id j = jobId \<and> jb_status j = SUBMISSION_PENDING \<and> jb_deleted_at j = None \<and>
      (\<exists>a \<in> set (d1_attempts db1). jb_active_attempt_id j = Some (am_id a) \<and>
         am_job_id a = jb_id j \<and> am_status a = ATT_SUBMITTING \<and>
         am_claim_token_hash a = Some hash \<and> am_claim_issued_at a = Some t \<and>
         (\<exists>x \<in> set (d1_executions db1). xc_attempt_id x = am_id a \<and> xc_status x = GPU_CREATING \<and>
            Some (xc_provider_kind x) = am_provider_kind a \<and>
            Some (xc_provider_policy x) = am_provider_policy a)))"
  have pj: "pj j"
    unfolding pj_def
    using j x kept job by (auto intro!: bexI [OF _ db1(2)] bexI [OF _ x(1)])
  have "job_checks (submitting_row t j)" using checks j(1,2) by (simp add: job_checks_def submitting_row_def)
  then obtain db2 where
    upj: "update_jobs pj (submitting_row t) db1 = Inr ([submitting_row t j], db2)"
    "d1_attempts db2 = d1_attempts db1" "submitting_row t j \<in> set (d1_jobs db2)"
    using job_updated [of db1 pj jobId j "submitting_row t"] keys(2) db1(1) j(1) pj
    by (auto simp: pj_def submitting_row_def)
  have mark: "mark_job_submitting_sql jobId t hash db1 = Inr ([submitting_row t j], db2)"
    using upj(1) unfolding mark_job_submitting_sql_def pj_def submitting_row_def [abs_def] .
  have "prepareSubmission jobId hash t e db =
      (Inr (Some \<lparr>ps_attemptId = am_id a, ps_generation = am_generation a, ps_jobId = jobId\<rparr>), db2)"
    using input a(4-6) prepare mark kept job j(2)
    by (simp add: prepareSubmission_def prepare_batch_def batch2_def updatedAttemptRowsSchema_def
        updatedJobIdRowsSchema_def submitting_row_def)
  then show thesis using that upj db1(2) j(1,2) by simp
qed

lemma ingested_submittable:
  assumes inv: "d1_inv db'" and j: "j \<in> set (d1_jobs db)" "ingestible i j"
    and db': "ingested_row i j \<in> set (d1_jobs db')"
      "d1_attempts db' = d1_attempts db @ [ingested_attempt i]"
      "d1_executions db' = d1_executions db @ execution_of_attempt (ingested_attempt i)"
    and input: "in_selection i = runpod_selection" "jobOptionsSchema (so_options (in_job i))"
    and idle: "\<forall>a \<in> set (d1_attempts db). \<not> occupies_gpu a"
  shows "submittable (jb_id j) db' (ingested_attempt i)"
proof -
  let ?a = "ingested_attempt i"
  have keys: "d1_keys db'" using inv by (simp add: d1_inv_def)
  have job: "find_job (\<lambda>k. jb_id k = jb_id j \<and> jb_status k = SUBMISSION_PENDING \<and> jb_deleted_at k = None) db'
      = Some (ingested_row i j)"
    by (subst find_job_Some_iff [OF keys, where k = "jb_id j"])
      (use db'(1) j(2) in \<open>auto simp: ingested_row_def ingestible_def Let_def\<close>)
  have options: "prepare_options_ok (execution_options runpod_selection (so_options (in_job i)))"
    by (rule ingested_options_prepared [OF input(2)]) (simp add: runpod_selection_def)
  have "\<exists>x \<in> set (d1_executions db'). execution_matches ?a x \<and> xc_status x = GPU_PENDING"
    using db'(3) by (auto simp: execution_of_attempt_def ingested_attempt_def execution_matches_def)
  moreover have "\<not> (\<exists>b \<in> set (d1_attempts db'). am_id b \<noteq> am_id ?a \<and> occupies_gpu b)"
    using db'(2) idle by auto
  moreover have "am_job_id ?a = jb_id j"
    using j(2) by (simp add: ingested_attempt_def ingestible_def Let_def)
  moreover have "jb_active_attempt_id (ingested_row i j) = Some (am_id ?a)"
    by (simp add: ingested_row_def ingested_attempt_def)
  ultimately show ?thesis
    unfolding submittable_def job
    using options input(1)
    by (simp add: ingested_attempt_def runpod_selection_def kind_text_def policy_text_def)
qed

section \<open>A submission nobody claims\<close>

text \<open>A job that only waits until no attempt occupies a GPU.\<close>

definition waits_for_gpu :: "d1 \<Rightarrow> job_row \<Rightarrow> bool" where
  "waits_for_gpu db j \<longleftrightarrow>
     jb_status j = SUBMISSION_PENDING \<and> jb_deleted_at j = None \<and>
     (\<exists>a \<in> set (d1_attempts db). jb_active_attempt_id j = Some (am_id a) \<and> am_job_id a = jb_id j \<and>
        am_status a = ATT_SUBMISSION_PENDING \<and> am_provider_kind a = Some ''runpod_serverless'' \<and>
        am_provider_policy a = Some ''runpod_serverless_v1'')"

lemma idle_dispatches:
  assumes "\<forall>a \<in> set (d1_attempts db). \<not> occupies_gpu a" "j \<in> set (d1_jobs db)" "waits_for_gpu db j"
  shows "findDispatchablePendingJobId db \<noteq> Inr None"
proof -
  have "j \<in> set (order_by dispatch_before (filter (dispatchable db) (d1_jobs db)))"
    using assms by (simp add: dispatchable_def waits_for_gpu_def)
  then have "order_by dispatch_before (filter (dispatchable db) (d1_jobs db)) \<noteq> []"
    by (metis empty_iff list.set(1))
  then show ?thesis
    by (auto simp: findDispatchablePendingJobId_def result_simps split: list.split)
qed

definition unclaimed :: "string \<Rightarrow> d1 \<Rightarrow> attempt_row \<Rightarrow> bool" where
  "unclaimed t db a \<longleftrightarrow> am_status a = ATT_SUBMITTING \<and> outcome_unknown a \<and>
     sql_leq (am_claim_expires_at a) t \<and> am_winning_runpod_job_id a = None \<and>
     never_submitted db (am_id a) \<and> active_in db (am_job_id a) (am_id a) SUBMITTING"

lemma found_unclaimed:
  assumes "findExpiredUnknownSubmissions t limit db = Inr xs" "x \<in> set xs"
  obtains a where "a \<in> set (d1_attempts db)" "unclaimed t db a" "xs_attemptId x = am_id a"
    "xs_jobId x = am_job_id a" "ulid_ok (am_id a)" "ulid_ok (am_job_id a)" "utc_datetime_ok t"
proof -
  define rows where "rows = take limit (order_by (attempts_before am_claim_expires_at)
    (filter (\<lambda>a. (am_status a = ATT_SUBMITTING \<and> outcome_unknown a \<and>
        active_in db (am_job_id a) (am_id a) SUBMITTING) \<and> sql_leq (am_claim_expires_at a) t \<and>
       am_winning_runpod_job_id a = None \<and> never_submitted db (am_id a)) (d1_attempts db)))"
  have ok: "utc_datetime_ok t" "list_all expiredUnknownSubmissionRowSchema rows" "xs = map map_expired rows"
    using assms(1) by (simp_all add: findExpiredUnknownSubmissions_def find_expired_def result_simps rows_def)
  then obtain a where a: "a \<in> set rows" "x = map_expired a" using assms(2) by auto
  have "a \<in> set (d1_attempts db)" "unclaimed t db a"
    using in_set_takeD [OF a(1) [unfolded rows_def]] by (simp_all add: unclaimed_def)
  moreover have "ulid_ok (am_id a)" "ulid_ok (am_job_id a)"
    using ok(2) a(1) by (auto simp: list_all_iff expiredUnknownSubmissionRowSchema_def)
  ultimately show thesis using that [of a] a(2) ok(1) by (simp add: map_expired_def)
qed

lemma expired_event_not_single: "''runpod_submission_expired'' \<notin> set single_event_types"
  by code_simp

lemma record_event_ok:
  assumes "ulid_ok e" "ty \<notin> set single_event_types"
  obtains rows db' where "record_event_sql e j a ty t db = Inr (rows, db')" "unchanged_tables db db'"
proof -
  have "length e = 26" using assms(1) by (simp add: ulid_ok_def)
  then obtain rows db' where run: "record_event_sql e j a ty t db = Inr (rows, db')"
    using assms(2)
    by (cases "record_event_sql e j a ty t db")
      (auto simp: record_event_sql_def insert_event_def orchestrator_event_def single_event_taken_def
        split: if_splits)
  then show thesis using that record_event_unchanged by blast
qed

lemma failExpired_ends:
  assumes inv: "d1_inv db" and a: "a \<in> set (d1_attempts db)" "unclaimed t db a" "ulid_ok (am_id a)" "ulid_ok (am_job_id a)"
    and checks: "attempt_checks a" "\<forall>j \<in> set (d1_jobs db). job_checks j"
    and input: "utc_datetime_ok t" "ulid_ok e"
  obtains db' j where "failExpiredUnknownSubmission (am_id a) e (am_job_id a) t db = (Inr True, db')"
    "j \<in> set (d1_jobs db)" "jb_id j = am_job_id a" "failed_job t j \<in> set (d1_jobs db')"
    "failed_attempt t a \<in> set (d1_attempts db')" "\<forall>b \<in> set (d1_attempts db'). \<not> occupies_gpu b"
proof -
  have keys: "distinct (map am_id (d1_attempts db))" "distinct (map jb_id (d1_jobs db))"
    "winners_unique (d1_attempts db)" using inv by (simp_all add: d1_inv_def d1_keys_def)
  define pa where "pa = (\<lambda>x :: attempt_row. am_id x = am_id a \<and> am_job_id x = am_job_id a \<and>
      am_status x = ATT_SUBMITTING \<and> outcome_unknown x \<and> sql_leq (am_claim_expires_at x) t \<and>
      am_winning_runpod_job_id x = None \<and> never_submitted db (am_id a) \<and>
      active_in db (am_job_id a) (am_id a) SUBMITTING)"
  have pa: "pa a" using a(2) by (simp add: pa_def unclaimed_def)
  have "attempt_checks (failed_attempt t a)"
    using checks(1) by (auto simp: attempt_checks_def failed_attempt_def split: option.splits)
  then obtain db1 where up: "update_attempts pa (failed_attempt t) db = Inr ([failed_attempt t a], db1)"
    and db1: "d1_jobs db1 = d1_jobs db" "failed_attempt t a \<in> set (d1_attempts db1)"
      "set (d1_attempts db1) = insert (failed_attempt t a) (set (d1_attempts db) - {a})"
    using attempt_updated [OF keys(1), of pa "am_id a" a "failed_attempt t"] keys(3) a(1) pa
    by (auto simp: pa_def failed_attempt_def)
  have first: "fail_expired_unknown_attempt_sql (am_id a) (am_job_id a) t db = Inr ([failed_attempt t a], db1)"
    using up unfolding fail_expired_unknown_attempt_sql_def pa_def .
  have never: "never_submitted db1 (am_id a)"
    using never_submitted_cong [OF update_attempts_submissions [OF up]] a(2) by (simp add: unclaimed_def)
  obtain j where j: "j \<in> set (d1_jobs db)" "jb_id j = am_job_id a" "jb_active_attempt_id j = Some (am_id a)"
    "jb_status j = SUBMITTING" "jb_deleted_at j = None"
    using a(2) active_inD unfolding unclaimed_def by metis
  define pj where "pj = (\<lambda>j :: job_row. jb_id j = am_job_id a \<and> jb_active_attempt_id j = Some (am_id a) \<and>
      jb_status j = SUBMITTING \<and> jb_deleted_at j = None \<and>
      (\<exists>x \<in> set (d1_attempts db1). am_id x = am_id a \<and> am_job_id x = am_job_id a \<and>
         am_status x = ATT_FAILED \<and> outcome_unknown x \<and> am_failed_at x = Some t \<and>
         am_winning_runpod_job_id x = None \<and> never_submitted db1 (am_id a)))"
  have pj: "pj j"
    unfolding pj_def
    using j never a(2) by (auto simp: failed_attempt_def unclaimed_def outcome_unknown_def intro!: bexI [OF _ db1(2)])
  have "job_checks (failed_job t j)" using checks(2) j(1) by (auto simp: job_checks_def failed_job_def)
  then obtain db2 where upj: "update_jobs pj (failed_job t) db1 = Inr ([failed_job t j], db2)"
    "d1_attempts db2 = d1_attempts db1" "failed_job t j \<in> set (d1_jobs db2)"
    using job_updated [of db1 pj "am_job_id a" j "failed_job t"] keys(2) db1(1) j(1) pj
    by (auto simp: pj_def failed_job_def)
  have second: "fail_expired_unknown_job_sql (am_job_id a) (am_id a) t db1 = Inr ([failed_job t j], db2)"
    using upj(1) unfolding fail_expired_unknown_job_sql_def pj_def .
  obtain rows db' where event: "record_event_sql e (am_job_id a) (am_id a) ''runpod_submission_expired'' t db2
      = Inr (rows, db')" "unchanged_tables db2 db'"
    by (rule record_event_ok [OF input(2) expired_event_not_single])
  have run: "failExpiredUnknownSubmission (am_id a) e (am_job_id a) t db = (Inr True, db')"
    using input a(3,4) first second event(1) j(2)
    by (simp add: failExpiredUnknownSubmission_def answer_both_def batch3_def batch2_def
        updatedJobIdRowsSchema_def failed_attempt_def failed_job_def)
  have idle: "\<not> occupies_gpu b" if b: "b \<in> set (d1_attempts db')" for b
  proof -
    have "b = failed_attempt t a \<or> b \<in> set (d1_attempts db) - {a}"
      using b event(2) upj(2) db1(3) by (simp add: unchanged_tables_def)
    moreover have "b = a" if "b \<in> set (d1_attempts db)" "occupies_gpu b"
      using that a(1,2) inv
      by (auto simp: occupies_gpu_iff d1_inv_def single_flight_def unclaimed_def in_flight_def IN_FLIGHT_STATUSES_def)
    ultimately show ?thesis by (auto simp: occupies_gpu_def failed_attempt_def)
  qed
  show thesis
    using that [OF run j(1,2)] upj(2,3) event(2) db1(2) idle by (simp add: unchanged_tables_def)
qed

end
