(* ===== verification/RunpodExample.thy ===== *)
theory RunpodExample
  imports RunpodEffects
begin

text \<open>
  A concrete attempt on RunPod: submitted, claimed by a worker, failed and retried. The witnesses of
  the properties of RunPod executions evaluate the operations on these databases.
\<close>

section \<open>Concrete submissions\<close>

definition ex_hash :: string where "ex_hash = replicate 64 (CHR ''0'')"
definition ex_expiry :: string where "ex_expiry = ''2025-01-01T00:15:00.000Z''"

lemma ex_hash_ok [simp]: "sha256_hex_ok ex_hash"
  by (simp add: sha256_hex_ok_def ex_hash_def all_in_def hex_chars_def list_all_iff)

lemma ex_expiry_ok [simp]: "utc_datetime_ok ex_expiry" "text_less ex_at ex_expiry" "text_leq ex_expiry ex_expiry"
  by code_simp+

lemma ex_ingest_fields [simp]:
  "in_timestamp ex_ingest = ex_at" "ingested_attempt_id ex_ingest = ex_attempt_id"
  "ut_jobId (so_target (in_job ex_ingest)) = ex_job_id" "so_options (in_job ex_ingest) = ex_options"
  "in_selection ex_ingest = runpod_selection"
  by (simp_all add: ex_ingest_def ex_source_def mapUploadTarget_def ingested_attempt_id_def)

definition ex_attempt :: attempt_row where "ex_attempt = prepared_row ex_hash ex_at ex_expiry (ingested_attempt ex_ingest)"

lemma ex_attempt_fields [simp]:
  "am_id ex_attempt = ex_attempt_id" "am_job_id ex_attempt = ex_job_id" "am_generation ex_attempt = 1"
  "am_status ex_attempt = ATT_SUBMITTING" "am_claim_token_hash ex_attempt = Some ex_hash"
  "am_claim_issued_at ex_attempt = Some ex_at" "am_claim_expires_at ex_attempt = Some ex_expiry"
  "am_claim_consumed_at ex_attempt = None" "am_winning_runpod_job_id ex_attempt = None"
  "am_submission_outcome ex_attempt = None" "am_heartbeat_token_hash ex_attempt = None"
  "am_heartbeat_issued_at ex_attempt = None" "am_heartbeat_expires_at ex_attempt = None"
  "am_heartbeat_revoked_at ex_attempt = None" "am_result_prefix ex_attempt = ingest_result_prefix ex_ingest"
  "am_provider_kind ex_attempt = Some ''runpod_serverless''"
  "am_provider_policy ex_attempt = Some ''runpod_serverless_v1''"
  "am_contract_version ex_attempt = Some 1" "am_execution_options ex_attempt = Some (execution_options runpod_selection ex_options)"
  by (simp_all add: ex_attempt_def prepared_row_def ingested_attempt_def runpod_selection_def kind_text_def policy_text_def)

lemma ex_attempt_checks: "attempt_checks ex_attempt"
  by (simp add: attempt_checks_def ingest_result_prefix_def like_prefix_def to_upper_def)

definition ex_submitting_row :: job_row where "ex_submitting_row = submitting_row ex_at ex_ingested_row"

lemma ex_submitting_fields [simp]:
  "jb_id ex_submitting_row = ex_job_id" "jb_active_attempt_id ex_submitting_row = Some ex_attempt_id"
  "jb_status ex_submitting_row = SUBMITTING" "jb_deleted_at ex_submitting_row = None"
  by (simp_all add: ex_submitting_row_def submitting_row_def ex_ingested_row_def)

lemma ex_submitting_checks: "job_checks ex_submitting_row"
  using ex_row_checks by (simp add: job_checks_def ex_submitting_row_def submitting_row_def ex_ingested_row_def)

definition ex_submitting :: d1 where
  "ex_submitting = empty_d1\<lparr>d1_jobs := [ex_submitting_row], d1_attempts := [ex_attempt]\<rparr>"

lemma ex_submitting_tables [simp]:
  "d1_jobs ex_submitting = [ex_submitting_row]" "d1_attempts ex_submitting = [ex_attempt]"
  "d1_events ex_submitting = []" "d1_executions ex_submitting = []" "d1_submissions ex_submitting = []"
  by (simp_all add: ex_submitting_def empty_d1_def)

lemma ex_submitting_inv: "d1_inv ex_submitting"
  by (simp add: d1_inv_def d1_keys_def winners_unique_def active_attempts_exist_def attempts_belong_def
      statuses_agree_def deleted_attempts_end_def single_flight_def rejected_attempts_end_def
      open_attempt_def status_lists UPLOAD_STATUSES_def)

definition ex_winner :: winner_input where
  "ex_winner = \<lparr>cw_attemptId = ex_attempt_id, cw_claimTokenHash = ex_hash, cw_eventId = ex_event_id,
     cw_heartbeatExpiresAt = ex_expiry, cw_heartbeatTokenHash = ex_hash, cw_jobId = ex_job_id,
     cw_runpodJobId = ''r'', cw_timestamp = ex_at\<rparr>"

lemma ex_winner_fields [simp]:
  "cw_attemptId ex_winner = ex_attempt_id" "cw_claimTokenHash ex_winner = ex_hash"
  "cw_eventId ex_winner = ex_event_id" "cw_heartbeatExpiresAt ex_winner = ex_expiry"
  "cw_heartbeatTokenHash ex_winner = ex_hash" "cw_jobId ex_winner = ex_job_id"
  "cw_runpodJobId ex_winner = ''r''" "cw_timestamp ex_winner = ex_at"
  by (simp_all add: ex_winner_def)

lemma claim_event_not_single: "''runpod_claim_granted'' \<notin> set single_event_types"
  by code_simp

lemma ex_claim: "\<exists>db'. claimWinner ex_winner ex_submitting = (Inr True, db')"
proof -
  have ok: "winner_input_ok ex_winner" by (simp add: winner_input_ok_def runpodJobIdSchema_def)
  have checks: "attempt_checks (claimed_attempt ex_winner ex_attempt)"
    using ex_attempt_checks by (simp add: attempt_checks_def claimed_attempt_def)
  define dbs where "dbs = ex_submitting\<lparr>d1_submissions := [\<lparr>rs_runpod_job_id = ''r'', rs_attempt_id = ex_attempt_id,
    rs_is_winner = False, rs_source = ''worker_claim'', rs_created_at = ex_at, rs_updated_at = ex_at\<rparr>]\<rparr>"
  have sub: "\<exists>rows. insert_submission_sql ''r'' ex_attempt_id ''worker_claim'' ex_at ex_submitting = Inr (rows, dbs)"
    by (simp add: insert_submission_sql_def dbs_def Let_def)
  have tables: "d1_jobs dbs = [ex_submitting_row]" "d1_attempts dbs = [ex_attempt]" "d1_executions dbs = []"
    "d1_events dbs = []"
    by (simp_all add: dbs_def)
  define db0 where "db0 = dbs\<lparr>d1_attempts := [claimed_attempt ex_winner ex_attempt]\<rparr>"
  have upa: "claim_winner_sql ex_winner dbs = Inr ([claimed_attempt ex_winner ex_attempt], db0)"
    using checks tables
    by (simp add: claim_winner_sql_def update_attempts_def update_where_def sql_greater_def winners_unique_def
        claimed_attempt_def db0_def List.map_filter_simps)
  have won: "am_id (claimed_attempt ex_winner ex_attempt) = ex_attempt_id"
    "am_job_id (claimed_attempt ex_winner ex_attempt) = ex_job_id"
    "am_status (claimed_attempt ex_winner ex_attempt) = ATT_RUNNING" by (simp_all add: claimed_attempt_def)
  obtain rows1 db1 where mark: "mark_submission_winner_sql ''r'' ex_attempt_id ex_at db0 = Inr (rows1, db1)"
    by (simp add: mark_submission_winner_sql_def Let_def)
  then have db1: "d1_jobs db1 = [ex_submitting_row]" "d1_attempts db1 = [claimed_attempt ex_winner ex_attempt]"
    using mark_submission_winner_unchanged [OF mark] tables by (simp_all add: unchanged_tables_def db0_def)
  have "job_checks (ex_submitting_row\<lparr>jb_status := RUNNING, jb_updated_at := ex_at,
      jb_version := jb_version ex_submitting_row + 1\<rparr>)"
    using ex_submitting_checks by (simp add: job_checks_def)
  then have "\<exists>q. mark_job_running_sql ex_job_id ex_attempt_id ex_at db1 = Inr q"
    using db1 won by (simp add: mark_job_running_sql_def update_jobs_def)
  then obtain rows2 db2 where job: "mark_job_running_sql ex_job_id ex_attempt_id ex_at db1 = Inr (rows2, db2)" by auto
  have "\<exists>q. record_claim_event_sql ex_event_id ex_job_id ex_attempt_id ''r'' ex_at db2 = Inr q"
    using claim_event_not_single
    by (simp add: record_claim_event_sql_def insert_event_def orchestrator_event_def single_event_taken_def)
  then obtain rows3 db3 where
    event: "record_claim_event_sql ex_event_id ex_job_id ex_attempt_id ''r'' ex_at db2 = Inr (rows3, db3)" by auto
  show ?thesis
    using sub upa ok mark job event won(1)
    by (auto simp: claimWinner_def answer_attempt_def claim_batch_def batch3_def batch2_def updatedJobIdRowsSchema_def)
qed

definition ex_failed :: d1 where
  "ex_failed = empty_d1\<lparr>d1_jobs := [failed_job ex_at ex_submitting_row],
     d1_attempts := [failed_attempt ex_at ex_attempt]\<rparr>"

lemma ex_failed_fields [simp]:
  "d1_jobs ex_failed = [failed_job ex_at ex_submitting_row]"
  "d1_attempts ex_failed = [failed_attempt ex_at ex_attempt]" "d1_events ex_failed = []" "d1_executions ex_failed = []"
  "jb_id (failed_job ex_at ex_submitting_row) = ex_job_id"
  "jb_status (failed_job ex_at ex_submitting_row) = FAILED"
  "jb_deleted_at (failed_job ex_at ex_submitting_row) = None"
  "jb_source_deleted_at (failed_job ex_at ex_submitting_row) = None"
  "jb_owner_sub (failed_job ex_at ex_submitting_row) = ''u''"
  "jb_active_attempt_id (failed_job ex_at ex_submitting_row) = Some ex_attempt_id"
  "am_id (failed_attempt ex_at ex_attempt) = ex_attempt_id"
  "am_job_id (failed_attempt ex_at ex_attempt) = ex_job_id"
  "am_generation (failed_attempt ex_at ex_attempt) = 1"
  "am_status (failed_attempt ex_at ex_attempt) = ATT_FAILED"
  "am_winning_runpod_job_id (failed_attempt ex_at ex_attempt) = None"
  "am_submission_outcome (failed_attempt ex_at ex_attempt) = None"
  by (simp_all add: ex_failed_def empty_d1_def failed_job_def failed_attempt_def ex_submitting_row_def
      submitting_row_def ex_ingested_row_def, simp_all add: new_job_row_def)

lemma ex_failed_inv: "d1_inv ex_failed"
  by (simp add: d1_inv_def d1_keys_def winners_unique_def active_attempts_exist_def attempts_belong_def
      statuses_agree_def deleted_attempts_end_def single_flight_def rejected_attempts_end_def
      open_attempt_def in_flight_def status_lists UPLOAD_STATUSES_def)

definition ex_retry_id :: string where "ex_retry_id = ''01J0000000000000000000000D''"

definition ex_retry :: retry_input where
  "ex_retry = \<lparr>re_attemptId = ex_retry_id, re_eventId = ex_event_id, re_jobId = ex_job_id, re_ownerSub = ''u'',
     re_resultPrefix = ''results/00000000000000000000000000000000/01J0000000000000000000000A/01J0000000000000000000000D/'',
     re_timestamp = ex_at\<rparr>"

lemma ex_retry_fields [simp]:
  "re_attemptId ex_retry = ex_retry_id" "re_eventId ex_retry = ex_event_id" "re_jobId ex_retry = ex_job_id"
  "re_ownerSub ex_retry = ''u''" "re_timestamp ex_retry = ex_at"
  by (simp_all add: ex_retry_def)

lemma ex_retry_id [simp]: "ulid_ok ex_retry_id" "ex_retry_id \<noteq> ex_attempt_id" "ex_attempt_id \<noteq> ex_retry_id" "length ex_retry_id = 26"
  by code_simp+

lemma ex_retry_parse: "retry_input_parse ex_retry = Inr ex_retry"
  by code_simp

definition ex_retry_row :: job_row where
  "ex_retry_row = (failed_job ex_at ex_submitting_row)\<lparr>jb_status := SUBMISSION_PENDING,
     jb_active_attempt_id := Some ex_retry_id,
     jb_error_code := None, jb_error_message := None, jb_duration_seconds := None,
     jb_processing_started_at := None, jb_completed_at := None, jb_failed_at := None,
     jb_cancelled_at := None, jb_notified_at := None, jb_updated_at := ex_at,
     jb_version := Suc (jb_version (failed_job ex_at ex_submitting_row))\<rparr>"

lemma ex_retry_row_fields [simp]:
  "jb_id ex_retry_row = ex_job_id" "jb_active_attempt_id ex_retry_row = Some ex_retry_id"
  "jb_status ex_retry_row = SUBMISSION_PENDING" "jb_updated_at ex_retry_row = ex_at"
  by (simp_all add: ex_retry_row_def)

lemma ex_retry_row_schema: "databaseJobSummaryRowSchema ex_retry_row" "job_checks ex_retry_row"
  using ex_row_schema ex_row_checks
  by (simp_all add: databaseJobSummaryRowSchema_def job_checks_def ex_retry_row_def failed_job_def
      ex_submitting_row_def submitting_row_def ex_ingested_row_def file_size_ok_def MAX_FILE_SIZE_BYTES_def)

lemma ex_retry_run: "\<exists>g s db'. retryFailedJob ex_retry ex_failed = (Inr (Retried g s), db')"
proof -
  let ?a = "retried_attempt ex_retry (failed_attempt ex_at ex_attempt)"
  have a: "am_id ?a = ex_retry_id" "am_job_id ?a = ex_job_id" "am_generation ?a = 2"
    "am_status ?a = ATT_SUBMISSION_PENDING" "am_created_at ?a = ex_at" "am_winning_runpod_job_id ?a = None"
    "am_provider_kind ?a = None"
    by (simp_all add: retried_attempt_def)
  have checks: "attempt_checks ?a"
    by (simp add: attempt_checks_def retried_attempt_def ex_retry_def like_prefix_def to_upper_def)
  define db1 where "db1 = ex_failed\<lparr>d1_attempts := [failed_attempt ex_at ex_attempt, ?a]\<rparr>"
  have j: "retryable_job ex_retry (failed_job ex_at ex_submitting_row)"
    by (simp add: retryable_job_def owned_def)
  have ins: "insert_retry_attempt_sql ex_retry ex_failed = Inr ([?a], db1)"
    using a checks j
    by (simp add: insert_retry_attempt_sql_def find_job_def active_attempt_def find_attempt_def insert_attempt_def
        winners_unique_def List.map_filter_simps execution_of_attempt_def db1_def)
  define db2 where "db2 = db1\<lparr>d1_jobs := [ex_retry_row]\<rparr>"
  have act: "activate_retry_attempt_sql ex_retry db1 = Inr ([ex_retry_row], db2)"
    using a j ex_retry_row_schema(2)
    by (simp add: activate_retry_attempt_sql_def update_jobs_def update_where_def db1_def db2_def
        active_attempt_ok_def ex_retry_row_def [symmetric] Let_def)
  have event: "record_retry_event_sql ex_retry db2
      = Inr ([user_event ex_event_id ex_retry_row ''job_retry_requested'' ''user'' ex_at],
          db2\<lparr>d1_events := [user_event ex_event_id ex_retry_row ''job_retry_requested'' ''user'' ex_at]\<rparr>)"
    by (simp add: record_retry_event_sql_def find_job_def insert_event_def event_id_taken_def single_event_taken_def
        db1_def db2_def user_event_fields)
  show ?thesis
    using ins act event a ex_retry_row_schema(1) mapSummary_ok [OF ex_retry_row_schema(1)]
    by (simp add: retryFailedJob_def ex_retry_parse retry_batch_def batch3_def batch2_def retry_answer_def
        inserted_retry_attempt_ok_def updatedJobSummaryRowsSchema_def updatedJobIdRowsSchema_def user_event_fields)
qed

lemma ex_found: "findExpiredUnknownSubmissions ex_expiry 1 ex_submitting =
  Inr [\<lparr>xs_attemptId = ex_attempt_id, xs_claimExpiresAt = ex_expiry, xs_jobId = ex_job_id\<rparr>]"
  by (simp add: findExpiredUnknownSubmissions_def find_expired_def outcome_unknown_def active_in_def sql_leq_def
      never_submitted_def order_by_def expiredUnknownSubmissionRowSchema_def not_null_def map_expired_def)

end
