(* ===== verification/RunpodProperties.thy ===== *)
theory RunpodProperties
  imports RunpodExample
begin

text \<open>
  The properties of the execution on RunPod: one attempt at a time, one worker per attempt, what
  becomes of an ingested job, of a submission nobody claims and of a retried job.
\<close>

text \<open>Claim C4. In every history of requests, submissions, claims and reconciliations, at most one
  attempt of the whole system occupies a GPU of RunPod; while one does, no job is offered for
  dispatch and no submission is prepared, for whichever job it is asked.\<close>

theorem one_attempt_occupies_gpu:
  assumes "history h" "db \<in> set h"
  shows "length (filter occupies_gpu (d1_attempts db)) \<le> 1 \<and>
    (filter occupies_gpu (d1_attempts db) \<noteq> [] \<longrightarrow>
       findDispatchablePendingJobId db = Inr None \<and>
       (\<forall>jobId hash t e p. fst (prepareSubmission jobId hash t e db) \<noteq> Inr (Some p)))"
proof -
  have inv: "d1_inv db" using history_sound [OF assms(1)] assms(2) by blast
  show ?thesis
    using single_flight_length [OF inv] nothing_prepared_when_occupied [OF inv]
      nothing_dispatchable_when_occupied by (auto simp: filter_empty_conv)
qed

theorem one_attempt_occupies_gpu_witness:
  "findDispatchablePendingJobId ex_submitting = Inr None \<and>
   (\<forall>p. fst (prepareSubmission ex_job_id ex_hash ex_at ex_expiry ex_submitting) \<noteq> Inr (Some p))"
  using one_attempt_occupies_gpu [OF history.start [OF ex_submitting_inv], of ex_submitting]
  by (simp add: occupies_gpu_def)

text \<open>A worker is granted a claim only while the attempt and its job are being submitted,
  the claim has not expired and nobody has claimed it, and only with the token whose hash was
  stored; the attempt then runs for this RunPod job and every other attempt stays as it is. However
  the history goes on, the winner and the time of the claim stay, and no claim on this attempt, by
  the same worker or another, is granted again.\<close>

theorem claim_granted_once:
  assumes now: "history (db # h)" and run: "claimWinner i db = (Inr True, db')"
    and later: "history (new # h')" "db' \<in> set (new # h')"
  shows "(\<exists>a \<in> set (d1_attempts db). claimable i db a \<and> active_in db (am_job_id a) (am_id a) SUBMITTING \<and>
      set (d1_attempts db') = insert (claimed_attempt i a) (set (d1_attempts db) - {a})) \<and>
    (\<exists>a \<in> set (d1_attempts new). am_id a = cw_attemptId i \<and>
       am_winning_runpod_job_id a = Some (cw_runpodJobId i) \<and> am_claim_consumed_at a = Some (cw_timestamp i)) \<and>
    (\<forall>k. cw_attemptId k = cw_attemptId i \<longrightarrow> fst (claimWinner k new) \<noteq> Inr True)"
proof -
  have inv: "d1_inv db" using history_sound [OF now] by simp
  note new = history_later [OF later]
  obtain a where a: "a \<in> set (d1_attempts db)" "claimable i db a"
    "d1_attempts db' = update_where (\<lambda>x. am_id x = am_id a) (\<lambda>_. claimed_attempt i a) (d1_attempts db)"
    "active_in db (am_job_id a) (am_id a) SUBMITTING" by (rule claimWinner_True [OF inv run])
  have keys: "distinct (map am_id (d1_attempts db))" using inv by (simp add: d1_inv_def d1_keys_def)
  have rows: "set (d1_attempts db') = insert (claimed_attempt i a) (set (d1_attempts db) - {a})"
    unfolding a(3) by (rule set_update_where_id [OF keys a(1)])
  then obtain b where b: "b \<in> set (d1_attempts new)" "attempt_evolves (claimed_attempt i a) b"
    using new(2) by (auto simp: evolves_def)
  have won: "am_id b = cw_attemptId i" "am_winning_runpod_job_id b = Some (cw_runpodJobId i)"
    "am_claim_consumed_at b = Some (cw_timestamp i)"
    using b(2) a(2) by (auto simp: attempt_evolves_def claimed_attempt_def claimable_def stays_def)
  have "fst (claimWinner k new) \<noteq> Inr True" if k: "cw_attemptId k = cw_attemptId i" for k
  proof
    assume "fst (claimWinner k new) = Inr True"
    then have "claimWinner k new = (Inr True, snd (claimWinner k new))" by (simp add: prod_eq_iff)
    then obtain c where c: "c \<in> set (d1_attempts new)" "claimable k new c" by (rule claimWinner_True [OF new(1)])
    then have "c = b" using attempt_unique [of new c b] new(1) b(1) won(1) k by (simp add: d1_inv_def claimable_def)
    then show False using c(2) won(2) by (simp add: claimable_def)
  qed
  then show ?thesis using a rows b(1) won by blast
qed

theorem claim_granted_once_witness:
  "\<exists>db'. claimWinner ex_winner ex_submitting = (Inr True, db') \<and> fst (claimWinner ex_winner db') \<noteq> Inr True \<and>
     (\<exists>a \<in> set (d1_attempts db'). am_winning_runpod_job_id a = Some ''r'')"
proof -
  obtain db' where run: "claimWinner ex_winner ex_submitting = (Inr True, db')" using ex_claim by blast
  have start: "history [ex_submitting]" by (rule history.start [OF ex_submitting_inv])
  have "history [db', ex_submitting]"
    using history.request [OF start, of ex_submitting "Claim_winner ex_winner"] run by simp
  from claim_granted_once [OF start run this] run show ?thesis by auto
qed

text \<open>Claim C21. The attempt of a retried job is stored without a provider and without execution
  options, which is never changed: however the history goes on, the attempt does not occupy a GPU,
  its job is not offered for dispatch while it is the active attempt, and no submission is ever
  prepared for it. (The ingestion names provider, policy, contract version and options of the attempts
  it creates; the retry does not.)\<close>

theorem retried_attempt_never_submitted:
  assumes now: "history (db # h)" and run: "retryFailedJob i db = (Inr (Retried g s), db')"
    and later: "history (new # h')" "db' \<in> set (new # h')"
  shows "\<exists>a \<in> set (d1_attempts new). am_id a = re_attemptId i \<and> am_job_id a = re_jobId i \<and>
    am_provider_kind a = None \<and> am_execution_options a = None \<and> \<not> occupies_gpu a \<and>
    (\<forall>j \<in> set (d1_jobs new). jb_active_attempt_id j = Some (am_id a) \<longrightarrow> \<not> dispatchable new j) \<and>
    (\<forall>jobId hash t e p. fst (prepareSubmission jobId hash t e new) = Inr (Some p) \<longrightarrow>
       ps_attemptId p \<noteq> am_id a)"
proof -
  note new = history_later [OF later]
  have keys: "d1_keys new" using new(1) by (simp add: d1_inv_def)
  obtain x where "retried_attempt i x \<in> set (d1_attempts db')" by (rule retried_row [OF run])
  then obtain a where a: "a \<in> set (d1_attempts new)" "attempt_evolves (retried_attempt i x) a"
    using new(2) by (auto simp: evolves_def)
  have row: "am_id a = re_attemptId i" "am_job_id a = re_jobId i" "am_provider_kind a = None"
    "am_execution_options a = None" "\<not> occupies_gpu a"
    using a(2) unfolding attempt_evolves_def retried_attempt_def occupies_gpu_iff
    by (simp_all add: in_flight_def IN_FLIGHT_STATUSES_def)
  have dispatch: "\<not> dispatchable new j" if "jb_active_attempt_id j = Some (am_id a)" for j
  proof
    assume "dispatchable new j"
    then obtain b where b: "b \<in> set (d1_attempts new)" "jb_active_attempt_id j = Some (am_id b)"
      "am_provider_kind b \<noteq> None" unfolding dispatchable_def by (metis option.distinct(1))
    have "am_id b = am_id a" using that b(2) by simp
    then have "b = a" by (rule attempt_unique [OF keys b(1) a(1)])
    then show False using b(3) row(3) by simp
  qed
  have submit: "ps_attemptId p \<noteq> am_id a" if answer: "fst (prepareSubmission k hash t e new) = Inr (Some p)"
    for k hash t e p
  proof
    assume same: "ps_attemptId p = am_id a"
    obtain db2 where run2: "prepareSubmission k hash t e new = (Inr (Some p), db2)"
      using answer by (cases "prepareSubmission k hash t e new") simp
    obtain b where b: "b \<in> set (d1_attempts new)" "submittable k new b" "ps_attemptId p = am_id b"
      by (rule prepared_attempt [OF new(1) run2])
    have "b = a" by (rule attempt_unique [OF keys b(1) a(1) trans [OF sym [OF b(3)] same]])
    then show False using b(2) row(3) by (simp add: submittable_def)
  qed
  show ?thesis
    by (rule bexI [OF _ a(1)]) (intro conjI row ballI allI impI dispatch submit; assumption)
qed

theorem retried_attempt_never_submitted_witness:
  "\<exists>g s db'. retryFailedJob ex_retry ex_failed = (Inr (Retried g s), db') \<and>
     (\<exists>a \<in> set (d1_attempts db'). am_id a = ex_retry_id \<and> am_execution_options a = None)"
proof -
  obtain g s db' where run: "retryFailedJob ex_retry ex_failed = (Inr (Retried g s), db')"
    using ex_retry_run by blast
  have start: "history [ex_failed]" by (rule history.start [OF ex_failed_inv])
  have "history [db', ex_failed]"
    using history.request [OF start, of ex_failed "Retry_job ex_retry"] run by simp
  from retried_attempt_never_submitted [OF start run this] run show ?thesis by auto
qed

text \<open>An upload that is ingested for RunPod while no attempt occupies a GPU is submitted by
  the next step, whatever else the database holds: preparing its submission answers with the new
  attempt, which is then being submitted under the given token hash, and so is its job. The options
  need not be looked at again: those of a stored job satisfy what a submission asks.\<close>

theorem ingested_job_submitted:
  assumes now: "history (db # h)" and run: "ingestSource i db = (Inr Ingest_ingested, db')"
    and source: "in_selection i = runpod_selection" "jobOptionsSchema (so_options (in_job i))"
    and idle: "\<forall>a \<in> set (d1_attempts db). \<not> occupies_gpu a"
    and input: "utc_datetime_ok t" "utc_datetime_ok e" "sha256_hex_ok hash"
  shows "\<exists>j \<in> set (d1_jobs db). \<exists>db''. ingestible i j \<and>
    prepareSubmission (jb_id j) hash t e db' =
      (Inr (Some \<lparr>ps_attemptId = ingested_attempt_id i, ps_generation = 1, ps_jobId = jb_id j\<rparr>), db'') \<and>
    prepared_row hash t e (ingested_attempt i) \<in> set (d1_attempts db'') \<and>
    submitting_row t (ingested_row i j) \<in> set (d1_jobs db'')"
proof -
  have inv: "d1_inv db" using history_later(1) [OF now, of db] by simp
  obtain j where j: "j \<in> set (d1_jobs db)" "ingestible i j"
    and jobs: "d1_jobs db' = update_where (\<lambda>x. jb_id x = jb_id j) (\<lambda>_. ingested_row i j) (d1_jobs db)"
    and db': "d1_attempts db' = d1_attempts db @ [ingested_attempt i]"
      "d1_executions db' = d1_executions db @ execution_of_attempt (ingested_attempt i)"
    and checks: "job_checks (ingested_row i j)" "attempt_checks (ingested_attempt i)" "ulid_ok (jb_id j)"
      "ulid_ok (ingested_attempt_id i)"
    by (rule ingested_effect [OF inv run])
  have id: "jb_id (ingested_row i j) = jb_id j" by (simp add: ingested_row_def)
  have inv': "d1_inv db'" using job_step_inv [OF ingest_step [OF inv] inv, of i] run by simp
  have keys: "d1_keys db" "d1_keys db'" using inv inv' by (simp_all add: d1_inv_def)
  have row: "ingested_row i j \<in> set (d1_jobs db')"
    using replaced_rows(1) [OF keys(1) j(1) id] jobs by simp
  have attempt: "am_id (ingested_attempt i) = ingested_attempt_id i" "am_generation (ingested_attempt i) = 1"
    by (simp_all add: ingested_attempt_def)
  have only: "k = ingested_row i j" if "k \<in> set (d1_jobs db')" "jb_id k = jb_id j" for k
    by (rule job_unique [OF keys(2) that(1) row]) (simp add: that(2) id)
  obtain k db'' where k: "prepareSubmission (jb_id j) hash t e db' =
      (Inr (Some \<lparr>ps_attemptId = am_id (ingested_attempt i),
         ps_generation = am_generation (ingested_attempt i), ps_jobId = jb_id j\<rparr>), db'')"
    "prepared_row hash t e (ingested_attempt i) \<in> set (d1_attempts db'')" "k \<in> set (d1_jobs db')"
    "jb_id k = jb_id j" "submitting_row t k \<in> set (d1_jobs db'')"
  proof (rule prepareSubmission_submits [OF inv' _ _ checks(2) _ _ checks(3) _ input])
    show "submittable (jb_id j) db' (ingested_attempt i)"
      by (rule ingested_submittable [OF inv' j row db' source idle])
  qed (use db' attempt checks(1,4) only in auto)
  then show ?thesis using only [OF k(3,4)] j attempt by auto
qed

theorem ingested_job_submitted_witness:
  "ingestSource ex_ingest ex_created = (Inr Ingest_ingested, ex_ingested) \<and>
   (\<exists>db'. prepareSubmission ex_job_id ex_hash ex_at ex_expiry ex_ingested =
      (Inr (Some \<lparr>ps_attemptId = ex_attempt_id, ps_generation = 1, ps_jobId = ex_job_id\<rparr>), db'))"
  using ingested_job_submitted [OF ex_history ex_ingest_run _ _ _ ex_at_ok(1) ex_expiry_ok(1) ex_hash_ok]
    ex_ingest_run ex_options_ok by auto

text \<open>Claim C20. A submission whose outcome was lost and that no worker claimed in time does not block
  the queue: whatever the reconciliation finds as expired, it can end. The attempt and its job fail,
  no attempt occupies a GPU any longer, and if any job waits for one, a job is offered for dispatch.\<close>

theorem expired_submission_makes_way:
  assumes now: "history (db # h)" and found: "findExpiredUnknownSubmissions t limit db = Inr xs" "x \<in> set xs"
    and checks: "\<forall>a \<in> set (d1_attempts db). attempt_checks a" "\<forall>j \<in> set (d1_jobs db). job_checks j"
    and event: "ulid_ok e"
  shows "\<exists>db'. failExpiredUnknownSubmission (xs_attemptId x) e (xs_jobId x) t db = (Inr True, db') \<and>
    (\<exists>j \<in> set (d1_jobs db). jb_id j = xs_jobId x \<and> failed_job t j \<in> set (d1_jobs db')) \<and>
    (\<forall>a \<in> set (d1_attempts db'). \<not> occupies_gpu a) \<and>
    ((\<exists>j \<in> set (d1_jobs db'). waits_for_gpu db' j) \<longrightarrow> findDispatchablePendingJobId db' \<noteq> Inr None)"
proof -
  have inv: "d1_inv db" using history_later(1) [OF now, of db] by simp
  obtain a where a: "a \<in> set (d1_attempts db)" "unclaimed t db a" and ids: "xs_attemptId x = am_id a"
    "xs_jobId x = am_job_id a" and ok: "ulid_ok (am_id a)" "ulid_ok (am_job_id a)" "utc_datetime_ok t"
    by (rule found_unclaimed [OF found])
  have "attempt_checks a" using checks(1) a(1) by blast
  then obtain db' j where "failExpiredUnknownSubmission (am_id a) e (am_job_id a) t db = (Inr True, db')"
    "j \<in> set (d1_jobs db)" "jb_id j = am_job_id a" "failed_job t j \<in> set (d1_jobs db')"
    "\<forall>b \<in> set (d1_attempts db'). \<not> occupies_gpu b"
    by (rule failExpired_ends [OF inv a ok(1,2) _ checks(2) ok(3) event])
  then show ?thesis using ids idle_dispatches by metis
qed

theorem expired_submission_makes_way_witness:
  "\<exists>db'. failExpiredUnknownSubmission ex_attempt_id ex_event_id ex_job_id ex_expiry ex_submitting = (Inr True, db') \<and>
     (\<forall>a \<in> set (d1_attempts db'). \<not> occupies_gpu a)"
  using expired_submission_makes_way [OF history.start [OF ex_submitting_inv] ex_found, of _ ex_event_id]
    ex_attempt_checks ex_submitting_checks by auto

end
