(* ===== verification/CompletionEffects.thy ===== *)
theory CompletionEffects
  imports CompletedJobs RunpodEffects
begin

text \<open>
  What the operations of apps/orchestrator/src/completion-repository.ts do when they succeed, when
  they succeed, and what becomes of the attempt of a job that was deleted while it ran.
\<close>

section \<open>The attempt of a deleted job\<close>

definition held_by_deleted_job :: "d1 \<Rightarrow> attempt_row \<Rightarrow> job_row \<Rightarrow> bool" where
  "held_by_deleted_job db a j \<longleftrightarrow>
     a \<in> set (d1_attempts db) \<and> occupies_gpu a \<and> j \<in> set (d1_jobs db) \<and> am_job_id a = jb_id j \<and>
     jb_deleted_at j \<noteq> None"

text \<open>A step neither changes a deleted job nor the status of its attempt.\<close>

lemma held_by_deleted_job_step:
  assumes step: "job_step owns db db'" and inv: "d1_inv db" and held: "held_by_deleted_job db a j"
  obtains a' where "held_by_deleted_job db' a' j" "am_id a' = am_id a" "am_status a' = am_status a"
proof -
  have a: "a \<in> set (d1_attempts db)" "occupies_gpu a" "j \<in> set (d1_jobs db)" "am_job_id a = jb_id j"
    "jb_deleted_at j \<noteq> None" using held by (simp_all add: held_by_deleted_job_def)
  have keys: "d1_keys db" using inv by (simp add: d1_inv_def)
  obtain j' where j': "j' \<in> set (d1_jobs db')" "job_evolves db db' j j'"
    using job_step_evolves [OF step inv] a(3) by (auto simp: evolves_def)
  have j: "j \<in> set (d1_jobs db')" using j' job_evolves_deleted [OF j'(2) a(5)] by simp
  have "\<exists>a' \<in> set (d1_attempts db'). am_id a' = am_id a \<and> am_job_id a' = am_job_id a \<and> am_status a' = am_status a"
  proof (cases "a \<in> set (d1_attempts db')")
    case False
    have "\<not> (job_moved db k k' c db' \<and> legal_move db k k' c)" for k k' c
    proof
      assume m: "job_moved db k k' c db' \<and> legal_move db k k' c"
      then obtain x where c: "c = Changed_attempt a x"
        using moved_sets(4) [OF inv, of k k' c db'] a(1) False by (cases c) auto
      then have k: "k \<in> set (d1_jobs db)" "am_job_id a = jb_id k" "jb_deleted_at k = None"
        using m by (simp_all add: legal_move_def changes_attempt_def job_moved_def)
      have "k = j" by (rule job_unique [OF keys k(1) a(3)]) (use a(4) k(2) in simp)
      then show False using k(3) a(5) by simp
    qed
    then obtain b b' where touched: "attempt_touched db b b' db'"
      using step a(1) False by (auto simp: job_step_def unchanged_tables_def job_added_def)
    have "set (d1_attempts db') = insert b' (set (d1_attempts db) - {b})"
      by (rule touched_attempts(2) [OF keys touched])
    then have "b = a" "b' \<in> set (d1_attempts db')" using a(1) False by auto
    then show ?thesis using touched unfolding attempt_touched_def attempt_evolves_def by blast
  qed blast
  then show thesis using that j a(2,4,5) by (auto simp: held_by_deleted_job_def occupies_gpu_def)
qed

lemma perform_cases:
  assumes "history (perform q r db # db # h)" "history (db # h)" "r \<in> set (db # h)"
  shows "d1_inv db" "job_step (request_owns q) db (perform q r db)"
proof -
  show inv: "d1_inv db" using history_sound [OF assms(2)] by simp
  have "\<forall>x \<in> set (db # h). d1_inv x \<and> evolves x db" using history_sound [OF assms(2)] by simp
  then have "d1_inv r" "evolves r db" using assms(3) by blast+
  then show "job_step (request_owns q) db (perform q r db)" by (rule perform_step [OF _ inv])
qed

lemma held_by_deleted_job_history:
  "history h \<Longrightarrow> old \<in> set h \<Longrightarrow> held_by_deleted_job old a j \<Longrightarrow>
   \<exists>a'. held_by_deleted_job (hd h) a' j \<and> am_id a' = am_id a \<and> am_status a' = am_status a"
proof (induction rule: history.induct)
  case (start db)
  then show ?case by auto
next
  case (request db h r q)
  show ?case
  proof (cases "old = perform q r db")
    case True
    then show ?thesis using request.prems(2) by auto
  next
    case False
    then obtain b where b: "held_by_deleted_job db b j" "am_id b = am_id a" "am_status b = am_status a"
      using request.IH request.prems by auto
    note step = perform_cases [OF history.request [OF request.hyps(1,2)] request.hyps(1,2)]
    obtain a' where "held_by_deleted_job (perform q r db) a' j" "am_id a' = am_id b" "am_status a' = am_status b"
      by (rule held_by_deleted_job_step [OF step(2) step(1) b(1)])
    then show ?thesis using b by auto
  qed
qed

text \<open>Deleting a job whose attempt occupies the GPU leaves it there.\<close>

lemma deleted_in_flight:
  assumes inv: "d1_inv db" and j: "j \<in> set (d1_jobs db)" "owned (ac_ownerSub i) (ac_jobId i) j"
    and run: "requestJobDeletion i db = (Inr Delete_deleted, db')"
    and a: "a \<in> set (d1_attempts db)" "am_job_id a = jb_id j" "occupies_gpu a"
  obtains a' j' where "held_by_deleted_job db' a' j'" "am_id a' = am_id a" "jb_id j' = jb_id j"
    "am_status a' = ATT_CANCEL_REQUESTED"
proof -
  have keys: "d1_keys db" using inv by (simp add: d1_inv_def)
  obtain c t where c: "deletion_context i db = Some c" "delete_commit i c (to_iso t) db = (Inr Delete_deleted, db')"
    by (rule delete_run [OF inv j run])
  then obtain as js es where batch: "delete_batch i c (to_iso t) db = Inr ((as, js, es), db')"
    and answer: "delete_answer c (as, js, es) = Inr Delete_deleted"
    by (auto simp: delete_commit_def split: sum.split_asm prod.split_asm)
  note effect = delete_batch_effect [OF keys j batch delete_answer_deleted(1) [OF answer]]
  have "open_attempt a" using a(3) by (auto simp: occupies_gpu_def open_attempt_def OPEN_ATTEMPT_STATUSES_def)
  then have active: "jb_active_attempt_id j = Some (am_id a)"
    using attempt_jobE [OF inv a(1) j(1) a(2)] attempt_unique [OF keys] a(1) by metis
  then have "active_attempt db j = Some a" using active_attempt_Some_iff [OF keys] a(1) by simp
  then have status: "dx_active_attempt_id c = Some (am_id a)" "dx_active_attempt_status c = Some (am_status a)"
    using c(1) deletion_context_job [OF keys j(1), of i] j(2) active by (auto simp: owned_def)
  have "as \<noteq> []"
    using delete_answer_deleted(2) [OF answer status] \<open>open_attempt a\<close> by (simp add: open_attempt_def)
  then obtain b b' where b: "b \<in> set (d1_attempts db)" "dx_active_attempt_id c = Some (am_id b)"
    "set (d1_attempts db') = insert b' (set (d1_attempts db) - {b})" "revoked i b b'"
    using effect(3) by blast
  have "b = a" by (rule attempt_unique [OF keys b(1) a(1)]) (use b(2) status(1) in simp)
  then have "am_status b' = ATT_CANCEL_REQUESTED" "am_id b' = am_id a" "am_job_id b' = jb_id j"
    using b(4) a(2,3) by (auto simp: revoked_def cancelled_attempt_status_def occupies_gpu_def)
  then show thesis
    using that [of b' "deleted_row i (to_iso t) j"] effect(1) b(3)
    by (simp add: held_by_deleted_job_def deleted_row_def occupies_gpu_def)
qed

section \<open>Ending an attempt and its job\<close>

lemma in_progress_job:
  assumes inv: "d1_inv db" and "has_in_progress_job db jobId attemptId"
  obtains j where "j \<in> set (d1_jobs db)" "jb_id j = jobId" "jb_active_attempt_id j = Some attemptId"
    "in_progress j" "\<And>k. k \<in> set (d1_jobs db) \<Longrightarrow> jb_id k = jobId \<Longrightarrow> k = j"
proof -
  obtain j where j: "j \<in> set (d1_jobs db)" "jb_id j = jobId" "jb_active_attempt_id j = Some attemptId"
    "in_progress j" using has_in_progress_jobD [OF assms(2)] by blast
  moreover have "k = j" if "k \<in> set (d1_jobs db)" "jb_id k = jobId" for k
    by (rule job_unique [OF _ that(1) j(1)]) (use inv that(2) j(2) in \<open>simp_all add: d1_inv_def\<close>)
  ultimately show thesis using that by blast
qed

text \<open>The two statements of an operation that ends an attempt, when the attempt satisfies the first.\<close>

lemma ending_succeeds:
  assumes inv: "d1_inv db" and a: "a \<in> set (d1_attempts db)" "pa a"
    and pa: "\<And>x. pa x \<Longrightarrow> am_id x = attemptId \<and> am_job_id x = jobId"
    and win: "\<And>x. am_winning_runpod_job_id (fa x) = am_winning_runpod_job_id x"
    and fa: "am_id (fa a) = am_id a" "am_job_id (fa a) = am_job_id a" "attempt_checks (fa a)"
      "am_status (fa a) = s" "am_updated_at (fa a) = t"
    and j: "j \<in> set (d1_jobs db)" "jb_id j = jobId" "jb_active_attempt_id j = Some attemptId" "in_progress j"
      "job_checks (finalized_job s code t d j)"
  obtains db1 db2 where "update_attempts pa fa db = Inr ([fa a], db1)"
    "finalize_terminal_job_sql jobId attemptId s code t d db1 = Inr ([finalized_job s code t d j], db2)"
    "d1_attempts db2 = d1_attempts db1" "d1_jobs db1 = d1_jobs db" "fa a \<in> set (d1_attempts db2)"
    "set (d1_attempts db2) = insert (fa a) (set (d1_attempts db) - {a})"
    "finalized_job s code t d j \<in> set (d1_jobs db2)"
proof -
  have keys: "distinct (map am_id (d1_attempts db))" "distinct (map jb_id (d1_jobs db))"
    "winners_unique (d1_attempts db)" using inv by (simp_all add: d1_inv_def d1_keys_def)
  obtain db1 where up: "update_attempts pa fa db = Inr ([fa a], db1)"
    and others: "d1_jobs db1 = d1_jobs db" "set (d1_attempts db1) = insert (fa a) (set (d1_attempts db) - {a})"
    by (rule attempt_updated [where f = fa and p = pa and k = attemptId, OF keys(1) _ a fa(3) win keys(3)])
      (use pa in auto)
  then have db1: "d1_jobs db1 = d1_jobs db" "fa a \<in> set (d1_attempts db1)"
      "set (d1_attempts db1) = insert (fa a) (set (d1_attempts db) - {a})" by simp_all
  define pj where "pj = (\<lambda>j :: job_row. jb_id j = jobId \<and> jb_active_attempt_id j = Some attemptId \<and> in_progress j \<and>
      (\<exists>x \<in> set (d1_attempts db1). am_id x = attemptId \<and> am_job_id x = jobId \<and> am_status x = s \<and>
         am_updated_at x = t))"
  have pj: "pj j" unfolding pj_def using j pa [OF a(2)] fa db1(2) by auto
  obtain db2 where upj: "update_jobs pj (finalized_job s code t d) db1 = Inr ([finalized_job s code t d j], db2)"
    "d1_attempts db2 = d1_attempts db1" "finalized_job s code t d j \<in> set (d1_jobs db2)"
    using job_updated [of db1 pj jobId j "finalized_job s code t d"] keys(2) db1(1) j(1,5) pj
    by (auto simp: pj_def finalized_job_def)
  have "finalize_terminal_job_sql jobId attemptId s code t d db1 = Inr ([finalized_job s code t d j], db2)"
    using upj(1) unfolding finalize_terminal_job_sql_def pj_def .
  then show thesis using that up upj(2,3) db1 by simp
qed

text \<open>What is left once the one attempt that occupied the GPU has ended.\<close>

lemma ended_idle:
  assumes inv: "d1_inv db" and a: "a \<in> set (d1_attempts db)" "occupies_gpu a"
    and rows: "set (d1_attempts db') = insert a' (set (d1_attempts db) - {a})" and "\<not> occupies_gpu a'"
  shows "\<forall>b \<in> set (d1_attempts db'). \<not> occupies_gpu b"
  using assms by (auto simp: occupies_gpu_iff d1_inv_def single_flight_def)

section \<open>Failed and cancelled outcomes\<close>

definition settled_attempt :: "finalize_input \<Rightarrow> attempt_row \<Rightarrow> attempt_row" where
  "settled_attempt i a = a\<lparr>am_status := fi_status i, am_error_code := fi_errorCode i, am_error_message := None,
     am_heartbeat_revoked_at := revoked_heartbeat (fi_timestamp i) a,
     am_completed_at := (if fi_status i = ATT_COMPLETED then Some (fi_timestamp i) else am_completed_at a),
     am_failed_at := (if fi_status i = ATT_FAILED then Some (fi_timestamp i) else am_failed_at a),
     am_updated_at := fi_timestamp i\<rparr>"

lemma settled_attempt_fields [simp]:
  "am_id (settled_attempt i a) = am_id a" "am_job_id (settled_attempt i a) = am_job_id a"
  "am_winning_runpod_job_id (settled_attempt i a) = am_winning_runpod_job_id a"
  "am_status (settled_attempt i a) = fi_status i" "am_updated_at (settled_attempt i a) = fi_timestamp i"
  by (simp_all add: settled_attempt_def)

lemma settled_checks: "attempt_checks a \<Longrightarrow> attempt_checks (settled_attempt i a)"
  by (auto simp: attempt_checks_def settled_attempt_def revoked_heartbeat_def split: option.splits)

lemma finalized_checks:
  "job_checks j \<Longrightarrow> (case d of None \<Rightarrow> True | Some x \<Rightarrow> 0 \<le> x \<and> x \<le> 28800) \<Longrightarrow>
   job_checks (finalized_job s code t d j)"
  by (auto simp: job_checks_def finalized_job_def)

definition finalize_request_ok :: "finalize_input \<Rightarrow> bool" where
  "finalize_request_ok i \<longleftrightarrow> finalize_input_ok i \<and> finalize_identifiers_ok i \<and>
     (fi_status i = ATT_FAILED \<longleftrightarrow> fi_errorCode i \<noteq> None)"

lemma finalizeTerminal_ends:
  assumes inv: "d1_inv db" and a: "a \<in> set (d1_attempts db)" "finalizable i db a"
    and checks: "attempt_checks a" "\<forall>j \<in> set (d1_jobs db). job_checks j" and input: "finalize_request_ok i"
  obtains db' j where "finalizeTerminal i db = (Inr True, db')"
    "j \<in> set (d1_jobs db)" "jb_id j = fi_jobId i"
    "finalized_job (fi_status i) (fi_errorCode i) (fi_timestamp i) None j \<in> set (d1_jobs db')"
    "settled_attempt i a \<in> set (d1_attempts db')" "\<forall>b \<in> set (d1_attempts db'). \<not> occupies_gpu b"
proof -
  obtain j where j: "j \<in> set (d1_jobs db)" "jb_id j = fi_jobId i" "jb_active_attempt_id j = Some (fi_attemptId i)"
    "in_progress j" using in_progress_job [OF inv] a(2) by (metis finalizable_def)
  have cj: "job_checks (finalized_job (fi_status i) (fi_errorCode i) (fi_timestamp i) None j)"
    using checks(2) j(1) by (intro finalized_checks) simp_all
  obtain db1 db2 where run: "update_attempts (finalizable i db) (settled_attempt i) db = Inr ([settled_attempt i a], db1)"
    "finalize_terminal_job_sql (fi_jobId i) (fi_attemptId i) (fi_status i) (fi_errorCode i) (fi_timestamp i) None db1
      = Inr ([finalized_job (fi_status i) (fi_errorCode i) (fi_timestamp i) None j], db2)"
    "d1_attempts db2 = d1_attempts db1" "d1_jobs db1 = d1_jobs db" "settled_attempt i a \<in> set (d1_attempts db2)"
    "set (d1_attempts db2) = insert (settled_attempt i a) (set (d1_attempts db) - {a})"
    "finalized_job (fi_status i) (fi_errorCode i) (fi_timestamp i) None j \<in> set (d1_jobs db2)"
    by (rule ending_succeeds [where pa = "finalizable i db" and fa = "settled_attempt i",
          OF inv a _ _ _ _ settled_checks [OF checks(1)] _ _ j cj]) (simp_all add: finalizable_def)
  have first: "finalize_terminal_attempt_sql i db = Inr ([settled_attempt i a], db1)"
    using run(1) unfolding finalize_terminal_attempt_sql_def settled_attempt_def [abs_def] .
  have ids: "ulid_ok (am_id a)" "ulid_ok (fi_jobId i)"
    using a(2) input by (simp_all add: finalizable_def finalize_request_ok_def finalize_identifiers_ok_def)
  have "finalizeTerminal i db = (Inr True, db2)"
    using input first run(2) ids j(2)
    by (simp add: finalizeTerminal_def finalize_request_ok_def answer_both_def batch2_def
        updatedJobIdRowsSchema_def finalized_job_def)
  moreover have "\<not> occupies_gpu (settled_attempt i a)"
    using input by (auto simp: occupies_gpu_def finalize_request_ok_def finalize_input_ok_def)
  moreover have "occupies_gpu a" using a(2) by (simp add: finalizable_def)
  ultimately show thesis using that j(1,2) run(5-7) ended_idle [OF inv a(1) _ run(6)] by blast
qed

text \<open>And only then.\<close>

lemma finalizeTerminal_True:
  assumes "finalizeTerminal i db = (Inr True, db')"
  obtains a where "a \<in> set (d1_attempts db)" "finalizable i db a" "finalize_request_ok i"
proof -
  obtain attempts jobs db1 where first: "finalize_terminal_attempt_sql i db = Inr (attempts, db1)"
    and rows: "attempts \<noteq> []" and ok: "finalize_request_ok i"
    using assms
    by (auto simp: finalizeTerminal_def answer_both_def result_simps batch2_Inr_iff finalize_request_ok_def
        updatedJobIdRowsSchema_def split: sum.split_asm prod.split_asm if_split_asm)
  have "filter (finalizable i db) (d1_attempts db) \<noteq> []"
    using first rows by (auto simp: finalize_terminal_attempt_sql_def update_attempts_def Let_def split: if_splits)
  then show thesis using that ok by (auto simp: filter_empty_conv)
qed

section \<open>Outcomes that are found\<close>

lemma found_outcome:
  assumes inv: "d1_inv db" and found: "findTerminalOutcomes limit db = Inr xs" "x \<in> set xs"
  obtains a j where "a \<in> set (d1_attempts db)" "j \<in> set (d1_jobs db)" "jb_active_attempt_id j = Some (am_id a)"
    "jb_id j = am_job_id a" "in_progress j" "occupies_gpu a" "provider_compatible db a"
    "x = mapTerminalOutcome (j, a)" "terminalOutcomeRowSchema (j, a)" "am_runpod_terminal_status a \<noteq> None"
    "am_runpod_terminal_job_id a = Some (to_runpodTerminalJobId x)"
proof -
  obtain r where r: "r \<in> set (find_terminal_outcomes_sql limit db)" "x = mapTerminalOutcome r"
    "terminalOutcomeRowSchema r"
    using found by (auto simp: findTerminalOutcomes_def result_simps list_all_iff)
  obtain j a where ja: "r = (j, a)" by (cases r)
  have "(j, a) \<in> set (filter (\<lambda>(_, a). am_runpod_terminal_status a \<noteq> None \<and> am_runpod_terminal_observed_at a \<noteq> None)
      (reconcilable_rows db))"
    using in_set_takeD [OF r(1) [unfolded find_terminal_outcomes_sql_def ja]] by simp
  then have row: "a \<in> set (d1_attempts db)" "j \<in> set (d1_jobs db)" "jb_active_attempt_id j = Some (am_id a)"
    "in_progress j" "occupies_gpu a" "provider_compatible db a" "am_runpod_terminal_status a \<noteq> None"
    by (auto simp: reconcilable_rows_def)
  obtain b where b: "b \<in> set (d1_attempts db)" "am_id b = am_id a" "am_job_id b = jb_id j"
    using inv row(2,3) unfolding d1_inv_def active_attempts_exist_def by metis
  have "b = a" by (rule attempt_unique [OF _ b(1) row(1) b(2)]) (use inv in \<open>simp add: d1_inv_def\<close>)
  have "am_runpod_terminal_job_id a \<noteq> None"
    using r(3) ja by (auto simp: terminalOutcomeRowSchema_def not_null_def split: option.split_asm)
  then have "am_runpod_terminal_job_id a = Some (to_runpodTerminalJobId (mapTerminalOutcome (j, a)))"
    by (auto simp: mapTerminalOutcome_def)
  moreover have "jb_id j = am_job_id a" using b(3) \<open>b = a\<close> by simp
  ultimately show thesis
    using that [OF row(1-3) _ row(4-6)] r(2,3) row(7) unfolding ja by metis
qed

section \<open>Completed outcomes\<close>

definition completion_ready :: "completion_input \<Rightarrow> d1 \<Rightarrow> bool" where
  "completion_ready i db \<longleftrightarrow>
     (\<exists>j \<in> set (d1_jobs db). \<exists>a \<in> set (d1_attempts db).
        jb_id j = ci_jobId i \<and> running_or_cancelling j \<and> jb_active_attempt_id j = Some (am_id a) \<and>
        am_id a = ci_attemptId i \<and> am_job_id a = jb_id j \<and> completed_by (ci_runpodJobId i) a \<and>
        provider_compatible db a)"

lemma insert_artifacts_fresh:
  assumes "completion_ready i db" "distinct (map va_format vs)" "distinct (map va_key vs)"
    "\<forall>v \<in> set vs. artifact_checks (artifact_of i v) \<and> va_key v \<notin> af_object_key ` set (d1_artifacts db)"
    "\<forall>v \<in> set vs. \<forall>r \<in> set (d1_artifacts db). \<not> (af_attempt_id r = ci_attemptId i \<and> af_format r = va_format v)"
  shows "insert_artifacts i vs db = Inr (db\<lparr>d1_artifacts := d1_artifacts db @ map (artifact_of i) vs\<rparr>)"
  using assms
proof (induction vs arbitrary: db)
  case (Cons v vs)
  let ?db1 = "db\<lparr>d1_artifacts := d1_artifacts db @ [artifact_of i v]\<rparr>"
  have "insert_artifact_sql i v db = Inr ([artifact_of i v], ?db1)"
    using Cons.prems unfolding insert_artifact_sql_def Let_def completion_ready_def by auto
  moreover have "completion_ready i ?db1"
    using Cons.prems(1) by (simp add: completion_ready_def provider_compatible_def)
  moreover have "\<forall>w \<in> set vs. artifact_checks (artifact_of i w) \<and> va_key w \<notin> af_object_key ` set (d1_artifacts ?db1)"
    "\<forall>w \<in> set vs. \<forall>r \<in> set (d1_artifacts ?db1). \<not> (af_attempt_id r = ci_attemptId i \<and> af_format r = va_format w)"
    using Cons.prems by (auto simp: artifact_of_def) (metis imageI)+
  ultimately show ?case using Cons.IH [of ?db1] Cons.prems(2,3) by simp
qed simp

definition completed_attempt_row :: "completion_input \<Rightarrow> attempt_row \<Rightarrow> attempt_row" where
  "completed_attempt_row i a = a\<lparr>am_status := ATT_COMPLETED, am_heartbeat_revoked_at := revoked_heartbeat (ci_timestamp i) a,
     am_completed_at := Some (ci_timestamp i), am_error_code := None, am_error_message := None,
     am_updated_at := ci_timestamp i\<rparr>"

lemma completed_attempt_row_fields [simp]:
  "am_id (completed_attempt_row i a) = am_id a" "am_job_id (completed_attempt_row i a) = am_job_id a"
  "am_winning_runpod_job_id (completed_attempt_row i a) = am_winning_runpod_job_id a"
  "am_status (completed_attempt_row i a) = ATT_COMPLETED" "am_updated_at (completed_attempt_row i a) = ci_timestamp i"
  "am_completed_at (completed_attempt_row i a) = Some (ci_timestamp i)"
  by (simp_all add: completed_attempt_row_def)

lemma completed_checks: "attempt_checks a \<Longrightarrow> attempt_checks (completed_attempt_row i a)"
  by (auto simp: attempt_checks_def completed_attempt_row_def revoked_heartbeat_def split: option.splits)

lemma verified_artifact_checks:
  "verified_artifact_ok v \<Longrightarrow> artifact_checks (artifact_of i v)"
  by (auto simp: verified_artifact_ok_def artifact_checks_def artifact_of_def like_prefix_def starts_with_iff)

text \<open>A notification of the job as it is now; the batch adds it or renews the one there is.\<close>

lemma insert_notification_pending:
  assumes job: "j \<in> set (d1_jobs db)" "jb_id j = ci_jobId i" "\<forall>k \<in> set (d1_jobs db). jb_id k = ci_jobId i \<longrightarrow> k = j"
    "0 < jb_version j"
    and a: "a \<in> set (d1_attempts db)" "am_id a = ci_attemptId i" "am_job_id a = ci_jobId i" "am_status a = ATT_COMPLETED"
      "am_completed_at a = Some (ci_timestamp i)"
    and id: "length (ci_notificationId i) = 26" "ci_notificationId i \<notin> ob_id ` set (d1_outbox db)"
  obtains rows db' where "insert_notification_sql i db = Inr (rows, db')" "d1_jobs db' = d1_jobs db"
    "d1_attempts db' = d1_attempts db" "d1_events db' = d1_events db"
proof -
  have "find_job (\<lambda>j. jb_id j = ci_jobId i) db = Some j"
    unfolding find_job_def find_Some_iff
  proof -
    obtain n where n: "n < length (d1_jobs db)" "d1_jobs db ! n = j" using job(1) by (auto simp: in_set_conv_nth)
    define m where "m = (LEAST m. m < length (d1_jobs db) \<and> jb_id (d1_jobs db ! m) = ci_jobId i)"
    have m: "m < length (d1_jobs db) \<and> jb_id (d1_jobs db ! m) = ci_jobId i"
      unfolding m_def by (rule LeastI [of _ n]) (use n job(2) in simp)
    moreover have "jb_id (d1_jobs db ! k) \<noteq> ci_jobId i" if "k < m" for k
      using not_less_Least [OF that [unfolded m_def]] that m by auto
    moreover have "d1_jobs db ! m = j" using m job(3) by simp
    ultimately show "\<exists>m < length (d1_jobs db). jb_id (d1_jobs db ! m) = ci_jobId i \<and> j = d1_jobs db ! m \<and>
        (\<forall>k<m. jb_id (d1_jobs db ! k) \<noteq> ci_jobId i)" by metis
  qed
  then have version: "map_option jb_version (find_job (\<lambda>j. jb_id j = ci_jobId i) db) = Some (jb_version j)" by simp
  show thesis
    using that id a job(4) version
    by (cases "insert_notification_sql i db") (auto simp: insert_notification_sql_def Let_def split: if_splits)
qed


lemma record_job_event_ok:
  assumes "ulid_ok e" "ty \<notin> set single_event_types"
  obtains rows db' where "record_job_event_sql e j a ty t p db = Inr (rows, db')" "unchanged_tables db db'"
proof -
  have "length e = 26" using assms(1) by (simp add: ulid_ok_def)
  then obtain rows db' where run: "record_job_event_sql e j a ty t p db = Inr (rows, db')"
    using assms(2)
    by (cases "record_job_event_sql e j a ty t p db")
      (auto simp: record_job_event_sql_def insert_event_def orchestrator_event_def single_event_taken_def
        split: if_splits)
  then show thesis using that record_job_event_unchanged by blast
qed

lemma completed_event_not_single: "''job_completed'' \<notin> set single_event_types"
  by code_simp

text \<open>The artifacts of a completion are new to the database.\<close>

definition artifacts_fresh :: "completion_input \<Rightarrow> d1 \<Rightarrow> bool" where
  "artifacts_fresh i db \<longleftrightarrow>
     distinct (map va_key (ci_artifacts i)) \<and>
     (\<forall>f \<in> set (d1_artifacts db). af_attempt_id f \<noteq> ci_attemptId i \<and>
        af_object_key f \<notin> va_key ` set (ci_artifacts i)) \<and>
     ci_notificationId i \<notin> ob_id ` set (d1_outbox db)"

lemma ordered_artifacts_distinct:
  assumes "ordered_artifacts vs = Inr ws" "distinct (map va_key vs)"
  shows "distinct (map va_format ws)" "distinct (map va_key ws)"
proof -
  note ws = ordered_artifacts_formats [OF assms(1)]
  show formats: "distinct (map va_format ws)" unfolding ws(1) by (simp add: OUTPUT_FORMATS_def)
  have "inj_on va_key (set ws)" using assms(2) ws(2) by (meson distinct_map inj_on_subset)
  then show "distinct (map va_key ws)" using formats by (simp add: distinct_map)
qed

text \<open>When the batch of a completion is carried out.\<close>

lemma completion_batch_ends:
  assumes inv: "d1_inv db" and a: "a \<in> set (d1_attempts db)" "am_id a = ci_attemptId i" "am_job_id a = ci_jobId i"
      "completed_by (ci_runpodJobId i) a" "provider_compatible db a"
    and j: "j \<in> set (d1_jobs db)" "jb_id j = ci_jobId i" "jb_active_attempt_id j = Some (ci_attemptId i)"
      "running_or_cancelling j"
    and checks: "attempt_checks a" "job_checks j" and input: "completion_input_ok i"
    and vs: "ordered_artifacts (ci_artifacts i) = Inr vs" "artifacts_fresh i db"
    and ids: "ulid_ok (ci_notificationId i)" "ulid_ok (ci_eventId i)"
  obtains events db' where "completion_batch i vs db = Inr (([completed_attempt_row i a],
      [finalized_job ATT_COMPLETED None (ci_timestamp i) (Some (ci_durationSeconds i)) j], events), db')"
    "completed_attempt_row i a \<in> set (d1_attempts db')"
    "finalized_job ATT_COMPLETED None (ci_timestamp i) (Some (ci_durationSeconds i)) j \<in> set (d1_jobs db')"
    "\<forall>b \<in> set (d1_attempts db'). \<not> occupies_gpu b"
proof -
  have keys: "d1_keys db" using inv by (simp add: d1_inv_def)
  have ready: "completion_ready i db"
    unfolding completion_ready_def by (rule bexI [OF _ j(1)], rule bexI [OF _ a(1)]) (simp add: a j)
  have ok: "verified_artifact_ok v" if "v \<in> set vs" for v
    using that ordered_artifacts_formats(2) [OF vs(1)] input
    by (auto simp: completion_input_ok_def list_all_iff)
  define db1 where "db1 = db\<lparr>d1_artifacts := d1_artifacts db @ map (artifact_of i) vs\<rparr>"
  have tables1: "d1_attempts db1 = d1_attempts db" "d1_jobs db1 = d1_jobs db" "unchanged_tables db db1"
    by (simp_all add: db1_def unchanged_tables_def)
  have inv1: "d1_inv db1" by (rule unchanged_tables_inv [OF tables1(3) inv])
  have ins: "insert_artifacts i vs db = Inr db1"
    unfolding db1_def
  proof (rule insert_artifacts_fresh [OF ready])
    show "distinct (map va_format vs)" "distinct (map va_key vs)"
      using ordered_artifacts_distinct [OF vs(1)] vs(2) by (simp_all add: artifacts_fresh_def)
    show "\<forall>v \<in> set vs. artifact_checks (artifact_of i v) \<and> va_key v \<notin> af_object_key ` set (d1_artifacts db)"
    proof
      fix v assume v: "v \<in> set vs"
      then have "va_key v \<in> va_key ` set (ci_artifacts i)" using ordered_artifacts_formats(2) [OF vs(1)] by blast
      then have "va_key v \<notin> af_object_key ` set (d1_artifacts db)" using vs(2) by (auto simp: artifacts_fresh_def)
      then show "artifact_checks (artifact_of i v) \<and> va_key v \<notin> af_object_key ` set (d1_artifacts db)"
        using verified_artifact_checks [OF ok [OF v]] by blast
    qed
    show "\<forall>v \<in> set vs. \<forall>r \<in> set (d1_artifacts db). \<not> (af_attempt_id r = ci_attemptId i \<and> af_format r = va_format v)"
      using vs(2) by (auto simp: artifacts_fresh_def)
  qed
  have "has_artifact i db1 v" if "v \<in> set vs" for v
    unfolding has_artifact_def
    by (rule bexI [of _ "artifact_of i v"]) (use that in \<open>simp_all add: db1_def artifact_of_def\<close>)
  then have "list_all (has_artifact i db1) vs" by (simp add: list_all_iff)
  moreover have "provider_compatible db1 a" using a(5) by (simp add: provider_compatible_def db1_def)
  ultimately have able: "completing i vs db1 a"
    using a j tables1 unfolding completing_def by auto
  have j1: "j \<in> set (d1_jobs db1)" "in_progress j" using j(1,4) tables1 running_in_progress by auto
  have cj: "job_checks (finalized_job ATT_COMPLETED None (ci_timestamp i) (Some (ci_durationSeconds i)) j)"
    using input by (intro finalized_checks [OF checks(2)])
      (simp add: completion_input_ok_def MAX_RECORDING_DURATION_SECONDS_def)
  obtain db2 db3 where run: "update_attempts (completing i vs db1) (completed_attempt_row i) db1 = Inr ([completed_attempt_row i a], db2)"
    "finalize_terminal_job_sql (ci_jobId i) (ci_attemptId i) ATT_COMPLETED None (ci_timestamp i) (Some (ci_durationSeconds i)) db2
      = Inr ([finalized_job ATT_COMPLETED None (ci_timestamp i) (Some (ci_durationSeconds i)) j], db3)"
    "d1_attempts db3 = d1_attempts db2" "d1_jobs db2 = d1_jobs db1" "completed_attempt_row i a \<in> set (d1_attempts db3)"
    "set (d1_attempts db3) = insert (completed_attempt_row i a) (set (d1_attempts db1) - {a})"
    "finalized_job ATT_COMPLETED None (ci_timestamp i) (Some (ci_durationSeconds i)) j \<in> set (d1_jobs db3)"
    by (rule ending_succeeds [where pa = "completing i vs db1" and fa = "completed_attempt_row i",
          OF inv1 _ able _ _ _ _ completed_checks [OF checks(1)] _ _ j1(1) j(2,3) j1(2) cj])
      (use a(1) tables1 in \<open>simp_all add: completing_def\<close>)
  have first: "complete_attempt_sql i vs db1 = Inr ([completed_attempt_row i a], db2)"
    using run(1) unfolding complete_attempt_sql_def completed_attempt_row_def [abs_def] .
  have outbox: "d1_outbox db3 = d1_outbox db"
  proof -
    have "d1_outbox db2 = d1_outbox db1"
      using run(1) by (auto simp: update_attempts_def Let_def split: if_splits)
    moreover have "d1_outbox db3 = d1_outbox db2"
      using run(2) by (auto simp: finalize_terminal_job_sql_def update_jobs_def Let_def split: if_splits)
    ultimately show ?thesis by (simp add: db1_def)
  qed
  let ?j' = "finalized_job ATT_COMPLETED None (ci_timestamp i) (Some (ci_durationSeconds i)) j"
  have id': "jb_id ?j' = ci_jobId i" "0 < jb_version ?j'" using j(2) by (simp_all add: finalized_job_def)
  have "job_step (\<lambda>_. True) db1 db3"
    by (rule ending_step [OF inv1 run(1,2) unchanged_tables_refl])
      (use completing_ends in \<open>auto simp: completed_attempt_row_def evolve_defs occupies_gpu_def\<close>)
  then have "d1_keys db3" using job_step_inv [OF _ inv1] by (simp add: d1_inv_def)
  then have keys3: "k = ?j'" if "k \<in> set (d1_jobs db3)" "jb_id k = ci_jobId i" for k
    by (rule job_unique [OF _ that(1) run(7)]) (use that(2) id' in simp)
  obtain ns db4 where notify: "insert_notification_sql i db3 = Inr (ns, db4)" "d1_jobs db4 = d1_jobs db3"
    "d1_attempts db4 = d1_attempts db3"
    by (rule insert_notification_pending [OF run(7) id'(1) _ id'(2) run(5)])
      (use keys3 a(2,3) ids(1) vs(2) outbox in \<open>auto simp: ulid_ok_def artifacts_fresh_def\<close>)
  obtain es db' where event: "record_job_event_sql (ci_eventId i) (ci_jobId i) (ci_attemptId i) ''job_completed''
      (ci_timestamp i) (\<lambda>j. jb_status j = COMPLETED \<and> jb_completed_at j = Some (ci_timestamp i)) db4 = Inr (es, db')"
    "unchanged_tables db4 db'"
    by (rule record_job_event_ok [OF ids(2) completed_event_not_single])
  have "completion_batch i vs db = Inr (([completed_attempt_row i a], [?j'], es), db')"
    using ins first run(2) notify(1) event(1) by (simp add: completion_batch_def batch3_def batch2_def)
  moreover have "\<forall>b \<in> set (d1_attempts db3). \<not> occupies_gpu b"
    by (rule ended_idle [OF inv1 _ _ run(6)]) (use a tables1 in \<open>auto simp: completed_by_def occupies_gpu_def\<close>)
  ultimately show thesis
    using that run(5,7) notify(2,3) event(2) by (simp add: unchanged_tables_def)
qed

section \<open>When an operation answers that it changed the attempt\<close>

lemma updated_attempts_nonempty:
  "update_attempts p f db = Inr (rows, db') \<Longrightarrow> rows \<noteq> [] \<Longrightarrow> \<exists>a \<in> set (d1_attempts db). p a"
  by (auto simp: update_attempts_def Let_def filter_empty_conv split: if_splits)

lemma recordTerminalStatus_True:
  assumes "recordTerminalStatus i db = (Inr True, db')"
  obtains a where "a \<in> set (d1_attempts db)" "terminal_recordable i db a"
    "update_attempts (terminal_recordable i db) (terminal_attempt i) db = Inr ([terminal_attempt i a], db')"
proof -
  obtain rows where upd: "update_attempts (terminal_recordable i db) (terminal_attempt i) db = Inr (rows, db')"
    and one: "\<exists>x. map am_id rows = [x]"
    using assms
    by (auto simp: recordTerminalStatus_def answer_attempt_def result_simps record_terminal_status_sql_def
        updatedJobIdRowsSchema_def rows_max_one_Inr_iff split: sum.split_asm prod.split_asm if_split_asm)
  then have "rows = map (terminal_attempt i) (filter (terminal_recordable i db) (d1_attempts db))"
    by (auto simp: update_attempts_def Let_def split: if_splits)
  then obtain a where "filter (terminal_recordable i db) (d1_attempts db) = [a]" "rows = [terminal_attempt i a]"
    using one by auto
  moreover from this(1) have "a \<in> set (filter (terminal_recordable i db) (d1_attempts db))" by simp
  then have "a \<in> set (d1_attempts db)" "terminal_recordable i db a" by simp_all
  ultimately show thesis using that upd by blast
qed

lemma failUnobservableAttempt_True:
  assumes "failUnobservableAttempt i db = (Inr True, db')"
  obtains a where "a \<in> set (d1_attempts db)" "unobservable i db a"
proof -
  obtain rows db1 where "fail_unobservable_attempt_sql i db = Inr (rows, db1)" "rows \<noteq> []"
    using assms
    by (auto simp: failUnobservableAttempt_def answer_both_def result_simps batch3_Inr_iff
        updatedJobIdRowsSchema_def split: sum.split_asm prod.split_asm)
  then show thesis using updated_attempts_nonempty that unfolding fail_unobservable_attempt_sql_def by blast
qed

lemma finalizeCompleted_True:
  assumes "finalizeCompleted i db = (Inr True, db')"
  obtains a vs where "a \<in> set (d1_attempts db)" "am_id a = ci_attemptId i" "am_job_id a = ci_jobId i"
    "completed_by (ci_runpodJobId i) a" "completion_input_ok i" "ordered_artifacts (ci_artifacts i) = Inr vs"
    "has_in_progress_job db (ci_jobId i) (ci_attemptId i)"
proof -
  obtain vs db1 rows db2 where vs: "ordered_artifacts (ci_artifacts i) = Inr vs" "completion_input_ok i"
    "insert_artifacts i vs db = Inr db1" "complete_attempt_sql i vs db1 = Inr (rows, db2)" "rows \<noteq> []"
    using assms
    by (auto simp: finalizeCompleted_def answer_both_def result_simps completion_batch_def
        updatedJobIdRowsSchema_def split: sum.split_asm prod.split_asm)
  then obtain a where "a \<in> set (d1_attempts db1)" "completing i vs db1 a"
    using updated_attempts_nonempty unfolding complete_attempt_sql_def by blast
  moreover have "d1_attempts db1 = d1_attempts db" "d1_jobs db1 = d1_jobs db"
    using insert_artifacts_tables [OF vs(3)] by auto
  ultimately show thesis
    using that vs(1,2) completing_ends [of i vs db1 a] unfolding completing_def has_in_progress_job_def by metis
qed

lemma claimWinner_row:
  assumes "claimWinner i db = (Inr True, db')" "d1_inv db"
  obtains a where "a \<in> set (d1_attempts db)" "am_id a = cw_attemptId i"
    "claimed_attempt i a \<in> set (d1_attempts db')"
proof -
  obtain a where a: "a \<in> set (d1_attempts db)" "claimable i db a"
    "d1_attempts db' = update_where (\<lambda>x. am_id x = am_id a) (\<lambda>_. claimed_attempt i a) (d1_attempts db)"
    by (rule claimWinner_True [OF assms(2,1)])
  then have "claimed_attempt i a \<in> set (d1_attempts db')" by (auto simp: update_where_def)
  then show thesis using that a by (simp add: claimable_def)
qed

section \<open>A terminal status of one RunPod job and a claim of another\<close>

definition claimed_elsewhere :: "string \<Rightarrow> attempt_row \<Rightarrow> bool" where
  "claimed_elsewhere attemptId a \<longleftrightarrow>
     am_id a = attemptId \<and> am_runpod_terminal_status a \<noteq> None \<and>
     am_winning_runpod_job_id a \<noteq> None \<and> am_winning_runpod_job_id a \<noteq> am_runpod_terminal_job_id a"

lemma claimed_elsewhere_evolves:
  "claimed_elsewhere k a \<Longrightarrow> attempt_evolves a b \<Longrightarrow> claimed_elsewhere k b"
  by (auto simp: claimed_elsewhere_def attempt_evolves_def stays_def)

lemma claimed_elsewhere_stuck:
  assumes inv: "d1_inv db" and a: "a \<in> set (d1_attempts db)" "claimed_elsewhere k a"
  shows "ti_attemptId t = k \<Longrightarrow> fst (recordTerminalStatus t db) \<noteq> Inr True"
    "fi_attemptId f = k \<Longrightarrow> fst (finalizeTerminal f db) \<noteq> Inr True"
    "ci_attemptId c = k \<Longrightarrow> fst (finalizeCompleted c db) \<noteq> Inr True"
    "un_attemptId u = k \<Longrightarrow> fst (failUnobservableAttempt u db) \<noteq> Inr True"
proof -
  have only: "b = a" if "b \<in> set (d1_attempts db)" "am_id b = k" for b
    by (rule attempt_unique [OF _ that(1) a(1)]) (use inv a(2) that(2) in \<open>simp_all add: d1_inv_def claimed_elsewhere_def\<close>)
  have open_run: "\<exists>db'. m = (Inr True, db')" if "fst m = Inr True" for m :: "bool result \<times> d1"
    using that by (cases m) simp
  show "fst (recordTerminalStatus t db) \<noteq> Inr True" if "ti_attemptId t = k"
  proof
    assume "fst (recordTerminalStatus t db) = Inr True"
    then obtain b where "b \<in> set (d1_attempts db)" "terminal_recordable t db b"
      using open_run recordTerminalStatus_True by metis
    then show False using only [of b] that a(2) by (auto simp: terminal_recordable_def claimed_elsewhere_def)
  qed
  show "fst (finalizeTerminal f db) \<noteq> Inr True" if "fi_attemptId f = k"
  proof
    assume "fst (finalizeTerminal f db) = Inr True"
    then obtain b where "b \<in> set (d1_attempts db)" "finalizable f db b"
      using open_run finalizeTerminal_True by metis
    then show False using only [of b] that a(2) by (auto simp: finalizable_def claimed_elsewhere_def)
  qed
  show "fst (finalizeCompleted c db) \<noteq> Inr True" if "ci_attemptId c = k"
  proof
    assume "fst (finalizeCompleted c db) = Inr True"
    then obtain b where "b \<in> set (d1_attempts db)" "am_id b = ci_attemptId c" "completed_by (ci_runpodJobId c) b"
      using open_run finalizeCompleted_True by metis
    then show False using only [of b] that a(2) by (auto simp: completed_by_def claimed_elsewhere_def)
  qed
  show "fst (failUnobservableAttempt u db) \<noteq> Inr True" if "un_attemptId u = k"
  proof
    assume "fst (failUnobservableAttempt u db) = Inr True"
    then obtain b where "b \<in> set (d1_attempts db)" "unobservable u db b"
      using open_run failUnobservableAttempt_True by metis
    then show False using only [of b] that a(2) by (auto simp: unobservable_def claimed_elsewhere_def)
  qed
qed

section \<open>Completion outcomes\<close>

lemma found_completion:
  assumes inv: "d1_inv db" and found: "findTerminalOutcomes limit db = Inr xs" "x \<in> set xs"
    and complete: "to_runpodTerminalStatus x = ''COMPLETED''" "to_runpodOutputStatus x = Some ''completed''"
      "to_runpodManifestWritten x = Some True" "to_winningRunpodJobId x = Some (to_runpodTerminalJobId x)"
      "to_jobStatus x \<noteq> SUBMITTING"
  obtains a j where "a \<in> set (d1_attempts db)" "am_id a = to_attemptId x" "am_job_id a = to_jobId x"
    "completed_by (to_runpodTerminalJobId x) a" "provider_compatible db a"
    "j \<in> set (d1_jobs db)" "jb_id j = to_jobId x" "jb_active_attempt_id j = Some (to_attemptId x)"
    "running_or_cancelling j"
proof -
  obtain a j where a: "a \<in> set (d1_attempts db)" "occupies_gpu a" "provider_compatible db a"
      "am_runpod_terminal_status a \<noteq> None" "am_runpod_terminal_job_id a = Some (to_runpodTerminalJobId x)"
    and j: "j \<in> set (d1_jobs db)" "jb_active_attempt_id j = Some (am_id a)" "jb_id j = am_job_id a" "in_progress j"
    and x: "x = mapTerminalOutcome (j, a)"
    by (rule found_outcome [OF inv found]) blast
  have fields: "to_attemptId x = am_id a" "to_jobId x = am_job_id a" "to_jobStatus x = jb_status j"
    "to_runpodTerminalStatus x = the (am_runpod_terminal_status a)"
    "to_runpodOutputStatus x = am_runpod_output_status a" "to_runpodManifestWritten x = am_runpod_manifest_written a"
    "to_winningRunpodJobId x = am_winning_runpod_job_id a"
    by (simp_all add: x mapTerminalOutcome_def)
  have status: "jb_status j = job_status_of_attempt (am_status a)"
    using active_job_status [OF inv j(1) a(1) j(2)] in_progress_open [OF j(4)] by simp
  have other: "jb_status j \<noteq> SUBMITTING" using complete(5) fields(3) by metis
  then have "am_status a \<noteq> ATT_SUBMITTING" using status by (metis job_status_of_attempt.simps(2))
  then have running: "running_or_cancelling j" "am_status a \<in> {ATT_RUNNING, ATT_CANCEL_REQUESTED}"
    using j(4) other a(2) by (simp_all add: in_progress_def running_or_cancelling_def occupies_gpu_def)
  have "am_runpod_terminal_status a = Some ''COMPLETED''"
    using a(4) complete(1) unfolding fields(4) by (metis option.collapse)
  then have "completed_by (to_runpodTerminalJobId x) a"
    unfolding completed_by_def using complete(2-4) a(5) running(2) fields(5-7) by metis
  then show thesis
    using that a(1,3) j(1-3) running(1) fields(1,2) by simp
qed

text \<open>A completed attempt is not completed again.\<close>

lemma completed_once:
  assumes later: "history (new # h)" "old \<in> set (new # h)"
    and a: "a \<in> set (d1_attempts old)" "am_id a = ci_attemptId k" "am_status a = ATT_COMPLETED"
  shows "fst (finalizeCompleted k new) \<noteq> Inr True"
proof
  assume "fst (finalizeCompleted k new) = Inr True"
  then obtain b where b: "b \<in> set (d1_attempts new)" "am_id b = ci_attemptId k" "completed_by (ci_runpodJobId k) b"
    using finalizeCompleted_True by (metis prod.collapse)
  obtain e where e: "e \<in> set (d1_attempts new)" "attempt_evolves a e"
    using history_later(2) [OF later] a(1) by (auto simp: evolves_def)
  then have e2: "am_id e = am_id a" "am_status e = ATT_COMPLETED"
    using a(3) by (auto simp: attempt_evolves_def open_attempt_def OPEN_ATTEMPT_STATUSES_def)
  have keys: "d1_keys new" using history_later(1) [OF later] by (simp add: d1_inv_def)
  have "b = e" by (rule attempt_unique [OF keys b(1) e(1)]) (use b(2) a(2) e2(1) in simp)
  then show False using b(3) e2(2) by (simp add: completed_by_def)
qed

lemma finalizeCompleted_batch:
  assumes "completion_input_ok i" "ordered_artifacts (ci_artifacts i) = Inr vs"
    "ulid_ok (ci_notificationId i)" "ulid_ok (ci_eventId i)"
    "completion_batch i vs db = Inr (([a], [j], events), db')" "am_id a = ci_attemptId i" "jb_id j = ci_jobId i"
  shows "finalizeCompleted i db = (Inr True, db')"
  using assms
  by (simp add: finalizeCompleted_def answer_both_def updatedJobIdRowsSchema_def completion_input_ok_def)

end
