(* ===== verification/CompletionExample.thy ===== *)
theory CompletionExample
  imports CompletionEffects RunpodExample
begin

text \<open>
  Concrete attempts whose end RunPod reports, before and after a worker claims them, and a submitted
  job that is deleted. The witnesses of the properties of completion evaluate the operations on them.
\<close>

section \<open>A submitted job is deleted\<close>

lemma ex_submitting_row_fields [simp]:
  "jb_owner_sub ex_submitting_row = ''u''" "jb_version ex_submitting_row = jb_version ex_ingested_row + 1"
  by (simp_all add: ex_submitting_row_def submitting_row_def ex_ingested_row_def)

lemma ex_delete_submitting: "\<exists>db'. requestJobDeletion ex_action ex_submitting = (Inr Delete_deleted, db')"
proof -
  let ?c = "\<lparr>dx_version = jb_version ex_submitting_row, dx_deleted_at = None, dx_active_attempt_id = Some ex_attempt_id,
    dx_active_attempt_status = Some ATT_SUBMITTING, dx_latest_capability_issued_at = None\<rparr>"
  let ?t = "to_iso 1735689600000"
  define a where "a = ex_attempt\<lparr>am_status := ATT_CANCEL_REQUESTED, am_heartbeat_revoked_at := None,
    am_updated_at := ex_at\<rparr>"
  define j where "j = ex_submitting_row\<lparr>jb_deleted_at := Some ex_at, jb_deletion_not_before := Some ?t,
    jb_deletion_next_attempt_at := Some ex_at, jb_deletion_attempt_count := 0,
    jb_deletion_error_code := None, jb_updated_at := ex_at, jb_version := jb_version ex_submitting_row + 1\<rparr>"
  have a: "am_id a = ex_attempt_id" "am_job_id a = ex_job_id" "am_status a = ATT_CANCEL_REQUESTED"
    "am_updated_at a = ex_at" "am_winning_runpod_job_id a = None" by (simp_all add: a_def)
  have j: "jb_id j = ex_job_id" "jb_owner_sub j = ''u''" "jb_deleted_at j = Some ex_at" "jb_updated_at j = ex_at"
    "jb_active_attempt_id j = Some ex_attempt_id" by (simp_all add: j_def)
  have checks: "attempt_checks a" "job_checks j"
    using ex_attempt_checks ex_submitting_checks
    by (simp_all add: a_def j_def attempt_checks_def job_checks_def)
  have read_context: "deletion_context ex_action ex_submitting = Some ?c"
    by (simp add: deletion_context_def find_job_def active_attempt_def find_attempt_def List.map_filter_def)
  have read: "delete_read ex_action ex_submitting = Inr (Delete_commit ?c ?t)"
    using ex_action_ok
    by (simp add: delete_read_def read_context deletionContextRowSchema_def deletionNotBeforeMilliseconds_def
        is_safe_integer_def)
  define db1 where "db1 = ex_submitting\<lparr>d1_attempts := [a]\<rparr>"
  have first: "request_deletion_active_attempt_sql ex_action ?c ex_submitting = Inr ([a], db1)"
    using checks(1) a(5)
    by (simp add: request_deletion_active_attempt_sql_def update_attempts_def update_where_def owned_def
        OPEN_ATTEMPT_STATUSES_def cancelled_attempt_status_def winners_unique_def db1_def a_def [symmetric]
        List.map_filter_simps Let_def)
  define db2 where "db2 = db1\<lparr>d1_jobs := [j]\<rparr>"
  have second: "mark_job_deleted_sql ex_action ?c ?t db1 = Inr ([j], db2)"
    using checks(2) a
    by (simp add: mark_job_deleted_sql_def update_jobs_def update_where_def owned_def db1_def db2_def
        cancelled_attempt_status_def OPEN_ATTEMPT_STATUSES_def j_def Let_def)
  obtain q where third: "record_deletion_event_sql ex_action db2 = Inr ([user_event ex_event_id j
      ''job_delete_requested'' ''user'' ex_at], q)"
    using j by (simp add: record_deletion_event_sql_def find_job_def insert_event_def event_id_taken_def
        single_event_taken_def user_event_fields db2_def db1_def)
  show ?thesis
    using read first second third a(1) j(1)
    by (auto simp: requestJobDeletion_def delete_commit_def delete_answer_def delete_batch_def batch3_def batch2_def
        updatedJobIdRowsSchema_def user_event_fields)
qed

section \<open>A terminal status before any claim\<close>

definition ex_report :: terminal_input where
  "ex_report = \<lparr>ti_attemptId = ex_attempt_id, ti_delayTime = None, ti_executionTime = None, ti_jobId = ex_job_id,
     ti_output = None, ti_runpodJobId = ''x'', ti_status = ''FAILED'', ti_timestamp = ex_at\<rparr>"

definition ex_reported_attempt :: attempt_row where "ex_reported_attempt = terminal_attempt ex_report ex_attempt"

lemma ex_reported_fields [simp]:
  "am_id ex_reported_attempt = ex_attempt_id" "am_job_id ex_reported_attempt = ex_job_id"
  "am_generation ex_reported_attempt = 1" "am_status ex_reported_attempt = ATT_SUBMITTING"
  "am_claim_token_hash ex_reported_attempt = Some ex_hash" "am_claim_issued_at ex_reported_attempt = Some ex_at"
  "am_claim_expires_at ex_reported_attempt = Some ex_expiry" "am_claim_consumed_at ex_reported_attempt = None"
  "am_winning_runpod_job_id ex_reported_attempt = None" "am_submission_outcome ex_reported_attempt = None"
  "am_runpod_terminal_status ex_reported_attempt = Some ''FAILED''"
  "am_runpod_terminal_job_id ex_reported_attempt = Some ''x''"
  "am_runpod_terminal_observed_at ex_reported_attempt = Some ex_at"
  "am_runpod_output_status ex_reported_attempt = None" "am_runpod_manifest_written ex_reported_attempt = None"
  "am_runpod_output_error_code ex_reported_attempt = None" "am_detected_language ex_reported_attempt = None"
  "am_media_duration_seconds ex_reported_attempt = None" "am_segment_count ex_reported_attempt = None"
  "am_result_prefix ex_reported_attempt = ingest_result_prefix ex_ingest"
  "am_provider_kind ex_reported_attempt = Some ''runpod_serverless''"
  "am_provider_policy ex_reported_attempt = Some ''runpod_serverless_v1''"
  by (simp_all add: ex_reported_attempt_def terminal_attempt_def ex_report_def)

lemma ex_reported_checks: "attempt_checks ex_reported_attempt"
  using ex_attempt_checks by (simp add: ex_reported_attempt_def terminal_attempt_def Let_def attempt_checks_def)

definition ex_execution :: "attempt_row \<Rightarrow> execution_row" where
  "ex_execution a = \<lparr>xc_id = ex_attempt_id, xc_attempt_id = ex_attempt_id,
     xc_provider_kind = ''runpod_serverless'', xc_provider_policy = ''runpod_serverless_v1'',
     xc_status = gpu_status_of_attempt (am_status a), xc_create_outcome = am_submission_outcome a,
     xc_provider_handle = am_winning_runpod_job_id a, xc_terminal_status = am_runpod_terminal_status a,
     xc_cleanup_status = CLEANUP_NOT_REQUESTED, xc_version = 1, xc_created_at = ex_at, xc_updated_at = ex_at\<rparr>"

definition ex_reported :: d1 where
  "ex_reported = ex_submitting\<lparr>d1_attempts := [ex_reported_attempt], d1_executions := [ex_execution ex_reported_attempt]\<rparr>"

lemma ex_reported_tables [simp]:
  "d1_jobs ex_reported = [ex_submitting_row]" "d1_attempts ex_reported = [ex_reported_attempt]"
  "d1_events ex_reported = []" "d1_executions ex_reported = [ex_execution ex_reported_attempt]"
  "d1_submissions ex_reported = []" "d1_artifacts ex_reported = []" "d1_outbox ex_reported = []"
  by (simp_all add: ex_reported_def, simp_all add: ex_submitting_def empty_d1_def)

lemma ex_reported_inv: "d1_inv ex_reported"
  by (simp add: d1_inv_def d1_keys_def winners_unique_def active_attempts_exist_def attempts_belong_def
      statuses_agree_def deleted_attempts_end_def single_flight_def rejected_attempts_end_def
      open_attempt_def status_lists UPLOAD_STATUSES_def)

lemma ex_prefix_ok: "outcomePrefixSchema (ingest_result_prefix ex_ingest)"
proof -
  have "in_ownerHash ex_ingest = replicate 32 (CHR ''0'')" by (simp add: ex_ingest_def)
  then show ?thesis by (simp add: outcomePrefixSchema_def ingest_result_prefix_def ends_with_iff)
qed

definition ex_outcome :: terminal_outcome where
  "ex_outcome = mapTerminalOutcome (ex_submitting_row, ex_reported_attempt)"

lemma ex_outcome_fields [simp]:
  "to_attemptId ex_outcome = ex_attempt_id" "to_jobId ex_outcome = ex_job_id"
  "to_winningRunpodJobId ex_outcome = None" "to_runpodTerminalJobId ex_outcome = ''x''"
  by (simp_all add: ex_outcome_def mapTerminalOutcome_def)

lemma ex_reported_found: "findTerminalOutcomes 25 ex_reported = Inr [ex_outcome]"
proof -
  have "reconcilable_rows ex_reported = [(ex_submitting_row, ex_reported_attempt)]"
    by (simp add: reconcilable_rows_def in_progress_def occupies_gpu_def provider_compatible_def
        execution_matches_def ex_execution_def)
  then have "find_terminal_outcomes_sql 25 ex_reported = [(ex_submitting_row, ex_reported_attempt)]"
    by (simp add: find_terminal_outcomes_sql_def order_by_def)
  moreover have "terminalOutcomeRowSchema (ex_submitting_row, ex_reported_attempt)"
    using ex_prefix_ok
    by (simp add: terminalOutcomeRowSchema_def not_null_def runpodJobIdSchema_def TERMINAL_RUNPOD_STATUSES_def)
  ultimately show ?thesis by (simp add: findTerminalOutcomes_def reconciliationLimitSchema_def ex_outcome_def)
qed

definition ex_settle :: finalize_input where
  "ex_settle = \<lparr>fi_attemptId = ex_attempt_id, fi_errorCode = Some PE_PROCESSING_FAILED, fi_jobId = ex_job_id,
     fi_runpodJobId = ''x'', fi_status = ATT_FAILED, fi_timestamp = ex_at\<rparr>"

lemma ex_settle_ok [simp]:
  "finalize_request_ok ex_settle" "fi_attemptId ex_settle = ex_attempt_id" "fi_jobId ex_settle = ex_job_id"
  "fi_runpodJobId ex_settle = ''x''"
  by (simp_all add: ex_settle_def finalize_request_ok_def finalize_input_ok_def finalize_identifiers_ok_def
      runpodJobIdSchema_def)

section \<open>A claim after the terminal status\<close>

lemma ex_claim_reported: "\<exists>db'. claimWinner ex_winner ex_reported = (Inr True, db')"
proof -
  let ?a = "claimed_attempt ex_winner ex_reported_attempt"
  have ok: "winner_input_ok ex_winner" by (simp add: winner_input_ok_def runpodJobIdSchema_def)
  have checks: "attempt_checks ?a"
    using ex_reported_checks by (auto simp: attempt_checks_def claimed_attempt_def)
  define dbs where "dbs = ex_reported\<lparr>d1_submissions := [\<lparr>rs_runpod_job_id = ''r'', rs_attempt_id = ex_attempt_id,
    rs_is_winner = False, rs_source = ''worker_claim'', rs_created_at = ex_at, rs_updated_at = ex_at\<rparr>]\<rparr>"
  have sub: "\<exists>rows. insert_submission_sql ''r'' ex_attempt_id ''worker_claim'' ex_at ex_reported = Inr (rows, dbs)"
    by (simp add: insert_submission_sql_def dbs_def Let_def)
  have tables: "d1_jobs dbs = [ex_submitting_row]" "d1_attempts dbs = [ex_reported_attempt]"
    by (simp_all add: dbs_def)
  obtain rows0 db0 where upa: "claim_winner_sql ex_winner dbs = Inr (rows0, db0)" "rows0 = [?a]"
    "d1_jobs db0 = [ex_submitting_row]" "d1_attempts db0 = [?a]"
    using checks tables
    by (simp add: claim_winner_sql_def update_attempts_def update_where_def sql_greater_def winners_unique_def
        claimed_attempt_def List.map_filter_simps Let_def)
  have won: "am_id ?a = ex_attempt_id" "am_job_id ?a = ex_job_id" "am_status ?a = ATT_RUNNING"
    by (simp_all add: claimed_attempt_def)
  obtain rows1 db1 where mark: "mark_submission_winner_sql ''r'' ex_attempt_id ex_at db0 = Inr (rows1, db1)"
    by (simp add: mark_submission_winner_sql_def Let_def)
  then have db1: "d1_jobs db1 = [ex_submitting_row]" "d1_attempts db1 = [?a]"
    using mark_submission_winner_unchanged [OF mark] upa(3,4) by (simp_all add: unchanged_tables_def)
  have "job_checks (ex_submitting_row\<lparr>jb_status := RUNNING, jb_updated_at := ex_at,
      jb_version := jb_version ex_submitting_row + 1\<rparr>)"
    using ex_submitting_checks by (simp add: job_checks_def)
  then have "\<exists>q. mark_job_running_sql ex_job_id ex_attempt_id ex_at db1 = Inr q"
    using db1 won by (simp add: mark_job_running_sql_def update_jobs_def)
  then obtain rows2 db2 where job: "mark_job_running_sql ex_job_id ex_attempt_id ex_at db1 = Inr (rows2, db2)" by auto
  have "\<exists>q. record_claim_event_sql ex_event_id ex_job_id ex_attempt_id ''r'' ex_at db2 = Inr q"
    using claim_event_not_single
    by (simp add: record_claim_event_sql_def insert_event_def orchestrator_event_def single_event_taken_def)
  then obtain rows3 db3 where
    event: "record_claim_event_sql ex_event_id ex_job_id ex_attempt_id ''r'' ex_at db2 = Inr (rows3, db3)" by auto
  show ?thesis
    using sub upa ok mark job event won(1)
    by (auto simp: claimWinner_def answer_attempt_def claim_batch_def batch3_def batch2_def updatedJobIdRowsSchema_def)
qed

section \<open>A complete output\<close>

definition ex_done_attempt :: attempt_row where
  "ex_done_attempt = (claimed_attempt ex_winner ex_attempt)\<lparr>am_runpod_terminal_job_id := Some ''r'',
     am_runpod_terminal_status := Some ''COMPLETED'', am_runpod_terminal_observed_at := Some ex_at,
     am_runpod_output_status := Some ''completed'', am_runpod_manifest_written := Some True,
     am_runpod_output_error_code := None, am_detected_language := None,
     am_media_duration_seconds := Some 60, am_segment_count := Some 4\<rparr>"

lemma ex_done_fields [simp]:
  "am_id ex_done_attempt = ex_attempt_id" "am_job_id ex_done_attempt = ex_job_id"
  "am_generation ex_done_attempt = 1" "am_status ex_done_attempt = ATT_RUNNING"
  "am_winning_runpod_job_id ex_done_attempt = Some ''r''" "am_runpod_terminal_job_id ex_done_attempt = Some ''r''"
  "am_runpod_terminal_status ex_done_attempt = Some ''COMPLETED''"
  "am_runpod_terminal_observed_at ex_done_attempt = Some ex_at"
  "am_runpod_output_status ex_done_attempt = Some ''completed''"
  "am_runpod_manifest_written ex_done_attempt = Some True"
  "am_runpod_output_error_code ex_done_attempt = None" "am_detected_language ex_done_attempt = None"
  "am_media_duration_seconds ex_done_attempt = Some 60"
  "am_submission_outcome ex_done_attempt = None"
  "am_result_prefix ex_done_attempt = ingest_result_prefix ex_ingest"
  "am_provider_kind ex_done_attempt = Some ''runpod_serverless''"
  "am_provider_policy ex_done_attempt = Some ''runpod_serverless_v1''"
  by (simp_all add: ex_done_attempt_def claimed_attempt_def)

lemma ex_done_checks: "attempt_checks ex_done_attempt"
  using ex_attempt_checks by (simp add: ex_done_attempt_def claimed_attempt_def attempt_checks_def)

definition ex_running_row :: job_row where
  "ex_running_row = ex_submitting_row\<lparr>jb_status := RUNNING, jb_version := Suc (jb_version ex_submitting_row)\<rparr>"

lemma ex_running_fields [simp]:
  "jb_id ex_running_row = ex_job_id" "jb_active_attempt_id ex_running_row = Some ex_attempt_id"
  "jb_status ex_running_row = RUNNING" "jb_deleted_at ex_running_row = None"
  by (simp_all add: ex_running_row_def)

lemma ex_running_checks: "job_checks ex_running_row"
  using ex_submitting_checks by (simp add: job_checks_def ex_running_row_def)

definition ex_done :: d1 where
  "ex_done = empty_d1\<lparr>d1_jobs := [ex_running_row], d1_attempts := [ex_done_attempt],
     d1_executions := [ex_execution ex_done_attempt]\<rparr>"

lemma ex_done_tables [simp]:
  "d1_jobs ex_done = [ex_running_row]" "d1_attempts ex_done = [ex_done_attempt]"
  "d1_events ex_done = []" "d1_executions ex_done = [ex_execution ex_done_attempt]"
  "d1_submissions ex_done = []" "d1_artifacts ex_done = []" "d1_outbox ex_done = []"
  by (simp_all add: ex_done_def empty_d1_def)

lemma ex_done_inv: "d1_inv ex_done" "completions_verified ex_done"
  by (simp_all add: d1_inv_def d1_keys_def winners_unique_def active_attempts_exist_def attempts_belong_def
      statuses_agree_def deleted_attempts_end_def single_flight_def rejected_attempts_end_def
      open_attempt_def status_lists UPLOAD_STATUSES_def List.map_filter_simps
      completions_verified_def artifacts_ok_def completed_attempts_def)

definition ex_done_outcome :: terminal_outcome where
  "ex_done_outcome = mapTerminalOutcome (ex_running_row, ex_done_attempt)"

lemma ex_done_outcome_fields [simp]:
  "to_attemptId ex_done_outcome = ex_attempt_id" "to_jobId ex_done_outcome = ex_job_id"
  "to_winningRunpodJobId ex_done_outcome = Some ''r''" "to_runpodTerminalJobId ex_done_outcome = ''r''"
  "to_runpodTerminalStatus ex_done_outcome = ''COMPLETED''" "to_runpodOutputStatus ex_done_outcome = Some ''completed''"
  "to_runpodManifestWritten ex_done_outcome = Some True" "to_jobStatus ex_done_outcome = RUNNING"
  by (simp_all add: ex_done_outcome_def mapTerminalOutcome_def)

lemma ex_done_found: "findTerminalOutcomes 25 ex_done = Inr [ex_done_outcome]"
proof -
  have "reconcilable_rows ex_done = [(ex_running_row, ex_done_attempt)]"
    by (simp add: reconcilable_rows_def in_progress_def occupies_gpu_def provider_compatible_def
        execution_matches_def ex_execution_def)
  then have "find_terminal_outcomes_sql 25 ex_done = [(ex_running_row, ex_done_attempt)]"
    by (simp add: find_terminal_outcomes_sql_def order_by_def)
  moreover have "terminalOutcomeRowSchema (ex_running_row, ex_done_attempt)"
    using ex_prefix_ok
    by (simp add: terminalOutcomeRowSchema_def not_null_def runpodJobIdSchema_def TERMINAL_RUNPOD_STATUSES_def
        MAX_RECORDING_DURATION_SECONDS_def RUNPOD_OUTPUT_STATUSES_def)
  ultimately show ?thesis by (simp add: findTerminalOutcomes_def reconciliationLimitSchema_def ex_done_outcome_def)
qed

definition ex_artifacts :: "verified_artifact list" where
  "ex_artifacts =
     [\<lparr>va_format = ''markdown'', va_key = ''results/a.md'', va_sha256 = ex_hash, va_sizeBytes = 3\<rparr>,
      \<lparr>va_format = ''json'', va_key = ''results/a.json'', va_sha256 = ex_hash, va_sizeBytes = 3\<rparr>,
      \<lparr>va_format = ''srt'', va_key = ''results/a.srt'', va_sha256 = ex_hash, va_sizeBytes = 3\<rparr>]"

definition ex_completion :: completion_input where
  "ex_completion = \<lparr>ci_artifacts = ex_artifacts, ci_attemptId = ex_attempt_id, ci_durationSeconds = 60,
     ci_eventId = ex_event_id, ci_jobId = ex_job_id, ci_notificationId = ex_event_id, ci_runpodJobId = ''r'',
     ci_timestamp = ex_at\<rparr>"

lemma ex_completion_ok [simp]:
  "completion_input_ok ex_completion" "ci_attemptId ex_completion = ex_attempt_id" "ci_jobId ex_completion = ex_job_id"
  "ci_runpodJobId ex_completion = ''r''" "ordered_artifacts (ci_artifacts ex_completion) = Inr ex_artifacts"
  "ci_notificationId ex_completion = ex_event_id" "ci_eventId ex_completion = ex_event_id"
  "artifacts_fresh ex_completion ex_done"
  by (simp_all add: ex_completion_def completion_input_ok_def runpodJobIdSchema_def MAX_RECORDING_DURATION_SECONDS_def
      ex_artifacts_def verified_artifact_ok_def OUTPUT_FORMATS_def ordered_artifacts_def required_artifact_def
      artifacts_fresh_def)

lemma ex_completion_runs:
  "\<exists>db' j. finalizeCompleted ex_completion ex_done = (Inr True, db') \<and> j \<in> set (d1_jobs db') \<and> jb_status j = COMPLETED"
proof -
  have a: "ex_done_attempt \<in> set (d1_attempts ex_done)" "am_id ex_done_attempt = ci_attemptId ex_completion"
    "am_job_id ex_done_attempt = ci_jobId ex_completion" "completed_by (ci_runpodJobId ex_completion) ex_done_attempt"
    "provider_compatible ex_done ex_done_attempt"
    by (simp_all add: completed_by_def provider_compatible_def execution_matches_def ex_execution_def)
  have j: "ex_running_row \<in> set (d1_jobs ex_done)" "jb_id ex_running_row = ci_jobId ex_completion"
    "jb_active_attempt_id ex_running_row = Some (ci_attemptId ex_completion)" "running_or_cancelling ex_running_row"
    by (simp_all add: running_or_cancelling_def)
  obtain es db' where batch: "completion_batch ex_completion ex_artifacts ex_done =
      Inr (([completed_attempt_row ex_completion ex_done_attempt],
        [finalized_job ATT_COMPLETED None (ci_timestamp ex_completion) (Some (ci_durationSeconds ex_completion)) ex_running_row],
        es), db')"
    and row: "finalized_job ATT_COMPLETED None (ci_timestamp ex_completion) (Some (ci_durationSeconds ex_completion))
      ex_running_row \<in> set (d1_jobs db')"
    by (rule completion_batch_ends [OF ex_done_inv(1) a j ex_done_checks ex_running_checks, of ex_artifacts]) simp_all
  have "finalizeCompleted ex_completion ex_done = (Inr True, db')"
    using batch by (simp add: finalizeCompleted_def answer_both_def updatedJobIdRowsSchema_def finalized_job_def)
  moreover have "jb_status (finalized_job ATT_COMPLETED None (ci_timestamp ex_completion)
      (Some (ci_durationSeconds ex_completion)) ex_running_row) = COMPLETED" by (simp add: finalized_job_def)
  ultimately show ?thesis using row by blast
qed

text \<open>What the request of a deletion leaves, when it is granted.\<close>

lemma perform_delete: "requestJobDeletion i db = (Inr Delete_deleted, db') \<Longrightarrow> perform (Delete_job i) db db = db'"
  by (auto simp: requestJobDeletion_def split: sum.split_asm delete_phase.split_asm)

end
