(* ===== verification/CompletionProperties.thy ===== *)
theory CompletionProperties
  imports CompletionExample
begin

text \<open>
  The properties of how executions on RunPod end: what a completed job is, what becomes of a
  terminal outcome, and of a job that was deleted while it ran.
\<close>

text \<open>Claim C9. In every history that starts from verified completions, an empty database for
  instance, a job that is completed has a completed active attempt; the RunPod job that won this
  attempt is the one whose terminal status was recorded, it reported COMPLETED, its output says
  completed and that the manifest was written; and the attempt has exactly one artifact of each
  format, each under results/ and within the size limit.\<close>

theorem completed_jobs_verified:
  assumes h: "history h" "completions_verified (last h)" and db: "db \<in> set h"
    and j: "j \<in> set (d1_jobs db)" "jb_status j = COMPLETED"
  shows "\<exists>a \<in> set (d1_attempts db). jb_active_attempt_id j = Some (am_id a) \<and> am_job_id a = jb_id j \<and>
    am_status a = ATT_COMPLETED \<and>
    (\<exists>r. am_winning_runpod_job_id a = Some r \<and> am_runpod_terminal_job_id a = Some r) \<and>
    am_runpod_terminal_status a = Some ''COMPLETED'' \<and> am_runpod_output_status a = Some ''completed'' \<and>
    am_runpod_manifest_written a = Some True \<and>
    bij_betw af_format {f \<in> set (d1_artifacts db). af_attempt_id f = am_id a} (set OUTPUT_FORMATS) \<and>
    list_all artifact_checks (d1_artifacts db)"
proof -
  have ok: "completions_verified db" using history_verified [OF h] db by blast
  then obtain a where a: "a \<in> completed_attempts db" "jb_active_attempt_id j = Some (am_id a)" "am_job_id a = jb_id j"
    using ok j unfolding completions_verified_def by blast
  have ev: "completion_evidence db a" "artifacts_ok db"
    using ok a(1) by (simp_all add: completions_verified_def)
  have row: "a \<in> set (d1_attempts db)" "am_status a = ATT_COMPLETED"
    using a(1) by (simp_all add: completed_attempts_def)
  obtain r where "am_winning_runpod_job_id a = Some r" "am_runpod_terminal_job_id a = Some r"
    using ev(1) unfolding completion_evidence_def by auto
  moreover have "am_runpod_terminal_status a = Some ''COMPLETED''" "am_runpod_output_status a = Some ''completed''"
    "am_runpod_manifest_written a = Some True" using ev(1) by (simp_all add: completion_evidence_def)
  moreover have "list_all artifact_checks (d1_artifacts db)" using ev(2) by (simp add: artifacts_ok_def)
  ultimately show ?thesis using a(2,3) row evidence_artifacts [OF ev(2,1)] by blast
qed

theorem completed_jobs_verified_witness:
  "\<exists>db'. finalizeCompleted ex_completion ex_done = (Inr True, db') \<and>
     (\<exists>a \<in> set (d1_attempts db'). am_status a = ATT_COMPLETED \<and>
        bij_betw af_format {f \<in> set (d1_artifacts db'). af_attempt_id f = am_id a} (set OUTPUT_FORMATS))"
proof -
  obtain db' j where run: "finalizeCompleted ex_completion ex_done = (Inr True, db')"
    and j: "j \<in> set (d1_jobs db')" "jb_status j = COMPLETED"
    using ex_completion_runs by blast
  have h: "history [db', ex_done]"
    using history.request [OF history.start [OF ex_done_inv(1)], of ex_done "Finalize_completed ex_completion"] run by simp
  from completed_jobs_verified [OF h _ _ j] run ex_done_inv(2) show ?thesis by auto
qed

text \<open>Claim C14. When a user deletes a job whose attempt is submitted or runs, the attempt is left with
  its cancellation requested: no request of users, of the queue or of the reconciliation ends it any
  more, whatever RunPod reports. It occupies the GPU in every later database of the history, no job is
  offered for dispatch and nothing is submitted, until the deletion removes the rows of the job.\<close>

theorem deleted_running_job_holds_gpu:
  assumes now: "history (db # h)" and run: "requestJobDeletion i db = (Inr Delete_deleted, db')"
    and j: "j \<in> set (d1_jobs db)" "owned (ac_ownerSub i) (ac_jobId i) j"
    and a: "a \<in> set (d1_attempts db)" "am_job_id a = jb_id j" "occupies_gpu a"
    and later: "history (new # h')" "db' \<in> set (new # h')"
  shows "(\<exists>a' \<in> set (d1_attempts new). am_id a' = am_id a \<and> am_status a' = ATT_CANCEL_REQUESTED) \<and>
    findDispatchablePendingJobId new = Inr None \<and>
    (\<forall>jobId hash t e p. fst (prepareSubmission jobId hash t e new) \<noteq> Inr (Some p))"
proof -
  have inv: "d1_inv db" "d1_inv new" using history_sound [OF now] history_sound [OF later(1)] by simp_all
  obtain b j' where b: "held_by_deleted_job db' b j'" "am_id b = am_id a" "am_status b = ATT_CANCEL_REQUESTED"
    by (rule deleted_in_flight [OF inv(1) j run a]) blast
  then obtain a' where a': "held_by_deleted_job new a' j'" "am_id a' = am_id a" "am_status a' = ATT_CANCEL_REQUESTED"
    using held_by_deleted_job_history [OF later b(1)] by auto
  then have held: "a' \<in> set (d1_attempts new)" "occupies_gpu a'" by (simp_all add: held_by_deleted_job_def)
  show ?thesis
    using a' held nothing_prepared_when_occupied [OF inv(2) held] nothing_dispatchable_when_occupied [OF held]
    by blast
qed

theorem deleted_running_job_holds_gpu_witness:
  "\<exists>db'. requestJobDeletion ex_action ex_submitting = (Inr Delete_deleted, db') \<and>
     findDispatchablePendingJobId db' = Inr None"
proof -
  obtain db' where run: "requestJobDeletion ex_action ex_submitting = (Inr Delete_deleted, db')"
    using ex_delete_submitting by blast
  have h: "history [db', ex_submitting]"
    using history.request [OF history.start [OF ex_submitting_inv], of ex_submitting "Delete_job ex_action"]
    unfolding perform_delete [OF run] by simp
  have "ex_submitting_row \<in> set (d1_jobs ex_submitting)" "owned (ac_ownerSub ex_action) (ac_jobId ex_action) ex_submitting_row"
    "ex_attempt \<in> set (d1_attempts ex_submitting)" "am_job_id ex_attempt = jb_id ex_submitting_row" "occupies_gpu ex_attempt"
    by (simp_all add: owned_def occupies_gpu_def)
  from deleted_running_job_holds_gpu [OF history.start [OF ex_submitting_inv] run this h] run show ?thesis by auto
qed

text \<open>A terminal outcome the reconciliation finds can be settled at once, exactly when no
  worker has claimed the attempt or the RunPod job that claimed it is the one that ended: failing or
  cancelling it answers true, the attempt and its job end with the status given, and no attempt
  occupies the GPU any longer, so a job that waits for it is offered for dispatch.\<close>

theorem terminal_outcome_settled:
  assumes now: "history (db # h)" and found: "findTerminalOutcomes limit db = Inr xs" "x \<in> set xs"
    and checks: "\<forall>a \<in> set (d1_attempts db). attempt_checks a" "\<forall>j \<in> set (d1_jobs db). job_checks j"
    and input: "finalize_request_ok i" "fi_attemptId i = to_attemptId x" "fi_jobId i = to_jobId x"
      "fi_runpodJobId i = to_runpodTerminalJobId x"
  shows "(fst (finalizeTerminal i db) = Inr True \<longleftrightarrow>
      to_winningRunpodJobId x = None \<or> to_winningRunpodJobId x = Some (to_runpodTerminalJobId x)) \<and>
    (\<forall>db'. finalizeTerminal i db = (Inr True, db') \<longrightarrow>
      (\<exists>a \<in> set (d1_attempts db'). am_id a = to_attemptId x \<and> am_status a = fi_status i) \<and>
      (\<exists>j \<in> set (d1_jobs db'). jb_id j = to_jobId x \<and> jb_status j = job_status_of_attempt (fi_status i)) \<and>
      (\<forall>a \<in> set (d1_attempts db'). \<not> occupies_gpu a) \<and>
      ((\<exists>j \<in> set (d1_jobs db'). waits_for_gpu db' j) \<longrightarrow> findDispatchablePendingJobId db' \<noteq> Inr None))"
proof -
  have inv: "d1_inv db" using history_sound [OF now] by simp
  obtain a j where a: "a \<in> set (d1_attempts db)" "occupies_gpu a" "provider_compatible db a"
      "am_runpod_terminal_status a \<noteq> None" "am_runpod_terminal_job_id a = Some (to_runpodTerminalJobId x)"
    and j: "j \<in> set (d1_jobs db)" "jb_active_attempt_id j = Some (am_id a)" "jb_id j = am_job_id a" "in_progress j"
    and x: "x = mapTerminalOutcome (j, a)"
    by (rule found_outcome [OF inv found]) blast
  have ids: "to_attemptId x = am_id a" "to_jobId x = am_job_id a" "to_winningRunpodJobId x = am_winning_runpod_job_id a"
    by (simp_all add: x mapTerminalOutcome_def)
  have able: "finalizable i db a \<longleftrightarrow>
      am_winning_runpod_job_id a = None \<or> am_winning_runpod_job_id a = Some (to_runpodTerminalJobId x)"
    using a j input ids
    by (auto simp: finalizable_def has_in_progress_job_def finalize_request_ok_def finalize_input_ok_def)
  have only: "b = a" if "b \<in> set (d1_attempts db)" "finalizable i db b" for b
    by (rule attempt_unique [OF _ that(1) a(1)])
      (use inv that(2) input(2) ids(1) in \<open>simp_all add: d1_inv_def finalizable_def\<close>)
  note ends = finalizeTerminal_ends [OF inv a(1) _ _ checks(2) input(1)]
  have ca: "attempt_checks a" using checks(1) a(1) by blast
  have iff: "fst (finalizeTerminal i db) = Inr True \<longleftrightarrow>
      to_winningRunpodJobId x = None \<or> to_winningRunpodJobId x = Some (to_runpodTerminalJobId x)"
  proof
    assume "fst (finalizeTerminal i db) = Inr True"
    then have "finalizeTerminal i db = (Inr True, snd (finalizeTerminal i db))" by (simp add: prod_eq_iff)
    then obtain b where "b \<in> set (d1_attempts db)" "finalizable i db b" by (rule finalizeTerminal_True)
    then show "to_winningRunpodJobId x = None \<or> to_winningRunpodJobId x = Some (to_runpodTerminalJobId x)"
      using only able ids(3) by metis
  next
    assume "to_winningRunpodJobId x = None \<or> to_winningRunpodJobId x = Some (to_runpodTerminalJobId x)"
    then have "finalizable i db a" using able ids(3) by simp
    then show "fst (finalizeTerminal i db) = Inr True" using ends [OF _ ca] by (metis fst_conv)
  qed
  moreover have "(\<exists>a \<in> set (d1_attempts db'). am_id a = to_attemptId x \<and> am_status a = fi_status i) \<and>
      (\<exists>j \<in> set (d1_jobs db'). jb_id j = to_jobId x \<and> jb_status j = job_status_of_attempt (fi_status i)) \<and>
      (\<forall>a \<in> set (d1_attempts db'). \<not> occupies_gpu a) \<and>
      ((\<exists>j \<in> set (d1_jobs db'). waits_for_gpu db' j) \<longrightarrow> findDispatchablePendingJobId db' \<noteq> Inr None)"
    if run: "finalizeTerminal i db = (Inr True, db')" for db'
  proof -
    have "finalizable i db a" using iff able ids(3) run by simp
    then obtain k where k: "jb_id k = fi_jobId i"
      "finalized_job (fi_status i) (fi_errorCode i) (fi_timestamp i) None k \<in> set (d1_jobs db')"
      "settled_attempt i a \<in> set (d1_attempts db')" "\<forall>b \<in> set (d1_attempts db'). \<not> occupies_gpu b"
      using ends [OF _ ca] run by (metis prod.inject)
    have "\<exists>b \<in> set (d1_attempts db'). am_id b = to_attemptId x \<and> am_status b = fi_status i"
      by (rule bexI [OF _ k(3)]) (simp add: ids)
    moreover have "\<exists>j \<in> set (d1_jobs db'). jb_id j = to_jobId x \<and> jb_status j = job_status_of_attempt (fi_status i)"
      by (rule bexI [OF _ k(2)]) (use k(1) input(3) in \<open>simp add: finalized_job_def\<close>)
    ultimately show ?thesis using k(4) idle_dispatches by blast
  qed
  ultimately show ?thesis by blast
qed

theorem terminal_outcome_settled_witness:
  "\<exists>db'. finalizeTerminal ex_settle ex_reported = (Inr True, db') \<and> (\<forall>a \<in> set (d1_attempts db'). \<not> occupies_gpu a)"
proof -
  have "fst (finalizeTerminal ex_settle ex_reported) = Inr True \<and>
    (\<forall>db'. finalizeTerminal ex_settle ex_reported = (Inr True, db') \<longrightarrow> (\<forall>a \<in> set (d1_attempts db'). \<not> occupies_gpu a))"
    using terminal_outcome_settled [OF history.start [OF ex_reported_inv] ex_reported_found, of ex_outcome ex_settle]
      ex_reported_checks ex_submitting_checks by simp
  then show ?thesis by (cases "finalizeTerminal ex_settle ex_reported") auto
qed

text \<open>Claim C25. A claim does not ask whether RunPod has reported the end of the attempt already. When the
  terminal status of one RunPod job has been recorded and a worker of another one is then granted the
  claim, the attempt can never end through the reconciliation: in every later database of the history
  no terminal status is recorded for it, and failing it, cancelling it, completing it and giving it up as
  unobservable never succeed.\<close>

theorem claim_after_terminal_status_stuck:
  assumes now: "history (db # h)" and claim: "claimWinner w db = (Inr True, db')"
    and terminal: "\<forall>a \<in> set (d1_attempts db). am_id a = cw_attemptId w \<longrightarrow> am_runpod_terminal_status a \<noteq> None \<and>
      am_runpod_terminal_job_id a \<noteq> Some (cw_runpodJobId w)"
    and later: "history (new # h')" "db' \<in> set (new # h')"
  shows "(\<exists>a \<in> set (d1_attempts new). am_id a = cw_attemptId w \<and>
      am_winning_runpod_job_id a = Some (cw_runpodJobId w) \<and> am_runpod_terminal_status a \<noteq> None) \<and>
    (\<forall>t. ti_attemptId t = cw_attemptId w \<longrightarrow> fst (recordTerminalStatus t new) \<noteq> Inr True) \<and>
    (\<forall>i. fi_attemptId i = cw_attemptId w \<longrightarrow> fst (finalizeTerminal i new) \<noteq> Inr True) \<and>
    (\<forall>i. ci_attemptId i = cw_attemptId w \<longrightarrow> fst (finalizeCompleted i new) \<noteq> Inr True) \<and>
    (\<forall>i. un_attemptId i = cw_attemptId w \<longrightarrow> fst (failUnobservableAttempt i new) \<noteq> Inr True)"
proof -
  have inv: "d1_inv db" using history_sound [OF now] by simp
  note new = history_later [OF later]
  obtain a where a: "a \<in> set (d1_attempts db)" "am_id a = cw_attemptId w" "claimed_attempt w a \<in> set (d1_attempts db')"
    by (rule claimWinner_row [OF claim inv])
  have "am_runpod_terminal_status a \<noteq> None" "am_runpod_terminal_job_id a \<noteq> Some (cw_runpodJobId w)"
    using terminal a(1,2) by blast+
  then have "claimed_elsewhere (cw_attemptId w) (claimed_attempt w a)"
    using a(2) by (auto simp: claimed_elsewhere_def claimed_attempt_def)
  moreover obtain b where b: "b \<in> set (d1_attempts new)" "attempt_evolves (claimed_attempt w a) b"
    using new(2) a(3) by (auto simp: evolves_def)
  ultimately have stuck: "claimed_elsewhere (cw_attemptId w) b" using claimed_elsewhere_evolves by blast
  have "am_winning_runpod_job_id b = Some (cw_runpodJobId w)"
    using b(2) by (auto simp: attempt_evolves_def claimed_attempt_def stays_def)
  then show ?thesis
    using stuck b(1) claimed_elsewhere_stuck [OF new(1) b(1) stuck] unfolding claimed_elsewhere_def by blast
qed

theorem claim_after_terminal_status_stuck_witness:
  "\<exists>db'. claimWinner ex_winner ex_reported = (Inr True, db') \<and>
     fst (finalizeTerminal ex_settle db') \<noteq> Inr True \<and> fst (recordTerminalStatus ex_report db') \<noteq> Inr True"
proof -
  obtain db' where run: "claimWinner ex_winner ex_reported = (Inr True, db')" using ex_claim_reported by blast
  have start: "history [ex_reported]" by (rule history.start [OF ex_reported_inv])
  have "history [db', ex_reported]"
    using history.request [OF start, of ex_reported "Claim_winner ex_winner"] run by simp
  moreover have "\<forall>a \<in> set (d1_attempts ex_reported). am_id a = cw_attemptId ex_winner \<longrightarrow>
      am_runpod_terminal_status a \<noteq> None \<and> am_runpod_terminal_job_id a \<noteq> Some (cw_runpodJobId ex_winner)" by simp
  ultimately show ?thesis
    using claim_after_terminal_status_stuck [OF start run, of db' "[ex_reported]"] run by (auto simp: ex_report_def)
qed

text \<open>A job whose RunPod job reports that it is complete is completed: for every outcome the
  reconciliation finds that is a completion and whose job is running, \<open>finalizeCompleted\<close> answers true
  with three distinct verified artifacts that are new to the database. The job is then COMPLETED with
  its duration, the attempt COMPLETED, the GPU free, and a job that waits for it is offered for
  dispatch; and however the history goes on, the attempt is not completed a second time.\<close>

theorem completion_outcome_recorded:
  assumes now: "history (db # h)" and found: "findTerminalOutcomes limit db = Inr xs" "x \<in> set xs"
    and complete: "to_runpodTerminalStatus x = ''COMPLETED''" "to_runpodOutputStatus x = Some ''completed''"
      "to_runpodManifestWritten x = Some True" "to_winningRunpodJobId x = Some (to_runpodTerminalJobId x)"
      "to_jobStatus x \<noteq> SUBMITTING"
    and checks: "\<forall>a \<in> set (d1_attempts db). attempt_checks a" "\<forall>j \<in> set (d1_jobs db). job_checks j"
    and input: "completion_input_ok i" "ci_attemptId i = to_attemptId x" "ci_jobId i = to_jobId x"
      "ci_runpodJobId i = to_runpodTerminalJobId x" "ordered_artifacts (ci_artifacts i) = Inr vs"
      "ulid_ok (ci_notificationId i)" "ulid_ok (ci_eventId i)" "artifacts_fresh i db"
  shows "\<exists>db'. finalizeCompleted i db = (Inr True, db') \<and>
    (\<exists>j \<in> set (d1_jobs db). jb_id j = to_jobId x \<and>
       finalized_job ATT_COMPLETED None (ci_timestamp i) (Some (ci_durationSeconds i)) j \<in> set (d1_jobs db')) \<and>
    (\<forall>a \<in> set (d1_attempts db'). \<not> occupies_gpu a) \<and>
    ((\<exists>j \<in> set (d1_jobs db'). waits_for_gpu db' j) \<longrightarrow> findDispatchablePendingJobId db' \<noteq> Inr None) \<and>
    (\<forall>new h'. history (new # h') \<and> db' \<in> set (new # h') \<longrightarrow>
       (\<forall>k. ci_attemptId k = to_attemptId x \<longrightarrow> fst (finalizeCompleted k new) \<noteq> Inr True))"
proof -
  have inv: "d1_inv db" using history_sound [OF now] by simp
  obtain a j where a: "a \<in> set (d1_attempts db)" "am_id a = to_attemptId x" "am_job_id a = to_jobId x"
      "completed_by (to_runpodTerminalJobId x) a" "provider_compatible db a"
    and j: "j \<in> set (d1_jobs db)" "jb_id j = to_jobId x" "jb_active_attempt_id j = Some (to_attemptId x)"
      "running_or_cancelling j"
    by (rule found_completion [OF inv found complete])
  let ?j = "finalized_job ATT_COMPLETED None (ci_timestamp i) (Some (ci_durationSeconds i)) j"
  obtain events db' where batch: "completion_batch i vs db = Inr (([completed_attempt_row i a], [?j], events), db')"
    and rows: "completed_attempt_row i a \<in> set (d1_attempts db')" "?j \<in> set (d1_jobs db')"
      "\<forall>b \<in> set (d1_attempts db'). \<not> occupies_gpu b"
    by (rule completion_batch_ends [OF inv a(1) _ _ _ a(5) j(1) _ _ j(4), of i vs])
      (use a j input checks in simp_all)
  have run: "finalizeCompleted i db = (Inr True, db')"
    by (rule finalizeCompleted_batch [OF input(1,5,6,7) batch])
      (use a(2) j(2) input(2,3) in \<open>simp_all add: finalized_job_def\<close>)
  have "fst (finalizeCompleted k new) \<noteq> Inr True"
    if "history (new # h')" "db' \<in> set (new # h')" "ci_attemptId k = to_attemptId x" for new h' k
    by (rule completed_once [OF that(1,2) rows(1)]) (use that(3) a(2) in simp_all)
  then show ?thesis using run rows(2,3) j(1,2) idle_dispatches by metis
qed

theorem completion_outcome_recorded_witness:
  "\<exists>db'. finalizeCompleted ex_completion ex_done = (Inr True, db') \<and> (\<forall>a \<in> set (d1_attempts db'). \<not> occupies_gpu a)"
  using completion_outcome_recorded [OF history.start [OF ex_done_inv(1)] ex_done_found, of ex_done_outcome ex_completion ex_artifacts]
    ex_done_checks ex_running_checks by auto

end
