(* ===== verification/RunpodClient.thy ===== *)
theory RunpodClient
  imports Completion CloudRunClient
begin

text \<open>
  packages/contracts/src/runpod.ts (the messages between the orchestrator, RunPod and the worker) and
  apps/orchestrator/src/runpod-client.ts (\<open>createRunpodClient\<close>). A method of the client makes one HTTP
  request; \<open>fetch\<close> is a parameter that answers it (\<open>None\<close> when the request throws, the timeout
  included), \<open>decode\<close> stands for \<open>TextDecoder\<close> on UTF-8 with \<open>fatal\<close>, \<open>parse_json\<close> for \<open>JSON.parse\<close>.
  A media duration is a number of seconds that need not be whole.
  Lemmas: what a response that is read has been checked for; a status the client hands out can be
  recorded; which HTTP responses give which result.
\<close>

section \<open>Messages\<close>

definition RUNPOD_EXECUTION_TIMEOUT_MS :: int where
  "RUNPOD_EXECUTION_TIMEOUT_MS = 6 * 60 * 60 * 1000"

definition RUNPOD_JOB_TTL_MS :: int where
  "RUNPOD_JOB_TTL_MS = 8 * 60 * 60 * 1000"

definition runpodCapabilityTokenSchema :: "string \<Rightarrow> bool" where
  "runpodCapabilityTokenSchema s \<longleftrightarrow> length s = 43 \<and> all_in base64url_chars s"

definition runpodWorkerInputSchema :: json_schema where
  "runpodWorkerInputSchema = strict_object [
     required ''attemptId'' (string_schema_of ulid_ok),
     required ''claimToken'' (string_schema_of runpodCapabilityTokenSchema),
     required ''jobId'' (string_schema_of ulid_ok),
     required ''schemaVersion'' (literal (JNum 1))]"

definition runpodRunRequestSchema :: json_schema where
  "runpodRunRequestSchema = strict_object [
     required ''input'' runpodWorkerInputSchema,
     required ''policy'' (strict_object [
       required ''executionTimeout'' (literal (JNum RUNPOD_EXECUTION_TIMEOUT_MS)),
       required ''ttl'' (literal (JNum RUNPOD_JOB_TTL_MS))])]"

definition runpodRunResponseSchema :: json_schema where
  "runpodRunResponseSchema = strict_object [
     required ''id'' (string_schema_of runpodJobIdSchema),
     required ''status'' (literal (JStr ''IN_QUEUE''))]"

text \<open>A run request as the orchestrator builds it: the schema version and the policy are fixed.\<close>

record run_request =
  rn_attemptId :: string
  rn_claimToken :: string
  rn_jobId :: string

definition run_request_json :: "run_request \<Rightarrow> json" where
  "run_request_json q = JObj [
     (''input'', JObj [
       (''attemptId'', JStr (rn_attemptId q)),
       (''claimToken'', JStr (rn_claimToken q)),
       (''jobId'', JStr (rn_jobId q)),
       (''schemaVersion'', JNum 1)]),
     (''policy'', JObj [
       (''executionTimeout'', JNum RUNPOD_EXECUTION_TIMEOUT_MS),
       (''ttl'', JNum RUNPOD_JOB_TTL_MS)])]"

definition worker_output_identity :: "field_schema list" where
  "worker_output_identity = [
     required ''attemptId'' (string_schema_of ulid_ok),
     required ''jobId'' (string_schema_of ulid_ok),
     required ''schemaVersion'' (literal (JNum 1))]"

definition detected_language_ok :: "string \<Rightarrow> bool" where
  "detected_language_ok s \<longleftrightarrow>
     2 \<le> length s \<and> length s \<le> 35 \<and> all_in (upper_chars @ lower_chars @ digit_chars @ ''-'') s"

text \<open>\<open>z.number()\<close> between two bounds, and the number a field holds.\<close>

definition number_value :: "json \<Rightarrow> rat option" where
  "number_value j = (case j of JNum n \<Rightarrow> Some (of_int n) | JDec q \<Rightarrow> Some q | _ \<Rightarrow> None)"

definition bounded_number :: "rat \<Rightarrow> rat \<Rightarrow> json_schema" where
  "bounded_number lo hi j = (case number_value j of Some q \<Rightarrow> lo \<le> q \<and> q \<le> hi | None \<Rightarrow> False)"

definition number_field :: "string \<Rightarrow> json \<Rightarrow> rat" where
  "number_field k j = (case Option.bind (json_field k j) number_value of Some q \<Rightarrow> q | None \<Rightarrow> 0)"

definition runpodWorkerCompletedOutputSchema :: json_schema where
  "runpodWorkerCompletedOutputSchema = strict_object (worker_output_identity @ [
     required ''detectedLanguage'' (string_schema_of detected_language_ok),
     required ''durationSeconds'' (bounded_number 0 MAX_RECORDING_DURATION_SECONDS),
     required ''manifestWritten'' (literal (JBool True)),
     required ''segmentCount'' nonnegative_int,
     required ''status'' (literal (JStr ''completed''))])"

definition runpodWorkerFailedOutputSchema :: json_schema where
  "runpodWorkerFailedOutputSchema = strict_object (worker_output_identity @ [
     required ''errorCode'' (string_enum RUNPOD_WORKER_ERROR_CODES),
     required ''manifestWritten'' (literal (JBool False)),
     required ''status'' (string_enum [''cancelled'', ''failed''])])"

definition runpodWorkerDeduplicatedOutputSchema :: json_schema where
  "runpodWorkerDeduplicatedOutputSchema = strict_object (worker_output_identity @ [
     required ''manifestWritten'' (literal (JBool False)),
     required ''status'' (literal (JStr ''deduplicated''))])"

definition runpodWorkerOutputSchema :: json_schema where
  "runpodWorkerOutputSchema j \<longleftrightarrow>
     runpodWorkerCompletedOutputSchema j \<or> runpodWorkerFailedOutputSchema j \<or>
     runpodWorkerDeduplicatedOutputSchema j"

definition runpodStatusWireResponseSchema :: json_schema where
  "runpodStatusWireResponseSchema = strict_object [
     optional ''delayTime'' nonnegative_int,
     optional ''error'' (bounded_string 1 2000),
     optional ''executionTime'' nonnegative_int,
     required ''id'' (string_schema_of runpodJobIdSchema),
     optional ''input'' runpodWorkerInputSchema,
     optional ''output'' runpodWorkerOutputSchema,
     required ''status'' (string_enum RUNPOD_STATUSES),
     optional ''workerId'' (bounded_string 1 200)]"

text \<open>The typed values of accepted JSON.\<close>

definition read_worker_output :: "json \<Rightarrow> worker_output" where
  "read_worker_output j =
     \<lparr>wo_attemptId = string_field ''attemptId'' j, wo_jobId = string_field ''jobId'' j,
      wo_result =
        (if runpodWorkerCompletedOutputSchema j
         then Output_completed (string_field ''detectedLanguage'' j)
           (number_field ''durationSeconds'' j) (nat (count_field ''segmentCount'' j))
         else if runpodWorkerFailedOutputSchema j
         then Output_failed (string_field ''status'' j) (string_field ''errorCode'' j)
         else Output_deduplicated)\<rparr>"

record status_response =
  sr_delayTime :: "nat option"
  sr_executionTime :: "nat option"
  sr_id :: string
  sr_output :: "worker_output option"
  sr_status :: string

definition optional_count :: "string \<Rightarrow> json \<Rightarrow> nat option" where
  "optional_count k j = (case json_field k j of Some (JNum n) \<Rightarrow> Some (nat n) | _ \<Rightarrow> None)"

text \<open>\<open>runpodStatusResponseSchema\<close>: the error, the input and the worker are left out.\<close>

definition runpodStatusResponseSchema :: "json \<Rightarrow> status_response result" where
  "runpodStatusResponseSchema j =
     res_bind (zod_parse runpodStatusWireResponseSchema j) (\<lambda>j.
       Inr \<lparr>sr_delayTime = optional_count ''delayTime'' j,
         sr_executionTime = optional_count ''executionTime'' j, sr_id = string_field ''id'' j,
         sr_output = map_option read_worker_output (json_field ''output'' j),
         sr_status = string_field ''status'' j\<rparr>)"

record placement_status =
  pl_id :: string
  pl_status :: string
  pl_workerId :: "string option"

definition runpodPlacementStatusResponseSchema :: "json \<Rightarrow> placement_status result" where
  "runpodPlacementStatusResponseSchema j =
     res_bind (zod_parse runpodStatusWireResponseSchema j) (\<lambda>j.
       Inr \<lparr>pl_id = string_field ''id'' j, pl_status = string_field ''status'' j,
         pl_workerId = (case json_field ''workerId'' j of Some (JStr s) \<Rightarrow> Some s | _ \<Rightarrow> None)\<rparr>)"

section \<open>Reading a response\<close>

definition MAX_RUNPOD_RESPONSE_BYTES :: nat where
  "MAX_RUNPOD_RESPONSE_BYTES = 32 * 1024"

text \<open>
  A body is what its reader yields until it is done: chunks of bytes, or \<open>None\<close> where a read throws
  or is not a chunk.
\<close>

record runpod_response =
  rp_status :: int
  rp_contentLength :: "string option"
  rp_body :: "string option list option"

definition rp_ok :: "runpod_response \<Rightarrow> bool" where
  "rp_ok r \<longleftrightarrow> 200 \<le> rp_status r \<and> rp_status r \<le> 299"

definition declared_length_ok :: "string option \<Rightarrow> bool" where
  "declared_length_ok contentLength \<longleftrightarrow>
     (case contentLength of
        None \<Rightarrow> True
      | Some s \<Rightarrow> (case digits_value s of
          None \<Rightarrow> False | Some n \<Rightarrow> n \<le> int MAX_RUNPOD_RESPONSE_BYTES))"

fun read_body_chunks :: "nat \<Rightarrow> string option list \<Rightarrow> string option" where
  "read_body_chunks n [] = (if n = 0 then None else Some [])"
| "read_body_chunks n (None # reads) = None"
| "read_body_chunks n (Some chunk # reads) =
     (if MAX_RUNPOD_RESPONSE_BYTES < n + length chunk then None
      else map_option (\<lambda>rest. chunk @ rest) (read_body_chunks (n + length chunk) reads))"

definition readBoundedJson ::
  "(string \<Rightarrow> string option) \<Rightarrow> (string \<Rightarrow> json option) \<Rightarrow> runpod_response \<Rightarrow> json option" where
  "readBoundedJson decode parse_json r =
     (if \<not> declared_length_ok (rp_contentLength r) then None
      else case rp_body r of
        None \<Rightarrow> None
      | Some reads \<Rightarrow>
          Option.bind (read_body_chunks 0 reads) (\<lambda>bytes. Option.bind (decode bytes) parse_json))"

section \<open>The client\<close>

record runpod_http_request =
  rh_method :: string
  rh_url :: string
  rh_headers :: "(string \<times> string) list"
  rh_body :: "json option"

type_synonym runpod_fetch = "runpod_http_request \<Rightarrow> runpod_response option"

record runpod_client =
  rc_apiKey :: string
  rc_endpointId :: string
  rc_decode :: "string \<Rightarrow> string option"
  rc_parse_json :: "string \<Rightarrow> json option"

definition client_headers :: "runpod_client \<Rightarrow> (string \<times> string) list" where
  "client_headers c = [(''accept'', ''application/json''), (''accept-encoding'', ''gzip''),
     (''authorization'', ''Bearer '' @ rc_apiKey c)]"

definition run_url :: "runpod_client \<Rightarrow> string" where
  "run_url c = ''https://api.runpod.ai/v2/'' @ encode_uri_component (rc_endpointId c) @ ''/run''"

definition job_url :: "runpod_client \<Rightarrow> string \<Rightarrow> string \<Rightarrow> string" where
  "job_url c runpodJobId operation =
     ''https://api.runpod.ai/v2/'' @ encode_uri_component (rc_endpointId c) @ ''/'' @ operation @ ''/''
       @ encode_uri_component runpodJobId"

datatype submission_unknown = Request_failed | Response_invalid

datatype submission_result =
    Submission_accepted string
  | Submission_rejected
  | Submission_unknown submission_unknown

datatype status_result =
    Status_found status_response
  | Status_invalid_response
  | Status_not_found
  | Status_unavailable

datatype stop_result = Stop_accepted | Stop_not_found | Stop_rejected | Stop_unavailable

definition client_cancel :: "runpod_client \<Rightarrow> runpod_fetch \<Rightarrow> string \<Rightarrow> stop_result" where
  "client_cancel c fetch runpodJobId =
     (case fetch \<lparr>rh_method = ''POST'', rh_url = job_url c runpodJobId ''cancel'',
          rh_headers = client_headers c, rh_body = None\<rparr> of
        None \<Rightarrow> Stop_unavailable
      | Some r \<Rightarrow>
          if rp_status r = 404 then Stop_not_found
          else if rp_ok r then Stop_accepted
          else if rp_status r = 408 \<or> rp_status r = 429 \<or> 500 \<le> rp_status r then Stop_unavailable
          else Stop_rejected)"

definition client_getStatus :: "runpod_client \<Rightarrow> runpod_fetch \<Rightarrow> string \<Rightarrow> status_result" where
  "client_getStatus c fetch runpodJobId =
     (case fetch \<lparr>rh_method = ''GET'', rh_url = job_url c runpodJobId ''status'',
          rh_headers = client_headers c, rh_body = None\<rparr> of
        None \<Rightarrow> Status_unavailable
      | Some r \<Rightarrow>
          if rp_status r = 404 then Status_not_found
          else if \<not> rp_ok r then Status_unavailable
          else (case readBoundedJson (rc_decode c) (rc_parse_json c) r of
                  None \<Rightarrow> Status_invalid_response
                | Some j \<Rightarrow> (case runpodStatusResponseSchema j of
                    Inl _ \<Rightarrow> Status_invalid_response | Inr s \<Rightarrow> Status_found s)))"

definition client_submit ::
  "runpod_client \<Rightarrow> runpod_fetch \<Rightarrow> run_request \<Rightarrow> submission_result result" where
  "client_submit c fetch q =
     res_bind (zod_parse runpodRunRequestSchema (run_request_json q)) (\<lambda>body.
       Inr (case fetch \<lparr>rh_method = ''POST'', rh_url = run_url c,
            rh_headers = client_headers c @ [(''content-type'', ''application/json'')],
            rh_body = Some body\<rparr> of
          None \<Rightarrow> Submission_unknown Request_failed
        | Some r \<Rightarrow>
            if \<not> rp_ok r then Submission_rejected
            else (case readBoundedJson (rc_decode c) (rc_parse_json c) r of
                    None \<Rightarrow> Submission_unknown Response_invalid
                  | Some j \<Rightarrow>
                      if runpodRunResponseSchema j then Submission_accepted (string_field ''id'' j)
                      else Submission_unknown Response_invalid)))"

section \<open>What has been checked of a response\<close>

lemma strict_field:
  "strict_object fs j \<Longrightarrow> (k, True, p) \<in> set fs \<Longrightarrow> \<exists>v. json_field k j = Some v \<and> p v"
  by (cases j) (force simp: strict_object_def fields_ok_def json_field_def list_all_iff
      split: option.splits)+

lemma strict_optional_field:
  "strict_object fs j \<Longrightarrow> (k, False, p) \<in> set fs \<Longrightarrow> json_field k j = Some v \<Longrightarrow> p v"
  by (cases j) (force simp: strict_object_def fields_ok_def json_field_def list_all_iff
      split: option.splits)+

lemma string_schemaD: "string_schema_of ok v \<Longrightarrow> \<exists>s. v = JStr s \<and> ok s"
  by (cases v) (simp_all add: string_schema_of_def)

lemma strict_string:
  assumes "strict_object fs j" "(k, True, string_schema_of ok) \<in> set fs"
  shows "ok (string_field k j)"
  using strict_field [OF assms] string_schemaD by (fastforce simp: string_field_def)

lemma strict_enum:
  assumes "strict_object fs j" "(k, True, string_enum vs) \<in> set fs"
  shows "string_field k j \<in> set vs"
  using strict_field [OF assms] string_enumD by (fastforce simp: string_field_def)

lemma strict_bounded_number:
  assumes "strict_object fs j" "(k, True, bounded_number lo hi) \<in> set fs"
  shows "lo \<le> number_field k j \<and> number_field k j \<le> hi"
proof -
  obtain v where "json_field k j = Some v" "bounded_number lo hi v" using strict_field [OF assms] by blast
  then show ?thesis by (cases v) (simp_all add: number_field_def bounded_number_def number_value_def)
qed

text \<open>An output that is read names ULIDs, and its columns pass the checks of the table.\<close>

lemma worker_output_identified:
  assumes "runpodWorkerOutputSchema j"
  shows "ulid_ok (wo_attemptId (read_worker_output j)) \<and> ulid_ok (wo_jobId (read_worker_output j))"
proof -
  have "\<exists>fs. strict_object (worker_output_identity @ fs) j"
    using assms unfolding runpodWorkerOutputSchema_def runpodWorkerCompletedOutputSchema_def
      runpodWorkerFailedOutputSchema_def runpodWorkerDeduplicatedOutputSchema_def by blast
  then obtain fs where schema: "strict_object (worker_output_identity @ fs) j" by blast
  have "ulid_ok (string_field ''attemptId'' j)"
    by (rule strict_string [OF schema]) (simp add: required_def worker_output_identity_def)
  moreover have "ulid_ok (string_field ''jobId'' j)"
    by (rule strict_string [OF schema]) (simp add: required_def worker_output_identity_def)
  ultimately show ?thesis by (simp add: read_worker_output_def)
qed

definition worker_result_ok :: "worker_result \<Rightarrow> bool" where
  "worker_result_ok r \<longleftrightarrow>
     (case r of
        Output_completed language duration segments \<Rightarrow>
          detected_language_ok language \<and> 0 \<le> duration \<and> duration \<le> MAX_RECORDING_DURATION_SECONDS
      | Output_failed status code \<Rightarrow>
          status \<in> {''cancelled'', ''failed''} \<and> code \<in> set RUNPOD_WORKER_ERROR_CODES
      | Output_deduplicated \<Rightarrow> True)"

lemma worker_output_ok: "worker_result_ok (wo_result (read_worker_output j))"
proof (cases "runpodWorkerCompletedOutputSchema j")
  case True
  note schema = True [unfolded runpodWorkerCompletedOutputSchema_def]
  have "detected_language_ok (string_field ''detectedLanguage'' j)"
    by (rule strict_string [OF schema]) (simp add: required_def)
  moreover have "0 \<le> number_field ''durationSeconds'' j \<and> number_field ''durationSeconds'' j \<le> MAX_RECORDING_DURATION_SECONDS"
    by (rule strict_bounded_number [OF schema]) (simp add: required_def)
  ultimately show ?thesis
    using True by (simp add: read_worker_output_def worker_result_ok_def)
next
  case completed: False
  show ?thesis
  proof (cases "runpodWorkerFailedOutputSchema j")
    case True
    note schema = True [unfolded runpodWorkerFailedOutputSchema_def]
    have "string_field ''status'' j \<in> set [''cancelled'', ''failed'']"
      by (rule strict_enum [OF schema]) (simp add: required_def)
    moreover have "string_field ''errorCode'' j \<in> set RUNPOD_WORKER_ERROR_CODES"
      by (rule strict_enum [OF schema]) (simp add: required_def)
    ultimately show ?thesis using True completed by (simp add: read_worker_output_def worker_result_ok_def)
  qed (simp add: completed read_worker_output_def worker_result_ok_def)
qed

definition status_response_ok :: "status_response \<Rightarrow> bool" where
  "status_response_ok s \<longleftrightarrow>
     runpodJobIdSchema (sr_id s) \<and> sr_status s \<in> set RUNPOD_STATUSES \<and>
     (case sr_output s of None \<Rightarrow> True | Some out \<Rightarrow>
        ulid_ok (wo_attemptId out) \<and> ulid_ok (wo_jobId out) \<and> worker_result_ok (wo_result out))"

lemma statusResponse_ok:
  assumes "runpodStatusResponseSchema j = Inr s"
  shows "status_response_ok s"
proof -
  have schema: "runpodStatusWireResponseSchema j" and s: "sr_id s = string_field ''id'' j"
    "sr_status s = string_field ''status'' j"
    "sr_output s = map_option read_worker_output (json_field ''output'' j)"
    using assms by (auto simp: runpodStatusResponseSchema_def result_simps)
  note schema = schema [unfolded runpodStatusWireResponseSchema_def]
  have "runpodJobIdSchema (sr_id s)"
    unfolding s by (rule strict_string [OF schema]) (simp add: required_def)
  moreover have "sr_status s \<in> set RUNPOD_STATUSES"
    unfolding s by (rule strict_enum [OF schema]) (simp add: required_def)
  moreover have "runpodWorkerOutputSchema v" if "json_field ''output'' j = Some v" for v
    by (rule strict_optional_field [OF schema _ that]) (simp add: optional_def)
  ultimately show ?thesis
    using worker_output_identified worker_output_ok
    by (auto simp: status_response_ok_def s(3) split: option.split)
qed

text \<open>What a worker result sets passes the checks of migration 0005.\<close>

lemma terminal_checks_found:
  assumes "ti_status i \<in> set TERMINAL_RUNPOD_STATUSES"
    and "\<And>out. ti_output i = Some out \<Longrightarrow> worker_result_ok (wo_result out)"
  shows "terminal_checks (terminal_attempt i a)"
proof (cases "ti_output i")
  case None
  then show ?thesis using assms(1) by (simp add: terminal_checks_def terminal_attempt_def nullable_def)
next
  case (Some out)
  then show ?thesis
    using assms
    by (cases "wo_result out") (auto simp: terminal_checks_def terminal_attempt_def nullable_def
        worker_result_ok_def detected_language_ok_def RUNPOD_OUTPUT_STATUSES_def
        MAX_RECORDING_DURATION_SECONDS_def)
qed

section \<open>Bounds of what is read\<close>

lemma read_body_chunks_bounds:
  "read_body_chunks n reads = Some bytes \<Longrightarrow> n \<le> MAX_RUNPOD_RESPONSE_BYTES \<Longrightarrow>
   0 < n + length bytes \<and> n + length bytes \<le> MAX_RUNPOD_RESPONSE_BYTES \<and>
   bytes = concat (map the reads) \<and> None \<notin> set reads"
proof (induction n reads arbitrary: bytes rule: read_body_chunks.induct)
  case (3 n chunk reads)
  then obtain rest where "read_body_chunks (n + length chunk) reads = Some rest" "bytes = chunk @ rest"
    and "n + length chunk \<le> MAX_RUNPOD_RESPONSE_BYTES"
    by (auto split: if_splits)
  then show ?case using 3(1) [of rest] by auto
qed (auto split: if_splits)

lemma read_body_chunks_complete:
  "None \<notin> set reads \<Longrightarrow> 0 < n + length (concat (map the reads)) \<Longrightarrow>
   n + length (concat (map the reads)) \<le> MAX_RUNPOD_RESPONSE_BYTES \<Longrightarrow>
   read_body_chunks n reads = Some (concat (map the reads))"
  by (induction n reads rule: read_body_chunks.induct) auto

text \<open>A body is read exactly when all of it arrives, it is not empty and it is within the limit.\<close>

lemma read_body_chunks_iff:
  "read_body_chunks 0 reads = Some bytes \<longleftrightarrow>
   None \<notin> set reads \<and> bytes = concat (map the reads) \<and> bytes \<noteq> [] \<and>
   length bytes \<le> MAX_RUNPOD_RESPONSE_BYTES"
  using read_body_chunks_bounds [of 0 reads bytes] read_body_chunks_complete [of reads 0] by auto

section \<open>What the client hands out\<close>

lemma getStatus_found:
  assumes "client_getStatus c fetch runpodJobId = Status_found s"
  shows "status_response_ok s"
  using assms statusResponse_ok
  by (auto simp: client_getStatus_def split: option.splits if_splits sum.splits)

lemma submit_accepted:
  assumes "client_submit c fetch q = Inr (Submission_accepted runpodJobId)"
  shows "runpodJobIdSchema runpodJobId"
proof -
  obtain j where j: "runpodRunResponseSchema j" and id: "runpodJobId = string_field ''id'' j"
    using assms unfolding client_submit_def res_bind_Inr_iff
    by (fastforce split: option.splits if_splits)
  show ?thesis
    unfolding id by (rule strict_string [OF j [unfolded runpodRunResponseSchema_def]]) (simp add: required_def)
qed

lemma run_request_valid:
  assumes "ulid_ok (rn_attemptId q)" "ulid_ok (rn_jobId q)" "runpodCapabilityTokenSchema (rn_claimToken q)"
  shows "runpodRunRequestSchema (run_request_json q)"
  using assms
  by (simp add: runpodRunRequestSchema_def runpodWorkerInputSchema_def run_request_json_def schema_defs)

lemma submit_ok:
  assumes "ulid_ok (rn_attemptId q)" "ulid_ok (rn_jobId q)" "runpodCapabilityTokenSchema (rn_claimToken q)"
  shows "\<exists>x. client_submit c fetch q = Inr x"
  using run_request_valid [OF assms] by (simp add: client_submit_def)

end
