(* ===== verification/CapabilityToken.thy ===== *)
theory CapabilityToken
  imports Authentication D1Schema RunpodClient
begin

text \<open>
  apps/orchestrator/src/capability-token.ts: the tokens with which a worker claims an execution and
  reports its heartbeat. The orchestrator keeps only the SHA-256 of a token, in hexadecimal;
  \<open>sha256\<close> is a parameter (\<open>crypto.subtle.digest\<close>), as is the random source.
  Lemmas: decoding undoes encoding; the comparison in constant time is equality of valid hashes;
  a created token is valid and its hash is what hashing it again gives.
\<close>

section \<open>Hexadecimal\<close>

definition encodeHex :: "8 word list \<Rightarrow> string" where
  "encodeHex bytes = concat (map hex_byte bytes)"

text \<open>\<open>Number.parseInt(digits, 16)\<close> on two hexadecimal digits.\<close>

definition hex_value :: "char \<Rightarrow> nat" where
  "hex_value c = length (takeWhile (\<lambda>d. d \<noteq> c) hex_chars)"

definition parse_hex_byte :: "string \<Rightarrow> 8 word" where
  "parse_hex_byte s = foldl (\<lambda>v c. 16 * v + of_nat (hex_value c)) 0 s"

definition decodeHex :: "string \<Rightarrow> 8 word list option" where
  "decodeHex value =
     (if \<not> sha256_hex_ok value then None
      else Some (map (\<lambda>index. parse_hex_byte (take 2 (drop (index * 2) value))) [0..<32]))"

section \<open>Tokens\<close>

record capability_token =
  ct_hash :: string
  ct_raw :: string

definition hashCapabilityToken :: "(string \<Rightarrow> 8 word list) \<Rightarrow> string \<Rightarrow> string result" where
  "hashCapabilityToken sha256 rawToken =
     res_bind (zod_parse runpodCapabilityTokenSchema rawToken) (\<lambda>token. Inr (encodeHex (sha256 token)))"

definition createCapabilityToken ::
  "(string \<Rightarrow> 8 word list) \<Rightarrow> (nat \<Rightarrow> 8 word list) \<Rightarrow> capability_token result" where
  "createCapabilityToken sha256 randomBytes =
     (let random = randomBytes 32 in
      if length random \<noteq> 32
      then Inl (JsError ''Capability random source returned an invalid byte length'')
      else res_bind (zod_parse runpodCapabilityTokenSchema (encodeBase64Url random)) (\<lambda>raw.
           res_bind (hashCapabilityToken sha256 raw) (\<lambda>h. Inr \<lparr>ct_hash = h, ct_raw = raw\<rparr>)))"

definition timingSafeHashEqual :: "string \<Rightarrow> string \<Rightarrow> bool" where
  "timingSafeHashEqual expectedHash observedHash =
     (case (decodeHex expectedHash, decodeHex observedHash) of
        (Some expected, Some observed) \<Rightarrow>
          foldl (\<lambda>difference index. or difference (xor (expected ! index) (observed ! index)))
            0 [0..<length expected] = 0
      | _ \<Rightarrow> False)"

section \<open>Decoding\<close>

lemma all_below_16: "(\<forall>n \<in> set [0..<16]. P n) \<Longrightarrow> n < 16 \<Longrightarrow> P n" for n :: nat
  by simp

lemma hex_digit_value: "n < 16 \<Longrightarrow> hex_digit n \<in> set hex_chars \<and> hex_value (hex_digit n) = n"
  by (rule all_below_16 [of "\<lambda>n. hex_digit n \<in> set hex_chars \<and> hex_value (hex_digit n) = n"])
    (simp_all add: hex_digit_def hex_value_def hex_chars_def upt_rec)

lemma hex_value_digit: "c \<in> set hex_chars \<Longrightarrow> hex_digit (hex_value c) = c \<and> hex_value c < 16"
  by (auto simp: hex_digit_def hex_value_def hex_chars_def)

lemma parse_hex_byte: "parse_hex_byte [c, d] = of_nat (16 * hex_value c + hex_value d)"
  by (simp add: parse_hex_byte_def)

lemma parse_hex_byte_hex_byte: "parse_hex_byte (hex_byte b) = b"
proof -
  have "unat b < 256" using unsigned_less [of b, where ?'a = nat] by simp
  then have "unat b div 16 < 16" by simp
  then have "parse_hex_byte (hex_byte b) = of_nat (16 * (unat b div 16) + unat b mod 16)"
    unfolding hex_byte_def parse_hex_byte by (simp only: hex_digit_value)
  then show ?thesis by simp
qed

lemma hex_byte_parse:
  assumes "c \<in> set hex_chars" "d \<in> set hex_chars"
  shows "hex_byte (parse_hex_byte [c, d]) = [c, d]"
proof -
  have "16 * hex_value c + hex_value d < 256" using assms hex_value_digit [of c] hex_value_digit [of d] by simp
  then have "unat (of_nat (16 * hex_value c + hex_value d) :: 8 word) = 16 * hex_value c + hex_value d"
    by (simp only: unsigned_of_nat) (simp add: take_bit_eq_mod)
  then show ?thesis
    using assms hex_value_digit [of c] hex_value_digit [of d] by (simp add: parse_hex_byte hex_byte_def)
qed

lemma length_encodeHex: "length (encodeHex bytes) = 2 * length bytes"
  by (induction bytes) (simp_all add: encodeHex_def hex_byte_def)

lemma encodeHex_chars: "all_in hex_chars (encodeHex bytes)"
proof (induction bytes)
  case (Cons b bytes)
  have "unat b div 16 < 16" using unsigned_less [of b, where ?'a = nat] by simp
  then show ?case using Cons hex_digit_value by (simp add: encodeHex_def hex_byte_def)
qed (simp add: encodeHex_def)

lemma encodeHex_ok: "length bytes = 32 \<Longrightarrow> sha256_hex_ok (encodeHex bytes)"
  by (simp add: sha256_hex_ok_def length_encodeHex encodeHex_chars)

text \<open>Pairs of digits, and the bytes they stand for.\<close>

lemma encodeHex_pair: "i < length bytes \<Longrightarrow> take 2 (drop (i * 2) (encodeHex bytes)) = hex_byte (bytes ! i)"
proof (induction bytes arbitrary: i)
  case (Cons b bytes)
  then show ?case by (cases i) (simp_all add: encodeHex_def hex_byte_def)
qed simp

lemma decodeHex_encodeHex: "length bytes = 32 \<Longrightarrow> decodeHex (encodeHex bytes) = Some bytes"
  by (auto simp: decodeHex_def encodeHex_ok encodeHex_pair parse_hex_byte_hex_byte intro!: nth_equalityI)

lemma encodeHex_pairs:
  "length s = 2 * n \<Longrightarrow> all_in hex_chars s \<Longrightarrow>
   encodeHex (map (\<lambda>i. parse_hex_byte (take 2 (drop (i * 2) s))) [0..<n]) = s"
proof (induction n arbitrary: s)
  case (Suc n)
  then obtain c d t where s: "s = c # d # t" by (cases s; cases "tl s") auto
  have "encodeHex (map (\<lambda>i. parse_hex_byte (take 2 (drop (i * 2) t))) [0..<n]) = t"
    using Suc by (simp add: s)
  moreover have "[0..<Suc n] = 0 # map Suc [0..<n]" by (simp add: upt_conv_Cons map_Suc_upt del: upt_Suc)
  ultimately show ?case
    using Suc.prems by (simp add: s encodeHex_def hex_byte_parse comp_def del: upt_Suc)
qed (simp add: encodeHex_def)

lemma encodeHex_decodeHex: "decodeHex s = Some bytes \<Longrightarrow> encodeHex bytes = s \<and> length bytes = 32"
  using encodeHex_pairs [of s 32] length_encodeHex [of bytes]
  by (auto simp: decodeHex_def sha256_hex_ok_def simp del: upt_rec_numeral split: if_splits)

section \<open>Comparing\<close>

lemma word_or_zero_iff: "or a b = 0 \<longleftrightarrow> a = 0 \<and> b = 0" for a b :: "8 word"
  by (auto simp: bit_eq_iff bit_or_iff)

lemma word_xor_zero_iff: "xor a b = 0 \<longleftrightarrow> a = b" for a b :: "8 word"
  by (auto simp: bit_eq_iff bit_xor_iff)

lemma foldl_word_or_zero_iff:
  "foldl (\<lambda>d i. or d (f i)) a xs = 0 \<longleftrightarrow> a = 0 \<and> (\<forall>i \<in> set xs. f i = 0)" for a :: "8 word"
  by (induction xs arbitrary: a) (auto simp: word_or_zero_iff)

lemma timingSafeHashEqual_iff:
  "timingSafeHashEqual x y \<longleftrightarrow> sha256_hex_ok x \<and> x = y"
proof (cases "sha256_hex_ok x \<and> sha256_hex_ok y")
  case True
  then obtain a b where x: "decodeHex x = Some a" and y: "decodeHex y = Some b"
    unfolding decodeHex_def by simp
  have len: "length a = 32" "length b = 32" and enc: "encodeHex a = x" "encodeHex b = y"
    using encodeHex_decodeHex [OF x] encodeHex_decodeHex [OF y] by auto
  have "timingSafeHashEqual x y \<longleftrightarrow> (\<forall>i < 32. a ! i = b ! i)"
    unfolding timingSafeHashEqual_def x y
    by (simp add: foldl_word_or_zero_iff word_xor_zero_iff len Ball_def del: upt_rec_numeral)
  also have "\<dots> \<longleftrightarrow> a = b" unfolding list_eq_iff_nth_eq len by blast
  also have "\<dots> \<longleftrightarrow> x = y" using enc [symmetric] x y by (metis option.inject)
  finally show ?thesis using True by simp
next
  case False
  then have "decodeHex x = None \<or> decodeHex y = None" by (auto simp: decodeHex_def)
  then show ?thesis using False by (auto simp: timingSafeHashEqual_def split: option.split)
qed

section \<open>Creating a token\<close>

lemma capabilityToken_of_random: "length x = 32 \<Longrightarrow> runpodCapabilityTokenSchema (encodeBase64Url x)"
  using encodeBase64Url_ok by (simp add: runpodCapabilityTokenSchema_def opaque_handle_ok_def)

lemma created_token:
  assumes "createCapabilityToken sha256 randomBytes = Inr token"
  shows "runpodCapabilityTokenSchema (ct_raw token) \<and>
    hashCapabilityToken sha256 (ct_raw token) = Inr (ct_hash token) \<and>
    ct_hash token = encodeHex (sha256 (ct_raw token))"
  using assms
  by (auto simp: createCapabilityToken_def hashCapabilityToken_def result_simps Let_def split: if_splits)

lemma createCapabilityToken_ok:
  assumes "length (randomBytes 32) = 32"
  shows "createCapabilityToken sha256 randomBytes =
    Inr \<lparr>ct_hash = encodeHex (sha256 (encodeBase64Url (randomBytes 32))), ct_raw = encodeBase64Url (randomBytes 32)\<rparr>"
  using assms by (simp add: createCapabilityToken_def hashCapabilityToken_def capabilityToken_of_random Let_def)

end
