(* ===== verification/PlacementVerifier.thy ===== *)
theory PlacementVerifier
  imports RunpodClient
begin

text \<open>
  apps/orchestrator/src/runpod-placement-verifier.ts: before an execution is claimed, the orchestrator
  asks RunPod on which pod the job runs, and checks that pod's endpoint, image, cloud and GPU. The two
  requests go through \<open>fetch\<close>, as in RunpodClient.
  Lemmas: what a verified placement has been checked for; no placement is verified unless RunPod
  answers both requests.
\<close>

section \<open>Schemas\<close>

definition alphanumeric_chars :: string where
  "alphanumeric_chars = upper_chars @ lower_chars @ digit_chars"

text \<open>\<open>^[A-Za-z0-9_-]{1,200}$\<close>\<close>

definition resourceIdSchema :: "string \<Rightarrow> bool" where
  "resourceIdSchema s \<longleftrightarrow> 1 \<le> length s \<and> length s \<le> 200 \<and> all_in (alphanumeric_chars @ ''_-'') s"

definition apiKeySchema :: "string \<Rightarrow> bool" where
  "apiKeySchema s \<longleftrightarrow> 16 \<le> length s \<and> length s \<le> 512"

text \<open>\<open>^[A-Za-z0-9][A-Za-z0-9 ._-]*[A-Za-z0-9]$\<close>, 3 to 128 characters.\<close>

definition gpuTypeIdSchema :: "string \<Rightarrow> bool" where
  "gpuTypeIdSchema s \<longleftrightarrow>
     3 \<le> length s \<and> length s \<le> 128 \<and> hd s \<in> set alphanumeric_chars \<and>
     last s \<in> set alphanumeric_chars \<and> all_in (alphanumeric_chars @ '' ._-'') s"

text \<open>\<open>[a-z0-9]+(?:[._-][a-z0-9]+)*\<close>: separators are single and inside.\<close>

fun separators_single :: "string \<Rightarrow> bool" where
  "separators_single (c # d # s) \<longleftrightarrow>
     \<not> (c \<in> set ''._-'' \<and> d \<in> set ''._-'') \<and> separators_single (d # s)"
| "separators_single _ \<longleftrightarrow> True"

definition image_owner_ok :: "string \<Rightarrow> bool" where
  "image_owner_ok s \<longleftrightarrow>
     s \<noteq> [] \<and> hd s \<in> set (lower_chars @ digit_chars) \<and> last s \<in> set (lower_chars @ digit_chars) \<and>
     all_in (lower_chars @ digit_chars @ ''._-'') s \<and> separators_single s"

definition immutableWorkerImageSchema :: "string \<Rightarrow> bool" where
  "immutableWorkerImageSchema s \<longleftrightarrow>
     (case split_on (CHR ''/'') s of
        [host, owner, img] \<Rightarrow>
          host = ''ghcr.io'' \<and> image_owner_ok owner \<and>
          starts_with ''scribe-drop-runpod-worker@sha256:'' img \<and>
          length img = length ''scribe-drop-runpod-worker@sha256:'' + 64 \<and>
          all_in hex_chars (drop (length ''scribe-drop-runpod-worker@sha256:'') img)
      | _ \<Rightarrow> False)"

definition nullable_json :: "json_schema \<Rightarrow> json_schema" where
  "nullable_json p j \<longleftrightarrow> j = JNull \<or> p j"

definition runpodPodShape :: json_schema where
  "runpodPodShape = loose_object [
     required ''desiredStatus'' (string_enum [''RUNNING'', ''EXITED'', ''TERMINATED'']),
     required ''endpointId'' (nullable_json (string_schema_of resourceIdSchema)),
     required ''id'' (string_schema_of resourceIdSchema),
     optional ''image'' (string_schema_of immutableWorkerImageSchema),
     optional ''imageName'' (string_schema_of immutableWorkerImageSchema),
     required ''machine'' (loose_object [
       required ''gpuTypeId'' (string_schema_of gpuTypeIdSchema),
       required ''secureCloud'' any_bool])]"

record runpod_pod =
  pd_desiredStatus :: string
  pd_endpointId :: "string option"
  pd_id :: string
  pd_image :: string
  pd_gpuTypeId :: string
  pd_secureCloud :: bool

definition optional_string :: "string \<Rightarrow> json \<Rightarrow> string option" where
  "optional_string k j = (case json_field k j of Some (JStr s) \<Rightarrow> Some s | _ \<Rightarrow> None)"

text \<open>The image is named once, or twice the same.\<close>

definition pod_image :: "json \<Rightarrow> string option" where
  "pod_image j =
     (case (optional_string ''image'' j, optional_string ''imageName'' j) of
        (Some a, Some b) \<Rightarrow> if a = b then Some a else None
      | (Some a, None) \<Rightarrow> Some a
      | (None, b) \<Rightarrow> b)"

definition runpodPodResponseSchema :: "json \<Rightarrow> runpod_pod option" where
  "runpodPodResponseSchema j =
     (if \<not> runpodPodShape j then None
      else case pod_image j of
        None \<Rightarrow> None
      | Some img \<Rightarrow>
          let machine = (case json_field ''machine'' j of None \<Rightarrow> JNull | Some m \<Rightarrow> m) in
          Some \<lparr>pd_desiredStatus = string_field ''desiredStatus'' j,
            pd_endpointId = optional_string ''endpointId'' j, pd_id = string_field ''id'' j,
            pd_image = img, pd_gpuTypeId = string_field ''gpuTypeId'' machine,
            pd_secureCloud = (json_field ''secureCloud'' machine = Some (JBool True))\<rparr>)"

section \<open>The verifier\<close>

record verifier_options =
  vo_allowedGpuTypeIds :: "string list"
  vo_apiKey :: string
  vo_endpointId :: string
  vo_expectedImage :: string
  vo_timeoutMilliseconds :: "int option"

definition createRunpodPlacementVerifier :: "verifier_options \<Rightarrow> verifier_options result" where
  "createRunpodPlacementVerifier options =
     res_bind (zod_parse (\<lambda>v. resourceIdSchema (vo_endpointId v) \<and>
         immutableWorkerImageSchema (vo_expectedImage v) \<and> apiKeySchema (vo_apiKey v) \<and>
         1 \<le> length (vo_allowedGpuTypeIds v) \<and> length (vo_allowedGpuTypeIds v) \<le> 3 \<and>
         list_all gpuTypeIdSchema (vo_allowedGpuTypeIds v)) options) (\<lambda>options.
     if length (remdups (vo_allowedGpuTypeIds options)) \<noteq> length (vo_allowedGpuTypeIds options)
     then Inl (JsError ''RunPod placement GPU type IDs must be unique'')
     else zod_parse (\<lambda>v. case vo_timeoutMilliseconds v of
         None \<Rightarrow> True | Some t \<Rightarrow> 100 \<le> t \<and> t \<le> 30000) options)"

datatype placement_result = Placement_verified | Placement_rejected | Placement_unavailable

definition fetchJson ::
  "runpod_client \<Rightarrow> runpod_fetch \<Rightarrow> string \<Rightarrow> json option" where
  "fetchJson c fetch url =
     (case fetch \<lparr>rh_method = ''GET'', rh_url = url, rh_headers = client_headers c, rh_body = None\<rparr> of
        None \<Rightarrow> None
      | Some r \<Rightarrow> if \<not> rp_ok r then None else readBoundedJson (rc_decode c) (rc_parse_json c) r)"

definition workerIdFromStatus :: "json \<Rightarrow> string \<Rightarrow> string option" where
  "workerIdFromStatus j expectedJobId =
     (case runpodPlacementStatusResponseSchema j of
        Inl _ \<Rightarrow> None
      | Inr s \<Rightarrow>
          if pl_id s \<noteq> expectedJobId \<or> pl_status s \<noteq> ''IN_PROGRESS'' then None
          else (case pl_workerId s of
                  None \<Rightarrow> None
                | Some w \<Rightarrow> if resourceIdSchema w then Some w else None))"

definition placementMatches :: "verifier_options \<Rightarrow> string \<Rightarrow> json \<Rightarrow> bool option" where
  "placementMatches options workerId j =
     map_option (\<lambda>pod.
         pd_id pod = workerId \<and> pd_endpointId pod = Some (vo_endpointId options) \<and>
         pd_desiredStatus pod = ''RUNNING'' \<and> pd_image pod = vo_expectedImage options \<and>
         pd_secureCloud pod \<and> pd_gpuTypeId pod \<in> set (vo_allowedGpuTypeIds options))
       (runpodPodResponseSchema j)"

definition pod_url :: "string \<Rightarrow> string" where
  "pod_url workerId = ''https://rest.runpod.io/v1/pods/'' @ encode_uri_component workerId
     @ ''?includeMachine=true&includeWorkers=true''"

text \<open>The API key and the endpoint of the options, with the parsers of RunpodClient.\<close>

definition verifier_client ::
  "verifier_options \<Rightarrow> (string \<Rightarrow> string option) \<Rightarrow> (string \<Rightarrow> json option) \<Rightarrow> runpod_client" where
  "verifier_client options decode parse_json =
     \<lparr>rc_apiKey = vo_apiKey options, rc_endpointId = vo_endpointId options, rc_decode = decode,
      rc_parse_json = parse_json\<rparr>"

definition verify_placement ::
  "verifier_options \<Rightarrow> (string \<Rightarrow> string option) \<Rightarrow> (string \<Rightarrow> json option) \<Rightarrow> runpod_fetch \<Rightarrow> string \<Rightarrow>
   placement_result" where
  "verify_placement options decode parse_json fetch runpodJobId =
     (let c = verifier_client options decode parse_json in
      if \<not> resourceIdSchema runpodJobId then Placement_rejected
      else case fetchJson c fetch (job_url c runpodJobId ''status'') of
        None \<Rightarrow> Placement_unavailable
      | Some status \<Rightarrow>
          if \<not> runpodStatusWireResponseSchema status then Placement_unavailable
          else case workerIdFromStatus status runpodJobId of
            None \<Rightarrow> Placement_rejected
          | Some workerId \<Rightarrow>
              (case fetchJson c fetch (pod_url workerId) of
                 None \<Rightarrow> Placement_unavailable
               | Some pod \<Rightarrow>
                   (case placementMatches options workerId pod of
                      None \<Rightarrow> Placement_unavailable
                    | Some True \<Rightarrow> Placement_verified
                    | Some False \<Rightarrow> Placement_rejected)))"

section \<open>What a verified placement is\<close>

lemma verified_placement:
  assumes "verify_placement options decode parse_json fetch runpodJobId = Placement_verified"
    and "c = verifier_client options decode parse_json"
  obtains status workerId pod where
    "fetchJson c fetch (job_url c runpodJobId ''status'') = Some status"
    "string_field ''id'' status = runpodJobId" "string_field ''status'' status = ''IN_PROGRESS''"
    "optional_string ''workerId'' status = Some workerId"
    "Option.bind (fetchJson c fetch (pod_url workerId)) runpodPodResponseSchema = Some pod"
    "pd_id pod = workerId" "pd_endpointId pod = Some (vo_endpointId options)"
    "pd_desiredStatus pod = ''RUNNING''" "pd_image pod = vo_expectedImage options" "pd_secureCloud pod"
    "pd_gpuTypeId pod \<in> set (vo_allowedGpuTypeIds options)"
proof -
  obtain status workerId pod where status: "fetchJson c fetch (job_url c runpodJobId ''status'') = Some status"
    and worker: "workerIdFromStatus status runpodJobId = Some workerId"
    and pod: "fetchJson c fetch (pod_url workerId) = Some pod"
    and matching: "placementMatches options workerId pod = Some True"
    using assms(1) unfolding verify_placement_def Let_def assms(2) [symmetric]
    by (auto split: if_splits option.splits bool.splits)
  have "string_field ''id'' status = runpodJobId" "string_field ''status'' status = ''IN_PROGRESS''"
    "optional_string ''workerId'' status = Some workerId"
    using worker by (auto simp: workerIdFromStatus_def runpodPlacementStatusResponseSchema_def
        zod_parse_def optional_string_def split: sum.splits if_splits option.splits)
  then show thesis
    using that status pod matching by (auto simp: placementMatches_def)
qed

end
