(* ===== verification/OrchestratorTask.thy ===== *)
theory OrchestratorTask
  imports CapabilityToken PlacementVerifier RunpodEffects "HOL-Library.Sublist"
begin

text \<open>
  The form of the orchestrator's asynchronous services (apps/orchestrator/src). A service is a task: a
  tree whose nodes are the calls it awaits, each with a continuation for the answer. A call reads the
  database, performs one request of JobSystem on it, asks RunPod or R2, reads the clock or draws random
  bytes. Between two calls any other requests may be performed, and the task may be stopped for good.
  Lemmas: a run of a task extends the history of the database; how a run of a composed task splits;
  what the single calls do to the history.
\<close>

section \<open>Tasks\<close>

text \<open>A command to sign: \<open>GetObjectCommand\<close> or \<open>PutObjectCommand\<close> of the AWS SDK.\<close>

datatype r2_command = Get_object_command string string | Put_object_command string string string

text \<open>An object of the R2 bucket: its size and what \<open>text()\<close> reads of it.\<close>

record r2_object =
  ro_size :: int
  ro_text :: string

datatype (dead 'a) task =
    Finish 'a
  | Raise js_error
  | Clock "int \<Rightarrow> 'a task"
  | Random nat "8 word list \<Rightarrow> 'a task"
  | Read "d1 \<Rightarrow> 'a task"
  | Write request "d1 \<Rightarrow> 'a task"
  | Submit run_request "submission_result \<Rightarrow> 'a task"
  | Ask_status string "status_result \<Rightarrow> 'a task"
  | Stop_job string "stop_result \<Rightarrow> 'a task"
  | Verify string "placement_result \<Rightarrow> 'a task"
  | Sign r2_command int "string result \<Rightarrow> 'a task"
  | Get_object string "r2_object option result \<Rightarrow> 'a task"
  | Head_artifact string "int option result \<Rightarrow> 'a task"

primrec task_bind :: "'a task \<Rightarrow> ('a \<Rightarrow> 'b task) \<Rightarrow> 'b task" where
  "task_bind (Finish x) f = f x"
| "task_bind (Raise e) f = Raise e"
| "task_bind (Clock k) f = Clock (\<lambda>x. task_bind (k x) f)"
| "task_bind (Random n k) f = Random n (\<lambda>x. task_bind (k x) f)"
| "task_bind (Read k) f = Read (\<lambda>x. task_bind (k x) f)"
| "task_bind (Write q k) f = Write q (\<lambda>x. task_bind (k x) f)"
| "task_bind (Submit q k) f = Submit q (\<lambda>x. task_bind (k x) f)"
| "task_bind (Ask_status j k) f = Ask_status j (\<lambda>x. task_bind (k x) f)"
| "task_bind (Stop_job j k) f = Stop_job j (\<lambda>x. task_bind (k x) f)"
| "task_bind (Verify j k) f = Verify j (\<lambda>x. task_bind (k x) f)"
| "task_bind (Sign c t k) f = Sign c t (\<lambda>x. task_bind (k x) f)"
| "task_bind (Get_object key k) f = Get_object key (\<lambda>x. task_bind (k x) f)"
| "task_bind (Head_artifact key k) f = Head_artifact key (\<lambda>x. task_bind (k x) f)"

definition task_result :: "'a result \<Rightarrow> 'a task" where
  "task_result r = (case r of Inl e \<Rightarrow> Raise e | Inr x \<Rightarrow> Finish x)"

lemma task_result_simps [simp]: "task_result (Inl e) = Raise e" "task_result (Inr x) = Finish x"
  by (simp_all add: task_result_def)

text \<open>A read of a repository, and an operation of one: the operation's request changes the database.\<close>

definition read_db :: "(d1 \<Rightarrow> 'a result) \<Rightarrow> 'a task" where
  "read_db f = Read (\<lambda>db. task_result (f db))"

definition write_db :: "request \<Rightarrow> 'a api \<Rightarrow> 'a task" where
  "write_db q f = Write q (\<lambda>db. task_result (fst (f db)))"

text \<open>\<open>for (const x of xs) \<dots>\<close>, with the variables the body updates.\<close>

primrec for_each :: "('b \<Rightarrow> 's \<Rightarrow> 's task) \<Rightarrow> 'b list \<Rightarrow> 's \<Rightarrow> 's task" where
  "for_each body [] s = Finish s"
| "for_each body (x # xs) s = task_bind (body x s) (for_each body xs)"

section \<open>Runs\<close>

text \<open>What a run did outside the task: its writes with the database each met, and its calls.\<close>

datatype effect =
    Wrote request d1
  | Submitted run_request submission_result
  | Asked string status_result
  | Stopped string stop_result
  | Verified string placement_result
  | Signed r2_command "string result"
  | Got string "r2_object option result"
  | Headed string "int option result"

text \<open>
  \<open>task_run t h es h' out\<close>: with the history \<open>h\<close> the task runs, has the effects \<open>es\<close> and leaves the
  history \<open>h'\<close>. \<open>out\<close> is its result, or \<open>None\<close> when it was stopped. Rule \<open>other\<close> is a request of
  somebody else.
\<close>

inductive task_run :: "'a task \<Rightarrow> d1 list \<Rightarrow> effect list \<Rightarrow> d1 list \<Rightarrow> 'a result option \<Rightarrow> bool" where
  finish: "task_run (Finish x) h [] h (Some (Inr x))"
| raise: "task_run (Raise e) h [] h (Some (Inl e))"
| stopped: "task_run t h [] h None"
| other: "task_run t (perform q r db # db # h) es h' out \<Longrightarrow> r \<in> set (db # h) \<Longrightarrow>
    task_run t (db # h) es h' out"
| clock: "task_run (k t) h es h' out \<Longrightarrow> task_run (Clock k) h es h' out"
| random: "task_run (k bytes) h es h' out \<Longrightarrow> task_run (Random n k) h es h' out"
| read: "task_run (k db) (db # h) es h' out \<Longrightarrow> task_run (Read k) (db # h) es h' out"
| written: "task_run (k db) (perform q db db # db # h) es h' out \<Longrightarrow>
    task_run (Write q k) (db # h) (Wrote q db # es) h' out"
| submit: "task_run (k x) h es h' out \<Longrightarrow> task_run (Submit q k) h (Submitted q x # es) h' out"
| status: "task_run (k x) h es h' out \<Longrightarrow> task_run (Ask_status j k) h (Asked j x # es) h' out"
| stop: "task_run (k x) h es h' out \<Longrightarrow> task_run (Stop_job j k) h (Stopped j x # es) h' out"
| verify: "task_run (k x) h es h' out \<Longrightarrow> task_run (Verify j k) h (Verified j x # es) h' out"
| sign: "task_run (k x) h es h' out \<Longrightarrow> task_run (Sign c t k) h (Signed c x # es) h' out"
| get_object: "task_run (k x) h es h' out \<Longrightarrow> task_run (Get_object key k) h (Got key x # es) h' out"
| head_artifact: "task_run (k x) h es h' out \<Longrightarrow> task_run (Head_artifact key k) h (Headed key x # es) h' out"

text \<open>A run only extends the history, and leaves a history.\<close>

lemma task_run_history:
  "task_run t h es h' out \<Longrightarrow> history h \<Longrightarrow> history h' \<and> suffix h h'"
proof (induction rule: task_run.induct)
  case (other t q r db h es h' out)
  note later = other.IH [OF history.request [OF other.prems other.hyps(2)]]
  then show ?case using suffix_ConsD [of "perform q r db" "db # h" h'] by simp
next
  case (written k db q h es h' out)
  note later = written.IH [OF history.request [OF written.prems list.set_intros(1)]]
  then show ?case using suffix_ConsD [of "perform q db db" "db # h" h'] by simp
qed simp_all

lemma history_not_empty: "history h \<Longrightarrow> \<exists>db h'. h = db # h'"
  by (induction rule: history.induct) auto

section \<open>Splitting a run\<close>

lemma run_Finish: "task_run (Finish x) h es h' out \<Longrightarrow> es = [] \<and> (out = None \<or> out = Some (Inr x))"
  by (induction "Finish x" h es h' out rule: task_run.induct) auto

lemma run_Raise: "task_run (Raise e) h es h' out \<Longrightarrow> es = [] \<and> (out = None \<or> out = Some (Inl e))"
  by (induction "Raise e :: 'a task" h es h' out rule: task_run.induct) auto

definition run_split ::
  "'a task \<Rightarrow> ('a \<Rightarrow> 'b task) \<Rightarrow> d1 list \<Rightarrow> effect list \<Rightarrow> d1 list \<Rightarrow> 'b result option \<Rightarrow> bool" where
  "run_split m f h es h' out \<longleftrightarrow>
     (\<exists>x es1 h1 es2. task_run m h es1 h1 (Some (Inr x)) \<and> task_run (f x) h1 es2 h' out \<and> es = es1 @ es2) \<or>
     (\<exists>e. out = Some (Inl e) \<and> task_run m h es h' (Some (Inl e))) \<or>
     (out = None \<and> task_run m h es h' None)"

lemma run_split_Finish: "t = f x \<Longrightarrow> task_run t h es h' out \<Longrightarrow> run_split (Finish x) f h es h' out"
  unfolding run_split_def using task_run.finish by fastforce

lemma run_split_Raise: "run_split (Raise e) f h [] h (Some (Inl e))"
  unfolding run_split_def using task_run.raise by blast

lemma run_split_stopped: "run_split m f h [] h None"
  unfolding run_split_def using task_run.stopped by blast

text \<open>A step before a split run is a step before its first part.\<close>

lemma run_split_step:
  assumes "run_split m f h es h' out"
    and "\<And>es h' out. task_run m h es h' out \<Longrightarrow> task_run n g (pre @ es) h' out"
  shows "run_split n f g (pre @ es) h' out"
proof -
  consider x es1 h1 es2 where "task_run m h es1 h1 (Some (Inr x))" "task_run (f x) h1 es2 h' out" "es = es1 @ es2"
    | e where "out = Some (Inl e)" "task_run m h es h' (Some (Inl e))"
    | "out = None" "task_run m h es h' None"
    using assms(1) unfolding run_split_def by blast
  then show ?thesis
  proof cases
    case 1
    then show ?thesis using assms(2) [OF 1(1)] unfolding run_split_def
      by (metis append.assoc)
  next
    case 2
    then show ?thesis using assms(2) [OF 2(2)] unfolding run_split_def by blast
  next
    case 3
    then show ?thesis using assms(2) [OF 3(2)] unfolding run_split_def by blast
  qed
qed

lemmas run_split_silent = run_split_step [where pre = "[]", simplified]
lemmas run_split_effect = run_split_step [where pre = "[e]" for e, simplified]

lemma run_split_intros:
  "run_split (k1 t) f h es h' out \<Longrightarrow> run_split (Clock k1) f h es h' out"
  "run_split (k2 bytes) f h es h' out \<Longrightarrow> run_split (Random n k2) f h es h' out"
  "run_split (k3 db) f (db # h) es h' out \<Longrightarrow> run_split (Read k3) f (db # h) es h' out"
  by (erule run_split_silent, rule task_run.intros, assumption)+

lemma run_split_effects:
  "run_split (k1 db) f (perform q db db # db # h) es h' out \<Longrightarrow>
   run_split (Write q k1) f (db # h) (Wrote q db # es) h' out"
  "run_split (k2 x) f h es h' out \<Longrightarrow> run_split (Submit p k2) f h (Submitted p x # es) h' out"
  "run_split (k3 y) f h es h' out \<Longrightarrow> run_split (Ask_status j k3) f h (Asked j y # es) h' out"
  "run_split (k4 z) f h es h' out \<Longrightarrow> run_split (Stop_job j k4) f h (Stopped j z # es) h' out"
  "run_split (k5 u) f h es h' out \<Longrightarrow> run_split (Verify j k5) f h (Verified j u # es) h' out"
  "run_split (k6 v) f h es h' out \<Longrightarrow> run_split (Sign c t k6) f h (Signed c v # es) h' out"
  "run_split (k7 a) f h es h' out \<Longrightarrow> run_split (Get_object key k7) f h (Got key a # es) h' out"
  "run_split (k8 b) f h es h' out \<Longrightarrow> run_split (Head_artifact key k8) f h (Headed key b # es) h' out"
  by (erule run_split_effect, rule task_run.intros, assumption)+

lemma run_bind: "task_run (task_bind m f) h es h' out \<Longrightarrow> run_split m f h es h' out"
proof (induction "task_bind m f" h es h' out arbitrary: m rule: task_run.induct)
  case (other q r db h es h' out)
  show ?case
    by (rule run_split_silent [OF other.hyps(2)]) (rule refl, erule task_run.other, rule other.hyps(3))
next
  case (finish x h)
  then show ?case by (cases m) (auto intro: run_split_Finish task_run.finish)
next
  case (stopped h)
  then show ?case by (rule run_split_stopped)
next
  case (raise e h)
  then show ?case by (cases m) (auto intro: run_split_Finish task_run.raise run_split_Raise)
next
  case clock
  then show ?case by (cases m) (auto intro: run_split_Finish task_run.clock run_split_intros(1))
next
  case random
  then show ?case by (cases m) (auto intro: run_split_Finish task_run.random run_split_intros(2))
next
  case read
  then show ?case by (cases m) (auto intro: run_split_Finish task_run.read run_split_intros(3))
next
  case get_object
  then show ?case by (cases m) (auto intro: run_split_Finish task_run.get_object run_split_effects(7))
next
  case head_artifact
  then show ?case by (cases m) (auto intro: run_split_Finish task_run.head_artifact run_split_effects(8))
next
  case written
  then show ?case by (cases m) (auto intro: run_split_Finish task_run.written run_split_effects(1))
next
  case submit
  then show ?case by (cases m) (auto intro: run_split_Finish task_run.submit run_split_effects(2))
next
  case status
  then show ?case by (cases m) (auto intro: run_split_Finish task_run.status run_split_effects(3))
next
  case stop
  then show ?case by (cases m) (auto intro: run_split_Finish task_run.stop run_split_effects(4))
next
  case verify
  then show ?case by (cases m) (auto intro: run_split_Finish task_run.verify run_split_effects(5))
next
  case sign
  then show ?case by (cases m) (auto intro: run_split_Finish task_run.sign run_split_effects(6))
qed

section \<open>The first call of a run\<close>

text \<open>
  What a run that starts with a call does, after the requests of others: it is stopped before the call,
  or the call is answered and the run goes on.
\<close>

lemma later_start: "suffix (perform q r db # db # h) g \<Longrightarrow> suffix (db # h) g"
  by (rule suffix_ConsD)

lemma run_Clock:
  assumes "task_run (Clock k) h es h' out" "history h"
  obtains "es = []" "out = None"
    | t g where "history g" "suffix h g" "task_run (k t) g es h' out"
  using assms
proof (induction "Clock k" h es h' out rule: task_run.induct)
  case (other q r db h es h' out)
  show ?case
    by (rule other.hyps(2) [OF other.prems(1)])
      (assumption | erule other.prems(2), erule later_start | rule history.request [OF other.prems(3) other.hyps(3)])+
qed auto

lemma run_Random:
  assumes "task_run (Random n k) h es h' out" "history h"
  obtains "es = []" "out = None"
    | bytes g where "history g" "suffix h g" "task_run (k bytes) g es h' out"
  using assms
proof (induction "Random n k" h es h' out rule: task_run.induct)
  case (other q r db h es h' out)
  show ?case
    by (rule other.hyps(2) [OF other.prems(1)])
      (assumption | erule other.prems(2), erule later_start | rule history.request [OF other.prems(3) other.hyps(3)])+
qed auto

lemma run_Read:
  assumes "task_run (Read k) h es h' out" "history h"
  obtains "es = []" "out = None"
    | db g where "history (db # g)" "suffix h (db # g)" "task_run (k db) (db # g) es h' out"
  using assms
proof (induction "Read k" h es h' out rule: task_run.induct)
  case (other q r db h es h' out)
  show ?case
    by (rule other.hyps(2) [OF other.prems(1)])
      (assumption | erule other.prems(2), erule later_start | rule history.request [OF other.prems(3) other.hyps(3)])+
qed auto

lemma run_Write:
  assumes "task_run (Write q k) h es h' out" "history h"
  obtains "es = []" "out = None"
    | db g es' where "history (db # g)" "suffix h (db # g)" "es = Wrote q db # es'"
      "history (perform q db db # db # g)" "task_run (k db) (perform q db db # db # g) es' h' out"
  using assms
proof (induction "Write q k" h es h' out rule: task_run.induct)
  case (other q r db h es h' out)
  show ?case
    by (rule other.hyps(2) [OF other.prems(1)])
      (assumption | erule other.prems(2), erule later_start | rule history.request [OF other.prems(3) other.hyps(3)])+
next
  case (written db h es h' out)
  then show ?case using history.request [OF written.prems(3) list.set_intros(1)] by blast
qed auto

lemma run_Submit:
  assumes "task_run (Submit q k) h es h' out" "history h"
  obtains "es = []" "out = None"
    | x g es' where "history g" "suffix h g" "es = Submitted q x # es'" "task_run (k x) g es' h' out"
  using assms
proof (induction "Submit q k" h es h' out rule: task_run.induct)
  case (other q r db h es h' out)
  show ?case
    by (rule other.hyps(2) [OF other.prems(1)])
      (assumption | erule other.prems(2), erule later_start | rule history.request [OF other.prems(3) other.hyps(3)])+
qed auto

lemma run_Verify:
  assumes "task_run (Verify j k) h es h' out" "history h"
  obtains "es = []" "out = None"
    | x g es' where "history g" "suffix h g" "es = Verified j x # es'" "task_run (k x) g es' h' out"
  using assms
proof (induction "Verify j k" h es h' out rule: task_run.induct)
  case (other q r db h es h' out)
  show ?case
    by (rule other.hyps(2) [OF other.prems(1)])
      (assumption | erule other.prems(2), erule later_start | rule history.request [OF other.prems(3) other.hyps(3)])+
qed auto

text \<open>A read or an operation of a repository, whose error the task raises.\<close>

definition no_result :: "'a result option \<Rightarrow> bool" where
  "no_result out \<longleftrightarrow> (\<forall>x. out \<noteq> Some (Inr x))"

lemma no_result_simps [simp]: "no_result None" "no_result (Some (Inl e))" "\<not> no_result (Some (Inr x))"
  by (simp_all add: no_result_def)

lemma run_task_result:
  assumes "task_run (task_bind (task_result r) f) h es h' out"
  obtains "es = []" "no_result out" | x where "r = Inr x" "task_run (f x) h es h' out"
  using assms run_Raise by (cases r) fastforce+

lemma run_read_db:
  assumes "task_run (task_bind (read_db f) g) h es h' out" "history h"
  obtains "es = []" "no_result out"
    | db h1 x where "history (db # h1)" "suffix h (db # h1)" "f db = Inr x"
      "task_run (g x) (db # h1) es h' out"
proof -
  have "task_run (Read (\<lambda>db. task_bind (task_result (f db)) g)) h es h' out"
    using assms(1) by (simp add: read_db_def)
  then consider "es = []" "out = None"
    | db h1 where "history (db # h1)" "suffix h (db # h1)"
      "task_run (task_bind (task_result (f db)) g) (db # h1) es h' out"
    using run_Read assms(2) by blast
  then show thesis
  proof cases
    case (2 db h1)
    then show thesis using that run_task_result by metis
  qed (use that in simp)
qed

lemma run_write_db:
  assumes "task_run (task_bind (write_db q f) g) h es h' out" "history h"
  obtains "es = []" "no_result out"
    | db e h1 where "history (db # h1)" "es = [Wrote q db]" "fst (f db) = Inl e" "no_result out"
    | db h1 x es' where "history (db # h1)" "suffix h (db # h1)" "fst (f db) = Inr x" "es = Wrote q db # es'"
      "history (perform q db db # db # h1)" "task_run (g x) (perform q db db # db # h1) es' h' out"
proof -
  have "task_run (Write q (\<lambda>db. task_bind (task_result (fst (f db))) g)) h es h' out"
    using assms(1) by (simp add: write_db_def)
  then consider "es = []" "out = None"
    | db h1 es' where "history (db # h1)" "suffix h (db # h1)" "es = Wrote q db # es'"
      "history (perform q db db # db # h1)"
      "task_run (task_bind (task_result (fst (f db))) g) (perform q db db # db # h1) es' h' out"
    using run_Write assms(2) by blast
  then show thesis
  proof cases
    case (2 db h1 es')
    then show thesis using that run_Raise by (cases "fst (f db)") fastforce+
  qed (use that in simp)
qed

text \<open>The same for a run that has a result.\<close>

lemma ok_Clock:
  assumes "task_run (Clock k) h es h' (Some (Inr y))" "history h"
  obtains t g where "history g" "suffix h g" "task_run (k t) g es h' (Some (Inr y))"
  using assms by (cases rule: run_Clock) auto

lemma ok_Random:
  assumes "task_run (Random n k) h es h' (Some (Inr y))" "history h"
  obtains bytes g where "history g" "suffix h g" "task_run (k bytes) g es h' (Some (Inr y))"
  using assms by (cases rule: run_Random) auto

lemma ok_Verify:
  assumes "task_run (Verify j k) h es h' (Some (Inr y))" "history h"
  obtains x g es' where "history g" "suffix h g" "es = Verified j x # es'"
    "task_run (k x) g es' h' (Some (Inr y))"
  using assms by (cases rule: run_Verify) auto

lemma ok_task_result:
  assumes "task_run (task_bind (task_result r) f) h es h' (Some (Inr y))"
  obtains x where "r = Inr x" "task_run (f x) h es h' (Some (Inr y))"
  using assms by (cases rule: run_task_result) auto

lemma ok_read_db:
  assumes "task_run (task_bind (read_db f) g) h es h' (Some (Inr y))" "history h"
  obtains db h1 x where "history (db # h1)" "suffix h (db # h1)" "f db = Inr x"
    "task_run (g x) (db # h1) es h' (Some (Inr y))"
  using assms by (cases rule: run_read_db) auto

lemma ok_write_db:
  assumes "task_run (task_bind (write_db q f) g) h es h' (Some (Inr y))" "history h"
  obtains db h1 x es' where "history (db # h1)" "suffix h (db # h1)" "fst (f db) = Inr x" "es = Wrote q db # es'"
    "history (perform q db db # db # h1)" "task_run (g x) (perform q db db # db # h1) es' h' (Some (Inr y))"
  using assms by (cases rule: run_write_db) auto

text \<open>What a stored database says holds of every later one, if every request keeps it.\<close>

lemma run_later:
  assumes "task_run t h es h' out" "history h" "db \<in> set h"
  obtains new g where "h' = new # g" "history h'" "db \<in> set h'" "evolves db new"
proof -
  have h': "history h'" "suffix h h'" using task_run_history [OF assms(1,2)] by auto
  then obtain new g where new: "h' = new # g" using history_not_empty by blast
  have "db \<in> set h'" using h'(2) assms(3) set_mono_suffix by blast
  then show thesis using that h'(1) history_later(2) new by metis
qed

section \<open>The calls a task can make\<close>

text \<open>Over all answers it may get.\<close>

datatype call =
    Writes request | Submits run_request | Asks string | Stops string | Verifies string | Signs r2_command
  | Gets string | Heads string

fun effect_call :: "effect \<Rightarrow> call" where
  "effect_call (Wrote q db) = Writes q"
| "effect_call (Submitted q x) = Submits q"
| "effect_call (Asked j x) = Asks j"
| "effect_call (Stopped j x) = Stops j"
| "effect_call (Verified j x) = Verifies j"
| "effect_call (Signed c x) = Signs c"
| "effect_call (Got key x) = Gets key"
| "effect_call (Headed key x) = Heads key"

primrec may_call :: "'a task \<Rightarrow> call set" where
  "may_call (Finish x) = {}"
| "may_call (Raise e) = {}"
| "may_call (Clock k) = (\<Union>x. may_call (k x))"
| "may_call (Random n k) = (\<Union>x. may_call (k x))"
| "may_call (Read k) = (\<Union>x. may_call (k x))"
| "may_call (Write q k) = insert (Writes q) (\<Union>x. may_call (k x))"
| "may_call (Submit q k) = insert (Submits q) (\<Union>x. may_call (k x))"
| "may_call (Ask_status j k) = insert (Asks j) (\<Union>x. may_call (k x))"
| "may_call (Stop_job j k) = insert (Stops j) (\<Union>x. may_call (k x))"
| "may_call (Verify j k) = insert (Verifies j) (\<Union>x. may_call (k x))"
| "may_call (Sign c t k) = insert (Signs c) (\<Union>x. may_call (k x))"
| "may_call (Get_object key k) = insert (Gets key) (\<Union>x. may_call (k x))"
| "may_call (Head_artifact key k) = insert (Heads key) (\<Union>x. may_call (k x))"

lemma effects_may_call: "task_run t h es h' out \<Longrightarrow> e \<in> set es \<Longrightarrow> effect_call e \<in> may_call t"
  by (induction rule: task_run.induct) auto

text \<open>What a task may return, over all answers.\<close>

primrec task_outcomes :: "'a task \<Rightarrow> 'a set" where
  "task_outcomes (Finish x) = {x}"
| "task_outcomes (Raise e) = {}"
| "task_outcomes (Clock k) = (\<Union>x. task_outcomes (k x))"
| "task_outcomes (Random n k) = (\<Union>x. task_outcomes (k x))"
| "task_outcomes (Read k) = (\<Union>x. task_outcomes (k x))"
| "task_outcomes (Write q k) = (\<Union>x. task_outcomes (k x))"
| "task_outcomes (Submit q k) = (\<Union>x. task_outcomes (k x))"
| "task_outcomes (Ask_status j k) = (\<Union>x. task_outcomes (k x))"
| "task_outcomes (Stop_job j k) = (\<Union>x. task_outcomes (k x))"
| "task_outcomes (Verify j k) = (\<Union>x. task_outcomes (k x))"
| "task_outcomes (Sign c t k) = (\<Union>x. task_outcomes (k x))"
| "task_outcomes (Get_object key k) = (\<Union>x. task_outcomes (k x))"
| "task_outcomes (Head_artifact key k) = (\<Union>x. task_outcomes (k x))"

lemma result_outcome: "task_run t h es h' (Some (Inr x)) \<Longrightarrow> x \<in> task_outcomes t"
  by (induction t h es h' "Some (Inr x) :: 'a result option" rule: task_run.induct) auto

lemma task_outcomes_bind [simp]:
  "task_outcomes (task_bind m f) = (\<Union>x \<in> task_outcomes m. task_outcomes (f x))"
  by (induction m) auto

lemma may_call_bind [simp]:
  "may_call (task_bind m f) = may_call m \<union> (\<Union>x \<in> task_outcomes m. may_call (f x))"
  by (induction m) auto

lemma may_call_task_result [simp]: "may_call (task_result r) = {}"
  by (cases r) simp_all

lemma task_outcomes_task_result [simp]: "x \<in> task_outcomes (task_result r) \<longleftrightarrow> r = Inr x"
  by (cases r) auto

lemma may_call_read_db [simp]: "may_call (read_db f) = {}"
  by (simp add: read_db_def)

lemma may_call_write_db [simp]: "may_call (write_db q f) = {Writes q}"
  by (simp add: write_db_def)

section \<open>Running a task alone\<close>

text \<open>
  A run without other requests, in a world that answers every call: it is a function. The clock stands
  still.
\<close>

record world =
  wd_now :: int
  wd_random :: "nat \<Rightarrow> 8 word list"
  wd_submit :: "run_request \<Rightarrow> submission_result"
  wd_status :: "string \<Rightarrow> status_result"
  wd_stop :: "string \<Rightarrow> stop_result"
  wd_verify :: "string \<Rightarrow> placement_result"
  wd_sign :: "r2_command \<Rightarrow> int \<Rightarrow> string result"
  wd_object :: "string \<Rightarrow> r2_object option result"
  wd_head :: "string \<Rightarrow> int option result"

primrec run_alone :: "world \<Rightarrow> 'a task \<Rightarrow> d1 \<Rightarrow> 'a result \<times> d1" where
  "run_alone w (Finish x) db = (Inr x, db)"
| "run_alone w (Raise e) db = (Inl e, db)"
| "run_alone w (Clock k) db = run_alone w (k (wd_now w)) db"
| "run_alone w (Random n k) db = run_alone w (k (wd_random w n)) db"
| "run_alone w (Read k) db = run_alone w (k db) db"
| "run_alone w (Write q k) db = run_alone w (k db) (perform q db db)"
| "run_alone w (Submit q k) db = run_alone w (k (wd_submit w q)) db"
| "run_alone w (Ask_status j k) db = run_alone w (k (wd_status w j)) db"
| "run_alone w (Stop_job j k) db = run_alone w (k (wd_stop w j)) db"
| "run_alone w (Verify j k) db = run_alone w (k (wd_verify w j)) db"
| "run_alone w (Sign c t k) db = run_alone w (k (wd_sign w c t)) db"
| "run_alone w (Get_object key k) db = run_alone w (k (wd_object w key)) db"
| "run_alone w (Head_artifact key k) db = run_alone w (k (wd_head w key)) db"

lemma alone_bind:
  "run_alone w (task_bind m f) db =
     (case run_alone w m db of (Inl e, db') \<Rightarrow> (Inl e, db') | (Inr x, db') \<Rightarrow> run_alone w (f x) db')"
  by (induction m arbitrary: db) simp_all

lemma alone_task_result [simp]: "run_alone w (task_result r) db = (r, db)"
  by (cases r) simp_all

lemma alone_read_db [simp]: "run_alone w (read_db f) db = (f db, db)"
  by (simp add: read_db_def)

lemma alone_write_db [simp]: "run_alone w (write_db q f) db = (fst (f db), perform q db db)"
  by (simp add: write_db_def)

text \<open>The effects of running alone.\<close>

primrec alone_effects :: "world \<Rightarrow> 'a task \<Rightarrow> d1 \<Rightarrow> effect list" where
  "alone_effects w (Finish x) db = []"
| "alone_effects w (Raise e) db = []"
| "alone_effects w (Clock k) db = alone_effects w (k (wd_now w)) db"
| "alone_effects w (Random n k) db = alone_effects w (k (wd_random w n)) db"
| "alone_effects w (Read k) db = alone_effects w (k db) db"
| "alone_effects w (Write q k) db = Wrote q db # alone_effects w (k db) (perform q db db)"
| "alone_effects w (Submit q k) db = Submitted q (wd_submit w q) # alone_effects w (k (wd_submit w q)) db"
| "alone_effects w (Ask_status j k) db = Asked j (wd_status w j) # alone_effects w (k (wd_status w j)) db"
| "alone_effects w (Stop_job j k) db = Stopped j (wd_stop w j) # alone_effects w (k (wd_stop w j)) db"
| "alone_effects w (Verify j k) db = Verified j (wd_verify w j) # alone_effects w (k (wd_verify w j)) db"
| "alone_effects w (Sign c t k) db = Signed c (wd_sign w c t) # alone_effects w (k (wd_sign w c t)) db"
| "alone_effects w (Get_object key k) db = Got key (wd_object w key) # alone_effects w (k (wd_object w key)) db"
| "alone_effects w (Head_artifact key k) db = Headed key (wd_head w key) # alone_effects w (k (wd_head w key)) db"

lemma alone_effects_bind:
  "alone_effects w (task_bind m f) db = alone_effects w m db @
     (case run_alone w m db of (Inl e, db') \<Rightarrow> [] | (Inr x, db') \<Rightarrow> alone_effects w (f x) db')"
  by (induction m arbitrary: db) simp_all

lemma alone_effects_task_result [simp]: "alone_effects w (task_result r) db = []"
  by (cases r) simp_all

lemma alone_effects_read_db [simp]: "alone_effects w (read_db f) db = []"
  by (simp add: read_db_def)

lemma alone_effects_write_db [simp]: "alone_effects w (write_db q f) db = [Wrote q db]"
  by (simp add: write_db_def)

text \<open>Running alone is one of the runs.\<close>

lemma alone_run:
  "\<exists>g. task_run t (db # h) (alone_effects w t db) (snd (run_alone w t db) # g) (Some (fst (run_alone w t db)))"
proof (induction t arbitrary: db h)
  case (Finish x)
  then show ?case using task_run.finish by fastforce
next
  case (Raise e)
  then show ?case using task_run.raise by fastforce
next
  case (Clock k)
  then show ?case unfolding run_alone.simps alone_effects.simps by (metis rangeI task_run.clock)
next
  case (Random n k)
  then show ?case unfolding run_alone.simps alone_effects.simps by (metis rangeI task_run.random)
next
  case (Read k)
  then show ?case unfolding run_alone.simps alone_effects.simps by (metis rangeI task_run.read)
next
  case (Write q k)
  then show ?case unfolding run_alone.simps alone_effects.simps by (metis rangeI task_run.written)
next
  case (Submit q k)
  then show ?case unfolding run_alone.simps alone_effects.simps by (metis rangeI task_run.submit)
next
  case (Ask_status j k)
  then show ?case unfolding run_alone.simps alone_effects.simps by (metis rangeI task_run.status)
next
  case (Stop_job j k)
  then show ?case unfolding run_alone.simps alone_effects.simps by (metis rangeI task_run.stop)
next
  case (Verify j k)
  then show ?case unfolding run_alone.simps alone_effects.simps by (metis rangeI task_run.verify)
next
  case (Sign c t k)
  then show ?case unfolding run_alone.simps alone_effects.simps by (metis rangeI task_run.sign)
next
  case (Get_object key k)
  then show ?case unfolding run_alone.simps alone_effects.simps by (metis rangeI task_run.get_object)
next
  case (Head_artifact key k)
  then show ?case unfolding run_alone.simps alone_effects.simps by (metis rangeI task_run.head_artifact)
qed

lemma alone_is_run:
  "\<exists>es g. task_run t (db # h) es (snd (run_alone w t db) # g) (Some (fst (run_alone w t db)))"
  using alone_run by blast

end
