(* ===== verification/RunpodServices.thy ===== *)
theory RunpodServices
  imports OrchestratorTask
begin

text \<open>
  The orchestrator's RunPod services as tasks: apps/orchestrator/src/runpod-submission-service.ts
  (\<open>submitPendingRunpodJob\<close>), runpod-claim-service.ts (\<open>claimRunpodExecution\<close>, \<open>recordRunpodHeartbeat\<close>),
  and r2-capability-issuer.ts. Log records are left out. ServiceRuns and ServiceGrants hold the lemmas.
\<close>

section \<open>Submissions\<close>

definition CLAIM_TOKEN_TTL_MS :: int where
  "CLAIM_TOKEN_TTL_MS = 15 * 60 * 1000"

datatype dispatch_result = Dispatch_accepted | Dispatch_deferred | Dispatch_rejected | Dispatch_unknown

definition not_persisted :: js_error where
  "not_persisted = JsError ''Submission outcome could not be persisted''"

definition mark_unknown :: "prepared_submission \<Rightarrow> string \<Rightarrow> dispatch_result task" where
  "mark_unknown p finishedTimestamp =
     task_bind (write_db (Lose_submission (ps_attemptId p) finishedTimestamp)
         (recordSubmissionUnknown (ps_attemptId p) finishedTimestamp)) (\<lambda>recorded.
       if \<not> recorded then Raise not_persisted else Finish Dispatch_unknown)"

definition record_outcome ::
  "prepared_submission \<Rightarrow> submission_result \<Rightarrow> int \<Rightarrow> dispatch_result task" where
  "record_outcome p result finishedAt =
     (let attemptId = ps_attemptId p; finishedTimestamp = to_iso finishedAt in
      case result of
        Submission_accepted runpodJobId \<Rightarrow>
          task_bind (write_db (Accept_submission attemptId runpodJobId finishedTimestamp)
              (recordSubmissionAccepted attemptId runpodJobId finishedTimestamp)) (\<lambda>recorded.
            if recorded then Finish Dispatch_accepted else mark_unknown p finishedTimestamp)
      | Submission_unknown _ \<Rightarrow> mark_unknown p finishedTimestamp
      | Submission_rejected \<Rightarrow>
          Random ULID_RANDOM_BYTES (\<lambda>bytes.
          task_bind (task_result (createUlid (Some finishedAt) (\<lambda>_. bytes))) (\<lambda>eventId.
          task_bind (write_db (Reject_submission attemptId eventId (ps_jobId p) finishedTimestamp)
              (recordSubmissionRejected attemptId eventId (ps_jobId p) finishedTimestamp)) (\<lambda>recorded.
            if \<not> recorded then Raise not_persisted else Finish Dispatch_rejected))))"

definition run_request_of :: "prepared_submission \<Rightarrow> capability_token \<Rightarrow> run_request" where
  "run_request_of p claim =
     \<lparr>rn_attemptId = ps_attemptId p, rn_claimToken = ct_raw claim, rn_jobId = ps_jobId p\<rparr>"

text \<open>\<open>sha256\<close> is \<open>crypto.subtle.digest\<close>.\<close>

definition submitPendingRunpodJob ::
  "(string \<Rightarrow> 8 word list) \<Rightarrow> string \<Rightarrow> dispatch_result task" where
  "submitPendingRunpodJob sha256 jobId =
     Clock (\<lambda>startedAt.
     Random 32 (\<lambda>bytes.
     task_bind (task_result (createCapabilityToken sha256 (\<lambda>_. bytes))) (\<lambda>claim.
     let timestamp = to_iso startedAt; claimExpiresAt = to_iso (startedAt + CLAIM_TOKEN_TTL_MS) in
     task_bind (write_db (Prepare_submission jobId (ct_hash claim) timestamp claimExpiresAt)
         (prepareSubmission jobId (ct_hash claim) timestamp claimExpiresAt)) (\<lambda>prepared.
     case prepared of
       None \<Rightarrow> Finish Dispatch_deferred
     | Some p \<Rightarrow>
         task_bind (task_result (zod_parse (\<lambda>q. runpodRunRequestSchema (run_request_json q))
             (run_request_of p claim))) (\<lambda>q.
         Submit q (\<lambda>result. Clock (\<lambda>finishedAt. record_outcome p result finishedAt)))))))"

section \<open>Capabilities to read the source and write the results\<close>

record capability_request =
  cq_resultPrefix :: string
  cq_sourceBucket :: string
  cq_sourceKey :: string

definition r2CapabilityRequestSchema :: "capability_request \<Rightarrow> bool" where
  "r2CapabilityRequestSchema q \<longleftrightarrow>
     1 \<le> length (cq_resultPrefix q) \<and> length (cq_resultPrefix q) \<le> 900 \<and>
     starts_with ''results/'' (cq_resultPrefix q) \<and> ends_with ''/'' (cq_resultPrefix q) \<and>
     3 \<le> length (cq_sourceBucket q) \<and> length (cq_sourceBucket q) \<le> 63 \<and>
     1 \<le> length (cq_sourceKey q) \<and> length (cq_sourceKey q) \<le> 1024 \<and>
     starts_with ''incoming/'' (cq_sourceKey q)"

record capability_urls =
  cu_expiresAt :: string
  cu_jsonPutUrl :: string
  cu_manifestPutUrl :: string
  cu_markdownPutUrl :: string
  cu_sourceGetUrl :: string
  cu_srtPutUrl :: string

text \<open>\<open>url_ok\<close> stands for \<open>z.url()\<close>.\<close>

definition httpsUrlSchema :: "(string \<Rightarrow> bool) \<Rightarrow> string \<Rightarrow> bool" where
  "httpsUrlSchema url_ok s \<longleftrightarrow> url_ok s \<and> starts_with ''https://'' s"

definition sign_url :: "r2_command \<Rightarrow> int \<Rightarrow> string task" where
  "sign_url command signingDate = Sign command signingDate task_result"

definition issue_capabilities :: "(string \<Rightarrow> bool) \<Rightarrow> capability_request \<Rightarrow> capability_urls task" where
  "issue_capabilities url_ok untrusted =
     task_bind (task_result (zod_parse r2CapabilityRequestSchema untrusted)) (\<lambda>request.
     Clock (\<lambda>signingDate.
     let put = (\<lambda>filename. Put_object_command (cq_sourceBucket request) ''no-store''
           (cq_resultPrefix request @ filename)) in
     task_bind (sign_url (Get_object_command (cq_sourceBucket request) (cq_sourceKey request)) signingDate) (\<lambda>sourceGetUrl.
     task_bind (sign_url (put ''transcript.md'') signingDate) (\<lambda>markdownPutUrl.
     task_bind (sign_url (put ''transcript.json'') signingDate) (\<lambda>jsonPutUrl.
     task_bind (sign_url (put ''transcript.srt'') signingDate) (\<lambda>srtPutUrl.
     task_bind (sign_url (put ''manifest.json'') signingDate) (\<lambda>manifestPutUrl.
     task_result (zod_parse (\<lambda>u. list_all (httpsUrlSchema url_ok)
           [cu_jsonPutUrl u, cu_manifestPutUrl u, cu_markdownPutUrl u, cu_sourceGetUrl u, cu_srtPutUrl u])
         \<lparr>cu_expiresAt = to_iso (signingDate + R2_CAPABILITY_TTL_SECONDS * 1000),
          cu_jsonPutUrl = jsonPutUrl, cu_manifestPutUrl = manifestPutUrl,
          cu_markdownPutUrl = markdownPutUrl, cu_sourceGetUrl = sourceGetUrl,
          cu_srtPutUrl = srtPutUrl\<rparr>))))))))"

section \<open>Claims\<close>

definition HEARTBEAT_TOKEN_TTL_MS :: int where
  "HEARTBEAT_TOKEN_TTL_MS = RUNPOD_JOB_TTL_MS"

record claim_request =
  cl_attemptId :: string
  cl_claimToken :: string
  cl_jobId :: string
  cl_runpodJobId :: string

record claim_response =
  ca_expiresAt :: string
  ca_heartbeatToken :: string
  ca_heartbeatUrl :: string
  ca_options :: json
  ca_jsonPutUrl :: string
  ca_manifestPutUrl :: string
  ca_markdownPutUrl :: string
  ca_srtPutUrl :: string
  ca_expectedEtag :: string
  ca_expectedSizeBytes :: nat
  ca_sourceGetUrl :: string

text \<open>The granted member of \<open>runpodClaimResponseSchema\<close>.\<close>

definition runpodClaimResponseSchema :: "(string \<Rightarrow> bool) \<Rightarrow> claim_response \<Rightarrow> bool" where
  "runpodClaimResponseSchema url_ok r \<longleftrightarrow>
     utc_datetime_ok (ca_expiresAt r) \<and> runpodCapabilityTokenSchema (ca_heartbeatToken r) \<and>
     httpsUrlSchema url_ok (ca_heartbeatUrl r) \<and> runpodExecutionOptionsSchema (ca_options r) \<and>
     list_all (httpsUrlSchema url_ok)
       [ca_jsonPutUrl r, ca_manifestPutUrl r, ca_markdownPutUrl r, ca_srtPutUrl r, ca_sourceGetUrl r] \<and>
     1 \<le> length (ca_expectedEtag r) \<and> length (ca_expectedEtag r) \<le> 512 \<and>
     0 < ca_expectedSizeBytes r \<and> ca_expectedSizeBytes r \<le> MAX_FILE_SIZE_BYTES"

datatype claim_result = Claim_granted claim_response | Claim_deduplicated | Claim_rejected

text \<open>
  The environment of the service: the hash, the placement policy, \<open>z.url()\<close>, and the URL of
  \<open>/internal/runpod/heartbeat\<close> resolved against the internal base URL.
\<close>

record claim_environment =
  ce_sha256 :: "string \<Rightarrow> 8 word list"
  ce_url_ok :: "string \<Rightarrow> bool"
  ce_heartbeatUrl :: string
  ce_placement :: verifier_options

text \<open>\<open>new Date(text).getTime() > now.getTime()\<close>.\<close>

definition expires_after :: "string \<Rightarrow> int \<Rightarrow> bool" where
  "expires_after text now \<longleftrightarrow> num_less (Some now) (date_parse text)"

definition claimContextAllowsAuthentication :: "claim_context option \<Rightarrow> string \<Rightarrow> int \<Rightarrow> bool" where
  "claimContextAllowsAuthentication context observedHash now \<longleftrightarrow>
     (let expectedHash = (case context of None \<Rightarrow> replicate 64 (CHR ''0'') | Some c \<Rightarrow> cn_claimTokenHash c);
          hashMatches = timingSafeHashEqual expectedHash observedHash
      in case context of
           None \<Rightarrow> False
         | Some c \<Rightarrow> hashMatches \<and> cn_activeAttemptId c = cn_attemptId c \<and>
             expires_after (cn_claimExpiresAt c) now)"

definition isActiveWinnerContext :: "claim_context \<Rightarrow> bool" where
  "isActiveWinnerContext c \<longleftrightarrow>
     cn_claimConsumedAt c \<noteq> None \<and> cn_winningRunpodJobId c \<noteq> None \<and>
     cn_attemptStatus c = ATT_RUNNING \<and> cn_jobStatus c = RUNNING"

definition claim_response_of ::
  "claim_environment \<Rightarrow> claim_context \<Rightarrow> capability_token \<Rightarrow> capability_urls \<Rightarrow> claim_response" where
  "claim_response_of env c heartbeat urls =
     \<lparr>ca_expiresAt = cu_expiresAt urls, ca_heartbeatToken = ct_raw heartbeat,
      ca_heartbeatUrl = ce_heartbeatUrl env, ca_options = cn_executionOptions c,
      ca_jsonPutUrl = cu_jsonPutUrl urls, ca_manifestPutUrl = cu_manifestPutUrl urls,
      ca_markdownPutUrl = cu_markdownPutUrl urls, ca_srtPutUrl = cu_srtPutUrl urls,
      ca_expectedEtag = cn_sourceEtag c, ca_expectedSizeBytes = cn_actualSizeBytes c,
      ca_sourceGetUrl = cu_sourceGetUrl urls\<rparr>"

definition grant_claim ::
  "claim_environment \<Rightarrow> claim_context \<Rightarrow> capability_token \<Rightarrow> claim_result task" where
  "grant_claim env c heartbeat =
     task_bind (issue_capabilities (ce_url_ok env) \<lparr>cq_resultPrefix = cn_resultPrefix c,
         cq_sourceBucket = cn_sourceBucket c, cq_sourceKey = cn_sourceKey c\<rparr>) (\<lambda>urls.
     task_bind (task_result (zod_parse (runpodClaimResponseSchema (ce_url_ok env))
         (claim_response_of env c heartbeat urls))) (\<lambda>response.
     Finish (Claim_granted response)))"

text \<open>Somebody else won while the placement was verified.\<close>

definition lost_claim :: "claim_request \<Rightarrow> string \<Rightarrow> int \<Rightarrow> claim_result task" where
  "lost_claim request observedHash now =
     task_bind (read_db (findClaimContext (cl_attemptId request) (cl_jobId request))) (\<lambda>current.
       case current of
         Some c \<Rightarrow>
           if claimContextAllowsAuthentication current observedHash now \<and> isActiveWinnerContext c \<and>
             cn_winningRunpodJobId c \<noteq> Some (cl_runpodJobId request)
           then Finish Claim_deduplicated else Finish Claim_rejected
       | None \<Rightarrow> Finish Claim_rejected)"

definition winner_input_of ::
  "claim_request \<Rightarrow> string \<Rightarrow> int \<Rightarrow> capability_token \<Rightarrow> string \<Rightarrow> winner_input" where
  "winner_input_of request observedHash now heartbeat eventId =
     \<lparr>cw_attemptId = cl_attemptId request, cw_claimTokenHash = observedHash, cw_eventId = eventId,
      cw_heartbeatExpiresAt = to_iso (now + HEARTBEAT_TOKEN_TTL_MS),
      cw_heartbeatTokenHash = ct_hash heartbeat, cw_jobId = cl_jobId request,
      cw_runpodJobId = cl_runpodJobId request, cw_timestamp = to_iso now\<rparr>"

definition claim_verified ::
  "claim_environment \<Rightarrow> claim_request \<Rightarrow> string \<Rightarrow> int \<Rightarrow> claim_context \<Rightarrow> claim_result task" where
  "claim_verified env request observedHash now c =
     Random 32 (\<lambda>bytes.
     task_bind (task_result (createCapabilityToken (ce_sha256 env) (\<lambda>_. bytes))) (\<lambda>heartbeat.
     Random ULID_RANDOM_BYTES (\<lambda>random.
     task_bind (task_result (createUlid (Some now) (\<lambda>_. random))) (\<lambda>eventId.
     let input = winner_input_of request observedHash now heartbeat eventId in
     task_bind (write_db (Claim_winner input) (claimWinner input)) (\<lambda>won.
     if \<not> won then lost_claim request observedHash now else grant_claim env c heartbeat)))))"

text \<open>The rest of \<open>claimRunpodExecution\<close> once the token is accepted.\<close>

definition claim_authenticated ::
  "claim_environment \<Rightarrow> claim_request \<Rightarrow> string \<Rightarrow> int \<Rightarrow> claim_context \<Rightarrow> claim_result task" where
  "claim_authenticated env request observedHash now c =
     (if cn_claimConsumedAt c \<noteq> None \<or> cn_winningRunpodJobId c \<noteq> None then
        if isActiveWinnerContext c \<and> cn_winningRunpodJobId c \<noteq> Some (cl_runpodJobId request) then
          task_bind (write_db
              (Claim_submission (cl_attemptId request) (cl_runpodJobId request) (to_iso now))
              (recordClaimSubmission (cl_attemptId request) (cl_runpodJobId request) (to_iso now)))
            (\<lambda>_. Finish Claim_deduplicated)
        else Finish Claim_rejected
      else if cn_attemptStatus c \<noteq> ATT_SUBMITTING \<or> cn_jobStatus c \<noteq> SUBMITTING then
        Finish Claim_rejected
      else
        task_bind (task_result (createRunpodPlacementVerifier (ce_placement env))) (\<lambda>_.
        Verify (cl_runpodJobId request) (\<lambda>placement.
        if placement \<noteq> Placement_verified then Finish Claim_rejected
        else claim_verified env request observedHash now c)))"

definition claimRunpodExecution :: "claim_environment \<Rightarrow> claim_request \<Rightarrow> claim_result task" where
  "claimRunpodExecution env request =
     Clock (\<lambda>now.
     task_bind (task_result (hashCapabilityToken (ce_sha256 env) (cl_claimToken request))) (\<lambda>observedHash.
     task_bind (read_db (findClaimContext (cl_attemptId request) (cl_jobId request))) (\<lambda>context.
     case context of
       None \<Rightarrow> Finish Claim_rejected
     | Some c \<Rightarrow>
         if \<not> claimContextAllowsAuthentication context observedHash now then Finish Claim_rejected
         else claim_authenticated env request observedHash now c)))"

section \<open>Heartbeats\<close>

record heartbeat_request =
  hb_attemptId :: string
  hb_heartbeatToken :: string
  hb_jobId :: string
  hb_runpodJobId :: string

text \<open>\<open>Heartbeat_accepted cancelRequested\<close>\<close>

datatype heartbeat_result = Heartbeat_accepted bool | Heartbeat_rejected

text \<open>What \<open>recordRunpodHeartbeat\<close> asks of the context before it writes.\<close>

definition heartbeat_allowed :: "heartbeat_request \<Rightarrow> string \<Rightarrow> int \<Rightarrow> claim_context \<Rightarrow> bool" where
  "heartbeat_allowed request observedHash now c \<longleftrightarrow>
     timingSafeHashEqual
       (case cn_heartbeatTokenHash c of None \<Rightarrow> replicate 64 (CHR ''0'') | Some h \<Rightarrow> h) observedHash \<and>
     cn_activeAttemptId c = cn_attemptId c \<and>
     cn_winningRunpodJobId c = Some (hb_runpodJobId request) \<and>
     cn_heartbeatIssuedAt c \<noteq> None \<and>
     (case cn_heartbeatExpiresAt c of None \<Rightarrow> False | Some t \<Rightarrow> expires_after t now) \<and>
     cn_heartbeatRevokedAt c = None \<and>
     cn_attemptStatus c \<in> {ATT_RUNNING, ATT_CANCEL_REQUESTED} \<and>
     cn_jobStatus c \<in> {RUNNING, CANCEL_REQUESTED}"

definition recordRunpodHeartbeat ::
  "(string \<Rightarrow> 8 word list) \<Rightarrow> heartbeat_request \<Rightarrow> heartbeat_result task" where
  "recordRunpodHeartbeat sha256 request =
     Clock (\<lambda>now.
     task_bind (task_result (hashCapabilityToken sha256 (hb_heartbeatToken request))) (\<lambda>observedHash.
     task_bind (read_db (findClaimContext (hb_attemptId request) (hb_jobId request))) (\<lambda>context.
     case context of
       None \<Rightarrow> Finish Heartbeat_rejected
     | Some c \<Rightarrow>
         if \<not> heartbeat_allowed request observedHash now c then Finish Heartbeat_rejected
         else task_bind (write_db
             (Mark_heartbeat (hb_attemptId request) observedHash (hb_jobId request)
                (hb_runpodJobId request) (to_iso now))
             (markHeartbeat (hb_attemptId request) observedHash (hb_jobId request)
                (hb_runpodJobId request) (to_iso now))) (\<lambda>accepted.
           if \<not> accepted then Finish Heartbeat_rejected
           else Finish (Heartbeat_accepted
             (cn_attemptStatus c = ATT_CANCEL_REQUESTED \<or> cn_jobStatus c = CANCEL_REQUESTED))))))"

end
