(* ===== verification/ServiceEffects.thy ===== *)
theory ServiceEffects
  imports CompletionEffects
begin

text \<open>
  What makes the operations of apps/orchestrator/src/runpod-control-repository.ts succeed that the
  services call: a claim that nothing stands against is granted, an accepted submission is recorded.
\<close>

section \<open>Granting a claim\<close>

lemma winners_unique_fresh:
  assumes "winners_unique t" "distinct (map am_id t)" "\<forall>b \<in> set t. am_winning_runpod_job_id b \<noteq> Some w"
    and "am_winning_runpod_job_id a = Some w"
  shows "winners_unique (update_where (\<lambda>x. am_id x = k) (\<lambda>_. a) t)"
  using assms(1-3)
proof (induction t)
  case (Cons x t)
  have "w \<notin> set (List.map_filter am_winning_runpod_job_id t)"
    using Cons.prems(3) by (auto simp: map_filter_def)
  moreover have "update_where (\<lambda>x. am_id x = k) (\<lambda>_. a) t = t" if "am_id x = k"
    using Cons.prems(2) that unfolding update_where_def by (intro map_idI) (auto, metis image_eqI)
  moreover have "v \<in> set (List.map_filter am_winning_runpod_job_id t) \<or> v = w"
    if "v \<in> set (List.map_filter am_winning_runpod_job_id (update_where (\<lambda>x. am_id x = k) (\<lambda>_. a) t))" for v
    using that assms(4) by (auto simp: map_filter_def update_where_def split: if_splits)
  ultimately show ?case
    using Cons assms(4)
    by (fastforce simp: winners_unique_def update_where_def List.map_filter_simps split: option.splits)
qed (simp add: winners_unique_def update_where_def)

lemma claim_winner_attempt:
  assumes keys: "distinct (map am_id (d1_attempts db))" "winners_unique (d1_attempts db)"
    and a: "a \<in> set (d1_attempts db)" "claimable i db a" "attempt_checks (claimed_attempt i a)"
    and job: "active_in db (cw_jobId i) (cw_attemptId i) SUBMITTING"
    and fresh: "\<forall>b \<in> set (d1_attempts db). am_winning_runpod_job_id b \<noteq> Some (cw_runpodJobId i)"
  obtains db' where "claim_winner_sql i db = Inr ([claimed_attempt i a], db')" "d1_jobs db' = d1_jobs db"
    "claimed_attempt i a \<in> set (d1_attempts db')"
proof -
  define p where "p = (\<lambda>a. claimable i db a \<and> active_in db (cw_jobId i) (cw_attemptId i) SUBMITTING)"
  have sql: "claim_winner_sql i db = update_attempts p (claimed_attempt i) db"
    by (simp add: claim_winner_sql_def claimable_def active_in_def claimed_attempt_def [abs_def] p_def conj_ac)
  have key: "\<forall>a. p a \<longrightarrow> am_id a = cw_attemptId i" by (simp add: p_def claimable_def)
  show thesis
  proof (rule filter_key_cases [OF keys(1) key, of "claimed_attempt i"])
    fix r assume r: "r \<in> set (d1_attempts db)" "p r" "filter p (d1_attempts db) = [r]"
      "update_where p (claimed_attempt i) (d1_attempts db) =
        update_where (\<lambda>x. am_id x = am_id r) (\<lambda>_. claimed_attempt i r) (d1_attempts db)"
    have "a \<in> set (filter p (d1_attempts db))" using a job by (simp add: p_def)
    then have ra: "r = a" using r(3) by simp
    have "winners_unique (update_where p (claimed_attempt i) (d1_attempts db))"
      unfolding r(4) ra by (rule winners_unique_fresh [OF keys(2,1) fresh]) (simp add: claimed_attempt_def)
    moreover have "claimed_attempt i a \<in> set (update_where p (claimed_attempt i) (d1_attempts db))"
      using r(1,2) ra by (auto simp: update_where_def)
    ultimately show thesis using that r(3) ra a(3) by (simp add: sql update_attempts_def Let_def)
  qed (use a job in \<open>auto simp: p_def\<close>)
qed

lemma record_claim_event_ok:
  assumes "length e = 26"
  obtains rows db' where "record_claim_event_sql e j a r t db = Inr (rows, db')"
  using assms
  by (cases "record_claim_event_sql e j a r t db")
    (auto simp: record_claim_event_sql_def insert_event_def orchestrator_event_def single_event_taken_def
      single_event_types_def split: if_splits)

lemma claimWinner_grants:
  assumes inv: "d1_inv db" and a: "a \<in> set (d1_attempts db)" "claimable i db a" "attempt_checks a"
    and j: "j \<in> set (d1_jobs db)" "jb_id j = cw_jobId i" "jb_active_attempt_id j = Some (cw_attemptId i)"
      "jb_status j = SUBMITTING" "jb_deleted_at j = None" "job_checks j"
    and fresh: "\<forall>b \<in> set (d1_attempts db). am_winning_runpod_job_id b \<noteq> Some (cw_runpodJobId i)"
    and ok: "winner_input_ok i"
  shows "\<exists>db'. claimWinner i db = (Inr True, db')"
proof -
  have keys: "distinct (map am_id (d1_attempts db))" "winners_unique (d1_attempts db)"
    "distinct (map jb_id (d1_jobs db))" using inv by (simp_all add: d1_inv_def d1_keys_def)
  obtain subs dbs where sub: "insert_submission_sql (cw_runpodJobId i) (cw_attemptId i) ''worker_claim'' (cw_timestamp i) db
      = Inr (subs, dbs)"
    unfolding insert_submission_sql_def Let_def by (metis (no_types, lifting))
  have same: "d1_jobs dbs = d1_jobs db" "d1_attempts dbs = d1_attempts db"
    using insert_submission_unchanged [OF sub] by (simp_all add: unchanged_tables_def)
  have "attempt_checks (claimed_attempt i a)"
    using a(2,3) ok by (simp add: attempt_checks_def claimed_attempt_def winner_input_ok_def claimable_def) argo
  moreover have "active_in dbs (cw_jobId i) (cw_attemptId i) SUBMITTING" using j same by (auto simp: active_in_def)
  moreover have "claimable i dbs a" using a(2) by (simp add: claimable_def)
  ultimately obtain db0 where upa: "claim_winner_sql i dbs = Inr ([claimed_attempt i a], db0)"
    "d1_jobs db0 = d1_jobs db" "claimed_attempt i a \<in> set (d1_attempts db0)"
    using claim_winner_attempt [of dbs a i] keys a(1) fresh same by metis
  obtain rows1 db1 where mark: "mark_submission_winner_sql (cw_runpodJobId i) (cw_attemptId i) (cw_timestamp i) db0
      = Inr (rows1, db1)" by (simp add: mark_submission_winner_sql_def Let_def)
  then have db1: "d1_jobs db1 = d1_jobs db" "claimed_attempt i a \<in> set (d1_attempts db1)"
    using mark_submission_winner_unchanged [OF mark] upa(2,3) by (simp_all add: unchanged_tables_def)
  define f where "f = (\<lambda>j :: job_row. j\<lparr>jb_status := RUNNING, jb_updated_at := cw_timestamp i, jb_version := jb_version j + 1\<rparr>)"
  have won: "am_id (claimed_attempt i a) = cw_attemptId i" "am_job_id (claimed_attempt i a) = cw_jobId i"
    "am_status (claimed_attempt i a) = ATT_RUNNING" using a(2) by (simp_all add: claimed_attempt_def claimable_def)
  define p where "p = (\<lambda>j :: job_row. jb_id j = cw_jobId i \<and> jb_active_attempt_id j = Some (cw_attemptId i) \<and>
      jb_status j = SUBMITTING \<and> jb_deleted_at j = None \<and>
      (\<exists>a \<in> set (d1_attempts db1). am_id a = cw_attemptId i \<and> am_job_id a = cw_jobId i \<and>
         am_status a = ATT_RUNNING))"
  have sql: "mark_job_running_sql (cw_jobId i) (cw_attemptId i) (cw_timestamp i) db1 = update_jobs p f db1"
    by (simp only: mark_job_running_sql_def p_def f_def)
  have "p j" using j won db1(2) by (auto simp: p_def)
  moreover have "job_checks (f j)" using j(6) by (simp add: job_checks_def f_def)
  ultimately obtain db2 where job: "mark_job_running_sql (cw_jobId i) (cw_attemptId i) (cw_timestamp i) db1 = Inr ([f j], db2)"
    using job_updated [of db1 p "cw_jobId i" j f] keys(3) db1(1) j(1) by (auto simp: sql p_def f_def)
  obtain rows3 db3 where event: "record_claim_event_sql (cw_eventId i) (cw_jobId i) (cw_attemptId i)
      (cw_runpodJobId i) (cw_timestamp i) db2 = Inr (rows3, db3)"
    using record_claim_event_ok ok unfolding winner_input_ok_def ulid_ok_def by metis
  have "ulid_ok (cw_attemptId i)" using ok by (simp add: winner_input_ok_def)
  then show ?thesis
    using sub upa(1) ok mark job event won(1)
    by (auto simp: claimWinner_def answer_attempt_def claim_batch_def batch3_def batch2_def updatedJobIdRowsSchema_def)
qed

end
