(* ===== verification/ServiceRuns.thy ===== *)
theory ServiceRuns
  imports RunpodServices ServiceEffects
begin

text \<open>
  What the runs of the RunPod services did: a submission was prepared with the hash of the token it
  sends; a granted claim won the attempt; an accepted heartbeat was recorded. The properties of
  ServiceProperties apply these lemmas.
\<close>

section \<open>Submissions\<close>

lemma prepared_hash:
  assumes inv: "d1_inv db" and run: "prepareSubmission j h t e db = (Inr (Some p), db')"
  obtains a b where "a \<in> set (d1_attempts db)" "submittable j db a" "ps_attemptId p = am_id a"
    "ps_jobId p = am_job_id a" "b \<in> set (d1_attempts db')" "am_id b = am_id a" "am_claim_token_hash b = Some h"
    "ulid_ok (ps_attemptId p)" "ulid_ok (ps_jobId p)"
proof -
  obtain rows db1 db2 where upa: "prepare_submission_sql j h t e db = Inr (fst rows, db1)"
    and upj: "mark_job_submitting_sql j t h db1 = Inr (snd rows, db2)" and db2: "db2 = db'"
    and answer: "\<exists>a. updatedAttemptRowsSchema (fst rows) = Inr (Some a) \<and> ps_attemptId p = am_id a \<and>
      ps_jobId p = am_job_id a"
    using run
    by (auto simp: prepareSubmission_def prepare_batch_def batch2_Inr_iff result_simps
        split: sum.split_asm prod.split_asm option.split_asm)
  have keys: "distinct (map am_id (d1_attempts db))" using inv by (simp add: d1_inv_def d1_keys_def)
  obtain k where key: "\<forall>a. submittable j db a \<longrightarrow> am_id a = k" using submittable_key by blast
  have same: "d1_attempts db' = d1_attempts db1"
    using upj db2 by (auto simp: mark_job_submitting_sql_def update_jobs_def Let_def split: if_splits)
  show thesis
  proof (cases rule: update_attempts_cases [OF upa [unfolded prepare_submission_sql_def] keys key])
    case 1
    then show ?thesis using answer by (auto simp: updatedAttemptRowsSchema_def)
  next
    case (2 a)
    then have "set (d1_attempts db') = insert (prepared_row h t e a) (set (d1_attempts db) - {a})"
      using set_update_where_id [OF keys 2(1)] by (simp add: same prepared_row_def)
    then show ?thesis
      using 2 answer that [of a "prepared_row h t e a"]
      by (auto simp: updatedAttemptRowsSchema_def rows_max_one_Inr_iff prepared_row_def)
  qed
qed

text \<open>An attempt that has been prepared once is never prepared again.\<close>

lemma never_prepared_again:
  assumes now: "d1_inv db" and run: "prepareSubmission j h t e db = (Inr (Some p), db')"
    and later: "d1_inv new" "evolves db' new" and again: "prepareSubmission j2 h2 t2 e2 new = (Inr (Some p2), new')"
  shows "ps_attemptId p2 \<noteq> ps_attemptId p"
proof
  assume same: "ps_attemptId p2 = ps_attemptId p"
  obtain a b where b: "b \<in> set (d1_attempts db')" "am_id b = ps_attemptId p" "am_claim_token_hash b = Some h"
    using prepared_hash [OF now run] by metis
  then obtain c where c: "c \<in> set (d1_attempts new)" "attempt_evolves b c"
    using later(2) by (auto simp: evolves_def)
  obtain x where x: "x \<in> set (d1_attempts new)" "submittable j2 new x" "ps_attemptId p2 = am_id x"
    by (rule prepared_attempt [OF later(1) again])
  have "am_id x = am_id c" using x(3) same b(2) c(2) by (simp add: attempt_evolves_def)
  then have "x = c" using attempt_unique [of new x c] later(1) x(1) c(1) by (simp add: d1_inv_def)
  then show False using x(2) c(2) b(3) by (simp add: submittable_def attempt_evolves_def stays_def)
qed

lemma mark_unknown_calls: "may_call (mark_unknown p t) = {Writes (Lose_submission (ps_attemptId p) t)}"
  by (simp add: mark_unknown_def if_distrib [of may_call] cong: if_cong)

lemma record_outcome_no_submit: "Submits q \<notin> may_call (record_outcome p x t)"
  by (cases x) (auto simp: record_outcome_def mark_unknown_calls Let_def split: if_splits)

text \<open>
  A run of \<open>submitPendingRunpodJob\<close> either sends nothing and is not accepted, or its first effects are
  a submission prepared with the hash of its token, and the request with that token.
\<close>

definition submission_sent ::
  "(string \<Rightarrow> 8 word list) \<Rightarrow> string \<Rightarrow> d1 list \<Rightarrow> effect list \<Rightarrow> d1 list \<Rightarrow> dispatch_result result option \<Rightarrow> bool" where
  "submission_sent sha256 jobId h es h' out \<longleftrightarrow>
     (\<exists>db g p claim t e x gg es'. let q = Prepare_submission jobId (ct_hash claim) t e in
        history (db # g) \<and> suffix h (db # g) \<and>
        prepareSubmission jobId (ct_hash claim) t e db = (Inr (Some p), perform q db db) \<and>
        ct_hash claim = encodeHex (sha256 (ct_raw claim)) \<and>
        es = Wrote q db # Submitted (run_request_of p claim) x # es' \<and>
        suffix (perform q db db # db # g) gg \<and> history gg \<and>
        task_run (Clock (record_outcome p x)) gg es' h' out)"

definition nothing_sent :: "effect list \<Rightarrow> dispatch_result result option \<Rightarrow> bool" where
  "nothing_sent es out \<longleftrightarrow>
     (\<forall>q x. Submitted q x \<notin> set es) \<and> (no_result out \<or> out = Some (Inr Dispatch_deferred))"

lemma prepared_run:
  assumes run: "task_run (task_bind (write_db (Prepare_submission jobId (ct_hash claim) t e)
        (prepareSubmission jobId (ct_hash claim) t e)) (\<lambda>prepared. case prepared of
          None \<Rightarrow> Finish Dispatch_deferred
        | Some p \<Rightarrow> task_bind (task_result (zod_parse (\<lambda>q. runpodRunRequestSchema (run_request_json q))
             (run_request_of p claim))) (\<lambda>q. Submit q (\<lambda>result. Clock (record_outcome p result)))))
      h es h' out" (is "task_run (task_bind _ ?go) h es h' out")
    and h: "history h" and claim: "ct_hash claim = encodeHex (sha256 (ct_raw claim))"
  shows "nothing_sent es out \<or> submission_sent sha256 jobId h es h' out"
  using run h
proof (cases rule: run_write_db)
  case (3 db g prepared es1)
  let ?q = "Prepare_submission jobId (ct_hash claim) t e"
  show ?thesis
  proof (cases prepared)
    case None
    then have "task_run (Finish Dispatch_deferred) (perform ?q db db # db # g) es1 h' out" using 3 by simp
    then show ?thesis using 3(4) run_Finish by (fastforce simp: nothing_sent_def)
  next
    case (Some p)
    then have "task_run (task_bind (task_result (zod_parse (\<lambda>q. runpodRunRequestSchema (run_request_json q))
        (run_request_of p claim))) (\<lambda>q. Submit q (\<lambda>result. Clock (record_outcome p result))))
      (perform ?q db db # db # g) es1 h' out" using 3 by simp
    then show ?thesis
    proof (cases rule: run_task_result)
      case 1
      then show ?thesis using 3(4) by (simp add: nothing_sent_def)
    next
      case (2 q)
      then have q: "q = run_request_of p claim" by (simp add: zod_parse_Inr_iff)
      show ?thesis
        using 2(2) 3(5)
      proof (cases rule: run_Submit)
        case 1
        then show ?thesis using 3(4) by (simp add: nothing_sent_def)
      next
        case sent: (2 x gg es')
        have "prepareSubmission jobId (ct_hash claim) t e db = (Inr (Some p), perform ?q db db)"
          using 3(3) Some by (simp add: prod_eq_iff)
        then show ?thesis
          unfolding submission_sent_def Let_def using 3(1,2,4) sent q claim by blast
      qed
    qed
  qed
qed (auto simp: nothing_sent_def)

lemma submission_run:
  assumes "task_run (submitPendingRunpodJob sha256 jobId) h es h' out" "history h"
  shows "nothing_sent es out \<or> submission_sent sha256 jobId h es h' out"
  using assms unfolding submitPendingRunpodJob_def Let_def
proof (cases rule: run_Clock)
  case started: (2 startedAt g1)
  show ?thesis
    using started(3,1)
  proof (cases rule: run_Random)
    case random: (2 bytes g2)
    show ?thesis
      using random(3)
    proof (cases rule: run_task_result)
      case (2 claim)
      have "ct_hash claim = encodeHex (sha256 (ct_raw claim))" using created_token [OF 2(1)] by simp
      then have "nothing_sent es out \<or> submission_sent sha256 jobId g2 es h' out"
        by (rule prepared_run [OF 2(2) random(1)])
      moreover have "suffix h g2" using started(2) random(2) suffix_order.trans by blast
      ultimately show ?thesis
        unfolding submission_sent_def Let_def using suffix_order.trans by blast
    qed (simp add: nothing_sent_def)
  qed (simp add: nothing_sent_def)
qed (simp add: nothing_sent_def)

section \<open>Claims\<close>

lemma read_only_no_grant: "Claim_granted r \<notin> task_outcomes (lost_claim request observedHash now)"
  by (auto simp: lost_claim_def split: option.splits if_splits)

lemma granted_response:
  assumes "Claim_granted r \<in> task_outcomes (grant_claim env c heartbeat)"
  obtains urls where "r = claim_response_of env c heartbeat urls" "runpodClaimResponseSchema (ce_url_ok env) r"
  using assms by (auto simp: grant_claim_def zod_parse_Inr_iff)

text \<open>What a granted claim did.\<close>

lemma winner_run:
  assumes run: "task_run (task_bind (write_db (Claim_winner i) (claimWinner i)) (\<lambda>won.
      if \<not> won then lost_claim request observed now else grant_claim env c heartbeat))
      h es h' (Some (Inr (Claim_granted r)))" and h: "history h"
  obtains db g es' urls where "history (db # g)" "suffix h (db # g)" "es = Wrote (Claim_winner i) db # es'"
    "claimWinner i db = (Inr True, perform (Claim_winner i) db db)"
    "suffix (perform (Claim_winner i) db db # db # g) h'"
    "r = claim_response_of env c heartbeat urls" "runpodClaimResponseSchema (ce_url_ok env) r"
  using run h
proof (cases rule: ok_write_db)
  case (1 db g won es')
  have "Claim_granted r \<in> task_outcomes (if \<not> won then lost_claim request observed now else grant_claim env c heartbeat)"
    by (rule result_outcome [OF 1(6)])
  then have won: "won" and "Claim_granted r \<in> task_outcomes (grant_claim env c heartbeat)"
    using read_only_no_grant by (auto split: if_splits)
  then obtain urls where r: "r = claim_response_of env c heartbeat urls" "runpodClaimResponseSchema (ce_url_ok env) r"
    using granted_response by blast
  have "claimWinner i db = (Inr True, perform (Claim_winner i) db db)" using 1(3) won by (simp add: prod_eq_iff)
  moreover have "suffix (perform (Claim_winner i) db db # db # g) h'" using task_run_history [OF 1(6,5)] by blast
  ultimately show thesis using that 1(1,2,4) r by blast
qed

lemma verified_run:
  assumes "task_run (claim_verified env request observed now c) h es h' (Some (Inr (Claim_granted r)))" "history h"
  obtains heartbeat eventId i db g es' urls where "i = winner_input_of request observed now heartbeat eventId"
    "history (db # g)" "suffix h (db # g)" "es = Wrote (Claim_winner i) db # es'"
    "claimWinner i db = (Inr True, perform (Claim_winner i) db db)"
    "suffix (perform (Claim_winner i) db db # db # g) h'"
    "r = claim_response_of env c heartbeat urls" "runpodClaimResponseSchema (ce_url_ok env) r"
    "ct_hash heartbeat = encodeHex (ce_sha256 env (ca_heartbeatToken r))"
  using assms unfolding claim_verified_def
proof (cases rule: ok_Random)
  case drawn: (1 bytes g1)
  show thesis
    using drawn(3)
  proof (cases rule: ok_task_result)
    case token: (1 heartbeat)
    show thesis
      using token(2) drawn(1)
    proof (cases rule: ok_Random)
      case random: (1 random g2)
      show thesis
        using random(3)
      proof (cases rule: ok_task_result)
        case (1 eventId)
        define i where "i = winner_input_of request observed now heartbeat eventId"
        obtain db g es' urls where won: "history (db # g)" "suffix g2 (db # g)" "es = Wrote (Claim_winner i) db # es'"
          "claimWinner i db = (Inr True, perform (Claim_winner i) db db)"
          "suffix (perform (Claim_winner i) db db # db # g) h'"
          "r = claim_response_of env c heartbeat urls" "runpodClaimResponseSchema (ce_url_ok env) r"
          using 1(2) random(1) unfolding Let_def i_def [symmetric] by (rule winner_run)
        have "ct_hash heartbeat = encodeHex (ce_sha256 env (ca_heartbeatToken r))"
          using created_token [OF token(1)] by (simp add: won(6) claim_response_of_def)
        moreover have "suffix h (db # g)" using drawn(2) random(2) won(2) suffix_order.trans by blast
        ultimately show thesis using that i_def won by blast
      qed
    qed
  qed
qed

definition claim_won ::
  "claim_environment \<Rightarrow> claim_request \<Rightarrow> claim_response \<Rightarrow> effect list \<Rightarrow> d1 list \<Rightarrow> bool" where
  "claim_won env request r es h' \<longleftrightarrow>
     (\<exists>now c old db g heartbeat eventId urls es' i observed.
        observed = encodeHex (ce_sha256 env (cl_claimToken request)) \<and>
        i = winner_input_of request observed now heartbeat eventId \<and>
        findClaimContext (cl_attemptId request) (cl_jobId request) old = Inr (Some c) \<and>
        claimContextAllowsAuthentication (Some c) observed now \<and>
        r = claim_response_of env c heartbeat urls \<and> runpodClaimResponseSchema (ce_url_ok env) r \<and>
        ct_hash heartbeat = encodeHex (ce_sha256 env (ca_heartbeatToken r)) \<and>
        es = [Verified (cl_runpodJobId request) Placement_verified, Wrote (Claim_winner i) db] @ es' \<and>
        history (db # g) \<and> old \<in> set (db # g) \<and>
        claimWinner i db = (Inr True, perform (Claim_winner i) db db) \<and>
        suffix (perform (Claim_winner i) db db # db # g) h')"

lemma authenticated_run:
  assumes run: "task_run (claim_authenticated env request observed now c) h es h' (Some (Inr (Claim_granted r)))"
    and h: "history h" "old \<in> set h" and observed: "observed = encodeHex (ce_sha256 env (cl_claimToken request))"
    and found: "findClaimContext (cl_attemptId request) (cl_jobId request) old = Inr (Some c)"
    and allowed: "claimContextAllowsAuthentication (Some c) observed now"
  shows "claim_won env request r es h'"
proof -
  have open_claim: "\<not> (cn_claimConsumedAt c \<noteq> None \<or> cn_winningRunpodJobId c \<noteq> None)"
    "\<not> (cn_attemptStatus c \<noteq> ATT_SUBMITTING \<or> cn_jobStatus c \<noteq> SUBMITTING)"
    using result_outcome [OF run] by (auto simp: claim_authenticated_def split: if_splits)
  show ?thesis
    using run unfolding claim_authenticated_def if_not_P [OF open_claim(1)] if_not_P [OF open_claim(2)]
  proof (cases rule: ok_task_result)
    case verifier: (1 v)
    show ?thesis
      using verifier(2) h(1)
    proof (cases rule: ok_Verify)
      case (1 placement g1 es1)
      have verified: "placement = Placement_verified"
        using result_outcome [OF 1(4)] by (auto split: if_splits)
      then have "task_run (claim_verified env request observed now c) g1 es1 h' (Some (Inr (Claim_granted r)))"
        using 1(4) by simp
      then obtain heartbeat eventId i db g es' urls where won: "i = winner_input_of request observed now heartbeat eventId"
        "history (db # g)" "suffix g1 (db # g)" "es1 = Wrote (Claim_winner i) db # es'"
        "claimWinner i db = (Inr True, perform (Claim_winner i) db db)"
        "suffix (perform (Claim_winner i) db db # db # g) h'"
        "r = claim_response_of env c heartbeat urls" "runpodClaimResponseSchema (ce_url_ok env) r"
        "ct_hash heartbeat = encodeHex (ce_sha256 env (ca_heartbeatToken r))"
        using 1(1) by (rule verified_run)
      have "old \<in> set (db # g)"
        using set_mono_suffix [OF suffix_order.trans [OF 1(2) won(3)]] h(2) by blast
      moreover have "es = [Verified (cl_runpodJobId request) Placement_verified, Wrote (Claim_winner i) db] @ es'"
        using 1(3) won(4) verified by simp
      ultimately show ?thesis unfolding claim_won_def using observed won allowed found by blast
    qed
  qed
qed

lemma granted_run:
  assumes "task_run (claimRunpodExecution env request) h es h' (Some (Inr (Claim_granted r)))" "history h"
  shows "claim_won env request r es h'"
  using assms unfolding claimRunpodExecution_def
proof (cases rule: ok_Clock)
  case started: (1 now g1)
  show ?thesis
    using started(3)
  proof (cases rule: ok_task_result)
    case hashed: (1 observed)
    have observed: "observed = encodeHex (ce_sha256 env (cl_claimToken request))"
      using hashed(1) by (auto simp: hashCapabilityToken_def result_simps)
    show ?thesis
      using hashed(2) started(1)
    proof (cases rule: ok_read_db)
      case (1 old g2 found)
      then obtain c where c: "found = Some c" using result_outcome [OF 1(4)] by (cases found) auto
      then have "claimContextAllowsAuthentication (Some c) observed now"
        using result_outcome [OF 1(4)] by (auto split: if_splits)
      then show ?thesis
        using authenticated_run [OF _ 1(1) _ observed 1(3) [unfolded c]] 1(4) c by simp
    qed
  qed
qed

text \<open>The job a claim context is about, and what of it is never changed.\<close>

lemma found_context:
  assumes "findClaimContext attemptId jobId db = Inr (Some c)"
  obtains j where "j \<in> set (d1_jobs db)" "jb_id j = jobId" "jb_source_etag j = Some (cn_sourceEtag c)"
proof -
  obtain r where r: "find_claim_context_row attemptId jobId db = Some r" "claimContextRowSchema r" "c = mapClaimContext r"
    using assms by (auto simp: findClaimContext_def result_simps split: option.splits)
  obtain a j where pair: "r = (a, j)" by (cases r)
  have j: "find_job (\<lambda>j. jb_id j = jobId \<and> jb_deleted_at j = None) db = Some j"
    using r(1) pair by (auto simp: find_claim_context_row_def split: option.splits)
  have "jb_source_etag j = Some (cn_sourceEtag c)"
    using r(2,3) pair by (auto simp: claimContextRowSchema_def mapClaimContext_def not_null_def split: option.splits)
  then show thesis using that [of j] j by (auto simp: find_job_def find_Some_iff)
qed

lemma later_etag:
  assumes "j \<in> set (d1_jobs db)" "jb_source_etag j = Some e" "evolves db new"
  obtains k where "k \<in> set (d1_jobs new)" "jb_id k = jb_id j" "jb_source_etag k = Some e"
proof -
  obtain k where k: "k \<in> set (d1_jobs new)" "job_evolves db new j k"
    using assms(1,3) unfolding evolves_def by blast
  then have "jb_source_etag k = Some e" using assms(2) by (simp add: job_evolves_def)
  moreover have "jb_id k = jb_id j" using k(2) by (simp add: job_evolves_def same_identity_def)
  ultimately show thesis using that k(1) by blast
qed

lemma later_winner:
  assumes inv: "d1_inv db" and run: "claimWinner i db = (Inr True, db')" and later: "evolves db' new"
  obtains a where "a \<in> set (d1_attempts new)" "am_id a = cw_attemptId i"
    "am_winning_runpod_job_id a = Some (cw_runpodJobId i)"
    "am_claim_token_hash a = Some (cw_claimTokenHash i)" "am_claim_consumed_at a = Some (cw_timestamp i)"
    "am_status a \<noteq> ATT_SUBMITTING"
proof -
  obtain a where a: "a \<in> set (d1_attempts db)" "claimable i db a"
    "d1_attempts db' = update_where (\<lambda>x. am_id x = am_id a) (\<lambda>_. claimed_attempt i a) (d1_attempts db)"
    by (rule claimWinner_True [OF inv run])
  then have "claimed_attempt i a \<in> set (d1_attempts db')" by (auto simp: update_where_def)
  then obtain b where b: "b \<in> set (d1_attempts new)" "attempt_evolves (claimed_attempt i a) b"
    using later by (auto simp: evolves_def)
  have "am_status b \<noteq> ATT_SUBMITTING"
    using b(2) by (auto simp: attempt_evolves_def claimed_attempt_def)
  then show thesis
    using that [OF b(1)] b(2) a(2) by (simp add: attempt_evolves_def claimed_attempt_def claimable_def stays_def)
qed

text \<open>What a granted claim says of every later database.\<close>

lemma claim_won_later:
  assumes won: "claim_won env request r es h'" and later: "suffix h' (newer # k)" "history (newer # k)"
  obtains a where "a \<in> set (d1_attempts newer)" "am_id a = cl_attemptId request"
    "am_winning_runpod_job_id a = Some (cl_runpodJobId request)"
    "am_claim_token_hash a = Some (encodeHex (ce_sha256 env (cl_claimToken request)))"
proof -
  obtain i db g now heartbeat eventId where
      "i = winner_input_of request (encodeHex (ce_sha256 env (cl_claimToken request))) now heartbeat eventId"
    and db: "history (db # g)" "claimWinner i db = (Inr True, perform (Claim_winner i) db db)"
      "suffix (perform (Claim_winner i) db db # db # g) h'"
    using won unfolding claim_won_def by blast
  then have i: "cw_attemptId i = cl_attemptId request" "cw_runpodJobId i = cl_runpodJobId request"
      "cw_claimTokenHash i = encodeHex (ce_sha256 env (cl_claimToken request))"
    by (simp_all add: winner_input_of_def)
  have inv: "d1_inv db" using history_sound [OF db(1)] by simp
  have "perform (Claim_winner i) db db \<in> set (newer # k)"
    using set_mono_suffix [OF suffix_order.trans [OF db(3) later(1)]] by auto
  then show thesis
    using later_winner [OF inv db(2) history_later(2) [OF later(2)]] that i by metis
qed

lemma claim_won_source:
  assumes won: "claim_won env request r es h'" and later: "suffix h' (newer # k)" "history (newer # k)"
  obtains j where "j \<in> set (d1_jobs newer)" "jb_id j = cl_jobId request"
    "jb_source_etag j = Some (ca_expectedEtag r)"
proof -
  obtain c old i db g heartbeat urls where
      found: "findClaimContext (cl_attemptId request) (cl_jobId request) old = Inr (Some c)"
    and "r = claim_response_of env c heartbeat urls" and old: "old \<in> set (db # g)"
    and db: "suffix (perform (Claim_winner i) db db # db # g) h'"
    using won unfolding claim_won_def by blast
  then have r: "ca_expectedEtag r = cn_sourceEtag c" by (simp add: claim_response_of_def)
  have "old \<in> set (newer # k)"
    using set_mono_suffix [OF suffix_order.trans [OF db later(1)]] old by auto
  then have "evolves old newer" by (rule history_later(2) [OF later(2)])
  then show thesis
    using found_context [OF found] later_etag that r by metis
qed

section \<open>A claim before the outcome is recorded\<close>

text \<open>Both outcomes of a submission that RunPod took are recorded only of an attempt that is being submitted.\<close>

lemma recordSubmissionAccepted_True:
  assumes "fst (recordSubmissionAccepted attemptId runpodJobId t db) = Inr True"
  shows "\<exists>a \<in> set (d1_attempts db). am_id a = attemptId \<and> am_status a = ATT_SUBMITTING"
proof -
  obtain subs dbs rows db' where sub: "insert_submission_sql runpodJobId attemptId ''submit_response'' t db = Inr (subs, dbs)"
    and mark: "mark_submission_accepted_sql attemptId t runpodJobId dbs = Inr (rows, db')" and rows: "rows \<noteq> []"
    using assms by (auto simp: recordSubmissionAccepted_def batch2_Inr_iff result_simps updatedJobIdRowsSchema_def
        split: sum.split_asm prod.split_asm)
  have "d1_attempts dbs = d1_attempts db"
    using insert_submission_unchanged [OF sub] by (simp add: unchanged_tables_def)
  then show ?thesis
    using updated_attempts_nonempty [OF mark [unfolded mark_submission_accepted_sql_def] rows] by auto
qed

lemma recordSubmissionUnknown_True:
  assumes "fst (recordSubmissionUnknown attemptId t db) = Inr True"
  shows "\<exists>a \<in> set (d1_attempts db). am_id a = attemptId \<and> am_status a = ATT_SUBMITTING"
proof -
  obtain rows db' where mark: "mark_submission_unknown_sql attemptId t db = Inr (rows, db')" and rows: "rows \<noteq> []"
    using assms by (auto simp: recordSubmissionUnknown_def answer_attempt_def result_simps updatedJobIdRowsSchema_def
        split: sum.split_asm prod.split_asm)
  show ?thesis using updated_attempts_nonempty [OF mark [unfolded mark_submission_unknown_sql_def] rows] by auto
qed

definition no_longer_submitting :: "string \<Rightarrow> d1 \<Rightarrow> bool" where
  "no_longer_submitting attemptId db \<longleftrightarrow>
     (\<exists>a \<in> set (d1_attempts db). am_id a = attemptId \<and> am_winning_runpod_job_id a \<noteq> None \<and>
        am_status a \<noteq> ATT_SUBMITTING)"

lemma no_longer_submitting_unique:
  assumes "no_longer_submitting attemptId db" "d1_inv db"
  shows "\<not> (\<exists>a \<in> set (d1_attempts db). am_id a = attemptId \<and> am_status a = ATT_SUBMITTING)"
  using assms attempt_unique unfolding no_longer_submitting_def d1_inv_def by metis

lemma claimed_later:
  assumes now: "history (db # g)" and run: "claimWinner i db = (Inr True, db')"
    and later: "history (new # h)" "db' \<in> set (new # h)"
  shows "no_longer_submitting (cw_attemptId i) new"
proof -
  have "d1_inv db" using history_sound [OF now] by simp
  then show ?thesis
    using later_winner [OF _ run history_later(2) [OF later]] unfolding no_longer_submitting_def
    by (metis option.distinct(1))
qed

lemma mark_unknown_claimed:
  assumes run: "task_run (mark_unknown p t) h es h' (Some (Inr y))" and h: "history h"
    and claimed: "\<And>db g. history (db # g) \<Longrightarrow> suffix h (db # g) \<Longrightarrow> no_longer_submitting (ps_attemptId p) db"
  shows False
  using run h unfolding mark_unknown_def
proof (cases rule: ok_write_db)
  case (1 db g recorded es')
  have recorded: "recorded" using result_outcome [OF 1(6)] by (auto split: if_splits)
  have "d1_inv db" using history_sound [OF 1(1)] by simp
  moreover have "fst (recordSubmissionUnknown (ps_attemptId p) t db) = Inr True" using 1(3) recorded by simp
  ultimately show False
    using no_longer_submitting_unique [OF claimed [OF 1(1,2)]] recordSubmissionUnknown_True by blast
qed

lemma accepted_claimed:
  assumes run: "task_run (record_outcome p (Submission_accepted r) t) h es h' (Some (Inr y))" and h: "history h"
    and claimed: "\<And>db g. history (db # g) \<Longrightarrow> suffix h (db # g) \<Longrightarrow> no_longer_submitting (ps_attemptId p) db"
  shows False
  using run h unfolding record_outcome_def submission_result.case Let_def
proof (cases rule: ok_write_db)
  case (1 db g recorded es')
  have inv: "d1_inv db" using history_sound [OF 1(1)] by simp
  show False
  proof (cases recorded)
    case True
    then have "fst (recordSubmissionAccepted (ps_attemptId p) r (to_iso t) db) = Inr True" using 1(3) by simp
    then show False
      using no_longer_submitting_unique [OF claimed [OF 1(1,2)] inv] recordSubmissionAccepted_True by blast
  next
    case False
    then have "task_run (mark_unknown p (to_iso t))
        (perform (Accept_submission (ps_attemptId p) r (to_iso t)) db db # db # g) es' h' (Some (Inr y))"
      using 1(6) by simp
    then show False
      using mark_unknown_claimed [OF _ 1(5)] claimed later_start suffix_order.trans [OF 1(2)] by blast
  qed
qed

section \<open>Heartbeats\<close>

lemma markHeartbeat_True:
  assumes "markHeartbeat attemptId hash jobId runpodJobId t db = (Inr True, db')"
  obtains a j where "a \<in> set (d1_attempts db)" "am_id a = attemptId"
    "am_winning_runpod_job_id a = Some runpodJobId" "am_heartbeat_token_hash a = Some hash"
    "sql_greater (am_heartbeat_expires_at a) t" "am_heartbeat_revoked_at a = None"
    "am_status a \<in> {ATT_RUNNING, ATT_CANCEL_REQUESTED}"
    "j \<in> set (d1_jobs db)" "jb_id j = jobId" "jb_active_attempt_id j = Some attemptId"
    "jb_status j \<in> {RUNNING, CANCEL_REQUESTED}" "jb_deleted_at j = None"
proof -
  obtain rows where sql: "heartbeat_sql attemptId jobId runpodJobId hash t db = Inr (rows, db')" and "rows \<noteq> []"
    using assms by (auto simp: markHeartbeat_def answer_attempt_def result_simps updatedJobIdRowsSchema_def
        split: sum.split_asm prod.split_asm)
  then show thesis using that updated_attempts_nonempty [OF sql [unfolded heartbeat_sql_def]] by blast
qed

lemma heartbeat_run:
  assumes "task_run (recordRunpodHeartbeat sha256 request) h es h' (Some (Inr (Heartbeat_accepted cancelRequested)))"
    "history h"
  obtains now old db g c observed where "observed = encodeHex (sha256 (hb_heartbeatToken request))"
    "history (db # g)" "old \<in> set (db # g)" "suffix (db # g) h'"
    "findClaimContext (hb_attemptId request) (hb_jobId request) old = Inr (Some c)"
    "heartbeat_allowed request observed now c"
    "markHeartbeat (hb_attemptId request) observed (hb_jobId request) (hb_runpodJobId request) (to_iso now) db =
       (Inr True, perform (Mark_heartbeat (hb_attemptId request) observed (hb_jobId request)
         (hb_runpodJobId request) (to_iso now)) db db)"
    "cancelRequested \<longleftrightarrow> cn_attemptStatus c = ATT_CANCEL_REQUESTED \<or> cn_jobStatus c = CANCEL_REQUESTED"
  using assms unfolding recordRunpodHeartbeat_def
proof (cases rule: ok_Clock)
  case started: (1 now g1)
  show thesis
    using started(3)
  proof (cases rule: ok_task_result)
    case hashed: (1 observed)
    have observed: "observed = encodeHex (sha256 (hb_heartbeatToken request))"
      using hashed(1) by (auto simp: hashCapabilityToken_def result_simps)
    show thesis
      using hashed(2) started(1)
    proof (cases rule: ok_read_db)
      case read: (1 old g2 found)
      obtain c where c: "found = Some c" using result_outcome [OF read(4)] by (cases found) auto
      have allowed: "\<not> \<not> heartbeat_allowed request observed now c"
        using result_outcome [OF read(4)] c by (auto split: if_splits)
      show thesis
        using read(4) read(1) unfolding c option.case if_not_P [OF allowed]
      proof (cases rule: ok_write_db)
        case written: (1 db g accepted es')
        have answer: "accepted"
          "cancelRequested \<longleftrightarrow> cn_attemptStatus c = ATT_CANCEL_REQUESTED \<or> cn_jobStatus c = CANCEL_REQUESTED"
          using result_outcome [OF written(6)] by (auto split: if_splits)
        have "suffix (db # g) h'" by (rule later_start [OF conjunct2 [OF task_run_history [OF written(6,5)]]])
        moreover have "old \<in> set (db # g)" using set_mono_suffix [OF written(2)] by auto
        ultimately show thesis
          using that [OF observed written(1) _ _ read(3) [unfolded c]] allowed answer written(3)
          by (simp add: prod_eq_iff)
      qed
    qed
  qed
qed

end
