(* ===== verification/ServiceGrants.thy ===== *)
theory ServiceGrants
  imports ServiceRuns
begin

text \<open>
  When the claim service grants: an open claim context that nothing stands against, a placement RunPod
  confirms, and URLs that can be signed. The run is evaluated without other requests (\<open>run_alone\<close>).
\<close>

section \<open>Open claims\<close>

definition open_context :: "claim_context \<Rightarrow> bool" where
  "open_context c \<longleftrightarrow>
     cn_claimConsumedAt c = None \<and> cn_winningRunpodJobId c = None \<and>
     cn_attemptStatus c = ATT_SUBMITTING \<and> cn_jobStatus c = SUBMITTING \<and>
     cn_activeAttemptId c = cn_attemptId c"

text \<open>What the schema of the rows has checked of a context.\<close>

definition context_ok :: "claim_context \<Rightarrow> bool" where
  "context_ok c \<longleftrightarrow>
     runpodExecutionOptionsSchema (cn_executionOptions c) \<and> file_size_ok (cn_actualSizeBytes c) \<and>
     1 \<le> length (cn_sourceEtag c) \<and> length (cn_sourceEtag c) \<le> 512 \<and>
     r2CapabilityRequestSchema \<lparr>cq_resultPrefix = cn_resultPrefix c,
       cq_sourceBucket = cn_sourceBucket c, cq_sourceKey = cn_sourceKey c\<rparr>"

lemma context_row:
  assumes "findClaimContext attemptId jobId db = Inr (Some c)"
  obtains a j where "a \<in> set (d1_attempts db)" "am_id a = attemptId" "am_job_id a = jobId"
    "j \<in> set (d1_jobs db)" "jb_id j = jobId" "jb_deleted_at j = None"
    "claimContextRowSchema (a, j)" "c = mapClaimContext (a, j)" "ulid_ok attemptId" "ulid_ok jobId"
proof -
  obtain r where r: "find_claim_context_row attemptId jobId db = Some r" "claimContextRowSchema r" "c = mapClaimContext r"
    and ids: "ulid_ok attemptId" "ulid_ok jobId"
    using assms by (auto simp: findClaimContext_def result_simps split: option.splits)
  obtain a j where pair: "r = (a, j)" by (cases r)
  have "find_job (\<lambda>j. jb_id j = jobId \<and> jb_deleted_at j = None) db = Some j"
    "\<exists>p. find_attempt (\<lambda>a. am_id a = attemptId \<and> am_job_id a = jobId \<and> p a) db = Some a"
    using r(1) pair by (auto simp: find_claim_context_row_def split: option.splits)
  then show thesis
    using that [of a j] r(2,3) pair ids by (auto simp: find_job_def find_attempt_def find_Some_iff)
qed

lemma found_context_ok:
  assumes "findClaimContext attemptId jobId db = Inr (Some c)"
  shows "context_ok c"
proof -
  obtain a j where schema: "claimContextRowSchema (a, j)" and c: "c = mapClaimContext (a, j)"
    by (rule context_row [OF assms])
  show ?thesis
    using schema
    by (auto simp: context_ok_def c mapClaimContext_def claimContextRowSchema_def r2CapabilityRequestSchema_def
        resultPrefixSchema_def not_null_def split: option.splits)
qed

lemma open_context_grants:
  assumes inv: "d1_inv db" and found: "findClaimContext (cw_attemptId i) (cw_jobId i) db = Inr (Some c)"
    and c: "open_context c" "cw_claimTokenHash i = cn_claimTokenHash c" "text_less (cw_timestamp i) (cn_claimExpiresAt c)"
    and ok: "winner_input_ok i" "\<forall>a \<in> set (d1_attempts db). attempt_checks a" "\<forall>j \<in> set (d1_jobs db). job_checks j"
    and fresh: "\<forall>b \<in> set (d1_attempts db). am_winning_runpod_job_id b \<noteq> Some (cw_runpodJobId i)"
  shows "claimWinner i db = (Inr True, perform (Claim_winner i) db db)"
proof -
  obtain a j where a: "a \<in> set (d1_attempts db)" "am_id a = cw_attemptId i" "am_job_id a = cw_jobId i"
    and j: "j \<in> set (d1_jobs db)" "jb_id j = cw_jobId i" "jb_deleted_at j = None"
    and schema: "claimContextRowSchema (a, j)" and map: "c = mapClaimContext (a, j)"
    by (rule context_row [OF found])
  have "claimable i db a"
    using schema c a unfolding map
    by (auto simp: claimable_def open_context_def mapClaimContext_def claimContextRowSchema_def not_null_def
        sql_greater_def split: option.splits)
  moreover have "jb_active_attempt_id j = Some (cw_attemptId i)" "jb_status j = SUBMITTING"
    using schema c(1) a(2) unfolding map
    by (auto simp: open_context_def mapClaimContext_def claimContextRowSchema_def not_null_def split: option.splits)
  ultimately show ?thesis
    using claimWinner_grants [OF inv a(1) _ _ j(1,2) _ _ j(3) _ fresh ok(1)] ok(2,3) a(1) j(1)
    by (auto simp: prod_eq_iff)
qed

section \<open>Signing\<close>

definition signs_https :: "(string \<Rightarrow> bool) \<Rightarrow> world \<Rightarrow> bool" where
  "signs_https url_ok w \<longleftrightarrow> (\<forall>c t. \<exists>u. wd_sign w c t = Inr u \<and> httpsUrlSchema url_ok u)"

lemma issue_alone:
  assumes "r2CapabilityRequestSchema q" "signs_https url_ok w"
  obtains urls where "run_alone w (issue_capabilities url_ok q) db = (Inr urls, db)"
    "list_all (httpsUrlSchema url_ok)
       [cu_jsonPutUrl urls, cu_manifestPutUrl urls, cu_markdownPutUrl urls, cu_sourceGetUrl urls, cu_srtPutUrl urls]"
    "cu_expiresAt urls = to_iso (wd_now w + R2_CAPABILITY_TTL_SECONDS * 1000)"
proof -
  define u where "u = (\<lambda>c t. projr (wd_sign w c t))"
  have u: "wd_sign w c t = Inr (u c t)" "httpsUrlSchema url_ok (u c t)" for c t
    using assms(2) unfolding u_def signs_https_def by (metis sum.sel(2))+
  show thesis
    using that assms(1) u(2)
    by (auto simp: issue_capabilities_def sign_url_def alone_bind u(1) Let_def)
qed

lemma grant_alone:
  assumes "context_ok c" "signs_https (ce_url_ok env) w" "httpsUrlSchema (ce_url_ok env) (ce_heartbeatUrl env)"
    and "runpodCapabilityTokenSchema (ct_raw heartbeat)"
    and "iso_time_range (wd_now w + R2_CAPABILITY_TTL_SECONDS * 1000)"
  obtains urls where "run_alone w (grant_claim env c heartbeat) db =
    (Inr (Claim_granted (claim_response_of env c heartbeat urls)), db)"
proof -
  obtain urls where urls: "run_alone w (issue_capabilities (ce_url_ok env) \<lparr>cq_resultPrefix = cn_resultPrefix c,
      cq_sourceBucket = cn_sourceBucket c, cq_sourceKey = cn_sourceKey c\<rparr>) db = (Inr urls, db)"
    and https: "list_all (httpsUrlSchema (ce_url_ok env))
      [cu_jsonPutUrl urls, cu_manifestPutUrl urls, cu_markdownPutUrl urls, cu_sourceGetUrl urls, cu_srtPutUrl urls]"
    and expires: "cu_expiresAt urls = to_iso (wd_now w + R2_CAPABILITY_TTL_SECONDS * 1000)"
    by (rule issue_alone [OF assms(1) [unfolded context_ok_def, THEN conjunct2, THEN conjunct2, THEN conjunct2,
            THEN conjunct2] assms(2)])
  have "utc_datetime_ok (cu_expiresAt urls)" unfolding expires by (rule utc_datetime_ok_to_iso [OF assms(5)])
  then have "runpodClaimResponseSchema (ce_url_ok env) (claim_response_of env c heartbeat urls)"
    using assms(1,3,4) https
    by (simp add: runpodClaimResponseSchema_def claim_response_of_def context_ok_def file_size_ok_def)
  then show thesis using that urls by (simp add: grant_claim_def alone_bind)
qed

section \<open>A valid claim\<close>

lemma expires_later:
  assumes "iso_time_range e" "iso_time_range now" "expires_after (to_iso e) now"
  shows "text_less (to_iso now) (to_iso e)"
  using assms by (simp add: expires_after_def text_less_to_iso)

text \<open>What a world must answer so that a claim at its time is granted.\<close>

definition granting_world :: "claim_environment \<Rightarrow> claim_request \<Rightarrow> world \<Rightarrow> bool" where
  "granting_world env request w \<longleftrightarrow>
     wd_verify w (cl_runpodJobId request) = Placement_verified \<and> signs_https (ce_url_ok env) w \<and>
     (\<forall>n. length (wd_random w n) = n) \<and> ulid_time_ok (wd_now w) \<and>
     iso_time_range (wd_now w) \<and> iso_time_range (wd_now w + HEARTBEAT_TOKEN_TTL_MS) \<and>
     iso_time_range (wd_now w + R2_CAPABILITY_TTL_SECONDS * 1000)"

definition environment_ok :: "claim_environment \<Rightarrow> bool" where
  "environment_ok env \<longleftrightarrow>
     (\<exists>v. createRunpodPlacementVerifier (ce_placement env) = Inr v) \<and>
     httpsUrlSchema (ce_url_ok env) (ce_heartbeatUrl env) \<and> (\<forall>s. length (ce_sha256 env s) = 32)"

lemma claim_verified_alone:
  assumes inv: "d1_inv db" and found: "findClaimContext (cl_attemptId request) (cl_jobId request) db = Inr (Some c)"
    and c: "open_context c" "cn_claimTokenHash c = observed" "cn_claimExpiresAt c = to_iso e" "iso_time_range e"
      "expires_after (to_iso e) (wd_now w)"
    and ok: "\<forall>a \<in> set (d1_attempts db). attempt_checks a" "\<forall>j \<in> set (d1_jobs db). job_checks j"
    and fresh: "\<forall>b \<in> set (d1_attempts db). am_winning_runpod_job_id b \<noteq> Some (cl_runpodJobId request)"
    and request: "runpodJobIdSchema (cl_runpodJobId request)" "sha256_hex_ok observed"
    and world: "granting_world env request w" "environment_ok env"
  shows "\<exists>r db'. run_alone w (claim_verified env request observed (wd_now w) c) db = (Inr (Claim_granted r), db')"
proof -
  have w: "length (wd_random w n) = n" "ulid_time_ok (wd_now w)" "iso_time_range (wd_now w)"
    "iso_time_range (wd_now w + HEARTBEAT_TOKEN_TTL_MS)" "signs_https (ce_url_ok env) w"
    "iso_time_range (wd_now w + R2_CAPABILITY_TTL_SECONDS * 1000)" for n
    using world(1) by (simp_all add: granting_world_def)
  have env: "httpsUrlSchema (ce_url_ok env) (ce_heartbeatUrl env)" "length (ce_sha256 env s) = 32" for s
    using world(2) by (simp_all add: environment_ok_def)
  define heartbeat where "heartbeat = \<lparr>ct_hash = encodeHex (ce_sha256 env (encodeBase64Url (wd_random w 32))),
    ct_raw = encodeBase64Url (wd_random w 32)\<rparr>"
  have token: "createCapabilityToken (ce_sha256 env) (\<lambda>_. wd_random w 32) = Inr heartbeat"
    "runpodCapabilityTokenSchema (ct_raw heartbeat)" "sha256_hex_ok (ct_hash heartbeat)"
    using createCapabilityToken_ok [of "\<lambda>_. wd_random w 32"] capabilityToken_of_random w(1) env(2) encodeHex_ok
    by (simp_all add: heartbeat_def)
  obtain eventId where event: "createUlid (Some (wd_now w)) (\<lambda>_. wd_random w ULID_RANDOM_BYTES) = Inr eventId" "ulid_ok eventId"
    using createUlid_eq [of "wd_now w" "\<lambda>_. wd_random w ULID_RANDOM_BYTES"] w ulid_ok_base32
    by (simp add: ULID_RANDOM_BYTES_def)
  define i where "i = winner_input_of request observed (wd_now w) heartbeat eventId"
  have i: "cw_attemptId i = cl_attemptId request" "cw_jobId i = cl_jobId request" "cw_claimTokenHash i = observed"
    "cw_timestamp i = to_iso (wd_now w)" "cw_runpodJobId i = cl_runpodJobId request"
    by (simp_all add: i_def winner_input_of_def)
  have "ulid_ok (cl_attemptId request)" using context_row [OF found] by blast
  then have "winner_input_ok i"
    using request token(3) event(2) utc_datetime_ok_to_iso w(3,4)
    by (simp add: winner_input_ok_def i_def winner_input_of_def)
  then have "claimWinner i db = (Inr True, perform (Claim_winner i) db db)"
    using inv found c ok fresh expires_later [OF c(4) w(3) c(5)] i by (intro open_context_grants [where c = c]) simp_all
  then have won: "fst (claimWinner i db) = Inr True" by (metis fst_conv)
  obtain urls where grant: "run_alone w (grant_claim env c heartbeat) (perform (Claim_winner i) db db) =
      (Inr (Claim_granted (claim_response_of env c heartbeat urls)), perform (Claim_winner i) db db)"
    by (rule grant_alone [OF found_context_ok [OF found] w(5) env(1) token(2) w(6)])
  then show ?thesis
    using token(1) event(1) won by (simp add: claim_verified_def alone_bind i_def [symmetric] Let_def)
qed

lemma claim_alone:
  assumes "d1_inv db" and found: "findClaimContext (cl_attemptId request) (cl_jobId request) db = Inr (Some c)"
    and c: "open_context c" "cn_claimExpiresAt c = to_iso e" "iso_time_range e" "expires_after (to_iso e) (wd_now w)"
    and token: "runpodCapabilityTokenSchema (cl_claimToken request)"
      "cn_claimTokenHash c = encodeHex (ce_sha256 env (cl_claimToken request))"
    and "\<forall>a \<in> set (d1_attempts db). attempt_checks a" "\<forall>j \<in> set (d1_jobs db). job_checks j"
    and "\<forall>b \<in> set (d1_attempts db). am_winning_runpod_job_id b \<noteq> Some (cl_runpodJobId request)"
    and "runpodJobIdSchema (cl_runpodJobId request)"
    and world: "granting_world env request w" "environment_ok env"
  shows "\<exists>r db'. run_alone w (claimRunpodExecution env request) db = (Inr (Claim_granted r), db')"
proof -
  define observed where "observed = encodeHex (ce_sha256 env (cl_claimToken request))"
  have hashed: "hashCapabilityToken (ce_sha256 env) (cl_claimToken request) = Inr observed"
    using token(1) by (simp add: hashCapabilityToken_def observed_def)
  have valid: "sha256_hex_ok observed" using world(2) encodeHex_ok by (simp add: environment_ok_def observed_def)
  have allowed: "claimContextAllowsAuthentication (Some c) observed (wd_now w)"
    using c token(2) valid
    by (simp add: claimContextAllowsAuthentication_def timingSafeHashEqual_iff open_context_def observed_def)
  obtain v where "createRunpodPlacementVerifier (ce_placement env) = Inr v"
    using world(2) by (auto simp: environment_ok_def)
  moreover have "wd_verify w (cl_runpodJobId request) = Placement_verified"
    using world(1) by (simp add: granting_world_def)
  moreover obtain r db' where "run_alone w (claim_verified env request observed (wd_now w) c) db = (Inr (Claim_granted r), db')"
    using claim_verified_alone [OF assms(1) found c(1) _ c(2-4) _ _ _ _ valid world] assms token(2)
    by (auto simp: observed_def)
  ultimately show ?thesis
    using hashed found allowed c(1)
    by (simp add: claimRunpodExecution_def claim_authenticated_def alone_bind open_context_def)
qed

end
