(* ===== verification/ServiceExample.thy ===== *)
theory ServiceExample
  imports ServiceGrants CompletionExample
begin

text \<open>
  A concrete world and a concrete worker. The witnesses of the properties of the services evaluate
  their tasks in it.
\<close>

definition ex_token :: string where "ex_token = encodeBase64Url (replicate 32 0)"

definition ex_sha256 :: "string \<Rightarrow> 8 word list" where "ex_sha256 _ = replicate 32 0"

lemma ex_sha256_hash [simp]: "encodeHex (ex_sha256 s) = ex_hash"
  unfolding ex_sha256_def ex_hash_def by code_simp

lemma ex_sha256_length [simp]: "length (ex_sha256 s) = 32"
  by (simp add: ex_sha256_def)

lemma ex_token_ok [simp]: "runpodCapabilityTokenSchema ex_token" "hashCapabilityToken ex_sha256 ex_token = Inr ex_hash"
  by (simp_all add: hashCapabilityToken_def capabilityToken_of_random ex_token_def)

definition ex_time :: int where "ex_time = 1735689600000"

lemma ex_time_iso [simp]: "to_iso ex_time = ex_at" "to_iso (ex_time + CLAIM_TOKEN_TTL_MS) = ex_expiry"
  unfolding ex_time_def CLAIM_TOKEN_TTL_MS_def ex_at_def ex_expiry_def by code_simp+

lemma ex_time_ranges [simp]:
  "iso_time_range ex_time" "iso_time_range (ex_time + CLAIM_TOKEN_TTL_MS)"
  "iso_time_range (ex_time + HEARTBEAT_TOKEN_TTL_MS)"
  "iso_time_range (ex_time + R2_CAPABILITY_TTL_SECONDS * 1000)" "ulid_time_ok ex_time"
  by code_simp+

definition ex_world :: world where
  "ex_world = \<lparr>wd_now = ex_time, wd_random = (\<lambda>n. replicate n 0),
     wd_submit = (\<lambda>_. Submission_accepted ''r''), wd_status = (\<lambda>_. Status_not_found),
     wd_stop = (\<lambda>_. Stop_accepted), wd_verify = (\<lambda>_. Placement_verified),
     wd_sign = (\<lambda>_ _. Inr ''https://r2''), wd_object = (\<lambda>_. Inr None), wd_head = (\<lambda>_. Inr None)\<rparr>"

definition ex_gpu :: string where "ex_gpu = ''NVIDIA L4''"

definition ex_placement :: verifier_options where
  "ex_placement = \<lparr>vo_allowedGpuTypeIds = [ex_gpu], vo_apiKey = replicate 16 (CHR ''k''), vo_endpointId = ''e'',
     vo_expectedImage = ''ghcr.io/o/scribe-drop-runpod-worker@sha256:'' @ ex_hash, vo_timeoutMilliseconds = None\<rparr>"

lemma ex_placement_ok: "createRunpodPlacementVerifier ex_placement = Inr ex_placement"
proof -
  have "resourceIdSchema ''e''" "gpuTypeIdSchema ex_gpu" "apiKeySchema (replicate 16 (CHR ''k''))"
    "immutableWorkerImageSchema (''ghcr.io/o/scribe-drop-runpod-worker@sha256:'' @ ex_hash)"
    unfolding ex_hash_def ex_gpu_def by code_simp+
  then show ?thesis by (simp add: createRunpodPlacementVerifier_def ex_placement_def)
qed

definition ex_claim_environment :: claim_environment where
  "ex_claim_environment = \<lparr>ce_sha256 = ex_sha256, ce_url_ok = (\<lambda>_. True), ce_heartbeatUrl = ''https://o'',
     ce_placement = ex_placement\<rparr>"

definition ex_claim_request :: claim_request where
  "ex_claim_request = \<lparr>cl_attemptId = ex_attempt_id, cl_claimToken = ex_token, cl_jobId = ex_job_id,
     cl_runpodJobId = ''r''\<rparr>"

lemma ex_claim_fields [simp]:
  "cl_attemptId ex_claim_request = ex_attempt_id" "cl_claimToken ex_claim_request = ex_token"
  "cl_jobId ex_claim_request = ex_job_id" "cl_runpodJobId ex_claim_request = ''r''"
  "ce_sha256 ex_claim_environment = ex_sha256" "wd_now ex_world = ex_time"
  "ce_placement ex_claim_environment = ex_placement"
  by (simp_all add: ex_claim_request_def ex_claim_environment_def ex_world_def)

lemma ex_world_grants: "granting_world ex_claim_environment ex_claim_request ex_world" "environment_ok ex_claim_environment"
  using ex_placement_ok
  by (auto simp: granting_world_def environment_ok_def signs_https_def httpsUrlSchema_def ex_world_def
      ex_claim_environment_def)

section \<open>The claim of an attempt that is being submitted\<close>

definition ex_claimable :: d1 where
  "ex_claimable = ex_submitting\<lparr>d1_executions := [ex_execution ex_attempt]\<rparr>"

lemma ex_claimable_tables [simp]:
  "d1_jobs ex_claimable = [ex_submitting_row]" "d1_attempts ex_claimable = [ex_attempt]"
  "d1_executions ex_claimable = [ex_execution ex_attempt]"
  by (simp_all add: ex_claimable_def)

lemma ex_claimable_inv: "d1_inv ex_claimable"
  by (simp add: d1_inv_def d1_keys_def winners_unique_def active_attempts_exist_def attempts_belong_def
      statuses_agree_def deleted_attempts_end_def single_flight_def rejected_attempts_end_def
      open_attempt_def status_lists UPLOAD_STATUSES_def)

definition ex_context :: claim_context where "ex_context = mapClaimContext (ex_attempt, ex_submitting_row)"

lemma ex_context_fields [simp]:
  "open_context ex_context" "cn_claimTokenHash ex_context = ex_hash" "cn_claimExpiresAt ex_context = ex_expiry"
  by (simp_all add: open_context_def ex_context_def mapClaimContext_def)

lemma ex_context_schema: "claimContextRowSchema (ex_attempt, ex_submitting_row)"
proof -
  have "runpodExecutionOptionsSchema (execution_options runpod_selection ex_options)" by code_simp
  moreover have "resultPrefixSchema (ingest_result_prefix ex_ingest)"
    using ex_prefix_ok by (simp add: outcomePrefixSchema_def resultPrefixSchema_def)
  ultimately show ?thesis
    by (simp add: claimContextRowSchema_def not_null_def nullable_def file_size_ok_def MAX_FILE_SIZE_BYTES_def
        ex_submitting_row_def submitting_row_def ex_ingested_row_def)
qed

lemma ex_context_found: "findClaimContext ex_attempt_id ex_job_id ex_claimable = Inr (Some ex_context)"
proof -
  have "am_runpod_terminal_status ex_attempt = None"
    by (simp add: ex_attempt_def prepared_row_def ingested_attempt_def)
  then have "find_claim_context_row ex_attempt_id ex_job_id ex_claimable = Some (ex_attempt, ex_submitting_row)"
    by (simp add: find_claim_context_row_def find_job_def find_attempt_def execution_matches_def ex_execution_def
        claim_execution_status_def)
  then show ?thesis using ex_context_schema by (simp add: findClaimContext_def ex_context_def)
qed

lemma ex_claim_schema [simp]: "runpodJobIdSchema ''r''"
  by (simp add: runpodJobIdSchema_def)

lemma ex_expires: "ex_expiry = to_iso (ex_time + CLAIM_TOKEN_TTL_MS)"
    "expires_after (to_iso (ex_time + CLAIM_TOKEN_TTL_MS)) ex_time"
proof -
  show "ex_expiry = to_iso (ex_time + CLAIM_TOKEN_TTL_MS)" by simp
  show "expires_after (to_iso (ex_time + CLAIM_TOKEN_TTL_MS)) ex_time"
    unfolding expires_after_def date_parse_to_iso [OF ex_time_ranges(2)] by (simp add: CLAIM_TOKEN_TTL_MS_def)
qed

lemma ex_granted:
  obtains r db' where "run_alone ex_world (claimRunpodExecution ex_claim_environment ex_claim_request) ex_claimable =
    (Inr (Claim_granted r), db')"
  using claim_alone [OF ex_claimable_inv, of ex_claim_request ex_context "ex_time + CLAIM_TOKEN_TTL_MS" ex_world ex_claim_environment]
    ex_context_found ex_attempt_checks ex_submitting_checks ex_world_grants ex_expires
  by auto

text \<open>The same as a run, in the history that starts with the database.\<close>

lemma ex_granted_run:
  obtains r es new g where "task_run (claimRunpodExecution ex_claim_environment ex_claim_request) [ex_claimable] es (new # g)
    (Some (Inr (Claim_granted r)))"
proof -
  obtain r db' where "run_alone ex_world (claimRunpodExecution ex_claim_environment ex_claim_request) ex_claimable =
    (Inr (Claim_granted r), db')" by (rule ex_granted)
  then show thesis
    using that alone_is_run [of "claimRunpodExecution ex_claim_environment ex_claim_request" ex_claimable "[]" ex_world] by auto
qed

section \<open>A submission\<close>

lemma ex_ingested_inv: "d1_inv ex_ingested"
  using history_sound [OF history.request [OF ex_history, of ex_created "Ingest_source ex_ingest"]] ex_ingest_run
  by simp

lemma ex_ingested_tables [simp]:
  "d1_jobs ex_ingested = [ex_ingested_row]" "d1_attempts ex_ingested = [ingested_attempt ex_ingest]"
  by (simp_all add: ex_ingested_def)

lemma ex_prepared:
  obtains db' where "prepareSubmission ex_job_id ex_hash ex_at ex_expiry ex_ingested =
    (Inr (Some \<lparr>ps_attemptId = ex_attempt_id, ps_generation = 1, ps_jobId = ex_job_id\<rparr>), db')"
proof -
  note effect = ingested_effect [OF ex_created_inv ex_ingest_run]
  obtain j where j: "j \<in> set (d1_jobs ex_created)" "ingestible ex_ingest j"
    and checks: "job_checks (ingested_row ex_ingest j)" "attempt_checks (ingested_attempt ex_ingest)"
    and jobs: "d1_jobs ex_ingested = update_where (\<lambda>x. jb_id x = jb_id j) (\<lambda>_. ingested_row ex_ingest j) (d1_jobs ex_created)"
    and rows: "d1_executions ex_ingested = d1_executions ex_created @ execution_of_attempt (ingested_attempt ex_ingest)"
    using effect by blast
  have id: "jb_id j = ex_job_id" using j(1) by simp
  then have row: "ex_ingested_row = ingested_row ex_ingest j" using jobs j(1) by (simp add: update_where_def)
  have "submittable (jb_id j) ex_ingested (ingested_attempt ex_ingest)"
    by (rule ingested_submittable [OF ex_ingested_inv j]) (use row rows ex_options_ok in \<open>simp_all add: ex_ingest_def ex_source_def\<close>)
  then show thesis
    using prepareSubmission_submits [OF ex_ingested_inv, of "ingested_attempt ex_ingest" ex_job_id ex_at ex_expiry ex_hash]
      checks row that by (simp add: id ingested_attempt_def) blast
qed

lemma ex_sent_run:
  obtains q x es h' where "task_run (submitPendingRunpodJob ex_sha256 ex_job_id) [ex_ingested] es h' None"
    "Submitted q x \<in> set es"
proof -
  obtain db' where prepared: "prepareSubmission ex_job_id ex_hash ex_at ex_expiry ex_ingested =
    (Inr (Some \<lparr>ps_attemptId = ex_attempt_id, ps_generation = 1, ps_jobId = ex_job_id\<rparr>), db')" by (rule ex_prepared)
  have token: "createCapabilityToken ex_sha256 (\<lambda>_. replicate 32 0) = Inr \<lparr>ct_hash = ex_hash, ct_raw = ex_token\<rparr>"
    by (simp add: createCapabilityToken_ok ex_token_def)
  let ?p = "\<lparr>ps_attemptId = ex_attempt_id, ps_generation = 1, ps_jobId = ex_job_id\<rparr>"
  let ?q = "run_request_of ?p \<lparr>ct_hash = ex_hash, ct_raw = ex_token\<rparr>"
  have valid: "runpodRunRequestSchema (run_request_json ?q)"
    by (rule run_request_valid) (simp_all add: run_request_of_def)
  let ?w = "Prepare_submission ex_job_id ex_hash ex_at ex_expiry"
  have "task_run (Submit ?q (\<lambda>result. Clock (record_outcome ?p result))) [perform ?w ex_ingested ex_ingested, ex_ingested]
      [Submitted ?q Submission_rejected] [perform ?w ex_ingested ex_ingested, ex_ingested] None"
    by (rule task_run.submit, rule task_run.stopped)
  then have "task_run (submitPendingRunpodJob ex_sha256 ex_job_id) [ex_ingested]
      [Wrote ?w ex_ingested, Submitted ?q Submission_rejected] [perform ?w ex_ingested ex_ingested, ex_ingested] None"
    unfolding submitPendingRunpodJob_def
    by (intro task_run.clock [where t = ex_time] task_run.random [where bytes = "replicate 32 0"])
      (auto simp: token write_db_def prepared valid Let_def simp del: perform.simps One_nat_def intro!: task_run.written)
  then show thesis using that by auto
qed

section \<open>A heartbeat of the worker that won\<close>

definition ex_running_attempt :: attempt_row where "ex_running_attempt = claimed_attempt ex_winner ex_attempt"

lemma ex_running_attempt_fields [simp]:
  "am_id ex_running_attempt = ex_attempt_id" "am_job_id ex_running_attempt = ex_job_id"
  "am_generation ex_running_attempt = 1" "am_status ex_running_attempt = ATT_RUNNING"
  "am_claim_token_hash ex_running_attempt = Some ex_hash" "am_claim_issued_at ex_running_attempt = Some ex_at"
  "am_claim_expires_at ex_running_attempt = Some ex_expiry" "am_claim_consumed_at ex_running_attempt = Some ex_at"
  "am_winning_runpod_job_id ex_running_attempt = Some ''r''" "am_submission_outcome ex_running_attempt = None"
  "am_heartbeat_token_hash ex_running_attempt = Some ex_hash" "am_heartbeat_issued_at ex_running_attempt = Some ex_at"
  "am_heartbeat_expires_at ex_running_attempt = Some ex_expiry" "am_heartbeat_revoked_at ex_running_attempt = None"
  "am_runpod_terminal_status ex_running_attempt = None"
  "am_result_prefix ex_running_attempt = ingest_result_prefix ex_ingest"
  "am_provider_kind ex_running_attempt = Some ''runpod_serverless''"
  "am_provider_policy ex_running_attempt = Some ''runpod_serverless_v1''"
  "am_contract_version ex_running_attempt = Some 1"
  "am_execution_options ex_running_attempt = Some (execution_options runpod_selection ex_options)"
  by (simp_all add: ex_running_attempt_def claimed_attempt_def)
    (simp add: ex_attempt_def prepared_row_def ingested_attempt_def)

definition ex_running :: d1 where
  "ex_running = empty_d1\<lparr>d1_jobs := [ex_running_row], d1_attempts := [ex_running_attempt],
     d1_executions := [ex_execution ex_running_attempt]\<rparr>"

lemma ex_running_tables [simp]:
  "d1_jobs ex_running = [ex_running_row]" "d1_attempts ex_running = [ex_running_attempt]"
  "d1_executions ex_running = [ex_execution ex_running_attempt]"
  by (simp_all add: ex_running_def empty_d1_def)

lemma ex_running_inv: "d1_inv ex_running"
  by (simp add: d1_inv_def d1_keys_def winners_unique_def active_attempts_exist_def attempts_belong_def
      statuses_agree_def deleted_attempts_end_def single_flight_def rejected_attempts_end_def
      open_attempt_def status_lists UPLOAD_STATUSES_def List.map_filter_simps)

definition ex_heartbeat :: heartbeat_request where
  "ex_heartbeat = \<lparr>hb_attemptId = ex_attempt_id, hb_heartbeatToken = ex_token, hb_jobId = ex_job_id,
     hb_runpodJobId = ''r''\<rparr>"

lemma ex_heartbeat_fields [simp]:
  "hb_attemptId ex_heartbeat = ex_attempt_id" "hb_heartbeatToken ex_heartbeat = ex_token"
  "hb_jobId ex_heartbeat = ex_job_id" "hb_runpodJobId ex_heartbeat = ''r''"
  by (simp_all add: ex_heartbeat_def)

lemma ex_running_found:
  "findClaimContext ex_attempt_id ex_job_id ex_running = Inr (Some (mapClaimContext (ex_running_attempt, ex_running_row)))"
proof -
  have "find_claim_context_row ex_attempt_id ex_job_id ex_running = Some (ex_running_attempt, ex_running_row)"
    by (simp add: find_claim_context_row_def find_job_def find_attempt_def execution_matches_def ex_execution_def
        claim_execution_status_def)
  moreover have "claimContextRowSchema (ex_running_attempt, ex_running_row)"
    using ex_context_schema
    by (simp add: claimContextRowSchema_def not_null_def nullable_def ex_running_row_def)
  ultimately show ?thesis by (simp add: findClaimContext_def)
qed

lemma ex_heartbeat_accepted:
  obtains db' where "run_alone ex_world (recordRunpodHeartbeat ex_sha256 ex_heartbeat) ex_running =
    (Inr (Heartbeat_accepted False), db')"
proof -
  let ?c = "mapClaimContext (ex_running_attempt, ex_running_row)"
  have allowed: "heartbeat_allowed ex_heartbeat ex_hash ex_time ?c"
    using ex_expires(2)
    by (simp add: heartbeat_allowed_def mapClaimContext_def timingSafeHashEqual_iff)
  have "attempt_checks (ex_running_attempt\<lparr>am_heartbeat_at := Some ex_at, am_updated_at := ex_at\<rparr>)"
    using ex_attempt_checks by (simp add: attempt_checks_def ex_running_attempt_def claimed_attempt_def)
  then have "fst (markHeartbeat ex_attempt_id ex_hash ex_job_id ''r'' ex_at ex_running) = Inr True"
    by (simp add: markHeartbeat_def heartbeat_sql_def update_attempts_def update_where_def sql_greater_def
        winners_unique_def answer_attempt_def updatedJobIdRowsSchema_def List.map_filter_simps)
  then show thesis
    using that ex_running_found allowed
    by (simp add: recordRunpodHeartbeat_def alone_bind Let_def mapClaimContext_def)
qed

lemma ex_heartbeat_run:
  obtains es g where "task_run (recordRunpodHeartbeat ex_sha256 ex_heartbeat) [ex_running] es g
    (Some (Inr (Heartbeat_accepted False)))"
  using ex_heartbeat_accepted alone_is_run [of "recordRunpodHeartbeat ex_sha256 ex_heartbeat" ex_running "[]" ex_world]
  by (metis fst_conv)

end
