(* ===== verification/ServiceProperties.thy ===== *)
theory ServiceProperties
  imports ServiceExample
begin

text \<open>
  The properties of the RunPod services, run as tasks while other requests are performed in between:
  what is sent to RunPod, who is granted a claim, what a heartbeat proves, and what happens when a
  worker is faster than the answer to its submission. A run may also be stopped at any point.
\<close>

text \<open>Claim C6. Whatever runs at the same time, the submission service sends RunPod at most one request,
  and only right after it prepared the attempt of this request: the attempt was waiting for its first
  submission, and the hash that was stored is the hash of the token in the request. However the history
  goes on, this attempt is never prepared, and so never sent, again.\<close>

theorem submission_sent_once:
  assumes h: "history h" and run: "task_run (submitPendingRunpodJob sha256 jobId) h es h' out"
    and sent: "Submitted q x \<in> set es"
  shows "\<exists>db hash t e es'. es = Wrote (Prepare_submission jobId hash t e) db # Submitted q x # es' \<and>
    (\<forall>q' x'. Submitted q' x' \<notin> set es') \<and> hash = encodeHex (sha256 (rn_claimToken q)) \<and>
    (\<exists>a \<in> set (d1_attempts db). submittable jobId db a \<and> rn_attemptId q = am_id a \<and> rn_jobId q = am_job_id a) \<and>
    (\<forall>new g j2 hash2 t2 e2 p2. history (new # g) \<and> suffix h' (new # g) \<and>
       fst (prepareSubmission j2 hash2 t2 e2 new) = Inr (Some p2) \<longrightarrow> ps_attemptId p2 \<noteq> rn_attemptId q)"
proof -
  have "submission_sent sha256 jobId h es h' out"
    using submission_run [OF run h] sent by (auto simp: nothing_sent_def)
  then obtain db g p claim t e y gg es' where db: "history (db # g)"
    and prepared: "prepareSubmission jobId (ct_hash claim) t e db =
      (Inr (Some p), perform (Prepare_submission jobId (ct_hash claim) t e) db db)"
    and hash: "ct_hash claim = encodeHex (sha256 (ct_raw claim))"
    and es: "es = Wrote (Prepare_submission jobId (ct_hash claim) t e) db # Submitted (run_request_of p claim) y # es'"
    and gg: "suffix (perform (Prepare_submission jobId (ct_hash claim) t e) db db # db # g) gg" "history gg"
    and rest: "task_run (Clock (record_outcome p y)) gg es' h' out"
    unfolding submission_sent_def Let_def by blast
  let ?db = "perform (Prepare_submission jobId (ct_hash claim) t e) db db"
  have inv: "d1_inv db" using history_sound [OF db] by simp
  have once: "Submitted q' x' \<notin> set es'" for q' x'
    using effects_may_call [OF rest, of "Submitted q' x'"] record_outcome_no_submit by auto
  then have q: "q = run_request_of p claim" "x = y" using sent es by auto
  obtain a where a: "a \<in> set (d1_attempts db)" "submittable jobId db a" "ps_attemptId p = am_id a" "ps_jobId p = am_job_id a"
    by (rule prepared_attempt [OF inv prepared])
  have never: "ps_attemptId p2 \<noteq> rn_attemptId q"
    if new: "history (new # k)" "suffix h' (new # k)" "fst (prepareSubmission j2 hash2 t2 e2 new) = Inr (Some p2)"
    for new k j2 hash2 t2 e2 p2
  proof -
    have "suffix gg h'" using task_run_history [OF rest gg(2)] by blast
    then have "?db \<in> set (new # k)"
      using set_mono_suffix [OF suffix_order.trans [OF suffix_order.trans [OF gg(1)] new(2)]] by auto
    then show ?thesis
      using never_prepared_again [OF inv prepared history_later [OF new(1)]] new(3) q(1)
      by (metis prod.collapse run_request.select_convs(1) run_request_of_def)
  qed
  show ?thesis
    using es q once hash a never
    by (intro exI [of _ db] exI [of _ "ct_hash claim"] exI [of _ t] exI [of _ e] exI [of _ es'])
      (auto simp: run_request_of_def)
qed

theorem submission_sent_once_witness:
  "\<exists>q x es h'. task_run (submitPendingRunpodJob ex_sha256 ex_job_id) [ex_ingested] es h' None \<and>
     Submitted q x \<in> set es \<and>
     (\<exists>db hash t e es'. es = Wrote (Prepare_submission ex_job_id hash t e) db # Submitted q x # es' \<and> hash = ex_hash)"
proof -
  obtain q x es h' where run: "task_run (submitPendingRunpodJob ex_sha256 ex_job_id) [ex_ingested] es h' None"
    and sent: "Submitted q x \<in> set es" by (rule ex_sent_run)
  show ?thesis
    using submission_sent_once [OF history.start [OF ex_ingested_inv] run sent] run sent
    unfolding ex_sha256_hash by blast
qed

text \<open>Claim C5. A claim that is granted, whatever runs at the same time, was granted after RunPod
  confirmed the placement of the worker's job; from then on the attempt's winner is this job, the
  stored hash is the hash of the token the worker presented, and the ETag the worker is told to expect
  is the one of the job's source.\<close>

theorem granted_worker_is_verified_winner:
  assumes "history h" "task_run (claimRunpodExecution env request) h es h' (Some (Inr (Claim_granted r)))"
    and later: "suffix h' (newer # k)" "history (newer # k)"
  shows "Verified (cl_runpodJobId request) Placement_verified \<in> set es \<and>
    (\<exists>a \<in> set (d1_attempts newer). am_id a = cl_attemptId request \<and>
       am_winning_runpod_job_id a = Some (cl_runpodJobId request) \<and>
       am_claim_token_hash a = Some (encodeHex (ce_sha256 env (cl_claimToken request)))) \<and>
    (\<exists>j \<in> set (d1_jobs newer). jb_id j = cl_jobId request \<and> jb_source_etag j = Some (ca_expectedEtag r))"
proof -
  have won: "claim_won env request r es h'" by (rule granted_run [OF assms(2,1)])
  then have "Verified (cl_runpodJobId request) Placement_verified \<in> set es" by (auto simp: claim_won_def)
  then show ?thesis using claim_won_later [OF won later] claim_won_source [OF won later] by metis
qed

theorem granted_worker_is_verified_winner_witness:
  "\<exists>r es new g. task_run (claimRunpodExecution ex_claim_environment ex_claim_request) [ex_claimable] es (new # g)
       (Some (Inr (Claim_granted r))) \<and>
     (\<exists>a \<in> set (d1_attempts new). am_winning_runpod_job_id a = Some ''r'')"
proof -
  note start = history.start [OF ex_claimable_inv]
  obtain r es new g where run: "task_run (claimRunpodExecution ex_claim_environment ex_claim_request) [ex_claimable] es
    (new # g) (Some (Inr (Claim_granted r)))" by (rule ex_granted_run)
  have "history (new # g)" using task_run_history [OF run start] by blast
  then show ?thesis
    using granted_worker_is_verified_winner [OF start run suffix_order.refl] run by auto
qed

text \<open>Claim C7. Two workers that are granted a claim of one attempt, in one history of requests and
  however their claims are interleaved with each other and with other requests, are one RunPod job, and
  both presented a token with the stored hash.\<close>

theorem one_worker_is_granted:
  assumes first: "history h1" "task_run (claimRunpodExecution env1 q1) h1 es1 g1 (Some (Inr (Claim_granted r1)))"
    and second: "history h2" "task_run (claimRunpodExecution env2 q2) h2 es2 g2 (Some (Inr (Claim_granted r2)))"
    and same: "cl_attemptId q1 = cl_attemptId q2"
    and whole: "history (newer # k)" "suffix g1 (newer # k)" "suffix g2 (newer # k)"
  shows "cl_runpodJobId q1 = cl_runpodJobId q2 \<and>
    encodeHex (ce_sha256 env1 (cl_claimToken q1)) = encodeHex (ce_sha256 env2 (cl_claimToken q2))"
proof -
  have keys: "d1_keys newer" using history_sound [OF whole(1)] by (simp add: d1_inv_def)
  obtain a where a: "a \<in> set (d1_attempts newer)" "am_id a = cl_attemptId q1"
    "am_winning_runpod_job_id a = Some (cl_runpodJobId q1)"
    "am_claim_token_hash a = Some (encodeHex (ce_sha256 env1 (cl_claimToken q1)))"
    by (rule claim_won_later [OF granted_run [OF first(2,1)] whole(2,1)])
  obtain b where b: "b \<in> set (d1_attempts newer)" "am_id b = cl_attemptId q2"
    "am_winning_runpod_job_id b = Some (cl_runpodJobId q2)"
    "am_claim_token_hash b = Some (encodeHex (ce_sha256 env2 (cl_claimToken q2)))"
    by (rule claim_won_later [OF granted_run [OF second(2,1)] whole(3,1)])
  have "a = b" by (rule attempt_unique [OF keys a(1) b(1)]) (simp add: a(2) b(2) same)
  then show ?thesis using a(3,4) b(3,4) by simp
qed

theorem one_worker_is_granted_witness:
  "\<exists>r es g. task_run (claimRunpodExecution ex_claim_environment ex_claim_request) [ex_claimable] es g
       (Some (Inr (Claim_granted r))) \<and>
     (\<forall>q h2 es2 r2. cl_attemptId q = ex_attempt_id \<and> history h2 \<and>
        task_run (claimRunpodExecution ex_claim_environment q) h2 es2 g (Some (Inr (Claim_granted r2))) \<longrightarrow>
        cl_runpodJobId q = ''r'')"
proof -
  note start = history.start [OF ex_claimable_inv]
  obtain r es new g where run: "task_run (claimRunpodExecution ex_claim_environment ex_claim_request) [ex_claimable] es
    (new # g) (Some (Inr (Claim_granted r)))" by (rule ex_granted_run)
  have "history (new # g)" using task_run_history [OF run start] by blast
  then have "cl_runpodJobId q = ''r''" if "cl_attemptId q = ex_attempt_id" "history h2"
    "task_run (claimRunpodExecution ex_claim_environment q) h2 es2 (new # g) (Some (Inr (Claim_granted r2)))" for q h2 es2 r2
    using one_worker_is_granted [OF start run that(2,3) _ _ suffix_order.refl suffix_order.refl] that(1) by auto
  then show ?thesis using run by blast
qed

text \<open>Claim C8. A worker that presents the token of the attempt in time, while the attempt and its job are
  being submitted and nobody has claimed it, is granted the claim when nothing else happens at the same
  time: RunPod confirms its placement, the environment is valid, and the URLs can be signed. The job
  must not have won another attempt.\<close>

theorem valid_claim_is_granted:
  assumes "history (db # h)"
    and "findClaimContext (cl_attemptId request) (cl_jobId request) db = Inr (Some c)"
    and "open_context c" "cn_claimExpiresAt c = to_iso e" "iso_time_range e" "expires_after (to_iso e) (wd_now w)"
    and "runpodCapabilityTokenSchema (cl_claimToken request)"
      "cn_claimTokenHash c = encodeHex (ce_sha256 env (cl_claimToken request))"
    and "\<forall>a \<in> set (d1_attempts db). attempt_checks a" "\<forall>j \<in> set (d1_jobs db). job_checks j"
    and "\<forall>b \<in> set (d1_attempts db). am_winning_runpod_job_id b \<noteq> Some (cl_runpodJobId request)"
    and "runpodJobIdSchema (cl_runpodJobId request)"
    and "granting_world env request w" "environment_ok env"
  shows "\<exists>r db'. run_alone w (claimRunpodExecution env request) db = (Inr (Claim_granted r), db')"
proof -
  have "d1_inv db" using history_sound [OF assms(1)] by simp
  then show ?thesis by (rule claim_alone [OF _ assms(2-)])
qed

theorem valid_claim_is_granted_witness:
  "\<exists>r db'. run_alone ex_world (claimRunpodExecution ex_claim_environment ex_claim_request) ex_claimable =
     (Inr (Claim_granted r), db')"
  using valid_claim_is_granted [OF history.start [OF ex_claimable_inv], of ex_claim_request ex_context
      "ex_time + CLAIM_TOKEN_TTL_MS" ex_world ex_claim_environment]
    ex_context_found ex_attempt_checks ex_submitting_checks ex_world_grants ex_expires
  by auto

text \<open>Claim C28. A worker may claim its execution before the orchestrator has recorded RunPod's answer to
  the submission, for the answer and the worker's request are two requests. Then neither the accepted
  answer nor an unknown outcome can be recorded, since both ask that the attempt is still being
  submitted: the submission service never returns, it always throws, although the worker runs.\<close>

theorem early_claim_fails_submission:
  assumes now: "history (db # g)" and claimed: "claimWinner i db = (Inr True, db')"
    and later: "history (new # h)" "db' \<in> set (new # h)" "ps_attemptId p = cw_attemptId i"
    and run: "task_run (record_outcome p (Submission_accepted runpodJobId) t) (new # h) es h' (Some result)"
  shows "\<exists>e. result = Inl e"
proof (cases result)
  case (Inr y)
  have "no_longer_submitting (ps_attemptId p) db2" if "history (db2 # k)" "suffix (new # h) (db2 # k)" for db2 k
    using claimed_later [OF now claimed that(1)] set_mono_suffix [OF that(2)] later(2,3) by auto
  then have False using accepted_claimed [OF run [unfolded Inr] later(1)] by blast
  then show ?thesis ..
qed simp

theorem early_claim_fails_submission_witness:
  "\<exists>db'. claimWinner ex_winner ex_submitting = (Inr True, db') \<and>
     (\<exists>e. fst (run_alone ex_world (record_outcome \<lparr>ps_attemptId = ex_attempt_id, ps_generation = 1, ps_jobId = ex_job_id\<rparr>
        (Submission_accepted ''r'') ex_time) db') = Inl e)"
proof -
  obtain db' where run: "claimWinner ex_winner ex_submitting = (Inr True, db')" using ex_claim by blast
  have start: "history [ex_submitting]" by (rule history.start [OF ex_submitting_inv])
  have h: "history [db', ex_submitting]"
    using history.request [OF start, of ex_submitting "Claim_winner ex_winner"] run by simp
  let ?t = "record_outcome \<lparr>ps_attemptId = ex_attempt_id, ps_generation = 1, ps_jobId = ex_job_id\<rparr>
    (Submission_accepted ''r'') ex_time"
  obtain es g where "task_run ?t [db', ex_submitting] es g (Some (fst (run_alone ex_world ?t db')))"
    using alone_is_run by blast
  then have "\<exists>e. fst (run_alone ex_world ?t db') = Inl e"
    by (intro early_claim_fails_submission [OF start run h]) simp_all
  then show ?thesis using run by blast
qed

text \<open>Claim C29. A heartbeat is accepted only of the winner of an attempt that runs, or is being cancelled,
  and only with the token whose hash was stored when the claim was granted, before that token expires
  and while it is not revoked; the job is not deleted. The worker is told to stop when the attempt or
  the job was being cancelled when the heartbeat was authenticated.\<close>

theorem heartbeat_of_running_winner:
  assumes "history h"
    and "task_run (recordRunpodHeartbeat sha256 request) h es h' (Some (Inr (Heartbeat_accepted cancelRequested)))"
  shows "\<exists>old db now. old \<in> set h' \<and> db \<in> set h' \<and>
    (\<exists>a \<in> set (d1_attempts db). \<exists>j \<in> set (d1_jobs db). am_id a = hb_attemptId request \<and> jb_id j = hb_jobId request \<and>
       jb_active_attempt_id j = Some (am_id a) \<and> jb_deleted_at j = None \<and>
       am_winning_runpod_job_id a = Some (hb_runpodJobId request) \<and>
       am_heartbeat_token_hash a = Some (encodeHex (sha256 (hb_heartbeatToken request))) \<and>
       am_heartbeat_revoked_at a = None \<and> sql_greater (am_heartbeat_expires_at a) (to_iso now) \<and>
       am_status a \<in> {ATT_RUNNING, ATT_CANCEL_REQUESTED} \<and> jb_status j \<in> {RUNNING, CANCEL_REQUESTED}) \<and>
    (\<exists>c. findClaimContext (hb_attemptId request) (hb_jobId request) old = Inr (Some c) \<and>
       cancelRequested = (cn_attemptStatus c = ATT_CANCEL_REQUESTED \<or> cn_jobStatus c = CANCEL_REQUESTED))"
proof -
  obtain now old db g c observed where observed: "observed = encodeHex (sha256 (hb_heartbeatToken request))"
    and db: "history (db # g)" "old \<in> set (db # g)" "suffix (db # g) h'"
    and c: "findClaimContext (hb_attemptId request) (hb_jobId request) old = Inr (Some c)"
      "cancelRequested \<longleftrightarrow> cn_attemptStatus c = ATT_CANCEL_REQUESTED \<or> cn_jobStatus c = CANCEL_REQUESTED"
    and marked: "markHeartbeat (hb_attemptId request) observed (hb_jobId request) (hb_runpodJobId request) (to_iso now) db =
       (Inr True, perform (Mark_heartbeat (hb_attemptId request) observed (hb_jobId request)
         (hb_runpodJobId request) (to_iso now)) db db)"
    by (rule heartbeat_run [OF assms(2,1)])
  have "old \<in> set h'" "db \<in> set h'" using set_mono_suffix [OF db(3)] db(2) by auto
  moreover note markHeartbeat_True [OF marked]
  ultimately show ?thesis using c observed by (metis (no_types, lifting))
qed

theorem heartbeat_of_running_winner_witness:
  "\<exists>es g. task_run (recordRunpodHeartbeat ex_sha256 ex_heartbeat) [ex_running] es g (Some (Inr (Heartbeat_accepted False))) \<and>
     (\<exists>db \<in> set g. \<exists>a \<in> set (d1_attempts db). am_id a = ex_attempt_id \<and>
        am_status a \<in> {ATT_RUNNING, ATT_CANCEL_REQUESTED})"
proof -
  obtain es g where run: "task_run (recordRunpodHeartbeat ex_sha256 ex_heartbeat) [ex_running] es g
    (Some (Inr (Heartbeat_accepted False)))" by (rule ex_heartbeat_run)
  from heartbeat_of_running_winner [OF history.start [OF ex_running_inv] run]
  have "\<exists>db \<in> set g. \<exists>a \<in> set (d1_attempts db). am_id a = ex_attempt_id \<and>
    am_status a \<in> {ATT_RUNNING, ATT_CANCEL_REQUESTED}"
    unfolding ex_heartbeat_fields by blast
  then show ?thesis using run by blast
qed

end
