(* ===== verification/ClientProperties.thy ===== *)
theory ClientProperties
  imports ServiceExample
begin

text \<open>
  The properties of the RunPod client, the placement verifier and the comparison of token hashes: how
  much of a response is read, which answers can be recorded, and what a verified placement is.
\<close>

section \<open>Recording a status\<close>

lemma terminal_status_recorded:
  assumes inv: "d1_inv db" and rows: "\<forall>a \<in> set (d1_attempts db). attempt_checks a"
    and i: "ti_status i \<in> set TERMINAL_RUNPOD_STATUSES" "terminal_input_ok i"
    and out: "\<And>out. ti_output i = Some out \<Longrightarrow> worker_result_ok (wo_result out)"
  shows "\<exists>recorded db'. recordTerminalStatus i db = (Inr recorded, db')"
proof -
  let ?p = "terminal_recordable i db"
  have keys: "distinct (map am_id (d1_attempts db))" "winners_unique (d1_attempts db)"
    using inv by (simp_all add: d1_inv_def d1_keys_def)
  have kept: "attempt_checks (terminal_attempt i a)" "terminal_checks (terminal_attempt i a)"
    if "a \<in> set (d1_attempts db)" for a
  proof -
    show "attempt_checks (terminal_attempt i a)"
      using bspec [OF rows that]
      by (auto simp: attempt_checks_def terminal_attempt_def Let_def cong: option.case_cong)
    show "terminal_checks (terminal_attempt i a)" by (rule terminal_checks_found [OF i(1) out])
  qed
  have one: "\<forall>a. ?p a \<longrightarrow> am_id a = ti_attemptId i" by (simp add: terminal_recordable_def)
  have ulid: "ulid_ok (ti_attemptId i)" using i(2) by (simp add: terminal_input_ok_def)
  have "\<exists>rows db'. update_attempts ?p (terminal_attempt i) db = Inr (rows, db') \<and>
    (rows = [] \<or> (\<exists>a. rows = [a] \<and> am_id a = ti_attemptId i))"
  proof (cases "filter ?p (d1_attempts db) = []")
    case True
    then have "update_where ?p (terminal_attempt i) (d1_attempts db) = d1_attempts db"
      by (auto simp: update_where_def filter_empty_conv intro: map_idI)
    then show ?thesis using True keys(2) by (simp add: update_attempts_def)
  next
    case False
    then obtain a where a: "a \<in> set (d1_attempts db)" "?p a" by (auto simp: filter_empty_conv)
    obtain db1 where "update_attempts ?p (terminal_attempt i) db = Inr ([terminal_attempt i a], db1)"
      by (rule update_attempts_one [where p = ?p and f = "terminal_attempt i", OF keys(1) one a kept(1) [OF a(1)] keys(2)])
        (simp_all add: terminal_attempt_def Let_def)
    then show ?thesis using one a(2) by (auto simp: terminal_attempt_def Let_def)
  qed
  moreover have "\<not> (\<exists>a \<in> set (d1_attempts db). ?p a \<and> \<not> terminal_checks (terminal_attempt i a))"
    using kept(2) by blast
  moreover have "ti_status i \<in> set RUNPOD_STATUSES"
    using i(1) by (auto simp: TERMINAL_RUNPOD_STATUSES_def RUNPOD_STATUSES_def)
  ultimately show ?thesis
    using i ulid
    by (auto simp: recordTerminalStatus_def answer_attempt_def record_terminal_status_sql_def updatedJobIdRowsSchema_def)
qed

text \<open>Claim C31. A terminal status that the client hands out has the type the database stores: recording
  it, with the output and the durations the client parsed (a media duration may be any number of seconds, whole or
  not, up to eight hours), always succeeds, and never violates a constraint of the table. If it is recorded, the attempt's columns satisfy the checks declared for them.\<close>

theorem found_status_is_recordable:
  assumes found: "client_getStatus c fetch runpodJobId = Status_found s"
    and ended: "sr_status s \<in> set TERMINAL_RUNPOD_STATUSES"
    and i: "i = \<lparr>ti_attemptId = attemptId, ti_delayTime = sr_delayTime s, ti_executionTime = sr_executionTime s,
      ti_jobId = jobId, ti_output = sr_output s, ti_runpodJobId = runpodJobId, ti_status = sr_status s,
      ti_timestamp = timestamp\<rparr>" "terminal_input_ok i"
    and db: "d1_inv db" "\<forall>a \<in> set (d1_attempts db). attempt_checks a"
  shows "\<exists>recorded db'. recordTerminalStatus i db = (Inr recorded, db') \<and>
    (recorded \<longrightarrow> (\<exists>a \<in> set (d1_attempts db'). am_id a = attemptId \<and> terminal_checks a \<and>
       am_runpod_terminal_status a = Some (sr_status s)))"
proof -
  have out: "worker_result_ok (wo_result out)" if "ti_output i = Some out" for out
    using getStatus_found [OF found] that by (auto simp: i(1) status_response_ok_def)
  obtain recorded db' where run: "recordTerminalStatus i db = (Inr recorded, db')"
    using terminal_status_recorded [OF db _ i(2) out] ended by (auto simp: i(1))
  moreover have "\<exists>a \<in> set (d1_attempts db'). am_id a = attemptId \<and> terminal_checks a \<and>
      am_runpod_terminal_status a = Some (sr_status s)" if recorded
  proof -
    have "recordTerminalStatus i db = (Inr True, db')" using run that by simp
    then obtain a where a: "a \<in> set (d1_attempts db)" "terminal_recordable i db a"
      and upd: "update_attempts (terminal_recordable i db) (terminal_attempt i) db = Inr ([terminal_attempt i a], db')"
      by (rule recordTerminalStatus_True)
    have "terminal_attempt i a \<in> set (d1_attempts db')"
      using upd a by (auto simp: update_attempts_def update_where_def Let_def split: if_splits)
    moreover have "terminal_checks (terminal_attempt i a)"
      by (rule terminal_checks_found) (use ended out in \<open>simp_all add: i(1)\<close>)
    ultimately show ?thesis
      using a(2) by (intro bexI [of _ "terminal_attempt i a"])
        (simp_all add: terminal_attempt_def terminal_recordable_def i(1) Let_def)
  qed
  ultimately show ?thesis by blast
qed

text \<open>A completed job of two minutes and three and a half seconds.\<close>

definition ex_output_json :: json where
  "ex_output_json = JObj [(''attemptId'', JStr ex_attempt_id), (''detectedLanguage'', JStr ''ja''),
     (''durationSeconds'', JDec (247 / 2)), (''jobId'', JStr ex_job_id), (''manifestWritten'', JBool True),
     (''schemaVersion'', JNum 1), (''segmentCount'', JNum 4), (''status'', JStr ''completed'')]"

definition ex_output :: worker_output where
  "ex_output = \<lparr>wo_attemptId = ex_attempt_id, wo_jobId = ex_job_id, wo_result = Output_completed ''ja'' (247 / 2) 4\<rparr>"

lemma ex_output_read: "runpodWorkerCompletedOutputSchema ex_output_json" "read_worker_output ex_output_json = ex_output"
proof -
  show schema: "runpodWorkerCompletedOutputSchema ex_output_json"
    by (simp add: runpodWorkerCompletedOutputSchema_def worker_output_identity_def ex_output_json_def schema_defs
        bounded_number_def number_value_def MAX_RECORDING_DURATION_SECONDS_def detected_language_ok_def all_in_def
        upper_chars_def lower_chars_def)
  show "read_worker_output ex_output_json = ex_output"
    using schema by (simp add: read_worker_output_def) (simp add: ex_output_def ex_output_json_def string_field_def
        json_field_def number_field_def number_value_def count_field_def)
qed

definition ex_client :: runpod_client where
  "ex_client = \<lparr>rc_apiKey = ''k'', rc_endpointId = ''e'', rc_decode = Some,
     rc_parse_json = (\<lambda>_. Some (JObj [(''id'', JStr ''r''), (''status'', JStr ''COMPLETED''),
       (''output'', ex_output_json)]))\<rparr>"

definition ex_response :: runpod_response where
  "ex_response = \<lparr>rp_status = 200, rp_contentLength = Some ''3'', rp_body = Some [Some ''ab'', Some ''c'']\<rparr>"

definition ex_terminal :: terminal_input where
  "ex_terminal = \<lparr>ti_attemptId = ex_attempt_id, ti_delayTime = None, ti_executionTime = None,
     ti_jobId = ex_job_id, ti_output = Some ex_output, ti_runpodJobId = ''r'', ti_status = ''COMPLETED'', ti_timestamp = ex_at\<rparr>"

theorem found_status_is_recordable_witness:
  "\<exists>recorded db'. recordTerminalStatus ex_terminal ex_running = (Inr recorded, db')"
proof -
  let ?s = "\<lparr>sr_delayTime = None, sr_executionTime = None, sr_id = ''r'', sr_output = Some ex_output, sr_status = ''COMPLETED''\<rparr>"
  have "runpodStatusResponseSchema (JObj [(''id'', JStr ''r''), (''status'', JStr ''COMPLETED''), (''output'', ex_output_json)]) =
    Inr ?s"
    using ex_output_read
    by (simp add: runpodStatusResponseSchema_def runpodStatusWireResponseSchema_def schema_defs RUNPOD_STATUSES_def
        zod_parse_def string_field_def optional_count_def json_field_def runpodJobIdSchema_def
        runpodWorkerOutputSchema_def)
  moreover have "digits_value ''3'' = Some 3" by code_simp
  then have "declared_length_ok (Some ''3'')" by (simp add: declared_length_ok_def MAX_RUNPOD_RESPONSE_BYTES_def)
  ultimately have "client_getStatus ex_client (\<lambda>_. Some ex_response) ''r'' = Status_found ?s"
    by (simp add: client_getStatus_def readBoundedJson_def ex_client_def ex_response_def rp_ok_def
        MAX_RUNPOD_RESPONSE_BYTES_def)
  moreover have "attempt_checks ex_running_attempt"
    using ex_attempt_checks by (simp add: attempt_checks_def ex_running_attempt_def claimed_attempt_def)
  ultimately show ?thesis
    using found_status_is_recordable [of ex_client "\<lambda>_. Some ex_response" "''r''" ?s ex_terminal ex_attempt_id
        ex_job_id ex_at ex_running] ex_running_inv
    by (auto simp: ex_terminal_def terminal_input_ok_def TERMINAL_RUNPOD_STATUSES_def)
qed

section \<open>Responses\<close>

text \<open>Of a response of RunPod at most 32 KiB are kept: JSON is read exactly when the declared
  length, if there is one, is within the limit, every read yields a chunk, the chunks together are not
  empty and within the limit, and they decode and parse.\<close>

theorem response_is_bounded:
  "readBoundedJson decode parse_json r = Some j \<longleftrightarrow>
     (\<exists>reads text. rp_body r = Some reads \<and> None \<notin> set reads \<and> declared_length_ok (rp_contentLength r) \<and>
        0 < sum_list (map length (map the reads)) \<and>
        sum_list (map length (map the reads)) \<le> MAX_RUNPOD_RESPONSE_BYTES \<and>
        decode (concat (map the reads)) = Some text \<and> parse_json text = Some j)"
proof -
  have sum: "sum_list (map length xs) = length (concat xs)" for xs :: "string list"
    by (simp add: length_concat)
  show ?thesis
    unfolding sum readBoundedJson_def
    by (auto simp: bind_eq_Some_conv read_body_chunks_iff split: option.splits)
qed

section \<open>Placements\<close>

text \<open>Claim C30. A placement is verified only when RunPod says that the job is in progress on a worker,
  and the pod of that worker runs, belongs to the configured endpoint, runs exactly the expected image,
  is in the secure cloud, and has one of the allowed GPUs.\<close>

theorem placement_is_checked:
  assumes "verify_placement options decode parse_json fetch runpodJobId = Placement_verified"
    and "c = verifier_client options decode parse_json"
  shows "\<exists>status workerId pod. fetchJson c fetch (job_url c runpodJobId ''status'') = Some status \<and>
    string_field ''id'' status = runpodJobId \<and> string_field ''status'' status = ''IN_PROGRESS'' \<and>
    optional_string ''workerId'' status = Some workerId \<and>
    Option.bind (fetchJson c fetch (pod_url workerId)) runpodPodResponseSchema = Some pod \<and>
    pd_id pod = workerId \<and> pd_endpointId pod = Some (vo_endpointId options) \<and>
    pd_desiredStatus pod = ''RUNNING'' \<and> pd_image pod = vo_expectedImage options \<and> pd_secureCloud pod \<and>
    pd_gpuTypeId pod \<in> set (vo_allowedGpuTypeIds options)"
  using verified_placement [OF assms] by metis

definition ex_parse :: "string \<Rightarrow> json option" where
  "ex_parse text = Some (if text = ''s''
     then JObj [(''id'', JStr ''r''), (''status'', JStr ''IN_PROGRESS''), (''workerId'', JStr ''w'')]
     else JObj [(''desiredStatus'', JStr ''RUNNING''), (''endpointId'', JStr ''e''), (''id'', JStr ''w''),
       (''image'', JStr (vo_expectedImage ex_placement)),
       (''machine'', JObj [(''gpuTypeId'', JStr ex_gpu), (''secureCloud'', JBool True)])])"

definition ex_placement_client :: runpod_client where
  "ex_placement_client = verifier_client ex_placement Some ex_parse"

definition ex_placement_fetch :: runpod_fetch where
  "ex_placement_fetch q = Some \<lparr>rp_status = 200, rp_contentLength = None,
     rp_body = Some [Some (if rh_url q = job_url ex_placement_client ''r'' ''status'' then ''s'' else ''p'')]\<rparr>"

theorem placement_is_checked_witness:
  "verify_placement ex_placement Some ex_parse ex_placement_fetch ''r'' = Placement_verified \<and>
   (\<exists>workerId pod. Option.bind (fetchJson (verifier_client ex_placement Some ex_parse) ex_placement_fetch (pod_url workerId))
      runpodPodResponseSchema = Some pod \<and> pd_desiredStatus pod = ''RUNNING'')"
proof -
  let ?status = "JObj [(''id'', JStr ''r''), (''status'', JStr ''IN_PROGRESS''), (''workerId'', JStr ''w'')]"
  let ?pod = "JObj [(''desiredStatus'', JStr ''RUNNING''), (''endpointId'', JStr ''e''), (''id'', JStr ''w''),
    (''image'', JStr (vo_expectedImage ex_placement)),
    (''machine'', JObj [(''gpuTypeId'', JStr ex_gpu), (''secureCloud'', JBool True)])]"
  have "resourceIdSchema ''r''" "runpodStatusWireResponseSchema ?status" "workerIdFromStatus ?status ''r'' = Some ''w''"
    by code_simp+
  moreover have "placementMatches ex_placement ''w'' ?pod = Some True"
    unfolding ex_placement_def ex_gpu_def ex_hash_def by code_simp
  moreover have "pod_url ''w'' \<noteq> job_url ex_placement_client ''r'' ''status''"
    by (simp add: pod_url_def job_url_def)
  then have "fetchJson ex_placement_client ex_placement_fetch (job_url ex_placement_client ''r'' ''status'') = Some ?status"
    "fetchJson ex_placement_client ex_placement_fetch (pod_url ''w'') = Some ?pod"
    by (simp_all add: fetchJson_def readBoundedJson_def ex_placement_fetch_def rp_ok_def declared_length_ok_def
        MAX_RUNPOD_RESPONSE_BYTES_def) (simp_all add: ex_placement_client_def verifier_client_def ex_parse_def)
  ultimately have "verify_placement ex_placement Some ex_parse ex_placement_fetch ''r'' = Placement_verified"
    by (simp add: verify_placement_def ex_placement_client_def)
  with placement_is_checked [OF this refl] show ?thesis by blast
qed

section \<open>Token hashes\<close>

text \<open>Claim C32. The comparison of two hashes that takes the same time for all of them, by decoding both
  and folding the differences of their bytes, accepts exactly two equal texts that are SHA-256 digests
  in lower-case hexadecimal.\<close>

theorem hash_comparison_exact:
  "timingSafeHashEqual expectedHash observedHash \<longleftrightarrow> sha256_hex_ok expectedHash \<and> expectedHash = observedHash"
  by (rule timingSafeHashEqual_iff)

end
