(* ===== verification/CompletionService.thy ===== *)
theory CompletionService
  imports OrchestratorTask
begin

text \<open>
  apps/orchestrator/src/completion-service.ts (\<open>reconcileRunpodCompletions\<close>) as a task, and the result
  manifest of packages/contracts/src/manifest.ts: a pass polls RunPod for the attempts that occupy the
  GPU, records the ends it reports, and completes, fails or cancels the attempts that have ended.
  \<open>JSON.parse\<close> and the UTF-8 length of a text are parameters; log records are left out, and with them the
  test for a stale heartbeat, which only logs.
\<close>

section \<open>Manifests\<close>

definition manifestArtifactSchema :: json_schema where
  "manifestArtifactSchema = strict_object [
     required ''key'' (string_schema_of (\<lambda>s. 1 \<le> length s \<and> length s \<le> 1024 \<and> starts_with ''results/'' s)),
     required ''sha256'' (string_schema_of sha256_hex_ok),
     required ''sizeBytes'' nonnegative_int]"

definition resultManifestSchema :: json_schema where
  "resultManifestSchema = strict_object [
     required ''artifacts'' (strict_object [
       required ''json'' manifestArtifactSchema,
       required ''markdown'' manifestArtifactSchema,
       required ''srt'' manifestArtifactSchema]),
     required ''attemptId'' (string_schema_of ulid_ok),
     required ''complete'' (literal (JBool True)),
     required ''jobId'' (string_schema_of ulid_ok),
     required ''schemaVersion'' (literal (JNum 1))]"

record manifest_artifact =
  ma_key :: string
  ma_sha256 :: string
  ma_sizeBytes :: nat

definition object_field :: "string \<Rightarrow> json \<Rightarrow> json" where
  "object_field k j = (case json_field k j of None \<Rightarrow> JNull | Some v \<Rightarrow> v)"

definition read_manifest_artifact :: "json \<Rightarrow> manifest_artifact" where
  "read_manifest_artifact j =
     \<lparr>ma_key = string_field ''key'' j, ma_sha256 = string_field ''sha256'' j,
      ma_sizeBytes = nat (count_field ''sizeBytes'' j)\<rparr>"

record result_manifest =
  rm_attemptId :: string
  rm_jobId :: string
  rm_json :: manifest_artifact
  rm_markdown :: manifest_artifact
  rm_srt :: manifest_artifact

definition read_manifest :: "json \<Rightarrow> result_manifest" where
  "read_manifest j =
     (let artifacts = object_field ''artifacts'' j in
      \<lparr>rm_attemptId = string_field ''attemptId'' j, rm_jobId = string_field ''jobId'' j,
       rm_json = read_manifest_artifact (object_field ''json'' artifacts),
       rm_markdown = read_manifest_artifact (object_field ''markdown'' artifacts),
       rm_srt = read_manifest_artifact (object_field ''srt'' artifacts)\<rparr>)"

section \<open>Constants\<close>

definition RECONCILIATION_BATCH_SIZE :: nat where "RECONCILIATION_BATCH_SIZE = 25"
definition MAX_MANIFEST_BYTES :: int where "MAX_MANIFEST_BYTES = 64 * 1024"
definition EXECUTION_DEADLINE_GRACE_MS :: int where "EXECUTION_DEADLINE_GRACE_MS = 15 * 60 * 1000"
definition RESULT_RETENTION_GRACE_MS :: int where "RESULT_RETENTION_GRACE_MS = 30 * 60 * 1000"

definition terminalStatuses :: "string set" where
  "terminalStatuses = {''COMPLETED'', ''FAILED'', ''CANCELLED'', ''TIMED_OUT''}"

text \<open>\<open>CompletionResult\<close>, as it is counted.\<close>

record completion_counts =
  cc_cancelled :: nat
  cc_completed :: nat
  cc_failed :: nat
  cc_terminalObserved :: nat

record completion_environment =
  cv_parse_json :: "string \<Rightarrow> json option"
  cv_utf8_length :: "string \<Rightarrow> nat"

definition hasMatchingOutputIdentity :: "status_response \<Rightarrow> string \<Rightarrow> string \<Rightarrow> bool" where
  "hasMatchingOutputIdentity response jobId attemptId \<longleftrightarrow>
     (case sr_output response of
        None \<Rightarrow> True
      | Some out \<Rightarrow> wo_jobId out = jobId \<and> wo_attemptId out = attemptId)"

text \<open>\<open>Date.parse(text) <= now - milliseconds\<close>.\<close>

definition elapsed :: "string \<Rightarrow> int \<Rightarrow> int \<Rightarrow> bool" where
  "elapsed text now milliseconds \<longleftrightarrow> num_leq (date_parse text) (Some (now - milliseconds))"

section \<open>Verified artifacts\<close>

definition defaultReadManifest :: "completion_environment \<Rightarrow> string \<Rightarrow> json task" where
  "defaultReadManifest env key =
     Get_object key (\<lambda>got. task_bind (task_result got) (\<lambda>object.
       case object of
         None \<Rightarrow> Finish JNull
       | Some r \<Rightarrow>
           if MAX_MANIFEST_BYTES < ro_size r
           then Raise (JsError ''Result manifest exceeds the size limit'')
           else if ro_text r = [] \<or> MAX_MANIFEST_BYTES < int (cv_utf8_length env (ro_text r))
           then Raise (JsError ''Result manifest is empty or exceeds the size limit'')
           else (case cv_parse_json env (ro_text r) of
                   None \<Rightarrow> Raise (JsError ''Result manifest is not valid JSON'')
                 | Some j \<Rightarrow> Finish j)))"

definition manifestArtifacts :: "result_manifest \<Rightarrow> string \<Rightarrow> verified_artifact list option" where
  "manifestArtifacts manifest resultPrefix =
     (let entries = [
        (''markdown'', resultPrefix @ ''transcript.md'', rm_markdown manifest),
        (''json'', resultPrefix @ ''transcript.json'', rm_json manifest),
        (''srt'', resultPrefix @ ''transcript.srt'', rm_srt manifest)]
      in if list_ex (\<lambda>(_, key, m). ma_key m \<noteq> key) entries then None
         else Some (map (\<lambda>(format, key, m).
           \<lparr>va_format = format, va_key = key, va_sha256 = ma_sha256 m, va_sizeBytes = ma_sizeBytes m\<rparr>) entries))"

text \<open>\<open>Promise.all\<close>: every object is asked for, then the first error is thrown.\<close>

primrec head_artifacts :: "string list \<Rightarrow> int option result list task" where
  "head_artifacts [] = Finish []"
| "head_artifacts (key # keys) =
     Head_artifact key (\<lambda>h. task_bind (head_artifacts keys) (\<lambda>hs. Finish (h # hs)))"

primrec all_results :: "'a result list \<Rightarrow> 'a list result" where
  "all_results [] = Inr []"
| "all_results (r # rs) = res_bind r (\<lambda>x. res_bind (all_results rs) (\<lambda>xs. Inr (x # xs)))"

definition head_matches :: "verified_artifact \<Rightarrow> int option \<Rightarrow> bool" where
  "head_matches v size_of_head \<longleftrightarrow>
     (case size_of_head of
        None \<Rightarrow> False
      | Some n \<Rightarrow> 0 \<le> n \<and> n \<le> 2147483648 \<and> n = int (va_sizeBytes v))"

definition verifyArtifacts ::
  "completion_environment \<Rightarrow> terminal_outcome \<Rightarrow> verified_artifact list option task" where
  "verifyArtifacts env outcome =
     task_bind (defaultReadManifest env (to_resultPrefix outcome @ ''manifest.json'')) (\<lambda>untrusted.
     let manifest = read_manifest untrusted in
     if \<not> resultManifestSchema untrusted \<or> rm_jobId manifest \<noteq> to_jobId outcome \<or>
       rm_attemptId manifest \<noteq> to_attemptId outcome then Finish None
     else case manifestArtifacts manifest (to_resultPrefix outcome) of
       None \<Rightarrow> Finish None
     | Some artifacts \<Rightarrow>
         task_bind (head_artifacts (map va_key artifacts)) (\<lambda>results.
         task_bind (task_result (all_results results)) (\<lambda>heads.
         Finish (if list_all2 head_matches artifacts heads then Some artifacts else None))))"

text \<open>\<open>try { \<dots> } catch { x = undefined }\<close>.\<close>

primrec task_try :: "'a option task \<Rightarrow> 'a option task" where
  "task_try (Finish x) = Finish x"
| "task_try (Raise e) = Finish None"
| "task_try (Clock k) = Clock (\<lambda>x. task_try (k x))"
| "task_try (Random n k) = Random n (\<lambda>x. task_try (k x))"
| "task_try (Read k) = Read (\<lambda>x. task_try (k x))"
| "task_try (Write q k) = Write q (\<lambda>x. task_try (k x))"
| "task_try (Submit q k) = Submit q (\<lambda>x. task_try (k x))"
| "task_try (Ask_status j k) = Ask_status j (\<lambda>x. task_try (k x))"
| "task_try (Stop_job j k) = Stop_job j (\<lambda>x. task_try (k x))"
| "task_try (Verify j k) = Verify j (\<lambda>x. task_try (k x))"
| "task_try (Sign c t k) = Sign c t (\<lambda>x. task_try (k x))"
| "task_try (Get_object key k) = Get_object key (\<lambda>x. task_try (k x))"
| "task_try (Head_artifact key k) = Head_artifact key (\<lambda>x. task_try (k x))"

definition isCompletionOutcome :: "terminal_outcome \<Rightarrow> bool" where
  "isCompletionOutcome outcome \<longleftrightarrow>
     to_runpodTerminalStatus outcome = ''COMPLETED'' \<and>
     to_runpodOutputStatus outcome = Some ''completed'' \<and>
     to_runpodManifestWritten outcome = Some True \<and>
     to_durationSeconds outcome \<noteq> None \<and>
     to_winningRunpodJobId outcome = Some (to_runpodTerminalJobId outcome)"

section \<open>Polling\<close>

definition create_event_id :: "int \<Rightarrow> string task" where
  "create_event_id timestampMilliseconds =
     Random ULID_RANDOM_BYTES (\<lambda>bytes. task_result (createUlid (Some timestampMilliseconds) (\<lambda>_. bytes)))"

definition give_up ::
  "poll_candidate \<Rightarrow> int \<Rightarrow> reconciliation_deadline \<Rightarrow> int \<Rightarrow> completion_counts \<Rightarrow> completion_counts task" where
  "give_up candidate observedAt deadline milliseconds counts =
     task_bind (create_event_id observedAt) (\<lambda>eventId.
     let input = \<lparr>un_attemptId = pc_attemptId candidate, un_cutoff = to_iso (observedAt - milliseconds),
           un_deadline = deadline, un_eventId = eventId, un_jobId = pc_jobId candidate,
           un_runpodJobId = pc_runpodJobId candidate, un_timestamp = to_iso observedAt\<rparr> in
     task_bind (write_db (Fail_unobservable input) (failUnobservableAttempt input)) (\<lambda>failed.
     Finish (if failed then counts\<lparr>cc_failed := cc_failed counts + 1\<rparr> else counts)))"

definition record_status ::
  "poll_candidate \<Rightarrow> status_response \<Rightarrow> completion_counts \<Rightarrow> completion_counts task" where
  "record_status candidate response counts =
     Clock (\<lambda>now.
     let input = \<lparr>ti_attemptId = pc_attemptId candidate, ti_delayTime = sr_delayTime response,
           ti_executionTime = sr_executionTime response, ti_jobId = pc_jobId candidate,
           ti_output = sr_output response, ti_runpodJobId = pc_runpodJobId candidate,
           ti_status = sr_status response, ti_timestamp = to_iso now\<rparr> in
     task_bind (write_db (Record_terminal_status input) (recordTerminalStatus input)) (\<lambda>recorded.
     Finish (if recorded then counts\<lparr>cc_terminalObserved := cc_terminalObserved counts + 1\<rparr> else counts)))"

definition observe_status ::
  "poll_candidate \<Rightarrow> int \<Rightarrow> status_result \<Rightarrow> completion_counts \<Rightarrow> completion_counts task" where
  "observe_status candidate observedAt result counts =
     (case result of
        Status_found response \<Rightarrow>
          if sr_id response \<noteq> pc_runpodJobId candidate \<or>
            \<not> hasMatchingOutputIdentity response (pc_jobId candidate) (pc_attemptId candidate)
          then Finish counts
          else if sr_status response \<notin> terminalStatuses then
            (case pc_claimedAt candidate of
               Some claimedAt \<Rightarrow>
                 if elapsed claimedAt observedAt (RUNPOD_EXECUTION_TIMEOUT_MS + EXECUTION_DEADLINE_GRACE_MS)
                 then Stop_job (pc_runpodJobId candidate) (\<lambda>_. give_up candidate observedAt Execution_deadline
                   (RUNPOD_EXECUTION_TIMEOUT_MS + EXECUTION_DEADLINE_GRACE_MS) counts)
                 else Finish counts
             | None \<Rightarrow> Finish counts)
          else record_status candidate response counts
      | Status_not_found \<Rightarrow>
          if elapsed (pc_submissionStartedAt candidate) observedAt (RUNPOD_JOB_TTL_MS + RESULT_RETENTION_GRACE_MS)
          then give_up candidate observedAt Submission_deadline (RUNPOD_JOB_TTL_MS + RESULT_RETENTION_GRACE_MS) counts
          else Finish counts
      | _ \<Rightarrow> Finish counts)"

definition poll_status :: "poll_candidate \<Rightarrow> completion_counts \<Rightarrow> completion_counts task" where
  "poll_status candidate counts =
     Clock (\<lambda>observedAt.
     task_bind (if pc_jobStatus candidate = CANCEL_REQUESTED
         then Stop_job (pc_runpodJobId candidate) (\<lambda>_. Finish ()) else Finish ()) (\<lambda>_.
     Ask_status (pc_runpodJobId candidate) (\<lambda>result. observe_status candidate observedAt result counts)))"

section \<open>Settling outcomes\<close>

definition settle_terminal ::
  "terminal_outcome \<Rightarrow> attempt_status \<Rightarrow> public_error_code option \<Rightarrow> int \<Rightarrow> bool task" where
  "settle_terminal outcome status errorCode timestamp =
     (let input = \<lparr>fi_attemptId = to_attemptId outcome, fi_errorCode = errorCode, fi_jobId = to_jobId outcome,
           fi_runpodJobId = to_runpodTerminalJobId outcome, fi_status = status, fi_timestamp = to_iso timestamp\<rparr> in
      write_db (Finalize_terminal input) (finalizeTerminal input))"

definition settle_failed :: "terminal_outcome \<Rightarrow> int \<Rightarrow> completion_counts \<Rightarrow> completion_counts task" where
  "settle_failed outcome timestamp counts =
     task_bind (settle_terminal outcome ATT_FAILED (Some PE_PROCESSING_FAILED) timestamp) (\<lambda>failed.
     Finish (if failed then counts\<lparr>cc_failed := cc_failed counts + 1\<rparr> else counts))"

definition settle_completed ::
  "terminal_outcome \<Rightarrow> verified_artifact list \<Rightarrow> rat \<Rightarrow> int \<Rightarrow> completion_counts \<Rightarrow> completion_counts task" where
  "settle_completed outcome artifacts durationSeconds timestamp counts =
     task_bind (create_event_id timestamp) (\<lambda>eventId.
     task_bind (create_event_id timestamp) (\<lambda>notificationId.
     let input = \<lparr>ci_artifacts = artifacts, ci_attemptId = to_attemptId outcome,
           ci_durationSeconds = durationSeconds, ci_eventId = eventId, ci_jobId = to_jobId outcome,
           ci_notificationId = notificationId, ci_runpodJobId = to_runpodTerminalJobId outcome,
           ci_timestamp = to_iso timestamp\<rparr> in
     task_bind (write_db (Finalize_completed input) (finalizeCompleted input)) (\<lambda>completed.
     Finish (if completed then counts\<lparr>cc_completed := cc_completed counts + 1\<rparr> else counts))))"

definition settle_outcome ::
  "completion_environment \<Rightarrow> terminal_outcome \<Rightarrow> completion_counts \<Rightarrow> completion_counts task" where
  "settle_outcome env outcome counts =
     Clock (\<lambda>timestamp.
     if isCompletionOutcome outcome then
       task_bind (task_try (verifyArtifacts env outcome)) (\<lambda>artifacts.
       case (artifacts, to_durationSeconds outcome) of
         (Some vs, Some durationSeconds) \<Rightarrow> settle_completed outcome vs durationSeconds timestamp counts
       | _ \<Rightarrow>
           if elapsed (to_runpodTerminalObservedAt outcome) timestamp RESULT_RETENTION_GRACE_MS
           then settle_failed outcome timestamp counts else Finish counts)
     else if to_runpodTerminalStatus outcome = ''CANCELLED'' \<or> to_runpodOutputStatus outcome = Some ''cancelled''
     then task_bind (settle_terminal outcome ATT_CANCELLED None timestamp) (\<lambda>cancelled.
       Finish (if cancelled then counts\<lparr>cc_cancelled := cc_cancelled counts + 1\<rparr> else counts))
     else settle_failed outcome timestamp counts)"

definition no_counts :: completion_counts where
  "no_counts = \<lparr>cc_cancelled = 0, cc_completed = 0, cc_failed = 0, cc_terminalObserved = 0\<rparr>"

definition reconcileRunpodCompletions :: "completion_environment \<Rightarrow> completion_counts task" where
  "reconcileRunpodCompletions env =
     task_bind (read_db (findStatusPollCandidates RECONCILIATION_BATCH_SIZE)) (\<lambda>candidates.
     task_bind (for_each poll_status candidates no_counts) (\<lambda>counts.
     task_bind (read_db (findTerminalOutcomes RECONCILIATION_BATCH_SIZE)) (\<lambda>outcomes.
     for_each (settle_outcome env) outcomes counts)))"

end
