(* ===== verification/TaskLogic.thy ===== *)
theory TaskLogic
  imports OrchestratorTask
begin

text \<open>
  A Hoare logic for the tasks of OrchestratorTask: which calls a task makes after which. \<open>guarded G t Q past\<close>
  says that task \<open>t\<close>, started when the effects \<open>past\<close> have happened, only makes calls that the guard \<open>G\<close>
  allows after the effects so far, and that its result satisfies \<open>Q\<close>, whatever answers it gets and
  whatever runs at the same time. It is computed along the task.
  Lemmas: soundness for runs, composition, loops.
\<close>

primrec guarded ::
  "(effect list \<Rightarrow> call \<Rightarrow> bool) \<Rightarrow> 'a task \<Rightarrow> (effect list \<Rightarrow> 'a \<Rightarrow> bool) \<Rightarrow> effect list \<Rightarrow> bool" where
  "guarded G (Finish x) Q past \<longleftrightarrow> Q past x"
| "guarded G (Raise e) Q past \<longleftrightarrow> True"
| "guarded G (Clock k) Q past \<longleftrightarrow> (\<forall>t. guarded G (k t) Q past)"
| "guarded G (Random n k) Q past \<longleftrightarrow> (\<forall>bytes. guarded G (k bytes) Q past)"
| "guarded G (Read k) Q past \<longleftrightarrow> (\<forall>db. guarded G (k db) Q past)"
| "guarded G (Write q k) Q past \<longleftrightarrow> G past (Writes q) \<and> (\<forall>db. guarded G (k db) Q (past @ [Wrote q db]))"
| "guarded G (Submit q k) Q past \<longleftrightarrow> G past (Submits q) \<and> (\<forall>x. guarded G (k x) Q (past @ [Submitted q x]))"
| "guarded G (Ask_status j k) Q past \<longleftrightarrow> G past (Asks j) \<and> (\<forall>x. guarded G (k x) Q (past @ [Asked j x]))"
| "guarded G (Stop_job j k) Q past \<longleftrightarrow> G past (Stops j) \<and> (\<forall>x. guarded G (k x) Q (past @ [Stopped j x]))"
| "guarded G (Verify j k) Q past \<longleftrightarrow> G past (Verifies j) \<and> (\<forall>x. guarded G (k x) Q (past @ [Verified j x]))"
| "guarded G (Sign c t k) Q past \<longleftrightarrow> G past (Signs c) \<and> (\<forall>x. guarded G (k x) Q (past @ [Signed c x]))"
| "guarded G (Get_object key k) Q past \<longleftrightarrow> G past (Gets key) \<and> (\<forall>x. guarded G (k x) Q (past @ [Got key x]))"
| "guarded G (Head_artifact key k) Q past \<longleftrightarrow> G past (Heads key) \<and> (\<forall>x. guarded G (k x) Q (past @ [Headed key x]))"

lemma guarded_mono: "guarded G t Q past \<Longrightarrow> (\<And>past x. Q past x \<Longrightarrow> Q' past x) \<Longrightarrow> guarded G t Q' past"
  by (induction t arbitrary: past) auto

text \<open>Soundness: in a run every call is allowed, and a result satisfies the postcondition.\<close>

lemma guarded_sound:
  "task_run t h es h' out \<Longrightarrow> guarded G t Q past \<Longrightarrow>
   (\<forall>before e after. es = before @ e # after \<longrightarrow> G (past @ before) (effect_call e)) \<and>
   (\<forall>x. out = Some (Inr x) \<longrightarrow> Q (past @ es) x)"
proof (induction arbitrary: past rule: task_run.induct)
  case (written k db q h es h' out)
  then have "G past (Writes q)" and next_step: "guarded G (k db) Q (past @ [Wrote q db])" by auto
  then show ?case using written.IH [OF next_step] by (auto simp: Cons_eq_append_conv)
next
  case (submit k x h es h' out q)
  then have "G past (Submits q)" and next_step: "guarded G (k x) Q (past @ [Submitted q x])" by auto
  then show ?case using submit.IH [OF next_step] by (auto simp: Cons_eq_append_conv)
next
  case (status k x h es h' out j)
  then have "G past (Asks j)" and next_step: "guarded G (k x) Q (past @ [Asked j x])" by auto
  then show ?case using status.IH [OF next_step] by (auto simp: Cons_eq_append_conv)
next
  case (stop k x h es h' out j)
  then have "G past (Stops j)" and next_step: "guarded G (k x) Q (past @ [Stopped j x])" by auto
  then show ?case using stop.IH [OF next_step] by (auto simp: Cons_eq_append_conv)
next
  case (verify k x h es h' out j)
  then have "G past (Verifies j)" and next_step: "guarded G (k x) Q (past @ [Verified j x])" by auto
  then show ?case using verify.IH [OF next_step] by (auto simp: Cons_eq_append_conv)
next
  case (sign k x h es h' out c t)
  then have "G past (Signs c)" and next_step: "guarded G (k x) Q (past @ [Signed c x])" by auto
  then show ?case using sign.IH [OF next_step] by (auto simp: Cons_eq_append_conv)
next
  case (get_object k x h es h' out key)
  then have "G past (Gets key)" and next_step: "guarded G (k x) Q (past @ [Got key x])" by auto
  then show ?case using get_object.IH [OF next_step] by (auto simp: Cons_eq_append_conv)
next
  case (head_artifact k x h es h' out key)
  then have "G past (Heads key)" and next_step: "guarded G (k x) Q (past @ [Headed key x])" by auto
  then show ?case using head_artifact.IH [OF next_step] by (auto simp: Cons_eq_append_conv)
qed auto

lemma guarded_guards:
  assumes "task_run t h (before @ e # after) h' out" "guarded G t Q []"
  shows "G before (effect_call e)"
  using guarded_sound [OF assms] by auto

section \<open>Composition\<close>

lemma guarded_bind [simp]: "guarded G (task_bind m f) Q past \<longleftrightarrow> guarded G m (\<lambda>past x. guarded G (f x) Q past) past"
  by (induction m arbitrary: past) auto

lemma guarded_task_result [simp]: "guarded G (task_result r) Q past \<longleftrightarrow> (\<forall>x. r = Inr x \<longrightarrow> Q past x)"
  by (cases r) auto

lemma guarded_read_db [simp]: "guarded G (read_db f) Q past \<longleftrightarrow> (\<forall>db x. f db = Inr x \<longrightarrow> Q past x)"
  by (simp add: read_db_def)

lemma guarded_write_db [simp]:
  "guarded G (write_db q f) Q past \<longleftrightarrow>
   G past (Writes q) \<and> (\<forall>db x. fst (f db) = Inr x \<longrightarrow> Q (past @ [Wrote q db]) x)"
  by (simp add: write_db_def)

text \<open>A loop keeps an invariant of the past and the variables.\<close>

lemma guarded_for_each:
  assumes "\<And>x s past. x \<in> set xs \<Longrightarrow> Inv past s \<Longrightarrow> guarded G (body x s) Inv past" "Inv past s"
  shows "guarded G (for_each body xs s) Inv past"
  using assms
proof (induction xs arbitrary: s past)
  case (Cons x xs)
  have "guarded G (body x s) Inv past" by (rule Cons.prems(1)) (simp_all add: Cons.prems(2))
  then have "guarded G (body x s) (\<lambda>past s. guarded G (for_each body xs s) Inv past) past"
    by (rule guarded_mono) (rule Cons.IH, use Cons.prems(1) in auto)
  then show ?case by simp
qed simp

section \<open>Guards\<close>

text \<open>A weaker guard, and what every allowed call keeps.\<close>

lemma guarded_weaken:
  "guarded G t Q past \<Longrightarrow> (\<And>past c. G past c \<Longrightarrow> G' past c) \<Longrightarrow> guarded G' t Q past"
  by (induction t arbitrary: past) auto

lemma guarded_frame:
  "guarded G t Q past \<Longrightarrow> P past \<Longrightarrow> (\<And>past e. P past \<Longrightarrow> G past (effect_call e) \<Longrightarrow> P (past @ [e])) \<Longrightarrow>
   guarded G t (\<lambda>past x. Q past x \<and> P past) past"
  by (induction t arbitrary: past) simp_all

end
