(* ===== verification/CompletionRuns.thy ===== *)
theory CompletionRuns
  imports CompletionService TaskLogic
begin

text \<open>
  What a pass of completion-service.ts has seen before it writes: the guard of its calls, and that every
  part of the pass keeps it.
\<close>

section \<open>Evidence\<close>

text \<open>
  The artifacts \<open>vs\<close> of an attempt were read from its manifest, and each of them was found with the
  size the manifest gives.
\<close>

definition artifacts_seen ::
  "completion_environment \<Rightarrow> effect list \<Rightarrow> string \<Rightarrow> string \<Rightarrow> string \<Rightarrow> verified_artifact list \<Rightarrow> bool" where
  "artifacts_seen env past jobId attemptId resultPrefix vs \<longleftrightarrow>
     (\<exists>r j. Got (resultPrefix @ ''manifest.json'') (Inr (Some r)) \<in> set past \<and> ro_size r \<le> MAX_MANIFEST_BYTES \<and>
        cv_parse_json env (ro_text r) = Some j \<and> resultManifestSchema j \<and>
        rm_jobId (read_manifest j) = jobId \<and> rm_attemptId (read_manifest j) = attemptId \<and>
        manifestArtifacts (read_manifest j) resultPrefix = Some vs) \<and>
     (\<forall>v \<in> set vs. va_sizeBytes v \<le> 2147483648 \<and> Headed (va_key v) (Inr (Some (int (va_sizeBytes v)))) \<in> set past)"

text \<open>RunPod has been asked for the status of the job and has given it.\<close>

definition status_seen :: "effect list \<Rightarrow> terminal_input \<Rightarrow> bool" where
  "status_seen past i \<longleftrightarrow>
     (\<exists>s. Asked (ti_runpodJobId i) (Status_found s) \<in> set past \<and> sr_id s = ti_runpodJobId i \<and>
        sr_status s = ti_status i \<and> ti_status i \<in> terminalStatuses \<and> sr_output s = ti_output i \<and>
        hasMatchingOutputIdentity s (ti_jobId i) (ti_attemptId i))"

text \<open>RunPod does not know the job any more, or it runs and was told to stop.\<close>

definition lost_seen :: "effect list \<Rightarrow> unobservable_input \<Rightarrow> bool" where
  "lost_seen past i \<longleftrightarrow>
     (case un_deadline i of
        Submission_deadline \<Rightarrow> Asked (un_runpodJobId i) Status_not_found \<in> set past
      | Execution_deadline \<Rightarrow>
          (\<exists>s x. Asked (un_runpodJobId i) (Status_found s) \<in> set past \<and> sr_id s = un_runpodJobId i \<and>
             sr_status s \<notin> terminalStatuses \<and> Stopped (un_runpodJobId i) x \<in> set past))"

fun write_guard :: "completion_environment \<Rightarrow> effect list \<Rightarrow> request \<Rightarrow> bool" where
  "write_guard env past (Finalize_completed i) \<longleftrightarrow>
     (\<exists>prefix. artifacts_seen env past (ci_jobId i) (ci_attemptId i) prefix (ci_artifacts i))"
| "write_guard env past (Record_terminal_status i) \<longleftrightarrow> status_seen past i"
| "write_guard env past (Fail_unobservable i) \<longleftrightarrow> lost_seen past i"
| "write_guard env past (Finalize_terminal i) \<longleftrightarrow> True"
| "write_guard env past _ \<longleftrightarrow> False"

fun completion_guard :: "completion_environment \<Rightarrow> effect list \<Rightarrow> call \<Rightarrow> bool" where
  "completion_guard env past (Writes q) \<longleftrightarrow> write_guard env past q"
| "completion_guard env past (Submits q) \<longleftrightarrow> False"
| "completion_guard env past (Verifies j) \<longleftrightarrow> False"
| "completion_guard env past (Signs c) \<longleftrightarrow> False"
| "completion_guard env past _ \<longleftrightarrow> True"

section \<open>Polling\<close>

abbreviation keeps :: "completion_environment \<Rightarrow> completion_counts task \<Rightarrow> effect list \<Rightarrow> bool" where
  "keeps env t past \<equiv> guarded (completion_guard env) t (\<lambda>_ _. True) past"

lemma create_event_id_guarded [simp]:
  "guarded G (create_event_id t) Q past \<longleftrightarrow>
   (\<forall>bytes i. createUlid (Some t) (\<lambda>_. bytes) = Inr i \<longrightarrow> Q past i)"
  by (simp add: create_event_id_def)

lemma give_up_keeps:
  assumes "\<And>i. un_runpodJobId i = pc_runpodJobId c \<Longrightarrow> un_deadline i = d \<Longrightarrow> lost_seen past i"
  shows "keeps env (give_up c t d ms counts) past"
  using assms by (simp add: give_up_def Let_def)

lemma poll_status_keeps: "keeps env (poll_status c counts) past"
proof -
  have "keeps env (observe_status c t result counts) (before @ [Asked (pc_runpodJobId c) result])" for before t result
  proof (cases result)
    case (Status_found s)
    have "keeps env (record_status c s counts) (before @ [Asked (pc_runpodJobId c) result])"
      if "sr_id s = pc_runpodJobId c" "hasMatchingOutputIdentity s (pc_jobId c) (pc_attemptId c)"
        "sr_status s \<in> terminalStatuses"
      using that Status_found by (auto simp: record_status_def Let_def status_seen_def)
    moreover have "keeps env (give_up c t Execution_deadline ms counts)
        ((before @ [Asked (pc_runpodJobId c) result]) @ [Stopped (pc_runpodJobId c) x])"
      if "sr_id s = pc_runpodJobId c" "sr_status s \<notin> terminalStatuses" for ms x
      by (rule give_up_keeps) (use that Status_found in \<open>auto simp: lost_seen_def\<close>)
    ultimately show ?thesis using Status_found by (auto simp: observe_status_def split: option.split)
  next
    case Status_not_found
    have "keeps env (give_up c t Submission_deadline ms counts) (before @ [Asked (pc_runpodJobId c) result])" for ms
      by (rule give_up_keeps) (use Status_not_found in \<open>auto simp: lost_seen_def\<close>)
    then show ?thesis using Status_not_found by (simp add: observe_status_def)
  qed (simp_all add: observe_status_def)
  then show ?thesis by (simp add: poll_status_def)
qed

section \<open>Verification\<close>

lemma task_try_guarded:
  "guarded G m Q past \<Longrightarrow> (\<And>past. Q past None) \<Longrightarrow> guarded G (task_try m) Q past"
  by (induction m arbitrary: past) auto

lemma head_artifacts_guarded:
  assumes "\<And>past k. G past (Heads k)"
    and "\<And>hs. length hs = length keys \<Longrightarrow> Q (past @ map (\<lambda>(k, h). Headed k h) (zip keys hs)) hs"
  shows "guarded G (head_artifacts keys) Q past"
  using assms(2)
proof (induction keys arbitrary: past Q)
  case (Cons k keys)
  have "guarded G (head_artifacts keys) (\<lambda>past hs. Q past (h # hs)) (past @ [Headed k h])" for h
  proof (rule Cons.IH)
    fix hs :: "int option result list" assume "length hs = length keys"
    then show "Q ((past @ [Headed k h]) @ map (\<lambda>(k, h). Headed k h) (zip keys hs)) (h # hs)"
      using Cons.prems [of "h # hs"] by simp
  qed
  then show ?case using assms(1) by simp
qed simp

lemma all_results_Inr: "all_results rs = Inr xs \<Longrightarrow> rs = map Inr xs"
  by (induction rs arbitrary: xs) (auto simp: result_simps)

lemma matching_heads:
  assumes "all_results hs = Inr xs" "list_all2 head_matches vs xs" "v \<in> set vs"
  shows "va_sizeBytes v \<le> 2147483648 \<and>
    Headed (va_key v) (Inr (Some (int (va_sizeBytes v)))) \<in> set (map (\<lambda>(k, h). Headed k h) (zip (map va_key vs) hs))"
proof -
  obtain n where n: "n < length vs" "v = vs ! n" using assms(3) by (auto simp: in_set_conv_nth)
  have hs: "hs = map Inr xs" "length xs = length vs"
    using all_results_Inr [OF assms(1)] list_all2_lengthD [OF assms(2)] by simp_all
  have "head_matches v (xs ! n)" using list_all2_nthD [OF assms(2) n(1)] n(2) by simp
  then have head: "xs ! n = Some (int (va_sizeBytes v))" "va_sizeBytes v \<le> 2147483648"
    by (auto simp: head_matches_def split: option.splits)
  have "zip (map va_key vs) hs ! n = (va_key v, Inr (Some (int (va_sizeBytes v))))" "n < length (zip (map va_key vs) hs)"
    using n hs head(1) by simp_all
  then have "(va_key v, Inr (Some (int (va_sizeBytes v)))) \<in> set (zip (map va_key vs) hs)" by (metis nth_mem)
  then show ?thesis using head(2) by force
qed

lemma read_manifest_guarded:
  assumes "\<And>past k. G past (Gets k)" "\<And>past. Q past JNull"
    and "\<And>r j. ro_size r \<le> MAX_MANIFEST_BYTES \<Longrightarrow> cv_parse_json env (ro_text r) = Some j \<Longrightarrow>
      Q (past @ [Got key (Inr (Some r))]) j"
  shows "guarded G (defaultReadManifest env key) Q past"
  using assms by (auto simp: defaultReadManifest_def split: option.split)

lemma not_manifest_JNull [simp]: "\<not> resultManifestSchema JNull"
  by (simp add: resultManifestSchema_def strict_object_def)

lemma verifyArtifacts_guarded:
  "guarded (completion_guard env) (verifyArtifacts env x)
     (\<lambda>past r. \<forall>vs. r = Some vs \<longrightarrow> artifacts_seen env past (to_jobId x) (to_attemptId x) (to_resultPrefix x) vs) past"
  unfolding verifyArtifacts_def guarded_bind
proof (rule read_manifest_guarded)
  fix r :: r2_object and j assume r: "ro_size r \<le> MAX_MANIFEST_BYTES" "cv_parse_json env (ro_text r) = Some j"
  let ?past = "past @ [Got (to_resultPrefix x @ ''manifest.json'') (Inr (Some r))]"
  have "guarded (completion_guard env) (head_artifacts (map va_key vs))
      (\<lambda>past results. \<forall>heads. list_all2 head_matches vs heads \<longrightarrow> all_results results = Inr heads \<longrightarrow>
         artifacts_seen env past (to_jobId x) (to_attemptId x) (to_resultPrefix x) vs) ?past"
    if "resultManifestSchema j" "rm_jobId (read_manifest j) = to_jobId x" "rm_attemptId (read_manifest j) = to_attemptId x"
      "manifestArtifacts (read_manifest j) (to_resultPrefix x) = Some vs" for vs
    by (rule head_artifacts_guarded) (use that r matching_heads in \<open>auto simp: artifacts_seen_def\<close>)
  then show "guarded (completion_guard env)
      (let manifest = read_manifest j in
       if \<not> resultManifestSchema j \<or> rm_jobId manifest \<noteq> to_jobId x \<or> rm_attemptId manifest \<noteq> to_attemptId x
       then Finish None
       else case manifestArtifacts manifest (to_resultPrefix x) of None \<Rightarrow> Finish None
         | Some artifacts \<Rightarrow> task_bind (head_artifacts (map va_key artifacts)) (\<lambda>results.
             task_bind (task_result (all_results results)) (\<lambda>heads.
             Finish (if list_all2 head_matches artifacts heads then Some artifacts else None))))
      (\<lambda>past r. \<forall>vs. r = Some vs \<longrightarrow> artifacts_seen env past (to_jobId x) (to_attemptId x) (to_resultPrefix x) vs) ?past"
    by (auto simp: Let_def split: option.split elim: guarded_mono)
qed simp_all

section \<open>The pass\<close>

lemma settle_failed_keeps [simp]: "keeps env (settle_failed x t counts) past"
  by (simp add: settle_failed_def settle_terminal_def Let_def)

lemma settle_outcome_keeps: "keeps env (settle_outcome env x counts) past"
proof -
  have "keeps env (settle_completed x vs d t counts) past"
    if "artifacts_seen env past (to_jobId x) (to_attemptId x) (to_resultPrefix x) vs" for vs d t past
    using that by (auto simp: settle_completed_def Let_def)
  then have "guarded (completion_guard env) (task_try (verifyArtifacts env x))
      (\<lambda>past artifacts. keeps env (case (artifacts, to_durationSeconds x) of
         (Some vs, Some d) \<Rightarrow> settle_completed x vs d t counts
       | _ \<Rightarrow> if elapsed (to_runpodTerminalObservedAt x) t RESULT_RETENTION_GRACE_MS
           then settle_failed x t counts else Finish counts) past) past" for t
    by (intro task_try_guarded guarded_mono [OF verifyArtifacts_guarded]) (auto split: option.split)
  then show ?thesis
    by (simp add: settle_outcome_def settle_terminal_def Let_def)
qed

lemma pass_keeps: "keeps env (reconcileRunpodCompletions env) past"
  unfolding reconcileRunpodCompletions_def
  by (simp, intro allI impI guarded_mono [OF guarded_for_each [where Inv = "\<lambda>_ _. True"]])
    (auto intro: poll_status_keeps settle_outcome_keeps guarded_for_each)

end
