(* ===== verification/CompletionAlone.thy ===== *)
theory CompletionAlone
  imports CompletionRuns CompletionProperties
begin

text \<open>
  What completion-service.ts does with one outcome when nothing else happens at the same time: which
  answers of R2 make it complete the job, and what it does with every other outcome.
\<close>

section \<open>Tasks without writes\<close>

lemma alone_task_try:
  "run_alone w (task_try m) db =
     (case run_alone w m db of (Inl e, db') \<Rightarrow> (Inr None, db') | (Inr x, db') \<Rightarrow> (Inr x, db'))"
  by (induction m arbitrary: db) simp_all

lemma alone_head_artifacts [simp]: "run_alone w (head_artifacts keys) db = (Inr (map (wd_head w) keys), db)"
  by (induction keys) (simp_all add: alone_bind)

lemma alone_create_event_id:
  assumes "ulid_time_ok t" "\<And>n. length (wd_random w n) = n"
  obtains i where "ulid_ok i" "\<forall>db. run_alone w (create_event_id t) db = (Inr i, db)"
proof -
  obtain i where "createUlid (Some t) (\<lambda>_. wd_random w ULID_RANDOM_BYTES) = Inr i" "ulid_ok i"
    using createUlid_eq [of t "\<lambda>_. wd_random w ULID_RANDOM_BYTES"] assms ulid_ok_base32
    by (simp add: ULID_RANDOM_BYTES_def)
  then show thesis using that by (simp add: create_event_id_def)
qed

lemma snd_alone_read_manifest [simp]: "snd (run_alone w (defaultReadManifest env key) db) = db"
  by (simp add: defaultReadManifest_def alone_bind split: sum.split option.split)

lemma snd_alone_bind:
  "snd (run_alone w m db) = db \<Longrightarrow> (\<And>x. snd (run_alone w (f x) db) = db) \<Longrightarrow> snd (run_alone w (task_bind m f) db) = db"
  by (auto simp: alone_bind split: prod.split sum.split)

lemma snd_alone_verifyArtifacts [simp]: "snd (run_alone w (verifyArtifacts env x) db) = db"
  unfolding verifyArtifacts_def
  by (intro snd_alone_bind) (auto simp: Let_def split: option.split intro!: snd_alone_bind)

section \<open>A manifest and its artifacts\<close>

text \<open>R2 holds a manifest for the outcome that names the artifacts \<open>vs\<close>, and every artifact, as large as named.\<close>

definition results_stored ::
  "completion_environment \<Rightarrow> terminal_outcome \<Rightarrow> verified_artifact list \<Rightarrow> world \<Rightarrow> bool" where
  "results_stored env x vs w \<longleftrightarrow>
     (\<exists>r j. wd_object w (to_resultPrefix x @ ''manifest.json'') = Inr (Some r) \<and> ro_size r \<le> MAX_MANIFEST_BYTES \<and>
        ro_text r \<noteq> [] \<and> int (cv_utf8_length env (ro_text r)) \<le> MAX_MANIFEST_BYTES \<and>
        cv_parse_json env (ro_text r) = Some j \<and> resultManifestSchema j \<and>
        rm_jobId (read_manifest j) = to_jobId x \<and> rm_attemptId (read_manifest j) = to_attemptId x \<and>
        manifestArtifacts (read_manifest j) (to_resultPrefix x) = Some vs) \<and>
     (\<forall>v \<in> set vs. va_sizeBytes v \<le> 2147483648 \<and> wd_head w (va_key v) = Inr (Some (int (va_sizeBytes v))))"

lemma all_results_map_Inr [simp]: "all_results (map (\<lambda>x. Inr (f x)) xs) = Inr (map f xs)"
  by (induction xs) simp_all

lemma verify_alone:
  assumes "results_stored env x vs w"
  shows "run_alone w (verifyArtifacts env x) db = (Inr (Some vs), db)"
proof -
  obtain r j where r: "wd_object w (to_resultPrefix x @ ''manifest.json'') = Inr (Some r)" "ro_size r \<le> MAX_MANIFEST_BYTES"
      "ro_text r \<noteq> []" "int (cv_utf8_length env (ro_text r)) \<le> MAX_MANIFEST_BYTES"
      "cv_parse_json env (ro_text r) = Some j" "resultManifestSchema j"
      "rm_jobId (read_manifest j) = to_jobId x" "rm_attemptId (read_manifest j) = to_attemptId x"
      "manifestArtifacts (read_manifest j) (to_resultPrefix x) = Some vs"
    and heads: "\<forall>v \<in> set vs. va_sizeBytes v \<le> 2147483648 \<and> wd_head w (va_key v) = Inr (Some (int (va_sizeBytes v)))"
    using assms unfolding results_stored_def by blast
  have got: "map (wd_head w \<circ> va_key) vs = map (\<lambda>v. Inr (Some (int (va_sizeBytes v)))) vs"
    using heads by simp
  have "list_all2 head_matches vs (map (\<lambda>v. Some (int (va_sizeBytes v))) vs)"
    using heads by (auto simp: list_all2_conv_all_nth head_matches_def)
  then have "all_results (map (wd_head w \<circ> va_key) vs) = Inr (map (\<lambda>v. Some (int (va_sizeBytes v))) vs) \<and>
    list_all2 head_matches vs (map (\<lambda>v. Some (int (va_sizeBytes v))) vs)"
    unfolding got by simp
  then show ?thesis
    using r by (simp add: verifyArtifacts_def defaultReadManifest_def alone_bind Let_def)
qed

lemma manifest_artifact_ok:
  assumes "resultManifestSchema j" "k \<in> {''json'', ''markdown'', ''srt''}"
    and m: "m = read_manifest_artifact (object_field k (object_field ''artifacts'' j))"
  shows "1 \<le> length (ma_key m) \<and> length (ma_key m) \<le> 1024 \<and> starts_with ''results/'' (ma_key m) \<and> sha256_hex_ok (ma_sha256 m)"
proof -
  obtain v where v: "json_field ''artifacts'' j = Some v"
    and fields: "strict_object [required ''json'' manifestArtifactSchema, required ''markdown'' manifestArtifactSchema,
      required ''srt'' manifestArtifactSchema] v"
    using strict_field [OF assms(1) [unfolded resultManifestSchema_def], of "''artifacts''" "strict_object
      [required ''json'' manifestArtifactSchema, required ''markdown'' manifestArtifactSchema,
       required ''srt'' manifestArtifactSchema]"]
    by (auto simp: required_def)
  obtain a where a: "json_field k v = Some a" "manifestArtifactSchema a"
    using strict_field [OF fields, of k manifestArtifactSchema] assms(2) by (auto simp: required_def)
  have m: "ma_key m = string_field ''key'' a" "ma_sha256 m = string_field ''sha256'' a"
    by (simp_all add: m read_manifest_artifact_def object_field_def v a(1))
  note schema = a(2) [unfolded manifestArtifactSchema_def]
  have "1 \<le> length (string_field ''key'' a) \<and> length (string_field ''key'' a) \<le> 1024 \<and>
      starts_with ''results/'' (string_field ''key'' a)"
    by (rule strict_string [OF schema]) (simp add: required_def)
  moreover have "sha256_hex_ok (string_field ''sha256'' a)"
    by (rule strict_string [OF schema]) (simp add: required_def)
  ultimately show ?thesis using m by simp
qed

lemma manifest_artifacts_ok:
  assumes "resultManifestSchema j" "manifestArtifacts (read_manifest j) p = Some vs"
    and "\<forall>v \<in> set vs. va_sizeBytes v \<le> 2147483648"
  shows "list_all verified_artifact_ok vs" "ordered_artifacts vs = Inr vs" "distinct (map va_key vs)"
proof -
  let ?m = "read_manifest j"
  have vs: "vs = [\<lparr>va_format = ''markdown'', va_key = ma_key (rm_markdown ?m), va_sha256 = ma_sha256 (rm_markdown ?m),
        va_sizeBytes = ma_sizeBytes (rm_markdown ?m)\<rparr>,
      \<lparr>va_format = ''json'', va_key = ma_key (rm_json ?m), va_sha256 = ma_sha256 (rm_json ?m),
        va_sizeBytes = ma_sizeBytes (rm_json ?m)\<rparr>,
      \<lparr>va_format = ''srt'', va_key = ma_key (rm_srt ?m), va_sha256 = ma_sha256 (rm_srt ?m),
        va_sizeBytes = ma_sizeBytes (rm_srt ?m)\<rparr>]"
    and keys: "ma_key (rm_markdown ?m) = p @ ''transcript.md''" "ma_key (rm_json ?m) = p @ ''transcript.json''"
      "ma_key (rm_srt ?m) = p @ ''transcript.srt''"
    using assms(2) by (auto simp: manifestArtifacts_def Let_def split: if_splits)
  note ok = manifest_artifact_ok [OF assms(1) _ refl]
  show "list_all verified_artifact_ok vs"
    using assms(3) ok [of "''json''"] ok [of "''markdown''"] ok [of "''srt''"]
    by (simp add: vs verified_artifact_ok_def OUTPUT_FORMATS_def read_manifest_def Let_def)
  show "ordered_artifacts vs = Inr vs"
    by (simp add: vs ordered_artifacts_def required_artifact_def)
  show "distinct (map va_key vs)" by (simp add: vs keys)
qed

section \<open>One outcome\<close>

definition results_new :: "terminal_outcome \<Rightarrow> verified_artifact list \<Rightarrow> world \<Rightarrow> d1 \<Rightarrow> bool" where
  "results_new x vs w db \<longleftrightarrow>
     (\<forall>f \<in> set (d1_artifacts db). af_attempt_id f \<noteq> to_attemptId x \<and> af_object_key f \<notin> va_key ` set vs) \<and>
     (\<forall>i. createUlid (Some (wd_now w)) (\<lambda>_. wd_random w ULID_RANDOM_BYTES) = Inr i \<longrightarrow> i \<notin> ob_id ` set (d1_outbox db))"

definition sound_world :: "world \<Rightarrow> bool" where
  "sound_world w \<longleftrightarrow> (\<forall>n. length (wd_random w n) = n) \<and> ulid_time_ok (wd_now w) \<and> iso_time_range (wd_now w)"

lemma settle_terminal_alone:
  assumes inv: "d1_inv db" and found: "findTerminalOutcomes limit db = Inr xs" "x \<in> set xs"
    and checks: "\<forall>a \<in> set (d1_attempts db). attempt_checks a" "\<forall>j \<in> set (d1_jobs db). job_checks j"
    and winner: "to_winningRunpodJobId x = None \<or> to_winningRunpodJobId x = Some (to_runpodTerminalJobId x)"
    and s: "s = ATT_FAILED \<and> code \<noteq> None \<or> s = ATT_CANCELLED \<and> code = None" and t: "iso_time_range t"
  obtains db' j where "run_alone w (settle_terminal x s code t) db = (Inr True, db')" "j \<in> set (d1_jobs db')"
    "jb_id j = to_jobId x" "jb_status j = job_status_of_attempt s" "\<forall>a \<in> set (d1_attempts db'). \<not> occupies_gpu a"
proof -
  obtain a j where a: "a \<in> set (d1_attempts db)" "occupies_gpu a" "provider_compatible db a"
      "am_runpod_terminal_status a \<noteq> None" "am_runpod_terminal_job_id a = Some (to_runpodTerminalJobId x)"
    and j: "j \<in> set (d1_jobs db)" "jb_active_attempt_id j = Some (am_id a)" "jb_id j = am_job_id a" "in_progress j"
    and x: "x = mapTerminalOutcome (j, a)" and row: "terminalOutcomeRowSchema (j, a)"
    by (rule found_outcome [OF inv found]) blast
  define i where "i = \<lparr>fi_attemptId = to_attemptId x, fi_errorCode = code, fi_jobId = to_jobId x,
    fi_runpodJobId = to_runpodTerminalJobId x, fi_status = s, fi_timestamp = to_iso t\<rparr>"
  have ids: "to_attemptId x = am_id a" "to_jobId x = am_job_id a" "to_winningRunpodJobId x = am_winning_runpod_job_id a"
    by (simp_all add: x mapTerminalOutcome_def)
  have "finalize_request_ok i"
    using s utc_datetime_ok_to_iso [OF t] row a(5)
    by (auto simp: finalize_request_ok_def finalize_input_ok_def finalize_identifiers_ok_def i_def ids
        terminalOutcomeRowSchema_def not_null_def)
  moreover have "finalizable i db a"
    using a j ids winner s by (auto simp: i_def finalizable_def has_in_progress_job_def)
  ultimately obtain db' k where k: "finalizeTerminal i db = (Inr True, db')" "jb_id k = fi_jobId i"
    "finalized_job (fi_status i) (fi_errorCode i) (fi_timestamp i) None k \<in> set (d1_jobs db')"
    "\<forall>b \<in> set (d1_attempts db'). \<not> occupies_gpu b"
    using finalizeTerminal_ends [OF inv a(1) _ _ checks(2)] checks(1) a(1) by metis
  have "run_alone w (settle_terminal x s code t) db = (Inr True, db')"
    using k(1) by (simp add: settle_terminal_def i_def [symmetric] Let_def)
  moreover have "jb_id (finalized_job (fi_status i) (fi_errorCode i) (fi_timestamp i) None k) = to_jobId x"
    "jb_status (finalized_job (fi_status i) (fi_errorCode i) (fi_timestamp i) None k) = job_status_of_attempt s"
    using k(2) by (simp_all add: finalized_job_def i_def)
  ultimately show thesis using that k(3,4) by blast
qed

text \<open>The completion of an outcome whose results are stored.\<close>

lemma settle_completed_alone:
  assumes inv: "d1_inv db" and found: "findTerminalOutcomes limit db = Inr xs" "x \<in> set xs"
    and complete: "isCompletionOutcome x" "to_jobStatus x \<noteq> SUBMITTING" "to_durationSeconds x = Some d"
    and checks: "\<forall>a \<in> set (d1_attempts db). attempt_checks a" "\<forall>j \<in> set (d1_jobs db). job_checks j"
    and world: "results_stored env x vs w" "results_new x vs w db" "sound_world w"
  obtains db' j where "run_alone w (settle_completed x vs d (wd_now w) counts) db =
      (Inr (counts\<lparr>cc_completed := cc_completed counts + 1\<rparr>), db')"
    "j \<in> set (d1_jobs db')" "jb_id j = to_jobId x" "jb_status j = COMPLETED" "jb_duration_seconds j = Some d"
    "\<forall>a \<in> set (d1_attempts db'). \<not> occupies_gpu a"
proof -
  have outcome: "to_runpodTerminalStatus x = ''COMPLETED''" "to_runpodOutputStatus x = Some ''completed''"
    "to_runpodManifestWritten x = Some True" "to_winningRunpodJobId x = Some (to_runpodTerminalJobId x)"
    using complete(1) by (simp_all add: isCompletionOutcome_def)
  obtain a j where a: "a \<in> set (d1_attempts db)" "am_id a = to_attemptId x" "am_job_id a = to_jobId x"
      "completed_by (to_runpodTerminalJobId x) a" "provider_compatible db a"
    and j: "j \<in> set (d1_jobs db)" "jb_id j = to_jobId x" "jb_active_attempt_id j = Some (to_attemptId x)"
      "running_or_cancelling j"
    by (rule found_completion [OF inv found outcome complete(2)])
  obtain b k where row: "terminalOutcomeRowSchema (k, b)" and x: "x = mapTerminalOutcome (k, b)"
    and job: "am_runpod_terminal_job_id b = Some (to_runpodTerminalJobId x)"
    by (rule found_outcome [OF inv found]) blast
  obtain m where m: "resultManifestSchema m" "manifestArtifacts (read_manifest m) (to_resultPrefix x) = Some vs"
    and sizes: "\<forall>v \<in> set vs. va_sizeBytes v \<le> 2147483648"
    using world(1) unfolding results_stored_def by blast
  note vs = manifest_artifacts_ok [OF m sizes]
  have now: "ulid_time_ok (wd_now w)" "iso_time_range (wd_now w)" "\<And>n. length (wd_random w n) = n"
    using world(3) by (simp_all add: sound_world_def)
  obtain e where e: "ulid_ok e" "\<forall>db. run_alone w (create_event_id (wd_now w)) db = (Inr e, db)"
    by (rule alone_create_event_id [OF now(1,3)])
  have new: "e \<notin> ob_id ` set (d1_outbox db)"
    using world(2) e(2) by (simp add: results_new_def create_event_id_def)
  define i where "i = \<lparr>ci_artifacts = vs, ci_attemptId = to_attemptId x, ci_durationSeconds = d, ci_eventId = e,
    ci_jobId = to_jobId x, ci_notificationId = e, ci_runpodJobId = to_runpodTerminalJobId x,
    ci_timestamp = to_iso (wd_now w)\<rparr>"
  have i: "ci_attemptId i = to_attemptId x" "ci_jobId i = to_jobId x" "ci_runpodJobId i = to_runpodTerminalJobId x"
    "ci_artifacts i = vs" "ci_eventId i = e" "ci_notificationId i = e" "ci_durationSeconds i = d"
    "ci_timestamp i = to_iso (wd_now w)" by (simp_all add: i_def)
  have ids: "to_attemptId x = am_id b" "to_jobId x = am_job_id b" "to_durationSeconds x = am_media_duration_seconds b"
    by (simp_all add: x mapTerminalOutcome_def)
  have "0 \<le> d \<and> d \<le> MAX_RECORDING_DURATION_SECONDS" "ulid_ok (to_attemptId x)" "ulid_ok (to_jobId x)"
      "runpodJobIdSchema (to_runpodTerminalJobId x)"
    using row complete(3) job by (simp_all add: ids terminalOutcomeRowSchema_def not_null_def)
  then have input: "completion_input_ok i"
    using vs(1) utc_datetime_ok_to_iso [OF now(2)] by (simp add: completion_input_ok_def i)
  have fresh: "artifacts_fresh i db"
    using world(2) vs(3) new by (simp add: artifacts_fresh_def i results_new_def)
  let ?j = "finalized_job ATT_COMPLETED None (ci_timestamp i) (Some (ci_durationSeconds i)) j"
  obtain events db' where batch: "completion_batch i vs db = Inr (([completed_attempt_row i a], [?j], events), db')"
    and rows: "?j \<in> set (d1_jobs db')" "\<forall>b \<in> set (d1_attempts db'). \<not> occupies_gpu b"
    by (rule completion_batch_ends [OF inv a(1) _ _ _ a(5) j(1) _ _ j(4) _ _ input _ fresh])
      (use a j checks vs(2) e(1) i in simp_all)
  have "finalizeCompleted i db = (Inr True, db')"
    by (rule finalizeCompleted_batch [OF input _ _ _ batch])
      (use a(2) j(2) vs(2) e(1) i in \<open>simp_all add: finalized_job_def\<close>)
  then have "run_alone w (settle_completed x vs d (wd_now w) counts) db =
      (Inr (counts\<lparr>cc_completed := cc_completed counts + 1\<rparr>), db')"
    by (simp add: settle_completed_def alone_bind e(2) i_def [symmetric] Let_def)
  moreover have "jb_id ?j = to_jobId x" "jb_status ?j = COMPLETED" "jb_duration_seconds ?j = Some d"
    using j(2) by (simp_all add: finalized_job_def i)
  ultimately show thesis using that rows by blast
qed

end
