(* ===== verification/PassExample.thy ===== *)
theory PassExample
  imports CompletionAlone ServiceExample
begin

text \<open>
  R2 with the results of the recording of CompletionExample, and RunPod reporting the end of the one of
  ServiceExample: the witnesses of the properties of a pass evaluate it there.
\<close>

section \<open>Stored results\<close>

abbreviation ex_prefix :: string where "ex_prefix \<equiv> ingest_result_prefix ex_ingest"

definition ex_artifact_json :: "string \<Rightarrow> json" where
  "ex_artifact_json name = JObj [(''key'', JStr (ex_prefix @ name)), (''sha256'', JStr ex_hash), (''sizeBytes'', JNum 3)]"

definition ex_manifest :: json where
  "ex_manifest = JObj [(''artifacts'', JObj [(''json'', ex_artifact_json ''transcript.json''),
       (''markdown'', ex_artifact_json ''transcript.md''), (''srt'', ex_artifact_json ''transcript.srt'')]),
     (''attemptId'', JStr ex_attempt_id), (''complete'', JBool True), (''jobId'', JStr ex_job_id),
     (''schemaVersion'', JNum 1)]"

definition ex_results :: "verified_artifact list" where
  "ex_results = map (\<lambda>(format, name). \<lparr>va_format = format, va_key = ex_prefix @ name, va_sha256 = ex_hash, va_sizeBytes = 3\<rparr>)
     [(''markdown'', ''transcript.md''), (''json'', ''transcript.json''), (''srt'', ''transcript.srt'')]"

definition ex_completion_environment :: completion_environment where
  "ex_completion_environment = \<lparr>cv_parse_json = (\<lambda>_. Some ex_manifest), cv_utf8_length = length\<rparr>"

definition ex_results_world :: world where
  "ex_results_world = ex_world\<lparr>wd_object := (\<lambda>_. Inr (Some \<lparr>ro_size = 2, ro_text = ''{}''\<rparr>)),
     wd_head := (\<lambda>_. Inr (Some 3))\<rparr>"

lemma ex_artifact_ok: "length name \<le> 100 \<Longrightarrow> manifestArtifactSchema (ex_artifact_json name)"
  using ex_prefix_ok
  by (auto simp: manifestArtifactSchema_def ex_artifact_json_def schema_defs outcomePrefixSchema_def starts_with_iff)

lemma ex_manifest_ok: "resultManifestSchema ex_manifest"
  by (simp add: resultManifestSchema_def ex_manifest_def schema_defs ex_artifact_ok)

lemma ex_manifest_artifacts:
  "read_manifest_artifact (ex_artifact_json name) = \<lparr>ma_key = ex_prefix @ name, ma_sha256 = ex_hash, ma_sizeBytes = 3\<rparr>"
  by (simp add: read_manifest_artifact_def ex_artifact_json_def string_field_def count_field_def json_field_def)

lemma ex_manifest_read:
  "rm_jobId (read_manifest ex_manifest) = ex_job_id" "rm_attemptId (read_manifest ex_manifest) = ex_attempt_id"
  "manifestArtifacts (read_manifest ex_manifest) ex_prefix = Some ex_results"
  by (simp_all add: read_manifest_def ex_manifest_def object_field_def json_field_def string_field_def
      manifestArtifacts_def ex_manifest_artifacts ex_results_def)

lemma ex_done_outcome_more [simp]:
  "to_resultPrefix ex_done_outcome = ex_prefix" "to_durationSeconds ex_done_outcome = Some 60"
  by (simp_all add: ex_done_outcome_def mapTerminalOutcome_def)

lemma ex_results_stored: "results_stored ex_completion_environment ex_done_outcome ex_results ex_results_world"
proof -
  have "ro_size \<lparr>ro_size = 2, ro_text = ''{}''\<rparr> \<le> MAX_MANIFEST_BYTES" by (simp add: MAX_MANIFEST_BYTES_def)
  then show ?thesis
    using ex_manifest_ok ex_manifest_read
    by (simp add: results_stored_def ex_completion_environment_def ex_results_world_def MAX_MANIFEST_BYTES_def)
      (simp add: ex_results_def)
qed

lemma ex_results_new: "results_new ex_done_outcome ex_results ex_results_world ex_done"
  by (simp add: results_new_def)

lemma ex_sound_world: "sound_world ex_results_world"
  by (simp add: sound_world_def ex_results_world_def ex_world_def)

lemma ex_done_completion: "isCompletionOutcome ex_done_outcome"
  by (simp add: isCompletionOutcome_def)

text \<open>A pass over that database: nothing to poll, one outcome to settle.\<close>

lemma ex_done_polled: "findStatusPollCandidates 25 ex_done = Inr []"
proof -
  have "poll_rows ex_done = []" by (auto simp: poll_rows_def reconcilable_rows_def)
  then show ?thesis
    by (simp add: findStatusPollCandidates_def find_status_poll_candidates_sql_def order_by_def reconciliationLimitSchema_def)
qed

lemma ex_pass:
  obtains before i after g out where
    "task_run (reconcileRunpodCompletions ex_completion_environment) [ex_done]
       (before @ Wrote (Finalize_completed i) ex_done # after) g out" "ci_artifacts i = ex_results"
proof -
  obtain e where e: "\<forall>db. run_alone ex_results_world (create_event_id ex_time) db = (Inr e, db)"
    by (rule alone_create_event_id [of ex_time ex_results_world]) (simp_all add: ex_results_world_def ex_world_def)
  have none: "alone_effects ex_results_world (create_event_id t) db = []" for t db
    by (simp add: create_event_id_def)
  have w: "wd_now ex_results_world = ex_time" by (simp add: ex_results_world_def)
  define i where "i = \<lparr>ci_artifacts = ex_results, ci_attemptId = ex_attempt_id, ci_durationSeconds = 60, ci_eventId = e,
    ci_jobId = ex_job_id, ci_notificationId = e, ci_runpodJobId = ''r'', ci_timestamp = to_iso ex_time\<rparr>"
  let ?t = "settle_outcome ex_completion_environment ex_done_outcome no_counts"
  have "\<exists>before after. alone_effects ex_results_world ?t ex_done = before @ Wrote (Finalize_completed i) ex_done # after"
    using ex_done_completion e
    by (auto simp: settle_outcome_def settle_completed_def alone_bind alone_effects_bind alone_task_try none w
        verify_alone [OF ex_results_stored] i_def Let_def)
  then obtain before after where effects:
    "alone_effects ex_results_world ?t ex_done = before @ Wrote (Finalize_completed i) ex_done # after" by blast
  have "\<exists>after. alone_effects ex_results_world (reconcileRunpodCompletions ex_completion_environment) ex_done =
      before @ Wrote (Finalize_completed i) ex_done # after"
    using ex_done_polled ex_done_found effects
    by (simp add: reconcileRunpodCompletions_def alone_bind alone_effects_bind RECONCILIATION_BATCH_SIZE_def)
  then show thesis
    using that alone_run [of "reconcileRunpodCompletions ex_completion_environment" ex_done "[]" ex_results_world]
    by (metis i_def completion_input.select_convs(1))
qed

section \<open>A reported end\<close>

definition ex_polled :: d1 where
  "ex_polled = ex_running\<lparr>d1_submissions := [\<lparr>rs_runpod_job_id = ''r'', rs_attempt_id = ex_attempt_id,
     rs_is_winner = True, rs_source = ''worker_claim'', rs_created_at = ex_at, rs_updated_at = ex_at\<rparr>]\<rparr>"

definition ex_candidate :: poll_candidate where
  "ex_candidate = \<lparr>pc_attemptId = ex_attempt_id, pc_attemptStatus = ATT_RUNNING, pc_claimedAt = Some ex_at,
     pc_heartbeatAt = None, pc_jobId = ex_job_id, pc_jobStatus = RUNNING, pc_runpodJobId = ''r'',
     pc_submissionStartedAt = ex_at\<rparr>"

lemma ex_running_attempt_times [simp]:
  "am_claimed_at ex_running_attempt = Some ex_at" "am_heartbeat_at ex_running_attempt = None"
  "am_submission_started_at ex_running_attempt = Some ex_at"
  by (simp_all add: ex_running_attempt_def claimed_attempt_def ex_attempt_def prepared_row_def ingested_attempt_def)

lemma ex_candidate_found: "findStatusPollCandidates 25 ex_polled = Inr [ex_candidate]"
proof -
  have "poll_rows ex_polled = [(ex_running_row, ex_running_attempt, \<lparr>rs_runpod_job_id = ''r'', rs_attempt_id = ex_attempt_id,
     rs_is_winner = True, rs_source = ''worker_claim'', rs_created_at = ex_at, rs_updated_at = ex_at\<rparr>)]"
    by (simp add: poll_rows_def reconcilable_rows_def ex_polled_def in_progress_def occupies_gpu_def
        provider_compatible_def execution_matches_def ex_execution_def)
  then show ?thesis
    by (simp add: findStatusPollCandidates_def find_status_poll_candidates_sql_def order_by_def
        reconciliationLimitSchema_def pollCandidateRowSchema_def mapPollCandidate_def ex_candidate_def not_null_def
        nullable_def occupies_gpu_def)
qed

definition ex_ended :: status_response where
  "ex_ended = \<lparr>sr_delayTime = None, sr_executionTime = None, sr_id = ''r'', sr_output = None, sr_status = ''FAILED''\<rparr>"

definition ex_reporting_world :: world where
  "ex_reporting_world = ex_world\<lparr>wd_status := (\<lambda>_. Status_found ex_ended)\<rparr>"

lemma ex_polling_pass:
  obtains before i after g out where
    "task_run (reconcileRunpodCompletions ex_completion_environment) [ex_polled]
       (before @ Wrote (Record_terminal_status i) ex_polled # after) g out" "ti_status i = ''FAILED''"
proof -
  define i where "i = \<lparr>ti_attemptId = ex_attempt_id, ti_delayTime = None, ti_executionTime = None, ti_jobId = ex_job_id,
    ti_output = None, ti_runpodJobId = ''r'', ti_status = ''FAILED'', ti_timestamp = to_iso (wd_now ex_reporting_world)\<rparr>"
  have "\<exists>after. alone_effects ex_reporting_world (poll_status ex_candidate no_counts) ex_polled =
      [Asked ''r'' (Status_found ex_ended), Wrote (Record_terminal_status i) ex_polled] @ after"
    by (simp add: poll_status_def alone_effects_bind observe_status_def ex_candidate_def ex_reporting_world_def
        ex_ended_def hasMatchingOutputIdentity_def terminalStatuses_def record_status_def i_def Let_def)
  then have "\<exists>after. alone_effects ex_reporting_world (reconcileRunpodCompletions ex_completion_environment) ex_polled =
      [Asked ''r'' (Status_found ex_ended)] @ Wrote (Record_terminal_status i) ex_polled # after"
    using ex_candidate_found
    by (auto simp: reconcileRunpodCompletions_def alone_bind alone_effects_bind RECONCILIATION_BATCH_SIZE_def)
  then show thesis
    using that alone_run [of "reconcileRunpodCompletions ex_completion_environment" ex_polled "[]" ex_reporting_world]
    by (metis i_def terminal_input.select_convs(7))
qed

end
