(* ===== verification/PassProperties.thy ===== *)
theory PassProperties
  imports PassExample
begin

text \<open>
  The properties of a pass of completion-service.ts: on what evidence it records, completes and gives up
  attempts, whatever runs at the same time, and what becomes of each ended attempt it finds.
\<close>

section \<open>Evidence\<close>

text \<open>Claim C10. Whatever runs at the same time and whatever RunPod and R2 answer, a pass asks the database to
  complete an attempt only after it has read a manifest of at most 64 KiB that names exactly this job
  and attempt and lists, under the attempt's result prefix, exactly the three artifacts with the
  hashes that are recorded, and after R2 has reported each of these objects with the recorded size.\<close>

theorem completion_follows_evidence:
  assumes "task_run (reconcileRunpodCompletions env) h es h' out"
    and "es = before @ Wrote (Finalize_completed i) db # after"
  shows "\<exists>resultPrefix r j. Got (resultPrefix @ ''manifest.json'') (Inr (Some r)) \<in> set before \<and>
    ro_size r \<le> 64 * 1024 \<and> cv_parse_json env (ro_text r) = Some j \<and> resultManifestSchema j \<and>
    rm_jobId (read_manifest j) = ci_jobId i \<and> rm_attemptId (read_manifest j) = ci_attemptId i \<and>
    manifestArtifacts (read_manifest j) resultPrefix = Some (ci_artifacts i) \<and>
    (\<forall>v \<in> set (ci_artifacts i). Headed (va_key v) (Inr (Some (int (va_sizeBytes v)))) \<in> set before)"
proof -
  have "completion_guard env before (Writes (Finalize_completed i))"
    using guarded_guards [OF assms(1) [unfolded assms(2)] pass_keeps] by simp
  then show ?thesis by (simp add: artifacts_seen_def MAX_MANIFEST_BYTES_def)
qed

theorem completion_follows_evidence_witness:
  "\<exists>es before i after g out. task_run (reconcileRunpodCompletions ex_completion_environment) [ex_done] es g out \<and>
     es = before @ Wrote (Finalize_completed i) ex_done # after \<and>
     (\<forall>v \<in> set ex_results. Headed (va_key v) (Inr (Some (int (va_sizeBytes v)))) \<in> set before)"
proof -
  obtain before i after g out where run: "task_run (reconcileRunpodCompletions ex_completion_environment) [ex_done]
      (before @ Wrote (Finalize_completed i) ex_done # after) g out" and i: "ci_artifacts i = ex_results" by (rule ex_pass)
  show ?thesis using completion_follows_evidence [OF run refl] run unfolding i by blast
qed

text \<open>Claim C11. A pass changes the database only by recording the end of an attempt, giving an attempt up,
  or settling one. It records an end only as RunPod has just reported it, for the job it asked about and
  with an output that names the attempt. It gives an attempt up only when RunPod does not know its job,
  or when the job still runs and RunPod has been told to stop it.\<close>

theorem pass_follows_reports:
  assumes "task_run (reconcileRunpodCompletions env) h es h' out" and "es = before @ Wrote q db # after"
  shows "case q of
      Record_terminal_status i \<Rightarrow>
        (\<exists>s. Asked (ti_runpodJobId i) (Status_found s) \<in> set before \<and> sr_id s = ti_runpodJobId i \<and>
           sr_status s = ti_status i \<and> ti_status i \<in> terminalStatuses \<and> sr_output s = ti_output i \<and>
           hasMatchingOutputIdentity s (ti_jobId i) (ti_attemptId i))
    | Fail_unobservable i \<Rightarrow>
        Asked (un_runpodJobId i) Status_not_found \<in> set before \<or>
        (\<exists>s x. Asked (un_runpodJobId i) (Status_found s) \<in> set before \<and> sr_status s \<notin> terminalStatuses \<and>
           Stopped (un_runpodJobId i) x \<in> set before)
    | Finalize_terminal i \<Rightarrow> True | Finalize_completed i \<Rightarrow> True | _ \<Rightarrow> False"
proof -
  have "completion_guard env before (Writes q)"
    using guarded_guards [OF assms(1) [unfolded assms(2)] pass_keeps] by simp
  then show ?thesis
    by (cases q) (auto simp: status_seen_def lost_seen_def split: reconciliation_deadline.splits)
qed

theorem pass_follows_reports_witness:
  "\<exists>es before i after g out. task_run (reconcileRunpodCompletions ex_completion_environment) [ex_polled] es g out \<and>
     es = before @ Wrote (Record_terminal_status i) ex_polled # after \<and>
     (\<exists>s. Asked (ti_runpodJobId i) (Status_found s) \<in> set before \<and> sr_status s = ''FAILED'')"
proof -
  obtain before i after g out where run: "task_run (reconcileRunpodCompletions ex_completion_environment) [ex_polled]
      (before @ Wrote (Record_terminal_status i) ex_polled # after) g out" and i: "ti_status i = ''FAILED''"
    by (rule ex_polling_pass)
  have "\<exists>s. Asked (ti_runpodJobId i) (Status_found s) \<in> set before \<and> sr_status s = ''FAILED''"
    using pass_follows_reports [OF run refl] i by auto
  then show ?thesis using run by blast
qed

section \<open>The end of an attempt\<close>

text \<open>Claim C12. An attempt that completed and whose results are stored is completed: when the job is no longer being
  submitted, the rows are those the schema of the database accepts, the manifest and
  the artifacts in R2 agree and are new to the database, and nothing else happens at the same time, the
  pass counts the job as completed, the job is COMPLETED with the duration the worker reported, and the
  GPU is free.\<close>

theorem stored_results_complete_job:
  assumes "history (db # h)" and found: "findTerminalOutcomes limit db = Inr xs" "x \<in> set xs"
    and complete: "isCompletionOutcome x" "to_jobStatus x \<noteq> SUBMITTING"
    and checks: "\<forall>a \<in> set (d1_attempts db). attempt_checks a" "\<forall>j \<in> set (d1_jobs db). job_checks j"
    and world: "results_stored env x vs w" "results_new x vs w db" "sound_world w"
  shows "\<exists>db' j. run_alone w (settle_outcome env x counts) db =
      (Inr (counts\<lparr>cc_completed := cc_completed counts + 1\<rparr>), db') \<and>
    j \<in> set (d1_jobs db') \<and> jb_id j = to_jobId x \<and> jb_status j = COMPLETED \<and>
    jb_duration_seconds j = to_durationSeconds x \<and> (\<forall>a \<in> set (d1_attempts db'). \<not> occupies_gpu a)"
proof -
  have inv: "d1_inv db" using history_sound [OF assms(1)] by simp
  obtain d where d: "to_durationSeconds x = Some d" using complete(1) by (auto simp: isCompletionOutcome_def)
  obtain db' j where done_: "run_alone w (settle_completed x vs d (wd_now w) counts) db =
      (Inr (counts\<lparr>cc_completed := cc_completed counts + 1\<rparr>), db')"
    "j \<in> set (d1_jobs db')" "jb_id j = to_jobId x" "jb_status j = COMPLETED" "jb_duration_seconds j = Some d"
    "\<forall>a \<in> set (d1_attempts db'). \<not> occupies_gpu a"
    by (rule settle_completed_alone [OF inv found complete d checks world])
  have "run_alone w (settle_outcome env x counts) db = run_alone w (settle_completed x vs d (wd_now w) counts) db"
    using complete(1) d by (simp add: settle_outcome_def alone_bind alone_task_try verify_alone [OF world(1)])
  then show ?thesis using done_ d by auto
qed

theorem stored_results_complete_job_witness:
  "\<exists>db' j. run_alone ex_results_world (settle_outcome ex_completion_environment ex_done_outcome no_counts) ex_done =
      (Inr (no_counts\<lparr>cc_completed := 1\<rparr>), db') \<and> j \<in> set (d1_jobs db') \<and> jb_status j = COMPLETED"
proof -
  obtain db' j where "run_alone ex_results_world (settle_outcome ex_completion_environment ex_done_outcome no_counts) ex_done =
      (Inr (no_counts\<lparr>cc_completed := cc_completed no_counts + 1\<rparr>), db')" "j \<in> set (d1_jobs db')" "jb_status j = COMPLETED"
    using stored_results_complete_job [OF history.start [OF ex_done_inv(1)] ex_done_found, of ex_done_outcome
        ex_completion_environment ex_results ex_results_world no_counts]
      ex_done_completion ex_done_checks ex_running_checks ex_results_stored ex_results_new ex_sound_world by auto
  moreover have "cc_completed no_counts + 1 = 1" by (simp add: no_counts_def)
  ultimately show ?thesis by metis
qed

text \<open>Claim C13. Every other ended attempt that is found, and that no other RunPod job has won, is settled as
  well: when its results cannot be verified it is left alone until 30 minutes after its end was
  observed, and its job then fails; without a complete output the job ends at once, cancelled if RunPod
  or the worker says so, failed otherwise. The GPU is then free.\<close>

theorem other_outcomes_are_settled:
  assumes "history (db # h)" and found: "findTerminalOutcomes limit db = Inr xs" "x \<in> set xs"
    and checks: "\<forall>a \<in> set (d1_attempts db). attempt_checks a" "\<forall>j \<in> set (d1_jobs db). job_checks j"
    and winner: "to_winningRunpodJobId x = None \<or> to_winningRunpodJobId x = Some (to_runpodTerminalJobId x)"
    and unverified: "\<forall>vs. fst (run_alone w (verifyArtifacts env x) db) \<noteq> Inr (Some vs)"
    and world: "sound_world w"
  shows "if isCompletionOutcome x \<and> \<not> elapsed (to_runpodTerminalObservedAt x) (wd_now w) RESULT_RETENTION_GRACE_MS
    then run_alone w (settle_outcome env x counts) db = (Inr counts, db)
    else \<exists>counts' db' j. run_alone w (settle_outcome env x counts) db = (Inr counts', db') \<and>
      j \<in> set (d1_jobs db') \<and> jb_id j = to_jobId x \<and>
      jb_status j = (if \<not> isCompletionOutcome x \<and>
        (to_runpodTerminalStatus x = ''CANCELLED'' \<or> to_runpodOutputStatus x = Some ''cancelled'')
        then CANCELLED else FAILED) \<and>
      (\<forall>a \<in> set (d1_attempts db'). \<not> occupies_gpu a)"
proof -
  have inv: "d1_inv db" using history_sound [OF assms(1)] by simp
  have now: "iso_time_range (wd_now w)" using world by (simp add: sound_world_def)
  note settle = settle_terminal_alone [OF inv found checks winner _ now, where w = w]
  obtain db1 j1 where failed: "run_alone w (settle_terminal x ATT_FAILED (Some PE_PROCESSING_FAILED) (wd_now w)) db =
      (Inr True, db1)" "j1 \<in> set (d1_jobs db1)" "jb_id j1 = to_jobId x" "jb_status j1 = FAILED"
      "\<forall>a \<in> set (d1_attempts db1). \<not> occupies_gpu a"
    by (rule settle [of ATT_FAILED "Some PE_PROCESSING_FAILED"]) simp_all
  obtain db2 j2 where cancelled: "run_alone w (settle_terminal x ATT_CANCELLED None (wd_now w)) db = (Inr True, db2)"
      "j2 \<in> set (d1_jobs db2)" "jb_id j2 = to_jobId x" "jb_status j2 = CANCELLED"
      "\<forall>a \<in> set (d1_attempts db2). \<not> occupies_gpu a"
    by (rule settle [of ATT_CANCELLED None]) simp_all
  have "run_alone w (task_try (verifyArtifacts env x)) db = (Inr None, db)"
    using unverified snd_alone_verifyArtifacts [of w env x db]
    by (cases "run_alone w (verifyArtifacts env x) db") (auto simp: alone_task_try split: sum.split option.split)
  then have "run_alone w (settle_outcome env x counts) db =
    (if isCompletionOutcome x \<and> \<not> elapsed (to_runpodTerminalObservedAt x) (wd_now w) RESULT_RETENTION_GRACE_MS
     then (Inr counts, db)
     else if \<not> isCompletionOutcome x \<and>
       (to_runpodTerminalStatus x = ''CANCELLED'' \<or> to_runpodOutputStatus x = Some ''cancelled'')
     then (Inr (counts\<lparr>cc_cancelled := cc_cancelled counts + 1\<rparr>), db2)
     else (Inr (counts\<lparr>cc_failed := cc_failed counts + 1\<rparr>), db1))"
    using failed(1) cancelled(1) by (auto simp: settle_outcome_def settle_failed_def alone_bind)
  then show ?thesis using failed(2-5) cancelled(2-5) by auto
qed

theorem other_outcomes_are_settled_witness:
  "\<exists>counts' db' j. run_alone ex_world (settle_outcome ex_completion_environment ex_outcome no_counts) ex_reported =
     (Inr counts', db') \<and> j \<in> set (d1_jobs db') \<and> jb_status j = FAILED"
proof -
  have outcome: "\<not> isCompletionOutcome ex_outcome" "to_runpodTerminalStatus ex_outcome = ''FAILED''"
    "to_runpodOutputStatus ex_outcome = None"
    by (simp_all add: isCompletionOutcome_def ex_outcome_def mapTerminalOutcome_def)
  have "run_alone ex_world (verifyArtifacts ex_completion_environment ex_outcome) ex_reported = (Inr None, ex_reported)"
    by (simp add: verifyArtifacts_def defaultReadManifest_def alone_bind ex_world_def)
  moreover have "sound_world ex_world" by (simp add: sound_world_def ex_world_def)
  ultimately show ?thesis
    using other_outcomes_are_settled [OF history.start [OF ex_reported_inv] ex_reported_found, of ex_outcome ex_world
        ex_completion_environment no_counts] outcome ex_reported_checks ex_submitting_checks by auto
qed

end
