(* ===== verification/ReconciliationService.thy ===== *)
theory ReconciliationService
  imports RunpodServices CompletionService Maintenance
begin

text \<open>
  apps/orchestrator/src/reconciliation-service.ts (\<open>reconcileJobs\<close>) as a task: the scheduled pass that
  ends uploads and submissions that came to nothing, settles the attempts that ended, and dispatches the
  next job. The sweeps the service calls and that are not modelled here (Cloud Run, deletion, retention,
  notification) are parameters, and so is what config.ts reads of the environment. Log records are left
  out, as are the results of the sweeps, which the service hands through.
\<close>

definition ACCEPTED_SUBMISSION_START_SLO_MS :: int where
  "ACCEPTED_SUBMISSION_START_SLO_MS = 10 * 60 * 1000"

record reconciliation_environment =
  rv_configValid :: bool
  rv_admissionActive :: bool
  rv_runpodSelected :: bool
  rv_sha256 :: "string \<Rightarrow> 8 word list"
  rv_completion :: completion_environment
  rv_reconcileCloudRunJobs :: "unit task"
  rv_processDeletions :: "unit task"
  rv_processRetention :: "unit task"
  rv_dispatchNotification :: "unit task"

record reconciliation_counts =
  rn_cancelledUnbound :: nat
  rn_cancelledStaleSubmission :: nat
  rn_expiredSubmission :: nat
  rn_expiredUpload :: nat
  rn_staleAcceptedSubmission :: nat
  rn_staleCancellationDeferred :: nat

record reconciliation_result =
  rx_counts :: reconciliation_counts
  rx_completion :: completion_counts
  rx_dispatch :: "dispatch_result option"

section \<open>The steps of the pass\<close>

definition expire_one_upload ::
  "int \<Rightarrow> expired_upload \<Rightarrow> reconciliation_counts \<Rightarrow> reconciliation_counts task" where
  "expire_one_upload startedAt upload counts =
     task_bind (create_event_id startedAt) (\<lambda>eventId.
     task_bind (write_db (Expire_upload eventId (eu_jobId upload) (to_iso startedAt))
         (expireUpload eventId (eu_jobId upload) (to_iso startedAt))) (\<lambda>expired.
     Finish (if expired then counts\<lparr>rn_expiredUpload := rn_expiredUpload counts + 1\<rparr> else counts)))"

definition fail_expired_submission ::
  "int \<Rightarrow> expired_submission \<Rightarrow> reconciliation_counts \<Rightarrow> reconciliation_counts task" where
  "fail_expired_submission startedAt submission counts =
     task_bind (create_event_id startedAt) (\<lambda>eventId.
     task_bind (write_db
         (Fail_expired_submission (xs_attemptId submission) eventId (xs_jobId submission) (to_iso startedAt))
         (failExpiredUnknownSubmission (xs_attemptId submission) eventId (xs_jobId submission) (to_iso startedAt)))
       (\<lambda>failed.
     Finish (if failed then counts\<lparr>rn_expiredSubmission := rn_expiredSubmission counts + 1\<rparr> else counts)))"

definition cancelFailedSubmission ::
  "int \<Rightarrow> stale_submission \<Rightarrow> reconciliation_counts \<Rightarrow> reconciliation_counts task" where
  "cancelFailedSubmission startedAt submission counts =
     Stop_job (ss_runpodJobId submission) (\<lambda>cancellation.
     if cancellation \<noteq> Stop_accepted \<and> cancellation \<noteq> Stop_not_found
     then Finish (counts\<lparr>rn_staleCancellationDeferred := rn_staleCancellationDeferred counts + 1\<rparr>)
     else
       task_bind (create_event_id startedAt) (\<lambda>eventId.
       task_bind (write_db
           (Mark_stale_cancelled (ss_attemptId submission) eventId (ss_jobId submission)
              (ss_runpodJobId submission) (to_iso startedAt))
           (markFailedUnclaimedSubmissionCancelled (ss_attemptId submission) eventId (ss_jobId submission)
              (ss_runpodJobId submission) (to_iso startedAt))) (\<lambda>recorded.
       Finish (if recorded
         then counts\<lparr>rn_cancelledStaleSubmission := rn_cancelledStaleSubmission counts + 1\<rparr> else counts))))"

definition fail_stale_submission ::
  "int \<Rightarrow> string \<Rightarrow> stale_submission \<Rightarrow> reconciliation_counts \<Rightarrow> reconciliation_counts task" where
  "fail_stale_submission startedAt staleBefore submission counts =
     task_bind (create_event_id startedAt) (\<lambda>eventId.
     let input = \<lparr>st_attemptId = ss_attemptId submission, st_eventId = eventId, st_jobId = ss_jobId submission,
           st_runpodJobId = ss_runpodJobId submission, st_staleBefore = staleBefore,
           st_timestamp = to_iso startedAt\<rparr> in
     task_bind (write_db (Fail_stale_submission input) (failStaleAcceptedSubmission input)) (\<lambda>failed.
     if \<not> failed then Finish counts
     else cancelFailedSubmission startedAt submission
       (counts\<lparr>rn_staleAcceptedSubmission := rn_staleAcceptedSubmission counts + 1\<rparr>)))"

definition cancel_unbound ::
  "int \<Rightarrow> expired_submission \<Rightarrow> reconciliation_counts \<Rightarrow> reconciliation_counts task" where
  "cancel_unbound startedAt cancellation counts =
     task_bind (create_event_id startedAt) (\<lambda>eventId.
     task_bind (write_db
         (Cancel_expired_submission (xs_attemptId cancellation) eventId (xs_jobId cancellation) (to_iso startedAt))
         (cancelExpiredUnboundSubmission (xs_attemptId cancellation) eventId (xs_jobId cancellation) (to_iso startedAt)))
       (\<lambda>cancelled.
     Finish (if cancelled then counts\<lparr>rn_cancelledUnbound := rn_cancelledUnbound counts + 1\<rparr> else counts)))"

definition no_reconciliation :: reconciliation_counts where
  "no_reconciliation = \<lparr>rn_cancelledUnbound = 0, rn_cancelledStaleSubmission = 0, rn_expiredSubmission = 0,
     rn_expiredUpload = 0, rn_staleAcceptedSubmission = 0, rn_staleCancellationDeferred = 0\<rparr>"

text \<open>From the search for expired submissions to the cancellation of those without a RunPod job.\<close>

definition end_submissions :: "int \<Rightarrow> reconciliation_counts task" where
  "end_submissions startedAt =
     (let timestamp = to_iso startedAt;
          staleBefore = to_iso (startedAt - ACCEPTED_SUBMISSION_START_SLO_MS) in
      task_bind (read_db (findExpiredUnknownSubmissions timestamp RECONCILIATION_BATCH_SIZE)) (\<lambda>expired.
      task_bind (read_db (findStaleAcceptedSubmissions staleBefore RECONCILIATION_BATCH_SIZE)) (\<lambda>staleAccepted.
      task_bind (read_db (findExpiredUploads timestamp RECONCILIATION_BATCH_SIZE)) (\<lambda>expiredUploads.
      task_bind (for_each (expire_one_upload startedAt) expiredUploads no_reconciliation) (\<lambda>counts.
      task_bind (for_each (fail_expired_submission startedAt) expired counts) (\<lambda>counts.
      task_bind (read_db (findFailedUnclaimedSubmissions RECONCILIATION_BATCH_SIZE)) (\<lambda>pendingCancellation.
      task_bind (for_each (cancelFailedSubmission startedAt) pendingCancellation counts) (\<lambda>counts.
      task_bind (for_each (fail_stale_submission startedAt staleBefore) staleAccepted counts) (\<lambda>counts.
      task_bind (read_db (findExpiredUnboundCancellations timestamp RECONCILIATION_BATCH_SIZE)) (\<lambda>unboundCancellations.
      for_each (cancel_unbound startedAt) unboundCancellations counts))))))))))"

definition dispatch_next :: "reconciliation_environment \<Rightarrow> dispatch_result option task" where
  "dispatch_next env =
     task_bind (if rv_admissionActive env \<and> rv_runpodSelected env then read_db findDispatchablePendingJobId
       else Finish None) (\<lambda>pendingJobId.
     case pendingJobId of
       None \<Rightarrow> Finish None
     | Some jobId \<Rightarrow>
         task_bind (submitPendingRunpodJob (rv_sha256 env) jobId) (\<lambda>dispatch. Finish (Some dispatch)))"

definition reconcileJobs :: "reconciliation_environment \<Rightarrow> reconciliation_result task" where
  "reconcileJobs env =
     Clock (\<lambda>startedAt.
     if \<not> rv_configValid env then Raise (JsError ''Reconciliation configuration is invalid'')
     else
       task_bind (rv_reconcileCloudRunJobs env) (\<lambda>_.
       task_bind (rv_processDeletions env) (\<lambda>_.
       task_bind (rv_processRetention env) (\<lambda>_.
       task_bind (end_submissions startedAt) (\<lambda>counts.
       task_bind (reconcileRunpodCompletions (rv_completion env)) (\<lambda>completion.
       task_bind (rv_dispatchNotification env) (\<lambda>_.
       task_bind (dispatch_next env) (\<lambda>dispatch.
       Finish \<lparr>rx_counts = counts, rx_completion = completion, rx_dispatch = dispatch\<rparr>))))))))"

end
