(* ===== verification/ReconciliationRuns.thy ===== *)
theory ReconciliationRuns
  imports ReconciliationService CompletionRuns
begin

text \<open>
  What the scheduled pass of reconciliation-service.ts has done before it calls RunPod or writes: the
  guard of its calls, and that every part of the pass keeps it.
\<close>

section \<open>The guard\<close>

definition nothing_submitted :: "effect list \<Rightarrow> bool" where
  "nothing_submitted past \<longleftrightarrow> (\<forall>q x. Submitted q x \<notin> set past)"

fun reconciliation_write_guard :: "completion_environment \<Rightarrow> effect list \<Rightarrow> request \<Rightarrow> bool" where
  "reconciliation_write_guard env past (Mark_stale_cancelled a eventId jobId runpodJobId t) \<longleftrightarrow>
     Stopped runpodJobId Stop_accepted \<in> set past \<or> Stopped runpodJobId Stop_not_found \<in> set past"
| "reconciliation_write_guard env past (Finalize_completed i) \<longleftrightarrow> write_guard env past (Finalize_completed i)"
| "reconciliation_write_guard env past (Record_terminal_status i) \<longleftrightarrow> write_guard env past (Record_terminal_status i)"
| "reconciliation_write_guard env past (Fail_unobservable i) \<longleftrightarrow> write_guard env past (Fail_unobservable i)"
| "reconciliation_write_guard env past (Claim_winner i) \<longleftrightarrow> False"
| "reconciliation_write_guard env past (Mark_heartbeat a h j r t) \<longleftrightarrow> False"
| "reconciliation_write_guard env past _ \<longleftrightarrow> True"

fun reconciliation_guard :: "reconciliation_environment \<Rightarrow> effect list \<Rightarrow> call \<Rightarrow> bool" where
  "reconciliation_guard env past (Writes q) \<longleftrightarrow> reconciliation_write_guard (rv_completion env) past q"
| "reconciliation_guard env past (Submits q) \<longleftrightarrow>
     rv_admissionActive env \<and> rv_runpodSelected env \<and> nothing_submitted past"
| "reconciliation_guard env past _ \<longleftrightarrow> True"

text \<open>A sweep that is not modelled neither submits to RunPod nor performs a request of JobSystem.\<close>

fun sweep_guard :: "effect list \<Rightarrow> call \<Rightarrow> bool" where
  "sweep_guard past (Writes q) \<longleftrightarrow> False"
| "sweep_guard past (Submits q) \<longleftrightarrow> False"
| "sweep_guard past _ \<longleftrightarrow> True"

definition sweeps_apart :: "reconciliation_environment \<Rightarrow> bool" where
  "sweeps_apart env \<longleftrightarrow>
     (\<forall>past. \<forall>t \<in> {rv_reconcileCloudRunJobs env, rv_processDeletions env, rv_processRetention env,
        rv_dispatchNotification env}. guarded sweep_guard t (\<lambda>_ _. True) past)"

section \<open>Parts that submit nothing\<close>

text \<open>The guard of every part of the pass but the last.\<close>

definition quiet_guard :: "reconciliation_environment \<Rightarrow> effect list \<Rightarrow> call \<Rightarrow> bool" where
  "quiet_guard env past c \<longleftrightarrow> reconciliation_guard env past c \<and> (\<forall>q. c \<noteq> Submits q)"

abbreviation quiet :: "reconciliation_environment \<Rightarrow> 'a task \<Rightarrow> effect list \<Rightarrow> bool" where
  "quiet env t past \<equiv> guarded (quiet_guard env) t (\<lambda>_ _. True) past"

lemma quiet_keeps:
  assumes "quiet env t past" "nothing_submitted past"
  shows "guarded (reconciliation_guard env) t (\<lambda>past _. nothing_submitted past) past"
proof (rule guarded_weaken)
  have kept: "nothing_submitted (past @ [e])" if "nothing_submitted past" "quiet_guard env past (effect_call e)" for past e
    using that by (cases e) (auto simp: nothing_submitted_def quiet_guard_def)
  show "guarded (quiet_guard env) t (\<lambda>past _. nothing_submitted past) past"
    using guarded_frame [where P = nothing_submitted, OF assms kept] by simp
qed (simp add: quiet_guard_def)

lemma quiet_writes [simp]:
  "quiet_guard env past (Writes (Expire_upload a b c))" "quiet_guard env past (Writes (Fail_expired_submission a b c d))"
  "quiet_guard env past (Writes (Fail_stale_submission i))" "quiet_guard env past (Writes (Cancel_expired_submission a b c d))"
  "quiet_guard env past (Stops j)"
  by (simp_all add: quiet_guard_def)

lemma expire_one_upload_quiet [simp]: "quiet env (expire_one_upload t u counts) past"
  by (simp add: expire_one_upload_def)

lemma fail_expired_submission_quiet [simp]: "quiet env (fail_expired_submission t u counts) past"
  by (simp add: fail_expired_submission_def)

lemma cancel_unbound_quiet [simp]: "quiet env (cancel_unbound t u counts) past"
  by (simp add: cancel_unbound_def)

lemma cancelFailedSubmission_quiet [simp]: "quiet env (cancelFailedSubmission t u counts) past"
  by (auto simp: cancelFailedSubmission_def quiet_guard_def)

lemma fail_stale_submission_quiet [simp]: "quiet env (fail_stale_submission t b u counts) past"
  by (simp add: fail_stale_submission_def Let_def)

lemma quiet_for_each:
  "(\<And>x s past. quiet env (body x s) past) \<Longrightarrow> quiet env (for_each body xs s) past"
  by (rule guarded_for_each) simp_all

lemma quiet_bind:
  "quiet env m past \<Longrightarrow> (\<And>x past. quiet env (f x) past) \<Longrightarrow> quiet env (task_bind m f) past"
  by (auto elim: guarded_mono)

lemma end_submissions_quiet: "quiet env (end_submissions t) past"
  unfolding end_submissions_def Let_def by (intro quiet_bind quiet_for_each) simp_all

lemma completions_quiet: "quiet env (reconcileRunpodCompletions (rv_completion env)) past"
proof (rule guarded_weaken [OF pass_keeps])
  show "quiet_guard env past c" if "completion_guard (rv_completion env) past c" for past c
  proof (cases c)
    case (Writes q)
    then show ?thesis using that by (cases q) (auto simp: quiet_guard_def)
  qed (use that in \<open>auto simp: quiet_guard_def\<close>)
qed

lemma sweep_quiet: "guarded sweep_guard t (\<lambda>_ _. True) past \<Longrightarrow> quiet env t past"
proof (erule guarded_weaken)
  show "quiet_guard env past c" if "sweep_guard past c" for past c
    using that by (cases c) (simp_all add: quiet_guard_def)
qed

section \<open>The dispatch\<close>

lemma record_outcome_keeps: "guarded (reconciliation_guard env) (record_outcome p x t) (\<lambda>_ _. True) past"
  by (auto simp: record_outcome_def mark_unknown_def Let_def split: submission_result.split)

lemma dispatch_next_keeps:
  assumes "nothing_submitted past"
  shows "guarded (reconciliation_guard env) (dispatch_next env) (\<lambda>_ _. True) past"
proof -
  have "guarded (reconciliation_guard env) (submitPendingRunpodJob h j) (\<lambda>_ _. True) past"
    if "rv_admissionActive env" "rv_runpodSelected env" for h j
    using that assms record_outcome_keeps
    by (auto simp: submitPendingRunpodJob_def Let_def nothing_submitted_def split: option.split)
  then show ?thesis by (auto simp: dispatch_next_def split: option.split elim: guarded_mono)
qed

lemma reconcileJobs_keeps:
  assumes "sweeps_apart env"
  shows "guarded (reconciliation_guard env) (reconcileJobs env) (\<lambda>_ _. True) []"
proof -
  have step: "guarded (reconciliation_guard env) (task_bind m f) (\<lambda>_ _. True) past"
    if "\<And>past. quiet env m past" "nothing_submitted past"
      "\<And>x past. nothing_submitted past \<Longrightarrow> guarded (reconciliation_guard env) (f x) (\<lambda>_ _. True) past"
    for m :: "'x task" and f :: "'x \<Rightarrow> 'y task" and past
    using guarded_mono [OF quiet_keeps [OF that(1,2)] that(3)] by simp
  have sweeps: "quiet env (rv_reconcileCloudRunJobs env) past" "quiet env (rv_processDeletions env) past"
    "quiet env (rv_processRetention env) past" "quiet env (rv_dispatchNotification env) past" for past
    using assms by (auto simp: sweeps_apart_def intro: sweep_quiet)
  have last: "guarded (reconciliation_guard env) (task_bind (dispatch_next env) (\<lambda>d. Finish (r d))) (\<lambda>_ _. True) past"
    if "nothing_submitted past" for past r
    using guarded_mono [OF dispatch_next_keeps [OF that]] by simp
  have "guarded (reconciliation_guard env)
      (task_bind (rv_reconcileCloudRunJobs env) (\<lambda>_.
       task_bind (rv_processDeletions env) (\<lambda>_.
       task_bind (rv_processRetention env) (\<lambda>_.
       task_bind (end_submissions t) (\<lambda>counts.
       task_bind (reconcileRunpodCompletions (rv_completion env)) (\<lambda>completion.
       task_bind (rv_dispatchNotification env) (\<lambda>_.
       task_bind (dispatch_next env) (\<lambda>dispatch.
       Finish \<lparr>rx_counts = counts, rx_completion = completion, rx_dispatch = dispatch\<rparr>))))))))
      (\<lambda>_ _. True) []" for t
    by (intro step sweeps end_submissions_quiet completions_quiet last) (simp add: nothing_submitted_def)
  then show ?thesis unfolding reconcileJobs_def by simp
qed

end
