(* ===== verification/ReconciliationProperties.thy ===== *)
theory ReconciliationProperties
  imports ReconciliationRuns PassExample
begin

text \<open>
  The properties of the scheduled pass of reconciliation-service.ts: when it submits a job to RunPod, and
  what it has asked RunPod before it records that a job was stopped.
\<close>

section \<open>The next job\<close>

lemma submission_sent_alone:
  assumes inv: "d1_inv db" and a: "a \<in> set (d1_attempts db)" "submittable jobId db a" "attempt_checks a"
      "0 < am_generation a" "ulid_ok (am_id a)" "ulid_ok jobId"
    and checks: "\<forall>j \<in> set (d1_jobs db). job_checks j"
    and world: "sound_world w" "iso_time_range (wd_now w + CLAIM_TOKEN_TTL_MS)" "\<And>s. length (sha256 s) = 32"
  obtains q where "Submitted q (wd_submit w q) \<in> set (alone_effects w (submitPendingRunpodJob sha256 jobId) db)"
    "rn_attemptId q = am_id a" "rn_jobId q = jobId"
proof -
  have now: "iso_time_range (wd_now w)" "\<And>n. length (wd_random w n) = n"
    using world(1) by (simp_all add: sound_world_def)
  define claim where "claim = \<lparr>ct_hash = encodeHex (sha256 (encodeBase64Url (wd_random w 32))),
    ct_raw = encodeBase64Url (wd_random w 32)\<rparr>"
  have token: "createCapabilityToken sha256 (\<lambda>_. wd_random w 32) = Inr claim"
    "runpodCapabilityTokenSchema (ct_raw claim)" "sha256_hex_ok (ct_hash claim)"
    using createCapabilityToken_ok [of "\<lambda>_. wd_random w 32"] capabilityToken_of_random now(2) world(3) encodeHex_ok
    by (simp_all add: claim_def)
  obtain db' where prepared: "prepareSubmission jobId (ct_hash claim) (to_iso (wd_now w))
      (to_iso (wd_now w + CLAIM_TOKEN_TTL_MS)) db =
      (Inr (Some \<lparr>ps_attemptId = am_id a, ps_generation = am_generation a, ps_jobId = jobId\<rparr>), db')"
    by (rule prepareSubmission_submits [OF inv a])
      (use checks utc_datetime_ok_to_iso now(1) world(2) token(3) in simp_all)
  let ?p = "\<lparr>ps_attemptId = am_id a, ps_generation = am_generation a, ps_jobId = jobId\<rparr>"
  define q where "q = run_request_of ?p claim"
  have q: "rn_attemptId q = am_id a" "rn_jobId q = jobId" "rn_claimToken q = ct_raw claim"
    by (simp_all add: q_def run_request_of_def)
  have "runpodRunRequestSchema (run_request_json q)"
    by (rule run_request_valid) (simp_all add: q a(5,6) token(2))
  then have "Submitted q (wd_submit w q) \<in> set (alone_effects w (submitPendingRunpodJob sha256 jobId) db)"
    using token(1) prepared
    by (simp add: submitPendingRunpodJob_def alone_effects_bind alone_bind q_def [symmetric] Let_def
        del: perform.simps)
  then show thesis using that q(1,2) by blast
qed

text \<open>Claim C18. When new executions are admitted and go to RunPod, and a job is offered for dispatch whose
  attempt is ready, the last step of a pass that runs alone submits exactly this attempt of this job.\<close>

theorem waiting_job_is_dispatched:
  assumes "history (db # h)" and "rv_admissionActive env" "rv_runpodSelected env"
    and job: "findDispatchablePendingJobId db = Inr (Some jobId)"
    and a: "a \<in> set (d1_attempts db)" "submittable jobId db a" "0 < am_generation a" "ulid_ok (am_id a)"
    and checks: "\<forall>a \<in> set (d1_attempts db). attempt_checks a" "\<forall>j \<in> set (d1_jobs db). job_checks j"
    and world: "sound_world w" "iso_time_range (wd_now w + CLAIM_TOKEN_TTL_MS)" "\<forall>s. length (rv_sha256 env s) = 32"
  shows "\<exists>q. Submitted q (wd_submit w q) \<in> set (alone_effects w (dispatch_next env) db) \<and>
    rn_attemptId q = am_id a \<and> rn_jobId q = jobId"
proof -
  have inv: "d1_inv db" using history_sound [OF assms(1)] by simp
  have "ulid_ok jobId"
    using job by (auto simp: findDispatchablePendingJobId_def result_simps split: list.splits)
  then obtain q where "Submitted q (wd_submit w q) \<in> set (alone_effects w (submitPendingRunpodJob (rv_sha256 env) jobId) db)"
    "rn_attemptId q = am_id a" "rn_jobId q = jobId"
    using submission_sent_alone [OF inv a(1,2) _ a(3,4) _ checks(2) world(1,2)] checks(1) a(1) world(3) by metis
  then show ?thesis
    using assms(2,3) job by (auto simp: dispatch_next_def alone_effects_bind)
qed

lemma ex_ingested_ready:
  obtains "findDispatchablePendingJobId ex_ingested = Inr (Some ex_job_id)"
    "submittable ex_job_id ex_ingested (ingested_attempt ex_ingest)" "attempt_checks (ingested_attempt ex_ingest)"
    "job_checks ex_ingested_row" "am_id (ingested_attempt ex_ingest) = ex_attempt_id"
    "am_generation (ingested_attempt ex_ingest) = 1"
proof -
  note effect = ingested_effect [OF ex_created_inv ex_ingest_run]
  obtain j where j: "j \<in> set (d1_jobs ex_created)" "ingestible ex_ingest j"
    and checks: "job_checks (ingested_row ex_ingest j)" "attempt_checks (ingested_attempt ex_ingest)"
    and jobs: "d1_jobs ex_ingested = update_where (\<lambda>x. jb_id x = jb_id j) (\<lambda>_. ingested_row ex_ingest j) (d1_jobs ex_created)"
    and rows: "d1_executions ex_ingested = d1_executions ex_created @ execution_of_attempt (ingested_attempt ex_ingest)"
    using effect by blast
  have id: "jb_id j = ex_job_id" using j(1) by simp
  then have row: "ex_ingested_row = ingested_row ex_ingest j" using jobs j(1) by (simp add: update_where_def)
  have ready: "submittable (jb_id j) ex_ingested (ingested_attempt ex_ingest)"
    by (rule ingested_submittable [OF ex_ingested_inv j]) (use row rows ex_options_ok in \<open>simp_all add: ex_ingest_def ex_source_def\<close>)
  have fields: "am_id (ingested_attempt ex_ingest) = ex_attempt_id" "am_generation (ingested_attempt ex_ingest) = 1"
    "am_status (ingested_attempt ex_ingest) = ATT_SUBMISSION_PENDING"
    by (simp_all add: ingested_attempt_def)
  obtain k where "k \<in> set (d1_jobs ex_ingested)" "jb_id k = ex_job_id" "jb_status k = SUBMISSION_PENDING"
      "jb_deleted_at k = None" "jb_active_attempt_id k = Some (am_id (ingested_attempt ex_ingest))"
    using submittable_job [OF ready] id by metis
  then have "dispatchable ex_ingested ex_ingested_row"
    using ready fields by (auto simp: dispatchable_def submittable_def occupies_gpu_def id)
  moreover have "jb_id ex_ingested_row = ex_job_id"
    using \<open>k \<in> set (d1_jobs ex_ingested)\<close> \<open>jb_id k = ex_job_id\<close> by simp
  ultimately have "findDispatchablePendingJobId ex_ingested = Inr (Some ex_job_id)"
    by (simp add: findDispatchablePendingJobId_def order_by_def)
  then show thesis using that ready checks row fields(1,2) id by simp
qed

definition ex_reconciliation :: reconciliation_environment where
  "ex_reconciliation = \<lparr>rv_configValid = True, rv_admissionActive = True, rv_runpodSelected = True,
     rv_sha256 = ex_sha256, rv_completion = ex_completion_environment, rv_reconcileCloudRunJobs = Finish (),
     rv_processDeletions = Finish (), rv_processRetention = Finish (), rv_dispatchNotification = Finish ()\<rparr>"

theorem waiting_job_is_dispatched_witness:
  "\<exists>q. Submitted q (wd_submit ex_world q) \<in> set (alone_effects ex_world (dispatch_next ex_reconciliation) ex_ingested) \<and>
     rn_attemptId q = ex_attempt_id \<and> rn_jobId q = ex_job_id"
proof -
  obtain ready: "findDispatchablePendingJobId ex_ingested = Inr (Some ex_job_id)"
    "submittable ex_job_id ex_ingested (ingested_attempt ex_ingest)"
    and fields: "attempt_checks (ingested_attempt ex_ingest)" "job_checks ex_ingested_row"
      "am_id (ingested_attempt ex_ingest) = ex_attempt_id" "am_generation (ingested_attempt ex_ingest) = 1"
    by (rule ex_ingested_ready)
  have env: "rv_admissionActive ex_reconciliation" "rv_runpodSelected ex_reconciliation"
    "\<forall>s. length (rv_sha256 ex_reconciliation s) = 32" by (simp_all add: ex_reconciliation_def)
  have "sound_world ex_world" by (simp add: sound_world_def ex_world_def)
  then have "\<exists>q. Submitted q (wd_submit ex_world q) \<in> set (alone_effects ex_world (dispatch_next ex_reconciliation) ex_ingested) \<and>
      rn_attemptId q = am_id (ingested_attempt ex_ingest) \<and> rn_jobId q = ex_job_id"
    by (intro waiting_job_is_dispatched [OF history.start [OF ex_ingested_inv] env(1,2) ready(1) _ ready(2)])
      (use fields env(3) in simp_all)
  then show ?thesis unfolding fields(3) .
qed

section \<open>Calls of the pass\<close>

text \<open>Claim C19. Whatever runs at the same time, and whatever RunPod and R2 answer, a scheduled pass submits
  at most one job, and none unless new executions are admitted and go to RunPod; it records that the RunPod
  job of a failed submission was cancelled only after RunPod has accepted the cancellation or said that
  it does not know the job; it neither grants claims nor records heartbeats. The sweeps that are not
  modelled are assumed to make none of these calls.\<close>

theorem pass_calls_justified:
  assumes "sweeps_apart env" and "task_run (reconcileJobs env) h es h' out" and "es = before @ e # after"
  shows "case e of
      Submitted q x \<Rightarrow> rv_admissionActive env \<and> rv_runpodSelected env \<and> (\<forall>q' x'. Submitted q' x' \<notin> set before)
    | Wrote (Mark_stale_cancelled a eventId jobId runpodJobId t) db \<Rightarrow>
        Stopped runpodJobId Stop_accepted \<in> set before \<or> Stopped runpodJobId Stop_not_found \<in> set before
    | Wrote (Claim_winner i) db \<Rightarrow> False | Wrote (Mark_heartbeat a hash jobId runpodJobId t) db \<Rightarrow> False | _ \<Rightarrow> True"
proof -
  have ok: "reconciliation_guard env before (effect_call e)"
    by (rule guarded_guards [OF assms(2) [unfolded assms(3)] reconcileJobs_keeps [OF assms(1)]])
  show ?thesis
  proof (cases e)
    case (Wrote q db)
    then show ?thesis using ok by (cases q) simp_all
  qed (use ok in \<open>simp_all add: nothing_submitted_def\<close>)
qed

text \<open>The whole pass over a database with one job that waits.\<close>

lemma ex_ingested_idle:
  "findExpiredUnknownSubmissions ex_at 25 ex_ingested = Inr []"
  "findStaleAcceptedSubmissions (to_iso (ex_time - ACCEPTED_SUBMISSION_START_SLO_MS)) 25 ex_ingested = Inr []"
  "findExpiredUploads ex_at 25 ex_ingested = Inr []"
  "findFailedUnclaimedSubmissions 25 ex_ingested = Inr []"
  "findExpiredUnboundCancellations ex_at 25 ex_ingested = Inr []"
  "findStatusPollCandidates 25 ex_ingested = Inr []"
  "findTerminalOutcomes 25 ex_ingested = Inr []"
proof -
  have status: "am_status (ingested_attempt ex_ingest) = ATT_SUBMISSION_PENDING" by (simp add: ingested_attempt_def)
  have job: "jb_status ex_ingested_row = SUBMISSION_PENDING" by (simp add: ex_ingested_row_def)
  have time: "utc_datetime_ok (to_iso (ex_time - ACCEPTED_SUBMISSION_START_SLO_MS))"
    by (rule utc_datetime_ok_to_iso) code_simp
  have "poll_rows ex_ingested = []" "reconcilable_rows ex_ingested = []"
    by (simp_all add: poll_rows_def reconcilable_rows_def in_progress_def job)
  then show "findStatusPollCandidates 25 ex_ingested = Inr []" "findTerminalOutcomes 25 ex_ingested = Inr []"
    by (simp_all add: findStatusPollCandidates_def find_status_poll_candidates_sql_def findTerminalOutcomes_def
        find_terminal_outcomes_sql_def order_by_def reconciliationLimitSchema_def)
  show "findExpiredUnknownSubmissions ex_at 25 ex_ingested = Inr []"
    "findExpiredUnboundCancellations ex_at 25 ex_ingested = Inr []"
    by (simp_all add: findExpiredUnknownSubmissions_def findExpiredUnboundCancellations_def find_expired_def
        order_by_def status)
  show "findStaleAcceptedSubmissions (to_iso (ex_time - ACCEPTED_SUBMISSION_START_SLO_MS)) 25 ex_ingested = Inr []"
    "findFailedUnclaimedSubmissions 25 ex_ingested = Inr []"
    using time by (simp_all add: findStaleAcceptedSubmissions_def findFailedUnclaimedSubmissions_def stale_rows_def
        order_by_def status)
  show "findExpiredUploads ex_at 25 ex_ingested = Inr []"
    by (simp add: findExpiredUploads_def order_by_def upload_expired_def job)
qed

lemma ex_dispatching_pass:
  obtains before q x after g out where "task_run (reconcileJobs ex_reconciliation) [ex_ingested]
    (before @ Submitted q x # after) g out"
proof -
  obtain ready: "findDispatchablePendingJobId ex_ingested = Inr (Some ex_job_id)"
    "submittable ex_job_id ex_ingested (ingested_attempt ex_ingest)"
    and fields: "attempt_checks (ingested_attempt ex_ingest)" "job_checks ex_ingested_row"
      "am_id (ingested_attempt ex_ingest) = ex_attempt_id" "am_generation (ingested_attempt ex_ingest) = 1"
    by (rule ex_ingested_ready)
  have world: "sound_world ex_world" by (simp add: sound_world_def ex_world_def)
  obtain q where "Submitted q (wd_submit ex_world q) \<in> set (alone_effects ex_world (submitPendingRunpodJob ex_sha256 ex_job_id) ex_ingested)"
    by (rule submission_sent_alone [OF ex_ingested_inv _ ready(2) fields(1) _ _ _ _ world _ ex_sha256_length])
      (use fields in simp_all)
  then have "Submitted q (wd_submit ex_world q) \<in> set (alone_effects ex_world (dispatch_next ex_reconciliation) ex_ingested)"
    using ready(1) by (auto simp: dispatch_next_def alone_effects_bind ex_reconciliation_def)
  moreover have "run_alone ex_world (end_submissions ex_time) ex_ingested = (Inr no_reconciliation, ex_ingested)"
    using ex_ingested_idle by (simp add: end_submissions_def alone_bind RECONCILIATION_BATCH_SIZE_def Let_def)
  moreover have "run_alone ex_world (reconcileRunpodCompletions env) ex_ingested = (Inr no_counts, ex_ingested)" for env
    using ex_ingested_idle by (simp add: reconcileRunpodCompletions_def alone_bind RECONCILIATION_BATCH_SIZE_def)
  ultimately have "Submitted q (wd_submit ex_world q) \<in> set (alone_effects ex_world (reconcileJobs ex_reconciliation) ex_ingested)"
    by (simp add: reconcileJobs_def alone_effects_bind alone_bind) (simp add: ex_reconciliation_def)
  then obtain before after where
    "alone_effects ex_world (reconcileJobs ex_reconciliation) ex_ingested = before @ Submitted q (wd_submit ex_world q) # after"
    by (auto simp: in_set_conv_decomp)
  then show thesis using that alone_run [of "reconcileJobs ex_reconciliation" ex_ingested "[]" ex_world] by auto
qed

theorem pass_calls_justified_witness:
  "\<exists>es before q x after g out. task_run (reconcileJobs ex_reconciliation) [ex_ingested] es g out \<and>
     es = before @ Submitted q x # after \<and> (\<forall>q' x'. Submitted q' x' \<notin> set before)"
proof -
  obtain before q x after g out where run: "task_run (reconcileJobs ex_reconciliation) [ex_ingested]
    (before @ Submitted q x # after) g out" by (rule ex_dispatching_pass)
  have "sweeps_apart ex_reconciliation" by (simp add: sweeps_apart_def ex_reconciliation_def)
  then have "\<forall>q' x'. Submitted q' x' \<notin> set before" using pass_calls_justified [OF _ run refl] by simp
  then show ?thesis using run by blast
qed

end
