(* ===== verification/RunpodHttp.thy ===== *)
theory RunpodHttp
  imports RunpodServices CompletionService
begin

text \<open>
  apps/orchestrator/src/runpod-http-handler.ts (\<open>handleRunpodHttpRequest\<close>) as a task: the requests a RunPod
  worker sends, from the HTTP request to the response, and the schemas of packages/contracts/src/runpod.ts
  they meet. A request carries the path and the query that \<open>new URL\<close> reads of its URL; \<open>JSON.parse\<close>, the
  UTF-8 length and whether the configuration is valid are parameters; log records are left out.
  RunpodHttpProperties holds the lemmas: how a run of the handler splits, and what a request that reaches a
  service has been checked for.
\<close>

section \<open>Requests and responses\<close>

definition MAX_INTERNAL_REQUEST_BYTES :: nat where
  "MAX_INTERNAL_REQUEST_BYTES = 4 * 1024"

text \<open>\<open>wq_text\<close> is what \<open>request.text()\<close> reads, \<open>None\<close> when it throws.\<close>

record worker_http_request =
  wq_method :: string
  wq_pathname :: string
  wq_search :: string
  wq_contentType :: "string option"
  wq_contentLength :: "string option"
  wq_text :: "string option"

record worker_http_response =
  wy_status :: nat
  wy_headers :: "(string \<times> string) list"
  wy_body :: "json option"

record worker_http_environment =
  we_configValid :: bool
  we_parse_json :: "string \<Rightarrow> json option"
  we_utf8_length :: "string \<Rightarrow> nat"
  we_claim :: claim_environment

definition runpodClaimRequestSchema :: json_schema where
  "runpodClaimRequestSchema = strict_object [
     required ''attemptId'' (string_schema_of ulid_ok),
     required ''claimToken'' (string_schema_of runpodCapabilityTokenSchema),
     required ''jobId'' (string_schema_of ulid_ok),
     required ''runpodJobId'' (string_schema_of runpodJobIdSchema)]"

definition read_claim_request :: "json \<Rightarrow> claim_request" where
  "read_claim_request j =
     \<lparr>cl_attemptId = string_field ''attemptId'' j, cl_claimToken = string_field ''claimToken'' j,
      cl_jobId = string_field ''jobId'' j, cl_runpodJobId = string_field ''runpodJobId'' j\<rparr>"

definition runpodHeartbeatRequestSchema :: json_schema where
  "runpodHeartbeatRequestSchema = strict_object [
     required ''attemptId'' (string_schema_of ulid_ok),
     required ''heartbeatToken'' (string_schema_of runpodCapabilityTokenSchema),
     required ''jobId'' (string_schema_of ulid_ok),
     required ''runpodJobId'' (string_schema_of runpodJobIdSchema)]"

definition read_heartbeat_request :: "json \<Rightarrow> heartbeat_request" where
  "read_heartbeat_request j =
     \<lparr>hb_attemptId = string_field ''attemptId'' j, hb_heartbeatToken = string_field ''heartbeatToken'' j,
      hb_jobId = string_field ''jobId'' j, hb_runpodJobId = string_field ''runpodJobId'' j\<rparr>"

definition claim_response_json :: "claim_response \<Rightarrow> json" where
  "claim_response_json r = JObj [
     (''expiresAt'', JStr (ca_expiresAt r)),
     (''granted'', JBool True),
     (''heartbeat'', JObj [(''token'', JStr (ca_heartbeatToken r)), (''url'', JStr (ca_heartbeatUrl r))]),
     (''options'', ca_options r),
     (''results'', JObj [
       (''jsonPutUrl'', JStr (ca_jsonPutUrl r)), (''manifestPutUrl'', JStr (ca_manifestPutUrl r)),
       (''markdownPutUrl'', JStr (ca_markdownPutUrl r)), (''srtPutUrl'', JStr (ca_srtPutUrl r))]),
     (''source'', JObj [
       (''expectedEtag'', JStr (ca_expectedEtag r)),
       (''expectedSizeBytes'', JNum (int (ca_expectedSizeBytes r))),
       (''getUrl'', JStr (ca_sourceGetUrl r))])]"

definition worker_json_response :: "json \<Rightarrow> nat \<Rightarrow> worker_http_response" where
  "worker_json_response body status =
     \<lparr>wy_status = status,
      wy_headers = [(''cache-control'', ''no-store''), (''content-security-policy'', ''default-src '' @ [CHR 0x27] @ ''none'' @ [CHR 0x27]),
        (''x-content-type-options'', ''nosniff'')],
      wy_body = Some body\<rparr>"

definition worker_error_response :: "string \<Rightarrow> string \<Rightarrow> nat \<Rightarrow> worker_http_response" where
  "worker_error_response code message status =
     worker_json_response (JObj [(''error'', JObj [(''code'', JStr code), (''message'', JStr message)])]) status"

definition worker_not_found :: worker_http_response where
  "worker_not_found = \<lparr>wy_status = 404, wy_headers = [], wy_body = None\<rparr>"

definition invalid_worker_request :: worker_http_response where
  "invalid_worker_request = worker_error_response ''INVALID_REQUEST'' ''Request is invalid.'' 400"

definition worker_request_failed :: worker_http_response where
  "worker_request_failed = worker_error_response ''INTERNAL_ERROR'' ''Request could not be processed.'' 500"

section \<open>Reading a request\<close>

definition white_space :: "char \<Rightarrow> bool" where
  "white_space c \<longleftrightarrow> c \<in> {CHR '' '', CHR 0x09, CHR 0x0A, CHR 0x0B, CHR 0x0C, CHR 0x0D, CHR 0xA0}"

text \<open>\<open>/^application\/json(?:\s*;.*)?$/u\<close> on the lower-cased value.\<close>

definition json_content_type :: "string option \<Rightarrow> bool" where
  "json_content_type contentType \<longleftrightarrow>
     (let value = map to_upper (case contentType of None \<Rightarrow> [] | Some s \<Rightarrow> s);
          rest = drop (length ''application/json'') value
      in starts_with (map to_upper ''application/json'') value \<and>
         (rest = [] \<or>
          (case dropWhile white_space rest of
             [] \<Rightarrow> False
           | c # others \<Rightarrow> c = CHR '';'' \<and> CHR 0x0A \<notin> set others \<and> CHR 0x0D \<notin> set others)))"

definition worker_length_ok :: "string option \<Rightarrow> bool" where
  "worker_length_ok declaredLength \<longleftrightarrow>
     (case declaredLength of
        None \<Rightarrow> True
      | Some s \<Rightarrow> (case digits_value s of
          None \<Rightarrow> False | Some n \<Rightarrow> n \<le> int MAX_INTERNAL_REQUEST_BYTES))"

definition readJson :: "worker_http_environment \<Rightarrow> worker_http_request \<Rightarrow> json option" where
  "readJson env request =
     (if \<not> json_content_type (wq_contentType request) then None
      else if \<not> worker_length_ok (wq_contentLength request) then None
      else case wq_text request of
        None \<Rightarrow> None
      | Some text \<Rightarrow>
          if text = [] \<or> MAX_INTERNAL_REQUEST_BYTES < we_utf8_length env text then None
          else we_parse_json env text)"

section \<open>The handler\<close>

definition task_otherwise :: "'a task \<Rightarrow> 'a \<Rightarrow> 'a task" where
  "task_otherwise t failure =
     task_bind (task_try (task_bind t (\<lambda>x. Finish (Some x)))) (\<lambda>r.
     Finish (case r of None \<Rightarrow> failure | Some x \<Rightarrow> x))"

definition answer_claim :: "worker_http_environment \<Rightarrow> json \<Rightarrow> worker_http_response task" where
  "answer_claim env body =
     (if \<not> runpodClaimRequestSchema body then Finish invalid_worker_request
      else task_bind (claimRunpodExecution (we_claim env) (read_claim_request body)) (\<lambda>result.
        Finish (case result of
            Claim_rejected \<Rightarrow> worker_error_response ''CLAIM_REJECTED'' ''Claim was rejected.'' 403
          | Claim_deduplicated \<Rightarrow> worker_json_response (JObj [(''deduplicated'', JBool True)]) 200
          | Claim_granted response \<Rightarrow> worker_json_response (claim_response_json response) 200)))"

definition answer_heartbeat :: "worker_http_environment \<Rightarrow> json \<Rightarrow> worker_http_response task" where
  "answer_heartbeat env body =
     (if \<not> runpodHeartbeatRequestSchema body then Finish invalid_worker_request
      else task_bind (recordRunpodHeartbeat (ce_sha256 (we_claim env)) (read_heartbeat_request body)) (\<lambda>result.
        Finish (case result of
            Heartbeat_rejected \<Rightarrow> worker_error_response ''HEARTBEAT_REJECTED'' ''Heartbeat was rejected.'' 403
          | Heartbeat_accepted cancelRequested \<Rightarrow>
              worker_json_response (JObj [(''cancelRequested'', JBool cancelRequested)]) 200)))"

definition handleRunpodHttpRequest ::
  "worker_http_environment \<Rightarrow> worker_http_request \<Rightarrow> worker_http_response task" where
  "handleRunpodHttpRequest env request =
     (if \<not> we_configValid env then Finish worker_request_failed
      else if wq_search request \<noteq> [] \<or> wq_method request \<noteq> ''POST'' then Finish worker_not_found
      else case readJson env request of
        None \<Rightarrow> Finish invalid_worker_request
      | Some body \<Rightarrow>
          task_otherwise
            (if wq_pathname request = ''/internal/runpod/claim'' then answer_claim env body
             else if wq_pathname request = ''/internal/runpod/heartbeat'' then answer_heartbeat env body
             else Finish worker_not_found)
            worker_request_failed)"

end
