(* ===== verification/RunpodHttpProperties.thy ===== *)
theory RunpodHttpProperties
  imports RunpodHttp PassExample
begin

text \<open>
  The properties of the HTTP handler in front of the RunPod services: it answers every request, lets
  only well-formed ones reach a service, and a grant it sends out is the grant of a verified worker.
\<close>

section \<open>Runs of the handler\<close>

lemma run_task_try:
  "task_run (task_try m) h es h' out \<Longrightarrow>
   (\<exists>r. task_run m h es h' (Some r) \<and> out = Some (Inr (case r of Inl e \<Rightarrow> None | Inr x \<Rightarrow> x))) \<or>
   (out = None \<and> task_run m h es h' None)"
proof (induction "task_try m" h es h' out arbitrary: m rule: task_run.induct)
  case (other q r db h es h' out)
  show ?case using other.hyps(2) [OF refl] task_run.other [OF _ other.hyps(3)] by blast
next
  case (finish x h)
  then show ?case by (cases m) (auto intro: task_run.finish task_run.raise)
next
  case (raise e h)
  then show ?case by (cases m) auto
next
  case (stopped h)
  then show ?case by (auto intro: task_run.stopped)
next
  case (clock k x h es h' out)
  then obtain k' where m: "m = Clock k'" "k x = task_try (k' x)" by (cases m) auto
  show ?case using clock.hyps(2) [OF m(2)] unfolding m(1) by (blast intro: task_run.clock)
next
  case (random k x h es h' out n)
  then obtain k' where m: "m = Random n k'" "k x = task_try (k' x)" by (cases m) auto
  show ?case using random.hyps(2) [OF m(2)] unfolding m(1) by (blast intro: task_run.random)
next
  case (read k x h es h' out)
  then obtain k' where m: "m = Read k'" "k x = task_try (k' x)" by (cases m) auto
  show ?case using read.hyps(2) [OF m(2)] unfolding m(1) by (blast intro: task_run.read)
next
  case (written k x q h es h' out)
  then obtain k' where m: "m = Write q k'" "k x = task_try (k' x)" by (cases m) auto
  show ?case using written.hyps(2) [OF m(2)] unfolding m(1) by (blast intro: task_run.written)
next
  case (submit k x h es h' out q)
  then obtain k' where m: "m = Submit q k'" "k x = task_try (k' x)" by (cases m) auto
  show ?case using submit.hyps(2) [OF m(2)] unfolding m(1) by (blast intro: task_run.submit)
next
  case (status k x h es h' out j)
  then obtain k' where m: "m = Ask_status j k'" "k x = task_try (k' x)" by (cases m) auto
  show ?case using status.hyps(2) [OF m(2)] unfolding m(1) by (blast intro: task_run.status)
next
  case (stop k x h es h' out j)
  then obtain k' where m: "m = Stop_job j k'" "k x = task_try (k' x)" by (cases m) auto
  show ?case using stop.hyps(2) [OF m(2)] unfolding m(1) by (blast intro: task_run.stop)
next
  case (verify k x h es h' out j)
  then obtain k' where m: "m = Verify j k'" "k x = task_try (k' x)" by (cases m) auto
  show ?case using verify.hyps(2) [OF m(2)] unfolding m(1) by (blast intro: task_run.verify)
next
  case (sign k x h es h' out c t)
  then obtain k' where m: "m = Sign c t k'" "k x = task_try (k' x)" by (cases m) auto
  show ?case using sign.hyps(2) [OF m(2)] unfolding m(1) by (blast intro: task_run.sign)
next
  case (get_object k x h es h' out key)
  then obtain k' where m: "m = Get_object key k'" "k x = task_try (k' x)" by (cases m) auto
  show ?case using get_object.hyps(2) [OF m(2)] unfolding m(1) by (blast intro: task_run.get_object)
next
  case (head_artifact k x h es h' out key)
  then obtain k' where m: "m = Head_artifact key k'" "k x = task_try (k' x)" by (cases m) auto
  show ?case using head_artifact.hyps(2) [OF m(2)] unfolding m(1) by (blast intro: task_run.head_artifact)
qed

text \<open>After the last step of a task others may still go on.\<close>

lemma run_Finish_other:
  "task_run (Finish y) h es h' (Some r) \<Longrightarrow> es = [] \<and> r = Inr y \<and> task_run (Finish x) h [] h' (Some (Inr x))"
  by (induction "Finish y" h es h' "Some r :: 'a result option" rule: task_run.induct) (auto intro: task_run.finish task_run.other)

lemma run_end:
  "task_run m h es h1 (Some (Inr x)) \<Longrightarrow> task_run (Finish x) h1 [] h' (Some (Inr x)) \<Longrightarrow>
   task_run m h es h' (Some (Inr x))"
  by (induction m h es h1 "Some (Inr x) :: 'a result option" rule: task_run.induct) (auto intro: task_run.intros)

lemma run_bind_Finish:
  assumes "task_run (task_bind m (\<lambda>x. Finish (f x))) h es h' (Some r)"
  obtains e where "task_run m h es h' (Some (Inl e))" "r = Inl e"
    | x where "task_run m h es h' (Some (Inr x))" "r = Inr (f x)"
  using run_bind [OF assms] unfolding run_split_def
proof (elim disjE exE conjE, goal_cases)
  case (1 x es1 h1 es2)
  have "es2 = [] \<and> r = Inr (f x) \<and> task_run (Finish x) h1 [] h' (Some (Inr x))"
    by (rule run_Finish_other [OF 1(4)])
  then show ?case using 1(2) [of x] run_end [OF 1(3)] 1(5) by simp
qed simp_all

text \<open>The catch of the handler: a thrown error becomes the failure response.\<close>

lemma run_otherwise:
  assumes "task_run (task_otherwise t failure) h es h' (Some out)"
  obtains e where "task_run t h es h' (Some (Inl e))" "out = Inr failure"
    | x where "task_run t h es h' (Some (Inr x))" "out = Inr x"
  using assms unfolding task_otherwise_def
proof (cases rule: run_bind_Finish)
  case (1 e)
  then show ?thesis using run_task_try [OF 1(1)] by auto
next
  case (2 x)
  obtain r where r: "task_run (task_bind t (\<lambda>x. Finish (Some x))) h es h' (Some r)"
    "x = (case r of Inl e \<Rightarrow> None | Inr x \<Rightarrow> x)"
    using run_task_try [OF 2(1)] by auto
  show ?thesis
    using r(1)
  proof (cases rule: run_bind_Finish)
    case inner: (1 e)
    show ?thesis by (rule that(1) [OF inner(1)]) (simp add: 2(2) r(2) inner(2))
  next
    case inner: (2 y)
    show ?thesis by (rule that(2) [OF inner(1)]) (simp add: 2(2) r(2) inner(2))
  qed
qed

section \<open>What reaches a service\<close>

text \<open>The body of a request that the handler passes on.\<close>

definition worker_request_body :: "worker_http_environment \<Rightarrow> worker_http_request \<Rightarrow> json option" where
  "worker_request_body env q =
     (if we_configValid env \<and> wq_search q = [] \<and> wq_method q = ''POST'' then readJson env q else None)"

lemma handled:
  "handleRunpodHttpRequest env q =
     (case worker_request_body env q of
        None \<Rightarrow> Finish (if \<not> we_configValid env then worker_request_failed
          else if wq_search q \<noteq> [] \<or> wq_method q \<noteq> ''POST'' then worker_not_found else invalid_worker_request)
      | Some body \<Rightarrow> task_otherwise
            (if wq_pathname q = ''/internal/runpod/claim'' then answer_claim env body
             else if wq_pathname q = ''/internal/runpod/heartbeat'' then answer_heartbeat env body
             else Finish worker_not_found) worker_request_failed)"
  by (auto simp: handleRunpodHttpRequest_def worker_request_body_def split: option.split)

lemma worker_response_status [simp]:
  "wy_status worker_not_found = 404" "wy_status invalid_worker_request = 400"
  "wy_status worker_request_failed = 500" "wy_status (worker_error_response code m s) = s"
  "wy_status (worker_json_response j s) = s" "wy_body (worker_json_response j s) = Some j"
  by (simp_all add: worker_not_found_def invalid_worker_request_def worker_request_failed_def
      worker_error_response_def worker_json_response_def)

lemma run_answer_claim:
  assumes "task_run (answer_claim env body) h es h' (Some out)"
  obtains "\<not> runpodClaimRequestSchema body" "es = []" "out = Inr invalid_worker_request"
    | e where "runpodClaimRequestSchema body" "out = Inl e"
    | r where "runpodClaimRequestSchema body" "out = Inr r" "wy_status r \<in> {200, 403}"
        "wy_status r = 200 \<longrightarrow> wy_body r = Some (JObj [(''deduplicated'', JBool True)]) \<or>
          (\<exists>c. wy_body r = Some (claim_response_json c) \<and>
            task_run (claimRunpodExecution (we_claim env) (read_claim_request body)) h es h' (Some (Inr (Claim_granted c))))"
proof (cases "runpodClaimRequestSchema body")
  case False
  then show thesis using that(1) run_Finish assms by (fastforce simp: answer_claim_def)
next
  case True
  show thesis
    using assms unfolding answer_claim_def if_not_P [OF iffD2 [OF not_not True]]
  proof (cases rule: run_bind_Finish)
    case (1 e)
    then show thesis using that(2) True by blast
  next
    case (2 x)
    then show thesis by (cases x) (auto intro!: that(3) [OF True 2(2)])
  qed
qed

lemma run_answer_heartbeat:
  assumes "task_run (answer_heartbeat env body) h es h' (Some out)"
  obtains "\<not> runpodHeartbeatRequestSchema body" "es = []" "out = Inr invalid_worker_request"
    | e where "runpodHeartbeatRequestSchema body" "out = Inl e"
    | r where "runpodHeartbeatRequestSchema body" "out = Inr r" "wy_status r \<in> {200, 403}"
        "wy_status r = 200 \<longrightarrow> (\<exists>c. wy_body r = Some (JObj [(''cancelRequested'', JBool c)]))"
proof (cases "runpodHeartbeatRequestSchema body")
  case False
  then show thesis using that(1) run_Finish assms by (fastforce simp: answer_heartbeat_def)
next
  case True
  show thesis
    using assms unfolding answer_heartbeat_def if_not_P [OF iffD2 [OF not_not True]]
  proof (cases rule: run_bind_Finish)
    case (1 e)
    then show thesis using that(2) True by blast
  next
    case (2 x)
    then show thesis by (cases x) (auto intro!: that(3) [OF True 2(2)])
  qed
qed

text \<open>What a run of the handler answers, by the way it took.\<close>

datatype worker_route = Route_none | Route_claim | Route_heartbeat

definition worker_route_of :: "worker_http_environment \<Rightarrow> worker_http_request \<Rightarrow> worker_route" where
  "worker_route_of env q =
     (case worker_request_body env q of
        None \<Rightarrow> Route_none
      | Some body \<Rightarrow>
          if wq_pathname q = ''/internal/runpod/claim'' \<and> runpodClaimRequestSchema body then Route_claim
          else if wq_pathname q = ''/internal/runpod/heartbeat'' \<and> runpodHeartbeatRequestSchema body
          then Route_heartbeat else Route_none)"

lemma run_handler:
  assumes "task_run (handleRunpodHttpRequest env q) h es h' (Some out)"
  obtains r where "out = Inr r" "worker_route_of env q = Route_none" "es = []" "wy_status r \<in> {400, 404, 500}"
    | "out = Inr worker_request_failed" "worker_route_of env q \<noteq> Route_none"
    | r body where "out = Inr r" "worker_route_of env q = Route_claim" "worker_request_body env q = Some body"
        "wy_status r \<in> {200, 403}"
        "wy_status r = 200 \<longrightarrow> wy_body r = Some (JObj [(''deduplicated'', JBool True)]) \<or>
          (\<exists>c. wy_body r = Some (claim_response_json c) \<and>
            task_run (claimRunpodExecution (we_claim env) (read_claim_request body)) h es h' (Some (Inr (Claim_granted c))))"
    | r where "out = Inr r" "worker_route_of env q = Route_heartbeat" "wy_status r \<in> {200, 403}"
        "wy_status r = 200 \<longrightarrow> (\<exists>c. wy_body r = Some (JObj [(''cancelRequested'', JBool c)]))"
proof (cases "worker_request_body env q")
  case None
  then show thesis
    using that(1) run_Finish assms by (fastforce simp: handled worker_route_of_def split: if_splits)
next
  case (Some body)
  then have run: "task_run (task_otherwise (if wq_pathname q = ''/internal/runpod/claim'' then answer_claim env body
      else if wq_pathname q = ''/internal/runpod/heartbeat'' then answer_heartbeat env body
      else Finish worker_not_found) worker_request_failed) h es h' (Some out)"
    using assms by (simp add: handled)
  consider (claim) "wq_pathname q = ''/internal/runpod/claim''"
    | (heartbeat) "wq_pathname q = ''/internal/runpod/heartbeat''"
    | (neither) "wq_pathname q \<notin> {''/internal/runpod/claim'', ''/internal/runpod/heartbeat''}" by blast
  then show thesis
  proof cases
    case claim
    then have "task_run (task_otherwise (answer_claim env body) worker_request_failed) h es h' (Some out)" using run by simp
    then show thesis
    proof (cases rule: run_otherwise)
      case (1 e)
      then have "runpodClaimRequestSchema body" by (cases rule: run_answer_claim) simp_all
      then show thesis using that(2) 1(2) claim Some by (simp add: worker_route_of_def)
    next
      case (2 x)
      from 2(1) show thesis
        by (cases rule: run_answer_claim) (use that(1,3) 2(2) claim Some in \<open>auto simp: worker_route_of_def\<close>)
    qed
  next
    case heartbeat
    then have "task_run (task_otherwise (answer_heartbeat env body) worker_request_failed) h es h' (Some out)" using run by simp
    then show thesis
    proof (cases rule: run_otherwise)
      case (1 e)
      then have "runpodHeartbeatRequestSchema body" by (cases rule: run_answer_heartbeat) simp_all
      then show thesis using that(2) 1(2) heartbeat Some by (simp add: worker_route_of_def)
    next
      case (2 x)
      from 2(1) show thesis
        by (cases rule: run_answer_heartbeat) (use that(1,4) 2(2) heartbeat Some in \<open>auto simp: worker_route_of_def\<close>)
    qed
  next
    case neither
    then have "task_run (task_otherwise (Finish worker_not_found) worker_request_failed) h es h' (Some out)" using run by simp
    then have "es = [] \<and> out = Inr worker_not_found" by (cases rule: run_otherwise) (auto dest: run_Finish)
    then show thesis using that(1) neither Some by (simp add: worker_route_of_def)
  qed
qed

section \<open>Properties\<close>

definition ex_claim_json :: json where
  "ex_claim_json = JObj [(''attemptId'', JStr ex_attempt_id), (''claimToken'', JStr ex_token),
     (''jobId'', JStr ex_job_id), (''runpodJobId'', JStr ''r'')]"

definition ex_worker_environment :: worker_http_environment where
  "ex_worker_environment = \<lparr>we_configValid = True, we_parse_json = (\<lambda>_. Some ex_claim_json),
     we_utf8_length = length, we_claim = ex_claim_environment\<rparr>"

definition ex_worker_request :: worker_http_request where
  "ex_worker_request = \<lparr>wq_method = ''POST'', wq_pathname = ''/internal/runpod/claim'', wq_search = [],
     wq_contentType = Some ''application/json; charset=utf-8'', wq_contentLength = Some ''2'',
     wq_text = Some ''{}''\<rparr>"

lemma ex_worker_body: "worker_request_body ex_worker_environment ex_worker_request = Some ex_claim_json"
proof -
  have "json_content_type (Some ''application/json; charset=utf-8'')" "digits_value ''2'' = Some 2" by code_simp+
  then show ?thesis
    by (simp add: worker_request_body_def readJson_def worker_length_ok_def MAX_INTERNAL_REQUEST_BYTES_def
        ex_worker_environment_def ex_worker_request_def)
qed

lemma ex_claim_json_ok: "runpodClaimRequestSchema ex_claim_json" "read_claim_request ex_claim_json = ex_claim_request"
  by (simp_all add: runpodClaimRequestSchema_def ex_claim_json_def schema_defs read_claim_request_def
      string_field_def json_field_def ex_claim_request_def)

lemma ex_worker_run:
  obtains r es new g where "task_run (handleRunpodHttpRequest ex_worker_environment ex_worker_request) [ex_claimable] es (new # g)
    (Some (Inr (worker_json_response (claim_response_json r) 200)))"
proof -
  obtain r db' where "run_alone ex_world (claimRunpodExecution ex_claim_environment ex_claim_request) ex_claimable =
    (Inr (Claim_granted r), db')" by (rule ex_granted)
  then have "run_alone ex_world (handleRunpodHttpRequest ex_worker_environment ex_worker_request) ex_claimable =
    (Inr (worker_json_response (claim_response_json r) 200), db')"
    using ex_claim_json_ok
    by (simp add: handled ex_worker_body task_otherwise_def answer_claim_def alone_bind alone_task_try)
      (simp add: ex_worker_environment_def ex_worker_request_def)
  then show thesis
    using that alone_is_run [of "handleRunpodHttpRequest ex_worker_environment ex_worker_request" ex_claimable "[]" ex_world]
    by auto
qed

text \<open>Claim C27. The handler never throws: every request that is handled to the end is answered with status 200,
  400, 403, 404 or 500, whatever the services throw. Only a POST without a query, of a JSON text of 1 byte
  to 4 KiB that satisfies the schema of its path, can be answered with 200, change the database, or cause a
  call of RunPod or of the signer.\<close>

theorem worker_requests_answered:
  assumes "task_run (handleRunpodHttpRequest env q) h es h' (Some out)"
  shows "\<exists>r. out = Inr r \<and> wy_status r \<in> {200, 400, 403, 404, 500} \<and>
    (es = [] \<and> wy_status r \<noteq> 200 \<or>
     we_configValid env \<and> wq_method q = ''POST'' \<and> wq_search q = [] \<and>
     (\<exists>text body. wq_text q = Some text \<and> text \<noteq> [] \<and> we_utf8_length env text \<le> 4096 \<and>
        we_parse_json env text = Some body \<and>
        (wq_pathname q = ''/internal/runpod/claim'' \<and> runpodClaimRequestSchema body \<or>
         wq_pathname q = ''/internal/runpod/heartbeat'' \<and> runpodHeartbeatRequestSchema body)))"
proof -
  have routed: "we_configValid env \<and> wq_method q = ''POST'' \<and> wq_search q = [] \<and>
     (\<exists>text body. wq_text q = Some text \<and> text \<noteq> [] \<and> we_utf8_length env text \<le> 4096 \<and>
        we_parse_json env text = Some body \<and>
        (wq_pathname q = ''/internal/runpod/claim'' \<and> runpodClaimRequestSchema body \<or>
         wq_pathname q = ''/internal/runpod/heartbeat'' \<and> runpodHeartbeatRequestSchema body))"
    if "worker_route_of env q \<noteq> Route_none"
    using that
    by (auto simp: worker_route_of_def worker_request_body_def readJson_def MAX_INTERNAL_REQUEST_BYTES_def
        split: option.splits if_splits)
  show ?thesis using assms by (cases rule: run_handler) (use routed in auto)
qed

theorem worker_requests_answered_witness:
  "\<exists>es g r. task_run (handleRunpodHttpRequest ex_worker_environment ex_worker_request) [ex_claimable] es g (Some (Inr r)) \<and>
     wy_status r = 200 \<and> we_parse_json ex_worker_environment ''{}'' = Some ex_claim_json"
proof -
  obtain r es new g where run: "task_run (handleRunpodHttpRequest ex_worker_environment ex_worker_request) [ex_claimable]
    es (new # g) (Some (Inr (worker_json_response (claim_response_json r) 200)))" by (rule ex_worker_run)
  have "\<exists>text. wq_text ex_worker_request = Some text \<and> we_parse_json ex_worker_environment text = Some ex_claim_json"
    using worker_requests_answered [OF run] by (auto simp: ex_worker_environment_def)
  moreover have "wq_text ex_worker_request = Some ''{}''" by (simp add: ex_worker_request_def)
  ultimately have "we_parse_json ex_worker_environment ''{}'' = Some ex_claim_json" by simp
  then show ?thesis using run worker_response_status(5) by blast
qed

text \<open>Claim C26. The grant a worker receives over HTTP is the grant of a verified winner: when the handler answers a
  request with \<open>granted\<close>, the request went to the claim path with a well-formed body, RunPod had confirmed
  the placement of the job the body names, and in every later database this job is the winner of the
  attempt and the stored hash is that of the token the body carries.\<close>

theorem worker_grant_over_http:
  assumes "history h" "task_run (handleRunpodHttpRequest env q) h es h' (Some (Inr r))"
    and granted: "wy_status r = 200" "wy_body r = Some answer" "json_field ''granted'' answer = Some (JBool True)"
    and later: "suffix h' (newer # k)" "history (newer # k)"
  shows "wq_pathname q = ''/internal/runpod/claim'' \<and>
    (\<exists>body. readJson env q = Some body \<and> runpodClaimRequestSchema body \<and>
       Verified (string_field ''runpodJobId'' body) Placement_verified \<in> set es \<and>
       (\<exists>a \<in> set (d1_attempts newer). am_id a = string_field ''attemptId'' body \<and>
          am_winning_runpod_job_id a = Some (string_field ''runpodJobId'' body) \<and>
          am_claim_token_hash a = Some (encodeHex (ce_sha256 (we_claim env) (string_field ''claimToken'' body)))))"
  using assms(2)
proof (cases rule: run_handler)
  case (3 s body)
  then obtain c where run: "task_run (claimRunpodExecution (we_claim env) (read_claim_request body)) h es h'
      (Some (Inr (Claim_granted c)))"
    using granted by (auto simp: json_field_def)
  have won: "claim_won (we_claim env) (read_claim_request body) c es h'" by (rule granted_run [OF run assms(1)])
  then have "Verified (string_field ''runpodJobId'' body) Placement_verified \<in> set es"
    by (auto simp: claim_won_def read_claim_request_def)
  moreover obtain a where "a \<in> set (d1_attempts newer)" "am_id a = cl_attemptId (read_claim_request body)"
    "am_winning_runpod_job_id a = Some (cl_runpodJobId (read_claim_request body))"
    "am_claim_token_hash a = Some (encodeHex (ce_sha256 (we_claim env) (cl_claimToken (read_claim_request body))))"
    by (rule claim_won_later [OF won later])
  ultimately show ?thesis
    using 3(2,3) by (auto simp: worker_route_of_def worker_request_body_def read_claim_request_def split: if_splits)
qed (use granted in \<open>auto simp: json_field_def\<close>)

theorem worker_grant_over_http_witness:
  "\<exists>es new g r. task_run (handleRunpodHttpRequest ex_worker_environment ex_worker_request) [ex_claimable] es (new # g)
       (Some (Inr r)) \<and> (\<exists>a \<in> set (d1_attempts new). am_winning_runpod_job_id a = Some ''r'')"
proof -
  note start = history.start [OF ex_claimable_inv]
  obtain r es new g where run: "task_run (handleRunpodHttpRequest ex_worker_environment ex_worker_request) [ex_claimable]
    es (new # g) (Some (Inr (worker_json_response (claim_response_json r) 200)))" by (rule ex_worker_run)
  have "readJson ex_worker_environment ex_worker_request = Some ex_claim_json"
    using ex_worker_body by (simp add: worker_request_body_def split: if_splits)
  moreover have "history (new # g)" using task_run_history [OF run start] by blast
  moreover have "json_field ''granted'' (claim_response_json r) = Some (JBool True)"
    by (simp add: json_field_def claim_response_json_def)
  ultimately show ?thesis
    using worker_grant_over_http [OF start run _ _ _ suffix_order.refl] run
    by (auto simp: ex_claim_json_def string_field_def json_field_def)
qed

end
