(* ===== verification/Notification.thy ===== *)
theory Notification
  imports Completion
begin

text \<open>
  The notifications of apps/orchestrator/src: notification-outbox-repository.ts, one definition per SQL
  statement and per operation; discord-client.ts; and notification-service.ts (\<open>dispatchNextNotification\<close>),
  the sequence of one sweep with the values of its clock, its random sources and Discord's answer given.
  What config.ts and staging-acceptance-fault.ts read of the environment is a parameter; log records are
  left out. The Japanese text of a message is a structure: the title, the durations and the URL that are
  put into it; its length is a parameter.
  Lemmas: which statement changes which rows.
\<close>

section \<open>Jobs to notify\<close>

definition NOTIFICATION_ERROR_CODES :: "string list" where
  "NOTIFICATION_ERROR_CODES =
     [''CONFIGURATION_MISSING'', ''DISCORD_RATE_LIMITED'', ''DISCORD_REJECTED'', ''DISCORD_UNAVAILABLE'']"

definition runpod_execution_ended :: "attempt_row \<Rightarrow> execution_row \<Rightarrow> bool" where
  "runpod_execution_ended a x \<longleftrightarrow>
     am_provider_kind a = Some ''runpod_serverless'' \<and> execution_matches a x \<and> xc_status x = GPU_TERMINAL"

definition cloud_run_execution_ended :: "attempt_row \<Rightarrow> execution_row \<Rightarrow> bool" where
  "cloud_run_execution_ended a x \<longleftrightarrow>
     am_provider_kind a = Some ''cloud_run_jobs'' \<and> xc_attempt_id x = am_id a \<and> xc_id x = am_id a \<and>
     Some (xc_provider_kind x) = am_provider_kind a \<and> Some (xc_provider_policy x) = am_provider_policy a \<and>
     xc_status x = GPU_TERMINAL \<and> xc_create_outcome x = am_submission_outcome a"

text \<open>\<open>JOB_PROVIDER_COMPATIBILITY_PREDICATE\<close>\<close>

definition notification_compatible :: "d1 \<Rightarrow> job_row \<Rightarrow> bool" where
  "notification_compatible db j \<longleftrightarrow>
     jb_active_attempt_id j = None \<or>
     (\<exists>a \<in> set (d1_attempts db). jb_active_attempt_id j = Some (am_id a) \<and>
        (am_provider_kind a = None \<and> \<not> (\<exists>x \<in> set (d1_executions db). xc_attempt_id x = am_id a) \<or>
         (\<exists>x \<in> set (d1_executions db). runpod_execution_ended a x \<or> cloud_run_execution_ended a x)))"

definition terminal_at :: "job_row \<Rightarrow> string option" where
  "terminal_at j = (if jb_status j = COMPLETED then jb_completed_at j else jb_failed_at j)"

text \<open>A job that ended and was not notified.\<close>

definition awaits_notification :: "d1 \<Rightarrow> job_row \<Rightarrow> bool" where
  "awaits_notification db j \<longleftrightarrow>
     jb_status j \<in> {COMPLETED, FAILED} \<and> jb_notified_at j = None \<and> jb_deleted_at j = None \<and>
     notification_compatible db j"

definition enqueueable :: "d1 \<Rightarrow> job_row \<Rightarrow> bool" where
  "enqueueable db j \<longleftrightarrow>
     awaits_notification db j \<and> terminal_at j \<noteq> None \<and>
     \<not> (\<exists>r \<in> set (d1_outbox db). ob_job_id r = jb_id j \<and> ob_status r \<in> {''PENDING'', ''SENDING''} \<and>
          ob_job_version r = Some (jb_version j))"

definition ended_before :: "job_row \<Rightarrow> job_row \<Rightarrow> bool" where
  "ended_before j k \<longleftrightarrow>
     null_first_less (terminal_at j) (terminal_at k) \<or>
     (terminal_at j = terminal_at k \<and> text_less (jb_id j) (jb_id k))"

section \<open>Statements\<close>

text \<open>The job that \<open>ENQUEUE_NEXT_TERMINAL_NOTIFICATION_SQL\<close> selects, and its row of the outbox.\<close>

definition next_to_enqueue :: "d1 \<Rightarrow> job_row option" where
  "next_to_enqueue db = (case order_by ended_before (filter (enqueueable db) (d1_jobs db)) of
     [] \<Rightarrow> None | j # _ \<Rightarrow> Some j)"

definition enqueue_next_terminal_sql :: "string \<Rightarrow> string \<Rightarrow> outbox_row statement" where
  "enqueue_next_terminal_sql notificationId timestamp db =
     (case next_to_enqueue db of
        None \<Rightarrow> Inr ([], db)
      | Some j \<Rightarrow>
          let version = Some (jb_version j);
              new = pending_notification notificationId (jb_id j) version timestamp;
              stale = (\<lambda>r. ob_job_id r = jb_id j \<and>
                (ob_job_version r \<noteq> version \<or> ob_status r \<in> {''SENT'', ''DEAD''}));
              renew = (\<lambda>r. new\<lparr>ob_id := ob_id r\<rparr>)
          in if length notificationId \<noteq> 26 \<or> version = Some 0
             then Inl (DatabaseError ''CHECK constraint failed: notification_outbox'')
             else if jb_id j \<in> ob_job_id ` set (d1_outbox db)
             then Inr (map renew (filter stale (d1_outbox db)),
               db\<lparr>d1_outbox := update_where stale renew (d1_outbox db)\<rparr>)
             else if notificationId \<in> ob_id ` set (d1_outbox db)
             then Inl (DatabaseError ''UNIQUE constraint failed: notification_outbox'')
             else Inr ([new], db\<lparr>d1_outbox := d1_outbox db @ [new]\<rparr>))"

definition claimable_row :: "string \<Rightarrow> d1 \<Rightarrow> outbox_row \<Rightarrow> bool" where
  "claimable_row timestamp db r \<longleftrightarrow>
     ob_status r \<in> {''PENDING'', ''SENDING''} \<and>
     (ob_next_attempt_at r = None \<or> sql_leq (ob_next_attempt_at r) timestamp) \<and>
     (\<exists>j \<in> set (d1_jobs db). jb_id j = ob_job_id r \<and> ob_job_version r = Some (jb_version j) \<and>
        awaits_notification db j)"

definition due_before :: "outbox_row \<Rightarrow> outbox_row \<Rightarrow> bool" where
  "due_before r s \<longleftrightarrow>
     (let due = (\<lambda>r. case ob_next_attempt_at r of None \<Rightarrow> ob_created_at r | Some t \<Rightarrow> t) in
      text_less (due r) (due s) \<or> (due r = due s \<and> text_less (ob_id r) (ob_id s)))"

definition next_to_claim :: "string \<Rightarrow> d1 \<Rightarrow> outbox_row option" where
  "next_to_claim timestamp db =
     (case order_by due_before (filter (claimable_row timestamp db) (d1_outbox db)) of
        [] \<Rightarrow> None | r # _ \<Rightarrow> Some r)"

text \<open>A claimed row with its job and the job's active attempt, from which the RETURNING clause takes its values.\<close>

definition claim_notification_sql ::
  "string \<Rightarrow> string \<Rightarrow> (outbox_row \<times> job_row option \<times> attempt_row option) statement" where
  "claim_notification_sql timestamp leaseExpiresAt db =
     (case next_to_claim timestamp db of
        None \<Rightarrow> Inr ([], db)
      | Some r \<Rightarrow>
          let claimed = (\<lambda>r. r\<lparr>ob_status := ''SENDING'', ob_attempt_count := ob_attempt_count r + 1,
                ob_next_attempt_at := Some leaseExpiresAt\<rparr>);
              job = find_job (\<lambda>j. jb_id j = ob_job_id r) db
          in Inr ([(claimed r, job, Option.bind job (active_attempt db))],
               db\<lparr>d1_outbox := update_where (\<lambda>s. ob_id s = ob_id r) claimed (d1_outbox db)\<rparr>))"

definition update_outbox :: "(outbox_row \<Rightarrow> bool) \<Rightarrow> (outbox_row \<Rightarrow> outbox_row) \<Rightarrow> outbox_row statement" where
  "update_outbox p f db =
     Inr (map f (filter p (d1_outbox db)), db\<lparr>d1_outbox := update_where p f (d1_outbox db)\<rparr>)"

text \<open>The row a claim leased, as long as nobody has claimed it again.\<close>

definition leased :: "string \<Rightarrow> nat \<Rightarrow> outbox_row \<Rightarrow> bool" where
  "leased notificationId attemptCount r \<longleftrightarrow>
     ob_id r = notificationId \<and> ob_status r = ''SENDING'' \<and> ob_attempt_count r = attemptCount"

definition mark_notification_sent_sql :: "string \<Rightarrow> nat \<Rightarrow> string \<Rightarrow> outbox_row statement" where
  "mark_notification_sent_sql notificationId attemptCount timestamp =
     update_outbox (leased notificationId attemptCount)
       (\<lambda>r. r\<lparr>ob_status := ''SENT'', ob_next_attempt_at := None, ob_last_error := None,
          ob_sent_at := Some timestamp\<rparr>)"

definition mark_job_notified_sql :: "string \<Rightarrow> string \<Rightarrow> job_status \<Rightarrow> nat \<Rightarrow> job_row statement" where
  "mark_job_notified_sql jobId timestamp status version =
     update_jobs
       (\<lambda>j. jb_id j = jobId \<and> jb_status j = status \<and> jb_version j = version \<and> jb_notified_at j = None)
       (\<lambda>j. j\<lparr>jb_notified_at := Some timestamp,
          jb_updated_at := (if text_less timestamp (jb_updated_at j) then jb_updated_at j else timestamp)\<rparr>)"

definition release_notification_sql ::
  "string \<Rightarrow> nat \<Rightarrow> string \<Rightarrow> string option \<Rightarrow> string \<Rightarrow> outbox_row statement" where
  "release_notification_sql notificationId attemptCount status nextAttemptAt errorCode =
     update_outbox (leased notificationId attemptCount)
       (\<lambda>r. r\<lparr>ob_status := status, ob_next_attempt_at := nextAttemptAt, ob_last_error := Some errorCode\<rparr>)"

section \<open>The repository\<close>

record notification_delivery =
  nd_attemptCount :: nat
  nd_id :: string
  nd_jobId :: string
  nd_jobVersion :: nat
  nd_title :: string
  nd_durationSeconds :: "rat option"
  nd_executionMs :: "nat option"
  nd_terminalStatus :: job_status

text \<open>\<open>notificationDeliveryRowSchema\<close>: a completed job must have a duration and an execution time.\<close>

definition notificationDeliveryRowSchema ::
  "outbox_row \<times> job_row option \<times> attempt_row option \<Rightarrow> bool" where
  "notificationDeliveryRowSchema row \<longleftrightarrow>
     (case row of
        (r, Some j, a) \<Rightarrow>
          0 < ob_attempt_count r \<and> ulid_ok (ob_id r) \<and> ulid_ok (ob_job_id r) \<and>
          not_null (\<lambda>v. 0 < v) (ob_job_version r) \<and>
          1 \<le> length (jb_title j) \<and> length (jb_title j) \<le> 200 \<and>
          nullable (\<lambda>d. 0 \<le> d \<and> d \<le> 28800) (jb_duration_seconds j) \<and>
          (jb_status j = COMPLETED \<and> jb_duration_seconds j \<noteq> None \<and> Option.bind a am_runpod_execution_ms \<noteq> None \<or>
           jb_status j = FAILED)
      | _ \<Rightarrow> False)"

definition map_delivery :: "outbox_row \<times> job_row option \<times> attempt_row option \<Rightarrow> notification_delivery" where
  "map_delivery row =
     (case row of (r, job, a) \<Rightarrow>
        \<lparr>nd_attemptCount = ob_attempt_count r, nd_id = ob_id r, nd_jobId = ob_job_id r,
         nd_jobVersion = the (ob_job_version r), nd_title = jb_title (the job),
         nd_durationSeconds = jb_duration_seconds (the job),
         nd_executionMs = Option.bind a am_runpod_execution_ms, nd_terminalStatus = jb_status (the job)\<rparr>)"

definition claimNextNotification :: "string \<Rightarrow> string \<Rightarrow> notification_delivery option api" where
  "claimNextNotification timestamp leaseExpiresAt db =
     (case res_bind (zod_parse (\<lambda>_. utc_datetime_ok timestamp \<and> utc_datetime_ok leaseExpiresAt) ())
         (\<lambda>_. claim_notification_sql timestamp leaseExpiresAt db) of
        Inl e \<Rightarrow> (Inl e, db)
      | Inr (rows, db') \<Rightarrow>
          (res_bind (zod_parse (\<lambda>rs. length rs \<le> 1 \<and> list_all notificationDeliveryRowSchema rs) rows) (\<lambda>rs.
             Inr (case rs of [] \<Rightarrow> None | row # _ \<Rightarrow> Some (map_delivery row))), db'))"

definition enqueueNextTerminal :: "string \<Rightarrow> string \<Rightarrow> bool api" where
  "enqueueNextTerminal notificationId timestamp db =
     (case res_bind (zod_parse (\<lambda>_. ulid_ok notificationId \<and> utc_datetime_ok timestamp) ())
         (\<lambda>_. enqueue_next_terminal_sql notificationId timestamp db) of
        Inl e \<Rightarrow> (Inl e, db)
      | Inr (rows, db') \<Rightarrow>
          (res_bind (updatedJobIdRowsSchema (map ob_id rows)) (\<lambda>row. Inr (row \<noteq> None)), db'))"

definition markSent :: "notification_delivery \<Rightarrow> string \<Rightarrow> bool api" where
  "markSent delivery timestamp db =
     (case res_bind (zod_parse (\<lambda>d. utc_datetime_ok timestamp \<and> ulid_ok (nd_id d) \<and> 0 < nd_attemptCount d \<and>
           ulid_ok (nd_jobId d) \<and> nd_terminalStatus d \<in> {COMPLETED, FAILED} \<and> 0 < nd_jobVersion d) delivery)
         (\<lambda>d. batch2 (mark_notification_sent_sql (nd_id d) (nd_attemptCount d) timestamp)
            (mark_job_notified_sql (nd_jobId d) timestamp (nd_terminalStatus d) (nd_jobVersion d)) db) of
        Inl e \<Rightarrow> (Inl e, db)
      | Inr ((outbox, jobs), db') \<Rightarrow>
          (res_bind (updatedJobIdRowsSchema (map ob_id outbox)) (\<lambda>updatedOutbox.
           res_bind (updatedJobIdRowsSchema (map jb_id jobs)) (\<lambda>updatedJob.
           Inr (updatedOutbox \<noteq> None \<and> updatedJob \<noteq> None))), db'))"

definition release_text :: string where
  "release_text = ''Pending notifications require a retry time and dead notifications forbid one''"

definition releaseNotification :: "notification_delivery \<Rightarrow> string \<Rightarrow> string option \<Rightarrow> string \<Rightarrow> bool api" where
  "releaseNotification delivery errorCode nextAttemptAt status db =
     (case res_bind (zod_parse (\<lambda>_. status \<in> {''DEAD'', ''PENDING''} \<and> nullable utc_datetime_ok nextAttemptAt) ())
         (\<lambda>_. if (status = ''PENDING'') \<noteq> (nextAttemptAt \<noteq> None) then Inl (JsError release_text)
           else res_bind (zod_parse (\<lambda>d. ulid_ok (nd_id d) \<and> 0 < nd_attemptCount d \<and>
             errorCode \<in> set NOTIFICATION_ERROR_CODES) delivery)
           (\<lambda>d. release_notification_sql (nd_id d) (nd_attemptCount d) status nextAttemptAt errorCode db)) of
        Inl e \<Rightarrow> (Inl e, db)
      | Inr (rows, db') \<Rightarrow>
          (res_bind (updatedJobIdRowsSchema (map ob_id rows)) (\<lambda>row. Inr (row \<noteq> None)), db'))"

section \<open>Discord\<close>

datatype discord_result = Discord_sent | Discord_rejected | Discord_rate_limited | Discord_unavailable

text \<open>The status of the response, \<open>None\<close> when the request throws or times out.\<close>

definition discord_outcome :: "nat option \<Rightarrow> discord_result" where
  "discord_outcome response =
     (case response of
        None \<Rightarrow> Discord_unavailable
      | Some status \<Rightarrow>
          if 200 \<le> status \<and> status \<le> 299 then Discord_sent
          else if status = 429 then Discord_rate_limited
          else if 500 \<le> status then Discord_unavailable else Discord_rejected)"

definition discord_send :: "nat \<Rightarrow> nat option \<Rightarrow> discord_result result" where
  "discord_send content_length response =
     (if content_length = 0 \<or> 2000 < content_length
      then Inl (JsError ''Discord notification content exceeds the allowed size'')
      else Inr (discord_outcome response))"

section \<open>Messages\<close>

text \<open>Hours, minutes and seconds; the hours are left out when there are none.\<close>

definition formatDuration :: "rat \<Rightarrow> int option \<times> int \<times> int" where
  "formatDuration totalSeconds =
     (let rounded = \<lfloor>totalSeconds + 1 / 2\<rfloor>; hours = rounded div 3600; minutes = rounded mod 3600 div 60;
          seconds = rounded mod 60
      in (if 0 < hours then Some hours else None, minutes, seconds))"

datatype notification_text =
    Completion_text string "int option \<times> int \<times> int" "int option \<times> int \<times> int" string
  | Failure_text string string

definition line_break :: "char \<Rightarrow> bool" where
  "line_break c \<longleftrightarrow> c \<in> {CHR 0x09, CHR 0x0A, CHR 0x0D}"

text \<open>\<open>title.replace(/[\r\n\t]+/gu, " ").trim()\<close>\<close>

fun join_lines :: "string \<Rightarrow> string" where
  "join_lines [] = []"
| "join_lines (c # s) =
     (if line_break c then (case s of [] \<Rightarrow> '' '' | d # _ \<Rightarrow> if line_break d then join_lines s else CHR '' '' # join_lines s)
      else c # join_lines s)"

definition trimmed_space :: "char \<Rightarrow> bool" where
  "trimmed_space c \<longleftrightarrow> c \<in> {CHR '' '', CHR 0x09, CHR 0x0A, CHR 0x0B, CHR 0x0C, CHR 0x0D, CHR 0xA0}"

definition safe_title :: "string \<Rightarrow> string" where
  "safe_title title = rev (dropWhile trimmed_space (rev (dropWhile trimmed_space (join_lines title))))"

text \<open>\<open>encodeURIComponent\<close> leaves the identifier of a job, a ULID, as it is.\<close>

definition result_url :: "string \<Rightarrow> string \<Rightarrow> string" where
  "result_url webBaseUrl jobId =
     (if ends_with ''/'' webBaseUrl then butlast webBaseUrl else webBaseUrl) @ ''/jobs/'' @ jobId"

definition notification_content :: "string \<Rightarrow> notification_delivery \<Rightarrow> notification_text" where
  "notification_content webBaseUrl d =
     (let url = result_url webBaseUrl (nd_jobId d) in
      if nd_terminalStatus d = COMPLETED
      then Completion_text (safe_title (nd_title d)) (formatDuration (the (nd_durationSeconds d)))
        (formatDuration (of_nat (the (nd_executionMs d)) / 1000)) url
      else Failure_text (safe_title (nd_title d)) url)"

section \<open>The service\<close>

definition NOTIFICATION_LEASE_MS :: int where "NOTIFICATION_LEASE_MS = 2 * 60 * 1000"
definition MAX_NOTIFICATION_ATTEMPTS :: nat where "MAX_NOTIFICATION_ATTEMPTS = 8"
definition MAX_RETRY_DELAY_MS :: int where "MAX_RETRY_DELAY_MS = 60 * 60 * 1000"
definition BASE_RETRY_DELAY_MS :: int where "BASE_RETRY_DELAY_MS = 30 * 1000"

text \<open>\<open>Math.random()\<close> as a number, \<open>None\<close> when it is not finite.\<close>

definition notification_retry_at :: "int \<Rightarrow> nat \<Rightarrow> rat option \<Rightarrow> int" where
  "notification_retry_at now attemptCount sample =
     (let cap = min MAX_RETRY_DELAY_MS (BASE_RETRY_DELAY_MS * 2 ^ min (attemptCount - 1) 10);
          normalizedSample = (case sample of None \<Rightarrow> 0 | Some x \<Rightarrow> min (999999 / 1000000) (max 0 x))
      in now + max 1000 \<lfloor>normalizedSample * of_int cap\<rfloor>)"

text \<open>
  The environment: the webhook and the base URL that were configured, whether the parsed fault lease makes
  Discord unavailable for a job, and the length of a message. A sweep: the two values of its clock, its
  random sources, and the status Discord answers.
\<close>

record notification_environment =
  nv_config :: "(string \<times> string) option"
  nv_fault :: "(string \<Rightarrow> int \<Rightarrow> bool) result"
  nv_text_length :: "notification_text \<Rightarrow> nat"

record notification_sweep =
  ns_claimedAt :: int
  ns_settledAt :: int
  ns_randomBytes :: "nat \<Rightarrow> 8 word list"
  ns_sample :: "rat option"
  ns_response :: "nat option"

datatype notification_dispatch = Notify_unconfigured | Notify_dead | Notify_deferred | Notify_none | Notify_sent

definition api_bind :: "'a api \<Rightarrow> ('a \<Rightarrow> 'b api) \<Rightarrow> 'b api" where
  "api_bind m f db = (case m db of (Inl e, db') \<Rightarrow> (Inl e, db') | (Inr x, db') \<Rightarrow> f x db')"

definition api_result :: "'a result \<Rightarrow> 'a api" where
  "api_result r db = (r, db)"

definition discord_error_code :: "discord_result \<Rightarrow> string" where
  "discord_error_code outcome =
     (case outcome of
        Discord_rate_limited \<Rightarrow> ''DISCORD_RATE_LIMITED''
      | Discord_rejected \<Rightarrow> ''DISCORD_REJECTED''
      | _ \<Rightarrow> ''DISCORD_UNAVAILABLE'')"

definition settle_notification ::
  "notification_sweep \<Rightarrow> notification_delivery \<Rightarrow> discord_result \<Rightarrow> notification_dispatch api" where
  "settle_notification s delivery outcome =
     (if outcome = Discord_sent then
        api_bind (markSent delivery (to_iso (ns_settledAt s))) (\<lambda>marked.
        api_result (if marked then Inr Notify_sent
          else Inl (JsError ''Sent notification could not be acknowledged in the outbox'')))
      else
        let dead = outcome = Discord_rejected \<or> MAX_NOTIFICATION_ATTEMPTS \<le> nd_attemptCount delivery in
        api_bind (releaseNotification delivery (discord_error_code outcome)
            (if dead then None
             else Some (to_iso (notification_retry_at (ns_settledAt s) (nd_attemptCount delivery) (ns_sample s))))
            (if dead then ''DEAD'' else ''PENDING'')) (\<lambda>released.
        api_result (if \<not> released then Inl (JsError ''Notification lease could not be released'')
          else Inr (if dead then Notify_dead else Notify_deferred))))"

definition dispatchNextNotification ::
  "notification_environment \<Rightarrow> notification_sweep \<Rightarrow> notification_dispatch api" where
  "dispatchNextNotification env s =
     api_bind (api_result (nv_fault env)) (\<lambda>fault.
     case nv_config env of
       None \<Rightarrow> api_result (Inr Notify_unconfigured)
     | Some (discordWebhookUrl, webBaseUrl) \<Rightarrow>
         api_bind (api_result (createUlid (Some (ns_claimedAt s)) (ns_randomBytes s))) (\<lambda>notificationId.
         api_bind (enqueueNextTerminal notificationId (to_iso (ns_claimedAt s))) (\<lambda>_.
         api_bind (claimNextNotification (to_iso (ns_claimedAt s))
             (to_iso (ns_claimedAt s + NOTIFICATION_LEASE_MS))) (\<lambda>claimed.
         case claimed of
           None \<Rightarrow> api_result (Inr Notify_none)
         | Some delivery \<Rightarrow>
             api_bind (api_result
                 (if fault (nd_jobId delivery) (ns_claimedAt s) then Inr Discord_unavailable
                  else discord_send (nv_text_length env (notification_content webBaseUrl delivery)) (ns_response s)))
               (settle_notification s delivery)))))"

end
