(* ===== verification/NotificationProperties.thy ===== *)
theory NotificationProperties
  imports Notification ServiceExample
begin

text \<open>
  The properties of the notifications: a job that ended is notified when Discord takes the message; what a
  notification that Discord rejects, and a completed job without an execution time, do to the others.
\<close>

section \<open>Single statements\<close>

lemma order_by_single [simp]: "order_by R [x] = [x]"
  by (simp add: order_by_def)

text \<open>Which jobs wait for a notification does not depend on the outbox.\<close>

lemma awaits_outbox [simp]: "awaits_notification (db\<lparr>d1_outbox := t\<rparr>) = awaits_notification db"
  by (rule ext) (simp add: awaits_notification_def notification_compatible_def)

lemma next_to_enqueue_member:
  assumes "next_to_enqueue db = Some j"
  shows "j \<in> set (d1_jobs db) \<and> enqueueable db j"
proof -
  obtain js where "order_by ended_before (filter (enqueueable db) (d1_jobs db)) = j # js"
    using assms by (auto simp: next_to_enqueue_def split: list.splits)
  then have "j \<in> set (filter (enqueueable db) (d1_jobs db))"
    using set_order_by [of ended_before "filter (enqueueable db) (d1_jobs db)"]
    by (metis list.set_intros(1))
  then show ?thesis by simp
qed

lemma find_job_id:
  assumes "distinct (map jb_id (d1_jobs db))" "j \<in> set (d1_jobs db)"
  shows "find_job (\<lambda>k. jb_id k = jb_id j) db = Some j"
proof -
  obtain k where k: "find_job (\<lambda>k. jb_id k = jb_id j) db = Some k"
    using assms(2) by (cases "find_job (\<lambda>k. jb_id k = jb_id j) db") (auto simp: find_job_def find_None_iff)
  then have "k \<in> set (d1_jobs db)" "jb_id k = jb_id j"
    unfolding find_job_def by (auto simp: find_Some_iff)
  then show ?thesis using k assms by (metis distinct_map inj_onD)
qed

lemma text_leq_refl [simp]: "text_leq s s"
  by (simp add: text_leq_def)

lemma text_leq_to_iso:
  "iso_time_range a \<Longrightarrow> iso_time_range b \<Longrightarrow> a \<le> b \<Longrightarrow> text_leq (to_iso a) (to_iso b)"
  using text_less_to_iso [of a b] by (auto simp: text_leq_def le_less)

lemma updatedJobIdRows_one [simp]: "updatedJobIdRowsSchema [i] = (if ulid_ok i then Inr (Some i) else Inl ZodError)"
  by (simp add: updatedJobIdRowsSchema_def rows_max_one_def zod_parse_def)

lemma api_bind_result [simp]: "api_bind (api_result r) f db = (case r of Inl e \<Rightarrow> (Inl e, db) | Inr x \<Rightarrow> f x db)"
  by (simp add: api_bind_def api_result_def split: sum.split)

lemma api_result_apply [simp]: "api_result r db = (r, db)"
  by (simp add: api_result_def)

definition leased_row :: "string \<Rightarrow> outbox_row \<Rightarrow> outbox_row" where
  "leased_row lease r = r\<lparr>ob_status := ''SENDING'', ob_attempt_count := ob_attempt_count r + 1,
     ob_next_attempt_at := Some lease\<rparr>"

lemma leased_row_fields [simp]:
  "ob_id (leased_row lease r) = ob_id r" "ob_job_id (leased_row lease r) = ob_job_id r"
  "ob_job_version (leased_row lease r) = ob_job_version r" "ob_status (leased_row lease r) = ''SENDING''"
  "ob_attempt_count (leased_row lease r) = ob_attempt_count r + 1"
  "ob_next_attempt_at (leased_row lease r) = Some lease"
  by (simp_all add: leased_row_def)

lemma claim_next:
  assumes "next_to_claim ts db = Some r" "find_job (\<lambda>j. jb_id j = ob_job_id r) db = Some j"
    and "utc_datetime_ok ts" "utc_datetime_ok lease"
  shows "claimNextNotification ts lease db =
    (if notificationDeliveryRowSchema (leased_row lease r, Some j, active_attempt db j)
     then Inr (Some (map_delivery (leased_row lease r, Some j, active_attempt db j))) else Inl ZodError,
     db\<lparr>d1_outbox := update_where (\<lambda>s. ob_id s = ob_id r) (leased_row lease) (d1_outbox db)\<rparr>)"
  using assms
  by (simp add: claimNextNotification_def claim_notification_sql_def zod_parse_def Let_def
      leased_row_def [abs_def])

lemma claim_none:
  assumes "next_to_claim ts db = None" "utc_datetime_ok ts" "utc_datetime_ok lease"
  shows "claimNextNotification ts lease db = (Inr None, db)"
  using assms by (simp add: claimNextNotification_def claim_notification_sql_def zod_parse_def)

lemma next_to_claim_one: "filter (claimable_row ts db) (d1_outbox db) = [r] \<Longrightarrow> next_to_claim ts db = Some r"
  by (simp add: next_to_claim_def)

lemma next_to_claim_member:
  assumes "next_to_claim ts db = Some r"
  shows "r \<in> set (d1_outbox db) \<and> claimable_row ts db r"
proof -
  obtain rs where "order_by due_before (filter (claimable_row ts db) (d1_outbox db)) = r # rs"
    using assms by (auto simp: next_to_claim_def split: list.splits)
  then have "r \<in> set (filter (claimable_row ts db) (d1_outbox db))"
    using set_order_by [of due_before "filter (claimable_row ts db) (d1_outbox db)"]
    by (metis list.set_intros(1))
  then show ?thesis by simp
qed

lemma claimable_outbox [simp]: "claimable_row ts (db\<lparr>d1_outbox := t\<rparr>) = claimable_row ts db"
  by (rule ext) (simp add: claimable_row_def)

section \<open>Which notifications can be delivered\<close>

text \<open>A job whose notification can be delivered: what the schema of a claimed notification asks of it.\<close>

definition deliverable :: "d1 \<Rightarrow> job_row \<Rightarrow> bool" where
  "deliverable db j \<longleftrightarrow>
     ulid_ok (jb_id j) \<and> 0 < jb_version j \<and> 1 \<le> length (jb_title j) \<and> length (jb_title j) \<le> 200 \<and>
     nullable (\<lambda>d. 0 \<le> d \<and> d \<le> 28800) (jb_duration_seconds j) \<and>
     (jb_status j = COMPLETED \<longrightarrow>
        jb_duration_seconds j \<noteq> None \<and> Option.bind (active_attempt db j) am_runpod_execution_ms \<noteq> None)"

lemma active_attempt_outbox [simp]: "active_attempt (db\<lparr>d1_outbox := t\<rparr>) j = active_attempt db j"
  by (simp add: active_attempt_def find_attempt_def split: option.split)

lemma deliverable_outbox [simp]: "deliverable (db\<lparr>d1_outbox := t\<rparr>) j = deliverable db j"
  by (simp add: deliverable_def)

text \<open>The schema of a claimed notification accepts the row of a deliverable job that ended.\<close>

lemma deliverable_accepted:
  assumes "deliverable db j" "jb_status j \<in> {COMPLETED, FAILED}" "ulid_ok (ob_id r)" "0 < ob_attempt_count r"
    and "ob_job_id r = jb_id j" "ob_job_version r = Some (jb_version j)"
  shows "notificationDeliveryRowSchema (r, Some j, active_attempt db j)"
  using assms by (auto simp: notificationDeliveryRowSchema_def deliverable_def not_null_def)

section \<open>A rejected notification\<close>

text \<open>The sweeps of a list one after the other, with what each returns.\<close>

primrec run_sweeps ::
  "notification_environment \<Rightarrow> notification_sweep list \<Rightarrow> d1 \<Rightarrow> notification_dispatch result list \<times> d1" where
  "run_sweeps env [] db = ([], db)"
| "run_sweeps env (s # ss) db =
     (case dispatchNextNotification env s db of
        (r, db') \<Rightarrow> (case run_sweeps env ss db' of (rs, db'') \<Rightarrow> (r # rs, db'')))"

text \<open>A clock and a random source that the sweep accepts.\<close>

definition sweep_ok :: "notification_sweep \<Rightarrow> bool" where
  "sweep_ok s \<longleftrightarrow>
     ulid_time_ok (ns_claimedAt s) \<and> iso_time_range (ns_claimedAt s) \<and>
     iso_time_range (ns_claimedAt s + NOTIFICATION_LEASE_MS) \<and> iso_time_range (ns_settledAt s) \<and>
     (\<forall>n. length (ns_randomBytes s n) = n)"

lemma sweep_notification_id:
  assumes "sweep_ok s"
  obtains i where "createUlid (Some (ns_claimedAt s)) (ns_randomBytes s) = Inr i" "ulid_ok i"
  using createUlid_eq [of "ns_claimedAt s" "ns_randomBytes s"] ulid_ok_base32 assms
  by (simp add: sweep_ok_def)

definition dead_notification_of :: "job_row \<Rightarrow> outbox_row \<Rightarrow> bool" where
  "dead_notification_of j r \<longleftrightarrow>
     ob_job_id r = jb_id j \<and> ob_job_version r = Some (jb_version j) \<and> ob_status r = ''DEAD'' \<and> ulid_ok (ob_id r)"

lemma dead_is_enqueued_again:
  assumes "d1_outbox db = [r]" "dead_notification_of j r" "next_to_enqueue db = Some j"
    and "ulid_ok i" "utc_datetime_ok ts" "0 < jb_version j"
  shows "enqueueNextTerminal i ts db =
    (Inr True, db\<lparr>d1_outbox := [(pending_notification i (jb_id j) (Some (jb_version j)) ts)\<lparr>ob_id := ob_id r\<rparr>]\<rparr>)"
  using assms
  by (simp add: enqueueNextTerminal_def enqueue_next_terminal_sql_def dead_notification_of_def Let_def
      update_where_def zod_parse_def ulid_ok_def)

text \<open>The selection of the job only asks whether its row is waiting.\<close>

lemma dead_selects:
  assumes "d1_outbox db = [r]" "dead_notification_of j r" "dead_notification_of j r'"
  shows "next_to_enqueue (db\<lparr>d1_outbox := [r']\<rparr>) = next_to_enqueue db"
proof -
  have "enqueueable (db\<lparr>d1_outbox := [r']\<rparr>) = enqueueable db"
    using assms by (intro ext) (simp add: enqueueable_def dead_notification_of_def)
  then show ?thesis by (simp add: next_to_enqueue_def)
qed

text \<open>A sweep once its notification is enqueued.\<close>

lemma dispatch_enqueued:
  assumes "createUlid (Some (ns_claimedAt s)) (ns_randomBytes s) = Inr i"
    and "enqueueNextTerminal i (to_iso (ns_claimedAt s)) db = (Inr b, db1)"
    and "nv_fault env = Inr (\<lambda>_ _. False)" "nv_config env = Some (hook, base)"
  shows "dispatchNextNotification env s db =
    (case claimNextNotification (to_iso (ns_claimedAt s)) (to_iso (ns_claimedAt s + NOTIFICATION_LEASE_MS)) db1 of
       (Inl e, db2) \<Rightarrow> (Inl e, db2)
     | (Inr None, db2) \<Rightarrow> (Inr Notify_none, db2)
     | (Inr (Some d), db2) \<Rightarrow>
         (case discord_send (nv_text_length env (notification_content base d)) (ns_response s) of
            Inl e \<Rightarrow> (Inl e, db2)
          | Inr x \<Rightarrow> settle_notification s d x db2))"
  using assms
  by (simp add: dispatchNextNotification_def api_bind_def [of "enqueueNextTerminal i (to_iso (ns_claimedAt s))"])
    (simp add: api_bind_def split: sum.split option.split prod.split)

text \<open>One sweep over a dead notification, when Discord rejects the message again.\<close>

lemma dead_sweep:
  assumes outbox: "d1_outbox db = [r]" "dead_notification_of j r" "next_to_enqueue db = Some j"
    and job: "distinct (map jb_id (d1_jobs db))" "deliverable db j"
    and sweep: "sweep_ok s" "nv_fault env = Inr (\<lambda>_ _. False)" "nv_config env = Some (hook, base)"
      "\<And>m. discord_send (nv_text_length env m) (ns_response s) = Inr Discord_rejected"
  obtains r' where "dispatchNextNotification env s db = (Inr Notify_dead, db\<lparr>d1_outbox := [r']\<rparr>)"
    "dead_notification_of j r'" "ob_id r' = ob_id r" "ob_attempt_count r' = 1"
proof -
  let ?at = "to_iso (ns_claimedAt s)" and ?lease = "to_iso (ns_claimedAt s + NOTIFICATION_LEASE_MS)"
  obtain i where i: "createUlid (Some (ns_claimedAt s)) (ns_randomBytes s) = Inr i" "ulid_ok i"
    by (rule sweep_notification_id [OF sweep(1)])
  define new where "new = (pending_notification i (jb_id j) (Some (jb_version j)) ?at)\<lparr>ob_id := ob_id r\<rparr>"
  define db1 where "db1 = db\<lparr>d1_outbox := [new]\<rparr>"
  have db1: "d1_outbox db1 = [new]" "db1\<lparr>d1_outbox := t\<rparr> = db\<lparr>d1_outbox := t\<rparr>" for t by (simp_all add: db1_def)
  have times: "utc_datetime_ok ?at" "utc_datetime_ok ?lease"
    using sweep(1) by (simp_all add: sweep_ok_def utc_datetime_ok_to_iso)
  have new: "ob_id new = ob_id r" "ob_job_id new = jb_id j" "ob_job_version new = Some (jb_version j)"
    "ob_status new = ''PENDING''" "ob_next_attempt_at new = Some ?at" "ob_attempt_count new = 0"
    by (simp_all add: new_def pending_notification_def)
  have j: "j \<in> set (d1_jobs db)" "awaits_notification db j"
    using next_to_enqueue_member [OF outbox(3)] by (simp_all add: enqueueable_def)
  have version: "0 < jb_version j" using job(2) by (simp add: deliverable_def)
  have enqueued: "enqueueNextTerminal i ?at db = (Inr True, db1)"
    unfolding db1_def new_def by (rule dead_is_enqueued_again [OF outbox i(2) times(1) version])
  have "claimable_row ?at db1 new"
    using j new by (auto simp: claimable_row_def db1_def sql_leq_def)
  then have next_claim: "next_to_claim ?at db1 = Some new" by (intro next_to_claim_one) (simp add: db1_def)
  have found: "find_job (\<lambda>k. jb_id k = ob_job_id new) db1 = Some j"
    using find_job_id [OF job(1) j(1)] by (simp add: new db1_def find_job_def)
  define d where "d = map_delivery (leased_row ?lease new, Some j, active_attempt db1 j)"
  have d: "nd_id d = ob_id r" "nd_attemptCount d = 1"
    by (simp_all add: d_def map_delivery_def new)
  have "notificationDeliveryRowSchema (leased_row ?lease new, Some j, active_attempt db1 j)"
    using job(2) j(2) outbox(2)
    by (intro deliverable_accepted) (simp_all add: new db1_def dead_notification_of_def awaits_notification_def)
  then have claimed: "claimNextNotification ?at ?lease db1 = (Inr (Some d), db\<lparr>d1_outbox := [leased_row ?lease new]\<rparr>)"
    using db1 by (simp add: claim_next [OF next_claim found times] d_def update_where_def)
  define r' where "r' = (leased_row ?lease new)\<lparr>ob_status := ''DEAD'', ob_next_attempt_at := None,
    ob_last_error := Some ''DISCORD_REJECTED''\<rparr>"
  have "settle_notification s d Discord_rejected (db\<lparr>d1_outbox := [leased_row ?lease new]\<rparr>) =
      (Inr Notify_dead, db\<lparr>d1_outbox := [r']\<rparr>)"
    using outbox(2)
    by (simp add: settle_notification_def api_bind_def releaseNotification_def zod_parse_def discord_error_code_def
        release_notification_sql_def update_outbox_def leased_def d new update_where_def NOTIFICATION_ERROR_CODES_def
        dead_notification_of_def r'_def)
  then have "dispatchNextNotification env s db = (Inr Notify_dead, db\<lparr>d1_outbox := [r']\<rparr>)"
    using sweep(4) by (simp add: dispatch_enqueued [OF i(1) enqueued sweep(2,3)] claimed)
  then show thesis
    by (rule that) (use outbox(2) in \<open>simp_all add: r'_def new dead_notification_of_def\<close>)
qed

text \<open>Claim C22. A notification that Discord rejected is not given up. Suppose it is the only row of the outbox,
  its job is the oldest one that ended, completed or failed, and was not notified, and what the job holds can be
  delivered (a completed job has a duration and an execution time). Then in any number of sweeps, as long as
  Discord rejects the message in each of them, the notifier is configured and no staging fault is set, every
  sweep puts the same row back with its attempts counted from the start, sends the message again,
  and adds no row for any other job, however many of them ended and wait: the outbox keeps this one row,
  with one attempt, so the limit of attempts is never reached. (Jobs have distinct identifiers, and the clock and the
  random source of each sweep give what \<open>createUlid\<close> and \<open>toISOString\<close> accept.)\<close>

theorem dead_notification_starves:
  assumes "d1_outbox db = [r]" "dead_notification_of j r" "next_to_enqueue db = Some j"
    and "distinct (map jb_id (d1_jobs db))" "deliverable db j"
    and "nv_fault env = Inr (\<lambda>_ _. False)" "nv_config env = Some (hook, base)"
    and "\<forall>s \<in> set ss. sweep_ok s \<and> (\<forall>m. discord_send (nv_text_length env m) (ns_response s) = Inr Discord_rejected)"
  shows "\<exists>r'. run_sweeps env ss db = (replicate (length ss) (Inr Notify_dead), db\<lparr>d1_outbox := [r']\<rparr>) \<and>
    dead_notification_of j r' \<and> ob_id r' = ob_id r \<and> (ss \<noteq> [] \<longrightarrow> ob_attempt_count r' = 1)"
  using assms
proof (induction ss arbitrary: db r)
  case Nil
  have "db\<lparr>d1_outbox := [r]\<rparr> = db" using Nil.prems(1) by simp
  then show ?case using Nil.prems(2) by (intro exI [of _ r]) simp
next
  case (Cons s ss)
  obtain r1 where r1: "dispatchNextNotification env s db = (Inr Notify_dead, db\<lparr>d1_outbox := [r1]\<rparr>)"
    "dead_notification_of j r1" "ob_id r1 = ob_id r" "ob_attempt_count r1 = 1"
    by (rule dead_sweep [OF Cons.prems(1-5) _ Cons.prems(6,7)]) (use Cons.prems(8) in auto)
  have "next_to_enqueue (db\<lparr>d1_outbox := [r1]\<rparr>) = Some j"
    using dead_selects [OF Cons.prems(1,2) r1(2)] Cons.prems(3) by simp
  then obtain r' where r': "run_sweeps env ss (db\<lparr>d1_outbox := [r1]\<rparr>) =
      (replicate (length ss) (Inr Notify_dead), db\<lparr>d1_outbox := [r']\<rparr>)"
    "dead_notification_of j r'" "ob_id r' = ob_id r1" "ss \<noteq> [] \<longrightarrow> ob_attempt_count r' = 1"
    using Cons.IH [of "db\<lparr>d1_outbox := [r1]\<rparr>" r1] Cons.prems(4-8) r1(2) by auto
  then have "run_sweeps env (s # ss) db = (replicate (length (s # ss)) (Inr Notify_dead), db\<lparr>d1_outbox := [r']\<rparr>)"
    using r1(1) by simp
  moreover have "ob_attempt_count r' = 1"
  proof (cases ss)
    case Nil
    then have "d1_outbox (db\<lparr>d1_outbox := [r1]\<rparr>) = d1_outbox (db\<lparr>d1_outbox := [r']\<rparr>)" using r'(1) by simp
    then show ?thesis using r1(4) by simp
  qed (use r'(4) in simp)
  ultimately show ?case using r' r1(3) by auto
qed

section \<open>A completed job without an execution time\<close>

text \<open>Claim C23. The schema of a claimed notification asks a completed job for an execution time, but the status of
  a RunPod job may come without one. When the notification of such a job is the next to be claimed, with
  the notifier configured and no staging fault, the sweep of the notifications leases the row and then throws
  without sending anything; the row's attempts, however many they were, are counted one up, and from the end of the lease
  on, at every later time, the row can be claimed again. (Jobs have distinct identifiers, and the clock and the random
  source give what \<open>createUlid\<close> and \<open>toISOString\<close> accept.)\<close>

theorem unmeasured_completion_stops_sweep:
  assumes "sweep_ok s" and "createUlid (Some (ns_claimedAt s)) (ns_randomBytes s) = Inr i"
    and "enqueueNextTerminal i (to_iso (ns_claimedAt s)) db = (Inr b, db1)"
    and "nv_fault env = Inr (\<lambda>_ _. False)" "nv_config env = Some (hook, base)"
    and "next_to_claim (to_iso (ns_claimedAt s)) db1 = Some r"
    and "distinct (map jb_id (d1_jobs db1))" "j \<in> set (d1_jobs db1)" "jb_id j = ob_job_id r" "jb_status j = COMPLETED"
    and "Option.bind (active_attempt db1 j) am_runpod_execution_ms = None"
  shows "\<exists>db' r'. dispatchNextNotification env s db = (Inl ZodError, db') \<and> r' \<in> set (d1_outbox db') \<and>
    ob_id r' = ob_id r \<and> ob_attempt_count r' = ob_attempt_count r + 1 \<and>
    (\<forall>t. iso_time_range t \<and> ns_claimedAt s + NOTIFICATION_LEASE_MS \<le> t \<longrightarrow> claimable_row (to_iso t) db' r')"
proof -
  let ?at = "to_iso (ns_claimedAt s)" and ?lease = "to_iso (ns_claimedAt s + NOTIFICATION_LEASE_MS)"
  have times: "utc_datetime_ok ?at" "utc_datetime_ok ?lease" "iso_time_range (ns_claimedAt s + NOTIFICATION_LEASE_MS)"
    using assms(1) by (simp_all add: sweep_ok_def utc_datetime_ok_to_iso)
  define db' where "db' = db1\<lparr>d1_outbox := update_where (\<lambda>x. ob_id x = ob_id r) (leased_row ?lease) (d1_outbox db1)\<rparr>"
  have r: "r \<in> set (d1_outbox db1)" "claimable_row ?at db1 r"
    using next_to_claim_member [OF assms(6)] by simp_all
  have found: "find_job (\<lambda>k. jb_id k = ob_job_id r) db1 = Some j"
    using find_job_id [OF assms(7,8)] assms(9) by simp
  have "\<not> notificationDeliveryRowSchema (leased_row ?lease r, Some j, active_attempt db1 j)"
    using assms(10,11) by (simp add: notificationDeliveryRowSchema_def)
  then have "dispatchNextNotification env s db = (Inl ZodError, db')"
    unfolding dispatch_enqueued [OF assms(2,3,4,5)] claim_next [OF assms(6) found times(1,2)] db'_def by simp
  moreover have "leased_row ?lease r \<in> set (d1_outbox db')"
    using r(1) by (force simp: db'_def update_where_def)
  moreover have "claimable_row (to_iso t) db' (leased_row ?lease r)"
    if "iso_time_range t" "ns_claimedAt s + NOTIFICATION_LEASE_MS \<le> t" for t
    using text_leq_to_iso [OF times(3) that] r(2) by (auto simp: claimable_row_def db'_def sql_leq_def)
  ultimately show ?thesis by (intro exI [of _ db'] exI [of _ "leased_row ?lease r"]) simp
qed

section \<open>A delivered notification\<close>

text \<open>\<open>markSent\<close> of a lease that is still held.\<close>

lemma mark_sent_held:
  assumes "distinct (map jb_id (d1_jobs db))" "j \<in> set (d1_jobs db)" "job_checks j" "jb_notified_at j = None"
    and "filter (leased (nd_id d) (nd_attemptCount d)) (d1_outbox db) = [r]" "ob_id r = nd_id d"
    and "nd_jobId d = jb_id j" "nd_jobVersion d = jb_version j" "nd_terminalStatus d = jb_status j"
    and "ulid_ok (nd_id d)" "0 < nd_attemptCount d" "ulid_ok (jb_id j)" "0 < jb_version j"
      "jb_status j \<in> {COMPLETED, FAILED}" "utc_datetime_ok ts"
  obtains db' j' where "markSent d ts db = (Inr True, db')"
    "d1_jobs db' = update_where (\<lambda>x. jb_id x = jb_id j) (\<lambda>_. j') (d1_jobs db)"
    "jb_id j' = jb_id j" "jb_notified_at j' = Some ts" "jb_status j' = jb_status j" "jb_version j' = jb_version j"
    "d1_outbox db' = update_where (leased (nd_id d) (nd_attemptCount d))
       (\<lambda>r. r\<lparr>ob_status := ''SENT'', ob_next_attempt_at := None, ob_last_error := None, ob_sent_at := Some ts\<rparr>) (d1_outbox db)"
proof -
  define f :: "job_row \<Rightarrow> job_row" where "f = (\<lambda>j. j\<lparr>jb_notified_at := Some ts,
    jb_updated_at := (if text_less ts (jb_updated_at j) then jb_updated_at j else ts)\<rparr>)"
  define db1 where "db1 = db\<lparr>d1_outbox := update_where (leased (nd_id d) (nd_attemptCount d))
    (\<lambda>r. r\<lparr>ob_status := ''SENT'', ob_next_attempt_at := None, ob_last_error := None, ob_sent_at := Some ts\<rparr>) (d1_outbox db)\<rparr>"
  have checks: "job_checks (f j)" using assms(3) by (simp add: f_def job_checks_def)
  have "update_jobs (\<lambda>x. jb_id x = jb_id j \<and> jb_status x = jb_status j \<and> jb_version x = jb_version j \<and> jb_notified_at x = None)
      f db1 = Inr ([f j], db1\<lparr>d1_jobs := update_where (\<lambda>x. jb_id x = jb_id j) (\<lambda>_. f j) (d1_jobs db1)\<rparr>)"
    by (rule update_jobs_one [where k = "jb_id j"]) (use assms(1,2,4) checks in \<open>simp_all add: db1_def f_def\<close>)
  then have "mark_job_notified_sql (jb_id j) ts (jb_status j) (jb_version j) db1 =
      Inr ([f j], db1\<lparr>d1_jobs := update_where (\<lambda>x. jb_id x = jb_id j) (\<lambda>_. f j) (d1_jobs db1)\<rparr>)"
    by (simp add: mark_job_notified_sql_def f_def)
  moreover have "mark_notification_sent_sql (nd_id d) (nd_attemptCount d) ts db =
      Inr ([r\<lparr>ob_status := ''SENT'', ob_next_attempt_at := None, ob_last_error := None, ob_sent_at := Some ts\<rparr>], db1)"
    by (simp add: mark_notification_sent_sql_def update_outbox_def db1_def assms(5))
  moreover have "jb_id (f j) = jb_id j" by (simp add: f_def)
  ultimately have "markSent d ts db =
      (Inr True, db1\<lparr>d1_jobs := update_where (\<lambda>x. jb_id x = jb_id j) (\<lambda>_. f j) (d1_jobs db1)\<rparr>)"
    using assms by (simp add: markSent_def zod_parse_def batch2_def)
  then show thesis by (rule that [of _ "f j"]) (simp_all add: f_def db1_def)
qed

lemma update_where_snoc:
  "\<forall>r \<in> set rs. \<not> p r \<Longrightarrow> p x \<Longrightarrow> update_where p f (rs @ [x]) = rs @ [f x]"
  by (auto simp: update_where_def intro: map_idI)

lemma filter_snoc: "\<forall>r \<in> set rs. \<not> p r \<Longrightarrow> p x \<Longrightarrow> filter p (rs @ [x]) = [x]"
  by simp

text \<open>A job without a row in the outbox gets one, which is claimed when no other is due.\<close>

lemma new_notification_claimed:
  assumes "next_to_enqueue db = Some j" "jb_id j \<notin> ob_job_id ` set (d1_outbox db)"
    and "\<forall>r \<in> set (d1_outbox db). \<not> claimable_row ts db r"
    and "distinct (map jb_id (d1_jobs db))" "deliverable db j"
    and "ulid_ok i" "i \<notin> ob_id ` set (d1_outbox db)" "utc_datetime_ok ts" "utc_datetime_ok lease"
  obtains db1 d row where "enqueueNextTerminal i ts db = (Inr True, db1)"
    "claimNextNotification ts lease db1 = (Inr (Some d), db\<lparr>d1_outbox := d1_outbox db @ [row]\<rparr>)"
    "ob_id row = i" "ob_job_id row = jb_id j" "ob_status row = ''SENDING''" "ob_attempt_count row = 1"
    "nd_id d = i" "nd_attemptCount d = 1" "nd_jobId d = jb_id j" "nd_jobVersion d = jb_version j"
    "nd_terminalStatus d = jb_status j"
proof -
  define new where "new = pending_notification i (jb_id j) (Some (jb_version j)) ts"
  define db1 where "db1 = db\<lparr>d1_outbox := d1_outbox db @ [new]\<rparr>"
  define d where "d = map_delivery (leased_row lease new, Some j, active_attempt db1 j)"
  have new: "ob_id new = i" "ob_job_id new = jb_id j" "ob_job_version new = Some (jb_version j)"
    "ob_status new = ''PENDING''" "ob_next_attempt_at new = Some ts" "ob_attempt_count new = 0"
    by (simp_all add: new_def pending_notification_def)
  have j: "j \<in> set (d1_jobs db)" "awaits_notification db j"
    using next_to_enqueue_member [OF assms(1)] by (simp_all add: enqueueable_def)
  have enqueued: "enqueueNextTerminal i ts db = (Inr True, db1)"
    using assms(1,2,5-8)
    by (simp add: enqueueNextTerminal_def enqueue_next_terminal_sql_def Let_def zod_parse_def ulid_ok_def
        deliverable_def db1_def new_def pending_notification_def)
  have "claimable_row ts db new" using j new by (auto simp: claimable_row_def sql_leq_def)
  then have next_claim: "next_to_claim ts db1 = Some new"
    using filter_snoc [OF assms(3)] by (intro next_to_claim_one) (simp add: db1_def)
  have found: "find_job (\<lambda>k. jb_id k = ob_job_id new) db1 = Some j"
    using find_job_id [OF assms(4) j(1)] by (simp add: new db1_def find_job_def)
  have others: "\<forall>r \<in> set (d1_outbox db). ob_id r \<noteq> i" using assms(7) by auto
  have accepted: "notificationDeliveryRowSchema (leased_row lease new, Some j, active_attempt db1 j)"
    using assms(5,6) j(2) by (intro deliverable_accepted) (simp_all add: new db1_def awaits_notification_def)
  have "db1\<lparr>d1_outbox := update_where (\<lambda>x. ob_id x = ob_id new) (leased_row lease) (d1_outbox db1)\<rparr> =
      db\<lparr>d1_outbox := d1_outbox db @ [leased_row lease new]\<rparr>"
    using update_where_snoc [OF others, of new "leased_row lease"] by (simp add: db1_def new)
  then have "claimNextNotification ts lease db1 = (Inr (Some d), db\<lparr>d1_outbox := d1_outbox db @ [leased_row lease new]\<rparr>)"
    using accepted by (simp add: claim_next [OF next_claim found assms(8,9)] d_def)
  then show thesis
    by (rule that [OF enqueued]) (simp_all add: new d_def map_delivery_def)
qed

text \<open>Claim C24. A job that ended is notified, under these conditions: it is the oldest that waits, has no row in the
  outbox yet, its row is one that the schema of the database and the schema of a claimed notification accept (a completed
  job has a duration and an execution time), no older notification is due, the notifier is configured and
  no staging fault is set, the identifier drawn for the row is not in use, and Discord takes the message. Then one sweep
  puts the row into the outbox, sends the message, marks the row as sent and the job as notified, and the
  job does not wait any more. (Jobs have distinct identifiers, and the clock and the random source give what
  \<open>createUlid\<close> and \<open>toISOString\<close> accept.)\<close>

theorem ended_job_is_notified:
  assumes "next_to_enqueue db = Some j" "jb_id j \<notin> ob_job_id ` set (d1_outbox db)"
    and "\<forall>r \<in> set (d1_outbox db). \<not> claimable_row (to_iso (ns_claimedAt s)) db r"
    and "distinct (map jb_id (d1_jobs db))" "job_checks j" "deliverable db j"
    and "sweep_ok s" "nv_fault env = Inr (\<lambda>_ _. False)" "nv_config env = Some (hook, base)"
    and "createUlid (Some (ns_claimedAt s)) (ns_randomBytes s) = Inr i" "i \<notin> ob_id ` set (d1_outbox db)"
    and "\<forall>m. discord_send (nv_text_length env m) (ns_response s) = Inr Discord_sent"
  shows "\<exists>db' j' r. dispatchNextNotification env s db = (Inr Notify_sent, db') \<and>
    j' \<in> set (d1_jobs db') \<and> jb_id j' = jb_id j \<and> jb_notified_at j' = Some (to_iso (ns_settledAt s)) \<and>
    r \<in> set (d1_outbox db') \<and> ob_job_id r = jb_id j \<and> ob_status r = ''SENT'' \<and>
    (\<forall>k \<in> set (d1_jobs db'). jb_id k = jb_id j \<longrightarrow> \<not> awaits_notification db' k)"
proof -
  let ?at = "to_iso (ns_claimedAt s)" and ?lease = "to_iso (ns_claimedAt s + NOTIFICATION_LEASE_MS)"
  have times: "utc_datetime_ok ?at" "utc_datetime_ok ?lease" "utc_datetime_ok (to_iso (ns_settledAt s))"
    using assms(7) by (simp_all add: sweep_ok_def utc_datetime_ok_to_iso)
  have i: "ulid_ok i" by (rule sweep_notification_id [OF assms(7)]) (use assms(10) in simp)
  have j: "j \<in> set (d1_jobs db)" "jb_status j \<in> {COMPLETED, FAILED}" "jb_notified_at j = None"
    using next_to_enqueue_member [OF assms(1)] by (simp_all add: enqueueable_def awaits_notification_def)
  obtain db1 d row where enqueued: "enqueueNextTerminal i ?at db = (Inr True, db1)"
    and claimed: "claimNextNotification ?at ?lease db1 = (Inr (Some d), db\<lparr>d1_outbox := d1_outbox db @ [row]\<rparr>)"
    and row: "ob_id row = i" "ob_job_id row = jb_id j" "ob_status row = ''SENDING''" "ob_attempt_count row = 1"
    and d: "nd_id d = i" "nd_attemptCount d = 1" "nd_jobId d = jb_id j" "nd_jobVersion d = jb_version j"
      "nd_terminalStatus d = jb_status j"
    by (rule new_notification_claimed [OF assms(1-4,6) i assms(11) times(1,2)])
  let ?db2 = "db\<lparr>d1_outbox := d1_outbox db @ [row]\<rparr>"
  have held: "\<forall>r \<in> set (d1_outbox db). \<not> leased (nd_id d) (nd_attemptCount d) r"
    "leased (nd_id d) (nd_attemptCount d) row"
    using assms(11) by (auto simp: leased_def d row)
  obtain db' j' where sent: "markSent d (to_iso (ns_settledAt s)) ?db2 = (Inr True, db')"
    "d1_jobs db' = update_where (\<lambda>x. jb_id x = jb_id j) (\<lambda>_. j') (d1_jobs ?db2)"
    "jb_id j' = jb_id j" "jb_notified_at j' = Some (to_iso (ns_settledAt s))"
    "d1_outbox db' = update_where (leased (nd_id d) (nd_attemptCount d))
       (\<lambda>r. r\<lparr>ob_status := ''SENT'', ob_next_attempt_at := None, ob_last_error := None,
          ob_sent_at := Some (to_iso (ns_settledAt s))\<rparr>) (d1_outbox ?db2)"
    by (rule mark_sent_held [of ?db2 j d row "to_iso (ns_settledAt s)"])
      (use assms(4-6) j i times(3) filter_snoc [OF held] d row in \<open>simp_all add: deliverable_def\<close>)
  have "dispatchNextNotification env s db = (Inr Notify_sent, db')"
    unfolding dispatch_enqueued [OF assms(10) enqueued assms(8,9)] claimed
    using assms(12) by (simp add: settle_notification_def api_bind_def sent(1))
  moreover have "\<exists>r \<in> set (d1_outbox db'). ob_job_id r = jb_id j \<and> ob_status r = ''SENT''"
    unfolding sent(5) using update_where_snoc [OF held] by (simp add: row)
  moreover have "j' \<in> set (d1_jobs db')" "\<forall>k \<in> set (d1_jobs db'). jb_id k = jb_id j \<longrightarrow> k = j'"
    using sent(2) j(1) by (auto simp: update_where_def)
  moreover have "\<not> awaits_notification db' j'" by (simp add: awaits_notification_def sent(4))
  ultimately show ?thesis using sent(3,4) by blast
qed

section \<open>Examples\<close>

definition ex_failed_row :: job_row where
  "ex_failed_row = ex_submitting_row\<lparr>jb_status := FAILED, jb_active_attempt_id := None, jb_failed_at := Some ex_at\<rparr>"

text \<open>Another job, which failed later.\<close>

definition ex_later_row :: job_row where
  "ex_later_row = ex_failed_row\<lparr>jb_id := ex_attempt_id, jb_failed_at := Some ex_expiry\<rparr>"

definition ex_dead_row :: outbox_row where
  "ex_dead_row = (pending_notification ex_attempt_id ex_job_id (Some (jb_version ex_failed_row)) ex_at)\<lparr>ob_status := ''DEAD''\<rparr>"

definition ex_failed_jobs :: d1 where
  "ex_failed_jobs = empty_d1\<lparr>d1_jobs := [ex_failed_row, ex_later_row]\<rparr>"

definition ex_dead :: d1 where
  "ex_dead = ex_failed_jobs\<lparr>d1_outbox := [ex_dead_row]\<rparr>"

definition ex_notifier :: notification_environment where
  "ex_notifier = \<lparr>nv_config = Some (''https://d'', ''https://w''), nv_fault = Inr (\<lambda>_ _. False),
     nv_text_length = (\<lambda>_. 1)\<rparr>"

definition ex_sweep :: "nat \<Rightarrow> notification_sweep" where
  "ex_sweep status = \<lparr>ns_claimedAt = ex_time, ns_settledAt = ex_time, ns_randomBytes = (\<lambda>n. replicate n 0),
     ns_sample = Some 0, ns_response = Some status\<rparr>"

lemma ex_failed_row_fields [simp]:
  "jb_id ex_failed_row = ex_job_id" "jb_status ex_failed_row = FAILED" "jb_active_attempt_id ex_failed_row = None"
  "jb_failed_at ex_failed_row = Some ex_at" "jb_deleted_at ex_failed_row = None" "jb_notified_at ex_failed_row = None"
  "jb_duration_seconds ex_failed_row = None" "0 < jb_version ex_failed_row"
  "1 \<le> length (jb_title ex_failed_row)" "Suc 0 \<le> length (jb_title ex_failed_row)" "length (jb_title ex_failed_row) \<le> 200"
  "jb_id ex_later_row = ex_attempt_id" "jb_status ex_later_row = FAILED" "jb_active_attempt_id ex_later_row = None"
  "jb_failed_at ex_later_row = Some ex_expiry" "jb_deleted_at ex_later_row = None" "jb_notified_at ex_later_row = None"
proof -
  have "jb_title ex_submitting_row = jb_title (new_job_row ex_new_job) \<and> jb_notified_at ex_submitting_row = None \<and>
    jb_duration_seconds ex_submitting_row = None"
    by (simp add: ex_submitting_row_def submitting_row_def ex_ingested_row_def new_job_row_def)
  then show "1 \<le> length (jb_title ex_failed_row)" "Suc 0 \<le> length (jb_title ex_failed_row)" "length (jb_title ex_failed_row) \<le> 200"
    "jb_notified_at ex_failed_row = None" "jb_duration_seconds ex_failed_row = None" "jb_notified_at ex_later_row = None"
    using ex_submitting_checks by (simp_all add: ex_failed_row_def ex_later_row_def job_checks_def)
  show "0 < jb_version ex_failed_row" using ex_submitting_checks by (simp add: ex_failed_row_def job_checks_def)
qed (simp_all add: ex_failed_row_def ex_later_row_def)

lemma ex_failed_row_checks: "job_checks ex_failed_row"
  using ex_submitting_checks by (simp add: job_checks_def ex_failed_row_def)

lemma ex_job_not_attempt [simp]: "ex_job_id \<noteq> ex_attempt_id"
  by (simp add: ex_job_id_def ex_attempt_id_def)

lemma ex_failed_jobs_tables [simp]:
  "d1_jobs ex_failed_jobs = [ex_failed_row, ex_later_row]" "d1_outbox ex_failed_jobs = []"
  "d1_jobs ex_dead = [ex_failed_row, ex_later_row]" "d1_outbox ex_dead = [ex_dead_row]"
  by (simp_all add: ex_dead_def ex_failed_jobs_def empty_d1_def)

lemma ex_dead_is_dead: "dead_notification_of ex_failed_row ex_dead_row"
  by (simp add: dead_notification_of_def ex_dead_row_def pending_notification_def)

lemma ex_enqueueable:
  "enqueueable ex_failed_jobs ex_failed_row" "enqueueable ex_failed_jobs ex_later_row"
  "enqueueable ex_dead ex_failed_row" "enqueueable ex_dead ex_later_row"
  by (simp_all add: enqueueable_def awaits_notification_def notification_compatible_def terminal_at_def
      ex_dead_row_def pending_notification_def)

lemma ex_next:
  "next_to_enqueue ex_failed_jobs = Some ex_failed_row" "next_to_enqueue ex_dead = Some ex_failed_row"
proof -
  have "ex_expiry \<noteq> ex_at" using ex_expiry_ok(2) text_less_irrefl by metis
  then have "ended_before ex_failed_row ex_later_row" "\<not> ended_before ex_later_row ex_failed_row"
    using text_less_trans [of ex_at ex_expiry ex_at]
    by (auto simp: ended_before_def terminal_at_def)
  then show "next_to_enqueue ex_failed_jobs = Some ex_failed_row" "next_to_enqueue ex_dead = Some ex_failed_row"
    using ex_enqueueable by (simp_all add: next_to_enqueue_def order_by_def)
qed

lemma ex_sweep_ok: "sweep_ok (ex_sweep status)"
proof -
  have "iso_time_range (ex_time + NOTIFICATION_LEASE_MS)"
    by (rule iso_time_rangeI) (simp_all add: ex_time_def NOTIFICATION_LEASE_MS_def)
  then show ?thesis by (simp add: sweep_ok_def ex_sweep_def)
qed

lemma ex_notifier_fields [simp]:
  "nv_fault ex_notifier = Inr (\<lambda>_ _. False)" "nv_config ex_notifier = Some (''https://d'', ''https://w'')"
  "nv_text_length ex_notifier m = 1" "ns_claimedAt (ex_sweep status) = ex_time" "ns_settledAt (ex_sweep status) = ex_time"
  "ns_response (ex_sweep status) = Some status"
  by (simp_all add: ex_notifier_def ex_sweep_def)

lemma ex_discord: "discord_send 1 (Some 400) = Inr Discord_rejected" "discord_send 1 (Some 204) = Inr Discord_sent"
  by (simp_all add: discord_send_def discord_outcome_def)

theorem dead_notification_starves_witness:
  "\<exists>r'. run_sweeps ex_notifier [ex_sweep 400, ex_sweep 400, ex_sweep 400] ex_dead =
       (replicate 3 (Inr Notify_dead), ex_dead\<lparr>d1_outbox := [r']\<rparr>) \<and>
     dead_notification_of ex_failed_row r' \<and> ob_attempt_count r' = 1 \<and> enqueueable ex_dead ex_later_row"
proof -
  have "distinct (map jb_id (d1_jobs ex_dead))" by simp
  moreover have "\<forall>s \<in> set [ex_sweep 400, ex_sweep 400, ex_sweep 400].
      sweep_ok s \<and> (\<forall>m. discord_send (nv_text_length ex_notifier m) (ns_response s) = Inr Discord_rejected)"
    using ex_sweep_ok ex_discord by simp
  moreover have "deliverable ex_dead ex_failed_row" by (simp add: deliverable_def)
  ultimately obtain r' where "run_sweeps ex_notifier [ex_sweep 400, ex_sweep 400, ex_sweep 400] ex_dead =
      (replicate (length [ex_sweep 400, ex_sweep 400, ex_sweep 400]) (Inr Notify_dead), ex_dead\<lparr>d1_outbox := [r']\<rparr>)"
    "dead_notification_of ex_failed_row r'" "ob_attempt_count r' = 1"
    using dead_notification_starves [of ex_dead ex_dead_row ex_failed_row ex_notifier "''https://d''" "''https://w''"
        "[ex_sweep 400, ex_sweep 400, ex_sweep 400]"] ex_dead_is_dead ex_next(2) by auto
  then show ?thesis using ex_enqueueable(4) by (auto simp: numeral_3_eq_3)
qed

theorem ended_job_is_notified_witness:
  "\<exists>db' j'. dispatchNextNotification ex_notifier (ex_sweep 204) ex_failed_jobs = (Inr Notify_sent, db') \<and>
     j' \<in> set (d1_jobs db') \<and> jb_id j' = ex_job_id \<and> jb_notified_at j' = Some ex_at"
proof -
  obtain i where i: "createUlid (Some (ns_claimedAt (ex_sweep 204))) (ns_randomBytes (ex_sweep 204)) = Inr i" "ulid_ok i"
    by (rule sweep_notification_id [OF ex_sweep_ok])
  have "deliverable ex_failed_jobs ex_failed_row" by (simp add: deliverable_def)
  moreover have "distinct (map jb_id (d1_jobs ex_failed_jobs))" by simp
  ultimately show ?thesis
    using ended_job_is_notified [OF ex_next(1), of "ex_sweep 204" ex_notifier "''https://d''" "''https://w''" i]
      i(1) ex_failed_row_checks ex_sweep_ok ex_discord by auto
qed

definition ex_completed_row :: job_row where
  "ex_completed_row = ex_failed_row\<lparr>jb_status := COMPLETED, jb_active_attempt_id := Some ex_attempt_id,
     jb_completed_at := Some ex_at, jb_duration_seconds := Some 60\<rparr>"

definition ex_completed_attempt :: attempt_row where
  "ex_completed_attempt = ex_done_attempt\<lparr>am_status := ATT_COMPLETED\<rparr>"

definition ex_unmeasured :: d1 where
  "ex_unmeasured = empty_d1\<lparr>d1_jobs := [ex_completed_row], d1_attempts := [ex_completed_attempt],
     d1_executions := [ex_execution ex_completed_attempt],
     d1_outbox := [pending_notification ex_retry_id ex_job_id (Some (jb_version ex_completed_row)) ex_at]\<rparr>"

lemma ex_unmeasured_tables [simp]:
  "d1_jobs ex_unmeasured = [ex_completed_row]" "d1_attempts ex_unmeasured = [ex_completed_attempt]"
  "d1_executions ex_unmeasured = [ex_execution ex_completed_attempt]"
  "d1_outbox ex_unmeasured = [pending_notification ex_retry_id ex_job_id (Some (jb_version ex_completed_row)) ex_at]"
  by (simp_all add: ex_unmeasured_def)

lemma ex_completed_fields [simp]:
  "jb_id ex_completed_row = ex_job_id" "jb_status ex_completed_row = COMPLETED"
  "jb_active_attempt_id ex_completed_row = Some ex_attempt_id" "jb_notified_at ex_completed_row = None"
  "jb_deleted_at ex_completed_row = None" "am_id ex_completed_attempt = ex_attempt_id"
  "am_runpod_execution_ms ex_completed_attempt = None"
  by (simp_all add: ex_completed_row_def ex_completed_attempt_def)
    (simp add: ex_done_attempt_def claimed_attempt_def ex_attempt_def prepared_row_def ingested_attempt_def)

lemma ex_unmeasured_awaits: "awaits_notification ex_unmeasured ex_completed_row"
  by (simp add: awaits_notification_def notification_compatible_def runpod_execution_ended_def execution_matches_def
      ex_execution_def) (simp add: ex_completed_attempt_def)

theorem unmeasured_completion_stops_sweep_witness:
  "\<exists>db' r'. dispatchNextNotification ex_notifier (ex_sweep 204) ex_unmeasured = (Inl ZodError, db') \<and>
     r' \<in> set (d1_outbox db') \<and> ob_attempt_count r' = 1 \<and>
     claimable_row (to_iso (ex_time + NOTIFICATION_LEASE_MS)) db' r'"
proof -
  define r where "r = pending_notification ex_retry_id ex_job_id (Some (jb_version ex_completed_row)) ex_at"
  have r: "ob_job_id r = ex_job_id" "ob_status r = ''PENDING''" "ob_job_version r = Some (jb_version ex_completed_row)"
    "ob_next_attempt_at r = Some ex_at" "ob_attempt_count r = 0"
    by (simp_all add: r_def pending_notification_def)
  have tables: "d1_outbox ex_unmeasured = [r]" by (simp add: r_def)
  obtain i where i: "createUlid (Some (ns_claimedAt (ex_sweep 204))) (ns_randomBytes (ex_sweep 204)) = Inr i" "ulid_ok i"
    by (rule sweep_notification_id [OF ex_sweep_ok])
  have at: "utc_datetime_ok ex_at" using ex_sweep_ok [of 204] utc_datetime_ok_to_iso [of ex_time] by (simp add: sweep_ok_def)
  have "next_to_enqueue ex_unmeasured = None"
    by (simp add: next_to_enqueue_def order_by_def enqueueable_def tables r del: ex_unmeasured_tables(4))
  then have enqueued: "enqueueNextTerminal i (to_iso (ns_claimedAt (ex_sweep 204))) ex_unmeasured = (Inr False, ex_unmeasured)"
    using i(2) at by (simp add: enqueueNextTerminal_def enqueue_next_terminal_sql_def zod_parse_def
        updatedJobIdRowsSchema_def rows_max_one_def)
  have "claimable_row ex_at ex_unmeasured r"
    using ex_unmeasured_awaits by (simp add: claimable_row_def r sql_leq_def)
  then have next_claim: "next_to_claim (to_iso (ns_claimedAt (ex_sweep 204))) ex_unmeasured = Some r"
    by (intro next_to_claim_one) (simp add: tables del: ex_unmeasured_tables(4))
  have active: "active_attempt ex_unmeasured ex_completed_row = Some ex_completed_attempt"
    by (simp add: active_attempt_def find_attempt_def)
  have range: "iso_time_range (ex_time + NOTIFICATION_LEASE_MS)"
    using ex_sweep_ok [of 204] by (simp add: sweep_ok_def)
  show ?thesis
    using unmeasured_completion_stops_sweep [OF ex_sweep_ok i(1) enqueued, of "ex_notifier" "''https://d''" "''https://w''" r ex_completed_row]
      next_claim r(1,5) active range by auto
qed

end
