(* ===== verification/SourceKeys.thy ===== *)
theory SourceKeys
  imports UploadIngestion CapabilityToken
begin

text \<open>
  apps/web/src/server/jobs/job-source-key.ts: the key under which the web server lets a client upload the
  recording of a job, and the hash of its owner. The orchestrator reads the job and the owner back from the key
  of the object that R2 reports (\<open>parseSourceObjectKey\<close> in UploadIngestion). HMAC-SHA-256 of the UTF-8 texts of secret
  and message is a parameter, as is the random source; \<open>encodeBase64Url\<close> of the web server's
  security/base64url.ts is the function of the same text in Authentication.
  Lemmas: the key of a job is read back as this job and its owner.
\<close>

section \<open>The key of a source object\<close>

definition OWNER_HASH_BYTES :: nat where "OWNER_HASH_BYTES = 16"

definition SOURCE_NONCE_BYTES :: nat where "SOURCE_NONCE_BYTES = 16"

definition OWNER_HASH_CONTEXT :: string where
  "OWNER_HASH_CONTEXT = ''scribe-drop:owner-hash:v1'' @ [char_of (0 :: nat)]"

definition sourceExtensions :: "(string \<times> string) list" where
  "sourceExtensions =
     [(''audio/flac'', ''flac''), (''audio/mp4'', ''m4a''), (''audio/mpeg'', ''mp3''), (''audio/ogg'', ''ogg''),
      (''audio/opus'', ''opus''), (''audio/wav'', ''wav''), (''audio/webm'', ''webm''), (''audio/x-wav'', ''wav''),
      (''video/mp4'', ''mp4''), (''video/quicktime'', ''mov''), (''video/webm'', ''webm'')]"

text \<open>\<open>hmac\<close> takes the secret and the message.\<close>

definition createOwnerHash :: "(string \<Rightarrow> string \<Rightarrow> 8 word list) \<Rightarrow> string \<Rightarrow> string \<Rightarrow> string" where
  "createOwnerHash hmac ownerSub hmacSecret =
     encodeHex (take OWNER_HASH_BYTES (hmac hmacSecret (OWNER_HASH_CONTEXT @ ownerSub)))"

text \<open>A property that an object lacks is printed as \<open>undefined\<close>.\<close>

definition createSourceKey ::
  "(string \<Rightarrow> string \<Rightarrow> 8 word list) \<Rightarrow> string \<Rightarrow> string \<Rightarrow> string \<Rightarrow> string \<Rightarrow> (nat \<Rightarrow> 8 word list)
     \<Rightarrow> string result" where
  "createSourceKey hmac ownerSub ownerHashHmacSecret jobId contentType randomBytes =
     (let nonceBytes = randomBytes SOURCE_NONCE_BYTES in
      if length nonceBytes \<noteq> SOURCE_NONCE_BYTES
      then Inl (JsError ''Source nonce generator returned an invalid byte count'')
      else Inr (''incoming/'' @ createOwnerHash hmac ownerSub ownerHashHmacSecret @ ''/'' @ jobId @ ''/''
        @ encodeBase64Url nonceBytes @ ''/source.''
        @ (case map_of sourceExtensions contentType of Some e \<Rightarrow> e | None \<Rightarrow> ''undefined'')))"

section \<open>Its parts\<close>

lemma slash_free:
  "CHR ''/'' \<notin> set hex_chars" "CHR ''/'' \<notin> set CROCKFORD_BASE32" "CHR ''/'' \<notin> set base64url_chars"
  by code_simp+

lemma all_in_free: "all_in cls s \<Longrightarrow> c \<notin> set cls \<Longrightarrow> c \<notin> set s"
  by (auto simp: all_in_def list_all_iff)

lemma createOwnerHash_ok: "\<forall>k m. length (hmac k m) = 32 \<Longrightarrow> owner_hash_ok (createOwnerHash hmac ownerSub secret)"
  by (simp add: owner_hash_ok_def createOwnerHash_def encodeHex_chars length_encodeHex OWNER_HASH_BYTES_def)

lemma nonce_text: "length x = 16 \<Longrightarrow> length (encodeBase64Url x) = 22 \<and> all_in base64url_chars (encodeBase64Url x)"
  by (auto simp: encodeBase64Url_digits length_base64_digits all_in_def list_all_iff url_digit_chars)

text \<open>Every media type that is accepted has an extension that the orchestrator reads.\<close>

lemma media_type_file:
  assumes "contentType \<in> set ALLOWED_MEDIA_TYPES"
  obtains e where "map_of sourceExtensions contentType = Some e" "''source.'' @ e \<in> set source_file_names"
    "CHR ''/'' \<notin> set e" "length e \<le> 4"
proof -
  have "\<forall>t \<in> set ALLOWED_MEDIA_TYPES. case map_of sourceExtensions t of None \<Rightarrow> False
      | Some e \<Rightarrow> ''source.'' @ e \<in> set source_file_names \<and> CHR ''/'' \<notin> set e \<and> length e \<le> 4"
    by code_simp
  then have "case map_of sourceExtensions contentType of None \<Rightarrow> False
      | Some e \<Rightarrow> ''source.'' @ e \<in> set source_file_names \<and> CHR ''/'' \<notin> set e \<and> length e \<le> 4"
    using assms by blast
  then show thesis using that by (cases "map_of sourceExtensions contentType") simp_all
qed

lemma split_key:
  assumes "CHR ''/'' \<notin> set h" "CHR ''/'' \<notin> set j" "CHR ''/'' \<notin> set n" "CHR ''/'' \<notin> set f"
  shows "split_on (CHR ''/'') (''incoming/'' @ h @ ''/'' @ j @ ''/'' @ n @ ''/'' @ f) = [''incoming'', h, j, n, f]"
proof -
  have "split_on (CHR ''/'') (''incoming'' @ CHR ''/'' # h @ CHR ''/'' # j @ CHR ''/'' # n @ CHR ''/'' # f) =
      [''incoming'', h, j, n, f]"
    using assms by (simp add: split_on_append_sep split_on_no_sep)
  then show ?thesis by simp
qed

lemma source_key_parts:
  assumes "createSourceKey hmac ownerSub secret jobId contentType randomBytes = Inr key"
    and "ulid_ok jobId" "contentType \<in> set ALLOWED_MEDIA_TYPES" "\<forall>k m. length (hmac k m) = 32"
  obtains e where "''source.'' @ e \<in> set source_file_names" "length (randomBytes 16) = 16"
    "key = ''incoming/'' @ createOwnerHash hmac ownerSub secret @ ''/'' @ jobId @ ''/''
       @ encodeBase64Url (randomBytes 16) @ ''/'' @ ''source.'' @ e"
    "split_on (CHR ''/'') key =
       [''incoming'', createOwnerHash hmac ownerSub secret, jobId, encodeBase64Url (randomBytes 16), ''source.'' @ e]"
    "length e \<le> 4"
proof -
  obtain e where e: "map_of sourceExtensions contentType = Some e" "''source.'' @ e \<in> set source_file_names"
    "CHR ''/'' \<notin> set e" "length e \<le> 4"
    by (rule media_type_file [OF assms(3)])
  have nonce: "length (randomBytes 16) = 16"
    using assms(1) by (simp add: createSourceKey_def Let_def SOURCE_NONCE_BYTES_def split: if_splits)
  have key: "key = ''incoming/'' @ createOwnerHash hmac ownerSub secret @ ''/'' @ jobId @ ''/''
       @ encodeBase64Url (randomBytes 16) @ ''/'' @ ''source.'' @ e"
    using assms(1) e(1) nonce by (simp add: createSourceKey_def SOURCE_NONCE_BYTES_def)
  have free: "CHR ''/'' \<notin> set (createOwnerHash hmac ownerSub secret)" "CHR ''/'' \<notin> set jobId"
    "CHR ''/'' \<notin> set (encodeBase64Url (randomBytes 16))" "CHR ''/'' \<notin> set (''source.'' @ e)"
    using createOwnerHash_ok [OF assms(4)] nonce_text [OF nonce] assms(2) e(3) slash_free
    by (auto simp: owner_hash_ok_def ulid_ok_def dest: all_in_free)
  show thesis using that [OF e(2) nonce key _ e(4)] split_key [OF free] key by simp
qed

section \<open>Reading it back\<close>

text \<open>Claim C39. The source key that the web server creates for a job is read back by the orchestrator as this job
  and the hash of its owner, for every media type that is accepted: \<open>parseSourceObjectKey\<close> undoes \<open>createSourceKey\<close>.
  The key also has the form that the schemas of R2 events and of the upload targets ask for. And two keys
  are equal only if they were made for the same job, from the same nonce and for owners with the same hash.
  It is assumed that an HMAC has 32 bytes and that the job's identifier is a ULID.\<close>

theorem source_key_round_trip:
  assumes "createSourceKey hmac ownerSub secret jobId contentType randomBytes = Inr key"
    and "ulid_ok jobId" "contentType \<in> set ALLOWED_MEDIA_TYPES" "\<forall>k m. length (hmac k m) = 32"
  shows "parseSourceObjectKey key = Some (createOwnerHash hmac ownerSub secret, jobId) \<and>
    1 \<le> length key \<and> length key \<le> 1024 \<and> starts_with ''incoming/'' key \<and>
    (\<forall>ownerSub' secret' jobId' contentType' randomBytes'.
       ulid_ok jobId' \<and> contentType' \<in> set ALLOWED_MEDIA_TYPES \<and>
       createSourceKey hmac ownerSub' secret' jobId' contentType' randomBytes' = Inr key \<longrightarrow>
       jobId' = jobId \<and> randomBytes' 16 = randomBytes 16 \<and>
       createOwnerHash hmac ownerSub' secret' = createOwnerHash hmac ownerSub secret)"
proof -
  obtain e where e: "''source.'' @ e \<in> set source_file_names" "length (randomBytes 16) = 16"
    "key = ''incoming/'' @ createOwnerHash hmac ownerSub secret @ ''/'' @ jobId @ ''/''
       @ encodeBase64Url (randomBytes 16) @ ''/'' @ ''source.'' @ e"
    "split_on (CHR ''/'') key =
       [''incoming'', createOwnerHash hmac ownerSub secret, jobId, encodeBase64Url (randomBytes 16), ''source.'' @ e]"
    "length e \<le> 4"
    by (rule source_key_parts [OF assms])
  have owner: "owner_hash_ok (createOwnerHash hmac ownerSub secret)" by (rule createOwnerHash_ok [OF assms(4)])
  have parsed: "parseSourceObjectKey key = Some (createOwnerHash hmac ownerSub secret, jobId)"
    using e(1) owner nonce_text [OF e(2)] assms(2) by (simp add: parseSourceObjectKey_def e(4))
  have bounds: "1 \<le> length key" "length key \<le> 1024" "starts_with ''incoming/'' key"
    using owner nonce_text [OF e(2)] assms(2) e(5) by (simp_all add: e(3) owner_hash_ok_def ulid_ok_def)
  have "jobId' = jobId \<and> randomBytes' 16 = randomBytes 16 \<and>
      createOwnerHash hmac ownerSub' secret' = createOwnerHash hmac ownerSub secret"
    if other: "ulid_ok jobId'" "contentType' \<in> set ALLOWED_MEDIA_TYPES"
      "createSourceKey hmac ownerSub' secret' jobId' contentType' randomBytes' = Inr key"
    for ownerSub' secret' jobId' contentType' randomBytes'
    by (rule source_key_parts [OF other(3,1,2) assms(4)]) (use e(4) in \<open>simp add: encodeBase64Url_inject\<close>)
  then show ?thesis using parsed bounds by blast
qed

theorem source_key_round_trip_witness:
  "\<exists>key. createSourceKey (\<lambda>_ _. replicate 32 7) ''u'' ''s'' (replicate 26 (CHR ''0'')) ''audio/mp4'' (\<lambda>n. replicate n 0)
      = Inr key \<and>
    parseSourceObjectKey key = Some (createOwnerHash (\<lambda>_ _. replicate 32 7) ''u'' ''s'', replicate 26 (CHR ''0''))"
proof -
  obtain key where key: "createSourceKey (\<lambda>_ _. replicate 32 7) ''u'' ''s'' (replicate 26 (CHR ''0'')) ''audio/mp4''
      (\<lambda>n. replicate n 0) = Inr key"
    by (simp add: createSourceKey_def)
  have "ulid_ok (replicate 26 (CHR ''0''))" by code_simp
  moreover have "''audio/mp4'' \<in> set ALLOWED_MEDIA_TYPES" by (simp add: ALLOWED_MEDIA_TYPES_def)
  moreover have "\<forall>(k :: string) (m :: string). length (replicate 32 (7 :: 8 word)) = 32" by simp
  ultimately show ?thesis using source_key_round_trip [OF key] key by blast
qed

end
