(* ===== verification/Spec2Isabelle.thy ===== *)
theory Spec2Isabelle
  imports DomainProperties ControllerProperties JobProperties RunpodProperties CompletionProperties
    ServiceProperties ClientProperties PassProperties ReconciliationProperties RunpodHttpProperties
    NotificationProperties SourceKeys
begin

text \<open>
  ScribeDrop turns recordings into transcripts. A user creates a job through the web API
  (src/apps/web, Cloudflare Pages Functions), uploads the recording to an object store and completes
  the upload; the orchestrator (src/apps/orchestrator, a Worker) receives an event for the uploaded
  object, adds an attempt to the job and has it executed on a GPU; on Cloud Run the GPU
  controller (src/apps/gpu-controller, a service) creates, runs, observes, cancels and cleans up one
  Cloud Run job per execution. Web API and orchestrator share one D1 database (src/migrations);
  orchestrator and controller share the wire contracts of src/packages/contracts; all of them share
  the status tables of src/packages/domain. This development models the controller completely, of
  the web API and the orchestrator the code that decides what happens to a job, and the domain
  package.

  \<^bold>\<open>Shared packages.\<close> IsoTime is JavaScript's \<open>Date.parse\<close> and \<open>toISOString\<close> on the texts the
  program accepts; Ulid is ulid.ts; DomainStates is state.ts, gpu-execution.ts, errors.ts and
  retention.ts; Contracts is common.ts, cloud-run-controller.ts and the identifiers of
  cloud-run-runtime.ts; JsonSchema gives zod's combinators as predicates on JSON values.
  DomainProperties states what they promise: encodings are inverted, texts sort like the times they
  denote, life cycles are bounded, and the signed frame
  determines what was signed.

  \<^bold>\<open>The GPU controller.\<close> Provider (provider.ts) is the fixed manifest and its canonical form.
  CloudRunClient (cloud-run-client.ts) is the client of the Cloud Run Admin API: each method as a
  function from the HTTP answer. ControlStore (control-store.ts) holds the control record, the
  store's inputs and results, and the in-memory store; FirestoreStore (firestore-control-store.ts)
  is the durable store, one transaction per operation on a database of documents.
  ControllerProgram and ControllerService (controller-service.ts) give every asynchronous method as
  a tree of the calls it awaits; ControllerConcurrency runs any number of these trees against one
  store, interleaved at every call and with arbitrary answers of clock and provider. The interface
  \<open>ControlStore\<close> is the locale \<open>control_store\<close>, with both stores as interpretations, so that what holds of every
  interleaving (at most one create call and one run call for an execution, records that only
  progress) is proved once. Authentication (authentication.ts, the request parsing of contracts.ts)
  and HttpHandler (http-handler.ts, runtime.ts) are the way from an HTTP request to the service.
  ControllerExample holds the inputs of the witnesses, ControllerProperties the properties.

  \<^bold>\<open>Jobs.\<close> D1Schema is the database: the tables as lists of rows, INSERT and UPDATE with the
  constraints and triggers of the migrations, and batches, which are transactions. JobContracts
  is job.ts and the row schemas; JobRepository and JobMutations are job-repository.ts, one definition
  per SQL statement and per exported operation, an operation that reads and later commits also in
  its two parts (\<open>..._read\<close>, \<open>..._commit\<close>). UploadIngestion (upload-ingestion-repository.ts,
  source-object-key.ts, r2-event.ts, job-control-event.ts) and QueueConsumer
  (upload-queue-consumer.ts) are the orchestrator's ingestion. RunpodControl
  (runpod-control-repository.ts) is how it submits an attempt to RunPod, lets one worker claim it,
  takes its heartbeats and ends submissions that came to nothing. Completion
  (completion-repository.ts) is how it polls what occupies the GPU, records the end RunPod reports and
  completes, fails or cancels the job; Maintenance (maintenance-repository.ts) expires uploads.

  Over them stands an abstract specification. JobMoves says which changes of a job and its
  attempts are legal, without statements, versions read or timestamps, and proves that legal moves
  keep the invariant \<open>d1_inv\<close>: identifiers are unique, the attempt a job names exists, belongs to the
  job and agrees with it in status, at most one attempt occupies a GPU, and a deleted job or a
  rejected attempt starts nothing any more. JobEvolution is the preorder in which rows develop: identity and
  ownership are permanent, versions grow with every change, deletion and terminal success are final,
  a processing stage is never left backwards, and a claim, once consumed, stays so. JobOperations is the contract of an operation, a locale
  with the earlier database the operation read and the current one it commits to; each operation of
  the code is shown to satisfy it in JobSteps, RunpodSteps and CompletionSteps and is an interpretation of it in
  JobSystem, which composes them to histories: sequences of requests of users, of the queue and of
  the RunPod executions, each of which may have read its input from any earlier database of the history.
  JobCancellation and JobListing hold the case analysis of cancelling and the fuel-bounded walk
  over pages, RunpodEffects and CompletionEffects what an operation on RunPod executions does when
  it succeeds, and when it does; CompletedJobs proves that nothing but \<open>finalizeCompleted\<close> completes a
  job, so that a completed job carries its evidence; JobTable that every statement moves a job along the transition
  table of the domain package, or makes one of six moves the table does not list. SourceKeys (job-source-key.ts) is how
  the web server names the object of an upload, and shows that the orchestrator reads the job and its owner back from
  this name. JobExample, RunpodExample and CompletionExample are the
  databases of the witnesses, JobProperties, RunpodProperties and CompletionProperties the properties.

  \<^bold>\<open>The orchestrator's services.\<close> RunpodClient (runpod-client.ts, the messages of runpod.ts) and
  PlacementVerifier (runpod-placement-verifier.ts) are the clients of RunPod, each method as a function
  from the HTTP answer; CapabilityToken (capability-token.ts) makes and compares the tokens. OrchestratorTask
  gives a service as a tree of what it awaits: the clock, random bytes, a read or a write of the
  database, a call of RunPod, of the signer or of R2. \<open>task_run\<close> runs such a tree while any other
  requests happen between two of its steps and with arbitrary answers, on the histories of JobSystem, and records
  its calls; \<open>run_alone\<close> runs it in a fixed world in which nothing else happens, and each such run
  is one of the former. TaskLogic is a Hoare logic for what a run may call: \<open>guarded\<close> says that a task, after
  the calls made so far, makes only calls that a guard allows. RunpodServices
  (runpod-submission-service.ts, runpod-claim-service.ts, r2-capability-issuer.ts) submits a job, grants the
  claim of a worker and records its heartbeats, and RunpodHttp (runpod-http-handler.ts) is the HTTP handler in
  front of them; CompletionService (completion-service.ts) polls what runs
  on RunPod and settles what has ended, with the manifest and the artifacts in R2 as evidence;
  ReconciliationService (reconciliation-service.ts) is the scheduled pass that ends what came to nothing, calls
  CompletionService and dispatches the next job. ServiceEffects, ServiceRuns and ServiceGrants,
  CompletionRuns and CompletionAlone, and ReconciliationRuns hold what the services may call and what they
  do when nothing interferes; ServiceExample and PassExample the worlds of the witnesses; ServiceProperties,
  ClientProperties, RunpodHttpProperties, PassProperties and ReconciliationProperties the properties.

  Notification (notification-outbox-repository.ts, discord-client.ts, notification-service.ts) is the sweep that
  tells Discord of ended jobs, as a function of the database, its clock and Discord's answer;
  NotificationProperties shows when a job is notified, and two ways in which the sweep gets stuck.

  In these services the calls of a \<open>Promise.all\<close> are made one after the other, all of them before the first error is thrown, and
  log records are left out, with the tests that only decide on a log record. Cloud Run, deletion,
  retention and notification are parameters of the scheduled pass; the wording of a notification is a structure.

  \<^bold>\<open>How the code is rendered.\<close> A class or row is a record with prefixed fields, a string union a
  datatype. Statuses whose name occurs in several unions have a prefix: \<open>ATT_\<close> for an attempt,
  \<open>GPU_\<close> and \<open>CLEANUP_\<close> for a GPU execution and its cleanup; in a control record RUNNING is
  \<open>EXECUTION_RUNNING\<close> (and its siblings likewise), CLEANUP_PENDING is \<open>CLEANING_PENDING\<close>. Texts are character lists; the schemas restrict identifiers, tags and times
  to ASCII where the code compares them bytewise. A thrown error is \<open>Inl\<close>, with the class of the
  error as its constructor. Timestamps are stored as their text, as in D1 and Firestore. JSON
  columns hold the parsed value. An API of the job repository takes a database and yields its result
  together with the database it leaves, since a batch stays committed when the code throws after it.

  \<^bold>\<open>Parameters.\<close> What is not in the repository is an argument: the parser of URLs, SHA-256,
  HMAC, \<open>localeCompare\<close>, \<open>JSON.parse\<close>, \<open>z.uuid()\<close>, the UTF-8 coding, the AWS signer, the random source of
  identifiers, the clock, the answers of the Cloud Run Admin API and of RunPod, the object store and, in the
  queue consumer, the cancellation and submission it is given as dependencies. A property that relies on one
  of them names what it relies on as a hypothesis and has a witness with a concrete function.

  \<^bold>\<open>Bounds and fuel.\<close> The loops of the source are structural recursions, except for the walk
  over the pages of a listing (\<open>collect_pages\<close>), which a client drives: \<open>listing_complete\<close> proves
  that as many pages as there are jobs, and one more, are always enough fuel. The schedules of
  ControllerConcurrency and the histories of JobSystem are finite lists or inductive
  relations of any length. Numbers of the source are unbounded integers where the schemas keep
  them below 2 to the 53, media durations are rational numbers, and numbers may be NaN where \<open>Date.parse\<close> or \<open>Number\<close> can yield it.

  \<^bold>\<open>Not modelled.\<close> Process, network and Google client glue around the controller, and its
  deployment evidence tools; the orchestrator's side of Cloud Run (its control repository, runtime
  store and runtime handlers), and its deletion and retention, which
  the scheduled pass takes as parameters, so that the histories of JobSystem are those between two removals of
  deleted jobs;
  the web API's handlers, which need the JSON bodies and sessions around the repository operations
  modelled here, and the web client, which is user interface; the base64 text of a listing cursor (its
  payload is modelled); logging, the content of log lines included; the RunPod worker, which is Python; the
  scripts that configure environments and check the continuous integration; indexes of the database that
  are not UNIQUE.
\<close>

end
